(* ===== verification/Prelude.thy ===== *)
theory Prelude
  imports Main "HOL-Library.AList" "HOL-Library.Sublist"
begin

text \<open>
  Shared layer of the development: the Python values every component uses.

  A Python \<^verbatim>\<open>str\<close> or \<^verbatim>\<open>bytes\<close> object is a HOL \<open>string\<close> (a list of 8-bit characters).  For
  \<^verbatim>\<open>bytes\<close> this is exact.  For \<^verbatim>\<open>str\<close> the host-side text functions (strip, splitlines, the
  word class of \<^verbatim>\<open>re\<close>) read a character as the code point of the same number (Latin-1, the
  encoding the installer decodes Amiga text with); the JSON layer reads the same list as the
  UTF-8 encoding of the text, which is what travels on the wire.

  The theory holds the string operations of the standard library that the source calls, decimal
  and hexadecimal numerals, big-endian words, and the lemmas on them that several components
  share, collected in \<open>py_str\<close> (string operations) and \<open>py_num\<close> (numerals).
\<close>

named_theorems py_str
named_theorems py_num

section \<open>Characters\<close>

abbreviation ord :: "char \<Rightarrow> nat" where
  "ord c \<equiv> of_char c"

abbreviation newline :: char where
  "newline \<equiv> CHR 0x0A"

text \<open>\<^verbatim>\<open>str.isspace\<close>, and what \<^verbatim>\<open>str.strip()\<close> removes.\<close>

definition py_isspace :: "char \<Rightarrow> bool" where
  "py_isspace c \<longleftrightarrow> (9 \<le> ord c \<and> ord c \<le> 13) \<or> (28 \<le> ord c \<and> ord c \<le> 32) \<or>
     ord c = 133 \<or> ord c = (160::nat)"

text \<open>The line boundaries of \<^verbatim>\<open>str.splitlines\<close>.\<close>

definition py_islinebreak :: "char \<Rightarrow> bool" where
  "py_islinebreak c \<longleftrightarrow> (10 \<le> ord c \<and> ord c \<le> 13) \<or> (28 \<le> ord c \<and> ord c \<le> 30) \<or>
     ord c = (133::nat)"

definition is_digit :: "char \<Rightarrow> bool" where
  "is_digit c \<longleftrightarrow> 48 \<le> ord c \<and> ord c \<le> (57::nat)"

text \<open>The class \<^verbatim>\<open>\w\<close> of \<^verbatim>\<open>re\<close>: alphanumeric or underscore.\<close>

definition is_word_char :: "char \<Rightarrow> bool" where
  "is_word_char c \<longleftrightarrow> is_digit c \<or> (65 \<le> ord c \<and> ord c \<le> 90) \<or> (97 \<le> ord c \<and> ord c \<le> 122) \<or>
     ord c \<in> {95, 170, 178, 179, 181, 185, 186, 188, 189, 190} \<or>
     (192 \<le> ord c \<and> ord c \<noteq> 215 \<and> ord c \<noteq> (247::nat))"

definition lower_char :: "char \<Rightarrow> char" where
  "lower_char c = (if (65 \<le> ord c \<and> ord c \<le> (90::nat)) \<or> (192 \<le> ord c \<and> ord c \<le> (222::nat) \<and> ord c \<noteq> (215::nat))
     then char_of (ord c + 32 :: nat) else c)"

text \<open>
  \<^verbatim>\<open>str.upper\<close> character by character.  The capitals of U+00B5 and U+00FF lie beyond code point
  255; they are left alone, and no test in the source looks at them.
\<close>

definition upper_char :: "char \<Rightarrow> string" where
  "upper_char c = (if (97 \<le> ord c \<and> ord c \<le> (122::nat)) \<or> (224 \<le> ord c \<and> ord c \<le> (254::nat) \<and> ord c \<noteq> (247::nat))
     then [char_of (ord c - 32 :: nat)] else if ord c = (223::nat) then ''SS'' else [c])"

section \<open>String operations\<close>

definition py_lower :: "string \<Rightarrow> string" where
  "py_lower s = map lower_char s"

definition py_upper :: "string \<Rightarrow> string" where
  "py_upper s = concat (map upper_char s)"

definition startswith :: "string \<Rightarrow> string \<Rightarrow> bool" where
  "startswith s p \<longleftrightarrow> take (length p) s = p"

definition endswith :: "string \<Rightarrow> string \<Rightarrow> bool" where
  "endswith s p \<longleftrightarrow> length p \<le> length s \<and> drop (length s - length p) s = p"

definition lstrip :: "string \<Rightarrow> string" where
  "lstrip s = dropWhile py_isspace s"

definition rstrip_pred :: "(char \<Rightarrow> bool) \<Rightarrow> string \<Rightarrow> string" where
  "rstrip_pred P s = rev (dropWhile P (rev s))"

definition strip :: "string \<Rightarrow> string" where
  "strip s = rstrip_pred py_isspace (lstrip s)"

text \<open>\<^verbatim>\<open>s.rstrip(c)\<close> for one character.\<close>

definition rstrip_char :: "char \<Rightarrow> string \<Rightarrow> string" where
  "rstrip_char c s = rstrip_pred (\<lambda>x. x = c) s"

text \<open>\<^verbatim>\<open>s.split(c)\<close> for a one-character separator: always at least one piece.\<close>

fun split_on :: "char \<Rightarrow> string \<Rightarrow> string list" where
  "split_on c [] = [[]]"
| "split_on c (x # xs) = (if x = c then [] # split_on c xs
     else case split_on c xs of [] \<Rightarrow> [[x]] | p # ps \<Rightarrow> (x # p) # ps)"

text \<open>\<^verbatim>\<open>s.split()\<close>: maximal runs of non-space characters.\<close>

fun split_ws_acc :: "string \<Rightarrow> string \<Rightarrow> string list" where
  "split_ws_acc acc [] = (if acc = [] then [] else [rev acc])"
| "split_ws_acc acc (x # xs) = (if py_isspace x
     then (if acc = [] then split_ws_acc [] xs else rev acc # split_ws_acc [] xs)
     else split_ws_acc (x # acc) xs)"

definition split_ws :: "string \<Rightarrow> string list" where
  "split_ws s = split_ws_acc [] s"

text \<open>\<^verbatim>\<open>sep.join(parts)\<close>.\<close>

fun join :: "string \<Rightarrow> string list \<Rightarrow> string" where
  "join sep [] = []"
| "join sep [p] = p"
| "join sep (p # q # ps) = p @ sep @ join sep (q # ps)"

text \<open>\<^verbatim>\<open>s.rpartition(c)\<close>: split at the last occurrence; no occurrence gives two empty strings first.\<close>

definition rpartition :: "char \<Rightarrow> string \<Rightarrow> string \<times> string \<times> string" where
  "rpartition c s = (let tl_rev = takeWhile (\<lambda>x. x \<noteq> c) (rev s) in
     if length tl_rev = length s then ([], [], s)
     else (take (length s - length tl_rev - 1) s, [c], rev tl_rev))"

text \<open>\<^verbatim>\<open>s.splitlines(keepends=True)\<close>; a carriage return and line feed pair is one boundary.\<close>

fun splitlines_acc :: "string \<Rightarrow> string \<Rightarrow> string list" where
  "splitlines_acc acc [] = (if acc = [] then [] else [rev acc])"
| "splitlines_acc acc [x] = [rev (x # acc)]"
| "splitlines_acc acc (x # y # xs) =
     (if x = CHR 0x0D \<and> y = newline then rev (y # x # acc) # splitlines_acc [] xs
      else if py_islinebreak x then rev (x # acc) # splitlines_acc [] (y # xs)
      else splitlines_acc (x # acc) (y # xs))"

definition splitlines_keep :: "string \<Rightarrow> string list" where
  "splitlines_keep s = splitlines_acc [] s"

text \<open>
  \<^verbatim>\<open>s.replace(old, new)\<close> and \<^verbatim>\<open>s.count(old)\<close>, left to right without overlap; an empty \<open>old\<close>
  matches before every character and at the end.
\<close>

function (sequential) replace_ne :: "string \<Rightarrow> string \<Rightarrow> string \<Rightarrow> string" where
  "replace_ne old new [] = []"
| "replace_ne old new (x # xs) =
     (if old \<noteq> [] \<and> startswith (x # xs) old
      then new @ replace_ne old new (drop (length old) (x # xs))
      else x # replace_ne old new xs)"
  by pat_completeness auto
termination by (relation "measure (\<lambda>(old, new, s). length s)") (auto simp: neq_Nil_conv)

definition py_replace :: "string \<Rightarrow> string \<Rightarrow> string \<Rightarrow> string" where
  "py_replace s old new = (if old = [] then new @ concat (map (\<lambda>c. c # new) s)
     else replace_ne old new s)"

function (sequential) count_ne :: "string \<Rightarrow> string \<Rightarrow> nat" where
  "count_ne old [] = 0"
| "count_ne old (x # xs) =
     (if old \<noteq> [] \<and> startswith (x # xs) old
      then Suc (count_ne old (drop (length old) (x # xs)))
      else count_ne old xs)"
  by pat_completeness auto
termination by (relation "measure (\<lambda>(old, s). length s)") (auto simp: neq_Nil_conv)

definition py_count :: "string \<Rightarrow> string \<Rightarrow> nat" where
  "py_count s old = (if old = [] then length s + 1 else count_ne old s)"

text \<open>\<^verbatim>\<open>p in s\<close> for strings.\<close>

fun contains :: "string \<Rightarrow> string \<Rightarrow> bool" where
  "contains p [] = (p = [])"
| "contains p (x # xs) = (startswith (x # xs) p \<or> contains p xs)"

subsection \<open>Facts about the string operations\<close>

lemma startswith_append [simp]: "startswith (p @ s) p"
  by (simp add: startswith_def)

lemma startswith_Nil [simp]: "startswith s []"
  by (simp add: startswith_def)

lemma startswith_iff: "startswith s p \<longleftrightarrow> (\<exists>t. s = p @ t)"
  by (metis append_eq_conv_conj append_take_drop_id startswith_def)

lemma startswith_Cons [py_str]: "startswith (x # xs) (y # ys) \<longleftrightarrow> x = y \<and> startswith xs ys"
  by (auto simp: startswith_def)

lemma startswith_Nil_iff [py_str]: "startswith [] p \<longleftrightarrow> p = []"
  by (auto simp: startswith_def)

lemma endswith_append [simp]: "endswith (s @ p) p"
  by (simp add: endswith_def)

lemma endswith_iff: "endswith s p \<longleftrightarrow> (\<exists>t. s = t @ p)"
  by (metis append_take_drop_id endswith_append endswith_def)

lemma contains_iff: "contains p s \<longleftrightarrow> (\<exists>a b. s = a @ p @ b)"
proof (induction s)
  case Nil
  then show ?case by simp
next
  case (Cons x xs)
  show ?case
  proof
    assume "contains p (x # xs)"
    then consider "startswith (x # xs) p" | "contains p xs" by auto
    then show "\<exists>a b. x # xs = a @ p @ b"
    proof cases
      case 1
      then show ?thesis by (metis append_Nil startswith_iff)
    next
      case 2
      then show ?thesis using Cons by (metis append_Cons)
    qed
  next
    assume "\<exists>a b. x # xs = a @ p @ b"
    then obtain a b where ab: "x # xs = a @ p @ b" by blast
    show "contains p (x # xs)"
    proof (cases a)
      case Nil
      with ab show ?thesis by (metis append_Nil contains.simps(2) startswith_append)
    next
      case (Cons y a')
      with ab have "xs = a' @ p @ b" by simp
      then show ?thesis using Cons.IH by auto
    qed
  qed
qed

lemma lower_char_ascii: "ord c < (65::nat) \<Longrightarrow> lower_char c = c"
  by (simp add: lower_char_def)

lemma split_on_nonempty [simp]: "split_on c s \<noteq> []"
  by (induction s) (auto split: list.splits)

lemma join_split_on: "join [c] (split_on c s) = s"
proof (induction s)
  case Nil
  then show ?case by simp
next
  case (Cons x xs)
  then show ?case
    by (cases "split_on c xs") (auto, (cases "tl (split_on c xs)"; simp)+)
qed

lemma split_on_parts: "\<forall>p \<in> set (split_on c s). c \<notin> set p"
proof (induction s)
  case (Cons x xs)
  then show ?case by (cases "split_on c xs") auto
qed simp

lemma concat_splitlines_acc: "concat (splitlines_acc acc s) = rev acc @ s"
  by (induction acc s rule: splitlines_acc.induct) auto

lemma concat_splitlines [simp]: "concat (splitlines_keep s) = s"
  by (simp add: splitlines_keep_def concat_splitlines_acc)

lemma split_on_join:
  "ps \<noteq> [] \<Longrightarrow> list_all (\<lambda>p. c \<notin> set p) ps \<Longrightarrow> split_on c (join [c] ps) = ps"
proof (induction ps rule: induct_list012)
  case (2 p)
  then show ?case by (induction p) auto
next
  case (3 p q ps)
  have "split_on c (r @ c # s) = r # split_on c s" if "c \<notin> set r" for r s
    using that by (induction r) auto
  with 3 show ?case by simp
qed simp

lemma splitlines_acc_ne: "\<forall>l \<in> set (splitlines_acc acc s). l \<noteq> []"
  by (induction acc s rule: splitlines_acc.induct) auto

lemma rstrip_char_idem [simp]: "rstrip_char c (rstrip_char c s) = rstrip_char c s"
  by (simp add: rstrip_char_def rstrip_pred_def dropWhile_idem)

section \<open>Numerals\<close>

definition digit_char :: "nat \<Rightarrow> char" where
  "digit_char d = (if d < 10 then char_of (48 + d) else char_of (87 + d))"

text \<open>Digits of a number in a base, most significant first (\<^verbatim>\<open>str(n)\<close>, \<^verbatim>\<open>f"{n:x}"\<close>).\<close>

function nat_base :: "nat \<Rightarrow> nat \<Rightarrow> string" where
  "nat_base b n = (if b < 2 \<or> n < b then [digit_char n]
     else nat_base b (n div b) @ [digit_char (n mod b)])"
  by pat_completeness auto
termination by (relation "measure snd") auto

declare nat_base.simps [simp del]

definition nat_dec :: "nat \<Rightarrow> string" where
  "nat_dec n = nat_base 10 n"

definition nat_hex :: "nat \<Rightarrow> string" where
  "nat_hex n = nat_base 16 n"

definition int_dec :: "int \<Rightarrow> string" where
  "int_dec i = (if i < 0 then CHR ''-'' # nat_dec (nat (- i)) else nat_dec (nat i))"

text \<open>\<^verbatim>\<open>f"{n:02x}"\<close>.\<close>

definition hex2 :: "nat \<Rightarrow> string" where
  "hex2 n = (if n < 16 then CHR ''0'' # nat_hex n else nat_hex n)"

definition digit_val :: "char \<Rightarrow> nat" where
  "digit_val c = (if ord c < (65::nat) then ord c - 48
     else if ord c < (97::nat) then ord c - 55 else ord c - 87)"

definition is_hex_digit :: "char \<Rightarrow> bool" where
  "is_hex_digit c \<longleftrightarrow> is_digit c \<or> (65 \<le> ord c \<and> ord c \<le> 70) \<or> (97 \<le> ord c \<and> ord c \<le> (102::nat))"

definition digits_val :: "nat \<Rightarrow> string \<Rightarrow> nat" where
  "digits_val b s = foldl (\<lambda>a c. a * b + digit_val c) 0 s"

lemma digit_val_char [py_num]: "d < 16 \<Longrightarrow> digit_val (digit_char d) = d"
  by (auto simp: digit_val_def digit_char_def)

lemma is_digit_digit_char [py_num]: "d < 10 \<Longrightarrow> is_digit (digit_char d)"
  by (auto simp: is_digit_def digit_char_def)

lemma is_hex_digit_char [py_num]: "d < 16 \<Longrightarrow> is_hex_digit (digit_char d)"
  by (auto simp: is_hex_digit_def is_digit_def digit_char_def)

lemma nat_base_nonempty [simp]: "nat_base b n \<noteq> []"
  by (subst nat_base.simps) simp

lemma nat_dec_nonempty [simp]: "nat_dec n \<noteq> []"
  by (simp add: nat_dec_def)

lemma nat_base_digits:
  assumes "2 \<le> b"
  shows "\<forall>c \<in> set (nat_base b n). \<exists>d < b. c = digit_char d"
  using assms
proof (induction b n rule: nat_base.induct)
  case (1 b n)
  show ?case
  proof (cases "b < 2 \<or> n < b")
    case True
    with "1.prems" have "n < b" by simp
    then show ?thesis by (subst nat_base.simps) auto
  next
    case False
    have "\<exists>d<b. digit_char (n mod b) = digit_char d"
      using "1.prems" by (intro exI [of _ "n mod b"]) simp
    with False "1.IH" "1.prems" show ?thesis by (subst nat_base.simps) auto
  qed
qed

lemma digits_val_snoc [py_num]: "digits_val b (s @ [c]) = digits_val b s * b + digit_val c"
  by (simp add: digits_val_def)

lemma digits_val_base [py_num]:
  assumes "2 \<le> b" "b \<le> 16"
  shows "digits_val b (nat_base b n) = n"
  using assms
proof (induction b n rule: nat_base.induct)
  case (1 b n)
  show ?case
  proof (cases "n < b")
    case True
    with "1.prems" show ?thesis
      by (subst nat_base.simps) (simp add: digits_val_def digit_val_char)
  next
    case False
    with "1.prems" have "digits_val b (nat_base b (n div b)) = n div b" using "1.IH" by simp
    moreover have "n mod b < 16" using "1.prems" by (meson less_le_trans mod_less_divisor not_numeral_le_zero not_less order.trans)
    ultimately show ?thesis using False "1.prems"
      by (subst nat_base.simps) (simp add: digits_val_snoc digit_val_char)
  qed
qed

lemma nat_dec_digits [py_num]: "\<forall>c \<in> set (nat_dec n). is_digit c"
  using nat_base_digits [of 10 n] by (auto simp: nat_dec_def is_digit_digit_char)

lemma nat_hex_digits [py_num]: "\<forall>c \<in> set (nat_hex n). is_hex_digit c"
  using nat_base_digits [of 16 n] by (auto simp: nat_hex_def is_hex_digit_char)

lemma digits_val_dec [py_num]: "digits_val 10 (nat_dec n) = n"
  by (simp add: nat_dec_def digits_val_base)

lemma digits_val_hex [py_num]: "digits_val 16 (nat_hex n) = n"
  by (simp add: nat_hex_def digits_val_base)

lemma nat_base_hd_nonzero:
  assumes "2 \<le> b" "b \<le> 16" "0 < n"
  shows "hd (nat_base b n) \<noteq> CHR ''0''"
  using assms
proof (induction b n rule: nat_base.induct)
  case (1 b n)
  show ?case
  proof (cases "n < b")
    case True
    then show ?thesis using "1.prems"
      by (subst nat_base.simps)
         (auto simp: digit_char_def char_of_eq_iff take_bit_nat_def dest: arg_cong [where f = of_char])
  next
    case False
    with "1.prems" have "0 < n div b" by (simp add: div_greater_zero_iff)
    with False 1 have "hd (nat_base b (n div b)) \<noteq> CHR ''0''" by simp
    with False "1.prems" show ?thesis by (subst nat_base.simps) simp
  qed
qed

lemma int_dec_inj: "int_dec i = int_dec j \<Longrightarrow> i = j"
proof -
  assume eq: "int_dec i = int_dec j"
  have inj: "nat_dec m = nat_dec n \<Longrightarrow> m = n" for m n by (metis digits_val_dec)
  have sign: "nat_dec m \<noteq> CHR ''-'' # s" for m s
    using nat_dec_digits [of m] by (auto simp: is_digit_def)
  show "i = j" using eq sign [symmetric] sign by (auto simp: int_dec_def split: if_splits dest: inj)
qed

text \<open>Evaluation of a numeral's digits by \<open>simp add: int_dec_eval\<close>.\<close>

lemma digit_char_values:
  "digit_char 0 = CHR ''0''" "digit_char (Suc 0) = CHR ''1''" "digit_char 2 = CHR ''2''"
  "digit_char 3 = CHR ''3''" "digit_char 4 = CHR ''4''" "digit_char 5 = CHR ''5''"
  "digit_char 6 = CHR ''6''" "digit_char 7 = CHR ''7''" "digit_char 8 = CHR ''8''"
  "digit_char 9 = CHR ''9''"
  by code_simp+

lemmas int_dec_eval = int_dec_def nat_dec_def nat_base.simps digit_char_values

text \<open>
  \<^verbatim>\<open>repr(s)\<close> of a string: single quotes unless the text has a single and no double quote;
  backslashes, the quote and unprintable characters are escaped.
\<close>

definition repr_char :: "char \<Rightarrow> char \<Rightarrow> string" where
  "repr_char q c = (if c = q \<or> c = CHR 0x5C then [CHR 0x5C, c]
     else if c = newline then [CHR 0x5C, CHR ''n'']
     else if c = CHR 0x0D then [CHR 0x5C, CHR ''r'']
     else if c = CHR 0x09 then [CHR 0x5C, CHR ''t'']
     else if ord c < (32::nat) \<or> (127 \<le> ord c \<and> ord c \<le> (160::nat)) \<or> ord c = (173::nat)
          then [CHR 0x5C, CHR ''x''] @ hex2 (ord c)
     else [c])"

definition py_repr :: "string \<Rightarrow> string" where
  "py_repr s = (let q = (if CHR 0x27 \<in> set s \<and> CHR 0x22 \<notin> set s then CHR 0x22 else CHR 0x27)
     in q # concat (map (repr_char q) s) @ [q])"

text \<open>
  \<^verbatim>\<open>b.decode("ascii", errors="replace")\<close>: a byte outside ASCII becomes U+FFFD, here its UTF-8 bytes.
  Text without such bytes is decoded to itself.
\<close>

definition is_ascii :: "string \<Rightarrow> bool" where
  "is_ascii s = list_all (\<lambda>c. ord c < (128::nat)) s"

definition ascii_replace :: "string \<Rightarrow> string" where
  "ascii_replace b = concat (map (\<lambda>c. if ord c < 128 then [c] else [CHR 0xEF, CHR 0xBF, CHR 0xBD]) b)"

lemma ascii_replace_id: "is_ascii s \<Longrightarrow> ascii_replace s = s"
  by (induction s) (auto simp: ascii_replace_def is_ascii_def)

lemma is_ascii_append [simp]: "is_ascii (s @ t) \<longleftrightarrow> is_ascii s \<and> is_ascii t"
  by (simp add: is_ascii_def)

lemma is_ascii_code [simp]: "is_ascii []" "is_ascii (c # s) \<longleftrightarrow> ord c < (128::nat) \<and> is_ascii s"
  by (simp_all add: is_ascii_def)

section \<open>Big-endian words\<close>

text \<open>\<^verbatim>\<open>struct.pack(">I", n)\<close> (k = 4) and \<^verbatim>\<open>struct.unpack\<close> of \<^verbatim>\<open>>I\<close>, \<^verbatim>\<open>>Q\<close>.\<close>

fun be_bytes :: "nat \<Rightarrow> nat \<Rightarrow> string" where
  "be_bytes 0 n = []"
| "be_bytes (Suc k) n = be_bytes k (n div 256) @ [char_of (n mod 256)]"

definition be_val :: "string \<Rightarrow> nat" where
  "be_val s = foldl (\<lambda>a c. a * 256 + ord c) 0 s"

lemma length_be_bytes [simp]: "length (be_bytes k n) = k"
  by (induction k arbitrary: n) auto

lemma be_val_snoc [py_num]: "be_val (s @ [c]) = be_val s * 256 + ord c"
  by (simp add: be_val_def)

lemma be_val_bytes [py_num]: "n < 256 ^ k \<Longrightarrow> be_val (be_bytes k n) = n"
proof (induction k arbitrary: n)
  case 0
  then show ?case by (simp add: be_val_def)
next
  case (Suc k)
  then have "n div 256 < 256 ^ k" by (simp add: less_mult_imp_div_less mult.commute)
  with Suc.IH have "be_val (be_bytes k (n div 256)) = n div 256" by blast
  then show ?case by (simp add: be_val_snoc)
qed

lemma be_val_bound: "be_val s < 256 ^ length s"
proof (induction s rule: rev_induct)
  case Nil
  then show ?case by (simp add: be_val_def)
next
  case (snoc c s)
  have c: "ord c < (256::nat)" by (metis of_char_mod_256 mod_less_divisor zero_less_numeral)
  have "be_val (s @ [c]) = be_val s * 256 + ord c" by (rule be_val_snoc)
  also have "\<dots> < (be_val s + 1) * 256" using c by (simp add: add_mult_distrib)
  also have "\<dots> \<le> 256 ^ length s * 256" using snoc by (intro mult_right_mono) auto
  also have "\<dots> = 256 ^ length (s @ [c])" by simp
  finally show ?case .
qed

section \<open>Lists and options\<close>

lemma takeWhile_append_stop:
  "\<forall>x \<in> set xs. P x \<Longrightarrow> \<not> P y \<Longrightarrow> takeWhile P (xs @ y # ys) = xs"
  by (simp add: takeWhile_append)

lemma dropWhile_append_stop:
  "\<forall>x \<in> set xs. P x \<Longrightarrow> \<not> P y \<Longrightarrow> dropWhile P (xs @ y # ys) = y # ys"
  by (simp add: dropWhile_append)

lemma takeWhile_all: "\<forall>x \<in> set xs. P x \<Longrightarrow> takeWhile P xs = xs"
  by (simp add: takeWhile_eq_all_conv)

end
