(* ===== verification/Json.thy ===== *)
theory Json
  imports Prelude
begin

text \<open>
  JSON values and the part of Python's \<^verbatim>\<open>json\<close> module the source uses: \<open>json_dumps\<close> is
  \<^verbatim>\<open>json.dumps(v, ensure_ascii=False)\<close> with the default separators and \<open>json_loads\<close> is
  \<^verbatim>\<open>json.loads\<close>, both over the UTF-8 bytes of the text.  A float keeps its decimal text, since
  no component computes with one.  Nesting is bounded only by the fuel, which \<open>json_loads\<close> sets
  above the length of the text, so it never runs out before the text does.

  The main lemma is the round trip \<open>json_loads_dumps\<close>: a well-formed value that is printed is
  read back as itself.
\<close>

section \<open>Values\<close>

datatype json =
    JNull
  | JBool bool
  | JInt int
  | JFloat string
  | JStr string
  | JArr "json list"
  | JObj "(string \<times> json) list"

text \<open>
  Dictionaries are association lists without duplicate keys, in insertion order:
  \<^verbatim>\<open>d[k] = v\<close> is \<open>AList.update k v\<close>, which replaces in place or appends.
\<close>

definition dict_of :: "(string \<times> json) list \<Rightarrow> (string \<times> json) list" where
  "dict_of kvs = foldl (\<lambda>d (k, v). AList.update k v d) [] kvs"

fun jget :: "string \<Rightarrow> json \<Rightarrow> json option" where
  "jget k (JObj kvs) = map_of kvs k"
| "jget k _ = None"

definition jhas :: "string \<Rightarrow> json \<Rightarrow> bool" where
  "jhas k j \<longleftrightarrow> jget k j \<noteq> None"

fun is_dict :: "json \<Rightarrow> bool" where
  "is_dict (JObj _) = True"
| "is_dict _ = False"

text \<open>Truth value of a Python object; a float is false when its digits are all zero.\<close>

fun truthy :: "json \<Rightarrow> bool" where
  "truthy JNull = False"
| "truthy (JBool b) = b"
| "truthy (JInt i) = (i \<noteq> 0)"
| "truthy (JFloat s) = (\<exists>c \<in> set (takeWhile (\<lambda>c. c \<noteq> CHR ''e'' \<and> c \<noteq> CHR ''E'') s).
     c \<notin> set ''0.-+'')"
| "truthy (JStr s) = (s \<noteq> [])"
| "truthy (JArr xs) = (xs \<noteq> [])"
| "truthy (JObj kvs) = (kvs \<noteq> [])"

section \<open>Printing\<close>

definition esc_char :: "char \<Rightarrow> string" where
  "esc_char c =
     (if c = CHR 0x22 then [CHR 0x5C, CHR 0x22]
      else if c = CHR 0x5C then [CHR 0x5C, CHR 0x5C]
      else if c = CHR 0x0A then [CHR 0x5C, CHR ''n'']
      else if c = CHR 0x0D then [CHR 0x5C, CHR ''r'']
      else if c = CHR 0x09 then [CHR 0x5C, CHR ''t'']
      else if c = CHR 0x0C then [CHR 0x5C, CHR ''f'']
      else if c = CHR 0x08 then [CHR 0x5C, CHR ''b'']
      else if ord c < (32::nat) then [CHR 0x5C, CHR ''u'', CHR ''0'', CHR ''0''] @ hex2 (ord c)
      else [c])"

definition dump_str :: "string \<Rightarrow> string" where
  "dump_str s = CHR 0x22 # concat (map esc_char s) @ [CHR 0x22]"

fun json_dumps :: "json \<Rightarrow> string"
  and dump_elems :: "json list \<Rightarrow> string"
  and dump_members :: "(string \<times> json) list \<Rightarrow> string" where
  "json_dumps JNull = ''null''"
| "json_dumps (JBool b) = (if b then ''true'' else ''false'')"
| "json_dumps (JInt i) = int_dec i"
| "json_dumps (JFloat s) = s"
| "json_dumps (JStr s) = dump_str s"
| "json_dumps (JArr xs) = ''['' @ dump_elems xs @ '']''"
| "json_dumps (JObj kvs) = ''{'' @ dump_members kvs @ ''}''"
| "dump_elems [] = []"
| "dump_elems [x] = json_dumps x"
| "dump_elems (x # y # ys) = json_dumps x @ '', '' @ dump_elems (y # ys)"
| "dump_members [] = []"
| "dump_members [(k, v)] = dump_str k @ '': '' @ json_dumps v"
| "dump_members ((k, v) # kv # kvs) = dump_str k @ '': '' @ json_dumps v @ '', '' @ dump_members (kv # kvs)"

section \<open>Reading\<close>

definition is_json_ws :: "char \<Rightarrow> bool" where
  "is_json_ws c \<longleftrightarrow> c \<in> {CHR '' '', CHR 0x09, CHR 0x0A, CHR 0x0D}"

definition skip_ws :: "string \<Rightarrow> string" where
  "skip_ws s = dropWhile is_json_ws s"

text \<open>UTF-8 encoding of a code point, for the \<^verbatim>\<open>\uXXXX\<close> escapes.\<close>

definition utf8_enc :: "nat \<Rightarrow> string" where
  "utf8_enc n =
     (if n < 128 then [char_of n]
      else if n < 2048 then [char_of (192 + n div 64), char_of (128 + n mod 64)]
      else if n < 65536 then [char_of (224 + n div 4096), char_of (128 + n div 64 mod 64), char_of (128 + n mod 64)]
      else [char_of (240 + n div 262144), char_of (128 + n div 4096 mod 64),
            char_of (128 + n div 64 mod 64), char_of (128 + n mod 64)])"

definition hex4 :: "string \<Rightarrow> (nat \<times> string) option" where
  "hex4 s = (if length s \<ge> 4 \<and> list_all is_hex_digit (take 4 s)
     then Some (digits_val 16 (take 4 s), drop 4 s) else None)"

text \<open>After \<^verbatim>\<open>\u\<close>: four digits, or a surrogate pair of two escapes.\<close>

definition unicode_escape :: "string \<Rightarrow> (string \<times> string) option" where
  "unicode_escape s = (case hex4 s of None \<Rightarrow> None
     | Some (u, r) \<Rightarrow>
        (if 0xD800 \<le> u \<and> u \<le> 0xDBFF \<and> startswith r [CHR 0x5C, CHR ''u'']
         then (case hex4 (drop 2 r) of None \<Rightarrow> None
               | Some (u2, r2) \<Rightarrow> if 0xDC00 \<le> u2 \<and> u2 \<le> 0xDFFF
                   then Some (utf8_enc (0x10000 + (u - 0xD800) * 1024 + (u2 - 0xDC00)), r2)
                   else Some (utf8_enc u, r))
         else Some (utf8_enc u, r)))"

definition simple_escape :: "char \<Rightarrow> char option" where
  "simple_escape c = map_of [(CHR 0x22, CHR 0x22), (CHR 0x5C, CHR 0x5C), (CHR ''/'', CHR ''/''),
     (CHR ''b'', CHR 0x08), (CHR ''f'', CHR 0x0C), (CHR ''n'', CHR 0x0A), (CHR ''r'', CHR 0x0D),
     (CHR ''t'', CHR 0x09)] c"

text \<open>The characters of a string after its opening quote, with the text after the closing one.\<close>

fun parse_str :: "nat \<Rightarrow> string \<Rightarrow> (string \<times> string) option" where
  "parse_str 0 s = None"
| "parse_str (Suc f) [] = None"
| "parse_str (Suc f) (c # s) =
     (if c = CHR 0x22 then Some ([], s)
      else if c = CHR 0x5C then
        (case s of [] \<Rightarrow> None
         | e # s' \<Rightarrow>
            (if e = CHR ''u'' then
               (case unicode_escape s' of None \<Rightarrow> None
                | Some (u, r) \<Rightarrow> map_option (\<lambda>(t, r'). (u @ t, r')) (parse_str f r))
             else (case simple_escape e of None \<Rightarrow> None
                | Some x \<Rightarrow> map_option (\<lambda>(t, r'). (x # t, r')) (parse_str f s'))))
      else if ord c < (32::nat) then None
      else map_option (\<lambda>(t, r'). (c # t, r')) (parse_str f s))"

text \<open>Numbers: integer part, optional fraction, optional exponent.\<close>

definition take_digits :: "string \<Rightarrow> string \<times> string" where
  "take_digits s = (takeWhile is_digit s, dropWhile is_digit s)"

definition parse_frac :: "string \<Rightarrow> string \<times> string" where
  "parse_frac s = (case s of
       c # r \<Rightarrow> if c = CHR ''.'' \<and> fst (take_digits r) \<noteq> []
                then (c # fst (take_digits r), snd (take_digits r)) else ([], s)
     | [] \<Rightarrow> ([], s))"

definition parse_exp :: "string \<Rightarrow> string \<times> string" where
  "parse_exp s = (case s of
       c # r \<Rightarrow> if c = CHR ''e'' \<or> c = CHR ''E'' then
          (let sg = (case r of x # _ \<Rightarrow> if x = CHR ''+'' \<or> x = CHR ''-'' then [x] else [] | [] \<Rightarrow> []);
               r' = drop (length sg) r
           in if fst (take_digits r') \<noteq> []
              then (c # sg @ fst (take_digits r'), snd (take_digits r')) else ([], s))
          else ([], s)
     | [] \<Rightarrow> ([], s))"

definition int_part :: "string \<Rightarrow> string" where
  "int_part s = (if startswith s ''0'' then ''0'' else fst (take_digits s))"

definition parse_number :: "string \<Rightarrow> (json \<times> string) option" where
  "parse_number s =
     (let neg = startswith s ''-''; s1 = (if neg then drop 1 s else s);
          ds = int_part s1;
          s2 = drop (length ds) s1
      in if ds = [] then None
         else let (fr, s3) = parse_frac s2; (ex, s4) = parse_exp s3
              in if fr = [] \<and> ex = []
                 then Some (JInt (if neg then - int (digits_val 10 ds) else int (digits_val 10 ds)), s2)
                 else Some (JFloat ((if neg then ''-'' else []) @ ds @ fr @ ex), s4))"

definition parse_word :: "string \<Rightarrow> (json \<times> string) option" where
  "parse_word s =
     (if startswith s ''null'' then Some (JNull, drop 4 s)
      else if startswith s ''true'' then Some (JBool True, drop 4 s)
      else if startswith s ''false'' then Some (JBool False, drop 5 s)
      else if startswith s ''NaN'' then Some (JFloat ''NaN'', drop 3 s)
      else if startswith s ''Infinity'' then Some (JFloat ''Infinity'', drop 8 s)
      else if startswith s ''-Infinity'' then Some (JFloat ''-Infinity'', drop 9 s)
      else parse_number s)"

fun parse_value :: "nat \<Rightarrow> string \<Rightarrow> (json \<times> string) option"
  and parse_elems :: "nat \<Rightarrow> string \<Rightarrow> (json list \<times> string) option"
  and parse_members :: "nat \<Rightarrow> string \<Rightarrow> ((string \<times> json) list \<times> string) option" where
  "parse_value 0 s = None"
| "parse_value (Suc f) [] = None"
| "parse_value (Suc f) (c # s) =
     (if c = CHR 0x22 then map_option (\<lambda>(t, r). (JStr t, r)) (parse_str (Suc (length s)) s)
      else if c = CHR ''['' then
        (if startswith (skip_ws s) '']'' then Some (JArr [], drop 1 (skip_ws s))
         else map_option (\<lambda>(xs, r). (JArr xs, r)) (parse_elems f (skip_ws s)))
      else if c = CHR ''{'' then
        (if startswith (skip_ws s) ''}'' then Some (JObj [], drop 1 (skip_ws s))
         else map_option (\<lambda>(kvs, r). (JObj (dict_of kvs), r)) (parse_members f (skip_ws s)))
      else parse_word (c # s))"
| "parse_elems 0 s = None"
| "parse_elems (Suc f) s =
     (case parse_value f s of None \<Rightarrow> None
      | Some (x, r) \<Rightarrow> (case skip_ws r of [] \<Rightarrow> None
          | c # r' \<Rightarrow> (if c = CHR '']'' then Some ([x], r')
              else if c = CHR '','' then map_option (\<lambda>(xs, q). (x # xs, q)) (parse_elems f (skip_ws r'))
              else None)))"
| "parse_members 0 s = None"
| "parse_members (Suc f) s =
     (if \<not> startswith s [CHR 0x22] then None
      else case parse_str (length s) (drop 1 s) of None \<Rightarrow> None
      | Some (k, r) \<Rightarrow> (case skip_ws r of [] \<Rightarrow> None
          | c # r1 \<Rightarrow> (if c \<noteq> CHR '':'' then None
              else case parse_value f (skip_ws r1) of None \<Rightarrow> None
              | Some (v, r2) \<Rightarrow> (case skip_ws r2 of [] \<Rightarrow> None
                  | d # r3 \<Rightarrow> (if d = CHR ''}'' then Some ([(k, v)], r3)
                      else if d = CHR '','' then
                        map_option (\<lambda>(kvs, q). ((k, v) # kvs, q)) (parse_members f (skip_ws r3))
                      else None)))))"

definition json_loads :: "string \<Rightarrow> json option" where
  "json_loads s = (case parse_value (Suc (length s)) (skip_ws s) of
       Some (v, r) \<Rightarrow> (if skip_ws r = [] then Some v else None)
     | None \<Rightarrow> None)"

text \<open>
  \<^verbatim>\<open>bytes.decode("utf-8")\<close> succeeds exactly on well-formed UTF-8: no stray continuation byte, no
  overlong form, no surrogate, nothing beyond U+10FFFF.
\<close>

definition is_cont :: "char \<Rightarrow> bool" where
  "is_cont c \<longleftrightarrow> 128 \<le> ord c \<and> ord c < (192::nat)"

text \<open>\<^verbatim>\<open>len(s)\<close> of a text kept as its UTF-8 bytes.\<close>

definition ulen :: "string \<Rightarrow> nat" where
  "ulen s = length (filter (\<lambda>c. \<not> is_cont c) s)"

fun utf8_valid :: "string \<Rightarrow> bool" where
  "utf8_valid [] = True"
| "utf8_valid (a # s) =
     (if ord a < (128::nat) then utf8_valid s
      else if 194 \<le> ord a \<and> ord a < (224::nat) then
        (case s of b # s' \<Rightarrow> is_cont b \<and> utf8_valid s' | _ \<Rightarrow> False)
      else if 224 \<le> ord a \<and> ord a < (240::nat) then
        (case s of b # c # s' \<Rightarrow> is_cont b \<and> is_cont c \<and> (ord a = (224::nat) \<longrightarrow> 160 \<le> ord b)
            \<and> (ord a = (237::nat) \<longrightarrow> ord b < (160::nat)) \<and> utf8_valid s' | _ \<Rightarrow> False)
      else if 240 \<le> ord a \<and> ord a < (245::nat) then
        (case s of b # c # d # s' \<Rightarrow> is_cont b \<and> is_cont c \<and> is_cont d
            \<and> (ord a = (240::nat) \<longrightarrow> 144 \<le> ord b) \<and> (ord a = (244::nat) \<longrightarrow> ord b < (144::nat))
            \<and> utf8_valid s' | _ \<Rightarrow> False)
      else False)"

section \<open>Round trip\<close>

text \<open>Values without floats whose dictionaries have distinct keys.\<close>

fun wf_json :: "json \<Rightarrow> bool" where
  "wf_json (JFloat _) = False"
| "wf_json (JArr xs) = list_all wf_json xs"
| "wf_json (JObj kvs) = (distinct (map fst kvs) \<and> list_all (\<lambda>kv. wf_json (snd kv)) kvs)"
| "wf_json _ = True"

definition stops :: "string \<Rightarrow> bool" where
  "stops r \<longleftrightarrow> (case r of [] \<Rightarrow> True | c # _ \<Rightarrow> \<not> is_digit c \<and> c \<noteq> CHR ''.'' \<and> c \<noteq> CHR ''e'' \<and> c \<noteq> CHR ''E'')"

lemma update_fresh: "k \<notin> fst ` set al \<Longrightarrow> AList.update k v al = al @ [(k, v)]"
  by (induction al) auto

lemma dict_of_distinct: "distinct (map fst kvs) \<Longrightarrow> dict_of kvs = kvs"
proof -
  have "distinct (map fst (acc @ kvs)) \<Longrightarrow> foldl (\<lambda>d (k, v). AList.update k v d) acc kvs = acc @ kvs" for acc
  proof (induction kvs arbitrary: acc)
    case (Cons kv kvs)
    obtain k v where kv: "kv = (k, v)" by force
    with Cons.prems have "AList.update k v acc = acc @ [kv]" by (auto intro: update_fresh)
    with Cons kv show ?case by simp
  qed simp
  from this [of "[]"] show "distinct (map fst kvs) \<Longrightarrow> dict_of kvs = kvs"
    by (simp add: dict_of_def)
qed

lemma control_escape:
  assumes "ord c < (32::nat)"
  shows "unicode_escape (CHR ''0'' # CHR ''0'' # hex2 (ord c) @ r) = Some ([c], r)"
proof -
  define n :: nat where "n = ord c"
  have c: "c = char_of n" and n: "n < 32" using assms by (auto simp: n_def)
  have len: "length (hex2 n) = 2" and dig: "list_all is_hex_digit (hex2 n)"
    and val: "digits_val 16 (hex2 n) = n"
  proof -
    show "length (hex2 n) = 2" using n
      by (auto simp: hex2_def nat_hex_def nat_base.simps [of 16 n] nat_base.simps [of 16 "n div 16"])
    show "list_all is_hex_digit (hex2 n)"
      using nat_hex_digits [of n] by (auto simp: hex2_def list_all_iff is_hex_digit_def is_digit_def)
    show "digits_val 16 (hex2 n) = n"
      using digits_val_hex [of n] by (auto simp: hex2_def digits_val_def digit_val_def)
  qed
  then obtain a b where ab: "hex2 n = [a, b]" by (cases "hex2 n") (auto simp: length_Suc_conv)
  have "digits_val 16 [CHR ''0'', CHR ''0'', a, b] = n"
    using val ab by (simp add: digits_val_def digit_val_def)
  then have "hex4 (CHR ''0'' # CHR ''0'' # hex2 n @ r) = Some (n, r)"
    using dig ab by (simp add: hex4_def is_hex_digit_def is_digit_def)
  then show ?thesis using n c by (simp add: unicode_escape_def utf8_enc_def n_def [symmetric])
qed

lemma parse_str_dump:
  "length (concat (map esc_char s)) < f \<Longrightarrow>
   parse_str f (concat (map esc_char s) @ CHR 0x22 # r) = Some (s, r)"
proof (induction s arbitrary: f)
  case Nil
  then show ?case by (cases f) auto
next
  case (Cons c s)
  let ?t = "concat (map esc_char s) @ CHR 0x22 # r"
  obtain g where f: "f = Suc g" using Cons.prems by (cases f) auto
  have ne: "esc_char c \<noteq> []" by (auto simp: esc_char_def)
  then have "length (concat (map esc_char s)) < g" using Cons.prems f by (cases "esc_char c") auto
  with Cons.IH have IH: "parse_str g ?t = Some (s, r)" by blast
  show ?case
  proof (cases "esc_char c = [c] \<and> c \<noteq> CHR 0x22 \<and> c \<noteq> CHR 0x5C \<and> \<not> ord c < (32::nat)")
    case True
    with IH f show ?thesis by simp
  next
    case False
    then consider e where "esc_char c = [CHR 0x5C, e]" "simple_escape e = Some c" "e \<noteq> CHR ''u''"
      | "esc_char c = CHR 0x5C # CHR ''u'' # CHR ''0'' # CHR ''0'' # hex2 (ord c)" "ord c < (32::nat)"
      by (auto simp: esc_char_def simple_escape_def split: if_splits)
    then show ?thesis
      by cases (use IH f control_escape [of c ?t] in \<open>simp_all add: simple_escape_def\<close>)
  qed
qed

lemma take_digits_stop:
  assumes "\<forall>c \<in> set ds. is_digit c" "stops r"
  shows "take_digits (ds @ r) = (ds, r)"
  using assms by (cases r) (auto simp: take_digits_def stops_def takeWhile_append dropWhile_append)

lemma stops_frac_exp: "stops r \<Longrightarrow> parse_frac r = ([], r) \<and> parse_exp r = ([], r)"
  by (auto simp: stops_def parse_frac_def parse_exp_def split: list.splits)

lemma nat_dec_zero: "nat_dec 0 = ''0''"
  by (simp add: nat_dec_def nat_base.simps digit_char_def char_of_eq_iff)

lemma parse_number_nat:
  assumes "stops r"
  shows "parse_number (nat_dec n @ r) = Some (JInt (int n), r)"
    and "parse_number (CHR ''-'' # nat_dec n @ r) = Some (JInt (- int n), r)"
proof -
  obtain d ds where nd: "nat_dec n = d # ds" by (cases "nat_dec n") auto
  have dig: "\<forall>c \<in> set (nat_dec n). is_digit c" by (rule nat_dec_digits)
  then have dneg: "d \<noteq> CHR ''-''" using nd by (auto simp: is_digit_def)
  have td: "take_digits (nat_dec n @ r) = (nat_dec n, r)" using dig assms by (rule take_digits_stop)
  have ds0: "int_part (nat_dec n @ r) = nat_dec n"
  proof (cases "n = 0")
    case True
    then show ?thesis by (simp add: nat_dec_zero int_part_def startswith_def)
  next
    case False
    then have "d \<noteq> CHR ''0''" using nat_base_hd_nonzero [of 10 n] nd by (simp add: nat_dec_def)
    then show ?thesis using nd td by (simp add: int_part_def startswith_def)
  qed
  show "parse_number (nat_dec n @ r) = Some (JInt (int n), r)"
    using stops_frac_exp [OF assms] dneg nd digits_val_dec [of n] ds0
    by (simp add: parse_number_def startswith_def)
  show "parse_number (CHR ''-'' # nat_dec n @ r) = Some (JInt (- int n), r)"
    using stops_frac_exp [OF assms] dneg nd digits_val_dec [of n] ds0
    by (simp add: parse_number_def startswith_def)
qed

lemma parse_word_int:
  assumes "stops r"
  shows "parse_word (int_dec i @ r) = Some (JInt i, r)"
proof -
  obtain d ds where nd: "nat_dec (nat \<bar>i\<bar>) = d # ds" by (cases "nat_dec (nat \<bar>i\<bar>)") auto
  have "is_digit d" using nat_dec_digits [of "nat \<bar>i\<bar>"] nd by simp
  then have d: "d \<notin> set ''ntfNI-''" by (auto simp: is_digit_def)
  have "parse_word (int_dec i @ r) = parse_number (int_dec i @ r)"
    using nd d by (auto simp: int_dec_def parse_word_def startswith_def)
  then show ?thesis using parse_number_nat [OF assms] by (simp add: int_dec_def)
qed


lemma dumps_head:
  assumes "wf_json j"
  obtains c s where "json_dumps j = c # s" "\<not> is_json_ws c" "c \<noteq> CHR '']''" "c \<noteq> CHR ''}''"
proof -
  have "\<exists>c s. json_dumps j = c # s \<and> \<not> is_json_ws c \<and> c \<noteq> CHR '']'' \<and> c \<noteq> CHR ''}''"
  proof (cases j)
    case (JInt i)
    obtain d ds where nd: "nat_dec (nat \<bar>i\<bar>) = d # ds" by (cases "nat_dec (nat \<bar>i\<bar>)") auto
    have "is_digit d" using nat_dec_digits [of "nat \<bar>i\<bar>"] nd by simp
    with nd JInt show ?thesis by (auto simp: int_dec_def is_json_ws_def is_digit_def)
  qed (use assms in \<open>auto simp: dump_str_def is_json_ws_def\<close>)
  with that show thesis by blast
qed

lemma skip_ws_head: "\<not> is_json_ws c \<Longrightarrow> skip_ws (c # s) = c # s"
  by (simp add: skip_ws_def)

lemma skip_ws_space: "skip_ws (CHR '' '' # s) = skip_ws s"
  by (simp add: skip_ws_def is_json_ws_def)

lemma skip_ws_dumps [simp]: "wf_json j \<Longrightarrow> skip_ws (json_dumps j @ r) = json_dumps j @ r"
  by (metis append_Cons dumps_head skip_ws_head)

lemma dump_elems_Cons:
  "dump_elems (x # xs) = json_dumps x @ (if xs = [] then [] else '', '' @ dump_elems xs)"
  by (cases xs) auto

lemma dump_members_Cons:
  "dump_members ((k, v) # kvs) = dump_str k @ '': '' @ json_dumps v @
     (if kvs = [] then [] else '', '' @ dump_members kvs)"
  by (cases kvs) auto

lemma parse_elems_dump:
  assumes IH: "\<And>x f r. x \<in> set xs \<Longrightarrow> length (json_dumps x) < f \<Longrightarrow> stops r \<Longrightarrow>
      parse_value f (json_dumps x @ r) = Some (x, r)"
    and "xs \<noteq> []" "list_all wf_json xs" "length (dump_elems xs) + 2 \<le> f"
  shows "parse_elems f (dump_elems xs @ CHR '']'' # r) = Some (xs, r)"
  using assms
proof (induction xs arbitrary: f)
  case Nil
  then show ?case by simp
next
  case (Cons x xs)
  obtain g where f: "f = Suc g" using Cons.prems(4) by (cases f) auto
  show ?case
  proof (cases "xs = []")
    case True
    have "parse_value g (json_dumps x @ CHR '']'' # r) = Some (x, CHR '']'' # r)"
      using Cons.prems True f by (intro Cons.prems(1)) (auto simp: stops_def is_digit_def)
    then show ?thesis using True f by (simp add: skip_ws_head is_json_ws_def)
  next
    case False
    have "parse_value g (json_dumps x @ '', '' @ dump_elems xs @ CHR '']'' # r)
        = Some (x, '', '' @ dump_elems xs @ CHR '']'' # r)"
      using Cons.prems False f
      by (intro Cons.prems(1)) (auto simp: stops_def is_digit_def dump_elems_Cons)
    moreover have "parse_elems g (dump_elems xs @ CHR '']'' # r) = Some (xs, r)"
      using Cons.prems False f by (intro Cons.IH) (auto simp: dump_elems_Cons)
    moreover have "skip_ws (dump_elems xs @ CHR '']'' # r) = dump_elems xs @ CHR '']'' # r"
      using Cons.prems(3) False by (cases xs) (auto simp: dump_elems_Cons)
    ultimately show ?thesis using False f
      by (simp add: dump_elems_Cons skip_ws_head skip_ws_space is_json_ws_def)
  qed
qed

lemma parse_members_dump:
  assumes IH: "\<And>k x f r. (k, x) \<in> set kvs \<Longrightarrow> length (json_dumps x) < f \<Longrightarrow> stops r \<Longrightarrow>
      parse_value f (json_dumps x @ r) = Some (x, r)"
    and "kvs \<noteq> []" "list_all (\<lambda>kv. wf_json (snd kv)) kvs" "length (dump_members kvs) + 2 \<le> f"
  shows "parse_members f (dump_members kvs @ CHR ''}'' # r) = Some (kvs, r)"
  using assms
proof (induction kvs arbitrary: f)
  case Nil
  then show ?case by simp
next
  case (Cons kv kvs)
  obtain k v where kv: "kv = (k, v)" by force
  obtain g where f: "f = Suc g" using Cons.prems(4) by (cases f) auto
  have wfv: "wf_json v" using Cons.prems(3) kv by simp
  let ?rest = "(if kvs = [] then [] else '', '' @ dump_members kvs) @ CHR ''}'' # r"
  have split: "dump_members (kv # kvs) @ CHR ''}'' # r = dump_str k @ '': '' @ json_dumps v @ ?rest"
    by (simp add: kv dump_members_Cons)
  have stop: "stops ?rest" by (simp add: stops_def is_digit_def)
  have val: "parse_value g (json_dumps v @ ?rest) = Some (v, ?rest)"
    using Cons.prems(4) kv f stop
    by (intro Cons.prems(1) [of k]) (auto simp: dump_members_Cons split: if_splits)
  have ws: "skip_ws ('' '' @ json_dumps v @ ?rest) = json_dumps v @ ?rest"
    using wfv by (simp add: skip_ws_space)
  show ?case
  proof (cases "kvs = []")
    case True
    then show ?thesis unfolding split f parse_members.simps
      using val ws by (simp add: dump_str_def parse_str_dump startswith_def skip_ws_head is_json_ws_def kv)
  next
    case False
    have more: "parse_members g (dump_members kvs @ CHR ''}'' # r) = Some (kvs, r)"
      using Cons.prems False f kv by (intro Cons.IH) (auto simp: dump_members_Cons)
    have "skip_ws (dump_members kvs @ CHR ''}'' # r) = dump_members kvs @ CHR ''}'' # r"
      using False by (cases kvs) (auto simp: dump_members_Cons dump_str_def skip_ws_head is_json_ws_def)
    with False more show ?thesis unfolding split f parse_members.simps
      using val ws
      by (simp add: dump_str_def parse_str_dump startswith_def skip_ws_head skip_ws_space is_json_ws_def kv)
  qed
qed

lemma parse_value_dumps:
  "wf_json j \<Longrightarrow> length (json_dumps j) < f \<Longrightarrow> stops r \<Longrightarrow>
   parse_value f (json_dumps j @ r) = Some (j, r)"
proof (induction j arbitrary: f r)
  case (JInt i)
  then obtain g where f: "f = Suc g" by (cases f) auto
  obtain c s where cs: "json_dumps (JInt i) = c # s" by (rule dumps_head [of "JInt i"]) auto
  have "is_digit c \<or> c = CHR ''-''"
    using cs nat_dec_digits [of "nat \<bar>i\<bar>"] by (auto simp: int_dec_def split: if_splits)
  then have "c \<noteq> CHR 0x22 \<and> c \<noteq> CHR ''['' \<and> c \<noteq> CHR ''{''" by (auto simp: is_digit_def)
  with f cs parse_word_int [OF JInt.prems(3), of i] show ?case by simp
next
  case (JStr s)
  then show ?case by (cases f) (auto simp: dump_str_def parse_str_dump)
next
  case (JArr xs)
  then obtain g where f: "f = Suc g" by (cases f) auto
  show ?case
  proof (cases "xs = []")
    case True
    then show ?thesis using f by (simp add: skip_ws_head is_json_ws_def startswith_def)
  next
    case False
    have "parse_elems g (dump_elems xs @ CHR '']'' # r) = Some (xs, r)"
      using JArr f False by (intro parse_elems_dump) (auto simp: list_all_iff)
    moreover obtain x xs' where x: "xs = x # xs'" using False by (cases xs) auto
    moreover obtain c s where "json_dumps x = c # s" "\<not> is_json_ws c" "c \<noteq> CHR '']''"
      using JArr.prems x by (auto elim: dumps_head)
    ultimately show ?thesis using f by (simp add: dump_elems_Cons skip_ws_head startswith_def)
  qed
next
  case (JObj kvs)
  then obtain g where f: "f = Suc g" by (cases f) auto
  show ?case
  proof (cases "kvs = []")
    case True
    then show ?thesis using f by (simp add: skip_ws_head is_json_ws_def startswith_def dict_of_def)
  next
    case False
    have "parse_members g (dump_members kvs @ CHR ''}'' # r) = Some (kvs, r)"
      using JObj f False by (intro parse_members_dump) (auto simp: list_all_iff)
    moreover obtain k v kvs' where "kvs = (k, v) # kvs'" using False by (cases kvs) auto
    ultimately show ?thesis using f JObj.prems
      by (simp add: dump_members_Cons dump_str_def skip_ws_head is_json_ws_def startswith_def dict_of_distinct)
  qed
qed (auto simp: parse_word_def startswith_def split: nat.splits elim!: less_natE)

theorem json_loads_dumps: "wf_json j \<Longrightarrow> json_loads (json_dumps j) = Some j"
  using parse_value_dumps [of j "Suc (length (json_dumps j))" "[]"] skip_ws_dumps [of j "[]"]
  by (simp add: json_loads_def stops_def) (simp add: skip_ws_def)

end
