(* ===== verification/Errors.thy ===== *)
theory Errors
  imports Json
begin

text \<open>
  The exceptions of the host server: \<^verbatim>\<open>errors.py\<close>, and the built-in Python exceptions the code
  raises or catches.  A computation that raises returns \<open>Inl\<close> of an \<open>exn\<close>.
\<close>

section \<open>The error classes of errors.py\<close>

datatype rpc_class =
    JsonRpcError | ParseError | InvalidRequest | MethodNotFound | InvalidParams | InternalError
  | TargetError | Cancelled | NotCapable | AuthRequired | Busy

fun rpc_code :: "rpc_class \<Rightarrow> int" where
  "rpc_code JsonRpcError = -32603"
| "rpc_code ParseError = -32700"
| "rpc_code InvalidRequest = -32600"
| "rpc_code MethodNotFound = -32601"
| "rpc_code InvalidParams = -32602"
| "rpc_code InternalError = -32603"
| "rpc_code TargetError = -32001"
| "rpc_code Cancelled = -32002"
| "rpc_code NotCapable = -32003"
| "rpc_code AuthRequired = -32004"
| "rpc_code Busy = -32005"

text \<open>Built-in exception types; \<open>OtherError\<close> stands for any other subclass of \<^verbatim>\<open>Exception\<close>.\<close>

datatype py_type =
    TimeoutError | ConnectionResetError | ConnectionRefusedError | BrokenPipeError
  | FileNotFoundError | OSError
  | IncompleteReadError | ValueError | UnicodeDecodeError | JSONDecodeError | KeyError | IndexError
  | TypeError | AttributeError | AssertionError | RuntimeError | OtherError string

fun type_name :: "py_type \<Rightarrow> string" where
  "type_name TimeoutError = ''TimeoutError''"
| "type_name ConnectionResetError = ''ConnectionResetError''"
| "type_name ConnectionRefusedError = ''ConnectionRefusedError''"
| "type_name BrokenPipeError = ''BrokenPipeError''"
| "type_name FileNotFoundError = ''FileNotFoundError''"
| "type_name OSError = ''OSError''"
| "type_name IncompleteReadError = ''IncompleteReadError''"
| "type_name ValueError = ''ValueError''"
| "type_name UnicodeDecodeError = ''UnicodeDecodeError''"
| "type_name JSONDecodeError = ''JSONDecodeError''"
| "type_name KeyError = ''KeyError''"
| "type_name IndexError = ''IndexError''"
| "type_name TypeError = ''TypeError''"
| "type_name AttributeError = ''AttributeError''"
| "type_name AssertionError = ''AssertionError''"
| "type_name RuntimeError = ''RuntimeError''"
| "type_name (OtherError n) = n"

text \<open>Since Python 3.11 \<^verbatim>\<open>TimeoutError\<close> is an \<^verbatim>\<open>OSError\<close>, as the connection errors are.\<close>

fun is_os_error :: "py_type \<Rightarrow> bool" where
  "is_os_error t = (t \<in> {TimeoutError, ConnectionResetError, ConnectionRefusedError, BrokenPipeError,
     FileNotFoundError, OSError})"

datatype exn =
    RpcErr rpc_class string "json option"
  | PyErr py_type string

fun rpc_name :: "rpc_class \<Rightarrow> string" where
  "rpc_name JsonRpcError = ''JsonRpcError''"
| "rpc_name ParseError = ''ParseError''"
| "rpc_name InvalidRequest = ''InvalidRequest''"
| "rpc_name MethodNotFound = ''MethodNotFound''"
| "rpc_name InvalidParams = ''InvalidParams''"
| "rpc_name InternalError = ''InternalError''"
| "rpc_name TargetError = ''TargetError''"
| "rpc_name Cancelled = ''Cancelled''"
| "rpc_name NotCapable = ''NotCapable''"
| "rpc_name AuthRequired = ''AuthRequired''"
| "rpc_name Busy = ''Busy''"

fun exn_name :: "exn \<Rightarrow> string" where
  "exn_name (RpcErr c _ _) = rpc_name c"
| "exn_name (PyErr t _) = type_name t"

section \<open>Text and dictionary of an error\<close>

text \<open>
  \<^verbatim>\<open>json.dumps\<close> with its default \<^verbatim>\<open>ensure_ascii=True\<close>: every non-ASCII character of the printed
  text becomes a \<^verbatim>\<open>\u\<close> escape, a surrogate pair beyond U+FFFF.
\<close>

definition hex4_of :: "nat \<Rightarrow> string" where
  "hex4_of n = map (\<lambda>k. digit_char (n div 16 ^ k mod 16)) [3, 2, 1, 0]"

definition u_escape :: "nat \<Rightarrow> string" where
  "u_escape n = (if n < 65536 then [CHR 0x5C, CHR ''u''] @ hex4_of n
     else [CHR 0x5C, CHR ''u''] @ hex4_of (55296 + (n - 65536) div 1024)
        @ [CHR 0x5C, CHR ''u''] @ hex4_of (56320 + (n - 65536) mod 1024))"

fun ascii_escape :: "string \<Rightarrow> string" where
  "ascii_escape [] = []"
| "ascii_escape (a # s) =
     (if ord a < (128::nat) then a # ascii_escape s
      else if ord a < (224::nat) then
        (case s of b # s' \<Rightarrow> u_escape (ord a mod 32 * 64 + ord b mod 64) @ ascii_escape s' | _ \<Rightarrow> [a])
      else if ord a < (240::nat) then
        (case s of b # c # s' \<Rightarrow>
            u_escape (ord a mod 16 * 4096 + ord b mod 64 * 64 + ord c mod 64) @ ascii_escape s' | _ \<Rightarrow> [a])
      else (case s of b # c # d # s' \<Rightarrow>
            u_escape (ord a mod 8 * 262144 + ord b mod 64 * 4096 + ord c mod 64 * 64 + ord d mod 64)
              @ ascii_escape s' | _ \<Rightarrow> [a]))"

definition json_dumps_ascii :: "json \<Rightarrow> string" where
  "json_dumps_ascii j = ascii_escape (json_dumps j)"

text \<open>\<^verbatim>\<open>str(e)\<close>: the data of a JSON-RPC error is part of its text, since a client sees only that.\<close>

fun exn_str :: "exn \<Rightarrow> string" where
  "exn_str (RpcErr c m None) = m"
| "exn_str (RpcErr c m (Some d)) = m @ '' [data: '' @ json_dumps_ascii d @ '']''"
| "exn_str (PyErr t m) = m"

text \<open>\<^verbatim>\<open>JsonRpcError.to_dict\<close>.\<close>

definition to_dict :: "rpc_class \<Rightarrow> string \<Rightarrow> json option \<Rightarrow> json" where
  "to_dict c m d = JObj ([(''code'', JInt (rpc_code c)), (''message'', JStr m)] @
     (case d of None \<Rightarrow> [] | Some v \<Rightarrow> [(''data'', v)]))"

text \<open>
  What the tool layer reports for any exception: the dictionary of a JSON-RPC error, and code
  -32603 with the text of every other exception.
\<close>

fun error_dict :: "exn \<Rightarrow> json" where
  "error_dict (RpcErr c m d) = to_dict c m d"
| "error_dict (PyErr t m) = JObj [(''code'', JInt (-32603)), (''message'', JStr m)]"

fun is_rpc_err :: "exn \<Rightarrow> bool" where
  "is_rpc_err (RpcErr _ _ _) = True"
| "is_rpc_err (PyErr _ _) = False"

lemma error_dict_code: "\<exists>c. jget ''code'' (error_dict e) = Some (JInt c)"
  by (cases e) (simp_all add: to_dict_def)

lemma to_dict_fields:
  "jget ''code'' (to_dict c m d) = Some (JInt (rpc_code c))"
  "jget ''message'' (to_dict c m d) = Some (JStr m)"
  "jget ''data'' (to_dict c m d) = d"
  by (simp_all add: to_dict_def split: option.splits)

end
