(* ===== verification/Effects.thy ===== *)
theory Effects
  imports Errors
begin

text \<open>
  Effects of the host code.  A coroutine is a function from a state to a result (\<open>Inl\<close> of the
  exception it raises, or \<open>Inr\<close> of the value it returns) and the next state; \<open>bnd\<close> sequences two
  of them as \<^verbatim>\<open>await\<close> does, \<open>catch\<close> is \<^verbatim>\<open>try/except Exception\<close>.

  Everything outside the process is an \<open>event\<close>: a JSON-RPC request to the daemon of a target, a
  reading of the clock, a sleep, an operation on a socket or on the host (file system, subprocess,
  serial port).  A \<open>world\<close> records the events so far with their outcomes, and holds the answer the
  environment gives to the next one as a function of that whole history, so a theorem about all
  worlds holds for every behaviour of the daemons, the network, the disk and the clock.  Nothing is
  assumed about the answers.  Components with state of their own extend the record \<open>world\<close>.

  \<open>preserves I m\<close> says that \<open>m\<close> keeps \<open>I\<close> true, whether it returns or raises (rules \<open>kept\<close>).
  \<open>emits P m\<close> says that \<open>m\<close> only ever extends the history, by events that satisfy \<open>P\<close>; its rules
  (\<open>emits\<close>) follow the code, so a safety property of a long handler is one application of them.
\<close>

named_theorems emits
named_theorems kept
named_theorems io

section \<open>State with exceptions\<close>

type_synonym ('s, 'a) io = "'s \<Rightarrow> (exn + 'a) \<times> 's"

definition ret :: "'a \<Rightarrow> ('s, 'a) io" where
  "ret x s = (Inr x, s)"

definition raise :: "exn \<Rightarrow> ('s, 'a) io" where
  "raise e s = (Inl e, s)"

definition bnd :: "('s, 'a) io \<Rightarrow> ('a \<Rightarrow> ('s, 'b) io) \<Rightarrow> ('s, 'b) io" where
  "bnd m f s = (case m s of (Inl e, s') \<Rightarrow> (Inl e, s') | (Inr x, s') \<Rightarrow> f x s')"

definition catch :: "('s, 'a) io \<Rightarrow> (exn \<Rightarrow> ('s, 'a) io) \<Rightarrow> ('s, 'a) io" where
  "catch m h s = (case m s of (Inl e, s') \<Rightarrow> h e s' | (Inr x, s') \<Rightarrow> (Inr x, s'))"

text \<open>\<^verbatim>\<open>try: m; return True / except Exception: return False\<close>.\<close>

definition succeeds :: "('s, 'a) io \<Rightarrow> ('s, bool) io" where
  "succeeds m = catch (bnd m (\<lambda>_. ret True)) (\<lambda>_. ret False)"

text \<open>\<^verbatim>\<open>try: m / except Exception: pass\<close>.\<close>

definition ignoring :: "('s, 'a) io \<Rightarrow> ('s, unit) io" where
  "ignoring m = catch (bnd m (\<lambda>_. ret ())) (\<lambda>_. ret ())"

definition whenM :: "bool \<Rightarrow> ('s, unit) io \<Rightarrow> ('s, unit) io" where
  "whenM b m = (if b then m else ret ())"

fun for_each :: "('a \<Rightarrow> ('s, 'b) io) \<Rightarrow> 'a list \<Rightarrow> ('s, 'b list) io" where
  "for_each f [] = ret []"
| "for_each f (x # xs) = bnd (f x) (\<lambda>y. bnd (for_each f xs) (\<lambda>ys. ret (y # ys)))"

lemma bnd_simps [io]:
  "bnd (ret x) f = f x"
  "bnd (raise e) f = raise e"
  "bnd (bnd m f) g = bnd m (\<lambda>x. bnd (f x) g)"
  by (auto simp: bnd_def ret_def raise_def fun_eq_iff split: prod.splits sum.splits)

lemma catch_simps [io]:
  "catch (ret x) h = ret x"
  "catch (raise e) h = h e"
  by (auto simp: catch_def ret_def raise_def fun_eq_iff)

lemma run_simps [io]:
  "ret x s = (Inr x, s)"
  "raise e s = (Inl e, s)"
  by (simp_all add: ret_def raise_def)

lemma bnd_Inr: "m s = (Inr x, s') \<Longrightarrow> bnd m f s = f x s'"
  by (simp add: bnd_def)

lemma bnd_Inl: "m s = (Inl e, s') \<Longrightarrow> bnd m f s = (Inl e, s')"
  by (simp add: bnd_def)

lemma catch_Inr: "m s = (Inr x, s') \<Longrightarrow> catch m h s = (Inr x, s')"
  by (simp add: catch_def)

lemma catch_Inl: "m s = (Inl e, s') \<Longrightarrow> catch m h s = h e s'"
  by (simp add: catch_def)

lemma bnd_eq_Inr: "bnd m f s = (Inr y, t) \<longleftrightarrow> (\<exists>x s'. m s = (Inr x, s') \<and> f x s' = (Inr y, t))"
  by (auto simp: bnd_def split: prod.splits sum.splits)

lemma bnd_eq_Inl: "bnd m f s = (Inl e, t) \<longleftrightarrow>
    m s = (Inl e, t) \<or> (\<exists>x s'. m s = (Inr x, s') \<and> f x s' = (Inl e, t))"
  by (auto simp: bnd_def split: prod.splits sum.splits)

lemma catch_eq: "catch m h s = (r, t) \<longleftrightarrow>
    (\<exists>x. m s = (Inr x, t) \<and> r = Inr x) \<or> (\<exists>e s'. m s = (Inl e, s') \<and> h e s' = (r, t))"
  by (auto simp: catch_def split: prod.splits sum.splits)

lemma succeeds_eq: "succeeds m s = (r, t) \<longleftrightarrow>
    (\<exists>x. m s = (Inr x, t) \<and> r = Inr True) \<or> (\<exists>e. m s = (Inl e, t) \<and> r = Inr False)"
  by (auto simp: succeeds_def catch_def bnd_def ret_def split: prod.splits sum.splits)

section \<open>Events and the world\<close>

datatype event =
    Rpc string string json
  | Clock
  | Sleep int
  | Host string "json list"
  | NetConnect string
  | NetWrite string
  | NetRead nat string
  | NetAtEof
  | NetClose
  | Deliver nat json

type_synonym outcome = "exn + json"

record world =
  history :: "(event \<times> outcome) list"
  answer :: "(event \<times> outcome) list \<Rightarrow> event \<Rightarrow> outcome"

definition perform :: "event \<Rightarrow> ('z world_scheme, json) io" where
  "perform e w = (let v = answer w (history w) e in (v, w\<lparr>history := history w @ [(e, v)]\<rparr>))"

text \<open>Reading and writing the fields of a component's own state.\<close>

definition gets :: "('s \<Rightarrow> 'a) \<Rightarrow> ('s, 'a) io" where
  "gets f s = (Inr (f s), s)"

definition modify :: "('s \<Rightarrow> 's) \<Rightarrow> ('s, unit) io" where
  "modify f s = (Inr (), f s)"

text \<open>\<^verbatim>\<open>await mcpd.request(method, params)\<close> on the transport of a target.\<close>

definition rpc :: "string \<Rightarrow> string \<Rightarrow> json \<Rightarrow> ('z world_scheme, json) io" where
  "rpc target method params = perform (Rpc target method params)"

definition host :: "string \<Rightarrow> json list \<Rightarrow> ('z world_scheme, json) io" where
  "host op args = perform (Host op args)"

text \<open>\<^verbatim>\<open>await asyncio.sleep(t)\<close>, in milliseconds; sleeping does not fail.\<close>

definition sleep :: "int \<Rightarrow> ('z world_scheme, unit) io" where
  "sleep ms w = (Inr (), snd (perform (Sleep ms) w))"

text \<open>\<^verbatim>\<open>time.monotonic()\<close>, in microseconds; reading the clock does not fail.\<close>

fun as_int :: "json \<Rightarrow> int" where
  "as_int (JInt i) = i"
| "as_int _ = 0"

definition now :: "('z world_scheme, int) io" where
  "now w = (Inr (case fst (perform Clock w) of Inr v \<Rightarrow> as_int v | Inl _ \<Rightarrow> 0),
            snd (perform Clock w))"

lemma perform_fields [simp]:
  "answer (snd (perform e w)) = answer w"
  "history (snd (perform e w)) = history w @ [(e, answer w (history w) e)]"
  "fst (perform e w) = answer w (history w) e"
  by (simp_all add: perform_def Let_def)

section \<open>What a computation may do\<close>

text \<open>\<open>grows P s s'\<close>: the history of \<open>s'\<close> is that of \<open>s\<close> and some further events, all satisfying \<open>P\<close>.\<close>

definition new_events :: "'z world_scheme \<Rightarrow> 'z world_scheme \<Rightarrow> (event \<times> outcome) list" where
  "new_events s s' = drop (length (history s)) (history s')"

definition grows :: "(event \<times> outcome \<Rightarrow> bool) \<Rightarrow> 'z world_scheme \<Rightarrow> 'z world_scheme \<Rightarrow> bool" where
  "grows P s s' \<longleftrightarrow> answer s' = answer s \<and>
     (\<exists>es. history s' = history s @ es \<and> (\<forall>e \<in> set es. P e))"

lemma grows_refl [simp]: "grows P s s"
  by (simp add: grows_def)

lemma grows_trans: "grows P s t \<Longrightarrow> grows P t u \<Longrightarrow> grows P s u"
  by (fastforce simp: grows_def)

lemma grows_mono: "grows P s t \<Longrightarrow> (\<And>e. P e \<Longrightarrow> Q e) \<Longrightarrow> grows Q s t"
  by (fastforce simp: grows_def)

lemma grows_new_events: "grows P s s' \<Longrightarrow> history s' = history s @ new_events s s' \<and> (\<forall>e \<in> set (new_events s s'). P e)"
  by (auto simp: grows_def new_events_def)

lemma new_events_trans:
  "grows P s t \<Longrightarrow> grows Q t u \<Longrightarrow> new_events s u = new_events s t @ new_events t u"
  by (auto simp: grows_def new_events_def)

lemma new_events_same [simp]: "new_events s s = []"
  by (simp add: new_events_def)

definition emits :: "(event \<times> outcome \<Rightarrow> bool) \<Rightarrow> ('z world_scheme, 'a) io \<Rightarrow> bool" where
  "emits P m \<longleftrightarrow> (\<forall>w r w'. m w = (r, w') \<longrightarrow>
     answer w' = answer w \<and> (\<exists>es. history w' = history w @ es \<and> (\<forall>e \<in> set es. P e)))"

lemma emits_grows: "emits P m \<Longrightarrow> m s = (r, s') \<Longrightarrow> grows P s s'"
  by (auto simp: emits_def grows_def)

lemma emitsI:
  assumes "\<And>w r w'. m w = (r, w') \<Longrightarrow>
     answer w' = answer w \<and> (\<exists>es. history w' = history w @ es \<and> (\<forall>e \<in> set es. P e))"
  shows "emits P m"
  using assms unfolding emits_def by blast

lemma emitsD:
  assumes "emits P m" "m w = (r, w')"
  obtains es where "history w' = history w @ es" "\<forall>e \<in> set es. P e" "answer w' = answer w"
  using assms unfolding emits_def by blast

lemma emits_ret [emits]: "emits P (ret x)"
  by (simp add: emits_def ret_def)

lemma emits_raise [emits]: "emits P (raise e)"
  by (simp add: emits_def raise_def)

lemma emits_gets [emits]: "emits P (gets f)"
  by (simp add: emits_def gets_def)

lemma emits_modify [emits]:
  "(\<And>s. answer (f s) = answer s \<and> history (f s) = history s) \<Longrightarrow> emits P (modify f)"
  by (simp add: emits_def modify_def)

lemma emits_then:
  assumes "emits P m" "m w = (r, w1)" "emits P m'" "m' w1 = (r', w')"
  shows "answer w' = answer w \<and> (\<exists>es. history w' = history w @ es \<and> (\<forall>e \<in> set es. P e))"
proof -
  obtain es where "history w1 = history w @ es" "\<forall>e \<in> set es. P e" "answer w1 = answer w"
    using assms(1,2) by (rule emitsD)
  moreover obtain es' where "history w' = history w1 @ es'" "\<forall>e \<in> set es'. P e" "answer w' = answer w1"
    using assms(3,4) by (rule emitsD)
  ultimately show ?thesis by auto
qed

lemma emits_bnd [emits]:
  assumes m: "emits P m" and f: "\<And>x. emits P (f x)"
  shows "emits P (bnd m f)"
proof (rule emitsI)
  fix w r w' assume run: "bnd m f w = (r, w')"
  obtain r1 w1 where r1: "m w = (r1, w1)" by force
  show "answer w' = answer w \<and> (\<exists>es. history w' = history w @ es \<and> (\<forall>e \<in> set es. P e))"
  proof (cases r1)
    case (Inl e)
    with run r1 m show ?thesis unfolding bnd_def by (auto elim: emitsD)
  next
    case (Inr x)
    with run r1 have "f x w1 = (r, w')" by (simp add: bnd_def)
    with m r1 f show ?thesis by (rule emits_then)
  qed
qed

lemma emits_catch [emits]:
  assumes m: "emits P m" and h: "\<And>e. emits P (h e)"
  shows "emits P (catch m h)"
proof (rule emitsI)
  fix w r w' assume run: "catch m h w = (r, w')"
  obtain r1 w1 where r1: "m w = (r1, w1)" by force
  show "answer w' = answer w \<and> (\<exists>es. history w' = history w @ es \<and> (\<forall>e \<in> set es. P e))"
  proof (cases r1)
    case (Inr e)
    with run r1 m show ?thesis unfolding catch_def by (auto elim: emitsD)
  next
    case (Inl x)
    with run r1 have "h x w1 = (r, w')" by (simp add: catch_def)
    with m r1 h show ?thesis by (rule emits_then)
  qed
qed

lemma emits_perform [emits]: "(\<And>v. P (e, v)) \<Longrightarrow> emits P (perform e)"
  by (simp add: emits_def perform_def Let_def)

lemma emits_rpc [emits]: "(\<And>v. P (Rpc t m p, v)) \<Longrightarrow> emits P (rpc t m p)"
  by (simp add: rpc_def emits_perform)

lemma emits_host [emits]: "(\<And>v. P (Host op args, v)) \<Longrightarrow> emits P (host op args)"
  by (simp add: host_def emits_perform)

lemma emits_sleep [emits]: "(\<And>v. P (Sleep t, v)) \<Longrightarrow> emits P (sleep t)"
  by (simp add: emits_def sleep_def perform_def Let_def)

lemma emits_now [emits]: "(\<And>v. P (Clock, v)) \<Longrightarrow> emits P now"
  by (simp add: emits_def now_def perform_def Let_def)

lemma emits_succeeds [emits]: "emits P m \<Longrightarrow> emits P (succeeds m)"
  unfolding succeeds_def by (intro emits_catch emits_bnd emits_ret)

lemma emits_ignoring [emits]: "emits P m \<Longrightarrow> emits P (ignoring m)"
  unfolding ignoring_def by (intro emits_catch emits_bnd emits_ret)

lemma emits_prod [emits]: "(\<And>x y. p = (x, y) \<Longrightarrow> emits P (f x y)) \<Longrightarrow> emits P (case p of (x, y) \<Rightarrow> f x y)"
  by (cases p) auto

lemma emits_sum [emits]:
  "(\<And>e. r = Inl e \<Longrightarrow> emits P (f e)) \<Longrightarrow> (\<And>x. r = Inr x \<Longrightarrow> emits P (g x)) \<Longrightarrow>
   emits P (case r of Inl e \<Rightarrow> f e | Inr x \<Rightarrow> g x)"
  by (cases r) auto

lemma emits_whenM [emits]: "(b \<Longrightarrow> emits P m) \<Longrightarrow> emits P (whenM b m)"
  by (cases b) (simp_all add: whenM_def emits_ret)

lemma emits_if [emits]: "(b \<Longrightarrow> emits P m) \<Longrightarrow> (\<not> b \<Longrightarrow> emits P m') \<Longrightarrow> emits P (if b then m else m')"
  by simp

lemma emits_for_each [emits]: "(\<And>x. x \<in> set xs \<Longrightarrow> emits P (f x)) \<Longrightarrow> emits P (for_each f xs)"
  by (induction xs) (auto intro!: emits_ret emits_bnd)

lemma emits_option [emits]:
  "(x = None \<Longrightarrow> emits P m) \<Longrightarrow> (\<And>v. x = Some v \<Longrightarrow> emits P (f v)) \<Longrightarrow>
   emits P (case x of None \<Rightarrow> m | Some v \<Rightarrow> f v)"
  by (cases x) auto

lemma emits_exn [emits]:
  "(\<And>t m. e = PyErr t m \<Longrightarrow> emits P (f t m)) \<Longrightarrow> (\<And>c m d. e = RpcErr c m d \<Longrightarrow> emits P (g c m d)) \<Longrightarrow>
   emits P (case e of PyErr t m \<Rightarrow> f t m | RpcErr c m d \<Rightarrow> g c m d)"
  by (cases e) auto

lemma emits_list [emits]:
  "(xs = [] \<Longrightarrow> emits P m) \<Longrightarrow> (\<And>y ys. xs = y # ys \<Longrightarrow> emits P (f y ys)) \<Longrightarrow>
   emits P (case xs of [] \<Rightarrow> m | y # ys \<Rightarrow> f y ys)"
  by (cases xs) auto

lemma emits_mono: "emits P m \<Longrightarrow> (\<And>e. P e \<Longrightarrow> Q e) \<Longrightarrow> emits Q m"
  by (fastforce simp: emits_def)

lemma now_run: obtains t s0 where "now s = (Inr t, s0)" "snd (now s) = s0"
  by (simp add: now_def)

lemma now_events:
  "now s = (Inr t, s') \<Longrightarrow> \<exists>v. history s' = history s @ [(Clock, v)] \<and> answer s' = answer s \<and> s' = s\<lparr>history := history s'\<rparr>"
  by (auto simp: now_def perform_def Let_def)

lemma now_grows: "now s = (r, s') \<Longrightarrow> grows (\<lambda>_. True) s s'"
  by (rule emits_grows [OF emits_now]) simp_all

section \<open>Invariants of a component's state\<close>

definition preserves :: "('s \<Rightarrow> bool) \<Rightarrow> ('s, 'a) io \<Rightarrow> bool" where
  "preserves I m \<longleftrightarrow> (\<forall>s r s'. m s = (r, s') \<longrightarrow> I s \<longrightarrow> I s')"

lemma preservesD: "preserves I m \<Longrightarrow> m s = (r, s') \<Longrightarrow> I s \<Longrightarrow> I s'"
  unfolding preserves_def by blast

lemma preserves_snd: "preserves I m \<Longrightarrow> I s \<Longrightarrow> I (snd (m s))"
  by (cases "m s") (auto dest: preservesD)

lemma preserves_ret [kept]: "preserves I (ret x)"
  by (simp add: preserves_def ret_def)

lemma preserves_raise [kept]: "preserves I (raise e)"
  by (simp add: preserves_def raise_def)

lemma preserves_gets [kept]: "preserves I (gets f)"
  by (simp add: preserves_def gets_def)

lemma preserves_modify [kept]: "(\<And>s. I s \<Longrightarrow> I (f s)) \<Longrightarrow> preserves I (modify f)"
  by (simp add: preserves_def modify_def)

lemma preserves_bnd [kept]: "preserves I m \<Longrightarrow> (\<And>x. preserves I (f x)) \<Longrightarrow> preserves I (bnd m f)"
  unfolding preserves_def bnd_def by (fastforce split: prod.splits sum.splits)

lemma preserves_catch [kept]: "preserves I m \<Longrightarrow> (\<And>e. preserves I (h e)) \<Longrightarrow> preserves I (catch m h)"
  unfolding preserves_def catch_def by (fastforce split: prod.splits sum.splits)

lemma preserves_perform [kept]:
  "(\<And>s h. I s \<Longrightarrow> I (s\<lparr>history := h\<rparr>)) \<Longrightarrow> preserves I (perform e)"
  by (simp add: preserves_def perform_def Let_def)

lemma preserves_sleep [kept]: "(\<And>s h. I s \<Longrightarrow> I (s\<lparr>history := h\<rparr>)) \<Longrightarrow> preserves I (sleep t)"
  by (simp add: preserves_def sleep_def perform_def Let_def)

lemma preserves_now [kept]: "(\<And>s h. I s \<Longrightarrow> I (s\<lparr>history := h\<rparr>)) \<Longrightarrow> preserves I now"
  by (simp add: preserves_def now_def perform_def Let_def)

lemma preserves_succeeds [kept]: "preserves I m \<Longrightarrow> preserves I (succeeds m)"
  unfolding succeeds_def by (intro kept)

lemma preserves_whenM [kept]: "(b \<Longrightarrow> preserves I m) \<Longrightarrow> preserves I (whenM b m)"
  by (cases b) (simp_all add: whenM_def kept)

lemma preserves_if [kept]:
  "(b \<Longrightarrow> preserves I m) \<Longrightarrow> (\<not> b \<Longrightarrow> preserves I m') \<Longrightarrow> preserves I (if b then m else m')"
  by simp

lemma preserves_for_each [kept]: "(\<And>x. x \<in> set xs \<Longrightarrow> preserves I (f x)) \<Longrightarrow> preserves I (for_each f xs)"
  by (induction xs) (auto intro!: preserves_ret preserves_bnd)

lemma preserves_option [kept]:
  "(x = None \<Longrightarrow> preserves I m) \<Longrightarrow> (\<And>v. x = Some v \<Longrightarrow> preserves I (f v)) \<Longrightarrow>
   preserves I (case x of None \<Rightarrow> m | Some v \<Rightarrow> f v)"
  by (cases x) auto

lemma preserves_exn [kept]:
  "(\<And>t m. e = PyErr t m \<Longrightarrow> preserves I (f t m)) \<Longrightarrow> (\<And>c m d. e = RpcErr c m d \<Longrightarrow> preserves I (g c m d)) \<Longrightarrow>
   preserves I (case e of PyErr t m \<Rightarrow> f t m | RpcErr c m d \<Rightarrow> g c m d)"
  by (cases e) auto

section \<open>Scripted environments\<close>

text \<open>
  An environment that gives its n-th answer from a list, for the concrete runs of the witnesses;
  after the list every operation times out.
\<close>

definition scripted :: "outcome list \<Rightarrow> (event \<times> outcome) list \<Rightarrow> event \<Rightarrow> outcome" where
  "scripted os h e = (if length h < length os then os ! length h else Inl (PyErr TimeoutError []))"

end
