(* ===== verification/Framing.thy ===== *)
theory Framing
  imports Effects
begin

text \<open>
  Byte streams and framed messages.  A peer that sends a fixed sequence of bytes is an environment
  \<open>streams bytes\<close>; \<open>unread bytes s\<close> is what the reader in state \<open>s\<close> has not read yet.  The locale
  \<open>framing\<close> is the contract between a transport's writer and its reader: a frame at the head of
  the stream is received as the message, and the rest of the stream is left.  From it follows that
  the reader receives any sequence of messages as it was sent (\<open>receive_all\<close>) and that frames are
  injective (\<open>frame_inj\<close>).  Both transports interpret it.
\<close>

text \<open>\<^verbatim>\<open>readexactly(n)\<close>: n bytes, or an exception; fewer bytes are an \<^verbatim>\<open>IncompleteReadError\<close>.\<close>

definition readexactly :: "nat \<Rightarrow> string \<Rightarrow> ('z world_scheme, string) io" where
  "readexactly n tmo = bnd (perform (NetRead n tmo)) (\<lambda>v. case v of
       JStr b \<Rightarrow> if length b = n then ret b else raise (PyErr IncompleteReadError [])
     | _ \<Rightarrow> raise (PyErr IncompleteReadError []))"

lemma emits_readexactly [emits]: "(\<And>v. P (NetRead n tmo, v)) \<Longrightarrow> emits P (readexactly n tmo)"
  unfolding readexactly_def by (auto intro!: emits split: json.splits)

lemma preserves_readexactly [kept]:
  "(\<And>s h. I s \<Longrightarrow> I (s\<lparr>history := h\<rparr>)) \<Longrightarrow> preserves I (readexactly n tmo)"
  unfolding readexactly_def by (auto intro!: kept split: json.splits)

lemma readexactly_length: "readexactly n tmo s = (Inr b, s') \<Longrightarrow> length b = n"
  by (auto simp: readexactly_def bnd_def ret_def raise_def split: prod.splits sum.splits json.splits if_splits)

section \<open>A peer that sends a fixed sequence of bytes\<close>

fun read_size :: "event \<times> outcome \<Rightarrow> nat" where
  "read_size (NetRead n _, Inr (JStr b)) = length b"
| "read_size _ = 0"

definition consumed :: "(event \<times> outcome) list \<Rightarrow> nat" where
  "consumed h = sum_list (map read_size h)"

definition streams :: "string \<Rightarrow> 'z world_scheme \<Rightarrow> bool" where
  "streams bytes s \<longleftrightarrow> (\<forall>h n t. answer s h (NetRead n t) =
     (if consumed h + n \<le> length bytes then Inr (JStr (take n (drop (consumed h) bytes)))
      else Inl (PyErr IncompleteReadError []))) \<and> (\<forall>h b. \<not> isl (answer s h (NetWrite b)))"

definition unread :: "string \<Rightarrow> 'z world_scheme \<Rightarrow> string" where
  "unread bytes s = drop (consumed (history s)) bytes"

definition awaits :: "string \<Rightarrow> 'z world_scheme \<Rightarrow> bool" where
  "awaits r s \<longleftrightarrow> (\<exists>bytes. streams bytes s \<and> unread bytes s = r)"

lemma consumed_snoc [simp]: "consumed (h @ [e]) = consumed h + read_size e"
  by (simp add: consumed_def)

lemma readexactly_stream:
  assumes "awaits (x @ r) s" "length x = n" "0 < n"
  shows "readexactly n tmo s = (Inr x, s\<lparr>history := history s @ [(NetRead n tmo, Inr (JStr x))]\<rparr>) \<and>
    awaits r (s\<lparr>history := history s @ [(NetRead n tmo, Inr (JStr x))]\<rparr>)"
proof -
  obtain bytes where b: "streams bytes s" "drop (consumed (history s)) bytes = x @ r"
    using assms(1) by (auto simp: awaits_def unread_def)
  have "length bytes - consumed (history s) = n + length r"
    using arg_cong [OF b(2), of length] assms(2) by simp
  then have "consumed (history s) + n \<le> length bytes" using assms(3) by simp
  with b assms(2) have a: "answer s (history s) (NetRead n tmo) = Inr (JStr x)"
    by (simp add: streams_def)
  have "drop (n + consumed (history s)) bytes = r"
    using b(2) assms(2) by (metis append_eq_conv_conj drop_drop)
  with b(1) assms(2) a show ?thesis
    by (auto simp: readexactly_def bnd_def perform_def Let_def ret_def awaits_def unread_def
        streams_def add.commute intro!: exI [of _ bytes])
qed

lemma awaits_write:
  assumes "awaits r s" "perform (NetWrite b) s = (v, s')"
  shows "awaits r s' \<and> \<not> isl v"
  using assms by (fastforce simp: awaits_def perform_def Let_def streams_def unread_def)

section \<open>The contract of a transport's frames\<close>

fun receive_n :: "('s \<Rightarrow> ('m \<times> 's) option) \<Rightarrow> nat \<Rightarrow> 's \<Rightarrow> ('m list \<times> 's) option" where
  "receive_n rcv 0 s = Some ([], s)"
| "receive_n rcv (Suc n) s = (case rcv s of None \<Rightarrow> None
     | Some (m, s') \<Rightarrow> map_option (\<lambda>(ms, s''). (m # ms, s'')) (receive_n rcv n s'))"

locale framing =
  fixes frame :: "'m \<Rightarrow> string"
    and good :: "'m \<Rightarrow> bool"
    and receive :: "'s \<Rightarrow> ('m \<times> 's) option"
    and ready :: "string \<Rightarrow> 's \<Rightarrow> bool"
  assumes receive_frame: "good m \<Longrightarrow> ready (frame m @ r) s \<Longrightarrow> \<exists>s'. receive s = Some (m, s') \<and> ready r s'"
begin

lemma receive_all:
  "list_all good ms \<Longrightarrow> ready (concat (map frame ms) @ r) s \<Longrightarrow>
   \<exists>s'. receive_n receive (length ms) s = Some (ms, s') \<and> ready r s'"
proof (induction ms arbitrary: s)
  case (Cons m ms)
  then obtain s' where "receive s = Some (m, s')" "ready (concat (map frame ms) @ r) s'"
    using receive_frame [of m "concat (map frame ms) @ r" s] by auto
  with Cons show ?case by fastforce
qed simp

lemma frame_inj:
  assumes "good m" "good m'" "ready (frame m @ r) s" "frame m @ r = frame m' @ r'"
  shows "m = m' \<and> (\<exists>s'. ready r s' \<and> ready r' s')"
  using receive_frame [OF assms(1,3)] receive_frame [of m' r' s] assms by auto

end

end
