(* ===== verification/Mcpd.thy ===== *)
theory Mcpd
  imports Framing
begin

text \<open>
  The MCPd transport (\<^verbatim>\<open>transports/mcpd.py\<close>): JSON-RPC 2.0 over a TCP connection with frames of a
  big-endian length and a UTF-8 body.  \<open>mcpd\<close> is the state of one \<^verbatim>\<open>McpdTransport\<close>; its lock is
  the sequential composition of the model.  The socket is the environment: connecting, writing,
  reading exactly n bytes, asking for end of file and closing are events with arbitrary outcomes.

  The loop that waits for the response may not end (a daemon may send notifications for ever), so
  \<open>read_response\<close> and \<open>request\<close> return an option, \<open>None\<close> when the code does not return.

  Not modelled: the text the JSON and UTF-8 decoders put into their own exceptions, and handlers
  that use the transport they are subscribed to.
\<close>

section \<open>Constants and state\<close>

definition error_class :: "int \<Rightarrow> rpc_class" where
  "error_class c = (case map_of
     [(-32700, ParseError), (-32600, InvalidParams), (-32601, MethodNotFound), (-32602, InvalidParams),
      (-32603, InternalError), (-32001, TargetError), (-32002, Cancelled), (-32003, NotCapable),
      (-32004, AuthRequired), (-32005, Busy)] c of Some k \<Rightarrow> k | None \<Rightarrow> JsonRpcError)"

definition MAX_FRAME_BYTES :: nat where
  "MAX_FRAME_BYTES = 32 * 1024 * 1024"

definition WARMUP_ID_BASE :: int where
  "WARMUP_ID_BASE = -100"

definition MUTATING_METHODS :: "string list" where
  "MUTATING_METHODS = [''fs.write'', ''fs.write_chunk'', ''fs.delete'', ''fs.makedir'',
     ''fs.rename'', ''fs.protect'', ''fs.copy'', ''exec.cmd'']"

definition IDEMPOTENT_METHODS :: "string list" where
  "IDEMPOTENT_METHODS = [''proto.capabilities'', ''proto.version'',
     ''sys.version'', ''sys.tasks'', ''sys.libraries'', ''sys.devices'',
     ''sys.modules'', ''sys.crashhook_status'', ''sys.ports'', ''sys.lastalert'',
     ''sys.uptime'', ''sys.memory'', ''sys.volumes'', ''sys.assigns'',
     ''sys.hardware'', ''sys.hardware.perfcounters'',
     ''sys.executable.symbols'', ''sys.applications'', ''sys.alert_decode'',
     ''sys.read_ccsr'', ''sys.tlb_dump'',
     ''fs.list'', ''fs.stat'', ''fs.read'', ''fs.hash'', ''fs.sync'',
     ''wb.screens'', ''wb.windows'', ''wb.publicscreens'', ''wb.frontmost'',
     ''wb.screenshot'', ''input.state'',
     ''debug.task_snapshot'', ''debug.symbol'', ''debug.stacktrace'',
     ''exec.status'', ''exec.output'', ''exec.list'']"

text \<open>In microseconds: 100 s.\<close>

definition STALE_AFTER :: int where
  "STALE_AFTER = 100000000"

definition describe :: "py_type \<Rightarrow> string \<Rightarrow> string" where
  "describe t m = (if m \<noteq> [] then m else type_name t)"

record mcpd = world +
  endpoint :: string
  connected :: bool
  next_id :: int
  notification_q :: "json list"
  notification_handlers :: "nat list"
  last_write_at :: "int option"
  last_io_at :: "int option"

text \<open>\<^verbatim>\<open>self._last_io_at = time.monotonic()\<close>.\<close>

definition touch :: "(mcpd, unit) io" where
  "touch = bnd now (\<lambda>t. modify (\<lambda>s. s\<lparr>last_io_at := Some t\<rparr>))"

section \<open>Notifications\<close>

definition subscribe_notifications :: "nat \<Rightarrow> (mcpd, unit) io" where
  "subscribe_notifications h =
     modify (\<lambda>s. s\<lparr>notification_handlers := notification_handlers s @ [h]\<rparr>)"

definition unsubscribe :: "nat \<Rightarrow> (mcpd, unit) io" where
  "unsubscribe h = modify (\<lambda>s. s\<lparr>notification_handlers := remove1 h (notification_handlers s)\<rparr>)"

text \<open>Pop one queued notification; with an empty queue the call waits out its timeout and gives \<open>None\<close>.\<close>

definition get_notification :: "(mcpd, json option) io" where
  "get_notification = bnd (gets notification_q) (\<lambda>q. case q of
       [] \<Rightarrow> ret None
     | n # q' \<Rightarrow> bnd (modify (\<lambda>s. s\<lparr>notification_q := q'\<rparr>)) (\<lambda>_. ret (Some n)))"

definition dispatch_notification :: "json \<Rightarrow> (mcpd, unit) io" where
  "dispatch_notification obj =
     bnd (modify (\<lambda>s. s\<lparr>notification_q := notification_q s @ [obj]\<rparr>)) (\<lambda>_.
     bnd (gets notification_handlers) (\<lambda>hs.
     bnd (for_each (\<lambda>h. succeeds (perform (Deliver h obj))) hs) (\<lambda>_. ret ())))"

section \<open>Connection\<close>

definition ensure_connected :: "(mcpd, unit) io" where
  "ensure_connected = bnd (gets connected) (\<lambda>c.
     if c then ret ()
     else bnd (gets endpoint) (\<lambda>ep.
       bnd (catch (perform (NetConnect ep)) (\<lambda>e. case e of
            PyErr t m \<Rightarrow> if is_os_error t
              then raise (RpcErr TargetError (''MCPd not reachable at '' @ ep)
                     (Some (JObj [(''endpoint'', JStr ep), (''error'', JStr m)])))
              else raise e
          | _ \<Rightarrow> raise e)) (\<lambda>_.
       bnd (modify (\<lambda>s. s\<lparr>connected := True\<rparr>)) (\<lambda>_. touch))))"

definition at_eof :: "(mcpd, bool) io" where
  "at_eof s = (Inr (fst (perform NetAtEof s) = Inr (JBool True)), snd (perform NetAtEof s))"

definition is_stale :: "(mcpd, bool) io" where
  "is_stale = bnd (gets connected) (\<lambda>c.
     if \<not> c then ret False
     else bnd at_eof (\<lambda>eof.
       if eof then ret True
       else bnd (gets last_io_at) (\<lambda>l. case l of
           None \<Rightarrow> ret False
         | Some t0 \<Rightarrow> bnd now (\<lambda>t. ret (t - t0 > STALE_AFTER)))))"

definition close_locked :: "(mcpd, unit) io" where
  "close_locked = bnd (gets connected) (\<lambda>c.
     bnd (modify (\<lambda>s. s\<lparr>connected := False, last_io_at := None\<rparr>)) (\<lambda>_.
     whenM c (bnd (catch (perform NetClose) (\<lambda>e. case e of
         PyErr t m \<Rightarrow> if is_os_error t then ret JNull else raise e
       | _ \<Rightarrow> raise e)) (\<lambda>_. ret ()))))"

section \<open>Frames\<close>

definition read_frame :: "string \<Rightarrow> (mcpd, string) io" where
  "read_frame tmo = bnd (gets connected) (\<lambda>c.
     if \<not> c then raise (PyErr AssertionError [])
     else bnd (readexactly 4 tmo) (\<lambda>hdr.
       let n = be_val hdr in
       if n = 0 \<or> n > MAX_FRAME_BYTES
       then raise (RpcErr InternalError (''bad frame length: '' @ nat_dec n) None)
       else readexactly n tmo))"

definition frame_bytes :: "string \<Rightarrow> string" where
  "frame_bytes payload = be_bytes 4 (length payload) @ payload"

definition send_frame :: "string \<Rightarrow> (mcpd, unit) io" where
  "send_frame payload = bnd (gets connected) (\<lambda>c.
     if \<not> c then raise (PyErr AssertionError [])
     else if length payload > MAX_FRAME_BYTES
     then raise (RpcErr InternalError (''frame too large: '' @ nat_dec (length payload)) None)
     else bnd (perform (NetWrite (frame_bytes payload))) (\<lambda>_. ret ()))"

text \<open>The exceptions both handlers of the transport treat as a lost connection.\<close>

fun net_error :: "exn \<Rightarrow> bool" where
  "net_error (PyErr t m) = (t = IncompleteReadError \<or> is_os_error t)"
| "net_error (RpcErr _ _ _) = False"

definition warmup_payload :: "nat \<Rightarrow> string" where
  "warmup_payload i = json_dumps (JObj [(''jsonrpc'', JStr ''2.0''),
     (''id'', JInt (WARMUP_ID_BASE - int i)), (''method'', JStr ''sys.uptime'')])"

text \<open>
  One warmup probe.  \<open>True\<close> means carry on with the next, \<open>False\<close> that the daemon could not be
  reached again and the warmup returns early.
\<close>

definition warmup_probe :: "nat \<Rightarrow> (mcpd, bool) io" where
  "warmup_probe i =
     bnd (catch
       (bnd (send_frame (warmup_payload i)) (\<lambda>_.
        catch (bnd (read_frame ''2.0'') (\<lambda>_. ret True)) (\<lambda>e. if net_error e then ret True else raise e)))
       (\<lambda>e. if net_error e
            then bnd close_locked (\<lambda>_.
                 catch (bnd ensure_connected (\<lambda>_. ret True)) (\<lambda>e'. case e' of
                   RpcErr TargetError m d \<Rightarrow> ret False
                 | _ \<Rightarrow> raise e'))
            else raise e)) (\<lambda>go.
     if go then bnd (sleep 100) (\<lambda>_. ret True) else ret False)"

definition warmup_locked :: "(mcpd, unit) io" where
  "warmup_locked = bnd (warmup_probe 0) (\<lambda>go. whenM go (bnd (warmup_probe 1) (\<lambda>_. ret ())))"

section \<open>Values as Python sees them\<close>

text \<open>
  The parts of a float's text: sign, digits without the point, and the power of ten that scales
  them.  \<open>NaN\<close> and the infinities have none.
\<close>

definition float_parts :: "string \<Rightarrow> (bool \<times> nat \<times> int) option" where
  "float_parts s = (let neg = startswith s ''-''; s1 = (if neg then drop 1 s else s);
       (ip, r1) = take_digits s1; (fr, r2) = parse_frac r1;
       ex = (case parse_exp r2 of (e, _) \<Rightarrow> drop 1 e);
       eneg = startswith ex ''-'';
       ed = (if eneg \<or> startswith ex ''+'' then drop 1 ex else ex);
       e = (if eneg then - int (digits_val 10 ed) else int (digits_val 10 ed))
     in if ip = [] then None
        else Some (neg, digits_val 10 (ip @ drop 1 fr), e - int (length (drop 1 fr))))"

text \<open>\<^verbatim>\<open>v == n\<close> for an integer n: booleans and floats compare by value.\<close>

fun eq_int :: "json \<Rightarrow> int \<Rightarrow> bool" where
  "eq_int (JInt i) n = (i = n)"
| "eq_int (JBool b) n = ((if b then 1 else 0) = n)"
| "eq_int (JFloat s) n = (case float_parts s of None \<Rightarrow> False
     | Some (neg, m, e) \<Rightarrow> (let v = (if neg then - int m else int m)
         in if 0 \<le> e then v * 10 ^ nat e = n else v = n * 10 ^ nat (- e)))"
| "eq_int _ n = False"

text \<open>\<^verbatim>\<open>int(v)\<close>; a float is truncated towards zero.\<close>

definition parse_int :: "string \<Rightarrow> exn + int" where
  "parse_int s = (let t = strip s; neg = startswith t ''-'';
       ds = (if neg \<or> startswith t ''+'' then drop 1 t else t)
     in if ds \<noteq> [] \<and> list_all is_digit ds
        then Inr (if neg then - int (digits_val 10 ds) else int (digits_val 10 ds))
        else Inl (PyErr ValueError (''invalid literal for int() with base 10: '' @ py_repr s)))"

fun py_int :: "json \<Rightarrow> exn + int" where
  "py_int (JInt i) = Inr i"
| "py_int (JBool b) = Inr (if b then 1 else 0)"
| "py_int (JStr s) = parse_int s"
| "py_int (JFloat s) = (case float_parts s of None \<Rightarrow>
       Inl (PyErr (if s = ''NaN'' then ValueError else OtherError ''OverflowError'') [])
     | Some (neg, m, e) \<Rightarrow> (let a = (if 0 \<le> e then int m * 10 ^ nat e else int m div 10 ^ nat (- e))
         in Inr (if neg then - a else a)))"
| "py_int _ = Inl (PyErr TypeError [])"

text \<open>\<^verbatim>\<open>str(v)\<close> of a decoded value.\<close>

fun py_repr_json :: "json \<Rightarrow> string"
  and repr_elems :: "json list \<Rightarrow> string"
  and repr_members :: "(string \<times> json) list \<Rightarrow> string" where
  "py_repr_json JNull = ''None''"
| "py_repr_json (JBool b) = (if b then ''True'' else ''False'')"
| "py_repr_json (JInt i) = int_dec i"
| "py_repr_json (JFloat s) = s"
| "py_repr_json (JStr s) = py_repr s"
| "py_repr_json (JArr xs) = ''['' @ repr_elems xs @ '']''"
| "py_repr_json (JObj kvs) = ''{'' @ repr_members kvs @ ''}''"
| "repr_elems [] = []"
| "repr_elems [x] = py_repr_json x"
| "repr_elems (x # y # ys) = py_repr_json x @ '', '' @ repr_elems (y # ys)"
| "repr_members [] = []"
| "repr_members [(k, v)] = py_repr k @ '': '' @ py_repr_json v"
| "repr_members ((k, v) # kv # kvs) = py_repr k @ '': '' @ py_repr_json v @ '', '' @ repr_members (kv # kvs)"

fun py_str :: "json \<Rightarrow> string" where
  "py_str (JStr s) = s"
| "py_str j = py_repr_json j"

section \<open>One request\<close>

text \<open>
  What a frame is, seen from a request that waits for the response with a given id.  The tests are
  those of the code on whatever value the JSON text holds: \<^verbatim>\<open>"id" in obj\<close> is a key test on a
  dictionary, a substring test on a string, a membership test on a list, and a \<^verbatim>\<open>TypeError\<close> on
  anything else.  The words of the JSON decoder, which the code appends to the message of a broken
  frame, are left out.
\<close>

datatype frame_kind =
    Broken exn
  | Match json
  | Notify json
  | Late_Warmup
  | Mismatch string

definition is_warmup_id :: "json \<Rightarrow> bool" where
  "is_warmup_id v = (case v of JInt i \<Rightarrow> i \<le> WARMUP_ID_BASE | _ \<Rightarrow> False)"

definition classify :: "int \<Rightarrow> string \<Rightarrow> frame_kind" where
  "classify rid body =
     (case (if utf8_valid body then json_loads body else None) of
       None \<Rightarrow> Broken (RpcErr InternalError ''MCPd returned non-JSON'' None)
     | Some obj \<Rightarrow>
        (case obj of
           JObj kvs \<Rightarrow> (case map_of kvs ''id'' of
               Some v \<Rightarrow> if eq_int v rid then Match obj
                 else if is_warmup_id v then Late_Warmup
                 else Mismatch (''MCPd response id='' @ py_str v @ '' != '' @ int_dec rid)
             | None \<Rightarrow> Notify obj)
         | JStr t \<Rightarrow> if contains ''id'' t then Broken (PyErr TypeError []) else Notify obj
         | JArr xs \<Rightarrow> if JStr ''id'' \<in> set xs then Broken (PyErr TypeError []) else Notify obj
         | _ \<Rightarrow> Broken (PyErr TypeError [])))"

partial_function (option) read_response ::
    "string \<Rightarrow> int \<Rightarrow> mcpd \<Rightarrow> ((exn + json) \<times> mcpd) option" where
  "read_response tmo rid s =
     (case read_frame tmo s of
        (Inl e, s1) \<Rightarrow> Some (Inl e, s1)
      | (Inr body, s1) \<Rightarrow>
         (case classify rid body of
            Broken e \<Rightarrow> Some (Inl e, s1)
          | Match obj \<Rightarrow> Some (Inr obj, s1)
          | Notify obj \<Rightarrow> read_response tmo rid (snd (dispatch_notification obj s1))
          | Late_Warmup \<Rightarrow> read_response tmo rid s1
          | Mismatch msg \<Rightarrow> Some (bnd close_locked (\<lambda>_. raise (RpcErr InternalError msg None)) s1)))"

definition envelope :: "string \<Rightarrow> json option \<Rightarrow> int \<Rightarrow> json" where
  "envelope method params rid = JObj ([(''jsonrpc'', JStr ''2.0''), (''id'', JInt rid),
     (''method'', JStr method)] @ (case params of None \<Rightarrow> [] | Some p \<Rightarrow> [(''params'', p)]))"

text \<open>\<^verbatim>\<open>next(self._next_id)\<close>.\<close>

definition take_id :: "(mcpd, int) io" where
  "take_id s = (Inr (next_id s), s\<lparr>next_id := next_id s + 1\<rparr>)"

text \<open>Everything an attempt does before the request is written; the result is the fresh id.\<close>

definition prepare :: "nat \<Rightarrow> string \<Rightarrow> (mcpd, int) io" where
  "prepare attempt method =
     bnd is_stale (\<lambda>stale.
     bnd (whenM stale close_locked) (\<lambda>_.
     bnd ensure_connected (\<lambda>_.
     bnd (whenM (attempt = 1) warmup_locked) (\<lambda>_.
     bnd (whenM (method \<in> set MUTATING_METHODS)
           (bnd now (\<lambda>t. modify (\<lambda>s. s\<lparr>last_write_at := Some t\<rparr>)))) (\<lambda>_.
     take_id)))))"

datatype attempt_result = Done "exn + json" | Retry

definition transport_data :: "string \<Rightarrow> bool \<Rightarrow> json" where
  "transport_data method sent = JObj [(''method'', JStr method), (''may_have_run'', JBool sent)]"

text \<open>The two \<^verbatim>\<open>except\<close> clauses; any other exception goes through.\<close>

definition on_failure :: "nat \<Rightarrow> string \<Rightarrow> string \<Rightarrow> bool \<Rightarrow> exn \<Rightarrow> mcpd \<Rightarrow> attempt_result \<times> mcpd" where
  "on_failure attempt method tmo sent e s =
     (case e of
        PyErr t m \<Rightarrow>
          (if t = TimeoutError then
             (case close_locked s of
                (Inl e', s') \<Rightarrow> (Done (Inl e'), s')
              | (Inr _, s') \<Rightarrow> (Done (Inl (RpcErr TargetError
                    (''MCPd request timed out after '' @ tmo @ ''s'')
                    (Some (transport_data method sent)))), s'))
           else if net_error e then
             (case close_locked s of
                (Inl e', s') \<Rightarrow> (Done (Inl e'), s')
              | (Inr _, s') \<Rightarrow>
                 (if attempt = 0 \<and> (\<not> sent \<or> method \<in> set IDEMPOTENT_METHODS) then (Retry, s')
                  else (Done (Inl (RpcErr TargetError (''MCPd I/O failed: '' @ describe t m)
                         (Some (transport_data method sent)))), s')))
           else (Done (Inl e), s))
      | RpcErr c m d \<Rightarrow> (Done (Inl e), s))"

definition exchange ::
    "nat \<Rightarrow> string \<Rightarrow> json option \<Rightarrow> string \<Rightarrow> int \<Rightarrow> mcpd \<Rightarrow> (attempt_result \<times> mcpd) option" where
  "exchange attempt method params tmo rid s =
     (case send_frame (json_dumps (envelope method params rid)) s of
        (Inl e, s1) \<Rightarrow> Some (on_failure attempt method tmo False e s1)
      | (Inr _, s1) \<Rightarrow>
         (case read_response tmo rid s1 of
            None \<Rightarrow> None
          | Some (Inl e, s2) \<Rightarrow> Some (on_failure attempt method tmo True e s2)
          | Some (Inr obj, s2) \<Rightarrow> Some (Done (Inr obj), snd (touch s2))))"

definition request_attempt ::
    "nat \<Rightarrow> string \<Rightarrow> json option \<Rightarrow> string \<Rightarrow> mcpd \<Rightarrow> (attempt_result \<times> mcpd) option" where
  "request_attempt attempt method params tmo s =
     (case prepare attempt method s of
        (Inl e, s1) \<Rightarrow> Some (Done (Inl e), s1)
      | (Inr rid, s1) \<Rightarrow> exchange attempt method params tmo rid s1)"

text \<open>The response object: an error is raised as the class of its code.\<close>

definition response_error :: "json \<Rightarrow> exn" where
  "response_error err = (case err of
       JObj kvs \<Rightarrow>
         (case py_int (case map_of kvs ''code'' of Some c \<Rightarrow> c | None \<Rightarrow> JInt (-32603)) of
            Inl e \<Rightarrow> e
          | Inr c \<Rightarrow> RpcErr (error_class c)
              (case map_of kvs ''message'' of Some m \<Rightarrow> py_str m | None \<Rightarrow> ''MCPd error'')
              (case map_of kvs ''data'' of Some JNull \<Rightarrow> None | d \<Rightarrow> d))
     | _ \<Rightarrow> PyErr AttributeError [])"

definition response_value :: "json \<Rightarrow> exn + json" where
  "response_value resp =
     (case jget ''error'' resp of
        Some err \<Rightarrow> Inl (response_error err)
      | None \<Rightarrow> (case jget ''result'' resp of
           None \<Rightarrow> Inl (RpcErr InternalError ''MCPd response had neither result nor error'' None)
         | Some v \<Rightarrow> Inr v))"

definition finish :: "exn + json \<Rightarrow> exn + json" where
  "finish r = (case r of Inl e \<Rightarrow> Inl e | Inr resp \<Rightarrow> response_value resp)"

definition request ::
    "string \<Rightarrow> json option \<Rightarrow> string \<Rightarrow> mcpd \<Rightarrow> ((exn + json) \<times> mcpd) option" where
  "request method params tmo s =
     (case request_attempt 0 method params tmo s of
        None \<Rightarrow> None
      | Some (Done r, s1) \<Rightarrow> Some (finish r, s1)
      | Some (Retry, s1) \<Rightarrow>
         (case request_attempt 1 method params tmo s1 of
            None \<Rightarrow> None
          | Some (Done r, s2) \<Rightarrow> Some (finish r, s2)
          | Some (Retry, s2) \<Rightarrow> Some (Inl (RpcErr InternalError
               ''MCPd request loop completed without a response''
               (Some (JObj [(''method'', JStr method)]))), s2)))"

end
