(* ===== verification/Mcpd_Correct.thy ===== *)
theory Mcpd_Correct
  imports Mcpd
begin

text \<open>
  Properties of the MCPd transport.  \<open>emits\<close> lemmas say which events each step may add to the
  history; \<open>reads\<close> is the graph of the response loop, for rule induction; \<open>exchange_cases\<close>,
  \<open>attempt_cases\<close> and \<open>request_cases\<close> are the case analyses the theorems use.  Shown are: how
  often a request is written, where a result comes from, what a failed call reports, the
  connection invariant, the delivery of notifications, the framing contract, and the failures the
  handlers let through.  Every theorem ranges over all environments.
\<close>

section \<open>What the parts of a request emit\<close>

definition warmup_frames :: "string list" where
  "warmup_frames = [frame_bytes (warmup_payload 0), frame_bytes (warmup_payload 1)]"

text \<open>A frame that is not a warmup probe and was written without an error.\<close>

fun sent_frame :: "event \<times> outcome \<Rightarrow> bool" where
  "sent_frame (NetWrite b, Inr _) = (b \<notin> set warmup_frames)"
| "sent_frame _ = False"

definition frames_sent :: "mcpd \<Rightarrow> mcpd \<Rightarrow> nat" where
  "frames_sent s s' = length (filter sent_frame (new_events s s'))"

abbreviation quiet :: "event \<times> outcome \<Rightarrow> bool" where
  "quiet e \<equiv> \<not> sent_frame e"

lemma emits_close [emits]: "(\<And>v. P (NetClose, v)) \<Longrightarrow> emits P close_locked"
  unfolding close_locked_def by (auto intro!: emits)

lemma emits_at_eof [emits]: "(\<And>v. P (NetAtEof, v)) \<Longrightarrow> emits P at_eof"
  by (simp add: at_eof_def emits_def)

lemma emits_read_frame [emits]: "(\<And>n v. P (NetRead n tmo, v)) \<Longrightarrow> emits P (read_frame tmo)"
  unfolding read_frame_def by (auto intro!: emits simp: Let_def)

lemma emits_send_frame [emits]:
  "(\<And>v. P (NetWrite (frame_bytes payload), v)) \<Longrightarrow> emits P (send_frame payload)"
  unfolding send_frame_def by (auto intro!: emits)

lemma emits_touch [emits]: "(\<And>v. P (Clock, v)) \<Longrightarrow> emits P touch"
  unfolding touch_def by (auto intro!: emits)

lemma emits_ensure_connected [emits]:
  "(\<And>ep v. P (NetConnect ep, v)) \<Longrightarrow> (\<And>v. P (Clock, v)) \<Longrightarrow> emits P ensure_connected"
  unfolding ensure_connected_def by (auto intro!: emits)

lemma emits_dispatch [emits]: "(\<And>h v. P (Deliver h obj, v)) \<Longrightarrow> emits P (dispatch_notification obj)"
  unfolding dispatch_notification_def by (auto intro!: emits)

lemma quiet_warmup: "i < 2 \<Longrightarrow> quiet (NetWrite (frame_bytes (warmup_payload i)), v)"
  by (cases v) (auto simp: warmup_frames_def less_2_cases_iff)

lemma emits_warmup [emits]: "emits quiet warmup_locked"
  unfolding warmup_locked_def warmup_probe_def
  by (auto intro!: emits quiet_warmup split: rpc_class.splits)

lemma emits_is_stale [emits]: "(\<And>v. P (NetAtEof, v)) \<Longrightarrow> (\<And>v. P (Clock, v)) \<Longrightarrow> emits P is_stale"
  unfolding is_stale_def by (auto intro!: emits)

lemma emits_take_id [emits]: "emits P take_id"
  by (simp add: take_id_def emits_def)

lemma emits_prepare [emits]: "emits quiet (prepare attempt method)"
  unfolding prepare_def by (auto intro!: emits)

fun reading :: "event \<times> outcome \<Rightarrow> bool" where
  "reading (NetRead _ _, _) = True"
| "reading (NetClose, _) = True"
| "reading (Deliver _ _, _) = True"
| "reading _ = False"

lemma reading_quiet: "reading e \<Longrightarrow> quiet e"
  by (cases e rule: reading.cases) auto

text \<open>
  The runs of the response loop that end, as an inductive relation: \<open>reads tmo rid s r s'\<close> says
  that the loop started in \<open>s\<close> returns \<open>r\<close> in \<open>s'\<close>.  It is the graph of \<open>read_response\<close>.
\<close>

inductive reads :: "string \<Rightarrow> int \<Rightarrow> mcpd \<Rightarrow> json list \<Rightarrow> exn + json \<Rightarrow> mcpd \<Rightarrow> bool" for tmo rid where
  failed: "read_frame tmo s = (Inl e, s1) \<Longrightarrow> reads tmo rid s [] (Inl e) s1"
| broken: "read_frame tmo s = (Inr b, s1) \<Longrightarrow> classify rid b = Broken e \<Longrightarrow>
    reads tmo rid s [] (Inl e) s1"
| matched: "read_frame tmo s = (Inr b, s1) \<Longrightarrow> classify rid b = Match obj \<Longrightarrow>
    reads tmo rid s [] (Inr obj) s1"
| notified: "read_frame tmo s = (Inr b, s1) \<Longrightarrow> classify rid b = Notify obj \<Longrightarrow>
    reads tmo rid (snd (dispatch_notification obj s1)) ns r s2 \<Longrightarrow> reads tmo rid s (obj # ns) r s2"
| late: "read_frame tmo s = (Inr b, s1) \<Longrightarrow> classify rid b = Late_Warmup \<Longrightarrow>
    reads tmo rid s1 ns r s2 \<Longrightarrow> reads tmo rid s ns r s2"
| mismatch: "read_frame tmo s = (Inr b, s1) \<Longrightarrow> classify rid b = Mismatch msg \<Longrightarrow>
    bnd close_locked (\<lambda>_. raise (RpcErr InternalError msg None)) s1 = (r, s2) \<Longrightarrow>
    reads tmo rid s [] r s2"

lemma read_response_reads:
  assumes "read_response tmo rid s = Some (r, s')"
  shows "\<exists>ns. reads tmo rid s ns r s'"
proof -
  have "\<exists>ns. reads tmo rid s ns (fst y) (snd y)" if "read_response tmo rid s = Some y" for y
  proof (rule read_response.raw_induct
      [where P = "\<lambda>tmo rid s y. \<exists>ns. reads tmo rid s ns (fst y) (snd y)", OF _ that])
    fix f tmo rid s y
    assume IH: "\<And>tmo rid s y. f tmo rid s = Some y \<Longrightarrow> \<exists>ns. reads tmo rid s ns (fst y) (snd y)"
      and eq: "(case read_frame tmo s of (Inl e, s1) \<Rightarrow> Some (Inl e, s1)
        | (Inr body, s1) \<Rightarrow> (case classify rid body of Broken e \<Rightarrow> Some (Inl e, s1)
            | Match obj \<Rightarrow> Some (Inr obj, s1)
            | Notify obj \<Rightarrow> f tmo rid (snd (dispatch_notification obj s1))
            | Late_Warmup \<Rightarrow> f tmo rid s1
            | Mismatch msg \<Rightarrow> Some (bnd close_locked (\<lambda>_. raise (RpcErr InternalError msg None)) s1))) = Some y"
    obtain x s1 where x: "read_frame tmo s = (x, s1)" by force
    from eq x IH show "\<exists>ns. reads tmo rid s ns (fst y) (snd y)"
      by (auto split: sum.splits frame_kind.splits dest!: IH)
         (blast intro: reads.intros prod.collapse [symmetric])+
  qed
  from this [of "(r, s')"] assms show ?thesis by simp
qed

lemma reads_read_response: "reads tmo rid s ns r s' \<Longrightarrow> read_response tmo rid s = Some (r, s')"
  by (induction rule: reads.induct) (simp_all add: read_response.simps [of tmo rid])

lemma dispatch_grows: "grows reading s (snd (dispatch_notification obj s))"
  by (rule emits_grows [of _ "dispatch_notification obj" _ "fst (dispatch_notification obj s)"])
     (auto intro!: emits)

lemma read_frame_grows: "read_frame tmo s = (r, s1) \<Longrightarrow> grows reading s s1"
  by (rule emits_grows [of _ "read_frame tmo"]) (auto intro!: emits)

lemma reads_grows: "reads tmo rid s ns r s' \<Longrightarrow> grows reading s s'"
proof (induction rule: reads.induct)
  case (notified s b s1 obj ns r s2)
  then show ?case by (blast intro: grows_trans read_frame_grows dispatch_grows)
next
  case (late s b s1 ns r s2)
  then show ?case by (blast intro: grows_trans read_frame_grows)
next
  case (mismatch s b s1 msg r s2)
  have "grows reading s1 s2" using mismatch(3) by (rule emits_grows [rotated]) (auto intro!: emits)
  with mismatch(1) show ?case by (blast intro: grows_trans read_frame_grows)
qed (blast intro: read_frame_grows)+

section \<open>At most one frame per call\<close>

lemma frames_sent_grows: "grows quiet s s' \<Longrightarrow> frames_sent s s' = 0"
  using grows_new_events [of quiet s s'] by (simp add: frames_sent_def filter_empty_conv)

lemma frames_sent_trans: "grows P s t \<Longrightarrow> grows Q t u \<Longrightarrow> frames_sent s u = frames_sent s t + frames_sent t u"
  using new_events_trans [of P s t Q u] by (simp add: frames_sent_def)

lemma send_frame_sent:
  assumes "send_frame p s = (r, s')"
  shows "grows (\<lambda>_. True) s s' \<and> frames_sent s s' \<le> (case r of Inl _ \<Rightarrow> 0 | Inr _ \<Rightarrow> 1)"
proof -
  have "emits (\<lambda>_. True) (send_frame p)" by (rule emits_send_frame) simp
  then have "grows (\<lambda>_. True) s s'" using assms by (rule emits_grows)
  moreover have "frames_sent s s' \<le> (case r of Inl _ \<Rightarrow> 0 | Inr _ \<Rightarrow> 1)"
    using assms
    by (auto simp: send_frame_def bnd_def gets_def raise_def ret_def perform_def Let_def frames_sent_def
        new_events_def split: if_splits sum.splits)
  ultimately show ?thesis ..
qed

lemma on_failure_grows: "on_failure a m tmo sent e s = (res, s') \<Longrightarrow> grows quiet s s'"
  by (auto simp: on_failure_def split: exn.splits prod.splits sum.splits if_splits
      elim!: emits_grows [rotated] intro!: emits)

lemma on_failure_retry:
  "on_failure a m tmo sent e s = (Retry, s') \<Longrightarrow> a = 0 \<and> (\<not> sent \<or> m \<in> set IDEMPOTENT_METHODS)"
  by (auto simp: on_failure_def split: exn.splits prod.splits sum.splits if_splits)

lemma grows_any: "grows P s t \<Longrightarrow> grows (\<lambda>_. True) s t"
  by (rule grows_mono) simp_all

lemma send_frame_grows: "send_frame p s = (r, s1) \<Longrightarrow> grows (\<lambda>_. True) s s1"
  using send_frame_sent by blast

lemma read_response_grows: "read_response tmo rid s = Some (r, s') \<Longrightarrow> grows reading s s'"
  using read_response_reads reads_grows by blast

lemma reading_grows_quiet: "grows reading s s' \<Longrightarrow> grows quiet s s'"
  by (erule grows_mono) (rule reading_quiet)

lemma touch_grows: "grows quiet s (snd (touch s))"
  by (rule emits_grows [of _ touch _ "fst (touch s)"]) (auto intro!: emits)

text \<open>The three ways an exchange ends: not written, written but failed, answered.\<close>

lemma exchange_cases:
  assumes "exchange a m p tmo rid s = Some (res, s')"
  obtains
    (not_sent) e s1 where "send_frame (json_dumps (envelope m p rid)) s = (Inl e, s1)"
      "on_failure a m tmo False e s1 = (res, s')"
  | (failed) s1 e s2 where "send_frame (json_dumps (envelope m p rid)) s = (Inr (), s1)"
      "read_response tmo rid s1 = Some (Inl e, s2)" "on_failure a m tmo True e s2 = (res, s')"
  | (answered) s1 obj s2 where "send_frame (json_dumps (envelope m p rid)) s = (Inr (), s1)"
      "read_response tmo rid s1 = Some (Inr obj, s2)" "res = Done (Inr obj)" "s' = snd (touch s2)"
  using assms
  by (cases "send_frame (json_dumps (envelope m p rid)) s")
     (auto simp: exchange_def split: sum.splits option.splits)

lemma exchange_sent:
  assumes "exchange a m p tmo rid s = Some (res, s')"
  shows "grows (\<lambda>_. True) s s' \<and> frames_sent s s' \<le> 1 \<and>
     (res = Retry \<longrightarrow> a = 0 \<and> (frames_sent s s' = 0 \<or> m \<in> set IDEMPOTENT_METHODS))"
  using assms
proof (cases rule: exchange_cases)
  case (not_sent e s1)
  note f = send_frame_sent [OF not_sent(1)] and q = on_failure_grows [OF not_sent(2)]
  have "frames_sent s s' = frames_sent s s1 + frames_sent s1 s'"
    using f q by (blast intro: frames_sent_trans)
  with f q show ?thesis
    using on_failure_retry not_sent(2) frames_sent_grows [OF q] by (auto intro: grows_trans grows_any)
next
  case (failed s1 e s2)
  note f = send_frame_sent [OF failed(1)] and r = reading_grows_quiet [OF read_response_grows [OF failed(2)]]
  then have q: "grows quiet s1 s'" using on_failure_grows [OF failed(3)] by (blast intro: grows_trans)
  have "frames_sent s s' = frames_sent s s1 + frames_sent s1 s'"
    using f q by (blast intro: frames_sent_trans)
  with f q show ?thesis
    using on_failure_retry failed(3) frames_sent_grows [OF q] by (auto intro: grows_trans grows_any)
next
  case (answered s1 obj s2)
  note f = send_frame_sent [OF answered(1)] and r = reading_grows_quiet [OF read_response_grows [OF answered(2)]]
  then have q: "grows quiet s1 s'" using touch_grows answered(4) by (blast intro: grows_trans)
  have "frames_sent s s' = frames_sent s s1 + frames_sent s1 s'"
    using f q by (blast intro: frames_sent_trans)
  with f q answered(3) show ?thesis
    using frames_sent_grows [OF q] by (auto intro: grows_trans grows_any)
qed

lemma attempt_cases:
  assumes "request_attempt a m p tmo s = Some (res, s')"
  obtains (unprepared) e where "prepare a m s = (Inl e, s')" "res = Done (Inl e)"
  | (prepared) rid s1 where "prepare a m s = (Inr rid, s1)" "exchange a m p tmo rid s1 = Some (res, s')"
  using assms by (auto simp: request_attempt_def split: prod.splits sum.splits)

lemma prepare_grows: "prepare a m s = (r, s1) \<Longrightarrow> grows quiet s s1"
  by (rule emits_grows [OF emits_prepare])

lemma attempt_sent:
  assumes "request_attempt a m p tmo s = Some (res, s')"
  shows "grows (\<lambda>_. True) s s' \<and> frames_sent s s' \<le> 1 \<and>
     (res = Retry \<longrightarrow> a = 0 \<and> (frames_sent s s' = 0 \<or> m \<in> set IDEMPOTENT_METHODS))"
  using assms
proof (cases rule: attempt_cases)
  case (unprepared e)
  note q = prepare_grows [OF unprepared(1)]
  with unprepared show ?thesis using frames_sent_grows [OF q] grows_any [OF q] by simp
next
  case (prepared rid s1)
  note q = prepare_grows [OF prepared(1)] and x = exchange_sent [OF prepared(2)]
  have "frames_sent s s' = frames_sent s s1 + frames_sent s1 s'"
    using q x by (blast intro: frames_sent_trans)
  with q x show ?thesis using frames_sent_grows [OF q] by (auto intro: grows_trans grows_any)
qed

lemma request_cases:
  assumes "request m p tmo s = Some (r, s')"
  obtains (first) x where "request_attempt 0 m p tmo s = Some (Done x, s')" "r = finish x"
  | (second) x s1 where "request_attempt 0 m p tmo s = Some (Retry, s1)"
      "request_attempt 1 m p tmo s1 = Some (Done x, s')" "r = finish x"
proof -
  obtain res s1 where a0: "request_attempt 0 m p tmo s = Some (res, s1)"
    using assms by (auto simp: request_def split: option.splits)
  show thesis
  proof (cases res)
    case (Done x)
    with assms a0 first show ?thesis by (auto simp: request_def)
  next
    case Retry
    with assms a0 obtain res' where a1: "request_attempt 1 m p tmo s1 = Some (res', s')"
      by (auto simp: request_def split: option.splits attempt_result.splits prod.splits)
    with attempt_sent [OF a1] obtain x where "res' = Done x" by (cases res') auto
    with assms a0 a1 Retry second show ?thesis by (auto simp: request_def)
  qed
qed

text \<open>
  C1. One call of McpdTransport.request writes at most one request frame to the daemon, and at
  most two when the method is in IDEMPOTENT_METHODS, whatever the network does: a command such
  as exec.cmd is never sent twice by one call.
\<close>

theorem request_at_most_once:
  assumes "request method params tmo s = Some (r, s')"
  shows "frames_sent s s' \<le> (if method \<in> set IDEMPOTENT_METHODS then 2 else 1)"
  using assms
proof (cases rule: request_cases)
  case (first x)
  with attempt_sent show ?thesis by fastforce
next
  case (second x s1)
  note f0 = attempt_sent [OF second(1)] and f1 = attempt_sent [OF second(2)]
  have "frames_sent s s' = frames_sent s s1 + frames_sent s1 s'"
    using f0 f1 frames_sent_trans by blast
  with f0 f1 show ?thesis by auto
qed

section \<open>Where a result comes from\<close>

text \<open>The ids: only \<open>take_id\<close> hands one out, and every other operation leaves the counter alone.\<close>

abbreviation id_at :: "int \<Rightarrow> mcpd \<Rightarrow> bool" where
  "id_at n s \<equiv> next_id s = n"

lemma id_at_close: "preserves (id_at n) close_locked"
  by (auto simp: preserves_def close_locked_def bnd_def gets_def modify_def whenM_def
      ret_def catch_def perform_def Let_def raise_def split: prod.splits sum.splits exn.splits if_splits)

lemma id_at_touch: "preserves (id_at n) touch"
  unfolding touch_def by (auto intro!: kept)

lemma id_at_ensure_connected: "preserves (id_at n) ensure_connected"
  by (auto simp: preserves_def ensure_connected_def touch_def bnd_def gets_def
      modify_def ret_def catch_def perform_def now_def Let_def raise_def
      split: prod.splits sum.splits exn.splits if_splits)

lemma id_at_read_frame: "preserves (id_at n) (read_frame tmo)"
  unfolding read_frame_def readexactly_def by (auto intro!: kept simp: Let_def split: json.splits)

lemma id_at_send_frame: "preserves (id_at n) (send_frame p)"
  unfolding send_frame_def by (auto intro!: kept)

lemma id_at_dispatch: "preserves (id_at n) (dispatch_notification obj)"
  unfolding dispatch_notification_def by (auto intro!: kept)

lemmas id_at_kept = id_at_close id_at_touch id_at_ensure_connected id_at_read_frame id_at_send_frame id_at_dispatch

lemma id_at_warmup: "preserves (id_at n) warmup_locked"
  unfolding warmup_locked_def warmup_probe_def by (auto intro!: kept id_at_kept split: rpc_class.splits)

lemma id_at_is_stale: "preserves (id_at n) is_stale"
  unfolding is_stale_def at_eof_def
  by (auto intro!: kept) (simp add: preserves_def perform_def Let_def)

lemma read_frame_id: "read_frame tmo s = (r, s1) \<Longrightarrow> next_id s1 = next_id s"
  by (erule preservesD [OF id_at_read_frame]) simp

lemma dispatch_id: "next_id (snd (dispatch_notification obj s)) = next_id s"
  by (rule preserves_snd [OF id_at_dispatch]) simp

lemma id_at_reads: "reads tmo rid s ns r s' \<Longrightarrow> next_id s' = next_id s"
proof (induction rule: reads.induct)
  case (mismatch s b s1 msg r s2)
  have "preserves (id_at (next_id s1)) (bnd close_locked (\<lambda>_. raise (RpcErr InternalError msg None)) :: (mcpd, json) io)"
    by (intro kept id_at_kept)
  from preservesD [OF this mismatch(3)] read_frame_id [OF mismatch(1)] show ?case by simp
qed (simp_all add: read_frame_id dispatch_id)

lemma id_at_on_failure: "on_failure a m tmo sent e s = (res, s') \<Longrightarrow> next_id s' = next_id s"
  using preservesD [OF id_at_close]
  by (fastforce simp: on_failure_def split: exn.splits prod.splits sum.splits if_splits)

lemma exchange_id:
  assumes "exchange a m p tmo rid s = Some (res, s')"
  shows "next_id s' = next_id s"
  using assms
proof (cases rule: exchange_cases)
  case (not_sent e s1)
  then show ?thesis using preservesD [OF id_at_send_frame] id_at_on_failure by metis
next
  case (failed s1 e s2)
  then show ?thesis using preservesD [OF id_at_send_frame] read_response_reads id_at_reads id_at_on_failure by metis
next
  case (answered s1 obj s2)
  then show ?thesis using preservesD [OF id_at_send_frame] read_response_reads id_at_reads preserves_snd [OF id_at_touch] by metis
qed

text \<open>An attempt that gets as far as its request frame uses the one id it has just been given.\<close>

lemma prepare_id:
  assumes "prepare a m s = (r, s1)"
  shows "next_id s \<le> next_id s1 \<and> (\<forall>rid. r = Inr rid \<longrightarrow> rid = next_id s \<and> next_id s1 = rid + 1)"
proof -
  have w: "preserves (id_at (next_id s)) (whenM b close_locked)" "preserves (id_at (next_id s)) (whenM b warmup_locked)"
    "preserves (id_at (next_id s)) (whenM b (bnd now (\<lambda>t. modify (\<lambda>s. s\<lparr>last_write_at := Some t\<rparr>))))" for b
    by (auto intro!: kept id_at_kept id_at_warmup)
  from assms show ?thesis
    unfolding prepare_def
    by (auto simp: bnd_def take_id_def split: prod.splits sum.splits
        dest!: preservesD [OF id_at_is_stale [of "next_id s"]] preservesD [OF id_at_ensure_connected [of "next_id s"]]
          preservesD [OF w(1)] preservesD [OF w(2)] preservesD [OF w(3)])
qed

lemma attempt_id: "request_attempt a m p tmo s = Some (res, s') \<Longrightarrow> next_id s \<le> next_id s'"
  by (erule attempt_cases) (use prepare_id exchange_id in fastforce)+

text \<open>What a response loop did when it returned an object: it read other frames, and that one last.\<close>

lemma read_frame_last:
  assumes "read_frame tmo s = (Inr b, s1)"
  shows "\<exists>es. new_events s s1 = es @ [(NetRead (length b) tmo, Inr (JStr b))] \<and> list_all reading es"
  using assms
  by (auto simp: read_frame_def readexactly_def bnd_def gets_def raise_def ret_def perform_def Let_def
      new_events_def split: if_splits sum.splits json.splits)

lemma grows_all: "grows P s s' \<Longrightarrow> list_all P (new_events s s')"
  using grows_new_events [of P s s'] by (simp add: list_all_iff)

lemma reads_match:
  assumes "reads tmo rid s ns (Inr obj) s'"
  shows "\<exists>es b. new_events s s' = es @ [(NetRead (length b) tmo, Inr (JStr b))] \<and> list_all reading es \<and> classify rid b = Match obj"
  using assms
proof (induction s ns "Inr obj :: exn + json" s' rule: reads.induct)
  case (matched s b s1)
  then show ?case using read_frame_last by blast
next
  case (notified s b s1 n ns s2)
  let ?d = "snd (dispatch_notification n s1)"
  obtain es b' where es: "new_events ?d s2 = es @ [(NetRead (length b') tmo, Inr (JStr b'))]" "list_all reading es"
    "classify rid b' = Match obj" using notified.hyps(4) by blast
  have g: "grows reading s ?d"
    using read_frame_grows [OF notified(1)] dispatch_grows by (rule grows_trans)
  then have "new_events s s2 = new_events s ?d @ new_events ?d s2"
    using reads_grows [OF notified(3)] by (rule new_events_trans)
  with es grows_all [OF g] show ?case by auto
next
  case (late s b s1 ns s2)
  obtain es b' where es: "new_events s1 s2 = es @ [(NetRead (length b') tmo, Inr (JStr b'))]" "list_all reading es"
    "classify rid b' = Match obj" using late.hyps(4) by blast
  note g = read_frame_grows [OF late(1)]
  then have "new_events s s2 = new_events s s1 @ new_events s1 s2"
    using reads_grows [OF late(3)] by (rule new_events_trans)
  with es grows_all [OF g] show ?case by auto
next
  case (mismatch s b s1 msg s2)
  then show ?case by (auto simp: bnd_def raise_def split: prod.splits sum.splits)
qed

lemma classify_match: "classify rid b = Match obj \<Longrightarrow>
    json_loads b = Some obj \<and> (\<exists>v. jget ''id'' obj = Some v \<and> eq_int v rid)"
  by (auto simp: classify_def split: option.splits json.splits if_splits)

lemma send_frame_event:
  "send_frame p s = (Inr u, s1) \<Longrightarrow> \<exists>v. new_events s s1 = [(NetWrite (frame_bytes p), Inr v)]"
  by (auto simp: send_frame_def bnd_def gets_def raise_def ret_def perform_def Let_def new_events_def
      split: if_splits sum.splits)

lemma touch_event: "\<exists>e. new_events s (snd (touch s)) = [e] \<and> fst e = Clock"
  by (auto simp: touch_def bnd_def now_def modify_def perform_def Let_def new_events_def)

text \<open>
  \<open>answered_by m p tmo obj s s'\<close>: the stretch of history between the two states ends with a request
  frame written, then only reads and deliveries of notifications, and last of all a body read that
  holds \<open>obj\<close> under the id of that frame.  The id is the newest the transport has given out, and it
  was given out in this stretch.
\<close>

definition answered_by :: "string \<Rightarrow> json option \<Rightarrow> string \<Rightarrow> json \<Rightarrow> mcpd \<Rightarrow> mcpd \<Rightarrow> bool" where
  "answered_by m p tmo obj s s' \<longleftrightarrow> (\<exists>before w between b t rid.
      new_events s s' = before @ (NetWrite (frame_bytes (json_dumps (envelope m p rid))), Inr w) # between
        @ [(NetRead (length b) tmo, Inr (JStr b)), (Clock, t)]
    \<and> list_all reading between
    \<and> next_id s \<le> rid \<and> next_id s' = rid + 1
    \<and> json_loads b = Some obj \<and> (\<exists>i. jget ''id'' obj = Some i \<and> eq_int i rid))"

lemma answered_by_trans:
  assumes "grows P s t" "grows Q t u" "next_id s \<le> next_id t" "answered_by m p tmo obj t u"
  shows "answered_by m p tmo obj s u"
proof -
  have "new_events s u = new_events s t @ new_events t u" using assms(1,2) by (rule new_events_trans)
  moreover obtain pre w mid b c rid where
    "new_events t u = pre @ (NetWrite (frame_bytes (json_dumps (envelope m p rid))), Inr w) # mid
        @ [(NetRead (length b) tmo, Inr (JStr b)), (Clock, c)]"
    "list_all reading mid" "next_id t \<le> rid" "next_id u = rid + 1"
    "json_loads b = Some obj" "\<exists>i. jget ''id'' obj = Some i \<and> eq_int i rid"
    using assms(4) unfolding answered_by_def by blast
  ultimately have "new_events s u = (new_events s t @ pre) @ (NetWrite (frame_bytes (json_dumps (envelope m p rid))), Inr w) # mid
        @ [(NetRead (length b) tmo, Inr (JStr b)), (Clock, c)]
     \<and> list_all reading mid \<and> next_id s \<le> rid \<and> next_id u = rid + 1 \<and> json_loads b = Some obj
     \<and> (\<exists>i. jget ''id'' obj = Some i \<and> eq_int i rid)" using assms(3) by simp
  then show ?thesis unfolding answered_by_def by blast
qed

lemma exchange_result:
  assumes "exchange a m p tmo rid s = Some (Done (Inr obj), s')"
  shows "\<exists>w between b t. new_events s s' = (NetWrite (frame_bytes (json_dumps (envelope m p rid))), Inr w) # between
        @ [(NetRead (length b) tmo, Inr (JStr b)), (Clock, t)] \<and> list_all reading between
     \<and> json_loads b = Some obj \<and> (\<exists>i. jget ''id'' obj = Some i \<and> eq_int i rid)"
  using assms
proof (cases rule: exchange_cases)
  case (answered s1 obj' s2)
  have g: "grows (\<lambda>_. True) s s1" "grows reading s1 s2" "grows quiet s2 s'"
    using answered send_frame_grows read_response_grows touch_grows by blast+
  then have ev: "new_events s s' = new_events s s1 @ new_events s1 s2 @ new_events s2 s'"
    by (metis grows_any grows_trans new_events_trans)
  obtain ns where "reads tmo rid s1 ns (Inr obj) s2"
    using answered(2,3) read_response_reads by blast
  from reads_match [OF this] obtain es b where b: "new_events s1 s2 = es @ [(NetRead (length b) tmo, Inr (JStr b))]"
    "list_all reading es" and cl: "classify rid b = Match obj" by blast
  obtain w where w: "new_events s s1 = [(NetWrite (frame_bytes (json_dumps (envelope m p rid))), Inr w)]"
    using send_frame_event [OF answered(1)] by blast
  obtain c where "new_events s2 s' = [(Clock, c)]" using touch_event [of s2] answered(4) by (metis prod.collapse)
  with ev b w have "new_events s s' = (NetWrite (frame_bytes (json_dumps (envelope m p rid))), Inr w) # es
        @ [(NetRead (length b) tmo, Inr (JStr b)), (Clock, c)]" by simp
  with b(2) classify_match [OF cl] show ?thesis by blast
qed (auto simp: on_failure_def split: exn.splits prod.splits sum.splits if_splits)

lemma attempt_result:
  assumes "request_attempt a m p tmo s = Some (Done (Inr obj), s')"
  shows "answered_by m p tmo obj s s'"
  using assms
proof (cases rule: attempt_cases)
  case (prepared rid s1)
  have "new_events s s' = new_events s s1 @ new_events s1 s'"
    using prepare_grows [OF prepared(1)] exchange_sent [OF prepared(2)] by (blast intro: new_events_trans)
  moreover have "next_id s \<le> rid" "next_id s' = rid + 1"
    using prepare_id [OF prepared(1)] exchange_id [OF prepared(2)] by auto
  ultimately show ?thesis using exchange_result [OF prepared(2)] unfolding answered_by_def by metis
qed simp

text \<open>
  C4. When request returns a value, its history ends with a request frame of this call, then
  nothing but reads and deliveries of notifications, then the read of a body that decodes to an
  object, and a clock reading. That object carries an id equal to the frame's, has no error
  member, and the value is its result member. The frame's id was issued during this call and is
  the newest the transport has given out, so a reply to a warmup, to an earlier call or to this
  call's first attempt is never taken for the answer.
\<close>

theorem request_result_provenance:
  assumes "request method params tmo s = Some (Inr v, s')"
  shows "\<exists>obj. answered_by method params tmo obj s s' \<and> \<not> jhas ''error'' obj \<and> jget ''result'' obj = Some v"
proof -
  have fin: "\<exists>obj. x = Inr obj \<and> \<not> jhas ''error'' obj \<and> jget ''result'' obj = Some v" if "finish x = Inr v" for x
    using that by (auto simp: finish_def response_value_def jhas_def split: sum.splits option.splits)
  show ?thesis using assms
  proof (cases rule: request_cases)
    case (first x)
    with fin [of x] attempt_result show ?thesis by metis
  next
    case (second x s1)
    with fin [of x] obtain obj where obj: "x = Inr obj" "\<not> jhas ''error'' obj" "jget ''result'' obj = Some v"
      by metis
    with second have "answered_by method params tmo obj s1 s'" using attempt_result by blast
    moreover have "grows (\<lambda>_. True) s s1" "grows (\<lambda>_. True) s1 s'"
      using second attempt_sent by blast+
    ultimately have "answered_by method params tmo obj s s'"
      using attempt_id [OF second(1)] by (blast intro: answered_by_trans)
    with obj show ?thesis by blast
  qed
qed


section \<open>Failures and the connection\<close>

lemma close_locked_closes:
  assumes "close_locked s = (r, s')"
  shows "\<not> connected s' \<and> last_io_at s' = None"
  using assms
  by (auto simp: close_locked_def bnd_def gets_def modify_def whenM_def ret_def catch_def perform_def
      Let_def raise_def split: prod.splits sum.splits exn.splits if_splits)

lemma on_failure_target_error:
  assumes "on_failure a m tmo sent e s = (Done (Inl (RpcErr TargetError msg (Some d))), s')"
    and "\<not> is_rpc_err e" and "\<And>r t. close_locked s = (Inl r, t) \<Longrightarrow> \<not> is_rpc_err r"
  shows "d = transport_data m sent \<and> \<not> connected s'"
  using assms close_locked_closes
  by (fastforce simp: on_failure_def split: exn.splits prod.splits sum.splits if_splits)

text \<open>Sockets raise built-in exceptions only.\<close>

definition builtin_errors :: "'z world_scheme \<Rightarrow> bool" where
  "builtin_errors s \<longleftrightarrow> (\<forall>h e x. answer s h e = Inl x \<longrightarrow> \<not> is_rpc_err x)"

lemma builtin_errors_grows: "grows P s s' \<Longrightarrow> builtin_errors s \<Longrightarrow> builtin_errors s'"
  by (simp add: grows_def builtin_errors_def)

lemma builtin_close: "builtin_errors s \<Longrightarrow> close_locked s = (Inl r, t) \<Longrightarrow> \<not> is_rpc_err r"
  by (auto simp: builtin_errors_def close_locked_def bnd_def gets_def modify_def whenM_def ret_def
      catch_def perform_def Let_def raise_def split: prod.splits sum.splits exn.splits if_splits)

lemma builtin_readexactly: "builtin_errors s \<Longrightarrow> readexactly n tmo s = (Inl e, t) \<Longrightarrow> \<not> is_rpc_err e"
  by (auto simp: builtin_errors_def readexactly_def bnd_def ret_def perform_def Let_def raise_def
      split: prod.splits sum.splits json.splits if_splits)

lemma builtin_read_frame:
  assumes "builtin_errors s" "read_frame tmo s = (Inl (RpcErr c msg d), t)"
  shows "c = InternalError"
proof -
  have "builtin_errors s1" if "readexactly 4 tmo s = (r, s1)" for r s1
    using that assms(1) emits_grows [OF emits_readexactly [of "\<lambda>_. True"]] builtin_errors_grows by blast
  with assms show ?thesis
    by (fastforce simp: read_frame_def bnd_def gets_def raise_def Let_def dest: builtin_readexactly
        split: prod.splits sum.splits if_splits)
qed

lemma classify_broken: "classify rid b = Broken (RpcErr c msg d) \<Longrightarrow> c = InternalError"
  by (auto simp: classify_def split: option.splits json.splits if_splits)

lemma builtin_reads:
  assumes "reads tmo rid s ns (Inl (RpcErr c msg d)) s'" "builtin_errors s"
  shows "c = InternalError"
  using assms
proof (induction s ns "Inl (RpcErr c msg d) :: exn + json" s' rule: reads.induct)
  case (failed s s1)
  then show ?case using builtin_read_frame by blast
next
  case (broken s b s1)
  then show ?case using classify_broken by blast
next
  case (notified s b s1 obj ns s2)
  then show ?case using read_frame_grows dispatch_grows builtin_errors_grows by blast
next
  case (late s b s1 ns s2)
  then show ?case using read_frame_grows builtin_errors_grows by blast
next
  case (mismatch s b s1 msg' s2)
  have "builtin_errors s1" using mismatch read_frame_grows builtin_errors_grows by blast
  with mismatch(3) show ?case
    by (auto simp: bnd_def raise_def dest!: builtin_close split: prod.splits sum.splits)
qed

lemma send_frame_error:
  assumes "send_frame p s = (Inl e, s1)"
  shows "\<forall>b w. (NetWrite b, Inr w) \<notin> set (new_events s s1)"
    and "builtin_errors s \<Longrightarrow> e = RpcErr c m d \<Longrightarrow> c = InternalError"
  using assms
  by (auto simp: send_frame_def bnd_def gets_def raise_def ret_def perform_def Let_def new_events_def
      builtin_errors_def split: if_splits sum.splits) fastforce

text \<open>Events that write nothing successfully.\<close>

abbreviation no_write :: "event \<times> outcome \<Rightarrow> bool" where
  "no_write e \<equiv> \<forall>b w. e \<noteq> (NetWrite b, Inr w)"

lemma on_failure_no_write: "on_failure a m tmo sent e s = (res, s') \<Longrightarrow> grows no_write s s'"
  by (auto simp: on_failure_def split: exn.splits prod.splits sum.splits if_splits
      elim!: emits_grows [rotated] intro!: emits)

lemma on_failure_rpc: "on_failure a m tmo sent (RpcErr c msg d) s = (Done (Inl (RpcErr c msg d)), s)"
  by (simp add: on_failure_def)

lemma target_error_origin:
  assumes "on_failure a m tmo sent e s = (Done (Inl (RpcErr TargetError msg (Some d))), s')"
    and "builtin_errors s" and "\<And>c msg' d'. e = RpcErr c msg' d' \<Longrightarrow> c = InternalError"
  shows "d = transport_data m sent \<and> \<not> connected s'"
proof (rule on_failure_target_error [OF assms(1)])
  show "\<not> is_rpc_err e" using assms(1,3) by (cases e) (auto simp: on_failure_rpc)
  show "\<And>r t. close_locked s = (Inl r, t) \<Longrightarrow> \<not> is_rpc_err r" using assms(2) by (rule builtin_close)
qed

text \<open>
  C9. When an attempt ends in a TargetError (timeout or I/O failure), may_have_run in its data
  is true exactly when the whole request frame was written, and the connection has been
  dropped.
\<close>

theorem transport_failure_reports_may_have_run:
  assumes "exchange a m p tmo rid s = Some (Done (Inl (RpcErr TargetError msg (Some d))), s')"
    and "builtin_errors s"
  shows "jget ''may_have_run'' d = Some (JBool
           (\<exists>w. (NetWrite (frame_bytes (json_dumps (envelope m p rid))), Inr w) \<in> set (new_events s s')))
         \<and> \<not> connected s'"
  using assms(1)
proof (cases rule: exchange_cases)
  case (not_sent e s1)
  have g: "grows (\<lambda>_. True) s s1" "grows no_write s1 s'"
    using send_frame_grows [OF not_sent(1)] on_failure_no_write [OF not_sent(2)] by blast+
  have "d = transport_data m False \<and> \<not> connected s'"
    using target_error_origin [OF not_sent(2) builtin_errors_grows [OF g(1) assms(2)]]
      send_frame_error(2) [OF not_sent(1) assms(2)] by blast
  moreover have "\<forall>w. (NetWrite b, Inr w) \<notin> set (new_events s s')" for b
    using new_events_trans [OF g] send_frame_error(1) [OF not_sent(1)] grows_new_events [OF g(2)] by auto
  ultimately show ?thesis by (simp add: transport_data_def)
next
  case (failed s1 e s2)
  have g: "grows (\<lambda>_. True) s s1" "grows reading s1 s2" "grows no_write s2 s'"
    using send_frame_grows [OF failed(1)] read_response_grows [OF failed(2)] on_failure_no_write [OF failed(3)]
    by blast+
  then have be: "builtin_errors s1" "builtin_errors s2" using assms(2) builtin_errors_grows by blast+
  obtain ns where "reads tmo rid s1 ns (Inl e) s2" using failed(2) read_response_reads by blast
  then have "d = transport_data m True \<and> \<not> connected s'"
    using target_error_origin [OF failed(3) be(2)] builtin_reads be(1) by blast
  moreover have "new_events s s' = new_events s s1 @ new_events s1 s'"
    using g(1) grows_trans [OF grows_any [OF g(2)] grows_any [OF g(3)]] by (rule new_events_trans)
  ultimately show ?thesis using send_frame_event [OF failed(1)] by (auto simp: transport_data_def)
qed simp

section \<open>The state of the transport\<close>

text \<open>
  A connection is open exactly when its time stamp is set, and request ids stay positive, so they
  never meet the ids of the warmup probes.
\<close>

definition transport_inv :: "mcpd \<Rightarrow> bool" where
  "transport_inv s \<longleftrightarrow> (connected s \<longleftrightarrow> last_io_at s \<noteq> None) \<and> 1 \<le> next_id s"

lemma keeps_dispatch [kept]: "preserves transport_inv (dispatch_notification obj)"
  unfolding dispatch_notification_def by (auto intro!: kept simp: transport_inv_def)

lemma keeps_touch_connected: "transport_inv s \<Longrightarrow> connected s \<Longrightarrow> transport_inv (snd (touch s))"
  by (auto simp: transport_inv_def touch_def bnd_def now_def modify_def perform_def Let_def)

lemma keeps_close [kept]: "preserves transport_inv close_locked"
  by (auto simp: preserves_def transport_inv_def close_locked_def bnd_def gets_def modify_def whenM_def
      ret_def catch_def perform_def Let_def raise_def split: prod.splits sum.splits exn.splits if_splits)

lemma keeps_ensure_connected [kept]: "preserves transport_inv ensure_connected"
  by (auto simp: preserves_def transport_inv_def ensure_connected_def touch_def bnd_def gets_def
      modify_def ret_def catch_def perform_def now_def Let_def raise_def
      split: prod.splits sum.splits exn.splits if_splits)

lemma keeps_read_frame [kept]: "(\<And>s h. I s \<Longrightarrow> I (s\<lparr>history := h\<rparr>)) \<Longrightarrow> preserves I (read_frame tmo)"
  unfolding read_frame_def readexactly_def by (auto intro!: kept simp: Let_def split: json.splits)

lemma keeps_send_frame [kept]: "(\<And>s h. I s \<Longrightarrow> I (s\<lparr>history := h\<rparr>)) \<Longrightarrow> preserves I (send_frame p)"
  unfolding send_frame_def by (auto intro!: kept)

lemma transport_inv_history [simp]: "transport_inv (s\<lparr>history := h\<rparr>) = transport_inv s"
  by (simp add: transport_inv_def)

lemma keeps_warmup [kept]: "preserves transport_inv warmup_locked"
  unfolding warmup_locked_def warmup_probe_def by (auto intro!: kept split: rpc_class.splits)

lemma keeps_is_stale [kept]: "preserves transport_inv is_stale"
  unfolding is_stale_def at_eof_def
  by (auto intro!: kept) (simp add: preserves_def perform_def Let_def)

lemma keeps_take_id [kept]: "preserves transport_inv take_id"
  by (simp add: take_id_def preserves_def transport_inv_def)

lemma keeps_prepare [kept]: "preserves transport_inv (prepare a m)"
  unfolding prepare_def by (auto intro!: kept simp: transport_inv_def)


lemma keeps_connected:
  "preserves (\<lambda>s. transport_inv s \<and> connected s) (read_frame tmo)"
  "preserves (\<lambda>s. transport_inv s \<and> connected s) (dispatch_notification obj)"
  unfolding dispatch_notification_def by (auto intro!: kept simp: transport_inv_def)

lemma read_frame_inv: "read_frame tmo s = (r, s1) \<Longrightarrow> transport_inv s \<Longrightarrow> transport_inv s1"
  by (rule preservesD [OF keeps_read_frame [of transport_inv]]) simp_all

lemma send_frame_inv: "send_frame p s = (r, s1) \<Longrightarrow> transport_inv s \<Longrightarrow> transport_inv s1"
  by (rule preservesD [OF keeps_send_frame [of transport_inv]]) simp_all

lemma dispatch_inv: "transport_inv s \<Longrightarrow> transport_inv (snd (dispatch_notification obj s))"
  by (rule preserves_snd [OF keeps_dispatch])

lemma reads_keeps: "reads tmo rid s ns r s' \<Longrightarrow> transport_inv s \<Longrightarrow> transport_inv s'"
proof (induction rule: reads.induct)
  case (mismatch s b s1 msg r s2)
  have "preserves transport_inv (bnd close_locked (\<lambda>_. raise (RpcErr InternalError msg None)) :: (mcpd, json) io)"
    by (intro kept)
  moreover have "transport_inv s1" using mismatch read_frame_inv by blast
  ultimately show ?case using mismatch(3) by (blast dest: preservesD)
qed (use read_frame_inv dispatch_inv in blast)+

lemma read_frame_open:
  "read_frame tmo s = (r, s1) \<Longrightarrow> transport_inv s \<and> connected s \<Longrightarrow> transport_inv s1 \<and> connected s1"
  by (rule preservesD [OF keeps_connected(1)])

lemma dispatch_open:
  "transport_inv s \<and> connected s \<Longrightarrow>
   transport_inv (snd (dispatch_notification obj s)) \<and> connected (snd (dispatch_notification obj s))"
  by (rule preserves_snd [OF keeps_connected(2)])

lemma reads_connected:
  "reads tmo rid s ns (Inr obj) s' \<Longrightarrow> transport_inv s \<and> connected s \<Longrightarrow> transport_inv s' \<and> connected s'"
proof (induction s ns "Inr obj :: exn + json" s' rule: reads.induct)
  case (mismatch s b s1 msg s2)
  then show ?case by (auto simp: bnd_def raise_def split: prod.splits sum.splits)
qed (use read_frame_open dispatch_open in blast)+

lemma on_failure_keeps: "on_failure a m tmo sent e s = (res, s') \<Longrightarrow> transport_inv s \<Longrightarrow> transport_inv s'"
  using keeps_close
  by (fastforce simp: on_failure_def preserves_def split: exn.splits prod.splits sum.splits if_splits)

lemma exchange_keeps:
  assumes "exchange a m p tmo rid s = Some (res, s')" "transport_inv s"
  shows "transport_inv s'"
  using assms(1)
proof (cases rule: exchange_cases)
  case (not_sent e s1)
  then have "transport_inv s1"
    using assms(2) send_frame_inv by blast
  with not_sent(2) show ?thesis by (rule on_failure_keeps)
next
  case (failed s1 e s2)
  then have "transport_inv s1"
    using assms(2) send_frame_inv by blast
  then have "transport_inv s2" using failed(2) read_response_reads reads_keeps by blast
  with failed(3) show ?thesis by (rule on_failure_keeps)
next
  case (answered s1 obj s2)
  have c: "connected s" using answered(1) by (auto simp: send_frame_def bnd_def gets_def raise_def split: if_splits)
  have "preserves (\<lambda>s. transport_inv s \<and> connected s) (send_frame (json_dumps (envelope m p rid)))"
    by (rule keeps_send_frame) simp
  with answered(1) c assms(2) have i1: "transport_inv s1 \<and> connected s1" by (metis preservesD)
  obtain ns where "reads tmo rid s1 ns (Inr obj) s2" using answered(2) read_response_reads by blast
  with i1 have "transport_inv s2 \<and> connected s2" using reads_connected by blast
  with answered(4) show ?thesis using keeps_touch_connected by blast
qed

lemma attempt_keeps:
  assumes "request_attempt a m p tmo s = Some (res, s')" "transport_inv s"
  shows "transport_inv s'"
  using assms(1)
proof (cases rule: attempt_cases)
  case (unprepared e)
  with keeps_prepare assms(2) show ?thesis by (blast dest: preservesD)
next
  case (prepared rid s1)
  have "transport_inv s1" using keeps_prepare prepared(1) assms(2) by (rule preservesD)
  with prepared(2) show ?thesis by (rule exchange_keeps)
qed

text \<open>
  C13. request keeps the transport invariant: the time of the last exchange is recorded exactly
  while the transport is connected, and request ids stay positive, away from the negative
  warmup ids.
\<close>

theorem request_keeps_transport_inv:
  assumes "request method params tmo s = Some (r, s')" "transport_inv s"
  shows "transport_inv s'"
  using assms(1) by (cases rule: request_cases) (use assms(2) attempt_keeps in blast)+

section \<open>Notifications\<close>

text \<open>The (handler, notification) pairs of the deliveries in a stretch of history.\<close>

definition delivered :: "(event \<times> outcome) list \<Rightarrow> (nat \<times> json) list" where
  "delivered es = concat (map (\<lambda>(e, v). case e of Deliver h n \<Rightarrow> [(h, n)] | _ \<Rightarrow> []) es)"

lemma delivered_append [simp]: "delivered (xs @ ys) = delivered xs @ delivered ys"
  by (simp add: delivered_def)

lemma deliver_all:
  fixes s :: mcpd
  shows "\<exists>rs s'. for_each (\<lambda>h. succeeds (perform (Deliver h obj))) hs s = (Inr rs, s') \<and>
     (\<exists>es. history s' = history s @ es \<and> delivered es = map (\<lambda>h. (h, obj)) hs) \<and> answer s' = answer s \<and>
     notification_q s' = notification_q s \<and> notification_handlers s' = notification_handlers s"
proof (induction hs arbitrary: s)
  case Nil
  show ?case by (auto simp: ret_def delivered_def)
next
  case (Cons h hs)
  let ?s1 = "s\<lparr>history := history s @ [(Deliver h obj, answer s (history s) (Deliver h obj))]\<rparr>"
  obtain rs s' es where IH: "for_each (\<lambda>h. succeeds (perform (Deliver h obj))) hs ?s1 = (Inr rs, s')"
    "history s' = history ?s1 @ es" "delivered es = map (\<lambda>h. (h, obj)) hs" "answer s' = answer ?s1"
    "notification_q s' = notification_q ?s1" "notification_handlers s' = notification_handlers ?s1"
    using Cons.IH [of ?s1] by auto
  have "succeeds (perform (Deliver h obj)) s = (Inr (\<not> isl (answer s (history s) (Deliver h obj))), ?s1)"
    by (auto simp: succeeds_def catch_def bnd_def ret_def perform_def Let_def split: sum.splits)
  with IH have "for_each (\<lambda>h. succeeds (perform (Deliver h obj))) (h # hs) s
      = (Inr ((\<not> isl (answer s (history s) (Deliver h obj))) # rs), s')"
    by (simp add: bnd_def ret_def)
  moreover have "history s' = history s @ ((Deliver h obj, answer s (history s) (Deliver h obj)) # es)"
    using IH(2) by simp
  moreover have "delivered ((Deliver h obj, answer s (history s) (Deliver h obj)) # es) = map (\<lambda>h. (h, obj)) (h # hs)"
    using IH(3) by (simp add: delivered_def)
  ultimately show ?case using IH(4-6) by auto
qed

lemma dispatch_effect:
  assumes "s' = snd (dispatch_notification obj s)"
  shows "delivered (new_events s s') = map (\<lambda>h. (h, obj)) (notification_handlers s) \<and>
     notification_q s' = notification_q s @ [obj] \<and> notification_handlers s' = notification_handlers s"
  using deliver_all [of obj "notification_handlers s" "s\<lparr>notification_q := notification_q s @ [obj]\<rparr>"] assms
  by (auto simp: dispatch_notification_def bnd_def modify_def gets_def ret_def new_events_def)

lemma read_frame_fields:
  assumes "read_frame tmo s = (r, s1)"
  shows "delivered (new_events s s1) = [] \<and> notification_q s1 = notification_q s \<and>
     notification_handlers s1 = notification_handlers s"
  using assms
  by (auto simp: read_frame_def readexactly_def bnd_def gets_def raise_def ret_def perform_def Let_def
      new_events_def delivered_def split: if_splits sum.splits json.splits)

lemma close_fields:
  assumes "close_locked s = (r, s1)"
  shows "delivered (new_events s s1) = [] \<and> notification_q s1 = notification_q s \<and>
     notification_handlers s1 = notification_handlers s"
  using assms
  by (auto simp: close_locked_def bnd_def gets_def modify_def whenM_def ret_def catch_def perform_def
      Let_def raise_def new_events_def delivered_def split: prod.splits sum.splits exn.splits if_splits)

lemma reads_notifications:
  "reads tmo rid s ns r s' \<Longrightarrow> notification_q s' = notification_q s @ ns \<and>
     notification_handlers s' = notification_handlers s \<and>
     delivered (new_events s s') = concat (map (\<lambda>n. map (\<lambda>h. (h, n)) (notification_handlers s)) ns) \<and>
     (\<forall>n \<in> set ns. \<not> jhas ''id'' n)"
proof (induction rule: reads.induct)
  case (notified s b s1 obj ns r s2)
  let ?s' = "snd (dispatch_notification obj s1)"
  have "new_events s s2 = new_events s s1 @ new_events s1 ?s' @ new_events ?s' s2"
    using read_frame_grows [OF notified(1)] dispatch_grows reads_grows [OF notified(3)]
    by (metis grows_trans new_events_trans)
  moreover have "\<not> jhas ''id'' obj"
    using notified(2) by (auto simp: classify_def jhas_def split: option.splits json.splits if_splits)
  ultimately show ?case
    using notified.IH read_frame_fields [OF notified(1)] dispatch_effect [of ?s' obj s1] by simp
next
  case (late s b s1 ns r s2)
  have "new_events s s2 = new_events s s1 @ new_events s1 s2"
    using read_frame_grows [OF late(1)] reads_grows [OF late(3)] by (rule new_events_trans)
  with late show ?case using read_frame_fields [OF late(1)] by simp
next
  case (mismatch s b s1 msg r s2)
  obtain q where q: "close_locked s1 = (q, s2)"
    using mismatch(3) by (auto simp: bnd_def raise_def split: prod.splits sum.splits)
  have "grows (\<lambda>_. True) s1 s2" using q by (rule emits_grows [rotated]) (auto intro!: emits)
  then have "new_events s s2 = new_events s s1 @ new_events s1 s2"
    using read_frame_grows [OF mismatch(1)] by (blast intro: new_events_trans)
  then show ?case using read_frame_fields [OF mismatch(1)] close_fields [OF q] by simp
qed (use read_frame_fields in auto)

theorem notifications_delivered_in_order:
  assumes "read_response tmo rid s = Some (r, s')"
  shows "\<exists>ns. notification_q s' = notification_q s @ ns \<and> (\<forall>n \<in> set ns. \<not> jhas ''id'' n) \<and>
     delivered (new_events s s') = concat (map (\<lambda>n. map (\<lambda>h. (h, n)) (notification_handlers s)) ns)"
proof -
  obtain ns where "reads tmo rid s ns r s'" using assms read_response_reads by blast
  then show ?thesis using reads_notifications by (intro exI [of _ ns]) blast
qed

section \<open>The wait for a response is not bounded\<close>

text \<open>A daemon that answers every read with the next part of one and the same notification frame.\<close>

definition only_notifies :: "string \<Rightarrow> 'z world_scheme \<Rightarrow> bool" where
  "only_notifies body s \<longleftrightarrow> (\<forall>h n t. answer s h (NetRead n t) =
     Inr (JStr (if n = 4 then be_bytes 4 (length body) else body)))"

lemma only_notifies_grows: "grows P s s' \<Longrightarrow> only_notifies body s \<Longrightarrow> only_notifies body s'"
  by (simp add: grows_def only_notifies_def)

lemma only_notifies_frame:
  assumes "only_notifies body s" "connected s" "length body \<noteq> 4" "0 < length body" "length body \<le> MAX_FRAME_BYTES"
  shows "\<exists>s1. read_frame tmo s = (Inr body, s1) \<and> connected s1"
proof -
  have "length body < 256 ^ 4" using assms(5) by (simp add: MAX_FRAME_BYTES_def)
  then have "be_val (be_bytes 4 (length body)) = length body" by (rule be_val_bytes)
  with assms show ?thesis
    by (auto simp: only_notifies_def read_frame_def readexactly_def bnd_def gets_def ret_def perform_def Let_def)
qed

theorem read_response_waits_forever:
  assumes "only_notifies body s" "connected s" "length body \<noteq> 4" "0 < length body"
    and "length body \<le> MAX_FRAME_BYTES" "classify rid body = Notify obj"
  shows "read_response tmo rid s = None"
proof (rule ccontr)
  assume "read_response tmo rid s \<noteq> None"
  then obtain r s' ns where "reads tmo rid s ns r s'" using read_response_reads by fastforce
  then show False using assms(1,2)
  proof (induction rule: reads.induct)
    case (notified s b s1 obj' ns r s2)
    let ?t = "snd (dispatch_notification obj' s1)"
    have "connected s1" using only_notifies_frame [of body s tmo] notified.prems notified(1) assms by auto
    moreover have "connected ?t"
    proof (rule preserves_snd)
      show "preserves connected (dispatch_notification obj')"
        unfolding dispatch_notification_def by (auto intro!: kept)
    qed (fact \<open>connected s1\<close>)
    moreover have "only_notifies body ?t"
      using notified.prems read_frame_grows [OF notified(1)] dispatch_grows only_notifies_grows by blast
    ultimately show False using notified.IH by blast
  qed (use only_notifies_frame [of body _ tmo] assms in fastforce)+
qed

section \<open>Frames on the wire\<close>

text \<open>
  What \<open>send_frame\<close> writes is what \<open>read_frame\<close> needs: the transport interprets the framing contract.
\<close>

definition receive_frame :: "string \<Rightarrow> mcpd \<Rightarrow> (string \<times> mcpd) option" where
  "receive_frame tmo s = (case read_frame tmo s of (Inr b, s') \<Rightarrow> Some (b, s') | _ \<Rightarrow> None)"

definition sendable :: "string \<Rightarrow> bool" where
  "sendable p \<longleftrightarrow> p \<noteq> [] \<and> length p \<le> MAX_FRAME_BYTES"

definition listening :: "string \<Rightarrow> mcpd \<Rightarrow> bool" where
  "listening r s \<longleftrightarrow> connected s \<and> awaits r s"

lemma receive_frame_stream:
  assumes "sendable p" "listening (frame_bytes p @ r) s"
  shows "\<exists>s'. receive_frame tmo s = Some (p, s') \<and> listening r s'"
proof -
  have "length p < 256 ^ 4" using assms(1) by (simp add: sendable_def MAX_FRAME_BYTES_def)
  then have v: "be_val (be_bytes 4 (length p)) = length p" by (rule be_val_bytes)
  let ?h = "be_bytes 4 (length p)"
  let ?s1 = "s\<lparr>history := history s @ [(NetRead 4 tmo, Inr (JStr ?h))]\<rparr>"
  have "awaits (?h @ (p @ r)) s" using assms(2) by (simp add: listening_def frame_bytes_def)
  from readexactly_stream [OF this, of 4 tmo]
  have 1: "readexactly 4 tmo s = (Inr ?h, ?s1)" "awaits (p @ r) ?s1" by simp_all
  let ?s2 = "?s1\<lparr>history := history ?s1 @ [(NetRead (length p) tmo, Inr (JStr p))]\<rparr>"
  have 2: "readexactly (length p) tmo ?s1 = (Inr p, ?s2)" "awaits r ?s2"
    using readexactly_stream [OF 1(2) refl, of tmo] assms(1) by (simp_all add: sendable_def)
  have "read_frame tmo s = (Inr p, ?s2)"
    using assms v 1(1) 2(1) by (simp add: read_frame_def bnd_def gets_def listening_def sendable_def Let_def)
  with 2(2) assms(2) show ?thesis by (auto simp: listening_def receive_frame_def)
qed

interpretation mcpd_frames: framing frame_bytes sendable "receive_frame tmo" listening for tmo
  by unfold_locales (rule receive_frame_stream)

theorem frames_arrive_in_order:
  assumes "list_all sendable ps" "listening (concat (map frame_bytes ps) @ r) s"
  shows "\<exists>s'. receive_n (receive_frame tmo) (length ps) s = Some (ps, s') \<and> listening r s'"
  using assms by (rule mcpd_frames.receive_all)

text \<open>A successful \<open>send_frame\<close> writes exactly one sendable frame, or the empty one.\<close>

lemma send_frame_writes:
  "send_frame p s = (Inr (), s') \<Longrightarrow> (p = [] \<or> sendable p) \<and>
     (\<exists>w. new_events s s' = [(NetWrite (frame_bytes p), Inr w)])"
  by (auto simp: send_frame_def sendable_def bnd_def gets_def raise_def ret_def perform_def Let_def new_events_def
      split: if_splits sum.splits)

text \<open>The daemon that decodes a request frame finds the method, the parameters and the id of the call.\<close>

theorem envelope_round_trip:
  assumes "\<And>p. params = Some p \<Longrightarrow> wf_json p"
  shows "json_loads (json_dumps (envelope method params rid)) = Some (envelope method params rid)
     \<and> jget ''method'' (envelope method params rid) = Some (JStr method)
     \<and> jget ''id'' (envelope method params rid) = Some (JInt rid)
     \<and> jget ''params'' (envelope method params rid) = params"
proof -
  have "wf_json (envelope method params rid)"
    using assms by (auto simp: envelope_def split: option.splits)
  from json_loads_dumps [OF this] have "json_loads (json_dumps (envelope method params rid)) = Some (envelope method params rid)" .
  moreover have "jget ''method'' (envelope method params rid) = Some (JStr method)
     \<and> jget ''id'' (envelope method params rid) = Some (JInt rid)
     \<and> jget ''params'' (envelope method params rid) = params"
    by (simp add: envelope_def split: option.splits)
  ultimately show ?thesis by blast
qed

section \<open>Failures that are not reported as transport failures\<close>

text \<open>A response with a foreign id: the connection is dropped, the call is not repeated.\<close>

theorem foreign_id_drops_connection:
  assumes "prepare 0 m s = (Inr rid, s1)" "send_frame (json_dumps (envelope m p rid)) s1 = (Inr (), s2)"
    and "read_frame tmo s2 = (Inr b, s3)" "classify rid b = Mismatch msg" "close_locked s3 = (Inr (), s4)"
  shows "request m p tmo s = Some (Inl (RpcErr InternalError msg None), s4) \<and> \<not> connected s4"
proof -
  have "read_response tmo rid s2 = Some (Inl (RpcErr InternalError msg None), s4)"
    using assms(3-5) by (simp add: read_response.simps bnd_def raise_def)
  with assms(1,2) have "request m p tmo s = Some (Inl (RpcErr InternalError msg None), s4)"
    by (simp add: request_def request_attempt_def exchange_def on_failure_def finish_def)
  with close_locked_closes [OF assms(5)] show ?thesis by simp
qed

text \<open>A frame length of zero or above the limit: the call raises and keeps the connection open.\<close>

theorem bad_length_keeps_connection:
  assumes "prepare 0 m s = (Inr rid, s1)" "send_frame (json_dumps (envelope m p rid)) s1 = (Inr (), s2)"
    and "readexactly 4 tmo s2 = (Inr hdr, s3)" "be_val hdr = 0 \<or> be_val hdr > MAX_FRAME_BYTES"
  shows "request m p tmo s = Some (Inl (RpcErr InternalError (''bad frame length: '' @ nat_dec (be_val hdr)) None), s3)
     \<and> connected s3"
proof -
  let ?e = "RpcErr InternalError (''bad frame length: '' @ nat_dec (be_val hdr)) None"
  have c2: "connected s2"
    using assms(2)
    by (auto simp: send_frame_def bnd_def gets_def raise_def ret_def perform_def Let_def split: if_splits sum.splits)
  then have f: "read_frame tmo s2 = (Inl ?e, s3)"
    using assms(3,4) by (auto simp: read_frame_def bnd_def gets_def raise_def Let_def)
  have "connected s3"
    using assms(3) c2 by (auto simp: readexactly_def bnd_def ret_def raise_def perform_def Let_def
        split: sum.splits json.splits if_splits)
  moreover have "read_response tmo rid s2 = Some (Inl ?e, s3)" using f by (simp add: read_response.simps)
  with assms(1,2) have "request m p tmo s = Some (Inl ?e, s3)"
    by (simp add: request_def request_attempt_def exchange_def on_failure_def finish_def)
  ultimately show ?thesis by blast
qed

section \<open>Concrete runs\<close>

text \<open>A transport with one subscriber and a scripted network, open or closed.\<close>

definition demo :: "outcome list \<Rightarrow> bool \<Rightarrow> mcpd" where
  "demo os opened = \<lparr>history = [], answer = scripted os, endpoint = ''amiga:4322'', connected = opened,
     next_id = 1, notification_q = [], notification_handlers = [7], last_write_at = None,
     last_io_at = (if opened then Some 0 else None)\<rparr>"

abbreviation net_ok :: outcome where "net_ok \<equiv> Inr JNull"
abbreviation net_reset :: outcome where "net_reset \<equiv> Inl (PyErr ConnectionResetError ''reset'')"
abbreviation net_bytes :: "string \<Rightarrow> outcome" where "net_bytes b \<equiv> Inr (JStr b)"
abbreviation still_open :: "outcome list" where "still_open \<equiv> [Inr (JBool False), Inr (JInt 5)]"

definition reply :: json where
  "reply = JObj [(''id'', JInt 1), (''result'', JInt 7)]"

definition event_note :: json where
  "event_note = JObj [(''method'', JStr ''event'')]"

definition foreign :: json where
  "foreign = JObj [(''id'', JInt 9)]"

lemmas run_defs = demo_def request_def request_attempt_def prepare_def exchange_def
  is_stale_def at_eof_def close_locked_def ensure_connected_def touch_def take_id_def send_frame_def
  on_failure_def transport_data_def describe_def finish_def readexactly_def read_frame_def
  warmup_locked_def warmup_probe_def dispatch_notification_def
  bnd_def gets_def modify_def whenM_def ret_def raise_def catch_def succeeds_def perform_def now_def sleep_def
  Let_def scripted_def STALE_AFTER_def MUTATING_METHODS_def IDEMPOTENT_METHODS_def

lemma ascii_utf8: "list_all (\<lambda>c. ord c < (128::nat)) s \<Longrightarrow> utf8_valid s"
  by (induction s rule: utf8_valid.induct) auto

lemma classify_dumps:
  assumes "wf_json j" "list_all (\<lambda>c. ord c < (128::nat)) (json_dumps j)"
  shows "(if utf8_valid (json_dumps j) then json_loads (json_dumps j) else None) = Some j"
  using assms by (simp add: ascii_utf8 json_loads_dumps)

lemma len_request1: "length (json_dumps (envelope ''exec.cmd'' None 1)) = 49"
  by code_simp

lemma len_request2: "length (json_dumps (envelope ''sys.version'' None 1)) = 52"
  by code_simp

lemma len_warmup: "length (warmup_payload 0) = 54"
  by code_simp

lemma len_reply: "length (json_dumps reply) = 22"
  by code_simp

lemma len_event: "length (json_dumps event_note) = 19"
  by code_simp

lemma len_foreign: "length (json_dumps foreign) = 9"
  by code_simp


lemma ascii_bodies:
  "list_all (\<lambda>c. ord c < (128::nat)) (json_dumps reply)"
  "list_all (\<lambda>c. ord c < (128::nat)) (json_dumps event_note)"
  "list_all (\<lambda>c. ord c < (128::nat)) (json_dumps foreign)"
  by (simp_all add: reply_def event_note_def foreign_def dump_str_def esc_char_def int_dec_def nat_dec_def nat_base.simps digit_char_def)

lemma digits_shown: "int_dec 9 = ''9''" "int_dec 1 = ''1''" "nat_dec 0 = ''0''"
  by code_simp+

lemma classified:
  "classify 1 (json_dumps reply) = Match reply"
  "classify 1 (json_dumps event_note) = Notify event_note"
  "classify 1 (json_dumps foreign) = Mismatch ''MCPd response id=9 != 1''"
proof -
  have wf: "wf_json reply" "wf_json event_note" "wf_json foreign"
    by (simp_all add: reply_def event_note_def foreign_def)
  note c = wf [THEN classify_dumps] ascii_bodies
  show "classify 1 (json_dumps reply) = Match reply"
    using c(1) ascii_bodies unfolding classify_def by (simp add: reply_def)
  show "classify 1 (json_dumps event_note) = Notify event_note"
    using c(2) ascii_bodies unfolding classify_def by (simp add: event_note_def)
  show "classify 1 (json_dumps foreign) = Mismatch ''MCPd response id=9 != 1''"
    using c(3) ascii_bodies unfolding classify_def
    by (simp add: foreign_def is_warmup_id_def WARMUP_ID_BASE_def digits_shown)
qed

text \<open>A call that fails after its frame was written, one that is answered, and one whose daemon is gone.\<close>

definition failing :: mcpd where
  "failing = demo (still_open @ [Inr (JInt 5), net_ok, net_reset, net_ok]) True"

definition answered :: mcpd where
  "answered = demo (still_open @ [net_ok,
     net_bytes (be_bytes 4 19), net_bytes (json_dumps event_note), net_ok,
     net_bytes (be_bytes 4 22), net_bytes (json_dumps reply), Inr (JInt 6)]) True"

definition refused :: mcpd where
  "refused = demo (still_open @ [net_reset, net_ok, net_ok, Inr (JInt 6), net_reset, net_ok,
     Inl (PyErr ConnectionRefusedError ''refused'')]) True"

lemma be_val_small: "be_val (be_bytes 4 19) = 19" "be_val (be_bytes 4 22) = 22" "be_val (be_bytes 4 9) = 9" "be_val (be_bytes 4 0) = 0"
  by (simp_all add: be_val_bytes)

lemma run_failing: "map_option fst (request ''exec.cmd'' None ''30.0'' failing)
  = Some (Inl (RpcErr TargetError ''MCPd I/O failed: reset'' (Some (transport_data ''exec.cmd'' True))))"
  by (simp add: failing_def run_defs read_response.simps len_request1 MAX_FRAME_BYTES_def)

lemma reply_value: "response_value reply = Inr (JInt 7)"
  by (simp add: reply_def response_value_def)

lemma run_answered: "map_option fst (request ''sys.version'' None ''30.0'' answered) = Some (Inr (JInt 7))"
  by (simp add: answered_def run_defs read_response.simps len_request2 MAX_FRAME_BYTES_def be_val_small len_event len_reply classified reply_value)

theorem failed_reconnect_escapes:
  "map_option fst (request ''sys.version'' None ''30.0'' refused) = Some (Inl (PyErr AssertionError []))"
  by (simp add: refused_def run_defs read_response.simps len_request2 len_warmup MAX_FRAME_BYTES_def)

lemma map_fst_Some: "map_option fst x = Some r \<Longrightarrow> \<exists>s'. x = Some (r, s')"
  by auto

lemma demo_inv: "transport_inv (demo os b)"
  by (simp add: transport_inv_def demo_def)

theorem request_at_most_once_witness:
  "\<exists>r s'. request ''exec.cmd'' None ''30.0'' failing = Some (r, s') \<and> frames_sent failing s' \<le> 1"
proof -
  obtain r s' where run: "request ''exec.cmd'' None ''30.0'' failing = Some (r, s')"
    using map_fst_Some [OF run_failing] by blast
  from request_at_most_once [OF run] run show ?thesis by (auto simp: IDEMPOTENT_METHODS_def)
qed

theorem request_result_provenance_witness:
  "\<exists>s' obj. answered_by ''sys.version'' None ''30.0'' obj answered s' \<and> jget ''result'' obj = Some (JInt 7)"
proof -
  obtain s' where "request ''sys.version'' None ''30.0'' answered = Some (Inr (JInt 7), s')"
    using map_fst_Some [OF run_answered] by blast
  from request_result_provenance [OF this] show ?thesis by blast
qed

theorem request_keeps_transport_inv_witness:
  "\<exists>r s'. request ''exec.cmd'' None ''30.0'' failing = Some (r, s') \<and> transport_inv s'"
proof -
  obtain r s' where run: "request ''exec.cmd'' None ''30.0'' failing = Some (r, s')"
    using map_fst_Some [OF run_failing] by blast
  from request_keeps_transport_inv [OF run] demo_inv run show ?thesis by (auto simp: failing_def)
qed

theorem transport_failure_reports_may_have_run_witness:
  "\<exists>msg d s'. exchange 0 ''exec.cmd'' None ''30.0'' 1 (demo [net_ok, net_reset, net_ok] True)
       = Some (Done (Inl (RpcErr TargetError msg (Some d))), s')
     \<and> jget ''may_have_run'' d = Some (JBool True) \<and> \<not> connected s'"
proof -
  let ?s = "demo [net_ok, net_reset, net_ok] True"
  let ?d = "transport_data ''exec.cmd'' True"
  obtain s' where run: "exchange 0 ''exec.cmd'' None ''30.0'' 1 ?s
      = Some (Done (Inl (RpcErr TargetError ''MCPd I/O failed: reset'' (Some ?d))), s')"
    by (simp add: run_defs read_response.simps len_request1 MAX_FRAME_BYTES_def)
  have "builtin_errors ?s"
    by (auto simp: builtin_errors_def demo_def scripted_def nth_Cons split: nat.splits if_splits)
  from transport_failure_reports_may_have_run [OF run this] run show ?thesis
    by (auto simp: transport_data_def)
qed

theorem notifications_delivered_in_order_witness:
  "\<exists>r s' ns. read_response ''30.0'' 1 (demo [net_bytes (be_bytes 4 19), net_bytes (json_dumps event_note), net_ok] True)
       = Some (r, s') \<and> notification_q s' = ns \<and> delivered (history s') = map (\<lambda>n. (7, n)) ns"
proof -
  let ?s = "demo [net_bytes (be_bytes 4 19), net_bytes (json_dumps event_note), net_ok] True"
  obtain r s' where run: "read_response ''30.0'' 1 ?s = Some (r, s')"
    by (simp add: run_defs read_response.simps MAX_FRAME_BYTES_def be_val_small len_event classified)
  have "new_events ?s s' = history s'" by (simp add: new_events_def demo_def)
  with notifications_delivered_in_order [OF run] run show ?thesis
    by (auto simp: demo_def)
qed

text \<open>A daemon that answers every read with the same notification.\<close>

definition chatty :: mcpd where
  "chatty = (demo [] True)\<lparr>answer := \<lambda>h e. case e of
     NetRead n _ \<Rightarrow> Inr (JStr (if n = 4 then be_bytes 4 19 else json_dumps event_note)) | _ \<Rightarrow> net_ok\<rparr>"

theorem read_response_waits_forever_witness: "read_response ''30.0'' 1 chatty = None"
  by (rule read_response_waits_forever [of "json_dumps event_note" _ _ event_note])
     (simp_all add: only_notifies_def chatty_def demo_def len_event MAX_FRAME_BYTES_def classified)

text \<open>A peer that sends the two frames of \<open>event_note\<close> and \<open>reply\<close>.\<close>

definition two_frames :: string where
  "two_frames = concat (map frame_bytes [json_dumps event_note, json_dumps reply])"

definition streaming :: "string \<Rightarrow> (event \<times> outcome) list \<Rightarrow> event \<Rightarrow> outcome" where
  "streaming bytes h e = (case e of
     NetRead n _ \<Rightarrow> (if consumed h + n \<le> length bytes then Inr (JStr (take n (drop (consumed h) bytes)))
       else Inl (PyErr IncompleteReadError []))
   | _ \<Rightarrow> Inr JNull)"

lemma streams_streaming: "answer s = streaming bytes \<Longrightarrow> streams bytes s"
  by (simp add: streams_def streaming_def)

theorem frames_arrive_in_order_witness:
  "\<exists>s'. receive_n (receive_frame ''30.0'') 2 ((demo [] True)\<lparr>answer := streaming two_frames\<rparr>)
     = Some ([json_dumps event_note, json_dumps reply], s')"
proof -
  let ?s = "(demo [] True)\<lparr>answer := streaming two_frames\<rparr>" and ?ps = "[json_dumps event_note, json_dumps reply]"
  have "listening (concat (map frame_bytes ?ps) @ []) ?s"
    using streams_streaming [of ?s two_frames]
    by (auto simp: listening_def awaits_def unread_def consumed_def two_frames_def demo_def)
  moreover have "list_all sendable ?ps"
    using len_event len_reply by (auto simp: sendable_def MAX_FRAME_BYTES_def)
  ultimately show ?thesis
    using frames_arrive_in_order [of ?ps "[]" ?s "''30.0''"] by (auto simp: numeral_2_eq_2)
qed

theorem envelope_round_trip_witness:
  "json_loads (json_dumps (envelope ''sys.uptime'' (Some (JObj [])) 3)) = Some (envelope ''sys.uptime'' (Some (JObj [])) 3)"
  using envelope_round_trip [of "Some (JObj [])" "''sys.uptime''" 3] by auto

theorem foreign_id_drops_connection_witness:
  "\<exists>s4. request ''exec.cmd'' None ''30.0'' (demo (still_open @ [Inr (JInt 5), net_ok,
        net_bytes (be_bytes 4 9), net_bytes (json_dumps foreign), net_ok]) True)
      = Some (Inl (RpcErr InternalError ''MCPd response id=9 != 1'' None), s4) \<and> \<not> connected s4"
  (is "\<exists>s4. request _ _ _ ?s = _ \<and> _")
proof -
  obtain s1 where 1: "prepare 0 ''exec.cmd'' ?s = (Inr 1, s1)"
    "s1 = ?s\<lparr>history := [(NetAtEof, Inr (JBool False)), (Clock, Inr (JInt 5)), (Clock, Inr (JInt 5))], next_id := 2, last_write_at := Some 5\<rparr>"
    by (simp add: run_defs)
  then obtain s2 s3 s4 where
    "send_frame (json_dumps (envelope ''exec.cmd'' None 1)) s1 = (Inr (), s2)"
    "read_frame ''30.0'' s2 = (Inr (json_dumps foreign), s3)" "close_locked s3 = (Inr (), s4)"
    by (simp add: run_defs len_request1 MAX_FRAME_BYTES_def be_val_small len_foreign)
  from foreign_id_drops_connection [OF 1(1) this(1,2) classified(3) this(3)] show ?thesis by blast
qed

theorem bad_length_keeps_connection_witness:
  "\<exists>s3. request ''exec.cmd'' None ''30.0'' (demo (still_open @ [Inr (JInt 5), net_ok, net_bytes (be_bytes 4 0)]) True)
      = Some (Inl (RpcErr InternalError ''bad frame length: 0'' None), s3) \<and> connected s3"
  (is "\<exists>s3. request _ _ _ ?s = _ \<and> _")
proof -
  obtain s1 where 1: "prepare 0 ''exec.cmd'' ?s = (Inr 1, s1)"
    "s1 = ?s\<lparr>history := [(NetAtEof, Inr (JBool False)), (Clock, Inr (JInt 5)), (Clock, Inr (JInt 5))], next_id := 2, last_write_at := Some 5\<rparr>"
    by (simp add: run_defs)
  then obtain s2 s3 where
    "send_frame (json_dumps (envelope ''exec.cmd'' None 1)) s1 = (Inr (), s2)"
    "readexactly 4 ''30.0'' s2 = (Inr (be_bytes 4 0), s3)"
    by (simp add: run_defs len_request1 MAX_FRAME_BYTES_def)
  from bad_length_keeps_connection [OF 1(1) this] show ?thesis by (auto simp: be_val_small digits_shown)
qed

end
