(* ===== verification/Partial.thy ===== *)
theory Partial
  imports Framing
begin

text \<open>
  Computations that may not return: \<open>pio\<close> is \<open>io\<close> with \<open>None\<close> for a run that goes on for ever.  The
  operations mirror those of \<open>io\<close>; \<open>always\<close> embeds a computation that returns.  \<open>pemits\<close> and
  \<open>pkeeps\<close> are the counterparts of \<open>emits\<close> and \<open>preserves\<close> for the runs that end.
\<close>

type_synonym ('s, 'a) pio = "'s \<Rightarrow> ((exn + 'a) \<times> 's) option"

definition always :: "('s, 'a) io \<Rightarrow> ('s, 'a) pio" where
  "always m s = Some (m s)"

definition pbnd :: "('s, 'a) pio \<Rightarrow> ('a \<Rightarrow> ('s, 'b) pio) \<Rightarrow> ('s, 'b) pio" where
  "pbnd m f s = (case m s of None \<Rightarrow> None
     | Some (Inl e, s') \<Rightarrow> Some (Inl e, s') | Some (Inr x, s') \<Rightarrow> f x s')"

definition pcatch :: "('s, 'a) pio \<Rightarrow> (exn \<Rightarrow> ('s, 'a) pio) \<Rightarrow> ('s, 'a) pio" where
  "pcatch m h s = (case m s of None \<Rightarrow> None
     | Some (Inl e, s') \<Rightarrow> h e s' | Some (Inr x, s') \<Rightarrow> Some (Inr x, s'))"

definition pret :: "'a \<Rightarrow> ('s, 'a) pio" where
  "pret x s = Some (Inr x, s)"

definition praise :: "exn \<Rightarrow> ('s, 'a) pio" where
  "praise e s = Some (Inl e, s)"

text \<open>\<^verbatim>\<open>try: m / finally: f\<close>; an exception of \<open>f\<close> takes the place of what \<open>m\<close> did.\<close>

definition pfinally :: "('s, 'a) pio \<Rightarrow> ('s, 'b) io \<Rightarrow> ('s, 'a) pio" where
  "pfinally m f s = (case m s of None \<Rightarrow> None
     | Some (r, s1) \<Rightarrow> (case f s1 of (Inl e, s2) \<Rightarrow> Some (Inl e, s2) | (Inr _, s2) \<Rightarrow> Some (r, s2)))"

lemma pfinally_Some: "pfinally m f s = Some (r, t) \<longleftrightarrow>
    (\<exists>r1 s1. m s = Some (r1, s1) \<and> ((\<exists>e. f s1 = (Inl e, t) \<and> r = Inl e) \<or> (\<exists>x. f s1 = (Inr x, t) \<and> r = r1)))"
  by (auto simp: pfinally_def split: option.splits prod.splits sum.splits)

lemma pbnd_Some: "pbnd m f s = Some (r, t) \<longleftrightarrow>
    (\<exists>e. m s = Some (Inl e, t) \<and> r = Inl e) \<or> (\<exists>x s'. m s = Some (Inr x, s') \<and> f x s' = Some (r, t))"
  by (auto simp: pbnd_def split: option.splits prod.splits sum.splits)

lemma pcatch_Some: "pcatch m h s = Some (r, t) \<longleftrightarrow>
    (\<exists>x. m s = Some (Inr x, t) \<and> r = Inr x) \<or> (\<exists>e s'. m s = Some (Inl e, s') \<and> h e s' = Some (r, t))"
  by (auto simp: pcatch_def split: option.splits prod.splits sum.splits)

lemma pret_Some [simp]: "pret x s = Some (r, t) \<longleftrightarrow> r = Inr x \<and> t = s"
  by (auto simp: pret_def)

lemma praise_Some [simp]: "praise e s = Some (r, t) \<longleftrightarrow> r = Inl e \<and> t = s"
  by (auto simp: praise_def)

lemma always_Some [simp]: "always m s = Some (r, t) \<longleftrightarrow> m s = (r, t)"
  by (simp add: always_def)

definition pemits :: "(event \<times> outcome \<Rightarrow> bool) \<Rightarrow> ('z world_scheme, 'a) pio \<Rightarrow> bool" where
  "pemits P m \<longleftrightarrow> (\<forall>s r s'. m s = Some (r, s') \<longrightarrow> grows P s s')"

lemma pemits_grows: "pemits P m \<Longrightarrow> m s = Some (r, s') \<Longrightarrow> grows P s s'"
  unfolding pemits_def by blast

lemma pemits_always [emits]: "emits P m \<Longrightarrow> pemits P (always m)"
  by (auto simp: pemits_def intro: emits_grows)

lemma pemits_pret [emits]: "pemits P (pret x)"
  by (simp add: pemits_def)

lemma pemits_praise [emits]: "pemits P (praise e)"
  by (simp add: pemits_def)

lemma pemits_pbnd [emits]: "pemits P m \<Longrightarrow> (\<And>x. pemits P (f x)) \<Longrightarrow> pemits P (pbnd m f)"
  unfolding pemits_def pbnd_Some by (meson grows_trans)

lemma pemits_pcatch [emits]: "pemits P m \<Longrightarrow> (\<And>e. pemits P (h e)) \<Longrightarrow> pemits P (pcatch m h)"
  unfolding pemits_def pcatch_Some by (meson grows_trans)

lemma pemits_if [emits]: "(b \<Longrightarrow> pemits P m) \<Longrightarrow> (\<not> b \<Longrightarrow> pemits P m') \<Longrightarrow> pemits P (if b then m else m')"
  by simp

definition pkeeps :: "('s \<Rightarrow> bool) \<Rightarrow> ('s, 'a) pio \<Rightarrow> bool" where
  "pkeeps I m \<longleftrightarrow> (\<forall>s r s'. m s = Some (r, s') \<longrightarrow> I s \<longrightarrow> I s')"

lemma pkeepsD: "pkeeps I m \<Longrightarrow> m s = Some (r, s') \<Longrightarrow> I s \<Longrightarrow> I s'"
  unfolding pkeeps_def by blast

lemma pkeeps_always [kept]: "preserves I m \<Longrightarrow> pkeeps I (always m)"
  by (auto simp: pkeeps_def dest: preservesD)

lemma pkeeps_pret [kept]: "pkeeps I (pret x)"
  by (simp add: pkeeps_def)

lemma pkeeps_praise [kept]: "pkeeps I (praise e)"
  by (simp add: pkeeps_def)

lemma pkeeps_pbnd [kept]: "pkeeps I m \<Longrightarrow> (\<And>x. pkeeps I (f x)) \<Longrightarrow> pkeeps I (pbnd m f)"
  unfolding pkeeps_def pbnd_Some by blast

lemma pkeeps_pcatch [kept]: "pkeeps I m \<Longrightarrow> (\<And>e. pkeeps I (h e)) \<Longrightarrow> pkeeps I (pcatch m h)"
  unfolding pkeeps_def pcatch_Some by blast

lemma pkeeps_if [kept]: "(b \<Longrightarrow> pkeeps I m) \<Longrightarrow> (\<not> b \<Longrightarrow> pkeeps I m') \<Longrightarrow> pkeeps I (if b then m else m')"
  by simp

end
