(* ===== verification/Gdb.thy ===== *)
theory Gdb
  imports Partial
begin

text \<open>
  The GDB remote-serial-protocol client (\<^verbatim>\<open>transports/gdb.py\<close>).  \<open>gdb\<close> is the state of one
  \<^verbatim>\<open>GdbTransport\<close>.  A byte stream that never holds a dollar sign keeps \<open>recv_start\<close> reading for
  ever, so the operations are \<open>pio\<close>; the loop over the body of a packet is bounded and is a
  \<open>function\<close> with its termination proof.  The overall time limits \<^verbatim>\<open>cont\<close> and \<^verbatim>\<open>detach\<close> put
  around a receive are a timeout of one of its reads.
\<close>

record gdb = world +
  gdb_endpoint :: string
  gdb_open :: bool

definition GDB_MAX :: nat where
  "GDB_MAX = 2 * 1024 * 1024"

section \<open>Packets\<close>

definition checksum :: "string \<Rightarrow> nat" where
  "checksum d = sum_list (map ord d) mod 256"

definition gdb_frame :: "string \<Rightarrow> string" where
  "gdb_frame payload = ''$'' @ payload @ ''#'' @ hex2 (checksum payload)"

text \<open>\<^verbatim>\<open>int(cs.decode("ascii"), 16)\<close> on two bytes: spaces around and a sign are accepted.\<close>

definition int16 :: "string \<Rightarrow> exn + int" where
  "int16 s = (if \<not> list_all (\<lambda>c. ord c < 128) s then Inl (PyErr UnicodeDecodeError [])
     else let t = strip s; neg = startswith t ''-'';
              ds = (if neg \<or> startswith t ''+'' then drop 1 t else t)
          in if ds \<noteq> [] \<and> list_all is_hex_digit ds
             then Inr (if neg then - int (digits_val 16 ds) else int (digits_val 16 ds))
             else Inl (PyErr ValueError (''invalid literal for int() with base 16: '' @ py_repr s)))"

text \<open>\<^verbatim>\<open>bytes.fromhex\<close>: pairs of digits, white space between them.\<close>

fun fromhex :: "string \<Rightarrow> string option" where
  "fromhex [] = Some []"
| "fromhex (a # s) =
     (if a = CHR '' '' \<or> (9 \<le> ord a \<and> ord a \<le> 13) then fromhex s
      else case s of [] \<Rightarrow> None
        | b # s' \<Rightarrow> if is_hex_digit a \<and> is_hex_digit b
            then map_option ((#) (char_of (digits_val 16 [a, b]))) (fromhex s') else None)"

text \<open>\<^verbatim>\<open>f"{n:x}"\<close>, \<^verbatim>\<open>f"{n:02x}"\<close>, \<^verbatim>\<open>repr\<close> of bytes, and strict ASCII decoding.\<close>

definition int_hex :: "int \<Rightarrow> string" where
  "int_hex i = (if i < 0 then CHR ''-'' # nat_hex (nat (- i)) else nat_hex (nat i))"

definition int_hex02 :: "int \<Rightarrow> string" where
  "int_hex02 i = (let s = int_hex i in
     if length s < 2 then ''0'' @ s else s)"

definition repr_byte :: "char \<Rightarrow> char \<Rightarrow> string" where
  "repr_byte q c =
     (if c = q \<or> c = CHR 0x5C then [CHR 0x5C, c]
      else if c = CHR 0x0A then [CHR 0x5C, CHR ''n'']
      else if c = CHR 0x0D then [CHR 0x5C, CHR ''r'']
      else if c = CHR 0x09 then [CHR 0x5C, CHR ''t'']
      else if ord c < 32 \<or> ord c \<ge> 127 then [CHR 0x5C, CHR ''x''] @ hex2 (ord c)
      else [c])"

definition py_repr_bytes :: "string \<Rightarrow> string" where
  "py_repr_bytes b = (let q = (if CHR 0x27 \<in> set b \<and> CHR 0x22 \<notin> set b then CHR 0x22 else CHR 0x27)
     in ''b'' @ [q] @ concat (map (repr_byte q) b) @ [q])"

definition ascii_decode :: "string \<Rightarrow> exn + string" where
  "ascii_decode b = (if list_all (\<lambda>c. ord c < 128) b then Inr b else Inl (PyErr UnicodeDecodeError []))"

section \<open>Sending and receiving\<close>

definition write_bytes :: "string \<Rightarrow> (gdb, unit) io" where
  "write_bytes b = bnd (perform (NetWrite b)) (\<lambda>_. ret ())"

definition gdb_send :: "string \<Rightarrow> string \<Rightarrow> (gdb, unit) io" where
  "gdb_send payload tmo = bnd (gets gdb_open) (\<lambda>c.
     if \<not> c then raise (PyErr AssertionError [])
     else bnd (write_bytes (gdb_frame payload)) (\<lambda>_.
       bnd (readexactly 1 tmo) (\<lambda>ack.
       bnd (if ack = ''-''
            then bnd (write_bytes (gdb_frame payload)) (\<lambda>_. readexactly 1 tmo)
            else ret ack) (\<lambda>ack'.
       if ack' \<noteq> ''+''
       then raise (RpcErr InternalError (''GDB stub returned bad ack: '' @ py_repr_bytes ack') None)
       else ret ()))))"

partial_function (option) recv_start :: "string \<Rightarrow> gdb \<Rightarrow> ((exn + unit) \<times> gdb) option" where
  "recv_start tmo s = (case readexactly 1 tmo s of
       (Inl e, s1) \<Rightarrow> Some (Inl e, s1)
     | (Inr b, s1) \<Rightarrow> if b = ''$'' then Some (Inr (), s1) else recv_start tmo s1)"

function recv_body :: "string \<Rightarrow> string \<Rightarrow> gdb \<Rightarrow> (exn + string) \<times> gdb" where
  "recv_body tmo buf s = (case readexactly 1 tmo s of
       (Inl e, s1) \<Rightarrow> (Inl e, s1)
     | (Inr b, s1) \<Rightarrow>
        if b = ''#'' then (Inr buf, s1)
        else if length (buf @ b) > GDB_MAX then (Inl (RpcErr InternalError ''GDB packet too large'' None), s1)
        else recv_body tmo (buf @ b) s1)"
  by pat_completeness auto
termination
proof (relation "measure (\<lambda>(tmo, buf, s). Suc GDB_MAX - length buf)")
  show "((tmo, buf @ b, s1), (tmo, buf, s)) \<in> measure (\<lambda>(tmo, buf, s). Suc GDB_MAX - length buf)"
    if "(r, s1) = readexactly 1 tmo s" "r = Inr b" "\<not> GDB_MAX < length (buf @ b)" for tmo buf s b s1 r
    using that readexactly_length [of 1 tmo s b s1] by auto
qed simp

declare recv_body.simps [simp del]

definition recv_tail :: "string \<Rightarrow> string \<Rightarrow> (gdb, string) io" where
  "recv_tail tmo buf =
     bnd (readexactly 2 tmo) (\<lambda>cs.
     case int16 cs of Inl e \<Rightarrow> raise e
     | Inr got \<Rightarrow>
        if got \<noteq> int (checksum buf)
        then bnd (write_bytes ''-'') (\<lambda>_. raise (RpcErr InternalError
               (''GDB packet checksum mismatch: got '' @ int_hex02 got @ '' expected '' @ hex2 (checksum buf)) None))
        else bnd (write_bytes ''+'') (\<lambda>_. ret buf))"

definition gdb_recv :: "string \<Rightarrow> (gdb, string) pio" where
  "gdb_recv tmo = pbnd (always (gets gdb_open)) (\<lambda>c.
     if \<not> c then praise (PyErr AssertionError [])
     else pbnd (recv_start tmo) (\<lambda>_. always (bnd (recv_body tmo []) (recv_tail tmo))))"

definition DEFAULT_TIMEOUT_S :: string where
  "DEFAULT_TIMEOUT_S = ''5.0''"

definition gdb_connect :: "(gdb, unit) pio" where
  "gdb_connect = pbnd (always (gets gdb_open)) (\<lambda>c.
     if c then pret ()
     else pbnd (always (bnd (gets gdb_endpoint) (\<lambda>ep.
            catch (bnd (perform (NetConnect ep)) (\<lambda>_. ret ())) (\<lambda>e. case e of
              PyErr t m \<Rightarrow> if is_os_error t
                then raise (RpcErr TargetError (''GDB stub not reachable at '' @ ep)
                       (Some (JObj [(''endpoint'', JStr ep), (''error'', JStr m)])))
                else raise e
            | _ \<Rightarrow> raise e)))) (\<lambda>_.
       pbnd (always (modify (\<lambda>s. s\<lparr>gdb_open := True\<rparr>))) (\<lambda>_.
       pbnd (always (gdb_send ''qSupported:swbreak+;hwbreak+'' DEFAULT_TIMEOUT_S)) (\<lambda>_.
       pbnd (gdb_recv DEFAULT_TIMEOUT_S) (\<lambda>_. pret ())))))"

definition gdb_close_locked :: "(gdb, unit) io" where
  "gdb_close_locked = bnd (gets gdb_open) (\<lambda>c.
     bnd (modify (\<lambda>s. s\<lparr>gdb_open := False\<rparr>)) (\<lambda>_.
     whenM c (bnd (catch (perform NetClose) (\<lambda>e. case e of
         PyErr t m \<Rightarrow> if is_os_error t then ret JNull else raise e
       | _ \<Rightarrow> raise e)) (\<lambda>_. ret ()))))"

section \<open>Exchanging one packet\<close>

fun gdb_net_error :: "exn \<Rightarrow> bool" where
  "gdb_net_error (PyErr t m) = (t = IncompleteReadError \<or> is_os_error t)"
| "gdb_net_error (RpcErr _ _ _) = False"

definition gdb_data :: "string \<Rightarrow> bool \<Rightarrow> json" where
  "gdb_data payload sent = JObj [(''payload'', JStr (ascii_replace (take 80 payload))),
     (''may_have_run'', JBool sent)]"

text \<open>One pass of the loop; \<open>None\<close> as a value means \<^verbatim>\<open>continue\<close>.\<close>

definition gdb_failed :: "nat \<Rightarrow> string \<Rightarrow> string \<Rightarrow> bool \<Rightarrow> exn \<Rightarrow> (gdb, string option) io" where
  "gdb_failed attempt payload tmo sent e =
     (case e of
        PyErr t m \<Rightarrow>
          if t = TimeoutError then
            bnd gdb_close_locked (\<lambda>_. raise (RpcErr TargetError
              (''GDB stub request timed out after '' @ tmo @ ''s'') (Some (gdb_data payload sent))))
          else if gdb_net_error e then
            bnd gdb_close_locked (\<lambda>_.
              if attempt = 0 \<and> \<not> sent then ret None
              else raise (RpcErr TargetError
                (''GDB stub I/O failed: '' @ (if m \<noteq> [] then m else type_name t))
                (Some (gdb_data payload sent))))
          else raise e
      | RpcErr _ _ _ \<Rightarrow> raise e)"

definition gdb_attempt :: "nat \<Rightarrow> string \<Rightarrow> string \<Rightarrow> (gdb, string option) pio" where
  "gdb_attempt attempt payload tmo s =
     (case pbnd gdb_connect (\<lambda>_. always (gdb_send payload tmo)) s of
        None \<Rightarrow> None
      | Some (Inl e, s1) \<Rightarrow> Some (gdb_failed attempt payload tmo False e s1)
      | Some (Inr _, s1) \<Rightarrow> pcatch (pbnd (gdb_recv tmo) (\<lambda>r. pret (Some r)))
            (\<lambda>e. always (gdb_failed attempt payload tmo True e)) s1)"

definition gdb_exchange :: "string \<Rightarrow> string \<Rightarrow> (gdb, string) pio" where
  "gdb_exchange payload tmo =
     pbnd (gdb_attempt 0 payload tmo) (\<lambda>r. case r of
         Some v \<Rightarrow> pret v
       | None \<Rightarrow> pbnd (gdb_attempt 1 payload tmo) (\<lambda>r'. case r' of
             Some v \<Rightarrow> pret v
           | None \<Rightarrow> praise (RpcErr InternalError ''unreachable'' None)))"

section \<open>Public operations\<close>

definition is_stub_error :: "string \<Rightarrow> bool" where
  "is_stub_error resp \<longleftrightarrow> startswith resp ''E'' \<and> length resp \<le> 4"

text \<open>The error of a stub: its text is decoded as ASCII, which may raise on its own.\<close>

definition stub_error :: "string \<Rightarrow> string \<Rightarrow> json option \<Rightarrow> (gdb, 'a) pio" where
  "stub_error msg resp data = (case ascii_decode resp of
       Inl e \<Rightarrow> praise e
     | Inr t \<Rightarrow> praise (RpcErr TargetError (msg @ t) data))"

definition read_registers :: "(gdb, string) pio" where
  "read_registers = pbnd (gdb_exchange ''g'' DEFAULT_TIMEOUT_S) (\<lambda>resp.
     if is_stub_error resp then stub_error ''GDB stub error reading registers: '' resp None
     else case fromhex resp of
         Some b \<Rightarrow> pret b
       | None \<Rightarrow> praise (RpcErr InternalError
            (''GDB stub returned non-hex register blob: '' @ py_repr_bytes (take 80 resp)) None))"

definition read_one_register :: "int \<Rightarrow> (gdb, nat) pio" where
  "read_one_register regnum =
     pbnd (gdb_exchange (''p'' @ int_hex regnum) DEFAULT_TIMEOUT_S) (\<lambda>resp.
     if is_stub_error resp
     then stub_error (''GDB read register '' @ int_dec regnum @ '' failed: '') resp
            (Some (JObj [(''regnum'', JInt regnum)]))
     else if resp = []
     then praise (RpcErr TargetError ''GDB stub doesn't support `p` packet''
            (Some (JObj [(''regnum'', JInt regnum)])))
     else case fromhex resp of
         None \<Rightarrow> praise (RpcErr InternalError (''non-hex register reply: '' @ py_repr_bytes (take 80 resp)) None)
       | Some b \<Rightarrow>
           if length b = 4 \<or> length b = 8 then pret (be_val b)
           else praise (RpcErr TargetError
             (''unexpected register width: '' @ nat_dec (length b) @ '' bytes'')
             (Some (JObj [(''regnum'', JInt regnum), (''bytes'', JInt (int (length b)))]))))"

definition gdb_cont :: "string \<Rightarrow> (gdb, string) pio" where
  "gdb_cont tmo =
     pbnd gdb_connect (\<lambda>_.
     pbnd (always (gdb_send ''c'' DEFAULT_TIMEOUT_S)) (\<lambda>_.
     pbnd (pcatch (gdb_recv tmo) (\<lambda>e. case e of
         PyErr TimeoutError _ \<Rightarrow>
           pbnd (always (write_bytes [CHR 0x03])) (\<lambda>_.
           pcatch (gdb_recv ''10.0'') (\<lambda>e'. case e' of
               PyErr TimeoutError _ \<Rightarrow>
                 pbnd (always gdb_close_locked) (\<lambda>_. praise (RpcErr TargetError
                   ''continue: stub didn't respond to Ctrl-C interrupt'' None))
             | _ \<Rightarrow> praise e'))
       | _ \<Rightarrow> praise e)) (\<lambda>resp. pret (ascii_replace resp))))"

definition read_memory :: "int \<Rightarrow> int \<Rightarrow> (gdb, string) pio" where
  "read_memory addr len =
     (if len \<le> 0 then pret []
      else if len > 65536
      then praise (RpcErr TargetError ''read_memory length capped at 64 KiB per request''
             (Some (JObj [(''requested'', JInt len)])))
      else pbnd (gdb_exchange (''m'' @ int_hex addr @ '','' @ int_hex len) DEFAULT_TIMEOUT_S) (\<lambda>resp.
        if is_stub_error resp
        then stub_error (''GDB stub error reading memory at 0x'' @ int_hex addr @ '': '') resp
               (Some (JObj [(''addr'', JInt addr), (''length'', JInt len)]))
        else case fromhex resp of
            Some b \<Rightarrow> pret b
          | None \<Rightarrow> praise (RpcErr InternalError
              (''GDB stub returned non-hex memory blob: '' @ py_repr_bytes (take 80 resp)) None)))"

definition stop_reason :: "(gdb, string) pio" where
  "stop_reason = pbnd (gdb_exchange ''?'' DEFAULT_TIMEOUT_S) (\<lambda>resp. pret (ascii_replace resp))"

definition set_breakpoint :: "int \<Rightarrow> int \<Rightarrow> bool \<Rightarrow> (gdb, string) pio" where
  "set_breakpoint addr kind hardware =
     pbnd (gdb_exchange ((if hardware then ''Z1'' else ''Z0'') @ '','' @ int_hex addr @ '','' @ int_hex kind)
             DEFAULT_TIMEOUT_S) (\<lambda>resp.
     if is_stub_error resp
     then stub_error (''GDB stub error setting breakpoint at 0x'' @ int_hex addr @ '': '') resp
            (Some (JObj [(''addr'', JInt addr), (''kind'', JInt kind), (''hardware'', JBool hardware)]))
     else pret (ascii_replace resp))"

definition clear_breakpoint :: "int \<Rightarrow> int \<Rightarrow> bool \<Rightarrow> (gdb, string) pio" where
  "clear_breakpoint addr kind hardware =
     pbnd (gdb_exchange ((if hardware then ''z1'' else ''z0'') @ '','' @ int_hex addr @ '','' @ int_hex kind)
             DEFAULT_TIMEOUT_S) (\<lambda>resp.
     if is_stub_error resp
     then stub_error (''GDB stub error clearing breakpoint at 0x'' @ int_hex addr @ '': '') resp
            (Some (JObj [(''addr'', JInt addr), (''kind'', JInt kind), (''hardware'', JBool hardware)]))
     else pret (ascii_replace resp))"

definition gdb_step :: "(gdb, string) pio" where
  "gdb_step = pbnd (gdb_exchange ''s'' ''10.0'') (\<lambda>resp. pret (ascii_replace resp))"

definition gdb_detach :: "(gdb, unit) pio" where
  "gdb_detach = pbnd (always (gets gdb_open)) (\<lambda>c.
     if \<not> c then pret ()
     else pbnd (pcatch
            (pbnd (always (gdb_send ''D'' DEFAULT_TIMEOUT_S)) (\<lambda>_.
             pcatch (pbnd (gdb_recv ''1.0'') (\<lambda>_. pret ()))
               (\<lambda>e. if gdb_net_error e then pret () else praise e)))
            (\<lambda>_. pret ())) (\<lambda>_. always gdb_close_locked))"

end
