(* ===== verification/Gdb_Correct.thy ===== *)
theory Gdb_Correct
  imports Gdb
begin

text \<open>
  Properties of the GDB client: packets arrive as they were framed, whatever precedes them; a
  packet is accepted only with its checksum; a memory read returns the bytes the stub printed; and
  a packet whose acknowledgement is lost is sent again.
\<close>

section \<open>Packets arrive as they were sent\<close>

lemma awaits_cons:
  assumes "awaits (c # r) s"
  shows "\<exists>s'. readexactly 1 tmo s = (Inr [c], s') \<and> awaits r s' \<and> s' = s\<lparr>history := history s'\<rparr>"
  using readexactly_stream [of "[c]" r s 1 tmo] assms by auto

text \<open>A state that differs only in its history.\<close>

definition same_fields :: "gdb \<Rightarrow> gdb \<Rightarrow> bool" where
  "same_fields s s' \<longleftrightarrow> gdb_open s' = gdb_open s \<and> gdb_endpoint s' = gdb_endpoint s"

lemma same_fields_refl [simp]: "same_fields s s"
  by (simp add: same_fields_def)

lemma same_fields_trans: "same_fields s t \<Longrightarrow> same_fields t u \<Longrightarrow> same_fields s u"
  by (simp add: same_fields_def)

lemma read_cons:
  fixes s :: gdb
  assumes "awaits (c # r) s"
  shows "\<exists>s'. readexactly 1 tmo s = (Inr [c], s') \<and> awaits r s' \<and> same_fields s s'"
  using readexactly_stream [of "[c]" r s 1 tmo] assms by (auto simp: same_fields_def)

lemma recv_start_stream:
  "CHR ''$'' \<notin> set junk \<Longrightarrow> awaits (junk @ CHR ''$'' # r) s \<Longrightarrow>
   \<exists>s'. recv_start tmo s = Some (Inr (), s') \<and> awaits r s' \<and> same_fields s s'"
proof (induction junk arbitrary: s)
  case Nil
  then obtain s' where "readexactly 1 tmo s = (Inr ''$'', s')" "awaits r s'" "same_fields s s'"
    using read_cons by fastforce
  then show ?case by (simp add: recv_start.simps)
next
  case (Cons c junk)
  then obtain s1 where s1: "readexactly 1 tmo s = (Inr [c], s1)" "awaits (junk @ CHR ''$'' # r) s1" "same_fields s s1"
    using read_cons [of c "junk @ CHR ''$'' # r" s tmo] by auto
  with Cons obtain s' where "recv_start tmo s1 = Some (Inr (), s')" "awaits r s'" "same_fields s1 s'" by auto
  with s1 Cons.prems(1) show ?case by (auto simp: recv_start.simps [of tmo s] intro: same_fields_trans)
qed

lemma recv_body_stream:
  "CHR ''#'' \<notin> set p \<Longrightarrow> length (buf @ p) \<le> GDB_MAX \<Longrightarrow> awaits (p @ CHR ''#'' # r) s \<Longrightarrow>
   \<exists>s'. recv_body tmo buf s = (Inr (buf @ p), s') \<and> awaits r s' \<and> same_fields s s'"
proof (induction p arbitrary: buf s)
  case Nil
  then obtain s' where "readexactly 1 tmo s = (Inr ''#'', s')" "awaits r s'" "same_fields s s'"
    using read_cons by fastforce
  then show ?case by (simp add: recv_body.simps)
next
  case (Cons c p)
  then obtain s1 where s1: "readexactly 1 tmo s = (Inr [c], s1)" "awaits (p @ CHR ''#'' # r) s1" "same_fields s s1"
    using read_cons [of c "p @ CHR ''#'' # r" s tmo] by auto
  with Cons obtain s' where "recv_body tmo (buf @ [c]) s1 = (Inr ((buf @ [c]) @ p), s')" "awaits r s'" "same_fields s1 s'"
    by (metis append.assoc append_Cons append_Nil list.set_intros(2))
  with s1 Cons.prems(1,2) show ?case by (auto simp: recv_body.simps [of tmo buf s] intro: same_fields_trans)
qed

lemma digit_char_zero: "digit_char 0 = CHR ''0''"
  by code_simp

lemma ord_digit_char: "d < 16 \<Longrightarrow> ord (digit_char d) = (if d < 10 then 48 + d else 87 + d)"
  by (simp add: digit_char_def)

lemma char_neq_ord: "ord c \<noteq> ord d \<Longrightarrow> c \<noteq> d"
  by blast

lemma hex2_eq: "n < 256 \<Longrightarrow> hex2 n = [digit_char (n div 16), digit_char (n mod 16)]"
proof (cases "n < 16")
  case True
  then show ?thesis by (simp add: hex2_def nat_hex_def nat_base.simps [of 16 n] digit_char_zero)
next
  case False
  assume "n < 256"
  with False have "n div 16 < 16" by auto
  with False show ?thesis
    by (simp add: hex2_def nat_hex_def nat_base.simps [of 16 n] nat_base.simps [of 16 "n div 16"])
qed

lemma hex_pair:
  assumes "n < 256"
  shows "digits_val 16 [digit_char (n div 16), digit_char (n mod 16)] = n"
proof -
  have "n div 16 < 16" "n mod 16 < 16" using assms by auto
  then show ?thesis by (simp add: digits_val_def digit_val_char)
qed

lemma digit_char_plain:
  assumes "d < 16"
  shows "is_hex_digit (digit_char d) \<and> ord (digit_char d) < 128 \<and> \<not> py_isspace (digit_char d) \<and>
    digit_char d \<noteq> CHR ''-'' \<and> digit_char d \<noteq> CHR ''+'' \<and> digit_char d \<noteq> CHR ''#'' \<and>
    digit_char d \<noteq> CHR ''$'' \<and> digit_char d \<noteq> CHR ''E'' \<and> 32 < ord (digit_char d)"
  using assms ord_digit_char [OF assms]
  by (auto simp: is_hex_digit_char py_isspace_def intro!: char_neq_ord split: if_splits)

lemma int16_hex2:
  assumes "n < 256"
  shows "int16 (hex2 n) = Inr (int n)"
proof -
  have d: "n div 16 < 16" "n mod 16 < 16" using assms by auto
  note p = digit_char_plain [OF d(1)] digit_char_plain [OF d(2)]
  have "strip (hex2 n) = hex2 n"
    using p by (simp add: strip_def rstrip_pred_def lstrip_def hex2_eq [OF assms])
  then show ?thesis
    using p hex_pair [OF assms] by (simp add: int16_def hex2_eq [OF assms] Let_def py_str)
qed

lemma write_stream:
  fixes s :: gdb
  assumes "awaits r s"
  shows "\<exists>s' w. write_bytes b s = (Inr (), s') \<and> awaits r s' \<and> same_fields s s' \<and>
    history s' = history s @ [(NetWrite b, Inr w)]"
proof -
  obtain v s' where p: "perform (NetWrite b) s = (v, s')" by force
  with awaits_write [OF assms p] show ?thesis
    by (cases v) (auto simp: write_bytes_def bnd_def ret_def perform_def Let_def same_fields_def)
qed

definition packet_ok :: "string \<Rightarrow> bool" where
  "packet_ok p \<longleftrightarrow> CHR ''#'' \<notin> set p \<and> length p \<le> GDB_MAX"

definition attached :: "string \<Rightarrow> gdb \<Rightarrow> bool" where
  "attached r s \<longleftrightarrow> gdb_open s \<and> awaits r s"

lemma gdb_recv_frame:
  assumes "packet_ok p" "CHR ''$'' \<notin> set junk" "attached (junk @ gdb_frame p @ r) s"
  shows "\<exists>s'. gdb_recv tmo s = Some (Inr p, s') \<and> attached r s' \<and>
     (\<exists>w. last (history s') = (NetWrite ''+'', Inr w))"
proof -
  let ?cs = "hex2 (checksum p)"
  have c: "checksum p < 256" by (simp add: checksum_def)
  have a0: "awaits (junk @ CHR ''$'' # (p @ CHR ''#'' # (?cs @ r))) s" "gdb_open s"
    using assms(3) by (simp_all add: attached_def gdb_frame_def)
  obtain s1 where 1: "recv_start tmo s = Some (Inr (), s1)" "awaits (p @ CHR ''#'' # (?cs @ r)) s1" "same_fields s s1"
    using recv_start_stream [OF assms(2) a0(1)] by blast
  obtain s2 where 2: "recv_body tmo [] s1 = (Inr p, s2)" "awaits (?cs @ r) s2" "same_fields s1 s2"
    using recv_body_stream [of p "[]" _ s1 tmo] assms(1) 1(2) by (auto simp: packet_ok_def)
  obtain s3 where 3: "readexactly 2 tmo s2 = (Inr ?cs, s3)" "awaits r s3" "same_fields s2 s3"
    using readexactly_stream [OF 2(2), of 2 tmo] hex2_eq [OF c] by (auto simp: same_fields_def)
  obtain s4 w where 4: "write_bytes ''+'' s3 = (Inr (), s4)" "awaits r s4" "same_fields s3 s4"
    "history s4 = history s3 @ [(NetWrite ''+'', Inr w)]"
    using write_stream [OF 3(2)] by blast
  have "gdb_recv tmo s = Some (Inr p, s4)"
    using 1(1) 2(1) 3(1) 4(1) a0(2) int16_hex2 [OF c]
    by (simp add: gdb_recv_def pbnd_def always_def gets_def recv_tail_def bnd_def ret_def)
  moreover have "gdb_open s4" using a0(2) 1(3) 2(3) 3(3) 4(3) by (simp add: same_fields_def)
  ultimately show ?thesis using 4(2,4) by (auto simp: attached_def)
qed

definition gdb_receive :: "string \<Rightarrow> gdb \<Rightarrow> (string \<times> gdb) option" where
  "gdb_receive tmo s = (case gdb_recv tmo s of Some (Inr p, s') \<Rightarrow> Some (p, s') | _ \<Rightarrow> None)"

interpretation gdb_packets: framing gdb_frame packet_ok "gdb_receive tmo" attached for tmo
proof unfold_locales
  fix m r s assume "packet_ok m" "attached (gdb_frame m @ r) s"
  then obtain s' where "gdb_recv tmo s = Some (Inr m, s')" "attached r s'"
    using gdb_recv_frame [of m "[]" r s tmo] by auto
  then show "\<exists>s'. gdb_receive tmo s = Some (m, s') \<and> attached r s'" by (simp add: gdb_receive_def)
qed

text \<open>
  C14. A sequence of well-formed GDB packets, framed by the sender and read back by successive
  _recv calls, is received unchanged and in order, leaving the rest of the stream unread.
\<close>

theorem gdb_packets_in_order:
  assumes "list_all packet_ok ps" "attached (concat (map gdb_frame ps) @ r) s"
  shows "\<exists>s'. receive_n (gdb_receive tmo) (length ps) s = Some (ps, s') \<and> attached r s'"
  using assms by (rule gdb_packets.receive_all)

section \<open>Only packets with their checksum are accepted\<close>

lemma recv_body_sound:
  "recv_body tmo buf s = (Inr p, s') \<Longrightarrow> CHR ''#'' \<notin> set buf \<Longrightarrow> length buf \<le> GDB_MAX \<Longrightarrow> packet_ok p"
proof (induction tmo buf s rule: recv_body.induct)
  case (1 tmo buf s)
  obtain x s1 where x: "readexactly 1 tmo s = (x, s1)" by force
  show ?case
  proof (cases x)
    case (Inl e)
    with 1(2) x show ?thesis by (subst (asm) recv_body.simps) auto
  next
    case (Inr b)
    with x have "length b = 1" using readexactly_length by blast
    then obtain c where c: "b = [c]" by (auto simp: length_Suc_conv)
    show ?thesis
    proof (cases "b = ''#'' \<or> length (buf @ b) > GDB_MAX")
      case True
      with 1(2-4) x Inr show ?thesis
        by (subst (asm) recv_body.simps) (auto simp: packet_ok_def split: if_splits)
    next
      case False
      with 1(2) x Inr have "recv_body tmo (buf @ b) s1 = (Inr p, s')" by (subst (asm) recv_body.simps) auto
      moreover have "CHR ''#'' \<notin> set (buf @ b)" using False c 1(3) by auto
      ultimately show ?thesis using 1(1) [OF x [symmetric] Inr] False by auto
    qed
  qed
qed

lemma recv_tail_result:
  assumes "recv_tail tmo p s = (Inr q, s')"
  shows "q = p \<and> (\<exists>h cs w. history s' = h @ [(NetRead 2 tmo, Inr (JStr cs)), (NetWrite ''+'', Inr w)]
     \<and> int16 cs = Inr (int (checksum p)))"
  using assms
  by (auto simp: recv_tail_def bnd_def readexactly_def write_bytes_def perform_def Let_def ret_def raise_def
      split: if_splits sum.splits json.splits)

lemma gdb_recv_cases:
  assumes "gdb_recv tmo s = Some (Inr p, s')"
  obtains s1 s2 where "recv_start tmo s = Some (Inr (), s1)" "recv_body tmo [] s1 = (Inr p, s2)"
    "recv_tail tmo p s2 = (Inr p, s')"
proof -
  obtain s1 buf s2 where "recv_start tmo s = Some (Inr (), s1)" "recv_body tmo [] s1 = (Inr buf, s2)"
    "recv_tail tmo buf s2 = (Inr p, s')"
    using assms by (auto simp: gdb_recv_def pbnd_Some bnd_eq_Inr gets_def split: if_splits)
  with recv_tail_result [of tmo buf s2 p s'] that show thesis by blast
qed

theorem gdb_recv_sound:
  assumes "gdb_recv tmo s = Some (Inr p, s')"
  shows "packet_ok p \<and> (\<exists>h cs w. history s' = h @ [(NetRead 2 tmo, Inr (JStr cs)), (NetWrite ''+'', Inr w)]
     \<and> int16 cs = Inr (int (checksum p)))"
  using assms by (rule gdb_recv_cases) (use recv_tail_result recv_body_sound in force)

section \<open>Reading memory and registers\<close>

definition hexs :: "string \<Rightarrow> string" where
  "hexs b = concat (map (\<lambda>c. hex2 (ord c)) b)"

lemma nibbles: "ord c div 16 < 16" "ord c mod 16 < 16"
  by (simp_all add: less_mult_imp_div_less)

lemma hexs_Cons: "hexs (c # b) = digit_char (ord c div 16) # digit_char (ord c mod 16) # hexs b"
  using hex2_eq [of "ord c"] nat_of_char_less_256 [of c] by (simp add: hexs_def)

lemma fromhex_hexs: "fromhex (hexs b) = Some b"
proof (induction b)
  case Nil
  show ?case by (simp add: hexs_def)
next
  case (Cons c b)
  note d = nibbles [of c]
  have "char_of (digits_val 16 [digit_char (ord c div 16), digit_char (ord c mod 16)]) = c"
    using hex_pair [of "ord c"] nat_of_char_less_256 [of c] by simp
  with Cons digit_char_plain [OF d(1)] digit_char_plain [OF d(2)] show ?case
    by (simp add: hexs_Cons del: fromhex.simps(2)) (subst fromhex.simps(2), auto)
qed

lemma hexs_ok: "2 * length b \<le> GDB_MAX \<Longrightarrow> packet_ok (hexs b) \<and> \<not> is_stub_error (hexs b)"
proof -
  have len: "length (hexs b) = 2 * length b" by (induction b) (simp_all add: hexs_Cons, simp add: hexs_def)
  have "CHR ''#'' \<notin> set (hexs b)"
  proof (induction b)
    case (Cons c b)
    note d = nibbles [of c]
    from Cons digit_char_plain [OF d(1)] digit_char_plain [OF d(2)] show ?case by (auto simp: hexs_Cons)
  qed (simp add: hexs_def)
  moreover have "\<not> startswith (hexs b) ''E''"
  proof (cases b)
    case (Cons c b')
    note d = nibbles(1) [of c]
    from Cons digit_char_plain [OF d] show ?thesis by (simp add: hexs_Cons py_str)
  qed (simp add: hexs_def startswith_def)
  moreover assume "2 * length b \<le> GDB_MAX"
  ultimately show ?thesis using len by (simp add: packet_ok_def is_stub_error_def)
qed

lemma gdb_send_acked:
  assumes "attached (CHR ''+'' # r) s"
  shows "\<exists>s'. gdb_send p tmo s = (Inr (), s') \<and> attached r s'"
proof -
  have a: "awaits (CHR ''+'' # r) s" "gdb_open s" using assms by (simp_all add: attached_def)
  obtain s1 where 1: "write_bytes (gdb_frame p) s = (Inr (), s1)" "awaits (CHR ''+'' # r) s1" "same_fields s s1"
    using write_stream [OF a(1)] by blast
  obtain s2 where 2: "readexactly 1 tmo s1 = (Inr ''+'', s2)" "awaits r s2" "same_fields s1 s2"
    using read_cons [OF 1(2)] by blast
  have "gdb_send p tmo s = (Inr (), s2)"
    using 1(1) 2(1) a(2) by (simp add: gdb_send_def bnd_def gets_def ret_def)
  moreover have "gdb_open s2" using a(2) 1(3) 2(3) by (simp add: same_fields_def)
  ultimately show ?thesis using 2(2) by (auto simp: attached_def)
qed

lemma gdb_exchange_reply:
  assumes "packet_ok resp" "attached (''+'' @ gdb_frame resp @ r) s"
  shows "\<exists>s'. gdb_exchange p tmo s = Some (Inr resp, s') \<and> attached r s'"
proof -
  obtain s1 where 1: "gdb_send p tmo s = (Inr (), s1)" "attached (gdb_frame resp @ r) s1"
    using gdb_send_acked [of "gdb_frame resp @ r" s p tmo] assms(2) by auto
  obtain s2 where 2: "gdb_recv tmo s1 = Some (Inr resp, s2)" "attached r s2"
    using gdb_recv_frame [of resp "[]" r s1 tmo] assms(1) 1(2) by auto
  have "gdb_open s" using assms(2) by (simp add: attached_def)
  then have "gdb_connect s = Some (Inr (), s)"
    by (simp add: gdb_connect_def pbnd_def always_def gets_def pret_def)
  with 1(1) 2(1) have "gdb_exchange p tmo s = Some (Inr resp, s2)"
    by (simp add: gdb_exchange_def gdb_attempt_def pbnd_def always_def pcatch_def pret_def)
  with 2(2) show ?thesis by blast
qed

theorem read_memory_returns_bytes:
  assumes "0 < len" "len \<le> 65536" "length b = nat len" "attached (''+'' @ gdb_frame (hexs b) @ r) s"
  shows "\<exists>s'. read_memory addr len s = Some (Inr b, s') \<and> attached r s'"
proof -
  have ok: "packet_ok (hexs b)" "\<not> is_stub_error (hexs b)"
    using hexs_ok [of b] assms(2,3) by (simp_all add: GDB_MAX_def)
  obtain s' where "gdb_exchange (''m'' @ int_hex addr @ '','' @ int_hex len) DEFAULT_TIMEOUT_S s = Some (Inr (hexs b), s')"
    "attached r s'"
    using gdb_exchange_reply [OF ok(1) assms(4)] by blast
  with assms(1,2) ok(2) show ?thesis
    by (simp add: read_memory_def pbnd_def fromhex_hexs pret_def)
qed

theorem read_one_register_big_endian:
  assumes "width = 4 \<or> width = 8" "v < 256 ^ width" "attached (''+'' @ gdb_frame (hexs (be_bytes width v)) @ r) s"
  shows "\<exists>s'. read_one_register regnum s = Some (Inr v, s') \<and> attached r s'"
proof -
  let ?b = "be_bytes width v"
  have ok: "packet_ok (hexs ?b)" "\<not> is_stub_error (hexs ?b)"
    using hexs_ok [of ?b] assms(1) by (auto simp: GDB_MAX_def)
  have ne: "hexs ?b \<noteq> []" using assms(1) fromhex_hexs [of ?b] by (cases ?b) (auto dest: arg_cong [of _ _ length] simp: hexs_Cons)
  obtain s' where "gdb_exchange (''p'' @ int_hex regnum) DEFAULT_TIMEOUT_S s = Some (Inr (hexs ?b), s')" "attached r s'"
    using gdb_exchange_reply [OF ok(1) assms(3)] by blast
  with assms(1,2) ok(2) ne show ?thesis
    by (auto simp: read_one_register_def pbnd_def fromhex_hexs pret_def be_val_bytes)
qed

section \<open>A lost acknowledgement repeats the packet\<close>

definition gdb_demo :: "((event \<times> outcome) list \<Rightarrow> event \<Rightarrow> outcome) \<Rightarrow> gdb" where
  "gdb_demo env = \<lparr>history = [], answer = env, gdb_endpoint = ''127.0.0.1:1234'', gdb_open = True\<rparr>"

abbreviation byte :: "string \<Rightarrow> outcome" where "byte b \<equiv> Inr (JStr b)"

lemmas gdb_run = gdb_demo_def gdb_exchange_def gdb_attempt_def gdb_connect_def gdb_send_def gdb_recv_def
  gdb_failed_def gdb_close_locked_def write_bytes_def readexactly_def recv_start.simps recv_body.simps recv_tail_def
  gdb_step_def bnd_def gets_def modify_def whenM_def ret_def raise_def catch_def perform_def Let_def scripted_def
  pbnd_def pcatch_def pret_def praise_def always_def GDB_MAX_def

text \<open>
  The stub gets the step packet, and the connection is lost before its acknowledgement: the client
  connects again and sends the step a second time, and reports success.
\<close>

definition lost_ack :: gdb where
  "lost_ack = gdb_demo (scripted [Inr JNull, Inl (PyErr ConnectionResetError ''reset''), Inr JNull,
     Inr JNull, Inr JNull, byte ''+'', byte ''$'', byte ''#'', byte (hex2 (checksum [])), Inr JNull,
     Inr JNull, byte ''+'', byte ''$'', byte ''S'', byte ''#'', byte (hex2 (checksum ''S'')), Inr JNull])"

lemma length_hex2: "n < 256 \<Longrightarrow> length (hex2 n) = Suc (Suc 0)"
  by (simp add: hex2_eq)

theorem step_repeated_after_lost_ack:
  "case gdb_step lost_ack of
     Some (Inr r, s') \<Rightarrow> r = ''S'' \<and> length (filter (\<lambda>e. e = (NetWrite (gdb_frame ''s''), Inr JNull)) (history s')) = 2
   | _ \<Rightarrow> False"
proof -
  have c: "checksum d < 256" for d by (simp add: checksum_def)
  have "gdb_frame ''qSupported:swbreak+;hwbreak+'' \<noteq> gdb_frame ''s''" by (simp add: gdb_frame_def)
  then show ?thesis
    using int16_hex2 [OF c] length_hex2 [OF c]
    by (simp add: lost_ack_def gdb_run ascii_replace_def numeral_2_eq_2 gdb_frame_def)
qed

section \<open>Concrete runs\<close>

definition serving :: "string \<Rightarrow> (event \<times> outcome) list \<Rightarrow> event \<Rightarrow> outcome" where
  "serving bytes h e = (case e of
     NetRead n _ \<Rightarrow> (if consumed h + n \<le> length bytes then Inr (JStr (take n (drop (consumed h) bytes)))
       else Inl (PyErr IncompleteReadError []))
   | _ \<Rightarrow> Inr JNull)"

lemma attached_serving: "attached bytes (gdb_demo (serving bytes))"
  by (auto simp: attached_def awaits_def streams_def unread_def serving_def gdb_demo_def consumed_def
      intro!: exI [of _ bytes])

theorem gdb_packets_in_order_witness:
  "\<exists>s'. receive_n (gdb_receive ''5.0'') 2 (gdb_demo (serving (gdb_frame ''OK'' @ gdb_frame ''T05'')))
     = Some ([''OK'', ''T05''], s')"
  using gdb_packets_in_order [of "[''OK'', ''T05'']" "[]" "gdb_demo (serving (gdb_frame ''OK'' @ gdb_frame ''T05''))" "''5.0''"]
    attached_serving [of "gdb_frame ''OK'' @ gdb_frame ''T05''"]
  by (auto simp: packet_ok_def GDB_MAX_def numeral_2_eq_2)

theorem gdb_recv_sound_witness:
  "\<exists>s' cs w. gdb_recv ''5.0'' (gdb_demo (serving (gdb_frame ''OK''))) = Some (Inr ''OK'', s')
     \<and> last (history s') = (NetWrite ''+'', Inr w) \<and> int16 cs = Inr (int (checksum ''OK''))"
proof -
  obtain s' where "gdb_recv ''5.0'' (gdb_demo (serving (gdb_frame ''OK''))) = Some (Inr ''OK'', s')"
    using gdb_recv_frame [of "''OK''" "[]" "[]" "gdb_demo (serving (gdb_frame ''OK''))" "''5.0''"]
      attached_serving [of "gdb_frame ''OK''"] by (auto simp: packet_ok_def GDB_MAX_def)
  with gdb_recv_sound [OF this] show ?thesis by fastforce
qed

theorem read_memory_returns_bytes_witness:
  "\<exists>s'. read_memory 4096 2 (gdb_demo (serving (''+'' @ gdb_frame (hexs ''AB'')))) = Some (Inr ''AB'', s')"
  using read_memory_returns_bytes [of 2 "''AB''" "[]" "gdb_demo (serving (''+'' @ gdb_frame (hexs ''AB'')))" 4096]
    attached_serving [of "''+'' @ gdb_frame (hexs ''AB'')"] by auto

theorem read_one_register_big_endian_witness:
  "\<exists>s'. read_one_register 3 (gdb_demo (serving (''+'' @ gdb_frame (hexs (be_bytes 4 4660))))) = Some (Inr 4660, s')"
  using read_one_register_big_endian [of 4 4660 "[]" "gdb_demo (serving (''+'' @ gdb_frame (hexs (be_bytes 4 4660))))" 3]
    attached_serving [of "''+'' @ gdb_frame (hexs (be_bytes 4 4660))"] by auto

end
