(* ===== verification/Base64.thy ===== *)
theory Base64
  imports Prelude
begin

text \<open>
  The two functions of Python's \<^verbatim>\<open>base64\<close> module that carry file contents inside JSON:
  \<^verbatim>\<open>b64encode\<close>, and \<^verbatim>\<open>b64decode\<close> in its default, lenient mode (characters outside the
  alphabet are skipped, a completed padding ends the input, an incomplete group raises).  The
  result proved is the round trip \<open>b64decode_encode\<close>.
\<close>

definition b64_alphabet :: string where
  "b64_alphabet = ''ABCDEFGHIJKLMNOPQRSTUVWXYZabcdefghijklmnopqrstuvwxyz0123456789+/''"

definition b64_char :: "nat \<Rightarrow> char" where
  "b64_char n = b64_alphabet ! n"

definition b64_val :: "char \<Rightarrow> nat option" where
  "b64_val c =
     (if 65 \<le> ord c \<and> ord c \<le> (90::nat) then Some (ord c - 65)
      else if 97 \<le> ord c \<and> ord c \<le> (122::nat) then Some (ord c - 71)
      else if 48 \<le> ord c \<and> ord c \<le> (57::nat) then Some (ord c + 4)
      else if c = CHR ''+'' then Some 62 else if c = CHR ''/'' then Some 63 else None)"

fun b64encode :: "string \<Rightarrow> string" where
  "b64encode [] = []"
| "b64encode [a] = [b64_char (ord a div 4), b64_char (ord a mod 4 * 16), CHR ''='', CHR ''='']"
| "b64encode [a, b] = [b64_char (ord a div 4), b64_char (ord a mod 4 * 16 + ord b div 16),
     b64_char (ord b mod 16 * 4), CHR ''='']"
| "b64encode (a # b # c # s) =
     b64_char (ord a div 4) # b64_char (ord a mod 4 * 16 + ord b div 16) #
     b64_char (ord b mod 16 * 4 + ord c div 64) # b64_char (ord c mod 64) # b64encode s"

text \<open>
  The decoder's loop: position in the group of four, the bits left over from the last character,
  and the padding characters seen.  \<open>None\<close> is \<^verbatim>\<open>binascii.Error\<close>.
\<close>

fun b64_loop :: "nat \<Rightarrow> nat \<Rightarrow> nat \<Rightarrow> string \<Rightarrow> string option" where
  "b64_loop q l p [] = (if q = 0 then Some [] else None)"
| "b64_loop q l p (c # s) =
     (if c = CHR ''='' then
        (if 2 \<le> q then (if 4 \<le> q + Suc p then Some [] else b64_loop q l (Suc p) s)
         else b64_loop q l p s)
      else case b64_val c of
        None \<Rightarrow> b64_loop q l p s
      | Some v \<Rightarrow>
          (if q = 0 then b64_loop 1 v 0 s
           else if q = 1 then map_option ((#) (char_of (l * 4 + v div 16))) (b64_loop 2 (v mod 16) 0 s)
           else if q = 2 then map_option ((#) (char_of (l * 16 + v div 4))) (b64_loop 3 (v mod 4) 0 s)
           else map_option ((#) (char_of (l * 64 + v))) (b64_loop 0 0 0 s)))"

definition b64decode :: "string \<Rightarrow> string option" where
  "b64decode s = b64_loop 0 0 0 s"

lemma b64_val_char:
  assumes "n < 64"
  shows "b64_val (b64_char n) = Some n" and "b64_char n \<noteq> CHR ''=''"
proof -
  have "\<forall>n \<in> set [0..<64]. b64_val (b64_char n) = Some n \<and> b64_char n \<noteq> CHR ''=''"
    by (simp add: upt_rec b64_char_def b64_alphabet_def b64_val_def)
  with assms show "b64_val (b64_char n) = Some n" and "b64_char n \<noteq> CHR ''=''" by auto
qed

lemma b64_loop_chars:
  assumes "n < 64"
  shows "b64_loop 0 l p (b64_char n # s) = b64_loop 1 n 0 s"
    and "b64_loop (Suc 0) l p (b64_char n # s) =
           map_option ((#) (char_of (l * 4 + n div 16))) (b64_loop 2 (n mod 16) 0 s)"
    and "b64_loop 2 l p (b64_char n # s) =
           map_option ((#) (char_of (l * 16 + n div 4))) (b64_loop 3 (n mod 4) 0 s)"
    and "b64_loop 3 l p (b64_char n # s) = map_option ((#) (char_of (l * 64 + n))) (b64_loop 0 0 0 s)"
  using b64_val_char [OF assms] by simp_all

lemma b64_loop_pad: "b64_loop 2 l 0 ''=='' = Some []" "b64_loop 3 l 0 ''='' = Some []"
  by simp_all

lemma split_group:
  fixes q r m :: nat
  assumes "r < m"
  shows "(q * m + r) div m = q" and "(q * m + r) mod m = r"
  using assms by simp_all

lemma split_bytes:
  fixes a b c :: nat
  assumes "a < 256" "b < 256" "c < 256"
  shows "a div 4 < 64" "a mod 4 * 16 + b div 16 < 64" "b mod 16 * 4 + c div 64 < 64" "c mod 64 < 64"
    and "a mod 4 * 16 < 64" "b mod 16 * 4 < 64"
    and "a div 4 * 4 + (a mod 4 * 16 + b div 16) div 16 = a"
    and "(a mod 4 * 16 + b div 16) mod 16 * 16 + (b mod 16 * 4 + c div 64) div 4 = b"
    and "(b mod 16 * 4 + c div 64) mod 4 * 64 + c mod 64 = c"
    and "a div 4 * 4 + a mod 4 * 16 div 16 = a"
    and "(a mod 4 * 16 + b div 16) mod 16 * 16 + b mod 16 * 4 div 4 = b"
proof -
  have q: "b div 16 < 16" "c div 64 < 4" "a mod 4 < 4" "b mod 16 < 16" using assms by simp_all
  then show "a mod 4 * 16 + b div 16 < 64" "b mod 16 * 4 + c div 64 < 64" "a mod 4 * 16 < 64" "b mod 16 * 4 < 64"
    by linarith+
  show "a div 4 < 64" "c mod 64 < 64" using assms by simp_all
  show "a div 4 * 4 + (a mod 4 * 16 + b div 16) div 16 = a"
    by (subst split_group [OF q(1)]) simp
  show "(a mod 4 * 16 + b div 16) mod 16 * 16 + (b mod 16 * 4 + c div 64) div 4 = b"
    by (subst split_group [OF q(1)], subst split_group [OF q(2)]) simp
  show "(b mod 16 * 4 + c div 64) mod 4 * 64 + c mod 64 = c"
    by (subst split_group [OF q(2)]) simp
  show "a div 4 * 4 + a mod 4 * 16 div 16 = a" by simp
  show "(a mod 4 * 16 + b div 16) mod 16 * 16 + b mod 16 * 4 div 4 = b"
    by (subst split_group [OF q(1)]) simp
qed

theorem b64decode_encode: "b64decode (b64encode s) = Some s"
  unfolding b64decode_def
proof (induction s rule: b64encode.induct)
  case 1
  then show ?case by simp
next
  case (2 a)
  have "of_char a < (256::nat)" by simp
  from split_bytes [OF this this this] show ?case
    by (simp del: b64_loop.simps(2) add: b64_loop_chars b64_loop_pad)
next
  case (3 a b)
  have a: "of_char a < (256::nat)" and b: "of_char b < (256::nat)" by simp_all
  from split_bytes [OF a b b] show ?case
    by (simp del: b64_loop.simps(2) add: b64_loop_chars b64_loop_pad)
next
  case (4 a b c s)
  have a: "of_char a < (256::nat)" and b: "of_char b < (256::nat)" and c: "of_char c < (256::nat)"
    by simp_all
  from split_bytes [OF a b c] 4 show ?case
    by (simp del: b64_loop.simps(2) add: b64_loop_chars b64_loop_pad)
qed

end
