(* ===== verification/Archive.thy ===== *)
theory Archive
  imports Mcpd "HOL-Library.List_Lexorder" "HOL-Library.Char_ord" Base64
begin

text \<open>
  The run archive (\<^verbatim>\<open>archive/store.py\<close>), the decorator that feeds it (\<^verbatim>\<open>tools/_helpers.py\<close>) and the
  resources that read it (\<^verbatim>\<open>resources/archive_resources.py\<close>).  A run file is its text; a directory
  is the list of its entries, and which deletions the operating system allows is a predicate.
\<close>

section \<open>Values a tool passes and returns\<close>

text \<open>\<open>PyOther\<close> is any object \<^verbatim>\<open>json.dumps\<close> cannot serialise, named by its type.\<close>

datatype pyobj =
    PNone | PBool bool | PInt int | PFloat string | PStr string | PBytes string | PPath string
  | PList "pyobj list" | PDict "(string \<times> pyobj) list" | PyOther string

text \<open>The first n characters of a UTF-8 text.\<close>

fun utake :: "nat \<Rightarrow> string \<Rightarrow> string" where
  "utake n [] = []"
| "utake n (c # s) = (if is_cont c then c # utake n s
     else case n of 0 \<Rightarrow> [] | Suc k \<Rightarrow> c # utake k s)"

definition MAX_LOGGED_STR :: nat where
  "MAX_LOGGED_STR = 4096"

fun scrub :: "pyobj \<Rightarrow> pyobj" where
  "scrub (PBytes b) = PDict [(''$bytes'', PBool True), (''len'', PInt (int (length b))),
     (''head_b64'', PStr (b64encode (take 256 b)))]"
| "scrub (PStr s) = (if ulen s > MAX_LOGGED_STR
     then PDict [(''$str'', PBool True), (''len'', PInt (int (ulen s))), (''head'', PStr (utake 256 s))]
     else PStr s)"
| "scrub (PDict kvs) = PDict (map (\<lambda>(k, v). (k, scrub v)) kvs)"
| "scrub (PList xs) = PList (map scrub xs)"
| "scrub x = x"

text \<open>\<^verbatim>\<open>json.dumps(.., default=_default_encoder)\<close>: paths become strings, anything else raises.\<close>

fun encode :: "pyobj \<Rightarrow> exn + json"
  and encode_list :: "pyobj list \<Rightarrow> exn + json list"
  and encode_members :: "(string \<times> pyobj) list \<Rightarrow> exn + (string \<times> json) list" where
  "encode PNone = Inr JNull"
| "encode (PBool b) = Inr (JBool b)"
| "encode (PInt i) = Inr (JInt i)"
| "encode (PFloat s) = Inr (JFloat s)"
| "encode (PStr s) = Inr (JStr s)"
| "encode (PPath p) = Inr (JStr p)"
| "encode (PBytes b) = Inl (PyErr TypeError ''unserialisable: bytes'')"
| "encode (PyOther t) = Inl (PyErr TypeError (''unserialisable: '' @ t))"
| "encode (PList xs) = (case encode_list xs of Inl e \<Rightarrow> Inl e | Inr js \<Rightarrow> Inr (JArr js))"
| "encode (PDict kvs) = (case encode_members kvs of Inl e \<Rightarrow> Inl e | Inr js \<Rightarrow> Inr (JObj js))"
| "encode_list [] = Inr []"
| "encode_list (x # xs) = (case encode x of Inl e \<Rightarrow> Inl e | Inr j \<Rightarrow>
     (case encode_list xs of Inl e \<Rightarrow> Inl e | Inr js \<Rightarrow> Inr (j # js)))"
| "encode_members [] = Inr []"
| "encode_members ((k, v) # kvs) = (case encode v of Inl e \<Rightarrow> Inl e | Inr j \<Rightarrow>
     (case encode_members kvs of Inl e \<Rightarrow> Inl e | Inr js \<Rightarrow> Inr ((k, j) # js)))"

fun of_json :: "json \<Rightarrow> pyobj" where
  "of_json JNull = PNone"
| "of_json (JBool b) = PBool b"
| "of_json (JInt i) = PInt i"
| "of_json (JFloat s) = PFloat s"
| "of_json (JStr s) = PStr s"
| "of_json (JArr xs) = PList (map of_json xs)"
| "of_json (JObj kvs) = PDict (map (\<lambda>(k, v). (k, of_json v)) kvs)"

section \<open>One entry per call\<close>

text \<open>\<open>log_text\<close> is the content of the run's \<^verbatim>\<open>tool-calls.ndjson\<close>.\<close>

record arch = world +
  log_text :: string

definition log_entry ::
    "string \<Rightarrow> string \<Rightarrow> string option \<Rightarrow> (string \<times> pyobj) list \<Rightarrow> json option \<Rightarrow> pyobj \<Rightarrow> int option \<Rightarrow> pyobj" where
  "log_entry ts tool target params error result us =
     PDict ([(''ts'', PStr ts), (''tool'', PStr tool),
        (''target'', case target of None \<Rightarrow> PNone | Some t \<Rightarrow> PStr t),
        (''params'', scrub (PDict params)),
        (case error of Some e \<Rightarrow> (''error'', of_json e) | None \<Rightarrow> (''result'', scrub result))]
      @ (case us of None \<Rightarrow> [] | Some d \<Rightarrow> [(''duration_ms'', PInt (d div 1000))]))"

text \<open>The time stamp and the opening of the file are the environment's; both may raise.\<close>

definition log_call ::
    "string \<Rightarrow> string option \<Rightarrow> (string \<times> pyobj) list \<Rightarrow> json option \<Rightarrow> pyobj \<Rightarrow> int option \<Rightarrow> (arch, unit) io" where
  "log_call tool target params error result us =
     bnd (host ''datetime.now'' []) (\<lambda>ts.
     case encode (log_entry (py_str ts) tool target params error result us) of
       Inl e \<Rightarrow> raise e
     | Inr j \<Rightarrow>
        bnd (host ''append'' [JStr ''tool-calls.ndjson'']) (\<lambda>_.
        modify (\<lambda>s. s\<lparr>log_text := log_text s @ json_dumps j @ [newline]\<rparr>)))"

text \<open>
  The decorator around a tool: what the tool returns or raises is recorded; a JSON-RPC error goes
  through, any other exception becomes an \<^verbatim>\<open>InternalError\<close>.  The timer's \<^verbatim>\<open>elapsed\<close> is set when
  its \<^verbatim>\<open>with\<close> block is left, so it is still 0 in the \<^verbatim>\<open>except\<close> clauses inside the block.
\<close>

definition archived ::
    "string \<Rightarrow> string \<Rightarrow> (string \<times> pyobj) list \<Rightarrow> (arch, pyobj) io \<Rightarrow> (arch, pyobj) io" where
  "archived tool target_arg kwargs fn =
     (let target = (case map_of kwargs target_arg of Some (PStr t) \<Rightarrow> Some t | _ \<Rightarrow> None);
          params = filter (\<lambda>(k, v). k \<noteq> target_arg) kwargs
      in bnd now (\<lambda>t0.
         bnd (catch (bnd fn (\<lambda>v. ret (Inr v)))
               (\<lambda>e. catch (bnd (log_call tool target params (Some (error_dict e)) PNone (Some 0))
                       (\<lambda>_. ret (Inl (if is_rpc_err e then e else RpcErr InternalError (exn_str e) None))))
                       (\<lambda>e'. ret (Inl e')))) (\<lambda>r.
         bnd now (\<lambda>t1.
         case r of Inl (e :: exn) \<Rightarrow> raise e
         | Inr v \<Rightarrow> bnd (log_call tool target params None v (Some (t1 - t0))) (\<lambda>_. ret v)))))"

section \<open>Retention\<close>

text \<open>Entries of a directory.  \<open>size\<close> is \<open>None\<close> when the file vanished before \<^verbatim>\<open>stat\<close>.\<close>

record entry =
  ename :: string
  is_dir :: bool
  mtime :: int
  esize :: "nat option"

text \<open>\<^verbatim>\<open>runs[:-keep] if len(runs) > keep else []\<close>.\<close>

definition run_doomed :: "nat \<Rightarrow> 'a list \<Rightarrow> 'a list" where
  "run_doomed keep runs = (if length runs > keep then take (length runs - keep) runs else [])"

definition is_run_dir :: "entry \<Rightarrow> bool" where
  "is_run_dir d \<longleftrightarrow> is_dir d \<and> ulen (ename d) = 16 \<and> endswith (ename d) ''Z''"

definition prune_runs :: "(entry \<Rightarrow> bool) \<Rightarrow> bool \<Rightarrow> entry list \<Rightarrow> int \<Rightarrow> entry list" where
  "prune_runs removable root_is_dir entries keep =
     (if keep \<le> 0 \<or> \<not> root_is_dir then []
      else filter removable (run_doomed (nat keep) (sort_key ename (filter is_run_dir entries))))"

text \<open>\<^verbatim>\<open>*\<close> and \<^verbatim>\<open>?\<close> of a glob pattern; the caller's pattern is \<^verbatim>\<open>*.log\<close>.\<close>

function (sequential) glob_match :: "string \<Rightarrow> string \<Rightarrow> bool" where
  "glob_match [] s = (s = [])"
| "glob_match (p # ps) s =
     (if p = CHR ''*'' then glob_match ps s \<or> (case s of [] \<Rightarrow> False | c # s' \<Rightarrow> glob_match (p # ps) s')
      else case s of [] \<Rightarrow> False
        | c # s' \<Rightarrow> (p = CHR ''?'' \<or> p = c) \<and> glob_match ps s')"
  by pat_completeness auto
termination by (relation "measure (\<lambda>(p, s). length p + length s)") auto

definition size_or_zero :: "entry \<Rightarrow> nat" where
  "size_or_zero f = (case esize f of Some n \<Rightarrow> n | None \<Rightarrow> 0)"

text \<open>The loop over the survivors: oldest first, until the rest fits the budget.\<close>

fun over_budget :: "int \<Rightarrow> int \<Rightarrow> entry list \<Rightarrow> entry list" where
  "over_budget budget used [] = []"
| "over_budget budget used (f # fs) =
     (if used \<le> budget then [] else f # over_budget budget (used - int (size_or_zero f)) fs)"

definition log_doomed :: "int \<Rightarrow> int option \<Rightarrow> entry list \<Rightarrow> entry list" where
  "log_doomed keep max_total files =
     (let doomed = (if 0 < keep \<and> int (length files) > keep
                    then take (length files - nat keep) files else [])
      in case max_total of None \<Rightarrow> doomed
         | Some budget \<Rightarrow>
             let survivors = filter (\<lambda>f. f \<notin> set doomed) files;
                 used = sum_list (map (\<lambda>f. int (size_or_zero f)) survivors)
             in doomed @ over_budget budget used (butlast survivors))"

definition prune_logs :: "(entry \<Rightarrow> bool) \<Rightarrow> bool \<Rightarrow> entry list \<Rightarrow> int \<Rightarrow> string \<Rightarrow> int option \<Rightarrow> entry list" where
  "prune_logs removable is_directory entries keep pattern max_total =
     (if \<not> is_directory \<or> (keep \<le> 0 \<and> max_total = None) then []
      else filter removable (log_doomed keep max_total
             (sort_key mtime (filter (\<lambda>f. \<not> is_dir f \<and> glob_match pattern (ename f)) entries))))"

text \<open>
  \<^verbatim>\<open>Archive.__init__\<close>: the run's own directory, named by its start time, is created first, then
  old runs are pruned.  The result is the entries that remain.
\<close>

definition archive_init :: "(entry \<Rightarrow> bool) \<Rightarrow> string \<Rightarrow> int \<Rightarrow> entry list \<Rightarrow> int option \<Rightarrow> entry list" where
  "archive_init removable ts t entries keep_runs =
     (let mine = \<lparr>ename = ts, is_dir = True, mtime = t, esize = None\<rparr>;
          es = (if ts \<in> set (map ename entries) then entries else entries @ [mine])
      in case keep_runs of
           Some k \<Rightarrow> if k > 0 then filter (\<lambda>e. e \<notin> set (prune_runs removable True es k)) es else es
         | None \<Rightarrow> es)"

section \<open>Reading a run back\<close>

definition RESOURCE_BYTE_CAP :: nat where
  "RESOURCE_BYTE_CAP = 1024 * 1024"

text \<open>The entries under the archive root, each with the text of its run file if it has one.\<close>

type_synonym run_root = "(entry \<times> string option) list"

definition list_runs :: "string \<Rightarrow> bool \<Rightarrow> run_root \<Rightarrow> json list" where
  "list_runs root root_is_dir es =
     (if \<not> root_is_dir then []
      else map (\<lambda>(e, txt). JObj [(''run_id'', JStr (ename e)),
             (''calls_path'', JStr (root @ ''/'' @ ename e @ ''/tool-calls.ndjson'')),
             (''calls_size_bytes'', JInt (case txt of None \<Rightarrow> 0 | Some t \<Rightarrow> int (length t)))])
           (filter (\<lambda>(e, _). is_dir e) (sort_key (\<lambda>(e, _). ename e) es)))"

definition text_lines :: "string \<Rightarrow> string list" where
  "text_lines s = split_on newline (py_replace (py_replace s [CHR 0x0D, newline] [newline]) [CHR 0x0D] [newline])"

record summary =
  s_calls :: nat
  s_tools :: "string list"
  s_ms :: int
  s_first :: "string option"
  s_last :: "string option"
  s_errors :: nat

text \<open>One line of the file; a row that is JSON but no dictionary raises.\<close>

definition add_row :: "string \<Rightarrow> summary \<Rightarrow> exn + summary" where
  "add_row line a =
     (let l = strip line in
      if l = [] then Inr a
      else case json_loads l of None \<Rightarrow> Inr a
      | Some (JObj kvs) \<Rightarrow>
         let row = JObj kvs;
             ms = (case jget ''duration_ms'' row of None \<Rightarrow> Inr 0
                   | Some d \<Rightarrow> (case py_int d of Inr i \<Rightarrow> Inr i
                       | Inl e \<Rightarrow> if exn_name e \<in> {''TypeError'', ''ValueError''} then Inr 0 else Inl e))
         in (case ms of Inl e \<Rightarrow> Inl e
             | Inr m \<Rightarrow> Inr (a\<lparr>s_calls := s_calls a + 1,
                  s_tools := (case jget ''tool'' row of Some t \<Rightarrow> py_str t # s_tools a | None \<Rightarrow> s_tools a),
                  s_ms := s_ms a + m,
                  s_errors := s_errors a + (if jhas ''error'' row then 1 else 0),
                  s_first := (case (s_first a, jget ''ts'' row) of (None, Some (JStr t)) \<Rightarrow> Some t | (f, _) \<Rightarrow> f),
                  s_last := (case jget ''ts'' row of Some (JStr t) \<Rightarrow> Some t | _ \<Rightarrow> s_last a)\<rparr>))
      | Some (JArr xs) \<Rightarrow> Inl (PyErr (if JStr ''tool'' \<in> set xs then TypeError else AttributeError) [])
      | Some (JStr t) \<Rightarrow> Inl (PyErr (if contains ''tool'' t then TypeError else AttributeError) [])
      | Some _ \<Rightarrow> Inl (PyErr TypeError []))"

fun add_rows :: "string list \<Rightarrow> summary \<Rightarrow> exn + summary" where
  "add_rows [] a = Inr a"
| "add_rows (l # ls) a = (case add_row l a of Inl e \<Rightarrow> Inl e | Inr a' \<Rightarrow> add_rows ls a')"

definition empty_summary :: summary where
  "empty_summary = \<lparr>s_calls = 0, s_tools = [], s_ms = 0, s_first = None, s_last = None, s_errors = 0\<rparr>"

definition opt_str :: "string option \<Rightarrow> json" where
  "opt_str x = (case x of None \<Rightarrow> JNull | Some s \<Rightarrow> JStr s)"

text \<open>\<open>run\<close> is what lies at the run's path: nothing, a directory without a run file, or its text.\<close>

definition run_metadata :: "string \<Rightarrow> string option option \<Rightarrow> string \<Rightarrow> exn + json" where
  "run_metadata root run run_id =
     (case run of
        None \<Rightarrow> Inr (JObj [(''run_id'', JStr run_id), (''exists'', JBool False)])
      | Some None \<Rightarrow> Inr (JObj [(''run_id'', JStr run_id), (''exists'', JBool True), (''calls'', JInt 0)])
      | Some (Some txt) \<Rightarrow>
          (case add_rows (text_lines txt) empty_summary of Inl e \<Rightarrow> Inl e
           | Inr a \<Rightarrow> Inr (JObj [(''run_id'', JStr run_id), (''exists'', JBool True),
               (''calls'', JInt (int (s_calls a))), (''errors'', JInt (int (s_errors a))),
               (''tools'', JArr (map JStr (sort (remdups (s_tools a))))),
               (''total_duration_ms'', JInt (s_ms a)),
               (''first_ts'', opt_str (s_first a)), (''last_ts'', opt_str (s_last a)),
               (''calls_path'', JStr (root @ ''/'' @ run_id @ ''/tool-calls.ndjson''))])))"

text \<open>\<open>utf8_replace\<close> is \<^verbatim>\<open>bytes.decode("utf-8", errors="replace")\<close>, of the standard library.\<close>

definition run_calls_text :: "(string \<Rightarrow> string) \<Rightarrow> string option \<Rightarrow> string" where
  "run_calls_text utf8_replace run =
     (case run of None \<Rightarrow> []
      | Some txt \<Rightarrow> if length txt \<le> RESOURCE_BYTE_CAP then txt
          else utf8_replace (take RESOURCE_BYTE_CAP txt) @ newline # ''# truncated: archive is ''
               @ nat_dec (length txt) @ '' bytes; showed first '' @ nat_dec RESOURCE_BYTE_CAP @ [newline])"

end
