(* ===== verification/Archive_Correct.thy ===== *)
theory Archive_Correct
  imports Archive "HOL-Library.Multiset"
begin

text \<open>
  Properties of the archive: what retention may delete (both pruners interpret the locale
  \<open>retention\<close>), how large an entry can get, what the decorator records, and that a run file is
  read back as the entries that were written.
\<close>

section \<open>The retention contract\<close>

text \<open>
  A retention policy chooses what to delete from a list in age order: an initial segment of it, so
  the oldest first, and never the youngest \<open>spared\<close> items.
\<close>

locale retention =
  fixes doomed :: "'f list \<Rightarrow> 'f list" and spared :: nat
  assumes oldest_first: "distinct fs \<Longrightarrow> \<exists>k. doomed fs = take k fs \<and> (k = 0 \<or> k + spared \<le> length fs)"
begin

lemma doomed_subset: "distinct fs \<Longrightarrow> set (doomed fs) \<subseteq> set fs"
  using oldest_first [of fs] set_take_subset by fastforce

lemma spares:
  assumes "distinct fs" "sorted_wrt le fs" "d \<in> set (doomed fs)"
  shows "spared \<le> length (filter (\<lambda>e. le d e \<and> e \<notin> set (doomed fs)) fs)"
proof -
  obtain k where k: "doomed fs = take k fs" "k = 0 \<or> k + spared \<le> length fs"
    using oldest_first [OF assms(1)] by blast
  have split: "fs = take k fs @ drop k fs" by simp
  have dis: "set (take k fs) \<inter> set (drop k fs) = {}"
    using assms(1) by (metis distinct_append split)
  have le: "\<forall>e \<in> set (drop k fs). le d e"
    using assms(2,3) k(1) by (metis sorted_wrt_append split)
  have "filter (\<lambda>e. le d e \<and> e \<notin> set (doomed fs)) fs
      = filter (\<lambda>e. le d e \<and> e \<notin> set (take k fs)) (take k fs) @ filter (\<lambda>e. le d e \<and> e \<notin> set (take k fs)) (drop k fs)"
    using k(1) by (metis filter_append split)
  also have "filter (\<lambda>e. le d e \<and> e \<notin> set (take k fs)) (drop k fs) = drop k fs"
    using dis le by (auto simp: filter_id_conv)
  finally have "length (drop k fs) \<le> length (filter (\<lambda>e. le d e \<and> e \<notin> set (doomed fs)) fs)" by simp
  moreover have "k \<noteq> 0" using assms(3) k(1) by (cases k) auto
  ultimately show ?thesis using k(2) by simp
qed

end

interpretation runs: retention "run_doomed keep" keep for keep
proof unfold_locales
  fix fs :: "'a list"
  show "\<exists>k. run_doomed keep fs = take k fs \<and> (k = 0 \<or> k + keep \<le> length fs)"
    by (rule exI [of _ "if length fs > keep then length fs - keep else 0"]) (simp add: run_doomed_def)
qed

lemma filter_not_take: "distinct xs \<Longrightarrow> filter (\<lambda>f. f \<notin> set (take n xs)) xs = drop n xs"
proof (induction n arbitrary: xs)
  case (Suc n)
  show ?case
  proof (cases xs)
    case (Cons x ys)
    then have "filter (\<lambda>f. f \<notin> set (take (Suc n) xs)) xs = filter (\<lambda>f. f \<notin> set (take n ys)) ys"
      using Suc.prems by (auto intro!: filter_cong)
    with Cons Suc show ?thesis by simp
  qed simp
qed simp

lemma over_budget_prefix: "\<exists>k. over_budget b u fs = take k fs"
proof (induction fs arbitrary: u)
  case (Cons f fs)
  from Cons [of "u - int (size_or_zero f)"] obtain k where "over_budget b (u - int (size_or_zero f)) fs = take k fs" ..
  then show ?case by (cases "u \<le> b") (auto intro: exI [of _ 0] exI [of _ "Suc k"])
qed simp

lemma log_doomed_prefix:
  assumes "distinct fs"
  shows "\<exists>k. log_doomed keep mx fs = take k fs \<and> (k = 0 \<or> k + 1 \<le> length fs)"
proof -
  let ?n = "if 0 < keep \<and> int (length fs) > keep then length fs - nat keep else 0"
  have d: "(if 0 < keep \<and> int (length fs) > keep then take (length fs - nat keep) fs else []) = take ?n fs" by simp
  have n: "?n = 0 \<or> ?n + 1 \<le> length fs" by auto
  note surv = filter_not_take [OF assms, of ?n]
  show ?thesis
  proof (cases mx)
    case None
    with d n show ?thesis unfolding log_doomed_def by (auto intro!: exI [of _ ?n])
  next
    case (Some b)
    let ?u = "sum_list (map (\<lambda>f. int (size_or_zero f)) (drop ?n fs))"
    obtain k where k: "over_budget b ?u (butlast (drop ?n fs)) = take k (butlast (drop ?n fs))"
      using over_budget_prefix by blast
    have eq: "log_doomed keep mx fs = take ?n fs @ take k (butlast (drop ?n fs))"
      unfolding log_doomed_def d Let_def surv using Some k by simp
    let ?k = "?n + min k (length fs - ?n - 1)"
    have "take k (butlast (drop ?n fs)) = take (min k (length fs - ?n - 1)) (drop ?n fs)"
      by (simp add: butlast_conv_take min.commute)
    with eq have "log_doomed keep mx fs = take ?k fs" by (simp add: take_add)
    moreover have "?k = 0 \<or> ?k + 1 \<le> length fs" using n by linarith
    ultimately show ?thesis by blast
  qed
qed

interpretation logs: retention "log_doomed keep mx" 1 for keep mx
  by unfold_locales (rule log_doomed_prefix)

lemma length_filter_sort: "length (filter P (sort_key k xs)) = length (filter P xs)"
  by (metis mset_filter mset_sort size_mset)

lemma length_filter_mono: "(\<And>x. P x \<Longrightarrow> Q x) \<Longrightarrow> length (filter P xs) \<le> length (filter Q xs)"
  by (induction xs) (simp_all add: le_SucI)

lemma sum_filter_sort:
  "sum_list (map g (filter P (sort_key k xs))) = (sum_list (map g (filter P xs)) :: int)"
  by (metis mset_filter mset_map mset_sort sum_mset_sum_list)

theorem prune_runs_keeps_newest:
  assumes "d \<in> set (prune_runs removable root_is_dir es keep)" "distinct es"
  shows "is_run_dir d \<and> d \<in> set es \<and> removable d \<and>
     nat keep \<le> length (filter (\<lambda>e. is_run_dir e \<and> ename d \<le> ename e \<and>
        e \<notin> set (prune_runs removable root_is_dir es keep)) es)"
proof -
  let ?runs = "sort_key ename (filter is_run_dir es)"
  let ?del = "prune_runs removable root_is_dir es keep"
  have k: "0 < keep" and del: "?del = filter removable (run_doomed (nat keep) ?runs)"
    using assms(1) by (auto simp: prune_runs_def split: if_splits)
  have dis: "distinct ?runs" using assms(2) by simp
  have sor: "sorted_wrt (\<lambda>d e. ename d \<le> ename e) ?runs" using sorted_sort_key [of ename] by (simp add: sorted_map)
  have d: "d \<in> set (run_doomed (nat keep) ?runs)" "removable d" using assms(1) del by auto
  have "nat keep \<le> length (filter (\<lambda>e. ename d \<le> ename e \<and> e \<notin> set (run_doomed (nat keep) ?runs)) ?runs)"
    by (rule runs.spares [OF dis sor d(1)])
  also have "\<dots> \<le> length (filter (\<lambda>e. ename d \<le> ename e \<and> e \<notin> set ?del) ?runs)"
    unfolding del by (rule length_filter_mono) auto
  also have "\<dots> = length (filter (\<lambda>e. ename d \<le> ename e \<and> e \<notin> set ?del) (filter is_run_dir es))"
    by (rule length_filter_sort)
  also have "\<dots> = length (filter (\<lambda>e. is_run_dir e \<and> ename d \<le> ename e \<and> e \<notin> set ?del) es)"
    by (simp add: conj_commute conj_left_commute)
  finally show ?thesis using d runs.doomed_subset [OF dis, of "nat keep"] by auto
qed

theorem prune_runs_bounds_archive:
  assumes "0 < keep" "distinct es" "\<And>d. removable d"
  shows "length (filter (\<lambda>e. is_run_dir e \<and> e \<notin> set (prune_runs removable True es keep)) es) \<le> nat keep"
proof -
  let ?runs = "sort_key ename (filter is_run_dir es)"
  have dis: "distinct ?runs" using assms(2) by simp
  have del: "prune_runs removable True es keep = run_doomed (nat keep) ?runs"
    using assms(1,3) by (simp add: prune_runs_def)
  have "length (filter (\<lambda>e. is_run_dir e \<and> e \<notin> set (run_doomed (nat keep) ?runs)) es)
      = length (filter (\<lambda>e. e \<notin> set (run_doomed (nat keep) ?runs)) (filter is_run_dir es))"
    by (simp add: conj_commute)
  also have "\<dots> = length (filter (\<lambda>e. e \<notin> set (run_doomed (nat keep) ?runs)) ?runs)"
    by (rule length_filter_sort [symmetric])
  also have "\<dots> \<le> nat keep"
  proof (cases "length ?runs > nat keep")
    case True
    then have "run_doomed (nat keep) ?runs = take (length ?runs - nat keep) ?runs" by (simp add: run_doomed_def)
    then show ?thesis using filter_not_take [OF dis] by simp
  next
    case False
    then show ?thesis using length_filter_le [of _ ?runs] le_trans by (fastforce simp: not_less)
  qed
  finally show ?thesis unfolding del .
qed

lemma over_budget_meets:
  "used = sum_list (map (\<lambda>f. int (size_or_zero f)) fs) + rest \<Longrightarrow>
   (let k = length (over_budget b used fs) in
     k = length fs \<or> sum_list (map (\<lambda>f. int (size_or_zero f)) (drop k fs)) + rest \<le> b)"
proof (induction fs arbitrary: used)
  case (Cons f fs)
  from Cons.IH [of "used - int (size_or_zero f)"] Cons.prems show ?case by (auto simp: Let_def)
qed simp

theorem prune_logs_never_newest:
  assumes "d \<in> set (prune_logs removable is_directory es keep pattern mx)" "distinct es"
  shows "d \<in> set es \<and> \<not> is_dir d \<and> glob_match pattern (ename d) \<and> removable d \<and>
     (\<exists>e \<in> set es. \<not> is_dir e \<and> glob_match pattern (ename e) \<and> mtime d \<le> mtime e \<and>
        e \<notin> set (prune_logs removable is_directory es keep pattern mx))"
proof -
  let ?fs = "sort_key mtime (filter (\<lambda>f. \<not> is_dir f \<and> glob_match pattern (ename f)) es)"
  have del: "prune_logs removable is_directory es keep pattern mx = filter removable (log_doomed keep mx ?fs)"
    using assms(1) by (auto simp: prune_logs_def split: if_splits)
  have dis: "distinct ?fs" using assms(2) by simp
  have sor: "sorted_wrt (\<lambda>d e. mtime d \<le> mtime e) ?fs" using sorted_sort_key [of mtime] by (simp add: sorted_map)
  have d: "d \<in> set (log_doomed keep mx ?fs)" "removable d" using assms(1) del by auto
  from logs.spares [OF dis sor d(1)]
  have "filter (\<lambda>e. mtime d \<le> mtime e \<and> e \<notin> set (log_doomed keep mx ?fs)) ?fs \<noteq> []" by auto
  then obtain e where "e \<in> set ?fs" "mtime d \<le> mtime e" "e \<notin> set (log_doomed keep mx ?fs)"
    by (auto simp: filter_empty_conv)
  with d logs.doomed_subset [OF dis, of keep mx] show ?thesis unfolding del by auto
qed

lemma budget_rest:
  assumes "distinct (xs @ [x])"
    and "ob = over_budget b (sum_list (map (\<lambda>f. int (size_or_zero f)) (xs @ [x]))) xs"
    and rest: "rest = filter (\<lambda>f. f \<notin> set ob) (xs @ [x])"
  shows "length rest \<le> 1 \<or> sum_list (map (\<lambda>f. int (size_or_zero f)) rest) \<le> b"
proof -
  obtain k where k: "ob = take k xs" using assms(2) over_budget_prefix by blast
  then have ob: "ob = take (length ob) xs" by (simp add: min_def)
  have "x \<notin> set ob" using assms(1) k set_take_subset [of k xs] by auto
  then have "rest = filter (\<lambda>f. f \<notin> set (take (length ob) xs)) xs @ [x]" using rest ob by simp
  then have rest2: "rest = drop (length ob) xs @ [x]" using filter_not_take [of xs] assms(1) by simp
  from over_budget_meets [of _ xs "int (size_or_zero x)" b, OF refl] assms(2) rest2 show ?thesis
    by (auto simp: Let_def)
qed

lemma log_doomed_budget:
  assumes "distinct fs" and rest: "rest = filter (\<lambda>f. f \<notin> set (log_doomed keep (Some b) fs)) fs"
  shows "length rest \<le> 1 \<or> sum_list (map (\<lambda>f. int (size_or_zero f)) rest) \<le> b"
proof -
  let ?n = "if 0 < keep \<and> int (length fs) > keep then length fs - nat keep else 0"
  let ?r = "drop ?n fs" and ?sz = "\<lambda>f. int (size_or_zero f)"
  let ?ob = "over_budget b (sum_list (map ?sz ?r)) (butlast ?r)"
  have d: "(if 0 < keep \<and> int (length fs) > keep then take (length fs - nat keep) fs else []) = take ?n fs" by simp
  have dis: "distinct ?r" using assms(1) by simp
  have doomed: "log_doomed keep (Some b) fs = take ?n fs @ ?ob"
    unfolding log_doomed_def d Let_def filter_not_take [OF assms(1)] by simp
  have "rest = filter (\<lambda>f. f \<notin> set ?ob) (filter (\<lambda>f. f \<notin> set (take ?n fs)) fs)"
    unfolding rest doomed by (simp add: conj_commute)
  then have rest2: "rest = filter (\<lambda>f. f \<notin> set ?ob) ?r" unfolding filter_not_take [OF assms(1)] .
  show ?thesis
  proof (cases ?r rule: rev_cases)
    case Nil
    with rest2 show ?thesis by simp
  next
    case (snoc xs x)
    from budget_rest [of xs x ?ob b rest] dis rest2 show ?thesis unfolding snoc by simp
  qed
qed

text \<open>
  C15. When deletions succeed, after prune_logs either at most one matching log is left or the
  total size of those left is within the budget.
\<close>

theorem prune_logs_meets_budget:
  assumes "distinct es" "\<And>d. removable d"
    and rem: "remaining = filter (\<lambda>f. \<not> is_dir f \<and> glob_match pattern (ename f) \<and>
           f \<notin> set (prune_logs removable True es keep pattern (Some budget))) es"
  shows "length remaining \<le> 1 \<or> sum_list (map (\<lambda>f. int (size_or_zero f)) remaining) \<le> budget"
proof -
  let ?log = "\<lambda>f. \<not> is_dir f \<and> glob_match pattern (ename f)"
  let ?fs = "sort_key mtime (filter ?log es)"
  have del: "prune_logs removable True es keep pattern (Some budget) = log_doomed keep (Some budget) ?fs"
    using assms(2) by (simp add: prune_logs_def)
  let ?P = "\<lambda>f. f \<notin> set (log_doomed keep (Some budget) ?fs)"
  have eq: "remaining = filter ?P (filter ?log es)" unfolding rem del by (simp add: conj_ac)
  have "length remaining = length (filter ?P ?fs)" unfolding eq by (rule length_filter_sort [symmetric])
  moreover have "sum_list (map (\<lambda>f. int (size_or_zero f)) remaining) = sum_list (map (\<lambda>f. int (size_or_zero f)) (filter ?P ?fs))"
    unfolding eq by (rule sum_filter_sort [symmetric])
  moreover have "distinct ?fs" using assms(1) by simp
  ultimately show ?thesis using log_doomed_budget [OF _ refl, of ?fs keep budget] by simp
qed

section \<open>Entries stay small\<close>

text \<open>The string values of an object, without its keys.\<close>

fun strings :: "pyobj \<Rightarrow> string list" where
  "strings (PStr s) = [s]"
| "strings (PList xs) = concat (map strings xs)"
| "strings (PDict kvs) = concat (map (\<lambda>(k, v). strings v) kvs)"
| "strings _ = []"

fun bytes_free :: "pyobj \<Rightarrow> bool" where
  "bytes_free (PBytes b) = False"
| "bytes_free (PList xs) = list_all bytes_free xs"
| "bytes_free (PDict kvs) = list_all (\<lambda>(k, v). bytes_free v) kvs"
| "bytes_free _ = True"

lemma ulen_utake: "ulen (utake n s) \<le> n"
  by (induction n s rule: utake.induct) (auto simp: ulen_def split: nat.splits)

lemma ulen_le: "ulen s \<le> length s"
  by (simp add: ulen_def)

lemma length_b64encode: "length (b64encode s) = 4 * ((length s + 2) div 3)"
proof (induction s rule: b64encode.induct)
  case (4 a b c s)
  have "(length (a # b # c # s) + 2) div 3 = Suc ((length s + 2) div 3)" by simp
  with 4 show ?case by simp
qed auto

definition small :: "pyobj \<Rightarrow> bool" where
  "small v \<longleftrightarrow> bytes_free v \<and> (\<forall>s \<in> set (strings v). ulen s \<le> MAX_LOGGED_STR)"

lemma scrub_bounds_entries:
  "bytes_free (scrub v) \<and> (\<forall>s \<in> set (strings (scrub v)). ulen s \<le> MAX_LOGGED_STR)"
proof (induction v rule: scrub.induct)
  case (1 b)
  have "ulen (b64encode (take 256 b)) \<le> length (b64encode (take 256 b))" by (rule ulen_le)
  also have "\<dots> \<le> MAX_LOGGED_STR" by (auto simp: length_b64encode MAX_LOGGED_STR_def)
  finally show ?case by simp
next
  case (2 s)
  have "ulen (utake 256 s) \<le> MAX_LOGGED_STR" using ulen_utake [of 256 s] by (simp add: MAX_LOGGED_STR_def)
  then show ?case by simp
qed (fastforce simp: list_all_iff)+

lemma scrub_small: "bytes_free v \<Longrightarrow> (\<forall>s \<in> set (strings v). ulen s \<le> MAX_LOGGED_STR) \<Longrightarrow> scrub v = v"
proof (induction v rule: scrub.induct)
  case (3 kvs)
  have "map (\<lambda>(k, v). (k, scrub v)) kvs = map id kvs"
    by (rule map_cong [OF refl]) (use 3 in \<open>fastforce simp: list_all_iff\<close>)
  then show ?case by simp
next
  case (4 xs)
  have "map scrub xs = map id xs"
    by (rule map_cong [OF refl]) (use 4 in \<open>fastforce simp: list_all_iff\<close>)
  then show ?case by simp
qed auto

text \<open>
  C18. What _scrub returns holds no bytes object and no string value longer than
  MAX_LOGGED_STR; scrubbing is idempotent and leaves small values unchanged.
\<close>

theorem scrub_bounds_values:
  "bytes_free (scrub v) \<and> (\<forall>s \<in> set (strings (scrub v)). ulen s \<le> MAX_LOGGED_STR)
   \<and> scrub (scrub v) = scrub v
   \<and> (bytes_free v \<and> (\<forall>s \<in> set (strings v). ulen s \<le> MAX_LOGGED_STR) \<longrightarrow> scrub v = v)"
  using scrub_small scrub_bounds_entries by blast

section \<open>What the decorator records\<close>

lemma log_call_text:
  assumes "log_call tool target params error result us s = (r, s')"
  shows "case r of Inr _ \<Rightarrow> \<exists>ts j. encode (log_entry ts tool target params error result us) = Inr j \<and>
            log_text s' = log_text s @ json_dumps j @ [newline]
         | Inl _ \<Rightarrow> log_text s' = log_text s"
  using assms
  by (auto simp: log_call_def bnd_def host_def perform_def Let_def modify_def raise_def
      split: sum.splits prod.splits) blast

lemma now_text [simp]: "log_text (snd (now s)) = log_text s"
  by (simp add: now_def perform_def Let_def)

theorem archived_returns_the_result:
  assumes "archived tool ta kwargs fn s = (Inr v, s')"
  shows "\<exists>s1 ts us j. fn (snd (now s)) = (Inr v, s1) \<and>
     encode (log_entry ts tool (case map_of kwargs ta of Some (PStr t) \<Rightarrow> Some t | _ \<Rightarrow> None)
        (filter (\<lambda>(k, v). k \<noteq> ta) kwargs) None v (Some us)) = Inr j \<and>
     log_text s' = log_text s1 @ json_dumps j @ [newline]"
proof -
  obtain r s1 where f: "fn (snd (now s)) = (r, s1)" by force
  obtain t0 s0 where t0: "now s = (Inr t0, s0)" "snd (now s) = s0" by (rule now_run)
  show ?thesis
  proof (cases r)
    case (Inl e)
    obtain x s2 where l: "log_call tool (case map_of kwargs ta of Some (PStr t) \<Rightarrow> Some t | _ \<Rightarrow> None)
        (filter (\<lambda>(k, v). k \<noteq> ta) kwargs) (Some (error_dict e)) PNone (Some 0) s1 = (x, s2)" by force
    obtain t1 s3 where t1: "now s2 = (Inr t1, s3)" by (rule now_run)
    from f t0 l t1 Inl have "isl (fst (archived tool ta kwargs fn s))"
      by (cases x) (auto simp: archived_def Let_def bnd_def catch_def ret_def raise_def)
    with assms show ?thesis by simp
  next
    case (Inr w)
    obtain t1 s1' where t1: "now s1 = (Inr t1, s1')" "snd (now s1) = s1'" by (rule now_run)
    let ?log = "log_call tool (case map_of kwargs ta of Some (PStr t) \<Rightarrow> Some t | _ \<Rightarrow> None)
        (filter (\<lambda>(k, v). k \<noteq> ta) kwargs) None w (Some (t1 - t0)) s1'"
    obtain x s2 where l: "?log = (x, s2)" by force
    have "archived tool ta kwargs fn s = (case x of Inl e \<Rightarrow> Inl e | Inr _ \<Rightarrow> Inr w, s2)"
      using f t0 t1 l Inr by (cases x) (auto simp: archived_def Let_def bnd_def catch_def ret_def)
    moreover have "log_text s1' = log_text s1" using now_text [of s1] t1(2) by simp
    ultimately show ?thesis using assms log_call_text [OF l] f Inr by (auto split: sum.splits)
  qed
qed

theorem archived_reports_the_error:
  assumes "fn (snd (now s)) = (Inl e, s1)"
  shows "\<exists>e' s'. archived tool ta kwargs fn s = (Inl e', s') \<and>
     (e' = (if is_rpc_err e then e else RpcErr InternalError (exn_str e) None) \<and>
        (\<exists>ts j. encode (log_entry ts tool (case map_of kwargs ta of Some (PStr t) \<Rightarrow> Some t | _ \<Rightarrow> None)
            (filter (\<lambda>(k, v). k \<noteq> ta) kwargs) (Some (error_dict e)) PNone (Some 0)) = Inr j \<and>
          log_text s' = log_text s1 @ json_dumps j @ [newline])
      \<or> log_text s' = log_text s1)"
proof -
  obtain t0 s0 where t0: "now s = (Inr t0, s0)" "snd (now s) = s0" by (rule now_run)
  let ?log = "log_call tool (case map_of kwargs ta of Some (PStr t) \<Rightarrow> Some t | _ \<Rightarrow> None)
        (filter (\<lambda>(k, v). k \<noteq> ta) kwargs) (Some (error_dict e)) PNone (Some 0) s1"
  obtain x s2 where l: "?log = (x, s2)" by force
  obtain t1 s3 where t1: "now s2 = (Inr t1, s3)" "snd (now s2) = s3" by (rule now_run)
  have "archived tool ta kwargs fn s = (Inl (case x of Inl e' \<Rightarrow> e'
      | Inr _ \<Rightarrow> if is_rpc_err e then e else RpcErr InternalError (exn_str e) None), s3)"
    using assms t0 t1 l by (cases x) (auto simp: archived_def Let_def bnd_def catch_def ret_def raise_def)
  moreover have "log_text s3 = log_text s2" using now_text [of s2] t1(2) by simp
  ultimately show ?thesis using log_call_text [OF l] by (auto split: sum.splits)
qed

section \<open>A run file is read back\<close>

abbreviation one_line :: "string \<Rightarrow> bool" where
  "one_line s \<equiv> newline \<notin> set s \<and> CHR 0x0D \<notin> set s"

lemma digits_one_line: "\<forall>c \<in> set s. is_digit c \<Longrightarrow> one_line s"
  by (auto simp: is_digit_def)

lemma int_dec_one_line: "one_line (int_dec i)"
  using digits_one_line [OF nat_dec_digits] by (auto simp: int_dec_def)

lemma hex2_one_line: "n < 32 \<Longrightarrow> one_line (hex2 n)"
proof -
  have "list_all (\<lambda>n. one_line (hex2 n)) [0..<32]" by code_simp
  then show "n < 32 \<Longrightarrow> ?thesis" by (simp add: list_all_iff)
qed

lemma esc_one_line: "one_line (esc_char c)"
  using hex2_one_line [of "ord c"] by (auto simp: esc_char_def)

lemma dump_str_one_line: "one_line (dump_str s)"
  using esc_one_line by (auto simp: dump_str_def)

lemma dumps_one_line:
  "wf_json j \<Longrightarrow> one_line (json_dumps j)"
  "list_all wf_json js \<Longrightarrow> one_line (dump_elems js)"
  "list_all (\<lambda>kv. wf_json (snd kv)) kvs \<Longrightarrow> one_line (dump_members kvs)"
proof (induction j and js and kvs rule: json_dumps_dump_elems_dump_members.induct)
qed (use int_dec_one_line dump_str_one_line in auto)

lemma replace_absent: "old = a # old' \<Longrightarrow> a \<notin> set s \<Longrightarrow> replace_ne old new s = s"
  by (induction old new s rule: replace_ne.induct) (auto simp: py_str)

lemma text_lines_unix: "CHR 0x0D \<notin> set s \<Longrightarrow> text_lines s = split_on newline s"
  by (simp add: text_lines_def py_replace_def replace_absent)

lemma split_on_line: "newline \<notin> set l \<Longrightarrow> split_on newline (l @ newline # s) = l # split_on newline s"
  by (induction l) auto

definition ndjson :: "json list \<Rightarrow> string" where
  "ndjson es = concat (map (\<lambda>j. json_dumps j @ [newline]) es)"

lemma ndjson_lines:
  assumes "list_all wf_json es"
  shows "text_lines (ndjson es) = map json_dumps es @ [[]]"
proof -
  have "CHR 0x0D \<notin> set (ndjson es)" using assms dumps_one_line(1) by (auto simp: ndjson_def list_all_iff)
  moreover have "split_on newline (ndjson es) = map json_dumps es @ [[]]"
    using assms by (induction es) (simp_all add: ndjson_def split_on_line dumps_one_line(1))
  ultimately show ?thesis by (simp add: text_lines_unix)
qed

lemma strip_dict: "is_dict j \<Longrightarrow> strip (json_dumps j) = json_dumps j \<and> json_dumps j \<noteq> []"
  by (cases j) (auto simp: strip_def lstrip_def rstrip_pred_def py_isspace_def)

text \<open>Rows whose duration, if any, is an integer, as \<open>log_call\<close> writes it.\<close>

definition plain_row :: "json \<Rightarrow> bool" where
  "plain_row j \<longleftrightarrow> wf_json j \<and> is_dict j \<and> (case jget ''duration_ms'' j of None \<Rightarrow> True | Some (JInt _) \<Rightarrow> True | _ \<Rightarrow> False)"

definition row_ms :: "json \<Rightarrow> int" where
  "row_ms j = (case jget ''duration_ms'' j of Some d \<Rightarrow> as_int d | None \<Rightarrow> 0)"

definition row_tools :: "json \<Rightarrow> string list" where
  "row_tools j = (case jget ''tool'' j of Some t \<Rightarrow> [py_str t] | None \<Rightarrow> [])"

lemma add_row_plain:
  assumes "plain_row j"
  shows "\<exists>a'. add_row (json_dumps j) a = Inr a' \<and> s_calls a' = s_calls a + 1 \<and> s_ms a' = s_ms a + row_ms j \<and>
    s_errors a' = s_errors a + (if jhas ''error'' j then 1 else 0) \<and> s_tools a' = row_tools j @ s_tools a"
proof -
  obtain kvs where j: "j = JObj kvs" using assms by (cases j) (auto simp: plain_row_def)
  have l: "json_loads (json_dumps j) = Some (JObj kvs)" using assms json_loads_dumps [of j] unfolding plain_row_def j by blast
  have s: "strip (json_dumps j) = json_dumps j" "json_dumps j \<noteq> []" using assms strip_dict by (auto simp: plain_row_def)
  show ?thesis
  proof (cases "jget ''duration_ms'' j")
    case None
    then show ?thesis unfolding add_row_def Let_def s(1) l using s(2) j
      by (simp add: row_ms_def row_tools_def split: option.split)
  next
    case (Some d)
    with assms obtain i where "d = JInt i" by (cases d) (auto simp: plain_row_def)
    with Some show ?thesis unfolding add_row_def Let_def s(1) l using s(2) j
      by (simp add: row_ms_def row_tools_def split: option.split)
  qed
qed

lemma add_rows_plain:
  "list_all plain_row es \<Longrightarrow> \<exists>a'. add_rows (map json_dumps es @ [[]]) a = Inr a' \<and> s_calls a' = s_calls a + length es
     \<and> s_ms a' = s_ms a + sum_list (map row_ms es)
     \<and> s_errors a' = s_errors a + length (filter (jhas ''error'') es)
     \<and> set (s_tools a') = set (concat (map row_tools es)) \<union> set (s_tools a)"
proof (induction es arbitrary: a)
  case Nil
  show ?case by (simp add: add_row_def strip_def lstrip_def rstrip_pred_def)
next
  case (Cons e es)
  obtain a1 where a1: "add_row (json_dumps e) a = Inr a1" "s_calls a1 = s_calls a + 1"
    "s_ms a1 = s_ms a + row_ms e" "s_errors a1 = s_errors a + (if jhas ''error'' e then 1 else 0)"
    "s_tools a1 = row_tools e @ s_tools a"
    using add_row_plain Cons.prems by fastforce
  with Cons.IH [of a1] Cons.prems show ?case by auto
qed

lemma ndjson_read_back:
  assumes "list_all plain_row es"
  shows "\<exists>m names. run_metadata root (Some (Some (ndjson es))) run_id = Inr m
     \<and> jget ''calls'' m = Some (JInt (int (length es)))
     \<and> jget ''errors'' m = Some (JInt (int (length (filter (jhas ''error'') es))))
     \<and> jget ''total_duration_ms'' m = Some (JInt (sum_list (map row_ms es)))
     \<and> jget ''tools'' m = Some (JArr (map JStr names)) \<and> sorted names \<and> distinct names
     \<and> set names = set (concat (map row_tools es))"
proof -
  have "list_all wf_json es" using assms by (simp add: plain_row_def list_all_iff)
  then have "text_lines (ndjson es) = map json_dumps es @ [[]]" by (rule ndjson_lines)
  moreover obtain a where "add_rows (map json_dumps es @ [[]]) empty_summary = Inr a" "s_calls a = length es"
    "s_ms a = sum_list (map row_ms es)" "s_errors a = length (filter (jhas ''error'') es)"
    "set (s_tools a) = set (concat (map row_tools es))"
    using add_rows_plain [OF assms, of empty_summary] by (auto simp: empty_summary_def)
  ultimately obtain m where "run_metadata root (Some (Some (ndjson es))) run_id = Inr m"
    "jget ''calls'' m = Some (JInt (int (length es)))"
    "jget ''errors'' m = Some (JInt (int (length (filter (jhas ''error'') es))))"
    "jget ''total_duration_ms'' m = Some (JInt (sum_list (map row_ms es)))"
    "jget ''tools'' m = Some (JArr (map JStr (sort (remdups (s_tools a)))))"
    "set (s_tools a) = set (concat (map row_tools es))"
    by (simp add: run_metadata_def)
  then show ?thesis by (intro exI [of _ m] exI [of _ "sort (remdups (s_tools a))"]) simp
qed

subsection \<open>What was logged\<close>

text \<open>
  A call as it is handed to \<^verbatim>\<open>log_call\<close>.  \<open>tidy\<close>: no floating-point number, and no dictionary with a key twice.
\<close>

record logged =
  lc_tool :: string
  lc_target :: "string option"
  lc_params :: "(string \<times> pyobj) list"
  lc_error :: "json option"
  lc_result :: pyobj
  lc_us :: "int option"

definition log_one :: "logged \<Rightarrow> (arch, unit) io" where
  "log_one c = log_call (lc_tool c) (lc_target c) (lc_params c) (lc_error c) (lc_result c) (lc_us c)"

fun log_all :: "logged list \<Rightarrow> (arch, unit) io" where
  "log_all [] = ret ()"
| "log_all (c # cs) = bnd (log_one c) (\<lambda>_. log_all cs)"

fun tidy :: "pyobj \<Rightarrow> bool" where
  "tidy (PFloat x) = False"
| "tidy (PList xs) = list_all tidy xs"
| "tidy (PDict kvs) = (distinct (map fst kvs) \<and> list_all (\<lambda>kv. tidy (snd kv)) kvs)"
| "tidy _ = True"

definition tidy_call :: "logged \<Rightarrow> bool" where
  "tidy_call c \<longleftrightarrow> tidy (PDict (lc_params c)) \<and> tidy (lc_result c) \<and> (\<forall>e. lc_error c = Some e \<longrightarrow> wf_json e)"

definition lc_ms :: "logged \<Rightarrow> int" where
  "lc_ms c = (case lc_us c of None \<Rightarrow> 0 | Some d \<Rightarrow> d div 1000)"

lemma tidy_scrub: "tidy x \<Longrightarrow> tidy (scrub x)"
  by (induction x rule: scrub.induct) (auto simp: list_all_iff comp_def case_prod_beta)

lemma tidy_of_json: "wf_json j \<Longrightarrow> tidy (of_json j)"
  by (induction j rule: of_json.induct) (auto simp: list_all_iff comp_def case_prod_beta)

lemma encode_tidy:
  "tidy x \<Longrightarrow> encode x = Inr j \<Longrightarrow> wf_json j"
  "list_all tidy xs \<Longrightarrow> encode_list xs = Inr js \<Longrightarrow> list_all wf_json js"
  "list_all (\<lambda>kv. tidy (snd kv)) kvs \<Longrightarrow> encode_members kvs = Inr ms \<Longrightarrow>
     list_all (\<lambda>kv. wf_json (snd kv)) ms \<and> map fst ms = map fst kvs"
  by (induction x and xs and kvs arbitrary: j and js and ms rule: encode_encode_list_encode_members.induct)
    (auto split: sum.splits)

lemma encode_log_entry:
  assumes "encode (log_entry ts tool target params error result us) = Inr j"
    and "tidy (PDict params)" "tidy result" "\<And>e. error = Some e \<Longrightarrow> wf_json e"
  shows "plain_row j" "jhas ''error'' j \<longleftrightarrow> error \<noteq> None" "row_tools j = [tool]"
    and "row_ms j = (case us of None \<Rightarrow> 0 | Some d \<Rightarrow> d div 1000)"
proof -
  have "tidy (scrub (PDict params))" by (rule tidy_scrub) (rule assms(2))
  then have p: "tidy (PDict (map (\<lambda>(k, v). (k, scrub v)) params))" by simp
  have "tidy (log_entry ts tool target params error result us)"
    using p tidy_scrub [OF assms(3)] tidy_of_json [OF assms(4)]
    by (auto simp: log_entry_def split: option.split)
  from encode_tidy(1) [OF this assms(1)] have wf: "wf_json j" .
  show "plain_row j" "jhas ''error'' j \<longleftrightarrow> error \<noteq> None" "row_tools j = [tool]"
    "row_ms j = (case us of None \<Rightarrow> 0 | Some d \<Rightarrow> d div 1000)"
    using assms(1) wf
    by (auto simp: log_entry_def plain_row_def jhas_def row_tools_def row_ms_def split: option.splits sum.splits)
qed

lemma log_all_text:
  "log_all cs s = (Inr u, s') \<Longrightarrow> list_all tidy_call cs \<Longrightarrow>
   \<exists>es. log_text s' = log_text s @ ndjson es \<and> list_all plain_row es \<and>
     map (jhas ''error'') es = map (\<lambda>c. lc_error c \<noteq> None) cs \<and> map row_ms es = map lc_ms cs \<and>
     map row_tools es = map (\<lambda>c. [lc_tool c]) cs"
proof (induction cs arbitrary: s)
  case Nil
  then show ?case by (auto simp: ret_def ndjson_def)
next
  case (Cons c cs)
  obtain v s1 where c: "log_one c s = (Inr v, s1)" and rest: "log_all cs s1 = (Inr u, s')"
    using Cons.prems(1) by (auto simp: bnd_def split: prod.splits sum.splits)
  from log_call_text [OF c [unfolded log_one_def]] obtain ts j where
    j: "encode (log_entry ts (lc_tool c) (lc_target c) (lc_params c) (lc_error c) (lc_result c) (lc_us c)) = Inr j"
      "log_text s1 = log_text s @ json_dumps j @ [newline]" by auto
  have t: "tidy (PDict (lc_params c))" "tidy (lc_result c)" "\<And>e. lc_error c = Some e \<Longrightarrow> wf_json e"
    using Cons.prems(2) by (simp_all add: tidy_call_def)
  note row = encode_log_entry [OF j(1) t]
  obtain es where es: "log_text s' = log_text s1 @ ndjson es" "list_all plain_row es"
    "map (jhas ''error'') es = map (\<lambda>c. lc_error c \<noteq> None) cs" "map row_ms es = map lc_ms cs"
    "map row_tools es = map (\<lambda>c. [lc_tool c]) cs"
    using Cons.IH [OF rest] Cons.prems(2) by auto
  have "log_text s' = log_text s @ ndjson (j # es)" using es(1) j(2) by (simp add: ndjson_def)
  moreover have "row_ms j = lc_ms c" using row(4) by (simp add: lc_ms_def)
  ultimately show ?case using es(2-5) row(1-3) by (intro exI [of _ "j # es"]) simp
qed

lemma length_filter_map: "length (filter P es) = length (filter (\<lambda>b. b) (map P es))"
  by (induction es) auto

text \<open>
  C16. When a sequence of log_call calls has written a fresh run file, run_metadata on that
  file reports the number of calls, the number of those that carried an error, the sum of their
  durations in whole milliseconds and the sorted names of their tools, for values without
  floating-point numbers and dictionaries with distinct keys.
\<close>

theorem run_file_read_back:
  assumes "log_all cs s = (Inr u, s')" "log_text s = []" "list_all tidy_call cs"
  shows "\<exists>m names. run_metadata root (Some (Some (log_text s'))) run_id = Inr m
     \<and> jget ''calls'' m = Some (JInt (int (length cs)))
     \<and> jget ''errors'' m = Some (JInt (int (length (filter (\<lambda>c. lc_error c \<noteq> None) cs))))
     \<and> jget ''total_duration_ms'' m = Some (JInt (sum_list (map lc_ms cs)))
     \<and> jget ''tools'' m = Some (JArr (map JStr names)) \<and> sorted names \<and> distinct names
     \<and> set names = lc_tool ` set cs"
proof -
  obtain es where es: "log_text s' = ndjson es" "list_all plain_row es"
    "map (jhas ''error'') es = map (\<lambda>c. lc_error c \<noteq> None) cs" "map row_ms es = map lc_ms cs"
    "map row_tools es = map (\<lambda>c. [lc_tool c]) cs"
    using log_all_text [OF assms(1,3)] assms(2) by auto
  have "length (filter (jhas ''error'') es) = length (filter (\<lambda>c. lc_error c \<noteq> None) cs)"
    by (metis es(3) length_filter_map)
  moreover have "length es = length cs" using arg_cong [OF es(4), of length] by simp
  moreover have "set (concat (map row_tools es)) = lc_tool ` set cs" unfolding es(5) by auto
  ultimately show ?thesis using ndjson_read_back [OF es(2), of root run_id] es(1,4) by simp
qed

section \<open>Concrete runs\<close>

definition run_dir :: "string \<Rightarrow> entry" where
  "run_dir n = \<lparr>ename = n, is_dir = True, mtime = 0, esize = None\<rparr>"

definition log_file :: "string \<Rightarrow> int \<Rightarrow> nat \<Rightarrow> entry" where
  "log_file n t k = \<lparr>ename = n, is_dir = False, mtime = t, esize = Some k\<rparr>"

definition three_runs :: "entry list" where
  "three_runs = map run_dir [''20240103T000000Z'', ''20240101T000000Z'', ''20240102T000000Z'']"

definition three_logs :: "entry list" where
  "three_logs = [log_file ''c.log'' 3 100, log_file ''a.log'' 1 300, log_file ''b.log'' 2 200]"

lemma pruned_runs: "prune_runs (\<lambda>_. True) True three_runs 2 = [run_dir ''20240101T000000Z'']"
  by code_simp

lemma pruned_logs: "prune_logs (\<lambda>_. True) True three_logs 0 ''*.log'' (Some 350) = [log_file ''a.log'' 1 300]"
  by code_simp

lemma distinct_examples: "distinct three_runs" "distinct three_logs"
  by code_simp+

theorem prune_runs_keeps_newest_witness:
  "2 \<le> length (filter (\<lambda>e. is_run_dir e \<and> e \<notin> set (prune_runs (\<lambda>_. True) True three_runs 2)) three_runs)"
proof -
  have "run_dir ''20240101T000000Z'' \<in> set (prune_runs (\<lambda>_. True) True three_runs 2)"
    by (simp add: pruned_runs)
  from prune_runs_keeps_newest [OF this distinct_examples(1)]
  have "nat 2 \<le> length (filter (\<lambda>e. is_run_dir e \<and> ename (run_dir ''20240101T000000Z'') \<le> ename e \<and>
      e \<notin> set (prune_runs (\<lambda>_. True) True three_runs 2)) three_runs)" by blast
  also have "\<dots> \<le> length (filter (\<lambda>e. is_run_dir e \<and> e \<notin> set (prune_runs (\<lambda>_. True) True three_runs 2)) three_runs)"
    by (rule length_filter_mono) blast
  finally show ?thesis by simp
qed

theorem prune_runs_bounds_archive_witness:
  "length (filter (\<lambda>e. is_run_dir e \<and> e \<notin> set (prune_runs (\<lambda>_. True) True three_runs 2)) three_runs) \<le> 2"
  using prune_runs_bounds_archive [of 2 three_runs "\<lambda>_. True"] distinct_examples(1) by simp

theorem prune_logs_never_newest_witness:
  "\<exists>e \<in> set three_logs. 1 \<le> mtime e \<and> e \<notin> set (prune_logs (\<lambda>_. True) True three_logs 0 ''*.log'' (Some 350))"
proof -
  have "log_file ''a.log'' 1 300 \<in> set (prune_logs (\<lambda>_. True) True three_logs 0 ''*.log'' (Some 350))"
    by (simp add: pruned_logs)
  from prune_logs_never_newest [OF this distinct_examples(2)] show ?thesis
    by (auto simp: log_file_def)
qed

theorem prune_logs_meets_budget_witness:
  "(let remaining = filter (\<lambda>f. \<not> is_dir f \<and> glob_match ''*.log'' (ename f) \<and>
       f \<notin> set (prune_logs (\<lambda>_. True) True three_logs 0 ''*.log'' (Some 350))) three_logs
    in length remaining \<le> 1 \<or> sum_list (map (\<lambda>f. int (size_or_zero f)) remaining) \<le> 350)"
  using prune_logs_meets_budget [OF distinct_examples(2), of "\<lambda>_. True" _ "''*.log''" 0 350]
  by (simp add: Let_def)

definition arch_demo :: arch where
  "arch_demo = \<lparr>history = [], answer = scripted [Inr (JInt 1000), Inr (JInt 5000), Inr (JStr ''t0''), Inr JNull], log_text = []\<rparr>"

lemmas arch_run = archived_def log_call_def arch_demo_def host_def perform_def now_def scripted_def bnd_def catch_def
  ret_def raise_def modify_def Let_def log_entry_def

theorem archived_returns_the_result_witness:
  "\<exists>s' j. archived ''sys.version'' ''target'' [(''target'', PStr ''qemu'')] (ret (PInt 7)) arch_demo = (Inr (PInt 7), s')
     \<and> log_text s' = json_dumps j @ [newline]"
proof -
  obtain s' where r: "archived ''sys.version'' ''target'' [(''target'', PStr ''qemu'')] (ret (PInt 7)) arch_demo = (Inr (PInt 7), s')"
    by (simp add: arch_run)
  from archived_returns_the_result [OF this] r show ?thesis
    by (auto simp: ret_def) (auto simp: now_def arch_demo_def perform_def Let_def)
qed

theorem archived_reports_the_error_witness:
  "\<exists>e' s'. archived ''sys.version'' ''target'' [] (raise (PyErr KeyError ''size'')) arch_demo = (Inl e', s')"
  using archived_reports_the_error [of "raise (PyErr KeyError ''size'')" arch_demo "PyErr KeyError ''size''"]
  by (simp add: raise_def) blast

definition two_calls :: "logged list" where
  "two_calls = [\<lparr>lc_tool = ''sys.version'', lc_target = Some ''qemu'', lc_params = [(''n'', PInt 1)], lc_error = None,
       lc_result = PStr ''54.30'', lc_us = Some 4200\<rparr>,
     \<lparr>lc_tool = ''exec.cmd'', lc_target = None, lc_params = [], lc_error = Some (JStr ''timeout''), lc_result = PNone,
       lc_us = Some 0\<rparr>]"

lemma two_calls_run:
  "\<not> isl (fst (log_all two_calls (arch_demo\<lparr>answer := scripted [Inr (JStr ''t0''), Inr JNull, Inr (JStr ''t1''), Inr JNull]\<rparr>)))"
  by code_simp

theorem run_file_read_back_witness:
  "\<exists>s' m. log_all two_calls (arch_demo\<lparr>answer := scripted [Inr (JStr ''t0''), Inr JNull, Inr (JStr ''t1''), Inr JNull]\<rparr>) = (Inr (), s')
     \<and> run_metadata ''archive'' (Some (Some (log_text s'))) ''r'' = Inr m
     \<and> jget ''calls'' m = Some (JInt 2) \<and> jget ''errors'' m = Some (JInt 1) \<and> jget ''total_duration_ms'' m = Some (JInt 4)"
proof -
  let ?s = "arch_demo\<lparr>answer := scripted [Inr (JStr ''t0''), Inr JNull, Inr (JStr ''t1''), Inr JNull]\<rparr>"
  obtain s' where r: "log_all two_calls ?s = (Inr (), s')"
    using two_calls_run by (cases "log_all two_calls ?s"; cases "fst (log_all two_calls ?s)") auto
  have "log_text ?s = []" "list_all tidy_call two_calls" by (simp_all add: arch_demo_def two_calls_def tidy_call_def)
  from run_file_read_back [OF r this, of "''archive''" "''r''"] r show ?thesis
    by (auto simp: two_calls_def lc_ms_def)
qed

theorem scrub_bounds_values_witness: "scrub (PDict [(''k'', PStr ''x'')]) = PDict [(''k'', PStr ''x'')]"
  using scrub_bounds_values [of "PDict [(''k'', PStr ''x'')]"] by (simp add: ulen_def MAX_LOGGED_STR_def is_cont_def)

end
