(* ===== verification/Config.thy ===== *)
theory Config
  imports Mcpd "HOL-Library.List_Lexorder" "HOL-Library.Char_ord"
begin

text \<open>
  The configuration (\<^verbatim>\<open>config.py\<close>) after it is loaded: one record per class, with the defaults of
  the source, the endpoint validator and the operations of \<^verbatim>\<open>Config\<close>.  Reading TOML and the
  generic checks of Pydantic are library code and are not modelled.  Paths are strings.
\<close>

section \<open>Records and defaults\<close>

record server_config =
  log_level :: string
  log_dir :: string
  archive_root :: string
  archive_keep_runs :: "int option"
  serial_log_keep :: "int option"
  serial_log_max_total_mb :: "int option"
  mcp_transport :: string
  mcp_http_addr :: string
  default_target :: "string option"

definition default_server :: server_config where
  "default_server = \<lparr>log_level = ''info'', log_dir = ''logs'', archive_root = ''archive'',
     archive_keep_runs = Some 50, serial_log_keep = Some 20, serial_log_max_total_mb = Some 512,
     mcp_transport = ''stdio'', mcp_http_addr = ''127.0.0.1:7180'', default_target = None\<rparr>"

text \<open>\<open>QmpChannel\<close> and \<open>GdbChannel\<close> have the same fields; \<open>McpdChannel\<close> has one more.\<close>

record channel =
  enabled :: bool
  chan_endpoint :: string

record mcpd_channel = channel +
  discovery_port :: "int option"

definition default_qmp :: channel where
  "default_qmp = \<lparr>enabled = True, chan_endpoint = ''127.0.0.1:14422''\<rparr>"

definition default_mcpd :: mcpd_channel where
  "default_mcpd = \<lparr>enabled = True, chan_endpoint = ''127.0.0.1:4322'', discovery_port = None\<rparr>"

definition default_gdb :: channel where
  "default_gdb = \<lparr>enabled = True, chan_endpoint = ''127.0.0.1:1234''\<rparr>"

record serial_channel =
  serial_enabled :: bool
  serial_port :: string
  serial_baud :: int

definition default_serial :: serial_channel where
  "default_serial = \<lparr>serial_enabled = True, serial_port = [], serial_baud = 115200\<rparr>"

record input_config =
  input_enabled :: bool
  max_text_len :: int
  max_events :: int
  default_delay_ms :: int
  allow_drag :: bool

definition default_input :: input_config where
  "default_input = \<lparr>input_enabled = False, max_text_len = 128, max_events = 256,
     default_delay_ms = 15, allow_drag = True\<rparr>"

record channels =
  chan_mcpd :: "mcpd_channel option"
  chan_qmp :: "channel option"
  chan_gdb :: "channel option"
  chan_uboot :: "serial_channel option"
  chan_mcu :: "serial_channel option"

definition no_channels :: channels where
  "no_channels = \<lparr>chan_mcpd = None, chan_qmp = None, chan_gdb = None, chan_uboot = None, chan_mcu = None\<rparr>"

record sandbox_config =
  sandbox_path :: "string option"
  default_extmem_mb :: int
  default_window_mb :: int
  sandbox_deny_libs :: "string list"

definition default_sandbox :: sandbox_config where
  "default_sandbox = \<lparr>sandbox_path = None, default_extmem_mb = 1024, default_window_mb = 256,
     sandbox_deny_libs = []\<rparr>"

datatype target_type = Qemu | Remote

fun type_str :: "target_type \<Rightarrow> string" where
  "type_str Qemu = ''qemu''"
| "type_str Remote = ''remote''"

record target_config =
  t_type :: target_type
  display_name :: "string option"
  t_machine :: "string option"
  qemu_config :: "string option"
  headless :: bool
  tags :: "string list"
  channels :: channels
  sandbox :: "sandbox_config option"
  t_input :: "input_config option"

definition target_of :: "target_type \<Rightarrow> target_config" where
  "target_of t = \<lparr>t_type = t, display_name = None, t_machine = None, qemu_config = None,
     headless = False, tags = [], channels = no_channels, sandbox = None, t_input = None\<rparr>"

record paths_config =
  amiga_qemu_tests :: "string option"
  qemu_binary :: "string option"
  sandboxvm :: "string option"

record defaults_config =
  dest_volume :: "string option"
  sources_dir :: "string option"
  d_machine :: "string option"
  iso_filename :: "string option"
  exec_priority :: "int option"

text \<open>\<^verbatim>\<open>Field(default=None, ge=-128, le=127)\<close>.\<close>

definition exec_priority_ok :: "int option \<Rightarrow> bool" where
  "exec_priority_ok p = (case p of None \<Rightarrow> True | Some i \<Rightarrow> -128 \<le> i \<and> i \<le> 127)"

record config =
  server :: server_config
  paths :: paths_config
  defaults :: defaults_config
  targets :: "(string \<times> target_config) list"

definition empty_config :: config where
  "empty_config = \<lparr>server = default_server,
     paths = \<lparr>amiga_qemu_tests = None, qemu_binary = None, sandboxvm = None\<rparr>,
     defaults = \<lparr>dest_volume = None, sources_dir = None, d_machine = None, iso_filename = None, exec_priority = None\<rparr>,
     targets = []\<rparr>"

section \<open>Endpoints\<close>

definition check_endpoint :: "string \<Rightarrow> exn + string" where
  "check_endpoint v =
     (if CHR '':'' \<notin> set v then Inl (PyErr ValueError ''endpoint must be host:port'')
      else let (host, _, port) = rpartition CHR '':'' v
           in if host = [] \<or> port = [] \<or> \<not> list_all is_digit port
              then Inl (PyErr ValueError ''endpoint must be host:port (numeric port)'')
              else Inr v)"

definition host_of :: "string \<Rightarrow> string" where
  "host_of v = fst (rpartition CHR '':'' v)"

definition port_of :: "string \<Rightarrow> exn + int" where
  "port_of v = parse_int (snd (snd (rpartition CHR '':'' v)))"

section \<open>Operations of Config\<close>

definition target_names :: "config \<Rightarrow> string list" where
  "target_names c = sort (map fst (targets c))"

definition config_target :: "config \<Rightarrow> string \<Rightarrow> exn + target_config" where
  "config_target c name = (case map_of (targets c) name of
       Some t \<Rightarrow> Inr t | None \<Rightarrow> Inl (PyErr KeyError (''unknown target: '' @ py_repr name)))"

definition resolve_target :: "config \<Rightarrow> string option \<Rightarrow> exn + string" where
  "resolve_target c name =
     (let given = strip (case name of None \<Rightarrow> [] | Some n \<Rightarrow> n);
          chosen = (if given \<noteq> [] then given
                    else case default_target (server c) of None \<Rightarrow> [] | Some d \<Rightarrow> d)
      in if chosen = []
         then Inl (PyErr ValueError ''no target given and no server.default_target in config'')
         else if chosen \<notin> set (map fst (targets c))
         then Inl (PyErr ValueError (''unknown target: '' @ py_repr chosen @ '' (configured: ''
                @ py_repr_json (JArr (map JStr (target_names c))) @ '')''))
         else Inr chosen)"

text \<open>Where the file lies: the environment variable, then the platform's directory.\<close>

definition default_config_path :: "(string \<times> string) list \<Rightarrow> string \<Rightarrow> string \<Rightarrow> string" where
  "default_config_path env platform home =
     (case map_of env ''AMIGA_FLEET_CONFIG'' of
        Some (c # cs) \<Rightarrow> c # cs
      | _ \<Rightarrow> if platform = ''win32''
          then (case map_of env ''APPDATA'' of Some a \<Rightarrow> a | None \<Rightarrow> home @ ''/AppData/Roaming'')
                 @ ''/amiga-fleet-mcp/config.toml''
          else home @ ''/.config/amiga-fleet-mcp/config.toml'')"

section \<open>Properties\<close>

lemma rpartition_split:
  assumes "c \<notin> set q"
  shows "rpartition c (p @ c # q) = (p, [c], q)"
proof -
  have "takeWhile (\<lambda>x. x \<noteq> c) (rev q @ c # rev p) = rev q"
    using assms by (intro takeWhile_append_stop) auto
  then show ?thesis by (simp add: rpartition_def)
qed

lemma parse_int_digits:
  assumes "ds \<noteq> []" "\<forall>c \<in> set ds. is_digit c"
  shows "parse_int ds = Inr (int (digits_val 10 ds))"
proof -
  have sp: "\<not> py_isspace c \<and> c \<noteq> CHR ''-'' \<and> c \<noteq> CHR ''+''" if "is_digit c" for c
    using that by (auto simp: is_digit_def py_isspace_def)
  obtain d ds' where ds: "ds = d # ds'" using assms(1) by (cases ds) auto
  have "lstrip ds = ds" using assms sp ds by (auto simp: lstrip_def)
  moreover have "rstrip_pred py_isspace ds = ds"
    using assms sp by (cases ds rule: rev_cases) (auto simp: rstrip_pred_def)
  ultimately have "strip ds = ds" by (simp add: strip_def)
  then show ?thesis using assms sp ds by (auto simp: parse_int_def Let_def py_str list_all_iff)
qed

lemma rpartition_found:
  assumes "c \<in> set v"
  obtains p q where "v = p @ c # q" "c \<notin> set q" "rpartition c v = (p, [c], q)"
  using split_list_last [OF assms] rpartition_split that by metis

theorem endpoint_accepted_iff:
  "check_endpoint v = Inr v \<longleftrightarrow> (\<exists>host port. v = host @ '':'' @ port \<and> host \<noteq> [] \<and> port \<noteq> [] \<and>
     list_all is_digit port \<and> host_of v = host \<and> port_of v = Inr (int (digits_val 10 port)))"
proof
  assume ok: "check_endpoint v = Inr v"
  then have "CHR '':'' \<in> set v" by (auto simp: check_endpoint_def split: if_splits)
  then obtain p q where pq: "v = p @ CHR '':'' # q" "CHR '':'' \<notin> set q" "rpartition CHR '':'' v = (p, '':'', q)"
    by (rule rpartition_found)
  with ok have "p \<noteq> []" "q \<noteq> []" "list_all is_digit q"
    by (auto simp: check_endpoint_def Let_def split: if_splits)
  with pq show "\<exists>host port. v = host @ '':'' @ port \<and> host \<noteq> [] \<and> port \<noteq> [] \<and>
     list_all is_digit port \<and> host_of v = host \<and> port_of v = Inr (int (digits_val 10 port))"
    using parse_int_digits [of q] by (auto simp: host_of_def port_of_def list_all_iff)
next
  assume "\<exists>host port. v = host @ '':'' @ port \<and> host \<noteq> [] \<and> port \<noteq> [] \<and>
     list_all is_digit port \<and> host_of v = host \<and> port_of v = Inr (int (digits_val 10 port))"
  then obtain h p where v: "v = h @ CHR '':'' # p" "h \<noteq> []" "p \<noteq> []" "list_all is_digit p" by auto
  then have "CHR '':'' \<notin> set p" by (auto simp: list_all_iff is_digit_def)
  with v show "check_endpoint v = Inr v" by (simp add: check_endpoint_def rpartition_split)
qed

theorem resolve_target_spec:
  "case resolve_target c name of
     Inr t \<Rightarrow> t \<noteq> [] \<and> t \<in> set (map fst (targets c)) \<and>
       (if strip (case name of None \<Rightarrow> [] | Some n \<Rightarrow> n) = [] then default_target (server c) = Some t
        else t = strip (case name of None \<Rightarrow> [] | Some n \<Rightarrow> n))
   | Inl e \<Rightarrow> exn_name e = ''ValueError''"
  by (auto simp: resolve_target_def Let_def split: option.splits)

end
