(* ===== verification/Fleet.thy ===== *)
theory Fleet
  imports Config
begin

text \<open>
  The fleet (\<^verbatim>\<open>fleet.py\<close>): the target registry and the pools of lazily made transports.  A pool maps
  a target to a \<open>handle\<close>, the identity of a transport object with the channel it was made from.  The
  QEMU processes started by the server are process handles; signals to them are host events.
  \<open>host_files\<close> holds the host files the tools read and write.

  The locale \<open>registry\<close> is the contract of a get-or-create pool: the three transport pools interpret
  it.
\<close>

record 'c handle =
  tid :: nat
  chan :: 'c

record fleet = world +
  f_config :: config
  mcpd_pool :: "(string \<times> mcpd_channel handle) list"
  qmp_pool :: "(string \<times> channel handle) list"
  gdb_pool :: "(string \<times> channel handle) list"
  qemu_processes :: "(string \<times> nat) list"
  serial_log_paths :: "(string \<times> string) list"
  next_tid :: nat
  host_files :: "(string \<times> string) list"

definition fleet_init :: "config \<Rightarrow> ((event \<times> outcome) list \<Rightarrow> event \<Rightarrow> outcome) \<Rightarrow> fleet" where
  "fleet_init c env = \<lparr>history = [], answer = env, f_config = c, mcpd_pool = [], qmp_pool = [],
     gdb_pool = [], qemu_processes = [], serial_log_paths = [], next_tid = 0,
     host_files = []\<rparr>"

section \<open>Targets\<close>

text \<open>Names, filtered to those that carry every wanted tag.\<close>

definition list_targets :: "config \<Rightarrow> string list option \<Rightarrow> string list" where
  "list_targets c wanted =
     (case wanted of
        Some (w # ws) \<Rightarrow> filter (\<lambda>n. case map_of (targets c) n of
            Some t \<Rightarrow> list_all (\<lambda>g. g \<in> set (tags t)) (w # ws) | None \<Rightarrow> False) (target_names c)
      | _ \<Rightarrow> target_names c)"

definition available :: "config \<Rightarrow> json" where
  "available c = JObj [(''available'', JArr (map JStr (list_targets c None)))]"

definition target_config :: "config \<Rightarrow> string \<Rightarrow> exn + target_config" where
  "target_config c name = (case map_of (targets c) name of
       Some t \<Rightarrow> Inr t
     | None \<Rightarrow> Inl (RpcErr InvalidParams (''unknown target: '' @ py_repr name) (Some (available c))))"

definition fleet_resolve :: "config \<Rightarrow> string option \<Rightarrow> exn + string" where
  "fleet_resolve c name = (case resolve_target c name of
       Inr t \<Rightarrow> Inr t
     | Inl e \<Rightarrow> Inl (RpcErr InvalidParams (exn_str e) (Some (available c))))"

section \<open>The pools\<close>

definition lift :: "exn + 'a \<Rightarrow> ('s, 'a) io" where
  "lift r = (case r of Inl e \<Rightarrow> raise e | Inr x \<Rightarrow> ret x)"

definition new_tid :: "('w fleet_scheme, nat) io" where
  "new_tid s = (Inr (next_tid s), s\<lparr>next_tid := next_tid s + 1\<rparr>)"

definition not_capable :: "string \<Rightarrow> (string \<times> json) list \<Rightarrow> exn" where
  "not_capable msg extra = RpcErr NotCapable msg (Some (JObj extra))"

definition fleet_mcpd :: "string \<Rightarrow> ('w fleet_scheme, mcpd_channel handle) io" where
  "fleet_mcpd name = bnd (gets id) (\<lambda>s. case map_of (mcpd_pool s) name of
       Some h \<Rightarrow> ret h
     | None \<Rightarrow> bnd (lift (target_config (f_config s) name)) (\<lambda>t.
         case chan_mcpd (channels t) of
           None \<Rightarrow> raise (not_capable ''target has no enabled MCPd channel'' [(''target'', JStr name)])
         | Some ch \<Rightarrow>
             if \<not> enabled ch
             then raise (not_capable ''target has no enabled MCPd channel'' [(''target'', JStr name)])
             else bnd new_tid (\<lambda>i. let h = \<lparr>tid = i, chan = ch\<rparr> in
               bnd (modify (\<lambda>s. s\<lparr>mcpd_pool := AList.update name h (mcpd_pool s)\<rparr>)) (\<lambda>_. ret h))))"

definition mcpd_if_connected :: "string \<Rightarrow> 'w fleet_scheme \<Rightarrow> mcpd_channel handle option" where
  "mcpd_if_connected name s = map_of (mcpd_pool s) name"

definition fleet_qmp :: "string \<Rightarrow> ('w fleet_scheme, channel handle) io" where
  "fleet_qmp name = bnd (gets id) (\<lambda>s. case map_of (qmp_pool s) name of
       Some h \<Rightarrow> ret h
     | None \<Rightarrow> bnd (lift (target_config (f_config s) name)) (\<lambda>t.
         case chan_qmp (channels t) of
           None \<Rightarrow> raise (not_capable ''target has no enabled QMP channel'' [(''target'', JStr name)])
         | Some ch \<Rightarrow>
             if \<not> enabled ch
             then raise (not_capable ''target has no enabled QMP channel'' [(''target'', JStr name)])
             else if t_type t \<noteq> Qemu
             then raise (not_capable ''QMP only applies to qemu targets''
                    [(''target'', JStr name), (''type'', JStr (type_str (t_type t)))])
             else bnd new_tid (\<lambda>i. let h = \<lparr>tid = i, chan = ch\<rparr> in
               bnd (modify (\<lambda>s. s\<lparr>qmp_pool := AList.update name h (qmp_pool s)\<rparr>)) (\<lambda>_. ret h))))"

definition fleet_gdb :: "string \<Rightarrow> ('w fleet_scheme, channel handle) io" where
  "fleet_gdb name = bnd (gets id) (\<lambda>s. case map_of (gdb_pool s) name of
       Some h \<Rightarrow> ret h
     | None \<Rightarrow> bnd (lift (target_config (f_config s) name)) (\<lambda>t.
         case chan_gdb (channels t) of
           None \<Rightarrow> raise (not_capable ''target has no enabled GDB stub channel'' [(''target'', JStr name)])
         | Some ch \<Rightarrow>
             if \<not> enabled ch
             then raise (not_capable ''target has no enabled GDB stub channel'' [(''target'', JStr name)])
             else bnd new_tid (\<lambda>i. let h = \<lparr>tid = i, chan = ch\<rparr> in
               bnd (modify (\<lambda>s. s\<lparr>gdb_pool := AList.update name h (gdb_pool s)\<rparr>)) (\<lambda>_. ret h))))"

section \<open>QEMU processes\<close>

definition register_qemu_process :: "string \<Rightarrow> nat \<Rightarrow> string option \<Rightarrow> ('w fleet_scheme, unit) io" where
  "register_qemu_process name proc log = modify (\<lambda>s.
     s\<lparr>qemu_processes := AList.update name proc (qemu_processes s),
       serial_log_paths := (case log of None \<Rightarrow> serial_log_paths s
          | Some p \<Rightarrow> AList.update name p (serial_log_paths s))\<rparr>)"

definition qemu_process :: "string \<Rightarrow> 'w fleet_scheme \<Rightarrow> nat option" where
  "qemu_process name s = map_of (qemu_processes s) name"

definition serial_log_path :: "string \<Rightarrow> 'w fleet_scheme \<Rightarrow> string option" where
  "serial_log_path name s = map_of (serial_log_paths s) name"

definition drop_qemu_process :: "string \<Rightarrow> ('w fleet_scheme, unit) io" where
  "drop_qemu_process name = modify (\<lambda>s.
     s\<lparr>qemu_processes := AList.delete name (qemu_processes s),
       mcpd_pool := AList.delete name (mcpd_pool s),
       qmp_pool := AList.delete name (qmp_pool s),
       gdb_pool := AList.delete name (gdb_pool s)\<rparr>)"

text \<open>Closing a transport is an event that carries the pool and the transport's identity.\<close>

definition close_transport :: "string \<Rightarrow> 'c handle \<Rightarrow> (fleet, unit) io" where
  "close_transport pool h = bnd (host ''close'' [JStr pool, JInt (int (tid h))]) (\<lambda>_. ret ())"

fun is_timeout_expired :: "exn \<Rightarrow> bool" where
  "is_timeout_expired (PyErr t m) = (t = OtherError ''TimeoutExpired'')"
| "is_timeout_expired (RpcErr _ _ _) = False"

fun is_os :: "exn \<Rightarrow> bool" where
  "is_os (PyErr t m) = is_os_error t"
| "is_os (RpcErr _ _ _) = False"

definition try_host :: "string \<Rightarrow> nat \<Rightarrow> (exn \<Rightarrow> bool) \<Rightarrow> (fleet, bool) io" where
  "try_host op p ok = catch (bnd (host op [JInt (int p)]) (\<lambda>_. ret True))
     (\<lambda>e. if ok e then ret False else raise e)"

text \<open>Terminate politely, wait five seconds, then kill and wait two more.\<close>

definition stop_process :: "string \<times> nat \<Rightarrow> (fleet, unit) io" where
  "stop_process np = bnd (host ''poll'' [JInt (int (snd np))]) (\<lambda>v.
     if v \<noteq> JNull then ret ()
     else bnd (try_host ''terminate'' (snd np) is_os) (\<lambda>_.
       bnd (try_host ''wait 5'' (snd np) is_timeout_expired) (\<lambda>ended.
       bnd (whenM (\<not> ended)
             (bnd (catch (bnd (host ''kill'' [JInt (int (snd np))]) (\<lambda>_.
                    bnd (host ''wait 2'' [JInt (int (snd np))]) (\<lambda>_. ret ())))
                  (\<lambda>e. if is_os e \<or> is_timeout_expired e then ret () else raise e)) (\<lambda>_. ret ()))) (\<lambda>_.
       modify (\<lambda>s. s\<lparr>qemu_processes := AList.delete (fst np) (qemu_processes s)\<rparr>)))))"

definition close_all :: "(fleet, unit) io" where
  "close_all =
     bnd (gets mcpd_pool) (\<lambda>ms. bnd (for_each (\<lambda>p. close_transport ''mcpd'' (snd p)) ms) (\<lambda>_.
     bnd (modify (\<lambda>s. s\<lparr>mcpd_pool := []\<rparr>)) (\<lambda>_.
     bnd (gets qmp_pool) (\<lambda>qs. bnd (for_each (\<lambda>p. close_transport ''qmp'' (snd p)) qs) (\<lambda>_.
     bnd (modify (\<lambda>s. s\<lparr>qmp_pool := []\<rparr>)) (\<lambda>_.
     bnd (gets gdb_pool) (\<lambda>gs. bnd (for_each (\<lambda>p. close_transport ''gdb'' (snd p)) gs) (\<lambda>_.
     bnd (modify (\<lambda>s. s\<lparr>gdb_pool := []\<rparr>)) (\<lambda>_.
     bnd (gets qemu_processes) (\<lambda>ps. bnd (for_each stop_process ps) (\<lambda>_. ret ())))))))))))"

section \<open>The contract of a get-or-create pool\<close>

locale registry =
  fixes get :: "string \<Rightarrow> 's \<Rightarrow> (exn + 'h) \<times> 's"
    and find :: "'s \<Rightarrow> string \<Rightarrow> 'h option"
    and drop :: "string \<Rightarrow> 's \<Rightarrow> 's"
  assumes hit: "find s n = Some h \<Longrightarrow> get n s = (Inr h, s)"
    and made: "get n s = (Inr h, s') \<Longrightarrow> find s' n = Some h \<and> (\<forall>m. m \<noteq> n \<longrightarrow> find s' m = find s m)"
    and failed: "get n s = (Inl e, s') \<Longrightarrow> s' = s"
    and dropped: "find (drop n s) m = (if m = n then None else find s m)"
begin

lemma same_object_again:
  assumes "get n s = (Inr h, s')"
  shows "get n s' = (Inr h, s')"
  using made [OF assms] hit by blast

lemma others_unaffected:
  assumes "get n s = (Inr h, s')" "m \<noteq> n" "find s m = Some k"
  shows "get m s' = (Inr k, s')"
  using made [OF assms(1)] assms(2,3) hit by simp

text \<open>After any sequence of look-ups, an object found before is still found.\<close>

fun get_all :: "string list \<Rightarrow> 's \<Rightarrow> 's" where
  "get_all [] s = s"
| "get_all (n # ns) s = get_all ns (snd (get n s))"

lemma find_stable: "find s m = Some k \<Longrightarrow> find (get_all ns s) m = Some k"
proof (induction ns arbitrary: s)
  case (Cons n ns)
  obtain r s' where g: "get n s = (r, s')" by force
  have "find s' m = Some k"
  proof (cases r)
    case (Inl e)
    with g failed Cons.prems show ?thesis by blast
  next
    case (Inr h)
    show ?thesis
    proof (cases "m = n")
      case True
      with Cons.prems hit [of s n k] g show ?thesis by simp
    next
      case False
      with g Inr made Cons.prems show ?thesis by metis
    qed
  qed
  with Cons.IH g show ?case by simp
qed simp

lemma drop_then_new: "find (drop n s) n = None"
  by (simp add: dropped)

end

lemmas pool_defs = bnd_def gets_def ret_def raise_def modify_def lift_def new_tid_def not_capable_def Let_def

lemma update_lookup: "map_of (AList.update k v al) = (map_of al)(k \<mapsto> v)"
  by (rule update_conv')

lemma delete_lookup: "map_of (AList.delete k al) m = (if m = k then None else map_of al m)"
  by (simp add: delete_conv')

interpretation mcpd_pool: registry fleet_mcpd "\<lambda>s n. map_of (mcpd_pool s) n" "\<lambda>n s. snd (drop_qemu_process n s)"
  by unfold_locales
    (auto simp: fleet_mcpd_def drop_qemu_process_def pool_defs update_lookup delete_lookup
      split: option.splits sum.splits if_splits)

interpretation qmp_pool: registry fleet_qmp "\<lambda>s n. map_of (qmp_pool s) n" "\<lambda>n s. snd (drop_qemu_process n s)"
  by unfold_locales
    (auto simp: fleet_qmp_def drop_qemu_process_def pool_defs update_lookup delete_lookup
      split: option.splits sum.splits if_splits)

interpretation gdb_pool: registry fleet_gdb "\<lambda>s n. map_of (gdb_pool s) n" "\<lambda>n s. snd (drop_qemu_process n s)"
  by unfold_locales
    (auto simp: fleet_gdb_def drop_qemu_process_def pool_defs update_lookup delete_lookup
      split: option.splits sum.splits if_splits)

end
