(* ===== verification/Fleet_Correct.thy ===== *)
theory Fleet_Correct
  imports Fleet
begin

text \<open>
  Properties of the fleet: a target keeps its transport, the pools hold transports only of targets
  that allow them, and shutting down leaves no transport and no running child behind.
\<close>

section \<open>One transport per target\<close>

theorem one_transport_per_target:
  assumes "fleet_mcpd n s = (Inr h, s')"
  shows "fst (fleet_mcpd n (mcpd_pool.get_all ns s')) = Inr h"
proof -
  have "map_of (mcpd_pool s') n = Some h" using mcpd_pool.made [OF assms] by blast
  then have "map_of (mcpd_pool (mcpd_pool.get_all ns s')) n = Some h" by (rule mcpd_pool.find_stable)
  from mcpd_pool.hit [OF this] show ?thesis by simp
qed

section \<open>Pools hold what the configuration allows\<close>

definition pool_ok ::
    "nat \<Rightarrow> (string \<Rightarrow> target_config option) \<Rightarrow> (target_config \<Rightarrow> 'c option) \<Rightarrow> ('c \<Rightarrow> bool) \<Rightarrow> (string \<times> 'c handle) list \<Rightarrow> bool" where
  "pool_ok k cfg sel ok p \<longleftrightarrow> distinct (map fst p) \<and> (\<forall>n h. map_of p n = Some h \<longrightarrow> tid h < k \<and>
     (\<exists>t. cfg n = Some t \<and> sel t = Some (chan h) \<and> ok (chan h)))"

definition pools_ok :: "fleet \<Rightarrow> bool" where
  "pools_ok s \<longleftrightarrow>
     pool_ok (next_tid s) (map_of (targets (f_config s))) (\<lambda>t. chan_mcpd (channels t)) enabled (mcpd_pool s) \<and>
     pool_ok (next_tid s) (map_of (targets (f_config s)))
       (\<lambda>t. if t_type t = Qemu then chan_qmp (channels t) else None) enabled (qmp_pool s) \<and>
     pool_ok (next_tid s) (map_of (targets (f_config s))) (\<lambda>t. chan_gdb (channels t)) enabled (gdb_pool s)"

lemma pool_ok_update:
  "pool_ok k cfg sel ok p \<Longrightarrow> cfg n = Some t \<Longrightarrow> sel t = Some ch \<Longrightarrow> ok ch \<Longrightarrow>
   pool_ok (Suc k) cfg sel ok (AList.update n \<lparr>tid = k, chan = ch\<rparr> p)"
  by (auto simp: pool_ok_def update_lookup less_SucI AList.distinct_update split: if_splits)

lemma pool_ok_Suc [simp]: "pool_ok k cfg sel ok p \<Longrightarrow> pool_ok (Suc k) cfg sel ok p"
  by (auto simp: pool_ok_def less_SucI)

lemma pool_ok_delete: "pool_ok k cfg sel ok p \<Longrightarrow> pool_ok k cfg sel ok (AList.delete n p)"
  by (auto simp: pool_ok_def delete_lookup AList.distinct_delete split: if_splits)

lemma pool_ok_Nil [simp]: "pool_ok k cfg sel ok []"
  by (simp add: pool_ok_def)

lemma target_config_Inr: "target_config c n = Inr t \<longleftrightarrow> map_of (targets c) n = Some t"
  by (auto simp: target_config_def split: option.splits)

lemma keeps_mcpd [kept]: "preserves pools_ok (fleet_mcpd n)"
  by (auto simp: preserves_def pools_ok_def fleet_mcpd_def pool_defs target_config_Inr
      intro!: pool_ok_update split: option.splits sum.splits if_splits)

lemma keeps_qmp [kept]: "preserves pools_ok (fleet_qmp n)"
  by (auto simp: preserves_def pools_ok_def fleet_qmp_def pool_defs target_config_Inr
      intro!: pool_ok_update split: option.splits sum.splits if_splits)

lemma keeps_gdb [kept]: "preserves pools_ok (fleet_gdb n)"
  by (auto simp: preserves_def pools_ok_def fleet_gdb_def pool_defs target_config_Inr
      intro!: pool_ok_update split: option.splits sum.splits if_splits)

lemma keeps_register [kept]: "preserves pools_ok (register_qemu_process n p l)"
  by (auto simp: register_qemu_process_def pools_ok_def intro!: kept)

lemma keeps_drop [kept]: "preserves pools_ok (drop_qemu_process n)"
  by (auto simp: drop_qemu_process_def pools_ok_def intro!: kept pool_ok_delete)

lemma keeps_host [kept]: "preserves pools_ok (host op args)"
  unfolding host_def by (rule preserves_perform) (simp add: pools_ok_def)

lemma keeps_stop [kept]: "preserves pools_ok (stop_process np)"
  unfolding stop_process_def try_host_def by (auto intro!: kept simp: pools_ok_def)

lemma keeps_close_all [kept]: "preserves pools_ok close_all"
  unfolding close_all_def close_transport_def by (auto intro!: kept simp: pools_ok_def)

text \<open>
  C17. Every operation of Fleet keeps the pool invariant: each pool has distinct names, and
  each pooled transport belongs to a configured target with that channel enabled and carries
  that channel.
\<close>

theorem pools_ok_preserved:
  "pools_ok (fleet_init c env)
   \<and> preserves pools_ok (fleet_mcpd n) \<and> preserves pools_ok (fleet_qmp n) \<and> preserves pools_ok (fleet_gdb n)
   \<and> preserves pools_ok (register_qemu_process n p l) \<and> preserves pools_ok (drop_qemu_process n)
   \<and> preserves pools_ok close_all"
  by (auto simp: pools_ok_def fleet_init_def intro: kept)

section \<open>Shutting down\<close>

lemma host_fields:
  "host op args s = (r, s') \<Longrightarrow> s' = s\<lparr>history := history s @ [(Host op args, r)]\<rparr>"
  by (auto simp: host_def perform_def Let_def)

lemma try_host_fields:
  "try_host op p ok s = (r, s') \<Longrightarrow> \<exists>v. s' = s\<lparr>history := history s @ [(Host op [JInt (int p)], v)]\<rparr>"
  by (auto simp: try_host_def catch_def bnd_def ret_def raise_def host_def perform_def Let_def
      split: sum.splits if_splits)

text \<open>An event that shows the process had ended on its own.\<close>

definition had_exited :: "nat \<Rightarrow> event \<times> outcome \<Rightarrow> bool" where
  "had_exited p e \<longleftrightarrow> (\<exists>v. e = (Host ''poll'' [JInt (int p)], Inr v) \<and> v \<noteq> JNull)"

definition pools_same :: "fleet \<Rightarrow> fleet \<Rightarrow> bool" where
  "pools_same s s' \<longleftrightarrow> mcpd_pool s' = mcpd_pool s \<and> qmp_pool s' = qmp_pool s \<and> gdb_pool s' = gdb_pool s"

lemma stop_process_effect:
  assumes "stop_process (n, p) s = (Inr (), s')"
  shows "pools_same s s' \<and> (\<exists>es. history s' = history s @ es \<and>
     (qemu_processes s' = AList.delete n (qemu_processes s) \<and> Host ''terminate'' [JInt (int p)] \<in> fst ` set es
      \<or> qemu_processes s' = qemu_processes s \<and> (\<exists>e \<in> set es. had_exited p e)))"
proof -
  obtain v s1 where v: "host ''poll'' [JInt (int p)] s = (Inr v, s1)"
    using assms by (cases "host ''poll'' [JInt (int p)] s") (auto simp: stop_process_def bnd_def split: sum.splits)
  note s1 = host_fields [OF v]
  show ?thesis
  proof (cases "v = JNull")
    case False
    with assms v have "s' = s1" by (simp add: stop_process_def bnd_def ret_def)
    with s1 False show ?thesis by (auto simp: pools_same_def had_exited_def)
  next
    case True
    obtain a s2 where t: "try_host ''terminate'' p is_os s1 = (Inr a, s2)"
      using assms v True by (cases "try_host ''terminate'' p is_os s1") (auto simp: stop_process_def bnd_def split: sum.splits)
    obtain b s3 where w: "try_host ''wait 5'' p is_timeout_expired s2 = (Inr b, s3)"
      using assms v True t by (cases "try_host ''wait 5'' p is_timeout_expired s2") (auto simp: stop_process_def bnd_def split: sum.splits)
    have k: "(\<exists>es. history s' = history s3 @ es) \<and> qemu_processes s' = AList.delete n (qemu_processes s3) \<and> pools_same s3 s'"
      using assms v True t w
      by (auto simp: stop_process_def bnd_def modify_def whenM_def ret_def catch_def raise_def host_def perform_def Let_def
          pools_same_def split: if_splits sum.splits)
    from k try_host_fields [OF t] try_host_fields [OF w] s1 show ?thesis
      by (auto simp: pools_same_def)
  qed
qed

lemma stop_all_effect:
  "for_each stop_process ps s = (Inr us, s') \<Longrightarrow> distinct (map fst ps) \<Longrightarrow>
   pools_same s s' \<and> (\<exists>es. history s' = history s @ es \<and>
     (\<forall>n p. (n, p) \<in> set ps \<longrightarrow> map_of (qemu_processes s') n = None \<and> Host ''terminate'' [JInt (int p)] \<in> fst ` set es
        \<or> map_of (qemu_processes s') n = map_of (qemu_processes s) n \<and> (\<exists>e \<in> set es. had_exited p e)) \<and>
     (\<forall>n. n \<notin> set (map fst ps) \<longrightarrow> map_of (qemu_processes s') n = map_of (qemu_processes s) n))"
proof (induction ps arbitrary: s us)
  case Nil
  then show ?case by (auto simp: ret_def pools_same_def)
next
  case (Cons np ps)
  obtain n p where np: "np = (n, p)" by force
  obtain s1 where 1: "stop_process (n, p) s = (Inr (), s1)"
    using Cons.prems(1) np by (cases "stop_process (n, p) s") (auto simp: bnd_def split: sum.splits)
  obtain us' where 2: "for_each stop_process ps s1 = (Inr us', s')"
    using Cons.prems(1) np 1 by (cases "for_each stop_process ps s1") (auto simp: bnd_def ret_def split: sum.splits)
  obtain es1 where e1: "pools_same s s1" "history s1 = history s @ es1"
    "qemu_processes s1 = AList.delete n (qemu_processes s) \<and> Host ''terminate'' [JInt (int p)] \<in> fst ` set es1
      \<or> qemu_processes s1 = qemu_processes s \<and> (\<exists>e \<in> set es1. had_exited p e)"
    using stop_process_effect [OF 1] by blast
  from Cons.IH [OF 2] Cons.prems(2) obtain es2 where e2: "pools_same s1 s'" "history s' = history s1 @ es2"
    "\<forall>n p. (n, p) \<in> set ps \<longrightarrow> map_of (qemu_processes s') n = None \<and> Host ''terminate'' [JInt (int p)] \<in> fst ` set es2
        \<or> map_of (qemu_processes s') n = map_of (qemu_processes s1) n \<and> (\<exists>e \<in> set es2. had_exited p e)"
    "\<forall>n. n \<notin> set (map fst ps) \<longrightarrow> map_of (qemu_processes s') n = map_of (qemu_processes s1) n" by auto
  have n: "n \<notin> set (map fst ps)" using Cons.prems(2) np by simp
  have other: "map_of (qemu_processes s1) m = map_of (qemu_processes s) m" if "m \<noteq> n" for m
    using e1(3) that by (auto simp: delete_lookup)
  show ?case
  proof (intro conjI exI [of _ "es1 @ es2"] allI impI)
    show "pools_same s s'" using e1(1) e2(1) by (simp add: pools_same_def)
    show "history s' = history s @ (es1 @ es2)" using e1(2) e2(2) by simp
    fix m q assume "(m, q) \<in> set (np # ps)"
    then consider "m = n" "q = p" | "(m, q) \<in> set ps" "m \<noteq> n" using n np by force
    then show "map_of (qemu_processes s') m = None \<and> Host ''terminate'' [JInt (int q)] \<in> fst ` set (es1 @ es2)
        \<or> map_of (qemu_processes s') m = map_of (qemu_processes s) m \<and> (\<exists>e \<in> set (es1 @ es2). had_exited q e)"
    proof cases
      case 1
      then have "map_of (qemu_processes s') n = map_of (qemu_processes s1) n" using e2(4) n by blast
      with e1(3) 1 show ?thesis by (auto simp: delete_lookup)
    next
      case 2
      with e2(3) other [OF 2(2)] show ?thesis by fastforce
    qed
  next
    fix m assume "m \<notin> set (map fst (np # ps))"
    with e2(4) other np show "map_of (qemu_processes s') m = map_of (qemu_processes s) m" by auto
  qed
qed

lemma close_transports_fields:
  "for_each (\<lambda>p. close_transport k (snd p)) xs s = (Inr us, s') \<Longrightarrow> \<exists>h. s' = s\<lparr>history := history s @ h\<rparr>"
proof (induction xs arbitrary: s us)
  case (Cons x xs)
  obtain s1 where 1: "close_transport k (snd x) s = (Inr (), s1)"
    using Cons.prems by (cases "close_transport k (snd x) s") (auto simp: bnd_def split: sum.splits)
  obtain us' where 2: "for_each (\<lambda>p. close_transport k (snd p)) xs s1 = (Inr us', s')"
    using Cons.prems 1 by (cases "for_each (\<lambda>p. close_transport k (snd p)) xs s1") (auto simp: bnd_def ret_def split: sum.splits)
  have "\<exists>h. s1 = s\<lparr>history := history s @ h\<rparr>"
    using 1 by (auto simp: close_transport_def bnd_def ret_def host_def perform_def Let_def split: sum.splits)
  with Cons.IH [OF 2] show ?case by auto
qed (auto simp: ret_def intro!: exI [of _ "[]"])

theorem close_all_leaves_nothing:
  assumes "close_all s = (Inr (), s')" "distinct (map fst (qemu_processes s))"
  shows "mcpd_pool s' = [] \<and> qmp_pool s' = [] \<and> gdb_pool s' = [] \<and>
     (\<forall>n p. map_of (qemu_processes s) n = Some p \<longrightarrow>
        map_of (qemu_processes s') n = None \<and> Host ''terminate'' [JInt (int p)] \<in> fst ` set (new_events s s')
        \<or> (\<exists>e \<in> set (new_events s s'). had_exited p e))"
proof -
  obtain us1 t1 where 1: "for_each (\<lambda>p. close_transport ''mcpd'' (snd p)) (mcpd_pool s) s = (Inr us1, t1)"
    using assms(1) by (cases "for_each (\<lambda>p. close_transport ''mcpd'' (snd p)) (mcpd_pool s) s")
      (auto simp: close_all_def bnd_def gets_def split: sum.splits)
  obtain h1 where h1: "t1 = s\<lparr>history := history s @ h1\<rparr>" using close_transports_fields [OF 1] by blast
  let ?s1 = "t1\<lparr>mcpd_pool := []\<rparr>"
  obtain us2 t2 where 2: "for_each (\<lambda>p. close_transport ''qmp'' (snd p)) (qmp_pool ?s1) ?s1 = (Inr us2, t2)"
    using assms(1) 1 by (cases "for_each (\<lambda>p. close_transport ''qmp'' (snd p)) (qmp_pool ?s1) ?s1")
      (auto simp: close_all_def bnd_def gets_def modify_def split: sum.splits)
  obtain h2 where h2: "t2 = ?s1\<lparr>history := history ?s1 @ h2\<rparr>" using close_transports_fields [OF 2] by blast
  let ?s2 = "t2\<lparr>qmp_pool := []\<rparr>"
  obtain us3 t3 where 3: "for_each (\<lambda>p. close_transport ''gdb'' (snd p)) (gdb_pool ?s2) ?s2 = (Inr us3, t3)"
    using assms(1) 1 2 by (cases "for_each (\<lambda>p. close_transport ''gdb'' (snd p)) (gdb_pool ?s2) ?s2")
      (auto simp: close_all_def bnd_def gets_def modify_def split: sum.splits)
  obtain h3 where h3: "t3 = ?s2\<lparr>history := history ?s2 @ h3\<rparr>" using close_transports_fields [OF 3] by blast
  let ?s3 = "t3\<lparr>gdb_pool := []\<rparr>"
  obtain us4 where 4: "for_each stop_process (qemu_processes ?s3) ?s3 = (Inr us4, s')"
    using assms(1) 1 2 3 by (cases "for_each stop_process (qemu_processes ?s3) ?s3")
      (auto simp: close_all_def bnd_def gets_def modify_def ret_def split: sum.splits)
  have pr: "qemu_processes ?s3 = qemu_processes s" and hist: "history ?s3 = history s @ h1 @ h2 @ h3"
    using h1 h2 h3 by simp_all
  have "distinct (map fst (qemu_processes ?s3))" using assms(2) pr by simp
  from stop_all_effect [OF 4 this] obtain es where es: "pools_same ?s3 s'" "history s' = history ?s3 @ es"
    "\<forall>n p. (n, p) \<in> set (qemu_processes s) \<longrightarrow>
       map_of (qemu_processes s') n = None \<and> Host ''terminate'' [JInt (int p)] \<in> fst ` set es
       \<or> (\<exists>e \<in> set es. had_exited p e)" unfolding pr by blast
  have "new_events s s' = h1 @ h2 @ h3 @ es" using es(2) hist by (simp add: new_events_def)
  moreover have "mcpd_pool s' = []" "qmp_pool s' = []" "gdb_pool s' = []"
    using es(1) h1 h2 h3 by (simp_all add: pools_same_def)
  ultimately show ?thesis using es(3) by (fastforce dest: map_of_SomeD)
qed

section \<open>Concrete runs\<close>

definition demo_config :: config where
  "demo_config = empty_config\<lparr>targets := [(''qemu'', (target_of Qemu)\<lparr>channels := no_channels\<lparr>chan_mcpd := Some default_mcpd\<rparr>\<rparr>)]\<rparr>"

definition demo_fleet :: "outcome list \<Rightarrow> fleet" where
  "demo_fleet os = (fleet_init demo_config (scripted os))\<lparr>qemu_processes := [(''qemu'', 42)]\<rparr>"

lemmas fleet_run = demo_fleet_def demo_config_def fleet_init_def empty_config_def target_of_def no_channels_def default_mcpd_def

theorem one_transport_per_target_witness:
  "fst (fleet_mcpd ''qemu'' (snd (fleet_mcpd ''qemu'' (demo_fleet [])))) = Inr \<lparr>tid = 0, chan = default_mcpd\<rparr>"
proof -
  obtain s' where "fleet_mcpd ''qemu'' (demo_fleet []) = (Inr \<lparr>tid = 0, chan = default_mcpd\<rparr>, s')"
    by (simp add: fleet_run fleet_mcpd_def pool_defs target_config_def)
  with one_transport_per_target [OF this, of "[]"] show ?thesis by simp
qed

theorem close_all_leaves_nothing_witness:
  "\<exists>s'. close_all (demo_fleet [Inr JNull, Inr JNull, Inr (JInt 0)]) = (Inr (), s') \<and> mcpd_pool s' = []"
proof -
  let ?s = "demo_fleet [Inr JNull, Inr JNull, Inr (JInt 0)]"
  obtain s' where "close_all ?s = (Inr (), s')"
    by (simp add: close_all_def fleet_run pool_defs stop_process_def try_host_def catch_def whenM_def host_def perform_def scripted_def)
  moreover have "distinct (map fst (qemu_processes ?s))" by (simp add: fleet_run)
  ultimately show ?thesis using close_all_leaves_nothing by blast
qed

end
