(* ===== verification/Tools.thy ===== *)
theory Tools
  imports Fleet
begin

text \<open>
  What the tool functions share: a request to the daemon of a target through the fleet's pool, the
  reading of the reply as Python reads a dictionary, the field checks of a Pydantic model in its
  default (lax) mode, and a loop that repeats an action a bounded number of times.  The time limit
  of a request is the transport's concern (\<open>Mcpd\<close>) and is not part of the event.
\<close>

section \<open>Requests\<close>

definition mcpd_request :: "string \<Rightarrow> string \<Rightarrow> (string \<times> json) list \<Rightarrow> ('w fleet_scheme, json) io" where
  "mcpd_request target method params =
     bnd (fleet_mcpd target) (\<lambda>_. rpc target method (JObj params))"

text \<open>\<^verbatim>\<open>s.encode("ascii")\<close> of a text kept as its UTF-8 bytes.\<close>

definition ascii_encode :: "string \<Rightarrow> exn + string" where
  "ascii_encode s = (if is_ascii s then Inr s else Inl (PyErr (OtherError ''UnicodeEncodeError'') []))"

text \<open>\<^verbatim>\<open>socket.create_connection\<close> as a test: an \<^verbatim>\<open>OSError\<close> means no.\<close>

definition connect_event :: "string \<Rightarrow> int \<Rightarrow> event" where
  "connect_event h p = Host ''connect'' [JStr h, JInt p]"

definition can_connect :: "string \<Rightarrow> int \<Rightarrow> ('w fleet_scheme, bool) io" where
  "can_connect h p =
     catch (bnd (perform (connect_event h p)) (\<lambda>_. ret True)) (\<lambda>e. if is_os e then ret False else raise e)"

text \<open>\<^verbatim>\<open>try: m / finally: f\<close>; an exception of \<open>f\<close> takes the place of what \<open>m\<close> did.\<close>

definition ensuring :: "('s, 'a) io \<Rightarrow> ('s, 'b) io \<Rightarrow> ('s, 'a) io" where
  "ensuring m f s = (case m s of (r, s1) \<Rightarrow>
     (case f s1 of (Inl e, s2) \<Rightarrow> (Inl e, s2) | (Inr _, s2) \<Rightarrow> (r, s2)))"

definition as_str :: "json \<Rightarrow> string" where
  "as_str j = (case j of JStr s \<Rightarrow> s | _ \<Rightarrow> [])"

definition em_dash :: string where
  "em_dash = [CHR 0xE2, CHR 0x80, CHR 0x94]"

section \<open>Reading replies\<close>

text \<open>\<^verbatim>\<open>raw[k]\<close>, \<^verbatim>\<open>raw.get(k, d)\<close>, iteration over a decoded value.\<close>

definition item :: "string \<Rightarrow> json \<Rightarrow> exn + json" where
  "item k j = (case j of JObj kvs \<Rightarrow> (case map_of kvs k of Some v \<Rightarrow> Inr v | None \<Rightarrow> Inl (PyErr KeyError (py_repr k)))
     | _ \<Rightarrow> Inl (PyErr TypeError []))"

definition get_or :: "string \<Rightarrow> json \<Rightarrow> json \<Rightarrow> exn + json" where
  "get_or k d j = (case j of JObj kvs \<Rightarrow> Inr (case map_of kvs k of Some v \<Rightarrow> v | None \<Rightarrow> d)
     | _ \<Rightarrow> Inl (PyErr AttributeError []))"

definition elements :: "json \<Rightarrow> exn + json list" where
  "elements j = (case j of JArr xs \<Rightarrow> Inr xs | JObj kvs \<Rightarrow> Inr (map (\<lambda>kv. JStr (fst kv)) kvs)
     | JStr s \<Rightarrow> Inr (map (\<lambda>c. JStr [c]) s) | _ \<Rightarrow> Inl (PyErr TypeError []))"

section \<open>Pydantic fields\<close>

definition invalid :: exn where
  "invalid = PyErr (OtherError ''ValidationError'') []"

fun v_str :: "json \<Rightarrow> exn + string" where
  "v_str (JStr s) = Inr s"
| "v_str _ = Inl invalid"

definition is_integral :: "string \<Rightarrow> bool" where
  "is_integral s = (case float_parts s of None \<Rightarrow> False
     | Some (_, m, e) \<Rightarrow> 0 \<le> e \<or> m mod 10 ^ nat (- e) = 0)"

fun v_int :: "json \<Rightarrow> exn + int" where
  "v_int (JInt i) = Inr i"
| "v_int (JBool b) = Inr (if b then 1 else 0)"
| "v_int (JStr s) = (case parse_int s of Inr i \<Rightarrow> Inr i | Inl _ \<Rightarrow> Inl invalid)"
| "v_int (JFloat s) = (if is_integral s then py_int (JFloat s) else Inl invalid)"
| "v_int _ = Inl invalid"

text \<open>Booleans also from 0, 1 and the usual words.\<close>

fun v_bool :: "json \<Rightarrow> exn + bool" where
  "v_bool (JBool b) = Inr b"
| "v_bool (JInt i) = (if i = 0 then Inr False else if i = 1 then Inr True else Inl invalid)"
| "v_bool (JStr s) = (let w = py_lower s in
     if w \<in> {''0'', ''off'', ''f'', ''false'', ''n'', ''no''} then Inr False
     else if w \<in> {''1'', ''on'', ''t'', ''true'', ''y'', ''yes''} then Inr True else Inl invalid)"
| "v_bool (JFloat s) = (if eq_int (JFloat s) 0 then Inr False else if eq_int (JFloat s) 1 then Inr True else Inl invalid)"
| "v_bool _ = Inl invalid"

definition v_enum :: "string list \<Rightarrow> json \<Rightarrow> exn + string" where
  "v_enum vals j = (case j of JStr s \<Rightarrow> if s \<in> set vals then Inr s else Inl invalid | _ \<Rightarrow> Inl invalid)"

definition v_opt :: "(json \<Rightarrow> exn + 'a) \<Rightarrow> json \<Rightarrow> exn + 'a option" where
  "v_opt v j = (if j = JNull then Inr None else case v j of Inl e \<Rightarrow> Inl e | Inr x \<Rightarrow> Inr (Some x))"

fun v_each :: "(json \<Rightarrow> exn + 'a) \<Rightarrow> json list \<Rightarrow> exn + 'a list" where
  "v_each v [] = Inr []"
| "v_each v (j # js) = (case v j of Inl e \<Rightarrow> Inl e
     | Inr x \<Rightarrow> (case v_each v js of Inl e \<Rightarrow> Inl e | Inr xs \<Rightarrow> Inr (x # xs)))"

definition v_list :: "(json \<Rightarrow> exn + 'a) \<Rightarrow> json \<Rightarrow> exn + 'a list" where
  "v_list v j = (case j of JArr xs \<Rightarrow> v_each v xs | _ \<Rightarrow> Inl invalid)"

text \<open>A required field, and a field with a default, of a model validated from a dictionary.\<close>

definition field :: "string \<Rightarrow> (json \<Rightarrow> exn + 'a) \<Rightarrow> json \<Rightarrow> exn + 'a" where
  "field k v j = (case j of JObj kvs \<Rightarrow> (case map_of kvs k of Some x \<Rightarrow> v x | None \<Rightarrow> Inl invalid)
     | _ \<Rightarrow> Inl invalid)"

definition field_or :: "string \<Rightarrow> 'a \<Rightarrow> (json \<Rightarrow> exn + 'a) \<Rightarrow> json \<Rightarrow> exn + 'a" where
  "field_or k d v j = (case j of JObj kvs \<Rightarrow> (case map_of kvs k of Some x \<Rightarrow> v x | None \<Rightarrow> Inr d)
     | _ \<Rightarrow> Inl invalid)"

text \<open>Sequencing of checks.\<close>

definition ebnd :: "exn + 'a \<Rightarrow> ('a \<Rightarrow> exn + 'b) \<Rightarrow> exn + 'b" where
  "ebnd r f = (case r of Inl e \<Rightarrow> Inl e | Inr x \<Rightarrow> f x)"

lemma ebnd_simps [simp]: "ebnd (Inr x) f = f x" "ebnd (Inl e) f = Inl e"
  by (simp_all add: ebnd_def)

lemma ebnd_Inr: "ebnd r f = Inr y \<longleftrightarrow> (\<exists>x. r = Inr x \<and> f x = Inr y)"
  by (cases r) auto

lemma field_simps [simp]:
  "map_of kvs k = Some x \<Longrightarrow> field k v (JObj kvs) = v x"
  "map_of kvs k = None \<Longrightarrow> field k v (JObj kvs) = Inl invalid"
  "map_of kvs k = Some x \<Longrightarrow> field_or k d v (JObj kvs) = v x"
  "map_of kvs k = None \<Longrightarrow> field_or k d v (JObj kvs) = Inr d"
  by (simp_all add: field_def field_or_def)

lemma emits_lift [emits]: "emits P (lift r)"
  by (cases r) (simp_all add: lift_def emits_ret emits_raise)

lemma preserves_lift [kept]: "preserves I (lift r)"
  by (cases r) (simp_all add: lift_def preserves_ret preserves_raise)

lemma lift_run: "lift r s = (r, s)"
  by (cases r) (simp_all add: lift_def ret_def raise_def)


lemma emits_fleet_mcpd [emits]: "emits P (fleet_mcpd n)"
  unfolding fleet_mcpd_def new_tid_def Let_def
  by (auto intro!: emits simp: emits_def [of _ "\<lambda>s. (Inr (next_tid s), _ s)"])

section \<open>What a request does\<close>

lemma fleet_mcpd_history:
  "fleet_mcpd n s = (r, s') \<Longrightarrow> history s' = history s \<and> answer s' = answer s \<and> host_files s' = host_files s"
  by (auto simp: fleet_mcpd_def pool_defs split: option.splits sum.splits if_splits)

lemma mcpd_request_events:
  assumes "mcpd_request t m p s = (r, s')"
  shows "(\<exists>e. r = Inl e \<and> history s' = history s) \<or> history s' = history s @ [(Rpc t m (JObj p), r)]"
    and "answer s' = answer s \<and> host_files s' = host_files s"
proof -
  obtain x s1 where f: "fleet_mcpd t s = (x, s1)" by force
  note h = fleet_mcpd_history [OF f]
  show "(\<exists>e. r = Inl e \<and> history s' = history s) \<or> history s' = history s @ [(Rpc t m (JObj p), r)]"
    using assms f h by (cases x) (auto simp: mcpd_request_def bnd_def rpc_def perform_def Let_def)
  show "answer s' = answer s \<and> host_files s' = host_files s"
    using assms f h by (cases x) (auto simp: mcpd_request_def bnd_def rpc_def perform_def Let_def)
qed

lemma emits_mcpd_request [emits]: "(\<And>v. P (Rpc t m (JObj p), v)) \<Longrightarrow> emits P (mcpd_request t m p)"
  unfolding mcpd_request_def by (auto intro!: emits)

lemma emits_ensuring [emits]:
  assumes "emits P m" "emits P f"
  shows "emits P (ensuring m f)"
proof (rule emitsI)
  fix w r w' assume run: "ensuring m f w = (r, w')"
  obtain r1 w1 where 1: "m w = (r1, w1)" by force
  obtain r2 w2 where 2: "f w1 = (r2, w2)" by force
  have "w' = w2" using run 1 2 by (auto simp: ensuring_def split: sum.splits)
  then show "answer w' = answer w \<and> (\<exists>es. history w' = history w @ es \<and> (\<forall>e \<in> set es. P e))"
    using emits_then [OF assms(1) 1 assms(2) 2] by simp
qed

lemma ensuring_eq: "ensuring m f s = (r, t) \<longleftrightarrow>
    (\<exists>r1 s1. m s = (r1, s1) \<and> ((\<exists>e. f s1 = (Inl e, t) \<and> r = Inl e) \<or> (\<exists>x. f s1 = (Inr x, t) \<and> r = r1)))"
  by (auto simp: ensuring_def split: prod.splits sum.splits)

lemma can_connect_run:
  assumes "can_connect h p s = (r, s')"
  obtains v where "s' = s\<lparr>history := history s @ [(connect_event h p, v)]\<rparr>"
    "(\<not> isl v \<and> r = Inr True) \<or> (\<exists>e. v = Inl e \<and> is_os e \<and> r = Inr False) \<or> (\<exists>e. v = Inl e \<and> \<not> is_os e \<and> r = Inl e)"
proof
  let ?v = "answer s (history s) (connect_event h p)"
  show "s' = s\<lparr>history := history s @ [(connect_event h p, ?v)]\<rparr>"
    "(\<not> isl ?v \<and> r = Inr True) \<or> (\<exists>e. ?v = Inl e \<and> is_os e \<and> r = Inr False) \<or> (\<exists>e. ?v = Inl e \<and> \<not> is_os e \<and> r = Inl e)"
    using assms
    by (auto simp: can_connect_def catch_def bnd_def perform_def Let_def ret_def raise_def split: sum.splits if_splits)
qed

lemma emits_can_connect [emits]: "(\<And>v. P (connect_event h p, v)) \<Longrightarrow> emits P (can_connect h p)"
  unfolding can_connect_def by (auto intro!: emits)

lemma preserves_can_connect [kept]:
  "(\<And>s h. I s \<Longrightarrow> I (s\<lparr>history := h\<rparr>)) \<Longrightarrow> preserves I (can_connect h p)"
  unfolding can_connect_def by (auto intro!: kept)

section \<open>Bounded repetition\<close>

text \<open>
  \<^verbatim>\<open>for attempt in range(retries + 1): try .. except Exception\<close>, with a pause of half a second times
  the attempt number before every further one.  \<open>None\<close>: the range was empty.
\<close>

fun with_retries :: "('z world_scheme, 'a) io \<Rightarrow> int \<Rightarrow> int \<Rightarrow> nat \<Rightarrow> (exn + 'a) option \<Rightarrow> ('z world_scheme, (exn + 'a) option) io" where
  "with_retries act retries attempt 0 seen = ret seen"
| "with_retries act retries attempt (Suc left) seen =
     bnd (catch (bnd act (\<lambda>v. ret (Inr v))) (\<lambda>e. ret (Inl e))) (\<lambda>r. case r of
         Inr v \<Rightarrow> ret (Some (Inr v))
       | Inl (e :: exn) \<Rightarrow>
           bnd (whenM (attempt < retries) (sleep (500 * (attempt + 1)))) (\<lambda>_.
           with_retries act retries (attempt + 1) left (Some (Inl e))))"

definition retrying :: "('z world_scheme, 'a) io \<Rightarrow> int \<Rightarrow> ('z world_scheme, (exn + 'a) option) io" where
  "retrying act retries = with_retries act retries 0 (nat (retries + 1)) None"

end
