(* ===== verification/Fs.thy ===== *)
theory Fs
  imports Tools Base64
begin

text \<open>
  The file tools (\<^verbatim>\<open>tools/fs.py\<close>): one request to the daemon each, with the parameters the code
  sends, and the reply validated against the result model.  The whole-file transfers are in
  \<open>Upload\<close>.
\<close>

section \<open>Result models\<close>

record dir_entry =
  de_name :: string
  de_type :: string
  de_size :: int

record stat_result = dir_entry +
  modified :: "string option"

record read_result =
  rd_path :: string
  rd_size :: int
  content_b64 :: string
  total_size :: "int option"
  rd_offset :: "int option"

record chunk_result =
  cr_path :: string
  cr_offset :: int
  written :: int
  total_so_far :: int

record hash_result =
  h_path :: string
  algo :: string
  digest :: string
  h_size :: int

definition v_entry :: "json \<Rightarrow> exn + dir_entry" where
  "v_entry j = ebnd (field ''name'' v_str j) (\<lambda>n. ebnd (field ''type'' (v_enum [''file'', ''dir'']) j) (\<lambda>t.
     ebnd (field_or ''size'' 0 v_int j) (\<lambda>s. Inr \<lparr>de_name = n, de_type = t, de_size = s\<rparr>)))"

definition v_stat :: "json \<Rightarrow> exn + stat_result" where
  "v_stat j = ebnd (v_entry j) (\<lambda>e. ebnd (field_or ''modified'' None (v_opt v_str) j) (\<lambda>m.
     Inr \<lparr>de_name = de_name e, de_type = de_type e, de_size = de_size e, modified = m\<rparr>))"

definition v_read :: "json \<Rightarrow> exn + read_result" where
  "v_read j = ebnd (field ''path'' v_str j) (\<lambda>p. ebnd (field ''size'' v_int j) (\<lambda>s.
     ebnd (field ''content_b64'' v_str j) (\<lambda>c. ebnd (field_or ''total_size'' None (v_opt v_int) j) (\<lambda>t.
     ebnd (field_or ''offset'' None (v_opt v_int) j) (\<lambda>off.
     Inr \<lparr>rd_path = p, rd_size = s, content_b64 = c, total_size = t, rd_offset = off\<rparr>)))))"

definition v_write :: "json \<Rightarrow> exn + (string \<times> int)" where
  "v_write j = ebnd (field ''path'' v_str j) (\<lambda>p. ebnd (field ''size'' v_int j) (\<lambda>s. Inr (p, s)))"

definition v_chunk :: "json \<Rightarrow> exn + chunk_result" where
  "v_chunk j = ebnd (field ''path'' v_str j) (\<lambda>p. ebnd (field ''offset'' v_int j) (\<lambda>off.
     ebnd (field ''written'' v_int j) (\<lambda>w. ebnd (field ''total_so_far'' v_int j) (\<lambda>t.
     Inr \<lparr>cr_path = p, cr_offset = off, written = w, total_so_far = t\<rparr>))))"

definition v_hash :: "json \<Rightarrow> exn + hash_result" where
  "v_hash j = ebnd (field ''path'' v_str j) (\<lambda>p. ebnd (field ''algo'' v_str j) (\<lambda>a.
     ebnd (field ''hash'' v_str j) (\<lambda>h. ebnd (field ''size'' v_int j) (\<lambda>s.
     Inr \<lparr>h_path = p, algo = a, digest = h, h_size = s\<rparr>))))"

definition v_sync :: "json \<Rightarrow> exn + (string \<times> bool)" where
  "v_sync j = ebnd (field ''path'' v_str j) (\<lambda>p. ebnd (field ''flushed'' v_bool j) (\<lambda>f. Inr (p, f)))"

section \<open>Operations\<close>

definition opt_param :: "string \<Rightarrow> json option \<Rightarrow> (string \<times> json) list" where
  "opt_param k v = (case v of None \<Rightarrow> [] | Some x \<Rightarrow> [(k, x)])"

definition fs_list :: "string \<Rightarrow> string \<Rightarrow> bool \<Rightarrow> int \<Rightarrow> ('w fleet_scheme, dir_entry list) io" where
  "fs_list target path recursive max_depth =
     bnd (mcpd_request target ''fs.list'' ([(''path'', JStr path)] @
            (if recursive then [(''recursive'', JBool True), (''max_depth'', JInt max_depth)] else []))) (\<lambda>raw.
     lift (ebnd (elements raw) (v_each v_entry)))"

definition fs_stat :: "string \<Rightarrow> string \<Rightarrow> ('w fleet_scheme, stat_result) io" where
  "fs_stat target path = bnd (mcpd_request target ''fs.stat'' [(''path'', JStr path)]) (\<lambda>raw. lift (v_stat raw))"

definition fs_read :: "string \<Rightarrow> string \<Rightarrow> int option \<Rightarrow> int option \<Rightarrow> ('w fleet_scheme, read_result) io" where
  "fs_read target path offset len =
     bnd (mcpd_request target ''fs.read'' ([(''path'', JStr path)] @
        opt_param ''offset'' (map_option JInt offset) @ opt_param ''length'' (map_option JInt len))) (\<lambda>raw.
     lift (v_read raw))"

definition fs_write :: "string \<Rightarrow> string \<Rightarrow> string \<Rightarrow> string \<Rightarrow> int option \<Rightarrow> ('w fleet_scheme, string \<times> int) io" where
  "fs_write target path content compression raw_size =
     bnd (mcpd_request target ''fs.write'' ([(''path'', JStr path), (''content_b64'', JStr content)] @
        (if compression \<noteq> ''none'' then [(''compression'', JStr compression)] else []) @
        opt_param ''raw_size'' (map_option JInt raw_size))) (\<lambda>raw. lift (v_write raw))"

definition chunk_params ::
    "string \<Rightarrow> int \<Rightarrow> string \<Rightarrow> string \<Rightarrow> int option \<Rightarrow> bool option \<Rightarrow> int option \<Rightarrow> (string \<times> json) list" where
  "chunk_params path offset content compression raw_size trunc tot =
     [(''path'', JStr path), (''offset'', JInt offset), (''content_b64'', JStr content)] @
     (if compression \<noteq> ''none'' then [(''compression'', JStr compression)] else []) @
     opt_param ''raw_size'' (map_option JInt raw_size) @
     opt_param ''truncate'' (map_option JBool trunc) @
     opt_param ''total_size'' (map_option JInt tot)"

definition fs_write_chunk ::
    "string \<Rightarrow> string \<Rightarrow> int \<Rightarrow> string \<Rightarrow> string \<Rightarrow> int option \<Rightarrow> bool option \<Rightarrow> int option \<Rightarrow> ('w fleet_scheme, chunk_result) io" where
  "fs_write_chunk target path offset content compression raw_size trunc tot =
     bnd (mcpd_request target ''fs.write_chunk''
            (chunk_params path offset content compression raw_size trunc tot)) (\<lambda>raw. lift (v_chunk raw))"

text \<open>The results with defaults taken from the arguments when the daemon leaves a field out.\<close>

definition fs_delete :: "string \<Rightarrow> string \<Rightarrow> bool \<Rightarrow> ('w fleet_scheme, string) io" where
  "fs_delete target path recursive =
     bnd (mcpd_request target ''fs.delete'' ([(''path'', JStr path)] @
        (if recursive then [(''recursive'', JBool True)] else []))) (\<lambda>raw.
     lift (ebnd (get_or ''path'' (JStr path) raw) v_str))"

definition fs_makedir :: "string \<Rightarrow> string \<Rightarrow> ('w fleet_scheme, string) io" where
  "fs_makedir target path =
     bnd (mcpd_request target ''fs.makedir'' [(''path'', JStr path)]) (\<lambda>raw.
     lift (ebnd (get_or ''path'' (JStr path) raw) v_str))"

definition fs_rename :: "string \<Rightarrow> string \<Rightarrow> string \<Rightarrow> ('w fleet_scheme, string \<times> string) io" where
  "fs_rename target src dst =
     bnd (mcpd_request target ''fs.rename'' [(''src'', JStr src), (''dst'', JStr dst)]) (\<lambda>raw.
     lift (ebnd (get_or ''src'' (JStr src) raw) (\<lambda>a. ebnd (get_or ''dst'' (JStr dst) raw) (\<lambda>b.
       ebnd (v_str a) (\<lambda>a'. ebnd (v_str b) (\<lambda>b'. Inr (a', b')))))))"

definition fs_protect :: "string \<Rightarrow> string \<Rightarrow> int \<Rightarrow> ('w fleet_scheme, string \<times> int) io" where
  "fs_protect target path bits =
     bnd (mcpd_request target ''fs.protect'' [(''path'', JStr path), (''bits'', JInt bits)]) (\<lambda>raw.
     lift (ebnd (get_or ''path'' (JStr path) raw) (\<lambda>a. ebnd (get_or ''bits'' (JInt bits) raw) (\<lambda>b.
       ebnd (v_str a) (\<lambda>a'. ebnd (v_int b) (\<lambda>b'. Inr (a', b')))))))"

definition fs_hash :: "string \<Rightarrow> string \<Rightarrow> string \<Rightarrow> ('w fleet_scheme, hash_result) io" where
  "fs_hash target path alg =
     bnd (mcpd_request target ''fs.hash'' [(''path'', JStr path), (''algo'', JStr alg)]) (\<lambda>raw. lift (v_hash raw))"

definition fs_sync :: "string \<Rightarrow> string \<Rightarrow> ('w fleet_scheme, string \<times> bool) io" where
  "fs_sync target path =
     bnd (mcpd_request target ''fs.sync'' [(''path'', JStr path)]) (\<lambda>raw. lift (v_sync raw))"

definition fs_copy :: "string \<Rightarrow> string \<Rightarrow> string \<Rightarrow> ('w fleet_scheme, string \<times> string \<times> string) io" where
  "fs_copy target src dst =
     bnd (mcpd_request target ''fs.copy'' [(''src'', JStr src), (''dst'', JStr dst)]) (\<lambda>raw.
     lift (ebnd (get_or ''src'' (JStr src) raw) (\<lambda>a. ebnd (get_or ''dst'' (JStr dst) raw) (\<lambda>b.
       ebnd (get_or ''output'' (JStr []) raw) (\<lambda>c.
       ebnd (v_str a) (\<lambda>a'. ebnd (v_str b) (\<lambda>b'. ebnd (v_str c) (\<lambda>c'. Inr (a', b', c')))))))))"

end
