(* ===== verification/Upload.thy ===== *)
theory Upload
  imports Fs
begin

text \<open>
  Whole-file transfers (\<^verbatim>\<open>upload.py\<close> and the wrappers of \<^verbatim>\<open>tools/fs.py\<close>).  \<open>deflate\<close> is
  \<^verbatim>\<open>zlib.compress(_, 6)\<close> and \<open>sha256\<close> the hexadecimal digest of \<^verbatim>\<open>hashlib\<close>, both of the standard
  library.  Host files are the map \<open>host_files\<close> of the fleet; the local file does not change while
  it is read.  Times are in microseconds; the derived speed and ratio of the result models are
  floating-point summaries of the modelled fields and are left out.
\<close>

definition DEFAULT_CHUNK_RAW :: int where
  "DEFAULT_CHUNK_RAW = 24 * 1024 * 1024"

definition host_file :: "string \<Rightarrow> 'w fleet_scheme \<Rightarrow> string option" where
  "host_file p s = map_of (host_files s) p"

definition write_host_file :: "string \<Rightarrow> string \<Rightarrow> ('w fleet_scheme, unit) io" where
  "write_host_file p content = modify (\<lambda>s. s\<lparr>host_files := AList.update p content (host_files s)\<rparr>)"

section \<open>Upload\<close>

record upload_stats =
  u_path :: string
  bytes_total :: int
  bytes_sent_compressed :: int
  chunks :: int
  compressed_chunks :: int
  elapsed_us :: int

text \<open>\<^verbatim>\<open>fh.read(n)\<close>: a negative n reads the rest.\<close>

definition read_some :: "int \<Rightarrow> string \<Rightarrow> string" where
  "read_some n data = (if n < 0 then data else take (nat n) data)"

text \<open>
  Whether a chunk is compressed.  The threshold \<^verbatim>\<open>int(len(raw) * 0.95)\<close> is computed in double
  precision; for chunk lengths below 2^32 it equals the integer quotient.
\<close>

definition chunk_mode :: "(string \<Rightarrow> string) \<Rightarrow> string \<Rightarrow> string \<Rightarrow> string \<times> string" where
  "chunk_mode deflate compression raw =
     (if compression = ''zlib'' then (''zlib'', deflate raw)
      else if compression = ''auto'' \<and> length (deflate raw) \<le> length raw * 19 div 20
      then (''zlib'', deflate raw)
      else (''none'', raw))"

definition send_chunk ::
    "(string \<Rightarrow> string) \<Rightarrow> string \<Rightarrow> string \<Rightarrow> string \<Rightarrow> int \<Rightarrow> int option \<Rightarrow> string \<Rightarrow> ('w fleet_scheme, chunk_result) io" where
  "send_chunk deflate target remote compression offset tot raw =
     (let (mode, payload) = chunk_mode deflate compression raw
      in fs_write_chunk target remote offset (b64encode payload) mode
           (if mode = ''zlib'' then Some (int (length raw)) else None) None tot)"

definition chunk_failed :: "string \<Rightarrow> int \<Rightarrow> int \<Rightarrow> exn \<Rightarrow> exn" where
  "chunk_failed what offset retries e = PyErr RuntimeError
     (what @ '' failed at offset='' @ int_dec offset @ '' after '' @ int_dec (retries + 1) @ '' attempts: '' @ exn_str e)"

function upload_loop ::
    "(string \<Rightarrow> string) \<Rightarrow> string \<Rightarrow> string \<Rightarrow> string \<Rightarrow> int \<Rightarrow> int \<Rightarrow> int option \<Rightarrow>
     string \<Rightarrow> int \<Rightarrow> bool \<Rightarrow> upload_stats \<Rightarrow> ('w fleet_scheme, upload_stats) io" where
  "upload_loop deflate target remote compression chunk_size retries hint data offset first st =
     (let raw = read_some chunk_size data in
      if raw = [] then ret st
      else bnd (retrying (send_chunk deflate target remote compression offset (if first then hint else None) raw) retries)
        (\<lambda>res. case res of
           Some (Inl e) \<Rightarrow> raise (chunk_failed ''fs.write_chunk'' offset retries e)
         | _ \<Rightarrow>
           upload_loop deflate target remote compression chunk_size retries hint (drop (length raw) data)
             (offset + int (length raw)) False
             (st\<lparr>bytes_sent_compressed := bytes_sent_compressed st + int (length (snd (chunk_mode deflate compression raw))),
                chunks := chunks st + 1,
                compressed_chunks := compressed_chunks st
                  + (if fst (chunk_mode deflate compression raw) = ''zlib'' then 1 else 0)\<rparr>)))"
  by pat_completeness auto
termination
  by (relation "measure (\<lambda>(d, t, r, c, n, k, h, data, rest). length data)")
     (auto simp: read_some_def split: if_splits)

declare upload_loop.simps [simp del]

definition chunked_upload ::
    "(string \<Rightarrow> string) \<Rightarrow> string \<Rightarrow> string \<Rightarrow> string \<Rightarrow> int \<Rightarrow> string \<Rightarrow> int \<Rightarrow> int \<Rightarrow> bool \<Rightarrow> ('w fleet_scheme, upload_stats) io" where
  "chunked_upload deflate target local remote chunk_size compression retries resume_from hint =
     bnd (gets (host_file local)) (\<lambda>f. case f of
       None \<Rightarrow> raise (PyErr FileNotFoundError (''local file does not exist: '' @ local))
     | Some content \<Rightarrow>
        bnd now (\<lambda>t0.
        bnd (upload_loop deflate target remote compression chunk_size retries
               (if hint then Some (int (length content)) else None)
               (drop (nat resume_from) content) resume_from (resume_from = 0)
               \<lparr>u_path = remote, bytes_total = int (length content), bytes_sent_compressed = 0,
                chunks = 0, compressed_chunks = 0, elapsed_us = 0\<rparr>) (\<lambda>st.
        bnd now (\<lambda>t1. ret (st\<lparr>elapsed_us := t1 - t0\<rparr>)))))"

section \<open>Download\<close>

record download_stats =
  d_path :: string
  d_total :: int
  d_chunks :: int
  d_elapsed_us :: int

text \<open>\<^verbatim>\<open>base64.b64decode(raw["content_b64"])\<close>: a string is decoded, anything else is a type error.\<close>

definition payload_of :: "json \<Rightarrow> exn + string" where
  "payload_of raw = ebnd (item ''content_b64'' raw) (\<lambda>c. case c of
       JStr s \<Rightarrow> (case b64decode s of Some b \<Rightarrow> Inr b | None \<Rightarrow> Inl (PyErr ValueError ''Incorrect padding''))
     | _ \<Rightarrow> Inl (PyErr TypeError []))"

definition append_host_file :: "string \<Rightarrow> string \<Rightarrow> ('w fleet_scheme, unit) io" where
  "append_host_file p b = modify (\<lambda>s. s\<lparr>host_files := AList.update p
     ((case host_file p s of None \<Rightarrow> [] | Some old \<Rightarrow> old) @ b) (host_files s)\<rparr>)"

function download_loop ::
    "string \<Rightarrow> string \<Rightarrow> string \<Rightarrow> int \<Rightarrow> int \<Rightarrow> int \<Rightarrow> int \<Rightarrow> int \<Rightarrow> ('w fleet_scheme, int) io" where
  "download_loop target remote local chunk_size retries tot offset cnt =
     (if \<not> offset < tot then ret cnt
      else bnd (retrying (mcpd_request target ''fs.read'' [(''path'', JStr remote), (''offset'', JInt offset),
               (''length'', JInt (min chunk_size (tot - offset)))]) retries) (\<lambda>res. case res of
         None \<Rightarrow> raise (PyErr (OtherError ''UnboundLocalError'') [])
       | Some (Inl e) \<Rightarrow> raise (chunk_failed ''fs.read'' offset retries e)
       | Some (Inr raw) \<Rightarrow> bnd (lift (payload_of raw)) (\<lambda>payload.
           bnd (append_host_file local payload) (\<lambda>_.
           if payload = [] then ret (cnt + 1)
           else download_loop target remote local chunk_size retries tot (offset + int (length payload)) (cnt + 1)))))"
  by pat_completeness auto
termination
  by (relation "measure (\<lambda>(t, r, l, n, k, tot, offset, cnt). nat (tot - offset))") auto

declare download_loop.simps [simp del]

definition chunked_download :: "string \<Rightarrow> string \<Rightarrow> string \<Rightarrow> int \<Rightarrow> int \<Rightarrow> int \<Rightarrow> ('w fleet_scheme, download_stats) io" where
  "chunked_download target remote local chunk_size retries resume_from =
     bnd (host ''mkdir'' [JStr local]) (\<lambda>_.
     bnd (mcpd_request target ''fs.stat'' [(''path'', JStr remote)]) (\<lambda>stat_raw.
     bnd (lift (ebnd (item ''size'' stat_raw) py_int)) (\<lambda>tot.
     bnd now (\<lambda>t0.
     bnd (whenM (\<not> resume_from > 0) (write_host_file local [])) (\<lambda>_.
     bnd (whenM (resume_from > 0) (append_host_file local [])) (\<lambda>_.
     bnd (download_loop target remote local chunk_size retries tot resume_from 0) (\<lambda>cnt.
     bnd now (\<lambda>t1. ret \<lparr>d_path = local, d_total = tot, d_chunks = cnt, d_elapsed_us = t1 - t0\<rparr>))))))))"

section \<open>The wrappers with resume and verification\<close>

record upload_result = upload_stats +
  resumed_from :: int
  sha256_verified :: bool
  sha256_hex :: "string option"

definition verify_hash :: "(string \<Rightarrow> string) \<Rightarrow> string \<Rightarrow> string \<Rightarrow> string \<Rightarrow> string \<Rightarrow> ('w fleet_scheme, string) io" where
  "verify_hash sha256 what target remote content =
     bnd (fs_hash target remote ''sha256'') (\<lambda>h.
     if py_lower (digest h) \<noteq> py_lower (sha256 content)
     then raise (PyErr RuntimeError (what @ '' SHA-256 mismatch for '' @ py_repr remote @ '': local='' @ sha256 content
            @ '' remote='' @ digest h))
     else ret (sha256 content))"

text \<open>
  The probe for a resumed upload: \<open>Inl\<close> of the size when the file is there already in full, else
  \<open>Inr\<close> of the offset to start at; any failure starts over.
\<close>

definition resume_point :: "string \<Rightarrow> string \<Rightarrow> int \<Rightarrow> bool \<Rightarrow> ('w fleet_scheme, int + int) io" where
  "resume_point target remote tot resume =
     (if \<not> resume then ret (Inr 0)
      else catch (bnd (fs_stat target remote) (\<lambda>st.
             if de_size st \<ge> tot then ret (Inl (de_size st)) else ret (Inr (de_size st))))
           (\<lambda>_. ret (Inr 0)))"

definition fs_upload ::
    "(string \<Rightarrow> string) \<Rightarrow> (string \<Rightarrow> string) \<Rightarrow> string \<Rightarrow> string \<Rightarrow> string \<Rightarrow> int \<Rightarrow> string \<Rightarrow> bool \<Rightarrow> bool \<Rightarrow>
     ('w fleet_scheme, upload_result) io" where
  "fs_upload deflate sha256 target local remote chunk_size compression verify resume =
     bnd (gets (host_file local)) (\<lambda>f. case f of
       None \<Rightarrow> raise (PyErr FileNotFoundError (''local file does not exist: '' @ local))
     | Some content \<Rightarrow>
        bnd (resume_point target remote (int (length content)) resume) (\<lambda>point. case point of
          Inl present \<Rightarrow> ret \<lparr>u_path = remote, bytes_total = int (length content), bytes_sent_compressed = 0,
             chunks = 0, compressed_chunks = 0, elapsed_us = 0, resumed_from = present,
             sha256_verified = False, sha256_hex = None\<rparr>
        | Inr start \<Rightarrow>
           bnd now (\<lambda>_.
           bnd (chunked_upload deflate target local remote chunk_size compression 2 start True) (\<lambda>st.
           bnd (if verify then bnd (verify_hash sha256 ''upload'' target remote content) (\<lambda>h. ret (Some h)) else ret None) (\<lambda>sha.
           bnd now (\<lambda>_.
           ret \<lparr>u_path = remote, bytes_total = bytes_total st, bytes_sent_compressed = bytes_sent_compressed st,
             chunks = chunks st, compressed_chunks = compressed_chunks st, elapsed_us = elapsed_us st,
             resumed_from = start, sha256_verified = (sha \<noteq> None), sha256_hex = sha\<rparr>))))))"

record download_result = download_stats +
  dr_resumed_from :: int
  dr_verified :: bool
  dr_sha256 :: "string option"

definition fs_download ::
    "(string \<Rightarrow> string) \<Rightarrow> string \<Rightarrow> string \<Rightarrow> string \<Rightarrow> int \<Rightarrow> bool \<Rightarrow> bool \<Rightarrow> ('w fleet_scheme, download_result) io" where
  "fs_download sha256 target remote local chunk_size verify resume =
     bnd (gets (host_file local)) (\<lambda>f.
     let start0 = (case f of Some old \<Rightarrow> if resume then int (length old) else 0 | None \<Rightarrow> 0)
     in bnd now (\<lambda>_.
        bnd (chunked_download target remote local chunk_size 2 start0) (\<lambda>st.
        bnd (if verify then bnd (gets (host_file local)) (\<lambda>g. case g of
                 None \<Rightarrow> raise (PyErr FileNotFoundError local)
               | Some content \<Rightarrow> bnd (verify_hash sha256 ''download'' target remote content) (\<lambda>h. ret (Some h)))
             else ret None) (\<lambda>sha.
        bnd now (\<lambda>_.
        ret \<lparr>d_path = local, d_total = d_total st, d_chunks = d_chunks st, d_elapsed_us = d_elapsed_us st,
          dr_resumed_from = start0, dr_verified = (sha \<noteq> None), dr_sha256 = sha\<rparr>)))))"

end
