(* ===== verification/Upload_Correct.thy ===== *)
theory Upload_Correct
  imports Upload
begin

text \<open>
  Properties of whole-file transfers.  What the daemon does with a chunk is \<open>daemon_write\<close>, from
  \<^verbatim>\<open>fs_write_chunk\<close> in \<^verbatim>\<open>mcpd/src/methods/fs.c\<close>: an offset of 0 truncates, any other overwrites in
  place, the size hint is ignored.  A request that failed may still have changed the file at or
  behind its offset (\<open>disturbed\<close>).  \<open>served\<close> relates the remote file before and after a stretch of
  history under every such choice.
\<close>

section \<open>The daemon's side of a chunk\<close>

definition chunk_of :: "(string \<Rightarrow> string option) \<Rightarrow> json \<Rightarrow> (nat \<times> string) option" where
  "chunk_of inflate p = (case (jget ''offset'' p, jget ''content_b64'' p) of
       (Some (JInt off), Some (JStr c)) \<Rightarrow> (case b64decode c of None \<Rightarrow> None
          | Some d \<Rightarrow> map_option (\<lambda>x. (nat off, x))
              (if jget ''compression'' p = Some (JStr ''zlib'') then inflate d else Some d))
     | _ \<Rightarrow> None)"

definition daemon_write :: "nat \<Rightarrow> string \<Rightarrow> string option \<Rightarrow> string option" where
  "daemon_write off data f = (if off = 0 then Some data
     else let b = (case f of None \<Rightarrow> [] | Some b \<Rightarrow> b)
          in Some (take off b @ data @ drop (off + length data) b))"

definition disturbed :: "nat \<Rightarrow> string \<Rightarrow> string option \<Rightarrow> string option \<Rightarrow> bool" where
  "disturbed off data f g \<longleftrightarrow> off = 0 \<or> g = f \<or>
     (\<exists>b c. f = Some b \<and> g = Some c \<and> take off c = take off b \<and> length c \<le> max (length b) (off + length data))"

definition chunk_for :: "string \<Rightarrow> string \<Rightarrow> event \<Rightarrow> bool" where
  "chunk_for target remote e = (case e of
       Rpc t m p \<Rightarrow> t = target \<and> m = ''fs.write_chunk'' \<and> jget ''path'' p = Some (JStr remote) | _ \<Rightarrow> False)"

inductive served :: "(string \<Rightarrow> string option) \<Rightarrow> string \<Rightarrow> string \<Rightarrow> (event \<times> outcome) list \<Rightarrow> string option \<Rightarrow> string option \<Rightarrow> bool"
  for inflate target remote where
  silent: "served inflate target remote [] f f"
| other: "\<not> chunk_for target remote e \<Longrightarrow> served inflate target remote es f g \<Longrightarrow>
    served inflate target remote ((e, v) # es) f g"
| wrote: "chunk_for target remote (Rpc t m p) \<Longrightarrow> chunk_of inflate p = Some (off, d) \<Longrightarrow>
    served inflate target remote es (daemon_write off d f) g \<Longrightarrow>
    served inflate target remote ((Rpc t m p, Inr v) # es) f g"
| failed: "chunk_for target remote (Rpc t m p) \<Longrightarrow> chunk_of inflate p = Some (off, d) \<Longrightarrow> disturbed off d f f' \<Longrightarrow>
    served inflate target remote es f' g \<Longrightarrow>
    served inflate target remote ((Rpc t m p, Inl x) # es) f g"

inductive_cases served_Nil: "served inflate target remote [] f g"
inductive_cases served_Cons: "served inflate target remote ((e, v) # es) f g"

lemma served_Nil_iff [simp]: "served inflate target remote [] f g \<longleftrightarrow> g = f"
  by (auto elim: served_Nil intro: served.silent)

lemma served_other: "\<not> chunk_for target remote e \<Longrightarrow> served inflate target remote ((e, v) # es) f g \<longleftrightarrow> served inflate target remote es f g"
  by (auto elim: served_Cons intro: served.other)

lemma served_append: "served inflate target remote (es @ es') f g \<Longrightarrow> \<exists>h. served inflate target remote es f h \<and> served inflate target remote es' h g"
proof (induction es arbitrary: f)
  case (Cons ev es)
  obtain e v where ev: "ev = (e, v)" by force
  from Cons.prems ev have "served inflate target remote ((e, v) # (es @ es')) f g" by simp
  then show ?case unfolding ev
    by (rule served_Cons) (use Cons.IH in \<open>meson served.intros\<close>)+
qed simp

lemma not_chunk_for [simp]: "\<not> chunk_for target remote Clock" "\<not> chunk_for target remote (Sleep t)"
  by (simp_all add: chunk_for_def)

lemma chunk_params_for: "chunk_for target remote (Rpc target ''fs.write_chunk'' (JObj (chunk_params remote off c mode rs tr tot)))"
  by (simp add: chunk_for_def chunk_params_def)

section \<open>One chunk\<close>

lemma chunk_of_sent:
  assumes "\<And>x. inflate (deflate x) = Some x" "0 \<le> off" "chunk_mode deflate compression raw = (mode, payload)"
  shows "chunk_of inflate (JObj (chunk_params path off (b64encode payload) mode rs tr tot)) = Some (nat off, raw)"
proof -
  have m: "mode = ''zlib'' \<and> payload = deflate raw \<or> mode = ''none'' \<and> payload = raw"
    using assms(3) by (auto simp: chunk_mode_def split: if_splits)
  show ?thesis
    using m assms(1) by (auto simp: chunk_of_def chunk_params_def opt_param_def b64decode_encode split: option.splits)
qed

definition chunk_rpc :: "(string \<Rightarrow> string) \<Rightarrow> string \<Rightarrow> string \<Rightarrow> string \<Rightarrow> int \<Rightarrow> int option \<Rightarrow> string \<Rightarrow> event" where
  "chunk_rpc deflate target remote compression off tot raw =
     (let (mode, payload) = chunk_mode deflate compression raw
      in Rpc target ''fs.write_chunk'' (JObj (chunk_params remote off (b64encode payload) mode
           (if mode = ''zlib'' then Some (int (length raw)) else None) None tot)))"

lemma send_chunk_events:
  assumes "send_chunk deflate target remote compression off tot raw s = (r, s')"
  shows "new_events s s' = [] \<and> isl r \<or>
     (\<exists>v. new_events s s' = [(chunk_rpc deflate target remote compression off tot raw, v)] \<and> (isl v \<longrightarrow> isl r))"
    and "grows (\<lambda>_. True) s s'"
proof -
  obtain mode payload where cm: "chunk_mode deflate compression raw = (mode, payload)" by force
  let ?p = "chunk_params remote off (b64encode payload) mode (if mode = ''zlib'' then Some (int (length raw)) else None) None tot"
  obtain x s1 where q: "mcpd_request target ''fs.write_chunk'' ?p s = (x, s1)" by force
  have r: "(r, s') = (case x of Inl e \<Rightarrow> (Inl e, s1) | Inr v \<Rightarrow> (v_chunk v, s1))"
    using assms q cm by (cases x) (auto simp: send_chunk_def fs_write_chunk_def bnd_def lift_run)
  then have s': "s' = s1" by (cases x) auto
  note ev = mcpd_request_events [OF q]
  show "grows (\<lambda>_. True) s s'" using ev s' by (auto simp: grows_def)
  show "new_events s s' = [] \<and> isl r \<or>
     (\<exists>v. new_events s s' = [(chunk_rpc deflate target remote compression off tot raw, v)] \<and> (isl v \<longrightarrow> isl r))"
    using ev r s' cm by (cases x) (auto simp: new_events_def chunk_rpc_def)
qed

text \<open>
  The remote file while the chunk at an offset is sent: up to the offset it is as the chunks before
  left it, and nothing reaches beyond the chunk's end.
\<close>

definition prefix_kept :: "string \<Rightarrow> string \<Rightarrow> string option \<Rightarrow> bool" where
  "prefix_kept pre raw f \<longleftrightarrow> pre = [] \<or>
     (\<exists>b. f = Some b \<and> take (length pre) b = pre \<and> length b \<le> length pre + length raw)"

lemma daemon_write_prefix: "prefix_kept pre raw f \<Longrightarrow> daemon_write (length pre) raw f = Some (pre @ raw)"
  by (auto simp: prefix_kept_def daemon_write_def Let_def)

lemma disturbed_prefix:
  "prefix_kept pre raw f \<Longrightarrow> disturbed (length pre) raw f g \<Longrightarrow> prefix_kept pre raw g"
  by (auto simp: prefix_kept_def disturbed_def)

lemma written_prefix: "prefix_kept pre raw (Some (pre @ raw))"
  by (simp add: prefix_kept_def)

lemma send_chunk_serves:
  assumes inv: "\<And>x. inflate (deflate x) = Some x"
    and run: "send_chunk deflate target remote compression (int (length pre)) tot raw s = (r, s')"
    and served: "served inflate target remote (new_events s s') f g" and f: "prefix_kept pre raw f"
  shows "prefix_kept pre raw g \<and> (\<not> isl r \<longrightarrow> g = Some (pre @ raw))"
proof -
  obtain mode payload where cm: "chunk_mode deflate compression raw = (mode, payload)" by force
  from send_chunk_events(1) [OF run] show ?thesis
  proof
    assume "new_events s s' = [] \<and> isl r"
    with served f show ?thesis by simp
  next
    assume "\<exists>v. new_events s s' = [(chunk_rpc deflate target remote compression (int (length pre)) tot raw, v)] \<and> (isl v \<longrightarrow> isl r)"
    then obtain v where v: "new_events s s' = [(chunk_rpc deflate target remote compression (int (length pre)) tot raw, v)]"
      "isl v \<longrightarrow> isl r" by blast
    obtain p where p: "chunk_rpc deflate target remote compression (int (length pre)) tot raw = Rpc target ''fs.write_chunk'' p"
      "chunk_of inflate p = Some (length pre, raw)" "chunk_for target remote (Rpc target ''fs.write_chunk'' p)"
      using chunk_of_sent [OF inv _ cm] chunk_params_for by (auto simp: chunk_rpc_def cm)
    from served v(1) p(1) have "served inflate target remote [(Rpc target ''fs.write_chunk'' p, v)] f g" by simp
    then show ?thesis
      by (rule served_Cons)
        (use p(2,3) f v(2) daemon_write_prefix disturbed_prefix written_prefix in auto)
  qed
qed

lemma emits_send_chunk [emits]: "emits (\<lambda>_. True) (send_chunk deflate target remote compression off tot raw)"
  unfolding emits_def by (auto simp: grows_def dest!: send_chunk_events(2))

lemma emits_with_retries [emits]:
  "emits P m \<Longrightarrow> (\<And>t v. P (Sleep t, v)) \<Longrightarrow> emits P (with_retries m retries k n seen)"
  by (induction n arbitrary: k seen) (auto intro!: emits split: sum.splits)

lemma emits_retrying [emits]:
  "emits P m \<Longrightarrow> (\<And>t v. P (Sleep t, v)) \<Longrightarrow> emits P (retrying m retries)"
  unfolding retrying_def by (rule emits_with_retries)

lemma with_retries_serves:
  assumes inv: "\<And>x. inflate (deflate x) = Some x"
  shows "with_retries (send_chunk deflate target remote compression (int (length pre)) tot raw) retries k left seen s = (Inr res, s')
     \<Longrightarrow> served inflate target remote (new_events s s') f g \<Longrightarrow> prefix_kept pre raw f \<Longrightarrow> (\<forall>v. seen \<noteq> Some (Inr v)) \<Longrightarrow>
     grows (\<lambda>_. True) s s' \<and> prefix_kept pre raw g \<and> (0 < left \<or> seen \<noteq> None \<longrightarrow> res \<noteq> None) \<and>
     (\<forall>v. res = Some (Inr v) \<longrightarrow> g = Some (pre @ raw))"
proof (induction left arbitrary: k seen s f)
  case 0
  then show ?case by (auto simp: ret_def)
next
  case (Suc left)
  let ?act = "send_chunk deflate target remote compression (int (length pre)) tot raw"
  obtain r s1 where act: "?act s = (r, s1)" by force
  note g1 = send_chunk_events(2) [OF act]
  show ?case
  proof (cases r)
    case (Inr v)
    with Suc.prems(1) act have "res = Some (Inr v)" "s' = s1" by (auto simp: bnd_def catch_def ret_def)
    with send_chunk_serves [OF inv act] Suc.prems(2,3) Inr g1 show ?thesis by simp
  next
    case (Inl e)
    obtain s2 where w: "whenM (k < retries) (sleep (500 * (k + 1))) s1 = (Inr (), s2)"
      by (cases "k < retries") (auto simp: whenM_def sleep_def ret_def)
    have ev2: "\<exists>es. new_events s1 s2 = es \<and> (\<forall>f g. served inflate target remote es f g \<longleftrightarrow> g = f)" and g2: "grows (\<lambda>_. True) s1 s2"
      using w by (auto simp: whenM_def sleep_def ret_def perform_def Let_def new_events_def grows_def served_other split: if_splits)
    have rest: "with_retries ?act retries (k + 1) left (Some (Inl e)) s2 = (Inr res, s')"
      using Suc.prems(1) act Inl w by (simp add: bnd_def catch_def ret_def)
    have g3: "grows (\<lambda>_. True) s2 s'" using rest by (rule emits_grows [rotated]) (auto intro!: emits)
    have "new_events s s' = new_events s s1 @ new_events s1 s2 @ new_events s2 s'"
      using g1 g2 g3 by (metis grows_trans new_events_trans)
    then obtain h where h: "served inflate target remote (new_events s s1) f h" "served inflate target remote (new_events s2 s') h g"
      using Suc.prems(2) ev2 served_append by metis
    have "prefix_kept pre raw h" using send_chunk_serves [OF inv act h(1) Suc.prems(3)] by blast
    from Suc.IH [OF rest h(2) this] g1 g2 g3 show ?thesis by (auto intro: grows_trans)
  qed
qed

lemma retrying_serves:
  assumes "\<And>x. inflate (deflate x) = Some x" "0 \<le> retries"
    and "retrying (send_chunk deflate target remote compression (int (length pre)) tot raw) retries s = (Inr res, s')"
    and "served inflate target remote (new_events s s') f g" "prefix_kept pre raw f"
  shows "grows (\<lambda>_. True) s s' \<and> ((\<exists>e. res = Some (Inl e)) \<or> (\<exists>v. res = Some (Inr v)) \<and> g = Some (pre @ raw))"
proof -
  note run = assms(3) [unfolded retrying_def]
  have "grows (\<lambda>_. True) s s' \<and> prefix_kept pre raw g \<and>
     (0 < nat (retries + 1) \<or> None \<noteq> (None :: (exn + chunk_result) option) \<longrightarrow> res \<noteq> None) \<and>
     (\<forall>v. res = Some (Inr v) \<longrightarrow> g = Some (pre @ raw))"
    by (rule with_retries_serves [OF _ run assms(4,5)]) (use assms(1) in auto)
  with assms(2) show ?thesis by (cases res; cases "the res") auto
qed

section \<open>The whole file\<close>

lemma emits_upload_loop [emits]:
  "emits (\<lambda>_. True) (upload_loop deflate target remote compression chunk_size retries hint data off first st)"
proof (induction deflate target remote compression chunk_size retries hint data off first st rule: upload_loop.induct)
  case (1 deflate target remote compression chunk_size retries hint data off first st)
  then show ?case
    by (subst upload_loop.simps) (auto intro!: emits simp: Let_def split: option.splits sum.splits)
qed

lemma upload_loop_step:
  assumes "upload_loop deflate target remote compression chunk_size retries hint data off first st s = (Inr st', s')"
    and "read_some chunk_size data \<noteq> []"
  obtains res s1 st1 where
    "retrying (send_chunk deflate target remote compression off (if first then hint else None) (read_some chunk_size data)) retries s = (Inr res, s1)"
    "\<not> (\<exists>e. res = Some (Inl e))"
    "upload_loop deflate target remote compression chunk_size retries hint (drop (length (read_some chunk_size data)) data)
       (off + int (length (read_some chunk_size data))) False st1 s1 = (Inr st', s')"
proof -
  from assms(1) obtain res s1 where 1:
    "retrying (send_chunk deflate target remote compression off (if first then hint else None) (read_some chunk_size data)) retries s = (Inr res, s1)"
    "(case res of Some (Inl e) \<Rightarrow> raise (chunk_failed ''fs.write_chunk'' off retries e)
      | _ \<Rightarrow> upload_loop deflate target remote compression chunk_size retries hint (drop (length (read_some chunk_size data)) data)
             (off + int (length (read_some chunk_size data))) False
             (st\<lparr>bytes_sent_compressed := bytes_sent_compressed st
                   + int (length (snd (chunk_mode deflate compression (read_some chunk_size data)))),
                chunks := chunks st + 1,
                compressed_chunks := compressed_chunks st
                  + (if fst (chunk_mode deflate compression (read_some chunk_size data)) = ''zlib'' then 1 else 0)\<rparr>)) s1
     = (Inr st', s')"
    using assms(2) by (subst (asm) upload_loop.simps) (auto simp: Let_def bnd_eq_Inr)
  show thesis
  proof (cases "\<exists>e. res = Some (Inl e)")
    case True
    with 1(2) show ?thesis by (auto simp: raise_def)
  next
    case False
    then consider "res = None" | v where "res = Some (Inr v)" by (cases res; cases "the res") auto
    then show ?thesis using 1 False that by cases auto
  qed
qed

lemma upload_loop_serves:
  assumes inv: "\<And>x. inflate (deflate x) = Some x" and r: "0 \<le> retries" and c: "chunk_size \<noteq> 0"
  shows "upload_loop deflate target remote compression chunk_size retries hint data (int (length pre)) first st s = (Inr st', s')
     \<Longrightarrow> served inflate target remote (new_events s s') f g \<Longrightarrow> pre = [] \<and> data \<noteq> [] \<or> f = Some pre
     \<Longrightarrow> g = Some (pre @ data)"
proof (induction "length data" arbitrary: data pre first st s f rule: less_induct)
  case less
  let ?raw = "read_some chunk_size data"
  have raw: "data = ?raw @ drop (length ?raw) data"
    by (cases "nat chunk_size \<le> length data") (simp_all add: read_some_def)
  show ?case
  proof (cases "data = []")
    case True
    with less.prems(1) have "s' = s" by (subst (asm) upload_loop.simps) (simp add: read_some_def ret_def)
    with less.prems(2,3) True show ?thesis by simp
  next
    case False
    then have ne: "?raw \<noteq> []" using c by (simp add: read_some_def)
    let ?act = "send_chunk deflate target remote compression (int (length pre)) (if first then hint else None) ?raw"
    obtain res s1 st1 where x: "retrying ?act retries s = (Inr res, s1)" and noerr: "\<not> (\<exists>e. res = Some (Inl e))"
      and ret: "upload_loop deflate target remote compression chunk_size retries hint (drop (length ?raw) data)
          (int (length (pre @ ?raw))) False st1 s1 = (Inr st', s')"
      using upload_loop_step [OF less.prems(1) ne] by (metis length_append of_nat_add)
    have lt: "length (drop (length ?raw) data) < length data" using ne raw by (metis append_eq_conv_conj diff_less length_drop length_greater_0_conv append_is_Nil_conv)
    have g1: "grows (\<lambda>_. True) s s1"
      by (rule emits_grows [where m = "retrying ?act retries", OF _ x]) (auto intro!: emits)
    have g2: "grows (\<lambda>_. True) s1 s'" using emits_upload_loop ret by (rule emits_grows)
    have "new_events s s' = new_events s s1 @ new_events s1 s'" using g1 g2 by (rule new_events_trans)
    then obtain h where h: "served inflate target remote (new_events s s1) f h" "served inflate target remote (new_events s1 s') h g"
      using less.prems(2) served_append by metis
    have "prefix_kept pre ?raw f" using less.prems(3) by (auto simp: prefix_kept_def)
    with retrying_serves [OF inv r _ h(1)] x noerr have "h = Some (pre @ ?raw)" by blast
    with less.hyps [OF lt ret h(2)] have "g = Some ((pre @ ?raw) @ drop (length ?raw) data)" by blast
    with raw show ?thesis by simp
  qed
qed

text \<open>With a negative number of retries no attempt is made at all.\<close>

lemma upload_loop_without_attempts:
  assumes r: "retries < 0"
  shows "upload_loop deflate target remote compression chunk_size retries hint data off first st s = (Inr st', s') \<Longrightarrow> s' = s"
proof (induction "length data" arbitrary: data off first st rule: less_induct)
  case less
  let ?raw = "read_some chunk_size data"
  show ?case
  proof (cases "?raw = []")
    case True
    with less.prems show ?thesis by (subst (asm) upload_loop.simps) (simp add: ret_def)
  next
    case False
    have none: "retrying act retries s = (Inr None, s)" for act :: "('a fleet_scheme, chunk_result) io"
      using r by (simp add: retrying_def ret_def)
    obtain st1 where "upload_loop deflate target remote compression chunk_size retries hint (drop (length ?raw) data)
        (off + int (length ?raw)) False st1 s = (Inr st', s')"
      using upload_loop_step [OF less.prems False] none by (metis Pair_inject sum.inject(2))
    moreover have "length (drop (length ?raw) data) < length data"
      using False by (cases data) (auto simp: read_some_def)
    ultimately show ?thesis using less.hyps by blast
  qed
qed

text \<open>
  C3. If chunked_upload started at offset 0 returns, and the daemon serves each fs.write_chunk
  that names the remote path as its handler does (a failed one may have changed the file at or
  behind its offset), then the local file existed and the remote file at that path is byte for
  byte equal to it, for every chunk size other than 0, every compression mode and every number
  of retries from 0 up. An empty local file, a chunk size of 0 and a negative number of retries
  send nothing and leave the remote file as it was. It assumes only that zlib's inflate undoes
  its deflate.
\<close>

theorem upload_delivers_file:
  assumes inv: "\<And>x. inflate (deflate x) = Some x"
    and run: "chunked_upload deflate target local remote chunk_size compression retries 0 hint s = (Inr st, s')"
    and served: "served inflate target remote (new_events s s') before after"
  shows "\<exists>content. host_file local s = Some content \<and>
     after = (if content = [] \<or> chunk_size = 0 \<or> retries < 0 then before else Some content)"
proof -
  obtain content where content: "host_file local s = Some content"
    using run by (cases "host_file local s") (auto simp: chunked_upload_def bnd_def gets_def raise_def)
  obtain t0 s0 where t0: "now s = (Inr t0, s0)" by (rule now_run)
  let ?st = "\<lparr>u_path = remote, bytes_total = int (length content), bytes_sent_compressed = 0,
                chunks = 0, compressed_chunks = 0, elapsed_us = 0\<rparr>"
  let ?loop = "upload_loop deflate target remote compression chunk_size retries
      (if hint then Some (int (length content)) else None) content 0 True ?st"
  obtain st1 s1 where l: "?loop s0 = (Inr st1, s1)"
    using run content t0 by (cases "?loop s0") (auto simp: chunked_upload_def bnd_def gets_def split: sum.splits)
  obtain t1 s2 where t1: "now s1 = (Inr t1, s2)" by (rule now_run)
  have s': "s' = s2" using run content t0 l t1 by (simp add: chunked_upload_def bnd_def gets_def ret_def)
  have g: "grows (\<lambda>_. True) s s0" "grows (\<lambda>_. True) s0 s1" "grows (\<lambda>_. True) s1 s'"
    using now_grows [OF t0] now_grows [OF t1] s' emits_grows [OF emits_upload_loop l] by simp_all
  have ev: "new_events s s' = new_events s s0 @ new_events s0 s1 @ new_events s1 s'"
    using g by (metis grows_trans new_events_trans)
  have clock: "served inflate target remote (new_events s s0) f h \<longleftrightarrow> h = f"
     "served inflate target remote (new_events s1 s') f h \<longleftrightarrow> h = f" for f h
    using now_events [OF t0] now_events [OF t1] s' by (auto simp: new_events_def served_other)
  from served ev obtain f h where "served inflate target remote (new_events s s0) before f"
    "served inflate target remote (new_events s0 s1) f h" "served inflate target remote (new_events s1 s') h after"
    using served_append by metis
  then have sv: "served inflate target remote (new_events s0 s1) before after" using clock by simp
  have l': "upload_loop deflate target remote compression chunk_size retries
      (if hint then Some (int (length content)) else None) content (int (length [])) True ?st s0 = (Inr st1, s1)"
    using l by simp
  consider "content = [] \<or> chunk_size = 0" | "retries < 0" | "content \<noteq> []" "chunk_size \<noteq> 0" "0 \<le> retries" by linarith
  then have "after = (if content = [] \<or> chunk_size = 0 \<or> retries < 0 then before else Some content)"
  proof cases
    case 1
    with l have "s1 = s0" by (subst (asm) upload_loop.simps) (auto simp: read_some_def ret_def)
    with sv 1 show ?thesis by auto
  next
    case 2
    with upload_loop_without_attempts [OF 2 l] sv show ?thesis by simp
  next
    case 3
    have "after = Some ([] @ content)"
      by (rule upload_loop_serves [OF _ 3(3,2) l' sv]) (use inv 3(1) in auto)
    with 3 show ?thesis by simp
  qed
  with content show ?thesis by blast
qed

text \<open>An empty local file is never sent: the remote file is neither created nor truncated.\<close>

theorem empty_upload_sends_nothing:
  assumes "host_file local s = Some []"
    and "chunked_upload deflate target local remote chunk_size compression retries 0 hint s = (r, s')"
  shows "(\<forall>e \<in> set (new_events s s'). fst e = Clock) \<and> \<not> isl r"
proof -
  obtain t0 s0 where t0: "now s = (Inr t0, s0)" by (rule now_run)
  obtain t1 s1 where t1: "now s0 = (Inr t1, s1)" by (rule now_run)
  have "upload_loop deflate target remote compression chunk_size retries h [] 0 True st s0 = (Inr st, s0)" for h st
    by (subst upload_loop.simps) (simp add: read_some_def ret_def)
  with assms t0 t1 have "s' = s1 \<and> \<not> isl r" by (auto simp: chunked_upload_def bnd_def gets_def ret_def)
  with now_events [OF t0] now_events [OF t1] show ?thesis by (auto simp: new_events_def)
qed

text \<open>A resumed upload of a file that is there in full returns before the hash is compared.\<close>

theorem resume_skips_verification:
  assumes "host_file local s = Some content" "fs_stat target remote s = (Inr st, s1)"
    and "int (length content) \<le> de_size st"
    and "fs_upload deflate sha256 target local remote chunk_size compression True True s = (Inr r, s')"
  shows "\<not> sha256_verified r \<and> s' = s1"
  using assms by (auto simp: fs_upload_def resume_point_def bnd_def gets_def catch_def ret_def)

section \<open>Downloads\<close>

text \<open>
  A daemon that holds the file \<open>F\<close>: a successful \<^verbatim>\<open>fs.stat\<close> gives its size and a successful
  \<^verbatim>\<open>fs.read\<close> of a part that is not empty gives some non-empty beginning of it.  Any request may fail.
\<close>

definition holds_file :: "string \<Rightarrow> string \<Rightarrow> string \<Rightarrow> 'z world_scheme \<Rightarrow> bool" where
  "holds_file target remote F s \<longleftrightarrow> (\<forall>h j.
     (answer s h (Rpc target ''fs.stat'' (JObj [(''path'', JStr remote)])) = Inr j \<longrightarrow> item ''size'' j = Inr (JInt (int (length F)))) \<and>
     (\<forall>off n. 0 \<le> off \<and> off < int (length F) \<and> 0 < n \<and>
        answer s h (Rpc target ''fs.read'' (JObj [(''path'', JStr remote), (''offset'', JInt off), (''length'', JInt n)])) = Inr j \<longrightarrow>
        (\<exists>k>0. payload_of j = Inr (take k (drop (nat off) F)))))"

lemma holds_file_answer: "answer s' = answer s \<Longrightarrow> holds_file target remote F s' \<longleftrightarrow> holds_file target remote F s"
  by (simp add: holds_file_def)

lemma holds_fileD:
  "holds_file target remote F s \<Longrightarrow> 0 \<le> off \<Longrightarrow> off < int (length F) \<Longrightarrow> 0 < n \<Longrightarrow>
   answer s h (Rpc target ''fs.read'' (JObj [(''path'', JStr remote), (''offset'', JInt off), (''length'', JInt n)])) = Inr j \<Longrightarrow>
   \<exists>k>0. payload_of j = Inr (take k (drop (nat off) F))"
  unfolding holds_file_def by blast

text \<open>Repetition of a request leaves the host files alone and returns what some attempt returned.\<close>

lemma with_retries_request:
  assumes "with_retries (mcpd_request t m p) retries k left seen s = (Inr (Some (Inr v)), s')" "\<forall>v. seen \<noteq> Some (Inr v)"
  shows "answer s' = answer s \<and> host_files s' = host_files s \<and> (\<exists>h. answer s h (Rpc t m (JObj p)) = Inr v)"
  using assms
proof (induction left arbitrary: k seen s)
  case 0
  then show ?case by (simp add: ret_def)
next
  case (Suc left)
  obtain r s1 where q: "mcpd_request t m p s = (r, s1)" by force
  note e = mcpd_request_events [OF q]
  show ?case
  proof (cases r)
    case (Inr w)
    with Suc.prems(1) q have "w = v" "s' = s1" by (auto simp: bnd_def catch_def ret_def)
    moreover obtain x s0 where f: "fleet_mcpd t s = (x, s0)" by force
    moreover have "answer s (history s) (Rpc t m (JObj p)) = Inr w"
      using q Inr f fleet_mcpd_history [OF f]
      by (cases x) (auto simp: mcpd_request_def bnd_def rpc_def perform_def Let_def)
    ultimately show ?thesis using e(2) by blast
  next
    case (Inl x)
    obtain s2 where w: "whenM (k < retries) (sleep (500 * (k + 1))) s1 = (Inr (), s2)"
      by (cases "k < retries") (auto simp: whenM_def sleep_def ret_def)
    have s2: "answer s2 = answer s1 \<and> host_files s2 = host_files s1"
      using w by (auto simp: whenM_def sleep_def ret_def perform_def Let_def split: if_splits)
    have "with_retries (mcpd_request t m p) retries (k + 1) left (Some (Inl x)) s2 = (Inr (Some (Inr v)), s')"
      using Suc.prems(1) q Inl w by (simp add: bnd_def catch_def ret_def)
    from Suc.IH [OF this] e(2) s2 show ?thesis by simp
  qed
qed

lemma download_loop_step:
  assumes "download_loop target remote local chunk_size retries tot off cnt s = (Inr c, s')" "off < tot"
  obtains raw s1 payload s2 where
    "retrying (mcpd_request target ''fs.read'' [(''path'', JStr remote), (''offset'', JInt off),
        (''length'', JInt (min chunk_size (tot - off)))]) retries s = (Inr (Some (Inr raw)), s1)"
    "payload_of raw = Inr payload" "append_host_file local payload s1 = (Inr (), s2)"
    "(if payload = [] then ret (cnt + 1)
      else download_loop target remote local chunk_size retries tot (off + int (length payload)) (cnt + 1)) s2 = (Inr c, s')"
proof -
  let ?m = "retrying (mcpd_request target ''fs.read'' [(''path'', JStr remote), (''offset'', JInt off),
        (''length'', JInt (min chunk_size (tot - off)))]) retries"
  let ?k = "\<lambda>res. case res of None \<Rightarrow> raise (PyErr (OtherError ''UnboundLocalError'') [])
       | Some (Inl e) \<Rightarrow> raise (chunk_failed ''fs.read'' off retries e)
       | Some (Inr raw) \<Rightarrow> bnd (lift (payload_of raw)) (\<lambda>payload. bnd (append_host_file local payload) (\<lambda>_.
           if payload = [] then ret (cnt + 1)
           else download_loop target remote local chunk_size retries tot (off + int (length payload)) (cnt + 1)))"
  have "bnd ?m ?k s = (Inr c, s')" using assms by (subst (asm) download_loop.simps) simp
  then obtain res s1 where 1: "?m s = (Inr res, s1)" "?k res s1 = (Inr c, s')" by (auto simp: bnd_eq_Inr)
  obtain raw where raw: "res = Some (Inr raw)"
    using 1(2) by (cases res; cases "the res") (auto simp: raise_def)
  with 1(2) obtain payload where p: "payload_of raw = Inr payload"
    by (cases "payload_of raw") (auto simp: bnd_def lift_run)
  have a: "append_host_file local payload s1 = (Inr (), snd (append_host_file local payload s1))"
    by (simp add: append_host_file_def modify_def)
  from 1 raw p a show ?thesis by (intro that [OF _ p a]) (auto simp: bnd_def lift_run append_host_file_def modify_def)
qed

lemma host_file_update [simp]: "host_file p (s\<lparr>host_files := AList.update p c fs\<rparr>) = Some c"
  by (simp add: host_file_def update_lookup)

lemma take_slice:
  assumes "xs = take k (drop n F)"
  shows "take n F @ xs = take (n + length xs) F"
proof -
  have "take (length (take k l)) l = take k l" for l :: "'a list" by (cases "k \<le> length l") auto
  from this [of "drop n F"] have "take (length xs) (drop n F) = xs" unfolding assms .
  moreover have "take (n + length xs) F = take n F @ take (length xs) (drop n F)" by (rule take_add)
  ultimately show ?thesis by simp
qed

lemma download_loop_copies:
  assumes "0 < chunk_size"
  shows "download_loop target remote local chunk_size retries (int (length F)) off cnt s = (Inr c, s') \<Longrightarrow>
    holds_file target remote F s \<Longrightarrow> 0 \<le> off \<Longrightarrow> off \<le> int (length F) \<Longrightarrow> host_file local s = Some (take (nat off) F) \<Longrightarrow>
    host_file local s' = Some F"
proof (induction "nat (int (length F) - off)" arbitrary: off cnt s rule: less_induct)
  case less
  show ?case
  proof (cases "off < int (length F)")
    case False
    with less.prems have "s' = s" by (subst (asm) download_loop.simps) (simp add: ret_def)
    with less.prems(4,5) False show ?thesis by simp
  next
    case True
    obtain raw s1 payload s2 where st:
      "retrying (mcpd_request target ''fs.read'' [(''path'', JStr remote), (''offset'', JInt off),
        (''length'', JInt (min chunk_size (int (length F) - off)))]) retries s = (Inr (Some (Inr raw)), s1)"
      "payload_of raw = Inr payload" "append_host_file local payload s1 = (Inr (), s2)"
      "(if payload = [] then ret (cnt + 1)
        else download_loop target remote local chunk_size retries (int (length F)) (off + int (length payload)) (cnt + 1)) s2 = (Inr c, s')"
      using download_loop_step [OF less.prems(1) True] by metis
    have r: "answer s1 = answer s" "host_files s1 = host_files s"
      "\<exists>h. answer s h (Rpc target ''fs.read'' (JObj [(''path'', JStr remote), (''offset'', JInt off),
        (''length'', JInt (min chunk_size (int (length F) - off)))])) = Inr raw"
      using with_retries_request [OF st(1) [unfolded retrying_def]] by simp_all
    obtain h where h: "answer s h (Rpc target ''fs.read'' (JObj [(''path'', JStr remote), (''offset'', JInt off),
        (''length'', JInt (min chunk_size (int (length F) - off)))])) = Inr raw" using r(3) by blast
    have "0 < min chunk_size (int (length F) - off)" using True assms by simp
    from holds_fileD [OF less.prems(2,3) True this h] st(2)
    obtain k where k: "0 < k" "payload = take k (drop (nat off) F)" by auto
    have ne: "payload \<noteq> []" using k True less.prems(3) by simp
    have s2: "answer s2 = answer s" "host_file local s2 = Some (take (nat off) F @ payload)"
      using st(3) r(1,2) less.prems(5) by (auto simp: append_host_file_def modify_def host_file_def update_lookup)
    let ?off = "off + int (length payload)"
    have cat: "take (nat off) F @ payload = take (nat ?off) F"
      using take_slice [OF k(2)] less.prems(3) by (simp add: nat_add_distrib)
    have off: "off < ?off" "?off \<le> int (length F)" using ne k less.prems(3,4) by auto
    have "download_loop target remote local chunk_size retries (int (length F)) ?off (cnt + 1) s2 = (Inr c, s')"
      using st(4) ne by simp
    then show ?thesis
      by (rule less.hyps [rotated])
        (use off less.prems(2,3) True s2 cat holds_file_answer [OF s2(1)] in \<open>simp_all\<close>)
  qed
qed

lemma now_files:
  fixes s :: "'w fleet_scheme"
  shows "now s = (Inr t, s') \<Longrightarrow> answer s' = answer s \<and> host_files s' = host_files s"
  by (auto simp: now_def perform_def Let_def)

lemma chunked_download_copies:
  assumes "holds_file target remote F s" "0 < chunk_size"
    and "start = 0 \<or> host_file local s = Some (take (nat start) F) \<and> 0 < start \<and> start \<le> int (length F)"
    and "chunked_download target remote local chunk_size retries start s = (Inr st, s')"
  shows "host_file local s' = Some F \<and> d_total st = int (length F)"
proof -
  obtain v s1 where 1: "host ''mkdir'' [JStr local] s = (Inr v, s1)"
    using assms(4) by (cases "host ''mkdir'' [JStr local] s") (auto simp: chunked_download_def bnd_def split: sum.splits)
  have s1: "answer s1 = answer s" "host_files s1 = host_files s"
    using 1 by (auto simp: host_def perform_def Let_def)
  obtain j s2 where 2: "mcpd_request target ''fs.stat'' [(''path'', JStr remote)] s1 = (Inr j, s2)"
    using assms(4) 1 by (cases "mcpd_request target ''fs.stat'' [(''path'', JStr remote)] s1")
      (auto simp: chunked_download_def bnd_def split: sum.splits)
  have s2: "answer s2 = answer s" "host_files s2 = host_files s"
    using mcpd_request_events(2) [OF 2] s1 by simp_all
  have "\<exists>h. answer s h (Rpc target ''fs.stat'' (JObj [(''path'', JStr remote)])) = Inr j"
    using with_retries_request [of target "''fs.stat''" "[(''path'', JStr remote)]" 0 0 1 None s1 j s2] 2 s1
    by (simp add: bnd_def catch_def ret_def)
  then have size: "item ''size'' j = Inr (JInt (int (length F)))" using assms(1) unfolding holds_file_def by blast
  obtain t0 s3 where 3: "now s2 = (Inr t0, s3)" by (rule now_run)
  have s3: "answer s3 = answer s" "host_files s3 = host_files s" using now_files [OF 3] s2 by simp_all
  define s4 where "s4 = (if start > 0 then snd (append_host_file local [] s3) else snd (write_host_file local [] s3))"
  have s4: "answer s4 = answer s" "host_file local s4 = Some (take (nat start) F)"
    using s3 assms(3) by (auto simp: s4_def append_host_file_def write_host_file_def modify_def host_file_def update_lookup)
  obtain c s5 t1 s6 where 5: "download_loop target remote local chunk_size retries (int (length F)) start 0 s4 = (Inr c, s5)"
    and 6: "now s5 = (Inr t1, s6)" "s' = s6" "d_total st = int (length F)"
    using assms(4) 1 2 3 size
    by (auto simp: chunked_download_def bnd_eq_Inr lift_run whenM_def ret_def s4_def append_host_file_def
        write_host_file_def modify_def split: if_splits)
  have "host_file local s5 = Some F"
    by (rule download_loop_copies [OF assms(2) 5]) (use assms(1,3) s4 holds_file_answer [OF s4(1)] in auto)
  with now_files [OF 6(1)] 6(2,3) show ?thesis by (simp add: host_file_def)
qed

text \<open>
  C10. If chunked_download with a positive chunk size returns against a daemon that holds the
  file unchanged, the local file ends up equal to the remote one, from the start or resumed
  from a correct partial file.
\<close>

theorem download_copies_file:
  assumes "holds_file target remote F s" "0 < chunk_size"
    and "start = 0 \<or> host_file local s = Some (take (nat start) F) \<and> 0 < start \<and> start \<le> int (length F)"
    and "chunked_download target remote local chunk_size retries start s = (Inr st, s')"
  shows "host_file local s' = Some F \<and> d_total st = int (length F)"
  using assms by (rule chunked_download_copies)

section \<open>Concrete runs\<close>

definition transfer_demo :: "string \<Rightarrow> outcome list \<Rightarrow> fleet" where
  "transfer_demo content os = (fleet_init (empty_config\<lparr>targets :=
       [(''qemu'', (target_of Qemu)\<lparr>channels := no_channels\<lparr>chan_mcpd := Some default_mcpd\<rparr>\<rparr>)]\<rparr>) (scripted os))
     \<lparr>host_files := [(''f'', content)]\<rparr>"

definition chunk_reply :: json where
  "chunk_reply = JObj [(''path'', JStr ''RAM:f''), (''offset'', JInt 0), (''written'', JInt 2), (''total_so_far'', JInt 2)]"

lemma with_retries_3: "with_retries a r k 3 q = with_retries a r k (Suc (Suc (Suc 0))) q"
  by (simp add: numeral_3_eq_3)

lemmas transfer_run = transfer_demo_def fleet_init_def empty_config_def target_of_def no_channels_def default_mcpd_def
  chunk_reply_def chunked_upload_def upload_loop.simps retrying_def read_some_def send_chunk_def chunk_mode_def fs_write_chunk_def
  mcpd_request_def fleet_mcpd_def pool_defs target_config_def rpc_def perform_def scripted_def now_def catch_def
  host_file_def v_chunk_def with_retries_3 whenM_def

theorem upload_delivers_file_witness:
  "\<exists>st s'. chunked_upload id ''qemu'' ''f'' ''RAM:f'' 100 ''none'' 2 0 True (transfer_demo ''hi'' [Inr (JInt 0), Inr chunk_reply, Inr (JInt 9)])
       = (Inr st, s') \<and> served Some ''qemu'' ''RAM:f'' (new_events (transfer_demo ''hi'' [Inr (JInt 0), Inr chunk_reply, Inr (JInt 9)]) s') None (Some ''hi'')"
proof -
  let ?s = "transfer_demo ''hi'' [Inr (JInt 0), Inr chunk_reply, Inr (JInt 9)]"
  let ?p = "JObj (chunk_params ''RAM:f'' 0 (b64encode ''hi'') ''none'' None None (Some 2))"
  obtain st s' where run: "chunked_upload id ''qemu'' ''f'' ''RAM:f'' 100 ''none'' 2 0 True ?s = (Inr st, s')"
    and ev: "new_events ?s s' = [(Clock, Inr (JInt 0)), (Rpc ''qemu'' ''fs.write_chunk'' ?p, Inr chunk_reply), (Clock, Inr (JInt 9))]"
    by (simp add: transfer_run new_events_def)
  have c: "chunk_of Some ?p = Some (0, ''hi'')"
    using chunk_of_sent [of Some id 0 "''none''" "''hi''"] by (simp add: chunk_mode_def)
  obtain g where g: "served Some ''qemu'' ''RAM:f'' (new_events ?s s') None g"
    unfolding ev using served.wrote [OF chunk_params_for c] by (metis served_other served.silent not_chunk_for(1))
  obtain content where "host_file ''f'' ?s = Some content"
      "g = (if content = [] \<or> (100 :: int) = 0 \<or> (2 :: int) < 0 then None else Some content)"
    using upload_delivers_file [OF _ run g] by auto
  then have "g = Some ''hi''" by (auto simp: transfer_demo_def host_file_def)
  with run g show ?thesis by blast
qed

theorem empty_upload_sends_nothing_witness:
  "fst ` set (new_events (transfer_demo [] []) (snd (chunked_upload id ''qemu'' ''f'' ''RAM:f'' 100 ''none'' 2 0 True (transfer_demo [] []))))
     \<subseteq> {Clock}"
proof -
  obtain r s' where run: "chunked_upload id ''qemu'' ''f'' ''RAM:f'' 100 ''none'' 2 0 True (transfer_demo [] []) = (r, s')" by force
  have "host_file ''f'' (transfer_demo [] []) = Some []" by (simp add: transfer_demo_def host_file_def)
  from empty_upload_sends_nothing [OF this run] run show ?thesis by auto
qed

theorem resume_skips_verification_witness:
  "\<exists>r s'. fs_upload id id ''qemu'' ''f'' ''RAM:f'' 100 ''none'' True True
       (transfer_demo ''hi'' [Inr (JObj [(''name'', JStr ''f''), (''type'', JStr ''file''), (''size'', JInt 2)])]) = (Inr r, s')
     \<and> \<not> sha256_verified r"
proof -
  let ?s = "transfer_demo ''hi'' [Inr (JObj [(''name'', JStr ''f''), (''type'', JStr ''file''), (''size'', JInt 2)])]"
  obtain st s1 where st: "fs_stat ''qemu'' ''RAM:f'' ?s = (Inr st, s1)" "de_size st = 2"
    by (simp add: transfer_run fs_stat_def v_stat_def v_entry_def v_enum_def)
  have f: "host_file ''f'' ?s = Some ''hi''" by (simp add: transfer_demo_def host_file_def)
  obtain r s' where run: "fs_upload id id ''qemu'' ''f'' ''RAM:f'' 100 ''none'' True True ?s = (Inr r, s')"
    using st f by (simp add: fs_upload_def resume_point_def bnd_def gets_def catch_def ret_def)
  from resume_skips_verification [OF f st(1) _ run] st(2) run show ?thesis by auto
qed

text \<open>A daemon that holds the two bytes of a file and serves them one request at a time.\<close>

definition two_byte_daemon :: "(event \<times> outcome) list \<Rightarrow> event \<Rightarrow> outcome" where
  "two_byte_daemon h e = (case e of
     Rpc t m (JObj kvs) \<Rightarrow>
       (if m = ''fs.stat'' then Inr (JObj [(''size'', JInt 2)])
        else case map_of kvs ''offset'' of
            Some (JInt off) \<Rightarrow> Inr (JObj [(''content_b64'', JStr (b64encode (take 1 (drop (nat off) ''hi''))))])
          | _ \<Rightarrow> Inr JNull)
   | _ \<Rightarrow> Inr (JInt 0))"

theorem download_copies_file_witness:
  "\<exists>st s'. chunked_download ''qemu'' ''RAM:f'' ''g'' 100 2 0 ((transfer_demo [] [])\<lparr>answer := two_byte_daemon\<rparr>) = (Inr st, s')
     \<and> host_file ''g'' s' = Some ''hi''"
proof -
  let ?s = "(transfer_demo [] [])\<lparr>answer := two_byte_daemon\<rparr>"
  obtain st s' where run: "chunked_download ''qemu'' ''RAM:f'' ''g'' 100 2 0 ?s = (Inr st, s')"
    by (simp add: transfer_run chunked_download_def two_byte_daemon_def host_def item_def download_loop.simps payload_of_def
        append_host_file_def write_host_file_def b64decode_encode del: b64encode.simps)
  have "holds_file ''qemu'' ''RAM:f'' ''hi'' ?s"
    by (auto simp: holds_file_def two_byte_daemon_def item_def payload_of_def b64decode_encode intro!: exI [of _ 1]
        simp del: b64encode.simps)
  from download_copies_file [OF this _ _ run] run show ?thesis by auto
qed

end
