(* ===== verification/FleetTools.thy ===== *)
theory FleetTools
  imports Upload
begin

text \<open>
  The coordination tools (\<^verbatim>\<open>tools/fleet.py\<close>).  A fan-out runs one coroutine per target; what each
  of them returns or raises is a function \<open>out\<close> of its position and name, so the results are those
  of every interleaving.  \<open>quorum_loop\<close> is driven by a schedule: the batches of tasks in the order
  \<^verbatim>\<open>asyncio.wait\<close> reports them, ending where the overall timeout strikes.
\<close>

section \<open>Listing and probing\<close>

record target_summary =
  ts_name :: string
  ts_type :: target_type
  ts_display :: "string option"
  ts_machine :: "string option"
  ts_mcpd :: "string option"
  ts_qmp :: "string option"
  ts_running :: "bool option"
  ts_tags :: "string list"

text \<open>\<^verbatim>\<open>proc is not None and proc.poll() is None\<close>.\<close>

definition process_running :: "string \<Rightarrow> (fleet, bool) io" where
  "process_running name = bnd (gets (qemu_process name)) (\<lambda>p. case p of
       None \<Rightarrow> ret False
     | Some h \<Rightarrow> bnd (host ''poll'' [JInt (int h)]) (\<lambda>v. ret (v = JNull)))"

definition shown_endpoint :: "('z channel_scheme) option \<Rightarrow> string option" where
  "shown_endpoint c = (case c of Some ch \<Rightarrow> if enabled ch then Some (chan_endpoint ch) else None | None \<Rightarrow> None)"

definition summarize :: "string \<Rightarrow> (fleet, target_summary) io" where
  "summarize name = bnd (gets f_config) (\<lambda>c. bnd (lift (target_config c name)) (\<lambda>t.
     bnd (if t_type t = Qemu then bnd (process_running name) (\<lambda>b. ret (Some b)) else ret None) (\<lambda>run.
     ret \<lparr>ts_name = name, ts_type = t_type t, ts_display = display_name t, ts_machine = t_machine t,
       ts_mcpd = shown_endpoint (chan_mcpd (channels t)), ts_qmp = shown_endpoint (chan_qmp (channels t)),
       ts_running = run, ts_tags = tags t\<rparr>)))"

definition fleet_list_targets :: "string list option \<Rightarrow> (fleet, target_summary list) io" where
  "fleet_list_targets wanted = bnd (gets f_config) (\<lambda>c. for_each summarize (list_targets c wanted))"

record target_status =
  st_name :: string
  st_type :: target_type
  st_running :: "bool option"
  st_mcpd :: "bool option"
  st_qmp :: "bool option"

definition probe :: "string \<Rightarrow> int \<Rightarrow> (fleet, bool) io" where
  "probe h p = catch (bnd (host ''create_connection'' [JStr h, JInt p]) (\<lambda>_. ret True))
     (\<lambda>e. if is_os e then ret False else raise e)"

definition probe_channel :: "('z channel_scheme) option \<Rightarrow> (fleet, bool option) io" where
  "probe_channel c = (case c of
       Some ch \<Rightarrow> if enabled ch
         then bnd (lift (port_of (chan_endpoint ch))) (\<lambda>p.
              bnd (probe (host_of (chan_endpoint ch)) p) (\<lambda>ok. ret (Some ok)))
         else ret None
     | None \<Rightarrow> ret None)"

definition fleet_target_status :: "string \<Rightarrow> (fleet, target_status) io" where
  "fleet_target_status name = bnd (gets f_config) (\<lambda>c. bnd (lift (target_config c name)) (\<lambda>t.
     bnd (process_running name) (\<lambda>run.
     bnd (probe_channel (chan_mcpd (channels t))) (\<lambda>m.
     bnd (probe_channel (chan_qmp (channels t))) (\<lambda>q.
     ret \<lparr>st_name = name, st_type = t_type t, st_running = (if t_type t = Qemu then Some run else None),
       st_mcpd = m, st_qmp = q\<rparr>)))))"

section \<open>Fan-out\<close>

definition FANOUT :: "string list" where
  "FANOUT = [''fs.list'', ''fs.stat'', ''fs.read'', ''fs.write'', ''fs.delete'', ''fs.makedir'',
     ''fs.rename'', ''fs.protect'', ''fs.copy'', ''exec.cmd'', ''sys.version'', ''sys.tasks'',
     ''sys.libraries'', ''sys.devices'', ''sys.ports'', ''sys.lastalert'', ''sys.debug_ring'',
     ''wb.screens'', ''wb.windows'', ''wb.screenshot'', ''sandbox.probe'', ''sandbox.deploy'',
     ''sandbox.run_guest'', ''sandbox.run_driver'', ''sandbox.run_batch'', ''sandbox.last_trap'']"

definition fanout_methods :: "string list" where
  "fanout_methods = sort FANOUT"

definition not_fanned :: "string \<Rightarrow> exn" where
  "not_fanned method = RpcErr InvalidParams (''method '' @ py_repr method @ '' cannot be fanned out'')
     (Some (JObj [(''available'', JArr (map JStr fanout_methods))]))"

datatype fan_entry = Ok json | Err json

text \<open>An entry for what a call returned or raised.\<close>

definition one :: "exn + json \<Rightarrow> fan_entry" where
  "one r = (case r of Inl e \<Rightarrow> Err (error_dict e) | Inr v \<Rightarrow> Ok v)"

definition barrier_one :: "string \<Rightarrow> string \<Rightarrow> exn + json \<Rightarrow> fan_entry" where
  "barrier_one tmo name r = (case r of
       Inl (PyErr TimeoutError m) \<Rightarrow> Err (JObj [(''code'', JInt (-32002)),
          (''message'', JStr (''barrier: target timed out after '' @ tmo @ ''s'')),
          (''data'', JObj [(''target'', JStr name), (''timeout_s'', JFloat tmo)])])
     | _ \<Rightarrow> one r)"

text \<open>\<^verbatim>\<open>dict(pairs)\<close>: a later entry for the same name replaces an earlier one.\<close>

definition as_dict :: "(string \<times> 'a) list \<Rightarrow> (string \<times> 'a) list" where
  "as_dict ps = foldl (\<lambda>d (k, v). AList.update k v d) [] ps"

definition chosen_targets :: "config \<Rightarrow> string list option \<Rightarrow> string list option \<Rightarrow> string list" where
  "chosen_targets c ts wanted = (case ts of Some xs \<Rightarrow> xs | None \<Rightarrow> list_targets c wanted)"

definition fan_out :: "(nat \<Rightarrow> string \<Rightarrow> fan_entry) \<Rightarrow> string list \<Rightarrow> (string \<times> fan_entry) list" where
  "fan_out entry ts = as_dict (map (\<lambda>(i, t). (t, entry i t)) (enumerate 0 ts))"

definition fleet_run_on_all ::
    "config \<Rightarrow> string \<Rightarrow> string list option \<Rightarrow> string list option \<Rightarrow> (nat \<Rightarrow> string \<Rightarrow> exn + json) \<Rightarrow>
     exn + (string \<times> fan_entry) list" where
  "fleet_run_on_all c method ts wanted out =
     (if method \<notin> set FANOUT then Inl (not_fanned method)
      else Inr (fan_out (\<lambda>i t. one (out i t)) (chosen_targets c ts wanted)))"

definition fleet_barrier ::
    "config \<Rightarrow> string \<Rightarrow> string list option \<Rightarrow> string list option \<Rightarrow> string \<Rightarrow> (nat \<Rightarrow> string \<Rightarrow> exn + json) \<Rightarrow>
     exn + (string \<times> fan_entry) list" where
  "fleet_barrier c method ts wanted tmo out =
     (if method \<notin> set FANOUT then Inl (not_fanned method)
      else Inr (fan_out (\<lambda>i t. barrier_one tmo t (out i t)) (chosen_targets c ts wanted)))"

section \<open>Quorum\<close>

text \<open>Tasks still running (position and target), the entries recorded, and how many were good.\<close>

record quorum_state =
  pending :: "(nat \<times> string) list"
  entries :: "(string \<times> fan_entry) list"
  ok_count :: nat

fun is_ok :: "fan_entry \<Rightarrow> bool" where
  "is_ok (Ok _) = True"
| "is_ok (Err _) = False"

text \<open>One finished task: \<^verbatim>\<open>results[name] = entry\<close>, the count, \<^verbatim>\<open>tasks.pop(t)\<close>.\<close>

definition complete_task :: "(nat \<Rightarrow> string \<Rightarrow> exn + json) \<Rightarrow> nat \<times> string \<Rightarrow> quorum_state \<Rightarrow> quorum_state" where
  "complete_task out t st = (let e = one (out (fst t) (snd t)) in
     st\<lparr>entries := AList.update (snd t) e (entries st),
        ok_count := ok_count st + (if is_ok e then 1 else 0),
        pending := filter (\<lambda>u. u \<noteq> t) (pending st)\<rparr>)"

text \<open>The loop: every batch is the part of the schedule that is still pending.\<close>

fun quorum_loop :: "nat \<Rightarrow> (nat \<Rightarrow> string \<Rightarrow> exn + json) \<Rightarrow> nat list list \<Rightarrow> quorum_state \<Rightarrow> quorum_state" where
  "quorum_loop q out [] st = st"
| "quorum_loop q out (b # bs) st =
     (if pending st = [] \<or> q \<le> ok_count st then st
      else let fin = filter (\<lambda>t. fst t \<in> set b) (pending st)
           in if fin = [] then st else quorum_loop q out bs (fold (complete_task out) fin st))"

definition cancelled_entry :: "string \<Rightarrow> fan_entry" where
  "cancelled_entry name = Err (JObj [(''code'', JInt (-32002)),
     (''message'', JStr ''cancelled: quorum reached or overall timeout''),
     (''data'', JObj [(''target'', JStr name)])])"

definition record_cancelled :: "string list \<Rightarrow> (string \<times> fan_entry) list \<Rightarrow> (string \<times> fan_entry) list" where
  "record_cancelled names d = fold (\<lambda>n d. if n \<in> fst ` set d then d else d @ [(n, cancelled_entry n)]) names d"

record quorum_result =
  qr_quorum :: int
  qr_reached :: bool
  qr_results :: "(string \<times> fan_entry) list"

definition quorum_start :: "string list \<Rightarrow> quorum_state" where
  "quorum_start ts = \<lparr>pending = enumerate 0 ts, entries = [], ok_count = 0\<rparr>"

definition fleet_quorum_run ::
    "config \<Rightarrow> string \<Rightarrow> int \<Rightarrow> string list option \<Rightarrow> string list option \<Rightarrow> (nat \<Rightarrow> string \<Rightarrow> exn + json) \<Rightarrow>
     nat list list \<Rightarrow> exn + quorum_result" where
  "fleet_quorum_run c method quorum ts wanted out schedule =
     (if method \<notin> set FANOUT then Inl (not_fanned method)
      else if quorum \<le> 0 then Inl (RpcErr InvalidParams ''quorum must be >= 1'' None)
      else let names = chosen_targets c ts wanted in
        if quorum > int (length names)
        then Inl (RpcErr InvalidParams (''quorum ('' @ int_dec quorum @ '') > targets ('' @ nat_dec (length names) @ '')'')
               (Some (JObj [(''targets'', JArr (map JStr names))])))
        else let st = quorum_loop (nat quorum) out schedule (quorum_start names)
             in Inr \<lparr>qr_quorum = quorum, qr_reached = (quorum \<le> int (ok_count st)),
                  qr_results = record_cancelled (map snd (pending st)) (entries st)\<rparr>)"

section \<open>Relay\<close>

definition fleet_relay :: "string \<Rightarrow> string \<Rightarrow> string \<Rightarrow> string \<Rightarrow> (fleet, int) io" where
  "fleet_relay src_target src_path dst_target dst_path =
     bnd (fs_read src_target src_path None None) (\<lambda>rd.
     case b64decode (content_b64 rd) of
       None \<Rightarrow> raise (PyErr ValueError ''Incorrect padding'')
     | Some b \<Rightarrow> bnd (fs_write dst_target dst_path (b64encode b) ''none'' None) (\<lambda>wr. ret (snd wr)))"

section \<open>Properties\<close>

lemma as_dict_lookup: "map_of (as_dict ps) k = map_of (rev ps) k"
proof -
  have "map_of (foldl (\<lambda>d (k, v). AList.update k v d) d ps) k = (case map_of (rev ps) k of Some v \<Rightarrow> Some v | None \<Rightarrow> map_of d k)" for d
    by (induction ps arbitrary: d) (auto simp: update_lookup map_add_def split: option.splits)
  then show ?thesis by (simp add: as_dict_def split: option.splits)
qed

lemma dom_as_dict: "fst ` set (as_dict ps) = fst ` set ps"
proof -
  have "map_of (as_dict ps) = map_of (rev ps)" by (rule ext) (rule as_dict_lookup)
  then have "dom (map_of (as_dict ps)) = dom (map_of (rev ps))" by simp
  then show ?thesis by (simp add: dom_map_of_conv_image_fst)
qed

lemma fan_out_names: "fst ` set (fan_out entry ts) = set ts"
proof -
  have "fst ` set (fan_out entry ts) = snd ` set (enumerate 0 ts)"
    by (simp add: fan_out_def dom_as_dict image_image case_prod_beta)
  also have "\<dots> = set ts" by (metis list.set_map map_snd_enumerate)
  finally show ?thesis .
qed

lemma fan_out_entry:
  assumes "distinct ts" "i < length ts"
  shows "map_of (fan_out entry ts) (ts ! i) = Some (entry i (ts ! i))"
proof -
  let ?ps = "map (\<lambda>(i, t). (t, entry i t)) (enumerate 0 ts)"
  have keys: "map fst ?ps = ts" by (simp add: case_prod_beta comp_def map_snd_enumerate)
  have "(ts ! i, entry i (ts ! i)) \<in> set ?ps" using assms(2) by (force simp: in_set_enumerate_eq)
  moreover have "distinct (map fst (rev ?ps))" using assms(1) keys by (simp add: rev_map [symmetric])
  ultimately show ?thesis by (simp add: fan_out_def as_dict_lookup)
qed

theorem run_on_all_one_entry_per_target:
  assumes "fleet_run_on_all c method ts wanted out = Inr rs"
  shows "fst ` set rs = set (chosen_targets c ts wanted) \<and>
     (distinct (chosen_targets c ts wanted) \<longrightarrow> (\<forall>i < length (chosen_targets c ts wanted).
        map_of rs (chosen_targets c ts wanted ! i) = Some (one (out i (chosen_targets c ts wanted ! i)))))"
proof -
  have "rs = fan_out (\<lambda>i t. one (out i t)) (chosen_targets c ts wanted)"
    using assms by (simp add: fleet_run_on_all_def split: if_splits)
  then show ?thesis by (simp add: fan_out_names fan_out_entry)
qed

section \<open>The quorum loop\<close>

text \<open>What holds between batches, for the tasks \<open>enumerate 0 ts\<close>.\<close>

definition good :: "(nat \<Rightarrow> string \<Rightarrow> exn + json) \<Rightarrow> nat \<times> string \<Rightarrow> bool" where
  "good out t = is_ok (one (out (fst t) (snd t)))"

definition quorum_inv :: "(nat \<Rightarrow> string \<Rightarrow> exn + json) \<Rightarrow> string list \<Rightarrow> quorum_state \<Rightarrow> bool" where
  "quorum_inv out ts st \<longleftrightarrow>
     set (pending st) \<subseteq> set (enumerate 0 ts) \<and>
     ok_count st = card {t \<in> set (enumerate 0 ts). t \<notin> set (pending st) \<and> good out t} \<and>
     fst ` set (entries st) = snd ` {t \<in> set (enumerate 0 ts). t \<notin> set (pending st)} \<and>
     (distinct ts \<longrightarrow> (\<forall>t \<in> set (enumerate 0 ts). t \<notin> set (pending st) \<longrightarrow>
        map_of (entries st) (snd t) = Some (one (out (fst t) (snd t)))))"

lemma quorum_start_inv: "quorum_inv out ts (quorum_start ts)"
proof -
  have "{t \<in> set (enumerate 0 ts). t \<notin> set (enumerate 0 ts) \<and> good out t} = {}"
    "{t \<in> set (enumerate 0 ts). t \<notin> set (enumerate 0 ts)} = {}" by blast+
  then show ?thesis by (simp add: quorum_inv_def quorum_start_def)
qed

lemma enumerate_snd_inj:
  "distinct ts \<Longrightarrow> t \<in> set (enumerate 0 ts) \<Longrightarrow> u \<in> set (enumerate 0 ts) \<Longrightarrow> snd t = snd u \<Longrightarrow> t = u"
  by (cases t; cases u) (auto simp: in_set_enumerate_eq nth_eq_iff_index_eq)

lemma keys_update: "fst ` set (AList.update k v al) = insert k (fst ` set al)"
proof -
  have "dom (map_of (AList.update k v al)) = insert k (dom (map_of al))" by (simp add: update_lookup)
  then show ?thesis by (simp add: dom_map_of_conv_image_fst)
qed

lemma complete_task_inv:
  assumes "quorum_inv out ts st" "t \<in> set (pending st)"
  shows "quorum_inv out ts (complete_task out t st)"
proof -
  let ?T = "set (enumerate 0 ts)" and ?P = "set (pending st)"
  have t: "t \<in> ?T" using assms by (auto simp: quorum_inv_def)
  let ?D = "{u \<in> ?T. u \<notin> ?P \<and> good out u}"
  have D: "{u \<in> ?T. u \<notin> ?P - {t} \<and> good out u} = (if good out t then insert t ?D else ?D)"
    using t by auto
  have "finite ?D" by (rule finite_subset [of _ ?T]) auto
  then have cnt: "card {u \<in> ?T. u \<notin> ?P - {t} \<and> good out u} = ok_count st + (if good out t then 1 else 0)"
    using assms unfolding D by (simp add: quorum_inv_def)
  have F: "{u \<in> ?T. u \<notin> ?P - {t}} = insert t {u \<in> ?T. u \<notin> ?P}" using t by auto
  have pend: "set (pending (complete_task out t st)) = ?P - {t}" by (auto simp: complete_task_def Let_def)
  have keys: "fst ` set (entries (complete_task out t st)) = snd ` {u \<in> ?T. u \<notin> ?P - {t}}"
    using assms(1) unfolding F by (simp add: complete_task_def Let_def keys_update quorum_inv_def)
  have vals: "\<forall>u \<in> ?T. u \<notin> ?P - {t} \<longrightarrow> map_of (entries (complete_task out t st)) (snd u) = Some (one (out (fst u) (snd u)))"
    if d: "distinct ts"
  proof (intro ballI impI)
    fix u assume u: "u \<in> ?T" "u \<notin> ?P - {t}"
    show "map_of (entries (complete_task out t st)) (snd u) = Some (one (out (fst u) (snd u)))"
    proof (cases "u = t")
      case True
      then show ?thesis by (simp add: complete_task_def Let_def update_lookup)
    next
      case False
      with u enumerate_snd_inj [OF d u(1) t] have "snd u \<noteq> snd t" "u \<notin> ?P" by auto
      with assms(1) d u(1) show ?thesis by (simp add: complete_task_def Let_def update_lookup quorum_inv_def)
    qed
  qed
  have "ok_count (complete_task out t st) = ok_count st + (if good out t then 1 else 0)"
    by (simp add: complete_task_def Let_def good_def)
  with assms(1) cnt keys vals show ?thesis unfolding quorum_inv_def pend by auto
qed

lemma fold_complete_inv:
  "quorum_inv out ts st \<Longrightarrow> distinct fin \<Longrightarrow> set fin \<subseteq> set (pending st) \<Longrightarrow>
   quorum_inv out ts (fold (complete_task out) fin st) \<and>
   set (pending (fold (complete_task out) fin st)) = set (pending st) - set fin"
proof (induction fin arbitrary: st)
  case (Cons t fin)
  have p: "set (pending (complete_task out t st)) = set (pending st) - {t}" by (auto simp: complete_task_def Let_def)
  have "quorum_inv out ts (complete_task out t st)" using Cons.prems by (intro complete_task_inv) auto
  moreover have "set fin \<subseteq> set (pending (complete_task out t st))" using Cons.prems p by auto
  ultimately show ?case using Cons.IH [of "complete_task out t st"] Cons.prems p by auto
qed simp

definition distinct_pending :: "quorum_state \<Rightarrow> bool" where
  "distinct_pending st \<longleftrightarrow> distinct (pending st)"

lemma fold_complete_distinct: "distinct_pending st \<Longrightarrow> distinct_pending (fold (complete_task out) fin st)"
  by (induction fin arbitrary: st) (auto simp: distinct_pending_def complete_task_def Let_def)

lemma quorum_loop_inv:
  "quorum_inv out ts st \<Longrightarrow> distinct_pending st \<Longrightarrow> quorum_inv out ts (quorum_loop q out bs st)"
proof (induction q out bs st rule: quorum_loop.induct)
  case (2 q out b bs st)
  let ?fin = "filter (\<lambda>t. fst t \<in> set b) (pending st)"
  show ?case
  proof (cases "pending st = [] \<or> q \<le> ok_count st \<or> ?fin = []")
    case True
    with 2(2) show ?thesis by (auto simp: Let_def)
  next
    case False
    have "distinct ?fin" "set ?fin \<subseteq> set (pending st)" using 2(3) by (auto simp: distinct_pending_def)
    with fold_complete_inv 2(2) have "quorum_inv out ts (fold (complete_task out) ?fin st)" by blast
    with 2(1) [OF _ refl] False fold_complete_distinct [OF 2(3)] show ?thesis by (simp add: Let_def)
  qed
qed simp

lemma record_cancelled_keys: "fst ` set (record_cancelled ns d) = fst ` set d \<union> set ns"
  unfolding record_cancelled_def by (induction ns arbitrary: d) auto

lemma record_cancelled_lookup:
  "map_of (record_cancelled ns d) n = (case map_of d n of Some e \<Rightarrow> Some e
     | None \<Rightarrow> if n \<in> set ns then Some (cancelled_entry n) else None)"
proof (induction ns arbitrary: d)
  case (Cons m ns)
  have mem: "(m \<in> fst ` set d) = (map_of d m \<noteq> None)" by (simp add: map_of_eq_None_iff)
  have "map_of (record_cancelled (m # ns) d) n = map_of (record_cancelled ns (if m \<in> fst ` set d then d else d @ [(m, cancelled_entry m)])) n"
    by (simp add: record_cancelled_def)
  also have "\<dots> = (case map_of (if m \<in> fst ` set d then d else d @ [(m, cancelled_entry m)]) n of Some e \<Rightarrow> Some e
     | None \<Rightarrow> if n \<in> set ns then Some (cancelled_entry n) else None)"
    by (rule Cons.IH)
  also have "\<dots> = (case map_of d n of Some e \<Rightarrow> Some e | None \<Rightarrow> if n \<in> set (m # ns) then Some (cancelled_entry n) else None)"
    using mem by (cases "map_of d n"; cases "map_of d m"; cases "m = n") (auto simp: map_add_def)
  finally show ?case .
qed (simp add: record_cancelled_def split: option.splits)

lemma quorum_result_cases:
  assumes "fleet_quorum_run c method quorum ts wanted out schedule = Inr r"
  obtains st where "st = quorum_loop (nat quorum) out schedule (quorum_start (chosen_targets c ts wanted))"
    "quorum_inv out (chosen_targets c ts wanted) st" "0 < quorum"
    "qr_reached r = (quorum \<le> int (ok_count st))" "qr_results r = record_cancelled (map snd (pending st)) (entries st)"
proof -
  let ?st = "quorum_loop (nat quorum) out schedule (quorum_start (chosen_targets c ts wanted))"
  have "distinct_pending (quorum_start (chosen_targets c ts wanted))"
    by (simp add: distinct_pending_def quorum_start_def)
  with quorum_loop_inv [OF quorum_start_inv] have "quorum_inv out (chosen_targets c ts wanted) ?st" .
  with assms show ?thesis
    by (intro that [of ?st]) (auto simp: fleet_quorum_run_def Let_def split: if_splits)
qed

lemma quorum_result_facts:
  assumes "fleet_quorum_run c method quorum ts wanted out schedule = Inr r"
  shows "fst ` set (qr_results r) = set (chosen_targets c ts wanted) \<and>
     (qr_reached r \<longrightarrow> quorum \<le> int (card {t \<in> set (enumerate 0 (chosen_targets c ts wanted)). good out t})) \<and>
     (distinct (chosen_targets c ts wanted) \<longrightarrow> (\<forall>i v. i < length (chosen_targets c ts wanted) \<longrightarrow>
        map_of (qr_results r) (chosen_targets c ts wanted ! i) = Some (Ok v) \<longrightarrow>
        out i (chosen_targets c ts wanted ! i) = Inr v))"
proof -
  let ?ns = "chosen_targets c ts wanted"
  obtain st where st: "quorum_inv out ?ns st" "0 < quorum" "qr_reached r = (quorum \<le> int (ok_count st))"
    "qr_results r = record_cancelled (map snd (pending st)) (entries st)"
    using quorum_result_cases [OF assms] by metis
  let ?T = "set (enumerate 0 ?ns)"
  have P: "set (pending st) \<subseteq> ?T" using st(1) by (simp add: quorum_inv_def)
  have "fst ` set (qr_results r) = snd ` {t \<in> ?T. t \<notin> set (pending st)} \<union> snd ` set (pending st)"
    using st(1) unfolding st(4) by (simp add: record_cancelled_keys quorum_inv_def)
  also have "\<dots> = snd ` ?T" using P by auto
  also have "\<dots> = set ?ns" by (metis list.set_map map_snd_enumerate)
  finally have keys: "fst ` set (qr_results r) = set ?ns" .
  have "card {t \<in> ?T. t \<notin> set (pending st) \<and> good out t} \<le> card {t \<in> ?T. good out t}"
    by (rule card_mono) (auto intro: finite_subset [of _ ?T])
  with st(1) have "ok_count st \<le> card {t \<in> ?T. good out t}" by (simp add: quorum_inv_def)
  with st(3) have reached: "qr_reached r \<longrightarrow> quorum \<le> int (card {t \<in> ?T. good out t})" by simp
  have "out i (?ns ! i) = Inr v" if d: "distinct ?ns" and i: "i < length ?ns"
    and v: "map_of (qr_results r) (?ns ! i) = Some (Ok v)" for i v
  proof -
    have t: "(i, ?ns ! i) \<in> ?T" using i by (simp add: in_set_enumerate_eq)
    have "(i, ?ns ! i) \<notin> set (pending st)"
    proof
      assume p: "(i, ?ns ! i) \<in> set (pending st)"
      have "?ns ! i \<notin> fst ` set (entries st)"
      proof
        assume "?ns ! i \<in> fst ` set (entries st)"
        then obtain u where "u \<in> ?T" "u \<notin> set (pending st)" "snd u = ?ns ! i"
          using st(1) by (auto simp: quorum_inv_def)
        with enumerate_snd_inj [OF d this(1) t] p show False by simp
      qed
      then have "map_of (entries st) (?ns ! i) = None" by (simp add: map_of_eq_None_iff)
      with v show False unfolding st(4) record_cancelled_lookup by (auto simp: cancelled_entry_def split: if_splits)
    qed
    with st(1) d t have "map_of (entries st) (?ns ! i) = Some (one (out i (?ns ! i)))"
      by (fastforce simp: quorum_inv_def)
    with v show ?thesis unfolding st(4) record_cancelled_lookup by (auto simp: one_def split: sum.splits)
  qed
  with keys reached show ?thesis by blast
qed

text \<open>
  C7. fleet.quorum_run returns one entry per chosen target, reports reached only when that many
  calls really succeeded, and with distinct targets an ok entry holds the value that target's
  call returned, for every order in which the tasks finish.
\<close>

theorem quorum_result_sound:
  assumes "fleet_quorum_run c method quorum ts wanted out schedule = Inr r"
  shows "fst ` set (qr_results r) = set (chosen_targets c ts wanted) \<and>
     (qr_reached r \<longrightarrow> quorum \<le> int (card {t \<in> set (enumerate 0 (chosen_targets c ts wanted)). good out t})) \<and>
     (distinct (chosen_targets c ts wanted) \<longrightarrow> (\<forall>i v. i < length (chosen_targets c ts wanted) \<longrightarrow>
        map_of (qr_results r) (chosen_targets c ts wanted ! i) = Some (Ok v) \<longrightarrow>
        out i (chosen_targets c ts wanted ! i) = Inr v))"
  using assms by (rule quorum_result_facts)

text \<open>A schedule that reports every task: batches without a pending task only after all have reported.\<close>

fun covers :: "nat list list \<Rightarrow> nat set \<Rightarrow> bool" where
  "covers [] p = (p = {})"
| "covers (b # bs) p = (p = {} \<or> set b \<inter> p \<noteq> {} \<and> covers bs (p - set b))"

lemma quorum_loop_decides:
  "covers bs (fst ` set (pending st)) \<Longrightarrow> quorum_inv out ts st \<Longrightarrow> distinct_pending st \<Longrightarrow>
   (let st' = quorum_loop q out bs st in pending st' = [] \<or> q \<le> ok_count st')"
proof (induction q out bs st rule: quorum_loop.induct)
  case (2 q out b bs st)
  let ?fin = "filter (\<lambda>t. fst t \<in> set b) (pending st)"
  show ?case
  proof (cases "pending st = [] \<or> q \<le> ok_count st")
    case False
    then have cov: "set b \<inter> fst ` set (pending st) \<noteq> {}" "covers bs (fst ` set (pending st) - set b)"
      using 2(2) by auto
    then have ne: "?fin \<noteq> []" by (auto simp: filter_empty_conv)
    have fin: "distinct ?fin" "set ?fin \<subseteq> set (pending st)" using 2(4) by (auto simp: distinct_pending_def)
    note f = fold_complete_inv [OF 2(3) fin]
    have "fst ` set (pending (fold (complete_task out) ?fin st)) = fst ` set (pending st) - set b"
      using f by (force simp: image_iff)
    with 2(1) [OF False refl ne] f cov(2) fold_complete_distinct [OF 2(4)] show ?thesis
      using False ne by (simp add: Let_def)
  qed (auto simp: Let_def)
qed (simp add: Let_def)

text \<open>
  C12. When every task finishes before the deadline, quorum_run reports reached exactly when at
  least quorum of the calls succeed.
\<close>

theorem quorum_reached_iff:
  assumes "fleet_quorum_run c method quorum ts wanted out schedule = Inr r"
    and "covers schedule {0..<length (chosen_targets c ts wanted)}"
  shows "qr_reached r \<longleftrightarrow> quorum \<le> int (card {t \<in> set (enumerate 0 (chosen_targets c ts wanted)). good out t})"
proof
  assume "qr_reached r"
  with quorum_result_facts [OF assms(1)] show "quorum \<le> int (card {t \<in> set (enumerate 0 (chosen_targets c ts wanted)). good out t})" by blast
next
  let ?ns = "chosen_targets c ts wanted"
  assume q: "quorum \<le> int (card {t \<in> set (enumerate 0 ?ns). good out t})"
  obtain st where st: "st = quorum_loop (nat quorum) out schedule (quorum_start ?ns)"
    "quorum_inv out ?ns st" "qr_reached r = (quorum \<le> int (ok_count st))"
    using quorum_result_cases [OF assms(1)] by metis
  have "fst ` set (pending (quorum_start ?ns)) = {0..<length ?ns}"
    by (simp add: quorum_start_def flip: list.set_map)
  with quorum_loop_decides [of schedule "quorum_start ?ns" out ?ns "nat quorum"] assms(2) quorum_start_inv [of out ?ns] st(1)
  have "pending st = [] \<or> nat quorum \<le> ok_count st"
    by (simp add: distinct_pending_def quorum_start_def Let_def)
  with st(2,3) q show "qr_reached r" by (auto simp: quorum_inv_def)
qed

section \<open>Relay\<close>

theorem relay_forwards_the_bytes:
  assumes "fs_read src_target src_path None None s = (Inr rd, s1)" "b64decode (content_b64 rd) = Some b"
    and "fleet_relay src_target src_path dst_target dst_path s = (Inr n, s')"
  shows "\<exists>p v. (Rpc dst_target ''fs.write'' (JObj p), Inr v) \<in> set (new_events s1 s') \<and>
     map_of p ''path'' = Some (JStr dst_path) \<and> (\<exists>c. map_of p ''content_b64'' = Some (JStr c) \<and> b64decode c = Some b)"
proof -
  let ?p = "[(''path'', JStr dst_path), (''content_b64'', JStr (b64encode b))]"
  obtain wr where w: "fs_write dst_target dst_path (b64encode b) ''none'' None s1 = (Inr wr, s')"
    using assms by (cases "fs_write dst_target dst_path (b64encode b) ''none'' None s1")
      (auto simp: fleet_relay_def bnd_def ret_def split: sum.splits)
  obtain raw s2 where "mcpd_request dst_target ''fs.write'' ?p s1 = (Inr raw, s2)" "s' = s2"
    using w by (auto simp: fs_write_def opt_param_def bnd_eq_Inr lift_run)
  from mcpd_request_events(1) [OF this(1)] this(2) show ?thesis
    by (auto simp: new_events_def b64decode_encode intro!: exI [of _ ?p])
qed

section \<open>Concrete runs\<close>

text \<open>Three targets: the first two answer, the third fails.\<close>

definition demo_out :: "nat \<Rightarrow> string \<Rightarrow> exn + json" where
  "demo_out i t = (if i < 2 then Inr (JInt (int i)) else Inl (PyErr RuntimeError ''down''))"

definition demo_names :: "string list" where
  "demo_names = [''a'', ''b'', ''c'']"

lemma demo_chosen: "chosen_targets empty_config (Some demo_names) None = demo_names"
  by (simp add: chosen_targets_def)

lemma demo_fanned: "''sys.version'' \<in> set FANOUT"
  by (simp add: FANOUT_def)

theorem run_on_all_one_entry_per_target_witness:
  "\<exists>rs. fleet_run_on_all empty_config ''sys.version'' (Some demo_names) None demo_out = Inr rs \<and>
     map_of rs ''c'' = Some (one (Inl (PyErr RuntimeError ''down'')))"
proof -
  obtain rs where rs: "fleet_run_on_all empty_config ''sys.version'' (Some demo_names) None demo_out = Inr rs"
    by (simp add: fleet_run_on_all_def demo_fanned)
  from run_on_all_one_entry_per_target [OF rs]
  have "\<forall>i < 3. map_of rs (demo_names ! i) = Some (one (demo_out i (demo_names ! i)))"
    by (simp add: demo_chosen) (simp add: demo_names_def)
  then have "map_of rs (demo_names ! 2) = Some (one (demo_out 2 (demo_names ! 2)))" by simp
  with rs show ?thesis by (simp add: demo_names_def demo_out_def)
qed

lemma demo_quorum:
  obtains r where "fleet_quorum_run empty_config ''sys.version'' 2 (Some demo_names) None demo_out [[2], [0, 1]] = Inr r" "qr_reached r"
  by (simp add: fleet_quorum_run_def demo_fanned demo_chosen Let_def)
    (simp add: demo_names_def quorum_start_def complete_task_def one_def demo_out_def Let_def numeral_2_eq_2)

theorem quorum_result_sound_witness:
  "\<exists>r. fleet_quorum_run empty_config ''sys.version'' 2 (Some demo_names) None demo_out [[2], [0, 1]] = Inr r \<and>
     fst ` set (qr_results r) = {''a'', ''b'', ''c''}"
proof -
  obtain r where r: "fleet_quorum_run empty_config ''sys.version'' 2 (Some demo_names) None demo_out [[2], [0, 1]] = Inr r" "qr_reached r"
    by (rule demo_quorum)
  from quorum_result_sound [OF r(1)] have "fst ` set (qr_results r) = set demo_names"
    unfolding demo_chosen by blast
  with r(1) show ?thesis by (simp add: demo_names_def)
qed

theorem quorum_reached_iff_witness:
  "2 \<le> int (card {t \<in> set (enumerate 0 demo_names). good demo_out t})"
proof -
  obtain r where r: "fleet_quorum_run empty_config ''sys.version'' 2 (Some demo_names) None demo_out [[2], [0, 1]] = Inr r" "qr_reached r"
    by (rule demo_quorum)
  have "covers [[2], [0, 1]] {0..<length demo_names}" by (auto simp: demo_names_def)
  with quorum_reached_iff [OF r(1)] r(2) show ?thesis by (simp add: demo_chosen)
qed

definition relay_demo :: fleet where
  "relay_demo = fleet_init (empty_config\<lparr>targets :=
       [(''a'', (target_of Remote)\<lparr>channels := no_channels\<lparr>chan_mcpd := Some default_mcpd\<rparr>\<rparr>)]\<rparr>)
     (scripted [Inr (JObj [(''path'', JStr ''x''), (''size'', JInt 2), (''content_b64'', JStr (b64encode ''hi''))]),
                Inr (JObj [(''path'', JStr ''y''), (''size'', JInt 2)])])"

theorem relay_forwards_the_bytes_witness:
  "\<exists>(s1 :: fleet) s' p v. fst (fleet_relay ''a'' ''x'' ''a'' ''y'' relay_demo) = Inr 2 \<and>
     (Rpc ''a'' ''fs.write'' (JObj p), Inr v) \<in> set (new_events s1 s')"
proof -
  let ?rd = "\<lparr>rd_path = ''x'', rd_size = 2, content_b64 = b64encode ''hi'', total_size = None, rd_offset = None\<rparr>"
  obtain s1 where 1: "fs_read ''a'' ''x'' None None relay_demo = (Inr ?rd, s1)"
    by (simp add: relay_demo_def fleet_init_def empty_config_def target_of_def no_channels_def default_mcpd_def fs_read_def
        opt_param_def mcpd_request_def fleet_mcpd_def pool_defs target_config_def rpc_def perform_def scripted_def v_read_def
        del: b64encode.simps)
  obtain s' where 2: "fleet_relay ''a'' ''x'' ''a'' ''y'' relay_demo = (Inr 2, s')"
    by (simp add: fleet_relay_def fs_write_def v_write_def relay_demo_def fleet_init_def empty_config_def target_of_def no_channels_def default_mcpd_def fs_read_def
        opt_param_def mcpd_request_def fleet_mcpd_def pool_defs target_config_def rpc_def perform_def scripted_def v_read_def b64decode_encode
        del: b64encode.simps)
  have "b64decode (content_b64 ?rd) = Some ''hi''" by (simp add: b64decode_encode del: b64encode.simps)
  from relay_forwards_the_bytes [OF 1 this 2] obtain p v
    where pv: "(Rpc ''a'' ''fs.write'' (JObj p), Inr v) \<in> set (new_events s1 s')" by blast
  show ?thesis by (intro exI conjI) (simp add: 2, rule pv)
qed

end
