(* ===== verification/Kicklayout.thy ===== *)
theory Kicklayout
  imports Prelude "HOL-Library.Sublist"
begin

text \<open>
  The Kicklayout editor (\<^verbatim>\<open>installer/kicklayout.py\<close>): pure functions on the text of the file.  The
  compiled regular expression of \<^verbatim>\<open>_block_has_module\<close> is written out as \<open>has_module\<close>.  The file is
  Latin-1, as AmigaOS text is: a character is a code point below 256.
\<close>

section \<open>Blocks\<close>

definition block_is_config :: "string list \<Rightarrow> bool" where
  "block_is_config ls = list_ex (\<lambda>ln. let s = lstrip ln in
     \<not> startswith s '';'' \<and> s \<noteq> [] \<and> (startswith (py_upper s) ''LABEL'' \<or> startswith (py_upper s) ''EXEC'')) ls"

text \<open>\<^verbatim>\<open>\b\<close> between two neighbouring characters, where \<open>None\<close> is the edge of the text.\<close>

definition word_at :: "char option \<Rightarrow> bool" where
  "word_at c = (case c of None \<Rightarrow> False | Some x \<Rightarrow> is_word_char x)"

definition head_opt :: "'a list \<Rightarrow> 'a option" where
  "head_opt xs = (case xs of [] \<Rightarrow> None | x # _ \<Rightarrow> Some x)"

text \<open>
  \<^verbatim>\<open>.*tail\b\<close> on the rest of a line: some number of characters other than a newline, the tail, a
  boundary.  \<open>prev\<close> is the character before.
\<close>

fun tail_follows :: "string \<Rightarrow> char \<Rightarrow> string \<Rightarrow> bool" where
  "tail_follows tail prev s =
     ((startswith s tail \<and>
        word_at (Some (if tail = [] then prev else last tail)) \<noteq> word_at (head_opt (drop (length tail) s)))
      \<or> (case s of [] \<Rightarrow> False | c # s' \<Rightarrow> c \<noteq> newline \<and> tail_follows tail c s'))"

declare tail_follows.simps [simp del]

text \<open>\<^verbatim>\<open>^\s*MODULE\b.*tail\b\<close>.\<close>

definition has_module :: "string \<Rightarrow> string \<Rightarrow> bool" where
  "has_module tail ln = (let s = lstrip ln in
     startswith s ''MODULE'' \<and> \<not> word_at (head_opt (drop 6 s)) \<and> tail_follows tail CHR ''E'' (drop 6 s))"

definition module_tail :: "string \<Rightarrow> string" where
  "module_tail m = last (split_on CHR ''/'' m)"

definition block_has_module :: "string list \<Rightarrow> string \<Rightarrow> bool" where
  "block_has_module ls m = list_ex (has_module (module_tail m)) ls"

section \<open>Adding modules\<close>

definition flush_block :: "string list \<Rightarrow> string \<Rightarrow> string list \<Rightarrow> string list" where
  "flush_block modules label block =
     (let missing = filter (\<lambda>m. \<not> block_has_module block m) modules in
      if \<not> block_is_config block \<or> missing = [] then block
      else block @ [[CHR '';'', newline], ''; '' @ label @ [newline]] @ map (\<lambda>m. ''MODULE '' @ m @ [newline]) missing)"

text \<open>The loop over the lines; \<open>block\<close> is the current run of lines that are not blank.\<close>

fun add_lines :: "string list \<Rightarrow> string \<Rightarrow> string list \<Rightarrow> string list \<Rightarrow> string list" where
  "add_lines modules label block [] = (if block = [] then [] else flush_block modules label block)"
| "add_lines modules label block (l # ls) =
     (if strip l = [] then (if block = [] then [] else flush_block modules label block) @ l # add_lines modules label [] ls
      else add_lines modules label (block @ [l]) ls)"

definition add_modules :: "string \<Rightarrow> string list \<Rightarrow> string \<Rightarrow> string" where
  "add_modules text modules label =
     (if modules = [] then text else concat (add_lines modules label [] (splitlines_keep text)))"

definition replace_text :: "string \<Rightarrow> string \<Rightarrow> string \<Rightarrow> string" where
  "replace_text text old new = py_replace text old new"

section \<open>Patches\<close>

record patch_summary =
  modules_added :: int
  labels_applied :: "string list"
  replacements_done :: nat
  replacements :: "(string \<times> string \<times> nat) list"
  changed :: bool

definition module_count :: "string \<Rightarrow> int" where
  "module_count t = int (py_count t (newline # ''MODULE ''))"

definition apply_modules :: "string list \<times> string \<Rightarrow> string \<times> patch_summary \<Rightarrow> string \<times> patch_summary" where
  "apply_modules p ts = (let before = fst ts; after = add_modules before (fst p) (snd p) in
     (after, if after = before then snd ts
             else (snd ts)\<lparr>labels_applied := labels_applied (snd ts) @ [snd p],
                           modules_added := modules_added (snd ts) + (module_count after - module_count before)\<rparr>))"

definition apply_replace :: "string \<times> string \<Rightarrow> string \<times> patch_summary \<Rightarrow> string \<times> patch_summary" where
  "apply_replace p ts = (let before = fst ts; after = replace_text before (fst p) (snd p) in
     (after, if after = before then snd ts
             else let n = py_count before (fst p) in
               (snd ts)\<lparr>replacements_done := replacements_done (snd ts) + n,
                        replacements := replacements (snd ts) @ [(fst p, snd p, n)]\<rparr>))"

definition apply_patches ::
    "string \<Rightarrow> (string list \<times> string) list \<Rightarrow> (string \<times> string) list \<Rightarrow> string \<times> patch_summary" where
  "apply_patches text mods reps =
     (let none = \<lparr>modules_added = 0, labels_applied = [], replacements_done = 0, replacements = [], changed = False\<rparr>;
          r = fold apply_replace reps (fold apply_modules mods (text, none))
      in (fst r, (snd r)\<lparr>changed := (fst r \<noteq> text)\<rparr>))"

section \<open>Nothing is removed\<close>

lemma flush_block_prefix: "\<exists>ex. flush_block modules label block = block @ ex"
  by (simp add: flush_block_def Let_def)

lemma add_lines_subseq: "subseq (block @ ls) (add_lines modules label block ls)"
proof (induction modules label block ls rule: add_lines.induct)
  case (1 modules label block)
  obtain ex where "flush_block modules label block = block @ ex" using flush_block_prefix by blast
  then show ?case by (simp add: list_emb_prefix)
next
  case (2 modules label block l ls)
  obtain ex where ex: "flush_block modules label block = block @ ex" using flush_block_prefix by blast
  show ?case
  proof (cases "strip l = []")
    case True
    have "subseq block (if block = [] then [] else flush_block modules label block)"
      using ex by (simp add: list_emb_prefix)
    moreover have "subseq (l # ls) (l # add_lines modules label [] ls)" using 2(1) [OF True] by simp
    ultimately show ?thesis using True by (simp add: list_emb_append_mono)
  next
    case False
    with 2(2) show ?thesis by simp
  qed
qed

lemma subseq_concat: "subseq xss yss \<Longrightarrow> subseq (concat xss) (concat yss)"
  by (induction xss yss rule: list_emb.induct) (auto intro: list_emb_append2 list_emb_append_mono)

theorem add_modules_only_adds: "subseq text (add_modules text modules label)"
proof (cases "modules = []")
  case False
  have "subseq (concat (splitlines_keep text)) (concat (add_lines modules label [] (splitlines_keep text)))"
    using add_lines_subseq [of "[]"] by (intro subseq_concat) simp
  with False show ?thesis by (simp add: add_modules_def)
qed (simp add: add_modules_def)

section \<open>Every configuration block gets every module, and a second pass changes nothing\<close>

text \<open>
  A module name the editor recognises after it has written it: no line break in it, and its last
  path component ends in a word character.  A label without a line break.
\<close>

definition no_break :: "string \<Rightarrow> bool" where
  "no_break s \<longleftrightarrow> list_all (\<lambda>c. \<not> py_islinebreak c) s"

definition module_ok :: "string \<Rightarrow> bool" where
  "module_ok m \<longleftrightarrow> no_break m \<and> module_tail m \<noteq> [] \<and> is_word_char (last (module_tail m))"

lemma split_on_last: "\<exists>pre. s = pre @ last (split_on c s)"
proof (induction s)
  case (Cons x xs)
  obtain pre where pre: "xs = pre @ last (split_on c xs)" using Cons by blast
  show ?case
  proof (cases "x = c")
    case True
    with pre show ?thesis by (auto intro: exI [of _ "x # pre"])
  next
    case False
    obtain p ps where ps: "split_on c xs = p # ps" by (cases "split_on c xs") auto
    show ?thesis
    proof (cases ps)
      case Nil
      have "c \<notin> set xs"
      proof
        assume "c \<in> set xs"
        then obtain a b where "xs = a @ c # b" by (auto dest: split_list)
        moreover have "length (split_on c (a @ c # b)) \<ge> 2" by (induction a) (auto split: list.splits simp: neq_Nil_conv Suc_le_eq)
        ultimately show False using ps Nil by simp
      qed
      then have "split_on c xs = [xs]" by (induction xs) auto
      with False ps Nil show ?thesis by simp
    next
      case (Cons q qs)
      with False ps pre show ?thesis by (auto intro: exI [of _ "x # pre"])
    qed
  qed
qed simp

lemma tail_follows_skip: "\<forall>c \<in> set pre. c \<noteq> newline \<Longrightarrow> tail_follows tail (last (prev # pre)) s \<Longrightarrow> tail_follows tail prev (pre @ s)"
proof (induction pre arbitrary: prev)
  case (Cons c pre)
  then show ?case by (subst tail_follows.simps) auto
qed simp

lemma newline_break: "py_islinebreak newline"
  by (simp add: py_islinebreak_def)

lemma written_module_found:
  assumes "module_ok m"
  shows "has_module (module_tail m) (''MODULE '' @ m @ [newline])"
proof -
  obtain pre where pre: "m = pre @ module_tail m" using split_on_last [of m "CHR ''/''"] unfolding module_tail_def by blast
  have nb: "\<forall>c \<in> set m. c \<noteq> newline" using assms newline_break by (auto simp: module_ok_def no_break_def list_all_iff)
  have "\<not> is_word_char newline" by (simp add: is_word_char_def is_digit_def)
  then have t: "tail_follows (module_tail m) x (module_tail m @ [newline])" for x
    using assms by (subst tail_follows.simps) (simp add: module_ok_def word_at_def head_opt_def)
  have "tail_follows (module_tail m) CHR ''E'' (('' '' @ pre) @ (module_tail m @ [newline]))"
  proof (rule tail_follows_skip)
    have "set pre \<subseteq> set m" by (metis pre Un_upper1 set_append)
    with nb show "\<forall>c \<in> set ('' '' @ pre). c \<noteq> newline" by auto
  qed (rule t)
  then have "tail_follows (module_tail m) CHR ''E'' (CHR '' '' # m @ [newline])"
    using pre by (metis append_Cons append_Nil append_assoc)
  moreover have "lstrip (''MODULE '' @ m @ [newline]) = ''MODULE '' @ m @ [newline]" by (simp add: lstrip_def py_isspace_def)
  ultimately show ?thesis
    by (simp add: has_module_def py_str word_at_def head_opt_def is_word_char_def is_digit_def)
qed

definition complete :: "string list \<Rightarrow> string list \<Rightarrow> bool" where
  "complete modules block \<longleftrightarrow> (block_is_config block \<longrightarrow> list_all (block_has_module block) modules)"

lemma block_has_module_append: "block_has_module b m \<Longrightarrow> block_has_module (b @ c) m"
  by (simp add: block_has_module_def)

lemma flush_block_complete:
  assumes "list_all module_ok modules"
  shows "complete modules (flush_block modules label block)"
proof (cases "block_is_config block")
  case False
  then show ?thesis by (simp add: complete_def flush_block_def Let_def)
next
  case True
  let ?miss = "filter (\<lambda>m. \<not> block_has_module block m) modules"
  have "block_has_module (flush_block modules label block) m" if m: "m \<in> set modules" for m
  proof (cases "block_has_module block m")
    case True
    obtain ex where "flush_block modules label block = block @ ex" using flush_block_prefix by blast
    with True show ?thesis by (simp add: block_has_module_append)
  next
    case False
    with m have mm: "m \<in> set ?miss" by simp
    then have "has_module (module_tail m) (''MODULE '' @ m @ [newline])"
      using assms m written_module_found by (simp add: list_all_iff)
    with mm True show ?thesis
      by (auto simp: flush_block_def Let_def block_has_module_def list_ex_iff filter_empty_conv)
  qed
  then show ?thesis by (simp add: complete_def list_all_iff)
qed

lemma flush_block_fixed: "complete modules block \<Longrightarrow> flush_block modules label block = block"
  by (auto simp: complete_def flush_block_def Let_def list_all_iff filter_empty_conv)

text \<open>The blocks of a list of lines, for the statement.\<close>

fun blocks :: "string list \<Rightarrow> string list \<Rightarrow> string list list" where
  "blocks b [] = (if b = [] then [] else [b])"
| "blocks b (l # ls) = (if strip l = [] then (if b = [] then [] else [b]) @ blocks [] ls else blocks (b @ [l]) ls)"

lemma strip_semicolon: "strip [CHR '';'', newline] \<noteq> []" "strip (''; '' @ l @ [newline]) \<noteq> []" "strip (''MODULE '' @ m @ [newline]) \<noteq> []"
  by (auto simp: strip_def lstrip_def rstrip_pred_def py_isspace_def dropWhile_eq_Nil_conv)

lemma flush_block_solid:
  "\<forall>l \<in> set block. strip l \<noteq> [] \<Longrightarrow> \<forall>l \<in> set (flush_block modules label block). strip l \<noteq> []"
  using strip_semicolon by (auto simp: flush_block_def Let_def)

lemma blocks_solid: "\<forall>l \<in> set xs. strip l \<noteq> [] \<Longrightarrow> blocks b (xs @ ys) = blocks (b @ xs) ys"
  by (induction xs arbitrary: b) auto

lemma add_lines_solid: "\<forall>l \<in> set xs. strip l \<noteq> [] \<Longrightarrow> add_lines ms lb b (xs @ ys) = add_lines ms lb (b @ xs) ys"
  by (induction xs arbitrary: b) auto

lemma add_lines_complete:
  assumes "list_all module_ok modules"
  shows "\<forall>l \<in> set block. strip l \<noteq> [] \<Longrightarrow> list_all (complete modules) (blocks [] (add_lines modules label block ls))"
proof (induction ls arbitrary: block)
  case Nil
  let ?F = "flush_block modules label block"
  have "blocks [] (?F @ []) = blocks ([] @ ?F) []" by (rule blocks_solid) (rule flush_block_solid [OF Nil])
  with flush_block_complete [OF assms, of label block] show ?case by simp
next
  case (Cons l ls)
  let ?F = "flush_block modules label block" and ?rest = "add_lines modules label [] ls"
  show ?case
  proof (cases "strip l = []")
    case True
    have "blocks [] (?F @ l # ?rest) = blocks ([] @ ?F) (l # ?rest)" by (rule blocks_solid) (rule flush_block_solid [OF Cons.prems])
    with True Cons.IH [of "[]"] flush_block_complete [OF assms, of label block] show ?thesis by simp
  next
    case False
    with Cons.IH [of "block @ [l]"] Cons.prems show ?thesis by simp
  qed
qed

lemma add_lines_idempotent:
  assumes "list_all module_ok modules"
  shows "\<forall>l \<in> set block. strip l \<noteq> [] \<Longrightarrow>
    add_lines modules label [] (add_lines modules label block ls) = add_lines modules label block ls"
proof (induction ls arbitrary: block)
  case Nil
  let ?F = "flush_block modules label block"
  have "add_lines modules label [] (?F @ []) = add_lines modules label ([] @ ?F) []"
    by (rule add_lines_solid) (rule flush_block_solid [OF Nil])
  with flush_block_fixed [OF flush_block_complete [OF assms]] show ?case by simp
next
  case (Cons l ls)
  let ?F = "flush_block modules label block" and ?rest = "add_lines modules label [] ls"
  show ?case
  proof (cases "strip l = []")
    case True
    have "add_lines modules label [] (?F @ l # ?rest) = add_lines modules label ([] @ ?F) (l # ?rest)"
      by (rule add_lines_solid) (rule flush_block_solid [OF Cons.prems])
    with True Cons.IH [of "[]"] flush_block_fixed [OF flush_block_complete [OF assms]] show ?thesis by simp
  next
    case False
    with Cons.IH [of "block @ [l]"] Cons.prems show ?thesis by simp
  qed
qed

section \<open>From lines back to text\<close>

definition unix_line :: "string \<Rightarrow> bool" where
  "unix_line l \<longleftrightarrow> l \<noteq> [] \<and> last l = newline \<and> no_break (butlast l)"

definition unix_text :: "string \<Rightarrow> bool" where
  "unix_text t \<longleftrightarrow> (t = [] \<or> last t = newline) \<and> (\<forall>c \<in> set t. py_islinebreak c \<longrightarrow> c = newline)"

lemma splitlines_acc_line:
  "no_break x \<Longrightarrow> splitlines_acc acc (x @ newline # s) = (rev acc @ x @ [newline]) # splitlines_acc [] s"
proof (induction x arbitrary: acc)
  case Nil
  then show ?case by (cases s) (simp_all add: newline_break)
next
  case (Cons c x)
  then have c: "\<not> py_islinebreak c" by (simp add: no_break_def)
  then have "c \<noteq> CHR 0x0D" by (auto simp: py_islinebreak_def)
  with Cons c show ?case by (cases x) (simp_all add: no_break_def)
qed

lemma splitlines_unix: "list_all unix_line ls \<Longrightarrow> splitlines_keep (concat ls) = ls"
proof (induction ls)
  case (Cons l ls)
  then have l: "l = butlast l @ [newline]" "no_break (butlast l)"
    by (auto simp: unix_line_def) (metis append_butlast_last_id)
  have "splitlines_keep (concat (l # ls)) = splitlines_acc [] (butlast l @ newline # concat ls)"
    using l(1) by (simp add: splitlines_keep_def) (metis append.assoc append_Cons append_Nil)
  also have "\<dots> = l # splitlines_keep (concat ls)"
    using splitlines_acc_line [OF l(2), of "[]"] l(1) by (simp add: splitlines_keep_def)
  finally show ?case using Cons by simp
qed (simp add: splitlines_keep_def)

lemma unix_text_lines: "unix_text t \<Longrightarrow> list_all unix_line (splitlines_keep t)"
proof (induction "length t" arbitrary: t rule: less_induct)
  case less
  show ?case
  proof (cases "t = []")
    case False
    with less.prems have "newline \<in> set t" by (metis last_in_set unix_text_def)
    then obtain x s where xs: "t = x @ newline # s" "newline \<notin> set x" using split_list_first by metis
    then have "no_break x" using less.prems by (auto simp: no_break_def list_all_iff unix_text_def)
    then have "splitlines_keep t = (x @ [newline]) # splitlines_keep s"
      using splitlines_acc_line [of x "[]" s] xs(1) by (simp add: splitlines_keep_def)
    moreover have "list_all unix_line (splitlines_keep s)"
      by (rule less.hyps) (use xs less.prems in \<open>auto simp: unix_text_def split: if_splits\<close>)
    ultimately show ?thesis using \<open>no_break x\<close> by (simp add: unix_line_def)
  qed (simp add: splitlines_keep_def)
qed

lemma flush_block_unix:
  assumes "list_all module_ok modules" "no_break label" "list_all unix_line block"
  shows "list_all unix_line (flush_block modules label block)"
proof -
  have semi: "\<not> py_islinebreak CHR '';''" "\<not> py_islinebreak CHR '' ''" by (simp_all add: py_islinebreak_def)
  have mods: "list_all (\<lambda>m. unix_line (''MODULE '' @ m @ [newline])) modules"
    using assms(1) by (auto simp: list_all_iff module_ok_def unix_line_def no_break_def butlast_append py_islinebreak_def)
  show ?thesis
    using assms mods semi
    by (auto simp: flush_block_def Let_def list_all_iff unix_line_def no_break_def butlast_append)
qed

lemma add_lines_unix:
  assumes "list_all module_ok modules" "no_break label"
  shows "list_all unix_line block \<Longrightarrow> list_all unix_line ls \<Longrightarrow> list_all unix_line (add_lines modules label block ls)"
  by (induction ls arbitrary: block) (use flush_block_unix [OF assms] in auto)

theorem add_modules_idempotent:
  assumes "list_all module_ok modules" "no_break label" "unix_text text"
  shows "add_modules (add_modules text modules label) modules label = add_modules text modules label"
proof -
  let ?out = "add_lines modules label [] (splitlines_keep text)"
  have "list_all unix_line ?out" using add_lines_unix [OF assms(1,2)] unix_text_lines [OF assms(3)] by simp
  then have "splitlines_keep (concat ?out) = ?out" by (rule splitlines_unix)
  with add_lines_idempotent [OF assms(1), of "[]" label "splitlines_keep text"] show ?thesis
    by (simp add: add_modules_def)
qed

theorem add_modules_reaches_every_block:
  assumes "modules \<noteq> []" "list_all module_ok modules" "no_break label" "unix_text text"
  shows "\<forall>block \<in> set (blocks [] (splitlines_keep (add_modules text modules label))).
     block_is_config block \<longrightarrow> (\<forall>m \<in> set modules. block_has_module block m)"
proof -
  let ?out = "add_lines modules label [] (splitlines_keep text)"
  have "list_all unix_line ?out" using add_lines_unix [OF assms(2,3)] unix_text_lines [OF assms(4)] by simp
  then have "splitlines_keep (concat ?out) = ?out" by (rule splitlines_unix)
  with add_lines_complete [OF assms(2), of "[]" label "splitlines_keep text"] assms(1) show ?thesis
    by (simp add: add_modules_def complete_def list_all_iff)
qed

text \<open>
  The name is searched as a substring: a module whose file name merely ends in the wanted one
  counts as present, and the wanted module is never added.
\<close>

theorem longer_module_name_hides_shorter:
  "add_modules ''LABEL x\<newline>MODULE Kickstart/xdisk.library\<newline>'' [''Kickstart/disk.library''] ''Update''
     = ''LABEL x\<newline>MODULE Kickstart/xdisk.library\<newline>''"
  by code_simp

section \<open>Concrete runs\<close>

definition demo_layout :: string where
  "demo_layout = ''LABEL AmigaOS\<newline>EXEC Kickstart/loader\<newline>\<newline>; end\<newline>''"

lemma demo_layout_ok:
  "list_all module_ok [''Kickstart/foo.device'']" "no_break ''Update 1''" "unix_text demo_layout"
  by code_simp+

theorem add_modules_idempotent_witness:
  "add_modules (add_modules demo_layout [''Kickstart/foo.device''] ''Update 1'') [''Kickstart/foo.device''] ''Update 1''
     = add_modules demo_layout [''Kickstart/foo.device''] ''Update 1''
   \<and> add_modules demo_layout [''Kickstart/foo.device''] ''Update 1'' \<noteq> demo_layout"
proof
  show "add_modules (add_modules demo_layout [''Kickstart/foo.device''] ''Update 1'') [''Kickstart/foo.device''] ''Update 1''
     = add_modules demo_layout [''Kickstart/foo.device''] ''Update 1''"
    by (rule add_modules_idempotent [OF demo_layout_ok])
  show "add_modules demo_layout [''Kickstart/foo.device''] ''Update 1'' \<noteq> demo_layout" by code_simp
qed

theorem add_modules_reaches_every_block_witness:
  "block_has_module (hd (blocks [] (splitlines_keep
     (add_modules demo_layout [''Kickstart/foo.device''] ''Update 1'')))) ''Kickstart/foo.device''"
proof -
  let ?bs = "blocks [] (splitlines_keep (add_modules demo_layout [''Kickstart/foo.device''] ''Update 1''))"
  have "?bs \<noteq> []" and "block_is_config (hd ?bs)"
    by code_simp+
  then show ?thesis
    using add_modules_reaches_every_block [OF _ demo_layout_ok] by simp
qed

end
