(* ===== verification/Machines.thy ===== *)
theory Machines
  imports Errors "HOL-Library.List_Lexorder" "HOL-Library.Char_ord"
begin

text \<open>
  Per-machine data and the scan of a sources directory (\<^verbatim>\<open>installer/machines.py\<close> and
  \<^verbatim>\<open>installer/manifest.py\<close>).  A directory is given as the list of its entries.
\<close>

section \<open>Data\<close>

definition ISO_PREFIX_TO_MACHINE :: "(string \<times> string \<times> string) list" where
  "ISO_PREFIX_TO_MACHINE =
     [(''AmigaOneX5000InstallCD'', ''X5000'', ''AmigaOne X5000''),
      (''AmigaOneA1222InstallCD'', ''A1222'', ''AmigaOne A1222''),
      (''AmigaOneInstallCD'', ''AmigaOne'', ''AmigaOne (XE/SE)''),
      (''Pegasos2InstallCD'', ''PegasosII'', ''Pegasos II''),
      (''Sam460InstallCD'', ''Sam460'', ''Sam460ex'')]"

definition UNSUPPORTED_ISO_PREFIXES :: "string list" where
  "UNSUPPORTED_ISO_PREFIXES = [''ClassicInstallCD'', ''Sam440InstallCD'', ''AmigaOneX1000InstallCD'']"

definition SUPPORTED_MACHINES :: "string list" where
  "SUPPORTED_MACHINES = [''X5000'', ''A1222'', ''AmigaOne'', ''PegasosII'', ''Sam460'']"

definition MACHINE_ALIASES :: "(string \<times> string) list" where
  "MACHINE_ALIASES =
     [(''x5000'', ''X5000''), (''amigaonex5000'', ''X5000''), (''amigaone x5000'', ''X5000''),
      (''a1222'', ''A1222''), (''amigaonea1222'', ''A1222''), (''amigaone a1222'', ''A1222''),
      (''sam460'', ''Sam460''), (''sam460ex'', ''Sam460''),
      (''pegasos2'', ''PegasosII''), (''pegasosii'', ''PegasosII''), (''pegasos ii'', ''PegasosII''),
      (''peg2'', ''PegasosII''),
      (''amigaone'', ''AmigaOne''), (''amigaonexe'', ''AmigaOne''), (''amigaone xe'', ''AmigaOne''),
      (''a1xe'', ''AmigaOne''), (''a1se'', ''AmigaOne'')]"

definition CD_VERSION_SIGNATURES :: "(string \<times> string) list" where
  "CD_VERSION_SIGNATURES = [(''AmigaOne'', ''AmigaOS-AmigaOne''), (''X5000'', ''AmigaOS-X5000''),
     (''PegasosII'', ''AmigaOS-Pegasos2''), (''A1222'', ''AmigaOS-A1222'')]"

definition UPDATES_TO_APPLY :: "(string \<times> nat list) list" where
  "UPDATES_TO_APPLY = [(''AmigaOne'', [1, 2, 3]), (''PegasosII'', [1, 2, 3]), (''Sam460'', [1, 2, 3]),
     (''X5000'', [2, 3]), (''A1222'', [3])]"

definition UPDATE_LHA_NAME :: "(nat \<times> string) list" where
  "UPDATE_LHA_NAME = [(1, ''AmigaOS4.1FinalEditionUpdate1.lha''),
     (2, ''AmigaOS4.1FinalEditionUpdate2-53.14.lha''), (3, ''AmigaOS4.1FinalEditionUpdate3-53.34.lha'')]"

definition MACHINES_NO_BOOTLOADER_FILE :: "string list" where
  "MACHINES_NO_BOOTLOADER_FILE = [''X5000'', ''A1222'']"

definition A1222_BACKUP_VOLS :: "string list" where
  "A1222_BACKUP_VOLS = [''RESCUEV2:'', ''AAATECH0:'']"

definition A1222_BACKUP_SIGNATURE :: string where
  "A1222_BACKUP_SIGNATURE = ''Devs/Networks/A1222eth.device''"

definition FORBIDDEN_DEST_ENTRIES :: "string list" where
  "FORBIDDEN_DEST_ENTRIES = [''S/Startup-Sequence'', ''System'', ''Kickstart'', ''Devs/Monitors'', ''Prefs/Env-Archive'']"

section \<open>Names\<close>

definition resolve_machine_alias :: "string \<Rightarrow> string option" where
  "resolve_machine_alias name =
     (if name = [] then None
      else if name \<in> set SUPPORTED_MACHINES then Some name
      else map_of MACHINE_ALIASES (py_lower (strip name)))"

fun first_prefix :: "(string \<times> 'a) list \<Rightarrow> string \<Rightarrow> 'a option" where
  "first_prefix [] s = None"
| "first_prefix ((p, v) # ps) s = (if startswith s p then Some v else first_prefix ps s)"

definition detect_machine_from_iso :: "string \<Rightarrow> (string \<times> string) option" where
  "detect_machine_from_iso f = first_prefix ISO_PREFIX_TO_MACHINE f"

definition is_unsupported_iso :: "string \<Rightarrow> bool" where
  "is_unsupported_iso f = list_ex (startswith f) UNSUPPORTED_ISO_PREFIXES"

section \<open>The manifest\<close>

record required =
  role :: string
  filename :: string
  iso_prefix :: "string option"
  update_index :: "string option"

definition plain_file :: "string \<Rightarrow> string \<Rightarrow> required" where
  "plain_file r f = \<lparr>role = r, filename = f, iso_prefix = None, update_index = None\<rparr>"

definition prefix_of_machine :: "string \<Rightarrow> string option" where
  "prefix_of_machine m = map_of (map (\<lambda>(p, i, _). (i, p)) ISO_PREFIX_TO_MACHINE) m"

definition required_files :: "string \<Rightarrow> exn + required list" where
  "required_files machine =
     (if machine \<notin> set SUPPORTED_MACHINES
      then Inl (PyErr ValueError (''unknown machine '' @ py_repr machine @ ''; supported: '' @ join '', '' SUPPORTED_MACHINES))
      else case prefix_of_machine machine of
        None \<Rightarrow> Inl (PyErr (OtherError ''StopIteration'') [])
      | Some p \<Rightarrow> Inr ([\<lparr>role = ''iso'', filename = p @ ''*.iso'', iso_prefix = Some p, update_index = None\<rparr>]
          @ map (\<lambda>n. \<lparr>role = ''update'', filename = the (map_of UPDATE_LHA_NAME n), iso_prefix = None,
                     update_index = Some (nat_dec n)\<rparr>)
                (case map_of UPDATES_TO_APPLY machine of None \<Rightarrow> [] | Some ns \<Rightarrow> ns)
          @ [plain_file ''enhancer'' ''enhancer_software_2.2.lha'']
          @ (if machine = ''X5000'' then [plain_file ''extra'' ''NGFCheck.lha'', plain_file ''extra'' ''NGFS.lha''] else [])))"

section \<open>Scanning a sources directory\<close>

record scan =
  sc_dir :: string
  sc_exists :: bool
  iso_files :: "(string \<times> string list) list"
  iso_lha_files :: "(string \<times> string list) list"
  unsupported_isos :: "string list"
  lha_files :: "string list"
  detected_machine :: "string option"
  ambiguous_machines :: "string list"

text \<open>\<^verbatim>\<open>d.setdefault(k, []).append(x)\<close>.\<close>

definition add_to :: "string \<Rightarrow> string \<Rightarrow> (string \<times> string list) list \<Rightarrow> (string \<times> string list) list" where
  "add_to k x d = AList.update k ((case map_of d k of None \<Rightarrow> [] | Some xs \<Rightarrow> xs) @ [x]) d"

definition scan_entry :: "string \<times> bool \<Rightarrow> scan \<Rightarrow> scan" where
  "scan_entry e s = (let (name, is_file) = e; lower = py_lower name in
     if \<not> is_file then s
     else if endswith lower ''.iso'' then
       (case detect_machine_from_iso name of
          Some (m, _) \<Rightarrow> s\<lparr>iso_files := add_to m name (iso_files s)\<rparr>
        | None \<Rightarrow> if is_unsupported_iso name then s\<lparr>unsupported_isos := unsupported_isos s @ [name]\<rparr> else s)
     else if endswith lower ''.iso.lha'' then
       (case detect_machine_from_iso (take (length name - 4) name) of
          Some (m, _) \<Rightarrow> s\<lparr>iso_lha_files := add_to m name (iso_lha_files s)\<rparr>
        | None \<Rightarrow> s\<lparr>lha_files := lha_files s @ [name]\<rparr>)
     else if endswith lower ''.lha'' then s\<lparr>lha_files := lha_files s @ [name]\<rparr>
     else s)"

definition empty_scan :: "string \<Rightarrow> bool \<Rightarrow> scan" where
  "empty_scan d ex = \<lparr>sc_dir = d, sc_exists = ex, iso_files = [], iso_lha_files = [], unsupported_isos = [],
     lha_files = [], detected_machine = None, ambiguous_machines = []\<rparr>"

text \<open>\<open>dir\<close> is the content of the directory, \<open>None\<close> when there is none; entries are (name, is a file).\<close>

definition scan_sources :: "string \<Rightarrow> (string \<times> bool) list option \<Rightarrow> scan" where
  "scan_sources path dir = (case dir of
       None \<Rightarrow> empty_scan path False
     | Some es \<Rightarrow>
         let s = fold scan_entry (sort_key fst es) (empty_scan path True);
             seen = sort (remdups (map fst (iso_files s) @ map fst (iso_lha_files s)))
         in s\<lparr>detected_machine := (case seen of [m] \<Rightarrow> Some m | _ \<Rightarrow> None),
              ambiguous_machines := (if length seen > 1 then seen else [])\<rparr>)"

section \<open>Properties\<close>

text \<open>Every alias names a supported machine, however it is spelled.\<close>

theorem alias_resolves_to_supported:
  assumes "resolve_machine_alias name = Some m"
  shows "m \<in> set SUPPORTED_MACHINES"
proof -
  have "\<forall>a \<in> set (map snd MACHINE_ALIASES). a \<in> set SUPPORTED_MACHINES"
    by (simp add: MACHINE_ALIASES_def SUPPORTED_MACHINES_def)
  with assms show ?thesis
    by (auto simp: resolve_machine_alias_def split: if_splits dest!: map_of_SomeD)
qed

theorem alias_resolves_to_supported_witness:
  "resolve_machine_alias '' Sam460EX '' = Some ''Sam460'' \<and> ''Sam460'' \<in> set SUPPORTED_MACHINES"
proof -
  have r: "resolve_machine_alias '' Sam460EX '' = Some ''Sam460''"
    by code_simp
  show ?thesis
    using r alias_resolves_to_supported [OF r] by simp
qed

lemma first_prefix_Some: "first_prefix ps s = Some v \<Longrightarrow> \<exists>p. (p, v) \<in> set ps \<and> startswith s p"
  by (induction ps s rule: first_prefix.induct) (auto split: if_splits)

text \<open>
  No supported prefix is a prefix of another, so the order of the table does not matter and a file
  is never both supported and unsupported.
\<close>

lemma startswith_same: "startswith s p \<Longrightarrow> startswith s q \<Longrightarrow> startswith p q \<or> startswith q p"
  by (auto simp: startswith_iff append_eq_append_conv2)

lemma prefixes_independent:
  "\<forall>x \<in> set ISO_PREFIX_TO_MACHINE. \<forall>y \<in> set ISO_PREFIX_TO_MACHINE.
     startswith (fst x) (fst y) \<longrightarrow> x = y"
  by code_simp

lemma one_prefix_matches:
  assumes "x \<in> set ISO_PREFIX_TO_MACHINE" "y \<in> set ISO_PREFIX_TO_MACHINE"
    and "startswith f (fst x)" "startswith f (fst y)"
  shows "x = y"
  using startswith_same [OF assms(3,4)] prefixes_independent assms(1,2) by blast

lemma first_prefix_finds:
  assumes "(p, v) \<in> set ps" and "startswith s p"
  shows "first_prefix ps s \<noteq> None"
  using assms by (induction ps s rule: first_prefix.induct) auto

lemma machines_distinct: "distinct (map fst (map (\<lambda>(p, i, _). (i, p)) ISO_PREFIX_TO_MACHINE))"
  by code_simp

lemma prefix_of_machine_iff:
  "prefix_of_machine m = Some p \<longleftrightarrow> (\<exists>fr. (p, m, fr) \<in> set ISO_PREFIX_TO_MACHINE)"
proof -
  have *: "(m, p) \<in> set (map (\<lambda>(p, i, _). (i, p)) xs) \<longleftrightarrow> (\<exists>fr. (p, m, fr) \<in> set xs)"
    for xs :: "(string \<times> string \<times> string) list"
    by (induction xs) auto
  show ?thesis
    unfolding prefix_of_machine_def map_of_eq_Some_iff [OF machines_distinct] by (rule *)
qed

theorem iso_detected_iff:
  "(\<exists>fr. detect_machine_from_iso f = Some (m, fr)) \<longleftrightarrow>
   (\<exists>p. prefix_of_machine m = Some p \<and> startswith f p)"
proof
  assume "\<exists>fr. detect_machine_from_iso f = Some (m, fr)"
  then show "\<exists>p. prefix_of_machine m = Some p \<and> startswith f p"
    unfolding detect_machine_from_iso_def prefix_of_machine_iff using first_prefix_Some by metis
next
  assume "\<exists>p. prefix_of_machine m = Some p \<and> startswith f p"
  then obtain p fr where p: "(p, m, fr) \<in> set ISO_PREFIX_TO_MACHINE" "startswith f p"
    unfolding prefix_of_machine_iff by blast
  obtain w where w: "first_prefix ISO_PREFIX_TO_MACHINE f = Some w"
    using first_prefix_finds [OF p] by blast
  obtain q where q: "(q, w) \<in> set ISO_PREFIX_TO_MACHINE" "startswith f q"
    using first_prefix_Some [OF w] by blast
  have "(p, m, fr) = (q, w)"
    by (rule one_prefix_matches [OF p(1) q(1), of f]) (simp_all add: p(2) q(2))
  then have "w = (m, fr)"
    by simp
  with w show "\<exists>fr. detect_machine_from_iso f = Some (m, fr)"
    by (simp add: detect_machine_from_iso_def)
qed

end
