(* ===== verification/Cmdline.thy ===== *)
theory Cmdline
  imports Tools
begin

text \<open>
  The QEMU command line of a target (\<^verbatim>\<open>qemu/cmdline.py\<close>): splitting an argument string at unquoted
  spaces, adding port forwards to the network argument, and the whole command line with the ports it
  injects.  The machine's JSON file is given by its text, \<open>None\<close> when there is no file.
\<close>

section \<open>Splitting\<close>

abbreviation dquote :: char where
  "dquote \<equiv> CHR 0x22"

abbreviation squote :: char where
  "squote \<equiv> CHR 0x27"

text \<open>\<open>cur\<close> is the argument read so far, reversed; \<open>q\<close> is the open quote.\<close>

fun split_args :: "string \<Rightarrow> char option \<Rightarrow> string \<Rightarrow> string list" where
  "split_args cur q [] = (if cur = [] then [] else [rev cur])"
| "split_args cur None (c # s) =
     (if c = dquote \<or> c = squote then split_args cur (Some c) s
      else if c = CHR '' '' then (if cur = [] then split_args [] None s else rev cur # split_args [] None s)
      else split_args (c # cur) None s)"
| "split_args cur (Some d) (c # s) =
     (if c = d then split_args cur None s else split_args (c # cur) (Some d) s)"

definition split_arg_string :: "string \<Rightarrow> string list" where
  "split_arg_string s = split_args [] None s"

section \<open>Port forwards\<close>

definition inject_hostfwd :: "string \<Rightarrow> string list \<Rightarrow> string" where
  "inject_hostfwd netdev_arg fwds =
     (if fwds = [] then netdev_arg
      else let parts = split_on CHR '','' netdev_arg;
               existing = filter (\<lambda>p. startswith p ''hostfwd='') parts;
               extra = filter (\<lambda>f. f \<notin> set existing) fwds
           in if extra = [] then netdev_arg else join '','' (parts @ extra))"

section \<open>The command line\<close>

definition DROPPED_ARG_KEYS :: "string list" where
  "DROPPED_ARG_KEYS = [''pidfile'']"

definition GUEST_PORT_MCPD :: int where
  "GUEST_PORT_MCPD = 4322"

definition GUEST_PORT_DISCOVERY :: int where
  "GUEST_PORT_DISCOVERY = 4323"

record ports =
  port_mcpd :: "int option"
  port_qmp :: "int option"
  port_gdb :: "int option"
  port_discovery :: "int option"

text \<open>The forwards, with the host ports of MCPd and of discovery.\<close>

definition mcpd_forwards :: "target_config \<Rightarrow> exn + string list \<times> int option \<times> int option" where
  "mcpd_forwards t = (case chan_mcpd (channels t) of
       None \<Rightarrow> Inr ([], None, None)
     | Some ch \<Rightarrow>
         if \<not> enabled ch then Inr ([], None, None)
         else ebnd (port_of (chan_endpoint ch)) (\<lambda>p.
           let d = (case discovery_port ch of Some d \<Rightarrow> d | None \<Rightarrow> p)
           in Inr ([''hostfwd=tcp::'' @ int_dec p @ ''-:'' @ int_dec GUEST_PORT_MCPD,
                    ''hostfwd=udp::'' @ int_dec d @ ''-:'' @ int_dec GUEST_PORT_DISCOVERY], Some p, Some d)))"

definition qmp_option :: "target_config \<Rightarrow> exn + (string \<times> int) option" where
  "qmp_option t = (case chan_qmp (channels t) of
       None \<Rightarrow> Inr None
     | Some ch \<Rightarrow>
         if \<not> enabled ch then Inr None
         else ebnd (port_of (chan_endpoint ch)) (\<lambda>p.
           Inr (Some (''-qmp tcp:'' @ host_of (chan_endpoint ch) @ '':'' @ int_dec p @ '',server=on,wait=off'', p))))"

definition gdb_option :: "target_config \<Rightarrow> exn + (string \<times> int) option" where
  "gdb_option t = (case chan_gdb (channels t) of
       None \<Rightarrow> Inr None
     | Some ch \<Rightarrow>
         if \<not> enabled ch then Inr None
         else ebnd (port_of (chan_endpoint ch)) (\<lambda>p. Inr (Some (''-gdb tcp::'' @ int_dec p, p))))"

text \<open>
  One entry of the machine's \<^verbatim>\<open>args\<close>.  A false value is skipped before its type matters; any other
  value that is not a string has no \<^verbatim>\<open>strip\<close>.
\<close>

definition arg_tokens :: "string list \<Rightarrow> bool \<Rightarrow> string \<times> json \<Rightarrow> exn + string list" where
  "arg_tokens fwds use_headless kv = (let (key, value) = kv in
     if \<not> truthy value then Inr []
     else case value of
       JStr v \<Rightarrow>
         if strip v = [] \<or> key \<in> set DROPPED_ARG_KEYS then Inr []
         else let v1 = (if key = ''network'' then inject_hostfwd v fwds else v);
                  v2 = (if key = ''display'' \<and> use_headless then ''-display none'' else v1)
              in Inr (split_arg_string v2)
     | _ \<Rightarrow> Inl (PyErr AttributeError []))"

fun all_tokens :: "string list \<Rightarrow> bool \<Rightarrow> (string \<times> json) list \<Rightarrow> exn + string list" where
  "all_tokens fwds h [] = Inr []"
| "all_tokens fwds h (kv # kvs) = ebnd (arg_tokens fwds h kv) (\<lambda>ts. ebnd (all_tokens fwds h kvs) (\<lambda>us. Inr (ts @ us)))"

definition option_tokens :: "(string \<times> int) option \<Rightarrow> string list" where
  "option_tokens a = (case a of None \<Rightarrow> [] | Some (s, _) \<Rightarrow> split_arg_string s)"

definition build_cmdline ::
    "string \<Rightarrow> string \<Rightarrow> string option \<Rightarrow> target_config \<Rightarrow> bool option \<Rightarrow> exn + string list \<times> ports" where
  "build_cmdline binary path content t headless_arg =
     (case content of
        None \<Rightarrow> Inl (RpcErr InternalError (''kyvos config not found: '' @ path) None)
      | Some text \<Rightarrow>
          (case (if utf8_valid text then json_loads text else None) of
             None \<Rightarrow> Inl (PyErr ValueError [])
           | Some kyvos \<Rightarrow>
               ebnd (get_or ''args'' (JObj []) kyvos) (\<lambda>args.
               ebnd (mcpd_forwards t) (\<lambda>(fwds, pm, pd).
               ebnd (qmp_option t) (\<lambda>q.
               ebnd (gdb_option t) (\<lambda>g.
               case args of
                 JObj kvs \<Rightarrow>
                   ebnd (all_tokens fwds (case headless_arg of Some h \<Rightarrow> h | None \<Rightarrow> headless t) kvs) (\<lambda>toks.
                   Inr (binary # toks @ option_tokens q @ option_tokens g,
                        \<lparr>port_mcpd = pm, port_qmp = map_option snd q, port_gdb = map_option snd g,
                          port_discovery = pd\<rparr>))
               | _ \<Rightarrow> Inl (PyErr AttributeError [])))))))"

section \<open>Splitting gives the arguments back\<close>

text \<open>An argument as one writes it in such a string: quoted when it holds a space or a single quote.\<close>

definition quoted :: "string \<Rightarrow> string" where
  "quoted a = (if CHR '' '' \<in> set a \<or> squote \<in> set a then dquote # a @ [dquote] else a)"

lemma split_args_plain:
  "\<forall>c \<in> set a. c \<noteq> CHR '' '' \<and> c \<noteq> dquote \<and> c \<noteq> squote \<Longrightarrow>
   split_args cur None (a @ s) = split_args (rev a @ cur) None s"
  by (induction a arbitrary: cur) auto

lemma split_args_quoted:
  "dquote \<notin> set a \<Longrightarrow> split_args cur (Some dquote) (a @ dquote # s) = split_args (rev a @ cur) None s"
  by (induction a arbitrary: cur) auto

lemma split_args_one:
  assumes "dquote \<notin> set a"
  shows "split_args [] None (quoted a @ s) = split_args (rev a) None s"
proof (cases "CHR '' '' \<in> set a \<or> squote \<in> set a")
  case True
  then show ?thesis using split_args_quoted [OF assms, of "[]" s] by (simp add: quoted_def)
next
  case False
  then show ?thesis using assms split_args_plain [of a "[]" s] by (auto simp: quoted_def)
qed

theorem split_quoted_args:
  assumes "list_all (\<lambda>a. a \<noteq> [] \<and> dquote \<notin> set a) args"
  shows "split_arg_string (join '' '' (map quoted args)) = args"
proof -
  have "split_args [] None (join '' '' (map quoted args)) = args"
    using assms
  proof (induction args rule: induct_list012)
    case (2 a)
    then show ?case using split_args_one [of a "[]"] by simp
  next
    case (3 a b as)
    then show ?case using split_args_one [of a] by (simp add: append_assoc del: append_assoc flip: append_assoc)
  qed simp
  then show ?thesis by (simp add: split_arg_string_def)
qed

theorem split_quoted_args_witness:
  "split_arg_string (join '' '' (map quoted [''-drive'', ''file=My Disk.img'', ''-m'', ''2G'']))
     = [''-drive'', ''file=My Disk.img'', ''-m'', ''2G'']"
  by (rule split_quoted_args) simp


section \<open>Forwards are added once\<close>

definition is_forward :: "string \<Rightarrow> bool" where
  "is_forward f \<longleftrightarrow> startswith f ''hostfwd='' \<and> CHR '','' \<notin> set f"

lemma inject_hostfwd_parts:
  assumes "list_all is_forward fwds"
  shows "split_on CHR '','' (inject_hostfwd arg fwds)
           = split_on CHR '','' arg @ filter (\<lambda>f. f \<notin> set (split_on CHR '','' arg)) fwds"
    and "inject_hostfwd (inject_hostfwd arg fwds) fwds = inject_hostfwd arg fwds"
proof -
  have missing: "filter (\<lambda>f. f \<in> set ps \<longrightarrow> \<not> startswith f ''hostfwd='') fwds
      = filter (\<lambda>f. f \<notin> set ps) fwds" for ps
    using assms by (intro filter_cong) (auto simp: list_all_iff is_forward_def)
  have parts: "list_all (\<lambda>p. CHR '','' \<notin> set p) (split_on CHR '','' arg @ filter Q fwds)" for Q
    using split_on_parts [of "CHR '',''" arg] assms by (auto simp: list_all_iff is_forward_def)
  show eq: "split_on CHR '','' (inject_hostfwd arg fwds)
           = split_on CHR '','' arg @ filter (\<lambda>f. f \<notin> set (split_on CHR '','' arg)) fwds"
    by (auto simp: inject_hostfwd_def Let_def missing filter_empty_conv split_on_join [OF _ parts])
  have "filter (\<lambda>f. f \<notin> set (split_on CHR '','' (inject_hostfwd arg fwds))) fwds = []"
    unfolding eq by (auto simp: filter_empty_conv)
  then show "inject_hostfwd (inject_hostfwd arg fwds) fwds = inject_hostfwd arg fwds"
    unfolding inject_hostfwd_def [of "inject_hostfwd arg fwds"] by (simp add: Let_def missing)
qed

text \<open>
  The network argument with the forwards is the old one followed by those forwards it did not have;
  so a second run adds nothing.
\<close>

theorem inject_hostfwd_adds_missing:
  assumes "list_all is_forward fwds"
  shows "split_on CHR '','' (inject_hostfwd arg fwds)
           = split_on CHR '','' arg @ filter (\<lambda>f. f \<notin> set (split_on CHR '','' arg)) fwds
         \<and> inject_hostfwd (inject_hostfwd arg fwds) fwds = inject_hostfwd arg fwds"
  using inject_hostfwd_parts [OF assms] by blast



theorem inject_hostfwd_adds_missing_witness:
  "split_on CHR '','' (inject_hostfwd ''-netdev user,id=n'' [''hostfwd=tcp::1-:2'']) =
     [''-netdev user'', ''id=n'', ''hostfwd=tcp::1-:2'']"
proof -
  have parts: "split_on CHR '','' ''-netdev user,id=n'' = [''-netdev user'', ''id=n'']"
    by code_simp
  have "list_all is_forward [''hostfwd=tcp::1-:2'']"
    by code_simp
  from inject_hostfwd_adds_missing [OF this, of "''-netdev user,id=n''"] show ?thesis
    unfolding parts by simp
qed

section \<open>Guests that run together\<close>

lemma mcpd_forwards_ports:
  assumes "mcpd_forwards t = Inr (fwds, Some p, Some d)"
  shows "fwds = [''hostfwd=tcp::'' @ int_dec p @ ''-:4322'', ''hostfwd=udp::'' @ int_dec d @ ''-:4323'']
    \<and> (\<exists>ch. chan_mcpd (channels t) = Some ch \<and> d = (case discovery_port ch of Some d \<Rightarrow> d | None \<Rightarrow> p))"
proof -
  have g: "int_dec GUEST_PORT_MCPD = ''4322''" "int_dec GUEST_PORT_DISCOVERY = ''4323''"
    by (simp_all add: GUEST_PORT_MCPD_def GUEST_PORT_DISCOVERY_def int_dec_eval)
  obtain ch where ch: "chan_mcpd (channels t) = Some ch" "enabled ch"
    using assms by (cases "chan_mcpd (channels t)") (auto simp: mcpd_forwards_def split: if_splits)
  have "ebnd (port_of (chan_endpoint ch)) (\<lambda>p. let d = case discovery_port ch of Some d \<Rightarrow> d | None \<Rightarrow> p
      in Inr ([''hostfwd=tcp::'' @ int_dec p @ ''-:4322'', ''hostfwd=udp::'' @ int_dec d @ ''-:4323''], Some p, Some d))
    = Inr (fwds, Some p, Some d)"
    using assms unfolding mcpd_forwards_def ch g option.case using ch(2) by simp
  then obtain p' where "(let d = case discovery_port ch of Some d \<Rightarrow> d | None \<Rightarrow> p'
      in (Inr ([''hostfwd=tcp::'' @ int_dec p' @ ''-:4322'', ''hostfwd=udp::'' @ int_dec d @ ''-:4323''], Some p', Some d)
          :: exn + string list \<times> int option \<times> int option)) = Inr (fwds, Some p, Some d)"
    unfolding ebnd_Inr by blast
  then show ?thesis using ch(1) by (simp add: Let_def) blast
qed

text \<open>
  QEMU refuses a forward of a host port that another guest has.  Two targets whose MCPd ports differ
  and that set no discovery port of their own share no forward.
\<close>

theorem guests_share_no_forward:
  assumes "mcpd_forwards t = Inr (f1, Some p1, Some d1)" "mcpd_forwards u = Inr (f2, Some p2, Some d2)"
    and "p1 \<noteq> p2"
    and "\<forall>v \<in> {t, u}. map_option discovery_port (chan_mcpd (channels v)) = Some None"
  shows "set f1 \<inter> set f2 = {} \<and> d1 \<noteq> d2"
proof -
  have d: "d1 = p1" "d2 = p2"
    using mcpd_forwards_ports [OF assms(1)] mcpd_forwards_ports [OF assms(2)] assms(4) by auto
  show ?thesis
    using mcpd_forwards_ports [OF assms(1)] mcpd_forwards_ports [OF assms(2)] assms(3) d
    by (auto dest: int_dec_inj)
qed

definition qemu_guest :: "string \<Rightarrow> target_config" where
  "qemu_guest ep = (target_of Qemu)\<lparr>channels := no_channels\<lparr>chan_mcpd := Some (default_mcpd\<lparr>chan_endpoint := ep\<rparr>)\<rparr>\<rparr>"

theorem guests_share_no_forward_witness:
  "\<exists>f g. mcpd_forwards (qemu_guest ''127.0.0.1:4432'') = Inr (f, Some 4432, Some 4432)
     \<and> mcpd_forwards (qemu_guest ''127.0.0.1:4433'') = Inr (g, Some 4433, Some 4433) \<and> set f \<inter> set g = {}"
proof -
  have p: "port_of ''127.0.0.1:4432'' = Inr 4432" "port_of ''127.0.0.1:4433'' = Inr 4433"
    by code_simp+
  then obtain f g where fg: "mcpd_forwards (qemu_guest ''127.0.0.1:4432'') = Inr (f, Some 4432, Some 4432)"
      "mcpd_forwards (qemu_guest ''127.0.0.1:4433'') = Inr (g, Some 4433, Some 4433)"
    by (simp add: mcpd_forwards_def qemu_guest_def target_of_def no_channels_def default_mcpd_def Let_def)
  from guests_share_no_forward [OF fg]
  have "set f \<inter> set g = {}"
    by (simp add: qemu_guest_def target_of_def no_channels_def default_mcpd_def)
  with fg show ?thesis by blast
qed

section \<open>The whole command line\<close>

lemma build_cmdline_parts:
  assumes "build_cmdline qemu path content t h = Inr (argv, ps)"
  obtains q g toks where "qmp_option t = Inr q" "gdb_option t = Inr g"
    "argv = qemu # toks @ option_tokens q @ option_tokens g"
    "port_qmp ps = map_option snd q" "port_gdb ps = map_option snd g"
proof -
  obtain body where c: "content = Some body" using assms by (cases content) (auto simp: build_cmdline_def)
  obtain kyvos where "(if utf8_valid body then json_loads body else None) = Some kyvos"
    using assms c by (cases "if utf8_valid body then json_loads body else None") (auto simp: build_cmdline_def)
  with assms c obtain args fwds pm pd q g where
    "get_or ''args'' (JObj []) kyvos = Inr args" "mcpd_forwards t = Inr (fwds, pm, pd)"
    and o: "qmp_option t = Inr q" "gdb_option t = Inr g" and
    "(case args of JObj kvs \<Rightarrow> ebnd (all_tokens fwds (case h of Some h \<Rightarrow> h | None \<Rightarrow> headless t) kvs) (\<lambda>toks.
        Inr (qemu # toks @ option_tokens q @ option_tokens g,
          \<lparr>port_mcpd = pm, port_qmp = map_option snd q, port_gdb = map_option snd g, port_discovery = pd\<rparr>))
      | _ \<Rightarrow> Inl (PyErr AttributeError [])) = Inr (argv, ps)"
    by (clarsimp simp: build_cmdline_def ebnd_Inr split: prod.splits)
  then show thesis
    by (cases args) (auto simp: ebnd_Inr intro: that [OF o])
qed

text \<open>
  What a command line consists of: the binary, the tokens of the machine's arguments, the control
  sockets of the enabled channels at the end; and the ports reported are those it opens.
\<close>

theorem cmdline_opens_reported_ports:
  assumes "build_cmdline qemu path content t h = Inr (argv, ps)"
  shows "\<exists>toks. argv = qemu # toks
       @ (case port_qmp ps of None \<Rightarrow> []
          | Some p \<Rightarrow> split_arg_string (''-qmp tcp:'' @ host_of (chan_endpoint (the (chan_qmp (channels t)))) @ '':'' @ int_dec p @ '',server=on,wait=off''))
       @ (case port_gdb ps of None \<Rightarrow> [] | Some p \<Rightarrow> [''-gdb'', ''tcp::'' @ int_dec p])"
proof -
  have gdb: "split_arg_string (''-gdb tcp::'' @ int_dec p) = [''-gdb'', ''tcp::'' @ int_dec p]" for p
  proof -
    have "\<forall>c \<in> set (int_dec p). c \<noteq> CHR '' '' \<and> c \<noteq> dquote \<and> c \<noteq> squote"
      using nat_dec_digits [of "nat p"] nat_dec_digits [of "nat (- p)"] by (auto simp: int_dec_def is_digit_def)
    then have "dquote \<notin> set (''tcp::'' @ int_dec p)" "quoted (''tcp::'' @ int_dec p) = ''tcp::'' @ int_dec p"
      by (auto simp: quoted_def)
    then show ?thesis
      using split_args_plain [of "''-gdb''" "[]" "'' '' @ ''tcp::'' @ int_dec p"]
        split_args_one [of "''tcp::'' @ int_dec p" "[]"] by (simp add: split_arg_string_def)
  qed
  obtain q g toks where q: "qmp_option t = Inr q" "gdb_option t = Inr g"
    and a: "argv = qemu # toks @ option_tokens q @ option_tokens g"
    and ps: "port_qmp ps = map_option snd q" "port_gdb ps = map_option snd g"
    by (rule build_cmdline_parts [OF assms])
  have "q = None \<or> (\<exists>p. q = Some (''-qmp tcp:'' @ host_of (chan_endpoint (the (chan_qmp (channels t)))) @ '':'' @ int_dec p @ '',server=on,wait=off'', p))"
    using q(1) by (auto simp: qmp_option_def ebnd_Inr split: option.splits if_splits)
  moreover have "g = None \<or> (\<exists>p. g = Some (''-gdb tcp::'' @ int_dec p, p))"
    using q(2) by (auto simp: gdb_option_def ebnd_Inr split: option.splits if_splits)
  ultimately show ?thesis using a ps gdb by (auto simp: option_tokens_def)
qed

definition demo_machine :: string where
  "demo_machine = json_dumps (JObj [(''args'', JObj [(''machine'', JStr ''-M pegasos2''), (''pidfile'', JStr ''-pidfile x'')])])"

theorem cmdline_opens_reported_ports_witness:
  "\<exists>toks ps. build_cmdline ''qemu'' ''m.json'' (Some demo_machine) ((target_of Qemu)\<lparr>channels := no_channels\<lparr>chan_gdb := Some default_gdb\<rparr>\<rparr>) None
     = Inr (''qemu'' # toks @ [''-gdb'', ''tcp::1234''], ps)"
proof -
  let ?t = "(target_of Qemu)\<lparr>channels := no_channels\<lparr>chan_gdb := Some default_gdb\<rparr>\<rparr>"
  have j: "(if utf8_valid demo_machine then json_loads demo_machine else None)
      = Some (JObj [(''args'', JObj [(''machine'', JStr ''-M pegasos2''), (''pidfile'', JStr ''-pidfile x'')])])"
    by code_simp
  have e: "enabled default_gdb" by (simp add: default_gdb_def)
  have p: "port_of (chan_endpoint default_gdb) = Inr 1234" by code_simp
  have a: "all_tokens [] False [(''machine'', JStr ''-M pegasos2''), (''pidfile'', JStr ''-pidfile x'')] = Inr [''-M'', ''pegasos2'']"
    by code_simp
  obtain toks ps where run: "build_cmdline ''qemu'' ''m.json'' (Some demo_machine) ?t None = Inr (toks, ps)"
      "port_gdb ps = Some 1234" "port_qmp ps = None"
    using j p a e by (simp add: build_cmdline_def target_of_def no_channels_def mcpd_forwards_def qmp_option_def
        gdb_option_def get_or_def del: all_tokens.simps)
  from cmdline_opens_reported_ports [OF run(1)] run show ?thesis by (auto simp: int_dec_eval)
qed

end
