(* ===== verification/Serial.thy ===== *)
theory Serial
  imports Tools Base64
begin

text \<open>
  Capture of a serial port into a log file (\<^verbatim>\<open>transports/serial_capture.py\<close>, \<^verbatim>\<open>tools/serial.py\<close>).

  A capture is shared by the event loop, which starts, stops and clears it, and by a reader thread
  per start.  \<open>capture\<close> is the object's state with its live threads, each at one of the points of
  \<^verbatim>\<open>_run\<close> between two accesses to what they share; \<open>step\<close> is one access, by the loop or by a thread,
  so its runs are all interleavings.  The file system is the inode behind the log's path and the
  content of every inode, since a thread goes on writing to the file it opened when the path is
  unlinked under it.
\<close>

section \<open>State\<close>

text \<open>
  \<open>Fresh\<close>: started, before it reads \<^verbatim>\<open>self._ser\<close>; \<open>Opening\<close>: before it opens the log; \<open>Looping i\<close>:
  at the loop's test, with inode \<open>i\<close> open; \<open>Polling i\<close>: past the test; \<open>Wrote i n\<close>: before it adds
  \<open>n\<close> to the total.
\<close>

datatype phase = Fresh | Opening | Looping nat | Polling nat | Wrote nat nat

record capture =
  c_target :: string
  c_channel :: string
  c_port :: string
  c_baud :: int
  c_path :: string
  stop_set :: bool
  thread :: "nat option"
  workers :: "(nat \<times> phase) list"
  next_worker :: nat
  ser_open :: bool
  total_bytes :: nat
  started_at :: int
  last_error :: "string option"
  stopping :: bool
  log_inode :: "nat option"
  inodes :: "string list"

definition new_capture :: "string \<Rightarrow> string \<Rightarrow> string \<Rightarrow> int \<Rightarrow> string \<Rightarrow> capture" where
  "new_capture tgt ch port baud path =
     \<lparr>c_target = tgt, c_channel = ch, c_port = port, c_baud = baud, c_path = path, stop_set = False,
      thread = None, workers = [], next_worker = 0, ser_open = False, total_bytes = 0, started_at = 0,
      last_error = None, stopping = False, log_inode = None, inodes = []\<rparr>"

definition running :: "capture \<Rightarrow> bool" where
  "running c = (case thread c of None \<Rightarrow> False | Some t \<Rightarrow> t \<in> fst ` set (workers c))"

text \<open>The content of the file at the log's path; an absent file reads as empty.\<close>

definition log_text :: "capture \<Rightarrow> string" where
  "log_text c = (case log_inode c of None \<Rightarrow> [] | Some i \<Rightarrow> inodes c ! i)"

lemma log_text_update [simp]:
  "log_text (c\<lparr>stop_set := b\<rparr>) = log_text c" "log_text (c\<lparr>stopping := b\<rparr>) = log_text c"
  "log_text (c\<lparr>thread := th\<rparr>) = log_text c" "log_text (c\<lparr>workers := ws\<rparr>) = log_text c"
  "log_text (c\<lparr>next_worker := n\<rparr>) = log_text c" "log_text (c\<lparr>ser_open := b\<rparr>) = log_text c"
  "log_text (c\<lparr>total_bytes := n\<rparr>) = log_text c" "log_text (c\<lparr>started_at := i\<rparr>) = log_text c"
  "log_text (c\<lparr>last_error := e\<rparr>) = log_text c"
  "log_text (c\<lparr>log_inode := None\<rparr>) = []"
  by (simp_all add: log_text_def cong: option.case_cong)

lemma running_update [simp]:
  "running (c\<lparr>stop_set := b\<rparr>) = running c" "running (c\<lparr>stopping := b\<rparr>) = running c"
  "running (c\<lparr>next_worker := n\<rparr>) = running c" "running (c\<lparr>ser_open := b\<rparr>) = running c"
  "running (c\<lparr>total_bytes := n\<rparr>) = running c" "running (c\<lparr>started_at := i\<rparr>) = running c"
  "running (c\<lparr>last_error := e\<rparr>) = running c" "running (c\<lparr>log_inode := i'\<rparr>) = running c"
  "running (c\<lparr>inodes := fs\<rparr>) = running c" "\<not> running (c\<lparr>thread := None\<rparr>)"
  by (simp_all add: running_def cong: option.case_cong)

section \<open>What the event loop does\<close>

text \<open>What the calls of \<^verbatim>\<open>start\<close> raise, if they are reached.\<close>

record start_env =
  mkdir_err :: "exn option"
  unlink_err :: "exn option"
  open_err :: "exn option"
  reset_err :: "exn option"

definition no_errors :: start_env where
  "no_errors = \<lparr>mkdir_err = None, unlink_err = None, open_err = None, reset_err = None\<rparr>"

definition start :: "bool \<Rightarrow> start_env \<Rightarrow> int \<Rightarrow> capture \<Rightarrow> (exn + unit) \<times> capture" where
  "start trunc env time c =
     (if running c then (Inr (), c)
      else let c1 = c\<lparr>stop_set := False, last_error := None, total_bytes := 0\<rparr>;
               unlinks = (trunc \<and> log_inode c \<noteq> None);
               c2 = (if unlinks then c1\<lparr>log_inode := None\<rparr> else c1)
           in case mkdir_err env of Some e \<Rightarrow> (Inl e, c1)
            | None \<Rightarrow> (case (if unlinks then unlink_err env else None) of Some e \<Rightarrow> (Inl e, c1)
            | None \<Rightarrow> (case open_err env of Some e \<Rightarrow> (Inl e, c2)
            | None \<Rightarrow> (case reset_err env of Some e \<Rightarrow> (Inl e, c2\<lparr>ser_open := True\<rparr>)
            | None \<Rightarrow> (Inr (), c2\<lparr>ser_open := True, started_at := time, thread := Some (next_worker c),
                    workers := (next_worker c, Fresh) # workers c, next_worker := next_worker c + 1\<rparr>)))))"

definition stop_request :: "capture \<Rightarrow> capture" where
  "stop_request c = c\<lparr>stop_set := True, stopping := True\<rparr>"

definition stop_done :: "capture \<Rightarrow> capture" where
  "stop_done c = c\<lparr>thread := None, stopping := False\<rparr>"

definition clear_log :: "capture \<Rightarrow> (exn + unit) \<times> capture" where
  "clear_log c = (if running c then (Inl (PyErr RuntimeError ''cannot clear log while capture is running''), c)
     else (Inr (), c\<lparr>log_inode := None, total_bytes := 0\<rparr>))"

definition read_at :: "int \<Rightarrow> int \<Rightarrow> capture \<Rightarrow> string" where
  "read_at offset max_bytes c = take (nat max_bytes) (drop (nat offset) (log_text c))"

definition file_size :: "capture \<Rightarrow> int" where
  "file_size c = int (length (log_text c))"

section \<open>What a reader thread does\<close>

definition set_phase :: "nat \<Rightarrow> phase \<Rightarrow> capture \<Rightarrow> capture" where
  "set_phase t p c = c\<lparr>workers := AList.update t p (workers c)\<rparr>"

text \<open>The end of the thread, with and without its \<^verbatim>\<open>finally\<close> clause.\<close>

definition die :: "nat \<Rightarrow> capture \<Rightarrow> capture" where
  "die t c = c\<lparr>workers := AList.delete t (workers c)\<rparr>"

definition finish :: "nat \<Rightarrow> capture \<Rightarrow> capture" where
  "finish t c = (die t c)\<lparr>ser_open := False\<rparr>"

definition begin_run :: "nat \<Rightarrow> capture \<Rightarrow> capture" where
  "begin_run t c = (if ser_open c then set_phase t Opening c else die t c)"

definition open_log :: "nat \<Rightarrow> bool \<Rightarrow> capture \<Rightarrow> capture" where
  "open_log t ok c =
     (if \<not> ok then finish t c
      else case log_inode c of
        Some i \<Rightarrow> set_phase t (Looping i) c
      | None \<Rightarrow> set_phase t (Looping (length (inodes c)))
          (c\<lparr>inodes := inodes c @ [[]], log_inode := Some (length (inodes c))\<rparr>))"

definition check_stop :: "nat \<Rightarrow> nat \<Rightarrow> capture \<Rightarrow> capture" where
  "check_stop t i c = (if stop_set c then finish t c else set_phase t (Polling i) c)"

definition append_to :: "nat \<Rightarrow> string \<Rightarrow> capture \<Rightarrow> capture" where
  "append_to i d c = c\<lparr>inodes := (inodes c)[i := inodes c ! i @ d]\<rparr>"

text \<open>
  One turn of the loop's body: nothing to read, bytes, an error of the port with its text, or a
  write that fails after some bytes; that one is not caught and leaves no text.
\<close>

datatype polled = Nothing | Data string | Port_error string | Write_fails string

fun poll :: "nat \<Rightarrow> nat \<Rightarrow> polled \<Rightarrow> capture \<Rightarrow> capture" where
  "poll t i Nothing c = set_phase t (Looping i) c"
| "poll t i (Data d) c = (if d = [] then set_phase t (Looping i) c
     else set_phase t (Wrote i (length d)) (append_to i d c))"
| "poll t i (Port_error m) c = finish t (c\<lparr>last_error := Some m\<rparr>)"
| "poll t i (Write_fails d) c = finish t (append_to i d c)"

definition add_total :: "nat \<Rightarrow> nat \<Rightarrow> nat \<Rightarrow> capture \<Rightarrow> capture" where
  "add_total t i n c = set_phase t (Looping i) (c\<lparr>total_bytes := total_bytes c + n\<rparr>)"

section \<open>Interleavings\<close>

datatype action =
    Start bool start_env int | Stop_request | Stop_done | Clear
  | Begin nat | Open nat bool | Check nat | Poll nat polled | Count nat

text \<open>While \<^verbatim>\<open>stop\<close> waits for the thread the event loop does nothing else.\<close>

inductive step :: "capture \<Rightarrow> action \<Rightarrow> capture \<Rightarrow> bool" where
  start_step: "\<not> stopping c \<Longrightarrow> step c (Start trunc env time) (snd (start trunc env time c))"
| request_step: "\<not> stopping c \<Longrightarrow> step c Stop_request (stop_request c)"
| done_step: "stopping c \<Longrightarrow> step c Stop_done (stop_done c)"
| clear_step: "\<not> stopping c \<Longrightarrow> step c Clear (snd (clear_log c))"
| begin_step: "map_of (workers c) t = Some Fresh \<Longrightarrow> step c (Begin t) (begin_run t c)"
| open_step: "map_of (workers c) t = Some Opening \<Longrightarrow> step c (Open t ok) (open_log t ok c)"
| check_step: "map_of (workers c) t = Some (Looping i) \<Longrightarrow> step c (Check t) (check_stop t i c)"
| poll_step: "map_of (workers c) t = Some (Polling i) \<Longrightarrow> step c (Poll t r) (poll t i r c)"
| count_step: "map_of (workers c) t = Some (Wrote i n) \<Longrightarrow> step c (Count t) (add_total t i n c)"

inductive runs :: "capture \<Rightarrow> action list \<Rightarrow> capture \<Rightarrow> bool" where
  runs_Nil: "runs c [] c"
| runs_Cons: "step c a c' \<Longrightarrow> runs c' as d \<Longrightarrow> runs c (a # as) d"

inductive_cases step_StartE: "step c (Start trunc env time) c'"
inductive_cases step_DoneE: "step c Stop_done c'"

inductive_simps runs_Nil_iff [simp]: "runs c [] d"
inductive_simps runs_Cons_iff: "runs c (a # as) d"

text \<open>The same as a function: the state after an action, if it can happen.\<close>

fun act :: "action \<Rightarrow> capture \<Rightarrow> capture option" where
  "act (Start trunc env time) c = (if stopping c then None else Some (snd (start trunc env time c)))"
| "act Stop_request c = (if stopping c then None else Some (stop_request c))"
| "act Stop_done c = (if stopping c then Some (stop_done c) else None)"
| "act Clear c = (if stopping c then None else Some (snd (clear_log c)))"
| "act (Begin t) c = (if map_of (workers c) t = Some Fresh then Some (begin_run t c) else None)"
| "act (Open t ok) c = (if map_of (workers c) t = Some Opening then Some (open_log t ok c) else None)"
| "act (Check t) c = (case map_of (workers c) t of Some (Looping i) \<Rightarrow> Some (check_stop t i c) | _ \<Rightarrow> None)"
| "act (Poll t r) c = (case map_of (workers c) t of Some (Polling i) \<Rightarrow> Some (poll t i r c) | _ \<Rightarrow> None)"
| "act (Count t) c = (case map_of (workers c) t of Some (Wrote i n) \<Rightarrow> Some (add_total t i n c) | _ \<Rightarrow> None)"

lemma step_iff_act: "step c a c' \<longleftrightarrow> act a c = Some c'"
proof
  show "act a c = Some c'" if "step c a c'" using that by cases auto
  show "step c a c'" if "act a c = Some c'"
    using that by (cases a) (auto intro: step.intros split: if_splits option.splits phase.splits)
qed

section \<open>The contract of a capture\<close>

text \<open>
  The log as a client sees it, with no thread and no inode: whether a capture runs, whether it was told to stop,
  the file at the log's path (absent or its content), and how many bytes were read since the last start.
  \<open>spec_act\<close> says what each action does to it; what the port delivers is appended, once and in order.
\<close>

record log_spec =
  a_running :: bool
  a_stop :: bool
  a_log :: "string option"
  a_count :: nat

definition old_log :: "log_spec \<Rightarrow> string" where
  "old_log a = (case a_log a of None \<Rightarrow> [] | Some l \<Rightarrow> l)"

definition spec_start :: "bool \<Rightarrow> start_env \<Rightarrow> log_spec \<Rightarrow> log_spec" where
  "spec_start trunc env a =
     (let unlinks = (trunc \<and> a_log a \<noteq> None);
          prepared = (mkdir_err env = None \<and> (unlinks \<longrightarrow> unlink_err env = None))
      in \<lparr>a_running = (prepared \<and> open_err env = None \<and> reset_err env = None), a_stop = False,
          a_log = (if prepared \<and> unlinks then None else a_log a), a_count = 0\<rparr>)"

fun spec_poll :: "polled \<Rightarrow> log_spec \<Rightarrow> log_spec" where
  "spec_poll Nothing a = a"
| "spec_poll (Data d) a = a\<lparr>a_log := Some (old_log a @ d), a_count := a_count a + length d\<rparr>"
| "spec_poll (Port_error m) a = a\<lparr>a_running := False\<rparr>"
| "spec_poll (Write_fails d) a = a\<lparr>a_running := False, a_log := Some (old_log a @ d)\<rparr>"

fun spec_act :: "action \<Rightarrow> log_spec \<Rightarrow> log_spec" where
  "spec_act (Start trunc env time) a = (if a_running a then a else spec_start trunc env a)"
| "spec_act Stop_request a = a\<lparr>a_stop := True\<rparr>"
| "spec_act Stop_done a = a"
| "spec_act Clear a = (if a_running a then a else a\<lparr>a_log := None, a_count := 0\<rparr>)"
| "spec_act (Begin t) a = a"
| "spec_act (Open t ok) a = (if ok then a\<lparr>a_log := Some (old_log a)\<rparr> else a\<lparr>a_running := False\<rparr>)"
| "spec_act (Check t) a = (if a_stop a then a\<lparr>a_running := False\<rparr> else a)"
| "spec_act (Poll t r) a = spec_poll r a"
| "spec_act (Count t) a = a"

text \<open>Runs in which every \<^verbatim>\<open>stop\<close> has seen its thread end, which is what the join waits for.\<close>

inductive joined_runs :: "capture \<Rightarrow> action list \<Rightarrow> capture \<Rightarrow> bool" where
  joined_Nil: "joined_runs c [] c"
| joined_Cons: "step c a c' \<Longrightarrow> (a = Stop_done \<Longrightarrow> \<not> running c) \<Longrightarrow> joined_runs c' as d \<Longrightarrow>
     joined_runs c (a # as) d"

fun phase_inode :: "phase \<Rightarrow> nat option" where
  "phase_inode (Looping i) = Some i"
| "phase_inode (Polling i) = Some i"
| "phase_inode (Wrote i n) = Some i"
| "phase_inode _ = None"

fun uncounted :: "phase \<Rightarrow> nat" where
  "uncounted (Wrote i n) = n"
| "uncounted _ = 0"

definition single_reader :: "capture \<Rightarrow> bool" where
  "single_reader c \<longleftrightarrow>
     (case workers c of
        [] \<Rightarrow> True
      | [(t, p)] \<Rightarrow> thread c = Some t \<and> ser_open c \<and> (phase_inode p = None \<or> phase_inode p = log_inode c)
      | _ \<Rightarrow> False)
     \<and> (\<forall>i. log_inode c = Some i \<longrightarrow> i < length (inodes c))"

definition abs_log :: "capture \<Rightarrow> log_spec" where
  "abs_log c = \<lparr>a_running = running c, a_stop = stop_set c, a_log = map_option (\<lambda>i. inodes c ! i) (log_inode c),
     a_count = total_bytes c + (case workers c of [(t, p)] \<Rightarrow> uncounted p | _ \<Rightarrow> 0)\<rparr>"

lemma single_reader_cases:
  assumes "single_reader c"
  obtains "workers c = []" | t p where "workers c = [(t, p)]" "thread c = Some t"
      "phase_inode p = None \<or> phase_inode p = log_inode c"
  using assms unfolding single_reader_def by (cases "workers c"; cases "tl (workers c)") auto

lemmas capture_defs = start_def stop_request_def stop_done_def clear_log_def set_phase_def die_def finish_def
  begin_run_def open_log_def check_stop_def append_to_def add_total_def running_def log_text_def Let_def

lemmas reader_defs = single_reader_def abs_log_def old_log_def running_def

text \<open>The reader that \<open>map_of\<close> finds is the only one.\<close>

lemma single_reader_found:
  assumes "single_reader c" "map_of (workers c) t = Some p"
  shows "workers c = [(t, p)]" "thread c = Some t" "ser_open c"
    and "phase_inode p = None \<or> phase_inode p = log_inode c"
    and "\<forall>i. log_inode c = Some i \<longrightarrow> i < length (inodes c)"
proof -
  have "workers c = [(t, p)]"
    by (rule single_reader_cases [OF assms(1)]) (use assms(2) in \<open>auto split: if_splits\<close>)
  then show "workers c = [(t, p)]" "thread c = Some t" "ser_open c" "phase_inode p = None \<or> phase_inode p = log_inode c"
    using assms(1) by (simp_all add: single_reader_def)
  show "\<forall>i. log_inode c = Some i \<longrightarrow> i < length (inodes c)"
    using assms(1) by (simp add: single_reader_def)
qed

lemma no_reader: "single_reader c \<Longrightarrow> \<not> running c \<Longrightarrow> workers c = []"
  by (auto elim!: single_reader_cases simp: running_def)

lemma start_refines:
  assumes "single_reader c"
  shows "single_reader (snd (start trunc env time c)) \<and>
     abs_log (snd (start trunc env time c)) = spec_act (Start trunc env time) (abs_log c)"
proof (cases "running c")
  case True
  then show ?thesis using assms by (simp add: start_def abs_log_def)
next
  case False
  have w: "workers c = []" by (rule no_reader [OF assms False])
  have "\<forall>i. log_inode c = Some i \<longrightarrow> i < length (inodes c)" using assms by (simp add: single_reader_def)
  with w False show ?thesis
    by (cases "mkdir_err env"; cases "unlink_err env"; cases "open_err env"; cases "reset_err env"; cases "log_inode c")
      (auto simp: start_def spec_start_def single_reader_def abs_log_def running_def Let_def split: option.splits)
qed

lemma loop_step_refines:
  assumes "single_reader c" "act a c = Some c'" "a = Stop_done \<Longrightarrow> \<not> running c"
    and "a \<in> {Stop_request, Stop_done, Clear}"
  shows "single_reader c' \<and> abs_log c' = spec_act a (abs_log c)"
proof -
  consider "a = Stop_request" | "a = Stop_done" "\<not> running c" "workers c = []"
    | "a = Clear" "running c" | "a = Clear" "\<not> running c" "workers c = []"
    using assms(3,4) no_reader [OF assms(1)] by blast
  then show ?thesis
    by cases (use assms(1,2) in \<open>auto simp: single_reader_def abs_log_def stop_request_def stop_done_def clear_log_def
      split: if_splits list.splits\<close>)
qed

lemma poll_refines:
  assumes "single_reader c" "map_of (workers c) t = Some (Polling i)"
  shows "single_reader (poll t i r c) \<and> abs_log (poll t i r c) = spec_poll r (abs_log c)"
proof -
  note f = single_reader_found [OF assms]
  have l: "log_inode c = Some i" "i < length (inodes c)" using f(4,5) by auto
  show ?thesis
    using f l by (cases r) (auto simp: reader_defs set_phase_def finish_def die_def append_to_def)
qed

lemma worker_step_refines:
  assumes "single_reader c" "step c a c'"
    and "a \<notin> {Stop_request, Stop_done, Clear}" "\<And>trunc env time. a \<noteq> Start trunc env time"
  shows "single_reader c' \<and> abs_log c' = spec_act a (abs_log c)"
  using assms(2)
proof cases
  case (begin_step t)
  note f = single_reader_found [OF assms(1) begin_step(3)]
  show ?thesis using f begin_step by (simp add: reader_defs begin_run_def set_phase_def)
next
  case (open_step t ok)
  note f = single_reader_found [OF assms(1) open_step(3)]
  show ?thesis using f open_step
    by (cases ok; cases "log_inode c") (auto simp: reader_defs open_log_def set_phase_def finish_def die_def)
next
  case (check_step t i)
  note f = single_reader_found [OF assms(1) check_step(3)]
  show ?thesis using f check_step
    by (auto simp: reader_defs check_stop_def set_phase_def finish_def die_def)
next
  case (poll_step t i r)
  then show ?thesis using poll_refines [OF assms(1)] by simp
next
  case (count_step t i n)
  note f = single_reader_found [OF assms(1) count_step(3)]
  show ?thesis using f count_step by (auto simp: reader_defs add_total_def set_phase_def)
qed (use assms(3,4) in auto)

lemma step_refines:
  assumes "single_reader c" "step c a c'" "a = Stop_done \<Longrightarrow> \<not> running c"
  shows "single_reader c' \<and> abs_log c' = spec_act a (abs_log c)"
proof -
  consider trunc env time where "a = Start trunc env time" | "a \<in> {Stop_request, Stop_done, Clear}"
    | "a \<notin> {Stop_request, Stop_done, Clear}" "\<And>trunc env time. a \<noteq> Start trunc env time" by blast
  then show ?thesis
  proof cases
    case (1 trunc env time)
    then show ?thesis using start_refines [OF assms(1)] assms(2) by (auto simp: step_iff_act split: if_splits)
  next
    case 2
    then show ?thesis using loop_step_refines [OF assms(1) _ assms(3)] assms(2) by (simp add: step_iff_act)
  next
    case 3
    then show ?thesis using worker_step_refines [OF assms(1,2)] by blast
  qed
qed

lemma joined_runs_refine:
  "joined_runs c as d \<Longrightarrow> single_reader c \<Longrightarrow> single_reader d \<and> abs_log d = fold spec_act as (abs_log c)"
proof (induction rule: joined_runs.induct)
  case (joined_Cons c a c' as d)
  from step_refines [OF joined_Cons(5,1)] joined_Cons(2)
  have "single_reader c'" "abs_log c' = spec_act a (abs_log c)" by blast+
  with joined_Cons(4) show ?case by simp
qed simp

definition fresh_log :: log_spec where
  "fresh_log = \<lparr>a_running = False, a_stop = False, a_log = None, a_count = 0\<rparr>"

lemma new_capture_reader: "single_reader (new_capture tgt ch port baud path)"
    "abs_log (new_capture tgt ch port baud path) = fresh_log"
  by (simp_all add: single_reader_def abs_log_def new_capture_def running_def fresh_log_def)


lemma spec_act_count: "a_count a \<le> length (old_log a) \<Longrightarrow> a_count (spec_act x a) \<le> length (old_log (spec_act x a))"
proof (cases x)
  case (Poll t r)
  assume "a_count a \<le> length (old_log a)"
  then show ?thesis using Poll by (cases r) (auto simp: old_log_def)
qed (auto simp: spec_start_def old_log_def Let_def)

lemma spec_count: "a_count a \<le> length (old_log a) \<Longrightarrow> a_count (fold spec_act as a) \<le> length (old_log (fold spec_act as a))"
  by (induction as arbitrary: a) (simp_all add: spec_act_count)

lemma old_log_abs: "old_log (abs_log c) = log_text c"
  by (simp add: old_log_def abs_log_def log_text_def split: option.split)

text \<open>The count that the tools report never exceeds the size of the log.\<close>

theorem total_within_log:
  assumes "joined_runs (new_capture tgt ch port baud path) as d"
  shows "int (total_bytes d) \<le> file_size d"
proof -
  have "abs_log d = fold spec_act as fresh_log"
    using joined_runs_refine [OF assms new_capture_reader(1)] by (simp add: new_capture_reader)
  then have "a_count (abs_log d) \<le> length (old_log (abs_log d))"
    using spec_count [of fresh_log as] by (simp add: fresh_log_def old_log_def)
  then have "a_count (abs_log d) \<le> length (log_text d)" by (simp add: old_log_abs)
  then show ?thesis by (simp add: abs_log_def file_size_def)
qed

section \<open>Runs\<close>

definition demo_capture :: capture where
  "demo_capture = new_capture ''x5000'' ''uboot'' ''COM7'' 115200 ''logs/serial/x5000_uboot.log''"

definition demo_run :: "action list" where
  "demo_run = [Start True no_errors 5, Begin 0, Open 0 True, Check 0, Poll 0 (Data ''U-Boot''), Count 0, Check 0,
     Stop_request, Poll 0 Nothing, Check 0, Stop_done]"

lemma joined_runs_act:
  "joined_runs c [] d \<longleftrightarrow> d = c"
  "joined_runs c (a # as) d \<longleftrightarrow>
     (\<exists>c'. act a c = Some c' \<and> (a = Stop_done \<longrightarrow> \<not> running c) \<and> joined_runs c' as d)"
  by (subst joined_runs.simps; auto simp: step_iff_act)+

lemma demo_run_joined:
  "\<exists>d. joined_runs demo_capture demo_run d \<and> total_bytes d = 6 \<and> log_text d = ''U-Boot'' \<and> workers d = []"
  by (simp add: demo_capture_def demo_run_def joined_runs_act new_capture_def no_errors_def capture_defs)


theorem total_within_log_witness:
  "\<exists>d. joined_runs demo_capture demo_run d \<and> total_bytes d = 6 \<and> 6 \<le> file_size d"
proof -
  obtain d where d: "joined_runs demo_capture demo_run d" "total_bytes d = 6"
    using demo_run_joined by blast
  from total_within_log [OF d(1) [unfolded demo_capture_def]] d show ?thesis by force
qed

text \<open>
  When the join times out, \<^verbatim>\<open>stop\<close> forgets a thread that is still alive; the next \<^verbatim>\<open>start\<close> clears the
  stop event, and two threads go on appending to one log.
\<close>

fun run_acts :: "action list \<Rightarrow> capture \<Rightarrow> capture option" where
  "run_acts [] c = Some c"
| "run_acts (a # as) c = (case act a c of None \<Rightarrow> None | Some d \<Rightarrow> run_acts as d)"

lemma run_acts_runs: "run_acts as c = Some d \<Longrightarrow> runs c as d"
  by (induction as arbitrary: c) (auto simp: step_iff_act intro: runs.intros split: option.splits)

definition timed_out_stop :: "action list" where
  "timed_out_stop = [Start False no_errors 1, Begin 0, Open 0 True, Check 0, Stop_request, Stop_done,
     Start False no_errors 2, Begin 1, Open 1 True, Poll 0 (Data ''a''), Count 0, Check 0, Check 1,
     Poll 1 (Data ''b''), Poll 0 (Data ''c'')]"

theorem timed_out_stop_leaves_two_readers:
  "\<exists>d. runs demo_capture timed_out_stop d \<and> map fst (workers d) = [1, 0] \<and> log_text d = ''abc''"
proof -
  have "map_option (\<lambda>d. (map fst (workers d), log_text d)) (run_acts timed_out_stop demo_capture) = Some ([1, 0], ''abc'')"
    by (simp add: timed_out_stop_def demo_capture_def new_capture_def no_errors_def capture_defs)
  then show ?thesis by (auto intro: run_acts_runs)
qed

end
