(* ===== verification/SerialTools.thy ===== *)
theory SerialTools
  imports Serial
begin

text \<open>
  The registry of captures (\<^verbatim>\<open>SerialCaptureRegistry\<close>) and the \<^verbatim>\<open>serial.*\<close> tools on it
  (\<^verbatim>\<open>tools/serial.py\<close>).  A tool gets the registry and returns it updated.  What the reader thread
  does while \<^verbatim>\<open>serial.stop\<close> waits for it is the argument \<open>meanwhile\<close>.
\<close>

section \<open>The registry\<close>

type_synonym captures = "((string \<times> string) \<times> capture) list"

definition log_path_for :: "string \<Rightarrow> string \<Rightarrow> string \<Rightarrow> string" where
  "log_path_for root tgt ch = root @ ''/serial/'' @ tgt @ ''_'' @ ch @ ''.log''"

definition get_or_create :: "string \<Rightarrow> string \<Rightarrow> string \<Rightarrow> string \<Rightarrow> int \<Rightarrow> captures \<Rightarrow> capture \<times> captures" where
  "get_or_create root tgt ch port baud caps =
     (let cap = (case map_of caps (tgt, ch) of
          None \<Rightarrow> new_capture tgt ch port baud (log_path_for root tgt ch)
        | Some c \<Rightarrow> c\<lparr>c_port := port, c_baud := baud\<rparr>)
      in (cap, AList.update (tgt, ch) cap caps))"

definition remove_capture :: "string \<Rightarrow> string \<Rightarrow> captures \<Rightarrow> captures" where
  "remove_capture tgt ch caps = AList.delete (tgt, ch) caps"

section \<open>The channel of a target\<close>

text \<open>\<^verbatim>\<open>getattr(channels, name, None)\<close> that is a serial channel: only the two declared ones can be.\<close>

definition serial_channel_named :: "channels \<Rightarrow> string \<Rightarrow> serial_channel option" where
  "serial_channel_named chs name =
     (if name = ''uboot'' then chan_uboot chs else if name = ''mcu'' then chan_mcu chs else None)"

definition channel_config :: "config \<Rightarrow> string \<Rightarrow> string \<Rightarrow> exn + serial_channel" where
  "channel_config cfg tgt name =
     ebnd (target_config cfg tgt) (\<lambda>t.
       let no_channel = RpcErr NotCapable (''target '' @ py_repr tgt @ '' has no enabled serial channel '' @ py_repr name)
             (Some (JObj [(''target'', JStr tgt), (''channel'', JStr name), (''configured_channels'',
                JArr (map JStr (filter (\<lambda>n. serial_channel_named (channels t) n \<noteq> None) [''uboot'', ''mcu''])))]))
       in case serial_channel_named (channels t) name of
            None \<Rightarrow> Inl no_channel
          | Some ch \<Rightarrow>
              if \<not> serial_enabled ch then Inl no_channel
              else if serial_port ch = []
              then Inl (RpcErr InvalidParams (''channel '' @ py_repr name @ '' on '' @ py_repr tgt @ '' has no port set in config'')
                     (Some (JObj [(''target'', JStr tgt), (''channel'', JStr name)])))
              else Inr ch)"

section \<open>The tools\<close>

record start_result =
  sr_port :: string
  sr_baud :: int
  sr_log_path :: string
  sr_was_running :: bool
  sr_truncated :: bool

definition serial_start ::
    "config \<Rightarrow> string \<Rightarrow> string \<Rightarrow> bool \<Rightarrow> start_env \<Rightarrow> int \<Rightarrow> captures \<Rightarrow> (exn + start_result) \<times> captures" where
  "serial_start cfg tgt name trunc env time caps =
     (case channel_config cfg tgt name of
        Inl e \<Rightarrow> (Inl e, caps)
      | Inr ch \<Rightarrow>
          let (cap, caps1) = get_or_create (log_dir (server cfg)) tgt name (serial_port ch) (serial_baud ch) caps;
              was = running cap;
              res = \<lparr>sr_port = serial_port ch, sr_baud = serial_baud ch, sr_log_path = c_path cap,
                     sr_was_running = was, sr_truncated = (trunc \<and> \<not> was)\<rparr>
          in if was then (Inr res, caps1)
             else case start trunc env time cap of
                    (Inl e, cap') \<Rightarrow> (Inl e, AList.update (tgt, name) cap' caps1)
                  | (Inr _, cap') \<Rightarrow> (Inr res, AList.update (tgt, name) cap' caps1))"

record stop_result =
  st_stopped :: bool
  st_total :: int
  st_duration :: int

definition serial_stop ::
    "string \<Rightarrow> string \<Rightarrow> (capture \<Rightarrow> capture) \<Rightarrow> int \<Rightarrow> captures \<Rightarrow> stop_result \<times> captures" where
  "serial_stop tgt name meanwhile time caps =
     (case map_of caps (tgt, name) of
        None \<Rightarrow> (\<lparr>st_stopped = False, st_total = 0, st_duration = 0\<rparr>, caps)
      | Some c \<Rightarrow>
          if \<not> running c then (\<lparr>st_stopped = False, st_total = int (total_bytes c), st_duration = 0\<rparr>, caps)
          else (\<lparr>st_stopped = True, st_total = int (total_bytes c), st_duration = max 0 (time - started_at c)\<rparr>,
                AList.update (tgt, name) (stop_done (meanwhile (stop_request c))) caps))"

definition serial_status :: "string option \<Rightarrow> string option \<Rightarrow> captures \<Rightarrow> capture list" where
  "serial_status tgt name caps = filter (\<lambda>c.
     (case tgt of None \<Rightarrow> True | Some t \<Rightarrow> t = [] \<or> c_target c = t) \<and>
     (case name of None \<Rightarrow> True | Some n \<Rightarrow> n = [] \<or> c_channel c = n)) (map snd caps)"

text \<open>The capture a reading tool works on; it is made when there is none yet.\<close>

definition capture_for :: "config \<Rightarrow> string \<Rightarrow> string \<Rightarrow> captures \<Rightarrow> exn + capture \<times> captures" where
  "capture_for cfg tgt name caps = (case map_of caps (tgt, name) of
       Some c \<Rightarrow> Inr (c, caps)
     | None \<Rightarrow> ebnd (channel_config cfg tgt name) (\<lambda>ch.
         Inr (get_or_create (log_dir (server cfg)) tgt name (serial_port ch) (serial_baud ch) caps)))"

record read_page =
  bytes_b64 :: string
  page_offset :: int
  next_offset :: int
  page_file_size :: int
  page_running :: bool

definition max_page :: int where
  "max_page = 4 * 1024 * 1024"

definition page_of :: "int \<Rightarrow> int \<Rightarrow> capture \<Rightarrow> read_page" where
  "page_of offset max_bytes c = (let d = read_at offset max_bytes c in
     \<lparr>bytes_b64 = b64encode d, page_offset = offset, next_offset = offset + int (length d),
      page_file_size = file_size c, page_running = running c\<rparr>)"

definition serial_read :: "config \<Rightarrow> string \<Rightarrow> string \<Rightarrow> int \<Rightarrow> int \<Rightarrow> captures \<Rightarrow> (exn + read_page) \<times> captures" where
  "serial_read cfg tgt name offset max_bytes caps =
     (case capture_for cfg tgt name caps of
        Inl e \<Rightarrow> (Inl e, caps)
      | Inr (c, caps1) \<Rightarrow>
          let m = (if max_bytes \<le> 0 \<or> max_bytes > max_page then 65536 else max_bytes)
          in (Inr (page_of offset m c), caps1))"

definition serial_tail :: "config \<Rightarrow> string \<Rightarrow> string \<Rightarrow> int \<Rightarrow> captures \<Rightarrow> (exn + read_page) \<times> captures" where
  "serial_tail cfg tgt name max_bytes caps =
     (case capture_for cfg tgt name caps of
        Inl e \<Rightarrow> (Inl e, caps)
      | Inr (c, caps1) \<Rightarrow>
          let m = (if max_bytes \<le> 0 \<or> max_bytes > max_page then 8192 else max_bytes)
          in (Inr (page_of (max 0 (file_size c - m)) m c), caps1))"

definition serial_clear :: "config \<Rightarrow> string \<Rightarrow> string \<Rightarrow> captures \<Rightarrow> (exn + capture) \<times> captures" where
  "serial_clear cfg tgt name caps =
     (case capture_for cfg tgt name caps of
        Inl e \<Rightarrow> (Inl e, caps)
      | Inr (c, caps1) \<Rightarrow>
          if running c
          then (Inl (RpcErr InvalidParams ''cannot clear log while capture is running; stop first''
                 (Some (JObj [(''target'', JStr tgt), (''channel'', JStr name)]))), caps1)
          else (case clear_log c of
                  (Inl e, c') \<Rightarrow> (Inl e, AList.update (tgt, name) c' caps1)
                | (Inr _, c') \<Rightarrow> (Inr c', AList.update (tgt, name) c' caps1)))"

section \<open>Every capture has its own log\<close>

definition caps_ok :: "string \<Rightarrow> captures \<Rightarrow> bool" where
  "caps_ok root caps \<longleftrightarrow> distinct (map fst caps) \<and>
     (\<forall>t n c. map_of caps (t, n) = Some c \<longrightarrow>
        n \<in> {''uboot'', ''mcu''} \<and> c_target c = t \<and> c_channel c = n \<and> c_path c = log_path_for root t n)"

lemma caps_ok_update:
  assumes "caps_ok root caps" "n \<in> {''uboot'', ''mcu''}"
    and "c_target c = t" "c_channel c = n" "c_path c = log_path_for root t n"
  shows "caps_ok root (AList.update (t, n) c caps)"
  using assms by (auto simp: caps_ok_def update_lookup distinct_update)

lemma caps_okD:
  assumes "caps_ok root caps" "map_of caps (t, n) = Some c"
  shows "n \<in> {''uboot'', ''mcu''}" "c_target c = t" "c_channel c = n" "c_path c = log_path_for root t n"
  using assms by (auto simp: caps_ok_def)

lemma channel_config_name: "channel_config cfg tgt name = Inr ch \<Longrightarrow> name \<in> {''uboot'', ''mcu''}"
  by (auto simp: channel_config_def ebnd_Inr serial_channel_named_def Let_def split: if_splits option.splits)

lemma get_or_create_ok:
  assumes "caps_ok root caps" "n \<in> {''uboot'', ''mcu''}" "get_or_create root t n port baud caps = (c, caps')"
  shows "caps_ok root caps'" "c_target c = t" "c_channel c = n" "c_path c = log_path_for root t n"
proof -
  have "c_target c = t \<and> c_channel c = n \<and> c_path c = log_path_for root t n"
  proof (cases "map_of caps (t, n)")
    case None
    then show ?thesis using assms(3) by (auto simp: get_or_create_def new_capture_def Let_def)
  next
    case (Some d)
    show ?thesis using assms(3) Some caps_okD(2-4) [OF assms(1) Some]
      by (simp add: get_or_create_def Let_def del: map_of_eq_Some_iff) auto
  qed
  then show c: "c_target c = t" "c_channel c = n" "c_path c = log_path_for root t n" by auto
  have "caps' = AList.update (t, n) c caps" using assms(3) by (auto simp: get_or_create_def Let_def)
  then show "caps_ok root caps'" using caps_ok_update [OF assms(1,2) c] by simp
qed

lemma start_names [simp]:
  "start trunc env time c = (r, c') \<Longrightarrow> c_target c' = c_target c \<and> c_channel c' = c_channel c \<and> c_path c' = c_path c"
  by (auto simp: start_def Let_def split: if_splits option.splits)

lemma clear_names [simp]:
  "clear_log c = (r, c') \<Longrightarrow> c_target c' = c_target c \<and> c_channel c' = c_channel c \<and> c_path c' = c_path c"
  by (auto simp: clear_log_def split: if_splits)

lemma capture_for_ok:
  assumes "caps_ok (log_dir (server cfg)) caps" "capture_for cfg t n caps = Inr (c, caps')"
  shows "caps_ok (log_dir (server cfg)) caps'" "n \<in> {''uboot'', ''mcu''}"
    "c_target c = t" "c_channel c = n" "c_path c = log_path_for (log_dir (server cfg)) t n"
proof -
  have "caps_ok (log_dir (server cfg)) caps' \<and> n \<in> {''uboot'', ''mcu''} \<and> c_target c = t \<and> c_channel c = n
      \<and> c_path c = log_path_for (log_dir (server cfg)) t n"
  proof (cases "map_of caps (t, n)")
    case None
    with assms(2) obtain ch where ch: "channel_config cfg t n = Inr ch"
        "get_or_create (log_dir (server cfg)) t n (serial_port ch) (serial_baud ch) caps = (c, caps')"
      by (auto simp: capture_for_def ebnd_Inr)
    show ?thesis using get_or_create_ok [OF assms(1) channel_config_name [OF ch(1)] ch(2)] channel_config_name [OF ch(1)]
      by blast
  next
    case (Some d)
    with assms show ?thesis using caps_okD [OF assms(1)] by (auto simp: capture_for_def)
  qed
  then show "caps_ok (log_dir (server cfg)) caps'" "n \<in> {''uboot'', ''mcu''}"
    "c_target c = t" "c_channel c = n" "c_path c = log_path_for (log_dir (server cfg)) t n" by blast+
qed

lemma start_tool_ok:
  assumes "caps_ok (log_dir (server cfg)) caps"
  shows "caps_ok (log_dir (server cfg)) (snd (serial_start cfg t n trunc env time caps))"
proof (cases "channel_config cfg t n")
  case (Inr ch)
  obtain c caps1 where g: "get_or_create (log_dir (server cfg)) t n (serial_port ch) (serial_baud ch) caps = (c, caps1)"
    by force
  note name = channel_config_name [OF Inr]
  note ok = get_or_create_ok [OF assms name g]
  obtain r c' where st: "start trunc env time c = (r, c')" by force
  have "caps_ok (log_dir (server cfg)) (AList.update (t, n) c' caps1)"
    by (rule caps_ok_update [OF ok(1) name]) (use start_names [OF st] ok in auto)
  then show ?thesis using Inr g ok(1) st by (auto simp: serial_start_def Let_def split: sum.splits)
qed (simp add: serial_start_def assms)

lemma clear_tool_ok:
  assumes "caps_ok (log_dir (server cfg)) caps"
  shows "caps_ok (log_dir (server cfg)) (snd (serial_clear cfg t n caps))"
proof (cases "capture_for cfg t n caps")
  case (Inr p)
  obtain c caps1 where g: "capture_for cfg t n caps = Inr (c, caps1)" using Inr by (cases p) auto
  note ok = capture_for_ok [OF assms g]
  obtain r c' where cl: "clear_log c = (r, c')" by force
  have "caps_ok (log_dir (server cfg)) (AList.update (t, n) c' caps1)"
    by (rule caps_ok_update [OF ok(1,2)]) (use clear_names [OF cl] ok in auto)
  then show ?thesis using g ok(1) cl by (auto simp: serial_clear_def Let_def split: sum.splits)
qed (simp add: serial_clear_def assms)

lemma own_logs:
  assumes "caps_ok root caps" "map_of caps (t, n) = Some c" "map_of caps (u, m) = Some d" "c_path c = c_path d"
  shows "(t, n) = (u, m)"
proof -
  have eq: "t @ ''_'' @ n @ ''.log'' = u @ ''_'' @ m @ ''.log''"
    using caps_okD(4) [OF assms(1,2)] caps_okD(4) [OF assms(1,3)] assms(4) by (simp add: log_path_for_def)
  have tm: "n = m \<or> (n = ''uboot'' \<and> m = ''mcu'') \<or> (n = ''mcu'' \<and> m = ''uboot'')"
    using caps_okD(1) [OF assms(1,2)] caps_okD(1) [OF assms(1,3)] by auto
  have two: "a @ ''_uboot.log'' \<noteq> b @ ''_mcu.log''" for a b
  proof
    assume "a @ ''_uboot.log'' = b @ ''_mcu.log''"
    then have "rev (a @ ''_uboot.log'') ! 4 = rev (b @ ''_mcu.log'') ! 4" by (rule arg_cong)
    then show False by simp
  qed
  from tm have "n = m" using eq two [of t u] two [of u t] by auto
  with eq show ?thesis by simp
qed

text \<open>\<open>meanwhile\<close> is any sequence of steps of reader threads.\<close>

definition keeps_names :: "(capture \<Rightarrow> capture) \<Rightarrow> bool" where
  "keeps_names f \<longleftrightarrow> (\<forall>c. c_target (f c) = c_target c \<and> c_channel (f c) = c_channel c \<and> c_path (f c) = c_path c)"

lemma stop_tool_ok:
  assumes "caps_ok root caps" "keeps_names meanwhile"
  shows "caps_ok root (snd (serial_stop t n meanwhile time caps))"
proof (cases "map_of caps (t, n)")
  case (Some c)
  note d = caps_okD [OF assms(1) Some]
  have "caps_ok root (AList.update (t, n) (stop_done (meanwhile (stop_request c))) caps)"
    by (rule caps_ok_update [OF assms(1) d(1)])
      (use d assms(2) in \<open>auto simp: keeps_names_def stop_done_def stop_request_def\<close>)
  then show ?thesis using Some assms(1) by (simp add: serial_stop_def)
qed (simp add: serial_stop_def assms)

theorem serial_tools_keep_own_logs:
  assumes "caps_ok (log_dir (server cfg)) caps" "keeps_names meanwhile"
  shows "caps_ok (log_dir (server cfg)) (snd (serial_start cfg t n trunc env time caps))
    \<and> caps_ok (log_dir (server cfg)) (snd (serial_stop t n meanwhile time caps))
    \<and> caps_ok (log_dir (server cfg)) (snd (serial_read cfg t n offset k caps))
    \<and> caps_ok (log_dir (server cfg)) (snd (serial_tail cfg t n k caps))
    \<and> caps_ok (log_dir (server cfg)) (snd (serial_clear cfg t n caps))
    \<and> (\<forall>t1 n1 c t2 n2 d. map_of caps (t1, n1) = Some c \<longrightarrow> map_of caps (t2, n2) = Some d \<longrightarrow>
         c_path c = c_path d \<longrightarrow> (t1, n1) = (t2, n2))"
proof -
  have read: "caps_ok (log_dir (server cfg)) (snd (serial_read cfg t n offset k caps))"
    "caps_ok (log_dir (server cfg)) (snd (serial_tail cfg t n k caps))"
    using capture_for_ok(1) [OF assms(1)] assms(1)
    by (auto simp: serial_read_def serial_tail_def Let_def split: sum.splits)
  show ?thesis
    using start_tool_ok [OF assms(1)] stop_tool_ok [OF assms] clear_tool_ok [OF assms(1)] read own_logs [OF assms(1)]
    by blast
qed

section \<open>Reading a log page by page\<close>

text \<open>Successive calls of \<^verbatim>\<open>serial.read\<close>, each from the offset the last one gave.\<close>

fun read_on :: "config \<Rightarrow> string \<Rightarrow> string \<Rightarrow> int \<Rightarrow> nat \<Rightarrow> int \<Rightarrow> captures \<Rightarrow> string option" where
  "read_on cfg t n m 0 offset caps = Some []"
| "read_on cfg t n m (Suc k) offset caps =
     (case serial_read cfg t n offset m caps of
        (Inr p, caps1) \<Rightarrow> (case b64decode (bytes_b64 p) of
            Some d \<Rightarrow> map_option (\<lambda>r. d @ r) (read_on cfg t n m k (next_offset p) caps1)
          | None \<Rightarrow> None)
      | _ \<Rightarrow> None)"

lemma read_on_rest:
  assumes "map_of caps (t, n) = Some c" "0 < m" "m \<le> max_page"
  shows "length (drop off (log_text c)) \<le> k * nat m \<Longrightarrow>
    read_on cfg t n m k (int off) caps = Some (drop off (log_text c))"
proof (induction k arbitrary: off)
  case (Suc k)
  let ?d = "take (nat m) (drop off (log_text c))"
  have r: "serial_read cfg t n (int off) m caps = (Inr (page_of (int off) m c), caps)"
    using assms by (simp add: serial_read_def capture_for_def)
  have rest: "read_on cfg t n m k (int (off + length ?d)) caps = Some (drop (off + length ?d) (log_text c))"
    by (rule Suc.IH) (use Suc.prems in auto)
  have "drop (off + length ?d) (log_text c) = drop (nat m) (drop off (log_text c))"
    by (cases "nat m \<le> length (drop off (log_text c))") (auto simp: add.commute min_def)
  then have "?d @ drop (off + length ?d) (log_text c) = drop off (log_text c)" by (metis append_take_drop_id)
  moreover have "bytes_b64 (page_of (int off) m c) = b64encode ?d"
    "next_offset (page_of (int off) m c) = int (off + length ?d)"
    by (simp_all add: page_of_def Let_def read_at_def del: length_take)
  ultimately show ?case using r rest by (simp add: b64decode_encode del: of_nat_add length_take)
qed simp

theorem pages_give_the_log:
  assumes "map_of caps (t, n) = Some c" "0 < m" "m \<le> max_page" "length (log_text c) \<le> k * nat m"
  shows "read_on cfg t n m k 0 caps = Some (log_text c)"
  using read_on_rest [OF assms(1-3), of 0] assms(4) by simp

section \<open>A log of one capture\<close>

definition demo_captures :: captures where
  "demo_captures = [((''x5000'', ''uboot''),
     (new_capture ''x5000'' ''uboot'' ''COM7'' 115200 (log_path_for (log_dir (server empty_config)) ''x5000'' ''uboot''))
       \<lparr>log_inode := Some 0, inodes := [''U-Boot'']\<rparr>)]"

theorem pages_give_the_log_witness: "read_on empty_config ''x5000'' ''uboot'' 4 2 0 demo_captures = Some ''U-Boot''"
proof -
  have "read_on empty_config ''x5000'' ''uboot'' 4 2 0 demo_captures = Some (log_text (snd (hd demo_captures)))"
    by (rule pages_give_the_log) (simp_all add: demo_captures_def max_page_def log_text_def)
  then show ?thesis by (simp add: demo_captures_def log_text_def)
qed

theorem serial_tools_keep_own_logs_witness:
  "caps_ok (log_dir (server empty_config)) (snd (serial_clear empty_config ''x5000'' ''uboot'' demo_captures))
    \<and> snd (serial_clear empty_config ''x5000'' ''uboot'' demo_captures) \<noteq> demo_captures"
proof -
  have "caps_ok (log_dir (server empty_config)) demo_captures"
    by (auto simp: caps_ok_def demo_captures_def new_capture_def split: if_splits)
  moreover have "keeps_names id" by (simp add: keeps_names_def)
  moreover have "snd (serial_clear empty_config ''x5000'' ''uboot'' demo_captures) \<noteq> demo_captures"
    by (simp add: demo_captures_def serial_clear_def capture_for_def clear_log_def running_def new_capture_def)
  ultimately show ?thesis using serial_tools_keep_own_logs [of empty_config demo_captures id] by blast
qed

end
