(* ===== verification/PowerTools.thy ===== *)
theory PowerTools
  imports SerialTools Partial
begin

text \<open>
  The power tools (\<^verbatim>\<open>tools/power.py\<close>) and the driver of the MCU's debug shell on a serial port
  (\<^verbatim>\<open>transports/p18.py\<close>).  Operations on the port are host events; \<open>drain\<close> reads until the line has
  been silent for a while, which it need not be, so it is a least fixed point.  The registry of serial
  captures, which a power tool only looks at, is an argument.
\<close>

section \<open>The debug shell\<close>

definition read_chunk :: "(fleet, string) io" where
  "read_chunk = bnd (host ''serial.read'' [JInt 4096]) (\<lambda>j. ret (case j of JStr s \<Rightarrow> s | _ \<Rightarrow> []))"

definition write_line :: "string \<Rightarrow> (fleet, unit) io" where
  "write_line d = bnd (host ''serial.write'' [JStr (d @ [CHR 0x0D])]) (\<lambda>_. bnd (host ''serial.flush'' []) (\<lambda>_. ret ()))"

text \<open>\<^verbatim>\<open>last\<close> and the result are in microseconds, the span in milliseconds.\<close>

partial_function (option) drain_from ::
    "int \<Rightarrow> int \<Rightarrow> string \<Rightarrow> fleet \<Rightarrow> ((exn + string) \<times> fleet) option" where
  "drain_from idle t0 buf s =
     (case now s of
        (Inl e, s1) \<Rightarrow> Some (Inl e, s1)
      | (Inr t, s1) \<Rightarrow>
          if \<not> t - t0 < 1000 * idle then Some (Inr buf, s1)
          else (case read_chunk s1 of
             (Inl e, s2) \<Rightarrow> Some (Inl e, s2)
           | (Inr chunk, s2) \<Rightarrow>
               if chunk \<noteq> []
               then (case now s2 of
                   (Inl e, s3) \<Rightarrow> Some (Inl e, s3)
                 | (Inr t1, s3) \<Rightarrow> drain_from idle t1 (buf @ chunk) s3)
               else drain_from idle t0 buf (snd (sleep 50 s2))))"

definition drain :: "int \<Rightarrow> (fleet, string) pio" where
  "drain idle = pbnd (always now) (\<lambda>t. drain_from idle t [])"

partial_function (option) capture_from ::
    "int \<Rightarrow> int \<Rightarrow> string \<Rightarrow> fleet \<Rightarrow> ((exn + string) \<times> fleet) option" where
  "capture_from watch t0 buf s =
     (case now s of
        (Inl e, s1) \<Rightarrow> Some (Inl e, s1)
      | (Inr t, s1) \<Rightarrow>
          if \<not> t - t0 < 1000 * watch then Some (Inr buf, s1)
          else (case read_chunk s1 of
             (Inl e, s2) \<Rightarrow> Some (Inl e, s2)
           | (Inr chunk, s2) \<Rightarrow>
               if chunk \<noteq> [] then capture_from watch t0 (buf @ chunk) s2
               else capture_from watch t0 buf (snd (sleep 50 s2))))"

definition open_port :: "string \<Rightarrow> int \<Rightarrow> (fleet, json) io" where
  "open_port port baud = host ''serial.open'' [JStr port, JInt baud]"

definition closing :: "(fleet, 'a) pio \<Rightarrow> (fleet, 'a) pio" where
  "closing m = pfinally m (host ''serial.close'' [])"

definition wake :: "(fleet, unit) pio" where
  "wake = pbnd (drain 300) (\<lambda>_. pbnd (always (write_line [])) (\<lambda>_. pbnd (drain 500) (\<lambda>_. pret ())))"

definition send_blocking :: "string \<Rightarrow> int \<Rightarrow> string \<Rightarrow> int \<Rightarrow> (fleet, string) pio" where
  "send_blocking port baud cmd idle =
     pbnd (always (open_port port baud)) (\<lambda>_. closing (
       pbnd wake (\<lambda>_.
       pbnd (always (lift (ascii_encode cmd))) (\<lambda>c.
       pbnd (always (write_line c)) (\<lambda>_.
       drain idle)))))"

definition stream_capture_blocking :: "string \<Rightarrow> int \<Rightarrow> int \<Rightarrow> (fleet, string) pio" where
  "stream_capture_blocking port baud watch =
     pbnd (always (open_port port baud)) (\<lambda>_. closing (
       pbnd wake (\<lambda>_.
       pbnd (always (write_line ''q'')) (\<lambda>_.
       pbnd (drain 500) (\<lambda>_.
       pbnd (always now) (\<lambda>t0.
       pbnd (capture_from watch t0 []) (\<lambda>buf.
       pbnd (always (write_line ''q'')) (\<lambda>_.
       pbnd (drain 500) (\<lambda>_. pret buf)))))))))"

definition p18_send :: "string \<Rightarrow> int \<Rightarrow> string \<Rightarrow> int \<Rightarrow> (fleet, string) pio" where
  "p18_send port baud cmd idle = pbnd (send_blocking port baud cmd idle) (\<lambda>raw. pret (ascii_replace raw))"

definition p18_stream_capture :: "string \<Rightarrow> int \<Rightarrow> int \<Rightarrow> (fleet, string) pio" where
  "p18_stream_capture port baud watch = pbnd (stream_capture_blocking port baud watch) (\<lambda>raw. pret (ascii_replace raw))"

section \<open>The guards of the tools\<close>

record shell_reply =
  sh_cmd :: string
  sh_port :: string
  sh_baud :: int
  sh_reply :: string
  sh_reply_len :: nat

record stream_capture =
  sc_port :: string
  sc_baud :: int
  sc_watch_ms :: int
  sc_captured_bytes :: nat
  sc_captured :: string

definition resolve_mcu_channel :: "config \<Rightarrow> captures \<Rightarrow> string \<Rightarrow> exn + serial_channel" where
  "resolve_mcu_channel cfg caps tgt =
     ebnd (target_config cfg tgt) (\<lambda>t.
     let none = RpcErr NotCapable
           (''target has no enabled MCU serial channel; configure [targets.<name>.channels.mcu] with `port` and `baud` '' @
            ''(38400 for X5000 P18 / A1222 P15)'') (Some (JObj [(''target'', JStr tgt)])) in
     case chan_mcu (channels t) of
       None \<Rightarrow> Inl none
     | Some ch \<Rightarrow>
         if \<not> serial_enabled ch \<or> serial_port ch = [] then Inl none
         else if (case map_of caps (tgt, ''mcu'') of None \<Rightarrow> False | Some c \<Rightarrow> running c)
         then Inl (RpcErr NotCapable
           (''MCU serial channel is currently being captured by serial.* on this target; stop the capture first via '' @
            ''serial.stop(target=..., channel='' @ [CHR 0x27] @ ''mcu'' @ [CHR 0x27] @ '') before driving power.* commands'')
           (Some (JObj [(''target'', JStr tgt), (''channel'', JStr ''mcu'')])))
         else Inr ch)"

definition power_confirm :: "bool \<Rightarrow> string \<Rightarrow> exn + unit" where
  "power_confirm confirm op = (if confirm then Inr () else
     Inl (RpcErr InvalidParams (''power.'' @ op @ '' requires confirm=True (hardware-destructive)'')
       (Some (JObj [(''hint'', JStr ''pass confirm=True to acknowledge'')]))))"

definition reply_of :: "string \<Rightarrow> serial_channel \<Rightarrow> string \<Rightarrow> shell_reply" where
  "reply_of cmd ch r = \<lparr>sh_cmd = cmd, sh_port = serial_port ch, sh_baud = serial_baud ch, sh_reply = r, sh_reply_len = ulen r\<rparr>"

definition daemon_reachable :: "string \<Rightarrow> int \<Rightarrow> (fleet, bool) io" where
  "daemon_reachable = can_connect"

definition board_presumed_off :: "string \<Rightarrow> string \<Rightarrow> string \<Rightarrow> int \<Rightarrow> exn" where
  "board_presumed_off tgt op h p = RpcErr NotCapable
     (''refusing power.'' @ op @ '': '' @ py_repr tgt @ '' looks powered off (its MCPd endpoint '' @ h @ '':'' @ int_dec p @
      '' is not answering), and any MCU command other than power.on / power.off wedges a cold MCU until the PSU is '' @
      ''switched off at the mains for a minute. Boot the board first with power.on, then query it. '' @
      ''Pass force=True if you know it is powered.'')
     (Some (JObj [(''target'', JStr tgt), (''op'', JStr op), (''reason'', JStr ''board_presumed_off'')]))"

definition refuse_if_board_cold :: "string \<Rightarrow> string \<Rightarrow> bool \<Rightarrow> (fleet, unit) io" where
  "refuse_if_board_cold tgt op force =
     (if force then ret ()
      else bnd (gets f_config) (\<lambda>cfg.
        bnd (lift (target_config cfg tgt)) (\<lambda>t.
        case chan_mcpd (channels t) of
          None \<Rightarrow> ret ()
        | Some ch \<Rightarrow>
            if \<not> enabled ch then ret ()
            else bnd (lift (port_of (chan_endpoint ch))) (\<lambda>p.
              bnd (daemon_reachable (host_of (chan_endpoint ch)) p) (\<lambda>ok.
              if ok then ret () else raise (board_presumed_off tgt op (host_of (chan_endpoint ch)) p))))))"

section \<open>The tools\<close>

text \<open>\<open>op\<close> is the name of the tool, \<open>cmd\<close> what it sends to the shell.\<close>

definition with_channel :: "captures \<Rightarrow> string \<Rightarrow> (serial_channel \<Rightarrow> (fleet, 'a) pio) \<Rightarrow> (fleet, 'a) pio" where
  "with_channel caps tgt f = pbnd (always (gets f_config)) (\<lambda>cfg.
     pbnd (always (lift (resolve_mcu_channel cfg caps tgt))) f)"

definition send_to :: "serial_channel \<Rightarrow> string \<Rightarrow> int \<Rightarrow> (fleet, shell_reply) pio" where
  "send_to ch cmd idle = pbnd (p18_send (serial_port ch) (serial_baud ch) cmd idle) (\<lambda>r. pret (reply_of cmd ch r))"

definition mcu_query :: "string \<Rightarrow> string \<Rightarrow> captures \<Rightarrow> string \<Rightarrow> bool \<Rightarrow> (fleet, shell_reply) pio" where
  "mcu_query op cmd caps tgt force =
     with_channel caps tgt (\<lambda>ch.
     pbnd (always (refuse_if_board_cold tgt op force)) (\<lambda>_.
     send_to ch cmd 1000))"

definition power_help :: "captures \<Rightarrow> string \<Rightarrow> bool \<Rightarrow> (fleet, shell_reply) pio" where
  "power_help = mcu_query ''help'' ''help''"

definition power_identify :: "captures \<Rightarrow> string \<Rightarrow> bool \<Rightarrow> (fleet, shell_reply) pio" where
  "power_identify = mcu_query ''identify'' ''id''"

definition power_identify_dates :: "captures \<Rightarrow> string \<Rightarrow> bool \<Rightarrow> (fleet, shell_reply) pio" where
  "power_identify_dates = mcu_query ''identify_dates'' ''id date''"

definition power_sensors :: "captures \<Rightarrow> string \<Rightarrow> bool \<Rightarrow> (fleet, shell_reply) pio" where
  "power_sensors = mcu_query ''sensors'' ''v''"

definition power_toggle_stream ::
    "captures \<Rightarrow> string \<Rightarrow> int \<Rightarrow> bool \<Rightarrow> bool \<Rightarrow> (fleet, shell_reply + stream_capture) pio" where
  "power_toggle_stream caps tgt watch confirm force =
     pbnd (always (lift (power_confirm confirm ''toggle_stream''))) (\<lambda>_.
     with_channel caps tgt (\<lambda>ch.
     pbnd (always (refuse_if_board_cold tgt ''toggle_stream'' force)) (\<lambda>_.
     if 0 < watch
     then pbnd (p18_stream_capture (serial_port ch) (serial_baud ch) watch) (\<lambda>c.
            pret (Inr \<lparr>sc_port = serial_port ch, sc_baud = serial_baud ch, sc_watch_ms = watch,
                       sc_captured_bytes = ulen c, sc_captured = c\<rparr>))
     else pbnd (send_to ch ''q'' 1000) (\<lambda>r. pret (Inl r)))))"

definition power_on :: "captures \<Rightarrow> string \<Rightarrow> bool \<Rightarrow> (fleet, shell_reply) pio" where
  "power_on caps tgt confirm =
     pbnd (always (lift (power_confirm confirm ''on''))) (\<lambda>_. with_channel caps tgt (\<lambda>ch. send_to ch ''p'' 2000))"

definition power_off :: "captures \<Rightarrow> string \<Rightarrow> bool \<Rightarrow> (fleet, shell_reply) pio" where
  "power_off caps tgt confirm =
     pbnd (always (lift (power_confirm confirm ''off''))) (\<lambda>_. with_channel caps tgt (\<lambda>ch. send_to ch ''s'' 2000))"

definition survives_cold :: "string \<Rightarrow> bool" where
  "survives_cold cmd \<longleftrightarrow> py_lower (strip cmd) \<in> {''p'', ''s''}"

definition power_shell :: "captures \<Rightarrow> string \<Rightarrow> string \<Rightarrow> bool \<Rightarrow> bool \<Rightarrow> (fleet, shell_reply) pio" where
  "power_shell caps tgt cmd confirm force =
     pbnd (always (lift (power_confirm confirm ''shell''))) (\<lambda>_.
     if strip cmd = [] then praise (RpcErr InvalidParams ''cmd must be a non-empty shell command string'' None)
     else with_channel caps tgt (\<lambda>ch.
     pbnd (always (if survives_cold cmd then ret () else refuse_if_board_cold tgt ''shell'' force)) (\<lambda>_.
     send_to ch cmd 1000)))"

end
