(* ===== verification/Power_Correct.thy ===== *)
theory Power_Correct
  imports PowerTools
begin

text \<open>
  What a power tool does to the machine: a session on the port writes the wake-up and the command and
  closes the port again, a board that looks cold is not spoken to, and a line that is never silent
  keeps a call for ever.
\<close>

section \<open>What a call does to the port\<close>

fun received_of :: "event \<times> outcome \<Rightarrow> string" where
  "received_of (Host op args, Inr (JStr s)) = (if op = ''serial.read'' then s else [])"
| "received_of _ = []"

fun written_of :: "event \<times> outcome \<Rightarrow> string list" where
  "written_of (Host op [JStr d], _) = (if op = ''serial.write'' then [d] else [])"
| "written_of _ = []"

definition received :: "(event \<times> outcome) list \<Rightarrow> string" where
  "received es = concat (map received_of es)"

definition written :: "(event \<times> outcome) list \<Rightarrow> string list" where
  "written es = concat (map written_of es)"

lemma received_append [simp]: "received [] = []" "received (e # es) = received_of e @ received es"
    "received (es @ fs) = received es @ received fs"
  by (simp_all add: received_def)

lemma written_append [simp]: "written [] = []" "written (e # es) = written_of e @ written es"
    "written (es @ fs) = written es @ written fs"
  by (simp_all add: written_def)

fun waits :: "event \<times> outcome \<Rightarrow> bool" where
  "waits (Clock, _) \<longleftrightarrow> True"
| "waits (Sleep _, _) \<longleftrightarrow> True"
| "waits (Host op _, _) \<longleftrightarrow> op = ''serial.read''"
| "waits _ \<longleftrightarrow> False"

lemma waits_written: "waits e \<Longrightarrow> written_of e = []"
proof (cases e)
  case (Pair ev out)
  assume "waits e"
  with Pair show ?thesis
  proof (cases ev)
    case (Host op args)
    with Pair \<open>waits e\<close> show ?thesis by (cases "(ev, out)" rule: written_of.cases) auto
  qed auto
qed

definition read_only :: "string \<Rightarrow> fleet \<Rightarrow> (exn + string) \<times> fleet \<Rightarrow> bool" where
  "read_only buf s y \<longleftrightarrow> (\<exists>es. history (snd y) = history s @ es \<and> answer (snd y) = answer s \<and> list_all waits es \<and>
     (\<forall>x. fst y = Inr x \<longrightarrow> x = buf @ received es))"

lemma read_only_trans: "read_only b s (Inr c, s1) \<Longrightarrow> read_only c s1 y \<Longrightarrow> read_only b s y"
  unfolding read_only_def by (metis append.assoc fst_conv list_all_append received_append(3) snd_conv)

lemma read_only_stays: "history s1 = history s @ es \<Longrightarrow> answer s1 = answer s \<Longrightarrow> list_all waits es \<Longrightarrow> received es = [] \<Longrightarrow> read_only b s (Inr b, s1)"
  by (auto simp: read_only_def)

lemma read_only_now: "now s = (Inr t, s1) \<Longrightarrow> read_only b s (Inr b, s1)"
  by (auto simp: now_def intro!: read_only_stays)

lemma read_only_pause: "read_only b s (Inr b, snd (sleep k s))"
  by (auto simp: sleep_def intro!: read_only_stays)

lemma read_only_fails: "read_only b s (Inr b, s1) \<Longrightarrow> read_only b s (Inl e, s1)"
  by (auto simp: read_only_def)

lemma read_only_chunk:
  assumes "read_chunk s = (r, s1)"
  shows "read_only b s (case r of Inl e \<Rightarrow> Inl e | Inr c \<Rightarrow> Inr (b @ c), s1)"
proof -
  let ?e = "Host ''serial.read'' [JInt 4096]" and ?v = "answer s (history s) (Host ''serial.read'' [JInt 4096])"
  from assms have h: "history s1 = history s @ [(?e, ?v)]" "answer s1 = answer s"
    by (auto simp: read_chunk_def host_def bnd_def perform_def ret_def Let_def split: sum.splits)
  from assms have r: "r = (case ?v of Inl e \<Rightarrow> Inl e | Inr _ \<Rightarrow> Inr (received_of (?e, ?v)))"
    by (auto simp: read_chunk_def host_def bnd_def perform_def ret_def Let_def split: sum.splits json.splits)
  show ?thesis
    unfolding read_only_def using h r by (intro exI [of _ "[(?e, ?v)]"]) (auto split: sum.splits)
qed

lemma drain_from_reads:
  assumes "drain_from idle t0 buf s = Some y"
  shows "read_only buf s y"
proof (rule drain_from.raw_induct [where P = "\<lambda>idle t0 buf s y. read_only buf s y", OF _ assms], goal_cases)
  case (1 d idle t0 buf s y)
  obtain t s1 where n: "now s = (Inr t, s1)" by (simp add: now_def)
  obtain r s2 where c: "read_chunk s1 = (r, s2)" by force
  obtain t2 s3 where n2: "now s2 = (Inr t2, s3)" by (simp add: now_def)
  note at = read_only_trans [OF read_only_now [OF n] read_only_chunk [OF c]]
  show ?case
  proof (cases "t - t0 < 1000 * idle")
    case False
    then show ?thesis using 1(2) n read_only_now [OF n] by auto
  next
    case True
    show ?thesis
    proof (cases r)
      case (Inl e)
      then show ?thesis using 1(2) n c True at [of buf] by auto
    next
      case (Inr chunk)
      with at have got: "read_only buf s (Inr (buf @ chunk), s2)" by (metis sum.case(2))
      show ?thesis
      proof (cases "chunk = []")
        case True
        then have "d idle t0 buf (snd (sleep 50 s2)) = Some y" using 1(2) n c Inr \<open>t - t0 < 1000 * idle\<close> by simp
        from read_only_trans [OF _ read_only_trans [OF read_only_pause 1(1) [OF this]]] got True show ?thesis by simp
      next
        case False
        then have "d idle t2 (buf @ chunk) s3 = Some y" using 1(2) n c Inr n2 \<open>t - t0 < 1000 * idle\<close> by simp
        from read_only_trans [OF got read_only_trans [OF read_only_now [OF n2] 1(1) [OF this]]] show ?thesis .
      qed
    qed
  qed
qed

lemma capture_from_reads:
  assumes "capture_from watch t0 buf s = Some y"
  shows "read_only buf s y"
proof (rule capture_from.raw_induct [where P = "\<lambda>watch t0 buf s y. read_only buf s y", OF _ assms], goal_cases)
  case (1 d watch t0 buf s y)
  obtain t s1 where n: "now s = (Inr t, s1)" by (simp add: now_def)
  obtain r s2 where c: "read_chunk s1 = (r, s2)" by force
  note at = read_only_trans [OF read_only_now [OF n] read_only_chunk [OF c]]
  show ?case
  proof (cases "t - t0 < 1000 * watch")
    case False
    then show ?thesis using 1(2) n read_only_now [OF n] by auto
  next
    case True
    show ?thesis
    proof (cases r)
      case (Inl e)
      then show ?thesis using 1(2) n c True at [of buf] by auto
    next
      case (Inr chunk)
      with at have got: "read_only buf s (Inr (buf @ chunk), s2)" by (metis sum.case(2))
      show ?thesis
      proof (cases "chunk = []")
        case True
        then have "d watch t0 buf (snd (sleep 50 s2)) = Some y" using 1(2) n c Inr \<open>t - t0 < 1000 * watch\<close> by simp
        from read_only_trans [OF _ read_only_trans [OF read_only_pause 1(1) [OF this]]] got True show ?thesis by simp
      next
        case False
        then have "d watch t0 (buf @ chunk) s2 = Some y" using 1(2) n c Inr \<open>t - t0 < 1000 * watch\<close> by simp
        from read_only_trans [OF got 1(1) [OF this]] show ?thesis .
      qed
    qed
  qed
qed

lemma drain_reads: "drain idle s = Some y \<Longrightarrow> read_only [] s y"
proof -
  assume d: "drain idle s = Some y"
  obtain t s1 where n: "now s = (Inr t, s1)" by (simp add: now_def)
  with d have "drain_from idle t [] s1 = Some y" by (cases y) (auto simp: drain_def pbnd_def always_def)
  from read_only_trans [OF read_only_now [OF n] drain_from_reads [OF this]] show ?thesis .
qed

section \<open>A session on the port\<close>

fun port_event :: "event \<times> outcome \<Rightarrow> bool" where
  "port_event (Host op args, _) \<longleftrightarrow> op \<in> {''serial.read'', ''serial.write'', ''serial.flush''}"
| "port_event (Clock, _) \<longleftrightarrow> True"
| "port_event (Sleep _, _) \<longleftrightarrow> True"
| "port_event _ \<longleftrightarrow> False"

definition line :: "string \<Rightarrow> string" where
  "line d = d @ [CHR 0x0D]"

definition write_event :: "string \<Rightarrow> event" where
  "write_event d = Host ''serial.write'' [JStr (line d)]"

lemma waits_port: "waits e \<Longrightarrow> port_event e"
  by (cases e rule: waits.cases) auto

definition port_run :: "string list \<Rightarrow> fleet \<Rightarrow> fleet \<Rightarrow> bool" where
  "port_run ws s s' \<longleftrightarrow> (\<exists>es. history s' = history s @ es \<and> answer s' = answer s \<and> list_all port_event es \<and> written es = ws)"

lemma port_run_trans: "port_run ws s s1 \<Longrightarrow> port_run vs s1 s2 \<Longrightarrow> port_run (ws @ vs) s s2"
  unfolding port_run_def by (metis append.assoc list_all_append written_append(3))

lemma read_only_port: "read_only b s (r, s1) \<Longrightarrow> port_run [] s s1"
  unfolding read_only_def port_run_def
  by (auto simp: written_def list_all_iff waits_port waits_written)

lemma drain_port: "drain idle s = Some (r, s1) \<Longrightarrow> port_run [] s s1"
  by (rule read_only_port [OF drain_reads])

lemma received_other [simp]: "op \<noteq> ''serial.read'' \<Longrightarrow> received_of (Host op args, v) = []"
  by (cases "(Host op args, v)" rule: received_of.cases) auto

lemma write_line_run:
  assumes "write_line d s = (r, s1)"
  shows "\<exists>v rest. history s1 = history s @ (write_event d, v) # rest \<and> answer s1 = answer s \<and>
    list_all port_event rest \<and> written rest = [] \<and> received rest = []"
  using assms unfolding write_line_def host_def write_event_def line_def
  by (auto simp: bnd_def perform_def ret_def Let_def split: sum.splits prod.splits)

lemma write_line_port:
  assumes "write_line d s = (r, s1)"
  shows "port_run [line d] s s1"
proof -
  obtain v rest where "history s1 = history s @ (write_event d, v) # rest" "answer s1 = answer s"
    "list_all port_event rest" "written rest = []"
    using write_line_run [OF assms] by blast
  then show ?thesis
    unfolding port_run_def by (intro exI [of _ "(write_event d, v) # rest"]) (auto simp: write_event_def)
qed

lemma wake_port:
  assumes "wake s = Some (r, s1)"
  shows "(isl r \<and> port_run [] s s1) \<or> port_run [line []] s s1"
proof -
  from assms obtain r1 t1 where d: "drain 300 s = Some (r1, t1)"
    and k: "case r1 of Inl e \<Rightarrow> r = Inl e \<and> s1 = t1
      | Inr _ \<Rightarrow> pbnd (always (write_line [])) (\<lambda>_. pbnd (drain 500) (\<lambda>_. pret ())) t1 = Some (r, s1)"
    unfolding wake_def by (fastforce simp: pbnd_Some)
  note p1 = drain_port [OF d]
  show ?thesis
  proof (cases r1)
    case (Inl e)
    then show ?thesis using k p1 by auto
  next
    case (Inr x)
    obtain r2 t2 where w: "write_line [] t1 = (r2, t2)" by force
    have p2: "port_run [line []] s t2" using port_run_trans [OF p1 write_line_port [OF w]] by simp
    from k Inr w have "s1 = t2 \<or> (\<exists>y. drain 500 t2 = Some (y, s1))" by (auto simp: pbnd_Some always_def)
    then show ?thesis using p2 port_run_trans [OF p2 drain_port] by auto
  qed
qed

definition talk :: "string \<Rightarrow> int \<Rightarrow> (fleet, string) pio" where
  "talk cmd idle = pbnd wake (\<lambda>_. pbnd (always (lift (ascii_encode cmd))) (\<lambda>c.
     pbnd (always (write_line c)) (\<lambda>_. drain idle)))"

lemma ascii_encode_Inr: "ascii_encode s = Inr c \<longleftrightarrow> is_ascii s \<and> c = s"
  by (auto simp: ascii_encode_def)

text \<open>What has been written so far, and where the reply starts.\<close>

lemma talk_run:
  assumes "talk cmd idle s = Some (r, s1)"
  shows "\<exists>es k. history s1 = history s @ es \<and> answer s1 = answer s \<and> list_all port_event es \<and>
    written es = take k [line [], line cmd] \<and>
    (\<forall>x. r = Inr x \<longrightarrow> (\<exists>pre v post. es = pre @ (write_event cmd, v) # post \<and> written pre = [line []] \<and> x = received post))"
proof -
  from assms obtain r1 t1 where w: "wake s = Some (r1, t1)"
    and k: "case r1 of Inl e \<Rightarrow> r = Inl e \<and> s1 = t1
      | Inr _ \<Rightarrow> pbnd (always (lift (ascii_encode cmd))) (\<lambda>c. pbnd (always (write_line c)) (\<lambda>_. drain idle)) t1 = Some (r, s1)"
    unfolding talk_def by (fastforce simp: pbnd_Some)
  show ?thesis
  proof (cases r1)
    case (Inl e)
    have "\<exists>j. port_run (take j [line [], line cmd]) s t1"
      using wake_port [OF w] exI [of "\<lambda>j. port_run (take j [line [], line cmd]) s t1" 0]
        exI [of "\<lambda>j. port_run (take j [line [], line cmd]) s t1" 1] by auto
    then show ?thesis using k Inl unfolding port_run_def by auto
  next
    case (Inr u)
    then have p1: "port_run [line []] s t1" using wake_port [OF w] by auto
    then obtain pre where pre: "history t1 = history s @ pre" "answer t1 = answer s" "list_all port_event pre" "written pre = [line []]"
      unfolding port_run_def by blast
    show ?thesis
    proof (cases "is_ascii cmd")
      case False
      then have "isl r \<and> s1 = t1" using k Inr by (auto simp: pbnd_Some lift_run ascii_encode_def)
      then show ?thesis using pre by (intro exI [of _ pre] exI [of _ 1]) auto
    next
      case True
      obtain r2 t2 where wl: "write_line cmd t1 = (r2, t2)" by force
      obtain v rest where rest: "history t2 = history t1 @ (write_event cmd, v) # rest" "answer t2 = answer t1"
        "list_all port_event rest" "written rest = []" "received rest = []"
        using write_line_run [OF wl] by blast
      from k Inr True wl have c: "(isl r \<and> s1 = t2) \<or> drain idle t2 = Some (r, s1)"
        by (auto simp: pbnd_Some lift_run ascii_encode_def)
      have ev: "port_event (write_event cmd, v)" "written_of (write_event cmd, v) = [line cmd]" by (simp_all add: write_event_def)
      from c show ?thesis
      proof
        assume "isl r \<and> s1 = t2"
        then show ?thesis using pre rest ev
          by (intro exI [of _ "pre @ (write_event cmd, v) # rest"] exI [of _ 2]) auto
      next
        assume d: "drain idle t2 = Some (r, s1)"
        from drain_reads [OF d] obtain es where es: "history s1 = history t2 @ es" "answer s1 = answer t2" "list_all waits es"
          "\<forall>x. r = Inr x \<longrightarrow> x = received es"
          unfolding read_only_def by auto
        have quiet: "written es = []" "list_all port_event es"
          using es(3) by (auto simp: written_def list_all_iff waits_port waits_written)
        let ?es = "pre @ (write_event cmd, v) # rest @ es"
        have "history s1 = history s @ ?es" "answer s1 = answer s" using pre rest es by simp_all
        moreover have "list_all port_event ?es" "written ?es = take 2 [line [], line cmd]"
          using pre rest ev quiet by simp_all
        moreover have "\<exists>p u post. ?es = p @ (write_event cmd, u) # post \<and> written p = [line []] \<and> x = received post" if "r = Inr x" for x
          using that pre rest es by (intro exI [of _ pre] exI [of _ v] exI [of _ "rest @ es"]) simp
        ultimately show ?thesis by blast
      qed
    qed
  qed
qed

definition open_event :: "string \<Rightarrow> int \<Rightarrow> event" where
  "open_event port baud = Host ''serial.open'' [JStr port, JInt baud]"

definition close_event :: event where
  "close_event = Host ''serial.close'' []"

lemma open_port_run: "open_port port baud s = (r, s1) \<Longrightarrow>
    history s1 = history s @ [(open_event port baud, r)] \<and> answer s1 = answer s"
  by (auto simp: open_port_def open_event_def host_def perform_def Let_def)

lemma closing_run:
  assumes "closing m s = Some (r, s2)"
  shows "\<exists>r1 s1 c. m s = Some (r1, s1) \<and> history s2 = history s1 @ [(close_event, c)] \<and> answer s2 = answer s1 \<and>
    (\<forall>x. r = Inr x \<longrightarrow> r1 = Inr x)"
  using assms unfolding closing_def close_event_def pfinally_Some
  by (auto simp: host_def perform_def Let_def)

lemma send_blocking_talk: "send_blocking port baud cmd idle = pbnd (always (open_port port baud)) (\<lambda>_. closing (talk cmd idle))"
  by (simp add: send_blocking_def talk_def)

text \<open>
  C37. A shell command of the power tools that comes back, with a result or an error, first
  opens the port; if that fails it does nothing more and fails, and else its last act is to
  close the port. In between it touches only the port, and the writes it attempts are at most
  the line end and then the command, once each and in this order. When it gives a reply, both
  were attempted and the reply is what was received after the write of the command, decoded as
  ASCII. That it comes back is not claimed (Power_Correct.babbling_mcu_hangs).
\<close>

theorem shell_session:
  assumes "p18_send port baud cmd idle w = Some (r, w')"
  shows "\<exists>out es. history w' = history w @ (open_event port baud, out) # es \<and>
    (isl out \<longrightarrow> es = [] \<and> isl r) \<and>
    (\<not> isl out \<longrightarrow> (\<exists>mid c k. es = mid @ [(close_event, c)] \<and> list_all port_event mid \<and>
       written mid = take k [line [], line cmd] \<and>
       (\<forall>x. r = Inr x \<longrightarrow> (\<exists>pre v post. mid = pre @ (write_event cmd, v) # post \<and> written pre = [line []] \<and>
          x = ascii_replace (received post)))))"
proof -
  obtain out w1 where o: "open_port port baud w = (out, w1)" by force
  note h1 = open_port_run [OF o]
  from assms have run: "pbnd (pbnd (always (open_port port baud)) (\<lambda>_. closing (talk cmd idle))) (\<lambda>raw. pret (ascii_replace raw)) w = Some (r, w')"
    by (simp add: p18_send_def send_blocking_talk)
  show ?thesis
  proof (cases out)
    case (Inl e)
    then have "isl r \<and> w' = w1" using run o by (auto simp: pbnd_Some)
    then show ?thesis using h1 Inl by auto
  next
    case (Inr j)
    with run o obtain r1 where c: "closing (talk cmd idle) w1 = Some (r1, w')" and r1: "\<forall>x. r = Inr x \<longrightarrow> (\<exists>y. r1 = Inr y \<and> x = ascii_replace y)"
      by (auto simp: pbnd_Some)
    from closing_run [OF c] obtain r2 w2 cv where t: "talk cmd idle w1 = Some (r2, w2)"
      and h2: "history w' = history w2 @ [(close_event, cv)]" and r2: "\<forall>x. r1 = Inr x \<longrightarrow> r2 = Inr x"
      by blast
    from talk_run [OF t] obtain mid k where mid: "history w2 = history w1 @ mid" "list_all port_event mid" "written mid = take k [line [], line cmd]"
      "\<forall>x. r2 = Inr x \<longrightarrow> (\<exists>pre v post. mid = pre @ (write_event cmd, v) # post \<and> written pre = [line []] \<and> x = received post)"
      by blast
    have "\<exists>pre v post. mid = pre @ (write_event cmd, v) # post \<and> written pre = [line []] \<and> x = ascii_replace (received post)" if "r = Inr x" for x
      using that r1 r2 mid(4) by fastforce
    then show ?thesis
      using h1 h2 mid(1-3) Inr by (intro exI [of _ out] exI [of _ "mid @ [(close_event, cv)]"]) auto
  qed
qed

section \<open>A line that is never silent\<close>

definition clock_at :: "((event \<times> outcome) list \<Rightarrow> event \<Rightarrow> outcome) \<Rightarrow> (event \<times> outcome) list \<Rightarrow> int" where
  "clock_at env h = (case env h Clock of Inr v \<Rightarrow> as_int v | Inl _ \<Rightarrow> 0)"

text \<open>Every read brings something, and two readings of the clock in a row are close.\<close>

definition babbling :: "((event \<times> outcome) list \<Rightarrow> event \<Rightarrow> outcome) \<Rightarrow> bool" where
  "babbling env \<longleftrightarrow> (\<forall>h. \<exists>c cs. env h (Host ''serial.read'' [JInt 4096]) = Inr (JStr (c # cs))) \<and>
     (\<forall>h v. clock_at env (h @ [(Clock, v)]) - clock_at env h < 300000)"

lemma babbling_drain:
  assumes "drain_from idle t0 buf s = Some y"
  shows "\<not> (300 \<le> idle \<and> babbling (answer s) \<and> clock_at (answer s) (history s) - t0 < 300000)"
proof (rule drain_from.raw_induct [where P = "\<lambda>idle t0 buf s y. \<not> (300 \<le> idle \<and> babbling (answer s) \<and> clock_at (answer s) (history s) - t0 < 300000)",
      OF _ assms], goal_cases)
  case (1 d idle t0 buf s y)
  show ?case
  proof
    assume pre: "300 \<le> idle \<and> babbling (answer s) \<and> clock_at (answer s) (history s) - t0 < 300000"
    then have bab: "babbling (answer s)" by blast
    let ?rd = "Host ''serial.read'' [JInt 4096]"
    define s1 where "s1 = snd (now s)"
    have n: "now s = (Inr (clock_at (answer s) (history s)), s1)" by (simp add: now_def clock_at_def s1_def)
    have h1: "answer s1 = answer s" by (simp add: s1_def now_def)
    obtain c cs where rd: "answer s1 (history s1) ?rd = Inr (JStr (c # cs))"
      using bab h1 unfolding babbling_def by fastforce
    define s2 where "s2 = snd (read_chunk s1)"
    have r: "read_chunk s1 = (Inr (c # cs), s2)" "answer s2 = answer s" using rd h1
      by (simp_all add: read_chunk_def host_def bnd_def perform_def ret_def Let_def s2_def)
    define s3 where "s3 = snd (now s2)"
    have n2: "now s2 = (Inr (clock_at (answer s2) (history s2)), s3)" by (simp add: now_def clock_at_def s3_def)
    have h3: "\<exists>v. history s3 = history s2 @ [(Clock, v)]" "answer s3 = answer s2" by (simp_all add: s3_def now_def)
    have "clock_at (answer s) (history s) - t0 < 1000 * idle" using pre by linarith
    then have "d idle (clock_at (answer s2) (history s2)) (buf @ c # cs) s3 = Some y" using 1(2) n r n2 by simp
    moreover have "clock_at (answer s3) (history s3) - clock_at (answer s2) (history s2) < 300000"
      using bab r h3 unfolding babbling_def by auto
    moreover have "babbling (answer s3)" using bab r h3 by simp
    ultimately show False using 1(1) pre by blast
  qed
qed

text \<open>
  C31. A serial port that always has data keeps p18.send from returning for ever: the drain has
  no overall deadline.
\<close>

theorem babbling_mcu_hangs:
  assumes "babbling (answer w)" "answer w (history w) (open_event port baud) = Inr v"
  shows "p18_send port baud cmd idle w = None"
proof -
  define w1 where "w1 = snd (open_port port baud w)"
  have o: "open_port port baud w = (Inr v, w1)" using assms(2)
    by (simp add: w1_def open_port_def open_event_def host_def perform_def Let_def)
  have a1: "answer w1 = answer w" using open_port_run [OF o] by simp
  define w2 where "w2 = snd (now w1)"
  have n: "now w1 = (Inr (clock_at (answer w1) (history w1)), w2)" by (simp add: now_def clock_at_def w2_def)
  have h2: "\<exists>v. history w2 = history w1 @ [(Clock, v)]" "answer w2 = answer w1" by (simp_all add: w2_def now_def)
  have "clock_at (answer w2) (history w2) - clock_at (answer w1) (history w1) < 300000"
    using assms(1) a1 h2 unfolding babbling_def by auto
  moreover have "babbling (answer w2)" using assms(1) a1 h2 by simp
  ultimately have "drain_from 300 (clock_at (answer w1) (history w1)) [] w2 \<noteq> Some y" for y
    using babbling_drain [of 300 "clock_at (answer w1) (history w1)" "[]" w2 y] by auto
  then have "drain_from 300 (clock_at (answer w1) (history w1)) [] w2 = None" by (meson not_None_eq)
  then have "drain 300 w1 = None" by (simp add: drain_def pbnd_def always_def n)
  then have "talk cmd idle w1 = None" by (simp add: talk_def wake_def pbnd_def)
  then have "closing (talk cmd idle) w1 = None" by (simp add: closing_def pfinally_def)
  then show ?thesis by (simp add: p18_send_def send_blocking_talk pbnd_def always_def o)
qed

section \<open>A cold board is left alone\<close>

lemma pemits_read: "(\<And>s y. m s = Some y \<Longrightarrow> read_only b s y) \<Longrightarrow> pemits (\<lambda>_. True) m"
  unfolding pemits_def grows_def read_only_def by fastforce

lemma pemits_drain [emits]: "pemits (\<lambda>_. True) (drain idle)"
  by (rule pemits_read [OF drain_reads])

lemma pemits_capture [emits]: "pemits (\<lambda>_. True) (capture_from watch t0 buf)"
  by (rule pemits_read [OF capture_from_reads])

lemma pemits_closing [emits]:
  assumes "pemits (\<lambda>_. True) m"
  shows "pemits (\<lambda>_. True) (closing m)"
  unfolding pemits_def
proof (intro allI impI)
  fix s s2 :: fleet and r
  assume "closing m s = Some (r, s2)"
  then obtain r1 s1 c where m: "m s = Some (r1, s1)" and h: "history s2 = history s1 @ [(close_event, c)]" "answer s2 = answer s1"
    using closing_run by blast
  from pemits_grows [OF assms m] show "grows (\<lambda>_. True) s s2" using h by (auto simp: grows_def)
qed

lemma emits_write_line [emits]: "emits (\<lambda>_. True) (write_line d)"
  unfolding write_line_def by (intro emits) simp_all

lemma emits_open_port [emits]: "emits (\<lambda>_. True) (open_port port baud)"
  unfolding open_port_def by (intro emits) simp_all

lemma pemits_send [emits]: "pemits (\<lambda>_. True) (send_to ch cmd idle)"
  unfolding send_to_def p18_send_def send_blocking_def wake_def by (intro emits)

lemma pemits_stream [emits]: "pemits (\<lambda>_. True) (p18_stream_capture port baud watch)"
  unfolding p18_stream_capture_def stream_capture_blocking_def wake_def by (intro emits) simp_all

text \<open>
  The first thing the call does is to try the daemon, and if that fails it is the only one.
\<close>

definition asks_first :: "string \<Rightarrow> (fleet, 'a) pio \<Rightarrow> bool" where
  "asks_first tgt m \<longleftrightarrow> (\<forall>w r w' t ch. m w = Some (r, w') \<longrightarrow> target_config (f_config w) tgt = Inr t \<longrightarrow>
     chan_mcpd (channels t) = Some ch \<longrightarrow> enabled ch \<longrightarrow>
     (\<exists>es. history w' = history w @ es \<and>
       (case es of [] \<Rightarrow> isl r
        | (e, out) # rest \<Rightarrow> (\<exists>p. port_of (chan_endpoint ch) = Inr p \<and> e = connect_event (host_of (chan_endpoint ch)) p) \<and>
            (isl out \<longrightarrow> rest = [] \<and> isl r))))"

lemma refuse_run:
  assumes "refuse_if_board_cold tgt op False w = (r, w1)" "target_config (f_config w) tgt = Inr t"
    and "chan_mcpd (channels t) = Some ch" "enabled ch"
  shows "(isl r \<and> w1 = w) \<or> (\<exists>p out. port_of (chan_endpoint ch) = Inr p \<and>
    history w1 = history w @ [(connect_event (host_of (chan_endpoint ch)) p, out)] \<and> (isl out \<longrightarrow> isl r))"
  using assms unfolding refuse_if_board_cold_def daemon_reachable_def can_connect_def
  by (cases "port_of (chan_endpoint ch)")
     (auto simp: bnd_def gets_def lift_run catch_def ret_def raise_def perform_def Let_def split: sum.splits if_splits)

lemma guarded_asks_first:
  assumes "\<And>u. pemits (\<lambda>_. True) (f u)"
  shows "asks_first tgt (pbnd (always (refuse_if_board_cold tgt op False)) f)"
  unfolding asks_first_def
proof (intro allI impI)
  fix w w' t ch and r :: "exn + 'a"
  assume run: "pbnd (always (refuse_if_board_cold tgt op False)) f w = Some (r, w')"
    and t: "target_config (f_config w) tgt = Inr t" "chan_mcpd (channels t) = Some ch" "enabled ch"
  let ?ask = "\<lambda>es. history w' = history w @ es \<and> (case es of [] \<Rightarrow> isl r
        | (e, out) # rest \<Rightarrow> (\<exists>p. port_of (chan_endpoint ch) = Inr p \<and> e = connect_event (host_of (chan_endpoint ch)) p) \<and>
            (isl out \<longrightarrow> rest = [] \<and> isl r))"
  obtain r1 w1 where g: "refuse_if_board_cold tgt op False w = (r1, w1)" by force
  from run g have k: "(isl r1 \<and> isl r \<and> w' = w1) \<or> (\<exists>u. r1 = Inr u \<and> f u w1 = Some (r, w'))"
    by (auto simp: pbnd_Some)
  from refuse_run [OF g t] show "\<exists>es. ?ask es"
  proof
    assume "isl r1 \<and> w1 = w"
    then have "?ask []" using k by auto
    then show ?thesis ..
  next
    assume "\<exists>p out. port_of (chan_endpoint ch) = Inr p \<and>
      history w1 = history w @ [(connect_event (host_of (chan_endpoint ch)) p, out)] \<and> (isl out \<longrightarrow> isl r1)"
    then obtain p out where p: "port_of (chan_endpoint ch) = Inr p"
      "history w1 = history w @ [(connect_event (host_of (chan_endpoint ch)) p, out)]" "isl out \<Longrightarrow> isl r1" by blast
    show ?thesis
    proof (cases "isl r1")
      case True
      then have "?ask [(connect_event (host_of (chan_endpoint ch)) p, out)]" using k p by auto
      then show ?thesis ..
    next
      case False
      then obtain u where u: "f u w1 = Some (r, w')" using k by auto
      from pemits_grows [OF assms u] obtain rest where "history w' = history w1 @ rest" by (auto simp: grows_def)
      then have "?ask ((connect_event (host_of (chan_endpoint ch)) p, out) # rest)" using p False by auto
      then show ?thesis ..
    qed
  qed
qed

lemma asks_first_after:
  assumes "\<And>w. m w = (Inl (e w), w) \<or> m w = (Inr (x w), w)" "\<And>u. asks_first tgt (f u)"
  shows "asks_first tgt (pbnd (always m) f)"
  unfolding asks_first_def
proof (intro allI impI)
  fix w w' t ch and r :: "exn + 'b"
  assume run: "pbnd (always m) f w = Some (r, w')"
    and t: "target_config (f_config w) tgt = Inr t" "chan_mcpd (channels t) = Some ch" "enabled ch"
  from run assms(1) [of w] have "(isl r \<and> w' = w) \<or> f (x w) w = Some (r, w')" by (auto simp: pbnd_Some)
  then show "\<exists>es. history w' = history w @ es \<and> (case es of [] \<Rightarrow> isl r
        | (e, out) # rest \<Rightarrow> (\<exists>p. port_of (chan_endpoint ch) = Inr p \<and> e = connect_event (host_of (chan_endpoint ch)) p) \<and>
            (isl out \<longrightarrow> rest = [] \<and> isl r))"
  proof
    assume "isl r \<and> w' = w"
    then show ?thesis by (intro exI [of _ "[]"]) simp
  next
    assume "f (x w) w = Some (r, w')"
    then show ?thesis using assms(2) t unfolding asks_first_def by blast
  qed
qed

lemma asks_first_lift: "(\<And>u. asks_first tgt (f u)) \<Longrightarrow> asks_first tgt (pbnd (always (lift v)) f)"
  by (rule asks_first_after [where e = "\<lambda>_. projl v" and x = "\<lambda>_. projr v"]) (cases v; simp add: lift_def ret_def raise_def)

lemma asks_first_channel: "(\<And>u. asks_first tgt (f u)) \<Longrightarrow> asks_first tgt (with_channel caps tgt f)"
  unfolding with_channel_def
  by (rule asks_first_after [where e = undefined and x = f_config]) (simp_all add: gets_def asks_first_lift)

lemma query_asks_first: "asks_first tgt (mcu_query op cmd caps tgt False)"
  unfolding mcu_query_def by (intro asks_first_channel guarded_asks_first emits)

text \<open>
  C23. In every call that comes back, without force no power tool other than on and off (and a
  shell command that _survives_cold_board lets through) opens the MCU's port before the daemon
  of the target, where one is configured, has accepted a connection.
\<close>

theorem cold_board_not_queried:
  assumes "\<not> survives_cold cmd"
  shows "asks_first tgt (power_help caps tgt False) \<and> asks_first tgt (power_identify caps tgt False) \<and>
    asks_first tgt (power_identify_dates caps tgt False) \<and> asks_first tgt (power_sensors caps tgt False) \<and>
    asks_first tgt (power_toggle_stream caps tgt watch confirm False) \<and>
    asks_first tgt (power_shell caps tgt cmd confirm False)"
proof -
  have "asks_first tgt (power_toggle_stream caps tgt watch confirm False)"
    unfolding power_toggle_stream_def by (intro asks_first_lift asks_first_channel guarded_asks_first emits)
  moreover have "asks_first tgt (praise e)" for e :: exn by (simp add: asks_first_def)
  then have "asks_first tgt (power_shell caps tgt cmd confirm False)"
    unfolding power_shell_def using assms
    by (auto intro!: asks_first_lift asks_first_channel guarded_asks_first emits)
  ultimately show ?thesis
    unfolding power_help_def power_identify_def power_identify_dates_def power_sensors_def
    by (simp add: query_asks_first)
qed

theorem unconfirmed_does_nothing:
  "list_all (\<lambda>m. \<exists>msg d. m w = Some (Inl (RpcErr InvalidParams msg d), w))
     [power_on caps tgt False, power_off caps tgt False, power_shell caps tgt cmd False force] \<and>
   (\<exists>msg d. power_toggle_stream caps tgt watch False force w = Some (Inl (RpcErr InvalidParams msg d), w))"
  by (simp add: power_on_def power_off_def power_shell_def power_toggle_stream_def power_confirm_def pbnd_def always_def lift_run)

text \<open>
  The guard of \<^verbatim>\<open>power.shell\<close> reads the command without case and blanks, the shell gets it as it is.
\<close>

lemma upper_case_command_unguarded: "survives_cold '' P'' \<and> line '' P'' \<noteq> line ''p''"
  by code_simp

section \<open>Witnesses\<close>

definition mcu_board :: target_config where
  "mcu_board = (target_of Remote)\<lparr>channels := no_channels\<lparr>chan_mcpd := Some default_mcpd,
     chan_mcu := Some (default_serial\<lparr>serial_port := ''COM5'', serial_baud := 38400\<rparr>)\<rparr>\<rparr>"

definition board_config :: config where
  "board_config = empty_config\<lparr>targets := [(''x5000'', mcu_board)]\<rparr>"

text \<open>A board that is off: nothing answers at the daemon's endpoint.\<close>

definition cold_world :: fleet where
  "cold_world = fleet_init board_config (\<lambda>h e. case e of Host op args \<Rightarrow>
     if op = ''connect'' then Inl (PyErr ConnectionRefusedError []) else Inr JNull | _ \<Rightarrow> Inr (JInt 0))"

lemma cold_target: "target_config (f_config cold_world) ''x5000'' = Inr mcu_board" "chan_mcpd (channels mcu_board) = Some default_mcpd"
  by (simp_all add: cold_world_def fleet_init_def board_config_def target_config_def mcu_board_def)

lemma cold_shell: "\<exists>r w'. power_shell [] ''x5000'' ''v'' True False cold_world = Some (r, w') \<and>
    (\<exists>e out. history w' = [(e, out)] \<and> isl out)"
proof -
  have s: "\<not> survives_cold ''v''" "strip ''v'' \<noteq> []" by code_simp+
  have c: "f_config cold_world = board_config" by (simp add: cold_world_def fleet_init_def)
  have m: "resolve_mcu_channel board_config [] ''x5000'' = Inr (default_serial\<lparr>serial_port := ''COM5'', serial_baud := 38400\<rparr>)"
    by (simp add: resolve_mcu_channel_def board_config_def target_config_def mcu_board_def default_serial_def)
  have p: "port_of ''127.0.0.1:4322'' = Inr 4322" by code_simp
  show ?thesis
    using s c m p cold_target
    by (simp add: power_shell_def power_confirm_def with_channel_def pbnd_def always_def lift_run gets_def
        refuse_if_board_cold_def bnd_def daemon_reachable_def can_connect_def catch_def perform_def Let_def default_mcpd_def
        cold_world_def fleet_init_def raise_def ret_def connect_event_def)
qed

theorem cold_board_not_queried_witness:
  "\<exists>r w'. power_shell [] ''x5000'' ''v'' True False cold_world = Some (r, w') \<and> isl r \<and> length (history w') = 1"
proof -
  have s: "\<not> survives_cold ''v''" by code_simp
  obtain r w' e out where run: "power_shell [] ''x5000'' ''v'' True False cold_world = Some (r, w')"
    and h: "history w' = [(e, out)]" "isl out"
    using cold_shell by blast
  have "asks_first ''x5000'' (power_shell [] ''x5000'' ''v'' True False)"
    using cold_board_not_queried [OF s] by blast
  then have "isl r"
    using run h cold_target unfolding asks_first_def
    by (fastforce simp: cold_world_def fleet_init_def default_mcpd_def)
  then show ?thesis using run h by auto
qed

text \<open>A shell that never stops sending.\<close>

definition babbling_world :: fleet where
  "babbling_world = fleet_init board_config (\<lambda>h e. case e of Host op args \<Rightarrow> Inr (JStr ''$v'') | _ \<Rightarrow> Inr (JInt 0))"

theorem babbling_mcu_hangs_witness: "p18_send ''COM5'' 38400 ''q'' 1000 babbling_world = None"
  by (rule babbling_mcu_hangs [where v = "JStr ''$v''"])
     (simp_all add: babbling_world_def fleet_init_def babbling_def clock_at_def open_event_def)

text \<open>A shell that answers the command, on a clock that ticks once a second.\<close>

definition answering_world :: fleet where
  "answering_world = fleet_init board_config (\<lambda>h e. case e of
       Clock \<Rightarrow> Inr (JInt (int (length h) * 1000000))
     | Host op args \<Rightarrow> Inr (JStr (if op = ''serial.read'' \<and> length h = 11 then ''5V'' else [])) | _ \<Rightarrow> Inr JNull)"

lemma answering_run: "\<exists>w'. p18_send ''COM5'' 38400 ''v'' 1500 answering_world = Some (Inr ''5V'', w')"
proof -
  have a: "ascii_encode ''v'' = Inr ''v''" "ascii_replace ''5V'' = ''5V''" by code_simp+
  show ?thesis
    unfolding p18_send_def send_blocking_def wake_def drain_def
    by (simp add: a pbnd_def always_def open_port_def write_line_def host_def perform_def Let_def bnd_def ret_def lift_run
        now_def sleep_def read_chunk_def closing_def pfinally_def pret_def drain_from.simps answering_world_def fleet_init_def)
qed

theorem shell_session_witness:
  "\<exists>w' out mid c pre v post. p18_send ''COM5'' 38400 ''v'' 1500 answering_world = Some (Inr ''5V'', w') \<and>
     history w' = (open_event ''COM5'' 38400, out) # mid @ [(close_event, c)] \<and>
     mid = pre @ (write_event ''v'', v) # post \<and> ascii_replace (received post) = ''5V''"
proof -
  obtain w' where run: "p18_send ''COM5'' 38400 ''v'' 1500 answering_world = Some (Inr ''5V'', w')"
    using answering_run by blast
  have h: "history answering_world = []" by (simp add: answering_world_def fleet_init_def)
  show ?thesis using shell_session [OF run] run unfolding h by fastforce
qed

end
