(* ===== verification/Utf8.thy ===== *)
theory Utf8
  imports Prelude
begin

text \<open>
  Decoding with replacement, as the code does with datagrams and with the captured output of a guest.

  \<^verbatim>\<open>data.decode("utf-8", errors="replace")\<close>: what the first byte of a sequence asks for (how many
  continuation bytes, the range of the first), and one U+FFFD for each longest prefix of a sequence
  that is cut short.
\<close>

definition utf8_lead :: "nat \<Rightarrow> (nat \<times> nat \<times> nat) option" where
  "utf8_lead a =
     (if a < 128 then Some (0, 0, 0)
      else if 194 \<le> a \<and> a \<le> 223 then Some (1, 128, 191)
      else if a = 224 then Some (2, 160, 191)
      else if a = 237 then Some (2, 128, 159)
      else if 225 \<le> a \<and> a \<le> 239 then Some (2, 128, 191)
      else if a = 240 then Some (3, 144, 191)
      else if 241 \<le> a \<and> a \<le> 243 then Some (3, 128, 191)
      else if a = 244 then Some (3, 128, 143)
      else None)"

fun continuations :: "nat \<Rightarrow> nat \<Rightarrow> nat \<Rightarrow> string \<Rightarrow> nat" where
  "continuations (Suc n) lo hi (c # s) = (if lo \<le> ord c \<and> ord c \<le> hi then Suc (continuations n 128 191 s) else 0)"
| "continuations _ _ _ _ = 0"

definition replacement :: string where
  "replacement = map char_of [239 :: nat, 191, 189]"

function utf8_replace :: "string \<Rightarrow> string" where
  "utf8_replace [] = []"
| "utf8_replace (c # s) = (case utf8_lead (ord c) of
       None \<Rightarrow> replacement @ utf8_replace s
     | Some (n, lo, hi) \<Rightarrow> let k = continuations n lo hi s in
         (if k = n then c # take n s else replacement) @ utf8_replace (drop k s))"
  by pat_completeness auto
termination by (relation "measure length") auto

end
