(* ===== verification/Discovery.thy ===== *)
theory Discovery
  imports Tools Partial Utf8 "HOL-Library.Product_Lexorder"
begin

text \<open>
  Discovery of daemons on the LAN (\<^verbatim>\<open>transports/discovery.py\<close>, \<^verbatim>\<open>tools/fleet_discover.py\<close>): the
  addresses that are probed, the replies that are taken, what is reported for each, and how a reply
  that comes through the forward of a QEMU guest is attributed to its target.  Datagrams are host
  events; a received one is the array of its bytes, the sender's address and port.
\<close>

section \<open>Probes and replies\<close>

definition DISCOVERY_PORT :: int where
  "DISCOVERY_PORT = 4323"

definition DEFAULT_TIMEOUT_MS :: int where
  "DEFAULT_TIMEOUT_MS = 1500"

definition DEFAULT_BROADCAST :: string where
  "DEFAULT_BROADCAST = ''255.255.255.255''"

text \<open>The argument is what the host's name resolves to.\<close>

definition subnet_broadcast :: "string \<Rightarrow> string option" where
  "subnet_broadcast ip = (if startswith ip ''127.'' then None
     else case split_on CHR ''.'' ip of [a, b, c, d] \<Rightarrow> Some (join ''.'' [a, b, c, ''255'']) | _ \<Rightarrow> None)"

definition local_subnet_broadcasts :: "exn + string list \<Rightarrow> exn + string list" where
  "local_subnet_broadcasts ips =
     (case ips of
        Inl e \<Rightarrow> if is_os e then Inr [DEFAULT_BROADCAST] else Inl e
      | Inr xs \<Rightarrow> Inr (foldl (\<lambda>out ip. case subnet_broadcast ip of
            None \<Rightarrow> out | Some b \<Rightarrow> if b \<in> set out then out else out @ [b]) [DEFAULT_BROADCAST] xs))"

definition make_probe :: "string \<Rightarrow> string" where
  "make_probe tag = ''{'' @ join '','' (map (\<lambda>(k, v). dump_str k @ '':'' @ json_dumps v)
     [(''mcp_discovery'', JInt 1), (''v'', JInt 1), (''client'', JStr ''amiga-fleet-mcp''), (''tag'', JStr tag)]) @ ''}''"

definition parse_response :: "string \<Rightarrow> string \<Rightarrow> (string \<times> json) list option" where
  "parse_response d tag =
     (case json_loads (utf8_replace d) of
        Some (JObj kvs) \<Rightarrow>
          (case map_of kvs ''mcp_discovery'' of
             None \<Rightarrow> None
           | Some v \<Rightarrow> if eq_int v 1 \<and> map_of kvs ''tag'' = Some (JStr tag) then Some kvs else None)
      | _ \<Rightarrow> None)"

type_synonym address = "string \<times> int"

definition probe_targets :: "string list \<Rightarrow> bool \<Rightarrow> address list \<Rightarrow> address list" where
  "probe_targets addrs loopback extra =
     (let base = map (\<lambda>a. (a, DISCOVERY_PORT)) addrs;
          more = (if loopback \<and> (''127.0.0.1'', DISCOVERY_PORT) \<notin> set base then base @ [(''127.0.0.1'', DISCOVERY_PORT)] else base)
      in foldl (\<lambda>ps p. if p \<in> set ps then ps else ps @ [p]) more extra)"

section \<open>What a reply is reported as\<close>

record found =
  fd_ip :: string
  fd_port :: int
  fd_server :: json
  fd_protocol :: json
  fd_host :: json
  fd_methods :: int
  fd_latency_ms :: int
  fd_endpoint :: string
  fd_target :: "string option"

record override =
  ov_endpoint :: string
  ov_target :: string

definition get_truthy :: "(string \<times> json) list \<Rightarrow> string \<Rightarrow> int \<Rightarrow> exn + int" where
  "get_truthy kvs k d = (case map_of kvs k of
       Some v \<Rightarrow> if truthy v then py_int v else Inr d
     | None \<Rightarrow> Inr d)"

definition announced :: "(string \<times> json) list \<Rightarrow> string \<Rightarrow> json" where
  "announced kvs k = (case map_of kvs k of Some v \<Rightarrow> v | None \<Rightarrow> JStr ''?'')"

definition port_after_colon :: "string \<Rightarrow> exn + int" where
  "port_after_colon ep = (if CHR '':'' \<in> set ep then parse_int (snd (snd (rpartition CHR '':'' ep)))
     else Inl (PyErr IndexError ''list index out of range''))"

text \<open>\<^verbatim>\<open>int(x * 1000)\<close> of a span in microseconds.\<close>

definition to_ms :: "int \<Rightarrow> int" where
  "to_ms us = (if 0 \<le> us then us div 1000 else - ((- us) div 1000))"

definition reported :: "(address \<times> override) list \<Rightarrow> (string \<times> json) list \<Rightarrow> address \<Rightarrow> int \<Rightarrow> exn + found" where
  "reported emap kvs peer us =
     ebnd (get_truthy kvs ''tcp_port'' 4322) (\<lambda>p.
     let ip = fst peer; ov = map_of emap peer;
         ov_ep = (case ov of Some v \<Rightarrow> ov_endpoint v | None \<Rightarrow> []);
         ep = (if ov_ep \<noteq> [] then ov_ep else ip @ '':'' @ int_dec p)
     in ebnd (if ov_ep \<noteq> [] then port_after_colon ep else Inr p) (\<lambda>port.
     ebnd (get_truthy kvs ''methods'' 0) (\<lambda>ms.
     Inr \<lparr>fd_ip = ip, fd_port = port, fd_server = announced kvs ''server'', fd_protocol = announced kvs ''protocol'',
          fd_host = announced kvs ''host'', fd_methods = ms, fd_latency_ms = to_ms us, fd_endpoint = ep,
          fd_target = map_option ov_target ov\<rparr>)))"

definition key_of :: "found \<Rightarrow> address" where
  "key_of f = (fd_ip f, fd_port f)"

section \<open>Collecting the replies\<close>

type_synonym seen = "(address \<times> found) list"

definition note_reply :: "(address \<times> override) list \<Rightarrow> string \<Rightarrow> string \<Rightarrow> address \<Rightarrow> int \<Rightarrow> seen \<Rightarrow> exn + seen" where
  "note_reply emap tag d peer us seen =
     (case parse_response d tag of
        None \<Rightarrow> Inr seen
      | Some kvs \<Rightarrow> ebnd (reported emap kvs peer us) (\<lambda>f. Inr (AList.update (key_of f) f seen)))"

definition recv_event :: "int \<Rightarrow> event" where
  "recv_event us = Host ''udp.recvfrom'' [JInt 4096, JInt us]"

fun datagram :: "json \<Rightarrow> string \<times> address" where
  "datagram (JArr [JStr d, JStr ip, JInt port]) = (d, (ip, port))"
| "datagram _ = ([], ([], 0))"

text \<open>Times in microseconds; the wait is cut off at the deadline.\<close>

partial_function (option) collect ::
    "(address \<times> override) list \<Rightarrow> string \<Rightarrow> int \<Rightarrow> int \<Rightarrow> seen \<Rightarrow> fleet \<Rightarrow> ((exn + seen) \<times> fleet) option" where
  "collect emap tag sent_at deadline seen s =
     (case now s of
        (Inl e, s1) \<Rightarrow> Some (Inl e, s1)
      | (Inr t, s1) \<Rightarrow>
          if deadline - t \<le> 0 then Some (Inr seen, s1)
          else (case perform (recv_event (deadline - t)) s1 of
             (Inl (PyErr c m), s2) \<Rightarrow>
               if c = TimeoutError then Some (Inr seen, s2)
               else if is_os_error c then collect emap tag sent_at deadline seen s2
               else Some (Inl (PyErr c m), s2)
           | (Inl (RpcErr c m d), s2) \<Rightarrow> Some (Inl (RpcErr c m d), s2)
           | (Inr v, s2) \<Rightarrow> (case now s2 of
                (Inl e, s3) \<Rightarrow> Some (Inl e, s3)
              | (Inr t1, s3) \<Rightarrow> (case note_reply emap tag (fst (datagram v)) (snd (datagram v)) (t1 - sent_at) seen of
                   Inl e \<Rightarrow> Some (Inl e, s3)
                 | Inr seen' \<Rightarrow> collect emap tag sent_at deadline seen' s3))))"

definition send_probe :: "string \<Rightarrow> address \<Rightarrow> (fleet, unit) io" where
  "send_probe probe a =
     catch (bnd (host ''udp.sendto'' [JStr probe, JStr (fst a), JInt (snd a)]) (\<lambda>_. ret ()))
       (\<lambda>e. if is_os e then ret () else raise e)"

definition by_latency :: "seen \<Rightarrow> found list" where
  "by_latency seen = sort_key (\<lambda>r. (fd_latency_ms r, fd_ip r)) (map snd seen)"

text \<open>The tag is random, the host's addresses are looked up: both are arguments.\<close>

definition discover ::
    "exn + string list \<Rightarrow> string \<Rightarrow> int \<Rightarrow> string list option \<Rightarrow> bool \<Rightarrow> address list \<Rightarrow> (address \<times> override) list \<Rightarrow>
     (fleet, found list) pio" where
  "discover ips tag timeout_us addrs loopback extra emap =
     pbnd (always (lift (case addrs of Some a \<Rightarrow> Inr a | None \<Rightarrow> local_subnet_broadcasts ips))) (\<lambda>as.
     pbnd (always (host ''udp.bind'' [])) (\<lambda>_.
     pbnd (always now) (\<lambda>sent_at.
     pbnd (always (for_each (send_probe (make_probe tag)) (probe_targets as loopback extra))) (\<lambda>_.
     pbnd (pfinally (collect emap tag sent_at (sent_at + timeout_us) []) (host ''udp.close'' [])) (\<lambda>seen.
     pret (by_latency seen))))))"

section \<open>The tool\<close>

definition guest_forward :: "string \<times> target_config \<Rightarrow> exn + (address \<times> override) option" where
  "guest_forward = (\<lambda>(name, cfg).
     if t_type cfg \<noteq> Qemu then Inr None
     else case chan_mcpd (channels cfg) of
       None \<Rightarrow> Inr None
     | Some ch \<Rightarrow>
         if \<not> enabled ch then Inr None
         else let ep = chan_endpoint ch; h = (if host_of ep = [] then ''127.0.0.1'' else host_of ep) in
           ebnd (case discovery_port ch of Some p \<Rightarrow> Inr p | None \<Rightarrow> port_of ep) (\<lambda>p.
           Inr (Some ((h, p), \<lparr>ov_endpoint = ep, ov_target = name\<rparr>))))"

fun probe_plan :: "(string \<times> target_config) list \<Rightarrow> exn + (address list \<times> (address \<times> override) list)" where
  "probe_plan [] = Inr ([], [])"
| "probe_plan (t # ts) = ebnd (guest_forward t) (\<lambda>g. ebnd (probe_plan ts) (\<lambda>(ps, es).
     case g of None \<Rightarrow> Inr (ps, es) | Some (a, ov) \<Rightarrow> Inr (a # ps, if a \<in> fst ` set es then es else (a, ov) # es)))"

record discovered =
  dt_found :: found
  dt_server :: string
  dt_protocol :: string
  dt_host :: string

definition validated :: "found \<Rightarrow> exn + discovered" where
  "validated f = ebnd (v_str (fd_server f)) (\<lambda>s. ebnd (v_str (fd_protocol f)) (\<lambda>p. ebnd (v_str (fd_host f)) (\<lambda>h.
     Inr \<lparr>dt_found = f, dt_server = s, dt_protocol = p, dt_host = h\<rparr>)))"

fun validate_all :: "found list \<Rightarrow> exn + discovered list" where
  "validate_all [] = Inr []"
| "validate_all (f # fs) = ebnd (validated f) (\<lambda>d. ebnd (validate_all fs) (\<lambda>ds. Inr (d # ds)))"

definition fleet_discover :: "exn + string list \<Rightarrow> string \<Rightarrow> int \<Rightarrow> (fleet, discovered list) pio" where
  "fleet_discover ips tag timeout_ms =
     pbnd (always (gets f_config)) (\<lambda>cfg.
     pbnd (always (lift (probe_plan (targets cfg)))) (\<lambda>(probes, emap).
     pbnd (discover ips tag (1000 * timeout_ms) None True probes emap) (\<lambda>out.
     pbnd (always (lift (validate_all out))) pret)))"

end
