(* ===== verification/Discovery_Correct.thy ===== *)
theory Discovery_Correct
  imports Discovery "HOL-Library.Multiset"
begin

text \<open>
  What a discovery returns: one entry for each daemon that answered with the right tag, sorted by
  latency, each made from a datagram that was received; and a guest that answers through its forward
  is reported under its own name and endpoint.
\<close>

section \<open>Received datagrams\<close>

fun heard_of :: "event \<times> outcome \<Rightarrow> (string \<times> address) list" where
  "heard_of (Host op args, Inr v) = (if op = ''udp.recvfrom'' then [datagram v] else [])"
| "heard_of _ = []"

definition heard :: "(event \<times> outcome) list \<Rightarrow> (string \<times> address) list" where
  "heard es = concat (map heard_of es)"

lemma heard_simps [simp]: "heard [] = []" "heard (e # es) = heard_of e @ heard es" "heard (es @ fs) = heard es @ heard fs"
  by (simp_all add: heard_def)

lemma heard_other [simp]: "op \<noteq> ''udp.recvfrom'' \<Longrightarrow> heard_of (Host op args, v) = []"
  by (cases v) auto

text \<open>The replies folded into what has been seen, each at its own time.\<close>

fun note_all :: "(address \<times> override) list \<Rightarrow> string \<Rightarrow> ((string \<times> address) \<times> int) list \<Rightarrow> seen \<Rightarrow> exn + seen" where
  "note_all emap tag [] seen = Inr seen"
| "note_all emap tag (((d, peer), us) # rs) seen = ebnd (note_reply emap tag d peer us seen) (note_all emap tag rs)"

definition gathers :: "(address \<times> override) list \<Rightarrow> string \<Rightarrow> seen \<Rightarrow> fleet \<Rightarrow> (exn + seen) \<times> fleet \<Rightarrow> bool" where
  "gathers emap tag seen s y \<longleftrightarrow> (\<exists>es. history (snd y) = history s @ es \<and>
     (\<forall>out. fst y = Inr out \<longrightarrow> (\<exists>us. length us = length (heard es) \<and> note_all emap tag (zip (heard es) us) seen = Inr out)))"

lemma gathers_quiet: "gathers emap tag seen s1 y \<Longrightarrow> history s1 = history s @ es \<Longrightarrow> heard es = [] \<Longrightarrow> gathers emap tag seen s y"
  unfolding gathers_def by (metis append.assoc append_Nil heard_simps(3))

lemma gathers_reply:
  assumes "gathers emap tag seen' s1 y" "history s1 = history s @ es" "heard es = [(d, peer)]"
    and "note_reply emap tag d peer us seen = Inr seen'"
  shows "gathers emap tag seen s y"
proof -
  from assms(1) obtain fs where fs: "history (snd y) = history s1 @ fs"
    "\<And>out. fst y = Inr out \<Longrightarrow> \<exists>uss. length uss = length (heard fs) \<and> note_all emap tag (zip (heard fs) uss) seen' = Inr out"
    unfolding gathers_def by blast
  have "\<exists>uss. length uss = length (heard (es @ fs)) \<and> note_all emap tag (zip (heard (es @ fs)) uss) seen = Inr out"
    if out: "fst y = Inr out" for out
  proof -
    obtain uss where "length uss = length (heard fs)" "note_all emap tag (zip (heard fs) uss) seen' = Inr out"
      using fs(2) [OF out] by blast
    then show ?thesis using assms(3,4) by (intro exI [of _ "us # uss"]) simp
  qed
  then show ?thesis unfolding gathers_def using fs(1) assms(2) by (intro exI [of _ "es @ fs"]) auto
qed

lemma gathers_stop: "history s1 = history s @ es \<Longrightarrow> heard es = [] \<Longrightarrow> gathers emap tag seen s (Inr seen, s1)"
  by (auto simp: gathers_def)

lemma gathers_fail: "history s1 = history s @ es \<Longrightarrow> gathers emap tag seen s (Inl e, s1)"
  by (auto simp: gathers_def)

lemma collect_gathers:
  assumes "collect emap tag t0 dl seen s = Some y"
  shows "gathers emap tag seen s y"
proof (rule collect.raw_induct [where P = "\<lambda>emap tag t0 dl seen s y. gathers emap tag seen s y", OF _ assms], goal_cases)
  case (1 c emap tag t0 dl seen s y)
  obtain t s1 v1 where n: "now s = (Inr t, s1)" and h1: "history s1 = history s @ [(Clock, v1)]"
    by (simp add: now_def)
  let ?e = "recv_event (dl - t)"
  define out where "out = answer s1 (history s1) ?e"
  define s2 where "s2 = snd (perform ?e s1)"
  have p: "perform ?e s1 = (out, s2)" and h2: "history s2 = history s @ [(Clock, v1), (?e, out)]"
    using h1 by (simp_all add: perform_def Let_def out_def s2_def)
  show ?case
  proof (cases "dl - t \<le> 0")
    case True
    then show ?thesis using 1(2) n h1 by (auto intro!: gathers_stop)
  next
    case wait: False
    show ?thesis
    proof (cases out)
      case (Inl x)
      then have q: "heard [(Clock, v1), (?e, out)] = []" by (simp add: recv_event_def)
      show ?thesis
      proof (cases x)
        case (PyErr k m)
        show ?thesis
        proof (cases "k \<noteq> TimeoutError \<and> is_os_error k")
          case True
          then have "c emap tag t0 dl seen s2 = Some y" using 1(2) n p Inl wait PyErr by (simp del: is_os_error.simps)
          from gathers_quiet [OF 1(1) [OF this] h2 q] show ?thesis .
        next
          case False
          then have "y = (Inr seen, s2) \<or> y = (Inl x, s2)"
            using 1(2) n p Inl wait PyErr by (simp del: is_os_error.simps split: if_splits)
          then show ?thesis using gathers_stop [OF h2 q] gathers_fail [OF h2] by auto
        qed
      next
        case (RpcErr k m d)
        then show ?thesis using 1(2) n p Inl wait by (auto intro: gathers_fail [OF h2])
      qed
    next
      case (Inr v)
      obtain t2 s3 v3 where n2: "now s2 = (Inr t2, s3)" and "history s3 = history s2 @ [(Clock, v3)]"
        by (simp add: now_def)
      then have h3: "history s3 = history s @ [(Clock, v1), (?e, out), (Clock, v3)]" using h2 by simp
      have q: "heard [(Clock, v1), (?e, out), (Clock, v3)] = [(fst (datagram v), snd (datagram v))]"
        using Inr by (simp add: recv_event_def)
      show ?thesis
      proof (cases "note_reply emap tag (fst (datagram v)) (snd (datagram v)) (t2 - t0) seen")
        case (Inl x)
        then show ?thesis using 1(2) n p Inr wait n2 by (auto intro: gathers_fail [OF h3])
      next
        case taken: (Inr seen')
        then have "c emap tag t0 dl seen' s3 = Some y" using 1(2) n p Inr wait n2 by simp
        from gathers_reply [OF 1(1) [OF this] h3 q taken] show ?thesis .
      qed
    qed
  qed
qed

section \<open>What has been seen\<close>

text \<open>One entry per key, each under its own key; \<open>src\<close> are the replies so far.\<close>

definition seen_ok :: "(address \<times> override) list \<Rightarrow> string \<Rightarrow> (string \<times> address) list \<Rightarrow> seen \<Rightarrow> bool" where
  "seen_ok emap tag src seen \<longleftrightarrow> distinct (map fst seen) \<and> (\<forall>(k, f) \<in> set seen. k = key_of f \<and>
     (\<exists>d peer kvs us. (d, peer) \<in> set src \<and> parse_response d tag = Some kvs \<and> reported emap kvs peer us = Inr f))"

lemma set_update: "distinct (map fst xs) \<Longrightarrow> set (AList.update k v xs) = {(a, b) \<in> set xs. a \<noteq> k} \<union> {(k, v)}"
  by (induction xs) (auto simp: image_iff)

lemma note_reply_ok:
  assumes "seen_ok emap tag src seen" "note_reply emap tag d peer us seen = Inr seen'"
  shows "seen_ok emap tag (src @ [(d, peer)]) seen' \<and> fst ` set seen \<subseteq> fst ` set seen' \<and>
    (\<forall>kvs. parse_response d tag = Some kvs \<longrightarrow> (\<exists>f. reported emap kvs peer us = Inr f \<and> key_of f \<in> fst ` set seen'))"
proof (cases "parse_response d tag")
  case None
  then show ?thesis using assms by (fastforce simp: note_reply_def seen_ok_def)
next
  case (Some kvs)
  with assms(2) obtain f where f: "reported emap kvs peer us = Inr f" "seen' = AList.update (key_of f) f seen"
    by (auto simp: note_reply_def ebnd_Inr)
  have d: "distinct (map fst seen)" using assms(1) by (simp add: seen_ok_def)
  have keys: "fst ` set seen' = insert (key_of f) (fst ` set seen)" using f d by (force simp: set_update image_iff)
  have "seen_ok emap tag (src @ [(d, peer)]) seen'"
    unfolding seen_ok_def
  proof (intro conjI ballI)
    show "distinct (map fst seen')" using f d by (simp add: distinct_update)
    fix kf assume "kf \<in> set seen'"
    then consider "kf \<in> set seen" | "kf = (key_of f, f)" using f d by (auto simp: set_update)
    then show "case kf of (k, g) \<Rightarrow> k = key_of g \<and> (\<exists>d' peer' kvs' us'. (d', peer') \<in> set (src @ [(d, peer)]) \<and>
        parse_response d' tag = Some kvs' \<and> reported emap kvs' peer' us' = Inr g)"
    proof cases
      case 1
      then show ?thesis using assms(1) unfolding seen_ok_def by fastforce
    next
      case 2
      have "\<exists>d' peer' kvs' us'. (d', peer') \<in> set (src @ [(d, peer)]) \<and> parse_response d' tag = Some kvs' \<and> reported emap kvs' peer' us' = Inr f"
        using f(1) Some by (intro exI [of _ d] exI [of _ peer] exI [of _ kvs] exI [of _ us]) simp
      then show ?thesis using 2 by simp
    qed
  qed
  then show ?thesis using f Some keys by auto
qed

lemma note_all_ok:
  assumes "seen_ok emap tag src seen" "note_all emap tag rs seen = Inr seen'"
  shows "seen_ok emap tag (src @ map fst rs) seen' \<and> fst ` set seen \<subseteq> fst ` set seen' \<and>
    (\<forall>((d, peer), us) \<in> set rs. \<forall>kvs. parse_response d tag = Some kvs \<longrightarrow>
       (\<exists>f. reported emap kvs peer us = Inr f \<and> key_of f \<in> fst ` set seen'))"
  using assms
proof (induction emap tag rs seen arbitrary: src rule: note_all.induct)
  case (2 emap tag d peer us rs seen)
  from 2(3) obtain seen1 where n: "note_reply emap tag d peer us seen = Inr seen1" and r: "note_all emap tag rs seen1 = Inr seen'"
    by (auto simp: ebnd_Inr)
  note a = note_reply_ok [OF 2(2) n]
  then have "seen_ok emap tag (src @ [(d, peer)]) seen1" by blast
  note b = 2(1) [OF this r]
  show ?case
  proof (intro conjI)
    show "seen_ok emap tag (src @ map fst (((d, peer), us) # rs)) seen'" using b by simp
    show "fst ` set seen \<subseteq> fst ` set seen'"
      by (rule subset_trans [OF conjunct1 [OF conjunct2 [OF a]] conjunct1 [OF conjunct2 [OF b]]])
    show "\<forall>((d', peer'), us') \<in> set (((d, peer), us) # rs). \<forall>kvs. parse_response d' tag = Some kvs \<longrightarrow>
       (\<exists>f. reported emap kvs peer' us' = Inr f \<and> key_of f \<in> fst ` set seen')"
    proof (clarify)
      fix d' ip port us' kvs
      assume m: "((d', ip, port), us') \<in> set (((d, peer), us) # rs)" and p: "parse_response d' tag = Some kvs"
      show "\<exists>f. reported emap kvs (ip, port) us' = Inr f \<and> key_of f \<in> fst ` set seen'"
      proof (cases "((d', ip, port), us') \<in> set rs")
        case True
        then show ?thesis using conjunct2 [OF conjunct2 [OF b]] p by fastforce
      next
        case False
        with m have e: "d' = d" "peer = (ip, port)" "us' = us" by auto
        with a p obtain f where "reported emap kvs (ip, port) us' = Inr f" "key_of f \<in> fst ` set seen1" by blast
        then show ?thesis using conjunct1 [OF conjunct2 [OF b]] e by blast
      qed
    qed
  qed
qed simp

lemma pbnd_Inr: "pbnd m f s = Some (Inr y, t) \<Longrightarrow> \<exists>x s'. m s = Some (Inr x, s') \<and> f x s' = Some (Inr y, t)"
  by (auto simp: pbnd_Some)

lemma discover_collects:
  assumes "discover ips tag timeout addrs loopback extra emap w = Some (Inr rs, w')"
  shows "\<exists>es us out. history w' = history w @ es \<and> length us = length (heard es) \<and>
    note_all emap tag (zip (heard es) us) [] = Inr out \<and> rs = by_latency out"
proof -
  let ?ps = "\<lambda>as. probe_targets as loopback extra"
  from pbnd_Inr [OF assms [unfolded discover_def]] obtain as where
    k0: "pbnd (always (host ''udp.bind'' [])) (\<lambda>_. pbnd (always now) (\<lambda>t0.
      pbnd (always (for_each (send_probe (make_probe tag)) (?ps as))) (\<lambda>_.
      pbnd (pfinally (collect emap tag t0 (t0 + timeout) []) (host ''udp.close'' [])) (\<lambda>seen. pret (by_latency seen))))) w = Some (Inr rs, w')"
    by (auto simp only: always_Some lift_run prod.inject)
  from pbnd_Inr [OF k0] obtain u w1 where b: "host ''udp.bind'' [] w = (Inr u, w1)" and
    k1: "pbnd (always now) (\<lambda>t0.
      pbnd (always (for_each (send_probe (make_probe tag)) (?ps as))) (\<lambda>_.
      pbnd (pfinally (collect emap tag t0 (t0 + timeout) []) (host ''udp.close'' [])) (\<lambda>seen. pret (by_latency seen)))) w1 = Some (Inr rs, w')"
    by (auto simp only: always_Some)
  from pbnd_Inr [OF k1] obtain t0 w2 where n: "now w1 = (Inr t0, w2)" and
    k2: "pbnd (always (for_each (send_probe (make_probe tag)) (?ps as))) (\<lambda>_.
      pbnd (pfinally (collect emap tag t0 (t0 + timeout) []) (host ''udp.close'' [])) (\<lambda>seen. pret (by_latency seen))) w2 = Some (Inr rs, w')"
    by (auto simp only: always_Some)
  from pbnd_Inr [OF k2] obtain x w3 where x: "for_each (send_probe (make_probe tag)) (?ps as) w2 = (Inr x, w3)" and
    k3: "pbnd (pfinally (collect emap tag t0 (t0 + timeout) []) (host ''udp.close'' [])) (\<lambda>seen. pret (by_latency seen)) w3 = Some (Inr rs, w')"
    by (auto simp only: always_Some)
  from pbnd_Inr [OF k3] obtain out where c: "pfinally (collect emap tag t0 (t0 + timeout) []) (host ''udp.close'' []) w3 = Some (Inr out, w')"
    and rs: "rs = by_latency out"
    by auto
  have e: "emits (\<lambda>e. heard_of e = []) (for_each (send_probe (make_probe tag)) (probe_targets as loopback extra))"
    unfolding send_probe_def by (intro emits) auto
  obtain es3 where h3: "history w3 = history w2 @ es3" "\<forall>e \<in> set es3. heard_of e = []" "answer w3 = answer w2"
    by (rule emitsD [OF e x])
  have h1: "history w1 = history w @ [(Host ''udp.bind'' [], Inr u)]" using b by (auto simp: host_def perform_def Let_def)
  obtain v where h2: "history w2 = history w1 @ [(Clock, v)]" using n by (auto simp: now_def)
  from c obtain w4 cl where k: "collect emap tag t0 (t0 + timeout) [] w3 = Some (Inr out, w4)"
    and h4: "history w' = history w4 @ [(Host ''udp.close'' [], Inr cl)]"
    by (auto simp: pfinally_Some host_def perform_def Let_def)
  from collect_gathers [OF k] obtain fs us where fs: "history w4 = history w3 @ fs" "length us = length (heard fs)"
    "note_all emap tag (zip (heard fs) us) [] = Inr out"
    unfolding gathers_def by auto
  let ?pre = "(Host ''udp.bind'' [], Inr u) # (Clock, v) # es3"
  have "heard es3 = []" using h3(2) by (simp add: heard_def)
  then have "heard (?pre @ fs @ [(Host ''udp.close'' [], Inr cl)]) = heard fs" by simp
  moreover have "history w' = history w @ (?pre @ fs @ [(Host ''udp.close'' [], Inr cl)])" using h1 h2 h3 h4 fs by simp
  ultimately show ?thesis using fs rs by metis
qed

text \<open>
  C27. discover returns one entry per address and port, sorted by latency and address; each
  entry comes from a reply with the tag of this probe that was received, and every such reply
  is represented.
\<close>

theorem discovery_reports_replies:
  assumes "discover ips tag timeout addrs loopback extra emap w = Some (Inr rs, w')"
  shows "\<exists>es. history w' = history w @ es \<and> distinct (map key_of rs) \<and> sorted (map (\<lambda>r. (fd_latency_ms r, fd_ip r)) rs) \<and>
    (\<forall>r \<in> set rs. \<exists>d peer kvs us. (d, peer) \<in> set (heard es) \<and> parse_response d tag = Some kvs \<and> reported emap kvs peer us = Inr r) \<and>
    (\<forall>(d, peer) \<in> set (heard es). \<forall>kvs. parse_response d tag = Some kvs \<longrightarrow>
       (\<exists>us f. reported emap kvs peer us = Inr f \<and> key_of f \<in> key_of ` set rs))"
proof -
  obtain es us out where h: "history w' = history w @ es" "length us = length (heard es)"
    "note_all emap tag (zip (heard es) us) [] = Inr out" "rs = by_latency out"
    using discover_collects [OF assms] by blast
  have "seen_ok emap tag [] []" by (simp add: seen_ok_def)
  from note_all_ok [OF this h(3)] h(2) have ok: "seen_ok emap tag (heard es) out"
    and all: "\<And>d peer u kvs. ((d, peer), u) \<in> set (zip (heard es) us) \<Longrightarrow> parse_response d tag = Some kvs \<Longrightarrow>
       \<exists>f. reported emap kvs peer u = Inr f \<and> key_of f \<in> fst ` set out"
    by (auto simp: map_fst_zip)
  have keys: "map fst out = map key_of (map snd out)" using ok unfolding seen_ok_def by (fastforce simp: list_eq_iff_nth_eq)
  have set_rs: "set rs = snd ` set out" by (simp add: h(4) by_latency_def)
  have m: "mset (map key_of rs) = mset (map fst out)" by (simp add: h(4) by_latency_def keys multiset.map_comp)
  then have "distinct (map key_of rs)" using ok by (metis mset_eq_imp_distinct_iff seen_ok_def)
  moreover have "sorted (map (\<lambda>r. (fd_latency_ms r, fd_ip r)) rs)" by (simp add: h(4) by_latency_def)
  moreover have "\<forall>r \<in> set rs. \<exists>d peer kvs us. (d, peer) \<in> set (heard es) \<and> parse_response d tag = Some kvs \<and> reported emap kvs peer us = Inr r"
    using ok unfolding seen_ok_def set_rs by fastforce
  moreover have "fst ` set out = key_of ` set rs" using keys unfolding set_rs by (metis image_set list.map_comp set_map)
  then have "\<exists>us f. reported emap kvs peer us = Inr f \<and> key_of f \<in> key_of ` set rs"
    if "(d, peer) \<in> set (heard es)" "parse_response d tag = Some kvs" for d peer kvs
  proof -
    from that(1) h(2) obtain u where "((d, peer), u) \<in> set (zip (heard es) us)" by (metis in_set_impl_in_set_zip1)
    from all [OF this that(2)] show ?thesis using \<open>fst ` set out = key_of ` set rs\<close> by auto
  qed
  ultimately show ?thesis using h(1) by (intro exI [of _ es]) auto
qed

section \<open>Guests behind a forward\<close>

lemma probe_plan_complete:
  "probe_plan ts = Inr (ps, es) \<Longrightarrow> x \<in> set ts \<Longrightarrow> guest_forward x = Inr (Some (a, ov)) \<Longrightarrow> a \<in> set ps \<and> a \<in> fst ` set es"
proof (induction ts arbitrary: ps es)
  case (Cons t ts)
  from Cons.prems(1) obtain g ps1 es1 where g: "guest_forward t = Inr g" and rest: "probe_plan ts = Inr (ps1, es1)"
    and out: "(ps, es) = (case g of None \<Rightarrow> (ps1, es1) | Some (b, v) \<Rightarrow> (b # ps1, if b \<in> fst ` set es1 then es1 else (b, v) # es1))"
    by (auto simp: ebnd_Inr split: option.splits)
  show ?case
  proof (cases "x = t")
    case True
    then show ?thesis using Cons.prems(3) g out by (auto split: if_splits)
  next
    case False
    then have "a \<in> set ps1 \<and> a \<in> fst ` set es1" using Cons.IH [OF rest] Cons.prems(2,3) by simp
    then show ?thesis using out by (auto split: option.splits if_splits)
  qed
qed simp

lemma probe_plan_sound:
  "probe_plan ts = Inr (ps, es) \<Longrightarrow> map_of es a = Some ov \<Longrightarrow> \<exists>x \<in> set ts. guest_forward x = Inr (Some (a, ov))"
proof (induction ts arbitrary: ps es)
  case (Cons t ts)
  from Cons.prems(1) obtain g ps1 es1 where g: "guest_forward t = Inr g" and rest: "probe_plan ts = Inr (ps1, es1)"
    and out: "(ps, es) = (case g of None \<Rightarrow> (ps1, es1) | Some (b, v) \<Rightarrow> (b # ps1, if b \<in> fst ` set es1 then es1 else (b, v) # es1))"
    by (auto simp: ebnd_Inr split: option.splits)
  from out Cons.prems(2) have "map_of es1 a = Some ov \<or> g = Some (a, ov)"
    by (auto split: option.splits if_splits)
  then show ?case using Cons.IH [OF rest] g by auto
qed simp

theorem guests_attributed:
  assumes "probe_plan (targets cfg) = Inr (ps, emap)" "(name, t) \<in> set (targets cfg)"
    and "guest_forward (name, t) = Inr (Some (a, ov))" "ov_endpoint ov \<noteq> []"
    and "\<forall>x \<in> set (targets cfg). \<forall>v. guest_forward x = Inr (Some (a, v)) \<longrightarrow> x = (name, t)"
    and "reported emap kvs a us = Inr f"
  shows "a \<in> set ps \<and> fd_endpoint f = ov_endpoint ov \<and> fd_target f = Some name"
proof -
  from probe_plan_complete [OF assms(1,2,3)] obtain v where a: "a \<in> set ps" and v: "map_of emap a = Some v"
    by (auto dest: weak_map_of_SomeI)
  from probe_plan_sound [OF assms(1) v] assms(3,5) have "v = ov" by fastforce
  moreover have "ov_target ov = name" using assms(3)
    by (auto simp: guest_forward_def Let_def ebnd_Inr split: option.splits if_splits)
  ultimately show ?thesis using a v assms(4,6) by (auto simp: reported_def Let_def ebnd_Inr)
qed

text \<open>
  The reply of a guest comes from a numeric address, so a forward that is configured under a host name
  is not recognised, and the port that the guest binds inside is reported.
\<close>

definition guest_at :: "string \<Rightarrow> config" where
  "guest_at ep = empty_config\<lparr>targets := [(''pegasos2'', (target_of Qemu)\<lparr>channels :=
     no_channels\<lparr>chan_mcpd := Some (default_mcpd\<lparr>chan_endpoint := ep\<rparr>)\<rparr>\<rparr>)]\<rparr>"

theorem named_guest_misreported:
  "\<exists>ps emap f. probe_plan (targets (guest_at ''localhost:4432'')) = Inr (ps, emap) \<and>
     reported emap [(''tcp_port'', JInt 4322)] (''127.0.0.1'', 4432) 0 = Inr f \<and>
     fd_endpoint f = ''127.0.0.1:4322'' \<and> fd_target f = None"
proof -
  have p: "port_of ''localhost:4432'' = Inr 4432" "host_of ''localhost:4432'' = ''localhost''" "int_dec 4322 = ''4322''"
    by code_simp+
  show ?thesis
    by (simp add: guest_at_def guest_forward_def target_of_def default_mcpd_def Let_def p
        reported_def get_truthy_def truthy.simps py_int.simps)
qed

text \<open>A reply that comes later replaces the one of its daemon that came first, whatever their latencies.\<close>

lemma later_reply_replaces:
  "note_reply emap tag d peer us seen = Inr seen1 \<Longrightarrow> parse_response d tag = Some kvs \<Longrightarrow> note_reply emap tag d peer us' seen1 = Inr seen2 \<Longrightarrow>
   \<exists>f. reported emap kvs peer us' = Inr f \<and> map_of seen2 (key_of f) = Some f"
  by (auto simp: note_reply_def ebnd_Inr update_conv)

text \<open>One daemon that announces a server name that is not a string makes the whole discovery fail.\<close>

lemma bad_announcement_aborts: "f \<in> set fs \<Longrightarrow> v_str (fd_server f) = Inl e \<Longrightarrow> isl (validate_all fs)"
proof (induction fs)
  case (Cons g fs)
  then show ?case by (cases "validated g"; cases "validate_all fs") (auto simp: validated_def)
qed simp

section \<open>Witnesses\<close>

theorem guests_attributed_witness:
  "\<exists>ps emap f. probe_plan (targets (guest_at ''127.0.0.1:4432'')) = Inr (ps, emap) \<and>
     reported emap [(''tcp_port'', JInt 4322)] (''127.0.0.1'', 4432) 0 = Inr f \<and>
     (''127.0.0.1'', 4432) \<in> set ps \<and> fd_endpoint f = ''127.0.0.1:4432'' \<and> fd_target f = Some ''pegasos2''"
proof -
  have p: "port_of ''127.0.0.1:4432'' = Inr 4432" "host_of ''127.0.0.1:4432'' = ''127.0.0.1''"
    "port_after_colon ''127.0.0.1:4432'' = Inr 4432" by code_simp+
  let ?cfg = "guest_at ''127.0.0.1:4432''" and ?a = "(''127.0.0.1'', 4432 :: int)"
  define t where "t = (target_of Qemu)\<lparr>channels :=
     no_channels\<lparr>chan_mcpd := Some (default_mcpd\<lparr>chan_endpoint := ''127.0.0.1:4432''\<rparr>)\<rparr>\<rparr>"
  let ?ov = "\<lparr>ov_endpoint = ''127.0.0.1:4432'', ov_target = ''pegasos2''\<rparr>"
  have ts: "targets ?cfg = [(''pegasos2'', t)]" by (simp add: guest_at_def t_def)
  have g: "guest_forward (''pegasos2'', t) = Inr (Some (?a, ?ov))"
    by (simp add: guest_forward_def t_def target_of_def default_mcpd_def Let_def p)
  have plan: "probe_plan (targets ?cfg) = Inr ([?a], [(?a, ?ov)])" by (simp add: ts g)
  obtain f where f: "reported [(?a, ?ov)] [(''tcp_port'', JInt 4322)] ?a 0 = Inr f"
    by (simp add: reported_def get_truthy_def truthy.simps py_int.simps Let_def p)
  have "?a \<in> set [?a] \<and> fd_endpoint f = ov_endpoint ?ov \<and> fd_target f = Some ''pegasos2''"
    by (rule guests_attributed [OF plan _ g _ _ f]) (simp_all add: ts)
  then show ?thesis using plan f by auto
qed

text \<open>A network on which one daemon answers.\<close>

definition dq_word :: "string \<Rightarrow> string" where
  "dq_word s = [CHR 0x22] @ s @ [CHR 0x22]"

definition one_reply :: string where
  "one_reply = ''{'' @ dq_word ''mcp_discovery'' @ '':1,'' @ dq_word ''tag'' @ '':'' @ dq_word ''t'' @ ''}''"

definition one_daemon :: fleet where
  "one_daemon = fleet_init empty_config (\<lambda>h e. case e of
       Clock \<Rightarrow> Inr (JInt (int (length h) * 1000))
     | Host op args \<Rightarrow> (if op = ''udp.recvfrom''
         then (if length h = 4 then Inr (JArr [JStr one_reply, JStr ''10.0.0.5'', JInt 4323]) else Inl (PyErr TimeoutError []))
         else Inr JNull)
     | _ \<Rightarrow> Inr JNull)"

lemma one_reply_parsed: "parse_response one_reply ''t'' = Some [(''mcp_discovery'', JInt 1), (''tag'', JStr ''t'')]"
  by code_simp

lemma one_daemon_run: "\<exists>w' r. discover (Inr []) ''t'' 1500000 (Some [''10.0.0.255'']) False [] [] one_daemon = Some (Inr [r], w') \<and>
    fd_endpoint r = ''10.0.0.5:4322''"
proof -
  have i: "int_dec 4322 = ''4322''" by code_simp
  show ?thesis
    unfolding discover_def
    by (simp add: pbnd_def always_def lift_run host_def perform_def Let_def now_def probe_targets_def send_probe_def catch_def bnd_def
        ret_def pfinally_def collect.simps recv_event_def note_reply_def one_reply_parsed reported_def get_truthy_def announced_def
        pret_def by_latency_def one_daemon_def fleet_init_def i del: is_os_error.simps)
qed

theorem discovery_reports_replies_witness:
  "\<exists>w' r. discover (Inr []) ''t'' 1500000 (Some [''10.0.0.255'']) False [] [] one_daemon = Some (Inr [r], w') \<and>
     (\<exists>d peer kvs us. (d, peer) \<in> set (heard (history w')) \<and> parse_response d ''t'' = Some kvs \<and> reported [] kvs peer us = Inr r)"
proof -
  obtain w' r where run: "discover (Inr []) ''t'' 1500000 (Some [''10.0.0.255'']) False [] [] one_daemon = Some (Inr [r], w')"
    using one_daemon_run by blast
  have h: "history one_daemon = []" by (simp add: one_daemon_def fleet_init_def)
  show ?thesis using discovery_reports_replies [OF run] run unfolding h by fastforce
qed

end
