(* ===== verification/Qmp.thy ===== *)
theory Qmp
  imports Config
begin

text \<open>
  The QMP transport (\<^verbatim>\<open>transports/qmp.py\<close>): a lazily connected client, dropped by \<^verbatim>\<open>quit\<close>.  The
  client itself is a third-party object; what its methods answer is the environment's.  A call holds
  the transport's lock from start to end and is one step.
\<close>

record qmp = world +
  q_channel :: channel
  q_client :: bool

definition new_qmp :: "channel \<Rightarrow> ((event \<times> outcome) list \<Rightarrow> event \<Rightarrow> outcome) \<Rightarrow> qmp" where
  "new_qmp ch env = \<lparr>history = [], answer = env, q_channel = ch, q_client = False\<rparr>"

definition client :: "string \<Rightarrow> json list \<Rightarrow> (qmp, json) io" where
  "client method args = host (''qmp.'' @ method) args"

definition not_reachable :: "channel \<Rightarrow> exn \<Rightarrow> exn" where
  "not_reachable ch e = RpcErr TargetError (''QMP not reachable at '' @ chan_endpoint ch)
     (Some (JObj [(''endpoint'', JStr (chan_endpoint ch)), (''error'', JStr (exn_str e))]))"

definition oserror :: "exn \<Rightarrow> bool" where
  "oserror e = (case e of PyErr t m \<Rightarrow> is_os_error t | RpcErr c m d \<Rightarrow> False)"

definition qmp_connect :: "(qmp, unit) io" where
  "qmp_connect = bnd (gets id) (\<lambda>s.
     if q_client s then ret ()
     else bnd (catch (client ''connect'' [JStr (chan_endpoint (q_channel s))])
                 (\<lambda>e. raise (if oserror e then not_reachable (q_channel s) e else e))) (\<lambda>_.
       modify (\<lambda>s. s\<lparr>q_client := True\<rparr>)))"

definition qmp_close :: "(qmp, unit) io" where
  "qmp_close = bnd (gets q_client) (\<lambda>c. if \<not> c then ret ()
     else bnd (client ''close'' []) (\<lambda>_. modify (\<lambda>s. s\<lparr>q_client := False\<rparr>)))"

definition qmp_call :: "string \<Rightarrow> json list \<Rightarrow> (qmp, json) io" where
  "qmp_call method args = bnd qmp_connect (\<lambda>_. client method args)"

definition query_status :: "(qmp, json) io" where "query_status = qmp_call ''status'' []"
definition system_reset :: "(qmp, json) io" where "system_reset = qmp_call ''reset'' []"
definition stop_cpu :: "(qmp, json) io" where "stop_cpu = qmp_call ''stop'' []"
definition cont_cpu :: "(qmp, json) io" where "cont_cpu = qmp_call ''cont'' []"

text \<open>\<^verbatim>\<open>finally\<close>: the client is closed and forgotten whatever \<^verbatim>\<open>quit\<close> did; a failing close hides it.\<close>

definition quit :: "(qmp, json) io" where
  "quit = bnd qmp_connect (\<lambda>_. \<lambda>s.
     (case client ''quit'' [] s of (r, s1) \<Rightarrow>
       (case client ''close'' [] s1 of
          (Inl e, s2) \<Rightarrow> (Inl e, s2)
        | (Inr _, s2) \<Rightarrow> (r, s2\<lparr>q_client := False\<rparr>))))"

definition qmp_command :: "string \<Rightarrow> (string \<times> json) list \<Rightarrow> (qmp, json) io" where
  "qmp_command name args = qmp_call ''command'' [JStr name, JObj args]"

definition screendump :: "string \<Rightarrow> (qmp, json) io" where
  "screendump path = qmp_command ''screendump'' [(''filename'', JStr path), (''format'', JStr ''png'')]"

definition hmp :: "string \<Rightarrow> (qmp, string) io" where
  "hmp cmd = bnd (qmp_command ''human-monitor-command'' [(''command-line'', JStr cmd)]) (\<lambda>r.
     case r of JObj kvs \<Rightarrow> ret (case map_of kvs ''return'' of Some (JStr s) \<Rightarrow> s | _ \<Rightarrow> [])
     | _ \<Rightarrow> raise (PyErr AttributeError []))"

section \<open>One client at a time\<close>

text \<open>
  Connecting and closing alternate in the history, and the transport knows which was last: no call
  opens a second connection while one is open.
\<close>

fun open_after :: "bool \<Rightarrow> (event \<times> outcome) list \<Rightarrow> bool option" where
  "open_after b [] = Some b"
| "open_after b ((Host op args, v) # es) =
     (if op = ''qmp.connect'' then (if b then None else open_after (\<not> isl v) es)
      else if op = ''qmp.close'' then open_after (isl v \<and> b) es
      else if b then open_after b es else None)"
| "open_after b (e # es) = open_after b es"

lemma open_after_append: "open_after b (es @ fs) = Option.bind (open_after b es) (\<lambda>c. open_after c fs)"
  by (induction b es rule: open_after.induct) auto

definition client_inv :: "qmp \<Rightarrow> bool" where
  "client_inv s \<longleftrightarrow> open_after False (history s) = Some (q_client s)"

lemmas qmp_ops = qmp_connect_def qmp_close_def qmp_call_def client_def query_status_def system_reset_def stop_cpu_def
  cont_cpu_def quit_def qmp_command_def screendump_def hmp_def

lemma keeps_connect: "preserves client_inv qmp_connect"
  unfolding preserves_def qmp_connect_def client_def host_def
  by (auto simp: bnd_def gets_def ret_def catch_def raise_def modify_def perform_def Let_def client_inv_def open_after_append
      split: sum.splits if_splits)

lemma connect_opens: "qmp_connect s = (Inr u, s') \<Longrightarrow> q_client s'"
  unfolding qmp_connect_def client_def host_def
  by (auto simp: bnd_def gets_def ret_def catch_def raise_def modify_def perform_def Let_def split: sum.splits if_splits)

lemma keeps_call:
  assumes "method \<notin> {''connect'', ''close''}"
  shows "preserves client_inv (qmp_call method args)"
  unfolding preserves_def
proof (intro allI impI)
  fix s r s' assume run: "qmp_call method args s = (r, s')" and inv: "client_inv s"
  obtain r1 s1 where c: "qmp_connect s = (r1, s1)" by force
  have i1: "client_inv s1" using preservesD [OF keeps_connect c inv] .
  show "client_inv s'"
  proof (cases r1)
    case (Inl e)
    then show ?thesis using run c i1 by (simp add: qmp_call_def bnd_def)
  next
    case (Inr u)
    then have "q_client s1" using c connect_opens by blast
    then show ?thesis using run c i1 Inr assms
      by (auto simp: qmp_call_def bnd_def client_def host_def perform_def Let_def client_inv_def open_after_append)
  qed
qed

lemma client_run: "client m args s = (r, s') \<Longrightarrow> history s' = history s @ [(Host (''qmp.'' @ m) args, r)] \<and> q_client s' = q_client s"
  by (auto simp: client_def host_def perform_def Let_def)

lemma keeps_quit: "preserves client_inv quit"
  unfolding preserves_def
proof (intro allI impI)
  fix s r s' assume run: "quit s = (r, s')" and inv: "client_inv s"
  obtain r1 s1 where c: "qmp_connect s = (r1, s1)" by force
  have i1: "client_inv s1" using preservesD [OF keeps_connect c inv] .
  show "client_inv s'"
  proof (cases r1)
    case (Inl e)
    then show ?thesis using run c i1 by (simp add: quit_def bnd_def)
  next
    case (Inr u)
    then have "q_client s1" using c connect_opens by blast
    obtain rq s2 where q: "client ''quit'' [] s1 = (rq, s2)" by force
    obtain rc s3 where k: "client ''close'' [] s2 = (rc, s3)" by force
    show ?thesis using run c i1 Inr q k client_run [OF q] client_run [OF k] \<open>q_client s1\<close>
      by (cases rc) (auto simp: quit_def bnd_def client_inv_def open_after_append)
  qed
qed

theorem qmp_one_client:
  "preserves client_inv qmp_close \<and> preserves client_inv query_status \<and> preserves client_inv system_reset \<and>
   preserves client_inv stop_cpu \<and> preserves client_inv cont_cpu \<and> preserves client_inv quit \<and>
   preserves client_inv (qmp_command name args) \<and> preserves client_inv (screendump path) \<and> preserves client_inv (hmp cmd)"
proof -
  have "preserves client_inv qmp_close"
    unfolding preserves_def qmp_close_def client_def host_def
    by (auto simp: bnd_def gets_def ret_def modify_def perform_def Let_def client_inv_def open_after_append split: sum.splits if_splits)
  moreover have "preserves client_inv (hmp cmd)"
    unfolding hmp_def qmp_command_def
    by (intro preserves_bnd keeps_call) (auto intro: kept split: json.splits)
  ultimately show ?thesis
    unfolding query_status_def system_reset_def stop_cpu_def cont_cpu_def qmp_command_def screendump_def
    by (simp add: keeps_call keeps_quit)
qed

end
