(* ===== verification/QemuTools.thy ===== *)
theory QemuTools
  imports Cmdline FleetTools
begin

text \<open>
  The QEMU lifecycle tools (\<^verbatim>\<open>tools/qemu.py\<close>): start, stop, reset, status and screenshot of a guest.
  A process handle is its pid, as in \<open>Fleet\<close>; the calls on it, on the QMP transport and on the host's
  files are host events.  What the MCPd transport remembers of the last write made through it is the
  argument \<open>last_write\<close>, a function of the state and the transport.  Times are milliseconds, those of
  the clock microseconds.
\<close>

section \<open>Helpers\<close>

text \<open>\<^verbatim>\<open>chan is not None and chan.enabled and _can_connect(chan.host, chan.port)\<close>.\<close>

definition channel_up :: "('z channel_scheme) option \<Rightarrow> (fleet, bool) io" where
  "channel_up c = (case c of
       None \<Rightarrow> ret False
     | Some ch \<Rightarrow>
         if \<not> enabled ch then ret False
         else bnd (lift (port_of (chan_endpoint ch))) (can_connect (host_of (chan_endpoint ch))))"

definition qmp_op :: "string \<Rightarrow> channel handle \<Rightarrow> json list \<Rightarrow> (fleet, json) io" where
  "qmp_op method q args = host (''qmp.'' @ method) (JInt (int (tid q)) # args)"

definition proc_op :: "string \<Rightarrow> nat \<Rightarrow> (fleet, json) io" where
  "proc_op op p = host op [JInt (int p)]"

definition timeout_or_target :: "exn \<Rightarrow> bool" where
  "timeout_or_target e = (case e of PyErr t m \<Rightarrow> t = TimeoutError | RpcErr c m d \<Rightarrow> c = TargetError)"

definition exit_of :: "json \<Rightarrow> int option" where
  "exit_of v = (case v of JInt i \<Rightarrow> Some i | _ \<Rightarrow> None)"

definition with_config :: "string \<Rightarrow> (target_config \<Rightarrow> (fleet, 'a) io) \<Rightarrow> (fleet, 'a) io" where
  "with_config target f = bnd (gets f_config) (\<lambda>c. bnd (lift (target_config c target)) f)"

text \<open>\<^verbatim>\<open>str(Path(p).parent)\<close> of a POSIX path.\<close>

definition parent_dir :: "string \<Rightarrow> string" where
  "parent_dir p = (let (d, sep, _) = rpartition CHR ''/'' p
     in if sep = [] then ''.'' else if d = [] then ''/'' else d)"

text \<open>The dash of a message, as UTF-8.\<close>

section \<open>Start\<close>

record qemu_started =
  started_target :: string
  started_pid :: nat
  started_ports :: ports
  started_cmdline :: "string list"
  started_log :: string

definition already_running :: "string \<Rightarrow> nat \<Rightarrow> exn" where
  "already_running target p = RpcErr TargetError
     (''target '' @ py_repr target @ '' is already running (pid '' @ int_dec (int p) @ '')'')
     (Some (JObj [(''pid'', JInt (int p))]))"

definition already_listening :: "string \<Rightarrow> string \<Rightarrow> string \<Rightarrow> int \<Rightarrow> exn" where
  "already_listening target label h p = RpcErr TargetError
     (''target '' @ py_repr target @ '' already has something listening on its '' @ label @ '' port (''
      @ h @ '':'' @ int_dec p @ '') -- a guest is running that this process did not start. Stop it first ''
      @ ''(qemu.stop now handles unowned guests) or check qemu.status, which reports `owned`.'')
     (Some (JObj [(''target'', JStr target), (''port'', JInt p), (''channel'', JStr label)]))"

definition refuse_listener :: "string \<Rightarrow> string \<Rightarrow> ('z channel_scheme) option \<Rightarrow> (fleet, unit) io" where
  "refuse_listener target label c = (case c of
       None \<Rightarrow> ret ()
     | Some ch \<Rightarrow>
         if \<not> enabled ch then ret ()
         else bnd (lift (port_of (chan_endpoint ch))) (\<lambda>p. let h = host_of (chan_endpoint ch) in
              bnd (can_connect h p) (\<lambda>up. if up then raise (already_listening target label h p) else ret ())))"

text \<open>The log of this launch, and the limits on the logs of earlier ones (\<open>Archive.prune_logs\<close>).\<close>

definition log_dir_of :: "config \<Rightarrow> string \<Rightarrow> string" where
  "log_dir_of c target = archive_root (server c) @ ''/serial-logs/'' @ target"

definition prune_old_logs :: "server_config \<Rightarrow> string \<Rightarrow> (fleet, unit) io" where
  "prune_old_logs sc dir =
     (let keep = serial_log_keep sc; budget = serial_log_max_total_mb sc
      in whenM ((case keep of Some k \<Rightarrow> k > 0 | None \<Rightarrow> False) \<or> budget \<noteq> None)
           (bnd (host ''prune_logs'' [JStr dir, JInt (case keep of Some k \<Rightarrow> k | None \<Rightarrow> 0),
                   (case budget of Some b \<Rightarrow> JInt (b * 1024 * 1024) | None \<Rightarrow> JNull)]) (\<lambda>_. ret ())))"

definition popen_event :: "string list \<Rightarrow> string \<Rightarrow> string \<Rightarrow> event" where
  "popen_event cmd cwd log = Host ''popen'' [JArr (map JStr cmd), JStr cwd, JStr log]"

definition open_log :: "string \<Rightarrow> (fleet, string) io" where
  "open_log target = bnd (gets f_config) (\<lambda>c. let dir = log_dir_of c target in
     bnd (host ''mkdir'' [JStr dir]) (\<lambda>_.
     bnd (host ''time'' []) (\<lambda>t. let log = dir @ ''/'' @ int_dec (as_int t) @ ''.log'' in
     bnd (prune_old_logs (server c) dir) (\<lambda>_.
     bnd (host ''open'' [JStr log, JStr ''wb'']) (\<lambda>_. ret log)))))"

definition launch :: "string \<Rightarrow> string \<Rightarrow> string list \<Rightarrow> ports \<Rightarrow> (fleet, qemu_started) io" where
  "launch target binary cmd ports =
     bnd (open_log target) (\<lambda>log.
     bnd (ensuring (perform (popen_event cmd (parent_dir binary) log)) (host ''close file'' [JStr log])) (\<lambda>v.
     bnd (register_qemu_process target (nat (as_int v)) (Some log)) (\<lambda>_.
     ret \<lparr>started_target = target, started_pid = nat (as_int v), started_ports = ports, started_cmdline = cmd,
          started_log = log\<rparr>)))"

text \<open>No guest of ours runs, and nothing listens where a guest would.\<close>

definition start_checks :: "string \<Rightarrow> target_config \<Rightarrow> (fleet, unit) io" where
  "start_checks target t =
     bnd (gets (qemu_process target)) (\<lambda>existing.
     bnd (process_running target) (\<lambda>running.
     if running then raise (already_running target (case existing of Some p \<Rightarrow> p | None \<Rightarrow> 0))
     else bnd (refuse_listener target ''mcpd'' (chan_mcpd (channels t))) (\<lambda>_.
          refuse_listener target ''qmp'' (chan_qmp (channels t)))))"

definition qemu_start :: "string \<Rightarrow> (fleet, qemu_started) io" where
  "qemu_start target = with_config target (\<lambda>t.
     if t_type t \<noteq> Qemu
     then raise (RpcErr InvalidParams ''qemu.start only applies to type=qemu targets''
            (Some (JObj [(''target'', JStr target), (''type'', JStr (type_str (t_type t)))])))
     else case qemu_config t of
       None \<Rightarrow> raise (RpcErr InvalidParams ''target.qemu_config is required for qemu.start''
            (Some (JObj [(''target'', JStr target)])))
     | Some machine \<Rightarrow> bnd (gets (\<lambda>s. qemu_binary (paths (f_config s)))) (\<lambda>bin. case bin of
       None \<Rightarrow> raise (RpcErr InvalidParams (''paths.qemu_binary not set in config ''
            @ em_dash @ '' see USAGE.md#helper-paths-paths or run `amiga-fleet-mcp --init`'') None)
     | Some binary \<Rightarrow>
         bnd (start_checks target t) (\<lambda>_.
         bnd (gets host_files) (\<lambda>fs.
         bnd (lift (build_cmdline binary machine (map_of fs machine) t None)) (\<lambda>(cmd, ports).
         launch target binary cmd ports)))))"

section \<open>Stop\<close>

definition DEFAULT_SETTLE_MS :: int where
  "DEFAULT_SETTLE_MS = 10000"

text \<open>\<open>Waited\<close> carries the pause in microseconds; the report shows it in tenths of a second.\<close>

datatype settled = Fs_sync | Nothing_written | Skipped | Already_elapsed | Waited int

definition pause_us :: "int \<Rightarrow> (fleet, unit) io" where
  "pause_us t w = (Inr (), snd (perform (Host ''sleep'' [JInt t]) w))"

definition sync_request :: "string \<Rightarrow> event" where
  "sync_request target = Rpc target ''fs.sync'' (JObj [(''path'', JStr ''SYS:'')])"

definition transport_if_up :: "string \<Rightarrow> (fleet, mcpd_channel handle option) io" where
  "transport_if_up target = bnd (gets (mcpd_if_connected target)) (\<lambda>t. case t of
       Some h \<Rightarrow> ret (Some h)
     | None \<Rightarrow> with_config target (\<lambda>cfg.
         bnd (channel_up (chan_mcpd (channels cfg))) (\<lambda>up.
         if up then bnd (fleet_mcpd target) (\<lambda>h. ret (Some h)) else ret None)))"

definition settle_before_stop ::
    "(fleet \<Rightarrow> nat \<Rightarrow> int option) \<Rightarrow> string \<Rightarrow> int \<Rightarrow> (fleet, settled) io" where
  "settle_before_stop last_write target settle_ms =
     bnd (transport_if_up target) (\<lambda>t. case t of
       None \<Rightarrow> ret Nothing_written
     | Some h \<Rightarrow> bnd (succeeds (perform (sync_request target))) (\<lambda>flushed.
         if flushed then ret Fs_sync
         else bnd (gets (\<lambda>s. last_write s (tid h))) (\<lambda>w. case w of
           None \<Rightarrow> ret Nothing_written
         | Some at \<Rightarrow>
             if settle_ms \<le> 0 then ret Skipped
             else bnd now (\<lambda>t. let remaining = 1000 * settle_ms - (t - at) in
               if remaining \<le> 0 then ret Already_elapsed
               else bnd (pause_us remaining) (\<lambda>_. ret (Waited remaining))))))"

datatype stop_method = By_qmp | Qmp_unowned | Terminated | Killed | Already_stopped

record qemu_stopped =
  stop_settled :: settled
  stop_method :: stop_method
  exit_code :: "int option"

definition quit_failed :: "string \<Rightarrow> exn \<Rightarrow> exn" where
  "quit_failed target e = RpcErr TargetError
     (''guest for '' @ py_repr target @ '' is running but was not started by this process, and QMP quit failed: ''
      @ exn_str e) (Some (JObj [(''target'', JStr target), (''owned'', JBool False)]))"

definition no_way_to_stop :: "string \<Rightarrow> exn" where
  "no_way_to_stop target = RpcErr TargetError
     (''guest for '' @ py_repr target @ '' is running but was not started by this process and has no ''
      @ ''reachable QMP channel, so it cannot be stopped from here. Stop it where it was started, or ''
      @ ''configure [targets.<name>.channels.qmp].'')
     (Some (JObj [(''target'', JStr target), (''owned'', JBool False)]))"

definition stop_unowned :: "string \<Rightarrow> (fleet, stop_method) io" where
  "stop_unowned target = with_config target (\<lambda>cfg.
     bnd (channel_up (chan_qmp (channels cfg))) (\<lambda>qmp_up.
     if qmp_up
     then catch (bnd (fleet_qmp target) (\<lambda>q. bnd (qmp_op ''quit'' q []) (\<lambda>_. ret Qmp_unowned)))
            (\<lambda>e. raise (if timeout_or_target e then quit_failed target e else e))
     else bnd (channel_up (chan_mcpd (channels cfg))) (\<lambda>reachable.
       if reachable then raise (no_way_to_stop target) else ret Already_stopped)))"

text \<open>The polls, half a second apart: \<open>Some\<close> exit code when the process was seen to have ended.\<close>

fun wait_exit :: "nat \<Rightarrow> nat \<Rightarrow> (fleet, json option) io" where
  "wait_exit 0 p = ret None"
| "wait_exit (Suc n) p = bnd (proc_op ''poll'' p) (\<lambda>v.
     if v \<noteq> JNull then ret (Some v) else bnd (sleep 500) (\<lambda>_. wait_exit n p))"

definition ask_to_quit :: "string \<Rightarrow> (fleet, stop_method) io" where
  "ask_to_quit target = with_config target (\<lambda>cfg. case chan_qmp (channels cfg) of
       None \<Rightarrow> ret Terminated
     | Some ch \<Rightarrow>
         if \<not> enabled ch then ret Terminated
         else bnd (fleet_qmp target) (\<lambda>q.
           catch (bnd (qmp_op ''quit'' q []) (\<lambda>_. ret By_qmp))
             (\<lambda>e. if timeout_or_target e then ret Terminated else raise e)))"

definition end_process :: "nat \<Rightarrow> (fleet, stop_method \<times> json) io" where
  "end_process p = bnd (proc_op ''terminate'' p) (\<lambda>_.
     catch (bnd (proc_op ''wait 5'' p) (\<lambda>v. ret (Terminated, v)))
       (\<lambda>e. if is_timeout_expired e
            then bnd (proc_op ''kill'' p) (\<lambda>_. bnd (proc_op ''wait 5'' p) (\<lambda>v. ret (Killed, v)))
            else raise e))"

definition stop_owned :: "string \<Rightarrow> nat \<Rightarrow> int \<Rightarrow> (fleet, stop_method \<times> json) io" where
  "stop_owned target p timeout_ms =
     bnd (ask_to_quit target) (\<lambda>m.
     bnd (wait_exit (nat (timeout_ms div 500)) p) (\<lambda>x. case x of
       Some v \<Rightarrow> ret (m, v)
     | None \<Rightarrow> end_process p))"

text \<open>What follows the flush; \<open>how\<close> is what the flush reported.\<close>

definition stop_phase :: "string \<Rightarrow> int \<Rightarrow> settled \<Rightarrow> (fleet, qemu_stopped) io" where
  "stop_phase target timeout_ms how = bnd (gets (qemu_process target)) (\<lambda>proc. case proc of
       None \<Rightarrow> bnd (stop_unowned target) (\<lambda>m. ret \<lparr>stop_settled = how, stop_method = m, exit_code = None\<rparr>)
     | Some p \<Rightarrow> bnd (proc_op ''poll'' p) (\<lambda>v.
         if v \<noteq> JNull
         then bnd (drop_qemu_process target) (\<lambda>_.
              ret \<lparr>stop_settled = how, stop_method = Already_stopped, exit_code = exit_of v\<rparr>)
         else bnd (ensuring (stop_owned target p timeout_ms) (drop_qemu_process target)) (\<lambda>(m, x).
              ret \<lparr>stop_settled = how, stop_method = m, exit_code = exit_of x\<rparr>)))"

definition qemu_stop ::
    "(fleet \<Rightarrow> nat \<Rightarrow> int option) \<Rightarrow> string \<Rightarrow> int \<Rightarrow> int option \<Rightarrow> (fleet, qemu_stopped) io" where
  "qemu_stop last_write target timeout_ms settle_ms =
     bnd (settle_before_stop last_write target
            (case settle_ms of Some t \<Rightarrow> t | None \<Rightarrow> DEFAULT_SETTLE_MS))
       (stop_phase target timeout_ms)"

section \<open>Reset\<close>

record qemu_reset_result =
  reset_method :: string
  reset_response :: json
  reset_pid :: "nat option"

definition qemu_reset ::
    "(fleet \<Rightarrow> nat \<Rightarrow> int option) \<Rightarrow> string \<Rightarrow> bool \<Rightarrow> (fleet, qemu_reset_result) io" where
  "qemu_reset last_write target raw =
     (if raw
      then bnd (fleet_qmp target) (\<lambda>q. bnd (qmp_op ''system_reset'' q []) (\<lambda>r.
           ret \<lparr>reset_method = ''system_reset'', reset_response = r, reset_pid = None\<rparr>))
      else bnd (qemu_stop last_write target 10000 None) (\<lambda>_.
           bnd (sleep 2000) (\<lambda>_.
           bnd (qemu_start target) (\<lambda>st.
           ret \<lparr>reset_method = ''stop_start'',
                reset_response = JObj [(''stopped'', JBool True), (''started'', JBool True)],
                reset_pid = Some (started_pid st)\<rparr>))))"

section \<open>Status\<close>

record qemu_state =
  qs_running :: bool
  qs_owned :: bool
  qs_pid :: "nat option"
  qs_qmp :: "json option"
  qs_mcpd :: "bool option"

definition asked_state :: "string \<Rightarrow> (fleet, json option) io" where
  "asked_state target = catch (bnd (fleet_qmp target) (\<lambda>q. bnd (qmp_op ''query_status'' q []) (\<lambda>v. ret (Some v))))
     (\<lambda>e. if timeout_or_target e then ret None else raise e)"

definition qemu_status :: "string \<Rightarrow> (fleet, qemu_state) io" where
  "qemu_status target = with_config target (\<lambda>cfg.
     bnd (gets (qemu_process target)) (\<lambda>proc.
     bnd (process_running target) (\<lambda>owned.
     bnd (channel_up (chan_qmp (channels cfg))) (\<lambda>qmp_up.
     bnd (channel_up (chan_mcpd (channels cfg))) (\<lambda>mcpd_up.
     bnd (if qmp_up then asked_state target else ret None) (\<lambda>st.
     bnd (case chan_mcpd (channels cfg) of
            None \<Rightarrow> ret None
          | Some ch \<Rightarrow> if \<not> enabled ch then ret None
              else bnd (channel_up (Some ch)) (\<lambda>up. ret (Some up))) (\<lambda>reachable.
     ret \<lparr>qs_running = (owned \<or> qmp_up \<or> mcpd_up), qs_owned = owned,
          qs_pid = (if owned then proc else None), qs_qmp = st, qs_mcpd = reachable\<rparr>)))))))"

section \<open>Screenshot\<close>

record qemu_shot =
  shot_size :: nat
  shot_b64 :: string
  shot_saved :: "string option"

definition nonempty_file :: "string \<Rightarrow> (fleet, bool) io" where
  "nonempty_file p = bnd (host ''exists'' [JStr p]) (\<lambda>b.
     if b \<noteq> JBool True then ret False
     else bnd (host ''size'' [JStr p]) (\<lambda>n. ret (as_int n > 0)))"

fun await_file :: "nat \<Rightarrow> string \<Rightarrow> (fleet, unit) io" where
  "await_file 0 p = ret ()"
| "await_file (Suc n) p = bnd (nonempty_file p) (\<lambda>b. if b then ret () else bnd (sleep 50) (\<lambda>_. await_file n p))"

definition qemu_screenshot :: "string \<Rightarrow> string option \<Rightarrow> (fleet, qemu_shot) io" where
  "qemu_screenshot target save_path =
     bnd (fleet_qmp target) (\<lambda>q.
     bnd (case save_path of
            Some (c # cs) \<Rightarrow> ret (c # cs, True)
          | _ \<Rightarrow> bnd (host ''mkstemp'' [JStr ''amiga_fleet_screen_'', JStr ''.png'']) (\<lambda>v. ret (as_str v, False))) (\<lambda>(out, keep).
     ensuring
       (bnd (qmp_op ''screendump'' q [JStr out]) (\<lambda>_.
        bnd (await_file 20 out) (\<lambda>_.
        bnd (nonempty_file out) (\<lambda>ok.
        if \<not> ok then raise (RpcErr InternalError ''screendump produced empty file'' None)
        else bnd (host ''read_bytes'' [JStr out]) (\<lambda>v. let data = as_str v in
          ret \<lparr>shot_size = length data, shot_b64 = b64encode data,
               shot_saved = (if keep then Some out else None)\<rparr>)))))
       (if keep then ret ()
        else catch (bnd (host ''unlink'' [JStr out]) (\<lambda>_. ret ())) (\<lambda>e. if is_os e then ret () else raise e))))"

end
