(* ===== verification/Qemu_Correct.thy ===== *)
theory Qemu_Correct
  imports QemuTools
begin

text \<open>
  Properties of the QEMU lifecycle tools: what has been established when a second QEMU is started,
  that a guest's writes are flushed before anything that ends it, what a stop leaves behind and what
  its report means.
\<close>

section \<open>Shared steps\<close>

lemma perform_run: "perform e s = (v, s') \<longleftrightarrow> v = answer s (history s) e \<and> s' = s\<lparr>history := history s @ [(e, v)]\<rparr>"
  by (auto simp: perform_def Let_def)

lemma with_config_run: "with_config target f s =
    (case target_config (f_config s) target of Inl e \<Rightarrow> (Inl e, s) | Inr t \<Rightarrow> f t s)"
  by (simp add: with_config_def bnd_def gets_def lift_def raise_def ret_def split: sum.splits)

lemma emits_with_config [emits]: "(\<And>t. emits P (f t)) \<Longrightarrow> emits P (with_config target f)"
  unfolding with_config_def by (intro emits)

lemma preserves_with_config [kept]: "(\<And>t. preserves I (f t)) \<Longrightarrow> preserves I (with_config target f)"
  unfolding with_config_def by (intro kept)

lemma channel_up_run:
  assumes "channel_up c s = (Inr b, s')"
  shows "(b = False \<and> s' = s \<and> (\<forall>ch. c = Some ch \<longrightarrow> \<not> enabled ch)) \<or>
    (\<exists>ch p v. c = Some ch \<and> enabled ch \<and> port_of (chan_endpoint ch) = Inr p \<and>
       history s' = history s @ [(connect_event (host_of (chan_endpoint ch)) p, v)] \<and>
       s' = s\<lparr>history := history s'\<rparr> \<and> (b \<longleftrightarrow> \<not> isl v))"
proof (cases c)
  case None
  then show ?thesis using assms by (simp add: channel_up_def ret_def)
next
  case (Some ch)
  show ?thesis
  proof (cases "enabled ch")
    case False
    then show ?thesis using assms Some by (simp add: channel_up_def ret_def)
  next
    case True
    then have run: "bnd (lift (port_of (chan_endpoint ch))) (can_connect (host_of (chan_endpoint ch))) s = (Inr b, s')"
      using assms Some by (simp add: channel_up_def)
    then obtain p where p: "port_of (chan_endpoint ch) = Inr p"
      and c: "can_connect (host_of (chan_endpoint ch)) p s = (Inr b, s')"
      by (auto simp: bnd_eq_Inr lift_run)
    from can_connect_run [OF c] obtain v
      where "s' = s\<lparr>history := history s @ [(connect_event (host_of (chan_endpoint ch)) p, v)]\<rparr>" "b \<longleftrightarrow> \<not> isl v"
      by (metis Inl_Inr_False isl_def sum.sel(2) sum.disc(1) sum.inject(2))
    then have "history s' = history s @ [(connect_event (host_of (chan_endpoint ch)) p, v)] \<and>
       s' = s\<lparr>history := history s'\<rparr> \<and> (b \<longleftrightarrow> \<not> isl v)" by simp
    with Some True p show ?thesis by blast
  qed
qed

lemma emits_channel_up [emits]: "(\<And>h p v. P (connect_event h p, v)) \<Longrightarrow> emits P (channel_up c)"
  unfolding channel_up_def by (auto intro!: emits)

lemma preserves_channel_up [kept]: "(\<And>s h. I s \<Longrightarrow> I (s\<lparr>history := h\<rparr>)) \<Longrightarrow> preserves I (channel_up c)"
  unfolding channel_up_def by (auto intro!: kept)

lemma emits_qmp_op [emits]: "(\<And>v. P (Host (''qmp.'' @ m) (JInt (int (tid q)) # args), v)) \<Longrightarrow> emits P (qmp_op m q args)"
  unfolding qmp_op_def by (auto intro!: emits)

lemma emits_proc_op [emits]: "(\<And>v. P (Host op [JInt (int p)], v)) \<Longrightarrow> emits P (proc_op op p)"
  unfolding proc_op_def by (auto intro!: emits)

lemma emits_pause [emits]: "(\<And>v. P (Host ''sleep'' [JInt t], v)) \<Longrightarrow> emits P (pause_us t)"
  by (simp add: emits_def pause_us_def perform_def Let_def)

lemma pool_history: 
  "fleet_mcpd n s = (r, s') \<Longrightarrow> history s' = history s \<and> answer s' = answer s"
  "fleet_qmp n s = (q, s') \<Longrightarrow> history s' = history s \<and> answer s' = answer s"
  by (auto simp: fleet_mcpd_def fleet_qmp_def pool_defs split: option.splits sum.splits if_splits)

lemma emits_fleet_qmp [emits]: "emits P (fleet_qmp n)"
  using pool_history(2) by (auto simp: emits_def)

lemma emits_process_running [emits]: "(\<And>p v. P (Host ''poll'' [JInt p], v)) \<Longrightarrow> emits P (process_running n)"
  unfolding process_running_def by (auto intro!: emits)

lemma emits_drop [emits]: "emits P (drop_qemu_process n)"
  unfolding drop_qemu_process_def by (intro emits) simp

section \<open>A guest is started only where none runs\<close>

definition is_popen :: "event \<times> outcome \<Rightarrow> bool" where
  "is_popen ev \<longleftrightarrow> (case fst ev of Host op args \<Rightarrow> op = ''popen'' | _ \<Rightarrow> False)"

text \<open>
  The endpoints that are tried before a launch: those of the daemon and of QMP, if enabled.  A guest listens on its
  GDB port as well (\<^verbatim>\<open>-gdb tcp::p\<close>), which is not tried: \<open>checks_ignore_gdb\<close>.
\<close>

definition checked_endpoints :: "target_config \<Rightarrow> string list" where
  "checked_endpoints t =
     (case chan_mcpd (channels t) of Some ch \<Rightarrow> if enabled ch then [chan_endpoint ch] else [] | None \<Rightarrow> []) @
     (case chan_qmp (channels t) of Some ch \<Rightarrow> if enabled ch then [chan_endpoint ch] else [] | None \<Rightarrow> [])"

definition refused :: "(event \<times> outcome) list \<Rightarrow> string \<Rightarrow> bool" where
  "refused es ep \<longleftrightarrow> (\<exists>p e. port_of ep = Inr p \<and> is_os e \<and> (connect_event (host_of ep) p, Inl e) \<in> set es)"

lemma refused_append [simp]: "refused es ep \<Longrightarrow> refused (es @ fs) ep" "refused fs ep \<Longrightarrow> refused (es @ fs) ep"
  by (auto simp: refused_def)

lemma split_unique:
  assumes "A @ x # B = pre @ y # post" "P y" "\<forall>a \<in> set A. \<not> P a" "\<forall>b \<in> set B. \<not> P b"
  shows "pre = A \<and> y = x \<and> post = B"
  using assms by (auto simp: append_eq_append_conv2 Cons_eq_append_conv append_eq_Cons_conv)

lemma refuse_listener_passed:
  assumes "refuse_listener target label c s = (Inr u, s')"
  shows "\<exists>es. history s' = history s @ es \<and> s' = s\<lparr>history := history s'\<rparr> \<and> list_all (\<lambda>e. \<not> is_popen e) es \<and>
    (\<forall>ch. c = Some ch \<longrightarrow> enabled ch \<longrightarrow> refused es (chan_endpoint ch))"
proof (cases "\<exists>ch. c = Some ch \<and> enabled ch")
  case False
  then show ?thesis using assms by (auto simp: refuse_listener_def ret_def split: option.splits)
next
  case True
  then obtain ch where ch: "c = Some ch" "enabled ch" by blast
  from assms ch obtain p up s1 where p: "port_of (chan_endpoint ch) = Inr p"
    and c: "can_connect (host_of (chan_endpoint ch)) p s = (Inr up, s1)"
    and up: "(if up then raise (already_listening target label (host_of (chan_endpoint ch)) p) else ret ()) s1 = (Inr u, s')"
    by (auto simp: refuse_listener_def bnd_eq_Inr lift_run Let_def)
  from up have "\<not> up" "s' = s1" by (auto simp: raise_def ret_def split: if_splits)
  with can_connect_run [OF c] obtain e where "is_os e"
    "s' = s\<lparr>history := history s @ [(connect_event (host_of (chan_endpoint ch)) p, Inl e)]\<rparr>"
    by (metis Inr_inject Inl_Inr_False)
  then show ?thesis using ch p by (auto simp: refused_def is_popen_def connect_event_def)
qed

lemma emits_refuse_listener [emits]:
  "(\<And>h p v. P (connect_event h p, v)) \<Longrightarrow> emits P (refuse_listener target label c)"
  unfolding refuse_listener_def Let_def by (auto intro!: emits)

text \<open>The launch: one \<^verbatim>\<open>Popen\<close> between the opening and the closing of the log.\<close>

definition log_close :: "string \<Rightarrow> event" where
  "log_close log = Host ''close file'' [JStr log]"

lemma prune_old_logs_quiet: "emits (\<lambda>e. \<not> is_popen e) (prune_old_logs sc dir)"
  unfolding prune_old_logs_def Let_def by (intro emits) (simp add: is_popen_def)

lemma prune_old_logs_keeps: "preserves (\<lambda>s. f_config s = c \<and> qemu_processes s = ps) (prune_old_logs sc dir)"
  unfolding prune_old_logs_def Let_def host_def by (auto intro!: kept)

lemma open_log_quiet: "emits (\<lambda>e. \<not> is_popen e) (open_log target)"
  unfolding open_log_def Let_def by (intro emits prune_old_logs_quiet) (simp_all add: is_popen_def)

lemma launch_run:
  assumes "launch target binary cmd ports s = (r, s')"
  obtains (failed) es where "history s' = history s @ es" "\<forall>e \<in> set es. \<not> is_popen e" "isl r"
  | (tried) pre log v w where
      "history s' = history s @ pre @ (popen_event cmd (parent_dir binary) log, v) # [(log_close log, w)]"
      "\<forall>e \<in> set pre. \<not> is_popen e"
      "\<forall>st. r = Inr st \<longrightarrow> (\<exists>j. v = Inr j \<and> started_pid st = nat (as_int j) \<and> started_log st = log \<and>
         started_ports st = ports \<and> started_cmdline st = cmd \<and> qemu_process target s' = Some (started_pid st) \<and>
         serial_log_path target s' = Some log)"
proof -
  obtain l s1 where o: "open_log target s = (l, s1)" by force
  obtain pre where pre: "history s1 = history s @ pre" "\<forall>e \<in> set pre. \<not> is_popen e" "answer s1 = answer s"
    using open_log_quiet o by (rule emitsD)
  show thesis
  proof (cases l)
    case (Inl e)
    then show thesis using assms o pre failed by (auto simp: launch_def bnd_def)
  next
    case (Inr log)
    define v where "v = answer s1 (history s1) (popen_event cmd (parent_dir binary) log)"
    define s2 where "s2 = s1\<lparr>history := history s1 @ [(popen_event cmd (parent_dir binary) log, v)]\<rparr>"
    define w where "w = answer s2 (history s2) (log_close log)"
    define s3 where "s3 = s2\<lparr>history := history s2 @ [(log_close log, w)]\<rparr>"
    have h: "history s3 = history s @ pre @ (popen_event cmd (parent_dir binary) log, v) # [(log_close log, w)]"
      by (simp add: s3_def s2_def pre)
    have e: "ensuring (perform (popen_event cmd (parent_dir binary) log)) (host ''close file'' [JStr log]) s1
        = (case w of Inl e \<Rightarrow> (Inl e, s3) | Inr x \<Rightarrow> (v, s3))"
      by (auto simp: ensuring_def perform_def host_def Let_def v_def s2_def w_def s3_def log_close_def split: sum.splits)
    have "history s' = history s3 \<and> (\<forall>st. r = Inr st \<longrightarrow> (\<exists>j. v = Inr j \<and> started_pid st = nat (as_int j) \<and>
        started_log st = log \<and> started_ports st = ports \<and> started_cmdline st = cmd \<and>
        qemu_process target s' = Some (started_pid st) \<and> serial_log_path target s' = Some log))"
      using assms o Inr e
      by (auto simp: launch_def bnd_def register_qemu_process_def modify_def ret_def qemu_process_def serial_log_path_def
          update_lookup split: sum.splits)
    then show thesis using tried [of pre log v w] h pre(2) by simp
  qed
qed

lemma process_running_idle:
  assumes "process_running target s = (Inr False, s')"
  shows "\<exists>es. history s' = history s @ es \<and> s' = s\<lparr>history := history s'\<rparr> \<and> (\<forall>e \<in> set es. \<not> is_popen e) \<and>
    (\<forall>p. qemu_process target s = Some p \<longrightarrow> (\<exists>x. x \<noteq> JNull \<and> (Host ''poll'' [JInt (int p)], Inr x) \<in> set es))"
  using assms
  by (cases "qemu_process target s"; cases "answer s (history s) (Host ''poll'' [JInt (int (the (qemu_process target s)))])")
    (auto simp: process_running_def bnd_def gets_def ret_def host_def perform_def Let_def is_popen_def)

lemma checks_ignore_gdb: "start_checks target (t\<lparr>channels := (channels t)\<lparr>chan_gdb := g\<rparr>\<rparr>) = start_checks target t"
  by (simp add: start_checks_def cong: if_cong)

text \<open>Everything before the launch: no process is started, and what is known when it has passed.\<close>

lemma start_checks_quiet: "emits (\<lambda>e. \<not> is_popen e) (start_checks target t)"
  unfolding start_checks_def by (intro emits) (simp_all add: is_popen_def connect_event_def)

lemma start_checks_passed:
  assumes "start_checks target t s = (Inr u, s')"
  shows "\<exists>es. history s' = history s @ es \<and> s' = s\<lparr>history := history s'\<rparr> \<and> (\<forall>e \<in> set es. \<not> is_popen e) \<and>
    (\<forall>p. qemu_process target s = Some p \<longrightarrow> (\<exists>x. x \<noteq> JNull \<and> (Host ''poll'' [JInt (int p)], Inr x) \<in> set es)) \<and>
    (\<forall>ep \<in> set (checked_endpoints t). refused es ep)"
proof -
  from assms obtain b s1 where p: "process_running target s = (Inr b, s1)"
    and rest: "(if b then raise (already_running target (case qemu_process target s of Some p \<Rightarrow> p | None \<Rightarrow> 0))
     else bnd (refuse_listener target ''mcpd'' (chan_mcpd (channels t))) (\<lambda>_.
          refuse_listener target ''qmp'' (chan_qmp (channels t)))) s1 = (Inr u, s')"
    by (auto simp: start_checks_def bnd_eq_Inr gets_def)
  have b: "\<not> b" using rest by (auto simp: raise_def split: if_splits)
  with rest obtain s2 u2 where m: "refuse_listener target ''mcpd'' (chan_mcpd (channels t)) s1 = (Inr u2, s2)"
    and q: "refuse_listener target ''qmp'' (chan_qmp (channels t)) s2 = (Inr u, s')"
    by (auto simp: bnd_eq_Inr)
  from process_running_idle [of target s s1] p b obtain e0 where 0: "history s1 = history s @ e0" "s1 = s\<lparr>history := history s1\<rparr>"
    "\<forall>e \<in> set e0. \<not> is_popen e"
    "\<forall>p. qemu_process target s = Some p \<longrightarrow> (\<exists>x. x \<noteq> JNull \<and> (Host ''poll'' [JInt (int p)], Inr x) \<in> set e0)" by auto
  from refuse_listener_passed [OF m] obtain e1 where 1: "history s2 = history s1 @ e1" "s2 = s1\<lparr>history := history s2\<rparr>"
    "list_all (\<lambda>e. \<not> is_popen e) e1"
    "\<forall>ch. chan_mcpd (channels t) = Some ch \<longrightarrow> enabled ch \<longrightarrow> refused e1 (chan_endpoint ch)" by blast
  from refuse_listener_passed [OF q] obtain e2 where 2: "history s' = history s2 @ e2" "s' = s2\<lparr>history := history s'\<rparr>"
    "list_all (\<lambda>e. \<not> is_popen e) e2"
    "\<forall>ch. chan_qmp (channels t) = Some ch \<longrightarrow> enabled ch \<longrightarrow> refused e2 (chan_endpoint ch)" by blast
  have st: "s' = s\<lparr>history := history s'\<rparr>" using 0(2) 1(2) 2(2) by (metis world.update_convs(1) world.select_convs(1) fleet.surjective)
  show ?thesis
    using 0(1,3,4) 1(1,3,4) 2(1,3,4) st
    by (intro exI [of _ "e0 @ e1 @ e2"]) (auto simp: list_all_iff checked_endpoints_def split: option.splits if_splits)
qed

lemma inj_JStr: "inj JStr"
  by (simp add: inj_def)

text \<open>
  C20. qemu_start launches QEMU only for a configured QEMU target, with the command line of
  build_cmdline, after the registered process (if any) was polled and found ended and after the
  daemon's port and the QMP port, where enabled, were tried and refused the connection (the GDB
  port is not tried); then the log is closed, and a returned result names the process that was
  registered.
\<close>

theorem start_only_when_free:
  assumes "qemu_start target s = (r, s')"
    "history s' = history s @ pre @ (popen_event cmd cwd log, v) # post"
  shows "\<exists>t binary machine ports w. target_config (f_config s) target = Inr t \<and> t_type t = Qemu \<and>
    qemu_config t = Some machine \<and> qemu_binary (paths (f_config s)) = Some binary \<and>
    build_cmdline binary machine (map_of (host_files s) machine) t None = Inr (cmd, ports) \<and> cwd = parent_dir binary \<and>
    (\<forall>p. qemu_process target s = Some p \<longrightarrow> (\<exists>x. x \<noteq> JNull \<and> (Host ''poll'' [JInt (int p)], Inr x) \<in> set pre)) \<and>
    (\<forall>ep \<in> set (checked_endpoints t). refused pre ep) \<and>
    post = [(log_close log, w)] \<and>
    (\<forall>st. r = Inr st \<longrightarrow> (\<exists>j. v = Inr j \<and> started_pid st = nat (as_int j)) \<and> started_ports st = ports \<and>
       qemu_process target s' = Some (started_pid st) \<and> serial_log_path target s' = Some log)"
proof -
  have popen: "is_popen (popen_event cmd cwd log, v)" by (simp add: is_popen_def popen_event_def)
  have not_quiet: False if "\<forall>e \<in> set es. \<not> is_popen e" "history s' = history s @ es" for es
    using that assms(2) popen by auto
  obtain t where t: "target_config (f_config s) target = Inr t"
    using assms not_quiet [of "[]"] by (cases "target_config (f_config s) target") (auto simp: qemu_start_def with_config_run)
  obtain machine binary where mb: "t_type t = Qemu" "qemu_config t = Some machine" "qemu_binary (paths (f_config s)) = Some binary"
    using assms t not_quiet [of "[]"]
    by (cases "qemu_config t"; cases "qemu_binary (paths (f_config s))")
      (auto simp: qemu_start_def with_config_run raise_def bnd_def gets_def split: if_splits)
  obtain c s1 where c: "start_checks target t s = (c, s1)" by force
  have run: "bnd (start_checks target t) (\<lambda>_. bnd (gets host_files) (\<lambda>fs.
     bnd (lift (build_cmdline binary machine (map_of fs machine) t None)) (\<lambda>(cmd, ports).
         launch target binary cmd ports))) s = (r, s')"
    using assms(1) t mb by (simp add: qemu_start_def with_config_run bnd_def [of "gets _"] gets_def)
  obtain u where u: "c = Inr u"
  proof (cases c)
    case (Inl e)
    then have "s' = s1" using run c by (simp add: bnd_def)
    moreover obtain es where "history s1 = history s @ es" "\<forall>e \<in> set es. \<not> is_popen e" "answer s1 = answer s"
      using start_checks_quiet c by (rule emitsD)
    ultimately show thesis using not_quiet by blast
  qed
  from start_checks_passed [OF c [unfolded u]] obtain es where es: "history s1 = history s @ es" "s1 = s\<lparr>history := history s1\<rparr>"
    "\<forall>e \<in> set es. \<not> is_popen e"
    "\<forall>p. qemu_process target s = Some p \<longrightarrow> (\<exists>x. x \<noteq> JNull \<and> (Host ''poll'' [JInt (int p)], Inr x) \<in> set es)"
    "\<forall>ep \<in> set (checked_endpoints t). refused es ep" by blast
  have hf: "host_files s1 = host_files s" by (subst es(2)) simp
  obtain cmd' ports where k: "build_cmdline binary machine (map_of (host_files s) machine) t None = Inr (cmd', ports)"
    using run c u hf not_quiet [OF es(3)] es(1)
    by (cases "build_cmdline binary machine (map_of (host_files s) machine) t None")
      (auto simp: bnd_def gets_def lift_def raise_def)
  have l: "launch target binary cmd' ports s1 = (r, s')"
    using run c u k hf by (simp add: bnd_def gets_def lift_def ret_def)
  then show ?thesis
  proof (cases rule: launch_run)
    case (failed fs)
    have "False" by (rule not_quiet [of "es @ fs"]) (use failed es(1,3) in auto)
    then show ?thesis ..
  next
    case (tried pre' log' v' w)
    have "(es @ pre') @ (popen_event cmd' (parent_dir binary) log', v') # [(log_close log', w)] = pre @ (popen_event cmd cwd log, v) # post"
      using assms(2) tried(1) es(1) by simp
    then have "pre = es @ pre' \<and> (popen_event cmd cwd log, v) = (popen_event cmd' (parent_dir binary) log', v') \<and> post = [(log_close log', w)]"
      using popen tried(2) es(3)
      by (intro split_unique [where P = is_popen]) (auto simp: is_popen_def log_close_def)
    then have eq: "pre = es @ pre'" "cmd = cmd'" "cwd = parent_dir binary" "log = log'" "v = v'" "post = [(log_close log', w)]"
      by (auto simp: popen_event_def inj_map_eq_map [OF inj_JStr])
    show ?thesis
      using t mb k es(4,5) tried(3) eq
      by (intro exI [of _ t] exI [of _ binary] exI [of _ machine] exI [of _ ports] exI [of _ w]) fastforce
  qed
qed

section \<open>A stop flushes first\<close>

text \<open>The host operations that end a guest.\<close>

definition ends_guest :: "event \<Rightarrow> bool" where
  "ends_guest e \<longleftrightarrow> (case e of Host op args \<Rightarrow> op \<in> {''qmp.quit'', ''terminate'', ''kill''} | _ \<Rightarrow> False)"

lemma settle_harmless: "emits (\<lambda>e. \<not> ends_guest (fst e)) (settle_before_stop lw target settle_ms)"
proof -
  have "emits (\<lambda>e. \<not> ends_guest (fst e)) (transport_if_up target)"
    unfolding transport_if_up_def by (intro emits) (simp_all add: ends_guest_def connect_event_def)
  then show ?thesis
    unfolding settle_before_stop_def Let_def
    by (intro emits) (simp_all add: ends_guest_def sync_request_def)
qed

text \<open>When the daemon can be reached: a transport exists, or its port accepts a connection.\<close>

definition daemon_refused :: "config \<Rightarrow> (event \<times> outcome) list \<Rightarrow> string \<Rightarrow> bool" where
  "daemon_refused c es target \<longleftrightarrow> (\<exists>t. target_config c target = Inr t \<and>
     (\<forall>ch. chan_mcpd (channels t) = Some ch \<longrightarrow> enabled ch \<longrightarrow>
        (\<exists>p e. port_of (chan_endpoint ch) = Inr p \<and> (connect_event (host_of (chan_endpoint ch)) p, Inl e) \<in> set es)))"

lemma transport_if_up_run:
  assumes "transport_if_up target s = (Inr t, s')"
  shows "\<exists>es. history s' = history s @ es \<and> answer s' = answer s \<and>
    (t = None \<longrightarrow> mcpd_if_connected target s = None \<and> daemon_refused (f_config s) es target)"
proof (cases "mcpd_if_connected target s")
  case (Some h)
  then show ?thesis using assms by (auto simp: transport_if_up_def bnd_def gets_def ret_def)
next
  case None
  with assms obtain cfg b s1 where cfg: "target_config (f_config s) target = Inr cfg"
    and u: "channel_up (chan_mcpd (channels cfg)) s = (Inr b, s1)"
    and r: "(if b then bnd (fleet_mcpd target) (\<lambda>h. ret (Some h)) else ret None) s1 = (Inr t, s')"
    by (auto simp: transport_if_up_def bnd_eq_Inr gets_def with_config_run split: sum.splits)
  have h: "history s' = history s1 \<and> answer s' = answer s1" "t = None \<longrightarrow> \<not> b"
    using r by (auto simp: bnd_eq_Inr ret_def dest: pool_history(1) split: if_splits)
  from channel_up_run [OF u] show ?thesis
  proof (elim disjE exE conjE)
    assume "b = False" "s1 = s" "\<forall>ch. chan_mcpd (channels cfg) = Some ch \<longrightarrow> \<not> enabled ch"
    then show ?thesis using h None cfg by (intro exI [of _ "[]"]) (auto simp: daemon_refused_def)
  next
    fix ch p v
    assume "chan_mcpd (channels cfg) = Some ch" "port_of (chan_endpoint ch) = Inr p" "b \<longleftrightarrow> \<not> isl v"
      "history s1 = history s @ [(connect_event (host_of (chan_endpoint ch)) p, v)]" "s1 = s\<lparr>history := history s1\<rparr>"
    then show ?thesis using h None cfg
      by (intro exI [of _ "[(connect_event (host_of (chan_endpoint ch)) p, v)]"])
        (auto simp: daemon_refused_def isl_def intro: arg_cong [of s1 _ answer, THEN trans])
  qed
qed

lemma settle_run:
  assumes "settle_before_stop lw target settle_ms s = (Inr how, s')"
  shows "\<exists>es. history s' = history s @ es \<and>
    ((mcpd_if_connected target s = None \<and> daemon_refused (f_config s) es target) \<or> (\<exists>v. (sync_request target, v) \<in> set es)) \<and>
    (how = Fs_sync \<longrightarrow> (\<exists>v. (sync_request target, Inr v) \<in> set es))"
proof -
  from assms obtain t s1 where t: "transport_if_up target s = (Inr t, s1)"
    and rest: "(case t of None \<Rightarrow> ret Nothing_written
     | Some h \<Rightarrow> bnd (succeeds (perform (sync_request target))) (\<lambda>flushed.
         if flushed then ret Fs_sync
         else bnd (gets (\<lambda>s. lw s (tid h))) (\<lambda>w. case w of
           None \<Rightarrow> ret Nothing_written
         | Some at \<Rightarrow>
             if settle_ms \<le> 0 then ret Skipped
             else bnd now (\<lambda>t. let remaining = 1000 * settle_ms - (t - at) in
               if remaining \<le> 0 then ret Already_elapsed
               else bnd (pause_us remaining) (\<lambda>_. ret (Waited remaining)))))) s1 = (Inr how, s')"
    by (auto simp: settle_before_stop_def bnd_eq_Inr)
  from transport_if_up_run [OF t] obtain es where es: "history s1 = history s @ es"
    "t = None \<longrightarrow> mcpd_if_connected target s = None \<and> daemon_refused (f_config s) es target" by blast
  show ?thesis
  proof (cases t)
    case None
    then show ?thesis using rest es by (auto simp: ret_def)
  next
    case (Some h)
    define v where "v = answer s1 (history s1) (sync_request target)"
    let ?s2 = "s1\<lparr>history := history s1 @ [(sync_request target, v)]\<rparr>"
    have sync: "succeeds (perform (sync_request target)) s1 = (Inr (\<not> isl v), ?s2)"
      by (auto simp: succeeds_def catch_def bnd_def perform_def Let_def ret_def v_def split: sum.splits)
    show ?thesis
    proof (cases v)
      case (Inr j)
      then have "s' = ?s2" "how = Fs_sync" using rest Some sync by (auto simp: bnd_def ret_def)
      then show ?thesis using es(1) Inr by auto
    next
      case (Inl e)
      have "(bnd (gets (\<lambda>s. lw s (tid h))) (\<lambda>w. case w of
           None \<Rightarrow> ret Nothing_written
         | Some at \<Rightarrow>
             if settle_ms \<le> 0 then ret Skipped
             else bnd now (\<lambda>t. let remaining = 1000 * settle_ms - (t - at) in
               if remaining \<le> 0 then ret Already_elapsed
               else bnd (pause_us remaining) (\<lambda>_. ret (Waited remaining))))) ?s2 = (Inr how, s')"
        using rest Some sync Inl by (simp add: bnd_def [of "succeeds _"])
      then have "(\<exists>fs. history s' = history ?s2 @ fs) \<and> how \<noteq> Fs_sync"
        by (auto simp: bnd_def gets_def ret_def now_def pause_us_def perform_def Let_def split: option.splits if_splits)
      then show ?thesis using es(1) by auto
    qed
  qed
qed

lemma emits_stop:
  assumes "\<And>h p v. P (connect_event h p, v)" "\<And>a v. P (Host ''qmp.quit'' a, v)" "\<And>op v. op \<in> {''poll'', ''terminate'', ''wait 5'', ''kill''} \<Longrightarrow> P (Host op [JInt (int p)], v)"
    "\<And>v. P (Sleep 500, v)"
  shows "emits P (stop_unowned target)" "emits P (stop_owned target p timeout_ms)"
proof -
  show "emits P (stop_unowned target)"
    unfolding stop_unowned_def by (intro emits) (simp_all add: assms)
  have w: "emits P (wait_exit n p)" for n
    by (induction n) (auto intro!: emits assms)
  show "emits P (stop_owned target p timeout_ms)"
    unfolding stop_owned_def ask_to_quit_def end_process_def by (intro emits w) (simp_all add: assms)
qed

lemma emits_stop_phase: "emits (\<lambda>_. True) (stop_phase target timeout_ms how)"
  unfolding stop_phase_def by (intro emits emits_stop) simp_all

lemma stop_phase_how: "stop_phase target timeout_ms how s = (Inr st, s') \<Longrightarrow> stop_settled st = how"
  by (auto simp: stop_phase_def bnd_eq_Inr gets_def ret_def split: option.splits if_splits)

lemma daemon_refused_mono: "daemon_refused c es target \<Longrightarrow> set es \<subseteq> set fs \<Longrightarrow> daemon_refused c fs target"
  by (fastforce simp: daemon_refused_def)

text \<open>
  C19. Before qemu_stop sends anything that ends the guest (a QMP quit or a signal) it has
  asked the daemon to flush with fs.sync, unless no transport is connected and nothing listens
  on the daemon's port; settled is reported as fs.sync only when such a request was answered.
\<close>

theorem stop_flushes_first:
  assumes "qemu_stop lw target timeout_ms settle_ms s = (r, s')" "history s' = history s @ es"
  shows "(\<forall>pre e v post. es = pre @ (e, v) # post \<longrightarrow> ends_guest e \<longrightarrow>
       (\<exists>w. (sync_request target, w) \<in> set pre) \<or>
       (mcpd_if_connected target s = None \<and> daemon_refused (f_config s) pre target)) \<and>
    (\<forall>st. r = Inr st \<longrightarrow> stop_settled st = Fs_sync \<longrightarrow> (\<exists>x. (sync_request target, Inr x) \<in> set es))"
proof -
  obtain h s1 where h: "settle_before_stop lw target (case settle_ms of Some t \<Rightarrow> t | None \<Rightarrow> DEFAULT_SETTLE_MS) s = (h, s1)" by force
  obtain e1 where e1: "history s1 = history s @ e1" "\<forall>e \<in> set e1. \<not> ends_guest (fst e)" "answer s1 = answer s"
    using settle_harmless h by (rule emitsD)
  show ?thesis
  proof (cases h)
    case (Inl x)
    then have "r = Inl x" "es = e1" using assms h e1(1) by (auto simp: qemu_stop_def bnd_def)
    then show ?thesis using e1(2) by fastforce
  next
    case (Inr how)
    then have run: "stop_phase target timeout_ms how s1 = (r, s')" using assms(1) h by (simp add: qemu_stop_def bnd_def)
    obtain e2 where e2: "history s' = history s1 @ e2" "\<forall>e \<in> set e2. True" "answer s' = answer s1"
      using emits_stop_phase run by (rule emitsD)
    have es: "es = e1 @ e2" using assms(2) e1(1) e2(1) by simp
    from settle_run [OF h [unfolded Inr]] e1(1) have k:
      "(mcpd_if_connected target s = None \<and> daemon_refused (f_config s) e1 target) \<or> (\<exists>v. (sync_request target, v) \<in> set e1)"
      "how = Fs_sync \<longrightarrow> (\<exists>v. (sync_request target, Inr v) \<in> set e1)" by auto
    have sub: "set e1 \<subseteq> set pre" if "es = pre @ (e, v) # post" "ends_guest e" for pre e v post
    proof -
      from that(1) es have "e1 @ e2 = pre @ (e, v) # post" by simp
      then show ?thesis using that(2) e1(2) by (auto simp: append_eq_append_conv2 Cons_eq_append_conv append_eq_Cons_conv)
    qed
    show ?thesis
    proof (intro conjI allI impI)
      fix pre e v post assume "es = pre @ (e, v) # post" "ends_guest e"
      from sub [OF this] show "(\<exists>w. (sync_request target, w) \<in> set pre) \<or>
          (mcpd_if_connected target s = None \<and> daemon_refused (f_config s) pre target)"
        using k(1) daemon_refused_mono by blast
    next
      fix st assume "r = Inr st" "stop_settled st = Fs_sync"
      then show "\<exists>x. (sync_request target, Inr x) \<in> set es" using k(2) es stop_phase_how run by fastforce
    qed
  qed
qed

section \<open>What the report of a stop means\<close>

lemma keeps_processes [kept]:
  "preserves (\<lambda>s. qemu_processes s = ps) (fleet_mcpd n)"
  "preserves (\<lambda>s. qemu_processes s = ps) (fleet_qmp n)"
  by (auto simp: preserves_def fleet_mcpd_def fleet_qmp_def pool_defs split: option.splits sum.splits if_splits)

lemma settle_keeps_processes: "preserves (\<lambda>s. qemu_processes s = ps) (settle_before_stop lw target settle_ms)"
proof -
  have "preserves (\<lambda>s. qemu_processes s = ps) (transport_if_up target)"
    unfolding transport_if_up_def by (intro kept) simp_all
  moreover have "preserves (\<lambda>s. qemu_processes s = ps) (pause_us t)" for t
    by (simp add: preserves_def pause_us_def perform_def Let_def)
  ultimately show ?thesis unfolding settle_before_stop_def Let_def by (intro kept) simp_all
qed

text \<open>\<open>ended es p x\<close>: a poll or a wait in \<open>es\<close> found the process ended, with exit code \<open>x\<close>.\<close>

definition ended :: "(event \<times> outcome) list \<Rightarrow> nat \<Rightarrow> json \<Rightarrow> bool" where
  "ended es p x \<longleftrightarrow> (x \<noteq> JNull \<and> (Host ''poll'' [JInt (int p)], Inr x) \<in> set es) \<or>
     (Host ''wait 5'' [JInt (int p)], Inr x) \<in> set es"

definition happened :: "(event \<times> outcome) list \<Rightarrow> string \<Rightarrow> bool" where
  "happened es op \<longleftrightarrow> (\<exists>args v. (Host op args, Inr v) \<in> set es)"

lemma wait_exit_run:
  assumes "wait_exit n p s = (Inr x, s')"
  shows "\<exists>es. history s' = history s @ es \<and> (\<forall>v. x = Some v \<longrightarrow> ended es p v)"
  using assms
proof (induction n arbitrary: s)
  case 0
  then show ?case by (simp add: ret_def)
next
  case (Suc n)
  from Suc.prems obtain v s1 where v: "proc_op ''poll'' p s = (Inr v, s1)"
    and rest: "(if v \<noteq> JNull then ret (Some v) else bnd (sleep 500) (\<lambda>_. wait_exit n p)) s1 = (Inr x, s')"
    by (auto simp: bnd_eq_Inr)
  have h: "history s1 = history s @ [(Host ''poll'' [JInt (int p)], Inr v)]"
    using v by (auto simp: proc_op_def host_def perform_def Let_def)
  show ?case
  proof (cases "v = JNull")
    case False
    then show ?thesis using rest h by (auto simp: ret_def ended_def)
  next
    case True
    then obtain s2 where s2: "sleep 500 s1 = (Inr (), s2)" "wait_exit n p s2 = (Inr x, s')"
      using rest by (auto simp: bnd_eq_Inr)
    from Suc.IH [OF s2(2)] obtain es where "history s' = history s2 @ es" "\<forall>v. x = Some v \<longrightarrow> ended es p v" by blast
    then show ?thesis using s2(1) h by (auto simp: sleep_def ended_def)
  qed
qed

lemma end_process_run:
  assumes "end_process p s = (Inr (m, x), s')"
  shows "\<exists>es. history s' = history s @ es \<and> ended es p x \<and> happened es ''terminate'' \<and>
    (m = Terminated \<or> m = Killed \<and> happened es ''kill'')"
proof -
  from assms obtain j s1 where 1: "proc_op ''terminate'' p s = (Inr j, s1)"
    and c: "catch (bnd (proc_op ''wait 5'' p) (\<lambda>v. ret (Terminated, v)))
       (\<lambda>e. if is_timeout_expired e
            then bnd (proc_op ''kill'' p) (\<lambda>_. bnd (proc_op ''wait 5'' p) (\<lambda>v. ret (Killed, v)))
            else raise e) s1 = (Inr (m, x), s')"
    by (auto simp: end_process_def bnd_eq_Inr)
  have "history s1 = history s @ [(Host ''terminate'' [JInt (int p)], Inr j)]"
    using 1 by (auto simp: proc_op_def host_def perform_def Let_def)
  moreover have "(\<exists>es. history s' = history s1 @ es \<and> ended es p x \<and> (m = Terminated \<or> m = Killed \<and> happened es ''kill''))"
    using c unfolding catch_eq
    by (auto simp: bnd_eq_Inr bnd_eq_Inl proc_op_def host_def perform_def Let_def ret_def raise_def ended_def happened_def split: if_splits)
  ultimately show ?thesis by (fastforce simp: ended_def happened_def)
qed

lemma ask_to_quit_run:
  assumes "ask_to_quit target s = (Inr m, s')"
  shows "\<exists>es. history s' = history s @ es \<and> (m = Terminated \<or> m = By_qmp \<and> happened es ''qmp.quit'')"
proof -
  obtain cfg where "target_config (f_config s) target = Inr cfg"
    using assms by (auto simp: ask_to_quit_def with_config_run split: sum.splits)
  then have run: "(case chan_qmp (channels cfg) of
       None \<Rightarrow> ret Terminated
     | Some ch \<Rightarrow>
         if \<not> enabled ch then ret Terminated
         else bnd (fleet_qmp target) (\<lambda>q.
           catch (bnd (qmp_op ''quit'' q []) (\<lambda>_. ret By_qmp))
             (\<lambda>e. if timeout_or_target e then ret Terminated else raise e))) s = (Inr m, s')"
    using assms by (simp add: ask_to_quit_def with_config_run)
  have early: "s' = s \<and> m = Terminated \<Longrightarrow> ?thesis" by simp
  show ?thesis
  proof (cases "\<exists>ch. chan_qmp (channels cfg) = Some ch \<and> enabled ch")
    case False
    then show ?thesis using run early by (auto simp: ret_def split: option.splits)
  next
    case True
    with run obtain q s1 where q: "fleet_qmp target s = (Inr q, s1)"
      and c: "catch (bnd (qmp_op ''quit'' q []) (\<lambda>_. ret By_qmp))
             (\<lambda>e. if timeout_or_target e then ret Terminated else raise e) s1 = (Inr m, s')"
      by (auto simp: bnd_eq_Inr)
    show ?thesis using pool_history(2) [OF q] c unfolding catch_eq
      by (auto simp: bnd_eq_Inr bnd_eq_Inl qmp_op_def host_def perform_def Let_def ret_def raise_def happened_def split: if_splits)
  qed
qed

lemma stop_owned_run:
  assumes "stop_owned target p timeout_ms s = (Inr (m, x), s')"
  shows "\<exists>es. history s' = history s @ es \<and> ended es p x \<and>
    (m = By_qmp \<and> happened es ''qmp.quit'' \<or> m = Terminated \<or> m = Killed \<and> happened es ''kill'')"
proof -
  from assms obtain m0 s1 y s2 where a: "ask_to_quit target s = (Inr m0, s1)"
    and w: "wait_exit (nat (timeout_ms div 500)) p s1 = (Inr y, s2)"
    and e: "(case y of Some v \<Rightarrow> ret (m0, v) | None \<Rightarrow> end_process p) s2 = (Inr (m, x), s')"
    by (auto simp: stop_owned_def bnd_eq_Inr)
  from ask_to_quit_run [OF a] obtain e1 where e1: "history s1 = history s @ e1"
    "m0 = Terminated \<or> m0 = By_qmp \<and> happened e1 ''qmp.quit''" by blast
  from wait_exit_run [OF w] obtain e2 where e2: "history s2 = history s1 @ e2" "\<forall>v. y = Some v \<longrightarrow> ended e2 p v" by blast
  show ?thesis
  proof (cases y)
    case (Some v)
    then show ?thesis using e e1 e2 by (intro exI [of _ "e1 @ e2"]) (auto simp: ret_def ended_def happened_def)
  next
    case None
    with e end_process_run [of p s2 m x s'] obtain e3 where "history s' = history s2 @ e3" "ended e3 p x"
      "m = Terminated \<or> m = Killed \<and> happened e3 ''kill''" by auto
    then show ?thesis using e1(1) e2(1) by (intro exI [of _ "e1 @ e2 @ e3"]) (auto simp: ended_def happened_def)
  qed
qed

definition forgotten :: "string \<Rightarrow> fleet \<Rightarrow> bool" where
  "forgotten target s \<longleftrightarrow> qemu_process target s = None \<and> mcpd_if_connected target s = None \<and>
     map_of (qmp_pool s) target = None \<and> map_of (gdb_pool s) target = None"

lemma drop_forgets: "drop_qemu_process target s = (r, s') \<Longrightarrow> forgotten target s' \<and> history s' = history s \<and> \<not> isl r"
  by (auto simp: drop_qemu_process_def modify_def forgotten_def qemu_process_def mcpd_if_connected_def delete_lookup)

text \<open>
  C22. When qemu_stop returns for a process it started, that process is forgotten, the target
  reports an exit code the process really gave, the method qmp means that a quit was sent and
  kill means that the kill signal was sent.
\<close>

theorem stop_report_sound:
  assumes "qemu_stop lw target timeout_ms settle_ms s = (Inr st, s')" "qemu_process target s = Some p"
    "history s' = history s @ es"
  shows "forgotten target s' \<and> (\<exists>x. ended es p x \<and> exit_code st = exit_of x) \<and>
    (stop_method st = By_qmp \<longrightarrow> happened es ''qmp.quit'') \<and> (stop_method st = Killed \<longrightarrow> happened es ''kill'') \<and>
    stop_method st \<noteq> Qmp_unowned"
proof -
  from assms(1) obtain how s1 where h: "settle_before_stop lw target (case settle_ms of Some t \<Rightarrow> t | None \<Rightarrow> DEFAULT_SETTLE_MS) s = (Inr how, s1)"
    and ph: "stop_phase target timeout_ms how s1 = (Inr st, s')"
    by (auto simp: qemu_stop_def bnd_eq_Inr)
  obtain e1 where e1: "history s1 = history s @ e1" using emits_grows [OF settle_harmless h] by (auto simp: grows_def)
  have p: "qemu_process target s1 = Some p"
    using preservesD [OF settle_keeps_processes h, of "qemu_processes s"] assms(2) by (simp add: qemu_process_def)
  from ph p obtain v s2 where v: "proc_op ''poll'' p s1 = (Inr v, s2)"
    and rest: "(if v \<noteq> JNull
         then bnd (drop_qemu_process target) (\<lambda>_.
              ret \<lparr>stop_settled = how, stop_method = Already_stopped, exit_code = exit_of v\<rparr>)
         else bnd (ensuring (stop_owned target p timeout_ms) (drop_qemu_process target)) (\<lambda>(m, x).
              ret \<lparr>stop_settled = how, stop_method = m, exit_code = exit_of x\<rparr>)) s2 = (Inr st, s')"
    by (auto simp: stop_phase_def bnd_eq_Inr gets_def)
  have h2: "history s2 = history s1 @ [(Host ''poll'' [JInt (int p)], Inr v)]"
    using v by (auto simp: proc_op_def host_def perform_def Let_def)
  show ?thesis
  proof (cases "v = JNull")
    case False
    with rest obtain u s3 where d: "drop_qemu_process target s2 = (Inr u, s3)" "s' = s3"
      "st = \<lparr>stop_settled = how, stop_method = Already_stopped, exit_code = exit_of v\<rparr>"
      by (auto simp: bnd_eq_Inr ret_def)
    then have "es = e1 @ [(Host ''poll'' [JInt (int p)], Inr v)]" using drop_forgets [OF d(1)] assms(3) e1 h2 by simp
    then show ?thesis using drop_forgets [OF d(1)] d False by (auto simp: ended_def)
  next
    case True
    with rest obtain m x where o: "ensuring (stop_owned target p timeout_ms) (drop_qemu_process target) s2 = (Inr (m, x), s')"
      "st = \<lparr>stop_settled = how, stop_method = m, exit_code = exit_of x\<rparr>"
      by (auto simp: bnd_eq_Inr ret_def)
    then obtain s3 u where 3: "stop_owned target p timeout_ms s2 = (Inr (m, x), s3)" "drop_qemu_process target s3 = (Inr u, s')"
      by (auto simp: ensuring_eq)
    from stop_owned_run [OF 3(1)] obtain e3 where e3: "history s3 = history s2 @ e3" "ended e3 p x"
      "m = By_qmp \<and> happened e3 ''qmp.quit'' \<or> m = Terminated \<or> m = Killed \<and> happened e3 ''kill''" by blast
    have "es = e1 @ [(Host ''poll'' [JInt (int p)], Inr v)] @ e3"
      using drop_forgets [OF 3(2)] assms(3) e1 h2 e3(1) by simp
    then show ?thesis using drop_forgets [OF 3(2)] o(2) e3(2,3) by (auto simp: ended_def happened_def)
  qed
qed

section \<open>Where a stop goes wrong\<close>

text \<open>
  An exception of \<^verbatim>\<open>quit\<close> other than a timeout or a target error leaves the function by its
  \<^verbatim>\<open>finally\<close> clause: the handle of a guest known to be running is dropped and nothing was sent to it.
\<close>

definition signal :: "event \<Rightarrow> bool" where
  "signal e \<longleftrightarrow> (case e of Host op args \<Rightarrow> op \<in> {''terminate'', ''kill''} | _ \<Rightarrow> False)"

definition is_quit :: "event \<Rightarrow> bool" where
  "is_quit e \<longleftrightarrow> (case e of Host op args \<Rightarrow> op = ''qmp.quit'' | _ \<Rightarrow> False)"

lemma ask_to_quit_events:
  assumes "ask_to_quit target s = (r, s')"
  shows "\<exists>es. history s' = history s @ es \<and>
    (es = [] \<or> (\<exists>args v. es = [(Host ''qmp.quit'' args, v)] \<and> (\<forall>e. v = Inl e \<longrightarrow> \<not> timeout_or_target e \<longrightarrow> r = Inl e)))"
proof -
  have ask: "\<exists>args v. history s2 = history s1 @ [(Host ''qmp.quit'' args, v)] \<and> (\<forall>e. v = Inl e \<longrightarrow> \<not> timeout_or_target e \<longrightarrow> x = Inl e)"
    if "catch (bnd (qmp_op ''quit'' q []) (\<lambda>_. ret By_qmp))
             (\<lambda>e. if timeout_or_target e then ret Terminated else raise e) s1 = (x, s2)" for q s1 x s2
    using that by (auto simp: catch_def bnd_def qmp_op_def host_def perform_def Let_def ret_def raise_def split: sum.splits if_splits)
  have look: "\<exists>es. history s2 = history s1 @ es \<and>
    (es = [] \<or> (\<exists>args v. es = [(Host ''qmp.quit'' args, v)] \<and> (\<forall>e. v = Inl e \<longrightarrow> \<not> timeout_or_target e \<longrightarrow> x = Inl e)))"
    if "bnd (fleet_qmp target) (\<lambda>q. catch (bnd (qmp_op ''quit'' q []) (\<lambda>_. ret By_qmp))
             (\<lambda>e. if timeout_or_target e then ret Terminated else raise e)) s1 = (x, s2)" for s1 x s2
  proof -
    obtain q t where q: "fleet_qmp target s1 = (q, t)" by force
    show ?thesis using that q pool_history(2) [OF q] ask by (cases q) (fastforce simp: bnd_def)+
  qed
  show ?thesis using assms look
    by (auto simp: ask_to_quit_def with_config_run ret_def split: sum.splits option.splits if_splits)
qed

lemma stop_owned_failed_quit:
  assumes "stop_owned target p timeout_ms s = (r, s')" "history s' = history s @ es"
    "(e, Inl x) \<in> set es" "is_quit e" "\<not> timeout_or_target x"
  shows "r = Inl x \<and> (\<forall>ev \<in> set es. \<not> signal (fst ev))"
proof -
  obtain m s1 where a: "ask_to_quit target s = (m, s1)" by force
  from ask_to_quit_events [OF a] obtain e1 where e1: "history s1 = history s @ e1"
    "e1 = [] \<or> (\<exists>args v. e1 = [(Host ''qmp.quit'' args, v)] \<and> (\<forall>e. v = Inl e \<longrightarrow> \<not> timeout_or_target e \<longrightarrow> m = Inl e))" by blast
  have w: "emits (\<lambda>ev. \<not> is_quit (fst ev)) (wait_exit n p)" for n
    by (induction n) (auto intro!: emits simp: is_quit_def)
  have later: "emits (\<lambda>ev. \<not> is_quit (fst ev)) (bnd (wait_exit (nat (timeout_ms div 500)) p) (\<lambda>x. case x of
       Some v \<Rightarrow> ret (mm, v) | None \<Rightarrow> end_process p))" for mm
    unfolding end_process_def by (intro emits w) (simp_all add: is_quit_def)
  show ?thesis
  proof (cases m)
    case (Inl y)
    then have "es = e1" "r = Inl y" using assms(1,2) a e1(1) by (auto simp: stop_owned_def bnd_def)
    then show ?thesis using e1(2) assms(3-5) Inl by (auto simp: signal_def)
  next
    case (Inr mm)
    then have "bnd (wait_exit (nat (timeout_ms div 500)) p) (\<lambda>x. case x of
       Some v \<Rightarrow> ret (mm, v) | None \<Rightarrow> end_process p) s1 = (r, s')" using assms(1) a by (simp add: stop_owned_def bnd_def [of "ask_to_quit _"])
    from emits_grows [OF later this] obtain e2 where "history s' = history s1 @ e2" "\<forall>ev \<in> set e2. \<not> is_quit (fst ev)"
      by (auto simp: grows_def)
    then show ?thesis using e1 assms(2-5) Inr by fastforce
  qed
qed

theorem quit_error_abandons_guest:
  assumes "qemu_stop lw target timeout_ms settle_ms s = (r, s')" "qemu_process target s = Some p"
    "history s' = history s @ es" "(e, Inl x) \<in> set es" "is_quit e" "\<not> timeout_or_target x"
  shows "r = Inl x \<and> forgotten target s' \<and> (Host ''poll'' [JInt (int p)], Inr JNull) \<in> set es \<and>
    (\<forall>ev \<in> set es. \<not> signal (fst ev))"
proof -
  obtain h s1 where h: "settle_before_stop lw target (case settle_ms of Some t \<Rightarrow> t | None \<Rightarrow> DEFAULT_SETTLE_MS) s = (h, s1)" by force
  obtain e1 where e1: "history s1 = history s @ e1" "\<forall>ev \<in> set e1. \<not> ends_guest (fst ev)"
    using emits_grows [OF settle_harmless h] by (auto simp: grows_def)
  have e1q: "\<forall>ev \<in> set e1. \<not> is_quit (fst ev) \<and> \<not> signal (fst ev)"
    using e1(2) by (auto simp: ends_guest_def is_quit_def signal_def split: event.splits)
  have p: "qemu_process target s1 = Some p"
    using preservesD [OF settle_keeps_processes h, of "qemu_processes s"] assms(2) by (simp add: qemu_process_def)
  obtain how where how: "h = Inr how"
  proof (cases h)
    case (Inl y)
    then have "es = e1" using assms(1,3) h e1(1) by (auto simp: qemu_stop_def bnd_def)
    then show thesis using e1q assms(4,5) by fastforce
  qed
  define v where "v = answer s1 (history s1) (Host ''poll'' [JInt (int p)])"
  let ?s2 = "s1\<lparr>history := history s1 @ [(Host ''poll'' [JInt (int p)], v)]\<rparr>"
  have poll: "proc_op ''poll'' p s1 = (v, ?s2)" by (simp add: proc_op_def host_def perform_def Let_def v_def)
  have fresh: "(e, Inl x) \<notin> set e1" "e \<noteq> Host ''poll'' [JInt (int p)]"
    using e1q assms(5) by (force, auto simp: is_quit_def)
  have not_late: "history s' \<noteq> history ?s2"
    using assms(3,4) e1(1) fresh by auto
  have run: "stop_phase target timeout_ms how s1 = (r, s')" using assms(1) h how by (simp add: qemu_stop_def bnd_def)
  have v: "v = Inr JNull"
  proof (rule ccontr)
    assume "v \<noteq> Inr JNull"
    then have "history s' = history ?s2" using run poll p
      by (auto simp: stop_phase_def bnd_def gets_def ret_def dest: drop_forgets split: sum.splits prod.splits if_splits)
    with not_late show False ..
  qed
  obtain r3 s3 where 3: "stop_owned target p timeout_ms ?s2 = (r3, s3)" by force
  obtain u s4 where 4: "drop_qemu_process target s3 = (u, s4)" by force
  have d: "forgotten target s4" "history s4 = history s3" "\<not> isl u" using drop_forgets [OF 4] by auto
  have fin: "s' = s4 \<and> (\<forall>y. r3 = Inl y \<longrightarrow> r = Inl y)"
    using run poll p v 3 4 d(3)
    by (cases u; cases r3) (auto simp: stop_phase_def bnd_def gets_def ensuring_def ret_def)
  obtain e3 where e3: "history s3 = history ?s2 @ e3"
    using emits_grows [OF emits_stop(2) [of "\<lambda>_. True"] 3] by (auto simp: grows_def)
  have es: "es = e1 @ [(Host ''poll'' [JInt (int p)], v)] @ e3" using assms(3) e1(1) e3 fin d(2) by simp
  have "(e, Inl x) \<in> set e3" using assms(4) es fresh by auto
  from stop_owned_failed_quit [OF 3 e3 this assms(5,6)] show ?thesis
    using fin d(1) es v e1q by (auto simp: signal_def)
qed

section \<open>Screenshots\<close>

lemma nonempty_file_run:
  assumes "nonempty_file out s = (Inr b, s')"
  shows "\<exists>es. history s' = history s @ es \<and> (b \<longrightarrow> (\<exists>n. as_int n > 0 \<and> (Host ''size'' [JStr out], Inr n) \<in> set es))"
  using assms
  by (auto simp: nonempty_file_def bnd_eq_Inr host_def perform_def Let_def ret_def split: if_splits)

lemma emits_nonempty_file [emits]: "emits (\<lambda>_. True) (nonempty_file out)"
  unfolding nonempty_file_def by (intro emits) simp_all

lemma emits_await_file [emits]: "emits (\<lambda>_. True) (await_file n out)"
  by (induction n) (auto intro!: emits)

lemma extends: "emits (\<lambda>_. True) m \<Longrightarrow> m s = (r, s') \<Longrightarrow> \<exists>es. history s' = history s @ es"
  using emits_grows by (fastforce simp: grows_def)

definition shoot :: "channel handle \<Rightarrow> string \<Rightarrow> bool \<Rightarrow> (fleet, qemu_shot) io" where
  "shoot q out keep = bnd (qmp_op ''screendump'' q [JStr out]) (\<lambda>_.
     bnd (await_file 20 out) (\<lambda>_.
     bnd (nonempty_file out) (\<lambda>ok.
     if \<not> ok then raise (RpcErr InternalError ''screendump produced empty file'' None)
     else bnd (host ''read_bytes'' [JStr out]) (\<lambda>v. let data = as_str v in
       ret \<lparr>shot_size = length data, shot_b64 = b64encode data,
            shot_saved = (if keep then Some out else None)\<rparr>))))"

lemma shoot_run:
  assumes "shoot q out keep s = (Inr shot, s')"
  shows "\<exists>pre v. history s' = history s @ pre @ [(Host ''read_bytes'' [JStr out], Inr v)] \<and>
    shot = \<lparr>shot_size = length (as_str v), shot_b64 = b64encode (as_str v), shot_saved = (if keep then Some out else None)\<rparr> \<and>
    (\<exists>n. as_int n > 0 \<and> (Host ''size'' [JStr out], Inr n) \<in> set pre)"
proof -
  from assms obtain j s1 u s2 ok s3 where 1: "qmp_op ''screendump'' q [JStr out] s = (Inr j, s1)"
    and 2: "await_file 20 out s1 = (Inr u, s2)" and 3: "nonempty_file out s2 = (Inr ok, s3)"
    and 4: "(if \<not> ok then raise (RpcErr InternalError ''screendump produced empty file'' None)
     else bnd (host ''read_bytes'' [JStr out]) (\<lambda>v. let data = as_str v in
       ret \<lparr>shot_size = length data, shot_b64 = b64encode data,
            shot_saved = (if keep then Some out else None)\<rparr>)) s3 = (Inr shot, s')"
    by (auto simp: shoot_def bnd_eq_Inr)
  obtain e1 where e1: "history s1 = history s @ e1" using 1 by (auto simp: qmp_op_def host_def perform_def Let_def)
  from extends [OF emits_await_file 2] obtain e2 where e2: "history s2 = history s1 @ e2" by blast
  from nonempty_file_run [OF 3] obtain e3 where e3: "history s3 = history s2 @ e3"
    "ok \<longrightarrow> (\<exists>n. as_int n > 0 \<and> (Host ''size'' [JStr out], Inr n) \<in> set e3)" by blast
  from 4 obtain v where "ok" "history s' = history s3 @ [(Host ''read_bytes'' [JStr out], Inr v)]"
    "shot = \<lparr>shot_size = length (as_str v), shot_b64 = b64encode (as_str v), shot_saved = (if keep then Some out else None)\<rparr>"
    by (auto simp: raise_def bnd_eq_Inr host_def perform_def Let_def ret_def split: if_splits)
  then show ?thesis using e1 e2 e3 by (intro exI [of _ "e1 @ e2 @ e3"]) auto
qed

theorem screenshot_is_the_file:
  assumes "qemu_screenshot target save_path s = (Inr shot, s')" "history s' = history s @ es"
  shows "\<exists>out pre v post. es = pre @ (Host ''read_bytes'' [JStr out], Inr v) # post \<and>
    b64decode (shot_b64 shot) = Some (as_str v) \<and> shot_size shot = length (as_str v) \<and>
    (\<exists>n. as_int n > 0 \<and> (Host ''size'' [JStr out], Inr n) \<in> set pre) \<and>
    (case save_path of Some (c # cs) \<Rightarrow> out = c # cs \<and> shot_saved shot = Some out \<and> post = []
     | _ \<Rightarrow> shot_saved shot = None \<and> (\<exists>w. post = [(Host ''unlink'' [JStr out], w)]))"
proof -
  let ?name = "case save_path of
            Some (c # cs) \<Rightarrow> ret (c # cs, True)
          | _ \<Rightarrow> bnd (host ''mkstemp'' [JStr ''amiga_fleet_screen_'', JStr ''.png'']) (\<lambda>v. ret (as_str v, False))"
  let ?clean = "\<lambda>keep out. if keep then ret ()
        else catch (bnd (host ''unlink'' [JStr out]) (\<lambda>_. ret ())) (\<lambda>e. if is_os e then ret () else raise e)"
  from assms(1) obtain q s1 out keep s2 where q: "fleet_qmp target s = (Inr q, s1)"
    and n: "?name s1 = (Inr (out, keep), s2)"
    and m: "ensuring (shoot q out keep) (?clean keep out) s2 = (Inr shot, s')"
    by (auto simp: qemu_screenshot_def bnd_eq_Inr shoot_def [symmetric])
  have h1: "history s1 = history s" using pool_history(2) [OF q] by simp
  obtain e1 where e1: "history s2 = history s1 @ e1"
    "keep \<longleftrightarrow> (\<exists>c cs. save_path = Some (c # cs))" "keep \<longrightarrow> save_path = Some out"
    using n by (cases save_path; cases "the save_path") (auto simp: ret_def bnd_eq_Inr host_def perform_def Let_def)
  from m obtain s3 x where sh: "shoot q out keep s2 = (Inr shot, s3)" and cl: "?clean keep out s3 = (Inr x, s')"
    by (auto simp: ensuring_eq)
  from shoot_run [OF sh] obtain pre v where r: "history s3 = history s2 @ pre @ [(Host ''read_bytes'' [JStr out], Inr v)]"
    "shot = \<lparr>shot_size = length (as_str v), shot_b64 = b64encode (as_str v), shot_saved = (if keep then Some out else None)\<rparr>"
    "\<exists>n. as_int n > 0 \<and> (Host ''size'' [JStr out], Inr n) \<in> set pre" by blast
  have post: "history s' = history s3 \<and> keep \<or> \<not> keep \<and> (\<exists>w. history s' = history s3 @ [(Host ''unlink'' [JStr out], w)])"
    using cl by (auto simp: ret_def raise_def catch_def bnd_def host_def perform_def Let_def split: if_splits sum.splits)
  define post where "post = drop (length (history s3)) (history s')"
  have es: "es = (e1 @ pre) @ (Host ''read_bytes'' [JStr out], Inr v) # post" and
    p: "if keep then post = [] else (\<exists>w. post = [(Host ''unlink'' [JStr out], w)])"
    using post assms(2) h1 e1(1) r(1) by (auto simp: post_def)
  show ?thesis
    using es p r(2,3) e1(2,3)
    by (intro exI [of _ out] exI [of _ "e1 @ pre"] exI [of _ v] exI [of _ post])
      (auto simp: b64decode_encode split: option.split list.split if_splits)
qed

section \<open>Concrete runs\<close>

definition guest_target :: target_config where
  "guest_target = (target_of Qemu)\<lparr>qemu_config := Some ''m.json'',
       channels := no_channels\<lparr>chan_mcpd := Some default_mcpd, chan_qmp := Some default_qmp\<rparr>\<rparr>"

definition guest_config :: config where
  "guest_config = empty_config\<lparr>paths := (paths empty_config)\<lparr>qemu_binary := Some ''/q/qemu''\<rparr>,
     targets := [(''qemu'', guest_target)]\<rparr>"

definition guest_fleet :: "outcome list \<Rightarrow> (string \<times> nat) list \<Rightarrow> fleet" where
  "guest_fleet os ps = (fleet_init guest_config (scripted os))\<lparr>qemu_processes := ps, host_files := [(''m.json'', ''{}'')]\<rparr>"

text \<open>A port that refuses connections.\<close>

abbreviation refusal :: outcome where
  "refusal \<equiv> Inl (PyErr ConnectionRefusedError [])"

lemma guest_ports: "port_of ''127.0.0.1:4322'' = Inr 4322" "port_of ''127.0.0.1:14422'' = Inr 14422"
  "host_of ''127.0.0.1:4322'' = ''127.0.0.1''" "host_of ''127.0.0.1:14422'' = ''127.0.0.1''"
  by code_simp+

lemma guest_cmdline: "\<exists>cmd ports. build_cmdline ''/q/qemu'' ''m.json'' (Some ''{}'') guest_target None = Inr (cmd, ports)"
proof -
  have j: "(if utf8_valid ''{}'' then json_loads ''{}'' else None) = Some (JObj [])" by code_simp
  show ?thesis
    using j guest_ports by (simp add: build_cmdline_def guest_target_def target_of_def no_channels_def mcpd_forwards_def qmp_option_def
        default_mcpd_def default_qmp_def gdb_option_def get_or_def)
qed

lemma guest_lookup [simp]:
  "target_config guest_config ''qemu'' = Inr guest_target" "server guest_config = default_server"
  "qemu_process ''qemu'' (guest_fleet os ps) = map_of ps ''qemu''"
  "history (guest_fleet os ps) = []" "answer (guest_fleet os ps) = scripted os"
  "qemu_binary (paths guest_config) = Some ''/q/qemu''"
  "host_files (guest_fleet os ps) = [(''m.json'', ''{}'')]"
  "qemu_processes (guest_fleet os ps) = ps" "f_config (guest_fleet os ps) = guest_config" "mcpd_pool (guest_fleet os ps) = []" "qmp_pool (guest_fleet os ps) = []"
  by (simp_all add: guest_fleet_def guest_config_def fleet_init_def target_config_def qemu_process_def empty_config_def)

lemma guest_target_fields [simp]:
  "t_type guest_target = Qemu" "qemu_config guest_target = Some ''m.json''"
  "chan_mcpd (channels guest_target) = Some default_mcpd" "chan_qmp (channels guest_target) = Some default_qmp"
  by (simp_all add: guest_target_def target_of_def no_channels_def)

lemma guest_channels [simp]: "enabled default_mcpd" "enabled default_qmp"
  "chan_endpoint default_mcpd = ''127.0.0.1:4322''" "chan_endpoint default_qmp = ''127.0.0.1:14422''"
  by (simp_all add: default_mcpd_def default_qmp_def)

lemmas run_it = bnd_def gets_def ret_def raise_def catch_def lift_def modify_def perform_def host_def Let_def scripted_def
  ensuring_def with_config_run can_connect_def

text \<open>Both ports refuse, so the guest is started.\<close>

theorem start_only_when_free_witness:
  "\<exists>st s' pre cmd cwd log v post. qemu_start ''qemu'' (guest_fleet [refusal, refusal, Inr JNull, Inr (JInt 7), Inr JNull, Inr JNull, Inr (JInt 42), Inr JNull] [])
      = (Inr st, s') \<and> history s' = pre @ (popen_event cmd cwd log, v) # post \<and> started_pid st = 42 \<and>
      qemu_process ''qemu'' s' = Some 42 \<and> refused pre ''127.0.0.1:4322'' \<and> refused pre ''127.0.0.1:14422''"
proof -
  let ?s = "guest_fleet [refusal, refusal, Inr JNull, Inr (JInt 7), Inr JNull, Inr JNull, Inr (JInt 42), Inr JNull] []"
  obtain cmd ports where k: "build_cmdline ''/q/qemu'' ''m.json'' (Some ''{}'') guest_target None = Inr (cmd, ports)"
    using guest_cmdline by blast
  have "\<exists>st s' log v. qemu_start ''qemu'' ?s = (Inr st, s') \<and> started_pid st = 42 \<and> (popen_event cmd (parent_dir ''/q/qemu'') log, v) \<in> set (history s')"
    by (simp add: qemu_start_def run_it k start_checks_def process_running_def refuse_listener_def guest_ports launch_def open_log_def
        prune_old_logs_def whenM_def default_server_def register_qemu_process_def) blast
  then obtain st s' log v where r: "qemu_start ''qemu'' ?s = (Inr st, s')" "started_pid st = 42"
    "(popen_event cmd (parent_dir ''/q/qemu'') log, v) \<in> set (history s')" by blast
  then obtain pre post where h: "history s' = history ?s @ pre @ (popen_event cmd (parent_dir ''/q/qemu'') log, v) # post"
    by (auto simp: in_set_conv_decomp)
  from start_only_when_free [OF r(1) h] r(2) have "qemu_process ''qemu'' s' = Some 42"
    "refused pre ''127.0.0.1:4322''" "refused pre ''127.0.0.1:14422''" by (auto simp: checked_endpoints_def)
  with r(1,2) h show ?thesis by (intro exI [of _ st] exI [of _ s'] exI [of _ pre]) auto
qed

lemmas stop_it = qemu_process_def qemu_stop_def settle_before_stop_def transport_if_up_def mcpd_if_connected_def channel_up_def guest_ports
  succeeds_def fleet_mcpd_def fleet_qmp_def new_tid_def stop_phase_def stop_owned_def ask_to_quit_def proc_op_def qmp_op_def
  drop_qemu_process_def timeout_or_target_def sync_request_def

text \<open>The daemon answers and confirms the flush; QEMU quits when asked.\<close>

definition flushed_run :: fleet where
  "flushed_run = guest_fleet [Inr JNull, Inr JNull, Inr JNull, Inr JNull, Inr (JInt 0)] [(''qemu'', 42)]"

lemma flushed_stop: "\<exists>st s' pre a v post. qemu_stop (\<lambda>_ _. None) ''qemu'' 500 None flushed_run = (Inr st, s') \<and>
    history s' = history flushed_run @ pre @ (Host ''qmp.quit'' a, v) # post \<and> stop_settled st = Fs_sync \<and> stop_method st = By_qmp"
proof -
  have "\<exists>st s' a v. qemu_stop (\<lambda>_ _. None) ''qemu'' 500 None flushed_run = (Inr st, s') \<and>
    (Host ''qmp.quit'' a, v) \<in> set (history s') \<and> stop_settled st = Fs_sync \<and> stop_method st = By_qmp"
    by (simp add: flushed_run_def stop_it run_it) blast
  then show ?thesis by (fastforce simp: in_set_conv_decomp flushed_run_def)
qed

theorem stop_flushes_first_witness:
  "\<exists>st s' pre a v post w. qemu_stop (\<lambda>_ _. None) ''qemu'' 500 None flushed_run = (Inr st, s') \<and>
    history s' = pre @ (Host ''qmp.quit'' a, v) # post \<and> (sync_request ''qemu'', w) \<in> set pre"
proof -
  obtain st s' pre a v post where r: "qemu_stop (\<lambda>_ _. None) ''qemu'' 500 None flushed_run = (Inr st, s')"
    "history s' = history flushed_run @ pre @ (Host ''qmp.quit'' a, v) # post" "stop_settled st = Fs_sync"
    using flushed_stop by blast
  from stop_flushes_first [OF r(1,2)] r(3)
  have "(\<exists>w. (sync_request ''qemu'', w) \<in> set pre) \<or> daemon_refused guest_config pre ''qemu''"
    "\<exists>x. (sync_request ''qemu'', Inr x) \<in> set (pre @ (Host ''qmp.quit'' a, v) # post)"
    by (fastforce simp: ends_guest_def flushed_run_def)+
  moreover have "\<not> daemon_refused guest_config pre ''qemu''"
  proof
    assume "daemon_refused guest_config pre ''qemu''"
    then obtain e where "(connect_event ''127.0.0.1'' 4322, Inl e) \<in> set (history s')"
      using r(2) by (auto simp: daemon_refused_def guest_ports)
    then show False using r(1) by (auto simp: flushed_run_def stop_it run_it connect_event_def)
  qed
  ultimately show ?thesis using r(1,2) by (intro exI [of _ st] exI [of _ s']) (auto simp: flushed_run_def)
qed

theorem stop_report_sound_witness:
  "\<exists>st s'. qemu_stop (\<lambda>_ _. None) ''qemu'' 500 None flushed_run = (Inr st, s') \<and> forgotten ''qemu'' s' \<and>
     (\<exists>x. ended (history s') 42 x \<and> exit_code st = exit_of x) \<and> happened (history s') ''qmp.quit''"
proof -
  obtain st s' where r: "qemu_stop (\<lambda>_ _. None) ''qemu'' 500 None flushed_run = (Inr st, s')" "stop_method st = By_qmp"
    using flushed_stop by blast
  from stop_report_sound [OF r(1), of 42 "history s'"] r show ?thesis by (simp add: flushed_run_def)
qed

text \<open>The connection to QMP is reset while \<^verbatim>\<open>quit\<close> waits for its reply.\<close>

definition reset_error :: exn where
  "reset_error = PyErr ConnectionResetError []"

definition reset_run :: fleet where
  "reset_run = guest_fleet [refusal, Inr JNull, Inl reset_error] [(''qemu'', 42)]"

theorem quit_error_abandons_guest_witness:
  "\<exists>s'. qemu_stop (\<lambda>_ _. None) ''qemu'' 10000 None reset_run = (Inl reset_error, s') \<and> qemu_process ''qemu'' s' = None \<and>
     (Host ''poll'' [JInt 42], Inr JNull) \<in> set (history s') \<and> (\<forall>ev \<in> set (history s'). \<not> signal (fst ev))"
proof -
  have "\<exists>r s' e. qemu_stop (\<lambda>_ _. None) ''qemu'' 10000 None reset_run = (r, s') \<and> (e, Inl reset_error) \<in> set (history s') \<and> is_quit e"
    by (simp add: reset_run_def stop_it run_it reset_error_def is_quit_def)
  then obtain r s' e where r: "qemu_stop (\<lambda>_ _. None) ''qemu'' 10000 None reset_run = (r, s')"
    "(e, Inl reset_error) \<in> set (history s')" "is_quit e" by blast
  have "\<not> timeout_or_target reset_error" by (simp add: reset_error_def timeout_or_target_def)
  from quit_error_abandons_guest [OF r(1) _ _ r(2,3) this, of 42] r(1) show ?thesis
    by (simp add: reset_run_def forgotten_def)
qed

text \<open>
  When \<^verbatim>\<open>quit\<close> times out but the guest then ends, the report says terminate; no signal was sent.
\<close>

lemma terminate_without_signal:
  "\<exists>st s'. qemu_stop (\<lambda>_ _. None) ''qemu'' 500 None (guest_fleet [refusal, Inr JNull, Inl (PyErr TimeoutError []), Inr (JInt 0)] [(''qemu'', 42)])
     = (Inr st, s') \<and> stop_method st = Terminated \<and> (\<forall>ev \<in> set (history s'). \<not> signal (fst ev))"
  by (simp add: stop_it run_it signal_def connect_event_def)

lemma await_20: "await_file 20 p = bnd (nonempty_file p) (\<lambda>b. if b then ret () else bnd (sleep 50) (\<lambda>_. await_file 19 p))"
  using await_file.simps(2) [of 19 p] by simp

theorem screenshot_is_the_file_witness:
  "\<exists>shot s' out. qemu_screenshot ''qemu'' None (guest_fleet [Inr (JStr ''/tmp/x.png''), Inr JNull, Inr (JBool True), Inr (JInt 3), Inr (JBool True),
       Inr (JInt 3), Inr (JStr ''abc''), Inr JNull] []) = (Inr shot, s') \<and>
     b64decode (shot_b64 shot) = Some ''abc'' \<and> (Host ''unlink'' [JStr out], Inr JNull) \<in> set (history s')"
proof -
  let ?s = "guest_fleet [Inr (JStr ''/tmp/x.png''), Inr JNull, Inr (JBool True), Inr (JInt 3), Inr (JBool True),
       Inr (JInt 3), Inr (JStr ''abc''), Inr JNull] []"
  have "\<exists>shot s'. qemu_screenshot ''qemu'' None ?s = (Inr shot, s') \<and>
     (\<forall>o' v. (Host ''read_bytes'' [JStr o'], v) \<in> set (history s') \<longrightarrow> v = Inr (JStr ''abc'')) \<and>
     (\<forall>o' v. (Host ''unlink'' [JStr o'], v) \<in> set (history s') \<longrightarrow> v = Inr JNull)"
    by (simp add: qemu_screenshot_def stop_it run_it as_str_def nonempty_file_def await_20)
  then obtain shot s' where r: "qemu_screenshot ''qemu'' None ?s = (Inr shot, s')"
     "\<forall>o' v. (Host ''read_bytes'' [JStr o'], v) \<in> set (history s') \<longrightarrow> v = Inr (JStr ''abc'')"
     "\<forall>o' v. (Host ''unlink'' [JStr o'], v) \<in> set (history s') \<longrightarrow> v = Inr JNull" by blast
  from screenshot_is_the_file [OF r(1), of "history s'"] r obtain out pre v w where
    o: "history s' = pre @ [(Host ''read_bytes'' [JStr out], Inr v), (Host ''unlink'' [JStr out], w)]"
    "b64decode (shot_b64 shot) = Some (as_str v)" by auto
  then have "(Inr v :: outcome) = Inr (JStr ''abc'')" "w = Inr JNull" using r(2,3) by auto
  then show ?thesis using r(1) o by (intro exI [of _ shot] exI [of _ s'] exI [of _ out]) (auto simp: as_str_def)
qed

end
