(* ===== verification/DebugTools.thy ===== *)
theory DebugTools
  imports FleetTools
begin

text \<open>
  The debug tools (\<^verbatim>\<open>tools/debug.py\<close>).  Those that go through QEMU's GDB stub call the GDB transport of
  the target (\<open>Gdb\<close>); a call on it is a host event with the transport's identity, whose answer is what
  the transport returns: bytes or text as a string, a register as an integer.  The others are requests
  to the daemon.  The walk up the stack frames, in \<open>debug_backtrace\<close>, ends by itself or at the bound.
\<close>

section \<open>Through the GDB stub\<close>

definition gdb_op :: "string \<Rightarrow> channel handle \<Rightarrow> json list \<Rightarrow> ('w fleet_scheme, json) io" where
  "gdb_op method g args = host (''gdb.'' @ method) (JInt (int (tid g)) # args)"

definition GPR_COUNT :: nat where "GPR_COUNT = 32"
definition GPR_WIDTH :: nat where "GPR_WIDTH = 4"

definition parse_gprs :: "string \<Rightarrow> nat list" where
  "parse_gprs blob = map (\<lambda>i. be_val (take GPR_WIDTH (drop (i * GPR_WIDTH) blob)))
     [0..<min GPR_COUNT (length blob div GPR_WIDTH)]"

record registers =
  raw_size :: nat
  raw_b64 :: string
  gpr :: "nat list"

definition debug_read_registers :: "string \<Rightarrow> ('w fleet_scheme, registers) io" where
  "debug_read_registers target = bnd (fleet_gdb target) (\<lambda>g.
     bnd (gdb_op ''read_registers'' g []) (\<lambda>v. let blob = as_str v in
     ret \<lparr>raw_size = length blob, raw_b64 = b64encode blob, gpr = parse_gprs blob\<rparr>))"

record memory_read =
  mr_addr :: int
  mr_length :: nat
  mr_b64 :: string

definition debug_read_memory :: "string \<Rightarrow> int \<Rightarrow> int \<Rightarrow> ('w fleet_scheme, memory_read) io" where
  "debug_read_memory target addr len = bnd (fleet_gdb target) (\<lambda>g.
     bnd (gdb_op ''read_memory'' g [JInt addr, JInt len]) (\<lambda>v. let data = as_str v in
     ret \<lparr>mr_addr = addr, mr_length = length data, mr_b64 = b64encode data\<rparr>))"

definition debug_stop_reason :: "string \<Rightarrow> ('w fleet_scheme, string) io" where
  "debug_stop_reason target = bnd (fleet_gdb target) (\<lambda>g.
     bnd (gdb_op ''stop_reason'' g []) (\<lambda>v. ret (as_str v)))"

definition debug_detach :: "string \<Rightarrow> ('w fleet_scheme, bool) io" where
  "debug_detach target = bnd (fleet_gdb target) (\<lambda>g. bnd (gdb_op ''detach'' g []) (\<lambda>_. ret True))"

definition debug_set_breakpoint :: "string \<Rightarrow> int \<Rightarrow> int \<Rightarrow> bool \<Rightarrow> ('w fleet_scheme, int \<times> bool \<times> string) io" where
  "debug_set_breakpoint target addr kind hardware = bnd (fleet_gdb target) (\<lambda>g.
     bnd (gdb_op ''set_breakpoint'' g [JInt addr, JInt kind, JBool hardware]) (\<lambda>v. ret (addr, hardware, as_str v)))"

definition debug_clear_breakpoint :: "string \<Rightarrow> int \<Rightarrow> int \<Rightarrow> bool \<Rightarrow> ('w fleet_scheme, int \<times> bool \<times> string) io" where
  "debug_clear_breakpoint target addr kind hardware = bnd (fleet_gdb target) (\<lambda>g.
     bnd (gdb_op ''clear_breakpoint'' g [JInt addr, JInt kind, JBool hardware]) (\<lambda>v. ret (addr, hardware, as_str v)))"

definition debug_step :: "string \<Rightarrow> ('w fleet_scheme, string) io" where
  "debug_step target = bnd (fleet_gdb target) (\<lambda>g. bnd (gdb_op ''step'' g []) (\<lambda>v. ret (as_str v)))"

text \<open>The timeout and the clock are in microseconds; \<open>True\<close>: it is taken to have been interrupted.\<close>

definition debug_continue :: "string \<Rightarrow> int \<Rightarrow> ('w fleet_scheme, string \<times> bool) io" where
  "debug_continue target timeout_us = bnd (fleet_gdb target) (\<lambda>g.
     bnd now (\<lambda>t0.
     bnd (gdb_op ''cont'' g [JInt timeout_us]) (\<lambda>v.
     bnd now (\<lambda>t1. ret (as_str v, t1 - t0 \<ge> timeout_us)))))"

section \<open>Backtrace\<close>

definition PPC_REG_R1 :: int where "PPC_REG_R1 = 1"
definition PPC_REG_PC :: int where "PPC_REG_PC = 64"
definition PPC_REG_LR :: int where "PPC_REG_LR = 67"

record frame =
  f_index :: nat
  f_pc :: int
  f_sp :: int

record backtrace =
  bt_frames :: "frame list"
  bt_truncated :: bool
  bt_pc :: int
  bt_sp :: int
  bt_lr :: int

text \<open>The end of the chain: null, or all ones.\<close>

definition chain_end :: "int \<Rightarrow> bool" where
  "chain_end sp \<longleftrightarrow> sp = 0 \<or> sp = 0xffffffff"

text \<open>A word of guest memory; \<open>None\<close> when it cannot be read, or is cut short.\<close>

definition read_word :: "channel handle \<Rightarrow> int \<Rightarrow> ('w fleet_scheme, int option) io" where
  "read_word g addr = bnd (catch (bnd (gdb_op ''read_memory'' g [JInt addr, JInt 4]) (\<lambda>v. ret (Some (as_str v))))
       (\<lambda>_. ret None)) (\<lambda>r. case r of
         None \<Rightarrow> ret None
       | Some b \<Rightarrow> ret (if length b \<noteq> 4 then None else Some (int (be_val b))))"

fun walk :: "channel handle \<Rightarrow> nat \<Rightarrow> nat \<Rightarrow> int \<Rightarrow> ('w fleet_scheme, frame list \<times> bool) io" where
  "walk g 0 i sp = ret ([], True)"
| "walk g (Suc left) i sp =
     (if chain_end sp then ret ([], False)
      else bnd (read_word g sp) (\<lambda>b. case b of
        None \<Rightarrow> ret ([], False)
      | Some upper \<Rightarrow>
          if chain_end upper \<or> upper \<le> sp then ret ([], False)
          else bnd (read_word g (upper + 4)) (\<lambda>l. case l of
            None \<Rightarrow> ret ([], False)
          | Some lr \<Rightarrow> bnd (walk g left (Suc i) upper) (\<lambda>(fs, tr).
              ret (\<lparr>f_index = i, f_pc = lr, f_sp = upper\<rparr> # fs, tr)))))"

definition read_one :: "channel handle \<Rightarrow> int \<Rightarrow> ('w fleet_scheme, int) io" where
  "read_one g n = bnd (gdb_op ''read_one_register'' g [JInt n]) (\<lambda>v. ret (as_int v))"

definition debug_backtrace :: "string \<Rightarrow> int \<Rightarrow> ('w fleet_scheme, backtrace) io" where
  "debug_backtrace target max_frames = bnd (fleet_gdb target) (\<lambda>g.
     bnd (read_one g PPC_REG_PC) (\<lambda>pc.
     bnd (read_one g PPC_REG_R1) (\<lambda>sp.
     bnd (read_one g PPC_REG_LR) (\<lambda>lr.
     bnd (walk g (nat (max_frames - 1)) 1 sp) (\<lambda>(fs, tr).
     ret \<lparr>bt_frames = \<lparr>f_index = 0, f_pc = pc, f_sp = sp\<rparr> # fs, bt_truncated = tr,
          bt_pc = pc, bt_sp = sp, bt_lr = lr\<rparr>)))))"

section \<open>Through the daemon\<close>

record symbol =
  sy_address :: int
  sy_resolved :: bool
  sy_type :: int
  sy_module :: "string option"
  sy_offset :: int
  sy_segment :: int
  sy_segment_offset :: int
  sy_source_file :: "string option"
  sy_function :: "string option"
  sy_source_base :: "string option"
  sy_source_line :: "int option"

definition symbol_of :: "json \<Rightarrow> exn + symbol" where
  "symbol_of j =
     ebnd (field ''address'' v_int j) (\<lambda>a. ebnd (field ''resolved'' v_bool j) (\<lambda>r.
     ebnd (field_or ''type'' 0 v_int j) (\<lambda>t. ebnd (field_or ''module'' None (v_opt v_str) j) (\<lambda>m.
     ebnd (field_or ''offset'' 0 v_int j) (\<lambda>off. ebnd (field_or ''segment'' 0 v_int j) (\<lambda>sg.
     ebnd (field_or ''segment_offset'' 0 v_int j) (\<lambda>so. ebnd (field_or ''source_file'' None (v_opt v_str) j) (\<lambda>sf.
     ebnd (field_or ''function'' None (v_opt v_str) j) (\<lambda>f. ebnd (field_or ''source_base'' None (v_opt v_str) j) (\<lambda>sb.
     ebnd (field_or ''source_line'' None (v_opt v_int) j) (\<lambda>sl.
     Inr \<lparr>sy_address = a, sy_resolved = r, sy_type = t, sy_module = m, sy_offset = off, sy_segment = sg,
          sy_segment_offset = so, sy_source_file = sf, sy_function = f, sy_source_base = sb, sy_source_line = sl\<rparr>)))))))))))"

definition debug_symbol :: "string \<Rightarrow> int \<Rightarrow> ('w fleet_scheme, symbol) io" where
  "debug_symbol target address =
     bnd (mcpd_request target ''debug.symbol'' [(''address'', JInt address)]) (\<lambda>raw. lift (symbol_of raw))"

record stack_frame =
  sf_index :: int
  sf_state :: int
  sf_state_name :: string
  sf_address :: int
  sf_stack_pointer :: int
  sf_module :: "string option"
  sf_function :: "string option"
  sf_source_file :: "string option"
  sf_source_line :: "int option"
  sf_offset :: "int option"

definition stack_frame_of :: "json \<Rightarrow> exn + stack_frame" where
  "stack_frame_of j =
     ebnd (field ''index'' v_int j) (\<lambda>i. ebnd (field ''state'' v_int j) (\<lambda>s.
     ebnd (field ''state_name'' v_str j) (\<lambda>n. ebnd (field ''address'' v_int j) (\<lambda>a.
     ebnd (field ''stack_pointer'' v_int j) (\<lambda>p. ebnd (field_or ''module'' None (v_opt v_str) j) (\<lambda>m.
     ebnd (field_or ''function'' None (v_opt v_str) j) (\<lambda>f. ebnd (field_or ''source_file'' None (v_opt v_str) j) (\<lambda>sf.
     ebnd (field_or ''source_line'' None (v_opt v_int) j) (\<lambda>sl. ebnd (field_or ''offset'' None (v_opt v_int) j) (\<lambda>off.
     Inr \<lparr>sf_index = i, sf_state = s, sf_state_name = n, sf_address = a, sf_stack_pointer = p, sf_module = m,
          sf_function = f, sf_source_file = sf, sf_source_line = sl, sf_offset = off\<rparr>))))))))))"

record stacktrace =
  stt_name :: string
  stt_rc :: int
  stt_count :: int
  stt_frames :: "stack_frame list"

definition stacktrace_of :: "json \<Rightarrow> exn + stacktrace" where
  "stacktrace_of j =
     ebnd (field ''name'' v_str j) (\<lambda>n. ebnd (field ''stacktrace_rc'' v_int j) (\<lambda>rc.
     ebnd (field ''frame_count'' v_int j) (\<lambda>c. ebnd (field ''frames'' (v_list stack_frame_of) j) (\<lambda>fs.
     Inr \<lparr>stt_name = n, stt_rc = rc, stt_count = c, stt_frames = fs\<rparr>))))"

definition debug_stacktrace :: "string \<Rightarrow> string \<Rightarrow> int \<Rightarrow> ('w fleet_scheme, stacktrace) io" where
  "debug_stacktrace target name max_frames =
     bnd (mcpd_request target ''debug.stacktrace'' [(''name'', JStr name), (''max_frames'', JInt max_frames)])
       (\<lambda>raw. lift (stacktrace_of raw))"

definition debug_write_memory :: "string \<Rightarrow> int \<Rightarrow> string \<Rightarrow> ('w fleet_scheme, int \<times> int) io" where
  "debug_write_memory target address bytes_b64 =
     bnd (mcpd_request target ''debug.write_memory''
            [(''address'', JInt address), (''bytes_b64'', JStr bytes_b64), (''confirm'', JBool True)])
       (\<lambda>raw. lift (ebnd (field ''address'' v_int raw) (\<lambda>a. ebnd (field ''bytes_written'' v_int raw) (\<lambda>n. Inr (a, n)))))"

record register_written =
  rw_name :: string
  rw_register :: string
  rw_value :: int
  rw_filled :: int

text \<open>The register comes under its alias or under its own name; the alias is looked up first.\<close>

definition register_name :: "json \<Rightarrow> exn + string" where
  "register_name j = (case j of JObj kvs \<Rightarrow> (case map_of kvs ''register'' of
       Some x \<Rightarrow> v_str x | None \<Rightarrow> field ''register_name'' v_str j) | _ \<Rightarrow> Inl invalid)"

definition debug_write_register :: "string \<Rightarrow> string \<Rightarrow> string \<Rightarrow> int \<Rightarrow> ('w fleet_scheme, register_written) io" where
  "debug_write_register target name reg val =
     bnd (mcpd_request target ''debug.write_register''
            [(''name'', JStr name), (''register'', JStr reg), (''value'', JInt val), (''confirm'', JBool True)])
       (\<lambda>raw. lift (ebnd (field ''name'' v_str raw) (\<lambda>n. ebnd (register_name raw) (\<lambda>r.
          ebnd (field ''value'' v_int raw) (\<lambda>v. ebnd (field ''wtcf_filled'' v_int raw) (\<lambda>f.
          Inr \<lparr>rw_name = n, rw_register = r, rw_value = v, rw_filled = f\<rparr>))))))"

section \<open>Properties\<close>

text \<open>
  What a backtrace should be, as the requests it makes and their answers.  A word of memory is asked for with
  \<open>mem_event\<close>; \<open>word_of\<close> is the word of an answer, if it has one.
\<close>

definition mem_event :: "channel handle \<Rightarrow> int \<Rightarrow> event" where
  "mem_event g addr = Host ''gdb.read_memory'' [JInt (int (tid g)), JInt addr, JInt 4]"

definition reg_event :: "channel handle \<Rightarrow> int \<Rightarrow> event" where
  "reg_event g n = Host ''gdb.read_one_register'' [JInt (int (tid g)), JInt n]"

definition word_of :: "outcome \<Rightarrow> int option" where
  "word_of v = (case v of Inr j \<Rightarrow> if length (as_str j) = 4 then Some (int (be_val (as_str j))) else None | Inl _ \<Rightarrow> None)"

text \<open>
  Why a walk ends before its bound at the stack pointer \<open>sp\<close>: it is null or all ones; or the word there cannot be
  read, is null or all ones, or does not lie above \<open>sp\<close>; or the return address above that word cannot be read.
\<close>

definition chain_stops :: "channel handle \<Rightarrow> int \<Rightarrow> (event \<times> outcome) list \<Rightarrow> bool" where
  "chain_stops g sp es \<longleftrightarrow> sp \<in> {0, 0xffffffff} \<and> es = [] \<or>
     sp \<notin> {0, 0xffffffff} \<and> (\<exists>v rest. es = (mem_event g sp, v) # rest \<and>
       (case word_of v of None \<Rightarrow> rest = []
        | Some u \<Rightarrow> if u \<in> {0, 0xffffffff} \<or> u \<le> sp then rest = []
            else \<exists>w. rest = [(mem_event g (u + 4), w)] \<and> word_of w = None))"

text \<open>
  The frames after the one at \<open>sp\<close>, with exactly these requests: each frame's stack pointer is the word at the
  previous one and lies above it, its pc is the word above its stack pointer, and after the last one the bound is
  reached or the chain stops.
\<close>

fun follows :: "channel handle \<Rightarrow> bool \<Rightarrow> nat \<Rightarrow> int \<Rightarrow> frame list \<Rightarrow> (event \<times> outcome) list \<Rightarrow> bool" where
  "follows g truncated i sp [] es = (if truncated then es = [] else chain_stops g sp es)"
| "follows g truncated i sp (f # fs) es \<longleftrightarrow> (\<exists>v w rest.
     es = (mem_event g sp, v) # (mem_event g (f_sp f + 4), w) # rest \<and> sp \<notin> {0, 0xffffffff} \<and>
     word_of v = Some (f_sp f) \<and> f_sp f \<notin> {0, 0xffffffff} \<and> sp < f_sp f \<and> word_of w = Some (f_pc f) \<and>
     f_index f = i \<and> follows g truncated (Suc i) (f_sp f) fs rest)"

lemma read_word_run:
  assumes "read_word g addr s = (r, s')"
  shows "\<exists>v. r = Inr (word_of v) \<and> history s' = history s @ [(mem_event g addr, v)] \<and> answer s' = answer s"
  using assms
  by (intro exI [of _ "answer s (history s) (mem_event g addr)"])
    (auto simp: read_word_def bnd_def catch_def gdb_op_def host_def perform_def Let_def ret_def word_of_def mem_event_def
      split: sum.splits)

lemma walk_run:
  assumes "walk g left i sp s = (r, s')"
  shows "\<exists>es fs tr. r = Inr (fs, tr) \<and> history s' = history s @ es \<and> answer s' = answer s \<and> follows g tr i sp fs es \<and>
    length fs \<le> left \<and> (tr \<longrightarrow> length fs = left)"
  using assms
proof (induction left arbitrary: i sp s r s')
  case 0
  then show ?case by (auto simp: ret_def)
next
  case (Suc left)
  obtain b s1 where b: "read_word g sp s = (b, s1)" by force
  from read_word_run [OF b] obtain v where v: "b = Inr (word_of v)" "history s1 = history s @ [(mem_event g sp, v)]"
    "answer s1 = answer s" by blast
  show ?case
  proof (cases "chain_end sp")
    case True
    then show ?thesis using Suc.prems by (auto simp: ret_def chain_stops_def chain_end_def)
  next
    case sp: False
    show ?thesis
    proof (cases "\<exists>upper. word_of v = Some upper \<and> \<not> chain_end upper \<and> sp < upper")
      case False
      then have "walk g (Suc left) i sp s = (Inr ([], False), s1)" using sp b v(1)
        by (cases "word_of v") (auto simp: bnd_def ret_def not_less)
      moreover have "chain_stops g sp [(mem_event g sp, v)]"
        using False sp by (auto simp: chain_stops_def chain_end_def split: option.split)
      ultimately show ?thesis using Suc.prems v(2,3) by auto
    next
      case True
      then obtain upper where upper: "word_of v = Some upper" "\<not> chain_end upper" "sp < upper" by blast
      obtain l s2 where l: "read_word g (upper + 4) s1 = (l, s2)" by force
      from read_word_run [OF l] obtain w where w: "l = Inr (word_of w)" "history s2 = history s1 @ [(mem_event g (upper + 4), w)]"
        "answer s2 = answer s1" by blast
      show ?thesis
      proof (cases "word_of w")
        case None
        then have "walk g (Suc left) i sp s = (Inr ([], False), s2)" using sp b v(1) upper l w(1) by (auto simp: bnd_def ret_def)
        moreover have "chain_stops g sp [(mem_event g sp, v), (mem_event g (upper + 4), w)]"
          using sp upper None by (auto simp: chain_stops_def chain_end_def)
        ultimately show ?thesis using Suc.prems v(2,3) w(2,3) by auto
      next
        case (Some lr)
        obtain x s3 where x: "walk g left (Suc i) upper s2 = (x, s3)" by force
        from Suc.IH [OF x] obtain es fs tr where IH: "x = Inr (fs, tr)" "history s3 = history s2 @ es" "answer s3 = answer s2"
          "follows g tr (Suc i) upper fs es" "length fs \<le> left" "tr \<longrightarrow> length fs = left" by blast
        have "r = Inr (\<lparr>f_index = i, f_pc = lr, f_sp = upper\<rparr> # fs, tr)" "s' = s3"
          using Suc.prems sp b v(1) upper l w(1) Some x IH(1) by (auto simp: bnd_def ret_def)
        moreover have "follows g tr i sp (\<lparr>f_index = i, f_pc = lr, f_sp = upper\<rparr> # fs)
            ((mem_event g sp, v) # (mem_event g (upper + 4), w) # es)"
          using sp upper Some IH(4) by (auto simp: chain_end_def)
        ultimately show ?thesis using IH(2,3,5,6) v(2,3) w(2,3) by auto
      qed
    qed
  qed
qed

lemma read_one_run:
  assumes "read_one g n s = (Inr x, s')"
  shows "\<exists>v. x = as_int v \<and> history s' = history s @ [(reg_event g n, Inr v)]"
  using assms by (auto simp: read_one_def gdb_op_def bnd_eq_Inr host_def perform_def Let_def ret_def reg_event_def)

text \<open>
  C25. A debug_backtrace that returns read, from the GDB stub of the target, the registers pc
  (64), r1 (1) and lr (67) in this order and then exactly the words of the back chain: the
  first frame holds the values of pc and r1, each further frame the word at the previous stack
  pointer, which lies above it, and the return address above that word; there are at most max 1
  max_frames frames (the first is always there), exactly that many when truncated, and a list
  that is not truncated ends where the chain ends: a null or all-ones pointer, one that does
  not grow, or a word that cannot be read.
\<close>

theorem backtrace_is_the_chain:
  assumes "debug_backtrace target max_frames s = (Inr bt, s')" "history s' = history s @ es"
  shows "\<exists>g s1 pc sp lr fs rest. fleet_gdb target s = (Inr g, s1) \<and>
    es = (reg_event g 64, Inr pc) # (reg_event g 1, Inr sp) # (reg_event g 67, Inr lr) # rest \<and>
    bt_pc bt = as_int pc \<and> bt_sp bt = as_int sp \<and> bt_lr bt = as_int lr \<and>
    bt_frames bt = \<lparr>f_index = 0, f_pc = as_int pc, f_sp = as_int sp\<rparr> # fs \<and>
    follows g (bt_truncated bt) 1 (as_int sp) fs rest \<and>
    length (bt_frames bt) \<le> max 1 (nat max_frames) \<and>
    (bt_truncated bt \<longrightarrow> length (bt_frames bt) = max 1 (nat max_frames))"
proof -
  from assms(1) obtain g s1 pc s2 sp s3 lr s4 fs tr where g: "fleet_gdb target s = (Inr g, s1)"
    and r: "read_one g PPC_REG_PC s1 = (Inr pc, s2)" "read_one g PPC_REG_R1 s2 = (Inr sp, s3)" "read_one g PPC_REG_LR s3 = (Inr lr, s4)"
    and w: "walk g (nat (max_frames - 1)) 1 sp s4 = (Inr (fs, tr), s')"
    and bt: "bt = \<lparr>bt_frames = \<lparr>f_index = 0, f_pc = pc, f_sp = sp\<rparr> # fs, bt_truncated = tr, bt_pc = pc, bt_sp = sp, bt_lr = lr\<rparr>"
    by (auto simp: debug_backtrace_def bnd_eq_Inr ret_def)
  have h: "history s1 = history s"
    using g by (auto simp: fleet_gdb_def pool_defs split: option.splits sum.splits if_splits)
  obtain v1 v2 v3 where v: "pc = as_int v1" "sp = as_int v2" "lr = as_int v3"
    "history s4 = history s @ [(reg_event g 64, Inr v1), (reg_event g 1, Inr v2), (reg_event g 67, Inr v3)]"
    using read_one_run [OF r(1)] read_one_run [OF r(2)] read_one_run [OF r(3)] h
    by (auto simp: PPC_REG_PC_def PPC_REG_R1_def PPC_REG_LR_def)
  from walk_run [OF w] obtain e' where k: "history s' = history s4 @ e'" "follows g tr 1 sp fs e'"
    "length fs \<le> nat (max_frames - 1)" "tr \<longrightarrow> length fs = nat (max_frames - 1)" by auto
  have "es = (reg_event g 64, Inr v1) # (reg_event g 1, Inr v2) # (reg_event g 67, Inr v3) # e'"
    using v(4) k(1) assms(2) by simp
  then show ?thesis using g bt k(2-4) v(1-3)
    by (intro exI [of _ g] exI [of _ s1] exI [of _ v1] exI [of _ v2] exI [of _ v3] exI [of _ fs] exI [of _ e']) (auto simp: max_def)
qed

text \<open>The registers of a dump are read back: 32 big-endian words, whatever follows them.\<close>

lemma parse_gprs_prefix:
  assumes "length rs \<le> GPR_COUNT" "\<forall>r \<in> set rs. r < 2 ^ 32" "length rs = GPR_COUNT \<or> length ext < 4"
  shows "parse_gprs (concat (map (be_bytes 4) rs) @ ext) = rs"
proof (rule nth_equalityI)
  have len: "length (concat (map (be_bytes 4) xs)) = 4 * length xs" for xs by (induction xs) auto
  then show l: "length (parse_gprs (concat (map (be_bytes 4) rs) @ ext)) = length rs"
    using assms(1,3) by (auto simp: parse_gprs_def GPR_COUNT_def GPR_WIDTH_def min_def)
  fix i assume "i < length (parse_gprs (concat (map (be_bytes 4) rs) @ ext))"
  then have i: "i < length rs" using l by simp
  have "concat (map (be_bytes 4) rs) = concat (map (be_bytes 4) (take i rs)) @ be_bytes 4 (rs ! i) @ concat (map (be_bytes 4) (drop (Suc i) rs))"
    using i by (subst id_take_nth_drop [OF i]) simp
  moreover have "length (concat (map (be_bytes 4) (take i rs))) = i * 4" using i len [of "take i rs"] by simp
  ultimately have "take 4 (drop (i * 4) (concat (map (be_bytes 4) rs) @ ext)) = be_bytes 4 (rs ! i)" by simp
  moreover have "be_val (be_bytes 4 (rs ! i)) = rs ! i" using assms(2) i by (intro be_val_bytes) auto
  moreover have "parse_gprs (concat (map (be_bytes 4) rs) @ ext) ! i
      = be_val (take 4 (drop (i * 4) (concat (map (be_bytes 4) rs) @ ext)))"
    using i l by (simp add: parse_gprs_def GPR_WIDTH_def)
  ultimately show "parse_gprs (concat (map (be_bytes 4) rs) @ ext) ! i = rs ! i" by simp
qed

theorem registers_read_back:
  assumes "debug_read_registers target s = (Inr r, s')"
    "length rs = 32" "\<forall>x \<in> set rs. x < 2 ^ 32"
    "\<forall>i. answer s (history s) (Host ''gdb.read_registers'' [JInt i]) = Inr (JStr (concat (map (be_bytes 4) rs) @ ext))"
  shows "gpr r = rs \<and> b64decode (raw_b64 r) = Some (concat (map (be_bytes 4) rs) @ ext)"
proof -
  from assms(1) obtain g s1 v where g: "fleet_gdb target s = (Inr g, s1)"
    and v: "gdb_op ''read_registers'' g [] s1 = (Inr v, s')"
    and r: "r = \<lparr>raw_size = length (as_str v), raw_b64 = b64encode (as_str v), gpr = parse_gprs (as_str v)\<rparr>"
    by (auto simp: debug_read_registers_def bnd_eq_Inr ret_def Let_def)
  have "history s1 = history s \<and> answer s1 = answer s"
    using g by (auto simp: fleet_gdb_def pool_defs split: option.splits sum.splits if_splits)
  then have "as_str v = concat (map (be_bytes 4) rs) @ ext"
    using v assms(4) by (auto simp: gdb_op_def host_def perform_def Let_def as_str_def)
  then show ?thesis using r parse_gprs_prefix [of rs ext] assms(2,3) by (simp add: GPR_COUNT_def b64decode_encode)
qed

section \<open>Concrete runs\<close>

definition stub_target :: target_config where
  "stub_target = (target_of Qemu)\<lparr>channels := no_channels\<lparr>chan_gdb := Some default_gdb\<rparr>\<rparr>"

definition stub_fleet :: "outcome list \<Rightarrow> fleet" where
  "stub_fleet os = fleet_init (empty_config\<lparr>targets := [(''q'', stub_target)]\<rparr>) (scripted os)"

lemmas stub_run = stub_fleet_def fleet_init_def empty_config_def stub_target_def target_of_def no_channels_def default_gdb_def
  fleet_gdb_def target_config_def pool_defs gdb_op_def host_def perform_def scripted_def

theorem backtrace_is_the_chain_witness:
  "\<exists>bt s' g fs rest. debug_backtrace ''q'' 2 (stub_fleet [Inr (JInt 256), Inr (JInt 4096), Inr (JInt 0),
       Inr (JStr (be_bytes 4 8192)), Inr (JStr (be_bytes 4 512))]) = (Inr bt, s') \<and> bt_truncated bt \<and>
     bt_frames bt = \<lparr>f_index = 0, f_pc = 256, f_sp = 4096\<rparr> # fs \<and> follows g True 1 4096 fs rest \<and> length fs = 1"
proof -
  let ?s = "stub_fleet [Inr (JInt 256), Inr (JInt 4096), Inr (JInt 0), Inr (JStr (be_bytes 4 8192)), Inr (JStr (be_bytes 4 512))]"
  have v: "be_val (be_bytes 4 8192) = 8192" "be_val (be_bytes 4 512) = 512" by (simp_all add: be_val_bytes)
  have "\<exists>bt s'. debug_backtrace ''q'' 2 ?s = (Inr bt, s') \<and> bt_pc bt = 256 \<and> bt_sp bt = 4096 \<and> bt_truncated bt"
    by (simp add: debug_backtrace_def read_one_def read_word_def catch_def chain_end_def as_str_def v stub_run)
  then obtain bt s' where r: "debug_backtrace ''q'' 2 ?s = (Inr bt, s')" "bt_pc bt = 256" "bt_sp bt = 4096" "bt_truncated bt" by blast
  have h: "history s' = history ?s @ history s'" by (simp add: stub_fleet_def fleet_init_def)
  from backtrace_is_the_chain [OF r(1) h] obtain g fs rest where
    "bt_frames bt = \<lparr>f_index = 0, f_pc = bt_pc bt, f_sp = bt_sp bt\<rparr> # fs" "follows g (bt_truncated bt) 1 (bt_sp bt) fs rest"
    "bt_truncated bt \<longrightarrow> length (bt_frames bt) = max 1 (nat 2)" by metis
  then show ?thesis using r by auto
qed

theorem registers_read_back_witness:
  "\<exists>r s'. debug_read_registers ''q'' (stub_fleet [Inr (JStr (concat (map (be_bytes 4) [0..<32]) @ ''x''))]) = (Inr r, s') \<and> gpr r = [0..<32]"
proof -
  let ?d = "concat (map (be_bytes 4) [0..<32]) @ ''x''"
  obtain r s' where r: "debug_read_registers ''q'' (stub_fleet [Inr (JStr ?d)]) = (Inr r, s')"
    by (simp add: debug_read_registers_def stub_run del: upt_conv_Cons upt_rec)
  have "gpr r = [0..<32]"
    using registers_read_back [OF r, of "[0..<32]" "''x''"] by (simp add: stub_fleet_def fleet_init_def scripted_def)
  with r show ?thesis by blast
qed

end
