(* ===== verification/Snapshots.thy ===== *)
theory Snapshots
  imports QemuTools
begin

text \<open>
  Snapshots of a QEMU guest (\<^verbatim>\<open>tools/snapshots.py\<close>): the monitor commands and what is read from their
  output.  A regular expression is the list of its matches in the order a backtracking matcher finds
  them, each with the rest of the text; the first that reaches the end is the match.
\<close>

section \<open>Matching\<close>

type_synonym matcher = "string \<Rightarrow> (string \<times> string) list"

text \<open>A class, one or more times and any number of times, longest first.\<close>

definition plus_of :: "(char \<Rightarrow> bool) \<Rightarrow> matcher" where
  "plus_of P s = map (\<lambda>k. (take k s, drop k s)) (rev [1..<Suc (length (takeWhile P s))])"

definition star_of :: "(char \<Rightarrow> bool) \<Rightarrow> matcher" where
  "star_of P s = map (\<lambda>k. (take k s, drop k s)) (rev [0..<Suc (length (takeWhile P s))])"

text \<open>One after the other, and an optional part that is tried before it is left out.\<close>

definition after :: "matcher \<Rightarrow> matcher \<Rightarrow> matcher" where
  "after m m' s = concat (map (\<lambda>(x, r). map (\<lambda>(y, r'). (x @ y, r')) (m' r)) (m s))"

definition optional :: "matcher \<Rightarrow> matcher" where
  "optional m s = m s @ [([], s)]"

abbreviation spaces :: matcher where "spaces \<equiv> plus_of py_isspace"
abbreviation black :: matcher where "black \<equiv> plus_of (\<lambda>c. \<not> py_isspace c)"

definition id_char :: "char \<Rightarrow> bool" where
  "id_char c \<longleftrightarrow> is_digit c \<or> c = CHR ''-'' \<or> c = CHR ''*''"

definition clock_char :: "char \<Rightarrow> bool" where
  "clock_char c \<longleftrightarrow> is_digit c \<or> c = CHR '':'' \<or> c = CHR ''.''"

definition vmsize :: matcher where
  "vmsize = after black (optional (after (star_of py_isspace) black))"

definition date :: matcher where
  "date = after black (after spaces black)"

record snapshot_entry =
  sn_id :: string
  sn_name :: string
  sn_vm_size :: "string option"
  sn_date :: "string option"
  sn_vm_clock :: "string option"

definition row_matches :: "string \<Rightarrow> snapshot_entry list" where
  "row_matches s =
     concat (map (\<lambda>(i, s1). concat (map (\<lambda>(_, s2). concat (map (\<lambda>(n, s3). concat (map (\<lambda>(_, s4).
     concat (map (\<lambda>(v, s5). concat (map (\<lambda>(_, s6). concat (map (\<lambda>(d, s7). concat (map (\<lambda>(_, s8).
     concat (map (\<lambda>(c, s9). if list_all py_isspace s9
       then [\<lparr>sn_id = i, sn_name = n, sn_vm_size = Some v, sn_date = Some d, sn_vm_clock = Some c\<rparr>] else [])
       (plus_of clock_char s8))) (spaces s7))) (date s6))) (spaces s5))) (vmsize s4))) (spaces s3))) (black s2)))
       (spaces s1))) (plus_of id_char (lstrip s)))"

section \<open>info snapshots\<close>

definition is_header :: "string \<Rightarrow> bool" where
  "is_header s \<longleftrightarrow> startswith s ''ID'' \<or> startswith s ''--'' \<or> startswith s ''List''"

definition parse_row :: "string \<Rightarrow> snapshot_entry list" where
  "parse_row s = (case row_matches s of
       e # _ \<Rightarrow> [e]
     | [] \<Rightarrow> (case split_ws s of
         i # n # _ \<Rightarrow> [\<lparr>sn_id = i, sn_name = n, sn_vm_size = None, sn_date = None, sn_vm_clock = None\<rparr>]
       | _ \<Rightarrow> []))"

fun parse_rows :: "bool \<Rightarrow> string list \<Rightarrow> snapshot_entry list" where
  "parse_rows seen [] = []"
| "parse_rows seen (line # ls) =
     (let s = strip line in
      if s = [] then parse_rows seen ls
      else if is_header s then parse_rows True ls
      else if \<not> seen then parse_rows seen ls
      else parse_row s @ parse_rows seen ls)"

definition parse_info_snapshots :: "string \<Rightarrow> snapshot_entry list" where
  "parse_info_snapshots out = parse_rows False (splitlines_keep out)"

section \<open>Errors of the monitor\<close>

text \<open>The expression is searched without regard to case, and its anchors hold after every newline.\<close>

definition hmp_error :: "string \<Rightarrow> bool" where
  "hmp_error out \<longleftrightarrow> (let l = py_lower out in
     list_ex (\<lambda>ln. startswith ln ''error:'' \<or> startswith ln ''qemu-system-ppc:'') (split_on newline l) \<or>
     contains ''cannot'' l \<or> contains ''unable to'' l \<or> contains ''not found'' l)"

definition check_hmp_error :: "string \<Rightarrow> string \<Rightarrow> exn + unit" where
  "check_hmp_error out op =
     (if hmp_error out
      then (case splitlines_keep (strip out) of
          [] \<Rightarrow> Inl (PyErr IndexError [])
        | ln # _ \<Rightarrow> Inl (RpcErr TargetError (op @ '' failed: '' @ rstrip_pred py_islinebreak ln)
            (Some (JObj [(''hmp_output'', JStr out)]))))
      else Inr ())"

section \<open>The tools\<close>

definition monitor :: "string \<Rightarrow> string \<Rightarrow> (fleet, string) io" where
  "monitor target line = bnd (fleet_qmp target) (\<lambda>q. bnd (qmp_op ''hmp'' q [JStr line]) (\<lambda>v. ret (as_str v)))"

definition monitor_checked :: "string \<Rightarrow> string \<Rightarrow> string \<Rightarrow> (fleet, string \<times> string) io" where
  "monitor_checked target op name = bnd (monitor target (op @ '' '' @ name)) (\<lambda>out.
     bnd (lift (check_hmp_error out op)) (\<lambda>_. ret (name, out)))"

definition qemu_savevm :: "string \<Rightarrow> string \<Rightarrow> (fleet, string \<times> string) io" where
  "qemu_savevm target name = monitor_checked target ''savevm'' name"

definition qemu_loadvm :: "string \<Rightarrow> string \<Rightarrow> (fleet, string \<times> string) io" where
  "qemu_loadvm target name = monitor_checked target ''loadvm'' name"

definition qemu_delete_snapshot :: "string \<Rightarrow> string \<Rightarrow> (fleet, string \<times> string) io" where
  "qemu_delete_snapshot target name = monitor_checked target ''delvm'' name"

definition qemu_list_snapshots :: "string \<Rightarrow> (fleet, snapshot_entry list \<times> string) io" where
  "qemu_list_snapshots target = bnd (monitor target ''info snapshots'') (\<lambda>raw. ret (parse_info_snapshots raw, raw))"

section \<open>Properties\<close>

text \<open>Words of a text, read off a decomposition of it.\<close>

lemma split_ws_black: "\<forall>c \<in> set x. \<not> py_isspace c \<Longrightarrow> split_ws_acc acc (x @ r) = split_ws_acc (rev x @ acc) r"
  by (induction x arbitrary: acc) auto

lemma split_ws_spaces: "\<forall>c \<in> set sp. py_isspace c \<Longrightarrow> split_ws_acc [] (sp @ r) = split_ws_acc [] r"
  by (induction sp) auto

lemma split_ws_gap:
  assumes "acc \<noteq> []" "sp \<noteq> []" "\<forall>c \<in> set sp. py_isspace c"
  shows "split_ws_acc acc (sp @ r) = rev acc # split_ws_acc [] r"
  using assms by (cases sp) (auto simp: split_ws_spaces)

lemma split_ws_first:
  assumes "x \<noteq> []" "\<forall>c \<in> set x. \<not> py_isspace c" "sp \<noteq> []" "\<forall>c \<in> set sp. py_isspace c"
  shows "split_ws (x @ sp @ r) = x # split_ws r"
  using assms by (simp add: split_ws_def split_ws_black split_ws_gap)

lemma split_ws_lstrip: "split_ws (lstrip s) = split_ws s"
proof -
  have "s = takeWhile py_isspace s @ lstrip s" by (simp add: lstrip_def)
  then show ?thesis
    unfolding split_ws_def by (metis split_ws_spaces set_takeWhileD)
qed

lemma plus_of_member:
  assumes "(x, r) \<in> set (plus_of P s)"
  shows "s = x @ r" "x \<noteq> []" "\<forall>c \<in> set x. P c"
proof -
  from assms obtain k where k: "k \<in> {1..<Suc (length (takeWhile P s))}" "(x, r) = (take k s, drop k s)"
    by (auto simp: plus_of_def simp del: upt_Suc)
  then have "x = take k (takeWhile P s)" using take_append [of k "takeWhile P s" "dropWhile P s"] by simp
  then show "\<forall>c \<in> set x. P c" by (metis in_set_takeD set_takeWhileD)
  show "s = x @ r" "x \<noteq> []" using k by auto
qed

lemma id_char_black: "id_char c \<Longrightarrow> \<not> py_isspace c"
  by (auto simp: id_char_def is_digit_def py_isspace_def)

lemma row_matches_words:
  assumes "e \<in> set (row_matches s)"
  shows "\<exists>ws. split_ws s = sn_id e # sn_name e # ws"
proof -
  from assms obtain s1 sp s2 s3 sp' s4 where m: "(sn_id e, s1) \<in> set (plus_of id_char (lstrip s))"
    "(sp, s2) \<in> set (spaces s1)" "(sn_name e, s3) \<in> set (black s2)" "(sp', s4) \<in> set (spaces s3)"
    by (auto simp: row_matches_def split: if_splits)
  note d = plus_of_member [OF m(1)] plus_of_member [OF m(2)] plus_of_member [OF m(3)] plus_of_member [OF m(4)]
  have "lstrip s = sn_id e @ sp @ sn_name e @ sp' @ s4" using d by simp
  then have "split_ws (lstrip s) = sn_id e # sn_name e # split_ws s4"
    using d id_char_black by (simp add: split_ws_first)
  then show ?thesis by (simp add: split_ws_lstrip)
qed

lemma parse_row_words:
  "map (\<lambda>e. [sn_id e, sn_name e]) (parse_row s) = (if 2 \<le> length (split_ws s) then [take 2 (split_ws s)] else [])"
proof (cases "row_matches s")
  case Nil
  then show ?thesis by (auto simp: parse_row_def split: list.split)
next
  case (Cons e es)
  then obtain ws where "split_ws s = sn_id e # sn_name e # ws" using row_matches_words [of e s] by auto
  then show ?thesis using Cons by (simp add: parse_row_def)
qed

text \<open>
  The rows of the output, said without the parser: a title is a line that begins with \<^verbatim>\<open>ID\<close>, \<^verbatim>\<open>--\<close> or \<^verbatim>\<open>List\<close>; the rows
  are the lines after the first title that are neither blank nor titles.
\<close>

definition title_line :: "string \<Rightarrow> bool" where
  "title_line l \<longleftrightarrow> list_ex (\<lambda>p. prefix p l) [''ID'', ''--'', ''List'']"

definition data_rows :: "string \<Rightarrow> string list" where
  "data_rows out = filter (\<lambda>l. l \<noteq> [] \<and> \<not> title_line l) (dropWhile (\<lambda>l. \<not> title_line l) (map strip (splitlines_keep out)))"

lemma title_is_header: "title_line = is_header"
  by (rule ext) (simp add: title_line_def is_header_def startswith_iff prefix_def)

lemma is_header_Nil [simp]: "\<not> is_header []"
  by (simp add: is_header_def startswith_Nil_iff)

lemma parse_rows_eq: "parse_rows seen ls = concat (map parse_row (filter (\<lambda>l. l \<noteq> [] \<and> \<not> is_header l)
    (if seen then map strip ls else dropWhile (\<lambda>l. \<not> is_header l) (map strip ls))))"
  by (induction seen ls rule: parse_rows.induct) (auto simp: Let_def)

text \<open>
  C26. Whatever the monitor prints, the identifiers and names that _parse_info_snapshots
  reports are, once each and in order, the first two fields of the rows with at least two
  fields. The rows are the non-blank lines after the first line that begins with ID, -- or
  List, without the further lines that begin so; a row whose identifier is --, that of a
  snapshot on all disks, is therefore not reported (all_disks_row_dropped).
\<close>

theorem snapshots_are_the_rows:
  "map (\<lambda>e. [sn_id e, sn_name e]) (parse_info_snapshots out) =
     map (take 2 \<circ> split_ws) (filter (\<lambda>l. 2 \<le> length (split_ws l)) (data_rows out))"
proof -
  have "map (\<lambda>e. [sn_id e, sn_name e]) (concat (map parse_row ls)) =
     map (take 2 \<circ> split_ws) (filter (\<lambda>l. 2 \<le> length (split_ws l)) ls)" for ls
    by (induction ls) (auto simp: parse_row_words)
  then show ?thesis by (simp add: parse_info_snapshots_def parse_rows_eq data_rows_def title_is_header)
qed

text \<open>
  A row of a snapshot that lies on all disks has the identifier \<^verbatim>\<open>--\<close>; it is taken for the line under
  the header, so no snapshot of that kind is ever reported.
\<close>

definition listing :: string where
  "listing = ''List of snapshots present on all disks:'' @ [newline] @
     ''ID        TAG            VM SIZE                DATE     VM CLOCK'' @ [newline] @
     ''--        before-test    4.2 GiB 2026-04-29 10:00:00 00:01:03.213'' @ [newline]"

lemma all_disks_row_dropped: "parse_info_snapshots listing = []"
  by code_simp

end
