(* ===== verification/SandboxText.thy ===== *)
theory SandboxText
  imports Tools
begin

text \<open>
  The pure part of the sandbox tools (\<^verbatim>\<open>tools/sandbox.py\<close>): names and paths, the SandboxVM command
  lines, what an exit code and a captured stderr say, and what is read from the kernel's debug ring.
  The searches with regular expressions are written out: every one of them is deterministic, since a
  repetition in it is always followed by something outside the repeated class.
\<close>

section \<open>Constants\<close>

definition DEFAULT_AOS_SEARCH :: "string list" where
  "DEFAULT_AOS_SEARCH = [''SYS:Tools/sandboxvm'', ''SYS:Utilities/sandboxvm'', ''C:sandboxvm'']"

definition DEFAULT_DEPLOY_PATH :: string where
  "DEFAULT_DEPLOY_PATH = ''SYS:Tools/sandboxvm''"

definition INCOMPATIBLE_MACHINES :: "string list" where
  "INCOMPATIBLE_MACHINES = [''pegasos2'']"

definition ABORT_MIN_VERSION :: "nat \<times> nat" where
  "ABORT_MIN_VERSION = (1, 1)"

definition RC_TRAP :: int where "RC_TRAP = 50"
definition RC_ABORTED :: int where "RC_ABORTED = 51"
definition RC_TIMEOUT :: int where "RC_TIMEOUT = 52"

definition TRAP_KIND_BY_EXIT_CODE :: "(int \<times> string) list" where
  "TRAP_KIND_BY_EXIT_CODE = [(-0x300, ''DSI''), (-0x400, ''ISI''), (-0x600, ''alignment''),
     (-0x700, ''program''), (-0x800, ''fp_unavailable'')]"

definition KMOD_LIBCALL_NULL4_HINTS :: "string list" where
  "KMOD_LIBCALL_NULL4_HINTS = [''Traptype=0x300'', ''dar=0x4'', ''dsisr=0x00800000'']"

definition SANDBOXVM_MAX_GUESTS :: nat where "SANDBOXVM_MAX_GUESTS = 16"

section \<open>Machines, versions, paths\<close>

fun machine_tag :: "string list \<Rightarrow> string option" where
  "machine_tag [] = None"
| "machine_tag (t # ts) = (let low = py_lower t in
     if low \<in> set INCOMPATIBLE_MACHINES then Some low
     else if low \<in> {''x5000'', ''x1000'', ''a1222'', ''amigaone'', ''sam460ex''} then Some low
     else machine_tag ts)"

definition resolve_target_machine :: "target_config \<Rightarrow> string option" where
  "resolve_target_machine cfg = (case t_machine cfg of
       Some (c # cs) \<Rightarrow> Some (py_lower (c # cs)) | _ \<Rightarrow> machine_tag (tags cfg))"

definition is_transport_error :: "exn \<Rightarrow> bool" where
  "is_transport_error e = (case e of
       RpcErr TargetError m (Some (JObj kvs)) \<Rightarrow> map_of kvs ''endpoint'' \<noteq> None
     | RpcErr TargetError m d \<Rightarrow> False
     | _ \<Rightarrow> True)"

definition configured_path :: "target_config \<Rightarrow> string option" where
  "configured_path cfg = (case sandbox cfg of
       Some sb \<Rightarrow> (case sandbox_path sb of Some (c # cs) \<Rightarrow> Some (c # cs) | _ \<Rightarrow> None) | None \<Rightarrow> None)"

definition candidate_target_paths :: "target_config \<Rightarrow> string list" where
  "candidate_target_paths cfg = (let own = (case configured_path cfg of Some p \<Rightarrow> [p] | None \<Rightarrow> [])
     in own @ filter (\<lambda>p. p \<notin> set own) DEFAULT_AOS_SEARCH)"

text \<open>\<^verbatim>\<open>(\d+)\.(\d+)\<close>, leftmost.\<close>

fun parse_version :: "string \<Rightarrow> (nat \<times> nat) option" where
  "parse_version [] = None"
| "parse_version (c # s) =
     (if \<not> is_digit c then parse_version s
      else case dropWhile is_digit (c # s) of
          d # e # r \<Rightarrow>
            if d = CHR ''.'' \<and> is_digit e
            then Some (digits_val 10 (takeWhile is_digit (c # s)), digits_val 10 (takeWhile is_digit (e # r)))
            else parse_version s
        | _ \<Rightarrow> parse_version s)"

definition abort_supported :: "(nat \<times> nat) option \<Rightarrow> bool" where
  "abort_supported v = (case v of None \<Rightarrow> False | Some (a, b) \<Rightarrow>
     let (m, n) = ABORT_MIN_VERSION in m < a \<or> m = a \<and> n \<le> b)"

definition aos_parent_dir :: "string \<Rightarrow> string option" where
  "aos_parent_dir path =
     (if CHR '':'' \<notin> set path then None
      else let assign = takeWhile (\<lambda>c. c \<noteq> CHR '':'') path; rest = drop (length assign + 1) path in
        if rest = [] then None
        else let parts = split_on CHR ''/'' (rstrip_char CHR ''/'' rest) in
          if length parts \<le> 1 then None else Some (assign @ '':'' @ join ''/'' (butlast parts)))"

definition after_last :: "char \<Rightarrow> string \<Rightarrow> string" where
  "after_last c s = (if c \<in> set s then snd (snd (rpartition c s)) else s)"

definition derive_guest_name :: "string \<Rightarrow> string" where
  "derive_guest_name guest = (let base = after_last CHR '':'' (after_last CHR ''/'' guest);
     stem = (if CHR ''.'' \<in> set base then fst (rpartition CHR ''.'' base) else base)
     in if stem = [] then ''guest'' else stem)"

section \<open>Command lines\<close>

definition shell_safe :: "string \<Rightarrow> string" where
  "shell_safe t =
     (if t = [] then [CHR 0x22, CHR 0x22]
      else if list_ex (\<lambda>c. c \<in> {CHR '' '', CHR 0x09, CHR 0x22, CHR ''<'', CHR ''>'', CHR ''|'', CHR '';''}) t
      then CHR 0x22 # py_replace t [CHR 0x22] [CHR ''*'', CHR 0x22] @ [CHR 0x22]
      else t)"

definition in_quotes :: "string \<Rightarrow> string" where
  "in_quotes s = CHR 0x22 # s @ [CHR 0x22]"

definition command_head :: "string \<Rightarrow> int \<Rightarrow> int \<Rightarrow> string list \<Rightarrow> string \<Rightarrow> string list" where
  "command_head vm extmem window deny name =
     [in_quotes vm, ''-m'', int_dec extmem, ''-w'', int_dec window, ''-n'', shell_safe name]
     @ concat (map (\<lambda>lib. [''-x'', shell_safe lib]) deny)"

definition build_command ::
    "string \<Rightarrow> string \<Rightarrow> string list \<Rightarrow> int \<Rightarrow> int \<Rightarrow> string list \<Rightarrow> string \<Rightarrow> bool \<Rightarrow> string option \<Rightarrow> int option \<Rightarrow> string" where
  "build_command vm guest args extmem window deny name resident_driver test_elf time_limit =
     join '' '' (command_head vm extmem window deny name
       @ (case time_limit of Some t \<Rightarrow> if t = 0 then [] else [''-T'', int_dec t] | None \<Rightarrow> [])
       @ (if resident_driver then [''-r''] else [])
       @ (case test_elf of Some (c # cs) \<Rightarrow> [''-t'', in_quotes (c # cs)] | _ \<Rightarrow> [])
       @ [in_quotes guest]
       @ (if args = [] then [] else ''--'' # map shell_safe args))"

definition build_batch_command :: "string \<Rightarrow> string list \<Rightarrow> int \<Rightarrow> int \<Rightarrow> string list \<Rightarrow> string \<Rightarrow> string" where
  "build_batch_command vm guests extmem window deny name =
     join '' '' (command_head vm extmem window deny name @ map in_quotes guests)"

text \<open>The configured libraries, then those of the call that are not yet there.\<close>

fun add_libs :: "string list \<Rightarrow> string list \<Rightarrow> string list" where
  "add_libs merged [] = merged"
| "add_libs merged (l # ls) = add_libs (if l \<in> set merged then merged else merged @ [l]) ls"

section \<open>Traps\<close>

definition classify_exit :: "int \<Rightarrow> string \<Rightarrow> string option \<times> string option" where
  "classify_exit code stderr = (map_of TRAP_KIND_BY_EXIT_CODE code,
     (if list_all (\<lambda>h. contains h stderr) KMOD_LIBCALL_NULL4_HINTS then Some ''kmod_libcall_null4'' else None))"

definition ring_reports_daemon :: "string list \<Rightarrow> bool" where
  "ring_reports_daemon ls = list_ex (\<lambda>l. contains ''[MCPd]'' l \<or> contains ''[sandboxvm]'' l) ls"

text \<open>A literal, and white space of length at least one, taken off the front.\<close>

definition literal :: "string \<Rightarrow> string \<Rightarrow> string option" where
  "literal p s = (if startswith s p then Some (drop (length p) s) else None)"

definition some_space :: "string \<Rightarrow> string option" where
  "some_space s = (case s of c # _ \<Rightarrow> if py_isspace c then Some (lstrip s) else None | [] \<Rightarrow> None)"

text \<open>\<^verbatim>\<open>\btrap[_ ]?type\s*=\s*0x([0-9a-f]+)\<close> without regard to case: the digits, lower-cased.\<close>

definition traptype_at :: "string \<Rightarrow> string option" where
  "traptype_at s =
     Option.bind (literal ''trap'' (py_lower s)) (\<lambda>r.
     Option.bind (literal ''type'' (case r of c # r' \<Rightarrow> if c = CHR ''_'' \<or> c = CHR '' '' then r' else r | [] \<Rightarrow> [])) (\<lambda>r.
     Option.bind (literal ''='' (lstrip r)) (\<lambda>r.
     Option.bind (literal ''0x'' (lstrip r)) (\<lambda>r.
     let h = takeWhile (\<lambda>c. is_digit c \<or> 97 \<le> ord c \<and> ord c \<le> 102) r in if h = [] then None else Some h))))"

definition word_before :: "char option \<Rightarrow> bool" where
  "word_before p = (case p of None \<Rightarrow> False | Some c \<Rightarrow> is_word_char c)"

fun search_traptype :: "char option \<Rightarrow> string \<Rightarrow> string option" where
  "search_traptype p [] = None"
| "search_traptype p (c # s) = (case (if word_before p then None else traptype_at (c # s)) of
       Some h \<Rightarrow> Some h | None \<Rightarrow> search_traptype (Some c) s)"

definition TRAP_WORDS :: "string list" where
  "TRAP_WORDS = [''trap'', ''dsi'', ''isi'', ''alignment'', ''illegal'', ''privilege'', ''fault'']"

text \<open>\<^verbatim>\<open>\b(trap|dsi|..)\b\<close>: a maximal run of word characters is one of the words.\<close>

fun has_trap_word :: "char option \<Rightarrow> string \<Rightarrow> bool" where
  "has_trap_word p [] = False"
| "has_trap_word p (c # s) =
     (\<not> word_before p \<and> py_lower (takeWhile is_word_char (c # s)) \<in> set TRAP_WORDS \<or> has_trap_word (Some c) s)"

definition is_anchor :: "string \<Rightarrow> bool" where
  "is_anchor l \<longleftrightarrow> search_traptype None l \<noteq> None \<or> has_trap_word None l"

definition is_block_member :: "string \<Rightarrow> bool" where
  "is_block_member l \<longleftrightarrow> is_anchor l \<or> contains ''[sandbox]'' (py_lower l) \<or> contains ''[sandboxvm]'' (py_lower l)"

definition TRAP_KIND_BY_HEX :: "(string \<times> string) list" where
  "TRAP_KIND_BY_HEX = [(''300'', ''DSI''), (''400'', ''ISI''), (''600'', ''alignment''), (''700'', ''program''),
     (''800'', ''fp_unavailable'')]"

text \<open>The last anchor, with the block members next to it on both sides.\<close>

definition trap_block :: "string list \<Rightarrow> string list" where
  "trap_block ls = (let rest = takeWhile (\<lambda>l. \<not> is_anchor l) (rev ls); front = drop (length rest) (rev ls)
     in rev (takeWhile is_block_member front) @ (if front = [] then [] else takeWhile is_block_member (rev rest)))"

record trap =
  tr_kind :: "string option"
  tr_fingerprint :: "string option"
  tr_hex :: "string option"
  tr_lines :: "string list"

definition extract_trap :: "string list \<Rightarrow> trap" where
  "extract_trap ls = (let block = trap_block ls; txt = join [newline] block in
     if block = [] then \<lparr>tr_kind = None, tr_fingerprint = None, tr_hex = None, tr_lines = []\<rparr>
     else let fp = (if list_all (\<lambda>h. contains h txt) KMOD_LIBCALL_NULL4_HINTS then Some ''kmod_libcall_null4'' else None)
     in case search_traptype None txt of
          None \<Rightarrow> \<lparr>tr_kind = None, tr_fingerprint = fp, tr_hex = None, tr_lines = block\<rparr>
        | Some h \<Rightarrow> let d = dropWhile (\<lambda>c. c = CHR ''0'') h; low = (if d = [] then ''0'' else d)
            in \<lparr>tr_kind = map_of TRAP_KIND_BY_HEX low, tr_fingerprint = fp, tr_hex = Some (''0x'' @ low), tr_lines = block\<rparr>)"

section \<open>Exit codes of the guests of a batch\<close>

text \<open>\<^verbatim>\<open>\[sandboxvm\]\s+guest_run_elf\s+(\S+)\s+returned\s+(-?\d+)\<close>, leftmost.\<close>

definition guest_exit_at :: "string \<Rightarrow> (string \<times> int) option" where
  "guest_exit_at s =
     Option.bind (literal ''[sandboxvm]'' s) (\<lambda>r. Option.bind (some_space r) (\<lambda>r.
     Option.bind (literal ''guest_run_elf'' r) (\<lambda>r. Option.bind (some_space r) (\<lambda>r.
     let path = takeWhile (\<lambda>c. \<not> py_isspace c) r in
     if path = [] then None else Option.bind (some_space (drop (length path) r)) (\<lambda>r.
     Option.bind (literal ''returned'' r) (\<lambda>r. Option.bind (some_space r) (\<lambda>r.
     let neg = startswith r ''-''; ds = takeWhile is_digit (if neg then drop 1 r else r) in
     if ds = [] then None else Some (path, (if neg then - 1 else 1) * int (digits_val 10 ds)))))))))"

fun search_guest_exit :: "string \<Rightarrow> (string \<times> int) option" where
  "search_guest_exit [] = None"
| "search_guest_exit (c # s) = (case guest_exit_at (c # s) of Some x \<Rightarrow> Some x | None \<Rightarrow> search_guest_exit s)"

definition parse_per_guest_exits :: "string list \<Rightarrow> nat \<Rightarrow> (string \<times> int) list" where
  "parse_per_guest_exits ring expected = (let ms = List.map_filter search_guest_exit ring
     in if expected > 0 then drop (length ms - expected) ms else [])"

text \<open>The exit code of the guest at a position, aligned to the end of what the ring still shows.\<close>

definition exit_of_guest :: "(string \<times> int) list \<Rightarrow> bool \<Rightarrow> nat \<Rightarrow> nat \<Rightarrow> int \<times> bool" where
  "exit_of_guest exits ring_usable n idx = (let offset = n - length exits; known = (ring_usable \<and> idx \<ge> offset)
     in (if known then snd (exits ! (idx - offset)) else 0, known))"

end
