(* ===== verification/SandboxText_Correct.thy ===== *)
theory SandboxText_Correct
  imports SandboxText
begin

text \<open>
  Properties of the pure part of the sandbox tools: which lines of the debug ring are reported as the
  block of a trap, that an argument put on a command line is read back by the shell's convention
  unless it holds an asterisk, and that the exit codes of a batch are the guests' own as long as no
  path holds white space and the ring holds lines of this batch only.
\<close>

section \<open>The block of a trap\<close>

lemma anchor_member: "is_anchor l \<Longrightarrow> is_block_member l"
  by (simp add: is_block_member_def)

lemma dropWhile_front: "drop (length (takeWhile P xs)) xs = dropWhile P xs"
  by (simp add: dropWhile_eq_drop)

lemma takeWhile_maximal: "dropWhile P xs = [] \<or> \<not> P (hd (dropWhile P xs))"
  using hd_dropWhile [of P xs] by blast

lemma trap_block_parts:
  "ls = rev (dropWhile is_block_member (dropWhile (\<lambda>l. \<not> is_anchor l) (rev ls)))
      @ rev (takeWhile is_block_member (dropWhile (\<lambda>l. \<not> is_anchor l) (rev ls)))
      @ rev (takeWhile (\<lambda>l. \<not> is_anchor l) (rev ls))"
  by (metis append.assoc rev_append rev_rev_ident takeWhile_dropWhile_id)

lemma trap_block_eq:
  "trap_block ls = (let front = dropWhile (\<lambda>l. \<not> is_anchor l) (rev ls); after = rev (takeWhile (\<lambda>l. \<not> is_anchor l) (rev ls))
     in if front = [] then [] else rev (takeWhile is_block_member front) @ takeWhile is_block_member after)"
  unfolding trap_block_def Let_def dropWhile_front
  by (cases "dropWhile (\<lambda>l. \<not> is_anchor l) (rev ls)") (simp_all del: dropWhile_eq_Nil_conv)

lemma trap_block_empty: "trap_block ls = [] \<longleftrightarrow> (\<forall>l \<in> set ls. \<not> is_anchor l)"
proof (cases "dropWhile (\<lambda>l. \<not> is_anchor l) (rev ls)")
  case Nil
  then show ?thesis by (auto simp: trap_block_eq dropWhile_eq_Nil_conv)
next
  case (Cons a as)
  then have "is_anchor a" using hd_dropWhile [of "\<lambda>l. \<not> is_anchor l" "rev ls"] by simp
  moreover have "a \<in> set ls" using Cons by (metis list.set_intros(1) set_dropWhileD set_rev)
  ultimately show ?thesis using Cons by (auto simp: trap_block_eq anchor_member)
qed

text \<open>
  C30. When a line of the ring is a trap anchor, the block that is reported is a contiguous
  stretch of the ring that holds the last anchor and only lines of the report, and cannot be
  extended on either side.
\<close>

theorem trap_block_spec:
  assumes "l \<in> set ls" "is_anchor l"
  shows "\<exists>before mid last_anchor rest after. ls = before @ trap_block ls @ after
    \<and> trap_block ls = mid @ last_anchor # rest \<and> is_anchor last_anchor
    \<and> (\<forall>x \<in> set (rest @ after). \<not> is_anchor x) \<and> list_all is_block_member (trap_block ls)
    \<and> (before = [] \<or> \<not> is_block_member (last before)) \<and> (after = [] \<or> \<not> is_block_member (hd after))"
proof -
  let ?front = "dropWhile (\<lambda>l. \<not> is_anchor l) (rev ls)" and ?tail = "rev (takeWhile (\<lambda>l. \<not> is_anchor l) (rev ls))"
  let ?before = "rev (dropWhile is_block_member ?front)" and ?after = "dropWhile is_block_member ?tail"
  have "?front \<noteq> []" using assms by auto
  then obtain a as where f: "?front = a # as" by (cases ?front) auto
  then have a: "is_anchor a" using hd_dropWhile [of "\<lambda>l. \<not> is_anchor l" "rev ls"] by simp
  let ?mid = "rev (takeWhile is_block_member as)" and ?rest = "takeWhile is_block_member ?tail"
  have block: "trap_block ls = ?mid @ a # ?rest" using f a by (simp add: trap_block_eq Let_def anchor_member)
  have tail: "\<forall>x \<in> set ?tail. \<not> is_anchor x" by (auto dest: set_takeWhileD)
  have "ls = ?before @ trap_block ls @ ?after"
    using trap_block_parts [of ls] f a by (simp add: block anchor_member)
  moreover have "\<forall>x \<in> set (?rest @ ?after). \<not> is_anchor x" using tail by simp
  moreover have "list_all is_block_member (trap_block ls)"
    using a by (auto simp: block list_all_iff anchor_member dest: set_takeWhileD)
  moreover have "?before = [] \<or> \<not> is_block_member (last ?before)"
    using takeWhile_maximal [of is_block_member ?front] by (auto simp: last_rev)
  moreover have "?after = [] \<or> \<not> is_block_member (hd ?after)" by (rule takeWhile_maximal)
  ultimately show ?thesis using block a by blast
qed

theorem trap_block_spec_witness:
  "is_anchor ''DSI fault'' \<and> (\<exists>before mid last_anchor rest after.
     [''boot'', ''[sandbox] start'', ''DSI fault'', ''idle''] = before @ trap_block [''boot'', ''[sandbox] start'', ''DSI fault'', ''idle''] @ after
    \<and> trap_block [''boot'', ''[sandbox] start'', ''DSI fault'', ''idle''] = mid @ last_anchor # rest)"
proof -
  have a: "is_anchor ''DSI fault''" by code_simp
  from trap_block_spec [of "''DSI fault''" "[''boot'', ''[sandbox] start'', ''DSI fault'', ''idle'']"] a
  show ?thesis by auto
qed

section \<open>Command lines are read back\<close>

text \<open>
  How a line is cut into words: \<open>blank\<close> separates, a word in quotes ends at the next quote, and an
  asterisk in quotes stands before the character it protects (the convention of \<^verbatim>\<open>_quote_arg\<close> of the
  daemon, \<^verbatim>\<open>src/mcpd/src/methods/exec.c\<close>).
\<close>

abbreviation quote :: char where "quote \<equiv> CHR 0x22"
abbreviation star :: char where "star \<equiv> CHR ''*''"

definition blank :: "char \<Rightarrow> bool" where
  "blank c \<longleftrightarrow> c = CHR '' '' \<or> c = CHR 0x09 \<or> c = newline"

fun read_quoted :: "string \<Rightarrow> string \<times> string" where
  "read_quoted [] = ([], [])"
| "read_quoted (c # s) =
     (if c = quote then ([], s)
      else if c = star then (case s of [] \<Rightarrow> ([], []) | d # r \<Rightarrow> map_prod (Cons d) id (read_quoted r))
      else map_prod (Cons c) id (read_quoted s))"

lemma read_quoted_length: "length (snd (read_quoted s)) \<le> length s"
  by (induction s rule: read_quoted.induct) (auto simp: le_SucI split: list.split)

function read_words :: "string \<Rightarrow> string list" where
  "read_words s = (case dropWhile blank s of [] \<Rightarrow> []
     | c # r \<Rightarrow> if c = quote then fst (read_quoted r) # read_words (snd (read_quoted r))
         else takeWhile (\<lambda>x. \<not> blank x) (c # r) # read_words (dropWhile (\<lambda>x. \<not> blank x) r))"
  by auto
termination
proof (relation "measure length")
  fix s c r assume "dropWhile blank s = c # r"
  then have "length r < length s" using length_dropWhile_le [of blank s] by simp
  then show "(snd (read_quoted r), s) \<in> measure length" "(dropWhile (\<lambda>x. \<not> blank x) r, s) \<in> measure length"
    using read_quoted_length [of r] length_dropWhile_le [of "\<lambda>x. \<not> blank x" r] by simp_all
qed simp_all

declare read_words.simps [simp del]

text \<open>A text reads back as a word wherever it stands in a line.\<close>

definition encodes :: "string \<Rightarrow> string \<Rightarrow> bool" where
  "encodes e w \<longleftrightarrow> (\<forall>rest. (rest = [] \<or> blank (hd rest)) \<longrightarrow> read_words (e @ rest) = w # read_words rest)"

lemma read_words_nil [simp]: "read_words [] = []"
  by (subst read_words.simps) simp

lemma read_words_blank: "blank c \<Longrightarrow> read_words (c # s) = read_words s"
  by (subst (1 2) read_words.simps) simp

lemma encodes_join: "list_all2 encodes es ws \<Longrightarrow> read_words (join '' '' es) = ws"
proof (induction es ws rule: list_all2_induct)
  case Nil
  then show ?case by simp
next
  case (Cons e es w ws)
  show ?case
  proof (cases es)
    case Nil
    then show ?thesis using Cons.hyps by (auto simp: encodes_def dest: spec [of _ "[]"])
  next
    case (Cons e' es')
    have "read_words (e @ '' '' @ join '' '' es) = w # read_words ('' '' @ join '' '' es)"
      using \<open>encodes e w\<close> by (auto simp: encodes_def blank_def)
    then show ?thesis using Cons.IH \<open>es = e' # es'\<close> by (simp add: read_words_blank blank_def)
  qed
qed

lemma encodes_bare:
  assumes "w \<noteq> []" "hd w \<noteq> quote" "\<forall>c \<in> set w. \<not> blank c"
  shows "encodes w w"
  unfolding encodes_def
proof (intro allI impI)
  fix rest :: string assume rest: "rest = [] \<or> blank (hd rest)"
  obtain c u where w: "w = c # u" using assms(1) by (cases w) auto
  have "takeWhile (\<lambda>x. \<not> blank x) (u @ rest) = u" "dropWhile (\<lambda>x. \<not> blank x) (u @ rest) = rest"
    using assms(3) rest w by (cases rest; simp add: takeWhile_append2 dropWhile_append2)+
  then show "read_words (w @ rest) = w # read_words rest"
    using assms w by (subst read_words.simps) simp
qed

lemma read_quoted_escaped:
  "star \<notin> set w \<Longrightarrow> read_quoted (concat (map (\<lambda>c. if c = quote then [star, quote] else [c]) w) @ quote # rest) = (w, rest)"
  by (induction w) auto

lemma encodes_quoted:
  assumes "read_quoted (e @ quote # []) = (w, [])" "\<And>rest. read_quoted (e @ quote # rest) = (w, rest)"
  shows "encodes (quote # e @ [quote]) w"
  unfolding encodes_def using assms(2) by (subst read_words.simps) (simp add: blank_def)

lemma encodes_in_quotes: "star \<notin> set w \<Longrightarrow> quote \<notin> set w \<Longrightarrow> encodes (in_quotes w) w"
proof -
  assume a: "star \<notin> set w" "quote \<notin> set w"
  then have "concat (map (\<lambda>c. if c = quote then [star, quote] else [c]) w) = w" by (induction w) auto
  then show ?thesis using read_quoted_escaped [OF a(1)] by (simp add: in_quotes_def encodes_quoted)
qed

definition plain_text :: "string \<Rightarrow> bool" where
  "plain_text t \<longleftrightarrow> star \<notin> set t \<and> newline \<notin> set t"

definition plain_path :: "string \<Rightarrow> bool" where
  "plain_path t \<longleftrightarrow> star \<notin> set t \<and> quote \<notin> set t"

lemma replace_quotes: "py_replace t [quote] [star, quote] = concat (map (\<lambda>c. if c = quote then [star, quote] else [c]) t)"
proof -
  have "replace_ne [quote] [star, quote] t = concat (map (\<lambda>c. if c = quote then [star, quote] else [c]) t)"
    by (induction t) (auto simp: startswith_def)
  then show ?thesis by (simp add: py_replace_def)
qed

lemma encodes_shell_safe: "plain_text t \<Longrightarrow> encodes (shell_safe t) t"
proof -
  assume t: "plain_text t"
  show "encodes (shell_safe t) t"
  proof (cases "t = [] \<or> list_ex (\<lambda>c. c \<in> {CHR '' '', CHR 0x09, quote, CHR ''<'', CHR ''>'', CHR ''|'', CHR '';''}) t")
    case True
    then have "shell_safe t = quote # concat (map (\<lambda>c. if c = quote then [star, quote] else [c]) t) @ [quote]"
      unfolding shell_safe_def replace_quotes by auto
    then show ?thesis using t read_quoted_escaped by (simp add: encodes_quoted plain_text_def)
  next
    case False
    then have s: "shell_safe t = t" unfolding shell_safe_def by auto
    have no: "\<forall>c \<in> set t. c \<noteq> CHR '' '' \<and> c \<noteq> CHR 0x09 \<and> c \<noteq> quote" using False by (auto simp: list_ex_iff)
    have "t \<noteq> []" using False by simp
    moreover have "hd t \<noteq> quote" using \<open>t \<noteq> []\<close> no by (metis hd_in_set)
    moreover have "\<forall>c \<in> set t. \<not> blank c" using no t by (auto simp: blank_def plain_text_def)
    ultimately show ?thesis unfolding s by (rule encodes_bare)
  qed
qed

lemma encodes_option: "o_c \<noteq> [] \<Longrightarrow> list_all (\<lambda>c. c \<noteq> quote \<and> \<not> blank c) o_c \<Longrightarrow> encodes o_c o_c"
  by (rule encodes_bare) (auto simp: list_all_iff)

lemma encodes_int: "encodes (int_dec i) (int_dec i)"
proof (rule encodes_option)
  have dec: "list_all (\<lambda>c. c \<noteq> quote \<and> \<not> blank c) (nat_dec n)" for n
    using nat_dec_digits [of n] by (auto simp: list_all_iff is_digit_def blank_def)
  show "list_all (\<lambda>c. c \<noteq> quote \<and> \<not> blank c) (int_dec i)"
    using dec by (simp add: int_dec_def blank_def)
qed (simp add: int_dec_def)

text \<open>The words of a command line, before any of them is put in quotes.\<close>

definition head_words :: "string \<Rightarrow> int \<Rightarrow> int \<Rightarrow> string list \<Rightarrow> string \<Rightarrow> string list" where
  "head_words vm extmem window deny name =
     [vm, ''-m'', int_dec extmem, ''-w'', int_dec window, ''-n'', name] @ concat (map (\<lambda>lib. [''-x'', lib]) deny)"

lemma encodes_deny:
  "list_all plain_text deny \<Longrightarrow>
   list_all2 encodes (concat (map (\<lambda>lib. [''-x'', shell_safe lib]) deny)) (concat (map (\<lambda>lib. [''-x'', lib]) deny))"
  by (induction deny) (auto simp: encodes_shell_safe blank_def intro: encodes_option)

lemma encodes_head:
  assumes "plain_path vm" "plain_text name" "list_all plain_text deny"
  shows "list_all2 encodes (command_head vm extmem window deny name) (head_words vm extmem window deny name)"
  using assms unfolding command_head_def head_words_def
  by (intro list_all2_appendI encodes_deny)
    (auto simp: encodes_shell_safe encodes_in_quotes encodes_int plain_path_def blank_def intro: encodes_option)

lemma encodes_map: "list_all P ws \<Longrightarrow> (\<And>w. P w \<Longrightarrow> encodes (f w) w) \<Longrightarrow> list_all2 encodes (map f ws) ws"
  by (induction ws) auto

text \<open>
  C28. The command line of a sandboxed run, cut into words by the shell's quoting convention,
  is exactly the binary, the options, the guest and its arguments, for paths without quotes and
  asterisks and texts without asterisks and line ends.
\<close>

theorem command_words:
  assumes "plain_path vm" "plain_path guest" "plain_text name" "list_all plain_text deny" "list_all plain_text args"
    "\<And>elf. test_elf = Some elf \<Longrightarrow> plain_path elf"
  shows "read_words (build_command vm guest args extmem window deny name resident test_elf lim) =
     head_words vm extmem window deny name
     @ (case lim of Some t \<Rightarrow> if t = 0 then [] else [''-T'', int_dec t] | None \<Rightarrow> [])
     @ (if resident then [''-r''] else [])
     @ (case test_elf of Some (c # cs) \<Rightarrow> [''-t'', c # cs] | _ \<Rightarrow> [])
     @ [guest] @ (if args = [] then [] else ''--'' # args)"
  unfolding build_command_def
proof (intro encodes_join list_all2_appendI encodes_head assms)
  note opt = encodes_option encodes_int encodes_in_quotes
  show "list_all2 encodes (case lim of None \<Rightarrow> [] | Some t \<Rightarrow> if t = 0 then [] else [''-T'', int_dec t])
      (case lim of None \<Rightarrow> [] | Some t \<Rightarrow> if t = 0 then [] else [''-T'', int_dec t])"
    by (auto simp: blank_def intro: opt split: option.split)
  show "list_all2 encodes (if resident then [''-r''] else []) (if resident then [''-r''] else [])"
    by (auto simp: blank_def intro: opt)
  show "list_all2 encodes (case test_elf of Some (c # cs) \<Rightarrow> [''-t'', in_quotes (c # cs)] | _ \<Rightarrow> [])
      (case test_elf of Some (c # cs) \<Rightarrow> [''-t'', c # cs] | _ \<Rightarrow> [])"
    using assms(6) by (auto simp: blank_def plain_path_def intro!: opt split: option.split list.split)
  show "list_all2 encodes [in_quotes guest] [guest]"
    using assms(2) by (simp add: plain_path_def encodes_in_quotes)
  show "list_all2 encodes (if args = [] then [] else ''--'' # map shell_safe args) (if args = [] then [] else ''--'' # args)"
    using assms(5) by (auto simp: blank_def intro!: opt encodes_map [where P = plain_text] encodes_shell_safe)
qed

theorem command_words_witness:
  "read_words (build_command ''SYS:Tools/sandboxvm'' ''RAM:my prog'' [''a b'', ''''] 1024 256 [''x.library''] ''run'' False None (Some 30))
   = [''SYS:Tools/sandboxvm'', ''-m'', ''1024'', ''-w'', ''256'', ''-n'', ''run'', ''-x'', ''x.library'', ''-T'', ''30'',
      ''RAM:my prog'', ''--'', ''a b'', '''']"
  by (subst command_words) (simp_all add: plain_path_def plain_text_def head_words_def int_dec_eval)

lemma batch_command_words:
  assumes "plain_path vm" "plain_text name" "list_all plain_text deny" "list_all plain_path guests"
  shows "read_words (build_batch_command vm guests extmem window deny name) = head_words vm extmem window deny name @ guests"
  unfolding build_batch_command_def
  by (intro encodes_join list_all2_appendI encodes_head encodes_map [where P = plain_path] assms)
    (simp add: plain_path_def encodes_in_quotes)

text \<open>An asterisk in an argument that is put in quotes is read as the convention's escape.\<close>

lemma asterisk_lost: "shell_safe ''a *b'' = [quote] @ ''a *b'' @ [quote] \<and> read_words (shell_safe ''a *b'') = [''a b'']"
  by (simp add: shell_safe_def replace_quotes blank_def read_words.simps)

section \<open>What the exit codes of a batch are worth\<close>

text \<open>The line SandboxVM writes when a guest returns, after whatever the ring puts before it.\<close>

definition exit_line :: "string \<Rightarrow> string \<Rightarrow> int \<Rightarrow> string" where
  "exit_line pre path code = pre @ ''[sandboxvm] guest_run_elf '' @ path @ '' returned '' @ int_dec code @ ''; calling guest_destroy''"

definition spaceless :: "string \<Rightarrow> bool" where
  "spaceless p \<longleftrightarrow> p \<noteq> [] \<and> (\<forall>c \<in> set p. \<not> py_isspace c)"

lemma literal_append [simp]: "literal p (p @ s) = Some s"
  by (simp add: literal_def startswith_def)

lemma spaceless_takeWhile:
  "spaceless p \<Longrightarrow> takeWhile (\<lambda>c. \<not> py_isspace c) (p @ CHR '' '' # r) = p"
  by (auto simp: spaceless_def takeWhile_append2 py_isspace_def)

lemma some_space_word: "spaceless w \<Longrightarrow> some_space (CHR '' '' # w @ r) = Some (w @ r)"
  by (cases w) (auto simp: some_space_def lstrip_def py_isspace_def spaceless_def)

lemma dec_takeWhile: "takeWhile is_digit (nat_dec n @ CHR '';'' # r) = nat_dec n"
  using nat_dec_digits [of n] by (simp add: takeWhile_append2 is_digit_def)

lemma nat_dec_no_sign: "\<not> startswith (nat_dec n @ r) ''-''"
  using nat_dec_digits [of n] nat_dec_nonempty [of n] by (cases "nat_dec n") (auto simp: startswith_def is_digit_def)

lemma spaceless_int: "spaceless (int_dec i)"
  using nat_dec_digits [of "nat i"] nat_dec_digits [of "nat (- i)"]
  by (auto simp: spaceless_def int_dec_def py_isspace_def is_digit_def)

definition code_end :: string where "code_end = ''; calling guest_destroy''"

lemma exit_line_parts:
  "exit_line [] p code = ''[sandboxvm]'' @ CHR '' '' # ''guest_run_elf'' @ CHR '' '' # p @ CHR '' '' # ''returned''
     @ CHR '' '' # int_dec code @ code_end"
  by (simp add: exit_line_def code_end_def)

lemma code_read:
  "(let neg = startswith (int_dec code @ code_end) ''-'';
        ds = takeWhile is_digit (if neg then drop 1 (int_dec code @ code_end) else int_dec code @ code_end) in
    if ds = [] then None else Some (path, (if neg then - 1 else 1) * int (digits_val 10 ds))) = Some (path, code)"
proof -
  have d: "takeWhile is_digit (nat_dec n @ code_end) = nat_dec n" for n using dec_takeWhile by (simp add: code_end_def)
  show ?thesis using nat_dec_no_sign [of "nat code" code_end]
    by (auto simp: Let_def int_dec_def startswith_def d digits_val_dec)
qed

lemma guest_exit_at_line:
  assumes "spaceless p"
  shows "guest_exit_at (exit_line [] p code) = Some (p, code)"
proof -
  have w: "spaceless ''guest_run_elf''" "spaceless ''returned''" by (auto simp: spaceless_def py_isspace_def)
  have p: "p \<noteq> []" using assms by (simp add: spaceless_def)
  have after_path: "drop (length p) (p @ r) = r" for r :: string by simp
  show ?thesis
    unfolding guest_exit_at_def exit_line_parts literal_append Option.bind.bind_lunit some_space_word [OF w(1)]
      some_space_word [OF assms] some_space_word [OF w(2)] some_space_word [OF spaceless_int]
      spaceless_takeWhile [OF assms] Let_def [of p] after_path
    using code_read [of code p] p by simp
qed

lemma search_guest_exit_line:
  assumes "spaceless p" "CHR ''['' \<notin> set pre"
  shows "search_guest_exit (exit_line pre p code) = Some (p, code)"
  using assms(2)
proof (induction pre)
  case Nil
  then show ?case using guest_exit_at_line [OF assms(1), of code] by (cases "exit_line [] p code") (auto simp: exit_line_def)
next
  case (Cons c pre)
  then have "literal ''[sandboxvm]'' (c # r) = None" for r by (auto simp: literal_def startswith_def)
  then have "guest_exit_at (c # r) = None" for r unfolding guest_exit_at_def by simp
  then show ?case using Cons by (simp add: exit_line_def)
qed

text \<open>
  The exit code reported for the guest at a position: as \<^verbatim>\<open>sandbox_run_batch\<close> computes it from the lines
  of the ring.
\<close>

lemma map_filter_filtered: "List.map_filter f ls = map (the \<circ> f) (filter (\<lambda>l. f l \<noteq> None) ls)"
  by (induction ls) (auto simp: map_filter_simps split: option.split)

text \<open>Lines of guests that returned: what the ring puts before them, the path and the code.\<close>

definition exit_lines :: "(string \<times> string \<times> int) list \<Rightarrow> string list" where
  "exit_lines xs = map (\<lambda>(pre, p, code). exit_line pre p code) xs"

definition readable :: "string \<times> string \<times> int \<Rightarrow> bool" where
  "readable x \<longleftrightarrow> spaceless (fst (snd x)) \<and> CHR ''['' \<notin> set (fst x)"

lemma exits_of_lines:
  assumes "list_all readable xs" "filter (\<lambda>l. search_guest_exit l \<noteq> None) ring = exit_lines xs" "0 < n"
  shows "parse_per_guest_exits ring n = drop (length xs - n) (map snd xs)"
proof -
  have "map (the \<circ> search_guest_exit) (exit_lines xs) = map snd xs"
    using assms(1) by (induction xs) (auto simp: exit_lines_def readable_def search_guest_exit_line)
  then have "List.map_filter search_guest_exit ring = map snd xs"
    unfolding map_filter_filtered assms(2) .
  then show ?thesis using assms(3) by (simp add: parse_per_guest_exits_def)
qed

text \<open>
  C29. When the ring holds the return lines of the guests of a batch (or, when it rolled over,
  those of the last ones) and no path has white space, the exit code reported for each guest is
  its own and is marked as known exactly for the guests whose line is still there.
\<close>

theorem batch_exits_read_back:
  assumes "list_all readable (old @ drop k runs)" "k = 0 \<or> old = []" "i < length runs"
    and "filter (\<lambda>l. search_guest_exit l \<noteq> None) ring = exit_lines (old @ drop k runs)"
  shows "exit_of_guest (parse_per_guest_exits ring (length runs)) True (length runs) i =
    (if i < k then (0, False) else (snd (snd (runs ! i)), True))"
proof -
  have n: "0 < length runs" using assms(3) by linarith
  have e: "parse_per_guest_exits ring (length runs) = map snd (drop k runs)"
    using exits_of_lines [OF assms(1,4) n] assms(2) by auto
  show ?thesis using assms(3) by (auto simp: e exit_of_guest_def Let_def)
qed

theorem batch_exits_read_back_witness:
  "exit_of_guest (parse_per_guest_exits [''boot'', exit_line ''0001 '' ''RAM:b'' 20] 2) True 2 1 = (20, True)
   \<and> exit_of_guest (parse_per_guest_exits [''boot'', exit_line ''0001 '' ''RAM:b'' 20] 2) True 2 0 = (0, False)"
proof -
  let ?runs = "[('''', ''RAM:a'', 0), (''0001 '', ''RAM:b'', 20)]"
  have r: "list_all readable ([] @ drop 1 ?runs)" by (simp add: readable_def spaceless_def py_isspace_def)
  have "search_guest_exit (exit_line ''0001 '' ''RAM:b'' 20) = Some (''RAM:b'', 20)"
    by (rule search_guest_exit_line) (simp_all add: spaceless_def py_isspace_def)
  moreover have "search_guest_exit ''boot'' = None" by code_simp
  ultimately have f: "filter (\<lambda>l. search_guest_exit l \<noteq> None) [''boot'', exit_line ''0001 '' ''RAM:b'' 20] = exit_lines ([] @ drop 1 ?runs)"
    by (simp add: exit_lines_def)
  from batch_exits_read_back [of "[]" 1 ?runs 1, OF r _ _ f] batch_exits_read_back [of "[]" 1 ?runs 0, OF r _ _ f]
  show ?thesis by (simp add: numeral_2_eq_2)
qed

text \<open>
  A path with a space is not read by the pattern of the code, and the guests before it then get the
  codes of the guests after them: the code of the first guest is reported as the second's.
\<close>

lemma space_in_path_misattributes:
  "parse_per_guest_exits [exit_line [] ''RAM:a'' 20, exit_line [] ''RAM:b c'' 0] 2 = [(''RAM:a'', 20)]
   \<and> exit_of_guest [(''RAM:a'', 20)] True 2 1 = (20, True) \<and> exit_of_guest [(''RAM:a'', 20)] True 2 0 = (0, False)"
proof -
  have e: "parse_per_guest_exits [''[sandboxvm] guest_run_elf RAM:a returned 20; calling guest_destroy'',
      ''[sandboxvm] guest_run_elf RAM:b c returned 0; calling guest_destroy''] 2 = [(''RAM:a'', 20)]"
    by code_simp
  then show ?thesis by (simp add: exit_line_def exit_of_guest_def int_dec_eval)
qed

text \<open>The code of a guest of an earlier batch, still in the ring, is reported as known for one that never ran.\<close>

lemma stale_exit_reported:
  "exit_of_guest (parse_per_guest_exits [exit_line [] ''RAM:old'' 20] 1) True 1 0 = (20, True)"
proof -
  have "search_guest_exit (exit_line [] ''RAM:old'' 20) = Some (''RAM:old'', 20)"
    by (rule search_guest_exit_line) (simp_all add: spaceless_def py_isspace_def)
  then show ?thesis by (simp add: parse_per_guest_exits_def map_filter_simps exit_of_guest_def)
qed

end
