(* ===== verification/SysTools.thy ===== *)
theory SysTools
  imports FleetTools Archive
begin

text \<open>
  Parts of the system tools (\<^verbatim>\<open>tools/sys.py\<close>) with logic of their own: the kernel's debug ring, the
  notification of a whole fleet and on an alert, the replies of the X5000's MCU, reading of physical
  memory, and the cold reboot.
\<close>

section \<open>The debug ring\<close>

text \<open>\<^verbatim>\<open>str(v)\<close> of a decoded value.\<close>

definition str_of :: "json \<Rightarrow> string" where
  "str_of j = (case j of JStr s \<Rightarrow> s | _ \<Rightarrow> py_repr_json j)"

definition splitlines :: "string \<Rightarrow> string list" where
  "splitlines s = map (rstrip_pred py_islinebreak) (splitlines_keep s)"

record debug_ring =
  ring_lines :: "string list"
  ring_truncated :: bool
  ring_raw_size :: nat
  ring_captured_at :: string

definition last_n :: "nat \<Rightarrow> 'a list \<Rightarrow> 'a list" where
  "last_n n xs = drop (length xs - n) xs"

definition sys_debug_ring :: "string \<Rightarrow> int \<Rightarrow> ('w fleet_scheme, debug_ring) io" where
  "sys_debug_ring target max_lines0 = (let max_lines = (if max_lines0 < 1 then 1 else nat max_lines0) in
     bnd (mcpd_request target ''exec.cmd'' [(''command'', JStr ''C:DumpDebugBuffer''), (''timeout_ms'', JInt 30000)]) (\<lambda>raw.
     bnd (lift (get_or ''output'' (JStr []) raw)) (\<lambda>out. let output = str_of out; all = splitlines output in
     bnd (host ''utcnow'' []) (\<lambda>t.
     ret \<lparr>ring_lines = last_n max_lines all, ring_truncated = length all > max_lines,
          ring_raw_size = ulen output, ring_captured_at = as_str t\<rparr>))))"

section \<open>Notifications\<close>

record notified =
  nf_code :: int
  nf_queued :: bool

definition app_notify :: "string \<Rightarrow> string \<Rightarrow> string \<Rightarrow> int \<Rightarrow> ('w fleet_scheme, notified) io" where
  "app_notify target title txt priority =
     bnd (mcpd_request target ''app.notify'' [(''title'', JStr title), (''text'', JStr txt), (''priority'', JInt priority)]) (\<lambda>raw.
     lift (ebnd (field ''result_code'' v_int raw) (\<lambda>c. ebnd (field ''queued'' v_bool raw) (\<lambda>q.
       Inr \<lparr>nf_code = c, nf_queued = q\<rparr>))))"

record notify_entry =
  ne_target :: string
  ne_ok :: bool
  ne_code :: int
  ne_error :: "string option"

definition notify_one :: "string \<Rightarrow> exn + notified \<Rightarrow> notify_entry" where
  "notify_one name out = (case out of
       Inr r \<Rightarrow> \<lparr>ne_target = name, ne_ok = nf_queued r, ne_code = nf_code r, ne_error = None\<rparr>
     | Inl e \<Rightarrow> \<lparr>ne_target = name, ne_ok = False, ne_code = 0, ne_error = Some (exn_str e)\<rparr>)"

text \<open>As in a fan-out, \<open>out\<close> is what the call on each target returned or raised.\<close>

definition notify_fleet ::
    "config \<Rightarrow> (nat \<Rightarrow> string \<Rightarrow> exn + notified) \<Rightarrow> string list option \<Rightarrow> string list option \<Rightarrow> notify_entry list" where
  "notify_fleet c out ts wanted = (let names = (case ts of Some l \<Rightarrow> l | None \<Rightarrow> list_targets c wanted)
     in map (\<lambda>i. notify_one (names ! i) (out i (names ! i))) [0..<length names])"

record alert_notice =
  an_notified :: bool
  an_elapsed_us :: int
  an_code :: "int option"
  an_name :: "string option"
  an_result :: "int option"
  an_timeout :: bool

text \<open>\<^verbatim>\<open>f"{code:08x}"\<close>: an integer (or a boolean); for anything else the format is an error.\<close>

definition hex8 :: "json \<Rightarrow> exn + string" where
  "hex8 j = (case j of
       JInt i \<Rightarrow> let h = nat_hex (nat \<bar>i\<bar>); sign = (if i < 0 then ''-'' else [])
          in Inr (sign @ replicate (8 - length sign - length h) CHR ''0'' @ h)
     | JBool b \<Rightarrow> Inr (replicate 7 CHR ''0'' @ (if b then ''1'' else ''0''))
     | JNull \<Rightarrow> Inl (PyErr TypeError ''unsupported format string passed to NoneType.__format__'')
     | JStr s \<Rightarrow> Inl (PyErr ValueError [])
     | JFloat s \<Rightarrow> Inl (PyErr ValueError [])
     | _ \<Rightarrow> Inl (PyErr TypeError []))"

definition notify_on_alert :: "string \<Rightarrow> int \<Rightarrow> string \<Rightarrow> ('w fleet_scheme, alert_notice) io" where
  "notify_on_alert target timeout_ms title =
     bnd (fleet_mcpd target) (\<lambda>_. bnd now (\<lambda>t0.
     bnd (rpc target ''events.wait'' (JObj [(''topics'', JArr [JStr ''debug.exception'']), (''timeout_ms'', JInt timeout_ms)])) (\<lambda>raw.
     bnd now (\<lambda>t1.
     bnd (lift (get_or ''events'' (JArr []) raw)) (\<lambda>events.
     if \<not> truthy events
     then ret \<lparr>an_notified = False, an_elapsed_us = t1 - t0, an_code = None, an_name = None, an_result = None, an_timeout = True\<rparr>
     else
     bnd (lift (case events of JArr (e # es) \<Rightarrow> Inr e | JStr (c # cs) \<Rightarrow> Inr (JStr [c]) | JObj kvs \<Rightarrow> Inl (PyErr KeyError ''0'') | _ \<Rightarrow> Inl (PyErr TypeError []))) (\<lambda>ev.
     bnd (lift (get_or ''data'' (JObj []) ev)) (\<lambda>data.
     bnd (lift (get_or ''decoded'' (JObj []) data)) (\<lambda>decoded.
     bnd (lift (get_or ''alert_code'' JNull data)) (\<lambda>code.
     bnd (lift (get_or ''name'' JNull decoded)) (\<lambda>name0.
     let name = (if truthy name0 then name0 else JStr ''alert'') in
     bnd (lift (hex8 code)) (\<lambda>hex.
     bnd (lift (get_or ''subsystem'' (JStr ''?'') decoded)) (\<lambda>sub.
     bnd (app_notify target title (''code=0x'' @ hex @ [newline] @ ''subsystem='' @ str_of sub @ [newline]
            @ ''name='' @ str_of name) 2) (\<lambda>nf.
     bnd (lift (v_opt v_int code)) (\<lambda>c. bnd (lift (v_str name)) (\<lambda>n.
     ret \<lparr>an_notified = nf_queued nf, an_elapsed_us = t1 - t0, an_code = c, an_name = Some n,
          an_result = Some (nf_code nf), an_timeout = False\<rparr>)))))))))))))))"

section \<open>Cold reboot and physical memory\<close>

definition sys_cold_reboot :: "string \<Rightarrow> bool \<Rightarrow> int \<Rightarrow> ('w fleet_scheme, bool \<times> int) io" where
  "sys_cold_reboot target confirm delay_ms =
     bnd (mcpd_request target ''sys.cold_reboot'' [(''confirm'', JBool confirm), (''delay_ms'', JInt delay_ms)]) (\<lambda>raw.
     lift (ebnd (field ''queued'' v_bool raw) (\<lambda>q. ebnd (field ''delay_ms'' v_int raw) (\<lambda>d. Inr (q, d)))))"

section \<open>The MCU of the X5000\<close>

definition VOLT_RAILS :: "string list" where
  "VOLT_RAILS = [''cpld'', ''xorro_3v3'', ''idt_1v0'', ''xorro_1v0'', ''main_3v3'', ''main_2v5'', ''eth_1v2'',
     ''platform_1v0'', ''core_a'', ''core_b'', ''ddr3_io'', ''serdes_1v8'']"

text \<open>
  \<^verbatim>\<open>int(s, 16)\<close> of a short text: white space around, a sign, a \<^verbatim>\<open>0x\<close> prefix and underscores between
  digits are all accepted.
\<close>

fun hex_digits :: "bool \<Rightarrow> string \<Rightarrow> string option" where
  "hex_digits after_digit [] = (if after_digit then Some [] else None)"
| "hex_digits after_digit (c # s) =
     (if is_hex_digit c then map_option (\<lambda>ds. c # ds) (hex_digits True s)
      else if c = CHR ''_'' \<and> after_digit then hex_digits False s
      else None)"

definition int16 :: "string \<Rightarrow> int option" where
  "int16 s0 = (let s = strip s0; neg = startswith s ''-'';
       r = (if neg \<or> startswith s ''+'' then drop 1 s else s);
       pre = (startswith r ''0x'' \<or> startswith r ''0X'');
       ds = (if pre then drop 2 r else r)
     in map_option (\<lambda>d. (if neg then -1 else 1) * int (digits_val 16 d))
          (hex_digits False (if pre \<and> startswith ds ''_'' then drop 1 ds else ds)))"

definition part :: "nat \<Rightarrow> nat \<Rightarrow> string \<Rightarrow> string" where
  "part a b s = take (b - a) (drop a s)"

datatype mcu_reading =
    Temperatures int int int
  | Voltages "(string \<times> int) list"
  | Fan int int

text \<open>
  A temperature with its sign; rails in hundredths of a volt (the source divides by 100); the fan with
  PWM value and speed (its percentage is a function of the PWM value).
\<close>

definition temp_at :: "nat \<Rightarrow> string \<Rightarrow> int option" where
  "temp_at i r = map_option (\<lambda>t. if r ! i = CHR ''-'' then - t else t) (int16 (part (i + 1) (i + 3) r))"

fun all_some :: "'a option list \<Rightarrow> 'a list option" where
  "all_some [] = Some []"
| "all_some (x # xs) = (case x of None \<Rightarrow> None | Some y \<Rightarrow> map_option (\<lambda>ys. y # ys) (all_some xs))"

definition rail_at :: "nat \<Rightarrow> string \<Rightarrow> int option" where
  "rail_at i r = (let b = 2 + i * 4 in
     case (int16 (part b (b + 2) r), int16 (part (b + 2) (b + 4) r)) of
       (Some w, Some c) \<Rightarrow> Some (100 * w + c) | _ \<Rightarrow> None)"

definition parse_mcu_reply :: "string \<Rightarrow> string \<Rightarrow> mcu_reading option" where
  "parse_mcu_reply cmd r =
     (if length r < 2 \<or> r ! 0 \<noteq> CHR ''$'' then None
      else if cmd = ''t'' then
        (if r ! 1 \<noteq> CHR ''t'' \<or> length r < 11 then None
         else case (temp_at 2 r, temp_at 5 r, temp_at 8 r) of
           (Some a, Some b, Some c) \<Rightarrow> Some (Temperatures a b c) | _ \<Rightarrow> None)
      else if cmd = ''v'' then
        (if r ! 1 \<noteq> CHR ''v'' \<or> length r < 2 + 12 * 4 then None
         else map_option (\<lambda>vs. Voltages (zip (map (\<lambda>n. n @ ''_v'') VOLT_RAILS) vs))
                (all_some (map (\<lambda>i. rail_at i r) [0..<length VOLT_RAILS])))
      else if cmd = ''f'' then
        (if r ! 1 \<noteq> CHR ''f'' \<or> length r < 8 then None
         else case (int16 (part 2 4 r), int16 (part 4 8 r)) of
           (Some p, Some n) \<Rightarrow> Some (Fan p n) | _ \<Rightarrow> None)
      else None)"

record mcu_result =
  mc_cmd :: string
  mc_unit :: int
  mc_baud :: int
  mc_tx_len :: int
  mc_reply :: string
  mc_reply_len :: int
  mc_timed_out :: bool
  mc_aborted :: bool
  mc_parsed :: "mcu_reading option"

definition sys_mcu_cmd :: "string \<Rightarrow> string \<Rightarrow> int \<Rightarrow> bool \<Rightarrow> ('w fleet_scheme, mcu_result) io" where
  "sys_mcu_cmd target cmd unit confirm =
     bnd (mcpd_request target ''sys.mcu_cmd'' ([(''cmd'', JStr cmd), (''unit'', JInt unit)]
            @ (if confirm then [(''confirm'', JBool True)] else []))) (\<lambda>raw.
     lift (ebnd (item ''reply'' raw) (\<lambda>rj. let reply = rstrip_char newline (str_of rj) in
       ebnd (get_or ''timed_out'' JNull raw) (\<lambda>to0.
       let parsed = (if truthy to0 then None else parse_mcu_reply cmd reply) in
       ebnd (item ''cmd'' raw) (\<lambda>c. ebnd (ebnd (item ''unit'' raw) py_int) (\<lambda>u.
       ebnd (ebnd (item ''baud'' raw) py_int) (\<lambda>b. ebnd (ebnd (item ''tx_len'' raw) py_int) (\<lambda>tx.
       ebnd (ebnd (item ''reply_len'' raw) py_int) (\<lambda>rl. ebnd (item ''timed_out'' raw) (\<lambda>to.
       ebnd (item ''aborted'' raw) (\<lambda>ab.
       Inr \<lparr>mc_cmd = str_of c, mc_unit = u, mc_baud = b, mc_tx_len = tx, mc_reply = reply, mc_reply_len = rl,
            mc_timed_out = truthy to, mc_aborted = truthy ab, mc_parsed = parsed\<rparr>)))))))))))"

section \<open>Properties\<close>

text \<open>The format of the MCU's replies.\<close>

definition hex_byte :: "nat \<Rightarrow> string" where
  "hex_byte n = [digit_char (n div 16), digit_char (n mod 16)]"

definition signed_hex :: "int \<Rightarrow> string" where
  "signed_hex t = (if t < 0 then ''-'' else ''+'') @ hex_byte (nat \<bar>t\<bar>)"

fun mcu_reply :: "mcu_reading \<Rightarrow> string" where
  "mcu_reply (Temperatures a b c) = ''$t'' @ signed_hex a @ signed_hex b @ signed_hex c"
| "mcu_reply (Voltages vs) = ''$v'' @ concat (map (\<lambda>(n, v). hex_byte (nat (v div 100)) @ hex_byte (nat (v mod 100))) vs)"
| "mcu_reply (Fan p n) = ''$f'' @ hex_byte (nat p) @ hex_byte (nat n div 256) @ hex_byte (nat n mod 256)"

fun mcu_cmd :: "mcu_reading \<Rightarrow> string" where
  "mcu_cmd (Temperatures a b c) = ''t''" | "mcu_cmd (Voltages vs) = ''v''" | "mcu_cmd (Fan p n) = ''f''"

fun mcu_ok :: "mcu_reading \<Rightarrow> bool" where
  "mcu_ok (Temperatures a b c) = (\<bar>a\<bar> < 256 \<and> \<bar>b\<bar> < 256 \<and> \<bar>c\<bar> < 256)"
| "mcu_ok (Voltages vs) = (map fst vs = map (\<lambda>n. n @ ''_v'') VOLT_RAILS \<and> list_all (\<lambda>(n, v). 0 \<le> v \<and> v < 25600) vs)"
| "mcu_ok (Fan p n) = (0 \<le> p \<and> p < 256 \<and> 0 \<le> n \<and> n < 65536)"

lemma hex_digits_all: "\<forall>c \<in> set ds. is_hex_digit c \<Longrightarrow> b \<or> ds \<noteq> [] \<Longrightarrow> hex_digits b ds = Some ds"
proof (induction ds arbitrary: b)
  case (Cons c ds)
  then show ?case by (cases ds) auto
qed simp

lemma int16_hex:
  assumes "ds \<noteq> []" "\<forall>c \<in> set ds. is_hex_digit c"
  shows "int16 ds = Some (int (digits_val 16 ds))"
proof -
  have sp: "\<not> py_isspace c \<and> c \<noteq> CHR ''-'' \<and> c \<noteq> CHR ''+'' \<and> c \<noteq> CHR ''x'' \<and> c \<noteq> CHR ''X''" if "is_hex_digit c" for c
    using that by (auto simp: is_hex_digit_def is_digit_def py_isspace_def)
  obtain d ds' where ds: "ds = d # ds'" using assms(1) by (cases ds) auto
  have "lstrip ds = ds" using assms sp ds by (auto simp: lstrip_def)
  moreover have "rstrip_pred py_isspace ds = ds"
    using assms sp by (cases ds rule: rev_cases) (auto simp: rstrip_pred_def)
  ultimately have st: "strip ds = ds" by (simp add: strip_def)
  have no: "\<not> startswith ds ''-''" "\<not> startswith ds ''+''" "\<not> startswith ds ''0x''" "\<not> startswith ds ''0X''"
    using assms sp ds by (cases ds'; auto simp: py_str)+
  show ?thesis using st no hex_digits_all [OF assms(2)] assms(1) by (simp add: int16_def Let_def)
qed

lemma hex_byte_digits: "n < 256 \<Longrightarrow> \<forall>c \<in> set (hex_byte n). is_hex_digit c"
proof -
  assume "n < 256"
  then have "n div 16 < 16" by simp
  then show ?thesis by (simp add: hex_byte_def is_hex_digit_char)
qed

lemma hex_byte_val: "n < 256 \<Longrightarrow> int16 (hex_byte n) = Some (int n)"
  using hex_byte_digits [of n]
  by (subst int16_hex) (auto simp: hex_byte_def digits_val_def digit_val_char)

lemma hex_word_val: "n < 65536 \<Longrightarrow> int16 (hex_byte (n div 256) @ hex_byte (n mod 256)) = Some (int n)"
proof -
  assume n: "n < 65536"
  have "digits_val 16 (hex_byte (n div 256) @ hex_byte (n mod 256)) = n"
  proof -
    have "n div 256 div 16 < 16" "n div 256 mod 16 < 16" "n mod 256 div 16 < 16" using n by auto
    then have "digits_val 16 (hex_byte (n div 256) @ hex_byte (n mod 256))
        = ((n div 256 div 16 * 16 + n div 256 mod 16) * 16 + n mod 256 div 16) * 16 + n mod 256 mod 16"
      by (simp add: digits_val_def hex_byte_def digit_val_char)
    also have "\<dots> = n" by simp
    finally show ?thesis .
  qed
  moreover have "\<forall>c \<in> set (hex_byte (n div 256) @ hex_byte (n mod 256)). is_hex_digit c"
    using n hex_byte_digits [of "n div 256"] hex_byte_digits [of "n mod 256"] by auto
  moreover have "hex_byte (n div 256) @ hex_byte (n mod 256) \<noteq> []" by (simp add: hex_byte_def)
  ultimately show ?thesis using int16_hex by metis
qed

lemma length_hex_byte [simp]: "length (hex_byte n) = 2"
  by (simp add: hex_byte_def)

lemma length_signed [simp]: "length (signed_hex t) = 3"
  by (simp add: signed_hex_def)

lemma signed_first: "signed_hex t ! 0 = CHR ''-'' \<longleftrightarrow> t < 0"
  by (simp add: signed_hex_def)

lemma temp_at_signed:
  assumes "\<bar>t\<bar> < 256" "length pre = i"
  shows "temp_at i (pre @ signed_hex t @ post) = Some t"
proof -
  have "part (i + 1) (i + 3) (pre @ signed_hex t @ post) = hex_byte (nat \<bar>t\<bar>)"
    using assms(2) by (simp add: part_def signed_hex_def)
  moreover have "(pre @ signed_hex t @ post) ! i = (if t < 0 then CHR ''-'' else CHR ''+'')"
    using assms(2) by (simp add: nth_append signed_hex_def)
  ultimately show ?thesis using assms(1) hex_byte_val [of "nat \<bar>t\<bar>"] by (simp add: temp_at_def)
qed

lemma rail_at_hex:
  assumes "0 \<le> v" "v < 25600" "length pre = 2 + i * 4"
  shows "rail_at i (pre @ hex_byte (nat (v div 100)) @ hex_byte (nat (v mod 100)) @ post) = Some v"
proof -
  have "nat (v div 100) < 256" "nat (v mod 100) < 256" "0 \<le> v div 100" using assms(1,2) by auto
  then show ?thesis using assms by (simp add: rail_at_def Let_def part_def hex_byte_val)
qed

lemma all_some_map: "\<forall>i \<in> set xs. f i = Some (g i) \<Longrightarrow> all_some (map f xs) = Some (map g xs)"
  by (induction xs) auto

text \<open>A reading that is written in the MCU's format is read back.\<close>

theorem mcu_reply_read_back:
  assumes "mcu_ok m"
  shows "parse_mcu_reply (mcu_cmd m) (mcu_reply m) = Some m"
proof (cases m)
  case (Temperatures a b c)
  have "temp_at 2 (''$t'' @ signed_hex a @ (signed_hex b @ signed_hex c)) = Some a"
    "temp_at 5 ((''$t'' @ signed_hex a) @ signed_hex b @ signed_hex c) = Some b"
    "temp_at 8 ((''$t'' @ signed_hex a @ signed_hex b) @ signed_hex c @ []) = Some c"
    using assms Temperatures by (intro temp_at_signed; simp)+
  then show ?thesis using Temperatures by (simp add: parse_mcu_reply_def)
next
  case (Fan p n)
  then have pn: "nat p < 256" "nat n < 65536" using assms by auto
  have "int16 (part 2 4 (''$f'' @ hex_byte (nat p) @ hex_byte (nat n div 256) @ hex_byte (nat n mod 256))) = Some p"
    "int16 (part 4 8 (''$f'' @ hex_byte (nat p) @ hex_byte (nat n div 256) @ hex_byte (nat n mod 256))) = Some n"
    using assms Fan pn hex_byte_val [of "nat p"] hex_word_val [of "nat n"] by (simp_all add: part_def)
  then show ?thesis using Fan by (simp add: parse_mcu_reply_def)
next
  case (Voltages vs)
  let ?g = "\<lambda>(n :: string, v). hex_byte (nat (v div 100)) @ hex_byte (nat (v mod 100))"
  have ok: "map fst vs = map (\<lambda>n. n @ ''_v'') VOLT_RAILS" "\<forall>x \<in> set vs. 0 \<le> snd x \<and> snd x < 25600"
    using assms Voltages by (auto simp: list_all_iff)
  have rails: "length VOLT_RAILS = 12" by (simp add: VOLT_RAILS_def)
  have len: "length vs = 12" using arg_cong [OF ok(1), of length] by (simp add: rails)
  have glen: "length (concat (map ?g xs)) = length xs * 4" for xs :: "(string \<times> int) list" by (induction xs) auto
  let ?r = "''$v'' @ concat (map ?g vs)"
  have rail: "rail_at i ?r = Some (snd (vs ! i))" if i: "i < 12" for i
  proof -
    have iv: "i < length vs" using i len by simp
    have "concat (map ?g vs) = concat (map ?g (take i vs)) @ ?g (vs ! i) @ concat (map ?g (drop (Suc i) vs))"
      by (subst id_take_nth_drop [OF iv]) simp
    moreover have "length (''$v'' @ concat (map ?g (take i vs))) = 2 + i * 4" using glen [of "take i vs"] iv by simp
    ultimately show ?thesis
      using rail_at_hex [of "snd (vs ! i)" "''$v'' @ concat (map ?g (take i vs))" i "concat (map ?g (drop (Suc i) vs))"] ok(2) iv
      by (auto simp: split_beta)
  qed
  have "all_some (map (\<lambda>i. rail_at i ?r) [0..<12]) = Some (map (\<lambda>i. snd (vs ! i)) [0..<12])"
    by (rule all_some_map) (use rail in simp)
  moreover have "map (\<lambda>i. snd (vs ! i)) [0..<12] = map snd vs" using len by (metis map_map map_nth comp_def map_eq_conv)
  moreover have "zip (map (\<lambda>n. n @ ''_v'') VOLT_RAILS) (map snd vs) = vs" using ok(1) by (metis zip_map_fst_snd)
  moreover have "length ?r = 50" using glen [of vs] len by simp
  ultimately show ?thesis using Voltages rails by (simp add: parse_mcu_reply_def)
qed

theorem mcu_reply_read_back_witness:
  "parse_mcu_reply ''t'' ''$t+1a-05+2f'' = Some (Temperatures 26 (-5) 47)"
proof -
  have "mcu_ok (Temperatures 26 (-5) 47)" by simp
  moreover have "mcu_reply (Temperatures 26 (-5) 47) = ''$t+1a-05+2f''" by code_simp
  ultimately show ?thesis using mcu_reply_read_back [of "Temperatures 26 (-5) 47"] by simp
qed

end
