(* ===== verification/Sandbox.thy ===== *)
theory Sandbox
  imports SandboxText SysTools Utf8 Upload
begin

text \<open>
  The sandbox tools (\<^verbatim>\<open>tools/sandbox.py\<close>): the probe of a target and its cache, deploying SandboxVM,
  running a guest, a driver or a batch of guests, and the last trap.  The cache lives in the module;
  here it extends the fleet.  A run holds the lock of its target from its command to the last capture
  file, and is one step.  Times are microseconds, limits of a run milliseconds.
\<close>

section \<open>State and results\<close>

record sandbox_probe_result =
  p_available :: bool
  p_code :: "string option"
  p_path :: "string option"
  p_searched :: "string list"
  p_banner :: "string option"
  p_machine :: "string option"
  p_machine_ok :: "bool option"
  p_hint :: "string option"
  p_version :: "string option"
  p_abort :: bool

definition probe_base :: sandbox_probe_result where
  "probe_base = \<lparr>p_available = False, p_code = None, p_path = None, p_searched = [], p_banner = None,
     p_machine = None, p_machine_ok = None, p_hint = None, p_version = None, p_abort = False\<rparr>"

record sandbox_state = fleet +
  probe_cache :: "(string \<times> int \<times> sandbox_probe_result) list"

definition sandbox_init :: "config \<Rightarrow> ((event \<times> outcome) list \<Rightarrow> event \<Rightarrow> outcome) \<Rightarrow> sandbox_state" where
  "sandbox_init c env = fleet.extend (fleet_init c env) (sandbox_state.fields [])"

type_synonym 'a sbx = "(sandbox_state, 'a) io"

definition PROBE_CACHE_TTL_US :: int where
  "PROBE_CACHE_TTL_US = 60000000"

definition invalidate_probe :: "string \<Rightarrow> unit sbx" where
  "invalidate_probe target = modify (\<lambda>s. s\<lparr>probe_cache := AList.delete target (probe_cache s)\<rparr>)"

definition cache_probe :: "string \<Rightarrow> sandbox_probe_result \<Rightarrow> unit sbx" where
  "cache_probe target res = bnd now (\<lambda>t.
     modify (\<lambda>s. s\<lparr>probe_cache := AList.update target (t + PROBE_CACHE_TTL_US, res) (probe_cache s)\<rparr>))"

definition config_of :: "string \<Rightarrow> target_config sbx" where
  "config_of target = bnd (gets f_config) (\<lambda>c. lift (target_config c target))"

definition attempt :: "('s, 'a) io \<Rightarrow> ('s, exn + 'a) io" where
  "attempt m = catch (bnd m (\<lambda>v. ret (Inr v))) (\<lambda>e. ret (Inl e))"

section \<open>Probe\<close>

definition exec_params :: "string \<Rightarrow> int \<Rightarrow> (string \<times> json) list" where
  "exec_params cmd timeout_ms = [(''command'', JStr cmd), (''timeout_ms'', JInt timeout_ms)]"

definition execute_banner_probe :: "string \<Rightarrow> string \<Rightarrow> (bool \<times> string option) sbx" where
  "execute_banner_probe target path = bnd (fleet_mcpd target) (\<lambda>_.
     bnd (attempt (rpc target ''exec.cmd'' (JObj (exec_params (in_quotes path) 5000)))) (\<lambda>r. case r of
       Inl e \<Rightarrow> ret (False, None)
     | Inr raw \<Rightarrow> bnd (lift (get_or ''output'' (JStr []) raw)) (\<lambda>out. let output = strip (str_of out) in
         ret (True, (case splitlines output of [] \<Rightarrow> None | l # _ \<Rightarrow> Some l)))))"

definition read_version :: "string \<Rightarrow> string \<Rightarrow> (nat \<times> nat) option sbx" where
  "read_version target path =
     bnd (attempt (mcpd_request target ''exec.cmd'' (exec_params (''Version '' @ in_quotes path) 5000))) (\<lambda>r. case r of
       Inl e \<Rightarrow> ret None
     | Inr raw \<Rightarrow> bnd (lift (get_or ''output'' (JStr []) raw)) (\<lambda>out. ret (parse_version (str_of out))))"

datatype look = Found string | Unreachable exn | Nowhere

fun search_paths :: "string \<Rightarrow> string list \<Rightarrow> look sbx" where
  "search_paths target [] = ret Nowhere"
| "search_paths target (p # ps) = bnd (attempt (rpc target ''fs.stat'' (JObj [(''path'', JStr p)]))) (\<lambda>r. case r of
       Inr _ \<Rightarrow> ret (Found p)
     | Inl e \<Rightarrow> if is_transport_error e then ret (Unreachable e) else search_paths target ps)"

definition incompatible :: "string \<Rightarrow> string \<Rightarrow> sandbox_probe_result" where
  "incompatible target machine = probe_base\<lparr>p_code := Some ''SANDBOXVM_INCOMPATIBLE_TARGET'',
     p_machine := Some machine, p_machine_ok := Some False,
     p_hint := Some (''target machine '' @ py_repr machine @ '' lacks ExtMem; SandboxVM refuses to run on it. ''
       @ ''Use a different target (X5000 / A1222 / QEMU AmigaOne).'')\<rparr>"

definition error_summary :: "exn \<Rightarrow> string" where
  "error_summary e = ''('' @ exn_name e @ '': '' @ utake 120 (exn_str e) @ '')''"

definition unreachable_hint :: "string \<Rightarrow> exn \<Rightarrow> string" where
  "unreachable_hint target e = ''target '' @ py_repr target @ '' did not respond to fs.stat '' @ error_summary e
     @ ''. Confirm the target is powered on and MCPd is reachable (`fleet.target_status`) before deploying.''"

definition missing_hint :: string where
  "missing_hint = ''sandboxvm binary not found on target. Get it from ''
     @ ''https://github.com/derfsss/SandboxVM/releases/latest (pre-built PPC AOS4 binary -- the fast path), or build from ''
     @ ''source at https://github.com/derfsss/SandboxVM (see its README.md for the docker-cc cross-compile flow). ''
     @ ''Then run `sandbox.deploy` to upload to the target -- or set `[targets.<target>.sandbox.path]` ''
     @ ''in config.toml if it's already installed at a non-default location.''"

definition broken_hint :: "string \<Rightarrow> string" where
  "broken_hint path = ''sandboxvm at '' @ py_repr path
     @ '' did not start. Re-deploy with `sandbox.deploy` (a corrupt upload is the most common cause).''"

definition version_text :: "(nat \<times> nat) option \<Rightarrow> string option" where
  "version_text v = (case v of None \<Rightarrow> None | Some (a, b) \<Rightarrow> Some (nat_dec a @ ''.'' @ nat_dec b))"

definition probe_found :: "string \<Rightarrow> sandbox_probe_result \<Rightarrow> string \<Rightarrow> sandbox_probe_result sbx" where
  "probe_found target seen path = bnd (execute_banner_probe target path) (\<lambda>(ran, banner).
     if \<not> ran
     then ret (seen\<lparr>p_code := Some ''SANDBOXVM_BROKEN'', p_path := Some path, p_hint := Some (broken_hint path)\<rparr>)
     else bnd (read_version target path) (\<lambda>v.
       let res = seen\<lparr>p_available := True, p_path := Some path, p_banner := banner,
                   p_version := version_text v, p_abort := abort_supported v\<rparr> in
       bnd (cache_probe target res) (\<lambda>_. ret res)))"

definition machine_ok :: "string option \<Rightarrow> bool option" where
  "machine_ok m = (case m of None \<Rightarrow> None | Some _ \<Rightarrow> Some True)"

definition sandbox_probe :: "string \<Rightarrow> sandbox_probe_result sbx" where
  "sandbox_probe target = bnd (config_of target) (\<lambda>cfg. let m = resolve_target_machine cfg in
     case (if m \<noteq> None \<and> the m \<in> set INCOMPATIBLE_MACHINES then m else None) of
       Some machine \<Rightarrow> let res = incompatible target machine in bnd (cache_probe target res) (\<lambda>_. ret res)
     | None \<Rightarrow>
         let candidates = candidate_target_paths cfg;
             seen = probe_base\<lparr>p_searched := candidates, p_machine := m, p_machine_ok := machine_ok m\<rparr> in
         bnd (fleet_mcpd target) (\<lambda>_.
         bnd (search_paths target candidates) (\<lambda>l. case l of
           Unreachable e \<Rightarrow> ret (seen\<lparr>p_code := Some ''SANDBOXVM_TARGET_UNREACHABLE'', p_hint := Some (unreachable_hint target e)\<rparr>)
         | Nowhere \<Rightarrow> ret (seen\<lparr>p_code := Some ''SANDBOXVM_MISSING'', p_hint := Some missing_hint\<rparr>)
         | Found path \<Rightarrow> probe_found target seen path)))"

definition specific_lost :: "string \<Rightarrow> sandbox_probe_result \<Rightarrow> exn \<Rightarrow> sandbox_probe_result" where
  "specific_lost target seen e =
     (if is_transport_error e
      then seen\<lparr>p_code := Some ''SANDBOXVM_TARGET_UNREACHABLE'',
             p_hint := Some (''target '' @ py_repr target @ '' did not respond to fs.stat '' @ error_summary e @ ''.'')\<rparr>
      else seen\<lparr>p_code := Some ''SANDBOXVM_MISSING''\<rparr>)"

definition specific_found :: "string \<Rightarrow> sandbox_probe_result \<Rightarrow> string \<Rightarrow> sandbox_probe_result sbx" where
  "specific_found target seen path = bnd (execute_banner_probe target path) (\<lambda>(ran, banner).
     if \<not> ran then ret (seen\<lparr>p_code := Some ''SANDBOXVM_BROKEN'', p_path := Some path\<rparr>)
     else ret (seen\<lparr>p_available := True, p_path := Some path, p_banner := banner\<rparr>))"

definition probe_specific_path :: "string \<Rightarrow> string \<Rightarrow> sandbox_probe_result sbx" where
  "probe_specific_path target path = bnd (config_of target) (\<lambda>cfg. let m = resolve_target_machine cfg in
     if m \<noteq> None \<and> the m \<in> set INCOMPATIBLE_MACHINES
     then ret ((incompatible target (the m))\<lparr>p_hint := None\<rparr>)
     else let seen = probe_base\<lparr>p_searched := [path], p_machine := m, p_machine_ok := machine_ok m\<rparr> in
       bnd (fleet_mcpd target) (\<lambda>_.
       bnd (attempt (rpc target ''fs.stat'' (JObj [(''path'', JStr path)]))) (\<lambda>r. case r of
         Inl e \<Rightarrow> ret (specific_lost target seen e)
       | Inr _ \<Rightarrow> specific_found target seen path)))"

definition or_text :: "string option \<Rightarrow> string \<Rightarrow> string" where
  "or_text h d = (case h of Some (c # cs) \<Rightarrow> c # cs | _ \<Rightarrow> d)"

definition opt_json :: "string option \<Rightarrow> json" where
  "opt_json x = (case x of None \<Rightarrow> JNull | Some s \<Rightarrow> JStr s)"

definition unavailable :: "string \<Rightarrow> sandbox_probe_result \<Rightarrow> exn" where
  "unavailable target res =
     (if p_code res = Some ''SANDBOXVM_INCOMPATIBLE_TARGET''
      then RpcErr NotCapable (or_text (p_hint res) ''target incompatible with SandboxVM'')
        (Some (JObj [(''code'', opt_json (p_code res)), (''target'', JStr target), (''machine'', opt_json (p_machine res))]))
      else if p_code res = Some ''SANDBOXVM_TARGET_UNREACHABLE''
      then RpcErr NotCapable (or_text (p_hint res) ''target unreachable'')
        (Some (JObj [(''code'', opt_json (p_code res)), (''target'', JStr target)]))
      else RpcErr InvalidParams (or_text (p_hint res) ''sandboxvm not available on target'')
        (Some (JObj [(''code'', opt_json (p_code res)), (''target'', JStr target),
           (''searched'', JArr (map JStr (p_searched res)))])))"

definition ensure_available :: "string \<Rightarrow> sandbox_probe_result sbx" where
  "ensure_available target =
     bnd (gets (\<lambda>s. map_of (probe_cache s) target)) (\<lambda>cached. bnd now (\<lambda>t.
     case (case cached of Some (expiry, res) \<Rightarrow> if expiry > t \<and> p_available res then Some res else None | None \<Rightarrow> None) of
       Some res \<Rightarrow> ret res
     | None \<Rightarrow> bnd (sandbox_probe target) (\<lambda>res.
         if p_available res then ret res else raise (unavailable target res))))"

definition available_path :: "string \<Rightarrow> string sbx" where
  "available_path target = bnd (ensure_available target) (\<lambda>p. case p_path p of
       Some path \<Rightarrow> ret path | None \<Rightarrow> raise (PyErr AssertionError []))"

section \<open>Deploy\<close>

definition is_file :: "string \<Rightarrow> bool sbx" where
  "is_file p = gets (\<lambda>s. host_file p s \<noteq> None)"

text \<open>\<^verbatim>\<open>Path(p).expanduser().resolve()\<close> is the host's answer.\<close>

definition resolve_source :: "string option \<Rightarrow> string option \<Rightarrow> string sbx" where
  "resolve_source source config_default = (case source of
       Some (c # cs) \<Rightarrow> bnd (host ''resolve'' [JStr (c # cs)]) (\<lambda>v. let p = as_str v in
         bnd (is_file p) (\<lambda>ok. if ok then ret p
           else raise (RpcErr InvalidParams (''sandbox.deploy source not found: '' @ py_repr (c # cs)) None)))
     | _ \<Rightarrow> (case config_default of
         Some d \<Rightarrow> bnd (host ''resolve'' [JStr d]) (\<lambda>v. let p = as_str v in
           bnd (is_file p) (\<lambda>ok. if ok then ret p
             else raise (RpcErr InvalidParams (''sandbox.deploy: [paths] sandboxvm points at '' @ d
                @ '' but no file is there. Update config.toml or pass `source` explicitly.'') None)))
       | None \<Rightarrow> raise (RpcErr InvalidParams (''sandbox.deploy: no source given and [paths] sandboxvm is not set. ''
             @ ''Pass `source=...` or add the path to config.toml.'') None)))"

definition resolve_dest_path :: "string \<Rightarrow> string option \<Rightarrow> string sbx" where
  "resolve_dest_path target dest = (case dest of
       Some (c # cs) \<Rightarrow> ret (c # cs)
     | _ \<Rightarrow> bnd (config_of target) (\<lambda>cfg. ret (case configured_path cfg of Some p \<Rightarrow> p | None \<Rightarrow> DEFAULT_DEPLOY_PATH)))"

record deployed =
  dp_source :: string
  dp_dest :: string
  dp_bytes :: int
  dp_elapsed_us :: int
  dp_sha256 :: "string option"
  dp_probe :: sandbox_probe_result

definition DEPLOY_CHUNK :: int where
  "DEPLOY_CHUNK = 25165824"

definition sandbox_deploy ::
    "(string \<Rightarrow> string) \<Rightarrow> (string \<Rightarrow> string) \<Rightarrow> string \<Rightarrow> string option \<Rightarrow> string option \<Rightarrow> bool \<Rightarrow> deployed sbx" where
  "sandbox_deploy deflate sha256 target source dest confirm =
     (if \<not> confirm
      then raise (RpcErr InvalidParams ''sandbox.deploy requires confirm=True (overwrites the on-target sandboxvm binary).'' None)
      else bnd (gets (\<lambda>s. sandboxvm (paths (f_config s)))) (\<lambda>dflt.
        bnd (resolve_source source dflt) (\<lambda>src.
        bnd (resolve_dest_path target dest) (\<lambda>dst.
        bnd (case aos_parent_dir dst of
               None \<Rightarrow> ret ()
             | Some parent \<Rightarrow> ignoring (mcpd_request target ''exec.cmd'' (exec_params (''MakeDir >NIL: '' @ in_quotes parent) 5000))) (\<lambda>_.
        bnd (fs_upload deflate sha256 target src dst DEPLOY_CHUNK ''auto'' True False) (\<lambda>up.
        bnd (invalidate_probe target) (\<lambda>_.
        bnd (probe_specific_path target dst) (\<lambda>res.
        bnd (whenM (p_available res) (cache_probe target res)) (\<lambda>_.
        ret \<lparr>dp_source = src, dp_dest = dst, dp_bytes = bytes_total up, dp_elapsed_us = elapsed_us up,
             dp_sha256 = sha256_hex up, dp_probe = res\<rparr>)))))))))"

section \<open>Capture files\<close>

text \<open>The text of a capture, and whether the file was there.\<close>

definition read_capture :: "string \<Rightarrow> string \<Rightarrow> (string \<times> bool) sbx" where
  "read_capture target path = bnd (fleet_mcpd target) (\<lambda>_.
     bnd (attempt (rpc target ''fs.read'' (JObj [(''path'', JStr path)]))) (\<lambda>r. case r of
       Inl e \<Rightarrow> (case e of RpcErr TargetError m d \<Rightarrow> ret ([], False) | _ \<Rightarrow> raise e)
     | Inr raw \<Rightarrow> bnd (lift (get_or ''content_b64'' (JStr []) raw)) (\<lambda>c.
         ret (case c of JStr b \<Rightarrow> (case b64decode b of Some bytes \<Rightarrow> utf8_replace bytes | None \<Rightarrow> []) | _ \<Rightarrow> [], True))))"

definition delete_capture :: "string \<Rightarrow> string \<Rightarrow> unit sbx" where
  "delete_capture target path = ignoring (mcpd_request target ''fs.delete'' [(''path'', JStr path)])"

definition out_file :: "string \<Rightarrow> string" where "out_file name = ''T:sandboxvm-'' @ name @ ''.out''"
definition err_file :: "string \<Rightarrow> string" where "err_file name = ''T:sandboxvm-'' @ name @ ''.err''"

text \<open>Both files of a guest are read, then both deleted.\<close>

definition take_captures :: "string \<Rightarrow> string \<Rightarrow> ((string \<times> bool) \<times> (string \<times> bool)) sbx" where
  "take_captures target name =
     bnd (read_capture target (out_file name)) (\<lambda>out.
     bnd (read_capture target (err_file name)) (\<lambda>err.
     bnd (delete_capture target (out_file name)) (\<lambda>_.
     bnd (delete_capture target (err_file name)) (\<lambda>_. ret (out, err)))))"

definition capture_paths :: "string \<Rightarrow> bool \<Rightarrow> bool \<Rightarrow> string list" where
  "capture_paths name out err = (if out then [out_file name] else []) @ (if err then [err_file name] else [])"

section \<open>The last trap\<close>

record last_trap =
  lt_found :: bool
  lt_ring_usable :: bool
  lt_trap :: trap
  lt_captured_at :: "string option"
  lt_attempts :: nat

fun trap_attempts :: "string \<Rightarrow> int \<Rightarrow> int \<Rightarrow> nat \<Rightarrow> nat \<Rightarrow> last_trap sbx" where
  "trap_attempts target max_lines delay_ms n left =
     bnd (sys_debug_ring target max_lines) (\<lambda>ring. let tr = extract_trap (ring_lines ring) in
       if tr_lines tr \<noteq> []
       then ret \<lparr>lt_found = True, lt_ring_usable = True, lt_trap = tr, lt_captured_at = Some (ring_captured_at ring),
              lt_attempts = n + 1\<rparr>
       else (case left of
           Suc k \<Rightarrow> bnd (sleep delay_ms) (\<lambda>_. trap_attempts target max_lines delay_ms (n + 1) k)
         | 0 \<Rightarrow> ret \<lparr>lt_found = False, lt_ring_usable = ring_reports_daemon (ring_lines ring), lt_trap = extract_trap [],
                lt_captured_at = Some (ring_captured_at ring), lt_attempts = n + 1\<rparr>))"

declare trap_attempts.simps [simp del]

definition sandbox_last_trap :: "string \<Rightarrow> int \<Rightarrow> int \<Rightarrow> int \<Rightarrow> last_trap sbx" where
  "sandbox_last_trap target max_lines retry_count retry_delay_ms =
     trap_attempts target max_lines (max 0 retry_delay_ms) 0 (nat (retry_count - 1))"

text \<open>The trap of the ring, if its lines name this run.\<close>

definition own_trap :: "string \<Rightarrow> last_trap \<Rightarrow> trap option" where
  "own_trap name lt = (if lt_found lt \<and> list_ex (contains name) (tr_lines (lt_trap lt)) then Some (lt_trap lt) else None)"

section \<open>Running a guest\<close>

record guest_run =
  gr_guest :: string
  gr_name :: string
  gr_command :: string
  gr_exit :: int
  gr_trap :: "string option"
  gr_fingerprint :: "string option"
  gr_stdout :: string
  gr_stderr :: string
  gr_duration_us :: int
  gr_captures :: "string list"

definition memory_sizes :: "target_config \<Rightarrow> int option \<Rightarrow> int option \<Rightarrow> int \<times> int" where
  "memory_sizes cfg extmem window =
     ((case extmem of Some m \<Rightarrow> m | None \<Rightarrow> (case sandbox cfg of Some sb \<Rightarrow> default_extmem_mb sb | None \<Rightarrow> 1024)),
      (case window of Some m \<Rightarrow> m | None \<Rightarrow> (case sandbox cfg of Some sb \<Rightarrow> default_window_mb sb | None \<Rightarrow> 256)))"

definition denied :: "target_config \<Rightarrow> string list \<Rightarrow> string list" where
  "denied cfg libs = add_libs (case sandbox cfg of Some sb \<Rightarrow> sandbox_deny_libs sb | None \<Rightarrow> []) libs"

text \<open>Where the exit code is the one of every trap, its kind comes from the ring.\<close>

definition ring_kind :: "string \<Rightarrow> string \<Rightarrow> int \<Rightarrow> string option \<times> string option \<Rightarrow> (string option \<times> string option) sbx" where
  "ring_kind target name code kf = (case kf of (k, f) \<Rightarrow>
     if k = None \<and> code = RC_TRAP
     then bnd (sandbox_last_trap target 500 3 200) (\<lambda>lt. case own_trap name lt of
         Some tr \<Rightarrow> ret (tr_kind tr, (if f \<noteq> None then f else tr_fingerprint tr))
       | None \<Rightarrow> ret (k, f))
     else ret (k, f))"

definition run_sandboxvm ::
    "string \<Rightarrow> string \<Rightarrow> string list \<Rightarrow> int option \<Rightarrow> int option \<Rightarrow> string list \<Rightarrow> string option \<Rightarrow> int \<Rightarrow> bool \<Rightarrow> string option \<Rightarrow>
     guest_run sbx" where
  "run_sandboxvm target guest args extmem window deny name timeout_ms resident_driver test_elf =
     bnd (available_path target) (\<lambda>path. bnd (config_of target) (\<lambda>cfg.
     let (mb, wb) = memory_sizes cfg extmem window;
         run_name = (case name of Some (c # cs) \<Rightarrow> c # cs | _ \<Rightarrow> derive_guest_name guest);
         cmd = build_command path guest args mb wb (denied cfg deny) run_name resident_driver test_elf None in
     bnd now (\<lambda>t0. bnd (fleet_mcpd target) (\<lambda>_.
     bnd (attempt (rpc target ''exec.cmd'' (JObj (exec_params cmd timeout_ms)))) (\<lambda>r. case r of
       Inl e \<Rightarrow> bnd (take_captures target run_name) (\<lambda>_. raise e)
     | Inr raw \<Rightarrow>
         bnd (lift (ebnd (get_or ''exit_code'' (JInt 0) raw) py_int)) (\<lambda>code.
         bnd (lift (get_or ''output'' (JStr []) raw)) (\<lambda>wrapper.
         bnd (take_captures target run_name) (\<lambda>((out, has_out), (err, has_err)).
         let stdout = (if str_of wrapper \<noteq> [] \<and> \<not> has_out \<and> \<not> has_err then str_of wrapper else out) in
         bnd (ring_kind target run_name code (classify_exit code err)) (\<lambda>(kind, fp).
         bnd now (\<lambda>t1.
         ret \<lparr>gr_guest = guest, gr_name = run_name, gr_command = cmd, gr_exit = code, gr_trap = kind, gr_fingerprint = fp,
              gr_stdout = stdout, gr_stderr = err, gr_duration_us = t1 - t0,
              gr_captures = capture_paths run_name has_out has_err\<rparr>))))))))))"

definition sandbox_run_guest ::
    "string \<Rightarrow> string \<Rightarrow> string list \<Rightarrow> int option \<Rightarrow> int option \<Rightarrow> string list \<Rightarrow> string option \<Rightarrow> int \<Rightarrow> guest_run sbx" where
  "sandbox_run_guest target guest args extmem window deny name timeout_ms =
     run_sandboxvm target guest args extmem window deny name timeout_ms False None"

definition sandbox_run_driver ::
    "string \<Rightarrow> string \<Rightarrow> string option \<Rightarrow> string list \<Rightarrow> int option \<Rightarrow> int option \<Rightarrow> string list \<Rightarrow> string option \<Rightarrow> int \<Rightarrow> guest_run sbx" where
  "sandbox_run_driver target driver test args extmem window deny name timeout_ms =
     run_sandboxvm target driver args extmem window deny name timeout_ms True test"

section \<open>Sandboxed jobs\<close>

definition sandbox_job_command ::
    "string \<Rightarrow> string \<Rightarrow> string list \<Rightarrow> int option \<Rightarrow> int option \<Rightarrow> string list \<Rightarrow> int option \<Rightarrow> (string \<times> string) sbx" where
  "sandbox_job_command target guest args extmem window deny time_limit =
     bnd (available_path target) (\<lambda>path. bnd (config_of target) (\<lambda>cfg.
     let (mb, wb) = memory_sizes cfg extmem window in
     bnd (host ''token_hex'' [JInt 3]) (\<lambda>v. let name = derive_guest_name guest @ ''-'' @ as_str v in
     ret (build_command path guest args mb wb (denied cfg deny) name False None time_limit, name))))"

record job_info =
  ji_name :: string
  ji_end :: "string option"
  ji_trap :: "string option"
  ji_fingerprint :: "string option"
  ji_trap_lines :: "string list"
  ji_ring_usable :: "bool option"
  ji_stdout :: string
  ji_stderr :: string
  ji_captures :: "string list"

definition end_reason :: "int \<Rightarrow> string" where
  "end_reason code = (if code = RC_TRAP then ''trap'' else if code = RC_ABORTED then ''aborted''
     else if code = RC_TIMEOUT then ''timeout'' else ''exit'')"

definition sandbox_job_result :: "string \<Rightarrow> string \<Rightarrow> int option \<Rightarrow> job_info sbx" where
  "sandbox_job_result target name exit_code = (case exit_code of
       None \<Rightarrow> ret \<lparr>ji_name = name, ji_end = None, ji_trap = None, ji_fingerprint = None, ji_trap_lines = [],
          ji_ring_usable = None, ji_stdout = [], ji_stderr = [], ji_captures = [out_file name, err_file name]\<rparr>
     | Some code \<Rightarrow> bnd (take_captures target name) (\<lambda>((out, has_out), (err, has_err)).
         let (kind, fp) = classify_exit code err;
             info = \<lparr>ji_name = name, ji_end = Some (end_reason code), ji_trap = kind, ji_fingerprint = fp,
               ji_trap_lines = [], ji_ring_usable = None, ji_stdout = out, ji_stderr = err,
               ji_captures = capture_paths name has_out has_err\<rparr> in
         if code = RC_TRAP \<and> kind = None
         then bnd (sandbox_last_trap target 500 3 200) (\<lambda>lt. case own_trap name lt of
             None \<Rightarrow> ret (info\<lparr>ji_ring_usable := Some (lt_ring_usable lt)\<rparr>)
           | Some tr \<Rightarrow> ret (info\<lparr>ji_ring_usable := Some (lt_ring_usable lt), ji_trap := tr_kind tr,
               ji_fingerprint := (if fp \<noteq> None then fp else tr_fingerprint tr),
               ji_trap_lines := filter (\<lambda>l. startswith l ''[sandboxvm/trap]'') (tr_lines tr)\<rparr>))
         else ret info))"

section \<open>Batches\<close>

record batch_entry =
  be_guest :: string
  be_name :: string
  be_exit :: int
  be_known :: bool
  be_trap :: "string option"
  be_fingerprint :: "string option"
  be_stdout :: string
  be_stderr :: string
  be_captures :: "string list"

record batch_run =
  br_name :: string
  br_command :: string
  br_aggregate :: int
  br_ring_usable :: bool
  br_clean :: bool
  br_duration_us :: int
  br_entries :: "batch_entry list"

text \<open>A guest of a batch: its path and an optional name.\<close>

type_synonym spec = "string \<times> string option"

definition guest_names :: "string \<Rightarrow> spec list \<Rightarrow> string list" where
  "guest_names batch specs = map (\<lambda>i. case snd (specs ! i) of Some (c # cs) \<Rightarrow> c # cs | _ \<Rightarrow> batch @ ''.'' @ nat_dec i)
     [0..<length specs]"

definition batch_entry_of :: "string \<Rightarrow> (string \<times> int) list \<Rightarrow> bool \<Rightarrow> nat \<Rightarrow> nat \<times> spec \<times> string \<Rightarrow> batch_entry sbx" where
  "batch_entry_of target exits ring_usable n g = (case g of (idx, spec, gname) \<Rightarrow>
     bnd (take_captures target gname) (\<lambda>((out, has_out), (err, has_err)).
     let (code, known) = exit_of_guest exits ring_usable n idx; (kind, fp) = classify_exit code err in
     ret \<lparr>be_guest = fst spec, be_name = gname, be_exit = code, be_known = known, be_trap = kind, be_fingerprint = fp,
          be_stdout = out, be_stderr = err, be_captures = capture_paths gname has_out has_err\<rparr>))"

definition sandbox_run_batch ::
    "string \<Rightarrow> spec list \<Rightarrow> int option \<Rightarrow> int option \<Rightarrow> string list \<Rightarrow> string option \<Rightarrow> int \<Rightarrow> int option \<Rightarrow> batch_run sbx" where
  "sandbox_run_batch target specs extmem window deny name timeout_ms priority =
     (if specs = [] then raise (RpcErr InvalidParams ''sandbox.run_batch requires at least one guest entry'' None)
      else if length specs > SANDBOXVM_MAX_GUESTS
      then raise (RpcErr InvalidParams (''sandbox.run_batch supports at most '' @ nat_dec SANDBOXVM_MAX_GUESTS
             @ '' guests per invocation; got '' @ nat_dec (length specs))
             (Some (JObj [(''max'', JInt (int SANDBOXVM_MAX_GUESTS)), (''got'', JInt (int (length specs)))])))
      else bnd (available_path target) (\<lambda>path. bnd (config_of target) (\<lambda>cfg.
        let (mb, wb) = memory_sizes cfg extmem window;
            batch = (case name of Some (c # cs) \<Rightarrow> c # cs | _ \<Rightarrow> ''batch'');
            names = guest_names batch specs;
            cmd = build_batch_command path (map fst specs) mb wb (denied cfg deny) batch in
        bnd (gets (\<lambda>s. case priority of Some p \<Rightarrow> Some p | None \<Rightarrow> exec_priority (defaults (f_config s)))) (\<lambda>pri.
        bnd now (\<lambda>t0. bnd (mcpd_request target ''exec.cmd'' (exec_params cmd timeout_ms
              @ (case pri of Some p \<Rightarrow> [(''priority'', JInt p)] | None \<Rightarrow> []))) (\<lambda>raw.
        bnd (lift (ebnd (get_or ''exit_code'' (JInt 0) raw) py_int)) (\<lambda>aggregate.
        bnd (sys_debug_ring target 2000) (\<lambda>ring.
        let exits = parse_per_guest_exits (ring_lines ring) (length specs);
            usable = ring_reports_daemon (ring_lines ring) in
        bnd (for_each (batch_entry_of target exits usable (length specs)) (zip [0..<length specs] (zip specs names))) (\<lambda>entries.
        bnd now (\<lambda>t1.
        ret \<lparr>br_name = batch, br_command = cmd, br_aggregate = aggregate, br_ring_usable = usable,
             br_clean = (aggregate = 0 \<and> list_all (\<lambda>e. be_exit e = 0) entries), br_duration_us = t1 - t0,
             br_entries = entries\<rparr>))))))))))"

end
