(* ===== verification/ExecTools.thy ===== *)
theory ExecTools
  imports Sandbox
begin

text \<open>
  The job tools (\<^verbatim>\<open>tools/exec.py\<close>): starting a command, plain or under SandboxVM, and asking for its
  state, its output and its end.
\<close>

record exec_result =
  ex_output :: string
  ex_exit :: "int option"
  ex_truncated :: bool
  ex_job_id :: "int option"
  ex_state :: string
  ex_result2 :: "int option"
  ex_pid :: "int option"
  ex_priority :: "int option"
  ex_elapsed_ms :: "int option"
  ex_sandbox :: "job_info option"

text \<open>A daemon sends no \<^verbatim>\<open>sandbox\<close> block; a null one is accepted.\<close>

definition exec_result_of :: "json \<Rightarrow> exn + exec_result" where
  "exec_result_of j =
     ebnd (field ''output'' v_str j) (\<lambda>out. ebnd (field_or ''exit_code'' (Some 0) (v_opt v_int) j) (\<lambda>code.
     ebnd (field_or ''truncated'' False v_bool j) (\<lambda>tr. ebnd (field_or ''job_id'' None (v_opt v_int) j) (\<lambda>job.
     ebnd (field_or ''state'' ''exited'' v_str j) (\<lambda>st. ebnd (field_or ''result2'' None (v_opt v_int) j) (\<lambda>r2.
     ebnd (field_or ''pid'' None (v_opt v_int) j) (\<lambda>pid. ebnd (field_or ''priority'' None (v_opt v_int) j) (\<lambda>pri.
     ebnd (field_or ''elapsed_ms'' None (v_opt v_int) j) (\<lambda>el.
     Inr \<lparr>ex_output = out, ex_exit = code, ex_truncated = tr, ex_job_id = job, ex_state = st, ex_result2 = r2,
          ex_pid = pid, ex_priority = pri, ex_elapsed_ms = el, ex_sandbox = None\<rparr>)))))))))"

record job_status =
  js_job_id :: int
  js_state :: string
  js_exit :: "int option"
  js_result2 :: "int option"
  js_pid :: "int option"
  js_priority :: "int option"
  js_elapsed_ms :: "int option"
  js_command :: "string option"
  js_output_available :: "bool option"
  js_mem_before :: "int option"
  js_mem_after :: "int option"
  js_signals :: "string list"

definition job_status_of :: "json \<Rightarrow> exn + job_status" where
  "job_status_of j =
     ebnd (field ''job_id'' v_int j) (\<lambda>job. ebnd (field ''state'' v_str j) (\<lambda>st.
     ebnd (field_or ''exit_code'' None (v_opt v_int) j) (\<lambda>code. ebnd (field_or ''result2'' None (v_opt v_int) j) (\<lambda>r2.
     ebnd (field_or ''pid'' None (v_opt v_int) j) (\<lambda>pid. ebnd (field_or ''priority'' None (v_opt v_int) j) (\<lambda>pri.
     ebnd (field_or ''elapsed_ms'' None (v_opt v_int) j) (\<lambda>el. ebnd (field_or ''command'' None (v_opt v_str) j) (\<lambda>cmd.
     ebnd (field_or ''output_available'' None (v_opt v_bool) j) (\<lambda>av. ebnd (field_or ''mem_free_before'' None (v_opt v_int) j) (\<lambda>mb.
     ebnd (field_or ''mem_free_after'' None (v_opt v_int) j) (\<lambda>ma. ebnd (field_or ''signals_sent'' [] (v_list v_str) j) (\<lambda>sg.
     Inr \<lparr>js_job_id = job, js_state = st, js_exit = code, js_result2 = r2, js_pid = pid, js_priority = pri,
          js_elapsed_ms = el, js_command = cmd, js_output_available = av, js_mem_before = mb, js_mem_after = ma,
          js_signals = sg\<rparr>))))))))))))"

record job_output =
  jo_job_id :: int
  jo_state :: string
  jo_exit :: "int option"
  jo_output :: string
  jo_offset :: int
  jo_bytes :: int
  jo_total :: int
  jo_eof :: bool

definition job_output_of :: "json \<Rightarrow> exn + job_output" where
  "job_output_of j =
     ebnd (field ''job_id'' v_int j) (\<lambda>job. ebnd (field ''state'' v_str j) (\<lambda>st.
     ebnd (field_or ''exit_code'' None (v_opt v_int) j) (\<lambda>code. ebnd (field ''output'' v_str j) (\<lambda>out.
     ebnd (field ''offset'' v_int j) (\<lambda>off. ebnd (field ''bytes'' v_int j) (\<lambda>n.
     ebnd (field ''total_bytes'' v_int j) (\<lambda>tot. ebnd (field ''eof'' v_bool j) (\<lambda>eof.
     Inr \<lparr>jo_job_id = job, jo_state = st, jo_exit = code, jo_output = out, jo_offset = off, jo_bytes = n,
          jo_total = tot, jo_eof = eof\<rparr>))))))))"

record kill_result =
  kr_job_id :: int
  kr_state :: string
  kr_exit :: "int option"
  kr_signal :: string
  kr_sent :: bool
  kr_exited :: bool
  kr_forced :: bool

definition kill_result_of :: "json \<Rightarrow> exn + kill_result" where
  "kill_result_of j =
     ebnd (field ''job_id'' v_int j) (\<lambda>job. ebnd (field ''state'' v_str j) (\<lambda>st.
     ebnd (field_or ''exit_code'' None (v_opt v_int) j) (\<lambda>code. ebnd (field ''signal'' v_str j) (\<lambda>sg.
     ebnd (field ''sent'' v_bool j) (\<lambda>sent. ebnd (field ''exited'' v_bool j) (\<lambda>ex.
     ebnd (field_or ''forced'' False v_bool j) (\<lambda>f.
     Inr \<lparr>kr_job_id = job, kr_state = st, kr_exit = code, kr_signal = sg, kr_sent = sent, kr_exited = ex, kr_forced = f\<rparr>)))))))"

definition job_priority :: "int option \<Rightarrow> int option sbx" where
  "job_priority p = (case p of Some v \<Rightarrow> ret (Some v) | None \<Rightarrow> gets (\<lambda>s. exec_priority (defaults (f_config s))))"

record sandbox_options =
  so_extmem :: "int option"
  so_window :: "int option"
  so_deny :: "string list"
  so_time_limit :: "int option"

definition opt_param :: "bool \<Rightarrow> string \<Rightarrow> json \<Rightarrow> (string \<times> json) list" where
  "opt_param b k v = (if b then [(k, v)] else [])"

text \<open>\<open>sb\<close>: the options of \<^verbatim>\<open>sandbox=True\<close>; the arguments then travel inside the command.\<close>

definition exec_cmd ::
    "string \<Rightarrow> string \<Rightarrow> string list \<Rightarrow> string \<Rightarrow> int \<Rightarrow> int option \<Rightarrow> bool \<Rightarrow> sandbox_options option \<Rightarrow> exec_result sbx" where
  "exec_cmd target command args cwd timeout_ms priority return_running sb =
     bnd (fleet_mcpd target) (\<lambda>_.
     bnd (case sb of None \<Rightarrow> ret (command, None)
          | Some o' \<Rightarrow> bnd (sandbox_job_command target command args (so_extmem o') (so_window o') (so_deny o') (so_time_limit o'))
              (\<lambda>(cmd, name). ret (cmd, Some name))) (\<lambda>(cmd, sname).
     bnd (job_priority priority) (\<lambda>pri.
     bnd (rpc target ''exec.cmd'' (JObj (exec_params cmd timeout_ms
            @ opt_param (sb \<noteq> None) ''sandboxed'' (JBool True)
            @ opt_param (sb = None \<and> args \<noteq> []) ''args'' (JArr (map JStr args))
            @ opt_param (cwd \<noteq> []) ''cwd'' (JStr cwd)
            @ (case pri of Some p \<Rightarrow> [(''priority'', JInt p)] | None \<Rightarrow> [])
            @ opt_param return_running ''return_running'' (JBool True)))) (\<lambda>raw.
     bnd (lift (exec_result_of raw)) (\<lambda>res.
     case sname of None \<Rightarrow> ret res
     | Some name \<Rightarrow> bnd (sandbox_job_result target name (if ex_state res = ''exited'' then ex_exit res else None)) (\<lambda>info.
         ret (res\<lparr>ex_sandbox := Some info\<rparr>)))))))"

definition exec_status :: "string \<Rightarrow> int \<Rightarrow> job_status sbx" where
  "exec_status target job_id = bnd (mcpd_request target ''exec.status'' [(''job_id'', JInt job_id)]) (\<lambda>raw. lift (job_status_of raw))"

definition exec_output :: "string \<Rightarrow> int \<Rightarrow> int \<Rightarrow> int \<Rightarrow> job_output sbx" where
  "exec_output target job_id offset max_bytes =
     bnd (mcpd_request target ''exec.output'' [(''job_id'', JInt job_id), (''offset'', JInt offset), (''max_bytes'', JInt max_bytes)])
       (\<lambda>raw. lift (job_output_of raw))"

definition force_refused :: "string \<Rightarrow> sandbox_probe_result \<Rightarrow> exn option" where
  "force_refused target p =
     (if \<not> p_available p
      then Some (RpcErr InvalidParams ''exec.kill force=True needs SandboxVM on the target''
             (Some (JObj [(''code'', opt_json (p_code p)), (''target'', JStr target)])))
      else if \<not> p_abort p
      then Some (RpcErr NotCapable (''exec.kill force=True needs a SandboxVM that aborts a guest on request; the installed one (''
             @ or_text (p_version p) ''unknown version'' @ '') does not. See derfsss/SandboxVM#1. A break signal (force=False) still works.'')
             (Some (JObj [(''target'', JStr target), (''sandboxvm_version'', opt_json (p_version p))])))
      else None)"

definition exec_kill :: "string \<Rightarrow> int \<Rightarrow> string \<Rightarrow> int \<Rightarrow> bool \<Rightarrow> kill_result sbx" where
  "exec_kill target job_id sig wait_ms force =
     bnd (if force then bnd (sandbox_probe target) (\<lambda>p. case force_refused target p of Some e \<Rightarrow> raise e | None \<Rightarrow> ret ()) else ret ()) (\<lambda>_.
     bnd (mcpd_request target ''exec.kill'' ([(''job_id'', JInt job_id), (''signal'', JStr sig), (''wait_ms'', JInt wait_ms)]
            @ opt_param force ''force'' (JBool True))) (\<lambda>raw. lift (kill_result_of raw)))"

record job_list =
  jl_jobs :: "json list"
  jl_worker :: "int option"
  jl_default :: "int option"
  jl_max :: "int option"

definition v_dict :: "json \<Rightarrow> exn + json" where
  "v_dict j = (case j of JObj kvs \<Rightarrow> Inr j | _ \<Rightarrow> Inl invalid)"

definition exec_list :: "string \<Rightarrow> job_list sbx" where
  "exec_list target = bnd (fleet_mcpd target) (\<lambda>_. bnd (rpc target ''exec.list'' JNull) (\<lambda>raw.
     lift (ebnd (field ''jobs'' (v_list v_dict) raw) (\<lambda>js. ebnd (field_or ''worker_priority'' None (v_opt v_int) raw) (\<lambda>w.
       ebnd (field_or ''default_priority'' None (v_opt v_int) raw) (\<lambda>d. ebnd (field_or ''max_priority'' None (v_opt v_int) raw) (\<lambda>m.
       Inr \<lparr>jl_jobs = js, jl_worker = w, jl_default = d, jl_max = m\<rparr>)))))))"

end
