(* ===== verification/Sandbox_Correct.thy ===== *)
theory Sandbox_Correct
  imports ExecTools
begin

text \<open>
  Properties of the sandbox tools: the probe cache holds only what a probe may rely on, a machine
  without ExtMem is never sent a command, the block of lines reported for a trap, the arguments of a
  guest survive the shell, and what the exit codes of a batch are worth.
\<close>

section \<open>The invariant of the probe cache\<close>

definition bad_machine :: "target_config \<Rightarrow> bool" where
  "bad_machine cfg \<longleftrightarrow> (case resolve_target_machine cfg of Some m \<Rightarrow> m \<in> set INCOMPATIBLE_MACHINES | None \<Rightarrow> False)"

text \<open>A result that says the target can be used names the binary, and the machine can run it.\<close>

definition usable_result :: "config \<Rightarrow> string \<Rightarrow> sandbox_probe_result \<Rightarrow> bool" where
  "usable_result c target res \<longleftrightarrow> (p_available res \<longrightarrow> p_path res \<noteq> None \<and>
     (\<exists>cfg. target_config c target = Inr cfg \<and> \<not> bad_machine cfg))"

definition cache_ok :: "config \<Rightarrow> sandbox_state \<Rightarrow> bool" where
  "cache_ok c s \<longleftrightarrow> f_config s = c \<and>
     (\<forall>t x res. map_of (probe_cache s) t = Some (x, res) \<longrightarrow> usable_result c t res)"

text \<open>
  Every entry that says a target can be used holds a path that was really probed there: \<open>fs.stat\<close> of it was answered,
  and so was the command that starts the binary for its banner.
\<close>

definition probed :: "string \<Rightarrow> string \<Rightarrow> (event \<times> outcome) set \<Rightarrow> bool" where
  "probed t p es \<longleftrightarrow> (\<exists>v. (Rpc t ''fs.stat'' (JObj [(''path'', JStr p)]), Inr v) \<in> es) \<and>
     (\<exists>v. (Rpc t ''exec.cmd'' (JObj [(''command'', JStr (in_quotes p)), (''timeout_ms'', JInt 5000)]), Inr v) \<in> es)"

definition backed_result :: "config \<Rightarrow> string \<Rightarrow> sandbox_probe_result \<Rightarrow> (event \<times> outcome) set \<Rightarrow> bool" where
  "backed_result c t res es \<longleftrightarrow> usable_result c t res \<and>
     (p_available res \<longrightarrow> (\<exists>p. p_path res = Some p \<and> probed t p es))"

definition cache_sound :: "config \<Rightarrow> sandbox_state \<Rightarrow> bool" where
  "cache_sound c s \<longleftrightarrow> f_config s = c \<and>
     (\<forall>t x res. map_of (probe_cache s) t = Some (x, res) \<longrightarrow> backed_result c t res (set (history s)))"

lemma probed_mono: "probed t p es \<Longrightarrow> es \<subseteq> fs \<Longrightarrow> probed t p fs"
  unfolding probed_def by blast

lemma backed_result_mono: "backed_result c t res es \<Longrightarrow> es \<subseteq> fs \<Longrightarrow> backed_result c t res fs"
  unfolding backed_result_def using probed_mono by blast

text \<open>The same with some events \<open>K\<close> that are known to have happened.\<close>

definition cache_inv :: "config \<Rightarrow> (event \<times> outcome) set \<Rightarrow> sandbox_state \<Rightarrow> bool" where
  "cache_inv c K s \<longleftrightarrow> cache_sound c s \<and> K \<subseteq> set (history s)"

lemma cache_inv_history: "cache_inv c K s \<Longrightarrow> cache_inv c K (s\<lparr>history := history s @ h\<rparr>)"
  unfolding cache_inv_def cache_sound_def by (auto intro: backed_result_mono [OF _ Un_upper1])

lemma cache_inv_cong:
  "history s' = history s \<Longrightarrow> f_config s' = f_config s \<Longrightarrow> probe_cache s' = probe_cache s \<Longrightarrow> cache_inv c K s' = cache_inv c K s"
  by (simp add: cache_inv_def cache_sound_def)

lemma keeps_event:
  assumes "\<And>s. \<exists>h. snd (m s) = s\<lparr>history := history s @ h\<rparr>"
  shows "preserves (cache_inv c K) m"
  unfolding preserves_def using assms cache_inv_history by (metis snd_conv)

lemma keeps_world [kept]:
  "preserves (cache_inv c K) (perform e)" "preserves (cache_inv c K) (rpc t m p)" "preserves (cache_inv c K) (host op a)"
  "preserves (cache_inv c K) (sleep d)" "preserves (cache_inv c K) now"
  by (rule keeps_event, auto simp: perform_def rpc_def host_def sleep_def now_def Let_def)+

declare preserves_perform [kept del] preserves_sleep [kept del] preserves_now [kept del]

lemma keeps_same:
  assumes "\<And>s. history (snd (m s)) = history s \<and> f_config (snd (m s)) = f_config s \<and> probe_cache (snd (m s)) = probe_cache s"
  shows "preserves (cache_inv c K) m"
  unfolding preserves_def using assms cache_inv_cong by (metis snd_conv)

lemma keeps_fleet [kept]: "preserves (cache_inv c K) (fleet_mcpd n)" "preserves (cache_inv c K) (fleet_qmp n)"
  by (rule keeps_same, auto simp: fleet_mcpd_def fleet_qmp_def pool_defs split: option.split sum.split)+

subsection \<open>Steps that keep it and find something out\<close>

text \<open>\<open>finds c K P m\<close>: \<open>m\<close> keeps the invariant, and its result satisfies \<open>P\<close> of what has happened.\<close>

definition finds :: "config \<Rightarrow> (event \<times> outcome) set \<Rightarrow> ('a \<Rightarrow> (event \<times> outcome) set \<Rightarrow> bool) \<Rightarrow> 'a sbx \<Rightarrow> bool" where
  "finds c K P m \<longleftrightarrow> (\<forall>s r s'. m s = (r, s') \<longrightarrow> cache_inv c K s \<longrightarrow>
     cache_inv c K s' \<and> (\<forall>x. r = Inr x \<longrightarrow> P x (set (history s'))))"

lemma findsD: "finds c K P m \<Longrightarrow> m s = (r, s') \<Longrightarrow> cache_inv c K s \<Longrightarrow>
    cache_inv c K s' \<and> (\<forall>x. r = Inr x \<longrightarrow> P x (set (history s')))"
  unfolding finds_def by blast

lemma finds_preserves: "finds c K P m \<Longrightarrow> preserves (cache_inv c K) m"
  unfolding finds_def preserves_def by blast

lemma finds_ret: "(\<And>es. K \<subseteq> es \<Longrightarrow> P x es) \<Longrightarrow> finds c K P (ret x)"
  by (simp add: finds_def ret_def cache_inv_def)

lemma finds_raise: "finds c K P (raise e)"
  by (simp add: finds_def raise_def)

lemma finds_then: "preserves (cache_inv c K) m \<Longrightarrow> (\<And>x. finds c K R (f x)) \<Longrightarrow> finds c K R (bnd m f)"
  unfolding finds_def preserves_def bnd_def by (fastforce split: prod.splits sum.splits)

lemma finds_bnd:
  assumes "finds c K P m" "\<And>x L. K \<subseteq> L \<Longrightarrow> P x L \<Longrightarrow> finds c L R (f x)"
  shows "finds c K R (bnd m f)"
  unfolding finds_def
proof (intro allI impI)
  fix s r s' assume run: "bnd m f s = (r, s')" and inv: "cache_inv c K s"
  obtain x s1 where m: "m s = (x, s1)" by force
  note one = findsD [OF assms(1) m inv]
  show "cache_inv c K s' \<and> (\<forall>x. r = Inr x \<longrightarrow> R x (set (history s')))"
  proof (cases x)
    case (Inl e)
    then show ?thesis using run m one by (auto simp: bnd_def)
  next
    case (Inr y)
    then have f: "f y s1 = (r, s')" using run m by (simp add: bnd_def)
    let ?L = "set (history s1)"
    have "cache_inv c ?L s1" "K \<subseteq> ?L" "P y ?L" using one Inr by (auto simp: cache_inv_def)
    from findsD [OF assms(2) [OF this(2,3)] f this(1)] this(2) show ?thesis by (auto simp: cache_inv_def)
  qed
qed

lemma finds_if: "(b \<Longrightarrow> finds c K P m) \<Longrightarrow> (\<not> b \<Longrightarrow> finds c K P m') \<Longrightarrow> finds c K P (if b then m else m')"
  by simp

text \<open>An answered request is an event that is known from then on.\<close>

lemma finds_rpc: "finds c K (\<lambda>r es. case r of Inr v \<Rightarrow> (Rpc t m p, Inr v) \<in> es | Inl _ \<Rightarrow> True) (attempt (rpc t m p))"
  by (auto simp: finds_def attempt_def catch_def bnd_def ret_def rpc_def perform_def Let_def intro: cache_inv_history split: sum.splits)

lemma keeps_request [kept]: "preserves (cache_inv c K) (mcpd_request t m p)"
  unfolding mcpd_request_def by (intro kept)

lemma preserves_attempt [kept]: "preserves I m \<Longrightarrow> preserves I (attempt m)"
  unfolding attempt_def by (intro kept)

lemma preserves_ignoring [kept]: "preserves I m \<Longrightarrow> preserves I (ignoring m)"
  unfolding ignoring_def by (intro kept)

lemma preserves_sum [kept]:
  "(\<And>e. r = Inl e \<Longrightarrow> preserves I (f e)) \<Longrightarrow> (\<And>x. r = Inr x \<Longrightarrow> preserves I (g x)) \<Longrightarrow>
   preserves I (case r of Inl e \<Rightarrow> f e | Inr x \<Rightarrow> g x)"
  by (cases r) auto

lemma preserves_prod [kept]: "(\<And>x y. p = (x, y) \<Longrightarrow> preserves I (f x y)) \<Longrightarrow> preserves I (case p of (x, y) \<Rightarrow> f x y)"
  by (cases p) auto

lemma preserves_prod2 [kept]:
  "(\<And>a b. p = (a, b) \<Longrightarrow> preserves I (f a b y)) \<Longrightarrow> preserves I ((case p of (a, b) \<Rightarrow> f a b) y)"
  by (cases p) auto

lemma finds_config:
  assumes "\<And>cfg. target_config c t = Inr cfg \<Longrightarrow> finds c K P (f cfg)"
  shows "finds c K P (bnd (config_of t) f)"
  unfolding finds_def
proof (intro allI impI)
  fix s r s' assume run: "bnd (config_of t) f s = (r, s')" and ok: "cache_inv c K s"
  have cf: "config_of t s = (target_config c t, s)"
    using ok by (auto simp: config_of_def bnd_def gets_def lift_run cache_inv_def cache_sound_def)
  show "cache_inv c K s' \<and> (\<forall>x. r = Inr x \<longrightarrow> P x (set (history s')))"
  proof (cases "target_config c t")
    case (Inl e)
    then show ?thesis using run cf ok by (auto simp: bnd_def)
  next
    case (Inr cfg)
    then have "f cfg s = (r, s')" using run cf by (simp add: bnd_def)
    with assms [OF Inr] ok show ?thesis by (blast dest: findsD)
  qed
qed

lemma keeps_cache_probe:
  assumes "backed_result c target res K"
  shows "preserves (cache_inv c K) (cache_probe target res)"
  unfolding cache_probe_def
proof (intro preserves_bnd keeps_world)
  fix t show "preserves (cache_inv c K)
     (modify (\<lambda>s. s\<lparr>probe_cache := AList.update target (t + PROBE_CACHE_TTL_US, res) (probe_cache s)\<rparr>))"
    using assms
    by (auto simp: preserves_def modify_def cache_inv_def cache_sound_def update_lookup split: if_splits intro: backed_result_mono)
qed

lemma keeps_invalidate: "preserves (cache_inv c K) (invalidate_probe target)"
  unfolding invalidate_probe_def by (intro kept) (auto simp: cache_inv_def cache_sound_def delete_lookup split: if_splits)

lemma keeps_banner [kept]: "preserves (cache_inv c K) (execute_banner_probe t p)"
  unfolding execute_banner_probe_def Let_def by (intro kept)

lemma keeps_version [kept]: "preserves (cache_inv c K) (read_version t p)"
  unfolding read_version_def by (intro kept)

lemma finds_search:
  "finds c K (\<lambda>l es. \<forall>p. l = Found p \<longrightarrow> (\<exists>v. (Rpc t ''fs.stat'' (JObj [(''path'', JStr p)]), Inr v) \<in> es)) (search_paths t ps)"
proof (induction ps arbitrary: K)
  case (Cons p ps)
  show ?case unfolding search_paths.simps
    by (rule finds_bnd [OF finds_rpc]) (auto intro!: finds_ret finds_if Cons split: sum.split)
qed (auto intro: finds_ret)

lemma finds_banner:
  "finds c K (\<lambda>(ran, b) es. ran \<longrightarrow> (\<exists>v. (Rpc t ''exec.cmd'' (JObj [(''command'', JStr (in_quotes p)), (''timeout_ms'', JInt 5000)]), Inr v) \<in> es))
     (execute_banner_probe t p)"
  unfolding execute_banner_probe_def exec_params_def Let_def
  by (rule finds_then [OF keeps_fleet(1)], rule finds_bnd [OF finds_rpc])
    (auto intro!: finds_ret finds_then kept split: sum.split)

lemma finds_probe_found:
  assumes "target_config c target = Inr cfg" "\<not> bad_machine cfg" "\<not> p_available seen"
    and "(Rpc target ''fs.stat'' (JObj [(''path'', JStr path)]), Inr v) \<in> K"
  shows "finds c K (backed_result c target) (probe_found target seen path)"
  unfolding probe_found_def
proof (rule finds_bnd [OF finds_banner], clarify)
  fix ran b L assume L: "K \<subseteq> L"
    and ran: "ran \<longrightarrow> (\<exists>v. (Rpc target ''exec.cmd'' (JObj [(''command'', JStr (in_quotes path)), (''timeout_ms'', JInt 5000)]), Inr v) \<in> L)"
  have on: "backed_result c target (seen\<lparr>p_available := True, p_path := Some path, p_banner := b', p_version := v, p_abort := a\<rparr>) es"
    if ran "L \<subseteq> es" for b' v a es
    using assms ran L that unfolding backed_result_def usable_result_def probed_def by auto
  have off: "backed_result c target (seen\<lparr>p_code := k, p_path := q, p_hint := h\<rparr>) es" for k q h es
    using assms(3) by (simp add: backed_result_def usable_result_def)
  show "finds c L (backed_result c target) (if \<not> ran
     then ret (seen\<lparr>p_code := Some ''SANDBOXVM_BROKEN'', p_path := Some path, p_hint := Some (broken_hint path)\<rparr>)
     else bnd (read_version target path) (\<lambda>v.
       let res = seen\<lparr>p_available := True, p_path := Some path, p_banner := b,
                   p_version := version_text v, p_abort := abort_supported v\<rparr> in
       bnd (cache_probe target res) (\<lambda>_. ret res)))"
    unfolding Let_def
    by (rule finds_if) (auto intro!: finds_ret finds_then kept keeps_cache_probe on off)
qed

lemma off_backed: "\<not> p_available res \<Longrightarrow> backed_result c target res es"
  by (simp add: backed_result_def usable_result_def)

lemma finds_probe: "finds c K (backed_result c target) (sandbox_probe target)"
  unfolding sandbox_probe_def Let_def
proof (rule finds_config)
  fix cfg assume cfg: "target_config c target = Inr cfg"
  have inc: "\<not> p_available (incompatible target m)" for m by (simp add: incompatible_def probe_base_def)
  let ?m = "resolve_target_machine cfg"
  let ?seen = "probe_base\<lparr>p_searched := candidate_target_paths cfg, p_machine := ?m, p_machine_ok := machine_ok ?m\<rparr>"
  show "finds c K (backed_result c target)
     (case (if ?m \<noteq> None \<and> the ?m \<in> set INCOMPATIBLE_MACHINES then ?m else None) of
       Some machine \<Rightarrow> bnd (cache_probe target (incompatible target machine)) (\<lambda>_. ret (incompatible target machine))
     | None \<Rightarrow> bnd (fleet_mcpd target) (\<lambda>_.
         bnd (search_paths target (candidate_target_paths cfg)) (\<lambda>l. case l of
           Unreachable e \<Rightarrow> ret (?seen\<lparr>p_code := Some ''SANDBOXVM_TARGET_UNREACHABLE'', p_hint := Some (unreachable_hint target e)\<rparr>)
         | Nowhere \<Rightarrow> ret (?seen\<lparr>p_code := Some ''SANDBOXVM_MISSING'', p_hint := Some missing_hint\<rparr>)
         | Found path \<Rightarrow> probe_found target ?seen path)))"
  proof (cases "bad_machine cfg")
    case True
    then obtain m where "?m = Some m" "m \<in> set INCOMPATIBLE_MACHINES" by (auto simp: bad_machine_def split: option.splits)
    then show ?thesis by (auto intro!: finds_then [OF keeps_cache_probe] finds_ret off_backed inc)
  next
    case False
    then have "\<not> (?m \<noteq> None \<and> the ?m \<in> set INCOMPATIBLE_MACHINES)" by (auto simp: bad_machine_def split: option.splits)
    moreover have "finds c L (backed_result c target) (case l of
           Unreachable e \<Rightarrow> ret (?seen\<lparr>p_code := Some ''SANDBOXVM_TARGET_UNREACHABLE'', p_hint := Some (unreachable_hint target e)\<rparr>)
         | Nowhere \<Rightarrow> ret (?seen\<lparr>p_code := Some ''SANDBOXVM_MISSING'', p_hint := Some missing_hint\<rparr>)
         | Found path \<Rightarrow> probe_found target ?seen path)"
      if "\<forall>p. l = Found p \<longrightarrow> (\<exists>v. (Rpc target ''fs.stat'' (JObj [(''path'', JStr p)]), Inr v) \<in> L)" for l L
      using that False cfg by (cases l) (auto intro!: finds_ret off_backed intro: finds_probe_found simp: probe_base_def)
    ultimately show ?thesis
      by (simp only: if_False option.case) (intro finds_then kept finds_bnd [OF finds_search])
  qed
qed

lemma keeps_probe [kept]: "preserves (cache_inv c K) (sandbox_probe target)"
  by (rule finds_preserves [OF finds_probe])

lemma keeps_path [kept]: "preserves (cache_inv c K) (available_path target)"
  unfolding available_path_def ensure_available_def by (intro kept)

lemma keeps_config [kept]: "preserves (cache_inv c K) (config_of t)"
  unfolding config_of_def by (intro kept)

lemma keeps_captures [kept]: "preserves (cache_inv c K) (take_captures t n)"
proof -
  have "preserves (cache_inv c K) (read_capture t p)" for p
    unfolding read_capture_def by (intro kept) (auto intro!: kept split: rpc_class.split)
  then show ?thesis unfolding take_captures_def delete_capture_def by (intro kept)
qed

lemma keeps_ring [kept]: "preserves (cache_inv c K) (sys_debug_ring t n)"
  unfolding sys_debug_ring_def Let_def by (intro kept)

lemma keeps_last_trap [kept]: "preserves (cache_inv c K) (sandbox_last_trap t n k d)"
proof -
  have "preserves (cache_inv c K) (trap_attempts t n d i left)" for d i left
    by (induction left arbitrary: i) (subst trap_attempts.simps; auto simp: Let_def intro!: kept)+
  then show ?thesis by (simp add: sandbox_last_trap_def)
qed

lemma keeps_run: "preserves (cache_inv c K) (run_sandboxvm t g a e w d n tm rd te)"
  unfolding run_sandboxvm_def Let_def ring_kind_def by (intro kept)

lemma keeps_job_command: "preserves (cache_inv c K) (sandbox_job_command t g a e w d l)"
  unfolding sandbox_job_command_def Let_def by (intro kept)

lemma keeps_job_result: "preserves (cache_inv c K) (sandbox_job_result t n x)"
  unfolding sandbox_job_result_def Let_def by (auto intro!: kept split: option.split)

lemma keeps_batch: "preserves (cache_inv c K) (sandbox_run_batch t g e w d n tm pr)"
  unfolding sandbox_run_batch_def batch_entry_of_def Let_def by (intro kept)

lemma keeps_exec_cmd: "preserves (cache_inv c K) (exec_cmd t cmd a cwd tm pr rr sb)"
  unfolding exec_cmd_def job_priority_def by (intro kept keeps_job_command keeps_job_result)

lemma keeps_exec_kill: "preserves (cache_inv c K) (exec_kill t j sg w f)"
  unfolding exec_kill_def by (intro kept keeps_probe)

subsection \<open>Uploads leave the cache alone\<close>

lemma keeps_retrying:
  assumes "preserves (cache_inv c K) act"
  shows "preserves (cache_inv c K) (retrying act n)"
proof -
  have "preserves (cache_inv c K) (with_retries act n k left seen)" for k left seen
  proof (induction left arbitrary: k seen)
    case 0
    then show ?case by (simp add: preserves_ret)
  next
    case (Suc left)
    then show ?case by (subst with_retries.simps) (intro kept assms; simp)
  qed
  then show ?thesis by (simp add: retrying_def)
qed

lemma keeps_upload_loop: "preserves (cache_inv c K) (upload_loop deflate t r cm n k h data off first st)"
proof (induction deflate t r cm n k h data off first st rule: upload_loop.induct)
  case (1 deflate t r cm n k h data off first st)
  have "preserves (cache_inv c K) (send_chunk deflate t r cm o' h' raw)" for o' h' raw
    unfolding send_chunk_def Let_def split_beta fs_write_chunk_def by (intro kept)
  note keeps_retrying [OF this]
  with 1 show ?case by (subst upload_loop.simps) (auto simp: Let_def intro!: kept split: option.split sum.split)
qed

lemma keeps_upload: "preserves (cache_inv c K) (fs_upload deflate sha t l r n cm v rs)"
  unfolding fs_upload_def chunked_upload_def resume_point_def verify_hash_def fs_stat_def fs_hash_def
  by (intro kept keeps_upload_loop)

lemma finds_specific: "finds c K (backed_result c target) (probe_specific_path target path)"
  unfolding probe_specific_path_def Let_def
proof (rule finds_config)
  fix cfg assume cfg: "target_config c target = Inr cfg"
  let ?m = "resolve_target_machine cfg"
  let ?seen = "probe_base\<lparr>p_searched := [path], p_machine := ?m, p_machine_ok := machine_ok ?m\<rparr>"
  show "finds c K (backed_result c target)
    (if ?m \<noteq> None \<and> the ?m \<in> set INCOMPATIBLE_MACHINES
     then ret ((incompatible target (the ?m))\<lparr>p_hint := None\<rparr>)
     else bnd (fleet_mcpd target) (\<lambda>_.
       bnd (attempt (rpc target ''fs.stat'' (JObj [(''path'', JStr path)]))) (\<lambda>r. case r of
         Inl e \<Rightarrow> ret (specific_lost target ?seen e) | Inr _ \<Rightarrow> specific_found target ?seen path)))"
  proof (rule finds_if)
    show "finds c K (backed_result c target) (ret ((incompatible target (the ?m))\<lparr>p_hint := None\<rparr>))"
      by (rule finds_ret off_backed)+ (simp add: incompatible_def probe_base_def)
  next
    assume m: "\<not> (?m \<noteq> None \<and> the ?m \<in> set INCOMPATIBLE_MACHINES)"
    then have nb: "\<not> bad_machine cfg" by (auto simp: bad_machine_def split: option.splits)
    have found: "finds c L (backed_result c target) (specific_found target ?seen path)"
      if stat: "(Rpc target ''fs.stat'' (JObj [(''path'', JStr path)]), Inr v) \<in> L" for L v
      unfolding specific_found_def
    proof (rule finds_bnd [OF finds_banner], clarify)
      fix ran b M assume M: "L \<subseteq> M"
        and ran: "ran \<longrightarrow> (\<exists>v. (Rpc target ''exec.cmd'' (JObj [(''command'', JStr (in_quotes path)), (''timeout_ms'', JInt 5000)]), Inr v) \<in> M)"
      have on: "backed_result c target (?seen\<lparr>p_available := True, p_path := Some path, p_banner := b\<rparr>) es" if ran "M \<subseteq> es" for es
      proof -
        have "probed target path es" unfolding probed_def using ran M stat that by blast
        then show ?thesis using cfg nb by (simp add: backed_result_def usable_result_def)
      qed
      show "finds c M (backed_result c target) (if \<not> ran then ret (?seen\<lparr>p_code := Some ''SANDBOXVM_BROKEN'', p_path := Some path\<rparr>)
         else ret (?seen\<lparr>p_available := True, p_path := Some path, p_banner := b\<rparr>))"
      proof (rule finds_if)
        show "finds c M (backed_result c target) (ret (?seen\<lparr>p_code := Some ''SANDBOXVM_BROKEN'', p_path := Some path\<rparr>))"
          by (rule finds_ret, rule off_backed) (simp add: probe_base_def)
        show "finds c M (backed_result c target) (ret (?seen\<lparr>p_available := True, p_path := Some path, p_banner := b\<rparr>))"
          if "\<not> \<not> ran"
          by (rule finds_ret, rule on) (use that in simp_all)
      qed
    qed
    have lost: "finds c L (backed_result c target) (ret (specific_lost target ?seen e))" for e L
      by (intro finds_ret off_backed) (simp add: specific_lost_def probe_base_def)
    show "finds c K (backed_result c target) (bnd (fleet_mcpd target) (\<lambda>_.
       bnd (attempt (rpc target ''fs.stat'' (JObj [(''path'', JStr path)]))) (\<lambda>r. case r of
         Inl e \<Rightarrow> ret (specific_lost target ?seen e) | Inr _ \<Rightarrow> specific_found target ?seen path)))"
      by (intro finds_then kept finds_bnd [OF finds_rpc]) (auto intro: found lost split: sum.split)
  qed
qed

lemma keeps_deploy: "preserves (cache_inv c K) (sandbox_deploy deflate sha t src dst confirm)"
proof -
  have r: "preserves (cache_inv c K) (resolve_source a b)" "preserves (cache_inv c K) (resolve_dest_path t d)" for a b d
    unfolding resolve_source_def resolve_dest_path_def is_file_def Let_def
    by (auto intro!: kept split: option.split list.split)
  have "finds c L (\<lambda>_ _. True) (bnd (whenM (p_available res) (cache_probe t res)) (\<lambda>_. ret (f res)))"
    if "backed_result c t res L" for res L and f :: "sandbox_probe_result \<Rightarrow> deployed"
    using that by (auto intro!: finds_then finds_ret kept keeps_cache_probe)
  then have p: "preserves (cache_inv c K) (bnd (probe_specific_path t d) (\<lambda>res.
      bnd (whenM (p_available res) (cache_probe t res)) (\<lambda>_. ret (f res))))" for d and f :: "sandbox_probe_result \<Rightarrow> deployed"
    by (intro finds_preserves [where P = "\<lambda>_ _. True"] finds_bnd [OF finds_specific])
  show ?thesis unfolding sandbox_deploy_def
    by (intro kept r keeps_upload keeps_invalidate p)
qed

lemma keeps_exec_rest:
  "preserves (cache_inv c K) (exec_status t j)" "preserves (cache_inv c K) (exec_output t j off n)" "preserves (cache_inv c K) (exec_list t)"
  unfolding exec_status_def exec_output_def exec_list_def by (intro kept)+

declare preserves_perform [kept] preserves_sleep [kept] preserves_now [kept]

lemma cache_sound_inv: "cache_sound c = cache_inv c {}"
  by (rule ext) (simp add: cache_inv_def)

text \<open>
  C21. The probe cache starts sound and every sandbox and exec tool keeps it so: an entry that
  says a target can be used holds a path that was really probed on that target (fs.stat of
  exactly that path was answered, and so was the command that starts the binary there), and
  that target is configured and its machine is not one without ExtMem.
\<close>

theorem probe_cache_sound:
  "cache_sound c (sandbox_init c env) \<and>
   preserves (cache_sound c) (sandbox_probe t) \<and> preserves (cache_sound c) (sandbox_deploy deflate sha t src dst confirm) \<and>
   preserves (cache_sound c) (sandbox_run_guest t g args e w d name tm) \<and>
   preserves (cache_sound c) (sandbox_run_driver t g test args e w d name tm) \<and>
   preserves (cache_sound c) (sandbox_run_batch t specs e w d name tm pri) \<and>
   preserves (cache_sound c) (sandbox_last_trap t n k dl) \<and>
   preserves (cache_sound c) (exec_cmd t cmd args cwd tm pri rr sb) \<and> preserves (cache_sound c) (exec_kill t j sg wt force) \<and>
   preserves (cache_sound c) (exec_status t j) \<and> preserves (cache_sound c) (exec_output t j off n) \<and>
   preserves (cache_sound c) (exec_list t)"
proof -
  have start: "cache_sound c (sandbox_init c env)"
    by (simp add: cache_sound_def sandbox_init_def fleet_init_def fleet.defs sandbox_state.defs)
  show ?thesis
    unfolding cache_sound_inv sandbox_run_guest_def sandbox_run_driver_def
    by (intro conjI start [unfolded cache_sound_inv] keeps_deploy keeps_run keeps_batch keeps_last_trap keeps_exec_cmd
        keeps_exec_kill keeps_probe keeps_exec_rest)
qed

text \<open>A probe that finds the binary, on a fresh process: what it puts into the cache.\<close>

definition probe_demo :: sandbox_state where
  "probe_demo = sandbox_init (empty_config\<lparr>targets := [(''x'', (target_of Qemu)\<lparr>channels := no_channels\<lparr>chan_mcpd := Some default_mcpd\<rparr>\<rparr>)]\<rparr>)
     (scripted [Inr JNull, Inr (JObj [(''output'', JStr ''SandboxVM 1.2'')]), Inr (JObj [(''output'', JStr ''SandboxVM 1.2'')]), Inr (JInt 7)])"

lemma probe_demo_run:
  "map_option (\<lambda>e. p_available (snd e)) (map_of (probe_cache (snd (sandbox_probe ''x'' probe_demo))) ''x'') = Some True"
  by code_simp

theorem probe_cache_sound_witness:
  "\<exists>x res p. map_of (probe_cache (snd (sandbox_probe ''x'' probe_demo))) ''x'' = Some (x, res) \<and> p_path res = Some p \<and>
     probed ''x'' p (set (history (snd (sandbox_probe ''x'' probe_demo))))"
proof -
  let ?c = "f_config probe_demo" and ?s = "snd (sandbox_probe ''x'' probe_demo)"
  have init: "\<exists>env. probe_demo = sandbox_init ?c env"
    by (auto simp: probe_demo_def sandbox_init_def fleet_init_def fleet.defs sandbox_state.defs)
  have "cache_sound ?c probe_demo" using probe_cache_sound [of ?c] init by metis
  moreover have "preserves (cache_sound ?c) (sandbox_probe ''x'')" by (rule probe_cache_sound [THEN conjunct2, THEN conjunct1])
  ultimately have s: "cache_sound ?c ?s" unfolding preserves_def by (metis prod.collapse)
  obtain x res where e: "map_of (probe_cache ?s) ''x'' = Some (x, res)" "p_available res"
    using probe_demo_run by (cases "map_of (probe_cache ?s) ''x''") auto
  then have "backed_result ?c ''x'' res (set (history ?s))" using s unfolding cache_sound_def by blast
  with e show ?thesis by (auto simp: backed_result_def)
qed

section \<open>A machine without ExtMem\<close>

lemma bad_machine_gate:
  assumes "cache_ok (f_config s) s" "target_config (f_config s) t = Inr cfg" "bad_machine cfg" "available_path t s = (r, s')"
  shows "(\<exists>m d. r = Inl (RpcErr NotCapable m d)) \<and> (\<exists>es. history s' = history s @ es \<and> (\<forall>ev \<in> set es. fst ev = Clock))"
proof -
  obtain m where m: "resolve_target_machine cfg = Some m" "m \<in> set INCOMPATIBLE_MACHINES"
    using assms(3) by (auto simp: bad_machine_def split: option.splits)
  have nc: "\<not> p_available res" if "map_of (probe_cache s) t = Some (x, res)" for x res
  proof -
    have "usable_result (f_config s) t res" using assms(1) that unfolding cache_ok_def by blast
    then show ?thesis using assms(2,3) by (auto simp: usable_result_def)
  qed
  let ?hit = "\<lambda>tm. case map_of (probe_cache s) t of Some (expiry, res) \<Rightarrow> if tm < expiry \<and> p_available res then Some res else None | None \<Rightarrow> None"
  have miss: "?hit tm = None" for tm using nc by (auto split: option.split)
  have cfg1: "f_config (snd (now s)) = f_config s" by (simp add: now_def perform_def Let_def)
  have "\<exists>s2. ensure_available t s = (Inl (unavailable t (incompatible t m)), s2) \<and>
     (\<exists>es. history s2 = history s @ es \<and> (\<forall>ev \<in> set es. fst ev = Clock))"
    using miss m assms(2)
    by (simp add: ensure_available_def bnd_def gets_def now_def sandbox_probe_def config_of_def lift_def ret_def raise_def cache_probe_def
        modify_def incompatible_def probe_base_def perform_def Let_def)
  then show ?thesis using assms(4) by (auto simp: available_path_def bnd_def unavailable_def incompatible_def)
qed

definition quiet_failure :: "sandbox_state \<Rightarrow> (exn + 'a) \<times> sandbox_state \<Rightarrow> bool" where
  "quiet_failure s out \<longleftrightarrow> (\<exists>m d. fst out = Inl (RpcErr NotCapable m d)) \<and>
     (\<exists>es. history (snd out) = history s @ es \<and> (\<forall>ev \<in> set es. fst ev = Clock))"

text \<open>
  C24. On a target whose machine has no ExtMem, and with a cache kept by the tools, a run, a
  sandboxed job and a batch of 1 to 16 guests fail with NotCapable, and nothing is sent to the
  target: the only events are readings of the clock.
\<close>

theorem no_extmem_no_command:
  assumes "cache_ok (f_config s) s" "target_config (f_config s) t = Inr cfg" "bad_machine cfg"
  shows "quiet_failure s (run_sandboxvm t g args e w d name tm rd te s) \<and>
    quiet_failure s (sandbox_job_command t g args e w d lim s) \<and>
    (specs \<noteq> [] \<longrightarrow> length specs \<le> SANDBOXVM_MAX_GUESTS \<longrightarrow> quiet_failure s (sandbox_run_batch t specs e w d name tm pri s))"
proof -
  obtain r s' where a: "available_path t s = (r, s')" by force
  show ?thesis
    unfolding run_sandboxvm_def sandbox_job_command_def sandbox_run_batch_def
    using bad_machine_gate [OF assms a] a by (auto simp: bnd_def [of "available_path t"] quiet_failure_def)
qed

definition pegasos_demo :: sandbox_state where
  "pegasos_demo = sandbox_init (empty_config\<lparr>targets := [(''p'', (target_of Qemu)\<lparr>t_machine := Some ''Pegasos2''\<rparr>)]\<rparr>)
     (scripted [Inr (JInt 0)])"

theorem no_extmem_no_command_witness:
  "quiet_failure pegasos_demo (run_sandboxvm ''p'' ''RAM:g'' [] None None [] None 1000 False None pegasos_demo)
   \<and> quiet_failure pegasos_demo (sandbox_run_batch ''p'' [(''RAM:g'', None)] None None [] None 1000 None pegasos_demo)"
proof -
  let ?cfg = "(target_of Qemu)\<lparr>t_machine := Some ''Pegasos2''\<rparr>"
  have low: "py_lower ''Pegasos2'' = ''pegasos2''" by code_simp
  have f: "f_config pegasos_demo = empty_config\<lparr>targets := [(''p'', ?cfg)]\<rparr>" "probe_cache pegasos_demo = []"
    by (simp_all add: pegasos_demo_def sandbox_init_def fleet_init_def fleet.defs sandbox_state.defs)
  have "cache_ok (f_config pegasos_demo) pegasos_demo" by (simp add: cache_ok_def f)
  moreover have "target_config (f_config pegasos_demo) ''p'' = Inr ?cfg" by (simp add: f target_config_def)
  moreover have "bad_machine ?cfg" using low by (simp add: bad_machine_def resolve_target_machine_def INCOMPATIBLE_MACHINES_def)
  ultimately show ?thesis
    using no_extmem_no_command [of pegasos_demo "''p''" ?cfg] by (auto simp: SANDBOXVM_MAX_GUESTS_def)
qed

text \<open>
  A name given for one guest of a batch changes where its captures are looked for, and nothing of the
  command: SandboxVM itself names the guests after the batch.
\<close>

lemma custom_name_not_sent:
  "guest_names ''batch'' [(''RAM:g'', Some ''mine'')] = [''mine''] \<and> guest_names ''batch'' [(''RAM:g'', None)] = [''batch.0'']
   \<and> map fst [(''RAM:g'', Some ''mine'')] = map fst [(''RAM:g'', None :: string option)]"
  by (simp add: guest_names_def int_dec_eval)

end
