(* ===== verification/InputTools.thy ===== *)
theory InputTools
  imports Tools SysTools SandboxText
begin

text \<open>
  The input tools (\<^verbatim>\<open>tools/input.py\<close>): what is checked before a keystroke, a click or a movement is sent
  to a target, and the one request it becomes.  Texts are kept as their UTF-8 bytes; \<open>sha\<close> is the hexadecimal
  digest of the standard library.
\<close>

section \<open>Results\<close>

record input_result =
  in_events :: int
  in_duration_ms :: int
  in_truncated :: bool

record type_result = input_result +
  ty_text_len :: int
  ty_mapped :: int
  ty_unmapped :: "string list"
  ty_keymap :: string
  ty_sha256 :: string

record key_result = input_result +
  ke_keys :: "string list"

record mouse_result = input_result +
  mo_mode :: string
  mo_button :: "string option"
  mo_count :: "int option"
  mo_direction :: "string option"
  mo_clicks :: "int option"
  mo_x :: "int option"
  mo_y :: "int option"

record input_state =
  st_enabled :: bool
  st_pointer :: "int option \<times> int option"
  st_screens :: "string option \<times> string option"
  st_window :: "string option"
  st_window_box :: "int option \<times> int option \<times> int option \<times> int option"
  st_screen_size :: "int option \<times> int option"

text \<open>\<^verbatim>\<open>{**raw, ..}\<close> of a reply that is not a dictionary fails.\<close>

definition spread :: "json \<Rightarrow> exn + json" where
  "spread raw = (case raw of JObj kvs \<Rightarrow> Inr raw | _ \<Rightarrow> Inl (PyErr TypeError []))"

abbreviation opt_int :: "string \<Rightarrow> json \<Rightarrow> exn + int option" where
  "opt_int k j \<equiv> field_or k None (v_opt v_int) j"

abbreviation opt_str :: "string \<Rightarrow> json \<Rightarrow> exn + string option" where
  "opt_str k j \<equiv> field_or k None (v_opt v_str) j"

definition input_result_of :: "json \<Rightarrow> exn + input_result" where
  "input_result_of j =
     ebnd (field_or ''events'' 0 v_int j) (\<lambda>n. ebnd (field_or ''duration_ms'' 0 v_int j) (\<lambda>d.
     ebnd (field_or ''truncated'' False v_bool j) (\<lambda>tr.
     Inr \<lparr>in_events = n, in_duration_ms = d, in_truncated = tr\<rparr>)))"

definition type_result_of :: "string \<Rightarrow> nat \<Rightarrow> json \<Rightarrow> exn + type_result" where
  "type_result_of sha n raw =
     ebnd (spread raw) (\<lambda>j. ebnd (input_result_of j) (\<lambda>base.
     ebnd (field_or ''text_len'' (int n) v_int j) (\<lambda>len. ebnd (field_or ''chars_mapped'' 0 v_int j) (\<lambda>m.
     ebnd (field_or ''unmapped'' [] (v_list v_str) j) (\<lambda>un. ebnd (field_or ''keymap'' [] v_str j) (\<lambda>km.
     Inr (input_result.extend base (type_result.fields len m un km sha))))))))"

definition key_result_of :: "string list \<Rightarrow> json \<Rightarrow> exn + key_result" where
  "key_result_of ks raw =
     ebnd (spread raw) (\<lambda>j. ebnd (input_result_of j) (\<lambda>base.
     Inr (input_result.extend base (key_result.fields ks))))"

definition mouse_result_of :: "json \<Rightarrow> exn + mouse_result" where
  "mouse_result_of raw =
     ebnd (spread raw) (\<lambda>j. ebnd (input_result_of j) (\<lambda>base.
     ebnd (field_or ''mode'' ''relative'' v_str j) (\<lambda>m. ebnd (opt_str ''button'' j) (\<lambda>b.
     ebnd (opt_int ''count'' j) (\<lambda>n. ebnd (opt_str ''direction'' j) (\<lambda>d. ebnd (opt_int ''clicks'' j) (\<lambda>c.
     ebnd (opt_int ''x'' j) (\<lambda>x. ebnd (opt_int ''y'' j) (\<lambda>y.
     Inr (input_result.extend base (mouse_result.fields m b n d c x y)))))))))))"

definition input_state_of :: "json \<Rightarrow> exn + input_state" where
  "input_state_of raw = ebnd (spread raw) (\<lambda>j.
     ebnd (field_or ''enabled'' False v_bool j) (\<lambda>en. ebnd (opt_int ''pointer_x'' j) (\<lambda>px. ebnd (opt_int ''pointer_y'' j) (\<lambda>py.
     ebnd (opt_str ''frontmost_screen'' j) (\<lambda>fs. ebnd (opt_str ''active_screen'' j) (\<lambda>as. ebnd (opt_str ''active_window'' j) (\<lambda>aw.
     ebnd (opt_int ''active_window_left'' j) (\<lambda>l. ebnd (opt_int ''active_window_top'' j) (\<lambda>t.
     ebnd (opt_int ''active_window_width'' j) (\<lambda>w. ebnd (opt_int ''active_window_height'' j) (\<lambda>h.
     ebnd (opt_int ''screen_width'' j) (\<lambda>sw. ebnd (opt_int ''screen_height'' j) (\<lambda>sh.
     Inr \<lparr>st_enabled = en, st_pointer = (px, py), st_screens = (fs, as), st_window = aw, st_window_box = (l, t, w, h),
          st_screen_size = (sw, sh)\<rparr>)))))))))))))"

section \<open>Checks\<close>

definition refusal :: "string \<Rightarrow> exn" where
  "refusal m = RpcErr InvalidParams m None"

definition input_disabled :: "string \<Rightarrow> exn" where
  "input_disabled target = RpcErr NotCapable (''input injection is not enabled for this target. TWO gates must both be open: ''
     @ ''(1) host config '' @ em_dash @ '' set [targets.<name>.input] enabled = true; (2) the daemon ''
     @ [CHR 0xE2, CHR 0x80, CHR 0x94] @ '' start MCPd with --enable-input, or create SYS:System/MCPd/ENABLE-INPUT on the target ''
     @ ''and restart MCPd (see MCPd-Enable-Input). The daemon gate is the real control; the host one is a wrong-target guard.'')
     (Some (JObj [(''target'', JStr target)]))"

definition resolve_input :: "config \<Rightarrow> string \<Rightarrow> exn + input_config" where
  "resolve_input c target = ebnd (target_config c target) (\<lambda>cfg. case t_input cfg of
       Some ic \<Rightarrow> if input_enabled ic then Inr ic else Inl (input_disabled target)
     | None \<Rightarrow> Inl (input_disabled target))"

definition input_confirm :: "bool \<Rightarrow> string \<Rightarrow> exn + unit" where
  "input_confirm confirm op = (if confirm then Inr () else Inl (RpcErr InvalidParams (''input.'' @ op
     @ '' requires confirm=True '' @ em_dash @ '' this injects real keyboard/mouse input into the ''
     @ ''target's UI, acting on whatever window is currently focused'')
     (Some (JObj [(''hint'', JStr ''pass confirm=True to acknowledge'')]))))"

definition check_events_budget :: "int \<Rightarrow> input_config \<Rightarrow> string \<Rightarrow> exn + unit" where
  "check_events_budget requested cfg op = (if requested > max_events cfg
     then Inl (RpcErr InvalidParams (''input.'' @ op @ '' needs about '' @ int_dec requested
        @ '' input events; this target allows '' @ int_dec (max_events cfg)
        @ '' per call ([targets.<name>.input] max_events). Split it up, or raise the limit.'')
        (Some (JObj [(''requested'', JInt requested), (''max_events'', JInt (max_events cfg))])))
     else Inr ())"

definition check_delay :: "int option \<Rightarrow> exn + unit" where
  "check_delay d = (case d of
       Some n \<Rightarrow> if 0 \<le> n \<and> n \<le> 1000 then Inr () else Inl (RpcErr InvalidParams ''delay_ms must be between 0 and 1000''
           (Some (JObj [(''delay_ms'', JInt n)])))
     | None \<Rightarrow> Inr ())"

text \<open>
  A character beyond U+00FF: in UTF-8 its first byte is at least \<open>0xC4\<close>.  \<open>first_wide\<close> is the first such
  character, as its bytes.
\<close>

definition wide_lead :: "char \<Rightarrow> bool" where
  "wide_lead c \<longleftrightarrow> 196 \<le> ord c"

definition first_wide :: "string \<Rightarrow> string option" where
  "first_wide s = (case dropWhile (\<lambda>c. \<not> wide_lead c) s of [] \<Rightarrow> None | c # r \<Rightarrow> Some (c # takeWhile is_cont r))"

text \<open>\<^verbatim>\<open>ord(ch)\<close>, from the bytes of one character.\<close>

definition codepoint :: "string \<Rightarrow> nat" where
  "codepoint u = (case u of [] \<Rightarrow> 0 | c # r \<Rightarrow>
     foldl (\<lambda>n d. n * 64 + ord d mod 64) (if ord c < 128 then ord c else if ord c < 224 then ord c mod 32
        else if ord c < 240 then ord c mod 16 else ord c mod 8) r)"

definition hex_upper :: "nat \<Rightarrow> nat \<Rightarrow> string" where
  "hex_upper w n = (let h = py_upper (nat_hex n) in replicate (w - length h) CHR ''0'' @ h)"

definition encode_text :: "string \<Rightarrow> input_config \<Rightarrow> exn + string" where
  "encode_text txt cfg =
     (if txt = [] then Inl (refusal ''text must not be empty'')
      else if int (ulen txt) > max_text_len cfg
      then Inl (RpcErr InvalidParams (''text is '' @ nat_dec (ulen txt) @ '' characters; limit is '' @ int_dec (max_text_len cfg))
             (Some (JObj [(''len'', JInt (int (ulen txt))), (''max'', JInt (max_text_len cfg))])))
      else case first_wide txt of
        Some u \<Rightarrow> Inl (RpcErr InvalidParams (''text contains '' @ py_repr u @ '' (U+'' @ hex_upper 4 (codepoint u)
            @ ''), which cannot be represented on an AmigaOS keymap '' @ em_dash @ '' input.type is limited to Latin-1'')
            (Some (JObj [(''char'', JStr u), (''codepoint'', JInt (int (codepoint u)))])))
      | None \<Rightarrow> Inr txt)"

text \<open>Both spellings of a chord, reduced to the list of its keys.\<close>

definition chord_keys :: "string \<Rightarrow> string list" where
  "chord_keys chord = filter (\<lambda>p. p \<noteq> []) (map strip (split_on CHR ''+'' chord))"

definition given :: "'a list option \<Rightarrow> bool" where
  "given v \<longleftrightarrow> (case v of Some (x # xs) \<Rightarrow> True | _ \<Rightarrow> False)"

definition normalise_keys :: "string list option \<Rightarrow> string option \<Rightarrow> exn + string list" where
  "normalise_keys keys chord =
     (if given keys \<and> given chord then Inl (refusal ''pass either keys= or chord=, not both'')
      else let ks = (case chord of Some (c # cs) \<Rightarrow> chord_keys (c # cs) | _ \<Rightarrow> (case keys of Some l \<Rightarrow> l | None \<Rightarrow> []))
        in if ks = [] then Inl (refusal (''provide keys=['lamiga','q'] or chord='lamiga+q'' @ [CHR 0x27]))
           else if length ks > 8 then Inl (refusal (''a chord may contain at most 8 keys, got '' @ nat_dec (length ks)))
           else Inr ks)"

definition check :: "bool \<Rightarrow> string \<Rightarrow> exn + unit" where
  "check ok m = (if ok then Inr () else Inl (refusal m))"

definition one_of :: "string list \<Rightarrow> string" where
  "one_of names = (case map in_quotes names of
       [] \<Rightarrow> [] | [a] \<Rightarrow> a | qs \<Rightarrow> join '', '' (butlast qs) @ '' or '' @ last qs)"

definition delay_of :: "input_config \<Rightarrow> int option \<Rightarrow> json" where
  "delay_of cfg d = JInt (case d of Some n \<Rightarrow> n | None \<Rightarrow> default_delay_ms cfg)"

section \<open>Requests\<close>

text \<open>Every operation: the checks, then one request, then the result.\<close>

definition send_input ::
    "string \<Rightarrow> (config \<Rightarrow> exn + (string \<times> json) list) \<Rightarrow> string \<Rightarrow> (json \<Rightarrow> exn + 'a) \<Rightarrow> ('w fleet_scheme, 'a) io" where
  "send_input target params method result =
     bnd (gets f_config) (\<lambda>c. bnd (lift (params c)) (\<lambda>kvs.
     bnd (mcpd_request target method kvs) (\<lambda>raw. lift (result raw))))"

definition get_input_state :: "string \<Rightarrow> ('w fleet_scheme, input_state) io" where
  "get_input_state target = send_input target (\<lambda>c. ebnd (resolve_input c target) (\<lambda>_. Inr [])) ''input.state'' input_state_of"

definition move_params ::
    "string \<Rightarrow> int option \<Rightarrow> int option \<Rightarrow> int option \<Rightarrow> int option \<Rightarrow> string \<Rightarrow> int \<Rightarrow> int option \<Rightarrow> config \<Rightarrow>
     exn + (string \<times> json) list" where
  "move_params target x y dx dy mode steps delay c =
     ebnd (resolve_input c target) (\<lambda>cfg. ebnd (check_delay delay) (\<lambda>_.
     ebnd (check ((x = None) = (y = None)) ''x and y must be given together'') (\<lambda>_.
     ebnd (check ((x = None) \<noteq> (dx = None \<and> dy = None)) ''provide either x+y (absolute) or dx/dy (relative)'') (\<lambda>_.
     ebnd (check (mode \<in> {''delta'', ''raw''}) (''absolute_mode must be '' @ one_of [''delta'', ''raw''])) (\<lambda>_.
     ebnd (check (1 \<le> steps \<and> steps \<le> 64) ''steps must be between 1 and 64'') (\<lambda>_.
     Inr ([(''steps'', JInt steps), (''delay_ms'', delay_of cfg delay)]
       @ (case x of Some px \<Rightarrow> [(''x'', JInt px), (''y'', JInt (the y)), (''absolute_mode'', JStr mode)]
          | None \<Rightarrow> (case dx of Some d \<Rightarrow> [(''dx'', JInt d)] | None \<Rightarrow> [])
              @ (case dy of Some d \<Rightarrow> [(''dy'', JInt d)] | None \<Rightarrow> [])))))))))"

definition input_mouse_move ::
    "string \<Rightarrow> int option \<Rightarrow> int option \<Rightarrow> int option \<Rightarrow> int option \<Rightarrow> string \<Rightarrow> int \<Rightarrow> int option \<Rightarrow>
     ('w fleet_scheme, mouse_result) io" where
  "input_mouse_move target x y dx dy mode steps delay =
     send_input target (move_params target x y dx dy mode steps delay) ''input.mouse_move'' mouse_result_of"

definition scroll_params :: "string \<Rightarrow> int \<Rightarrow> string \<Rightarrow> int option \<Rightarrow> string \<Rightarrow> config \<Rightarrow> exn + (string \<times> json) list" where
  "scroll_params target clicks direction delay style c =
     ebnd (resolve_input c target) (\<lambda>cfg. ebnd (check_delay delay) (\<lambda>_.
     ebnd (check (1 \<le> clicks \<and> clicks \<le> 32) ''clicks must be between 1 and 32'') (\<lambda>_.
     ebnd (check (direction \<in> {''up'', ''down'', ''left'', ''right''})
        (''direction must be '' @ one_of [''up'', ''down'', ''left'', ''right''])) (\<lambda>_.
     ebnd (check (style \<in> {''native'', ''newmouse''}) (''style must be '' @ one_of [''native'', ''newmouse''])) (\<lambda>_.
     Inr [(''clicks'', JInt clicks), (''direction'', JStr direction), (''style'', JStr style), (''delay_ms'', delay_of cfg delay)])))))"

definition input_scroll :: "string \<Rightarrow> int \<Rightarrow> string \<Rightarrow> int option \<Rightarrow> string \<Rightarrow> ('w fleet_scheme, mouse_result) io" where
  "input_scroll target clicks direction delay style =
     send_input target (scroll_params target clicks direction delay style) ''input.scroll'' mouse_result_of"

definition type_params :: "string \<Rightarrow> string \<Rightarrow> string \<Rightarrow> int option \<Rightarrow> bool \<Rightarrow> config \<Rightarrow> exn + (string \<times> json) list" where
  "type_params target txt keymap delay confirm c =
     ebnd (input_confirm confirm ''type'') (\<lambda>_. ebnd (resolve_input c target) (\<lambda>cfg. ebnd (check_delay delay) (\<lambda>_.
     ebnd (encode_text txt cfg) (\<lambda>t. ebnd (check_events_budget (int (ulen t) * 2) cfg ''type'') (\<lambda>_.
     ebnd (check (keymap \<in> {''system'', ''us''}) (''keymap must be '' @ one_of [''system'', ''us''])) (\<lambda>_.
     Inr [(''text'', JStr t), (''keymap'', JStr keymap), (''delay_ms'', delay_of cfg delay), (''confirm'', JBool True)]))))))"

definition input_type ::
    "(string \<Rightarrow> string) \<Rightarrow> string \<Rightarrow> string \<Rightarrow> string \<Rightarrow> int option \<Rightarrow> bool \<Rightarrow> ('w fleet_scheme, type_result) io" where
  "input_type sha target txt keymap delay confirm =
     send_input target (type_params target txt keymap delay confirm) ''input.type''
       (type_result_of (sha txt) (ulen txt))"

definition key_params ::
    "string \<Rightarrow> string list option \<Rightarrow> string option \<Rightarrow> int option \<Rightarrow> bool \<Rightarrow> bool \<Rightarrow> config \<Rightarrow> exn + (string \<times> json) list" where
  "key_params target keys chord delay confirm confirm_reset c =
     ebnd (input_confirm confirm ''key'') (\<lambda>_. ebnd (resolve_input c target) (\<lambda>cfg. ebnd (check_delay delay) (\<lambda>_.
     ebnd (normalise_keys keys chord) (\<lambda>ks.
     Inr ([(''keys'', JArr (map JStr ks)), (''delay_ms'', delay_of cfg delay), (''confirm'', JBool True)]
       @ (if confirm_reset then [(''confirm_reset'', JBool True)] else []))))))"

definition input_key ::
    "string \<Rightarrow> string list option \<Rightarrow> string option \<Rightarrow> int option \<Rightarrow> bool \<Rightarrow> bool \<Rightarrow> ('w fleet_scheme, key_result) io" where
  "input_key target keys chord delay confirm confirm_reset =
     send_input target (key_params target keys chord delay confirm confirm_reset) ''input.key''
       (key_result_of (case normalise_keys keys chord of Inr ks \<Rightarrow> ks | Inl _ \<Rightarrow> []))"

definition BUTTONS :: "string list" where "BUTTONS = [''left'', ''right'', ''middle'']"

definition click_params ::
    "string \<Rightarrow> string \<Rightarrow> int \<Rightarrow> int option \<Rightarrow> int option \<Rightarrow> int option \<Rightarrow> bool \<Rightarrow> config \<Rightarrow> exn + (string \<times> json) list" where
  "click_params target button count x y delay confirm c =
     ebnd (input_confirm confirm ''click'') (\<lambda>_. ebnd (resolve_input c target) (\<lambda>cfg. ebnd (check_delay delay) (\<lambda>_.
     ebnd (check (button \<in> set BUTTONS) (''button must be '' @ one_of BUTTONS)) (\<lambda>_.
     ebnd (check (1 \<le> count \<and> count \<le> 8) ''count must be between 1 and 8'') (\<lambda>_.
     ebnd (check ((x = None) = (y = None)) ''x and y must be given together'') (\<lambda>_.
     Inr ([(''button'', JStr button), (''count'', JInt count), (''delay_ms'', delay_of cfg delay), (''confirm'', JBool True)]
       @ (case x of Some px \<Rightarrow> [(''x'', JInt px), (''y'', JInt (the y))] | None \<Rightarrow> []))))))))"

definition input_click ::
    "string \<Rightarrow> string \<Rightarrow> int \<Rightarrow> int option \<Rightarrow> int option \<Rightarrow> int option \<Rightarrow> bool \<Rightarrow> ('w fleet_scheme, mouse_result) io" where
  "input_click target button count x y delay confirm =
     send_input target (click_params target button count x y delay confirm) ''input.click'' mouse_result_of"

definition drag_params ::
    "string \<Rightarrow> int \<times> int \<Rightarrow> int \<times> int \<Rightarrow> string \<Rightarrow> int \<Rightarrow> int option \<Rightarrow> bool \<Rightarrow> config \<Rightarrow> exn + (string \<times> json) list" where
  "drag_params target start stop button steps delay confirm c =
     ebnd (input_confirm confirm ''drag'') (\<lambda>_. ebnd (resolve_input c target) (\<lambda>cfg. ebnd (check_delay delay) (\<lambda>_.
     ebnd (if allow_drag cfg then Inr () else Inl (RpcErr NotCapable (''input.drag is disabled for this target ''
        @ ''([targets.<name>.input] allow_drag = false)'') (Some (JObj [(''target'', JStr target)])))) (\<lambda>_.
     ebnd (check (button \<in> set BUTTONS) (''button must be '' @ one_of BUTTONS)) (\<lambda>_.
     ebnd (check (1 \<le> steps \<and> steps \<le> 64) ''steps must be between 1 and 64'') (\<lambda>_.
     ebnd (check_events_budget (steps + 3) cfg ''drag'') (\<lambda>_.
     Inr [(''from_x'', JInt (fst start)), (''from_y'', JInt (snd start)), (''to_x'', JInt (fst stop)), (''to_y'', JInt (snd stop)),
          (''button'', JStr button), (''steps'', JInt steps), (''delay_ms'', delay_of cfg delay), (''confirm'', JBool True)])))))))"

definition input_drag ::
    "string \<Rightarrow> int \<times> int \<Rightarrow> int \<times> int \<Rightarrow> string \<Rightarrow> int \<Rightarrow> int option \<Rightarrow> bool \<Rightarrow> ('w fleet_scheme, mouse_result) io" where
  "input_drag target start stop button steps delay confirm =
     send_input target (drag_params target start stop button steps delay confirm) ''input.drag'' mouse_result_of"

section \<open>What reaches a target\<close>

text \<open>The policy of the configuration and of the tools, as a check of the request itself.\<close>

definition int_param :: "(string \<times> json) list \<Rightarrow> string \<Rightarrow> int \<Rightarrow> int \<Rightarrow> bool" where
  "int_param kvs k lo hi \<longleftrightarrow> (case map_of kvs k of Some (JInt n) \<Rightarrow> lo \<le> n \<and> n \<le> hi | _ \<Rightarrow> False)"

definition str_param :: "(string \<times> json) list \<Rightarrow> string \<Rightarrow> string list \<Rightarrow> bool" where
  "str_param kvs k vals \<longleftrightarrow> (case map_of kvs k of Some (JStr s) \<Rightarrow> s \<in> set vals | _ \<Rightarrow> False)"

definition has_param :: "(string \<times> json) list \<Rightarrow> string \<Rightarrow> bool" where
  "has_param kvs k \<longleftrightarrow> map_of kvs k \<noteq> None"

definition confirmed :: "(string \<times> json) list \<Rightarrow> bool" where
  "confirmed kvs \<longleftrightarrow> map_of kvs ''confirm'' = Some (JBool True)"

definition delay_ok :: "input_config \<Rightarrow> (string \<times> json) list \<Rightarrow> bool" where
  "delay_ok cfg kvs \<longleftrightarrow> map_of kvs ''delay_ms'' = Some (JInt (default_delay_ms cfg)) \<or> int_param kvs ''delay_ms'' 0 1000"

definition typeable :: "input_config \<Rightarrow> (string \<times> json) list \<Rightarrow> bool" where
  "typeable cfg kvs \<longleftrightarrow> (case map_of kvs ''text'' of
       Some (JStr s) \<Rightarrow> s \<noteq> [] \<and> int (ulen s) \<le> max_text_len cfg \<and> 2 * int (ulen s) \<le> max_events cfg
         \<and> (\<forall>c \<in> set s. ord c < 196)
     | _ \<Rightarrow> False)"

definition within_policy :: "input_config \<Rightarrow> string \<Rightarrow> (string \<times> json) list \<Rightarrow> bool" where
  "within_policy cfg method kvs \<longleftrightarrow>
     (if method = ''input.state'' then kvs = []
      else delay_ok cfg kvs \<and>
       (if method = ''input.mouse_move'' then int_param kvs ''steps'' 1 64
            \<and> has_param kvs ''x'' = has_param kvs ''y'' \<and> has_param kvs ''x'' = (\<not> has_param kvs ''dx'' \<and> \<not> has_param kvs ''dy'')
        else if method = ''input.scroll'' then int_param kvs ''clicks'' 1 32
            \<and> str_param kvs ''direction'' [''up'', ''down'', ''left'', ''right''] \<and> str_param kvs ''style'' [''native'', ''newmouse'']
        else if method = ''input.type'' then typeable cfg kvs \<and> str_param kvs ''keymap'' [''system'', ''us''] \<and> confirmed kvs
        else if method = ''input.key'' then confirmed kvs
            \<and> (case map_of kvs ''keys'' of Some (JArr ks) \<Rightarrow> 1 \<le> length ks \<and> length ks \<le> 8 | _ \<Rightarrow> False)
        else if method = ''input.click'' then str_param kvs ''button'' BUTTONS \<and> int_param kvs ''count'' 1 8 \<and> confirmed kvs
            \<and> has_param kvs ''x'' = has_param kvs ''y''
        else method = ''input.drag'' \<and> allow_drag cfg \<and> str_param kvs ''button'' BUTTONS
            \<and> int_param kvs ''steps'' 1 (min 64 (max_events cfg - 3)) \<and> confirmed kvs))"

text \<open>
  Nothing happens and the call fails, or there is one request with this method, within the policy of a target whose
  input is enabled; \<open>asked\<close> relates its parameters to the caller's arguments.
\<close>

definition lawful ::
    "((string \<times> json) list \<Rightarrow> bool) \<Rightarrow> string \<Rightarrow> string \<Rightarrow> 'w fleet_scheme \<Rightarrow> (exn + 'a) \<times> 'w fleet_scheme \<Rightarrow> bool" where
  "lawful asked m target s out \<longleftrightarrow> isl (fst out) \<and> history (snd out) = history s \<or>
     (\<exists>cfg kvs v. resolve_input (f_config s) target = Inr cfg \<and> within_policy cfg m kvs \<and> asked kvs \<and>
        history (snd out) = history s @ [(Rpc target m (JObj kvs), v)])"

lemma send_input_lawful:
  assumes "\<And>kvs. params (f_config s) = Inr kvs \<Longrightarrow>
      (\<exists>cfg. resolve_input (f_config s) target = Inr cfg \<and> within_policy cfg method kvs) \<and> asked kvs"
  shows "lawful asked method target s (send_input target params method result s)"
proof (cases "params (f_config s)")
  case (Inl e)
  then show ?thesis by (simp add: send_input_def bnd_def gets_def lift_def raise_def lawful_def)
next
  case (Inr kvs)
  obtain r s1 where q: "mcpd_request target method kvs s = (r, s1)" by force
  have run: "send_input target params method result s = bnd (\<lambda>_. (r, s1)) (\<lambda>raw. lift (result raw)) s"
    using Inr q by (simp add: send_input_def bnd_def gets_def lift_run)
  from mcpd_request_events(1) [OF q] show ?thesis
    using assms [OF Inr] unfolding run by (cases r) (auto simp: bnd_def lift_run lawful_def split: sum.splits)
qed

lemma check_Inr [simp]: "check ok m = Inr u \<longleftrightarrow> ok"
  by (simp add: check_def)

lemma check_delay_Inr [simp]: "check_delay d = Inr u \<longleftrightarrow> (\<forall>n. d = Some n \<longrightarrow> 0 \<le> n \<and> n \<le> 1000)"
  by (auto simp: check_delay_def split: option.splits)

lemma budget_Inr [simp]: "check_events_budget n cfg op = Inr u \<longleftrightarrow> n \<le> max_events cfg"
  by (auto simp: check_events_budget_def)

lemma confirm_Inr [simp]: "input_confirm c op = Inr u \<longleftrightarrow> c"
  by (simp add: input_confirm_def)

lemma first_wide_None: "first_wide t = None \<longleftrightarrow> (\<forall>c \<in> set t. ord c < 196)"
proof -
  have "first_wide t = None \<longleftrightarrow> dropWhile (\<lambda>c. \<not> wide_lead c) t = []"
    by (cases "dropWhile (\<lambda>c. \<not> wide_lead c) t") (simp_all add: first_wide_def del: dropWhile_eq_Nil_conv)
  also have "\<dots> \<longleftrightarrow> (\<forall>c \<in> set t. ord c < 196)" by (simp add: wide_lead_def not_le)
  finally show ?thesis .
qed

lemma encode_text_Inr:
  "encode_text t cfg = Inr u \<longleftrightarrow> u = t \<and> t \<noteq> [] \<and> int (ulen t) \<le> max_text_len cfg \<and> (\<forall>c \<in> set t. ord c < 196)"
  by (auto simp: encode_text_def first_wide_None [symmetric] split: option.splits)

lemma normalise_keys_Inr: "normalise_keys keys chord = Inr ks \<Longrightarrow> ks \<noteq> [] \<and> length ks \<le> 8"
  by (auto simp: normalise_keys_def Let_def split: if_splits)

lemmas policy = within_policy_def delay_ok_def int_param_def str_param_def has_param_def confirmed_def typeable_def delay_of_def

lemma delay_okI:
  "map_of kvs ''delay_ms'' = Some (delay_of cfg d) \<Longrightarrow> \<forall>n. d = Some n \<longrightarrow> 0 \<le> n \<and> n \<le> 1000 \<Longrightarrow> delay_ok cfg kvs"
  by (cases d) (auto simp: policy)

lemma move_policy:
  assumes "move_params t x y dx dy mode steps delay c = Inr kvs"
  shows "\<exists>cfg. resolve_input c t = Inr cfg \<and> within_policy cfg ''input.mouse_move'' kvs"
proof -
  obtain cfg where cfg: "resolve_input c t = Inr cfg" "\<forall>n. delay = Some n \<longrightarrow> 0 \<le> n \<and> n \<le> 1000"
    and xy: "(x = None) = (y = None)" "(x = None) \<noteq> (dx = None \<and> dy = None)" "1 \<le> steps" "steps \<le> 64"
    and kvs: "kvs = [(''steps'', JInt steps), (''delay_ms'', delay_of cfg delay)]
       @ (case x of Some px \<Rightarrow> [(''x'', JInt px), (''y'', JInt (the y)), (''absolute_mode'', JStr mode)]
          | None \<Rightarrow> (case dx of Some d \<Rightarrow> [(''dx'', JInt d)] | None \<Rightarrow> [])
              @ (case dy of Some d \<Rightarrow> [(''dy'', JInt d)] | None \<Rightarrow> []))"
    using assms unfolding move_params_def by (auto simp: ebnd_Inr)
  have "delay_ok cfg kvs" using cfg(2) unfolding kvs by (cases delay) (simp_all add: policy)
  then have "within_policy cfg ''input.mouse_move'' kvs"
    using xy unfolding kvs by (cases x; cases y; cases dx; cases dy; simp add: within_policy_def int_param_def has_param_def)
  then show ?thesis using cfg(1) by blast
qed



section \<open>The two spellings of a chord\<close>

lemma chord_keys_join:
  assumes "ks \<noteq> []" "\<forall>k \<in> set ks. k \<noteq> [] \<and> CHR ''+'' \<notin> set k \<and> strip k = k"
  shows "chord_keys (join ''+'' ks) = ks"
proof -
  have "split_on CHR ''+'' (join ''+'' ks) = ks" using assms by (intro split_on_join) (auto simp: list_all_iff)
  moreover have "map strip ks = ks" using assms(2) by (simp add: map_idI)
  moreover have "filter (\<lambda>p. p \<noteq> []) ks = ks" using assms(2) by (simp add: filter_id_conv)
  ultimately show ?thesis by (simp add: chord_keys_def)
qed

theorem chord_is_keys:
  assumes "ks \<noteq> []" "\<forall>k \<in> set ks. k \<noteq> [] \<and> CHR ''+'' \<notin> set k \<and> strip k = k"
  shows "input_key t None (Some (join ''+'' ks)) delay confirm confirm_reset = input_key t (Some ks) None delay confirm confirm_reset"
proof -
  have "join ''+'' ks \<noteq> []" using assms by (cases ks rule: remdups_adj.cases) auto
  then obtain c cs where j: "join ''+'' ks = c # cs" by (cases "join ''+'' ks") auto
  have "normalise_keys None (Some (join ''+'' ks)) = normalise_keys (Some ks) None"
    using chord_keys_join [OF assms] assms(1) by (simp add: normalise_keys_def given_def j Let_def)
  moreover from this have "key_params t None (Some (join ''+'' ks)) delay confirm confirm_reset =
      key_params t (Some ks) None delay confirm confirm_reset" by (intro ext) (simp add: key_params_def)
  ultimately show ?thesis by (simp add: input_key_def)
qed

theorem chord_is_keys_witness:
  "input_key ''x'' None (Some ''lamiga+q'') None True False = input_key ''x'' (Some [''lamiga'', ''q'']) None None True False"
proof -
  have st: "strip ''lamiga'' = ''lamiga''" "strip ''q'' = ''q''" by code_simp+
  show ?thesis using chord_is_keys [of "[''lamiga'', ''q'']"] st by simp
qed

text \<open>The key \<open>+\<close> itself cannot be written in a chord: the keys before it are pressed without it.\<close>

lemma plus_key_lost: "normalise_keys None (Some ''lamiga++'') = Inr [''lamiga'']"
  by code_simp

end
