(* ===== verification/TestTools.thy ===== *)
theory TestTools
  imports ExecTools Fs
begin

text \<open>
  The test tools (\<^verbatim>\<open>tools/tests.py\<close>).  The parser of pass and fail lines is a file of another repository,
  AmigaQemuTests, loaded at run time: it is the parameter \<open>ppf\<close>.  The host's files are those of the
  fleet's state; listing a directory and loading the parser's file are the host's answers.  Times are
  microseconds, limits milliseconds.
\<close>

section \<open>The other repository\<close>

definition aqt_missing :: exn where
  "aqt_missing = RpcErr InvalidParams (''paths.amiga_qemu_tests not set in config '' @ em_dash
     @ '' see USAGE.md#helper-paths-paths or run `amiga-fleet-mcp --init`'') None"

definition aqt_root :: "string sbx" where
  "aqt_root = bnd (gets (\<lambda>s. amiga_qemu_tests (paths (f_config s)))) (\<lambda>r. case r of
     None \<Rightarrow> raise aqt_missing | Some p \<Rightarrow> ret p)"

text \<open>\<open>loaded\<close>: an earlier call of this process has loaded the module.\<close>

definition aqt_results :: "bool \<Rightarrow> unit sbx" where
  "aqt_results loaded =
     (if loaded then ret ()
      else bnd (gets (\<lambda>s. amiga_qemu_tests (paths (f_config s)))) (\<lambda>r. case r of
        None \<Rightarrow> raise (RpcErr InternalError (''tests.* needs paths.amiga_qemu_tests in config.toml '' @ em_dash
            @ '' see USAGE.md#helper-paths-paths or run `amiga-fleet-mcp --init`'') None)
      | Some root \<Rightarrow> let src = root @ ''/lib/results.py'' in
          bnd (gets (host_file src)) (\<lambda>f. case f of
            None \<Rightarrow> raise (RpcErr InternalError (''AmigaQemuTests module missing: '' @ src) None)
          | Some _ \<Rightarrow> bnd (host ''load_module'' [JStr src]) (\<lambda>_. ret ()))))"

text \<open>\<^verbatim>\<open>json.load\<close> of a file opened as UTF-8.\<close>

definition load_json :: "string \<Rightarrow> exn + json" where
  "load_json content = (case (if utf8_valid content then json_loads content else None) of
     None \<Rightarrow> Inl (PyErr ValueError []) | Some j \<Rightarrow> Inr j)"

definition read_host :: "string \<Rightarrow> string sbx" where
  "read_host p = bnd (gets (host_file p)) (\<lambda>f. case f of
     None \<Rightarrow> raise (PyErr FileNotFoundError p) | Some c \<Rightarrow> ret c)"

definition len_of :: "json \<Rightarrow> exn + int" where
  "len_of j = (case j of JArr xs \<Rightarrow> Inr (int (length xs)) | JObj kvs \<Rightarrow> Inr (int (length kvs)) | JStr s \<Rightarrow> Inr (int (ulen s))
     | _ \<Rightarrow> Inl (PyErr TypeError []))"

record suite_summary =
  su_name :: string
  su_dir :: "string option"
  su_machines :: "string list"
  su_tests :: int

definition path_stem :: "string \<Rightarrow> string" where
  "path_stem p = (let b = after_last CHR ''/'' p in if CHR ''.'' \<in> set (drop 1 b) then fst (rpartition CHR ''.'' b) else b)"

definition summary_of :: "string \<Rightarrow> json \<Rightarrow> exn + suite_summary" where
  "summary_of path data =
     ebnd (get_or ''name'' (JStr (path_stem path)) data) (\<lambda>n. ebnd (get_or ''project_dir'' JNull data) (\<lambda>d.
     ebnd (ebnd (get_or ''supported_machines'' (JArr []) data) elements) (\<lambda>ms.
     ebnd (ebnd (get_or ''tests'' (JArr []) data) len_of) (\<lambda>k.
     ebnd (v_str n) (\<lambda>n'. ebnd (v_opt v_str d) (\<lambda>d'. ebnd (v_each v_str ms) (\<lambda>ms'.
     Inr \<lparr>su_name = n', su_dir = d', su_machines = ms', su_tests = k\<rparr>)))))))"

text \<open>The files are listed by the host; they are read in the order of their paths.\<close>

definition tests_list_suites :: "suite_summary list sbx" where
  "tests_list_suites = bnd aqt_root (\<lambda>root. let dir = root @ ''/config/projects'' in
     bnd (host ''is_dir'' [JStr dir]) (\<lambda>ok.
     if ok \<noteq> JBool True then raise (RpcErr InternalError (''AmigaQemuTests projects dir missing: '' @ dir) None)
     else bnd (host ''glob'' [JStr dir, JStr ''*.json'']) (\<lambda>v. bnd (lift (ebnd (elements v) (v_each v_str))) (\<lambda>files.
       for_each (\<lambda>f. bnd (read_host f) (\<lambda>c. bnd (lift (load_json c)) (\<lambda>j. lift (summary_of f j)))) (sort files)))))"

section \<open>Parsing an output\<close>

record parse_entry =
  pe_name :: string
  pe_passed :: bool

definition passed_in :: "parse_entry list \<Rightarrow> nat" where
  "passed_in es = length (filter pe_passed es)"

text \<open>Strict base64: whole groups of four, padding only at the end.\<close>

definition b64_strict :: "string \<Rightarrow> string option" where
  "b64_strict s = (let body = rstrip_char CHR ''='' s; pad = length s - length body in
     if length s mod 4 = 0 \<and> pad \<le> 2 \<and> list_all (\<lambda>c. b64_val c \<noteq> None) body then b64decode s else None)"

definition tests_parse_output :: "(string \<Rightarrow> (string \<times> bool) list) \<Rightarrow> bool \<Rightarrow> string \<Rightarrow> (parse_entry list \<times> nat \<times> nat) sbx" where
  "tests_parse_output ppf loaded output_b64 = (case b64_strict output_b64 of
       None \<Rightarrow> raise (RpcErr InvalidParams ''output_b64 not valid base64: '' None)
     | Some bytes \<Rightarrow> bnd (aqt_results loaded) (\<lambda>_.
         let es = map (\<lambda>(n, p). \<lparr>pe_name = n, pe_passed = p\<rparr>) (ppf (utf8_replace bytes)) in
         ret (es, passed_in es, length es - passed_in es)))"

section \<open>The standard tests of the file system\<close>

definition TEST_DIR :: string where "TEST_DIR = ''RAM:_aqt_test''"

definition marker :: string where "marker = TEST_DIR @ ''/marker.txt''"
definition marker_copy :: string where "marker_copy = TEST_DIR @ ''/marker_copy.txt''"

definition payload :: string where
  "payload = ''AmigaQemuTests marker 2026 '' @ [CHR 0x00, CHR 0x01, CHR 0x02, CHR 0x03, CHR 0xFF, newline]"

definition entry :: "string \<Rightarrow> bool \<Rightarrow> parse_entry" where
  "entry n p = \<lparr>pe_name = n, pe_passed = p\<rparr>"

definition succeeded :: "(exn + 'a) \<Rightarrow> ('a \<Rightarrow> bool) \<Rightarrow> bool" where
  "succeeded r P = (case r of Inl _ \<Rightarrow> False | Inr x \<Rightarrow> P x)"

text \<open>
  \<^verbatim>\<open>any(getattr(e, "name", "") == n for e in lst)\<close> where \<open>lst\<close> is the result model of \<^verbatim>\<open>fs.list\<close>: iterating
  over a model gives its fields as pairs, here the path and the entries, and a pair has no attribute of
  that name, so the default is compared.
\<close>

definition model_items :: "string \<Rightarrow> dir_entry list \<Rightarrow> (string \<times> (string + dir_entry list)) list" where
  "model_items path es = [(''path'', Inl path), (''entries'', Inr es)]"

definition name_or_empty :: "string \<times> (string + dir_entry list) \<Rightarrow> string" where
  "name_or_empty e = []"

definition lists :: "string \<Rightarrow> string \<Rightarrow> dir_entry list \<Rightarrow> bool" where
  "lists n path es = list_ex (\<lambda>e. name_or_empty e = n) (model_items path es)"

text \<open>The comparison of a read file decodes outside the attempt: a bad encoding fails the whole run.\<close>

definition content_matches :: "exn + read_result \<Rightarrow> exn + bool" where
  "content_matches r = (case r of Inl _ \<Rightarrow> Inr False
     | Inr rd \<Rightarrow> (case b64decode (content_b64 rd) of Some c \<Rightarrow> Inr (c = payload)
         | None \<Rightarrow> Inl (PyErr (OtherError ''Error'') [])))"

definition sys_version :: "string \<Rightarrow> (string \<times> string option \<times> string option) sbx" where
  "sys_version target = bnd (fleet_mcpd target) (\<lambda>_. bnd (rpc target ''sys.version'' JNull) (\<lambda>raw.
     lift (ebnd (field ''raw'' v_str raw) (\<lambda>r. ebnd (field_or ''kickstart'' None (v_opt v_str) raw) (\<lambda>k.
       ebnd (field_or ''workbench'' None (v_opt v_str) raw) (\<lambda>w. Inr (r, k, w)))))))"

definition copy_marker :: string where
  "copy_marker = ''Copy '' @ in_quotes marker @ '' TO '' @ in_quotes marker_copy @ '' CLONE''"

definition tests_run_standard_dos_tests :: "string \<Rightarrow> (nat \<times> nat \<times> parse_entry list) sbx" where
  "tests_run_standard_dos_tests target =
     bnd (attempt (fs_list target ''RAM:'' False 8)) (\<lambda>r1.
     bnd (ignoring (fs_delete target TEST_DIR False)) (\<lambda>_.
     bnd (attempt (fs_makedir target TEST_DIR)) (\<lambda>r3.
     bnd (attempt (fs_write target marker (b64encode payload) ''none'' None)) (\<lambda>r4.
     bnd (attempt (fs_stat target marker)) (\<lambda>r5.
     bnd (attempt (fs_read target marker None None)) (\<lambda>r6.
     bnd (lift (content_matches r6)) (\<lambda>same.
     bnd (attempt (fs_list target TEST_DIR False 8)) (\<lambda>r7.
     bnd (attempt (exec_cmd target copy_marker [] [] 30000 None False None)) (\<lambda>r8.
     bnd (attempt (fs_list target TEST_DIR False 8)) (\<lambda>r8'.
     bnd (attempt (fs_delete target marker False)) (\<lambda>r9.
     bnd (attempt (fs_delete target marker_copy False)) (\<lambda>_.
     bnd (attempt (fs_delete target TEST_DIR False)) (\<lambda>r10.
     bnd (attempt (sys_version target)) (\<lambda>r11.
     let es = [entry ''DOS: List RAM:'' (\<not> isl r1), entry ''DOS: MakeDir _aqt_test'' (\<not> isl r3),
           entry ''DOS: Write file (binary clean)'' (succeeded r4 (\<lambda>w. snd w = int (length payload))),
           entry ''DOS: Stat uploaded file'' (succeeded r5 (\<lambda>st. de_type st = ''file'' \<and> de_size st = int (length payload))),
           entry ''DOS: Read + verify content integrity'' same,
           entry ''DOS: List shows uploaded file'' (succeeded r7 (lists ''marker.txt'' TEST_DIR)),
           entry ''DOS: exec.cmd Copy'' (\<not> isl r8 \<and> succeeded r8' (lists ''marker_copy.txt'' TEST_DIR)),
           entry ''DOS: Delete file'' (\<not> isl r9), entry ''DOS: Delete directory'' (\<not> isl r10),
           entry ''DOS: sys.version'' (succeeded r11 (\<lambda>(raw, k, w). k \<noteq> None \<or> contains ''Kickstart'' raw))]
     in ret (passed_in es, length es, es)))))))))))))))"

section \<open>Suites\<close>

record suite_entry =
  se_name :: string
  se_passed :: bool
  se_detail :: "string option"
  se_duration_us :: int
  se_excerpt :: "string option"

definition load_suite :: "string \<Rightarrow> json sbx" where
  "load_suite suite = bnd aqt_root (\<lambda>root. let p = root @ ''/config/projects/'' @ suite @ ''.json'' in
     bnd (gets (host_file p)) (\<lambda>f. case f of
       None \<Rightarrow> raise (RpcErr InvalidParams (''unknown suite: '' @ py_repr suite) (Some (JObj [(''file'', JStr p)])))
     | Some c \<Rightarrow> lift (load_json c)))"

definition path_arg :: "json \<Rightarrow> exn + string" where
  "path_arg j = (case j of JStr s \<Rightarrow> Inr s | _ \<Rightarrow> Inl (PyErr TypeError []))"

definition upload_source :: "json \<Rightarrow> string \<Rightarrow> exn + string" where
  "upload_source data src = (if startswith src ''/'' then Inr src
     else ebnd (get_or ''project_dir'' JNull data) (\<lambda>proj. if truthy proj
       then ebnd (path_arg proj) (\<lambda>d. Inr (d @ ''/'' @ src)) else Inr src))"

definition failed_entry :: "string \<Rightarrow> string \<Rightarrow> int \<Rightarrow> suite_entry" where
  "failed_entry n why d = \<lparr>se_name = n, se_passed = False, se_detail = Some why, se_duration_us = d, se_excerpt = None\<rparr>"

text \<open>Only an error answer of the target is an entry; anything else ends the run.\<close>

definition target_errors :: "('s, 'a) io \<Rightarrow> ('s, string + 'a) io" where
  "target_errors m = catch (bnd m (\<lambda>x. ret (Inr x))) (\<lambda>e. case e of RpcErr TargetError msg d \<Rightarrow> ret (Inl msg) | _ \<Rightarrow> raise e)"

definition upload_one :: "string \<Rightarrow> json \<Rightarrow> json \<Rightarrow> suite_entry sbx" where
  "upload_one target data up =
     bnd (lift (ebnd (ebnd (item ''src'' up) path_arg) (upload_source data))) (\<lambda>src.
     bnd (lift (item ''guest_dst'' up)) (\<lambda>dst0. let name = ''upload '' @ str_of dst0 in
     bnd (gets (host_file src)) (\<lambda>f. case f of
       None \<Rightarrow> ret (failed_entry name (''host file missing: '' @ src) 0)
     | Some content \<Rightarrow>
         bnd (target_errors (bnd (mcpd_request target ''fs.write'' [(''path'', dst0), (''content_b64'', JStr (b64encode content))])
             (\<lambda>raw. lift (v_write raw)))) (\<lambda>r. case r of
           Inl msg \<Rightarrow> ret (failed_entry name msg 0)
         | Inr _ \<Rightarrow> ret \<lparr>se_name = name, se_passed = True, se_detail = Some (nat_dec (length content) @ '' bytes''),
             se_duration_us = 0, se_excerpt = None\<rparr>))))"

text \<open>
  \<^verbatim>\<open>float(x)\<close> in milliseconds; a decimal is taken as written, and a text only if it is the numeral of an
  integer (a suite gives a number).
\<close>

definition decimal_ms :: "bool \<times> nat \<times> int \<Rightarrow> int" where
  "decimal_ms p = (case p of (neg, m, e) \<Rightarrow>
     let v = (if 0 \<le> e + 3 then int m * 10 ^ nat (e + 3) else int m div 10 ^ nat (- e - 3)) in if neg then - v else v)"

definition timeout_ms :: "json \<Rightarrow> exn + int" where
  "timeout_ms j = (case j of
       JInt i \<Rightarrow> Inr (1000 * i)
     | JBool b \<Rightarrow> Inr (if b then 1000 else 0)
     | JFloat s \<Rightarrow> (case float_parts s of None \<Rightarrow> Inl (PyErr ValueError []) | Some p \<Rightarrow> Inr (decimal_ms p))
     | JStr s \<Rightarrow> (case parse_int s of Inr i \<Rightarrow> Inr (1000 * i) | Inl e \<Rightarrow> Inl e)
     | _ \<Rightarrow> Inl (PyErr TypeError []))"

text \<open>\<^verbatim>\<open>all(m in output for m in markers)\<close>, up to the first that is missing.\<close>

fun all_markers :: "string \<Rightarrow> json list \<Rightarrow> exn + bool" where
  "all_markers out [] = Inr True"
| "all_markers out (m # ms) = (case m of
       JStr s \<Rightarrow> if contains s out then all_markers out ms else Inr False
     | _ \<Rightarrow> Inl (PyErr TypeError []))"

definition passfail_ok :: "(string \<times> bool) list \<Rightarrow> bool" where
  "passfail_ok pairs \<longleftrightarrow> list_all snd pairs \<and> pairs \<noteq> []"

text \<open>What a finished command says of its test.\<close>

definition verdict ::
    "(string \<Rightarrow> (string \<times> bool) list) \<Rightarrow> json \<Rightarrow> json list \<Rightarrow> json \<Rightarrow> int \<Rightarrow> string + exec_result \<Rightarrow> exn + suite_entry" where
  "verdict ppf name markers pf duration r = (case r of
       Inl msg \<Rightarrow> ebnd (v_str name) (\<lambda>n. Inr (failed_entry n msg duration))
     | Inr res \<Rightarrow> let out = ex_output res in
         ebnd (all_markers out markers) (\<lambda>found. ebnd (v_str name) (\<lambda>n.
         Inr \<lparr>se_name = n, se_passed = (found \<and> (truthy pf \<longrightarrow> passfail_ok (ppf out))), se_detail = None,
              se_duration_us = duration, se_excerpt = (if out = [] then None else Some (utake 600 out))\<rparr>)))"

text \<open>\<^verbatim>\<open>exec_cmd(fleet, target, cmd, timeout_s=.., priority=..)\<close> with the suite's command as it is, a text or not.\<close>

definition exec_json :: "string \<Rightarrow> json \<Rightarrow> int \<Rightarrow> int option \<Rightarrow> exec_result sbx" where
  "exec_json target cmd limit priority =
     bnd (fleet_mcpd target) (\<lambda>_. bnd (job_priority priority) (\<lambda>pri.
     bnd (rpc target ''exec.cmd'' (JObj ([(''command'', cmd), (''timeout_ms'', JInt limit)]
            @ (case pri of Some p \<Rightarrow> [(''priority'', JInt p)] | None \<Rightarrow> [])))) (\<lambda>raw. lift (exec_result_of raw))))"

definition run_one :: "(string \<Rightarrow> (string \<times> bool) list) \<Rightarrow> string \<Rightarrow> int option \<Rightarrow> json \<Rightarrow> suite_entry sbx" where
  "run_one ppf target priority spec =
     bnd (lift (ebnd (get_or ''command'' (JStr ''test'') spec) (\<lambda>c. get_or ''name'' c spec))) (\<lambda>name.
     bnd (lift (item ''command'' spec)) (\<lambda>cmd.
     bnd (lift (ebnd (get_or ''timeout'' (JInt 30) spec) timeout_ms)) (\<lambda>limit.
     bnd (lift (ebnd (get_or ''pass_markers'' (JArr []) spec) elements)) (\<lambda>markers.
     bnd (lift (get_or ''parse_passfail'' (JBool False) spec)) (\<lambda>pf.
     bnd now (\<lambda>t0.
     bnd (target_errors (exec_json target cmd limit priority)) (\<lambda>r.
     bnd now (\<lambda>t1. lift (verdict ppf name markers pf (t1 - t0) r)))))))))"

record suite_run =
  sr_suite :: string
  sr_passed :: nat
  sr_total :: nat
  sr_entries :: "suite_entry list"

definition tests_run_suite ::
    "(string \<Rightarrow> (string \<times> bool) list) \<Rightarrow> bool \<Rightarrow> string \<Rightarrow> string \<Rightarrow> bool \<Rightarrow> int option \<Rightarrow> suite_run sbx" where
  "tests_run_suite ppf loaded target suite skip_uploads priority =
     bnd (load_suite suite) (\<lambda>data.
     bnd (if skip_uploads then ret []
          else bnd (lift (ebnd (get_or ''upload_binaries'' (JArr []) data) elements)) (for_each (upload_one target data))) (\<lambda>ups.
     bnd (aqt_results loaded) (\<lambda>_.
     bnd (lift (ebnd (get_or ''tests'' (JArr []) data) elements)) (\<lambda>specs.
     bnd (for_each (run_one ppf target priority) specs) (\<lambda>runs.
     bnd (lift (ebnd (get_or ''name'' (JStr suite) data) v_str)) (\<lambda>n.
     let es = ups @ runs in
     ret \<lparr>sr_suite = n, sr_passed = length (filter se_passed es), sr_total = length es, sr_entries = es\<rparr>))))))"

end
