(* ===== verification/TestTools_Correct.thy ===== *)
theory TestTools_Correct
  imports TestTools
begin

text \<open>
  Properties of the test tools: what the standard tests report, with the two that can never pass, and
  that a passed entry of a suite is backed by an answer of the target.
\<close>

section \<open>The standard tests\<close>

lemma lists_never: "n \<noteq> [] \<Longrightarrow> \<not> lists n path es"
  by (simp add: lists_def model_items_def name_or_empty_def)

lemma succeeded_never: "(\<And>x. \<not> P x) \<Longrightarrow> \<not> succeeded r P"
  by (simp add: succeeded_def split: sum.split)

definition dos_names :: "string list" where
  "dos_names = [''DOS: List RAM:'', ''DOS: MakeDir _aqt_test'', ''DOS: Write file (binary clean)'', ''DOS: Stat uploaded file'',
     ''DOS: Read + verify content integrity'', ''DOS: List shows uploaded file'', ''DOS: exec.cmd Copy'', ''DOS: Delete file'',
     ''DOS: Delete directory'', ''DOS: sys.version'']"

theorem dos_tests_never_all_pass:
  assumes "tests_run_standard_dos_tests target s = (Inr (passed, n, es), s')"
  shows "n = 10 \<and> map pe_name es = dos_names \<and> passed = passed_in es \<and> passed \<le> 8 \<and>
    (\<forall>e \<in> set es. pe_name e \<in> {''DOS: List shows uploaded file'', ''DOS: exec.cmd Copy''} \<longrightarrow> \<not> pe_passed e)"
proof -
  have no: "\<not> succeeded r (lists ''marker.txt'' TEST_DIR)" "\<not> succeeded r (lists ''marker_copy.txt'' TEST_DIR)" for r
    by (auto intro!: succeeded_never lists_never)
  obtain a b c d e f g h where es: "es = [entry ''DOS: List RAM:'' a, entry ''DOS: MakeDir _aqt_test'' b,
       entry ''DOS: Write file (binary clean)'' c, entry ''DOS: Stat uploaded file'' d,
       entry ''DOS: Read + verify content integrity'' e, entry ''DOS: List shows uploaded file'' False,
       entry ''DOS: exec.cmd Copy'' False, entry ''DOS: Delete file'' f, entry ''DOS: Delete directory'' g,
       entry ''DOS: sys.version'' h]" and p: "passed = passed_in es" "n = length es"
    using assms unfolding tests_run_standard_dos_tests_def Let_def
    by (auto simp: bnd_eq_Inr no ret_def)
  show ?thesis unfolding p
    by (simp add: es dos_names_def entry_def passed_in_def)
qed

text \<open>A target that answers every request as a working one does: eight tests pass.\<close>

definition good_answers :: "outcome list" where
  "good_answers = (let ok = JObj [(''path'', JStr marker), (''size'', JInt (int (length payload))), (''content_b64'', JStr (b64encode payload))];
       file = JObj [(''name'', JStr ''marker.txt''), (''type'', JStr ''file''), (''size'', JInt (int (length payload)))];
       copy = JObj [(''name'', JStr ''marker_copy.txt''), (''type'', JStr ''file''), (''size'', JInt (int (length payload)))]
     in map Inr [JArr [], ok, ok, ok, file, ok, JArr [file], JObj [(''output'', JStr [])], JArr [file, copy], ok, ok, ok,
          JObj [(''raw'', JStr ''Kickstart 54.30'')]])"

definition good_target :: sandbox_state where
  "good_target = sandbox_init (empty_config\<lparr>targets := [(''x'', (target_of Qemu)\<lparr>channels := no_channels\<lparr>chan_mcpd := Some default_mcpd\<rparr>\<rparr>)]\<rparr>)
     (scripted good_answers)"

lemma good_target_run: "map_sum (\<lambda>_. ()) (\<lambda>(p, n, es). (p, n)) (fst (tests_run_standard_dos_tests ''x'' good_target)) = Inr (8, 10)"
  by code_simp

theorem dos_tests_never_all_pass_witness:
  "\<exists>es s'. tests_run_standard_dos_tests ''x'' good_target = (Inr (8, 10, es), s') \<and> map pe_name es = dos_names
     \<and> \<not> list_all pe_passed es"
proof -
  obtain r s' where r: "tests_run_standard_dos_tests ''x'' good_target = (r, s')" by force
  then obtain es where run: "tests_run_standard_dos_tests ''x'' good_target = (Inr (8, 10, es), s')"
    using good_target_run by (cases r) auto
  have d: "map pe_name es = dos_names \<and> (\<forall>e \<in> set es. pe_name e \<in> {''DOS: List shows uploaded file'', ''DOS: exec.cmd Copy''} \<longrightarrow> \<not> pe_passed e)"
    using dos_tests_never_all_pass [OF run] by blast
  have "''DOS: exec.cmd Copy'' \<in> set dos_names" by (simp add: dos_names_def)
  also have "set dos_names = pe_name ` set es" using d by (metis list.set_map)
  finally obtain x where "x \<in> set es" "pe_name x = ''DOS: exec.cmd Copy''" by auto
  then have "\<not> list_all pe_passed es" using d unfolding list_all_iff by blast
  then show ?thesis using run d by blast
qed

section \<open>Suites\<close>

text \<open>
  An entry of a test is backed: the command was run, and its output holds every marker of the test and,
  where the test asks for it, at least one pass line and no fail line.
\<close>

definition backed_by :: "(string \<Rightarrow> (string \<times> bool) list) \<Rightarrow> string \<Rightarrow> (event \<times> outcome) list \<Rightarrow> json \<Rightarrow> bool" where
  "backed_by ppf target es spec \<longleftrightarrow> (\<exists>kvs raw res ms pf cmd. (Rpc target ''exec.cmd'' (JObj kvs), Inr raw) \<in> set es \<and>
     item ''command'' spec = Inr cmd \<and> map_of kvs ''command'' = Some cmd \<and> exec_result_of raw = Inr res \<and> ebnd (get_or ''pass_markers'' (JArr []) spec) elements = Inr ms \<and>
     get_or ''parse_passfail'' (JBool False) spec = Inr pf \<and>
     (\<forall>m \<in> set ms. \<exists>t. m = JStr t \<and> contains t (ex_output res)) \<and> (truthy pf \<longrightarrow> ppf (ex_output res) \<noteq> [] \<and> (\<forall>p \<in> set (ppf (ex_output res)). snd p)))"

lemma all_markers_True: "all_markers out ms = Inr True \<Longrightarrow> \<forall>m \<in> set ms. \<exists>t. m = JStr t \<and> contains t out"
  by (induction ms) (auto split: json.splits if_splits)

lemma emits_target_errors [emits]: "emits P m \<Longrightarrow> emits P (target_errors m)"
  unfolding target_errors_def by (intro emits) (auto intro!: emits split: rpc_class.split)

lemma target_errors_Inr: "target_errors m s = (Inr (Inr x), t) \<Longrightarrow> m s = (Inr x, t)"
  by (cases "m s"; cases "fst (m s)")
    (auto simp: target_errors_def catch_def bnd_def ret_def raise_def split: exn.splits rpc_class.splits)

lemma bnd_ret_left: "bnd (ret x) f = f x"
  by (rule ext) (simp add: bnd_def ret_def)

lemma bnd_ret_right: "bnd m ret = m"
  by (rule ext) (simp add: bnd_def ret_def split: prod.split sum.split)

lemma exec_plain:
  "exec_cmd target cmd args cwd tm pri rr None = bnd (fleet_mcpd target) (\<lambda>_. bnd (job_priority pri) (\<lambda>p.
     bnd (rpc target ''exec.cmd'' (JObj (exec_params cmd tm @ opt_param (args \<noteq> []) ''args'' (JArr (map JStr args))
            @ opt_param (cwd \<noteq> []) ''cwd'' (JStr cwd)
            @ (case p of Some p \<Rightarrow> [(''priority'', JInt p)] | None \<Rightarrow> [])
            @ opt_param rr ''return_running'' (JBool True)))) (\<lambda>raw. lift (exec_result_of raw))))"
  by (simp add: exec_cmd_def bnd_ret_left bnd_ret_right opt_param_def)

lemma emits_exec_plain:
  "(\<And>kvs v. P (Rpc target ''exec.cmd'' (JObj kvs), v)) \<Longrightarrow> emits P (exec_cmd target cmd args cwd tm pri rr None)"
  unfolding exec_plain job_priority_def by (intro emits)

lemma exec_json_text: "exec_json target (JStr cmd) limit pri = exec_cmd target cmd [] [] limit pri False None"
  by (simp add: exec_json_def exec_plain exec_params_def opt_param_def)

lemma emits_exec_json:
  "(\<And>kvs v. P (Rpc target ''exec.cmd'' (JObj kvs), v)) \<Longrightarrow> emits P (exec_json target cmd limit pri)"
  unfolding exec_json_def job_priority_def by (intro emits)

lemma emits_run_one: "emits (\<lambda>_. True) (run_one ppf target priority spec)"
  unfolding run_one_def Let_def by (intro emits emits_exec_json; simp)

lemma exec_json_result:
  assumes "exec_json target cmd limit pri s = (Inr res, s')"
  shows "\<exists>kvs raw. history s' = history s @ [(Rpc target ''exec.cmd'' (JObj kvs), Inr raw)] \<and> map_of kvs ''command'' = Some cmd
    \<and> exec_result_of raw = Inr res"
proof -
  obtain u s1 p s2 kvs raw where f: "fleet_mcpd target s = (Inr u, s1)" and p: "job_priority pri s1 = (Inr p, s2)"
    and q: "rpc target ''exec.cmd'' (JObj kvs) s2 = (Inr raw, s')" and x: "exec_result_of raw = Inr res"
    and c: "map_of kvs ''command'' = Some cmd"
    using assms unfolding exec_json_def by (auto simp: bnd_eq_Inr lift_run)
  have "s2 = s1" using p by (auto simp: job_priority_def ret_def gets_def split: option.splits)
  then show ?thesis using fleet_mcpd_history [OF f] q x c by (auto simp: rpc_def perform_def Let_def)
qed

lemma run_one_backed:
  assumes "run_one ppf target priority spec s = (Inr en, s')" "se_passed en" "history s' = history s @ es"
  shows "backed_by ppf target es spec"
proof -
  obtain name ms pf cmd lim t0 s0 r s1 t1 where m: "ebnd (get_or ''pass_markers'' (JArr []) spec) elements = Inr ms"
      "get_or ''parse_passfail'' (JBool False) spec = Inr pf" "item ''command'' spec = Inr cmd"
    and t0: "now s = (Inr t0, s0)" and run: "target_errors (exec_json target cmd lim priority) s0 = (Inr r, s1)"
    and t1: "now s1 = (Inr t1, s')" and v: "verdict ppf name ms pf (t1 - t0) r = Inr en"
    using assms(1) unfolding run_one_def by (auto simp: bnd_eq_Inr lift_run)
  obtain res where r: "r = Inr res" using v assms(2) by (cases r) (auto simp: verdict_def ebnd_Inr failed_entry_def)
  have exec: "exec_json target cmd lim priority s0 = (Inr res, s1)"
    using run unfolding r by (rule target_errors_Inr)
  from exec_json_result [OF this] obtain kvs raw where
    e: "history s1 = history s0 @ [(Rpc target ''exec.cmd'' (JObj kvs), Inr raw)]" "map_of kvs ''command'' = Some cmd"
      "exec_result_of raw = Inr res" by blast
  have "(Rpc target ''exec.cmd'' (JObj kvs), Inr raw) \<in> set es"
  proof -
    obtain es0 es1 where "history s0 = history s @ es0" "history s' = history s1 @ es1"
      using now_grows [OF t0] now_grows [OF t1] by (auto simp: grows_def)
    then have "es = es0 @ [(Rpc target ''exec.cmd'' (JObj kvs), Inr raw)] @ es1" using e(1) assms(3) by simp
    then show ?thesis by simp
  qed
  moreover have "all_markers (ex_output res) ms = Inr True" "truthy pf \<longrightarrow> ppf (ex_output res) \<noteq> [] \<and> (\<forall>p \<in> set (ppf (ex_output res)). snd p)"
    using v assms(2) by (auto simp: verdict_def r ebnd_Inr Let_def passfail_ok_def list_all_iff simp del: split_paired_All)
      (metis snd_conv)
  ultimately show ?thesis using e(2,3) m all_markers_True unfolding backed_by_def by blast
qed

lemma for_each_run:
  assumes "\<And>x. emits (\<lambda>_. True) (f x)" "for_each f xs s = (Inr ys, s')" "history s' = history s @ es"
  shows "length ys = length xs \<and> (\<forall>i < length xs. \<exists>a b mid. f (xs ! i) a = (Inr (ys ! i), b) \<and> history b = history a @ mid \<and> set mid \<subseteq> set es)"
  using assms(2,3)
proof (induction xs arbitrary: s ys es)
  case Nil
  then show ?case by (simp add: ret_def)
next
  case (Cons x xs)
  obtain y s1 ys' where y: "f x s = (Inr y, s1)" and rest: "for_each f xs s1 = (Inr ys', s')" and ys: "ys = y # ys'"
    using Cons.prems(1) by (auto simp: bnd_eq_Inr ret_def)
  obtain e1 e2 where e: "history s1 = history s @ e1" "history s' = history s1 @ e2"
    using emitsD [OF assms(1) y] emitsD [OF emits_for_each [OF assms(1)] rest] by metis
  then have es: "es = e1 @ e2" using Cons.prems(2) by simp
  note IH = Cons.IH [OF rest e(2)]
  show ?case
  proof (intro conjI allI impI)
    show "length ys = length (x # xs)" using IH ys by simp
    fix i assume i: "i < length (x # xs)"
    show "\<exists>a b mid. f ((x # xs) ! i) a = (Inr (ys ! i), b) \<and> history b = history a @ mid \<and> set mid \<subseteq> set es"
    proof (cases i)
      case 0
      then show ?thesis using y e(1) es ys by auto
    next
      case (Suc j)
      then obtain a b mid where "f (xs ! j) a = (Inr (ys' ! j), b)" "history b = history a @ mid" "set mid \<subseteq> set e2"
        using IH i by auto
      then show ?thesis using Suc ys es by auto
    qed
  qed
qed

lemma backed_by_mono: "backed_by ppf target es spec \<Longrightarrow> set es \<subseteq> set es' \<Longrightarrow> backed_by ppf target es' spec"
  unfolding backed_by_def by blast

lemma emits_suite_steps:
  "emits (\<lambda>_. True) (load_suite suite)" "emits (\<lambda>_. True) (upload_one target data up)" "emits (\<lambda>_. True) (aqt_results loaded)"
  unfolding load_suite_def aqt_root_def upload_one_def aqt_results_def Let_def by (intro emits; simp)+

text \<open>
  C33. The counts of run_suite are those of its entries, every test of the suite has one entry,
  and a test is passed only if its command was sent to the target and answered with an output
  that holds every marker and, where asked, only passing lines.
\<close>

theorem suite_passes_are_backed:
  assumes "tests_run_suite ppf loaded target suite skip priority s = (Inr run, s')" "history s' = history s @ es"
  shows "sr_passed run = length (filter se_passed (sr_entries run)) \<and> sr_total run = length (sr_entries run) \<and>
    (\<exists>ups runs data specs. sr_entries run = ups @ runs \<and> (skip \<longrightarrow> ups = []) \<and>
       load_suite suite s = (Inr data, s) \<and> ebnd (get_or ''tests'' (JArr []) data) elements = Inr specs \<and> length runs = length specs \<and>
       (\<forall>i < length specs. se_passed (runs ! i) \<longrightarrow> backed_by ppf target es (specs ! i)))"
proof -
  obtain data s1 ups s2 s3 specs runs n where
    d: "load_suite suite s = (Inr data, s1)" and
    u: "(if skip then ret [] else bnd (lift (ebnd (get_or ''upload_binaries'' (JArr []) data) elements)) (for_each (upload_one target data))) s1
      = (Inr ups, s2)" and
    q: "aqt_results loaded s2 = (Inr (), s3)" and sp: "ebnd (get_or ''tests'' (JArr []) data) elements = Inr specs" and
    r: "for_each (run_one ppf target priority) specs s3 = (Inr runs, s')" and
    out: "run = \<lparr>sr_suite = n, sr_passed = length (filter se_passed (ups @ runs)), sr_total = length (ups @ runs), sr_entries = ups @ runs\<rparr>"
    using assms(1) unfolding tests_run_suite_def Let_def by (auto simp: bnd_eq_Inr lift_run ret_def)
  have s1: "s1 = s" using d by (auto simp: load_suite_def aqt_root_def bnd_def gets_def ret_def raise_def lift_run Let_def split: option.splits)
  have "emits (\<lambda>_. True) (if skip then ret [] else bnd (lift (ebnd (get_or ''upload_binaries'' (JArr []) data) elements)) (for_each (upload_one target data)))"
    by (intro emits emits_suite_steps)
  from emitsD [OF this u] emitsD [OF emits_suite_steps(3) q] emitsD [OF emits_for_each [OF emits_run_one] r]
  obtain e1 e2 e3 where e: "history s2 = history s1 @ e1" "history s3 = history s2 @ e2" "history s' = history s3 @ e3" by metis
  then have es: "set e3 \<subseteq> set es" using assms(2) s1 by auto
  note runs = for_each_run [OF emits_run_one r e(3)]
  have "backed_by ppf target es (specs ! i)" if "i < length specs" "se_passed (runs ! i)" for i
  proof -
    from runs that obtain a b mid where "run_one ppf target priority (specs ! i) a = (Inr (runs ! i), b)"
      "history b = history a @ mid" "set mid \<subseteq> set e3" by blast
    from run_one_backed [OF this(1) that(2) this(2)] this(3) es show ?thesis by (meson backed_by_mono subset_trans)
  qed
  moreover have "skip \<longrightarrow> ups = []" using u by (auto simp: ret_def)
  ultimately show ?thesis using d s1 sp runs by (auto simp: out)
qed

text \<open>A suite of two tests; the second command fails with code 20 and has nothing to look for: it passes.\<close>

definition suite_text :: string where
  "suite_text = json_dumps (JObj [(''name'', JStr ''S''), (''tests'', JArr [
     JObj [(''command'', JStr ''echo''), (''pass_markers'', JArr [JStr ''hello''])], JObj [(''command'', JStr ''fail'')]])])"

definition suite_demo :: sandbox_state where
  "suite_demo = (sandbox_init (empty_config\<lparr>targets := [(''x'', (target_of Qemu)\<lparr>channels := no_channels\<lparr>chan_mcpd := Some default_mcpd\<rparr>\<rparr>)],
        paths := (paths empty_config)\<lparr>amiga_qemu_tests := Some ''/a''\<rparr>\<rparr>)
     (scripted [Inr (JInt 0), Inr (JObj [(''output'', JStr ''hello world'')]), Inr (JInt 0), Inr (JInt 0),
        Inr (JObj [(''output'', JStr []), (''exit_code'', JInt 20)]), Inr (JInt 0)]))
     \<lparr>host_files := [(''/a/config/projects/s.json'', suite_text)]\<rparr>"

lemma suite_demo_run:
  "map_sum (\<lambda>_. ()) (\<lambda>r. (sr_passed r, sr_total r, map se_passed (sr_entries r)))
     (fst (tests_run_suite (\<lambda>_. []) True ''x'' ''s'' True None suite_demo)) = Inr (2, 2, [True, True])"
  by code_simp

theorem suite_passes_are_backed_witness:
  "\<exists>run s'. tests_run_suite (\<lambda>_. []) True ''x'' ''s'' True None suite_demo = (Inr run, s') \<and> sr_passed run = 2 \<and>
     (\<exists>spec. backed_by (\<lambda>_. []) ''x'' (history s') spec)"
proof -
  obtain r s' where r: "tests_run_suite (\<lambda>_. []) True ''x'' ''s'' True None suite_demo = (r, s')" by force
  then obtain run where run: "tests_run_suite (\<lambda>_. []) True ''x'' ''s'' True None suite_demo = (Inr run, s')"
    and p: "sr_passed run = 2" "map se_passed (sr_entries run) = [True, True]"
    using suite_demo_run by (cases r) auto
  have h: "history s' = history suite_demo @ history s'"
    by (simp add: suite_demo_def sandbox_init_def fleet_init_def fleet.defs sandbox_state.defs)
  from suite_passes_are_backed [OF run h] obtain runs specs where
    "sr_entries run = runs" "length runs = length specs"
    "\<forall>i < length specs. se_passed (runs ! i) \<longrightarrow> backed_by (\<lambda>_. []) ''x'' (history s') (specs ! i)" by auto
  moreover from this p(2) have "0 < length specs" "se_passed (runs ! 0)" by (auto simp: map_eq_Cons_conv)
  ultimately show ?thesis using run p(1) by blast
qed

end
