(* ===== verification/WbTools.thy ===== *)
theory WbTools
  imports Upload SysTools
begin

text \<open>
  The screen and event tools (\<^verbatim>\<open>tools/wb.py\<close>, \<^verbatim>\<open>tools/events.py\<close>): lists of screens and windows, the
  screenshot, which the daemon writes on the target and the host fetches, and the wait for events.
\<close>

section \<open>Screens and windows\<close>

record screen_info =
  sc_index :: int
  sc_titles :: "string \<times> string"
  sc_box :: "int \<times> int \<times> int \<times> int"
  sc_bar_height :: int
  sc_flags :: int
  sc_windows :: int

definition int_field :: "string \<Rightarrow> json \<Rightarrow> exn + int" where "int_field k j = field k v_int j"
definition str_field :: "string \<Rightarrow> json \<Rightarrow> exn + string" where "str_field k j = field k v_str j"

definition box_of :: "json \<Rightarrow> exn + int \<times> int \<times> int \<times> int" where
  "box_of j = ebnd (int_field ''left'' j) (\<lambda>l. ebnd (int_field ''top'' j) (\<lambda>t. ebnd (int_field ''width'' j) (\<lambda>w.
     ebnd (int_field ''height'' j) (\<lambda>h. Inr (l, t, w, h)))))"

definition screen_info_of :: "json \<Rightarrow> exn + screen_info" where
  "screen_info_of j = ebnd (int_field ''index'' j) (\<lambda>i. ebnd (str_field ''title'' j) (\<lambda>t. ebnd (str_field ''default_title'' j) (\<lambda>d.
     ebnd (box_of j) (\<lambda>b. ebnd (int_field ''bar_height'' j) (\<lambda>bh. ebnd (int_field ''flags'' j) (\<lambda>f.
     ebnd (int_field ''window_count'' j) (\<lambda>n.
     Inr \<lparr>sc_index = i, sc_titles = (t, d), sc_box = b, sc_bar_height = bh, sc_flags = f, sc_windows = n\<rparr>)))))))"

record window_info =
  wi_title :: string
  wi_screen :: string
  wi_screen_index :: int
  wi_box :: "int \<times> int \<times> int \<times> int"
  wi_flags :: int

definition window_info_of :: "json \<Rightarrow> exn + window_info" where
  "window_info_of j = ebnd (str_field ''title'' j) (\<lambda>t. ebnd (str_field ''screen'' j) (\<lambda>s. ebnd (int_field ''screen_index'' j) (\<lambda>i.
     ebnd (box_of j) (\<lambda>b. ebnd (int_field ''flags'' j) (\<lambda>f.
     Inr \<lparr>wi_title = t, wi_screen = s, wi_screen_index = i, wi_box = b, wi_flags = f\<rparr>)))))"

text \<open>A request without parameters whose reply is a list.\<close>

definition list_request :: "string \<Rightarrow> string \<Rightarrow> (json \<Rightarrow> exn + 'a) \<Rightarrow> ('w fleet_scheme, 'a list) io" where
  "list_request target method v = bnd (fleet_mcpd target) (\<lambda>_. bnd (rpc target method JNull) (\<lambda>raw.
     lift (ebnd (elements raw) (v_each v))))"

definition wb_screens :: "string \<Rightarrow> ('w fleet_scheme, screen_info list) io" where
  "wb_screens target = list_request target ''wb.screens'' screen_info_of"

definition wb_windows :: "string \<Rightarrow> ('w fleet_scheme, window_info list) io" where
  "wb_windows target = list_request target ''wb.windows'' window_info_of"

definition wb_publicscreens :: "string \<Rightarrow> ('w fleet_scheme, (string \<times> int) list) io" where
  "wb_publicscreens target = list_request target ''wb.publicscreens'' (\<lambda>j.
     ebnd (str_field ''name'' j) (\<lambda>n. ebnd (int_field ''priority'' j) (\<lambda>p. Inr (n, p))))"

record frontmost =
  fm_screen :: "(string \<times> int \<times> int) option"
  fm_active_screen :: "json option"
  fm_window :: "(string \<times> int \<times> int \<times> int \<times> int) option"

definition front_screen_of :: "json \<Rightarrow> exn + string \<times> int \<times> int" where
  "front_screen_of j = ebnd (str_field ''title'' j) (\<lambda>t. ebnd (int_field ''width'' j) (\<lambda>w. ebnd (int_field ''height'' j) (\<lambda>h.
     Inr (t, w, h))))"

definition front_window_of :: "json \<Rightarrow> exn + string \<times> int \<times> int \<times> int \<times> int" where
  "front_window_of j = ebnd (str_field ''title'' j) (\<lambda>t. ebnd (box_of j) (\<lambda>b. Inr (t, b)))"

definition dict_of :: "json \<Rightarrow> exn + json" where
  "dict_of j = (case j of JObj kvs \<Rightarrow> Inr j | _ \<Rightarrow> Inl invalid)"

definition wb_frontmost :: "string \<Rightarrow> ('w fleet_scheme, frontmost) io" where
  "wb_frontmost target = bnd (fleet_mcpd target) (\<lambda>_. bnd (rpc target ''wb.frontmost'' JNull) (\<lambda>raw.
     lift (ebnd (field_or ''frontmost_screen'' None (v_opt front_screen_of) raw) (\<lambda>s.
       ebnd (field_or ''active_screen'' None (v_opt dict_of) raw) (\<lambda>a.
       ebnd (field_or ''active_window'' None (v_opt front_window_of) raw) (\<lambda>w.
       Inr \<lparr>fm_screen = s, fm_active_screen = a, fm_window = w\<rparr>))))))"

section \<open>Screenshot\<close>

record wb_shot =
  ws_index :: int
  ws_width :: int
  ws_height :: int
  ws_depth :: int
  ws_size :: nat
  ws_format :: string
  ws_remote :: string
  ws_saved :: string
  ws_b64 :: "string option"

definition DOWNLOAD_CHUNK :: int where "DOWNLOAD_CHUNK = 24 * 1024 * 1024"

definition parent_of :: "string \<Rightarrow> string" where
  "parent_of p = (if CHR ''/'' \<notin> set p then ''.'' else let d = fst (rpartition CHR ''/'' p) in if d = [] then ''/'' else d)"

definition shot_of :: "json \<Rightarrow> string \<Rightarrow> string \<Rightarrow> bool \<Rightarrow> exn + wb_shot" where
  "shot_of raw out data with_png =
     ebnd (ebnd (item ''screen_index'' raw) py_int) (\<lambda>i. ebnd (ebnd (item ''width'' raw) py_int) (\<lambda>w.
     ebnd (ebnd (item ''height'' raw) py_int) (\<lambda>h. ebnd (ebnd (item ''depth'' raw) py_int) (\<lambda>d.
     ebnd (get_or ''format'' (JStr ''png'') raw) (\<lambda>f. ebnd (item ''path'' raw) (\<lambda>p.
     Inr \<lparr>ws_index = i, ws_width = w, ws_height = h, ws_depth = d, ws_size = length data, ws_format = str_of f,
          ws_remote = str_of p, ws_saved = out, ws_b64 = (if with_png then Some (b64encode data) else None)\<rparr>))))))"

text \<open>The temporary file is created empty, and stays.\<close>

definition local_target :: "string option \<Rightarrow> ('w fleet_scheme, string) io" where
  "local_target save_path = (case save_path of
       Some (c # cs) \<Rightarrow> bnd (host ''mkdir'' [JStr (parent_of (c # cs))]) (\<lambda>_. ret (c # cs))
     | _ \<Rightarrow> bnd (host ''mkstemp'' [JStr ''amiga_fleet_wb_'', JStr ''.png'']) (\<lambda>v.
         bnd (write_host_file (as_str v) []) (\<lambda>_. ret (as_str v))))"

definition wb_screenshot ::
    "string \<Rightarrow> int \<Rightarrow> string option \<Rightarrow> string \<Rightarrow> bool \<Rightarrow> bool \<Rightarrow> ('w fleet_scheme, wb_shot) io" where
  "wb_screenshot target screen_index save_path remote_path keep_remote with_png =
     bnd (mcpd_request target ''wb.screenshot'' [(''screen_index'', JInt screen_index), (''path'', JStr remote_path)]) (\<lambda>raw.
     bnd (local_target save_path) (\<lambda>out.
     bnd (lift (item ''path'' raw)) (\<lambda>p.
     bnd (fs_download (\<lambda>_. []) target (str_of p) out DOWNLOAD_CHUNK False False) (\<lambda>_.
     bnd (gets (host_file out)) (\<lambda>f.
     bnd (case f of Some data \<Rightarrow> ret data | None \<Rightarrow> raise (PyErr FileNotFoundError out)) (\<lambda>data.
     bnd (if keep_remote then ret () else ignoring (rpc target ''fs.delete'' (JObj [(''path'', p)]))) (\<lambda>_.
     lift (shot_of raw out data with_png))))))))"

section \<open>Events\<close>

definition event_entry_of :: "json \<Rightarrow> exn + string \<times> json" where
  "event_entry_of j = ebnd (str_field ''topic'' j) (\<lambda>t. ebnd (field ''data'' dict_of j) (\<lambda>d. Inr (t, d)))"

definition events_wait :: "string \<Rightarrow> string list option \<Rightarrow> int \<Rightarrow> ('w fleet_scheme, (string \<times> json) list \<times> int) io" where
  "events_wait target topics timeout_ms =
     bnd (mcpd_request target ''events.wait'' ([(''timeout_ms'', JInt timeout_ms)]
            @ (case topics of Some ts \<Rightarrow> [(''topics'', JArr (map JStr ts))] | None \<Rightarrow> []))) (\<lambda>raw.
     lift (ebnd (field ''events'' (v_list event_entry_of) raw) (\<lambda>es. ebnd (field ''elapsed_ms'' v_int raw) (\<lambda>ms. Inr (es, ms)))))"

end
