(* ===== verification/WbTools_Correct.thy ===== *)
theory WbTools_Correct
  imports WbTools Upload_Correct
begin

text \<open>
  The screenshot: what the host saves, counts and embeds is the file the daemon holds.
\<close>

lemma mcpd_request_frame:
  "mcpd_request t m p s = (r, s') \<Longrightarrow> answer s' = answer s \<and> host_files s' = host_files s"
  by (rule mcpd_request_events(2))

lemma local_target_answer:
  assumes "local_target save s = (r, s')"
  shows "answer s' = answer s"
proof -
  have "emits (\<lambda>_. True) (local_target save)"
    unfolding local_target_def write_host_file_def by (intro emits) simp_all
  then show ?thesis using assms by (rule emitsD)
qed

lemma rpc_frame: "rpc t m p s = (r, s') \<Longrightarrow> host_files s' = host_files s"
  by (auto simp: rpc_def perform_def Let_def)

lemma ignoring_rpc_files: "ignoring (rpc t m p) s = (r, s') \<Longrightarrow> host_files s' = host_files s"
  by (auto simp: ignoring_def catch_def bnd_def ret_def rpc_def perform_def Let_def split: prod.splits sum.splits)

lemma plain_download:
  assumes "fs_download f target remote local chunk False False s = (Inr d, s')" "0 < chunk" "holds_file target remote F s"
  shows "host_file local s' = Some F"
proof -
  obtain t0 s1 where 1: "now s = (Inr t0, s1)" by (rule now_run)
  obtain st s2 where 2: "chunked_download target remote local chunk 2 0 s1 = (Inr st, s2)"
    and 3: "bnd now (\<lambda>_. ret \<lparr>d_path = local, d_total = d_total st, d_chunks = d_chunks st, d_elapsed_us = d_elapsed_us st,
       dr_resumed_from = 0, dr_verified = False, dr_sha256 = None\<rparr>) s2 = (Inr d, s')"
    using assms(1) 1
    by (cases "chunked_download target remote local chunk 2 0 s1")
      (auto simp: fs_download_def bnd_def gets_def ret_def Let_def split: option.splits sum.splits)
  have "holds_file target remote F s1" using assms(3) now_files [OF 1] holds_file_answer [of s1 s] by simp
  from chunked_download_copies [OF this assms(2) _ 2] have "host_file local s2 = Some F" by simp
  moreover obtain t1 s3 where "now s2 = (Inr t1, s3)" by (rule now_run)
  ultimately show ?thesis using 3 now_files [of s2 t1 s3] by (auto simp: bnd_def ret_def host_file_def)
qed

theorem screenshot_is_fetched:
  assumes run: "wb_screenshot target index save remote keep with_png s = (Inr shot, s')"
    and holds: "holds_file target (ws_remote shot) F s"
  shows "host_file (ws_saved shot) s' = Some F \<and> ws_size shot = length F
    \<and> ws_b64 shot = (if with_png then Some (b64encode F) else None)"
proof -
  from run obtain raw s1 out s2 p d s3 u s4 data where
    1: "mcpd_request target ''wb.screenshot'' [(''screen_index'', JInt index), (''path'', JStr remote)] s = (Inr raw, s1)"
    and 2: "local_target save s1 = (Inr out, s2)" and p: "item ''path'' raw = Inr p"
    and 3: "fs_download (\<lambda>_. []) target (str_of p) out DOWNLOAD_CHUNK False False s2 = (Inr d, s3)"
    and data: "host_file out s3 = Some data"
    and 4: "(if keep then ret () else ignoring (rpc target ''fs.delete'' (JObj [(''path'', p)]))) s3 = (Inr u, s')"
    and shot: "shot_of raw out data with_png = Inr shot"
    unfolding wb_screenshot_def bnd_eq_Inr
    by (auto simp: lift_run gets_def ret_def raise_def split: option.splits)
  have remote: "ws_remote shot = str_of p" "ws_saved shot = out" "ws_size shot = length data"
    "ws_b64 shot = (if with_png then Some (b64encode data) else None)"
    using shot p by (auto simp: shot_of_def ebnd_Inr simp del: b64encode.simps)
  have "answer s2 = answer s" using mcpd_request_frame [OF 1] local_target_answer [OF 2] by simp
  with holds remote have "holds_file target (str_of p) F s2" using holds_file_answer [of s2 s] by simp
  from plain_download [OF 3 _ this] have F: "host_file out s3 = Some F" by (simp add: DOWNLOAD_CHUNK_def)
  have "host_files s' = host_files s3" using 4 ignoring_rpc_files by (cases keep) (auto simp: ret_def)
  with F data remote show ?thesis by (simp add: host_file_def)
qed

text \<open>A target whose screenshot is a file of two bytes.\<close>

definition shot_reply :: json where
  "shot_reply = JObj [(''screen_index'', JInt 0), (''width'', JInt 640), (''height'', JInt 480), (''depth'', JInt 24),
     (''path'', JStr ''T:s'')]"

definition shot_daemon :: "(event \<times> outcome) list \<Rightarrow> event \<Rightarrow> outcome" where
  "shot_daemon h e = (case e of
     Rpc t m p \<Rightarrow> if m = ''wb.screenshot'' then Inr shot_reply else two_byte_daemon h e
   | _ \<Rightarrow> Inr (JInt 0))"

definition shot_fleet :: fleet where
  "shot_fleet = (transfer_demo [] [])\<lparr>answer := shot_daemon\<rparr>"

lemma shot_run:
  "\<exists>shot s'. wb_screenshot ''qemu'' 0 (Some ''g'') ''T:s'' True False shot_fleet = (Inr shot, s') \<and> ws_remote shot = ''T:s'' \<and> ws_saved shot = ''g''"
  by (simp add: wb_screenshot_def local_target_def shot_fleet_def shot_daemon_def shot_reply_def fs_download_def shot_of_def get_or_def
      transfer_run chunked_download_def two_byte_daemon_def host_def item_def download_loop.simps payload_of_def DOWNLOAD_CHUNK_def
      append_host_file_def write_host_file_def b64decode_encode parent_of_def str_of_def del: b64encode.simps)

theorem screenshot_is_fetched_witness:
  "\<exists>shot s'. wb_screenshot ''qemu'' 0 (Some ''g'') ''T:s'' True False shot_fleet = (Inr shot, s') \<and> host_file ''g'' s' = Some ''hi''
     \<and> ws_size shot = 2 \<and> ws_b64 shot = None"
proof -
  obtain shot s' where run: "wb_screenshot ''qemu'' 0 (Some ''g'') ''T:s'' True False shot_fleet = (Inr shot, s')"
    and p: "ws_remote shot = ''T:s''" "ws_saved shot = ''g''" using shot_run by blast
  have "holds_file ''qemu'' ''T:s'' ''hi'' shot_fleet"
    by (auto simp: shot_fleet_def shot_daemon_def holds_file_def two_byte_daemon_def item_def payload_of_def b64decode_encode
        intro!: exI [of _ 1] simp del: b64encode.simps)
  then have "holds_file ''qemu'' (ws_remote shot) ''hi'' shot_fleet" by (simp add: p)
  from screenshot_is_fetched [OF run this] p run show ?thesis by auto
qed

end
