(* ===== verification/Models.thy ===== *)
theory Models
  imports Tools
begin

text \<open>
  Result models as data: the fields of a Pydantic model with their types and defaults, and the lax
  validation of a decoded reply against them.  A validated model is the object of its fields, in order.
  \<open>check_kind_idem\<close>: what a model accepts, it accepts again unchanged.
\<close>

section \<open>Kinds\<close>

text \<open>A field has a name, a kind and, unless it is required, a default.\<close>

datatype kind =
    KStr
  | KInt
  | KBool
  | KFloat
  | KDict
  | KOpt kind
  | KList kind
  | KModel "(string \<times> kind \<times> json option) list"

text \<open>A number is kept as it is written; a text is a number if it is a numeral of JSON.\<close>

definition v_float :: "json \<Rightarrow> exn + json" where
  "v_float j = (case j of
       JInt i \<Rightarrow> Inr j | JFloat s \<Rightarrow> Inr j | JBool b \<Rightarrow> Inr (JInt (if b then 1 else 0))
     | JStr s \<Rightarrow> (case json_loads (strip s) of Some (JInt i) \<Rightarrow> Inr (JInt i) | Some (JFloat f) \<Rightarrow> Inr (JFloat f) | _ \<Rightarrow> Inl invalid)
     | _ \<Rightarrow> Inl invalid)"

fun model_fields :: "(string \<times> (json \<Rightarrow> exn + json) \<times> json option) list \<Rightarrow> (string \<times> json) list \<Rightarrow> exn + (string \<times> json) list" where
  "model_fields [] kvs = Inr []"
| "model_fields ((f, v, d) # fs) kvs =
     ebnd (case map_of kvs f of Some x \<Rightarrow> v x | None \<Rightarrow> (case d of Some x \<Rightarrow> Inr x | None \<Rightarrow> Inl invalid)) (\<lambda>x.
     ebnd (model_fields fs kvs) (\<lambda>r. Inr ((f, x) # r)))"

primrec check_kind :: "kind \<Rightarrow> json \<Rightarrow> exn + json" where
  "check_kind KStr = (\<lambda>j. ebnd (v_str j) (\<lambda>s. Inr (JStr s)))"
| "check_kind KInt = (\<lambda>j. ebnd (v_int j) (\<lambda>i. Inr (JInt i)))"
| "check_kind KBool = (\<lambda>j. ebnd (v_bool j) (\<lambda>b. Inr (JBool b)))"
| "check_kind KFloat = v_float"
| "check_kind KDict = (\<lambda>j. case j of JObj kvs \<Rightarrow> Inr j | _ \<Rightarrow> Inl invalid)"
| "check_kind (KOpt k) = (\<lambda>j. if j = JNull then Inr JNull else check_kind k j)"
| "check_kind (KList k) = (\<lambda>j. ebnd (v_list (check_kind k) j) (\<lambda>xs. Inr (JArr xs)))"
| "check_kind (KModel fs) = (\<lambda>j. case j of
       JObj kvs \<Rightarrow> ebnd (model_fields (map (map_prod id (map_prod check_kind id)) fs) kvs) (\<lambda>r. Inr (JObj r))
     | _ \<Rightarrow> Inl invalid)"

text \<open>A model as the source may write one: no field twice, every default of its field's kind.\<close>

primrec wf_kind :: "kind \<Rightarrow> bool" where
  "wf_kind KStr = True"
| "wf_kind KInt = True"
| "wf_kind KBool = True"
| "wf_kind KFloat = True"
| "wf_kind KDict = True"
| "wf_kind (KOpt k) = wf_kind k"
| "wf_kind (KList k) = wf_kind k"
| "wf_kind (KModel fs) = (distinct (map fst fs) \<and> list_all (\<lambda>p. fst (snd p)) (map (map_prod id (map_prod wf_kind id)) fs)
     \<and> list_all (\<lambda>p. case snd (snd p) of Some d \<Rightarrow> fst (snd p) d = Inr d | None \<Rightarrow> True)
          (map (map_prod id (map_prod check_kind id)) fs))"

section \<open>Validation is idempotent\<close>

lemma model_fields_names: "model_fields fs kvs = Inr r \<Longrightarrow> map fst r = map fst fs"
  by (induction fs kvs arbitrary: r rule: model_fields.induct) (auto simp: ebnd_Inr)

lemma model_fields_agree:
  "(\<And>f. f \<in> fst ` set fs \<Longrightarrow> map_of kvs f = map_of kvs' f) \<Longrightarrow> model_fields fs kvs = model_fields fs kvs'"
  by (induction fs kvs rule: model_fields.induct) (auto simp: ebnd_def split: option.splits sum.splits)

lemma model_fields_idem:
  assumes "distinct (map fst fs)"
    and "\<And>f v d x y. (f, v, d) \<in> set fs \<Longrightarrow> v x = Inr y \<Longrightarrow> v y = Inr y"
    and "\<And>f v d x. (f, v, Some x) \<in> set fs \<Longrightarrow> v x = Inr x"
    and "model_fields fs kvs = Inr r"
  shows "model_fields fs r = Inr r"
  using assms
proof (induction fs kvs arbitrary: r rule: model_fields.induct)
  case (1 kvs)
  then show ?case by simp
next
  case (2 f v d fs kvs)
  obtain x r' where x: "(case map_of kvs f of Some x \<Rightarrow> v x | None \<Rightarrow> (case d of Some x \<Rightarrow> Inr x | None \<Rightarrow> Inl invalid)) = Inr x"
    and r': "model_fields fs kvs = Inr r'" and r: "r = (f, x) # r'"
    using 2(5) by (auto simp: ebnd_Inr)
  have vx: "v x = Inr x"
  proof (cases "map_of kvs f")
    case None
    then have "d = Some x" using x by (cases d) simp_all
    then show ?thesis using 2(4) [of f v x] by simp
  next
    case (Some y)
    then show ?thesis using x 2(3) [of f v d y x] by simp
  qed
  have "model_fields fs r' = Inr r'"
  proof (rule 2(1) [OF _ _ _ r'])
    show "distinct (map fst fs)" using 2(2) by simp
    show "v y = Inr y" if "(f, v, d) \<in> set fs" "v x = Inr y" for f v d x y using 2(3) [of f v d x y] that by simp
    show "v x = Inr x" if "(f, v, Some x) \<in> set fs" for f v x using 2(4) [of f v x] that by simp
  qed
  moreover have "model_fields fs ((f, x) # r') = model_fields fs r'"
    using 2(2) by (intro model_fields_agree) auto
  ultimately show ?case using vx by (simp add: r)
qed

lemma checked_field:
  assumes "(f, w, d) \<in> set (map (map_prod id (map_prod check_kind id)) fs)"
  shows "\<exists>k. (f, k, d) \<in> set fs \<and> w = check_kind k"
proof -
  obtain a k c where "(a, k, c) \<in> set fs" "(f, w, d) = map_prod id (map_prod check_kind id) (a, k, c)" using assms by auto
  then show ?thesis by auto
qed

lemma v_each_idem: "(\<And>j v. f j = Inr v \<Longrightarrow> f v = Inr v) \<Longrightarrow> v_each f xs = Inr ys \<Longrightarrow> v_each f ys = Inr ys"
  by (induction xs arbitrary: ys) (auto split: sum.splits)

lemma check_kind_idem: "wf_kind k \<Longrightarrow> check_kind k j = Inr v \<Longrightarrow> check_kind k v = Inr v"
proof (induction k arbitrary: j v)
  case (KModel fs)
  let ?fs = "map (map_prod id (map_prod check_kind id)) fs"
  obtain kvs r where r: "model_fields ?fs kvs = Inr r" "v = JObj r"
    using KModel.prems(2) by (auto simp: ebnd_Inr split: json.splits)
  have idem: "w y = Inr y" if m: "(f, w, d) \<in> set ?fs" "w x = Inr y" for f w d x y
  proof -
    obtain k where k: "(f, k, d) \<in> set fs" "w = check_kind k" using checked_field [OF m(1)] by blast
    have "wf_kind k" using KModel.prems(1) k(1) by (auto simp: list_all_iff)
    then show ?thesis using KModel.IH [OF k(1), of "(k, d)" k x y] k(2) m(2) by (auto simp: fsts.simps snds.simps)
  qed
  have dflt: "w x = Inr x" if m: "(f, w, Some x) \<in> set ?fs" for f w x
  proof -
    obtain k where "(f, k, Some x) \<in> set fs" "w = check_kind k" using checked_field [OF m] by blast
    then show ?thesis using KModel.prems(1) by (auto simp: list_all_iff)
  qed
  have "distinct (map fst ?fs)" using KModel.prems(1) by (simp add: comp_def)
  then have "model_fields ?fs r = Inr r" by (rule model_fields_idem) (fact idem, fact dflt, fact r(1))
  then show ?case by (simp add: r(2))
qed (auto simp: ebnd_Inr v_list_def v_float_def split: json.splits option.splits if_splits intro: v_each_idem)

end
