(* ===== verification/SysInfo.thy ===== *)
theory SysInfo
  imports Models FleetTools
begin

text \<open>
  The requests of the system tools that read the state of a target (\<^verbatim>\<open>tools/sys.py\<close>), with their result
  models, the snapshot of a task (\<^verbatim>\<open>tools/debug.py\<close>) and the health of the fleet (\<^verbatim>\<open>tools/fleet.py\<close>,
  \<^verbatim>\<open>fleet.snapshot\<close>).
\<close>

section \<open>Result models\<close>

definition TaskInfo :: kind where
  "TaskInfo = KModel [
     (''name'', KStr, None), (''type'', KStr, None), (''priority'', KInt, None), (''state'', KStr, None)]"

definition TasksResult :: kind where
  "TasksResult = KModel [
     (''ready'', KList TaskInfo, None), (''waiting'', KList TaskInfo, None)]"

definition LibraryInfo :: kind where
  "LibraryInfo = KModel [
     (''name'', KStr, None), (''version'', KInt, None), (''revision'', KInt, None), (''open_count'', KInt, None)]"

definition PortInfo :: kind where
  "PortInfo = KModel [
     (''name'', KStr, None), (''priority'', KInt, None), (''flags'', KInt, None)]"

definition LastAlertResult :: kind where
  "LastAlertResult = KModel [
     (''alert_code'', KInt, None), (''values'', KList KInt, None)]"

definition UptimeResult :: kind where
  "UptimeResult = KModel [
     (''seconds'', KFloat, None), (''eclock_freq'', KFloat, None)]"

definition MemorySliceResult :: kind where
  "MemorySliceResult = KModel [
     (''free'', KInt, None), (''largest'', KInt, Some (JInt 0)), (''total'', KInt, Some (JInt 0))]"

definition MemoryResult :: kind where
  "MemoryResult = KModel [
     (''any'', MemorySliceResult, None), (''shared'', MemorySliceResult, None),
     (''virtual'', MemorySliceResult, None)]"

definition VolumeInfo :: kind where
  "VolumeInfo = KModel [
     (''name'', KStr, None), (''type'', KInt, None), (''port'', KInt, Some (JInt 0))]"

definition AssignInfo :: kind where
  "AssignInfo = KModel [
     (''name'', KStr, None), (''type'', KInt, None)]"

definition CpuInfo :: kind where
  "CpuInfo = KModel [
     (''count'', KInt, Some (JInt 0)), (''family_id'', KInt, Some (JInt 0)),
     (''family'', KStr, Some (JStr ''unknown'')), (''model_id'', KInt, Some (JInt 0)),
     (''model'', KStr, Some (JStr ''unknown'')), (''model_string'', KOpt KStr, Some JNull),
     (''speed_hz'', KInt, Some (JInt 0)), (''fsb_hz'', KInt, Some (JInt 0)),
     (''timebase_hz'', KInt, Some (JInt 0)), (''l1_cache'', KInt, Some (JInt 0)),
     (''l2_cache'', KInt, Some (JInt 0)), (''l3_cache'', KInt, Some (JInt 0)),
     (''vector_unit'', KInt, Some (JInt 0)), (''page_size'', KInt, Some (JInt 0)),
     (''cache_line'', KInt, Some (JInt 0))]"

definition ResourceProbes :: kind where
  "ResourceProbes = KModel [
     (''xena'', KBool, Some (JBool False)), (''i2c'', KBool, Some (JBool False)),
     (''acpi'', KBool, Some (JBool False)), (''performancemonitor'', KBool, Some (JBool False)),
     (''fsldma'', KBool, Some (JBool False))]"

definition HardwareResult :: kind where
  "HardwareResult = KModel [
     (''attn_flags'', KInt, None), (''attn_flags_decoded'', KList KStr, Some (JArr [])), (''cpu'', CpuInfo, None),
     (''resources'', ResourceProbes, None)]"

definition I2CDevice :: kind where
  "I2CDevice = KModel [
     (''addr'', KInt, None), (''device_id'', KOpt KInt, Some JNull), (''hint'', KOpt KStr, Some JNull)]"

definition I2CBus :: kind where
  "I2CBus = KModel [
     (''bus_number'', KInt, None), (''name'', KOpt KStr, Some JNull),
     (''devices'', KList I2CDevice, Some (JArr []))]"

definition I2CResult :: kind where
  "I2CResult = KModel [
     (''available'', KBool, None), (''error'', KOpt KStr, Some JNull), (''buses'', KList I2CBus, Some (JArr []))]"

definition PerfCounter :: kind where
  "PerfCounter = KModel [
     (''index'', KInt, None), (''item_id'', KInt, None), (''item'', KStr, None), (''value'', KInt, None)]"

definition PerfCountersResult :: kind where
  "PerfCountersResult = KModel [
     (''available'', KBool, None), (''error'', KOpt KStr, Some JNull), (''counter_count'', KInt, Some (JInt 0)),
     (''instr_breakpoint'', KBool, Some (JBool False)), (''breakpoint_mask'', KBool, Some (JBool False)),
     (''counters'', KList PerfCounter, Some (JArr []))]"

definition ElfSymbol :: kind where
  "ElfSymbol = KModel [
     (''name'', KStr, None), (''value'', KInt, None), (''size'', KInt, None), (''abs_value'', KInt, None),
     (''binding'', KInt, None), (''type'', KInt, None), (''binding_name'', KOpt KStr, Some JNull),
     (''type_name'', KOpt KStr, Some JNull)]"

definition ExecutableSymbolsResult :: kind where
  "ExecutableSymbolsResult = KModel [
     (''path'', KStr, None), (''num_sections'', KInt, None), (''symbol_count'', KInt, None),
     (''truncated'', KBool, None), (''symbols'', KList ElfSymbol, None)]"

definition AppEntry :: kind where
  "AppEntry = KModel [
     (''appID'', KInt, None), (''name'', KOpt KStr, Some JNull), (''url_identifier'', KOpt KStr, Some JNull),
     (''filename'', KOpt KStr, Some JNull), (''description'', KOpt KStr, Some JNull),
     (''hidden'', KBool, Some (JBool False))]"

definition ApplicationsResult :: kind where
  "ApplicationsResult = KModel [
     (''available'', KBool, None), (''applications'', KList AppEntry, Some (JArr []))]"

definition AlertDecoded :: kind where
  "AlertDecoded = KModel [
     (''code'', KInt, None), (''dead_end'', KBool, None), (''subsystem_id'', KInt, None),
     (''subsystem'', KStr, None), (''general_id'', KInt, None), (''general'', KOpt KStr, Some JNull),
     (''specific'', KInt, None), (''name'', KOpt KStr, Some JNull)]"

definition AlertDecodeResult :: kind where
  "AlertDecodeResult = KModel [
     (''code'', KInt, None), (''decoded'', AlertDecoded, None)]"

definition TlbEntry :: kind where
  "TlbEntry = KModel [
     (''entry'', KInt, None), (''v'', KInt, None), (''iprot'', KInt, None), (''tid'', KInt, None),
     (''ts'', KInt, None), (''tsize_raw'', KInt, None), (''epn'', KInt, None), (''wimge'', KInt, None),
     (''rpnh'', KInt, None), (''rpnl'', KInt, None), (''perms'', KInt, None), (''mas1'', KInt, None),
     (''mas2'', KInt, None), (''mas3'', KInt, None), (''mas7'', KInt, None), (''rpn_36bit_hex'', KStr, None)]"


definition TaskSnapshotRegisters :: kind where
  "TaskSnapshotRegisters = KModel [
     (''pc'', KInt, None), (''sp'', KInt, None), (''lr'', KInt, None), (''msr'', KInt, None), (''ctr'', KInt, None),
     (''xer'', KInt, None), (''cr'', KInt, None), (''traptype'', KInt, None), (''dar'', KInt, None),
     (''dsisr'', KInt, None), (''gpr'', KList KInt, None)]"

definition TaskSnapshotFrame :: kind where
  "TaskSnapshotFrame = KModel [
     (''index'', KInt, None), (''pc'', KInt, None), (''sp'', KInt, None)]"

definition TaskSnapshotResult :: kind where
  "TaskSnapshotResult = KModel [
     (''name'', KStr, None), (''priority'', KInt, None), (''state'', KStr, None), (''rtcf_filled'', KInt, None),
     (''registers'', TaskSnapshotRegisters, None), (''backtrace'', KList TaskSnapshotFrame, None)]"

section \<open>Requests\<close>

text \<open>The results are the validated objects; the target's name, which some of them carry too, is the caller's.\<close>

definition model_request :: "string \<Rightarrow> string \<Rightarrow> json \<Rightarrow> kind \<Rightarrow> ('w fleet_scheme, json) io" where
  "model_request target method params k = bnd (fleet_mcpd target) (\<lambda>_. bnd (rpc target method params) (\<lambda>raw.
     lift (check_kind k raw)))"

definition listing_request :: "string \<Rightarrow> string \<Rightarrow> kind \<Rightarrow> ('w fleet_scheme, json list) io" where
  "listing_request target method k = bnd (fleet_mcpd target) (\<lambda>_. bnd (rpc target method JNull) (\<lambda>raw.
     lift (ebnd (elements raw) (v_each (check_kind k)))))"

definition sys_tasks :: "string \<Rightarrow> ('w fleet_scheme, json) io" where
  "sys_tasks target = model_request target ''sys.tasks'' JNull TasksResult"

definition sys_libraries :: "string \<Rightarrow> ('w fleet_scheme, json list) io" where
  "sys_libraries target = listing_request target ''sys.libraries'' LibraryInfo"

definition sys_devices :: "string \<Rightarrow> ('w fleet_scheme, json list) io" where
  "sys_devices target = listing_request target ''sys.devices'' LibraryInfo"

definition sys_ports :: "string \<Rightarrow> ('w fleet_scheme, json list) io" where
  "sys_ports target = listing_request target ''sys.ports'' PortInfo"

definition sys_lastalert :: "string \<Rightarrow> ('w fleet_scheme, json) io" where
  "sys_lastalert target = model_request target ''sys.lastalert'' JNull LastAlertResult"

definition sys_uptime :: "string \<Rightarrow> ('w fleet_scheme, json) io" where
  "sys_uptime target = model_request target ''sys.uptime'' JNull UptimeResult"

definition sys_memory :: "string \<Rightarrow> ('w fleet_scheme, json) io" where
  "sys_memory target = model_request target ''sys.memory'' JNull MemoryResult"

definition sys_volumes :: "string \<Rightarrow> ('w fleet_scheme, json list) io" where
  "sys_volumes target = listing_request target ''sys.volumes'' VolumeInfo"

definition sys_assigns :: "string \<Rightarrow> ('w fleet_scheme, json list) io" where
  "sys_assigns target = listing_request target ''sys.assigns'' AssignInfo"

definition sys_hardware :: "string \<Rightarrow> ('w fleet_scheme, json) io" where
  "sys_hardware target = model_request target ''sys.hardware'' JNull HardwareResult"

definition sys_hardware_i2c :: "string \<Rightarrow> int \<Rightarrow> int \<Rightarrow> ('w fleet_scheme, json) io" where
  "sys_hardware_i2c target low high = model_request target ''sys.hardware.i2c''
     (JObj [(''addr_low'', JInt low), (''addr_high'', JInt high)]) I2CResult"

definition sys_hardware_perfcounters :: "string \<Rightarrow> ('w fleet_scheme, json) io" where
  "sys_hardware_perfcounters target = model_request target ''sys.hardware.perfcounters'' JNull PerfCountersResult"

text \<open>A filter that is empty or missing is not sent.\<close>

definition text_param :: "string \<Rightarrow> string option \<Rightarrow> (string \<times> json) list" where
  "text_param k v = (case v of Some (c # cs) \<Rightarrow> [(k, JStr (c # cs))] | _ \<Rightarrow> [])"

definition sys_executable_symbols ::
    "string \<Rightarrow> string \<Rightarrow> string option \<Rightarrow> string option \<Rightarrow> string option \<Rightarrow> int \<Rightarrow> ('w fleet_scheme, json) io" where
  "sys_executable_symbols target path match_text binding ty limit = model_request target ''sys.executable.symbols''
     (JObj ([(''path'', JStr path), (''max'', JInt limit)] @ text_param ''match'' match_text
        @ text_param ''binding'' binding @ text_param ''type'' ty)) ExecutableSymbolsResult"

definition sys_applications :: "string \<Rightarrow> ('w fleet_scheme, json) io" where
  "sys_applications target = model_request target ''sys.applications'' JNull ApplicationsResult"

definition sys_alert_decode :: "string \<Rightarrow> int \<Rightarrow> ('w fleet_scheme, json) io" where
  "sys_alert_decode target code = model_request target ''sys.alert_decode'' (JObj [(''code'', JInt code)]) AlertDecodeResult"

section \<open>Registers and memory\<close>

definition int_item :: "string \<Rightarrow> json \<Rightarrow> exn + int" where
  "int_item k raw = ebnd (item k raw) py_int"

definition int_items :: "string \<Rightarrow> json \<Rightarrow> exn + int list" where
  "int_items k raw = ebnd (ebnd (item k raw) elements) (v_each py_int)"

definition text_items :: "string \<Rightarrow> json \<Rightarrow> exn + string list" where
  "text_items k raw = ebnd (ebnd (item k raw) elements) (v_each v_str)"

record ccsr_result =
  cc_base :: int
  cc_offset :: int
  cc_count :: int
  cc_values :: "int list"
  cc_hex :: "string list"

definition sys_read_ccsr :: "string \<Rightarrow> int \<Rightarrow> int \<Rightarrow> ('w fleet_scheme, ccsr_result) io" where
  "sys_read_ccsr target offset count =
     bnd (mcpd_request target ''sys.read_ccsr'' [(''offset'', JInt offset), (''count'', JInt count)]) (\<lambda>raw.
     lift (ebnd (int_item ''ccsr_base'' raw) (\<lambda>b. ebnd (int_item ''offset'' raw) (\<lambda>off. ebnd (int_item ''count'' raw) (\<lambda>n.
       ebnd (int_items ''values'' raw) (\<lambda>vs. ebnd (text_items ''values_hex'' raw) (\<lambda>hs.
       Inr \<lparr>cc_base = b, cc_offset = off, cc_count = n, cc_values = vs, cc_hex = hs\<rparr>))))))) "

record pa_result =
  pa_addr :: int
  pa_count :: int
  pa_width :: int
  pa_bytes :: int
  pa_values :: "int list"
  pa_hex :: "string list"
  pa_b64 :: "string option"

text \<open>\<^verbatim>\<open>raw["count"] * raw["width"]\<close>, which is computed also when it is not needed; the daemon sends integers.\<close>

definition product_of :: "json \<Rightarrow> json \<Rightarrow> exn + json" where
  "product_of a b = (case (a, b) of (JInt x, JInt y) \<Rightarrow> Inr (JInt (x * y)) | _ \<Rightarrow> Inl (PyErr TypeError []))"

definition sys_read_pa :: "string \<Rightarrow> int \<Rightarrow> int \<Rightarrow> int \<Rightarrow> ('w fleet_scheme, pa_result) io" where
  "sys_read_pa target pa count width =
     bnd (mcpd_request target ''sys.read_pa'' [(''pa'', JInt pa), (''count'', JInt count), (''width'', JInt width)]) (\<lambda>raw.
     lift (ebnd (int_item ''pa'' raw) (\<lambda>a. ebnd (int_item ''count'' raw) (\<lambda>n. ebnd (int_item ''width'' raw) (\<lambda>w.
       ebnd (ebnd (item ''count'' raw) (\<lambda>x. ebnd (item ''width'' raw) (product_of x))) (\<lambda>d.
       ebnd (ebnd (get_or ''bytes'' d raw) py_int) (\<lambda>bs.
       ebnd (int_items ''values'' raw) (\<lambda>vs. ebnd (text_items ''values_hex'' raw) (\<lambda>hs.
       ebnd (ebnd (get_or ''bytes_b64'' JNull raw) (v_opt v_str)) (\<lambda>b64.
       Inr \<lparr>pa_addr = a, pa_count = n, pa_width = w, pa_bytes = bs, pa_values = vs, pa_hex = hs, pa_b64 = b64\<rparr>)))))))))) "

definition sys_tlb_dump :: "string \<Rightarrow> ('w fleet_scheme, int \<times> int \<times> json list) io" where
  "sys_tlb_dump target = bnd (mcpd_request target ''sys.tlb_dump'' []) (\<lambda>raw.
     lift (ebnd (int_item ''tlb'' raw) (\<lambda>t. ebnd (int_item ''entries'' raw) (\<lambda>n.
       ebnd (ebnd (ebnd (item ''table'' raw) elements) (v_each (check_kind TlbEntry))) (\<lambda>es. Inr (t, n, es))))))"

record capabilities =
  cap_version :: string
  cap_methods :: "string list"
  cap_targets :: "string list"

definition host_capabilities :: "config \<Rightarrow> string \<Rightarrow> string list \<Rightarrow> capabilities" where
  "host_capabilities c version methods =
     \<lparr>cap_version = version, cap_methods = sort methods, cap_targets = list_targets c None\<rparr>"

section \<open>A task of the guest\<close>

text \<open>\<^verbatim>\<open>TaskSnapshotResult(target=target, **raw)\<close>: the reply must be a dictionary without a target of its own.\<close>

definition debug_task_snapshot :: "string \<Rightarrow> string \<Rightarrow> int \<Rightarrow> ('w fleet_scheme, json) io" where
  "debug_task_snapshot target name max_frames =
     bnd (mcpd_request target ''debug.task_snapshot'' [(''name'', JStr name), (''max_frames'', JInt max_frames)]) (\<lambda>raw.
     lift (case raw of
         JObj kvs \<Rightarrow> if map_of kvs ''target'' \<noteq> None then Inl (PyErr TypeError []) else check_kind TaskSnapshotResult raw
       | _ \<Rightarrow> Inl (PyErr TypeError [])))"

section \<open>The health of the fleet\<close>

text \<open>Free memory in bytes; the source shows it in MiB.\<close>

record target_snapshot =
  hs_name :: string
  hs_type :: target_type
  hs_display :: "string option"
  hs_tags :: "string list"
  hs_running :: "bool option"
  hs_mcpd :: "bool option"
  hs_qmp :: "bool option"
  hs_uptime :: "json option"
  hs_free :: "int option"
  hs_alert :: "int option"
  hs_error :: "string option"

definition optional_call :: "('s, 'a) io \<Rightarrow> ('s, 'a option) io" where
  "optional_call m = catch (bnd m (\<lambda>x. ret (Some x))) (\<lambda>_. ret None)"

definition model_field :: "string \<Rightarrow> json \<Rightarrow> json option" where
  "model_field k m = (case m of JObj kvs \<Rightarrow> map_of kvs k | _ \<Rightarrow> None)"

definition int_of :: "json option \<Rightarrow> int option" where
  "int_of v = (case v of Some (JInt i) \<Rightarrow> Some i | _ \<Rightarrow> None)"

definition base_snapshot :: "string \<Rightarrow> target_config \<Rightarrow> target_snapshot" where
  "base_snapshot name cfg = \<lparr>hs_name = name, hs_type = t_type cfg, hs_display = display_name cfg, hs_tags = tags cfg, hs_running = None, hs_mcpd = None,
     hs_qmp = None, hs_uptime = None, hs_free = None, hs_alert = None, hs_error = None\<rparr>"

definition status_shown :: "target_snapshot \<Rightarrow> target_status \<Rightarrow> target_snapshot" where
  "status_shown snap st = snap\<lparr>hs_running := st_running st, hs_mcpd := st_mcpd st, hs_qmp := st_qmp st\<rparr>"

text \<open>The three calls of a target wait for the same lock: they are made in this order.\<close>

definition snapshot_one :: "string \<Rightarrow> (fleet, target_snapshot) io" where
  "snapshot_one name = bnd (gets f_config) (\<lambda>c. bnd (lift (target_config c name)) (\<lambda>cfg.
     let snap = base_snapshot name cfg in
     bnd (catch (bnd (fleet_target_status name) (\<lambda>st. ret (Inr st))) (\<lambda>e. ret (Inl e))) (\<lambda>r. case r of
       Inl (e :: exn) \<Rightarrow> ret (snap\<lparr>hs_error := Some (''target_status: '' @ exn_str e)\<rparr>)
     | Inr st \<Rightarrow>
         let snap = status_shown snap st in
         if st_mcpd st \<noteq> Some True then ret snap
         else bnd (optional_call (sys_uptime name)) (\<lambda>up. bnd (optional_call (sys_memory name)) (\<lambda>mem.
           bnd (optional_call (sys_lastalert name)) (\<lambda>la.
           ret (snap\<lparr>hs_uptime := Option.bind up (model_field ''seconds''),
             hs_free := int_of (Option.bind (Option.bind mem (model_field ''any'')) (model_field ''free'')),
             hs_alert := int_of (Option.bind la (model_field ''alert_code''))\<rparr>)))))))"

text \<open>The snapshots of the targets are taken at the same time; \<open>out\<close> is what each of them gave.\<close>

fun all_answers :: "(exn + 'a) list \<Rightarrow> exn + 'a list" where
  "all_answers [] = Inr []"
| "all_answers (r # rs) = ebnd r (\<lambda>x. ebnd (all_answers rs) (\<lambda>xs. Inr (x # xs)))"

definition fleet_snapshot ::
    "config \<Rightarrow> (nat \<Rightarrow> string \<Rightarrow> exn + target_snapshot) \<Rightarrow> string list option \<Rightarrow> exn + target_snapshot list" where
  "fleet_snapshot c out wanted = (let names = list_targets c wanted
     in all_answers (map (\<lambda>i. out i (names ! i)) [0..<length names]))"

section \<open>Properties\<close>

text \<open>A call that may fail gives a value in any case.\<close>

lemma optional_call_total: "\<exists>x s'. optional_call m s = (Inr x, s')"
  by (auto simp: optional_call_def catch_def bnd_def ret_def split: prod.splits sum.splits)

definition asks :: "event \<times> outcome \<Rightarrow> bool" where
  "asks ev \<longleftrightarrow> (case fst ev of Rpc t m p \<Rightarrow> True | _ \<Rightarrow> False)"

lemma emits_process_running': "emits (\<lambda>ev. \<not> asks ev) (process_running n)"
  unfolding process_running_def by (auto intro!: emits simp: asks_def)

lemma emits_probe_channel: "emits (\<lambda>ev. \<not> asks ev) (probe_channel c)"
  unfolding probe_channel_def probe_def lift_def by (intro emits) (simp add: asks_def)

lemma emits_target_status: "emits (\<lambda>ev. \<not> asks ev) (fleet_target_status name)"
  unfolding fleet_target_status_def lift_def by (intro emits emits_process_running' emits_probe_channel)

lemma snapshot_of_failure:
  assumes "target_config (f_config s) name = Inr cfg" "fleet_target_status name s = (Inl e, s1)"
  shows "snapshot_one name s = (Inr ((base_snapshot name cfg)\<lparr>hs_error := Some (''target_status: '' @ exn_str e)\<rparr>), s1)"
  unfolding snapshot_one_def bnd_def gets_def catch_def Let_def
  by (simp add: assms lift_def ret_def)

lemma snapshot_of_deaf:
  assumes "target_config (f_config s) name = Inr cfg" "fleet_target_status name s = (Inr st, s1)" "st_mcpd st \<noteq> Some True"
  shows "snapshot_one name s = (Inr (status_shown (base_snapshot name cfg) st), s1)"
  unfolding snapshot_one_def bnd_def gets_def catch_def Let_def
  by (simp add: assms lift_def ret_def)

lemma snapshot_of_answering:
  assumes "target_config (f_config s) name = Inr cfg" "fleet_target_status name s = (Inr st, s1)" "st_mcpd st = Some True"
    "optional_call (sys_uptime name) s1 = (Inr up, s2)" "optional_call (sys_memory name) s2 = (Inr mem, s3)"
    "optional_call (sys_lastalert name) s3 = (Inr la, s4)"
  shows "snapshot_one name s = (Inr ((status_shown (base_snapshot name cfg) st)\<lparr>hs_uptime := Option.bind up (model_field ''seconds''),
    hs_free := int_of (Option.bind (Option.bind mem (model_field ''any'')) (model_field ''free'')),
    hs_alert := int_of (Option.bind la (model_field ''alert_code''))\<rparr>), s4)"
  unfolding snapshot_one_def bnd_def gets_def catch_def Let_def
  by (simp add: assms lift_def ret_def)

lemma emits_optional_request: "emits (\<lambda>_. True) (optional_call (model_request name m p k))"
  unfolding optional_call_def model_request_def lift_def by (intro emits; simp)

theorem snapshot_always_answers:
  assumes cfg: "target_config (f_config s) name = Inr cfg"
  shows "\<exists>snap s' es. snapshot_one name s = (Inr snap, s') \<and> hs_name snap = name \<and> hs_tags snap = tags cfg
    \<and> history s' = history s @ es \<and> (hs_mcpd snap \<noteq> Some True \<longrightarrow> (\<forall>ev \<in> set es. \<not> asks ev))
    \<and> (hs_error snap \<noteq> None \<longrightarrow> hs_mcpd snap = None)"
proof -
  obtain r s1 where st: "fleet_target_status name s = (r, s1)" by force
  obtain es where es: "history s1 = history s @ es" "\<forall>ev \<in> set es. \<not> asks ev"
    by (rule emitsD [OF emits_target_status st]) (rule that)
  consider e where "r = Inl e" | v where "r = Inr v" "st_mcpd v \<noteq> Some True" | v where "r = Inr v" "st_mcpd v = Some True"
    by (cases r) auto
  then show ?thesis
  proof cases
    case 1
    then show ?thesis using snapshot_of_failure [OF cfg st [unfolded 1]] es by (simp add: base_snapshot_def)
  next
    case 2
    then show ?thesis using snapshot_of_deaf [OF cfg st [unfolded 2(1)] 2(2)] es by (simp add: base_snapshot_def status_shown_def)
  next
    case 3
    obtain up s2 where up: "optional_call (sys_uptime name) s1 = (Inr up, s2)" using optional_call_total [of "sys_uptime name" s1] by blast
    obtain mem s3 where mem: "optional_call (sys_memory name) s2 = (Inr mem, s3)" using optional_call_total [of "sys_memory name" s2] by blast
    obtain la s4 where la: "optional_call (sys_lastalert name) s3 = (Inr la, s4)" using optional_call_total [of "sys_lastalert name" s3] by blast
    obtain e2 where h2: "history s2 = history s1 @ e2"
      by (rule emitsD [OF emits_optional_request up [unfolded sys_uptime_def]]) (rule that)
    obtain e3 where h3: "history s3 = history s2 @ e3"
      by (rule emitsD [OF emits_optional_request mem [unfolded sys_memory_def]]) (rule that)
    obtain e4 where h4: "history s4 = history s3 @ e4"
      by (rule emitsD [OF emits_optional_request la [unfolded sys_lastalert_def]]) (rule that)
    have "history s4 = history s @ (es @ e2 @ e3 @ e4)" by (simp add: h2 h3 h4 es(1))
    then show ?thesis using snapshot_of_answering [OF cfg st [unfolded 3(1)] 3(2) up mem la]
      by (auto simp: base_snapshot_def status_shown_def 3(2))
  qed
qed

text \<open>A target of which the host knows no channel is shown with what the configuration says of it.\<close>

definition bare_fleet :: fleet where
  "bare_fleet = fleet_init (empty_config\<lparr>targets := [(''qemu'', target_of Qemu)]\<rparr>) (\<lambda>_ _. Inr JNull)"

theorem snapshot_always_answers_witness:
  "\<exists>snap s' es. snapshot_one ''qemu'' bare_fleet = (Inr snap, s') \<and> hs_name snap = ''qemu'' \<and> hs_tags snap = tags (target_of Qemu)
    \<and> history s' = history bare_fleet @ es \<and> (hs_mcpd snap \<noteq> Some True \<longrightarrow> (\<forall>ev \<in> set es. \<not> asks ev))
    \<and> (hs_error snap \<noteq> None \<longrightarrow> hs_mcpd snap = None)"
  by (rule snapshot_always_answers) (simp add: bare_fleet_def fleet_init_def target_config_def empty_config_def)

end
