(* ===== verification/InstallTools.thy ===== *)
theory InstallTools
  imports Upload Partial Kicklayout Machines
begin

text \<open>
  The primitives of the installer on a target: \<^verbatim>\<open>amiga_makedir\<close> (\<^verbatim>\<open>installer/_amiga_fs.py\<close>) and the
  step primitives of \<^verbatim>\<open>tools/installer.py\<close> (mounting the ISO, copying a tree, unpacking an archive,
  reading and patching the Kicklayout).  Times are in milliseconds for limits and in microseconds
  for measured durations.  Waiting for the volume is the one loop whose end depends on the clock: it
  is a partial function, and \<open>mount_returns\<close> in \<open>Install_Correct\<close> says when it ends.
\<close>

section \<open>Requests on one transport\<close>

text \<open>\<^verbatim>\<open>mcpd.request(method, params)\<close> where \<^verbatim>\<open>mcpd\<close> is the transport of a target, already fetched.\<close>

definition req :: "string \<Rightarrow> string \<Rightarrow> (string \<times> json) list \<Rightarrow> (fleet, json) io" where
  "req tgt method params = rpc tgt method (JObj params)"

definition stat_path :: "string \<Rightarrow> string \<Rightarrow> (fleet, json) io" where
  "stat_path tgt path = req tgt ''fs.stat'' [(''path'', JStr path)]"

definition exec_cmd :: "string \<Rightarrow> string \<Rightarrow> int \<Rightarrow> (fleet, json) io" where
  "exec_cmd tgt cmd ms = req tgt ''exec.cmd'' [(''command'', JStr cmd), (''timeout_ms'', JInt ms)]"

definition copy_file :: "string \<Rightarrow> string \<Rightarrow> string \<Rightarrow> (fleet, json) io" where
  "copy_file tgt src dst = req tgt ''fs.copy'' [(''src'', JStr src), (''dst'', JStr dst)]"

definition write_text :: "string \<Rightarrow> string \<Rightarrow> string \<Rightarrow> (fleet, unit) io" where
  "write_text tgt path content =
     bnd (lift (ascii_encode content)) (\<lambda>b.
     bnd (req tgt ''fs.write'' [(''path'', JStr path), (''content_b64'', JStr (b64encode b))]) (\<lambda>_. ret ()))"

text \<open>\<^verbatim>\<open>base64.b64decode(raw.get("content_b64", "")).decode("ascii", errors="replace")\<close>.\<close>

definition content_text :: "json \<Rightarrow> exn + string" where
  "content_text raw = ebnd (get_or ''content_b64'' (JStr []) raw) (\<lambda>c. case c of
       JStr s \<Rightarrow> (case b64decode s of Some b \<Rightarrow> Inr (ascii_replace b) | None \<Rightarrow> Inl (PyErr ValueError ''Incorrect padding''))
     | _ \<Rightarrow> Inl (PyErr TypeError []))"

definition read_text :: "string \<Rightarrow> string \<Rightarrow> (fleet, string) io" where
  "read_text tgt path = bnd (req tgt ''fs.read'' [(''path'', JStr path)]) (\<lambda>raw. lift (content_text raw))"

text \<open>\<^verbatim>\<open>raw or {}\<close>.\<close>

definition or_empty :: "json \<Rightarrow> json" where
  "or_empty raw = (if truthy raw then raw else JObj [])"

section \<open>Directories\<close>

definition makedir_failure :: "string \<Rightarrow> json \<Rightarrow> exn" where
  "makedir_failure p raw =
     (case ebnd (get_or ''exit_code'' (JStr ''?'') (or_empty raw)) (\<lambda>rc.
           ebnd (get_or ''output'' (JStr []) (or_empty raw)) (\<lambda>out. Inr (rc, out))) of
        Inl e \<Rightarrow> e
      | Inr (rc, out) \<Rightarrow> PyErr RuntimeError (''amiga_makedir failed for '' @ py_repr p @ '': MakeDir exit_code=''
            @ py_str rc @ '' output='' @ py_repr_json out))"

definition dir_name :: "string \<Rightarrow> string" where
  "dir_name path = rstrip_char (CHR ''/'') path"

definition amiga_makedir :: "string \<Rightarrow> string \<Rightarrow> (fleet, unit) io" where
  "amiga_makedir tgt path = (let p = dir_name path in
     if endswith p '':'' \<or> p = [] then ret ()
     else bnd (succeeds (stat_path tgt p)) (\<lambda>there. if there then ret ()
     else bnd (succeeds (req tgt ''fs.makedir'' [(''path'', JStr p)])) (\<lambda>made. if made then ret ()
     else bnd (exec_cmd tgt (''MakeDir '' @ [CHR 0x22] @ p @ [CHR 0x22] @ '' ALL'') 30000) (\<lambda>raw.
       catch (bnd (stat_path tgt p) (\<lambda>_. ret ())) (\<lambda>e. raise (makedir_failure p raw))))))"

section \<open>Volumes and confirmation\<close>

definition normalize_dest :: "string \<Rightarrow> string" where
  "normalize_dest dest = (let d = strip dest in
     if \<not> endswith d '':'' \<and> CHR '':'' \<notin> set d then d @ '':'' else d)"

definition is_system_volume :: "string \<Rightarrow> bool" where
  "is_system_volume dest \<longleftrightarrow>
     py_upper (normalize_dest dest) \<in> {''SYS:'', ''AMIGAOS:'', ''WORKBENCH:'', ''SYSTEM:''}"

definition normalize_volume :: "string \<Rightarrow> string" where
  "normalize_volume vol = (let v = strip vol; w = (if endswith v ''/'' then butlast v else v)
     in if endswith w '':'' then w else w @ '':'')"

definition require_confirm :: "bool \<Rightarrow> string \<Rightarrow> ('s, unit) io" where
  "require_confirm confirm op = (if confirm then ret ()
     else raise (RpcErr InvalidParams (op @ '' requires confirm=True (mutating operation)'')
       (Some (JObj [(''hint'', JStr ''pass confirm=True to acknowledge'')]))))"

section \<open>Mounting the ISO\<close>

record mount_result =
  m_iso_path :: string
  m_device :: string
  m_unit :: int
  m_expected :: "string option"
  m_detected :: "string option"
  m_settled :: bool
  m_elapsed :: int

definition m_mounted :: "mount_result \<Rightarrow> bool" where
  "m_mounted r \<longleftrightarrow> m_detected r \<noteq> None"

definition eject_cmd :: "int \<Rightarrow> string" where
  "eject_cmd u = ''C:MountDiskImage U='' @ int_dec u @ '' EJECT''"

definition insert_cmd :: "int \<Rightarrow> string \<Rightarrow> string" where
  "insert_cmd u img = ''C:MountDiskImage U='' @ int_dec u @ '' INSERT='' @ [CHR 0x22] @ img @ [CHR 0x22]"

definition mount_cmd :: "string \<Rightarrow> string" where
  "mount_cmd dev = ''Mount '' @ [CHR 0x22] @ ''DEVS:DOSDrivers/'' @ rstrip_char (CHR '':'') dev @ [CHR 0x22]"

partial_function (option) poll_volume ::
    "string \<Rightarrow> string \<Rightarrow> int \<Rightarrow> fleet \<Rightarrow> ((exn + string option) \<times> fleet) option" where
  "poll_volume tgt vol deadline s =
     (case now s of
        (Inl e, s1) \<Rightarrow> Some (Inl e, s1)
      | (Inr t, s1) \<Rightarrow>
          if \<not> t < deadline then Some (Inr None, s1)
          else (case stat_path tgt vol s1 of
             (Inr _, s2) \<Rightarrow> Some (Inr (Some vol), s2)
           | (Inl _, s2) \<Rightarrow> poll_volume tgt vol deadline (snd (sleep 1000 s2))))"

text \<open>The volume that was found, and whether the pause after it was made.\<close>

definition await_volume :: "string \<Rightarrow> string option \<Rightarrow> int \<Rightarrow> int \<Rightarrow> (fleet, string option \<times> bool) pio" where
  "await_volume tgt expected timeout_ms settle_ms =
     (case expected of
        None \<Rightarrow> pret (None, False)
      | Some vol \<Rightarrow>
          if vol = [] then pret (None, False)
          else pbnd (always now) (\<lambda>t. pbnd (poll_volume tgt vol (t + 1000 * timeout_ms)) (\<lambda>d.
            if d = None then pret (d, False)
            else pbnd (always (sleep settle_ms)) (\<lambda>_. pret (d, True)))))"

definition mount_prepare :: "string \<Rightarrow> string \<Rightarrow> string \<Rightarrow> int \<Rightarrow> int \<Rightarrow> (fleet, unit) io" where
  "mount_prepare tgt img dev u timeout_ms =
     bnd (ignoring (bnd (exec_cmd tgt (eject_cmd u) 10000) (\<lambda>_. sleep 1000))) (\<lambda>_.
     bnd (exec_cmd tgt (insert_cmd u img) timeout_ms) (\<lambda>_.
     bnd (sleep 2000) (\<lambda>_.
     bnd (succeeds (stat_path tgt dev)) (\<lambda>live.
     whenM (\<not> live) (ignoring (exec_cmd tgt (mount_cmd dev) timeout_ms))))))"

definition installer_mount_iso ::
    "string \<Rightarrow> string \<Rightarrow> string \<Rightarrow> int \<Rightarrow> string option \<Rightarrow> int \<Rightarrow> int \<Rightarrow> (fleet, mount_result) pio" where
  "installer_mount_iso tgt img dev u expected timeout_ms settle_ms =
     pbnd (always now) (\<lambda>t0.
     pbnd (always (fleet_mcpd tgt)) (\<lambda>_.
     pbnd (always (mount_prepare tgt img dev u timeout_ms)) (\<lambda>_.
     pbnd (await_volume tgt expected timeout_ms settle_ms) (\<lambda>(d, settled).
     pbnd (always now) (\<lambda>t1.
     pret \<lparr>m_iso_path = img, m_device = dev, m_unit = u, m_expected = expected, m_detected = d,
           m_settled = settled, m_elapsed = t1 - t0\<rparr>)))))"

definition installer_unmount_iso :: "string \<Rightarrow> int \<Rightarrow> int \<Rightarrow> (fleet, string) io" where
  "installer_unmount_iso tgt u timeout_ms =
     bnd (mcpd_request tgt ''exec.cmd'' [(''command'', JStr (eject_cmd u)), (''timeout_ms'', JInt timeout_ms)]) (\<lambda>raw.
     lift (ebnd (get_or ''output'' (JStr []) raw) (\<lambda>out. Inr (py_str out))))"

section \<open>Copying and unpacking\<close>

record run_result =
  r_output :: string
  r_exit_code :: int
  r_elapsed :: int

definition run_command :: "string \<Rightarrow> string \<Rightarrow> int \<Rightarrow> (fleet, run_result) io" where
  "run_command tgt cmd timeout_ms =
     bnd now (\<lambda>t0.
     bnd (mcpd_request tgt ''exec.cmd'' [(''command'', JStr cmd), (''timeout_ms'', JInt timeout_ms)]) (\<lambda>raw.
     bnd (lift (get_or ''output'' (JStr []) raw)) (\<lambda>out.
     bnd (lift (ebnd (get_or ''exit_code'' (JInt 0) raw) py_int)) (\<lambda>rc.
     bnd now (\<lambda>t1. ret \<lparr>r_output = py_str out, r_exit_code = rc, r_elapsed = t1 - t0\<rparr>)))))"

definition copy_cmd :: "string \<Rightarrow> string \<Rightarrow> bool \<Rightarrow> bool \<Rightarrow> bool \<Rightarrow> string" where
  "copy_cmd src dst every clone quiet =
     ''Copy '' @ [CHR 0x22] @ src @ [CHR 0x22] @ '' '' @ [CHR 0x22] @ dst @ [CHR 0x22] @
     (let flags = (if every then [''ALL''] else []) @ (if clone then [''CLONE''] else []) @ (if quiet then [''QUIET''] else [])
      in if flags = [] then [] else '' '' @ join '' '' flags)"

definition installer_copy_tree ::
    "string \<Rightarrow> string \<Rightarrow> string \<Rightarrow> bool \<Rightarrow> bool \<Rightarrow> bool \<Rightarrow> bool \<Rightarrow> int \<Rightarrow> (fleet, run_result) io" where
  "installer_copy_tree tgt src dst every clone quiet confirm timeout_ms =
     bnd (require_confirm confirm ''installer.copy_tree'') (\<lambda>_.
     run_command tgt (copy_cmd src dst every clone quiet) timeout_ms)"

definition lha_cmd :: "string \<Rightarrow> string \<Rightarrow> string" where
  "lha_cmd archive dest = ''LhA >NIL: x '' @ [CHR 0x22] @ archive @ [CHR 0x22] @ '' '' @ [CHR 0x22] @
     (if endswith dest ''/'' then dest else dest @ ''/'') @ [CHR 0x22]"

definition installer_apply_lha :: "string \<Rightarrow> string \<Rightarrow> string \<Rightarrow> bool \<Rightarrow> int \<Rightarrow> (fleet, run_result) io" where
  "installer_apply_lha tgt archive dest confirm timeout_ms =
     bnd (require_confirm confirm ''installer.apply_lha'') (\<lambda>_. run_command tgt (lha_cmd archive dest) timeout_ms)"

section \<open>The Kicklayout of a volume\<close>

definition kicklayout_path :: "string \<Rightarrow> string" where
  "kicklayout_path dest = normalize_volume dest @ ''Kickstart/Kicklayout''"

definition installer_read_kicklayout :: "string \<Rightarrow> string \<Rightarrow> (fleet, string) io" where
  "installer_read_kicklayout tgt dest =
     bnd (mcpd_request tgt ''fs.read'' [(''path'', JStr (kicklayout_path dest))]) (\<lambda>raw. lift (content_text raw))"

record write_kick =
  wk_path :: string
  wk_bytes :: nat
  wk_backup :: "string option"

definition backup_kicklayout :: "string \<Rightarrow> string \<Rightarrow> string option \<Rightarrow> (fleet, string option) io" where
  "backup_kicklayout tgt path bak =
     (case bak of None \<Rightarrow> ret None
      | Some sfx \<Rightarrow> if sfx = [] then ret None
          else bnd (succeeds (bnd (stat_path tgt path) (\<lambda>_. copy_file tgt path (path @ sfx)))) (\<lambda>ok.
            ret (if ok then Some (path @ sfx) else None)))"

definition installer_write_kicklayout ::
    "string \<Rightarrow> string \<Rightarrow> string \<Rightarrow> bool \<Rightarrow> string option \<Rightarrow> (fleet, write_kick) io" where
  "installer_write_kicklayout tgt dest content confirm bak =
     (let path = kicklayout_path dest in
      bnd (require_confirm confirm ''installer.write_kicklayout'') (\<lambda>_.
      bnd (fleet_mcpd tgt) (\<lambda>_.
      bnd (backup_kicklayout tgt path bak) (\<lambda>backup.
      bnd (write_text tgt path content) (\<lambda>_.
      ret \<lparr>wk_path = path, wk_bytes = length content, wk_backup = backup\<rparr>)))))"

subsection \<open>Keeping the date of a rewritten file\<close>

definition AOS_MONTHS :: "string list" where
  "AOS_MONTHS = [''Jan'', ''Feb'', ''Mar'', ''Apr'', ''May'', ''Jun'', ''Jul'', ''Aug'', ''Sep'', ''Oct'', ''Nov'', ''Dec'']"

text \<open>\<^verbatim>\<open>_aos_modified_to_setdate\<close>: from \<^verbatim>\<open>YY-Mon-DD HH:MM:SS\<close> to \<^verbatim>\<open>DD-Mon-YY HH:MM:SS\<close>.\<close>

definition all_digits :: "string \<Rightarrow> bool" where
  "all_digits s \<longleftrightarrow> s \<noteq> [] \<and> list_all is_digit s"

definition aos_modified_to_setdate :: "string \<Rightarrow> string option" where
  "aos_modified_to_setdate m =
     (case split_ws m of
        [d, t] \<Rightarrow> (case split_on CHR ''-'' d of
            [yy, mon, dd] \<Rightarrow>
              if mon \<in> set AOS_MONTHS \<and> all_digits yy \<and> all_digits dd
              then Some (dd @ ''-'' @ mon @ ''-'' @ yy @ '' '' @ t) else None
          | _ \<Rightarrow> None)
      | _ \<Rightarrow> None)"

definition capture_mtime :: "string \<Rightarrow> string \<Rightarrow> (fleet, json) io" where
  "capture_mtime tgt path =
     catch (bnd (stat_path tgt path) (\<lambda>s. ret (case jget ''modified'' s of Some v \<Rightarrow> v | None \<Rightarrow> JNull)))
           (\<lambda>_. ret JNull)"

definition setdate_cmd :: "string \<Rightarrow> string \<Rightarrow> string" where
  "setdate_cmd path d = ''SetDate '' @ [CHR 0x22] @ path @ [CHR 0x22] @ '' '' @ d"

text \<open>A captured value that is true but no text has no \<^verbatim>\<open>split\<close>.\<close>

definition restore_mtime :: "string \<Rightarrow> string \<Rightarrow> json \<Rightarrow> (fleet, unit) io" where
  "restore_mtime tgt path original =
     (if \<not> truthy original then ret ()
      else case original of
        JStr m \<Rightarrow> (case aos_modified_to_setdate m of
            None \<Rightarrow> ret ()
          | Some d \<Rightarrow> ignoring (exec_cmd tgt (setdate_cmd path d) 10000))
      | _ \<Rightarrow> raise (PyErr AttributeError []))"

subsection \<open>Patching\<close>

record patch_result =
  p_path :: string
  p_summary :: patch_summary
  p_written :: "write_kick option"

definition installer_patch_kicklayout ::
    "string \<Rightarrow> string \<Rightarrow> (string list \<times> string) list \<Rightarrow> (string \<times> string) list \<Rightarrow> bool \<Rightarrow> string option \<Rightarrow>
     (fleet, patch_result) io" where
  "installer_patch_kicklayout tgt dest mods reps confirm bak =
     bnd (require_confirm confirm ''installer.patch_kicklayout'') (\<lambda>_.
     bnd (installer_read_kicklayout tgt dest) (\<lambda>content.
     let path = kicklayout_path dest; (new_text, summary) = apply_patches content mods reps in
     if \<not> changed summary then ret \<lparr>p_path = path, p_summary = summary, p_written = None\<rparr>
     else
       bnd (fleet_mcpd tgt) (\<lambda>_.
       bnd (capture_mtime tgt path) (\<lambda>mtime.
       bnd (installer_write_kicklayout tgt (normalize_volume dest) new_text True bak) (\<lambda>wr.
       bnd (restore_mtime tgt path mtime) (\<lambda>_.
       ret \<lparr>p_path = path, p_summary = summary, p_written = Some wr\<rparr>))))))"

end
