(* ===== verification/Sequence.thy ===== *)
theory Sequence
  imports Machines Partial Tools
begin

text \<open>
  The step runner of the install sequences (\<^verbatim>\<open>installer/sequences/_runner.py\<close>) and the machine
  configurations (\<^verbatim>\<open>_machine_config.py\<close>).  A step is a name, a text and a function from the context
  that returns an output with the context it leaves; a step that waits on the clock may not return.
  The dictionary \<^verbatim>\<open>ctx\<close> is the record \<open>ctx\<close>: the keys that \<^verbatim>\<open>installer_run\<close> sets, and the two that steps
  add.  What \<^verbatim>\<open>traceback.format_exc\<close> prints is the argument \<open>tb\<close>.
\<close>

section \<open>Steps and results\<close>

record ctx =
  cx_target :: string
  cx_dest :: string
  cx_machine :: string
  cx_iso_filename :: string
  cx_iso_volume :: "string option"
  cx_extracted :: bool

type_synonym step_fn = "ctx \<Rightarrow> (fleet, json \<times> ctx) pio"

record install_step =
  s_name :: string
  s_doc :: string
  s_fn :: step_fn

record seq =
  q_machine :: string
  q_description :: string
  q_steps :: "install_step list"

record step_result =
  sr_name :: string
  sr_doc :: string
  sr_status :: string
  sr_duration :: int
  sr_output :: json
  sr_error :: "string option"

record seq_result =
  qr_machine :: string
  qr_description :: string
  qr_overall :: string
  qr_total :: int
  qr_steps :: "step_result list"
  qr_failed :: "string option"
  qr_dry_run :: bool

section \<open>The runner\<close>

definition planned :: "install_step \<Rightarrow> step_result" where
  "planned s = \<lparr>sr_name = s_name s, sr_doc = s_doc s, sr_status = ''planned'', sr_duration = 0,
     sr_output = JNull, sr_error = None\<rparr>"

definition step_ok :: "install_step \<Rightarrow> int \<Rightarrow> json \<Rightarrow> step_result" where
  "step_ok s d out = \<lparr>sr_name = s_name s, sr_doc = s_doc s, sr_status = ''ok'', sr_duration = d,
     sr_output = out, sr_error = None\<rparr>"

text \<open>\<^verbatim>\<open>s[-n:]\<close>.\<close>

definition last_chars :: "nat \<Rightarrow> string \<Rightarrow> string" where
  "last_chars n s = drop (length s - n) s"

definition step_failed :: "(exn \<Rightarrow> string) \<Rightarrow> install_step \<Rightarrow> int \<Rightarrow> exn \<Rightarrow> step_result" where
  "step_failed tb s d e = \<lparr>sr_name = s_name s, sr_doc = s_doc s, sr_status = ''fail'', sr_duration = d,
     sr_output = JStr (last_chars 500 (tb e)), sr_error = Some (exn_name e @ '': '' @ exn_str e)\<rparr>"

text \<open>One step, and what the loop has after it: the result, and the context if it succeeded.\<close>

definition run_step :: "(exn \<Rightarrow> string) \<Rightarrow> install_step \<Rightarrow> ctx \<Rightarrow> (fleet, step_result \<times> ctx option) pio" where
  "run_step tb s c =
     pbnd (always now) (\<lambda>t0.
     pcatch (pbnd (s_fn s c) (\<lambda>(out, c'). pbnd (always now) (\<lambda>t1. pret (step_ok s (t1 - t0) out, Some c'))))
       (\<lambda>e. pbnd (always now) (\<lambda>t1. pret (step_failed tb s (t1 - t0) e, None))))"

fun run_steps :: "(exn \<Rightarrow> string) \<Rightarrow> install_step list \<Rightarrow> ctx \<Rightarrow> (fleet, step_result list \<times> string option) pio" where
  "run_steps tb [] c = pret ([], None)"
| "run_steps tb (s # ss) c =
     pbnd (run_step tb s c) (\<lambda>(r, c'). case c' of
        None \<Rightarrow> pret ([r], Some (s_name s))
      | Some c2 \<Rightarrow> pbnd (run_steps tb ss c2) (\<lambda>(rs, failed). pret (r # rs, failed)))"

definition run_sequence :: "(exn \<Rightarrow> string) \<Rightarrow> seq \<Rightarrow> ctx \<Rightarrow> bool \<Rightarrow> (fleet, seq_result) pio" where
  "run_sequence tb q c dry_run =
     (if dry_run
      then pret \<lparr>qr_machine = q_machine q, qr_description = q_description q, qr_overall = ''planned'', qr_total = 0,
                 qr_steps = map planned (q_steps q), qr_failed = None, qr_dry_run = True\<rparr>
      else pbnd (always now) (\<lambda>t0.
           pbnd (run_steps tb (q_steps q) c) (\<lambda>(rs, failed).
           pbnd (always now) (\<lambda>t1.
           pret \<lparr>qr_machine = q_machine q, qr_description = q_description q,
                 qr_overall = (case failed of Some n \<Rightarrow> if n = [] then ''ok'' else ''fail'' | None \<Rightarrow> ''ok''),
                 qr_total = t1 - t0, qr_steps = rs, qr_failed = failed, qr_dry_run = False\<rparr>))))"

section \<open>Machine configurations\<close>

text \<open>A key that a configuration leaves out reads as false or \<^verbatim>\<open>None\<close>.\<close>

record machine_config =
  machine_id :: string
  cd_signature :: "string option"
  kick_sub :: "string option"
  wb_sub :: "string option"
  ethernet_driver :: "string option"
  skip_bootloader :: bool
  needs_ngf :: bool
  needs_enhancer :: bool
  needs_a1222_extras :: bool
  kicklayout_replacements :: "(string \<times> string) list"
  bootloader_filename :: string
  needs_emu10kx_quarantine :: bool
  needs_monitors_quarantine :: bool

definition X5000_CONFIG :: machine_config where
  "X5000_CONFIG = \<lparr>machine_id = ''X5000'', cd_signature = Some ''AmigaOS-X5000'', kick_sub = Some ''KickstartX5000'',
     wb_sub = Some ''WorkbenchX5000'', ethernet_driver = Some ''p50x0_eth.device'', skip_bootloader = True,
     needs_ngf = True, needs_enhancer = True, needs_a1222_extras = False,
     kicklayout_replacements = [(''p5020sata.device.kmod'', ''p50x0sata.device.kmod'')],
     bootloader_filename = ''amigaboot.of'', needs_emu10kx_quarantine = True, needs_monitors_quarantine = True\<rparr>"

definition PEGASOS2_CONFIG :: machine_config where
  "PEGASOS2_CONFIG = \<lparr>machine_id = ''PegasosII'', cd_signature = Some ''AmigaOS-Pegasos2'', kick_sub = Some ''KickstartPeg2'',
     wb_sub = None, ethernet_driver = None, skip_bootloader = False,
     needs_ngf = False, needs_enhancer = True, needs_a1222_extras = False, kicklayout_replacements = [],
     bootloader_filename = ''amigaboot.of'', needs_emu10kx_quarantine = False, needs_monitors_quarantine = False\<rparr>"

definition AMIGAONE_CONFIG :: machine_config where
  "AMIGAONE_CONFIG = \<lparr>machine_id = ''AmigaOne'', cd_signature = Some ''AmigaOS-AmigaOne'', kick_sub = Some ''KickstartA1'',
     wb_sub = Some ''WorkbenchA1'', ethernet_driver = None, skip_bootloader = False,
     needs_ngf = False, needs_enhancer = True, needs_a1222_extras = False, kicklayout_replacements = [],
     bootloader_filename = ''amigaboot.of'', needs_emu10kx_quarantine = False, needs_monitors_quarantine = False\<rparr>"

definition SAM460_CONFIG :: machine_config where
  "SAM460_CONFIG = \<lparr>machine_id = ''Sam460'', cd_signature = None, kick_sub = Some ''KickstartSam460'',
     wb_sub = None, ethernet_driver = None, skip_bootloader = False,
     needs_ngf = False, needs_enhancer = True, needs_a1222_extras = False, kicklayout_replacements = [],
     bootloader_filename = ''amigaboot.of'', needs_emu10kx_quarantine = False, needs_monitors_quarantine = False\<rparr>"

definition A1222_CONFIG :: machine_config where
  "A1222_CONFIG = \<lparr>machine_id = ''A1222'', cd_signature = Some ''AmigaOS-A1222'', kick_sub = Some ''KickstartA1222'',
     wb_sub = None, ethernet_driver = Some ''A1222eth.device'', skip_bootloader = True,
     needs_ngf = False, needs_enhancer = True, needs_a1222_extras = False, kicklayout_replacements = [],
     bootloader_filename = ''amigaboot.of'', needs_emu10kx_quarantine = False, needs_monitors_quarantine = False\<rparr>"

definition CONFIGS :: "(string \<times> machine_config) list" where
  "CONFIGS = [(''X5000'', X5000_CONFIG), (''PegasosII'', PEGASOS2_CONFIG), (''AmigaOne'', AMIGAONE_CONFIG),
     (''Sam460'', SAM460_CONFIG), (''A1222'', A1222_CONFIG)]"

section \<open>What a run reports\<close>

text \<open>\<open>outcomes ss rs failed\<close>: the results are those of an initial part of the steps, in order; all
succeeded, except the last one when the run failed, and then that step's name is reported.\<close>

fun outcomes :: "install_step list \<Rightarrow> step_result list \<Rightarrow> string option \<Rightarrow> bool" where
  "outcomes [] rs failed \<longleftrightarrow> rs = [] \<and> failed = None"
| "outcomes (s # ss) rs failed \<longleftrightarrow> (case rs of [] \<Rightarrow> False
     | r # rs' \<Rightarrow> sr_name r = s_name s \<and> sr_doc r = s_doc s \<and>
         (if sr_status r = ''ok'' then sr_error r = None \<and> outcomes ss rs' failed
          else sr_status r = ''fail'' \<and> sr_error r \<noteq> None \<and> rs' = [] \<and> failed = Some (s_name s)))"

lemma always_now: "always now w = Some (Inr (projr (fst (now w))), snd (now w))"
  by (simp add: always_def now_def)

lemma pbnd_now [simp]: "pbnd (always now) f w = f (projr (fst (now w))) (snd (now w))"
  by (simp add: pbnd_def always_def now_def)

lemma pbnd_pret [simp]: "pbnd (pret x) f w = f x w"
  by (simp add: pbnd_def pret_def)

lemma run_step_result:
  assumes "run_step tb s c w = Some (Inr (r, c'), w')"
  shows "sr_name r = s_name s" "sr_doc r = s_doc s"
    "if c' = None then sr_status r = ''fail'' \<and> sr_error r \<noteq> None else sr_status r = ''ok'' \<and> sr_error r = None"
  using assms by (auto simp: run_step_def pbnd_Some pcatch_Some step_ok_def step_failed_def split: prod.splits)

lemma run_step_returns: "run_step tb s c w = Some (r, w') \<Longrightarrow> \<exists>p. r = Inr p"
  by (auto simp: run_step_def pbnd_Some pcatch_Some now_def split: prod.splits)

lemma run_steps_outcomes: "run_steps tb ss c w = Some (r, w') \<Longrightarrow> \<exists>rs failed. r = Inr (rs, failed) \<and> outcomes ss rs failed"
proof (induction ss arbitrary: c w r w')
  case (Cons s ss)
  from Cons.prems obtain r1 w1 where r1: "run_step tb s c w = Some (r1, w1)"
    by (auto simp: pbnd_Some)
  then obtain p c' where p: "r1 = Inr (p, c')" using run_step_returns by fastforce
  note res = run_step_result [OF r1 [unfolded p]]
  show ?case
  proof (cases c')
    case None
    then show ?thesis using Cons.prems r1 p res by (auto simp: pbnd_Some)
  next
    case (Some c2)
    with Cons.prems r1 p obtain x w2 where x: "run_steps tb ss c2 w1 = Some (x, w2)"
      by (auto simp: pbnd_Some)
    from Cons.IH [OF this] obtain rs failed where "x = Inr (rs, failed)" "outcomes ss rs failed" by auto
    then show ?thesis using Cons.prems r1 p Some x res by (auto simp: pbnd_Some)
  qed
qed simp

text \<open>
  What a run did: each step's function is applied to the context its predecessor returned, in the state its
  predecessor left but for the two readings of the clock, and the result reports its outcome; a step that raises is
  the last one that is run.
\<close>

definition tick :: "'w fleet_scheme \<Rightarrow> 'w fleet_scheme" where "tick w = snd (now w)"

definition clock :: "'w fleet_scheme \<Rightarrow> int" where "clock w = projr (fst (now w))"

inductive ran :: "(exn \<Rightarrow> string) \<Rightarrow> install_step list \<Rightarrow> ctx \<Rightarrow> fleet \<Rightarrow> step_result list \<Rightarrow> string option \<Rightarrow> fleet \<Rightarrow> bool"
    for tb where
  ran_done: "ran tb [] c w [] None w"
| ran_ok: "s_fn s c (tick w) = Some (Inr (out, c'), w1) \<Longrightarrow>
     r = \<lparr>sr_name = s_name s, sr_doc = s_doc s, sr_status = ''ok'', sr_duration = clock w1 - clock w, sr_output = out,
          sr_error = None\<rparr> \<Longrightarrow>
     ran tb ss c' (tick w1) rs failed w' \<Longrightarrow> ran tb (s # ss) c w (r # rs) failed w'"
| ran_failed: "s_fn s c (tick w) = Some (Inl e, w1) \<Longrightarrow>
     r = \<lparr>sr_name = s_name s, sr_doc = s_doc s, sr_status = ''fail'', sr_duration = clock w1 - clock w,
          sr_output = JStr (last_chars 500 (tb e)), sr_error = Some (exn_name e @ '': '' @ exn_str e)\<rparr> \<Longrightarrow>
     ran tb (s # ss) c w [r] (Some (s_name s)) (tick w1)"

lemma run_step_ran:
  assumes "run_step tb s c w = Some (Inr (r, c'), w')"
  shows "case c' of Some c2 \<Rightarrow> \<exists>out w1. s_fn s c (tick w) = Some (Inr (out, c2), w1) \<and> w' = tick w1 \<and>
            r = step_ok s (clock w1 - clock w) out
       | None \<Rightarrow> \<exists>e w1. s_fn s c (tick w) = Some (Inl e, w1) \<and> w' = tick w1 \<and>
            r = step_failed tb s (clock w1 - clock w) e"
  using assms by (auto simp: run_step_def tick_def clock_def pbnd_Some pcatch_Some pret_def always_now split: prod.splits)

lemma run_steps_ran: "run_steps tb ss c w = Some (Inr (rs, failed), w') \<Longrightarrow> ran tb ss c w rs failed w'"
proof (induction ss arbitrary: c w rs)
  case Nil
  then show ?case by (auto simp: pret_def intro: ran_done)
next
  case (Cons s ss)
  from Cons.prems obtain r1 w1 where r1: "run_step tb s c w = Some (r1, w1)"
    by (auto simp: pbnd_Some)
  then obtain p c' where p: "r1 = Inr (p, c')" using run_step_returns by fastforce
  note res = run_step_ran [OF r1 [unfolded p]]
  show ?case
  proof (cases c')
    case None
    then obtain e w2 where e: "s_fn s c (tick w) = Some (Inl e, w2)" "w1 = tick w2"
      "p = step_failed tb s (clock w2 - clock w) e" using res by auto
    have "rs = [p]" "failed = Some (s_name s)" "w' = w1" using Cons.prems r1 p None by (auto simp: pbnd_Some pret_def)
    then show ?thesis using ran_failed [OF e(1), of p tb ss] e by (simp add: step_failed_def)
  next
    case (Some c2)
    with Cons.prems r1 p obtain rs' where x: "run_steps tb ss c2 w1 = Some (Inr (rs', failed), w')" "rs = p # rs'"
      by (auto simp: pbnd_Some pret_def)
    from res Some obtain out w2 where o: "s_fn s c (tick w) = Some (Inr (out, c2), w2)" "w1 = tick w2"
      "p = step_ok s (clock w2 - clock w) out" by auto
    then show ?thesis using ran_ok [OF o(1), of p tb ss rs' failed w'] Cons.IH [OF x(1)] x(2) by (simp add: step_ok_def)
  qed
qed

lemma outcomes_none: "outcomes ss rs None \<Longrightarrow> map sr_name rs = map s_name ss \<and> (\<forall>r \<in> set rs. sr_status r = ''ok'')"
  by (induction ss arbitrary: rs) (auto split: list.splits if_splits)

lemma outcomes_some:
  "outcomes ss rs (Some n) \<Longrightarrow> \<exists>k < length ss. map sr_name rs = map s_name (take (Suc k) ss) \<and> s_name (ss ! k) = n \<and>
     (\<forall>r \<in> set (butlast rs). sr_status r = ''ok'') \<and> sr_status (last rs) = ''fail''"
proof (induction ss arbitrary: rs)
  case (Cons s ss)
  then obtain r rs' where rs: "rs = r # rs'" by (auto split: list.splits)
  show ?case
  proof (cases "sr_status r = ''ok''")
    case True
    with Cons.prems rs have "outcomes ss rs' (Some n)" "sr_name r = s_name s" by auto
    with Cons.IH obtain k where "k < length ss" "map sr_name rs' = map s_name (take (Suc k) ss)" "s_name (ss ! k) = n"
      "\<forall>r \<in> set (butlast rs'). sr_status r = ''ok''" "sr_status (last rs') = ''fail''" by blast
    moreover from this(1,2) have "rs' \<noteq> []" by (cases ss) auto
    ultimately show ?thesis using rs True \<open>sr_name r = s_name s\<close> by (intro exI [of _ "Suc k"]) auto
  next
    case False
    with Cons.prems rs show ?thesis by (intro exI [of _ 0]) auto
  qed
qed simp

lemma run_sequence_result:
  assumes "run_sequence tb q c False w = Some (r, w')"
  shows "\<exists>rs failed res w1. outcomes (q_steps q) rs failed \<and> r = Inr res \<and> qr_steps res = rs \<and> qr_failed res = failed \<and>
    qr_overall res = (case failed of Some n \<Rightarrow> if n = [] then ''ok'' else ''fail'' | None \<Rightarrow> ''ok'') \<and>
    ran tb (q_steps q) c (tick w) rs failed w1 \<and> w' = tick w1"
proof -
  from assms obtain r1 w1 where run: "run_steps tb (q_steps q) c (tick w) = Some (r1, w1)"
    and r: "(case r1 of Inl e \<Rightarrow> Some (Inl e, w1) | Inr p \<Rightarrow>
        pret \<lparr>qr_machine = q_machine q, qr_description = q_description q,
              qr_overall = (case snd p of Some n \<Rightarrow> if n = [] then ''ok'' else ''fail'' | None \<Rightarrow> ''ok''),
              qr_total = projr (fst (now w1)) - projr (fst (now w)), qr_steps = fst p, qr_failed = snd p,
              qr_dry_run = False\<rparr> (snd (now w1))) = Some (r, w')"
    by (auto simp: run_sequence_def tick_def pbnd_Some split: sum.splits)
  from run_steps_outcomes [OF run] obtain rs failed where o: "r1 = Inr (rs, failed)" "outcomes (q_steps q) rs failed"
    by blast
  from run_steps_ran [OF run [unfolded o(1)]] o r show ?thesis by (auto simp: pret_def tick_def)
qed

text \<open>
  C11. SequenceRunner.run applies each step's function, in order, to the context its
  predecessor returned and in the state it left (but for readings of the clock), and reports
  for each the output it returned or the error it raised, up to the first step that raises,
  which is the last one run: all ok with no failed step, or all but the last ok, the last one
  failed and named in failed_step.
\<close>

theorem run_stops_at_first_failure:
  assumes "run_sequence tb q c False w = Some (r, w')" "[] \<notin> set (map s_name (q_steps q))"
  shows "\<exists>res k w1. r = Inr res \<and> map sr_name (qr_steps res) = take k (map s_name (q_steps q)) \<and>
    ran tb (q_steps q) c (tick w) (qr_steps res) (qr_failed res) w1 \<and> w' = tick w1 \<and>
    (if qr_overall res = ''ok''
     then k = length (q_steps q) \<and> qr_failed res = None \<and> sr_status ` set (qr_steps res) \<subseteq> {''ok''}
     else qr_overall res = ''fail'' \<and> 0 < k \<and> k \<le> length (q_steps q) \<and>
          qr_failed res = Some (map s_name (q_steps q) ! (k - 1)) \<and>
          sr_status ` set (butlast (qr_steps res)) \<subseteq> {''ok''} \<and> sr_status (last (qr_steps res)) = ''fail'')"
proof -
  obtain rs failed res w1 where o: "outcomes (q_steps q) rs failed"
    and res: "r = Inr res" "qr_steps res = rs" "qr_failed res = failed"
      "qr_overall res = (case failed of Some n \<Rightarrow> if n = [] then ''ok'' else ''fail'' | None \<Rightarrow> ''ok'')"
    and ran: "ran tb (q_steps q) c (tick w) rs failed w1" "w' = tick w1"
    using run_sequence_result [OF assms(1)] by blast
  show ?thesis
  proof (cases failed)
    case None
    from o [unfolded None] outcomes_none have "map sr_name rs = map s_name (q_steps q)" "\<forall>r \<in> set rs. sr_status r = ''ok''" by blast+
    with res None ran show ?thesis by (intro exI [of _ res] exI [of _ "length (q_steps q)"] exI [of _ w1]) auto
  next
    case (Some n)
    from o [unfolded Some] outcomes_some obtain k where k: "k < length (q_steps q)" "map sr_name rs = map s_name (take (Suc k) (q_steps q))"
      "s_name (q_steps q ! k) = n" "\<forall>r \<in> set (butlast rs). sr_status r = ''ok''" "sr_status (last rs) = ''fail''"
      by blast
    from k(1,3) assms(2) have "n \<noteq> []" by (metis nth_mem image_eqI list.set_map)
    with res Some k ran show ?thesis
      by (intro exI [of _ res] exI [of _ "Suc k"] exI [of _ w1]) (auto simp: take_map)
  qed
qed

theorem dry_run_performs_nothing:
  "\<exists>res. run_sequence tb q c True w = Some (Inr res, w) \<and> qr_overall res = ''planned'' \<and>
     map sr_name (qr_steps res) = map s_name (q_steps q) \<and> sr_status ` set (qr_steps res) \<subseteq> {''planned''}"
  by (auto simp: run_sequence_def pret_def planned_def comp_def)

section \<open>A run that fails\<close>

definition demo_seq :: seq where
  "demo_seq = \<lparr>q_machine = ''X5000'', q_description = [], q_steps =
     [\<lparr>s_name = ''one'', s_doc = [], s_fn = (\<lambda>c. pret (JNull, c))\<rparr>,
      \<lparr>s_name = ''two'', s_doc = [], s_fn = (\<lambda>c. praise (PyErr RuntimeError ''no'' ))\<rparr>,
      \<lparr>s_name = ''three'', s_doc = [], s_fn = (\<lambda>c. pret (JNull, c))\<rparr>]\<rparr>"

definition demo_ctx :: ctx where
  "demo_ctx = \<lparr>cx_target = ''x5000'', cx_dest = ''BootTest:'', cx_machine = ''X5000'', cx_iso_filename = ''a.iso'',
     cx_iso_volume = None, cx_extracted = False\<rparr>"

definition demo_world :: fleet where
  "demo_world = fleet_init empty_config (\<lambda>_ _. Inr (JInt 0))"

theorem run_stops_at_first_failure_witness:
  "\<exists>w' res k. run_sequence (\<lambda>_. []) demo_seq demo_ctx False demo_world = Some (Inr res, w') \<and>
     map sr_name (qr_steps res) = take k [''one'', ''two'', ''three''] \<and> k = 2 \<and> qr_overall res = ''fail''"
proof -
  obtain w' res where r: "run_sequence (\<lambda>_. []) demo_seq demo_ctx False demo_world = Some (Inr res, w')"
      "qr_overall res = ''fail''" "length (qr_steps res) = 2"
    by (simp add: run_sequence_def demo_seq_def run_step_def pcatch_def pbnd_def always_now pret_def praise_def)
  have names: "map s_name (q_steps demo_seq) = [''one'', ''two'', ''three'']" by (simp add: demo_seq_def)
  obtain k where k: "map sr_name (qr_steps res) = take k [''one'', ''two'', ''three'']" "k \<le> 3"
    using run_stops_at_first_failure [OF r(1)] r(2) names by (force simp: demo_seq_def)
  from arg_cong [OF k(1), of length] r(3) k(2) have "k = 2" by simp
  with r k show ?thesis by blast
qed

end
