(* ===== verification/InstallSteps.thy ===== *)
theory InstallSteps
  imports InstallTools Sequence
begin

text \<open>
  The steps of the install sequences (\<^verbatim>\<open>installer/sequences/_steps.py\<close>), each with the calls its function
  makes, in order.  A step that neither waits for the clock nor changes the context is \<open>plain\<close>.
  Measured durations in outputs are integers, in microseconds.
\<close>

section \<open>Constants and helpers\<close>

definition ISO_VOLUME :: string where "ISO_VOLUME = ''AmigaOS 4.1 Final Edition:''"
definition COMBI_DEVICE :: string where "COMBI_DEVICE = ''COMBI:''"
definition COMBI_UNIT :: int where "COMBI_UNIT = 50"
definition MUI_PER_UPDATE :: "(nat \<times> string) list" where
  "MUI_PER_UPDATE = [(1, ''MUI2016R1''), (2, ''MUI2020R3''), (3, ''MUI5'')]"

definition COMBI_PATH :: string where "COMBI_PATH = ''DEVS:DOSDrivers/COMBI''"
definition COMBI_MARKER :: string where "COMBI_MARKER = ''written by amiga-fleet-mcp installer''"

definition quoted :: "string \<Rightarrow> string" where
  "quoted s = [CHR 0x22] @ s @ [CHR 0x22]"

definition plain :: "(ctx \<Rightarrow> (fleet, json) io) \<Rightarrow> step_fn" where
  "plain body c = always (bnd (body c) (\<lambda>out. ret (out, c)))"

text \<open>\<^verbatim>\<open>ctx["iso_volume"]\<close>.\<close>

definition iso_volume :: "ctx \<Rightarrow> exn + string" where
  "iso_volume c = (case cx_iso_volume c of Some v \<Rightarrow> Inr v | None \<Rightarrow> Inl (PyErr KeyError (py_repr ''iso_volume'')))"

text \<open>\<^verbatim>\<open>for f in files: try: fs.copy(src + f, dst + f) except Exception: pass\<close>.\<close>

definition copy_each :: "string \<Rightarrow> string \<Rightarrow> string \<Rightarrow> string list \<Rightarrow> (fleet, unit) io" where
  "copy_each tgt src dst fs = bnd (for_each (\<lambda>f. ignoring (copy_file tgt (src @ f) (dst @ f))) fs) (\<lambda>_. ret ())"

text \<open>\<^verbatim>\<open>installer_copy_tree\<close> and \<^verbatim>\<open>installer_apply_lha\<close> as the steps call them.\<close>

definition copy_tree :: "string \<Rightarrow> string \<Rightarrow> string \<Rightarrow> int \<Rightarrow> (fleet, run_result) io" where
  "copy_tree tgt src dst ms = installer_copy_tree tgt src dst True True True True ms"

definition apply_lha :: "string \<Rightarrow> string \<Rightarrow> string \<Rightarrow> int \<Rightarrow> (fleet, run_result) io" where
  "apply_lha tgt archive dest ms = installer_apply_lha tgt archive dest True ms"

text \<open>\<^verbatim>\<open>try: fs.copy / except Exception: exec.cmd Copy .. CLONE\<close>.\<close>

definition copy_or_command :: "string \<Rightarrow> string \<Rightarrow> string \<Rightarrow> int \<Rightarrow> (fleet, unit) io" where
  "copy_or_command tgt src dst ms =
     bnd (catch (copy_file tgt src dst) (\<lambda>_. exec_cmd tgt (''Copy '' @ quoted src @ '' '' @ quoted dst @ '' CLONE'') ms)) (\<lambda>_. ret ())"

definition protect :: "string \<Rightarrow> string \<Rightarrow> (fleet, unit) io" where
  "protect tgt path = bnd (exec_cmd tgt (''Protect '' @ quoted path @ '' +rwed'') 30000) (\<lambda>_. ret ())"

definition maybe_rename :: "string \<Rightarrow> string \<Rightarrow> string \<Rightarrow> (fleet, unit) io" where
  "maybe_rename tgt src dst =
     bnd (succeeds (stat_path tgt src)) (\<lambda>there.
     if \<not> there then ret ()
     else bnd (ignoring (bnd (stat_path tgt dst) (\<lambda>_.
            ignoring (exec_cmd tgt (''Delete *>NIL: '' @ quoted dst) 10000)))) (\<lambda>_.
          ignoring (exec_cmd tgt (''Rename *>NIL: '' @ quoted src @ '' '' @ quoted dst) 10000)))"

section \<open>The ISO\<close>

definition REQUIRED_TOOLS :: "string list" where
  "REQUIRED_TOOLS = [''C:MountDiskImage'', ''DEVS:diskimage.device'', ''L:CDFileSystem'']"

definition mountfile :: string where
  "mountfile = concat (map (\<lambda>l. l @ [newline])
     [''/* COMBI: DOSDriver - written by amiga-fleet-mcp installer */'',
      ''FileSystem     = L:CDFileSystem'', ''Device         = diskimage.device'',
      ''Unit           = '' @ int_dec COMBI_UNIT, ''Flags          = 0'', ''BlocksPerTrack = 351000'',
      ''BlockSize      = 2048'', ''Mask           = 0x7ffffffe'', ''MaxTransfer    = 0x1000000'',
      ''Reserved       = 0'', ''Interleave     = 0'', ''LowCyl         = 0'', ''HighCyl        = 0'',
      ''Surfaces       = 1'', ''Buffers        = 64'', ''BufMemType     = 1'', ''BootPri        = 2'',
      ''GlobVec        = -1'', ''Mount          = 1'', ''Priority       = 10'',
      ''DosType        = 0x43643031'', ''StackSize      = 3000''])"

definition stage_diskimage_body :: "ctx \<Rightarrow> (fleet, json) io" where
  "stage_diskimage_body c = (let tgt = cx_target c in
     bnd (for_each (\<lambda>p. bnd (succeeds (stat_path tgt p)) (\<lambda>ok. ret (if ok then [] else [p]))) REQUIRED_TOOLS) (\<lambda>ms.
     let missing = concat ms in
     if missing \<noteq> []
     then raise (PyErr RuntimeError (''running AmigaOS is missing required diskimage tool(s): '' @ join '', '' missing @
            ''. These ship with AOS 4.1 -- the install host needs a working AOS 4.1 install before it can install '' @
            ''to a fresh dest drive.''))
     else bnd (succeeds (stat_path tgt COMBI_PATH)) (\<lambda>there.
          bnd (whenM (\<not> there) (bnd (amiga_makedir tgt ''DEVS:DOSDrivers/'') (\<lambda>_.
                 write_text tgt COMBI_PATH mountfile))) (\<lambda>_.
          ret (JObj [(''verified'', JArr (map JStr REQUIRED_TOOLS)), (''wrote'', JArr [JStr COMBI_PATH])])))))"

definition stage_diskimage_tools :: install_step where
  "stage_diskimage_tools = \<lparr>s_name = ''stage_diskimage_tools'',
     s_doc = ''Verify running AmigaOS has the diskimage tools + write COMBI: DOSDriver mountfile inline.'',
     s_fn = plain stage_diskimage_body\<rparr>"

definition skipped :: "string \<Rightarrow> json" where
  "skipped reason = JObj [(''action'', JStr ''skipped''), (''reason'', JStr reason)]"

definition extract_iso_body :: "ctx \<Rightarrow> (fleet, json \<times> ctx) io" where
  "extract_iso_body c = (let tgt = cx_target c; img = cx_dest c @ ''tmp/'' @ cx_iso_filename c; lha = img @ ''.lha'' in
     bnd (succeeds (stat_path tgt img)) (\<lambda>there.
     if there then ret (skipped ''iso already present'', c)
     else bnd (succeeds (stat_path tgt lha)) (\<lambda>packed.
     if \<not> packed then ret (skipped ''neither iso nor iso.lha in tmp/'', c)
     else bnd (apply_lha tgt lha (cx_dest c @ ''tmp'') 600000) (\<lambda>_.
          bnd (stat_path tgt img) (\<lambda>_.
          ret (JObj [(''action'', JStr ''extracted''), (''from'', JStr lha), (''to'', JStr img)], c\<lparr>cx_extracted := True\<rparr>))))))"

definition extract_iso_lha :: install_step where
  "extract_iso_lha = \<lparr>s_name = ''extract_iso_lha'',
     s_doc = ''If <dest>:tmp/<iso>.lha is staged but the bare .iso isn'' @ [CHR 0x27] @ ''t, extract it via LhA x. No-op otherwise.'',
     s_fn = (\<lambda>c. always (extract_iso_body c))\<rparr>"

definition opt_json :: "string option \<Rightarrow> json" where
  "opt_json v = (case v of None \<Rightarrow> JNull | Some s \<Rightarrow> JStr s)"

definition dump_mount :: "string \<Rightarrow> mount_result \<Rightarrow> json" where
  "dump_mount tgt r = JObj [(''target'', JStr tgt), (''iso_path'', JStr (m_iso_path r)), (''dos_device'', JStr (m_device r)),
     (''unit'', JInt (m_unit r)), (''expected_volume'', opt_json (m_expected r)), (''detected_volume'', opt_json (m_detected r)),
     (''mounted'', JBool (m_mounted r)), (''settled'', JBool (m_settled r)), (''elapsed_s'', JInt (m_elapsed r))]"

definition mount_iso_body :: step_fn where
  "mount_iso_body c =
     pbnd (installer_mount_iso (cx_target c) (cx_dest c @ ''tmp/'' @ cx_iso_filename c) COMBI_DEVICE COMBI_UNIT
             (Some ISO_VOLUME) 30000 3000) (\<lambda>r.
     if \<not> m_mounted r then praise (PyErr RuntimeError (''ISO did not mount at '' @ ISO_VOLUME @ '' within timeout''))
     else pret (dump_mount (cx_target c) r, c\<lparr>cx_iso_volume := m_detected r\<rparr>))"

definition mount_iso :: install_step where
  "mount_iso = \<lparr>s_name = ''mount_iso'',
     s_doc = ''Mount the install ISO into '' @ COMBI_DEVICE @ '' unit '' @ int_dec COMBI_UNIT @ ''; expect volume '' @ ISO_VOLUME @ ''.'',
     s_fn = mount_iso_body\<rparr>"

definition verify_cd_body :: "machine_config \<Rightarrow> ctx \<Rightarrow> (fleet, json) io" where
  "verify_cd_body cfg c = (case cd_signature cfg of
       None \<Rightarrow> ret (JObj [(''skipped'', JStr ''no signature for this machine'')])
     | Some sig \<Rightarrow> if sig = [] then ret (JObj [(''skipped'', JStr ''no signature for this machine'')])
         else bnd (lift (iso_volume c)) (\<lambda>vol.
         bnd (read_text (cx_target c) (vol @ ''CD-Version.txt'')) (\<lambda>txt0.
         if \<not> contains sig txt0
         then raise (PyErr RuntimeError (''CD-Version.txt does not contain '' @ py_repr sig @ '' -- wrong ISO for '' @ machine_id cfg @ ''?''))
         else ret (JObj [(''signature'', JStr sig), (''matched'', JBool True)]))))"

definition verify_cd_signature :: "machine_config \<Rightarrow> install_step" where
  "verify_cd_signature cfg = \<lparr>s_name = ''verify_cd_signature'',
     s_doc = ''Read <ISO>:CD-Version.txt and verify signature: '' @
       (case cd_signature cfg of Some sig \<Rightarrow> if sig \<noteq> [] then sig else ''skipped (Sam460 ISO has no signature)''
        | None \<Rightarrow> ''skipped (Sam460 ISO has no signature)''),
     s_fn = plain (verify_cd_body cfg)\<rparr>"

section \<open>The base system\<close>

definition copy_base_body :: "ctx \<Rightarrow> (fleet, json) io" where
  "copy_base_body c =
     bnd (lift (iso_volume c)) (\<lambda>vol.
     bnd (copy_tree (cx_target c) (vol @ ''System/'') (cx_dest c) 1800000) (\<lambda>r.
     bnd (exec_cmd (cx_target c) (''Protect '' @ quoted (cx_dest c) @ '' +rwed ALL QUIET'') 60000) (\<lambda>_.
     ret (JObj [(''exit_code'', JInt (r_exit_code r)), (''duration_s'', JInt (r_elapsed r))]))))"

definition copy_base_os :: install_step where
  "copy_base_os = \<lparr>s_name = ''copy_base_os'',
     s_doc = ''Recursive Copy of <ISO>:System/ -> <dest>:, then Protect +rwed ALL QUIET to clear CDFS read-only bits.'',
     s_fn = plain copy_base_body\<rparr>"

text \<open>Post-Install names a library that a later update replaces.\<close>

definition patch_post_install :: "string \<Rightarrow> string \<Rightarrow> (fleet, unit) io" where
  "patch_post_install tgt path = ignoring (
     bnd (capture_mtime tgt path) (\<lambda>mtime.
     bnd (req tgt ''fs.read'' [(''path'', JStr path)]) (\<lambda>rd.
     bnd (lift (content_text (or_empty rd))) (\<lambda>existing.
     let patched = py_replace existing ''libz.so.1.2.3'' ''libz.so.1.2.13'' in
     whenM (patched \<noteq> existing) (bnd (write_text tgt path patched) (\<lambda>_. restore_mtime tgt path mtime))))))"

definition copy_extras_body :: "ctx \<Rightarrow> (fleet, json) io" where
  "copy_extras_body c = bnd (lift (iso_volume c)) (\<lambda>vol.
     let tgt = cx_target c; dest = cx_dest c; inst = vol @ ''Installation-Files/'';
         storage = dest @ ''Storage/''; cdpost = dest @ ''Storage/CDPostInstall'';
         envarc = dest @ ''Prefs/Env-Archive/Sys/'' in
     bnd (amiga_makedir tgt (dest @ ''S/'')) (\<lambda>_.
     bnd (copy_each tgt inst (dest @ ''S/'') [''Startup-Sequence'', ''User-Startup'']) (\<lambda>_.
     bnd (copy_each tgt inst dest [''Disk.info'']) (\<lambda>_.
     bnd (amiga_makedir tgt (dest @ ''Storage/Monitors'')) (\<lambda>_.
     bnd (copy_each tgt inst (dest @ ''Storage/Monitors/'') [''RTG'', ''RTG.info'']) (\<lambda>_.
     bnd (amiga_makedir tgt storage) (\<lambda>_.
     bnd (copy_each tgt inst storage [''Post-Install'', ''Post-Install.info'']) (\<lambda>_.
     bnd (ignoring (req tgt ''fs.delete'' [(''path'', JStr cdpost), (''recursive'', JBool True)])) (\<lambda>_.
     bnd (amiga_makedir tgt cdpost) (\<lambda>_.
     bnd (ignoring (copy_tree tgt (vol @ ''Installation-Support/CDPostInstall/'') (cdpost @ ''/'') 300000)) (\<lambda>_.
     bnd (patch_post_install tgt (storage @ ''Post-Install'')) (\<lambda>_.
     bnd (amiga_makedir tgt envarc) (\<lambda>_.
     bnd (copy_each tgt inst envarc [''wbpattern.prefs'', ''wbstartup.prefs'', ''AmiDock.amiga.com.xml'']) (\<lambda>_.
     bnd (copy_each tgt (vol @ ''System/Prefs/Presets/Default/1024x768.preset/'') envarc
            [''GUI.prefs'', ''Font.prefs'', ''WBPattern.prefs'']) (\<lambda>_.
     bnd (copy_each tgt (vol @ ''System/Prefs/Presets/Default/Common/'') envarc [''Palette.prefs'', ''startup.prefs'']) (\<lambda>_.
     bnd (copy_each tgt ''ENV:Sys/'' envarc [''locale.prefs'', ''input.prefs'']) (\<lambda>_.
     bnd (copy_each tgt inst (dest @ ''Devs/'') [''load-time-blacklist'']) (\<lambda>_.
     ret (JObj [(''copied'', JStr ''installation extras'')])))))))))))))))))))"

definition copy_installation_extras :: install_step where
  "copy_installation_extras = \<lparr>s_name = ''copy_installation_extras'',
     s_doc = ''Copy S/, Prefs/Env-Archive/Sys/, and locale/input prefs from <ISO>:Installation-Files/ to dest.'',
     s_fn = plain copy_extras_body\<rparr>"

definition bootloader_body :: "machine_config \<Rightarrow> ctx \<Rightarrow> (fleet, json) io" where
  "bootloader_body cfg c =
     (if skip_bootloader cfg
      then ret (JObj [(''skipped'', JStr (machine_id cfg @ '' boot loader is system-wide on a separate SD card''))])
      else bnd (lift (iso_volume c)) (\<lambda>vol.
        let src = vol @ bootloader_filename cfg in
        catch (bnd (copy_file (cx_target c) src (cx_dest c @ bootloader_filename cfg)) (\<lambda>_.
                 ret (JObj [(''copied'', JStr (bootloader_filename cfg))])))
              (\<lambda>e. ret (JObj [(''warning'', JStr (src @ '' not on ISO: '' @ exn_str e))]))))"

definition install_bootloader :: "machine_config \<Rightarrow> install_step" where
  "install_bootloader cfg = \<lparr>s_name = ''install_bootloader'',
     s_doc = ''Copy bootloader from ISO to dest, or skip for X5000/A1222 which use a system-wide SD-card bootloader.'',
     s_fn = plain (bootloader_body cfg)\<rparr>"

end
