(* ===== verification/InstallComponents.thy ===== *)
theory InstallComponents
  imports InstallSteps
begin

text \<open>
  The later steps of \<^verbatim>\<open>installer/sequences/_steps.py\<close>: updates, drivers, the files of the running
  system and the tidying at the end; and the composition of a machine's sequence (\<^verbatim>\<open>_generic.py\<close>).
\<close>

section \<open>Updates\<close>

definition update_lha :: "nat \<Rightarrow> string" where
  "update_lha n = the (map_of UPDATE_LHA_NAME n)"

definition symlinks :: "nat \<Rightarrow> (string \<times> string) list" where
  "symlinks n =
     (if n = 1 then [(''libz.so'', ''libz.so.1.2.3''), (''libz.so.1'', ''libz.so.1.2.3''), (''libz.so.1.2'', ''libz.so.1.2.3''),
        (''libpng.so'', ''libpng12.so''), (''libbz2.so'', ''libbz2.so.1.0.4''), (''libbz2.so.1.0'', ''libbz2.so.1.0.4''),
        (''libfontconfig.so'', ''libfontconfig.so.2.12.1''), (''libharfbuzz.so'', ''libharfbuzz.so.0.9.28'')]
      else if n = 2 then [(''libz.so'', ''libz.so.1.2.3''), (''libz.so.1'', ''libz.so.1.2.3''), (''libz.so.1.2'', ''libz.so.1.2.3''),
        (''libpng.so'', ''libpng12.so'')]
      else [])"

definition remove_link :: "string \<Rightarrow> string \<Rightarrow> (fleet, unit) io" where
  "remove_link tgt link = ignoring (exec_cmd tgt (''Delete *>NIL: QUIET '' @ quoted link) 10000)"

definition make_link :: "string \<Rightarrow> string \<Rightarrow> string \<Rightarrow> (fleet, unit) io" where
  "make_link tgt link to = ignoring (exec_cmd tgt (''MakeLink *>NIL: '' @ quoted link @ '' '' @ to @ '' SOFT FORCE'') 10000)"

definition redirect_libz :: "string \<Rightarrow> string \<Rightarrow> (fleet, unit) io" where
  "redirect_libz tgt sobjs = ignoring (
     bnd (stat_path tgt (sobjs @ ''libz.so.1.2.13'')) (\<lambda>_.
     bnd (for_each (\<lambda>l. remove_link tgt (sobjs @ l))
            [''libz.so'', ''libz.so.1'', ''libz.so.1.2'', ''libz.so.1.2.3'', ''libz.so.1.2.11'']) (\<lambda>_.
     for_each (\<lambda>l. make_link tgt (sobjs @ l) ''libz.so.1.2.13'') [''libz.so'', ''libz.so.1'', ''libz.so.1.2''])))"

definition update_packages :: "machine_config \<Rightarrow> nat \<Rightarrow> string \<Rightarrow> string \<Rightarrow> string \<Rightarrow> (fleet, unit) io" where
  "update_packages cfg n tgt dest content =
     (let tree = (\<lambda>sub dst ms. ignoring (copy_tree tgt (content @ ''/'' @ sub @ ''/'') dst ms)) in
     bnd (tree ''Workbench'' dest 600000) (\<lambda>_.
     bnd (tree ''Kickstart'' (dest @ ''Kickstart/'') 600000) (\<lambda>_.
     bnd (case kick_sub cfg of Some k \<Rightarrow> whenM (k \<noteq> []) (tree k (dest @ ''Kickstart/'') 300000) | None \<Rightarrow> ret ()) (\<lambda>_.
     bnd (case wb_sub cfg of Some k \<Rightarrow> whenM (k \<noteq> []) (tree k dest 300000) | None \<Rightarrow> ret ()) (\<lambda>_.
     case map_of MUI_PER_UPDATE n of Some k \<Rightarrow> tree k dest 300000 | None \<Rightarrow> ret ())))))"

definition update_body :: "machine_config \<Rightarrow> nat \<Rightarrow> ctx \<Rightarrow> (fleet, json) io" where
  "update_body cfg n c = (let tgt = cx_target c; dest = cx_dest c; num = nat_dec n;
       scratch = dest @ ''tmp/scratch/upd'' @ num; sobjs = dest @ ''SObjs/''; util = dest @ ''Utilities/'';
       sysd = dest @ ''System/'' in
     bnd (amiga_makedir tgt scratch) (\<lambda>_.
     bnd (apply_lha tgt (dest @ ''tmp/'' @ update_lha n) scratch 900000) (\<lambda>_.
     bnd (whenM (n = 2) (bnd (ignoring (copy_file tgt (dest @ ''S/Startup-Sequence'') (dest @ ''S/Startup-Sequence-preUpd2''))) (\<lambda>_.
            ignoring (copy_file tgt (dest @ ''Kickstart/Kicklayout'') (dest @ ''Kickstart/Kicklayout-preUpd2''))))) (\<lambda>_.
     bnd (update_packages cfg n tgt dest (scratch @ ''/AmigaOS 4.1 Final Edition Update '' @ num @ ''/Content'')) (\<lambda>_.
     bnd (whenM (n = 2 \<and> kicklayout_replacements cfg \<noteq> [])
            (bnd (installer_patch_kicklayout tgt dest [] (kicklayout_replacements cfg) True None) (\<lambda>_. ret ()))) (\<lambda>_.
     bnd (whenM (n = 1)
            (bnd (installer_patch_kicklayout tgt dest [([''Kickstart/mounter.library''], ''Update 1'')] [] True None) (\<lambda>_. ret ()))) (\<lambda>_.
     bnd (for_each (\<lambda>(link, to). bnd (remove_link tgt (sobjs @ link)) (\<lambda>_. make_link tgt (sobjs @ link) to)) (symlinks n)) (\<lambda>_.
     bnd (whenM (n = 3) (redirect_libz tgt sobjs)) (\<lambda>_.
     bnd (maybe_rename tgt (util @ ''Installation_Utility'') (util @ ''Installation Utility'')) (\<lambda>_.
     bnd (maybe_rename tgt (sysd @ ''Media_Toolbox'') (sysd @ ''Media Toolbox'')) (\<lambda>_.
     bnd (maybe_rename tgt (sysd @ ''Media_Toolbox.info'') (sysd @ ''Media Toolbox.info'')) (\<lambda>_.
     bnd (ignoring (exec_cmd tgt (''Delete *>NIL: '' @ quoted (util @ ''CatComp'')) 10000)) (\<lambda>_.
     ret (JObj [(''update'', JInt (int n)), (''scratch'', JStr scratch),
                (''symlinks_applied'', JInt (int (length (symlinks n))))]))))))))))))))"

definition package_label :: "machine_config \<Rightarrow> string" where
  "package_label cfg = (let ps = filter (\<lambda>p. p \<noteq> []) (map (\<lambda>o'. case o' of Some p \<Rightarrow> p | None \<Rightarrow> []) [kick_sub cfg, wb_sub cfg])
     in if ps = [] then ''(no machine pkgs)'' else join ''+'' ps)"

definition apply_one_update :: "machine_config \<Rightarrow> nat \<Rightarrow> install_step" where
  "apply_one_update cfg n = \<lparr>s_name = ''apply_update_'' @ nat_dec n,
     s_doc = ''Extract + apply Update '' @ nat_dec n @ '' ('' @ update_lha n @ ''). Per-machine packages: '' @
       package_label cfg @ ''; MUI: '' @ (case map_of MUI_PER_UPDATE n of Some m \<Rightarrow> m | None \<Rightarrow> ''none'') @ ''.'',
     s_fn = plain (update_body cfg n)\<rparr>"

section \<open>Drivers\<close>

definition ENHANCER_EXTRAS :: "(string \<times> string) list" where
  "ENHANCER_EXTRAS =
     [(''Firmware/amdgpu/polaris10_uvd.bin'', ''Firmware/amdgpu/''), (''Firmware/amdgpu/polaris11_uvd.bin'', ''Firmware/amdgpu/''),
      (''Firmware/amdgpu/polaris12_uvd.bin'', ''Firmware/amdgpu/''), (''Firmware/radeon/TAHITI_uvd.bin'', ''Firmware/radeon/''),
      (''Libs/va.library'', ''Libs/''), (''Libs/VA/RadeonHD_drv_video.library'', ''Libs/VA/''),
      (''Libs/VA/RadeonRX_drv_video.library'', ''Libs/VA/''), (''Libs/Warp3DNova.library'', ''Libs/''),
      (''Libs/Warp3DNova/W3DN_GCN.library'', ''Libs/Warp3DNova/''), (''Libs/Warp3DNova/W3DN_SI.library'', ''Libs/Warp3DNova/''),
      (''Libs/sensormaster.library'', ''Libs/''), (''Libs/hm_sensors/ct-mcu.library'', ''Libs/hm_sensors/'')]"

definition ENHANCER_MODULES :: "string list \<times> string" where
  "ENHANCER_MODULES = ([''Kickstart/SmartFilesystem'', ''Kickstart/RadeonRX.chip'', ''Kickstart/RadeonHD.chip'',
     ''Kickstart/diskcache.library.kmod''], ''Enhancer 2.2'')"

text \<open>\<^verbatim>\<open>p.rsplit("/", 1)[-1]\<close>.\<close>

definition base_name :: "string \<Rightarrow> string" where
  "base_name p = last (split_on CHR ''/'' p)"

definition enhancer_body :: "machine_config \<Rightarrow> ctx \<Rightarrow> (fleet, json) io" where
  "enhancer_body cfg c = (let tgt = cx_target c; dest = cx_dest c; scratch = dest @ ''tmp/scratch/enhancer'';
       root = scratch @ ''/EnhancerSoftware2.2/Installation_Files/'' in
     bnd (amiga_makedir tgt scratch) (\<lambda>_.
     bnd (apply_lha tgt (dest @ ''tmp/enhancer_software_2.2.lha'') scratch 600000) (\<lambda>_.
     bnd (copy_each tgt (root @ ''Kickstart/'') (dest @ ''Kickstart/'')
            [''RadeonHD.chip'', ''RadeonHD.chip.debug'', ''RadeonRX.chip'', ''RadeonRX.chip.debug'',
             ''SmartFilesystem'', ''diskcache.library.kmod'']) (\<lambda>_.
     bnd (case ethernet_driver cfg of
            Some drv \<Rightarrow> whenM (drv \<noteq> []) (bnd (amiga_makedir tgt (dest @ ''Devs/Networks/'')) (\<lambda>_.
              copy_each tgt (root @ ''Devs/Networks/'') (dest @ ''Devs/Networks/'') [drv]))
          | None \<Rightarrow> ret ()) (\<lambda>_.
     bnd (for_each (\<lambda>(src, dst). bnd (amiga_makedir tgt (dest @ dst)) (\<lambda>_.
            ignoring (copy_file tgt (root @ src) (dest @ dst @ base_name src)))) ENHANCER_EXTRAS) (\<lambda>_.
     bnd (installer_patch_kicklayout tgt dest [ENHANCER_MODULES] [] True None) (\<lambda>_.
     ret (JObj [(''enhancer'', JStr ''installed'')]))))))))"

definition install_enhancer :: "machine_config \<Rightarrow> install_step" where
  "install_enhancer cfg = \<lparr>s_name = ''install_enhancer'',
     s_doc = ''Extract Enhancer 2.2 LHA, copy RadeonHD/RX/SFS/diskcache to Kickstart/, eth driver: '' @
       (case ethernet_driver cfg of Some d \<Rightarrow> if d \<noteq> [] then d else ''none'' | None \<Rightarrow> ''none'') @
       '', GPU firmware + Warp3DNova libs, then patch Kicklayout.'',
     s_fn = plain (enhancer_body cfg)\<rparr>"

definition ngf_body :: "ctx \<Rightarrow> (fleet, json) io" where
  "ngf_body c = (let tgt = cx_target c; dest = cx_dest c; ngfs = dest @ ''tmp/scratch/ngfs''; ngfck = dest @ ''tmp/scratch/ngfcheck'' in
     bnd (amiga_makedir tgt ngfs) (\<lambda>_.
     bnd (amiga_makedir tgt ngfck) (\<lambda>_.
     bnd (apply_lha tgt (dest @ ''tmp/NGFS.lha'') ngfs 300000) (\<lambda>_.
     bnd (apply_lha tgt (dest @ ''tmp/NGFCheck.lha'') ngfck 300000) (\<lambda>_.
     bnd (ignoring (copy_file tgt (ngfs @ ''/NGFileSystem'') (dest @ ''Kickstart/NGFileSystem''))) (\<lambda>_.
     bnd (copy_each tgt (ngfck @ ''/'') (dest @ ''C/'') [''NGFCheck'', ''NGFCheck.info'']) (\<lambda>_.
     ret (JObj [(''ngf'', JStr ''installed'')]))))))))"

definition install_ngf :: install_step where
  "install_ngf = \<lparr>s_name = ''install_ngf'',
     s_doc = ''Extract NGFS.lha and NGFCheck.lha, copy NGFileSystem to Kickstart/, NGFCheck + .info to C/.'',
     s_fn = plain ngf_body\<rparr>"

section \<open>Ejecting the ISO\<close>

definition unmount_iso :: install_step where
  "unmount_iso = \<lparr>s_name = ''unmount_iso'', s_doc = ''Eject the install ISO from the COMBI: device.'',
     s_fn = plain (\<lambda>c. bnd (installer_unmount_iso (cx_target c) COMBI_UNIT 15000) (\<lambda>out.
       ret (JObj [(''target'', JStr (cx_target c)), (''unit'', JInt COMBI_UNIT), (''output'', JStr out)])))\<rparr>"

text \<open>\<^verbatim>\<open>try: actions.append(..) except Exception as e: actions.append(f"..{str(e)[:80]}")\<close>.\<close>

definition report :: "(fleet, string) io \<Rightarrow> string \<Rightarrow> (fleet, string) io" where
  "report m failed = catch m (\<lambda>e. ret (failed @ take 80 (exn_str e)))"

definition remove_mountfile :: "string \<Rightarrow> (fleet, string) io" where
  "remove_mountfile tgt = report
     (bnd (read_text tgt COMBI_PATH) (\<lambda>content.
      if contains COMBI_MARKER content
      then bnd (req tgt ''fs.delete'' [(''path'', JStr COMBI_PATH)]) (\<lambda>_. ret (''deleted '' @ COMBI_PATH))
      else ret (''kept '' @ COMBI_PATH @ '' (no installer marker)'')))
     (''read-failed '' @ COMBI_PATH @ '': '')"

definition dismount_body :: "ctx \<Rightarrow> (fleet, json) io" where
  "dismount_body c = (let tgt = cx_target c in
     bnd (report (bnd (installer_unmount_iso tgt COMBI_UNIT 15000) (\<lambda>_.
            ret (''ejected unit '' @ int_dec COMBI_UNIT @ '' (pre-dismount guard)''))) ''eject-failed: '') (\<lambda>a.
     bnd (remove_mountfile tgt) (\<lambda>b.
     bnd (report (bnd (exec_cmd tgt ''C:Dismount >NIL: COMBI: FORCE'' 10000) (\<lambda>_.
            ret ''Dismount COMBI: FORCE issued'')) ''dismount-failed: '') (\<lambda>d.
     ret (JObj [(''actions'', JArr [JStr a, JStr b, JStr d])])))))"

definition dismount_combi_device :: install_step where
  "dismount_combi_device = \<lparr>s_name = ''dismount_combi_device'',
     s_doc = ''Remove the running system'' @ [CHR 0x27] @ ''s COMBI: DOS device + its DEVS:DOSDrivers/COMBI mountfile so the install ISO scaffolding doesn'' @ [CHR 0x27] @ ''t persist after reboot.'',
     s_fn = plain dismount_body\<rparr>"

end
