(* ===== verification/InstallSystem.thy ===== *)
theory InstallSystem
  imports InstallComponents
begin

text \<open>
  The last group of \<^verbatim>\<open>installer/sequences/_steps.py\<close>: the extras, the dock, the network files, the
  programs started at boot, the files moved out of the way and the tidying at the end; and the
  composition of a machine's sequence (\<^verbatim>\<open>_generic.py\<close>).
\<close>

section \<open>Extras and dock\<close>

text \<open>Drawer on the CD, drawer on the destination, icon on the destination.\<close>

definition EXTRAS :: "(string \<times> string \<times> string option) list" where
  "EXTRAS = [(''Filer'', ''Utilities/Filer'', Some ''Utilities/Filer.info''),
     (''Ranger'', ''Utilities/Ranger'', Some ''Utilities/Ranger.info''),
     (''IBrowse'', ''Internet/IBrowse'', Some ''Internet/IBrowse.info''), (''DiskImage'', [], None)]"

definition install_extra :: "string \<Rightarrow> string \<Rightarrow> string \<Rightarrow> string \<times> string \<times> string option \<Rightarrow> (fleet, json) io" where
  "install_extra tgt root dest e = (let (name, rel, icon) = e; dst = (if rel \<noteq> [] then dest @ rel @ ''/'' else dest) in
     bnd (succeeds (stat_path tgt (root @ name))) (\<lambda>there.
     if \<not> there then ret (JObj [(''extra'', JStr name), (''skipped'', JStr ''not on ISO'')])
     else bnd (whenM (rel \<noteq> []) (amiga_makedir tgt dst)) (\<lambda>_.
     bnd (catch (bnd (copy_tree tgt (root @ name @ ''/'') dst 300000) (\<lambda>_. ret None)) (\<lambda>e. ret (Some e))) (\<lambda>err. case err of
       Some x \<Rightarrow> ret (JObj [(''extra'', JStr name), (''error'', JStr (take 100 (exn_str x)))])
     | None \<Rightarrow>
        bnd (ignoring (exec_cmd tgt (''Delete '' @ quoted (dst @ ''Install#?'') @ '' QUIET'') 30000)) (\<lambda>_.
        bnd (case icon of Some i \<Rightarrow> ignoring (copy_file tgt (root @ name @ ''.info'') (dest @ i)) | None \<Rightarrow> ret ()) (\<lambda>_.
        ret (JObj [(''extra'', JStr name), (''copied_to'', JStr dst)])))))))"

definition extras_body :: "ctx \<Rightarrow> (fleet, json) io" where
  "extras_body c = bnd (lift (iso_volume c)) (\<lambda>vol.
     bnd (for_each (install_extra (cx_target c) (vol @ ''Installation-Files/Extras/'') (cx_dest c)) EXTRAS) (\<lambda>rs.
     ret (JObj [(''results'', JArr rs)])))"

definition install_extras :: install_step where
  "install_extras = \<lparr>s_name = ''install_extras'',
     s_doc = ''Pre-install Filer, Ranger, IBrowse, DiskImage from <ISO>:Installation-Files/Extras/ so they appear in the new install'' @ [CHR 0x27] @ ''s Utilities/Internet drawers.'',
     s_fn = plain extras_body\<rparr>"

definition installed_from :: "string \<Rightarrow> string \<Rightarrow> json" where
  "installed_from src dst = JObj [(''action'', JStr ''installed''), (''from'', JStr src), (''to'', JStr dst)]"

definition amidock_body :: "ctx \<Rightarrow> (fleet, json) io" where
  "amidock_body c = (let tgt = cx_target c; src = cx_dest c @ ''tmp/AmiDock.amiga.com.xml'';
       dst = cx_dest c @ ''Prefs/Env-Archive/Sys/AmiDock.amiga.com.xml'' in
     bnd (succeeds (stat_path tgt src)) (\<lambda>there.
     if \<not> there then ret (skipped ''AmiDock.amiga.com.xml not staged'')
     else bnd (amiga_makedir tgt (cx_dest c @ ''Prefs/Env-Archive/Sys'')) (\<lambda>_.
          bnd (copy_or_command tgt src dst 30000) (\<lambda>_. ret (installed_from src dst)))))"

definition patch_amidock_prefs :: install_step where
  "patch_amidock_prefs = \<lparr>s_name = ''patch_amidock_prefs'',
     s_doc = ''Overlay AmiDock.amiga.com.xml so the dock points at Filer / Ranger / IBrowse / DiskImageGUI in the new install'' @ [CHR 0x27] @ ''s Extras / Internet subdocks.'',
     s_fn = plain amidock_body\<rparr>"

section \<open>Network files\<close>

definition lines_of :: "string list \<Rightarrow> string" where
  "lines_of ls = concat (map (\<lambda>l. l @ [newline]) ls)"

definition NET_INTERFACE :: "(string \<times> string \<times> string) list" where
  "NET_INTERFACE =
     [(''X5000'', ''P50X0_ETH'', lines_of [''# DEVS:NetInterfaces/P50X0_ETH'', ''# File generated by amiga-fleet-mcp installer'',
        ''device=p50x0_eth.device'', ''unit=0'', ''configure=dhcp'']),
      (''A1222'', ''eth0'', lines_of [''# DEVS:NetInterfaces/eth0'', ''# File generated by amiga-fleet-mcp installer'',
        ''device=A1222eth.device'', ''hardwaretype=Ethernet'', ''configure=dhcp'', ''mtu=0''])]"

definition NETWORK_STARTUP :: string where
  "NETWORK_STARTUP = lines_of [''; $VER: Network-Startup 53.2 (01.06.2011)'', [],
     ''AddNetInterface QUIET DEVS:NetInterfaces/~(#?.info)'', [],
     ''; Add below this line applications that need a running network'']"

text \<open>The first source that exists and can be copied.\<close>

fun first_copied :: "string \<Rightarrow> string \<Rightarrow> string list \<Rightarrow> (fleet, string option) io" where
  "first_copied tgt dst [] = ret None"
| "first_copied tgt dst (src # srcs) =
     (if src = [] then first_copied tgt dst srcs
      else bnd (succeeds (bnd (stat_path tgt src) (\<lambda>_. copy_file tgt src dst))) (\<lambda>ok.
        if ok then ret (Some src) else first_copied tgt dst srcs))"

text \<open>\<^verbatim>\<open>entries\<close> of a listing that may be a list, a dictionary or something else.\<close>

fun scan_icons :: "string \<Rightarrow> string \<Rightarrow> string \<Rightarrow> string \<Rightarrow> json list \<Rightarrow> (fleet, string option) io" where
  "scan_icons tgt dir dst own [] = ret None"
| "scan_icons tgt dir dst own (e # es) =
     bnd (lift (get_or ''type'' JNull e)) (\<lambda>ty.
     if ty \<noteq> JStr ''file'' then scan_icons tgt dir dst own es
     else bnd (lift (ebnd (get_or ''name'' (JStr []) e) (\<lambda>n. case n of JStr s \<Rightarrow> Inr s | _ \<Rightarrow> Inl (PyErr AttributeError [])))) (\<lambda>name.
     if \<not> endswith name ''.info'' \<or> name = own then scan_icons tgt dir dst own es
     else bnd (succeeds (copy_file tgt (dir @ ''/'' @ name) dst)) (\<lambda>ok.
       if ok then ret (Some (dir @ ''/'' @ name)) else scan_icons tgt dir dst own es)))"

definition sibling_icon :: "string \<Rightarrow> string \<Rightarrow> string \<Rightarrow> string \<Rightarrow> (fleet, string option) io" where
  "sibling_icon tgt dir dst own = catch
     (bnd (req tgt ''fs.list'' [(''path'', JStr dir)]) (\<lambda>listing.
      bnd (lift (case listing of JArr es \<Rightarrow> Inr es
             | JObj _ \<Rightarrow> ebnd (get_or ''entries'' (JArr []) listing) elements | _ \<Rightarrow> Inr [])) (\<lambda>es.
      scan_icons tgt dir dst own es)))
     (\<lambda>_. ret None)"

definition network_body :: "string \<Rightarrow> ctx \<Rightarrow> (fleet, json) io" where
  "network_body machine c = (let tgt = cx_target c; dest = cx_dest c in
     bnd (amiga_makedir tgt (dest @ ''S'')) (\<lambda>_.
     bnd (write_text tgt (dest @ ''S/Network-Startup'') NETWORK_STARTUP) (\<lambda>_.
     case map_of NET_INTERFACE machine of
       None \<Rightarrow> ret (JObj [(''action'', JStr ''network-startup written; no NetInterface''),
                 (''reason'', JStr (''no canonical NetInterface for '' @ machine))])
     | Some (ifname, content) \<Rightarrow>
         let dir = dest @ ''Devs/NetInterfaces''; path = dir @ ''/'' @ ifname; icon = path @ ''.info'' in
         bnd (amiga_makedir tgt dir) (\<lambda>_.
         bnd (write_text tgt path content) (\<lambda>_.
         bnd (first_copied tgt icon [dest @ ''tmp/NetInterface.info'',
                (case cx_iso_volume c of Some v \<Rightarrow> v | None \<Rightarrow> []) @ ''Installation-Files/NetInterface.info'']) (\<lambda>a.
         bnd (if a = None then sibling_icon tgt dir icon (ifname @ ''.info'') else ret a) (\<lambda>b.
         ret (JObj [(''action'', JStr ''installed''), (''machine'', JStr machine), (''interface'', JStr ifname),
                (''interface_path'', JStr path), (''icon_copied_from'', opt_json b)])))))))) "

definition install_network_config :: "string \<Rightarrow> install_step" where
  "install_network_config machine = \<lparr>s_name = ''install_network_config'',
     s_doc = ''Write S:Network-Startup + per-machine NetInterface ('' @ machine @ '': '' @
       (case map_of NET_INTERFACE machine of Some (i, _) \<Rightarrow> ''iface '' @ i | None \<Rightarrow> ''none'') @ '').'',
     s_fn = plain (network_body machine)\<rparr>"

section \<open>Programs started at boot\<close>

text \<open>A text file, empty when it cannot be read; a text with a final newline; the lines that are added.\<close>

definition text_or_empty :: "string \<Rightarrow> string \<Rightarrow> (fleet, string) io" where
  "text_or_empty tgt path = catch (read_text tgt path) (\<lambda>_. ret [])"

definition end_line :: "string \<Rightarrow> string" where
  "end_line s = (if s \<noteq> [] \<and> \<not> endswith s [newline] then s @ [newline] else s)"

definition SERIAL_MARKER :: string where "SERIAL_MARKER = '';BEGIN SerialShell''"

definition serial_block :: string where
  "serial_block = lines_of [[], SERIAL_MARKER,
     ''NewShell '' @ quoted ''CON:0/400/640/200/SerialShell/AUTO/CLOSE'' @ '' FROM S:SerialShell-Startup'', '';END SerialShell'']"

definition serialshell_body :: "ctx \<Rightarrow> (fleet, json) io" where
  "serialshell_body c = (let tgt = cx_target c; dest = cx_dest c; src = dest @ ''tmp/SerialShell''; bin = dest @ ''C/SerialShell'';
       us = dest @ ''S/User-Startup'' in
     bnd (succeeds (stat_path tgt src)) (\<lambda>there.
     if \<not> there then ret (skipped ''SerialShell binary not staged at tmp/'')
     else
     bnd (amiga_makedir tgt (dest @ ''C'')) (\<lambda>_.
     bnd (copy_or_command tgt src bin 30000) (\<lambda>_.
     bnd (protect tgt bin) (\<lambda>_.
     bnd (amiga_makedir tgt (dest @ ''S'')) (\<lambda>_.
     bnd (write_text tgt (dest @ ''S/SerialShell-Startup'') (''C:SerialShell'' @ [newline])) (\<lambda>_.
     bnd (capture_mtime tgt us) (\<lambda>mtime.
     bnd (text_or_empty tgt us) (\<lambda>existing.
     if contains SERIAL_MARKER existing
     then ret (JObj [(''action'', JStr ''binary copied; User-Startup unchanged''), (''binary'', JStr bin),
            (''marker_already_present'', JBool True)])
     else
     bnd (write_text tgt us (end_line existing @ serial_block)) (\<lambda>_.
     bnd (restore_mtime tgt us mtime) (\<lambda>_.
     ret (JObj [(''action'', JStr ''installed''), (''binary'', JStr bin), (''user_startup'', JStr us)]))))))))))))"

definition install_serialshell :: install_step where
  "install_serialshell = \<lparr>s_name = ''install_serialshell'',
     s_doc = ''Install SerialShell binary to C:, write S:SerialShell-Startup, and append a NewShell auto-start block to S:User-Startup.'',
     s_fn = plain serialshell_body\<rparr>"

definition MCPD_MARKER :: string where "MCPD_MARKER = ''SYS:System/MCPd/MCPd''"

definition mcpd_block :: string where
  "mcpd_block = lines_of [[], ''; MCPd - Model Context Protocol daemon'', ''Run >NIL: <NIL: '' @ MCPD_MARKER]"

text \<open>One operator script, if it was staged.\<close>

definition install_helper :: "string \<Rightarrow> string \<Rightarrow> string \<Rightarrow> (fleet, string list) io" where
  "install_helper tgt dest helper = (let src = dest @ ''tmp/'' @ helper; dst = dest @ ''System/MCPd/'' @ helper in
     bnd (succeeds (stat_path tgt src)) (\<lambda>there.
     if \<not> there then ret []
     else bnd (copy_or_command tgt src dst 30000) (\<lambda>_. bnd (protect tgt dst) (\<lambda>_. ret [dst]))))"

text \<open>Whether a backup was made now, and the text that the new one starts with.\<close>

definition backup_netstart :: "string \<Rightarrow> string \<Rightarrow> string \<Rightarrow> (fleet, bool \<times> string) io" where
  "backup_netstart tgt netstart existing =
     bnd (succeeds (stat_path tgt (netstart @ ''.before-mcpd''))) (\<lambda>there.
     if there then ret (False, existing)
     else bnd (succeeds (copy_file tgt netstart (netstart @ ''.before-mcpd''))) (\<lambda>ok.
       ret (if ok then (True, existing) else (False, []))))"

definition edit_netstart :: "string \<Rightarrow> string \<Rightarrow> string \<Rightarrow> json \<Rightarrow> (fleet, json) io" where
  "edit_netstart tgt netstart bin helpers =
     bnd (capture_mtime tgt netstart) (\<lambda>mtime.
     bnd (text_or_empty tgt netstart) (\<lambda>existing.
     if contains MCPD_MARKER existing
     then ret (JObj [(''action'', JStr ''binary copied; Network-Startup unchanged''), (''binary'', JStr bin),
            (''input_helpers'', helpers), (''marker_already_present'', JBool True)])
     else
     bnd (backup_netstart tgt netstart existing) (\<lambda>(backed, base).
     bnd (write_text tgt netstart (end_line base @ mcpd_block)) (\<lambda>_.
     bnd (restore_mtime tgt netstart mtime) (\<lambda>_.
     ret (JObj [(''action'', JStr ''installed''), (''binary'', JStr bin), (''input_helpers'', helpers),
            (''network_startup'', JStr netstart),
            (''backed_up_to'', if backed then JStr (netstart @ ''.before-mcpd'') else JNull)]))))))"

definition mcpd_body :: "ctx \<Rightarrow> (fleet, json) io" where
  "mcpd_body c = (let tgt = cx_target c; dest = cx_dest c; src = dest @ ''tmp/MCPd''; bin = dest @ ''System/MCPd/MCPd'' in
     bnd (succeeds (stat_path tgt src)) (\<lambda>there.
     if \<not> there then ret (skipped ''MCPd binary not staged at tmp/MCPd'')
     else
     bnd (amiga_makedir tgt (dest @ ''System/MCPd'')) (\<lambda>_.
     bnd (copy_or_command tgt src bin 60000) (\<lambda>_.
     bnd (protect tgt bin) (\<lambda>_.
     bnd (for_each (install_helper tgt dest) [''MCPd-Enable-Input'', ''MCPd-Disable-Input'']) (\<lambda>hs.
     edit_netstart tgt (dest @ ''S/Network-Startup'') bin (JArr (map JStr (concat hs)))))))))"

definition install_mcpd :: install_step where
  "install_mcpd = \<lparr>s_name = ''install_mcpd'',
     s_doc = ''Copy MCPd binary to SYS:System/MCPd/, +rwed, append launch line to S:Network-Startup so it auto-starts on first boot. Also copies the MCPd-Enable-Input / MCPd-Disable-Input operator scripts when staged - copied only, never run: input injection stays off.'',
     s_fn = plain mcpd_body\<rparr>"

section \<open>Files moved out of the way\<close>

definition move_monitor :: "string \<Rightarrow> string \<Rightarrow> string \<Rightarrow> json \<Rightarrow> (fleet, (json + json) option) io" where
  "move_monitor tgt src_dir dst_dir entry =
     bnd (lift (get_or ''name'' (JStr []) entry)) (\<lambda>name.
     if \<not> truthy name then ret None
     else let src = src_dir @ ''/'' @ py_str name; dst = dst_dir @ ''/'' @ py_str name in
     bnd (succeeds (req tgt ''fs.rename'' [(''src'', JStr src), (''dst'', JStr dst)])) (\<lambda>ok.
     if ok then ret (Some (Inr name))
     else catch (bnd (copy_file tgt src dst) (\<lambda>_.
                 bnd (req tgt ''fs.delete'' [(''path'', JStr src), (''recursive'', JBool True)]) (\<lambda>_. ret (Some (Inr name)))))
            (\<lambda>e. ret (Some (Inl (JObj [(''name'', name), (''error'', JStr (take 200 (exn_str e)))]))))))"

definition sum_lefts :: "('a + 'b) option list \<Rightarrow> 'a list" where
  "sum_lefts xs = concat (map (\<lambda>x. case x of Some (Inl a) \<Rightarrow> [a] | _ \<Rightarrow> []) xs)"

definition sum_rights :: "('a + 'b) option list \<Rightarrow> 'b list" where
  "sum_rights xs = concat (map (\<lambda>x. case x of Some (Inr b) \<Rightarrow> [b] | _ \<Rightarrow> []) xs)"

definition monitors_body :: "ctx \<Rightarrow> (fleet, json) io" where
  "monitors_body c = (let tgt = cx_target c; src = cx_dest c @ ''DEVS/Monitors''; dst = cx_dest c @ ''Storage/Monitors'' in
     bnd (catch (bnd (req tgt ''fs.list'' [(''path'', JStr src)]) (\<lambda>l. ret (Some l))) (\<lambda>_. ret None)) (\<lambda>got. case got of
       None \<Rightarrow> ret (skipped ''DEVS:Monitors not present'')
     | Some listing \<Rightarrow>
        bnd (lift (case listing of JArr _ \<Rightarrow> Inr listing | _ \<Rightarrow> get_or ''entries'' (JArr []) (or_empty listing))) (\<lambda>entries.
        if \<not> truthy entries then ret (skipped ''DEVS:Monitors is already empty'')
        else bnd (amiga_makedir tgt dst) (\<lambda>_.
             bnd (lift (elements entries)) (\<lambda>es.
             bnd (for_each (move_monitor tgt src dst) es) (\<lambda>rs.
             ret (JObj [(''action'', JStr ''moved''), (''from'', JStr src), (''to'', JStr dst),
                    (''moved'', JArr (sum_rights rs)), (''errors'', JArr (sum_lefts rs))])))))))"

definition quarantine_devs_monitors :: install_step where
  "quarantine_devs_monitors = \<lparr>s_name = ''quarantine_devs_monitors'',
     s_doc = ''Move all entries from DEVS:Monitors to Storage/Monitors -- keeps Workbench from auto-loading legacy monitor drivers when RadeonHD/RX handles RTG.'',
     s_fn = plain monitors_body\<rparr>"

definition emu10kx_body :: "ctx \<Rightarrow> (fleet, json) io" where
  "emu10kx_body c = (let tgt = cx_target c; src = cx_dest c @ ''DEVS/AHI/emu10kx.audio''; dst = cx_dest c @ ''Storage/AHI/emu10kx.audio'' in
     bnd (succeeds (stat_path tgt src)) (\<lambda>there.
     if \<not> there then ret (skipped ''DEVS:AHI/emu10kx.audio not present'')
     else
     bnd (amiga_makedir tgt (cx_dest c @ ''Storage/AHI'')) (\<lambda>_.
     catch (bnd (req tgt ''fs.rename'' [(''src'', JStr src), (''dst'', JStr dst)]) (\<lambda>_.
             ret (JObj [(''action'', JStr ''moved''), (''from'', JStr src), (''to'', JStr dst)])))
       (\<lambda>e. catch (bnd (copy_file tgt src dst) (\<lambda>_.
                   bnd (req tgt ''fs.delete'' [(''path'', JStr src), (''recursive'', JBool False)]) (\<lambda>_.
                   ret (JObj [(''action'', JStr ''moved (copy+delete)''), (''from'', JStr src), (''to'', JStr dst)]))))
             (\<lambda>e2. ret (JObj [(''action'', JStr ''failed''), (''from'', JStr src), (''to'', JStr dst),
                     (''error'', JStr (''rename: '' @ exn_str e @ ''; copy+delete: '' @ exn_str e2))]))))))"

definition quarantine_emu10kx :: install_step where
  "quarantine_emu10kx = \<lparr>s_name = ''quarantine_emu10kx'',
     s_doc = ''Move DEVS:AHI/emu10kx.audio to Storage/AHI/ -- the 2014 SBLive driver bus-errors during AHI probe on X5000 hardware that has no SoundBlaster Live.'',
     s_fn = plain emu10kx_body\<rparr>"

section \<open>The end\<close>

record tidy =
  t_deleted :: "string list"
  t_skipped :: "string list"
  t_errors :: "json list"

definition try_delete :: "string \<Rightarrow> string \<Rightarrow> bool \<Rightarrow> tidy \<Rightarrow> (fleet, tidy) io" where
  "try_delete tgt path recursive out =
     catch (bnd (req tgt ''fs.delete'' [(''path'', JStr path), (''recursive'', JBool recursive)]) (\<lambda>_.
              ret (out\<lparr>t_deleted := t_deleted out @ [path]\<rparr>)))
           (\<lambda>e. ret (out\<lparr>t_errors := t_errors out @
              [JObj [(''path'', JStr path), (''error'', JStr (take 200 (exn_str e)))]]\<rparr>))"

definition cleanup_body :: "ctx \<Rightarrow> (fleet, json) io" where
  "cleanup_body c = (let tgt = cx_target c; scratch = cx_dest c @ ''tmp/scratch'';
       none = \<lparr>t_deleted = [], t_skipped = [], t_errors = []\<rparr> in
     bnd (succeeds (stat_path tgt scratch)) (\<lambda>there.
     bnd (if there then try_delete tgt scratch True none
          else ret (none\<lparr>t_skipped := [scratch @ '' (not present)'']\<rparr>)) (\<lambda>out.
     bnd (if cx_extracted c then try_delete tgt (cx_dest c @ ''tmp/'' @ cx_iso_filename c) False out
          else ret (out\<lparr>t_skipped := t_skipped out @ [''iso file (was uploaded directly, kept)'']\<rparr>)) (\<lambda>out2.
     ret (JObj [(''deleted'', JArr (map JStr (t_deleted out2))), (''skipped'', JArr (map JStr (t_skipped out2))),
                (''errors'', JArr (t_errors out2))])))))"

definition cleanup_tmp :: install_step where
  "cleanup_tmp = \<lparr>s_name = ''cleanup_tmp'',
     s_doc = ''Delete <dest>:tmp/scratch/ + the extracted .iso (only if it was unpacked from .lha during this run). The rest of <dest>:tmp/ is kept on purpose so re-installs work from local files.'',
     s_fn = plain cleanup_body\<rparr>"

section \<open>The sequence of a machine\<close>

definition build_sequence :: "machine_config \<Rightarrow> seq" where
  "build_sequence cfg = (let machine = machine_id cfg;
       updates = (case map_of UPDATES_TO_APPLY machine of Some ns \<Rightarrow> ns | None \<Rightarrow> []) in
     \<lparr>q_machine = machine,
      q_description = ''Native AmigaOS 4.1 FE install for '' @ machine @ '' (boot-critical pipeline)'',
      q_steps = [stage_diskimage_tools, extract_iso_lha, mount_iso, verify_cd_signature cfg, copy_base_os,
          copy_installation_extras, install_bootloader cfg]
        @ map (apply_one_update cfg) updates
        @ (if needs_enhancer cfg then [install_enhancer cfg] else [])
        @ (if needs_ngf cfg then [install_ngf] else [])
        @ [install_extras, patch_amidock_prefs, install_network_config machine, install_serialshell]
        @ (if needs_emu10kx_quarantine cfg then [quarantine_emu10kx] else [])
        @ (if needs_monitors_quarantine cfg then [quarantine_devs_monitors] else [])
        @ [install_mcpd, unmount_iso, dismount_combi_device, cleanup_tmp]\<rparr>)"

end
