(* ===== verification/Installer.thy ===== *)
theory Installer
  imports InstallSystem
begin

text \<open>
  The \<^verbatim>\<open>installer.*\<close> tools that combine the tables, the host's files and the target: the machine list,
  the pre-flight check, the run of a sequence, the staging of the files and the check after an
  install (\<^verbatim>\<open>tools/installer.py\<close>).  What the tools ask the host's file system is the record \<open>host_env\<close>.
\<close>

section \<open>The host\<close>

text \<open>\<^verbatim>\<open>package_dir\<close> is the directory of the package, \<^verbatim>\<open>host_root\<close> and \<^verbatim>\<open>repo_root\<close> its third and fourth
parents seen from \<^verbatim>\<open>tools/installer.py\<close>.\<close>

record host_env =
  h_resolve :: "string \<Rightarrow> string"
  h_listing :: "string \<Rightarrow> (string \<times> bool) list option"
  h_is_file :: "string \<Rightarrow> bool"
  h_is_dir :: "string \<Rightarrow> bool"
  h_exists :: "string \<Rightarrow> bool"
  h_cwd :: string
  h_home :: string
  h_support_env :: "string option"
  h_package_dir :: string
  h_host_root :: string
  h_repo_root :: string

definition join_path :: "string \<Rightarrow> string \<Rightarrow> string" where
  "join_path d f = d @ ''/'' @ f"

definition repr_list :: "string list \<Rightarrow> string" where
  "repr_list xs = py_repr_json (JArr (map JStr xs))"

definition host_scan :: "host_env \<Rightarrow> string \<Rightarrow> scan" where
  "host_scan env d = scan_sources (h_resolve env d) (h_listing env (h_resolve env d))"

section \<open>The machines\<close>

record machine_info =
  mi_id :: string
  mi_friendly :: string
  mi_prefix :: string
  mi_aliases :: "string list"
  mi_updates :: "nat list"
  mi_needs_enhancer :: bool
  mi_needs_rescue :: bool
  mi_signature :: "string option"
  mi_extras :: "string list"

definition info_of :: "string \<Rightarrow> (string \<times> string) option" where
  "info_of m = map_of (map (\<lambda>(p, i, f). (i, (p, f))) ISO_PREFIX_TO_MACHINE) m"

definition machine_info_of :: "string \<Rightarrow> exn + machine_info" where
  "machine_info_of m = (case info_of m of
       None \<Rightarrow> Inl (PyErr (OtherError ''StopIteration'') [])
     | Some (pre, friendly) \<Rightarrow>
         ebnd (required_files m) (\<lambda>rs.
         Inr \<lparr>mi_id = m, mi_friendly = friendly, mi_prefix = pre,
              mi_aliases = sort (map fst (filter (\<lambda>kv. snd kv = m) MACHINE_ALIASES)),
              mi_updates = (case map_of UPDATES_TO_APPLY m of Some ns \<Rightarrow> ns | None \<Rightarrow> []),
              mi_needs_enhancer = (m \<noteq> ''A1222''), mi_needs_rescue = (m = ''A1222''),
              mi_signature = map_of CD_VERSION_SIGNATURES m,
              mi_extras = map filename (filter (\<lambda>f. role f = ''extra'') rs)\<rparr>))"

definition installer_list_machines :: "exn + machine_info list" where
  "installer_list_machines = foldr (\<lambda>m acc. ebnd (machine_info_of m) (\<lambda>i. ebnd acc (\<lambda>is. Inr (i # is)))) SUPPORTED_MACHINES (Inr [])"

record required_result =
  rr_machine :: string
  rr_files :: "(string \<times> string \<times> string option \<times> int option) list"
  rr_needs_rescue :: bool
  rr_volumes :: "string list"
  rr_signature :: "string option"

definition required_entry :: "required \<Rightarrow> exn + (string \<times> string \<times> string option \<times> int option)" where
  "required_entry f = (case update_index f of
       None \<Rightarrow> Inr (role f, filename f, iso_prefix f, None)
     | Some i \<Rightarrow> ebnd (parse_int i) (\<lambda>n. Inr (role f, filename f, iso_prefix f, Some n)))"

definition installer_required_files :: "string \<Rightarrow> exn + required_result" where
  "installer_required_files machine = (case resolve_machine_alias machine of
       None \<Rightarrow> Inl (PyErr ValueError (''unknown machine '' @ py_repr machine @ ''; supported: '' @ join '', '' SUPPORTED_MACHINES))
     | Some m \<Rightarrow> ebnd (required_files m) (\<lambda>rs.
         ebnd (foldr (\<lambda>f acc. ebnd (required_entry f) (\<lambda>x. ebnd acc (\<lambda>xs. Inr (x # xs)))) rs (Inr [])) (\<lambda>fs.
         Inr \<lparr>rr_machine = m, rr_files = fs, rr_needs_rescue = (m = ''A1222''),
              rr_volumes = (if m = ''A1222'' then A1222_BACKUP_VOLS else []),
              rr_signature = (if m = ''A1222'' then Some A1222_BACKUP_SIGNATURE else None)\<rparr>)))"

text \<open>The result model has no field for the archives of ISOs.\<close>

record scan_result =
  ss_dir :: string
  ss_exists :: bool
  ss_iso_files :: "(string \<times> string list) list"
  ss_unsupported :: "string list"
  ss_lha_files :: "string list"
  ss_detected :: "string option"
  ss_ambiguous :: "string list"

definition installer_scan_sources :: "host_env \<Rightarrow> string \<Rightarrow> scan_result" where
  "installer_scan_sources env d = (let s = host_scan env d in
     \<lparr>ss_dir = sc_dir s, ss_exists = sc_exists s, ss_iso_files = iso_files s, ss_unsupported = unsupported_isos s,
      ss_lha_files = lha_files s, ss_detected = detected_machine s, ss_ambiguous = ambiguous_machines s\<rparr>)"

section \<open>Finding files on the host\<close>

definition support_root :: "host_env \<Rightarrow> string option" where
  "support_root env =
     (case h_support_env env of
        Some d \<Rightarrow> if d \<noteq> [] \<and> h_is_dir env (h_resolve env d) then Some (h_resolve env d) else
          find (h_is_dir env) [join_path (h_cwd env) ''install-support'', join_path (h_home env) ''install-support'']
      | None \<Rightarrow> find (h_is_dir env) [join_path (h_cwd env) ''install-support'', join_path (h_home env) ''install-support''])"

definition support_dirs :: "host_env \<Rightarrow> string list" where
  "support_dirs env = (case support_root env of Some r \<Rightarrow> [r] | None \<Rightarrow> []) @
     [h_cwd env, h_home env, join_path (h_package_dir env) ''installer/resources'']"

definition find_in_sources_or_support :: "host_env \<Rightarrow> string \<Rightarrow> string \<Rightarrow> string option" where
  "find_in_sources_or_support env f src = find (h_is_file env) (map (\<lambda>d. join_path d f) (src # support_dirs env))"

definition resolve_mcpd_binary :: "host_env \<Rightarrow> string \<Rightarrow> string option" where
  "resolve_mcpd_binary env src = find (h_is_file env)
     ([join_path src ''MCPd''] @ map (\<lambda>r. join_path r ''mcpd/MCPd'') [h_cwd env, h_host_root env]
      @ map (\<lambda>d. join_path d ''MCPd'') (support_dirs env))"

definition resolve_install_script :: "host_env \<Rightarrow> string \<Rightarrow> string \<Rightarrow> string option" where
  "resolve_install_script env name src = find (h_is_file env)
     ([join_path src name] @ map (\<lambda>r. join_path r (''mcpd/install/'' @ name)) [h_cwd env, h_host_root env, h_repo_root env]
      @ map (\<lambda>d. join_path d name) (support_dirs env))"

record mandatory =
  md_name :: string
  md_desc :: string
  md_path :: "string option"

definition mandatory_binaries :: "host_env \<Rightarrow> string \<Rightarrow> mandatory list" where
  "mandatory_binaries env src = [\<lparr>md_name = ''MCPd'', md_desc = ''MCPd daemon binary (auto-starts on first boot)'',
     md_path = resolve_mcpd_binary env src\<rparr>]"

section \<open>The pre-flight check\<close>

record check =
  ck_name :: string
  ck_status :: string
  ck_detail :: string

record verdict =
  v_checks :: "check list"
  v_overall :: string

definition add_check :: "string \<Rightarrow> string \<Rightarrow> string \<Rightarrow> verdict \<Rightarrow> verdict" where
  "add_check name status detail v =
     \<lparr>v_checks = v_checks v @ [\<lparr>ck_name = name, ck_status = status, ck_detail = detail\<rparr>],
      v_overall = (if status = ''fail'' then ''fail''
                   else if status = ''warn'' \<and> v_overall v = ''ok'' then ''warn'' else v_overall v)\<rparr>"

record preflight =
  pf_target :: string
  pf_dest :: string
  pf_machine :: "string option"
  pf_iso :: "string option"
  pf_sources :: string
  pf_overall :: string
  pf_checks :: "check list"
  pf_missing :: "string list"
  pf_forbidden :: "string list"
  pf_summary :: string

definition check_dest :: "string \<Rightarrow> verdict \<Rightarrow> verdict" where
  "check_dest dest v =
     (if is_system_volume dest
      then add_check ''dest_not_system'' ''fail''
             (''dest_volume '' @ py_repr dest @ '' is a system volume; install would clobber the running OS'') v
      else add_check ''dest_not_system'' ''ok'' (dest @ '' is safe to write'') v)"

definition given :: "string option \<Rightarrow> string option" where
  "given x = (if x = Some [] then None else x)"

definition check_machine :: "string option \<Rightarrow> scan \<Rightarrow> verdict \<Rightarrow> string option \<times> verdict" where
  "check_machine machine sc v =
     (case given machine of
        Some m \<Rightarrow> (case resolve_machine_alias m of
            None \<Rightarrow> (None, add_check ''machine_known'' ''fail'' (''unknown machine alias '' @ py_repr m) v)
          | Some k \<Rightarrow> (Some k, add_check ''machine_known'' ''ok'' k v))
      | None \<Rightarrow> (case detected_machine sc of
            Some k \<Rightarrow> (Some k, add_check ''machine_known'' ''ok'' (''auto-detected from ISO: '' @ k) v)
          | None \<Rightarrow> if ambiguous_machines sc \<noteq> []
              then (None, add_check ''machine_known'' ''fail''
                     (''multiple supported ISOs in sources_dir; specify machine: '' @ repr_list (ambiguous_machines sc)) v)
              else (None, add_check ''machine_known'' ''fail'' ''no supported ISO in sources_dir and no machine= given'' v)))"

definition check_unsupported :: "scan \<Rightarrow> verdict \<Rightarrow> verdict" where
  "check_unsupported sc v = (if unsupported_isos sc \<noteq> []
     then add_check ''unsupported_isos'' ''warn''
            (''unsupported ISOs present (will be ignored): '' @ repr_list (unsupported_isos sc)) v else v)"

definition drop_lha :: "string \<Rightarrow> string" where
  "drop_lha f = take (length f - 4) f"

definition of_machine :: "string \<Rightarrow> (string \<times> string list) list \<Rightarrow> string list" where
  "of_machine m fs = (case map_of fs m of Some xs \<Rightarrow> xs | None \<Rightarrow> [])"

definition check_iso :: "host_env \<Rightarrow> string option \<Rightarrow> string option \<Rightarrow> scan \<Rightarrow> verdict \<Rightarrow> string option \<times> verdict" where
  "check_iso env iso_arg machine sc v =
     (case (machine, given iso_arg) of
        (None, _) \<Rightarrow> (iso_arg, v)
      | (Some m, None) \<Rightarrow>
          let cs = of_machine m (iso_files sc); ls = of_machine m (iso_lha_files sc) in
          if length cs = 1 then (Some (hd cs), add_check ''iso_resolved'' ''ok'' (hd cs) v)
          else if length cs > 1
          then (iso_arg, add_check ''iso_resolved'' ''fail'' (''multiple ISOs matching '' @ m @ '': '' @ repr_list cs @ ''; specify iso='') v)
          else if length ls = 1
          then (Some (drop_lha (hd ls)), add_check ''iso_resolved'' ''ok'' (drop_lha (hd ls) @ '' (will extract from '' @ hd ls @ '')'') v)
          else if length ls > 1
          then (iso_arg, add_check ''iso_resolved'' ''fail'' (''multiple iso.lha files matching '' @ m @ '': '' @ repr_list ls @ ''; specify iso='') v)
          else (iso_arg, add_check ''iso_resolved'' ''fail'' (''no ISO (raw or .iso.lha) matching machine '' @ m @ '' in sources_dir'') v)
      | (Some m, Some f) \<Rightarrow>
          (iso_arg, case detect_machine_from_iso f of
              None \<Rightarrow> add_check ''iso_resolved'' ''fail'' (''iso filename '' @ py_repr f @ '' doesn'' @ [CHR 0x27] @ ''t match any supported prefix'') v
            | Some (k, _) \<Rightarrow>
                if k \<noteq> m then add_check ''iso_resolved'' ''fail'' (''iso '' @ py_repr f @ '' is for '' @ k @ '', not '' @ m) v
                else if \<not> h_exists env (join_path (sc_dir sc) f)
                then add_check ''iso_resolved'' ''fail'' (''iso '' @ py_repr f @ '' not found in sources_dir'') v
                else add_check ''iso_resolved'' ''ok'' f v))"

definition missing_required :: "required list \<Rightarrow> scan \<Rightarrow> string list" where
  "missing_required rs sc = filter (\<lambda>f. f \<notin> set (lha_files sc)) (map filename (filter (\<lambda>r. role r \<noteq> ''iso'') rs))"

definition check_files :: "host_env \<Rightarrow> string \<Rightarrow> scan \<Rightarrow> verdict \<Rightarrow> exn + (string list \<times> verdict)" where
  "check_files env m sc v =
     ebnd (required_files m) (\<lambda>rs.
     let missing = missing_required rs sc;
         mand = mandatory_binaries env (sc_dir sc);
         lost = map md_name (filter (\<lambda>b. md_path b = None) mand);
         v1 = (if missing \<noteq> [] then add_check ''required_files'' ''fail''
                  (''missing '' @ nat_dec (length missing) @ '' required file(s): '' @ repr_list missing) v
               else add_check ''required_files'' ''ok'' (''all '' @ int_dec (int (length rs) - 1) @ '' non-ISO files present'') v);
         v2 = (if lost \<noteq> [] then add_check ''mandatory_binaries'' ''fail''
                  (''missing '' @ nat_dec (length lost) @ '' mandatory binar(ies): '' @ repr_list lost) v1
               else add_check ''mandatory_binaries'' ''ok''
                  (''all '' @ nat_dec (length mand) @ '' mandatory binaries resolved ('' @ join '', '' (map md_name mand) @ '')'') v1);
         v3 = (if m = ''A1222'' then add_check ''rescuev2_volume'' ''warn''
                  (''A1222 install requires RESCUEV2: or AAATECH0: USB volume mounted on the target; check separately on the '' @
                   ''Amiga side. Preflight doesn'' @ [CHR 0x27] @ ''t probe Amiga volumes.'') v2 else v2)
     in Inr (missing @ lost, v3))"

definition host_checks ::
    "host_env \<Rightarrow> string option \<Rightarrow> string option \<Rightarrow> scan \<Rightarrow> verdict \<Rightarrow>
     exn + (string option \<times> string option \<times> string list \<times> verdict)" where
  "host_checks env machine iso_arg sc v =
     (let (m, v1) = check_machine machine sc v;
          (chosen, v2) = check_iso env iso_arg m sc (check_unsupported sc v1)
      in case m of
           None \<Rightarrow> Inr (None, chosen, [], v2)
         | Some k \<Rightarrow> ebnd (check_files env k sc v2) (\<lambda>(missing, v3). Inr (Some k, chosen, missing, v3)))"

text \<open>The entries a previous install leaves: each is asked for, and kept when it is there.\<close>

definition ask :: "string \<Rightarrow> string \<Rightarrow> string \<Rightarrow> (fleet, string list) io" where
  "ask tgt dest f = bnd (succeeds (stat_path tgt (dest @ f))) (\<lambda>there. ret (if there then [f] else []))"

definition check_clean :: "string \<Rightarrow> string list \<Rightarrow> verdict \<Rightarrow> verdict" where
  "check_clean dest forbidden v = (let v1 = add_check ''dest_mounted'' ''ok'' (dest @ '' is reachable'') v in
     if forbidden \<noteq> [] then add_check ''dest_clean'' ''fail''
         (dest @ '' contains existing AOS install: '' @ repr_list forbidden @ ''; format the partition first'') v1
     else add_check ''dest_clean'' ''ok'' (''none of '' @ nat_dec (length FORBIDDEN_DEST_ENTRIES) @
         '' forbidden entries present on '' @ dest) v1)"

definition show_opt :: "string option \<Rightarrow> string" where
  "show_opt x = (case x of Some s \<Rightarrow> s | None \<Rightarrow> ''None'')"

definition installer_preflight ::
    "host_env \<Rightarrow> string \<Rightarrow> string \<Rightarrow> string \<Rightarrow> string option \<Rightarrow> string option \<Rightarrow> (fleet, preflight) io" where
  "installer_preflight env target vol0 sources machine iso_arg =
     (let dest = normalize_dest vol0;
          v0 = check_dest dest \<lparr>v_checks = [], v_overall = ''ok''\<rparr>;
          sc = host_scan env sources in
      if \<not> sc_exists sc
      then ret \<lparr>pf_target = target, pf_dest = dest, pf_machine = machine, pf_iso = iso_arg, pf_sources = h_resolve env sources,
             pf_overall = ''fail'', pf_checks = v_checks (add_check ''sources_exists'' ''fail''
                 (''sources_dir '' @ py_repr sources @ '' not found or not a directory'') v0),
             pf_missing = [], pf_forbidden = [], pf_summary = ''sources_dir not found''\<rparr>
      else bnd (lift (host_checks env machine iso_arg sc (add_check ''sources_exists'' ''ok'' (sc_dir sc) v0))) (\<lambda>(m, img, missing, v).
      bnd (gets f_config) (\<lambda>cfg.
      bnd (lift (fleet_resolve cfg (Some target))) (\<lambda>tgt.
      let result = (\<lambda>w overall forbidden summary.
            \<lparr>pf_target = tgt, pf_dest = dest, pf_machine = m, pf_iso = img, pf_sources = sc_dir sc, pf_overall = overall,
             pf_checks = v_checks w, pf_missing = missing, pf_forbidden = forbidden, pf_summary = summary\<rparr>) in
      bnd (catch (bnd (fleet_mcpd tgt) (\<lambda>_. ret None)) (\<lambda>e. ret (Some e))) (\<lambda>unreachable. case unreachable of
        Some e \<Rightarrow> ret (result (add_check ''target_reachable'' ''fail'' (''target unreachable: '' @ exn_str e) v) ''fail'' []
            ''target not reachable for fs checks'')
      | None \<Rightarrow>
      bnd (catch (bnd (stat_path tgt dest) (\<lambda>_. ret None)) (\<lambda>e. ret (Some e))) (\<lambda>unmounted. case unmounted of
        Some e \<Rightarrow> ret (result (add_check ''dest_mounted'' ''fail''
              (dest @ '' not reachable: '' @ exn_str e @ ''; is the partition mounted on the target?'') v) ''fail'' []
            (dest @ '' not mounted on target''))
      | None \<Rightarrow>
      bnd (for_each (ask tgt dest) FORBIDDEN_DEST_ENTRIES) (\<lambda>fs.
      let forbidden = concat fs; v2 = check_clean dest forbidden v in
      ret (result v2 (v_overall v2) forbidden
            (''preflight '' @ v_overall v2 @ '': machine='' @ show_opt m @ '' iso='' @ show_opt img @ '' dest='' @ dest @
             '' missing='' @ nat_dec (length missing) @ '' forbidden='' @ nat_dec (length forbidden))))))))))"

section \<open>Running a sequence\<close>

text \<open>Every supported machine has a builder, which takes its configuration.\<close>

definition resolve_sequence_machine :: "string \<Rightarrow> exn + machine_config" where
  "resolve_sequence_machine machine = (case resolve_machine_alias machine of
       None \<Rightarrow> Inl (RpcErr InvalidParams (''unknown machine '' @ py_repr machine @ ''; supported: '' @ join '', '' SUPPORTED_MACHINES) None)
     | Some m \<Rightarrow> (case map_of CONFIGS m of
           None \<Rightarrow> Inl (RpcErr InvalidParams (''machine '' @ py_repr m @ '' sequence not yet implemented (implemented: '' @
                     join '', '' (sort (map fst CONFIGS)) @ '')'')
                  (Some (JObj [(''machine'', JStr m), (''implemented'', JArr (map (\<lambda>kv. JStr (fst kv)) CONFIGS))])))
         | Some cfg \<Rightarrow> Inr cfg))"

definition detect_iso :: "string \<Rightarrow> string \<Rightarrow> string \<Rightarrow> scan \<Rightarrow> exn + string" where
  "detect_iso forwhat place m sc = (let cs = of_machine m (iso_files sc); ls = of_machine m (iso_lha_files sc) in
     if length cs = 1 then Inr (hd cs)
     else if length ls = 1 then Inr (drop_lha (hd ls))
     else Inl (RpcErr InvalidParams (''could not auto-detect iso_filename'' @ forwhat @ '': '' @ nat_dec (length cs) @
            '' bare ISO + '' @ nat_dec (length ls) @ '' iso.lha candidates'' @ place)
          (Some (JObj [(''iso_candidates'', JArr (map JStr cs)), (''iso_lha_candidates'', JArr (map JStr ls))]))))"

definition choose_iso :: "host_env \<Rightarrow> string \<Rightarrow> string option \<Rightarrow> string option \<Rightarrow> exn + string" where
  "choose_iso env m iso_name sources = (case iso_name of
       Some f \<Rightarrow> Inr f
     | None \<Rightarrow> (case given sources of
           None \<Rightarrow> Inl (RpcErr InvalidParams ''must pass iso_filename, or sources_dir for auto-detect'' None)
         | Some d \<Rightarrow> detect_iso [] ('' for '' @ m @ '' in '' @ d) m (host_scan env d)))"

definition installer_run ::
    "(exn \<Rightarrow> string) \<Rightarrow> host_env \<Rightarrow> string \<Rightarrow> string \<Rightarrow> string \<Rightarrow> string option \<Rightarrow> string option \<Rightarrow> bool \<Rightarrow> bool \<Rightarrow>
     (fleet, seq_result) pio" where
  "installer_run tb env target vol0 machine iso_name sources dry_run confirm =
     pbnd (always (lift (resolve_sequence_machine machine))) (\<lambda>cfg.
     pbnd (always (lift (choose_iso env (machine_id cfg) iso_name sources))) (\<lambda>img.
     if \<not> dry_run \<and> \<not> confirm
     then praise (RpcErr InvalidParams
            ''installer.run requires confirm=True when dry_run=False (install will rewrite the destination volume)'' None)
     else pbnd (always (fleet_mcpd target)) (\<lambda>_.
       run_sequence tb (build_sequence cfg)
         \<lparr>cx_target = target, cx_dest = normalize_volume vol0, cx_machine = machine_id cfg, cx_iso_filename = img,
          cx_iso_volume = None, cx_extracted = False\<rparr> dry_run)))"

definition installer_install_x5000 ::
    "(exn \<Rightarrow> string) \<Rightarrow> host_env \<Rightarrow> string \<Rightarrow> string \<Rightarrow> string option \<Rightarrow> string option \<Rightarrow> bool \<Rightarrow> bool \<Rightarrow>
     (fleet, seq_result) pio" where
  "installer_install_x5000 tb env target vol0 = installer_run tb env target vol0 ''X5000''"

section \<open>Staging\<close>

record item =
  it_role :: string
  it_local :: string
  it_remote :: string

record stage_result =
  sg_machine :: string
  sg_dest :: string
  sg_iso :: string
  sg_dir :: string
  sg_files :: "(item \<times> upload_stats) list"
  sg_skipped :: "string list"
  sg_elapsed :: int

definition SAFE_CHUNK_RAW :: int where
  "SAFE_CHUNK_RAW = 16 * 1024 * 1024"

definition stage_iso_name :: "host_env \<Rightarrow> string \<Rightarrow> string \<Rightarrow> string option \<Rightarrow> string option \<Rightarrow> exn + string" where
  "stage_iso_name env m src iso_name iso_lha = (case iso_name of
       None \<Rightarrow> detect_iso ('' for '' @ m) '' in sources_dir'' m (host_scan env src)
     | Some f \<Rightarrow>
        if \<not> h_is_file env (join_path src f) \<and> \<not> h_is_file env (join_path src (f @ ''.lha'')) \<and> iso_lha = None
        then Inl (RpcErr InvalidParams (''neither '' @ py_repr f @ '' nor '' @ py_repr (f @ ''.lha'') @
               '' found in sources_dir, and no iso_lha_path given'') None)
        else Inr f)"

definition stage_iso_item :: "host_env \<Rightarrow> string \<Rightarrow> string \<Rightarrow> string \<Rightarrow> string option \<Rightarrow> exn + item" where
  "stage_iso_item env src staging img iso_lha =
     (let packed = (\<lambda>p. \<lparr>it_role = ''iso_lha'', it_local = p, it_remote = staging @ img @ ''.lha''\<rparr>) in
      case given iso_lha of
        Some p \<Rightarrow> if h_is_file env (h_resolve env p) then Inr (packed (h_resolve env p))
            else Inl (RpcErr InvalidParams (''iso_lha_path not found: '' @ py_repr p) None)
      | None \<Rightarrow> if h_is_file env (join_path src (img @ ''.lha'')) then Inr (packed (join_path src (img @ ''.lha'')))
            else Inr \<lparr>it_role = ''iso'', it_local = join_path src img, it_remote = staging @ img\<rparr>)"

text \<open>A file that is there is an item, one that is not is reported.\<close>

definition stage_required :: "host_env \<Rightarrow> string \<Rightarrow> string \<Rightarrow> required \<Rightarrow> string + item" where
  "stage_required env src staging r =
     (if h_is_file env (join_path src (filename r))
      then Inr \<lparr>it_role = role r, it_local = join_path src (filename r), it_remote = staging @ filename r\<rparr>
      else Inl (role r @ '': '' @ filename r @ '' not in sources_dir''))"

definition stage_optional :: "string option \<Rightarrow> string \<Rightarrow> string \<Rightarrow> string \<Rightarrow> string + item" where
  "stage_optional found rl remote reason = (case found of
       Some p \<Rightarrow> Inr \<lparr>it_role = rl, it_local = p, it_remote = remote\<rparr>
     | None \<Rightarrow> Inl reason)"

definition helper_item :: "host_env \<Rightarrow> string \<Rightarrow> string \<Rightarrow> string \<Rightarrow> string + item" where
  "helper_item env src staging h = stage_optional (resolve_install_script env h src) (''mcpd_script_'' @ h) (staging @ h)
     (''mcpd_script_'' @ h @ '': '' @ h @ '' not found; the installed system will have no helper script for input.* '' @
      ''injection (create SYS:System/MCPd/ENABLE-INPUT by hand instead).'')"

definition staged_parts :: "host_env \<Rightarrow> string \<Rightarrow> string \<Rightarrow> required list \<Rightarrow> string \<Rightarrow> (string + item) list" where
  "staged_parts env src staging rs mcpd_path =
     map (stage_required env src staging) (filter (\<lambda>r. role r \<noteq> ''iso'') rs)
     @ [Inr \<lparr>it_role = ''mcpd_binary'', it_local = mcpd_path, it_remote = staging @ ''MCPd''\<rparr>]
     @ map (helper_item env src staging) [''MCPd-Enable-Input'', ''MCPd-Disable-Input'']
     @ [stage_optional (find_in_sources_or_support env ''SerialShell'' src) ''serialshell_binary'' (staging @ ''SerialShell'')
          (''serialshell_binary: SerialShell not found in sources_dir; installed AmigaOS will not have SerialShell available '' @
           ''(only relevant for qemu-runner workflows).''),
        stage_optional (find_in_sources_or_support env ''AmiDock.amiga.com.xml'' src) ''amidock_prefs'' (staging @ ''AmiDock.amiga.com.xml'')
          (''AmiDock.amiga.com.xml not found -- patch_amidock_prefs step will be a no-op (dock will use stock layout)'')]"

definition missing_mandatory :: "mandatory list \<Rightarrow> exn" where
  "missing_mandatory ms = RpcErr InvalidParams
     (''installer.stage cannot proceed: mandatory file(s) missing.'' @ [newline] @
      join [newline] (map (\<lambda>m. ''  - '' @ md_name m @ '': '' @ md_desc m) ms) @ [newline] @
      ''Put MCPd in sources_dir or build it with `make -C mcpd docker-build`.'')
     (Some (JObj [(''missing'', JArr (map (\<lambda>m. JStr (md_name m)) ms))]))"

text \<open>Everything that is decided before the first call to the target: the ISO name, the items and what is skipped.\<close>

definition stage_plan ::
    "host_env \<Rightarrow> string \<Rightarrow> string \<Rightarrow> string \<Rightarrow> string option \<Rightarrow> string option \<Rightarrow> bool \<Rightarrow>
     exn + (string \<times> string \<times> item list \<times> string list)" where
  "stage_plan env vol0 sources machine iso_name iso_lha confirm =
     (if \<not> confirm then Inl (RpcErr InvalidParams ''installer.stage requires confirm=True (multi-GB upload)'' None)
      else case resolve_machine_alias machine of
        None \<Rightarrow> Inl (RpcErr InvalidParams (''unknown machine '' @ py_repr machine @ ''; supported: '' @ join '', '' SUPPORTED_MACHINES) None)
      | Some m \<Rightarrow>
        let src = h_resolve env sources; staging = normalize_volume vol0 @ ''tmp/'' in
        if \<not> h_is_dir env src then Inl (RpcErr InvalidParams (''sources_dir not found: '' @ py_repr sources) None)
        else ebnd (stage_iso_name env m src iso_name iso_lha) (\<lambda>img.
          let lost = filter (\<lambda>b. md_path b = None) (mandatory_binaries env src) in
          if lost \<noteq> [] then Inl (missing_mandatory lost)
          else ebnd (stage_iso_item env src staging img iso_lha) (\<lambda>first.
          ebnd (required_files m) (\<lambda>rs.
          case resolve_mcpd_binary env src of
            None \<Rightarrow> Inl (PyErr AssertionError [])
          | Some p \<Rightarrow>
            let parts = map Some (staged_parts env src staging rs p) in
            Inr (m, img, first # sum_rights parts, sum_lefts parts)))))"

definition installer_stage ::
    "(string \<Rightarrow> string) \<Rightarrow> host_env \<Rightarrow> string \<Rightarrow> string \<Rightarrow> string \<Rightarrow> string \<Rightarrow> string option \<Rightarrow> string option \<Rightarrow> bool \<Rightarrow>
     (fleet, stage_result) io" where
  "installer_stage deflate env target vol0 sources machine iso_name iso_lha confirm =
     bnd (lift (stage_plan env vol0 sources machine iso_name iso_lha confirm)) (\<lambda>(m, img, items, skips).
     let dest = normalize_volume vol0; staging = dest @ ''tmp/'' in
     bnd now (\<lambda>t0.
     bnd (fleet_mcpd target) (\<lambda>_.
     bnd (amiga_makedir target staging) (\<lambda>_.
     bnd (for_each (\<lambda>i. bnd (chunked_upload deflate target (it_local i) (it_remote i) SAFE_CHUNK_RAW ''auto'' 2 0 True) (\<lambda>st.
            ret (i, st))) items) (\<lambda>files.
     bnd now (\<lambda>t1.
     ret \<lparr>sg_machine = m, sg_dest = dest, sg_iso = img, sg_dir = staging, sg_files = files, sg_skipped = skips,
          sg_elapsed = t1 - t0\<rparr>))))))"

section \<open>The check after an install\<close>

definition unhashed :: "string list \<Rightarrow> (string \<times> string option) list" where
  "unhashed ps = map (\<lambda>p. (p, None)) ps"

definition VERIFY_MANIFEST :: "(string \<times> (string \<times> string option) list) list" where
  "VERIFY_MANIFEST =
     [(''X5000'', unhashed [''S/Startup-Sequence'', ''S/User-Startup'', ''Devs/Monitors'', ''C/'', ''L/'', ''Libs/'', ''Kickstart/'',
        ''Kickstart/Kicklayout'', ''Kickstart/RadeonRX.chip'', ''Kickstart/RadeonHD.chip'', ''Kickstart/SmartFilesystem'',
        ''Kickstart/diskcache.library.kmod'', ''Devs/Networks/p50x0_eth.device'', ''Kickstart/NGFileSystem'', ''C/NGFCheck'']),
      (''PegasosII'', unhashed [''S/Startup-Sequence'', ''Kickstart/Kicklayout'', ''Kickstart/RadeonRX.chip'',
        ''Kickstart/SmartFilesystem'', ''amigaboot.of'']),
      (''AmigaOne'', unhashed [''S/Startup-Sequence'', ''Kickstart/Kicklayout'', ''Kickstart/RadeonRX.chip'',
        ''Kickstart/SmartFilesystem'', ''amigaboot.of'']),
      (''Sam460'', unhashed [''S/Startup-Sequence'', ''Kickstart/Kicklayout'', ''Kickstart/RadeonRX.chip'',
        ''Kickstart/SmartFilesystem'', ''amigaboot.of'']),
      (''A1222'', unhashed [''S/Startup-Sequence'', ''S/User-Startup'', ''Devs/Monitors'', ''C/'', ''L/'', ''Libs/'', ''Kickstart/'',
        ''Kickstart/Kicklayout'', ''Kickstart/RadeonRX.chip'', ''Kickstart/RadeonHD.chip'', ''Kickstart/SmartFilesystem'',
        ''Kickstart/diskcache.library.kmod'', ''Devs/Networks/A1222eth.device''])]"

record verify_entry =
  ve_path :: string
  ve_present :: bool
  ve_sha256 :: "string option"
  ve_expected :: "string option"
  ve_ok :: "bool option"
  ve_error :: "string option"

record verify_result =
  vr_dest :: string
  vr_machine :: string
  vr_overall :: string
  vr_total :: nat
  vr_present :: nat
  vr_missing :: nat
  vr_mismatch :: nat
  vr_entries :: "verify_entry list"

text \<open>Whether the hash is to be compared, and what the comparison gives.\<close>

definition check_hash :: "string \<Rightarrow> string \<Rightarrow> string option \<Rightarrow> bool \<Rightarrow> (fleet, exn + json \<times> bool option) io" where
  "check_hash tgt full expected hashes =
     (case (hashes, given expected) of
        (True, Some h) \<Rightarrow>
          catch (bnd (req tgt ''fs.hash'' [(''path'', JStr full), (''algo'', JStr ''sha256'')]) (\<lambda>raw.
                 bnd (lift (get_or ''hash'' JNull raw)) (\<lambda>v. ret (Inr (v, Some (v = JStr h))))))
                (\<lambda>e. ret (Inl e))
      | _ \<Rightarrow> ret (Inr (JNull, None)))"

text \<open>One entry, and how it changes the numbers of present, missing and mismatching ones.\<close>

definition verify_one :: "string \<Rightarrow> string \<Rightarrow> bool \<Rightarrow> string \<times> string option \<Rightarrow>
    (fleet, verify_entry \<times> nat \<times> nat \<times> nat) io" where
  "verify_one tgt dest hashes spec = (let (rel, expected) = spec; full = dest @ rel;
       absent = (\<lambda>e mm. (\<lparr>ve_path = rel, ve_present = False, ve_sha256 = None, ve_expected = expected, ve_ok = None,
                     ve_error = Some (take 200 (exn_str e))\<rparr>, 0, 1, mm)) in
     bnd (catch (bnd (stat_path tgt full) (\<lambda>_. ret None)) (\<lambda>e. ret (Some e))) (\<lambda>gone. case gone of
       Some e \<Rightarrow> ret (absent e 0)
     | None \<Rightarrow>
       bnd (check_hash tgt full expected hashes) (\<lambda>r. case r of
         Inl e \<Rightarrow> ret (\<lparr>ve_path = rel, ve_present = True, ve_sha256 = None, ve_expected = expected, ve_ok = None,
                       ve_error = Some (''hash failed: '' @ exn_str e)\<rparr>, 0, 0, 0)
       | Inr (v, ok) \<Rightarrow>
           let mm = (if ok = Some False then 1 else 0) in
           (case v_opt v_str v of
              Inl e \<Rightarrow> ret (absent e mm)
            | Inr h \<Rightarrow> ret (\<lparr>ve_path = rel, ve_present = True, ve_sha256 = h, ve_expected = expected, ve_ok = ok,
                           ve_error = None\<rparr>, 1, 0, mm)))))"

definition installer_verify ::
    "string \<Rightarrow> string \<Rightarrow> string \<Rightarrow> string list option \<Rightarrow> bool \<Rightarrow> (fleet, verify_result) io" where
  "installer_verify tgt vol0 machine extra_paths hashes =
     (case (case resolve_machine_alias machine of None \<Rightarrow> None
            | Some m \<Rightarrow> (case map_of VERIFY_MANIFEST m of None \<Rightarrow> None | Some es \<Rightarrow> Some (m, es))) of
        None \<Rightarrow> raise (RpcErr InvalidParams (''no verify manifest for machine '' @ py_repr machine @ ''; available: '' @
                  repr_list (sort (map fst VERIFY_MANIFEST))) None)
      | Some (m, es) \<Rightarrow>
        let dest = normalize_volume vol0;
            manifest = es @ unhashed (case extra_paths of Some ps \<Rightarrow> ps | None \<Rightarrow> []) in
        bnd (fleet_mcpd tgt) (\<lambda>_.
        bnd (for_each (verify_one tgt dest hashes) manifest) (\<lambda>rs.
        let p = sum_list (map (\<lambda>(_, p, _, _). p) rs); mi = sum_list (map (\<lambda>(_, _, mi, _). mi) rs);
            mm = sum_list (map (\<lambda>(_, _, _, mm). mm) rs) in
        ret \<lparr>vr_dest = dest, vr_machine = m, vr_overall = (if mi = 0 \<and> mm = 0 then ''ok'' else ''fail''),
             vr_total = length manifest, vr_present = p, vr_missing = mi, vr_mismatch = mm, vr_entries = map fst rs\<rparr>)))"

end
