(* ===== verification/InstallSafe.thy ===== *)
theory InstallSafe
  imports Installer
begin

text \<open>
  What an installer run may do to the target: every call it makes goes to the one target, and every
  call that changes something names a path below the destination volume, the COMBI: mountfile, or is
  one of the commands that mount and eject the ISO.  The rules \<open>safe\<close> follow the code of the steps.
\<close>

named_theorems safe

section \<open>The calls that are allowed\<close>

definition path_ok :: "string \<Rightarrow> string \<Rightarrow> bool" where
  "path_ok d p \<longleftrightarrow> startswith p d \<or> p = COMBI_PATH \<or> p = ''DEVS:DOSDrivers''"

definition dq :: string where "dq = [CHR 0x22]"

definition cmd_ok :: "string \<Rightarrow> string \<Rightarrow> bool" where
  "cmd_ok d c \<longleftrightarrow>
     list_ex (\<lambda>verb. startswith c (verb @ dq @ d))
       [''MakeDir '', ''Protect '', ''Delete '', ''Delete *>NIL: '', ''Delete *>NIL: QUIET '', ''Rename *>NIL: '',
        ''MakeLink *>NIL: '', ''SetDate ''] \<or>
     (\<exists>src rest. c = ''Copy '' @ dq @ src @ dq @ '' '' @ dq @ d @ rest) \<or>
     (\<exists>src rest. c = ''LhA >NIL: x '' @ dq @ src @ dq @ '' '' @ dq @ d @ rest) \<or>
     c = ''MakeDir '' @ dq @ ''DEVS:DOSDrivers'' @ dq @ '' ALL'' \<or>
     c = eject_cmd COMBI_UNIT \<or> (\<exists>img. c = insert_cmd COMBI_UNIT img) \<or> c = mount_cmd COMBI_DEVICE \<or>
     c = ''C:Dismount >NIL: COMBI: FORCE''"

definition call_ok :: "string \<Rightarrow> string \<Rightarrow> (string \<times> json) list \<Rightarrow> bool" where
  "call_ok d m ps \<longleftrightarrow>
     m \<in> {''fs.stat'', ''fs.read'', ''fs.list''} \<or>
     (m \<in> {''fs.write'', ''fs.makedir'', ''fs.delete''} \<and> (\<exists>p. map_of ps ''path'' = Some (JStr p) \<and> path_ok d p)) \<or>
     (m = ''fs.copy'' \<and> (\<exists>p. map_of ps ''dst'' = Some (JStr p) \<and> startswith p d)) \<or>
     (m = ''fs.rename'' \<and> (\<exists>p q. map_of ps ''src'' = Some (JStr p) \<and> map_of ps ''dst'' = Some (JStr q) \<and>
        startswith p d \<and> startswith q d)) \<or>
     (m = ''exec.cmd'' \<and> (\<exists>c. map_of ps ''command'' = Some (JStr c) \<and> cmd_ok d c))"

fun event_ok :: "string \<Rightarrow> string \<Rightarrow> event \<times> outcome \<Rightarrow> bool" where
  "event_ok t d (Rpc u m (JObj ps), _) \<longleftrightarrow> u = t \<and> call_ok d m ps"
| "event_ok t d (Clock, _) \<longleftrightarrow> True"
| "event_ok t d (Sleep _, _) \<longleftrightarrow> True"
| "event_ok t d _ \<longleftrightarrow> False"

section \<open>The primitives\<close>

lemma rstrip_keeps: "d \<noteq> [] \<Longrightarrow> last d \<noteq> c \<Longrightarrow> startswith (rstrip_char c (d @ x)) d"
proof -
  assume d: "d \<noteq> []" "last d \<noteq> c"
  then obtain a b where ab: "d = a @ [b]" "b \<noteq> c" by (metis append_butlast_last_id)
  have "\<exists>y. dropWhile (\<lambda>z. z = c) (rev x @ rev d) = y @ rev d" if "True"
  proof (induction x rule: rev_induct)
    case Nil then show ?case using ab by auto
  next
    case (snoc z zs) then show ?case by auto
  qed
  then show ?thesis by (auto simp: rstrip_char_def rstrip_pred_def startswith_iff)
qed

lemma safe_req [safe]: "call_ok d m ps \<Longrightarrow> emits (event_ok t d) (req t m ps)"
  unfolding req_def by (rule emits_rpc) simp

lemma safe_request [safe]: "call_ok d m ps \<Longrightarrow> emits (event_ok t d) (mcpd_request t m ps)"
  by (rule emits_mcpd_request) simp

lemma safe_now [safe]: "emits (event_ok t d) now"
  by (rule emits_now) simp

lemma safe_sleep [safe]: "emits (event_ok t d) (sleep ms)"
  by (rule emits_sleep) simp

lemma safe_stat [safe]: "emits (event_ok t d) (stat_path t p)"
  unfolding stat_path_def by (rule safe_req) (simp add: call_ok_def)

lemma safe_exec [safe]: "cmd_ok d c \<Longrightarrow> emits (event_ok t d) (exec_cmd t c ms)"
  unfolding exec_cmd_def by (rule safe_req) (simp add: call_ok_def)

lemma safe_copy_file [safe]: "startswith dst d \<Longrightarrow> emits (event_ok t d) (copy_file t src dst)"
  unfolding copy_file_def by (rule safe_req) (simp add: call_ok_def)

lemma safe_write_text [safe]: "path_ok d p \<Longrightarrow> emits (event_ok t d) (write_text t p s)"
  unfolding write_text_def by (intro emits safe) (simp_all add: call_ok_def)

lemma safe_read_text [safe]: "emits (event_ok t d) (read_text t p)"
  unfolding read_text_def by (intro emits safe) (simp_all add: call_ok_def)

lemma safe_confirm [safe]: "emits P (require_confirm b x)"
  unfolding require_confirm_def by (auto intro: emits_ret emits_raise)

lemma path_ok_under [simp]: "path_ok d (d @ x)"
  by (simp add: path_ok_def)

text \<open>A destination is a volume: a nonempty text that ends in a colon.\<close>

definition volume :: "string \<Rightarrow> bool" where
  "volume d \<longleftrightarrow> endswith d '':''"

lemma volume_props: "volume d \<Longrightarrow> d \<noteq> [] \<and> last d = CHR '':''"
  by (auto simp: volume_def endswith_iff)

lemma dir_under: "volume d \<Longrightarrow> startswith (dir_name (d @ x)) d"
  using rstrip_keeps [of d "CHR ''/''" x] volume_props by (simp add: dir_name_def)

lemma verb_ok:
  assumes "verb \<in> {''MakeDir '', ''Protect '', ''Delete '', ''Delete *>NIL: '', ''Delete *>NIL: QUIET '', ''Rename *>NIL: '',
        ''MakeLink *>NIL: '', ''SetDate ''}" "startswith x (dq @ d)"
  shows "cmd_ok d (verb @ x)"
proof -
  have "startswith (verb @ x) (verb @ dq @ d)" using assms(2) by (auto simp: startswith_iff)
  then show ?thesis using assms(1) unfolding cmd_ok_def by auto
qed

lemma safe_makedir [safe]:
  assumes "startswith (dir_name p) d \<or> dir_name p = ''DEVS:DOSDrivers''"
  shows "emits (event_ok t d) (amiga_makedir t p)"
proof -
  have cmd: "cmd_ok d (''MakeDir '' @ [CHR 0x22] @ dir_name p @ [CHR 0x22] @ '' ALL'')"
    using assms
  proof
    assume "startswith (dir_name p) d"
    then show ?thesis by (intro verb_ok) (auto simp: dq_def startswith_iff)
  next
    assume "dir_name p = ''DEVS:DOSDrivers''"
    then show ?thesis by (simp add: cmd_ok_def dq_def)
  qed
  have mk: "call_ok d ''fs.makedir'' [(''path'', JStr (dir_name p))]"
    using assms by (auto simp: call_ok_def path_ok_def)
  show ?thesis unfolding amiga_makedir_def Let_def
    by (intro emits_if emits_ret emits_bnd emits_succeeds safe_stat safe_req mk safe_exec cmd emits_catch emits_raise)
qed

lemma safe_makedir_under [safe]: "volume d \<Longrightarrow> emits (event_ok t d) (amiga_makedir t (d @ x))"
  by (rule safe_makedir) (simp add: dir_under)

lemma copy_form_ok: "cmd_ok d (''Copy '' @ dq @ src @ dq @ '' '' @ dq @ d @ rest)"
  unfolding cmd_ok_def by blast

lemma lha_form_ok: "cmd_ok d (''LhA >NIL: x '' @ dq @ src @ dq @ '' '' @ dq @ d @ rest)"
  unfolding cmd_ok_def by blast

lemma copy_cmd_ok:
  assumes "startswith dst d"
  shows "cmd_ok d (copy_cmd src dst a b c)"
proof -
  obtain x where "dst = d @ x" using assms by (auto simp: startswith_iff)
  then have "\<exists>rest. copy_cmd src dst a b c = ''Copy '' @ dq @ src @ dq @ '' '' @ dq @ d @ rest"
    unfolding copy_cmd_def dq_def by (metis append_assoc)
  then show ?thesis using copy_form_ok by force
qed

lemma lha_cmd_ok:
  assumes "startswith dst d"
  shows "cmd_ok d (lha_cmd src dst)"
proof -
  obtain x where "dst = d @ x" using assms by (auto simp: startswith_iff)
  then have "lha_cmd src dst = ''LhA >NIL: x '' @ dq @ src @ dq @ '' '' @ dq @ d @ (if endswith dst ''/'' then x @ dq else x @ ''/'' @ dq)"
    by (simp add: lha_cmd_def dq_def)
  then show ?thesis by (metis lha_form_ok)
qed

lemma safe_run_command [safe]: "cmd_ok d c \<Longrightarrow> emits (event_ok t d) (run_command t c ms)"
  unfolding run_command_def by (intro emits safe) (simp_all add: call_ok_def)

lemma safe_copy_tree [safe]: "startswith dst d \<Longrightarrow> emits (event_ok t d) (copy_tree t src dst ms)"
  unfolding copy_tree_def installer_copy_tree_def by (intro emits safe copy_cmd_ok)

lemma safe_apply_lha [safe]: "startswith dst d \<Longrightarrow> emits (event_ok t d) (apply_lha t src dst ms)"
  unfolding apply_lha_def installer_apply_lha_def by (intro emits safe lha_cmd_ok)

lemma safe_copy_each [safe]: "startswith dst d \<Longrightarrow> emits (event_ok t d) (copy_each t src dst fs)"
  unfolding copy_each_def by (intro emits safe) (auto simp: startswith_iff)

lemma safe_copy_or_command [safe]: "startswith dst d \<Longrightarrow> emits (event_ok t d) (copy_or_command t src dst ms)"
proof -
  assume d: "startswith dst d"
  then obtain x where "dst = d @ x" by (auto simp: startswith_iff)
  then have "cmd_ok d (''Copy '' @ quoted src @ '' '' @ quoted dst @ '' CLONE'')"
    using copy_form_ok [of d src "x @ dq @ '' CLONE''"] by (simp add: quoted_def dq_def)
  with d show ?thesis unfolding copy_or_command_def by (intro emits safe)
qed

lemma quoted_under: "startswith p d \<Longrightarrow> startswith (quoted p @ x) (dq @ d)"
  by (auto simp: quoted_def dq_def startswith_iff)

lemma safe_protect [safe]: "startswith p d \<Longrightarrow> emits (event_ok t d) (protect t p)"
  unfolding protect_def by (intro emits safe verb_ok quoted_under) simp_all

lemma safe_rename [safe]: "startswith src d \<Longrightarrow> startswith dst d \<Longrightarrow> emits (event_ok t d) (maybe_rename t src dst)"
  unfolding maybe_rename_def
  by (intro emits safe verb_ok quoted_under) (use quoted_under [of dst d "[]"] in simp_all)

lemma safe_capture [safe]: "emits (event_ok t d) (capture_mtime t p)"
  unfolding capture_mtime_def by (intro emits safe)

lemma safe_restore [safe]: "startswith p d \<Longrightarrow> emits (event_ok t d) (restore_mtime t p j)"
proof -
  assume "startswith p d"
  then have "cmd_ok d (setdate_cmd p x)" for x
    unfolding setdate_cmd_def by (intro verb_ok) (auto simp: dq_def startswith_iff)
  then show ?thesis unfolding restore_mtime_def by (auto split: json.split intro!: emits safe)
qed

lemma safe_ignore_append [safe]: "emits P m \<Longrightarrow> emits P (ignoring m)"
  by (rule emits_ignoring)

lemma safe_unmount [safe]: "emits (event_ok t d) (installer_unmount_iso t COMBI_UNIT ms)"
  unfolding installer_unmount_iso_def by (intro emits safe) (simp add: call_ok_def cmd_ok_def)

lemma mount_cmds_ok: "cmd_ok d (eject_cmd COMBI_UNIT)" "cmd_ok d (insert_cmd COMBI_UNIT img)" "cmd_ok d (mount_cmd COMBI_DEVICE)"
  unfolding cmd_ok_def by blast+

lemma safe_mount_prepare [safe]: "emits (event_ok t d) (mount_prepare t img COMBI_DEVICE COMBI_UNIT ms)"
  unfolding mount_prepare_def by (intro emits safe mount_cmds_ok)

lemma strip_id:
  assumes "x \<noteq> []" "\<not> py_isspace (hd x)" "\<not> py_isspace (last x)"
  shows "strip x = x"
proof -
  have "dropWhile py_isspace x = x" using assms by (cases x) auto
  moreover have "dropWhile py_isspace (rev x) = rev x" using assms by (cases x rule: rev_cases) auto
  ultimately show ?thesis by (simp add: strip_def lstrip_def rstrip_pred_def)
qed

lemma hd_strip: "strip v \<noteq> [] \<Longrightarrow> \<not> py_isspace (hd (strip v))"
proof -
  assume n: "strip v \<noteq> []"
  have "prefix (strip v) (lstrip v)"
    unfolding strip_def rstrip_pred_def prefix_def by (metis rev_append rev_rev_ident takeWhile_dropWhile_id)
  with n have "hd (strip v) = hd (lstrip v)" "lstrip v \<noteq> []" by (auto simp: prefix_def)
  moreover from this(2) have "\<not> py_isspace (hd (lstrip v))" unfolding lstrip_def by (rule hd_dropWhile)
  ultimately show ?thesis by simp
qed

lemma normalize_volume_volume [simp]: "volume (normalize_volume v)"
  by (auto simp: volume_def normalize_volume_def Let_def endswith_iff)

lemma normalize_volume_idem [simp]: "normalize_volume (normalize_volume v) = normalize_volume v"
proof -
  let ?n = "normalize_volume v"
  obtain a where a: "?n = a @ '':''" using normalize_volume_volume [of v] by (auto simp: volume_def endswith_iff)
  have last: "last ?n = CHR '':''" "?n \<noteq> []" using a by auto
  have "\<not> py_isspace (hd ?n)"
  proof -
    let ?w = "if endswith (strip v) ''/'' then butlast (strip v) else strip v"
    have n: "?n = (if endswith ?w '':'' then ?w else ?w @ '':'')" by (simp add: normalize_volume_def Let_def)
    show ?thesis
    proof (cases "?w = []")
      case True
      with n have "?n = '':''" by (simp add: endswith_iff)
      then show ?thesis by (simp add: py_isspace_def)
    next
      case False
      then have "strip v \<noteq> []" "hd ?w = hd (strip v)" by (auto split: if_splits) (cases "strip v"; auto split: if_splits)+
      moreover have "hd ?n = hd ?w" using n False by auto
      ultimately show ?thesis using hd_strip by metis
    qed
  qed
  moreover have "\<not> py_isspace (CHR '':'')" by (simp add: py_isspace_def)
  ultimately have "strip ?n = ?n" using last by (intro strip_id) simp_all
  moreover have "\<not> endswith ?n ''/''" using a by (auto simp: endswith_iff)
  moreover have "endswith ?n '':''" using a by simp
  ultimately show ?thesis by (subst normalize_volume_def) (simp add: Let_def)
qed

section \<open>Mounting\<close>

lemma safe_poll:
  assumes "poll_volume t vol dl s = Some y"
  shows "grows (event_ok t d) s (snd y)"
proof (rule poll_volume.raw_induct [where P = "\<lambda>t vol dl s y. grows (event_ok t d) s (snd y)", OF _ assms], goal_cases)
  case (1 poll t vol dl s y)
  obtain tm s1 where n: "now s = (Inr tm, s1)" by (simp add: now_def)
  obtain r2 s2 where st: "stat_path t vol s1 = (r2, s2)" by force
  have g1: "grows (event_ok t d) s s1" using emits_grows [OF safe_now n] .
  have g2: "grows (event_ok t d) s1 s2" using emits_grows [OF safe_stat st] .
  have g3: "grows (event_ok t d) s2 (snd (sleep 1000 s2))"
    by (rule emits_grows [OF safe_sleep prod.collapse [symmetric]])
  show "grows (event_ok t d) s (snd y)"
  proof (cases "tm < dl")
    case False
    with 1(2) n g1 show ?thesis by auto
  next
    case True
    show ?thesis
    proof (cases r2)
      case (Inr x)
      with 1(2) n st True grows_trans [OF g1 g2] show ?thesis by auto
    next
      case (Inl e)
      with 1(2) n st True have "poll t vol dl (snd (sleep 1000 s2)) = Some y" by simp
      from 1(1) [OF this] have "grows (event_ok t d) (snd (sleep 1000 s2)) (snd y)" .
      from grows_trans [OF grows_trans [OF grows_trans [OF g1 g2] g3] this] show ?thesis .
    qed
  qed
qed

lemma safe_await [safe]: "pemits (event_ok t d) (await_volume t ex ms settle)"
proof -
  have "pemits (event_ok t d) (poll_volume t vol dl)" for vol dl
    unfolding pemits_def using safe_poll [of t vol dl] by fastforce
  then show ?thesis unfolding await_volume_def
    by (auto split: option.split intro!: emits safe)
qed

lemma safe_mount [safe]:
  "pemits (event_ok t d) (installer_mount_iso t img COMBI_DEVICE COMBI_UNIT ex ms settle)"
  unfolding installer_mount_iso_def
  by (auto intro!: emits safe)

section \<open>Kicklayout\<close>

lemma safe_patch_kicklayout [safe]:
  assumes "normalize_volume d = d"
  shows "emits (event_ok t d) (installer_patch_kicklayout t d ms rs c None)"
proof -
  have k: "kicklayout_path d = d @ ''Kickstart/Kicklayout''" using assms by (simp add: kicklayout_path_def)
  have read: "emits (event_ok t d) (installer_read_kicklayout t d)"
    unfolding installer_read_kicklayout_def by (intro emits safe) (simp add: call_ok_def)
  have "emits (event_ok t d) (installer_write_kicklayout t d x True None)" for x
    unfolding installer_write_kicklayout_def Let_def backup_kicklayout_def k by (auto intro!: emits safe)
  then show ?thesis unfolding installer_patch_kicklayout_def Let_def k assms
    by (auto split: prod.split intro!: emits safe read)
qed

section \<open>The bodies of the steps\<close>

lemma volume_of_normal: "normalize_volume d = d \<Longrightarrow> volume d"
  using normalize_volume_volume [of d] by simp

lemma under [simp]: "startswith (d @ x) d"
  by simp

lemma combi_ok [simp]: "path_ok d COMBI_PATH"
  by (simp add: path_ok_def)

lemma safe_stage_diskimage: "emits (event_ok (cx_target c) d) (stage_diskimage_body c)"
  unfolding stage_diskimage_body_def Let_def
  by (intro emits safe) (simp_all add: dir_name_def rstrip_char_def rstrip_pred_def)

lemma safe_extract: "emits (event_ok (cx_target c) (cx_dest c)) (extract_iso_body c)"
  unfolding extract_iso_body_def Let_def by (intro emits safe) simp_all

lemma safe_verify_cd: "emits (event_ok (cx_target c) d) (verify_cd_body cfg c)"
  unfolding verify_cd_body_def by (intro emits safe)

lemma safe_copy_base: "emits (event_ok (cx_target c) (cx_dest c)) (copy_base_body c)"
  unfolding copy_base_body_def
  by (intro emits safe verb_ok quoted_under) (simp_all add: startswith_iff)

lemma safe_patch_post [safe]: "startswith p d \<Longrightarrow> emits (event_ok t d) (patch_post_install t p)"
  unfolding patch_post_install_def Let_def
  by (intro emits safe) (auto simp: call_ok_def path_ok_def)

lemma safe_copy_extras: "volume (cx_dest c) \<Longrightarrow> emits (event_ok (cx_target c) (cx_dest c)) (copy_extras_body c)"
  unfolding copy_extras_body_def Let_def
  by (intro emits safe) (simp_all add: call_ok_def startswith_iff)

lemma safe_bootloader: "emits (event_ok (cx_target c) (cx_dest c)) (bootloader_body cfg c)"
  unfolding bootloader_body_def Let_def by (intro emits safe) simp_all

lemma safe_remove_link [safe]: "startswith p d \<Longrightarrow> emits (event_ok t d) (remove_link t p)"
  unfolding remove_link_def
  by (intro emits safe verb_ok) (use quoted_under [of p d "[]"] in simp_all)

lemma safe_make_link [safe]: "startswith p d \<Longrightarrow> emits (event_ok t d) (make_link t p x)"
  unfolding make_link_def by (intro emits safe verb_ok quoted_under) simp_all

lemma safe_redirect [safe]: "emits (event_ok t d) (redirect_libz t (d @ x))"
  unfolding redirect_libz_def by (intro emits safe) simp_all

lemma safe_packages [safe]: "emits (event_ok t d) (update_packages cfg n t d src)"
  unfolding update_packages_def Let_def by (intro emits safe) (simp_all add: startswith_iff)

lemma safe_update:
  assumes "normalize_volume (cx_dest c) = cx_dest c"
  shows "emits (event_ok (cx_target c) (cx_dest c)) (update_body cfg n c)"
  unfolding update_body_def Let_def
  by (intro emits safe verb_ok assms volume_of_normal) (use quoted_under [of _ _ "[]"] in simp_all)

lemma safe_enhancer:
  assumes "normalize_volume (cx_dest c) = cx_dest c"
  shows "emits (event_ok (cx_target c) (cx_dest c)) (enhancer_body cfg c)"
  unfolding enhancer_body_def Let_def
  by (intro emits safe assms volume_of_normal) simp_all

lemma safe_ngf: "volume (cx_dest c) \<Longrightarrow> emits (event_ok (cx_target c) (cx_dest c)) (ngf_body c)"
  unfolding ngf_body_def Let_def by (intro emits safe) simp_all

lemma safe_report [safe]: "emits P m \<Longrightarrow> emits P (report m x)"
  unfolding report_def by (intro emits)

lemma safe_dismount: "emits (event_ok (cx_target c) d) (dismount_body c)"
  unfolding dismount_body_def remove_mountfile_def Let_def
  by (intro emits safe) (simp_all add: call_ok_def cmd_ok_def)

lemma safe_extra [safe]: "volume d \<Longrightarrow> emits (event_ok t d) (install_extra t root d e)"
  unfolding install_extra_def Let_def
  by (cases e; simp only: prod.case; intro emits safe verb_ok quoted_under)
    (use dir_under [of d] in \<open>auto simp: startswith_iff\<close>)

lemma safe_extras: "volume (cx_dest c) \<Longrightarrow> emits (event_ok (cx_target c) (cx_dest c)) (extras_body c)"
  unfolding extras_body_def by (intro emits safe)

lemma safe_amidock: "volume (cx_dest c) \<Longrightarrow> emits (event_ok (cx_target c) (cx_dest c)) (amidock_body c)"
  unfolding amidock_body_def Let_def by (intro emits safe) simp_all

lemma safe_first_copied [safe]: "startswith dst d \<Longrightarrow> emits (event_ok t d) (first_copied t dst srcs)"
  by (induction srcs) (auto intro!: emits safe)

lemma safe_scan_icons [safe]: "startswith dst d \<Longrightarrow> emits (event_ok t d) (scan_icons t dir dst own es)"
  by (induction es) (auto intro!: emits safe)

lemma safe_sibling [safe]: "startswith dst d \<Longrightarrow> emits (event_ok t d) (sibling_icon t dir dst own)"
  unfolding sibling_icon_def by (intro emits safe) (simp_all add: call_ok_def)

lemma safe_network: "volume (cx_dest c) \<Longrightarrow> emits (event_ok (cx_target c) (cx_dest c)) (network_body m c)"
  unfolding network_body_def Let_def by (intro emits safe) simp_all

lemma safe_text_or_empty [safe]: "emits (event_ok t d) (text_or_empty t p)"
  unfolding text_or_empty_def by (intro emits safe)

lemma safe_serialshell: "volume (cx_dest c) \<Longrightarrow> emits (event_ok (cx_target c) (cx_dest c)) (serialshell_body c)"
  unfolding serialshell_body_def Let_def by (intro emits safe) simp_all

lemma safe_helper [safe]: "emits (event_ok t d) (install_helper t d h)"
  unfolding install_helper_def Let_def by (intro emits safe) simp_all

lemma safe_edit_netstart [safe]: "startswith p d \<Longrightarrow> emits (event_ok t d) (edit_netstart t p b hs)"
  unfolding edit_netstart_def backup_netstart_def
  by (intro emits safe) (auto simp: path_ok_def startswith_iff)

lemma safe_mcpd: "volume (cx_dest c) \<Longrightarrow> emits (event_ok (cx_target c) (cx_dest c)) (mcpd_body c)"
  unfolding mcpd_body_def Let_def by (intro emits safe) simp_all

lemma safe_move_monitor [safe]: "emits (event_ok t d) (move_monitor t (d @ x) (d @ y) e)"
  unfolding move_monitor_def Let_def by (intro emits safe) (simp_all add: call_ok_def)

lemma safe_monitors: "volume (cx_dest c) \<Longrightarrow> emits (event_ok (cx_target c) (cx_dest c)) (monitors_body c)"
  unfolding monitors_body_def Let_def by (intro emits safe) (simp_all add: call_ok_def)

lemma safe_emu10kx: "volume (cx_dest c) \<Longrightarrow> emits (event_ok (cx_target c) (cx_dest c)) (emu10kx_body c)"
  unfolding emu10kx_body_def Let_def by (intro emits safe) (simp_all add: call_ok_def)

lemma safe_try_delete [safe]: "emits (event_ok t d) (try_delete t (d @ x) r out)"
  unfolding try_delete_def by (intro emits safe) (simp_all add: call_ok_def)

lemma safe_cleanup: "emits (event_ok (cx_target c) (cx_dest c)) (cleanup_body c)"
  unfolding cleanup_body_def Let_def by (intro emits safe)

section \<open>Sequences\<close>

definition ctx_at :: "string \<Rightarrow> string \<Rightarrow> ctx \<Rightarrow> bool" where
  "ctx_at t d c \<longleftrightarrow> cx_target c = t \<and> cx_dest c = d"

definition step_safe :: "string \<Rightarrow> string \<Rightarrow> install_step \<Rightarrow> bool" where
  "step_safe t d s \<longleftrightarrow> (\<forall>c. ctx_at t d c \<longrightarrow> pemits (event_ok t d) (s_fn s c) \<and>
     (\<forall>w out c' w'. s_fn s c w = Some (Inr (out, c'), w') \<longrightarrow> ctx_at t d c'))"

lemma plain_safe:
  assumes "\<And>c. ctx_at t d c \<Longrightarrow> emits (event_ok t d) (body c)"
  shows "step_safe t d \<lparr>s_name = n, s_doc = doc, s_fn = plain body\<rparr>"
  using assms by (auto simp: step_safe_def plain_def bnd_eq_Inr ret_def intro!: emits)

lemma extract_safe: "step_safe t d extract_iso_lha"
proof -
  have "cx_target c' = cx_target c \<and> cx_dest c' = cx_dest c"
    if "extract_iso_body c w = (Inr (out, c'), w')" for c w out c' w'
    using that by (auto simp: extract_iso_body_def Let_def bnd_eq_Inr ret_def split: if_splits)
  then show ?thesis using safe_extract
    by (fastforce simp: step_safe_def extract_iso_lha_def ctx_at_def intro!: emits)
qed

lemma mount_safe: "step_safe t d mount_iso"
  by (auto simp: step_safe_def mount_iso_def mount_iso_body_def ctx_at_def pbnd_Some intro!: emits safe split: if_splits)

lemma sequence_steps_safe:
  assumes "normalize_volume d = d"
  shows "list_all (step_safe t d) (q_steps (build_sequence cfg))"
proof -
  note v = volume_of_normal [OF assms]
  have plain: "step_safe t d stage_diskimage_tools" "step_safe t d (verify_cd_signature cfg)" "step_safe t d copy_base_os"
    "step_safe t d copy_installation_extras" "step_safe t d (install_bootloader cfg)" "step_safe t d (apply_one_update cfg n)"
    "step_safe t d (install_enhancer cfg)" "step_safe t d install_ngf" "step_safe t d install_extras"
    "step_safe t d patch_amidock_prefs" "step_safe t d (install_network_config m)" "step_safe t d install_serialshell"
    "step_safe t d quarantine_emu10kx" "step_safe t d quarantine_devs_monitors" "step_safe t d install_mcpd"
    "step_safe t d unmount_iso" "step_safe t d dismount_combi_device" "step_safe t d cleanup_tmp" for n m
    unfolding stage_diskimage_tools_def verify_cd_signature_def copy_base_os_def copy_installation_extras_def
      install_bootloader_def apply_one_update_def install_enhancer_def install_ngf_def install_extras_def
      patch_amidock_prefs_def install_network_config_def install_serialshell_def quarantine_emu10kx_def
      quarantine_devs_monitors_def install_mcpd_def unmount_iso_def dismount_combi_device_def cleanup_tmp_def
    by (rule plain_safe; use assms v safe_stage_diskimage safe_verify_cd safe_copy_base safe_copy_extras safe_bootloader
        safe_update safe_enhancer safe_ngf safe_extras safe_amidock safe_network safe_serialshell safe_emu10kx
        safe_monitors safe_mcpd safe_dismount safe_cleanup in \<open>force simp: ctx_at_def intro!: emits safe\<close>)+
  then show ?thesis
    by (auto simp: build_sequence_def Let_def extract_safe mount_safe list_all_iff)
qed

lemma run_step_safe:
  assumes "step_safe t d s" "ctx_at t d c" "run_step tb s c w = Some (Inr (r, c'), w')"
  shows "grows (event_ok t d) w w' \<and> (\<forall>x. c' = Some x \<longrightarrow> ctx_at t d x)"
proof -
  have "pemits (event_ok t d) (run_step tb s c)"
    using assms(1,2) unfolding run_step_def step_safe_def by (auto intro!: emits safe)
  then have "grows (event_ok t d) w w'" using assms(3) by (rule pemits_grows)
  moreover have "\<forall>x. c' = Some x \<longrightarrow> ctx_at t d x"
    using assms by (auto simp: run_step_def step_safe_def pbnd_Some pcatch_Some split: prod.splits) blast
  ultimately show ?thesis by blast
qed

lemma run_steps_safe:
  "list_all (step_safe t d) ss \<Longrightarrow> ctx_at t d c \<Longrightarrow> run_steps tb ss c w = Some (r, w') \<Longrightarrow> grows (event_ok t d) w w'"
proof (induction ss arbitrary: c w r w')
  case (Cons s ss)
  obtain x w1 where s: "run_step tb s c w = Some (x, w1)" using Cons.prems(3) by (auto simp: pbnd_Some)
  then obtain p c' where x: "x = Inr (p, c')" using run_step_returns by fastforce
  note g = run_step_safe [OF _ Cons.prems(2) s [unfolded x]]
  show ?case
  proof (cases c')
    case None
    with Cons.prems s x g show ?thesis by (auto simp: pbnd_Some)
  next
    case (Some c2)
    with Cons.prems(3) s x obtain y w2 where y: "run_steps tb ss c2 w1 = Some (y, w2)" "w' = w2"
      by (auto simp: pbnd_Some)
    have "ctx_at t d c2" "grows (event_ok t d) w w1" using g Cons.prems(1) Some by auto
    with Cons.IH [OF _ _ y(1)] Cons.prems(1) y(2) show ?thesis by (auto intro: grows_trans)
  qed
qed simp

text \<open>The fleet's own bookkeeping makes no calls; a dry run makes none at all.\<close>

lemma run_sequence_safe:
  assumes "list_all (step_safe t d) (q_steps q)" "ctx_at t d c" "run_sequence tb q c dry w = Some (r, w')"
  shows "grows (event_ok t d) w w'"
proof (cases dry)
  case False
  then obtain y w1 where y: "run_steps tb (q_steps q) c (snd (now w)) = Some (y, w1)" "w' = w1 \<or> w' = snd (now w1)"
    using assms(3) by (auto simp: run_sequence_def pbnd_Some)
  have clock: "grows (event_ok t d) u (snd (now u))" for u :: fleet
    by (rule emits_grows [OF safe_now prod.collapse [symmetric]])
  from grows_trans [OF clock run_steps_safe [OF assms(1,2) y(1)]] y(2) clock show ?thesis
    by (auto intro: grows_trans)
qed (use assms(3) in \<open>simp add: run_sequence_def\<close>)

text \<open>
  C2. Whatever the target answers, every event of an installer_run is the clock, a pause, or a
  call to the one chosen target, and every call that changes something there names a path below
  the normalised destination volume, the COMBI: mountfile or its drawer, or is one of the
  commands that insert, mount, eject and dismount the install ISO.
\<close>

theorem install_writes_only_destination:
  assumes "installer_run tb env t vol machine img sources dry confirm w = Some (r, w')"
  shows "grows (event_ok t (normalize_volume vol)) w w'"
proof -
  let ?d = "normalize_volume vol"
  have "pemits (event_ok t ?d) (installer_run tb env t vol machine img sources dry confirm)"
    unfolding installer_run_def
  proof (intro emits)
    fix cfg f x
    show "pemits (event_ok t ?d) (run_sequence tb (build_sequence cfg)
        \<lparr>cx_target = t, cx_dest = ?d, cx_machine = machine_id cfg, cx_iso_filename = f, cx_iso_volume = None,
         cx_extracted = False\<rparr> dry)"
      unfolding pemits_def
      by (intro allI impI, erule run_sequence_safe [rotated 2])
        (simp_all add: sequence_steps_safe ctx_at_def)
  qed
  then show ?thesis using assms by (rule pemits_grows)
qed

section \<open>A run against a target that refuses every request\<close>

definition no_host :: host_env where
  "no_host = \<lparr>h_resolve = id, h_listing = (\<lambda>_. None), h_is_file = (\<lambda>_. False), h_is_dir = (\<lambda>_. False),
     h_exists = (\<lambda>_. False), h_cwd = ''/'', h_home = ''/home'', h_support_env = None, h_package_dir = ''/p'',
     h_host_root = ''/h'', h_repo_root = ''/r''\<rparr>"

definition refusing :: fleet where
  "refusing = fleet_init (empty_config\<lparr>targets :=
       [(''a'', (target_of Remote)\<lparr>channels := no_channels\<lparr>chan_mcpd := Some default_mcpd\<rparr>\<rparr>)]\<rparr>)
     (\<lambda>h e. if e = Clock then Inr (JInt 0) else Inl (PyErr OSError ''no''))"

lemma stage_fails:
  assumes "\<And>h ps. answer w h (Rpc (cx_target c) ''fs.stat'' ps) = Inl e"
  shows "\<exists>x w'. stage_diskimage_body c w = (Inl x, w')"
proof -
  have st: "succeeds (stat_path (cx_target c) p) v = (Inr False, snd (stat_path (cx_target c) p v))" if "answer v = answer w" for p v
    using assms that by (simp add: succeeds_def catch_def bnd_def stat_path_def req_def rpc_def perform_def Let_def ret_def)
  have an: "answer (snd (stat_path t p v)) = answer v" for t p and v :: fleet
    by (simp add: stat_path_def req_def rpc_def)
  show ?thesis
    by (simp add: stage_diskimage_body_def Let_def REQUIRED_TOOLS_def bnd_def st an ret_def raise_def)
qed

lemma refusing_run:
  "\<exists>res w'. installer_run (\<lambda>_. []) no_host ''a'' ''BootTest'' ''X5000'' (Some ''a.iso'') None False True refusing = Some (Inr res, w') \<and>
     qr_overall res = ''fail''"
proof -
  have r: "resolve_sequence_machine ''X5000'' = Inr X5000_CONFIG" 
    by (simp add: resolve_sequence_machine_def resolve_machine_alias_def SUPPORTED_MACHINES_def CONFIGS_def)
  have q: "q_steps (build_sequence X5000_CONFIG) = stage_diskimage_tools # tl (q_steps (build_sequence X5000_CONFIG))"
    by (simp add: build_sequence_def Let_def)
  obtain h w1 where f: "fleet_mcpd ''a'' refusing = (Inr h, w1)" "answer w1 = answer refusing"
    by (simp add: refusing_def fleet_init_def empty_config_def target_of_def no_channels_def default_mcpd_def
        fleet_mcpd_def pool_defs target_config_def)
  have step: "\<exists>x w2. s_fn stage_diskimage_tools c v = Some (Inl x, w2)" if "cx_target c = ''a''" "answer v = answer refusing" for c v
  proof -
    have "\<exists>x w'. stage_diskimage_body c v = (Inl x, w')"
      by (rule stage_fails) (use that in \<open>simp add: refusing_def fleet_init_def\<close>)
    then show ?thesis by (auto simp: stage_diskimage_tools_def plain_def always_def bnd_def)
  qed
  let ?c = "\<lparr>cx_target = ''a'', cx_dest = normalize_volume ''BootTest'', cx_machine = machine_id X5000_CONFIG,
      cx_iso_filename = ''a.iso'', cx_iso_volume = None, cx_extracted = False\<rparr>"
  let ?v = "snd (now (snd (now w1)))"
  obtain x w2 where x: "s_fn stage_diskimage_tools ?c ?v = Some (Inl x, w2)"
    using step [of ?c ?v] f(2) by (auto simp: now_def)
  have "run_step (\<lambda>_. []) stage_diskimage_tools ?c (snd (now w1)) =
      Some (Inr (step_failed (\<lambda>_. []) stage_diskimage_tools
        (projr (fst (now w2)) - projr (fst (now (snd (now w1))))) x, None), snd (now w2))"
    by (simp add: run_step_def pcatch_def pbnd_def [of "s_fn _ _"] x pret_def)
  then have "run_steps (\<lambda>_. []) (q_steps (build_sequence X5000_CONFIG)) ?c (snd (now w1)) =
      Some (Inr ([step_failed (\<lambda>_. []) stage_diskimage_tools
        (projr (fst (now w2)) - projr (fst (now (snd (now w1))))) x], Some (s_name stage_diskimage_tools)), snd (now w2))"
    by (subst q) (simp add: pbnd_def pret_def)
  moreover have "s_name stage_diskimage_tools \<noteq> []" by (simp add: stage_diskimage_tools_def)
  ultimately show ?thesis
    by (simp add: installer_run_def r choose_iso_def pbnd_def [of "always (lift _)"] pbnd_def [of "always (fleet_mcpd _)"]
        always_def lift_run f(1) run_sequence_def pbnd_def [of "run_steps _ _ _"] pret_def)
qed
theorem install_writes_only_destination_witness:
  "\<exists>res w'. installer_run (\<lambda>_. []) no_host ''a'' ''BootTest'' ''X5000'' (Some ''a.iso'') None False True refusing = Some (Inr res, w') \<and>
     qr_overall res = ''fail'' \<and> grows (event_ok ''a'' ''BootTest:'') refusing w'"
proof -
  obtain res w' where r: "installer_run (\<lambda>_. []) no_host ''a'' ''BootTest'' ''X5000'' (Some ''a.iso'') None False True refusing = Some (Inr res, w')"
     "qr_overall res = ''fail''" using refusing_run by blast
  have "normalize_volume ''BootTest'' = ''BootTest:''" by code_simp
  with install_writes_only_destination [OF r(1)] r show ?thesis by auto
qed

end
