(* ===== verification/InstallCorrect.thy ===== *)
theory InstallCorrect
  imports InstallSafe
begin

text \<open>
  What the installer achieves: a run returns when the clock follows the sleeps, \<^verbatim>\<open>amiga_makedir\<close>
  returns only for a directory the target confirmed, the launch line of the daemon is added to the
  network start-up file once and nothing of that file is lost, the pre-flight check is sound and
  makes no change, and the check after an install reports what the target answered.
\<close>

section \<open>The wait for the volume ends\<close>

text \<open>
  \<^verbatim>\<open>time.monotonic\<close> never goes back, and \<^verbatim>\<open>asyncio.sleep(s)\<close> lasts at least \<^verbatim>\<open>s\<close> seconds: a reading is at
  least an earlier one plus what was slept in between.
\<close>

definition reading :: "((event \<times> outcome) list \<Rightarrow> event \<Rightarrow> outcome) \<Rightarrow> (event \<times> outcome) list \<Rightarrow> int" where
  "reading ans h = (case ans h Clock of Inr v \<Rightarrow> as_int v | Inl _ \<Rightarrow> 0)"

fun slept_ms :: "event \<times> outcome \<Rightarrow> int" where
  "slept_ms (Sleep ms, _) = max 0 ms"
| "slept_ms _ = 0"

definition clock_law :: "((event \<times> outcome) list \<Rightarrow> event \<Rightarrow> outcome) \<Rightarrow> bool" where
  "clock_law ans \<longleftrightarrow> (\<forall>h es. reading ans h + 1000 * sum_list (map slept_ms es) \<le> reading ans (h @ es))"

definition requests :: "(event \<times> outcome) list \<Rightarrow> nat" where
  "requests es = length (filter (\<lambda>e. case fst e of Rpc t m p \<Rightarrow> True | _ \<Rightarrow> False) es)"

lemma requests_simps [simp]: "requests [] = 0" "requests ((Clock, v) # es) = requests es"
    "requests ((Sleep k, v) # es) = requests es" "requests ((Rpc t m p, v) # es) = Suc (requests es)"
  by (simp_all add: requests_def)

text \<open>With at most \<open>n\<close> seconds left there are at most \<open>n\<close> requests: a pause of a second follows each that fails.\<close>

lemma poll_bounded:
  assumes "clock_law (answer s)"
  shows "dl - reading (answer s) (history s) \<le> int n * 1000000 \<Longrightarrow>
    \<exists>r s' es. poll_volume t vol dl s = Some (r, s') \<and> history s' = history s @ es \<and> requests es \<le> n"
  using assms
proof (induction n arbitrary: s)
  case 0
  then show ?case by (subst poll_volume.simps) (simp add: now_def reading_def split: sum.splits)
next
  case (Suc n)
  define s1 where "s1 = snd (now s)"
  define tm where "tm = reading (answer s) (history s)"
  have n: "now s = (Inr tm, s1)" by (simp add: now_def tm_def s1_def reading_def)
  have h1: "history s1 = history s @ [(Clock, answer s (history s) Clock)]" "answer s1 = answer s"
    by (simp_all add: s1_def now_def)
  obtain r2 s2 where st: "stat_path t vol s1 = (r2, s2)" by force
  show ?case
  proof (cases "tm < dl")
    case False
    then show ?thesis using h1(1) by (subst poll_volume.simps) (simp add: n)
  next
    case True
    have h2: "history s2 = history s1 @ [(Rpc t ''fs.stat'' (JObj [(''path'', JStr vol)]), r2)]" "answer s2 = answer s1"
      using st by (auto simp: stat_path_def req_def rpc_def perform_def Let_def)
    show ?thesis
    proof (cases r2)
      case (Inr x)
      then show ?thesis using True h1(1) h2(1) by (subst poll_volume.simps) (simp add: n st)
    next
      case (Inl e)
      define s3 where "s3 = snd (sleep 1000 s2)"
      obtain v where h3: "history s3 = history s2 @ [(Sleep 1000, v)]" "answer s3 = answer s2"
        by (auto simp: s3_def sleep_def)
      have "reading (answer s) (history s) + 1000 * sum_list (map slept_ms
          [(Clock, answer s (history s) Clock), (Rpc t ''fs.stat'' (JObj [(''path'', JStr vol)]), r2), (Sleep 1000, v)])
          \<le> reading (answer s) (history s @ [(Clock, answer s (history s) Clock),
              (Rpc t ''fs.stat'' (JObj [(''path'', JStr vol)]), r2), (Sleep 1000, v)])"
        using Suc.prems(2) unfolding clock_law_def by blast
      then have "reading (answer s) (history s) + 1000000 \<le> reading (answer s3) (history s3)"
        using h1 h2 h3 by simp
      then have "dl - reading (answer s3) (history s3) \<le> int n * 1000000" using Suc.prems(1) by simp
      moreover have "clock_law (answer s3)" using Suc.prems(2) h1 h2 h3 by simp
      ultimately obtain r s' es where "poll_volume t vol dl s3 = Some (r, s')" "history s' = history s3 @ es" "requests es \<le> n"
        using Suc.IH by blast
      then show ?thesis using True Inl h1(1) h2(1) h3(1) by (subst poll_volume.simps) (simp add: n st s3_def)
    qed
  qed
qed

lemma poll_always_returns: "clock_law (answer s) \<Longrightarrow> \<exists>y. poll_volume t vol dl s = Some y"
proof -
  let ?n = "nat (dl - reading (answer s) (history s))"
  have n: "dl - reading (answer s) (history s) \<le> int ?n * 1000000" by simp
  show "\<exists>y. poll_volume t vol dl s = Some y" if "clock_law (answer s)"
    using poll_bounded [OF that n] by blast
qed

definition returns :: "(fleet, 'a) pio \<Rightarrow> bool" where
  "returns m \<longleftrightarrow> (\<forall>w. clock_law (answer w) \<longrightarrow> (\<exists>y. m w = Some y))"

named_theorems rets

lemma returns_always [rets]: "returns (always m)"
  by (simp add: returns_def always_def)

lemma returns_pret [rets]: "returns (pret x)"
  by (simp add: returns_def pret_def)

lemma returns_praise [rets]: "returns (praise x)"
  by (simp add: returns_def praise_def)

text \<open>What runs first must leave the clock alone: it does if it only adds to the history.\<close>

lemma returns_pbnd [rets]:
  assumes "returns m" "pemits (\<lambda>_. True) m" "\<And>x. returns (f x)"
  shows "returns (pbnd m f)"
  unfolding returns_def
proof (intro allI impI)
  fix w :: fleet assume law: "clock_law (answer w)"
  then obtain r w1 where m: "m w = Some (r, w1)" using assms(1) unfolding returns_def by fastforce
  from pemits_grows [OF assms(2) m] law have "clock_law (answer w1)" by (simp add: grows_def)
  then show "\<exists>y. pbnd m f w = Some y"
    using m assms(3) unfolding returns_def pbnd_def by (cases r) auto
qed

lemma returns_pcatch [rets]:
  assumes "returns m" "pemits (\<lambda>_. True) m" "\<And>x. returns (h x)"
  shows "returns (pcatch m h)"
  unfolding returns_def
proof (intro allI impI)
  fix w :: fleet assume law: "clock_law (answer w)"
  then obtain r w1 where m: "m w = Some (r, w1)" using assms(1) unfolding returns_def by fastforce
  from pemits_grows [OF assms(2) m] law have "clock_law (answer w1)" by (simp add: grows_def)
  then show "\<exists>y. pcatch m h w = Some y"
    using m assms(3) unfolding returns_def pcatch_def by (cases r) auto
qed

lemma pemits_mono: "pemits P m \<Longrightarrow> (\<And>e. P e \<Longrightarrow> Q e) \<Longrightarrow> pemits Q m"
  unfolding pemits_def using grows_mono by blast

lemma any: "pemits (event_ok t d) m \<Longrightarrow> pemits (\<lambda>_. True) m"
  by (erule pemits_mono) simp

lemma mount_body_returns: "returns (mount_iso_body c)"
proof -
  have poll: "returns (poll_volume t vol dl)" for t vol dl
    using poll_always_returns by (simp add: returns_def)
  have quiet: "pemits (\<lambda>_. True) (await_volume t ex ms st)" for t ex ms st
    by (rule any [OF safe_await])
  have pq: "pemits (\<lambda>_. True) (poll_volume t vol dl)" for t vol dl
    unfolding pemits_def by (auto dest!: safe_poll elim!: grows_mono)
  have em: "emits (\<lambda>_. True) now" "emits (\<lambda>_. True) (sleep k)" for k
    by (auto intro: emits_now emits_sleep)
  have prep: "emits (\<lambda>_. True) (mount_prepare t img COMBI_DEVICE COMBI_UNIT ms)" for t img ms
    by (rule emits_mono [OF safe_mount_prepare]) simp
  have await: "returns (await_volume t ex ms st)" for t ex ms st
    unfolding await_volume_def
    by (auto split: option.split intro!: rets poll emits pq em)
  have mount: "pemits (\<lambda>_. True) (installer_mount_iso t img COMBI_DEVICE COMBI_UNIT ex ms st)" for t img ex ms st
    by (rule any [OF safe_mount])
  show ?thesis unfolding mount_iso_body_def installer_mount_iso_def
    by (auto intro!: rets emits await quiet em prep mount [unfolded installer_mount_iso_def] split: prod.split)
qed

lemma plain_returns: "returns (plain body c)"
  by (simp add: plain_def returns_always)

lemma step_returns:
  assumes "s \<in> set (q_steps (build_sequence cfg))"
  shows "returns (s_fn s c)"
proof -
  have "returns (s_fn stage_diskimage_tools c)" "returns (s_fn extract_iso_lha c)" "returns (s_fn mount_iso c)"
    "returns (s_fn (verify_cd_signature cfg) c)" "returns (s_fn copy_base_os c)"
    "returns (s_fn copy_installation_extras c)" "returns (s_fn (install_bootloader cfg) c)" "returns (s_fn (apply_one_update cfg n) c)"
    "returns (s_fn (install_enhancer cfg) c)" "returns (s_fn install_ngf c)" "returns (s_fn install_extras c)"
    "returns (s_fn patch_amidock_prefs c)" "returns (s_fn (install_network_config m) c)" "returns (s_fn install_serialshell c)"
    "returns (s_fn quarantine_emu10kx c)" "returns (s_fn quarantine_devs_monitors c)" "returns (s_fn install_mcpd c)"
    "returns (s_fn unmount_iso c)" "returns (s_fn dismount_combi_device c)" "returns (s_fn cleanup_tmp c)" for n m
    by (simp_all only: stage_diskimage_tools_def verify_cd_signature_def copy_base_os_def copy_installation_extras_def
      install_bootloader_def apply_one_update_def install_enhancer_def install_ngf_def install_extras_def
      patch_amidock_prefs_def install_network_config_def install_serialshell_def quarantine_emu10kx_def
      quarantine_devs_monitors_def install_mcpd_def unmount_iso_def dismount_combi_device_def cleanup_tmp_def
      extract_iso_lha_def mount_iso_def install_step.select_convs plain_returns mount_body_returns returns_always)
  then show ?thesis using assms by (auto simp: build_sequence_def Let_def split: if_splits)
qed

lemma run_steps_return:
  assumes "\<forall>s \<in> set ss. \<forall>c. returns (s_fn s c)" "list_all (step_safe t d) ss"
  shows "ctx_at t d c \<Longrightarrow> returns (run_steps tb ss c)"
  using assms
proof (induction ss arbitrary: c)
  case (Cons s ss)
  have quiet: "pemits (\<lambda>_. True) (s_fn s c)" using Cons.prems by (auto simp: step_safe_def intro: any)
  have em: "emits (\<lambda>_. True) now" by (rule emits_now) simp
  have one: "returns (run_step tb s c)"
    unfolding run_step_def using Cons.prems
    by (auto intro!: rets emits quiet em)
  show ?case unfolding returns_def
  proof (intro allI impI)
    fix w :: fleet assume law: "clock_law (answer w)"
    with one obtain x w1 where s: "run_step tb s c w = Some (x, w1)" unfolding returns_def by fastforce
    then obtain r c' where x: "x = Inr (r, c')" using run_step_returns by fastforce
    from run_step_safe [OF _ Cons.prems(1) s [unfolded x]] Cons.prems(3)
    have g: "grows (event_ok t d) w w1" "\<forall>y. c' = Some y \<longrightarrow> ctx_at t d y" by auto
    show "\<exists>y. run_steps tb (s # ss) c w = Some y"
    proof (cases c')
      case None
      then show ?thesis using s x by (simp add: pbnd_def pret_def)
    next
      case (Some c2)
      have "returns (run_steps tb ss c2)" using Cons g(2) Some by auto
      moreover have "clock_law (answer w1)" using law g(1) by (simp add: grows_def)
      ultimately obtain y where "run_steps tb ss c2 w1 = Some y" unfolding returns_def by blast
      then show ?thesis using s x Some by (cases y) (auto simp: pbnd_def pret_def split: sum.split)
    qed
  qed
qed (simp add: returns_pret)

lemma run_terminates:
  assumes "clock_law (answer w)"
  shows "\<exists>y. installer_run tb env t vol machine img sources dry confirm w = Some y"
proof -
  let ?d = "normalize_volume vol"
  have em: "emits (\<lambda>_. True) now" by (rule emits_now) simp
  have "returns (run_sequence tb (build_sequence cfg) c dry)" if "ctx_at t ?d c" for cfg c
  proof -
    have safe: "list_all (step_safe t ?d) (q_steps (build_sequence cfg))" by (simp add: sequence_steps_safe)
    have "pemits (\<lambda>_. True) (run_steps tb (q_steps (build_sequence cfg)) c)"
      unfolding pemits_def by (intro allI impI grows_mono [OF run_steps_safe [OF safe that]]) simp_all
    then show ?thesis unfolding run_sequence_def
      using run_steps_return [OF _ safe that] step_returns
      by (auto intro!: rets emits em split: prod.split)
  qed
  then have "returns (installer_run tb env t vol machine img sources dry confirm)"
    unfolding installer_run_def by (auto intro!: rets emits simp: ctx_at_def)
  with assms show ?thesis by (simp add: returns_def)
qed

text \<open>
  C6. No loop of the installer goes on for ever: provided that each single request to the
  target comes back, with any result or error (the transport does not promise this, see
  Mcpd_Correct.read_response_waits_forever), and that the clock does not go back and advances
  while the code sleeps, installer_run returns, and the poll for the mounted volume, its one
  loop without a fixed number of rounds, makes at most n requests when n seconds are left.
\<close>

theorem install_run_returns:
  assumes "clock_law (answer w)"
  shows "(\<exists>y. installer_run tb env t vol machine img sources dry confirm w = Some y) \<and>
    (\<forall>v dl n. dl - reading (answer w) (history w) \<le> int n * 1000000 \<longrightarrow>
       (\<exists>r w' es. poll_volume t v dl w = Some (r, w') \<and> history w' = history w @ es \<and> requests es \<le> n))"
  using run_terminates [OF assms] poll_bounded [OF assms] by blast

section \<open>The order of the steps\<close>

lemma step_names:
  "s_name stage_diskimage_tools = ''stage_diskimage_tools''" "s_name extract_iso_lha = ''extract_iso_lha''"
  "s_name mount_iso = ''mount_iso''" "s_name (verify_cd_signature cfg) = ''verify_cd_signature''"
  "s_name copy_base_os = ''copy_base_os''" "s_name copy_installation_extras = ''copy_installation_extras''"
  "s_name (install_bootloader cfg) = ''install_bootloader''" "s_name (apply_one_update cfg n) = ''apply_update_'' @ nat_dec n"
  "s_name (install_enhancer cfg) = ''install_enhancer''" "s_name install_ngf = ''install_ngf''"
  "s_name install_extras = ''install_extras''" "s_name patch_amidock_prefs = ''patch_amidock_prefs''"
  "s_name (install_network_config m) = ''install_network_config''" "s_name install_serialshell = ''install_serialshell''"
  "s_name quarantine_emu10kx = ''quarantine_emu10kx''" "s_name quarantine_devs_monitors = ''quarantine_devs_monitors''"
  "s_name install_mcpd = ''install_mcpd''" "s_name unmount_iso = ''unmount_iso''"
  "s_name dismount_combi_device = ''dismount_combi_device''" "s_name cleanup_tmp = ''cleanup_tmp''"
  by (simp_all only: stage_diskimage_tools_def verify_cd_signature_def copy_base_os_def
      copy_installation_extras_def install_bootloader_def apply_one_update_def install_enhancer_def install_ngf_def
      install_extras_def patch_amidock_prefs_def install_network_config_def install_serialshell_def quarantine_emu10kx_def
      quarantine_devs_monitors_def install_mcpd_def unmount_iso_def dismount_combi_device_def cleanup_tmp_def
      extract_iso_lha_def mount_iso_def install_step.select_convs)

definition names_of :: "bool \<Rightarrow> bool \<Rightarrow> nat list \<Rightarrow> string list" where
  "names_of ngf quarantine updates =
     [''stage_diskimage_tools'', ''extract_iso_lha'', ''mount_iso'', ''verify_cd_signature'', ''copy_base_os'',
      ''copy_installation_extras'', ''install_bootloader''] @ map (\<lambda>n. ''apply_update_'' @ nat_dec n) updates
     @ [''install_enhancer''] @ (if ngf then [''install_ngf''] else [])
     @ [''install_extras'', ''patch_amidock_prefs'', ''install_network_config'', ''install_serialshell'']
     @ (if quarantine then [''quarantine_emu10kx'', ''quarantine_devs_monitors''] else [])
     @ [''install_mcpd'', ''unmount_iso'', ''dismount_combi_device'', ''cleanup_tmp'']"

lemma sequence_names:
  "map s_name (q_steps (build_sequence X5000_CONFIG)) = names_of True True [2, 3]"
  "map s_name (q_steps (build_sequence PEGASOS2_CONFIG)) = names_of False False [1, 2, 3]"
  "map s_name (q_steps (build_sequence AMIGAONE_CONFIG)) = names_of False False [1, 2, 3]"
  "map s_name (q_steps (build_sequence SAM460_CONFIG)) = names_of False False [1, 2, 3]"
  "map s_name (q_steps (build_sequence A1222_CONFIG)) = names_of False False [3]"
  by (simp_all add: build_sequence_def Let_def step_names names_of_def UPDATES_TO_APPLY_def
      X5000_CONFIG_def PEGASOS2_CONFIG_def AMIGAONE_CONFIG_def SAM460_CONFIG_def A1222_CONFIG_def)

definition in_order :: "string list \<Rightarrow> bool" where
  "in_order ns \<longleftrightarrow> distinct ns \<and> [] \<notin> set ns \<and> last ns = ''cleanup_tmp'' \<and>
     subseq [''stage_diskimage_tools'', ''extract_iso_lha'', ''mount_iso'', ''verify_cd_signature'', ''copy_base_os'',
       ''copy_installation_extras'', ''apply_update_3'', ''install_enhancer'', ''install_extras'', ''install_network_config'',
       ''install_serialshell'', ''install_mcpd'', ''unmount_iso'', ''dismount_combi_device''] ns"

lemma names_in_order: "in_order (names_of True True [2, 3])" "in_order (names_of False False [1, 2, 3])" "in_order (names_of False False [3])"
  by code_simp+

theorem sequences_in_order:
  "list_all (\<lambda>cfg. in_order (map s_name (q_steps (build_sequence cfg)))) (map snd CONFIGS)"
  by (simp add: CONFIGS_def sequence_names names_in_order del: One_nat_def)

section \<open>Directories\<close>

lemma req_event: "req t m ps w = (r, w') \<Longrightarrow> history w' = history w @ [(Rpc t m (JObj ps), r)]"
  by (auto simp: req_def rpc_def perform_def Let_def)

lemma succeeds_True: "succeeds m w = (Inr True, w') \<Longrightarrow> \<exists>x. m w = (Inr x, w')"
  by (auto simp: succeeds_eq)

theorem makedir_confirmed:
  assumes "amiga_makedir t path w = (Inr (), w')" "dir_name path \<noteq> []" "\<not> endswith (dir_name path) '':''"
  shows "\<exists>m v. m \<in> {''fs.stat'', ''fs.makedir''} \<and>
    last (history w') = (Rpc t m (JObj [(''path'', JStr (dir_name path))]), Inr v)"
proof -
  let ?p = "dir_name path"
  have stat: "last (history w2) = (Rpc t ''fs.stat'' (JObj [(''path'', JStr ?p)]), r)" if "stat_path t ?p w1 = (r, w2)" for w1 w2 r
    using req_event [OF that [unfolded stat_path_def]] by simp
  from assms obtain there w1 where there: "succeeds (stat_path t ?p) w = (Inr there, w1)"
    and r1: "(if there then ret () else bnd (succeeds (req t ''fs.makedir'' [(''path'', JStr ?p)])) (\<lambda>made. if made then ret ()
       else bnd (exec_cmd t (''MakeDir '' @ [CHR 0x22] @ ?p @ [CHR 0x22] @ '' ALL'') 30000) (\<lambda>raw.
         catch (bnd (stat_path t ?p) (\<lambda>_. ret ())) (\<lambda>e. raise (makedir_failure ?p raw))))) w1 = (Inr (), w')"
    unfolding amiga_makedir_def Let_def by (auto simp: bnd_eq_Inr)
  show ?thesis
  proof (cases there)
    case True
    with there have "succeeds (stat_path t ?p) w = (Inr True, w1)" by simp
    from succeeds_True [OF this] obtain v where "stat_path t ?p w = (Inr v, w1)" by blast
    with stat r1 True show ?thesis by (auto simp: ret_def)
  next
    case False
    with r1 obtain made w2 where made: "succeeds (req t ''fs.makedir'' [(''path'', JStr ?p)]) w1 = (Inr made, w2)"
      and r2: "(if made then ret () else bnd (exec_cmd t (''MakeDir '' @ [CHR 0x22] @ ?p @ [CHR 0x22] @ '' ALL'') 30000) (\<lambda>raw.
         catch (bnd (stat_path t ?p) (\<lambda>_. ret ())) (\<lambda>e. raise (makedir_failure ?p raw)))) w2 = (Inr (), w')"
      by (auto simp: bnd_eq_Inr)
    show ?thesis
    proof (cases made)
      case True
      with made have "succeeds (req t ''fs.makedir'' [(''path'', JStr ?p)]) w1 = (Inr True, w2)" by simp
      from succeeds_True [OF this] obtain v where "req t ''fs.makedir'' [(''path'', JStr ?p)] w1 = (Inr v, w2)" by blast
      from req_event [OF this] r2 True show ?thesis by (simp add: ret_def)
    next
      case False
      with r2 obtain v w3 where "stat_path t ?p w3 = (Inr v, w')"
        by (auto simp: bnd_eq_Inr catch_eq ret_def raise_def)
      with stat show ?thesis by blast
    qed
  qed
qed

section \<open>Dates\<close>

definition word :: "string \<Rightarrow> bool" where
  "word s \<longleftrightarrow> s \<noteq> [] \<and> (\<forall>c \<in> set s. \<not> py_isspace c)"

lemma split_ws_acc_words: "\<forall>c \<in> set acc. \<not> py_isspace c \<Longrightarrow> \<forall>p \<in> set (split_ws_acc acc s). word p"
proof (induction s arbitrary: acc)
  case (Cons x s)
  show ?case
  proof (cases "py_isspace x")
    case True
    have rest: "\<forall>p \<in> set (split_ws_acc [] s). word p" by (rule Cons.IH) simp
    show ?thesis
    proof (cases "acc = []")
      case False
      with Cons.prems have "word (rev acc)" by (simp add: word_def)
      with rest show ?thesis using True False by simp
    qed (use rest True in simp)
  next
    case False
    then show ?thesis using Cons.IH [of "x # acc"] Cons.prems by simp
  qed
qed (simp add: word_def)

lemma split_ws_acc_word: "\<forall>c \<in> set a. \<not> py_isspace c \<Longrightarrow> split_ws_acc acc (a @ s) = split_ws_acc (rev a @ acc) s"
  by (induction a arbitrary: acc) auto

lemma split_ws_two: "word a \<Longrightarrow> word b \<Longrightarrow> split_ws (a @ '' '' @ b) = [a, b]"
  using split_ws_acc_word [of a "[]" "'' '' @ b"] split_ws_acc_word [of b "[]" "[]"]
  by (auto simp: split_ws_def word_def py_isspace_def)

lemma split_on_three:
  "split_on c s = [a, b, d] \<longleftrightarrow> s = a @ [c] @ b @ [c] @ d \<and> c \<notin> set a \<and> c \<notin> set b \<and> c \<notin> set d"
proof
  assume sp: "split_on c s = [a, b, d]"
  have "s = a @ [c] @ b @ [c] @ d" using join_split_on [of c s] by (simp add: sp)
  moreover have "c \<notin> set a \<and> c \<notin> set b \<and> c \<notin> set d" using split_on_parts [of c s] unfolding sp by simp
  ultimately show "s = a @ [c] @ b @ [c] @ d \<and> c \<notin> set a \<and> c \<notin> set b \<and> c \<notin> set d" by blast
next
  assume "s = a @ [c] @ b @ [c] @ d \<and> c \<notin> set a \<and> c \<notin> set b \<and> c \<notin> set d"
  then show "split_on c s = [a, b, d]" using split_on_join [of "[a, b, d]" c] by simp
qed

text \<open>Swapping the day and the year twice gives the same date.\<close>

theorem setdate_involution:
  assumes "aos_modified_to_setdate m = Some d"
  shows "\<exists>m'. aos_modified_to_setdate d = Some m' \<and> split_ws m' = split_ws m"
proof -
  from assms obtain date time yy mon dd where m: "split_ws m = [date, time]" "split_on CHR ''-'' date = [yy, mon, dd]"
      "mon \<in> set AOS_MONTHS" "all_digits yy" "all_digits dd" "d = (dd @ ''-'' @ mon @ ''-'' @ yy) @ '' '' @ time"
    by (auto simp: aos_modified_to_setdate_def split: list.splits if_splits)
  have w: "word date" "word time" using split_ws_acc_words [of "[]" m] m(1) by (simp_all add: split_ws_def)
  from m(2) have date: "date = yy @ ''-'' @ mon @ ''-'' @ dd"
    and no: "CHR ''-'' \<notin> set yy" "CHR ''-'' \<notin> set mon" "CHR ''-'' \<notin> set dd" by (auto simp: split_on_three)
  have w': "word (dd @ ''-'' @ mon @ ''-'' @ yy)" using w(1) unfolding date word_def by auto
  have "split_ws d = [dd @ ''-'' @ mon @ ''-'' @ yy, time]" unfolding m(6) by (rule split_ws_two [OF w' w(2)])
  moreover have "split_on CHR ''-'' (dd @ ''-'' @ mon @ ''-'' @ yy) = [dd, mon, yy]" using no by (simp add: split_on_three)
  ultimately have "aos_modified_to_setdate d = Some (date @ '' '' @ time)"
    using m(3-5) date by (simp add: aos_modified_to_setdate_def)
  then show ?thesis using split_ws_two [OF w] m(1) by auto
qed

section \<open>The check after an install\<close>

lemma verify_one_event:
  fixes t d rel w
  defines "out \<equiv> answer w (history w) (Rpc t ''fs.stat'' (JObj [(''path'', JStr (d @ rel))]))"
  assumes "verify_one t d False (rel, ex) w = (r, w')"
  shows "\<exists>e. r = Inr (e, (if isl out then (0, 1, 0) else (1, 0, 0))) \<and> ve_path e = rel \<and> (ve_present e \<longleftrightarrow> \<not> isl out) \<and>
    history w' = history w @ [(Rpc t ''fs.stat'' (JObj [(''path'', JStr (d @ rel))]), out)]"
  using assms(2) unfolding out_def
  by (cases "answer w (history w) (Rpc t ''fs.stat'' (JObj [(''path'', JStr (d @ rel))]))")
    (auto simp: verify_one_def Let_def check_hash_def bnd_def catch_def stat_path_def req_def rpc_def perform_def ret_def v_opt_def)

lemma verify_all_events:
  assumes "for_each (verify_one t d False) specs w = (r, w')"
  shows "\<exists>rs es. r = Inr rs \<and> history w' = history w @ es \<and>
    list_all2 (\<lambda>(p, _) (e, n). ve_path e = p \<and> n = (if ve_present e then (1, 0, 0) else (0, 1, 0))) specs rs \<and>
    list_all2 (\<lambda>(e, _) (ev, out). ev = Rpc t ''fs.stat'' (JObj [(''path'', JStr (d @ ve_path e))]) \<and> (ve_present e \<longleftrightarrow> \<not> isl out)) rs es"
  using assms
proof (induction specs arbitrary: w r w')
  case (Cons spec specs)
  obtain rel ex where spec: "spec = (rel, ex)" by force
  obtain r1 w1 where one: "verify_one t d False (rel, ex) w = (r1, w1)" by force
  define out where "out = answer w (history w) (Rpc t ''fs.stat'' (JObj [(''path'', JStr (d @ rel))]))"
  obtain e where e: "r1 = Inr (e, (if isl out then (0, 1, 0) else (1, 0, 0)))" "ve_path e = rel" "ve_present e \<longleftrightarrow> \<not> isl out"
    "history w1 = history w @ [(Rpc t ''fs.stat'' (JObj [(''path'', JStr (d @ rel))]), out)]"
    using verify_one_event [OF one] unfolding out_def by blast
  obtain r2 w2 where rest: "for_each (verify_one t d False) specs w1 = (r2, w2)" by force
  from Cons.IH [OF rest] obtain rs es where rs: "r2 = Inr rs" "history w2 = history w1 @ es"
    "list_all2 (\<lambda>(p, _) (e, n). ve_path e = p \<and> n = (if ve_present e then (1, 0, 0) else (0, 1, 0))) specs rs"
    "list_all2 (\<lambda>(e, _) (ev, out). ev = Rpc t ''fs.stat'' (JObj [(''path'', JStr (d @ ve_path e))]) \<and> (ve_present e \<longleftrightarrow> \<not> isl out)) rs es"
    by blast
  have res: "r = Inr ((e, (if isl out then (0, 1, 0) else (1, 0, 0))) # rs)" "w' = w2"
    using Cons.prems one e(1) rest rs(1) spec by (auto simp: bnd_def ret_def)
  show ?case
    by (rule exI [of _ "(e, (if isl out then (0, 1, 0) else (1, 0, 0))) # rs"],
        rule exI [of _ "(Rpc t ''fs.stat'' (JObj [(''path'', JStr (d @ rel))]), out) # es"])
      (use res e rs spec in auto)
qed (simp add: ret_def)

lemma verify_counts:
  "list_all2 (\<lambda>(p, _) (e, n). ve_path e = p \<and> n = (if ve_present e then (1, 0, 0) else (0, 1, 0))) specs rs \<Longrightarrow>
    map fst specs = map (\<lambda>r. ve_path (fst r)) rs \<and> sum_list (map (\<lambda>(_, _, _, mm). mm) rs) = (0::nat) \<and>
    sum_list (map (\<lambda>(_, _, mi, _). mi) rs) = length (filter (\<lambda>r. \<not> ve_present (fst r)) rs) \<and>
    sum_list (map (\<lambda>(_, p, _, _). p) rs) = length (filter (\<lambda>r. ve_present (fst r)) rs)"
  by (induction specs rs rule: list_all2_induct) (auto split: if_splits)

text \<open>What is asked is the machine's list and the extra paths, once each and in order; an entry is
present when the target answered, and the verdict is ok when all are.\<close>

theorem verify_reports_answers:
  assumes "installer_verify t vol machine extra False w = (Inr r, w')"
  shows "\<exists>es. history w' = history w @ es \<and>
    list_all2 (\<lambda>e (ev, out). ev = Rpc t ''fs.stat'' (JObj [(''path'', JStr (normalize_volume vol @ ve_path e))]) \<and>
       (ve_present e \<longleftrightarrow> \<not> isl out)) (vr_entries r) es \<and>
    map_option (\<lambda>m. map fst m @ (case extra of Some ps \<Rightarrow> ps | None \<Rightarrow> [])) (map_of VERIFY_MANIFEST (vr_machine r))
      = Some (map ve_path (vr_entries r)) \<and>
    vr_present r + vr_missing r = vr_total r \<and>
    (vr_overall r = ''ok'' \<longleftrightarrow> filter (\<lambda>e. \<not> ve_present e) (vr_entries r) = [])"
proof -
  let ?d = "normalize_volume vol"
  from assms obtain m specs w1 h w2 rs where m: "map_of VERIFY_MANIFEST m = Some specs" "fleet_mcpd t w = (Inr h, w1)"
      "for_each (verify_one t ?d False) (specs @ unhashed (case extra of Some ps \<Rightarrow> ps | None \<Rightarrow> [])) w1 = (Inr rs, w')"
    and r: "vr_machine r = m" "vr_entries r = map fst rs"
      "vr_overall r = (if sum_list (map (\<lambda>(_, _, mi, _). mi) rs) = 0 \<and> sum_list (map (\<lambda>(_, _, _, mm). mm) rs) = 0 then ''ok'' else ''fail'')"
      "vr_total r = length (specs @ unhashed (case extra of Some ps \<Rightarrow> ps | None \<Rightarrow> []))"
      "vr_present r = sum_list (map (\<lambda>(_, p, _, _). p) rs)" "vr_missing r = sum_list (map (\<lambda>(_, _, mi, _). mi) rs)"
    by (auto simp: installer_verify_def Let_def raise_def ret_def bnd_eq_Inr split: option.splits)
  from verify_all_events [OF m(3)] obtain es where es: "history w' = history w1 @ es"
    and l: "list_all2 (\<lambda>(p, _) (e, n). ve_path e = p \<and> n = (if ve_present e then (1, 0, 0) else (0, 1, 0)))
       (specs @ unhashed (case extra of Some ps \<Rightarrow> ps | None \<Rightarrow> [])) rs"
    and l2: "list_all2 (\<lambda>(e, _) (ev, out). ev = Rpc t ''fs.stat'' (JObj [(''path'', JStr (?d @ ve_path e))]) \<and> (ve_present e \<longleftrightarrow> \<not> isl out)) rs es"
    by auto
  note counts = verify_counts [OF l]
  have "history w1 = history w" using fleet_mcpd_history [OF m(2)] by simp
  moreover have "list_all2 (\<lambda>e (ev, out). ev = Rpc t ''fs.stat'' (JObj [(''path'', JStr (?d @ ve_path e))]) \<and>
       (ve_present e \<longleftrightarrow> \<not> isl out)) (map fst rs) es"
    using l2 by (simp add: list_all2_map1 case_prod_beta')
  moreover have "map ve_path (map fst rs) = map fst specs @ (case extra of Some ps \<Rightarrow> ps | None \<Rightarrow> [])"
    using counts by (simp add: unhashed_def comp_def)
  moreover have "length rs = vr_total r" using list_all2_lengthD [OF l] r(4) by simp
  moreover have "length (filter (\<lambda>r. \<not> ve_present (fst r)) rs) + length (filter (\<lambda>r. ve_present (fst r)) rs) = length rs"
    using sum_length_filter_compl [of "\<lambda>r. ve_present (fst r)" rs] by simp
  moreover have "filter (\<lambda>e. \<not> ve_present e) (map fst rs) = [] \<longleftrightarrow> length (filter (\<lambda>r. \<not> ve_present (fst r)) rs) = 0"
    by (simp add: filter_map comp_def)
  ultimately show ?thesis using es m(1) r counts by (intro exI [of _ es]) simp
qed

section \<open>Concrete runs\<close>

definition one_target :: config where
  "one_target = empty_config\<lparr>targets :=
     [(''a'', (target_of Remote)\<lparr>channels := no_channels\<lparr>chan_mcpd := Some default_mcpd\<rparr>\<rparr>)]\<rparr>"

definition timed :: fleet where
  "timed = fleet_init one_target (\<lambda>h e. if e = Clock then Inr (JInt (1000 * sum_list (map slept_ms h))) else Inl (PyErr OSError ''no''))"

definition willing :: fleet where
  "willing = fleet_init one_target (\<lambda>h e. Inr JNull)"

theorem install_run_returns_witness:
  "(\<exists>y. installer_run (\<lambda>_. []) no_host ''a'' ''BootTest'' ''X5000'' (Some ''a.iso'') None False True timed = Some y) \<and>
   (\<exists>r w' es. poll_volume ''a'' ''CD0:'' 3000000 timed = Some (r, w') \<and> history w' = es \<and> requests es \<le> 3)"
proof -
  have law: "clock_law (answer timed)"
    by (simp add: clock_law_def timed_def fleet_init_def reading_def distrib_left)
  have h: "history timed = []" "3000000 - reading (answer timed) (history timed) \<le> int 3 * 1000000"
    by (simp_all add: timed_def fleet_init_def reading_def)
  show ?thesis
  proof (intro conjI)
    show "\<exists>y. installer_run (\<lambda>_. []) no_host ''a'' ''BootTest'' ''X5000'' (Some ''a.iso'') None False True timed = Some y"
      using install_run_returns [OF law] by blast
    show "\<exists>r w' es. poll_volume ''a'' ''CD0:'' 3000000 timed = Some (r, w') \<and> history w' = es \<and> requests es \<le> 3"
      using install_run_returns [OF law] h by (metis append_Nil)
  qed
qed

theorem makedir_confirmed_witness:
  "\<exists>w' m v. amiga_makedir ''a'' ''RAM:T/'' willing = (Inr (), w') \<and>
     last (history w') = (Rpc ''a'' m (JObj [(''path'', JStr ''RAM:T'')]), Inr v)"
proof -
  have d: "dir_name ''RAM:T/'' = ''RAM:T''" "\<not> endswith ''RAM:T'' '':''" by code_simp+
  obtain w' where w: "amiga_makedir ''a'' ''RAM:T/'' willing = (Inr (), w')"
    by (simp add: amiga_makedir_def Let_def d succeeds_def catch_def bnd_def stat_path_def req_def rpc_def perform_def
        ret_def willing_def fleet_init_def)
  from makedir_confirmed [OF w] d w show ?thesis by auto
qed

theorem setdate_involution_witness:
  "\<exists>m'. aos_modified_to_setdate ''05-Jan-26 10:00:00'' = Some m' \<and> split_ws m' = [''26-Jan-05'', ''10:00:00'']"
proof -
  have "aos_modified_to_setdate ''26-Jan-05 10:00:00'' = Some ''05-Jan-26 10:00:00''"
    "split_ws ''26-Jan-05 10:00:00'' = [''26-Jan-05'', ''10:00:00'']" by code_simp+
  from setdate_involution [OF this(1)] this(2) show ?thesis by simp
qed

theorem verify_reports_answers_witness:
  "\<exists>r w'. installer_verify ''a'' ''BootTest'' ''PegasosII'' None False willing = (Inr r, w') \<and> vr_overall r = ''ok'' \<and>
     vr_present r + vr_missing r = 5"
proof -
  have m: "resolve_machine_alias ''PegasosII'' = Some ''PegasosII''" "map_of VERIFY_MANIFEST ''PegasosII'' = Some
      (unhashed [''S/Startup-Sequence'', ''Kickstart/Kicklayout'', ''Kickstart/RadeonRX.chip'', ''Kickstart/SmartFilesystem'', ''amigaboot.of''])"
    by (simp_all add: resolve_machine_alias_def SUPPORTED_MACHINES_def VERIFY_MANIFEST_def)
  obtain h w1 where f: "fleet_mcpd ''a'' willing = (Inr h, w1)" "\<And>k e. answer w1 k e = Inr JNull"
    by (simp add: willing_def one_target_def fleet_init_def empty_config_def target_of_def no_channels_def default_mcpd_def
        fleet_mcpd_def pool_defs target_config_def)
  have one: "\<exists>e w'. verify_one ''a'' d False (p, x) w = (Inr (e, 1, 0, 0), w') \<and> answer w' = answer w \<and> ve_present e"
    if "\<And>k e. answer w k e = Inr JNull" for d p x and w :: fleet
    using that by (simp add: verify_one_def Let_def check_hash_def bnd_def catch_def stat_path_def req_def rpc_def perform_def ret_def v_opt_def)
  have all: "\<exists>rs w'. for_each (verify_one ''a'' d False) (unhashed ps) w = (Inr rs, w') \<and> length rs = length ps \<and>
      rs = map (\<lambda>r. (fst r, 1, 0, 0)) rs" if "\<And>k e. answer w k e = Inr JNull" for d ps and w :: fleet
    using that
  proof (induction ps arbitrary: w)
    case (Cons p ps)
    from one [OF Cons.prems] obtain e w2 where e: "verify_one ''a'' d False (p, None) w = (Inr (e, 1, 0, 0), w2)" "answer w2 = answer w" by blast
    with Cons.IH [of w2] Cons.prems obtain rs w3 where "for_each (verify_one ''a'' d False) (unhashed ps) w2 = (Inr rs, w3)"
      "length rs = length ps" "rs = map (\<lambda>r. (fst r, 1, 0, 0)) rs" by auto
    with e show ?case by (auto simp: unhashed_def bnd_def ret_def)
  qed (simp add: unhashed_def ret_def)
  let ?ps = "[''S/Startup-Sequence'', ''Kickstart/Kicklayout'', ''Kickstart/RadeonRX.chip'', ''Kickstart/SmartFilesystem'', ''amigaboot.of'']"
  obtain rs w' where rs: "for_each (verify_one ''a'' (normalize_volume ''BootTest'') False) (unhashed ?ps) w1 = (Inr rs, w')"
      "length rs = length ?ps" "rs = map (\<lambda>r. (fst r, 1, 0, 0)) rs"
    using all [OF f(2)] by blast
  have z: "sum_list (map (\<lambda>(_, _, mi, _). mi) rs) = 0" "sum_list (map (\<lambda>(_, _, _, mm). mm) rs) = 0"
    by (subst rs(3), simp add: comp_def)+
  obtain r where r: "installer_verify ''a'' ''BootTest'' ''PegasosII'' None False willing = (Inr r, w')" "vr_overall r = ''ok''" "vr_total r = 5"
    using rs(1) z by (simp add: installer_verify_def m f(1) bnd_def unhashed_def ret_def Let_def)
  from verify_reports_answers [OF r(1)] r show ?thesis by auto
qed

end
