(* ===== verification/InstallFiles.thy ===== *)
theory InstallFiles
  imports InstallCorrect
begin

text \<open>
  What the installer does to a file it finds on the target: the step that makes the daemon start at
  boot extends \<^verbatim>\<open>S/Network-Startup\<close> once and keeps a copy of what was there, unless the copy
  fails.  The properties are about a target that serves its files; what it answers is \<open>serve\<close>, over
  a disk that maps paths to contents.
\<close>

section \<open>A target that serves its files\<close>

type_synonym disk = "string \<Rightarrow> string option"

definition text_param :: "string \<Rightarrow> (string \<times> json) list \<Rightarrow> string" where
  "text_param k ps = (case map_of ps k of Some (JStr s) \<Rightarrow> s | _ \<Rightarrow> [])"

definition no_such :: exn where
  "no_such = RpcErr TargetError ''object not found'' None"

text \<open>\<open>copies\<close>: whether \<^verbatim>\<open>fs.copy\<close> works.\<close>

definition serve :: "bool \<Rightarrow> string \<Rightarrow> string \<Rightarrow> (string \<times> json) list \<Rightarrow> disk \<Rightarrow> outcome \<times> disk" where
  "serve copies date m ps D =
     (if m = ''fs.stat'' then
        (if D (text_param ''path'' ps) = None then (Inl no_such, D) else (Inr (JObj [(''modified'', JStr date)]), D))
      else if m = ''fs.read'' then
        (case D (text_param ''path'' ps) of None \<Rightarrow> (Inl no_such, D)
         | Some c \<Rightarrow> (Inr (JObj [(''content_b64'', JStr (b64encode c))]), D))
      else if m = ''fs.copy'' then
        (case D (text_param ''src'' ps) of None \<Rightarrow> (Inl no_such, D)
         | Some c \<Rightarrow> if copies then (Inr JNull, D(text_param ''dst'' ps \<mapsto> c)) else (Inl no_such, D))
      else if m = ''fs.write'' then
        (case b64decode (text_param ''content_b64'' ps) of None \<Rightarrow> (Inl no_such, D)
         | Some c \<Rightarrow> (Inr JNull, D(text_param ''path'' ps \<mapsto> c)))
      else (Inr (JObj [(''exit_code'', JInt 0)]), D))"

fun event_effect :: "bool \<Rightarrow> string \<Rightarrow> string \<Rightarrow> disk \<Rightarrow> event \<Rightarrow> disk" where
  "event_effect copies date t D (Rpc u m (JObj ps)) = (if u = t then snd (serve copies date m ps D) else D)"
| "event_effect copies date t D _ = D"

definition disk_after :: "bool \<Rightarrow> string \<Rightarrow> string \<Rightarrow> disk \<Rightarrow> (event \<times> outcome) list \<Rightarrow> disk" where
  "disk_after copies date t D0 h = foldl (\<lambda>D (e, _). event_effect copies date t D e) D0 h"

text \<open>The target \<open>t\<close> answers every call from the disk as the calls so far have left it; that disk is \<open>D\<close>.\<close>

definition serving :: "bool \<Rightarrow> string \<Rightarrow> string \<Rightarrow> disk \<Rightarrow> 'z world_scheme \<Rightarrow> bool" where
  "serving copies date t D w \<longleftrightarrow> (\<exists>D0. D = disk_after copies date t D0 (history w) \<and>
     (\<forall>h m ps. answer w h (Rpc t m (JObj ps)) = fst (serve copies date m ps (disk_after copies date t D0 h))))"

lemma serving_req:
  assumes "serving b date t D w" "req t m ps w = (r, w')"
  shows "r = fst (serve b date m ps D) \<and> serving b date t (snd (serve b date m ps D)) w'"
  using assms by (auto simp: serving_def req_def rpc_def perform_def Let_def disk_after_def)

lemma serving_stat:
  assumes "serving b date t D w" "stat_path t p w = (r, w')"
  shows "r = (if D p = None then Inl no_such else Inr (JObj [(''modified'', JStr date)])) \<and> serving b date t D w'"
  using serving_req [OF assms(1) assms(2) [unfolded stat_path_def]] by (auto simp: serve_def text_param_def split: if_splits)

lemma serving_stat_succeeds:
  assumes "serving b date t D w" "succeeds (stat_path t p) w = (r, w')"
  shows "r = Inr (D p \<noteq> None) \<and> serving b date t D w'"
proof -
  obtain x w1 where x: "stat_path t p w = (x, w1)" by force
  from serving_stat [OF assms(1) x] assms(2) x show ?thesis by (auto simp: succeeds_eq split: if_splits)
qed

lemma serving_capture:
  assumes "serving b date t D w" "D p \<noteq> None" "capture_mtime t p w = (r, w')"
  shows "r = Inr (JStr date) \<and> serving b date t D w'"
proof -
  obtain x w1 where x: "stat_path t p w = (x, w1)" by force
  from serving_stat [OF assms(1) x] assms(2,3) x show ?thesis
    by (auto simp: capture_mtime_def catch_eq bnd_eq_Inr bnd_eq_Inl ret_def)
qed

lemma serving_text:
  assumes "serving b date t D w" "D p = Some c" "is_ascii c" "text_or_empty t p w = (r, w')"
  shows "r = Inr c \<and> serving b date t D w'"
proof -
  obtain x w1 where x: "req t ''fs.read'' [(''path'', JStr p)] w = (x, w1)" by force
  from serving_req [OF assms(1) x] assms(2)
  have "x = Inr (JObj [(''content_b64'', JStr (b64encode c))])" "serving b date t D w1"
    by (auto simp: serve_def text_param_def)
  then show ?thesis using x assms(3,4)
    by (auto simp: text_or_empty_def read_text_def catch_def bnd_def content_text_def get_or_def b64decode_encode ascii_replace_id lift_run)
qed

lemma serving_write:
  assumes "serving b date t D w" "is_ascii c" "write_text t p c w = (r, w')"
  shows "r = Inr () \<and> serving b date t (D(p \<mapsto> c)) w'"
proof -
  obtain x w1 where x: "req t ''fs.write'' [(''path'', JStr p), (''content_b64'', JStr (b64encode c))] w = (x, w1)" by force
  from serving_req [OF assms(1) x] have "x = Inr JNull" "serving b date t (D(p \<mapsto> c)) w1"
    by (auto simp: serve_def text_param_def b64decode_encode)
  then show ?thesis using x assms(2,3) by (auto simp: write_text_def ascii_encode_def bnd_def lift_def ret_def)
qed

lemma serving_restore:
  assumes "serving b date t D w" "restore_mtime t p (JStr date) w = (r, w')"
  shows "r = Inr () \<and> serving b date t D w'"
proof (cases "date = [] \<or> aos_modified_to_setdate date = None")
  case True
  then show ?thesis using assms by (auto simp: restore_mtime_def ret_def split: if_splits)
next
  case False
  then obtain d where d: "date \<noteq> []" "aos_modified_to_setdate date = Some d" by auto
  obtain x w1 where x: "exec_cmd t (setdate_cmd p d) 10000 w = (x, w1)" by force
  from serving_req [OF assms(1) x [unfolded exec_cmd_def]] have "isl x = False" "serving b date t D w1"
    by (auto simp: serve_def)
  then show ?thesis using assms(2) d x
    by (cases x) (auto simp: restore_mtime_def ignoring_def catch_def bnd_def ret_def)
qed

section \<open>The launch line\<close>

lemma block_ascii: "is_ascii mcpd_block" "contains MCPD_MARKER (x @ mcpd_block)"
proof -
  show "is_ascii mcpd_block" by (simp add: mcpd_block_def lines_of_def MCPD_MARKER_def)
  have "mcpd_block = lines_of [[], ''; MCPd - Model Context Protocol daemon''] @ ''Run >NIL: <NIL: '' @ MCPD_MARKER @ [newline]"
    by (simp add: mcpd_block_def lines_of_def)
  then show "contains MCPD_MARKER (x @ mcpd_block)" unfolding contains_iff by (metis append_assoc)
qed

lemma end_line_ascii: "is_ascii T \<Longrightarrow> is_ascii (end_line T)"
  by (simp add: end_line_def)

definition before :: "string \<Rightarrow> string" where
  "before p = p @ ''.before-mcpd''"

lemma serving_copy_succeeds:
  assumes "serving b date t D w" "D src = Some c" "succeeds (copy_file t src dst) w = (r, w')"
  shows "r = Inr b \<and> serving b date t (if b then D(dst \<mapsto> c) else D) w'"
proof -
  obtain x w1 where x: "copy_file t src dst w = (x, w1)" by force
  from serving_req [OF assms(1) x [unfolded copy_file_def]] assms(2,3) x show ?thesis
    by (auto simp: serve_def text_param_def succeeds_eq split: if_splits)
qed

lemma serving_backup:
  assumes "serving b date t D w" "D p = Some T" "backup_netstart t p T w = (r, w')"
  shows "(if D (before p) \<noteq> None then r = Inr (False, T) \<and> serving b date t D w'
          else if b then r = Inr (True, T) \<and> serving b date t (D(before p \<mapsto> T)) w'
          else r = Inr (False, []) \<and> serving b date t D w')"
proof -
  obtain x w1 where x: "succeeds (stat_path t (before p)) w = (x, w1)" by force
  note sx = serving_stat_succeeds [OF assms(1) x]
  obtain y w2 where y: "succeeds (copy_file t p (before p)) w1 = (y, w2)" by force
  from serving_copy_succeeds [OF conjunct2 [OF sx] assms(2) y] sx x y assms(3) show ?thesis
    by (auto simp: backup_netstart_def bnd_def ret_def before_def)
qed

lemma edit_netstart_run:
  assumes "serving b date t D w" "D p = Some T" "is_ascii T" "\<not> contains MCPD_MARKER T"
    and "edit_netstart t p bin hs w = (r, w')"
  defines "base \<equiv> (if D (before p) = None \<and> \<not> b then [] else T)"
    and "D1 \<equiv> (if D (before p) = None \<and> b then D(before p \<mapsto> T) else D)"
  shows "(\<exists>out. r = Inr out) \<and> serving b date t (D1(p \<mapsto> end_line base @ mcpd_block)) w'"
proof -
  obtain x w1 where x: "capture_mtime t p w = (x, w1)" by force
  note c = serving_capture [OF assms(1) _ x] 
  obtain y w2 where y: "text_or_empty t p w1 = (y, w2)" by force
  note tx = serving_text [OF conjunct2 [OF c] assms(2,3) y]
  obtain z w3 where z: "backup_netstart t p T w2 = (z, w3)" by force
  note bk = serving_backup [OF conjunct2 [OF tx] assms(2) z]
  have D1: "serving b date t D1 w3" "\<exists>f. z = Inr (f, base)"
    using bk assms(2) by (auto simp: D1_def base_def split: if_splits)
  then obtain f where f: "z = Inr (f, base)" by blast
  obtain u w4 where u: "write_text t p (end_line base @ mcpd_block) w3 = (u, w4)" by force
  have "is_ascii (end_line base @ mcpd_block)" using assms(3) end_line_ascii block_ascii(1) by (simp add: base_def end_line_def)
  note wr = serving_write [OF D1(1) this u]
  obtain v w5 where v: "restore_mtime t p (JStr date) w4 = (v, w5)" by force
  note rs = serving_restore [OF conjunct2 [OF wr] v]
  show ?thesis using assms(2,4,5) c tx f wr rs x y z u v
    by (auto simp: edit_netstart_def bnd_def ret_def)
qed

lemma edit_netstart_again:
  assumes "serving b date t D w" "D p = Some T" "is_ascii T" "contains MCPD_MARKER T" "edit_netstart t p bin hs w = (r, w')"
  shows "(\<exists>out. r = Inr out) \<and> serving b date t D w'"
proof -
  obtain x w1 where x: "capture_mtime t p w = (x, w1)" by force
  note c = serving_capture [OF assms(1) _ x]
  obtain y w2 where y: "text_or_empty t p w1 = (y, w2)" by force
  note tx = serving_text [OF conjunct2 [OF c] assms(2,3) y]
  show ?thesis using assms(2,4,5) c tx x y by (auto simp: edit_netstart_def bnd_def ret_def)
qed

text \<open>
  C34. When Network-Startup holds an ASCII text without the MCPd marker and no .before-mcpd
  copy exists, on a target that answers fs.stat, fs.read, fs.copy and fs.write from its files,
  install_mcpd's edit succeeds twice in a row, and after both runs the copy holds the original
  text and the file is that text, with its last line ended, followed by the launch block
  exactly once; no other file has changed.
\<close>

theorem launch_line_added_once:
  assumes "serving True date t D w" "D p = Some T" "is_ascii T" "\<not> contains MCPD_MARKER T" "D (before p) = None"
    and "edit_netstart t p bin hs w = (r1, w1)" "edit_netstart t p bin hs w1 = (r2, w2)"
  shows "(\<exists>out. r1 = Inr out) \<and> (\<exists>out. r2 = Inr out) \<and>
    serving True date t (D(before p \<mapsto> T, p \<mapsto> end_line T @ mcpd_block)) w2"
proof -
  note one = edit_netstart_run [OF assms(1-4,6)]
  from one assms(5) have s: "serving True date t (D(before p \<mapsto> T, p \<mapsto> end_line T @ mcpd_block)) w1" by simp
  have "is_ascii (end_line T @ mcpd_block)" using assms(3) end_line_ascii block_ascii(1) by simp
  from edit_netstart_again [OF s _ this block_ascii(2) assms(7)] one show ?thesis by simp
qed

text \<open>When the copy fails, what was in the file is not written back.\<close>

theorem failed_backup_drops_startup:
  assumes "serving False date t D w" "D p = Some T" "is_ascii T" "\<not> contains MCPD_MARKER T" "D (before p) = None"
    and "edit_netstart t p bin hs w = (r, w')"
  shows "(\<exists>out. r = Inr out) \<and> serving False date t (D(p \<mapsto> mcpd_block)) w'"
  using edit_netstart_run [OF assms(1-4,6)] assms(5) by (simp add: end_line_def)

section \<open>A served target\<close>

definition server :: "bool \<Rightarrow> string \<Rightarrow> disk \<Rightarrow> fleet" where
  "server copies t D = fleet_init empty_config (\<lambda>h e. case e of
       Rpc u m (JObj ps) \<Rightarrow> fst (serve copies [] m ps (disk_after copies [] t D h))
     | _ \<Rightarrow> Inr JNull)"

lemma server_serves: "serving copies [] t D (server copies t D)"
  by (auto simp: serving_def server_def fleet_init_def disk_after_def)

definition old_startup :: string where
  "old_startup = ''AddNetInterface QUIET DEVS:NetInterfaces/~(#?.info)'' @ [newline]"

lemma old_startup: "is_ascii old_startup" "\<not> contains MCPD_MARKER old_startup" "old_startup \<noteq> []"
  by code_simp+

definition demo_disk :: disk where
  "demo_disk = [''B:S/Network-Startup'' \<mapsto> old_startup]"

lemma demo_disk: "demo_disk ''B:S/Network-Startup'' = Some old_startup" "demo_disk (before ''B:S/Network-Startup'') = None"
  by (simp_all add: demo_disk_def before_def)

theorem launch_line_added_once_witness:
  "\<exists>r1 w1 r2 w2. edit_netstart ''a'' ''B:S/Network-Startup'' [] JNull (server True ''a'' demo_disk) = (Inr r1, w1) \<and>
     edit_netstart ''a'' ''B:S/Network-Startup'' [] JNull w1 = (Inr r2, w2) \<and>
     serving True [] ''a'' (demo_disk(before ''B:S/Network-Startup'' \<mapsto> old_startup,
        ''B:S/Network-Startup'' \<mapsto> end_line old_startup @ mcpd_block)) w2"
proof -
  obtain r1 w1 where 1: "edit_netstart ''a'' ''B:S/Network-Startup'' [] JNull (server True ''a'' demo_disk) = (r1, w1)" by force
  obtain r2 w2 where 2: "edit_netstart ''a'' ''B:S/Network-Startup'' [] JNull w1 = (r2, w2)" by force
  from launch_line_added_once [OF server_serves demo_disk(1) old_startup(1,2) demo_disk(2) 1 2] 1 2 show ?thesis by auto
qed

theorem failed_backup_drops_startup_witness:
  "\<exists>r w. edit_netstart ''a'' ''B:S/Network-Startup'' [] JNull (server False ''a'' demo_disk) = (Inr r, w) \<and>
     serving False [] ''a'' (demo_disk(''B:S/Network-Startup'' \<mapsto> mcpd_block)) w"
proof -
  obtain r w where 1: "edit_netstart ''a'' ''B:S/Network-Startup'' [] JNull (server False ''a'' demo_disk) = (r, w)" by force
  from failed_backup_drops_startup [OF server_serves demo_disk(1) old_startup(1,2) demo_disk(2) 1] 1 show ?thesis by auto
qed

end
