(* ===== verification/Preflight.thy ===== *)
theory Preflight
  imports InstallSafe
begin

text \<open>
  The pre-flight check of the installer (\<^verbatim>\<open>installer_preflight\<close>): it changes nothing on the target,
  and a verdict other than \<^verbatim>\<open>fail\<close> means what the checks are for.  One volume name passes although a
  run would write to the system volume.
\<close>

section \<open>It only looks\<close>

fun looks :: "event \<times> outcome \<Rightarrow> bool" where
  "looks (Rpc t m p, v) \<longleftrightarrow> m = ''fs.stat''"
| "looks _ \<longleftrightarrow> False"

lemma looks_stat: "emits looks (stat_path t p)"
  unfolding stat_path_def req_def by (rule emits_rpc) simp

theorem preflight_only_looks: "emits looks (installer_preflight env target vol src machine img)"
  unfolding installer_preflight_def ask_def Let_def by (intro emits looks_stat)

section \<open>A verdict other than fail\<close>

lemma add_check_passes [simp]: "v_overall (add_check n s d v) \<noteq> ''fail'' \<longleftrightarrow> s \<noteq> ''fail'' \<and> v_overall v \<noteq> ''fail''"
  by (simp add: add_check_def)

lemma check_dest_passes: "v_overall (check_dest d v) \<noteq> ''fail'' \<Longrightarrow> \<not> is_system_volume d \<and> v_overall v \<noteq> ''fail''"
  by (auto simp: check_dest_def split: if_splits)

lemma check_machine_passes:
  assumes "check_machine m sc v = (k, v')" "v_overall v' \<noteq> ''fail''"
  shows "v_overall v \<noteq> ''fail'' \<and> k \<noteq> None"
proof (cases "given m")
  case None
  then show ?thesis using assms by (cases "detected_machine sc") (auto simp: check_machine_def dest: sym split: if_splits)
next
  case (Some x)
  then show ?thesis using assms by (cases "resolve_machine_alias x") (auto simp: check_machine_def dest: sym)
qed

lemma check_unsupported_passes: "v_overall (check_unsupported sc v) \<noteq> ''fail'' \<Longrightarrow> v_overall v \<noteq> ''fail''"
  by (auto simp: check_unsupported_def split: if_splits)

lemma check_iso_passes:
  assumes "check_iso env i (Some m) sc v = (c, v')" "v_overall v' \<noteq> ''fail''"
  shows "v_overall v \<noteq> ''fail'' \<and> c \<noteq> None"
proof (cases "given i")
  case None
  then show ?thesis using assms by (auto simp: check_iso_def Let_def split: if_splits)
next
  case (Some f)
  then have "i \<noteq> None" by (auto simp: given_def split: if_splits)
  then show ?thesis using assms Some
    by (cases "detect_machine_from_iso f") (auto simp: check_iso_def split: if_splits)
qed

lemma check_files_passes:
  assumes "check_files env m sc v = Inr (missing, v')" "v_overall v' \<noteq> ''fail''"
  shows "v_overall v \<noteq> ''fail'' \<and> missing = [] \<and> resolve_mcpd_binary env (sc_dir sc) \<noteq> None \<and>
    (\<exists>rs. required_files m = Inr rs \<and> missing_required rs sc = [])"
  using assms
  by (auto simp: check_files_def ebnd_Inr Let_def mandatory_binaries_def split: if_splits)

lemma host_checks_passes:
  assumes "host_checks env machine i sc v = Inr (k, c, missing, v')" "v_overall v' \<noteq> ''fail''"
  shows "v_overall v \<noteq> ''fail'' \<and> missing = [] \<and> resolve_mcpd_binary env (sc_dir sc) \<noteq> None \<and> c \<noteq> None \<and>
    (\<exists>m rs. k = Some m \<and> required_files m = Inr rs \<and> missing_required rs sc = [])"
proof -
  obtain m0 v1 where 1: "check_machine machine sc v = (m0, v1)" by force
  obtain c0 v2 where 2: "check_iso env i m0 sc (check_unsupported sc v1) = (c0, v2)" by force
  show ?thesis
  proof (cases m0)
    case None
    with assms(1) 1 2 have "v' = v2" by (simp add: host_checks_def)
    moreover have "v2 = check_unsupported sc v1" using 2 None by (simp add: check_iso_def)
    ultimately show ?thesis using check_machine_passes [OF 1] check_unsupported_passes assms(2) None by auto
  next
    case (Some m)
    with assms(1) 1 2 obtain mi v3 where 3: "check_files env m sc v2 = Inr (mi, v3)" "k = Some m" "c = c0" "missing = mi" "v' = v3"
      by (auto simp: host_checks_def ebnd_Inr)
    from check_files_passes [OF 3(1)] assms(2) 3 have f: "v_overall v2 \<noteq> ''fail''" "mi = []"
      "resolve_mcpd_binary env (sc_dir sc) \<noteq> None" "\<exists>rs. required_files m = Inr rs \<and> missing_required rs sc = []" by auto
    from check_iso_passes [OF 2 [unfolded Some] f(1)] check_unsupported_passes check_machine_passes [OF 1] f 3
    show ?thesis by blast
  qed
qed

text \<open>The entries a previous install leaves: each is asked for, and reported when it is there.\<close>

lemma ask_event:
  "\<exists>v w'. ask t d f w = (Inr (if isl v then [] else [f]), w') \<and>
    history w' = history w @ [(Rpc t ''fs.stat'' (JObj [(''path'', JStr (d @ f))]), v)]"
proof -
  obtain x w1 where x: "stat_path t (d @ f) w = (x, w1)" by force
  then have "history w1 = history w @ [(Rpc t ''fs.stat'' (JObj [(''path'', JStr (d @ f))]), x)]"
    by (auto simp: stat_path_def req_def rpc_def perform_def Let_def)
  with x show ?thesis by (cases x) (auto simp: ask_def succeeds_def catch_def bnd_def ret_def)
qed

lemma forbidden_events:
  assumes "for_each (ask t d) fs w = (r, w')"
  shows "\<exists>xs es. r = Inr xs \<and> history w' = history w @ es \<and> map fst es = map (\<lambda>f. Rpc t ''fs.stat'' (JObj [(''path'', JStr (d @ f))])) fs \<and>
    (concat xs = [] \<longrightarrow> list_all (\<lambda>e. isl (snd e)) es)"
  using assms
proof (induction fs arbitrary: w r w')
  case (Cons f fs)
  obtain v w1 where v: "ask t d f w = (Inr (if isl v then [] else [f]), w1)"
    "history w1 = history w @ [(Rpc t ''fs.stat'' (JObj [(''path'', JStr (d @ f))]), v)]" using ask_event by blast
  obtain r2 w2 where rest: "for_each (ask t d) fs w1 = (r2, w2)" by force
  from Cons.IH [OF rest] obtain xs es where i: "r2 = Inr xs" "history w2 = history w1 @ es"
    "map fst es = map (\<lambda>f. Rpc t ''fs.stat'' (JObj [(''path'', JStr (d @ f))])) fs" "concat xs = [] \<longrightarrow> list_all (\<lambda>e. isl (snd e)) es"
    by blast
  have "r = Inr ((if isl v then [] else [f]) # xs)" "w' = w2"
    using Cons.prems v(1) rest i(1) by (simp_all add: bnd_def ret_def split: if_splits)
  then show ?case using v(2) i
    by (intro exI [of _ "(if isl v then [] else [f]) # xs"] exI [of _ "(Rpc t ''fs.stat'' (JObj [(''path'', JStr (d @ f))]), v) # es"])
      (auto split: if_splits)
qed (simp add: ret_def)

text \<open>The names of the system volume, against the volume that is reported and the one that a run would write to.\<close>

lemma last_strip: "strip v \<noteq> [] \<Longrightarrow> \<not> py_isspace (last (strip v))"
  using hd_dropWhile [of py_isspace "rev (lstrip v)"] by (auto simp: strip_def rstrip_pred_def last_rev)

lemma strip_idem: "strip (strip v) = strip v"
proof (cases "strip v = []")
  case False
  then show ?thesis using hd_strip last_strip by (intro strip_id) auto
next
  case True
  show ?thesis unfolding True by (simp add: strip_def lstrip_def rstrip_pred_def)
qed

lemma normalize_dest_idem: "normalize_dest (normalize_dest v) = normalize_dest v"
proof (cases "CHR '':'' \<in> set (strip v)")
  case True
  then show ?thesis by (simp add: normalize_dest_def Let_def strip_idem)
next
  case False
  then have n: "normalize_dest v = strip v @ '':''" by (auto simp: normalize_dest_def Let_def endswith_iff)
  have "strip (strip v @ '':'') = strip v @ '':''"
    using hd_strip [of v] by (intro strip_id) (auto simp: py_isspace_def hd_append)
  then show ?thesis unfolding n by (simp add: normalize_dest_def Let_def)
qed

lemma upper_colon: "CHR '':'' \<in> set v \<Longrightarrow> CHR '':'' \<in> set (py_upper v)"
  unfolding py_upper_def upper_char_def by force

lemma volume_named:
  assumes "\<not> endswith (strip v) ''/''" "CHR '':'' \<notin> set n"
    and "py_upper (normalize_dest v) \<noteq> n @ '':''"
  shows "py_upper (normalize_volume v) \<noteq> n @ '':''"
proof (cases "endswith (strip v) '':'' \<or> CHR '':'' \<notin> set (strip v)")
  case True
  then have "normalize_volume v = normalize_dest v"
    using assms(1) by (auto simp: normalize_volume_def normalize_dest_def Let_def endswith_iff)
  with assms(3) show ?thesis by simp
next
  case False
  then have "normalize_volume v = strip v @ '':''" using assms(1) by (simp add: normalize_volume_def Let_def)
  then have "py_upper (normalize_volume v) = py_upper (strip v) @ '':''" by (simp add: py_upper_def upper_char_def)
  moreover have "CHR '':'' \<in> set (py_upper (strip v))" using False upper_colon by blast
  ultimately show ?thesis using assms(2) by auto
qed

lemma not_system:
  assumes "\<not> is_system_volume (normalize_dest v)"
  shows "py_upper (normalize_dest v) \<notin> {''SYS:'', ''AMIGAOS:'', ''WORKBENCH:'', ''SYSTEM:''}"
    and "\<not> endswith (strip v) ''/'' \<Longrightarrow>
      py_upper (normalize_volume v) \<notin> {''SYS:'', ''AMIGAOS:'', ''WORKBENCH:'', ''SYSTEM:''}"
proof -
  show d: "py_upper (normalize_dest v) \<notin> {''SYS:'', ''AMIGAOS:'', ''WORKBENCH:'', ''SYSTEM:''}"
    using assms by (simp add: is_system_volume_def normalize_dest_idem)
  show "py_upper (normalize_volume v) \<notin> {''SYS:'', ''AMIGAOS:'', ''WORKBENCH:'', ''SYSTEM:''}"
    if "\<not> endswith (strip v) ''/''"
    using d volume_named [OF that, of "''SYS''"] volume_named [OF that, of "''AMIGAOS''"]
      volume_named [OF that, of "''WORKBENCH''"] volume_named [OF that, of "''SYSTEM''"] by auto
qed


section \<open>Where the tools disagree\<close>

text \<open>The machine list says that the A1222 does not need the archive its manifest requires.\<close>

lemma a1222_enhancer_required:
  "case machine_info_of ''A1222'' of Inr i \<Rightarrow> \<not> mi_needs_enhancer i | Inl _ \<Rightarrow> False"
  "case required_files ''A1222'' of Inr rs \<Rightarrow> ''enhancer_software_2.2.lha'' \<in> set (map filename rs) | Inl _ \<Rightarrow> False"
  by code_simp+

text \<open>With only the packed ISO in the directory, naming the ISO fails the check that not naming it passes.\<close>

definition packed :: host_env where
  "packed = no_host\<lparr>h_listing := (\<lambda>d. Some [(''Sam460InstallCD-53.58.iso.lha'', True)]),
     h_is_file := (\<lambda>f. f = ''/s/Sam460InstallCD-53.58.iso.lha''), h_exists := (\<lambda>f. f = ''/s/Sam460InstallCD-53.58.iso.lha'')\<rparr>"

lemma named_packed_iso_fails:
  "v_overall (snd (check_iso packed (Some ''Sam460InstallCD-53.58.iso'') (Some ''Sam460'') (host_scan packed ''/s'') \<lparr>v_checks = [], v_overall = ''ok''\<rparr>)) = ''fail''"
  "fst (check_iso packed None (Some ''Sam460'') (host_scan packed ''/s'') \<lparr>v_checks = [], v_overall = ''ok''\<rparr>) = Some ''Sam460InstallCD-53.58.iso''"
  "v_overall (snd (check_iso packed None (Some ''Sam460'') (host_scan packed ''/s'') \<lparr>v_checks = [], v_overall = ''ok''\<rparr>)) = ''ok''"
  by code_simp+

section \<open>A name of the system volume that passes\<close>

theorem system_volume_slips_through:
  "\<not> is_system_volume (normalize_dest ''SYS:/'') \<and> normalize_volume ''SYS:/'' = ''SYS:'' \<and> is_system_volume ''SYS:''"
  by code_simp

section \<open>A directory that has everything\<close>

definition shop :: host_env where
  "shop = no_host\<lparr>h_listing := (\<lambda>d. if d = ''/s'' then Some (map (\<lambda>f. (f, True)) [''Pegasos2InstallCD-53.54.iso'', ''AmigaOS4.1FinalEditionUpdate1.lha'',
       ''AmigaOS4.1FinalEditionUpdate2-53.14.lha'', ''AmigaOS4.1FinalEditionUpdate3-53.34.lha'',
       ''enhancer_software_2.2.lha'', ''MCPd'']) else None),
     h_is_file := (\<lambda>f. f = ''/s/MCPd'')\<rparr>"

definition empty_volume :: fleet where
  "empty_volume = fleet_init (empty_config\<lparr>targets :=
       [(''a'', (target_of Remote)\<lparr>channels := no_channels\<lparr>chan_mcpd := Some default_mcpd\<rparr>\<rparr>)]\<rparr>)
     (\<lambda>h e. if e = Rpc ''a'' ''fs.stat'' (JObj [(''path'', JStr ''B:'')]) then Inr JNull else Inl (PyErr OSError []))"

lemma shop_checks:
  "case host_checks shop (Some ''PegasosII'') None (host_scan shop ''/s'')
      (add_check ''sources_exists'' ''ok'' (sc_dir (host_scan shop ''/s'')) (check_dest ''B:'' \<lparr>v_checks = [], v_overall = ''ok''\<rparr>))
   of Inr (m, c, missing, v) \<Rightarrow> v_overall v = ''ok'' | Inl _ \<Rightarrow> False"
  "sc_exists (host_scan shop ''/s'')" "normalize_dest ''B'' = ''B:''"
  by code_simp+

lemma asks_fail:
  assumes "\<And>h f. f \<in> set fs \<Longrightarrow> answer w h (Rpc t ''fs.stat'' (JObj [(''path'', JStr (d @ f))])) = Inl e"
  shows "\<exists>xs w'. for_each (ask t d) fs w = (Inr xs, w') \<and> concat xs = []"
  using assms
proof (induction fs arbitrary: w)
  case (Cons f fs)
  have "\<exists>w1. ask t d f w = (Inr [], w1) \<and> answer w1 = answer w"
    using Cons.prems by (simp add: ask_def succeeds_def catch_def bnd_def stat_path_def req_def rpc_def perform_def Let_def ret_def)
  then obtain w1 where w1: "ask t d f w = (Inr [], w1)" "answer w1 = answer w" by blast
  have "answer w1 h (Rpc t ''fs.stat'' (JObj [(''path'', JStr (d @ g))])) = Inl e" if "g \<in> set fs" for h g
    using Cons.prems w1(2) that by simp
  from Cons.IH [OF this] obtain xs w2 where "for_each (ask t d) fs w1 = (Inr xs, w2)" "concat xs = []" by blast
  with w1 show ?case by (simp add: bnd_def ret_def)
qed (simp add: ret_def)


end
