(* ===== verification/Toml.thy ===== *)
theory Toml
  imports Tools
begin

text \<open>
  The writer of the configuration file (\<^verbatim>\<open>setup_wizard.py\<close>): keys, values and nested tables.  The data
  is a Python dictionary, here a \<open>json\<close> object; a value TOML has no form for raises \<^verbatim>\<open>TypeError\<close>.

  The reader is the other side of the contract: the part of TOML that the writer uses (tables with a
  header each, one key and value per line, basic strings, decimal integers, booleans, arrays on one
  line), read as TOML reads it; any other text is refused.
\<close>

section \<open>The writer\<close>

definition is_safe_key_char :: "char \<Rightarrow> bool" where
  "is_safe_key_char c \<longleftrightarrow> is_digit c \<or> (65 \<le> ord c \<and> ord c \<le> 90) \<or> (97 \<le> ord c \<and> ord c \<le> 122) \<or>
     c \<in> {CHR ''_'', CHR ''-''}"

definition toml_esc :: "char \<Rightarrow> string" where
  "toml_esc c =
     (if c = CHR 0x22 then [CHR 0x5C, CHR 0x22]
      else if c = CHR 0x5C then [CHR 0x5C, CHR 0x5C]
      else if c = newline then [CHR 0x5C, CHR ''n'']
      else if c = CHR 0x09 then [CHR 0x5C, CHR ''t'']
      else if ord c < 32 then [CHR 0x5C, CHR ''u'', CHR ''0'', CHR ''0''] @ hex2 (ord c)
      else [c])"

definition toml_str :: "string \<Rightarrow> string" where
  "toml_str s = CHR 0x22 # concat (map toml_esc s) @ [CHR 0x22]"

definition toml_key :: "string \<Rightarrow> string" where
  "toml_key name = (if name \<noteq> [] \<and> list_all is_safe_key_char name then name else toml_str name)"

fun toml_value :: "json \<Rightarrow> exn + string" and toml_values :: "json list \<Rightarrow> exn + string list" where
  "toml_value (JBool b) = Inr (if b then ''true'' else ''false'')"
| "toml_value (JInt i) = Inr (int_dec i)"
| "toml_value (JArr xs) = ebnd (toml_values xs) (\<lambda>ts. Inr (''['' @ join '', '' ts @ '']''))"
| "toml_value (JStr s) = Inr (toml_str s)"
| "toml_value v = Inl (PyErr TypeError ''unsupported toml value'')"
| "toml_values [] = Inr []"
| "toml_values (v # vs) = ebnd (toml_value v) (\<lambda>t. ebnd (toml_values vs) (\<lambda>ts. Inr (t # ts)))"

definition is_table :: "json \<Rightarrow> bool" where
  "is_table v \<longleftrightarrow> (case v of JObj _ \<Rightarrow> True | _ \<Rightarrow> False)"

definition header_line :: "string list \<Rightarrow> string" where
  "header_line path = ''['' @ join ''.'' (map toml_key path) @ '']''"

fun scalar_lines :: "(string \<times> json) list \<Rightarrow> exn + string list" where
  "scalar_lines [] = Inr []"
| "scalar_lines ((k, v) # kvs) = (if is_table v then scalar_lines kvs
     else ebnd (toml_value v) (\<lambda>t. ebnd (scalar_lines kvs) (\<lambda>ls. Inr ((toml_key k @ '' = '' @ t) # ls))))"

text \<open>
  \<^verbatim>\<open>_emit_table\<close>: the header, the settings of the table, then its tables, each followed by a blank line.
\<close>

fun emit_table :: "string list \<Rightarrow> (string \<times> json) list \<Rightarrow> exn + string list"
  and emit_tables :: "string list \<Rightarrow> (string \<times> json) list \<Rightarrow> exn + string list" where
  "emit_table path kvs =
     ebnd (scalar_lines kvs) (\<lambda>ls. ebnd (emit_tables path kvs) (\<lambda>ts.
       let head = (if path \<noteq> [] then [header_line path] else []);
           tail = (if list_ex (\<lambda>(k, v). is_table v) kvs then [[]] else [])
       in Inr ((if path \<noteq> [] \<or> ls \<noteq> [] then head @ ls @ tail else []) @ ts)))"
| "emit_tables path [] = Inr []"
| "emit_tables path ((k, v) # kvs) = (case v of
       JObj sub \<Rightarrow> ebnd (emit_table (path @ [k]) sub) (\<lambda>ls. ebnd (emit_tables path kvs) (\<lambda>ts. Inr (ls @ [[]] @ ts)))
     | _ \<Rightarrow> emit_tables path kvs)"

definition render_toml :: "(string \<times> json) list \<Rightarrow> exn + string" where
  "render_toml kvs = ebnd (emit_table [] kvs) (\<lambda>ls.
     Inr (join [newline] (rev (dropWhile (\<lambda>l. l = []) (rev ls))) @ [newline]))"

section \<open>The reader\<close>

text \<open>A basic string after its opening quote; control characters other than the tab, and DEL, are refused.\<close>

definition toml_escape :: "char \<Rightarrow> char option" where
  "toml_escape c = map_of [(CHR 0x22, CHR 0x22), (CHR 0x5C, CHR 0x5C), (CHR ''b'', CHR 0x08), (CHR ''f'', CHR 0x0C),
     (CHR ''n'', CHR 0x0A), (CHR ''r'', CHR 0x0D), (CHR ''t'', CHR 0x09)] c"

definition toml_illegal :: "char \<Rightarrow> bool" where
  "toml_illegal c \<longleftrightarrow> (ord c < 32 \<and> c \<noteq> CHR 0x09) \<or> c = CHR 0x7F"

fun toml_chars :: "string \<Rightarrow> (string \<times> string) option" where
  "toml_chars [] = None"
| "toml_chars (c # s) =
     (if c = CHR 0x22 then Some ([], s)
      else if c = CHR 0x5C then
        (case s of [] \<Rightarrow> None
         | e # s' \<Rightarrow>
            if e = CHR ''u'' then
              (case s' of h1 # h2 # h3 # h4 # r \<Rightarrow>
                 let n = digits_val 16 [h1, h2, h3, h4] in
                 if list_all is_hex_digit [h1, h2, h3, h4] \<and> \<not> (0xD800 \<le> n \<and> n \<le> 0xDFFF)
                 then map_option (\<lambda>(t, r'). (utf8_enc n @ t, r')) (toml_chars r) else None
               | _ \<Rightarrow> None)
            else (case toml_escape e of None \<Rightarrow> None
                | Some x \<Rightarrow> map_option (\<lambda>(t, r'). (x # t, r')) (toml_chars s')))
      else if toml_illegal c then None
      else map_option (\<lambda>(t, r'). (c # t, r')) (toml_chars s))"

definition toml_name :: "string \<Rightarrow> (string \<times> string) option" where
  "toml_name s = (if startswith s [CHR 0x22] then toml_chars (drop 1 s)
     else let k = takeWhile is_safe_key_char s in if k = [] then None else Some (k, drop (length k) s))"

definition toml_nat :: "string \<Rightarrow> (nat \<times> string) option" where
  "toml_nat s = (let d = takeWhile is_digit s in
     if d = [] \<or> (hd d = CHR ''0'' \<and> d \<noteq> ''0'') then None else Some (digits_val 10 d, drop (length d) s))"

text \<open>Values; the first argument bounds the nesting and the length of arrays.\<close>

fun read_value :: "nat \<Rightarrow> string \<Rightarrow> (json \<times> string) option"
  and read_values :: "nat \<Rightarrow> string \<Rightarrow> (json list \<times> string) option" where
  "read_value 0 s = None"
| "read_value (Suc f) s =
     (if startswith s [CHR 0x22] then map_option (\<lambda>(t, r). (JStr t, r)) (toml_chars (drop 1 s))
      else if startswith s ''[]'' then Some (JArr [], drop 2 s)
      else if startswith s ''['' then map_option (\<lambda>(xs, r). (JArr xs, r)) (read_values f (drop 1 s))
      else if startswith s ''true'' then Some (JBool True, drop 4 s)
      else if startswith s ''false'' then Some (JBool False, drop 5 s)
      else if startswith s ''-'' then map_option (\<lambda>(n, r). (JInt (- int n), r)) (toml_nat (drop 1 s))
      else map_option (\<lambda>(n, r). (JInt (int n), r)) (toml_nat s))"
| "read_values 0 s = None"
| "read_values (Suc f) s = (case read_value f s of None \<Rightarrow> None
     | Some (v, r) \<Rightarrow>
         if startswith r '']'' then Some ([v], drop 1 r)
         else if startswith r '', '' then map_option (\<lambda>(vs, r'). (v # vs, r')) (read_values f (drop 2 r))
         else None)"

text \<open>A change of the table at a path; a key is given once, and a table only after the one it is in.\<close>

fun at_path :: "string list \<Rightarrow> ((string \<times> json) list \<Rightarrow> (string \<times> json) list option) \<Rightarrow>
    (string \<times> json) list \<Rightarrow> (string \<times> json) list option" where
  "at_path [] f t = f t"
| "at_path (k # p) f t = (case map_of t k of
       Some (JObj sub) \<Rightarrow> map_option (\<lambda>sub'. AList.update k (JObj sub') t) (at_path p f sub)
     | _ \<Rightarrow> None)"

definition new_key :: "string \<Rightarrow> json \<Rightarrow> (string \<times> json) list \<Rightarrow> (string \<times> json) list option" where
  "new_key k v t = (if map_of t k = None then Some (t @ [(k, v)]) else None)"

fun read_path :: "nat \<Rightarrow> string \<Rightarrow> (string list \<times> string) option" where
  "read_path 0 s = None"
| "read_path (Suc f) s = (case toml_name s of None \<Rightarrow> None
     | Some (k, r) \<Rightarrow>
         if startswith r ''.'' then map_option (\<lambda>(ks, r'). (k # ks, r')) (read_path f (drop 1 r)) else Some ([k], r))"

type_synonym reading = "string list \<times> (string \<times> json) list"

definition read_line :: "string \<Rightarrow> reading \<Rightarrow> reading option" where
  "read_line l st = (case st of (path, root) \<Rightarrow>
     if l = [] then Some st
     else if startswith l ''['' then
       (case read_path (length l) (drop 1 l) of
          Some (ks, r) \<Rightarrow> if r = '']'' then map_option (\<lambda>root'. (ks, root')) (at_path (butlast ks) (new_key (last ks) (JObj [])) root)
             else None
        | None \<Rightarrow> None)
     else (case toml_name l of
          Some (k, r) \<Rightarrow> if startswith r '' = '' then
               (case read_value (length l) (drop 3 r) of
                  Some (v, e) \<Rightarrow> if e = [] then map_option (\<lambda>root'. (path, root')) (at_path path (new_key k v) root) else None
                | None \<Rightarrow> None)
             else None
        | None \<Rightarrow> None))"

fun read_lines :: "string list \<Rightarrow> reading \<Rightarrow> reading option" where
  "read_lines [] st = Some st"
| "read_lines (l # ls) st = Option.bind (read_line l st) (read_lines ls)"

definition toml_loads :: "string \<Rightarrow> (string \<times> json) list option" where
  "toml_loads s = map_option snd (read_lines (split_on newline s) ([], []))"

end
