(* ===== verification/Wizard.thy ===== *)
theory Wizard
  imports Toml
begin

text \<open>
  The interactive set-up (\<^verbatim>\<open>setup_wizard.py\<close>): questions asked on a terminal, whose answers are the lines
  of a list (its end is \<^verbatim>\<open>EOFError\<close>), and the configuration file they make.  Every question is recorded
  with its answer.  What is printed besides is left out.
\<close>

section \<open>Dialogue\<close>

record dialogue =
  answers :: "string list"
  asked :: "(string \<times> string) list"

definition end_of_input :: exn where
  "end_of_input = PyErr (OtherError ''EOFError'') []"

definition prompt :: "string \<Rightarrow> ('z dialogue_scheme, string) io" where
  "prompt q d = (case answers d of
       [] \<Rightarrow> (Inl end_of_input, d)
     | a # as \<Rightarrow> (Inr a, d\<lparr>answers := as, asked := asked d @ [(q, a)]\<rparr>))"

text \<open>A question repeated until an answer is accepted.\<close>

function ask_until :: "string \<Rightarrow> (string \<Rightarrow> 'a option) \<Rightarrow> ('z dialogue_scheme, 'a) io" where
  "ask_until q accept d = (case prompt q d of
       (Inl e, d') \<Rightarrow> (Inl e, d')
     | (Inr a, d') \<Rightarrow> (case accept (strip a) of Some x \<Rightarrow> (Inr x, d') | None \<Rightarrow> ask_until q accept d'))"
  by pat_completeness auto
termination
  by (relation "measure (\<lambda>(q, accept, d). length (answers d))") (auto simp: prompt_def split: list.splits)

definition default_suffix :: "string option \<Rightarrow> string" where
  "default_suffix v = (case v of Some (c # cs) \<Rightarrow> '' ['' @ (c # cs) @ '']'' | _ \<Rightarrow> [])"

definition given_or :: "string option \<Rightarrow> string \<Rightarrow> string option" where
  "given_or v a = (if a \<noteq> [] then Some a else v)"

definition ask :: "string \<Rightarrow> string option \<Rightarrow> ('z dialogue_scheme, string) io" where
  "ask q v = ask_until (q @ default_suffix v @ '': '') (given_or v)"

definition yes_or_no :: "bool \<Rightarrow> string \<Rightarrow> bool option" where
  "yes_or_no v a = (let l = py_lower a in
     if l = [] then Some v else if l \<in> {''y'', ''yes''} then Some True else if l \<in> {''n'', ''no''} then Some False else None)"

definition bool_question :: "string \<Rightarrow> bool \<Rightarrow> string" where
  "bool_question q v = q @ '' ['' @ (if v then ''Y/n'' else ''y/N'') @ '']: ''"

definition ask_bool :: "string \<Rightarrow> bool \<Rightarrow> ('z dialogue_scheme, bool) io" where
  "ask_bool q v = ask_until (bool_question q v) (yes_or_no v)"

text \<open>The loop of \<^verbatim>\<open>_ask_choice\<close> and the one of \<^verbatim>\<open>_ask\<close> inside it repeat the same question: they are one.\<close>

definition ask_choice :: "string \<Rightarrow> string list \<Rightarrow> string \<Rightarrow> ('z dialogue_scheme, string) io" where
  "ask_choice q choices v = ask_until (q @ '' ('' @ join ''/'' choices @ '')'' @ default_suffix (Some v) @ '': '')
     (\<lambda>a. let x = the (given_or (Some v) a) in if x \<in> set choices then Some x else None)"

definition ask_optional :: "string \<Rightarrow> ('z dialogue_scheme, string option) io" where
  "ask_optional q = bnd (prompt (q @ '' [skip]: '')) (\<lambda>a. ret (if strip a = [] then None else Some (strip a)))"

section \<open>The host\<close>

text \<open>What the wizard sees of its host: the platform, APPDATA, the home directory, and which paths exist.
  APPDATA and the home directory are written the way \<^verbatim>\<open>pathlib\<close> writes them.\<close>

record place =
  on_windows :: bool
  appdata :: "string option"
  home_dir :: string
  path_exists :: "string \<Rightarrow> bool"

text \<open>\<^verbatim>\<open>base / name\<close> for a relative name; the empty path is shown as a dot.\<close>

definition sub_path :: "place \<Rightarrow> string \<Rightarrow> string \<Rightarrow> string" where
  "sub_path pl base name = 
     (let sep = (if on_windows pl then CHR 0x5C else CHR ''/'')
      in if base = ''.'' then name else if base \<noteq> [] \<and> last base = sep then base @ name else base @ sep # name)"

definition path_of :: "string \<Rightarrow> string" where
  "path_of s = (if s = [] then ''.'' else s)"

definition suggest :: "place \<Rightarrow> string \<Rightarrow> string option" where
  "suggest pl name = (let root = sub_path pl (home_dir pl) ''Projects''
     in find (path_exists pl) [sub_path pl root name, sub_path pl (sub_path pl root ''Testing'') name])"

text \<open>The test \<^verbatim>\<open>not str(base)\<close> for a missing APPDATA never holds: the empty path is \<open>''.''\<close>.\<close>

definition stub_base :: "place \<Rightarrow> string" where
  "stub_base pl =
     (let base = (if on_windows pl then path_of (case appdata pl of Some a \<Rightarrow> a | None \<Rightarrow> [])
                  else sub_path pl (sub_path pl (home_dir pl) ''.local'') ''share'');
          base' = (if on_windows pl \<and> base = [] then sub_path pl (sub_path pl (home_dir pl) ''AppData'') ''Roaming'' else base)
      in sub_path pl base' ''amiga-fleet-mcp'')"

type_synonym table = "(string \<times> json) list"

definition stub_server :: "place \<Rightarrow> table" where
  "stub_server pl = [(''log_level'', JStr ''info''), (''log_dir'', JStr (sub_path pl (stub_base pl) ''logs'')),
     (''archive_root'', JStr (sub_path pl (stub_base pl) ''archive'')), (''mcp_transport'', JStr ''stdio'')]"

text \<open>\<^verbatim>\<open>s[key]\<close> of a text that was put there.\<close>

definition text_at :: "string \<Rightarrow> table \<Rightarrow> string" where
  "text_at k t = (case map_of t k of Some (JStr s) \<Rightarrow> s | _ \<Rightarrow> [])"

abbreviation put :: "string \<Rightarrow> json \<Rightarrow> table \<Rightarrow> table" where
  "put k v t \<equiv> AList.update k v t"

section \<open>The questions\<close>

definition wizard_server :: "table \<Rightarrow> ('z dialogue_scheme, table) io" where
  "wizard_server s =
     bnd (ask ''log_dir'' (Some (text_at ''log_dir'' s))) (\<lambda>ld.
     bnd (ask ''archive_root'' (Some (text_at ''archive_root'' s))) (\<lambda>ar.
     bnd (ask_choice ''log_level'' [''debug'', ''info'', ''warn'', ''error''] (text_at ''log_level'' s)) (\<lambda>ll.
     bnd (ask_choice ''mcp_transport'' [''stdio'', ''sse'', ''streamable-http''] (text_at ''mcp_transport'' s)) (\<lambda>tr.
     let s' = put ''mcp_transport'' (JStr tr) (put ''log_level'' (JStr ll) (put ''archive_root'' (JStr ar) (put ''log_dir'' (JStr ld) s)))
     in if tr \<noteq> ''stdio'' then bnd (ask ''mcp_http_addr'' (Some ''127.0.0.1:7180'')) (\<lambda>a. ret (put ''mcp_http_addr'' (JStr a) s'))
        else ret s'))))"

definition put_given :: "string \<Rightarrow> string option \<Rightarrow> table \<Rightarrow> table" where
  "put_given k v t = (case v of Some (c # cs) \<Rightarrow> put k (JStr (c # cs)) t | _ \<Rightarrow> t)"

definition wizard_paths :: "place \<Rightarrow> ('z dialogue_scheme, table) io" where
  "wizard_paths pl = (let found = suggest pl ''AmigaQemuTests'' in
     bnd (ask_optional (''amiga_qemu_tests path (default: '' @ (case found of Some (c # cs) \<Rightarrow> c # cs | _ \<Rightarrow> ''none'') @ '')'')) (\<lambda>a.
     bnd (ask_optional ''qemu_binary path (e.g. /usr/bin/qemu-system-ppc)'') (\<lambda>q.
     ret (put_given ''qemu_binary'' q (put_given ''amiga_qemu_tests'' (if a = None then found else a) [])))))"

definition local_endpoint :: "string \<Rightarrow> json" where
  "local_endpoint port = JObj [(''enabled'', JBool True), (''endpoint'', JStr (''127.0.0.1:'' @ port))]"

text \<open>An optional channel: the port is asked for only if it is wanted.\<close>

definition wizard_channel :: "string \<Rightarrow> bool \<Rightarrow> string \<Rightarrow> string \<Rightarrow> table \<Rightarrow> ('z dialogue_scheme, table) io" where
  "wizard_channel name wanted q port chans =
     bnd (ask_bool (''enable channels.'' @ name @ ''?'') wanted) (\<lambda>yes.
     if yes then bnd (ask q (Some port)) (\<lambda>p. ret (put name (local_endpoint p) chans)) else ret chans)"

definition wizard_qemu :: "table \<Rightarrow> ('z dialogue_scheme, table) io" where
  "wizard_qemu t =
     bnd (ask_choice ''machine'' [''pegasos2'', ''amigaone'', ''sam460ex''] ''pegasos2'') (\<lambda>m.
     bnd (ask ''qemu_config (absolute path to config.json)'' None) (\<lambda>qc.
     bnd (ask ''channels.mcpd hostfwd port'' (Some ''4422'')) (\<lambda>p.
     bnd (wizard_channel ''qmp'' True ''qmp port'' ''14422'' [(''mcpd'', local_endpoint p)]) (\<lambda>c1.
     bnd (wizard_channel ''gdb'' False ''gdb port'' ''1234'' c1) (\<lambda>c2.
     ret (put ''channels'' (JObj c2) (put ''qemu_config'' (JStr qc) (put ''machine'' (JStr m) t))))))))"

definition wizard_remote :: "place \<Rightarrow> table \<Rightarrow> ('z dialogue_scheme, table) io" where
  "wizard_remote pl t =
     bnd (ask ''target IP'' None) (\<lambda>ip.
     bnd (ask ''mcpd port'' (Some ''4322'')) (\<lambda>port.
     let c1 = [(''mcpd'', JObj [(''enabled'', JBool True), (''endpoint'', JStr (ip @ '':'' @ port))])] in
     bnd (ask_bool ''FTDI USB-TTL cable wired to internal MCU header (P18 / P15)?'' False) (\<lambda>mcu.
     bnd (if mcu then bnd (ask ''MCU serial port'' (Some (if on_windows pl then ''COM5'' else ''/dev/ttyUSB1''))) (\<lambda>dev.
            ret (put ''mcu'' (JObj [(''enabled'', JBool True), (''port'', JStr dev), (''baud'', JInt 38400)]) c1))
          else ret c1) (\<lambda>c2.
     ret (put ''channels'' (JObj c2) t)))))"

definition input_question :: string where
  "input_question = ''enable keyboard/mouse injection (input.*) for this target? This lets an MCP client type and click on it''"

definition wizard_target :: "place \<Rightarrow> ('z dialogue_scheme, string \<times> table) io" where
  "wizard_target pl =
     bnd (ask ''target name (e.g. x5000-real, qemu-pegasos2)'' None) (\<lambda>name.
     bnd (ask_choice ''type'' [''qemu'', ''remote''] ''remote'') (\<lambda>ty.
     bnd (ask ''tags (comma-separated)'' (Some ty)) (\<lambda>raw.
     bnd (ask ''display_name'' (Some name)) (\<lambda>shown.
     let t = [(''type'', JStr ty), (''display_name'', JStr shown),
           (''tags'', JArr (map JStr (filter (\<lambda>s. s \<noteq> []) (map strip (split_on CHR '','' raw))))), (''channels'', JObj [])] in
     bnd (if ty = ''qemu'' then wizard_qemu t else wizard_remote pl t) (\<lambda>t'.
     bnd (ask_bool input_question False) (\<lambda>yes.
     ret (name, if yes then put ''input'' (JObj [(''enabled'', JBool True)]) t' else t')))))))"

section \<open>Questions use up answers\<close>

definition shrinks :: "('z dialogue_scheme, 'a) io \<Rightarrow> bool" where
  "shrinks m \<longleftrightarrow> (\<forall>d. length (answers (snd (m d))) \<le> length (answers d))"

named_theorems shrinks

lemma shrinks_ret [shrinks]: "shrinks (ret x)"
  by (simp add: shrinks_def ret_def)

lemma shrinks_prompt [shrinks]: "shrinks (prompt q)"
  by (auto simp: shrinks_def prompt_def split: list.split)

lemma shrinks_bnd [shrinks]: "shrinks m \<Longrightarrow> (\<And>x. shrinks (f x)) \<Longrightarrow> shrinks (bnd m f)"
  unfolding shrinks_def bnd_def
  by (auto split: prod.split sum.split) (metis le_trans snd_conv)+

lemma shrinks_if [shrinks]: "shrinks m \<Longrightarrow> shrinks m' \<Longrightarrow> shrinks (if b then m else m')"
  by simp

declare ask_until.simps [simp del]

lemma ask_until_end: "answers d = [] \<Longrightarrow> ask_until q accept d = (Inl end_of_input, d)"
  by (simp add: ask_until.simps [of _ _ d] prompt_def)

lemma ask_until_answer:
  assumes "answers d = a # as" "d' = d\<lparr>answers := as, asked := asked d @ [(q, a)]\<rparr>"
  shows "ask_until q accept d = (case accept (strip a) of Some x \<Rightarrow> (Inr x, d') | None \<Rightarrow> ask_until q accept d')"
  using assms by (simp add: ask_until.simps [of _ _ d] prompt_def split: option.split)

text \<open>What a repeated question leaves: the answers after those it read; and if it ended well, the last one it read was accepted.\<close>

lemma ask_until_result:
  assumes "ask_until q accept d = (r, d')"
  obtains read where "asked d' = asked d @ map (Pair q) read" "answers d = read @ answers d'"
    "dialogue.more d' = dialogue.more d"
    "\<And>x. r = Inr x \<Longrightarrow> read \<noteq> [] \<and> accept (strip (last read)) = Some x"
proof -
  have "\<exists>read. asked d' = asked d @ map (Pair q) read \<and> answers d = read @ answers d' \<and> dialogue.more d' = dialogue.more d
      \<and> (\<forall>x. r = Inr x \<longrightarrow> read \<noteq> [] \<and> accept (strip (last read)) = Some x)"
    using assms
  proof (induction "answers d" arbitrary: d)
    case Nil
    then show ?case by (auto simp: ask_until_end)
  next
    case (Cons a as)
    let ?d = "d\<lparr>answers := as, asked := asked d @ [(q, a)]\<rparr>"
    show ?case
    proof (cases "accept (strip a)")
      case None
      then have "ask_until q accept ?d = (r, d')"
        using Cons.prems ask_until_answer [OF Cons.hyps(2) [symmetric] refl, of q accept] by simp
      from Cons.hyps(1) [OF _ this] obtain read where "asked d' = asked ?d @ map (Pair q) read" "answers ?d = read @ answers d'"
        "dialogue.more d' = dialogue.more ?d" "\<forall>x. r = Inr x \<longrightarrow> read \<noteq> [] \<and> accept (strip (last read)) = Some x" by auto
      then show ?thesis using Cons.hyps(2) [symmetric] by (intro exI [of _ "a # read"]) auto
    next
      case (Some x)
      then show ?thesis
        using Cons.prems ask_until_answer [OF Cons.hyps(2) [symmetric] refl, of q accept] Cons.hyps(2) [symmetric]
        by (intro exI [of _ "[a]"]) auto
    qed
  qed
  then show ?thesis using that by blast
qed

lemma ask_until_uses: "ask_until q accept d = (Inr x, d') \<Longrightarrow> length (answers d') < length (answers d)"
  by (erule ask_until_result) fastforce

lemma shrinks_ask_until [shrinks]: "shrinks (ask_until q accept)"
  unfolding shrinks_def
proof
  fix d
  show "length (answers (snd (ask_until q accept d))) \<le> length (answers d)"
    by (cases "ask_until q accept d") (auto elim: ask_until_result)
qed

lemma shrinks_target [shrinks]: "shrinks (wizard_target pl)"
  unfolding wizard_target_def wizard_qemu_def wizard_remote_def wizard_channel_def ask_def ask_choice_def ask_bool_def Let_def
  by (intro shrinks)

text \<open>\<^verbatim>\<open>while _ask_bool("add a target?", default=not cfg["targets"])\<close>.\<close>

function wizard_targets :: "place \<Rightarrow> table \<Rightarrow> ('z dialogue_scheme, table) io" where
  "wizard_targets pl ts d = (case ask_bool ''add a target?'' (ts = []) d of
       (Inl e, d') \<Rightarrow> (Inl e, d')
     | (Inr yes, d') \<Rightarrow> if \<not> yes then (Inr ts, d')
         else (case wizard_target pl d' of
             (Inl e, d'') \<Rightarrow> (Inl e, d'')
           | (Inr nt, d'') \<Rightarrow> wizard_targets pl (put (fst nt) (JObj (snd nt)) ts) d''))"
  by pat_completeness auto
termination
proof (relation "measure (\<lambda>(pl, ts, d). length (answers d))", goal_cases)
  case (2 pl ts d r d' yes r' d'' nt)
  have "length (answers d'') \<le> length (answers d')"
    using shrinks_target [of pl] 2 by (auto simp: shrinks_def dest!: sym [of "(_, d'')"] spec [of _ d'])
  moreover have "length (answers d') < length (answers d)"
    using 2 ask_until_uses [of _ _ d yes d'] by (auto simp: ask_bool_def)
  ultimately show ?case by simp
qed simp

declare wizard_targets.simps [simp del]

definition wizard_default_target :: "table \<Rightarrow> table \<Rightarrow> ('z dialogue_scheme, table) io" where
  "wizard_default_target ts s = (case map fst ts of
       [] \<Rightarrow> ret s
     | [n] \<Rightarrow> ret (put ''default_target'' (JStr n) s)
     | n # ns \<Rightarrow> bnd (ask_bool ''set [server] default_target?'' True) (\<lambda>yes.
         if yes then bnd (ask_choice ''default_target'' (n # ns) n) (\<lambda>x. ret (put ''default_target'' (JStr x) s)) else ret s))"

definition default_questions :: "(string \<times> string) list" where
  "default_questions = [(''dest_volume'', ''AmigaDOS volume to install into (e.g. '' @ [CHR 0x22] @ ''BootTest:'' @ [CHR 0x22] @ '')''),
     (''sources_dir'', ''host directory holding source ISOs / LHAs''),
     (''machine'', ''canonical machine identifier (e.g. '' @ [CHR 0x22] @ ''X5000'' @ [CHR 0x22] @ '')'')]"

fun ask_defaults :: "(string \<times> string) list \<Rightarrow> table \<Rightarrow> ('z dialogue_scheme, table) io" where
  "ask_defaults [] d = ret d"
| "ask_defaults ((k, hint) # qs) d = bnd (ask_optional (k @ '' '' @ em_dash @ '' '' @ hint)) (\<lambda>v. ask_defaults qs (put_given k v d))"

definition wizard_defaults :: "('z dialogue_scheme, table) io" where
  "wizard_defaults = bnd (ask_bool (newline # ''configure [defaults] (per-tool parameter defaults)?'') False) (\<lambda>yes.
     if yes then ask_defaults default_questions [] else ret [])"

section \<open>Writing the file\<close>

text \<open>
  What the file system does to the one file that is written: all goes well, its directory cannot be made, it cannot
  be opened, or the write stops after some bytes of the file that opening it had emptied.  A file holds the text that
  a reader of text files sees: line ends are those of the text.
\<close>

datatype saving = Saved | No_directory exn | Not_opened exn | Cut_off nat exn

record init_state = dialogue +
  disk :: "(string \<times> string) list"
  saving :: saving

definition strip_empty :: "table \<Rightarrow> table" where
  "strip_empty cfg = filter (\<lambda>(k, v). v \<noteq> JObj []) cfg"

definition ask_config :: "place \<Rightarrow> bool \<Rightarrow> ('z dialogue_scheme, table) io" where
  "ask_config pl non_interactive =
     (let s = stub_server pl in
      if non_interactive then ret (strip_empty [(''server'', JObj s), (''paths'', JObj []), (''defaults'', JObj []), (''targets'', JObj [])])
      else bnd (wizard_server s) (\<lambda>s1. bnd (wizard_paths pl) (\<lambda>p. bnd (wizard_targets pl []) (\<lambda>ts.
        bnd (wizard_default_target ts s1) (\<lambda>s2. bnd wizard_defaults (\<lambda>df.
        ret (strip_empty [(''server'', JObj s2), (''paths'', JObj p), (''defaults'', JObj df), (''targets'', JObj ts)])))))))"

definition put_file :: "string \<Rightarrow> string \<Rightarrow> (init_state, unit) io" where
  "put_file f body = modify (\<lambda>s. s\<lparr>disk := AList.update f body (disk s)\<rparr>)"

text \<open>A text that is not valid UTF-8 holds a lone surrogate, which cannot be encoded; the file is empty by then.\<close>

definition not_encodable :: exn where
  "not_encodable = PyErr (OtherError ''UnicodeEncodeError'') []"

definition write_text :: "string \<Rightarrow> string \<Rightarrow> (init_state, unit) io" where
  "write_text f body = bnd (gets saving) (\<lambda>o'. case o' of
       No_directory e \<Rightarrow> raise e
     | Not_opened e \<Rightarrow> raise e
     | Cut_off n e \<Rightarrow> if utf8_valid body then bnd (put_file f (take n body)) (\<lambda>_. raise e)
         else bnd (put_file f []) (\<lambda>_. raise not_encodable)
     | Saved \<Rightarrow> if utf8_valid body then put_file f body
         else bnd (put_file f []) (\<lambda>_. raise not_encodable))"

text \<open>\<open>valid\<close> is \<^verbatim>\<open>Config.model_validate\<close>.\<close>

definition write_config :: "(table \<Rightarrow> bool) \<Rightarrow> string \<Rightarrow> table \<Rightarrow> (init_state, int) io" where
  "write_config valid dest cfg =
     (if \<not> valid cfg then ret 70
      else case render_toml cfg of
          Inl e \<Rightarrow> raise e
        | Inr body \<Rightarrow> bnd (write_text dest body) (\<lambda>_. ret 0))"

definition overwrite_question :: "string \<Rightarrow> string" where
  "overwrite_question dest = ''overwrite existing '' @ dest @ ''?''"

definition run_init :: "place \<Rightarrow> (table \<Rightarrow> bool) \<Rightarrow> string \<Rightarrow> bool \<Rightarrow> bool \<Rightarrow> (init_state, int) io" where
  "run_init pl valid dest force non_interactive =
     bnd (gets (\<lambda>s. map_of (disk s) dest)) (\<lambda>old.
     if old \<noteq> None \<and> \<not> force \<and> non_interactive then ret 65
     else bnd (if old \<noteq> None \<and> \<not> force then ask_bool (overwrite_question dest) False else ret True) (\<lambda>go.
       if \<not> go then ret 0 else bnd (ask_config pl non_interactive) (write_config valid dest)))"

end
