(* ===== verification/Toml_Correct.thy ===== *)
theory Toml_Correct
  imports Toml
begin

text \<open>
  The configuration that is written is read back: the same settings in the same tables, the settings of
  each table before its tables, provided no text holds the character DEL, which TOML forbids and the
  writer does not escape.
\<close>

section \<open>What is written is read back\<close>

text \<open>Texts with no DEL character, which the writer leaves as it is and TOML forbids.\<close>

definition no_del :: "string \<Rightarrow> bool" where
  "no_del s \<longleftrightarrow> CHR 0x7F \<notin> set s"

lemma control_digits:
  assumes "n < 32"
  shows "\<exists>a b. hex2 n = [a, b] \<and> is_hex_digit a \<and> is_hex_digit b \<and> digits_val 16 [CHR ''0'', CHR ''0'', a, b] = n"
proof -
  have dig: "\<forall>c \<in> set (hex2 n). is_hex_digit c" using nat_hex_digits [of n] by (auto simp: hex2_def is_hex_digit_def is_digit_def)
  have val: "digits_val 16 (hex2 n) = n" using digits_val_hex [of n] by (auto simp: hex2_def digits_val_def digit_val_def)
  have "length (hex2 n) = 2" using assms
    by (auto simp: hex2_def nat_hex_def nat_base.simps [of 16 n] nat_base.simps [of 16 "n div 16"])
  then obtain a b where "hex2 n = [a, b]" by (auto simp: numeral_2_eq_2 length_Suc_conv)
  then show ?thesis using dig val by (auto simp: digits_val_def digit_val_def)
qed

lemma toml_char_back:
  assumes "c \<noteq> CHR 0x7F"
  shows "toml_chars (toml_esc c @ s) = map_option (\<lambda>(t, r). (c # t, r)) (toml_chars s)"
proof -
  consider "c \<in> {CHR 0x22, CHR 0x5C, newline, CHR 0x09}" | "c \<notin> {CHR 0x22, CHR 0x5C, newline, CHR 0x09}" "ord c < 32"
    | "c \<notin> {CHR 0x22, CHR 0x5C, newline, CHR 0x09}" "\<not> ord c < 32" by blast
  then show ?thesis
  proof cases
    case 1
    then show ?thesis by (auto simp: toml_esc_def toml_escape_def)
  next
    case 2
    obtain a b where ab: "hex2 (ord c) = [a, b]" "is_hex_digit a" "is_hex_digit b" "digits_val 16 [CHR ''0'', CHR ''0'', a, b] = ord c"
      using control_digits [OF 2(2)] by blast
    have "utf8_enc (ord c) = [c]" using 2(2) by (simp add: utf8_enc_def)
    then show ?thesis using 2 ab by (auto simp: toml_esc_def is_hex_digit_def is_digit_def)
  next
    case 3
    then show ?thesis using assms by (auto simp: toml_esc_def toml_illegal_def)
  qed
qed

lemma toml_chars_back: "no_del s \<Longrightarrow> toml_chars (concat (map toml_esc s) @ CHR 0x22 # r) = Some (s, r)"
proof (induction s)
  case (Cons c s)
  then have "c \<noteq> CHR 0x7F" "no_del s" by (auto simp: no_del_def)
  with Cons.IH show ?case by (simp add: toml_char_back del: toml_chars.simps)
qed simp

lemma toml_str_back: "no_del s \<Longrightarrow> toml_chars (drop 1 (toml_str s @ r)) = Some (s, r)"
  by (simp add: toml_str_def toml_chars_back)

lemma toml_name_back:
  assumes "no_del k" "r \<noteq> [] \<longrightarrow> \<not> is_safe_key_char (hd r)"
  shows "toml_name (toml_key k @ r) = Some (k, r)"
proof (cases "k \<noteq> [] \<and> list_all is_safe_key_char k")
  case True
  then have "\<not> startswith (k @ r) [CHR 0x22]" by (cases k) (auto simp: startswith_Cons is_safe_key_char_def is_digit_def)
  moreover have "takeWhile is_safe_key_char (k @ r) = k" using True assms(2) by (cases r) (auto simp: takeWhile_append list_all_iff)
  ultimately show ?thesis using True by (simp add: toml_name_def toml_key_def Let_def)
next
  case False
  then show ?thesis using toml_chars_back [OF assms(1), of r] by (auto simp: toml_name_def toml_key_def toml_str_def startswith_Cons)
qed

lemma toml_nat_back:
  assumes "r \<noteq> [] \<longrightarrow> \<not> is_digit (hd r)"
  shows "toml_nat (nat_dec n @ r) = Some (n, r)"
proof -
  have "takeWhile is_digit (nat_dec n @ r) = nat_dec n"
    using nat_dec_digits [of n] assms by (cases r) (auto simp: takeWhile_append)
  moreover have "hd (nat_dec n) \<noteq> CHR ''0'' \<or> nat_dec n = ''0''"
    using nat_base_hd_nonzero [of 10 n] nat_dec_zero by (cases "n = 0") (auto simp: nat_dec_def)
  ultimately show ?thesis by (auto simp: toml_nat_def Let_def digits_val_dec)
qed

fun plain_value :: "json \<Rightarrow> bool" and plain_values :: "json list \<Rightarrow> bool" where
  "plain_value (JStr s) = no_del s"
| "plain_value (JArr xs) = plain_values xs"
| "plain_value v = True"
| "plain_values [] = True"
| "plain_values (x # xs) = (plain_value x \<and> plain_values xs)"

lemma startswith_digit: "is_digit c \<Longrightarrow> \<not> is_digit x \<Longrightarrow> \<not> startswith (c # s) (x # xs)"
  by (auto simp: startswith_Cons)

lemma read_int:
  assumes "r \<noteq> [] \<longrightarrow> \<not> is_digit (hd r)"
  shows "read_value (Suc f) (int_dec i @ r) = Some (JInt i, r)"
proof (cases "i < 0")
  case True
  then show ?thesis using toml_nat_back [OF assms, of "nat (- i)"] by (simp add: int_dec_def startswith_Cons)
next
  case False
  obtain c ds where c: "nat_dec (nat i) = c # ds" by (cases "nat_dec (nat i)") auto
  then have "is_digit c" using nat_dec_digits [of "nat i"] by simp
  then have "\<not> startswith (int_dec i @ r) (x # xs)" if "x \<in> set ''[tf-'' \<or> x = CHR 0x22" for x xs
    using False c that by (auto simp: int_dec_def startswith_Cons is_digit_def)
  then show ?thesis using False toml_nat_back [OF assms, of "nat i"] by (simp add: int_dec_def)
qed

lemma value_nonempty: "toml_value v = Inr t \<Longrightarrow> t \<noteq> []"
  by (cases v) (auto simp: toml_str_def int_dec_def ebnd_Inr split: if_splits)

lemma values_shape: "toml_values vs = Inr ts \<Longrightarrow> length ts = length vs"
  by (induction vs arbitrary: ts) (auto simp: ebnd_Inr)

lemma length_join_Cons: "length (join sep (t # ts)) = length t + (if ts = [] then 0 else length sep + length (join sep ts))"
  by (cases ts) auto

lemma value_start: "toml_value v = Inr t \<Longrightarrow> \<not> startswith (t @ r) '']''"
proof (cases v)
  case (JInt i)
  assume "toml_value v = Inr t"
  obtain c ds where c: "nat_dec (nat \<bar>i\<bar>) = c # ds" by (cases "nat_dec (nat \<bar>i\<bar>)") auto
  then have "is_digit c" using nat_dec_digits [of "nat \<bar>i\<bar>"] by simp
  then show ?thesis using JInt c \<open>toml_value v = Inr t\<close>
    by (auto simp: int_dec_def startswith_Cons is_digit_def split: if_splits)
qed (auto simp: ebnd_Inr toml_str_def startswith_Cons split: if_splits)

lemma read_value_back:
  shows "toml_value v = Inr t \<Longrightarrow> plain_value v \<Longrightarrow> r \<noteq> [] \<longrightarrow> \<not> is_digit (hd r) \<Longrightarrow> length t \<le> f \<Longrightarrow> read_value f (t @ r) = Some (v, r)"
    and "toml_values vs = Inr ts \<Longrightarrow> plain_values vs \<Longrightarrow> vs \<noteq> [] \<Longrightarrow> length (join '', '' ts) + 1 \<le> f \<Longrightarrow>
      read_values f (join '', '' ts @ '']'' @ r) = Some (vs, r)"
proof (induction v and vs arbitrary: t r f and ts r f rule: toml_value_toml_values.induct)
  case (1 b)
  then obtain g where "f = Suc g" by (cases f) (auto split: if_splits)
  with 1 show ?case by (cases b) (auto simp: startswith_Cons)
next
  case (2 i)
  then obtain g where "f = Suc g" using value_nonempty [OF 2(1)] by (cases f) auto
  with 2 show ?case using read_int [of r g i] by (simp del: read_value.simps)
next
  case (3 xs)
  then obtain ts where ts: "toml_values xs = Inr ts" "t = ''['' @ join '', '' ts @ '']''" by (auto simp: ebnd_Inr)
  then obtain g where g: "f = Suc g" using 3 by (cases f) auto
  show ?case
  proof (cases "xs = []")
    case True
    then show ?thesis using ts g by (auto simp: startswith_Cons)
  next
    case False
    then obtain x xs' where "xs = x # xs'" by (cases xs) auto
    then obtain u us where u: "ts = u # us" "toml_value x = Inr u" using ts(1) by (auto simp: ebnd_Inr)
    have "\<not> startswith (join '', '' ts @ '']'' @ r) '']''"
      using value_start [OF u(2)] u(1) by (cases us) auto
    then have n: "\<not> startswith (t @ r) ''[]''" using ts(2) by (auto simp: startswith_Cons)
    have "read_values g (join '', '' ts @ '']'' @ r) = Some (xs, r)"
      using 3 ts g False by auto
    then show ?thesis using n ts(2) g by (auto simp: startswith_Cons)
  qed
next
  case (4 s)
  then obtain g where "f = Suc g" by (cases f) (auto simp: toml_str_def)
  with 4 toml_chars_back [of s r] show ?case by (auto simp: toml_str_def startswith_Cons)
next
  case (7 v vs)
  then obtain u us where u: "toml_value v = Inr u" "toml_values vs = Inr us" "ts = u # us" by (auto simp: ebnd_Inr)
  obtain g where g: "f = Suc g" using 7 by (cases f) auto
  show ?case
  proof (cases "vs = []")
    case True
    have "read_value g (u @ '']'' @ r) = Some (v, '']'' @ r)"
      using 7 u g True by (auto simp: is_digit_def)
    then show ?thesis using True u g by (auto simp: startswith_Cons)
  next
    case False
    then have us: "us \<noteq> []" using values_shape [OF u(2)] by auto
    then have j: "join '', '' ts = u @ '', '' @ join '', '' us" using u(3) by (cases us) auto
    have "read_value g (u @ '', '' @ join '', '' us @ '']'' @ r) = Some (v, '', '' @ join '', '' us @ '']'' @ r)"
      using 7 u g j by (auto simp: is_digit_def)
    moreover have "read_values g (join '', '' us @ '']'' @ r) = Some (vs, r)"
      using 7 u g j False by auto
    ultimately show ?thesis using j g by (auto simp: startswith_Cons)
  qed
qed auto

section \<open>Lines\<close>

lemma key_start:
  assumes "\<not> is_safe_key_char c" "c \<noteq> CHR 0x22"
  shows "\<not> startswith (toml_key k @ r) (c # s)"
  using assms by (cases k) (auto simp: toml_key_def toml_str_def startswith_Cons)

lemma read_path_back:
  "path \<noteq> [] \<Longrightarrow> list_all no_del path \<Longrightarrow> length (join ''.'' (map toml_key path)) < f \<Longrightarrow>
   read_path f (join ''.'' (map toml_key path) @ '']'') = Some (path, '']'')"
proof (induction path arbitrary: f)
  case (Cons k path)
  obtain g where g: "f = Suc g" using Cons.prems by (cases f) auto
  have unsafe: "\<not> is_safe_key_char CHR '']''" "\<not> is_safe_key_char CHR ''.''" by (auto simp: is_safe_key_char_def is_digit_def)
  show ?case
  proof (cases path)
    case Nil
    then show ?thesis using g Cons.prems toml_name_back [of k "'']''"] unsafe by (simp add: startswith_Cons)
  next
    case (Cons k' path')
    let ?rest = "join ''.'' (map toml_key path)"
    have "read_path g (?rest @ '']'') = Some (path, '']'')" using Cons.IH Cons.prems g Cons by auto
    then show ?thesis using g Cons Cons.prems toml_name_back [of k "''.'' @ ?rest @ '']''"] unsafe
      by (auto simp: startswith_Cons)
  qed
qed simp

lemma read_header:
  assumes "list_all no_del (p @ [k])"
  shows "read_line (header_line (p @ [k])) (c, root) = map_option (Pair (p @ [k])) (at_path p (new_key k (JObj [])) root)"
proof -
  have "read_path (length (header_line (p @ [k]))) (join ''.'' (map toml_key (p @ [k])) @ '']'') = Some (p @ [k], '']'')"
    by (rule read_path_back) (use assms in \<open>auto simp: header_line_def\<close>)
  then show ?thesis by (simp add: read_line_def header_line_def startswith_Cons)
qed

lemma read_setting:
  assumes "no_del k" "toml_value v = Inr t" "plain_value v"
  shows "read_line (toml_key k @ '' = '' @ t) (path, root) = map_option (Pair path) (at_path path (new_key k v) root)"
proof -
  let ?l = "toml_key k @ '' = '' @ t"
  have "\<not> startswith ?l ''[''" by (rule key_start) (auto simp: is_safe_key_char_def is_digit_def)
  moreover have "toml_name ?l = Some (k, '' = '' @ t)"
    by (rule toml_name_back [OF assms(1)]) (auto simp: is_safe_key_char_def is_digit_def)
  moreover have "read_value (length ?l) t = Some (v, [])" using read_value_back(1) [OF assms(2,3), of "[]" "length ?l"] by simp
  ultimately show ?thesis by (auto simp: read_line_def startswith_Cons)
qed

lemma read_lines_append: "read_lines (ls @ ls') st = Option.bind (read_lines ls st) (read_lines ls')"
  by (induction ls arbitrary: st) (auto split: Option.bind_splits)

section \<open>Tables\<close>

lemma at_path_append: "at_path (p @ q) g r = at_path p (at_path q g) r"
  by (induction p arbitrary: r) (auto split: option.splits json.splits)

lemma at_path_then:
  "at_path p (\<lambda>t. Option.bind (f t) g) r = Some r' \<Longrightarrow> \<exists>r1. at_path p f r = Some r1 \<and> at_path p g r1 = Some r'"
proof (induction p arbitrary: r r')
  case (Cons k p)
  then obtain s s' where s: "map_of r k = Some (JObj s)" "at_path p (\<lambda>t. Option.bind (f t) g) s = Some s'" "r' = AList.update k (JObj s') r"
    by (auto split: option.splits json.splits)
  from Cons.IH [OF s(2)] obtain s1 where "at_path p f s = Some s1" "at_path p g s1 = Some s'" by blast
  then show ?case using s(1,3) by (auto simp: update_conv')
qed (auto simp: Option.bind_eq_Some_conv)

definition grow :: "(string \<times> json) list \<Rightarrow> (string \<times> json) list \<Rightarrow> (string \<times> json) list option" where
  "grow xs t = (if list_all (\<lambda>(k, _). map_of t k = None) xs then Some (t @ xs) else None)"

lemma new_key_grow: "new_key k v = grow [(k, v)]"
  by (rule ext) (simp add: new_key_def grow_def)

lemma grow_append:
  "distinct (map fst (xs @ ys)) \<Longrightarrow> grow (xs @ ys) = (\<lambda>t. Option.bind (grow xs t) (grow ys))"
proof (rule ext)
  fix t
  assume d: "distinct (map fst (xs @ ys))"
  have "map_of (t @ xs) k = None \<longleftrightarrow> map_of t k = None" if "(k, v) \<in> set ys" for k v
    using that d by (force simp: map_of_eq_None_iff)
  then have "list_all (\<lambda>(k, _). map_of (t @ xs) k = None) ys \<longleftrightarrow> list_all (\<lambda>(k, _). map_of t k = None) ys"
    unfolding list_all_iff by (intro ball_cong refl) (auto simp del: map_of_append)
  then show "grow (xs @ ys) t = Option.bind (grow xs t) (grow ys)"
    by (simp add: grow_def del: map_of_append)
qed

lemma grow_inside:
  fixes s ys :: "(string \<times> json) list"
  assumes "list_all (\<lambda>(k', _). map_of s k' = None) ys"
  shows "grow [(k, JObj (s @ ys))] = (\<lambda>t. Option.bind (grow [(k, JObj s)] t) (at_path [k] (grow ys)))"
proof
  fix t :: "(string \<times> json) list"
  have "AList.update k v (t @ [(k, w)]) = t @ [(k, v)]" if "map_of t k = None" for v w :: json and t :: "(string \<times> json) list"
    using that by (induction t) (auto split: if_splits)
  then show "grow [(k, JObj (s @ ys))] t = Option.bind (grow [(k, JObj s)] t) (at_path [k] (grow ys))"
    using assms by (auto simp: grow_def map_add_def)
qed

fun reordered :: "(string \<times> json) list \<Rightarrow> (string \<times> json) list"
  and reordered_tables :: "(string \<times> json) list \<Rightarrow> (string \<times> json) list" where
  "reordered kvs = filter (\<lambda>(k, v). \<not> is_table v) kvs @ reordered_tables kvs"
| "reordered_tables [] = []"
| "reordered_tables ((k, v) # kvs) = (case v of JObj sub \<Rightarrow> (k, JObj (reordered sub)) # reordered_tables kvs
     | _ \<Rightarrow> reordered_tables kvs)"

text \<open>Dictionaries: distinct keys at every level, no DEL in any key or value.\<close>

fun wf_table :: "(string \<times> json) list \<Rightarrow> bool" and wf_entries :: "(string \<times> json) list \<Rightarrow> bool" where
  "wf_table kvs \<longleftrightarrow> distinct (map fst kvs) \<and> wf_entries kvs"
| "wf_entries [] \<longleftrightarrow> True"
| "wf_entries ((k, v) # kvs) \<longleftrightarrow> no_del k \<and> (case v of JObj sub \<Rightarrow> wf_table sub | _ \<Rightarrow> plain_value v) \<and> wf_entries kvs"

lemma is_table_simps [simp]:
  "is_table (JObj kvs)" "\<not> is_table JNull" "\<not> is_table (JBool b)" "\<not> is_table (JInt i)" "\<not> is_table (JFloat s)"
  "\<not> is_table (JStr s)" "\<not> is_table (JArr xs)"
  by (simp_all add: is_table_def)

lemma reordered_keys: "set (map fst (reordered_tables kvs)) \<subseteq> fst ` set kvs"
proof (induction kvs)
  case (Cons kv kvs)
  obtain k v where "kv = (k, v)" by force
  with Cons show ?case by (cases v) auto
qed simp

lemma update_same: "map_of t k = Some v \<Longrightarrow> AList.update k v t = t"
  by (induction t) auto

lemma at_path_same: "at_path p Some r = Some r' \<Longrightarrow> r' = r"
proof (induction p arbitrary: r r')
  case (Cons k p)
  then obtain s s' where "map_of r k = Some (JObj s)" "at_path p Some s = Some s'" "r' = AList.update k (JObj s') r"
    by (auto split: option.splits json.splits)
  moreover from this(2) have "s' = s" by (rule Cons.IH)
  ultimately show ?case by (simp add: update_same)
qed simp

lemma grow_Nil: "grow [] = Some"
  by (rule ext) (simp add: grow_def)

declare reordered.simps [simp del]

lemma reordered_distinct: "distinct (map fst kvs) \<Longrightarrow> distinct (map fst (reordered kvs))"
proof (induction kvs)
  case (Cons kv kvs)
  obtain k v where kv: "kv = (k, v)" by force
  then have k: "k \<notin> set (map fst (reordered_tables kvs))" "k \<notin> fst ` set kvs" using Cons.prems reordered_keys by auto
  show ?case using Cons k kv by (cases v) (auto simp: is_table_def reordered.simps)
qed (simp add: reordered.simps)

lemma grow_two:
  assumes "at_path p (grow (xs @ ys)) r = Some r'" "distinct (map fst (xs @ ys))"
  obtains r1 where "at_path p (grow xs) r = Some r1" "at_path p (grow ys) r1 = Some r'"
  using at_path_then [of p "grow xs" "grow ys" r r'] assms grow_append [OF assms(2)] by auto

lemma read_scalars:
  "scalar_lines kvs = Inr ls \<Longrightarrow> wf_entries kvs \<Longrightarrow> distinct (map fst kvs) \<Longrightarrow>
   at_path p (grow (filter (\<lambda>(k, v). \<not> is_table v) kvs)) root = Some root' \<Longrightarrow> read_lines ls (p, root) = Some (p, root')"
proof (induction kvs arbitrary: ls root)
  case Nil
  then show ?case using at_path_same by (auto simp: grow_Nil)
next
  case (Cons kv kvs)
  obtain k v where kv: "kv = (k, v)" by force
  show ?case
  proof (cases "is_table v")
    case True
    then show ?thesis using Cons kv by auto
  next
    case False
    then obtain t ls' where t: "toml_value v = Inr t" "scalar_lines kvs = Inr ls'" "ls = (toml_key k @ '' = '' @ t) # ls'"
      using Cons.prems(1) kv by (auto simp: ebnd_Inr)
    let ?xs = "filter (\<lambda>(k, v). \<not> is_table v) kvs"
    have "distinct (map fst ([(k, v)] @ ?xs))" using Cons.prems(3) kv by (auto simp: distinct_map_filter)
    then obtain r1 where r1: "at_path p (grow [(k, v)]) root = Some r1" "at_path p (grow ?xs) r1 = Some root'"
      using Cons.prems(4) kv False grow_two [of p "[(k, v)]" ?xs root root'] by auto
    have "no_del k" "plain_value v" using Cons.prems(2) kv False by (auto simp: is_table_def split: json.splits)
    then have "read_line (hd ls) (p, root) = Some (p, r1)"
      using read_setting [OF _ t(1), of k p root] r1(1) t(3) by (simp add: new_key_grow)
    moreover have "read_lines ls' (p, r1) = Some (p, root')" using Cons.IH [OF t(2) _ _ r1(2)] Cons.prems kv by auto
    ultimately show ?thesis using t(3) by simp
  qed
qed

lemma scalar_lines_Nil: "scalar_lines kvs = Inr ls \<Longrightarrow> (ls = []) = (filter (\<lambda>(k, v). \<not> is_table v) kvs = [])"
  by (induction kvs arbitrary: ls) (auto simp: ebnd_Inr split: if_splits)

lemma read_line_Nil [simp]: "read_line [] st = Some st"
  by (simp add: read_line_def split: prod.split)

lemma read_blank: "read_lines ([] # ls) st = read_lines ls st" "read_lines (ls @ [[]]) st = read_lines ls st"
  by (auto simp: read_line_def read_lines_append split: prod.split Option.bind_split)

text \<open>The lines of a table add it, once read, to the table it is in.\<close>

lemma read_tables:
  shows "emit_table path kvs = Inr ls \<Longrightarrow> wf_table kvs \<Longrightarrow> path = p @ [k] \<Longrightarrow> list_all no_del path \<Longrightarrow>
      at_path p (grow [(k, JObj (reordered kvs))]) root = Some root' \<Longrightarrow> \<exists>c'. read_lines ls (c, root) = Some (c', root')"
    and "emit_tables path kvs = Inr ls \<Longrightarrow> wf_entries kvs \<Longrightarrow> distinct (map fst kvs) \<Longrightarrow> list_all no_del path \<Longrightarrow>
      at_path path (grow (reordered_tables kvs)) root = Some root' \<Longrightarrow> \<exists>c'. read_lines ls (c, root) = Some (c', root')"
proof (induction path kvs and path kvs arbitrary: ls p k c root root' and ls c root root' rule: emit_table_emit_tables.induct)
  case (1 path kvs)
  let ?sc = "filter (\<lambda>(k, v). \<not> is_table v) kvs"
  obtain ss ts where ss: "scalar_lines kvs = Inr ss" and ts: "emit_tables path kvs = Inr ts"
    and ls: "ls = header_line path # ss @ (if list_ex (\<lambda>(k, v). is_table v) kvs then [[]] else []) @ ts"
    using 1(2,4) by (auto simp: ebnd_Inr Let_def)
  have d: "distinct (map fst (reordered kvs))" using "1.prems"(2) reordered_distinct by auto
  have g: "grow [(k, JObj (reordered kvs))]
      = (\<lambda>t. Option.bind (grow [(k, JObj [])] t) (at_path [k] (grow (reordered kvs))))"
    using grow_inside [of "[]" "reordered kvs" k] by (simp add: list_all_iff)
  obtain r1 where r1: "at_path p (grow [(k, JObj [])]) root = Some r1" "at_path p (at_path [k] (grow (reordered kvs))) r1 = Some root'"
    using at_path_then [of p "grow [(k, JObj [])]" _ root root'] "1.prems"(5) unfolding g by blast
  have "at_path path (grow (?sc @ reordered_tables kvs)) r1 = Some root'"
    using r1(2) unfolding "1.prems"(3) at_path_append by (simp add: reordered.simps)
  then obtain r2 where r2: "at_path path (grow ?sc) r1 = Some r2" "at_path path (grow (reordered_tables kvs)) r2 = Some root'"
    using grow_two [of path ?sc "reordered_tables kvs" r1 root'] d by (auto simp: reordered.simps)
  have "read_line (header_line path) (c, root) = Some (path, r1)"
    using read_header [of p k c root] "1.prems"(3,4) r1(1) by (simp add: new_key_grow)
  moreover have "read_lines ss (path, r1) = Some (path, r2)" using read_scalars [OF ss _ _ r2(1)] "1.prems"(2) by simp
  moreover obtain c' where "read_lines ts (path, r2) = Some (c', root')" using "1.IH" [OF ts _ _ "1.prems"(4) r2(2)] "1.prems"(2) by force
  ultimately have "read_lines ls (c, root) = Some (c', root')"
    unfolding ls by (auto simp: read_lines_append read_blank)
  then show ?case by blast
next
  case (2 path)
  then show ?case using at_path_same by (auto simp: grow_Nil)
next
  case (3 path k v kvs)
  show ?case
  proof (cases "is_table v")
    case False
    then show ?thesis using 3 by (cases v) (auto simp: is_table_def)
  next
    case True
    then obtain sub where v: "v = JObj sub" by (cases v) (auto simp: is_table_def)
    obtain ts us where t: "emit_table (path @ [k]) sub = Inr ts" and u: "emit_tables path kvs = Inr us" and ls: "ls = ts @ [] # us"
      using "3.prems"(1) v by (auto simp: ebnd_Inr)
    have k: "k \<notin> set (map fst (reordered_tables kvs))" and d: "distinct (map fst (reordered_tables kvs))"
      using "3.prems"(3) reordered_keys [of kvs] reordered_distinct [of kvs] by (auto simp: reordered.simps)
    obtain r1 where r1: "at_path path (grow [(k, JObj (reordered sub))]) root = Some r1"
        "at_path path (grow (reordered_tables kvs)) r1 = Some root'"
      using grow_two [of path "[(k, JObj (reordered sub))]" "reordered_tables kvs" root root'] "3.prems"(5) k d v by auto
    have wf: "wf_table sub" "no_del k" "wf_entries kvs" "distinct (map fst kvs)" using "3.prems"(2,3) v by auto
    obtain c1 where c1: "read_lines ts (c, root) = Some (c1, r1)" using 3(7) [OF v t wf(1) refl _ r1(1)] "3.prems"(4) wf(2) by auto
    obtain c2 where "read_lines us (c1, r1) = Some (c2, root')" using 3(8) [OF v u wf(3,4) "3.prems"(4) r1(2)] by blast
    then have "read_lines ls (c, root) = Some (c2, root')" unfolding ls using c1 by (simp add: read_lines_append read_blank)
    then show ?thesis by blast
  qed
qed

section \<open>The whole text\<close>

definition toml_line :: "string \<Rightarrow> bool" where
  "toml_line s \<longleftrightarrow> newline \<notin> set s"

lemma toml_esc_one_line: "toml_line (toml_esc c)"
proof (cases "ord c < 32")
  case True
  then obtain a b where "hex2 (ord c) = [a, b]" "is_hex_digit a" "is_hex_digit b" using control_digits by blast
  then show ?thesis by (auto simp: toml_esc_def toml_line_def is_hex_digit_def is_digit_def)
qed (auto simp: toml_esc_def toml_line_def)

lemma toml_str_one_line: "toml_line (toml_str s)"
  using toml_esc_one_line by (auto simp: toml_str_def toml_line_def)

lemma toml_key_one_line: "toml_line (toml_key k)"
  using toml_str_one_line [of k] by (auto simp: toml_key_def toml_line_def list_all_iff is_safe_key_char_def is_digit_def)

lemma set_join: "set (join sep xs) \<subseteq> set sep \<union> (\<Union>x \<in> set xs. set x)"
  by (induction sep xs rule: join.induct) auto

lemma toml_value_one_line:
  shows "toml_value v = Inr t \<Longrightarrow> toml_line t" and "toml_values vs = Inr ts \<Longrightarrow> \<forall>t \<in> set ts. toml_line t"
proof (induction v and vs arbitrary: t and ts rule: toml_value_toml_values.induct)
  case (2 i)
  have "newline \<notin> set (nat_dec n)" for n using nat_dec_digits [of n] by (auto simp: is_digit_def)
  then show ?case using 2 by (auto simp: toml_line_def int_dec_def split: if_splits)
next
  case (3 xs)
  then obtain ts where ts: "toml_values xs = Inr ts" "t = ''['' @ join '', '' ts @ '']''" by (auto simp: ebnd_Inr)
  with 3(1) show ?case using set_join [of "'', ''" ts] by (auto simp: toml_line_def)
next
  case (4 s)
  then show ?case using toml_str_one_line by auto
qed (auto simp: toml_line_def ebnd_Inr)

lemma toml_scalars_one_line: "scalar_lines kvs = Inr ls \<Longrightarrow> \<forall>l \<in> set ls. toml_line l"
  using toml_key_one_line toml_value_one_line(1)
  by (induction kvs arbitrary: ls) (auto simp: ebnd_Inr toml_line_def split: if_splits)

lemma toml_header_one_line: "toml_line (header_line path)"
  using set_join [of "''.''" "map toml_key path"] toml_key_one_line by (auto simp: header_line_def toml_line_def)

lemma toml_table_one_line:
  shows "emit_table path kvs = Inr ls \<Longrightarrow> \<forall>l \<in> set ls. toml_line l"
    and "emit_tables path kvs = Inr ls \<Longrightarrow> \<forall>l \<in> set ls. toml_line l"
proof (induction path kvs and path kvs arbitrary: ls and ls rule: emit_table_emit_tables.induct)
  case (1 path kvs)
  then obtain ss ts where ss: "scalar_lines kvs = Inr ss" and ts: "emit_tables path kvs = Inr ts"
    and ls: "ls = (if path \<noteq> [] \<or> ss \<noteq> [] then (if path \<noteq> [] then [header_line path] else []) @ ss
      @ (if list_ex (\<lambda>(k, v). is_table v) kvs then [[]] else []) else []) @ ts"
    by (auto simp: ebnd_Inr Let_def)
  show ?case using 1(1) [OF ts] toml_scalars_one_line [OF ss] toml_header_one_line [of path]
    unfolding ls by (auto simp: toml_line_def split: if_splits)
next
  case (3 path k v kvs)
  then show ?case by (cases v) (auto simp: ebnd_Inr toml_line_def)
qed simp

text \<open>The value at a path: a setting, or an empty object for a table.\<close>

fun setting :: "string list \<Rightarrow> (string \<times> json) list \<Rightarrow> json option" where
  "setting [] t = Some (JObj [])"
| "setting (k # p) t = (case map_of t k of
       Some (JObj sub) \<Rightarrow> setting p sub
     | Some v \<Rightarrow> if p = [] then Some v else None
     | None \<Rightarrow> None)"

lemma setting_reordered: "distinct (map fst kvs) \<Longrightarrow> wf_entries kvs \<Longrightarrow> setting p (reordered kvs) = setting p kvs"
proof (induction p arbitrary: kvs)
  case (Cons k p)
  have tables: "map_of (reordered_tables kvs) k = (case map_of kvs k of Some (JObj sub) \<Rightarrow> Some (JObj (reordered sub)) | _ \<Rightarrow> None)"
    using Cons.prems(1)
  proof (induction kvs)
    case (Cons kv kvs)
    then have "map_of kvs (fst kv) = None" by (auto simp: map_of_eq_None_iff)
    with Cons show ?case by (cases kv; cases "snd kv") (auto split: option.splits json.splits)
  qed simp
  have scalars: "map_of (filter (\<lambda>(k, v). \<not> is_table v) kvs) k = (case map_of kvs k of Some v \<Rightarrow> if is_table v then None else Some v | None \<Rightarrow> None)"
    using Cons.prems(1)
  proof (induction kvs)
    case (Cons kv kvs)
    then have "map_of kvs (fst kv) = None" by (auto simp: map_of_eq_None_iff)
    with Cons show ?case by (cases kv) auto
  qed simp
  have sub: "distinct (map fst sub) \<and> wf_entries sub" if "map_of kvs k = Some (JObj sub)" for sub
    using Cons.prems(2) that by (induction kvs) (auto split: if_splits)
  have m: "map_of (reordered kvs) k = (case map_of (filter (\<lambda>(k, v). \<not> is_table v) kvs) k of
      Some v \<Rightarrow> Some v | None \<Rightarrow> map_of (reordered_tables kvs) k)"
    by (subst reordered.simps) (simp only: map_of_append map_add_def)
  show ?case
  proof (cases "map_of kvs k")
    case None
    then have "map_of (reordered kvs) k = None" by (simp only: m scalars tables option.case)
    with None show ?thesis by simp
  next
    case (Some v)
    show ?thesis
    proof (cases "is_table v")
      case True
      then obtain s where v: "v = JObj s" by (cases v) auto
      with Some have "map_of (reordered kvs) k = Some (JObj (reordered s))"
        by (simp only: m scalars tables option.case json.case is_table_simps if_True)
      moreover have "setting p (reordered s) = setting p s" using Cons.IH sub Some v by blast
      ultimately show ?thesis using Some v by (simp only: setting.simps option.case json.case)
    next
      case False
      with Some have "map_of (reordered kvs) k = Some v" by (simp only: m scalars option.case if_False)
      with Some False show ?thesis by (cases v) simp_all
    qed
  qed
qed simp

lemma config_back:
  assumes wf: "wf_table kvs" and rend: "render_toml kvs = Inr txt"
  shows "toml_loads txt = Some (reordered kvs) \<and> (\<forall>p. setting p (reordered kvs) = setting p kvs)"
proof -
  obtain ss ts where ss: "scalar_lines kvs = Inr ss" and ts: "emit_tables [] kvs = Inr ts"
    and out: "\<And>ls. ls = (if ss \<noteq> [] then ss @ (if list_ex (\<lambda>(k, v). is_table v) kvs then [[]] else []) else []) @ ts \<Longrightarrow>
      txt = join [newline] (rev (dropWhile (\<lambda>l. l = []) (rev ls))) @ [newline]"
    using rend by (auto simp: render_toml_def ebnd_Inr Let_def)
  define ls where "ls = (if ss \<noteq> [] then ss @ (if list_ex (\<lambda>(k, v). is_table v) kvs then [[]] else []) else []) @ ts"
  define ls' where "ls' = rev (dropWhile (\<lambda>l. l = []) (rev ls))"
  have "\<exists>n. ls = ls' @ replicate n []"
  proof -
    have "rev ls = takeWhile (\<lambda>l. l = []) (rev ls) @ rev ls'" by (simp add: ls'_def)
    moreover have "takeWhile (\<lambda>l. l = []) (rev ls) = replicate (length (takeWhile (\<lambda>l. l = []) (rev ls))) []"
      by (rule replicate_length_same [symmetric]) (auto dest: set_takeWhileD)
    ultimately show ?thesis by (metis rev_append rev_replicate rev_rev_ident)
  qed
  then obtain n where n: "ls = ls' @ replicate n []" ..
  have blank: "read_lines (l @ replicate n []) st = read_lines l st" for l st
    by (induction n) (auto simp: replicate_append_same [symmetric] read_blank simp flip: append_assoc)
  have one: "\<forall>l \<in> set ls. toml_line l"
    using toml_scalars_one_line [OF ss] toml_table_one_line(2) [OF ts] by (auto simp: ls_def toml_line_def split: if_splits)
  then have one': "list_all (\<lambda>l. newline \<notin> set l) (ls' @ [[]])" using n by (auto simp: list_all_iff toml_line_def)
  have "txt = join [newline] ls' @ [newline]" using out [OF ls_def] by (simp add: ls'_def)
  also have "\<dots> = join [newline] (if ls' = [] then [[], []] else ls' @ [[]])"
  proof -
    have "join [newline] (xs @ [[]]) = join [newline] xs @ [newline]" if "xs \<noteq> []" for xs
      using that by (induction xs rule: induct_list012) auto
    then show ?thesis by auto
  qed
  finally have "split_on newline txt = (if ls' = [] then [[], []] else ls' @ [[]])"
    using one' by (auto simp: split_on_join)
  then have lines: "read_lines (split_on newline txt) st = read_lines ls st" for st
    using blank [of ls' st] n read_blank(1) [of "[[]]" st] read_blank(1) [of "[]" st] read_blank(2) [of ls' st]
    by (cases "ls' = []") (simp_all del: read_lines.simps(2))
  have d: "distinct (map fst kvs)" "wf_entries kvs" using wf by auto
  let ?sc = "filter (\<lambda>(k, v). \<not> is_table v) kvs"
  have sc: "read_lines ss ([], []) = Some ([], ?sc)"
    by (rule read_scalars [OF ss d(2,1)]) (simp add: grow_def list_all_iff)
  have "at_path [] (grow (reordered_tables kvs)) ?sc = Some (reordered kvs)"
    using grow_append [of ?sc "reordered_tables kvs"] reordered_distinct [OF d(1)]
    by (auto simp: grow_def list_all_iff fun_eq_iff reordered.simps dest!: spec [of _ "[]"] split: if_splits)
  then obtain c where "read_lines ts ([], ?sc) = Some (c, reordered kvs)"
    using read_tables(2) [OF ts d(2,1)] by force
  then have "read_lines ls ([], []) = Some (c, reordered kvs)"
    using sc by (auto simp: ls_def read_lines_append read_blank)
  then show ?thesis using lines setting_reordered [OF d] by (simp add: toml_loads_def)
qed

text \<open>
  C38. When the writer of the configuration file produces a text, a TOML reader takes it back:
  the same settings under the same tables, at every path, for dictionaries with distinct keys
  and no DEL character in a text.
\<close>

theorem config_reads_back:
  "wf_table kvs \<Longrightarrow> render_toml kvs = Inr txt \<Longrightarrow>
   toml_loads txt = Some (reordered kvs) \<and> (\<forall>p. setting p (reordered kvs) = setting p kvs)"
  by (rule config_back)

definition small_config :: "(string \<times> json) list" where
  "small_config = [(''targets'', JObj [(''my amiga'', JObj [(''type'', JStr ''remote''), (''channels'', JObj []), (''tags'', JArr [JStr ''a'', JInt 5])])]),
     (''log'', JStr [CHR 0x22, newline, CHR 0x01])]"

theorem config_reads_back_witness:
  "\<exists>txt. render_toml small_config = Inr txt \<and> toml_loads txt = Some (reordered small_config)
     \<and> setting [''targets'', ''my amiga'', ''tags''] (reordered small_config) = Some (JArr [JStr ''a'', JInt 5])"
proof -
  obtain out where r: "render_toml small_config = Inr out"
    by (simp add: small_config_def render_toml_def is_table_def Let_def)
  have wf: "wf_table small_config" by (simp add: small_config_def no_del_def)
  have s: "setting [''targets'', ''my amiga'', ''tags''] small_config = Some (JArr [JStr ''a'', JInt 5])"
    by (simp add: small_config_def)
  from config_reads_back [OF wf r] r s show ?thesis by auto
qed

text \<open>A DEL in a value is written as it is, and no reader of TOML takes the file.\<close>

lemma del_unreadable:
  "map_sum id toml_loads (render_toml [(''server'', JObj [(''log_dir'', JStr [CHR 0x7F])])]) = Inr None"
  by code_simp

end
