(* ===== verification/Wizard_Correct.thy ===== *)
theory Wizard_Correct
  imports Wizard Toml_Correct
begin

text \<open>
  What the set-up promises: the configuration it builds is one the writer has a form for and readers take back;
  a file that was there is written over only if that was asked for; and keyboard and mouse injection is
  switched on only by a yes to that very question.
\<close>

section \<open>Data the writer has a form for\<close>

fun good :: "json \<Rightarrow> bool" and good_entries :: "table \<Rightarrow> bool" where
  "good (JStr s) = no_del s"
| "good (JBool b) = True"
| "good (JInt i) = True"
| "good (JArr xs) = (\<exists>ss. xs = map JStr ss \<and> list_all no_del ss)"
| "good (JObj t) = (distinct (map fst t) \<and> good_entries t)"
| "good v = False"
| "good_entries [] = True"
| "good_entries ((k, v) # t) = (no_del k \<and> good v \<and> good_entries t)"

lemma good_entries_iff: "good_entries t \<longleftrightarrow> (\<forall>(k, v) \<in> set t. no_del k \<and> good v)"
  by (induction t) auto

lemma good_put: "good (JObj t) \<Longrightarrow> no_del k \<Longrightarrow> good v \<Longrightarrow> good (JObj (put k v t))"
  by (induction t) (auto simp: distinct_update dom_update)

lemma good_filter: "good (JObj t) \<Longrightarrow> good (JObj (filter f t))"
  by (auto simp: good_entries_iff distinct_map_filter)

lemma good_lookup: "good (JObj t) \<Longrightarrow> map_of t k = Some v \<Longrightarrow> good v"
  by (auto simp: good_entries_iff dest: map_of_SomeD)

lemma plain_strings: "list_all no_del ss \<Longrightarrow> plain_values (map JStr ss)"
  by (induction ss) auto

lemma string_values: "\<exists>ts. toml_values (map JStr ss) = Inr ts"
  by (induction ss) auto

lemma good_plain: "good v \<Longrightarrow> \<not> is_table v \<Longrightarrow> plain_value v \<and> (\<exists>t. toml_value v = Inr t)"
proof (cases v)
  case (JArr xs)
  moreover assume "good v"
  ultimately obtain ss where "xs = map JStr ss" "list_all no_del ss" by auto
  then show ?thesis using string_values [of ss] JArr by (auto simp: plain_strings)
qed auto

lemma good_wf: "good v \<Longrightarrow> v = JObj t' \<Longrightarrow> wf_table t'" "good_entries t \<Longrightarrow> wf_entries t"
proof (induction v and t arbitrary: t' rule: good_good_entries.induct)
  case (8 k v t)
  then show ?case using good_plain [of v] by (cases v) auto
qed auto

lemma scalars_written: "good_entries t \<Longrightarrow> \<exists>ls. scalar_lines t = Inr ls"
proof (induction t)
  case (Cons kv t)
  obtain k v where "kv = (k, v)" by force
  with Cons show ?case using good_plain [of v] by auto
qed simp

lemma tables_written:
  "good_entries t \<Longrightarrow> \<exists>ls. emit_table p t = Inr ls" "good_entries t \<Longrightarrow> \<exists>ls. emit_tables p t = Inr ls"
proof (induction p t and p t rule: emit_table_emit_tables.induct)
  case (1 p t)
  then show ?case using scalars_written by (fastforce simp: ebnd_Inr Let_def)
next
  case (3 p k v t)
  then show ?case by (cases v) (auto simp: ebnd_Inr)
qed simp

lemma good_written: "good (JObj t) \<Longrightarrow> \<exists>body. render_toml t = Inr body"
  using tables_written(1) [of t "[]"] by (auto simp: render_toml_def ebnd_Inr simp del: emit_table.simps)

section \<open>What a dialogue leaves\<close>

definition clean :: "'z dialogue_scheme \<Rightarrow> bool" where
  "clean d \<longleftrightarrow> list_all no_del (answers d)"

text \<open>The rest of the state stays, what is asked is added to the record, and only the end of the input fails.\<close>

definition talks :: "('z dialogue_scheme, 'a) io \<Rightarrow> bool" where
  "talks m \<longleftrightarrow> (\<forall>d r d'. m d = (r, d') \<longrightarrow> dialogue.more d' = dialogue.more d \<and> (\<exists>log. asked d' = asked d @ log)
     \<and> (\<forall>e. r = Inl e \<longrightarrow> e = end_of_input))"

text \<open>When no answer to come has a DEL, the result, if there is one, has \<open>P\<close>.\<close>

definition gives :: "('a \<Rightarrow> bool) \<Rightarrow> ('z dialogue_scheme, 'a) io \<Rightarrow> bool" where
  "gives P m \<longleftrightarrow> (\<forall>d r d'. m d = (r, d') \<longrightarrow> clean d \<longrightarrow> clean d' \<and> (\<forall>x. r = Inr x \<longrightarrow> P x))"

named_theorems talks
named_theorems gives

lemma talks_ret [talks]: "talks (ret x)"
  by (simp add: talks_def ret_def)

lemma talks_bnd [talks]: "talks m \<Longrightarrow> (\<And>x. talks (f x)) \<Longrightarrow> talks (bnd m f)"
  unfolding talks_def bnd_def
  by (auto split: prod.splits sum.splits) (metis append_assoc)+

lemma talks_if [talks]: "talks m \<Longrightarrow> talks m' \<Longrightarrow> talks (if b then m else m')"
  by simp

lemma talks_prompt [talks]: "talks (prompt q)"
  by (auto simp: talks_def prompt_def split: list.splits)

lemma talks_ask_until [talks]: "talks (ask_until q accept)"
  unfolding talks_def
proof (intro allI impI)
  fix d r d'
  assume a: "ask_until q accept d = (r, d')"
  have "r = Inl e \<Longrightarrow> e = end_of_input" for e
    using a
  proof (induction "answers d" arbitrary: d)
    case (Cons a as)
    let ?d = "d\<lparr>answers := as, asked := asked d @ [(q, a)]\<rparr>"
    show ?case using Cons.prems Cons.hyps(1) [of ?d] ask_until_answer [OF Cons.hyps(2) [symmetric] refl, of q accept]
      by (auto split: option.splits)
  qed (simp add: ask_until_end)
  with a show "dialogue.more d' = dialogue.more d \<and> (\<exists>log. asked d' = asked d @ log) \<and> (\<forall>e. r = Inl e \<longrightarrow> e = end_of_input)"
    by (auto elim: ask_until_result)
qed

lemma talks_questions [talks]: "talks (ask q v)" "talks (ask_bool q w)" "talks (ask_choice q c v')" "talks (ask_optional q)"
  unfolding ask_def ask_bool_def ask_choice_def ask_optional_def by (intro talks)+

lemma gives_ret: "P x \<Longrightarrow> gives P (ret x)"
  by (simp add: gives_def ret_def)

lemma gives_bnd: "gives P m \<Longrightarrow> (\<And>x. P x \<Longrightarrow> gives Q (f x)) \<Longrightarrow> gives Q (bnd m f)"
  unfolding gives_def bnd_def
  by (fastforce split: prod.splits sum.splits)

lemma gives_if: "(b \<Longrightarrow> gives P m) \<Longrightarrow> (\<not> b \<Longrightarrow> gives P m') \<Longrightarrow> gives P (if b then m else m')"
  by simp

lemma gives_prompt: "gives no_del (prompt q)"
  by (auto simp: gives_def prompt_def clean_def split: list.splits)

lemma gives_ask_until:
  assumes "\<And>a x. no_del a \<Longrightarrow> accept (strip a) = Some x \<Longrightarrow> P x"
  shows "gives P (ask_until q accept)"
  unfolding gives_def
proof (intro allI impI)
  fix d r d'
  assume "ask_until q accept d = (r, d')" "clean d"
  then show "clean d' \<and> (\<forall>x. r = Inr x \<longrightarrow> P x)"
    using assms by (elim ask_until_result) (auto simp: clean_def list_all_iff dest!: last_in_set)
qed

section \<open>Answers without a DEL make good data\<close>

lemma set_strip: "set (strip s) \<subseteq> set s"
  by (auto simp: strip_def lstrip_def rstrip_pred_def dest!: set_dropWhileD)

lemma no_del_strip: "no_del s \<Longrightarrow> no_del (strip s)"
  using set_strip [of s] by (auto simp: no_del_def)

lemma no_del_append [simp]: "no_del (s @ t) \<longleftrightarrow> no_del s \<and> no_del t"
  by (auto simp: no_del_def)

lemma no_del_Cons [simp]: "no_del (c # s) \<longleftrightarrow> c \<noteq> CHR 0x7F \<and> no_del s"
  by (auto simp: no_del_def)

lemma no_del_Nil [simp]: "no_del []"
  by (simp add: no_del_def)

lemma gives_ask [gives]: "(\<And>x. v = Some x \<Longrightarrow> no_del x) \<Longrightarrow> gives no_del (ask q v)"
  unfolding ask_def by (intro gives_ask_until) (auto simp: given_or_def no_del_strip split: if_splits)

lemma gives_bool [gives]: "gives (\<lambda>_. True) (ask_bool q v)"
  unfolding ask_bool_def by (intro gives_ask_until) simp

lemma gives_choice [gives]: "gives (\<lambda>x. x \<in> set choices) (ask_choice q choices v)"
  unfolding ask_choice_def by (intro gives_ask_until) (auto simp: Let_def split: if_splits)

lemma gives_optional [gives]: "gives (\<lambda>v. \<forall>x. v = Some x \<longrightarrow> no_del x) (ask_optional q)"
  unfolding ask_optional_def by (intro gives_bnd [OF gives_prompt] gives_ret) (auto simp: no_del_strip)

lemma gives_mono: "gives P m \<Longrightarrow> (\<And>x. P x \<Longrightarrow> Q x) \<Longrightarrow> gives Q m"
  by (auto simp: gives_def)

abbreviation good_table :: "table \<Rightarrow> bool" where
  "good_table t \<equiv> good (JObj t)"

lemma good_text_at: "good_table t \<Longrightarrow> no_del (text_at k t)"
  by (auto simp: text_at_def dest: good_lookup simp del: good.simps(5) split: option.split json.split)

lemma good_put_given: "good_table t \<Longrightarrow> no_del k \<Longrightarrow> (\<forall>x. v = Some x \<longrightarrow> no_del x) \<Longrightarrow> good_table (put_given k v t)"
  unfolding put_given_def by (auto intro!: good_put simp del: good.simps(5) split: option.split list.split)

lemma good_local: "no_del p \<Longrightarrow> good (local_endpoint p)"
  by (simp add: local_endpoint_def)

lemma wizard_server_good: "good_table s \<Longrightarrow> gives good_table (wizard_server s)"
  unfolding wizard_server_def Let_def
  by (intro gives_bnd [where P=no_del] gives_bnd [OF gives_choice] gives_if gives_ret gives_ask good_put)
    (auto simp: good_text_at simp del: good.simps(5))

lemma wizard_channel_good:
  "no_del name \<Longrightarrow> no_del port \<Longrightarrow> good_table chans \<Longrightarrow> gives good_table (wizard_channel name wanted q port chans)"
  unfolding wizard_channel_def
  by (intro gives_bnd [OF gives_bool] gives_bnd [where P=no_del] gives_if gives_ret gives_ask good_put good_local)
    (auto simp del: good.simps(5))

lemma wizard_qemu_good: "good_table t \<Longrightarrow> gives good_table (wizard_qemu t)"
  unfolding wizard_qemu_def
  by (intro gives_bnd [where P=no_del] gives_bnd [OF gives_choice] gives_bnd [OF wizard_channel_good] gives_ret gives_ask
      good_put)
    (auto simp: good_local)

lemma wizard_remote_good:
  assumes t: "good_table t"
  shows "gives good_table (wizard_remote pl t)"
  unfolding wizard_remote_def Let_def
proof (intro gives_bnd [where P=no_del and m="ask _ _"] gives_bnd [OF gives_bool] gives_ask)
  fix ip port :: string and mcu
  assume ip: "no_del ip" "no_del port"
  define c where "c = [(''mcpd'', JObj [(''enabled'', JBool True), (''endpoint'', JStr (ip @ '':'' @ port))])]"
  have c: "good_table c" using ip by (simp add: c_def)
  show "gives good_table (bnd (if mcu then bnd (ask ''MCU serial port'' (Some (if on_windows pl then ''COM5'' else ''/dev/ttyUSB1'')))
        (\<lambda>dev. ret (put ''mcu'' (JObj [(''enabled'', JBool True), (''port'', JStr dev), (''baud'', JInt 38400)])
          [(''mcpd'', JObj [(''enabled'', JBool True), (''endpoint'', JStr (ip @ '':'' @ port))])]))
      else ret [(''mcpd'', JObj [(''enabled'', JBool True), (''endpoint'', JStr (ip @ '':'' @ port))])])
      (\<lambda>c2. ret (put ''channels'' (JObj c2) t)))"
    unfolding c_def [symmetric]
    by (intro gives_bnd [where P=good_table] gives_bnd [where P=no_del] gives_if gives_ask gives_ret good_put t c)
      (auto split: if_splits)
qed auto

lemma no_del_tags: "no_del raw \<Longrightarrow> list_all no_del (filter f (map strip (split_on c raw)))"
proof -
  have "\<Union> (set ` set (split_on c raw)) \<subseteq> set raw"
    by (induction raw) (auto split: list.splits if_splits, blast+)
  then have "no_del raw \<Longrightarrow> \<forall>p \<in> set (split_on c raw). no_del (strip p)"
    by (intro ballI no_del_strip) (auto simp: no_del_def)
  then show "no_del raw \<Longrightarrow> ?thesis" by (auto simp: list_all_iff)
qed

lemma good_target:
  assumes "no_del ty" "no_del shown" "no_del raw"
  shows "good_table [(''type'', JStr ty), (''display_name'', JStr shown),
     (''tags'', JArr (map JStr (filter f (map strip (split_on c raw))))), (''channels'', JObj [])]"
  using assms no_del_tags by auto

lemma good_enabled: "good_table [(''enabled'', JBool True)]"
  by simp

lemma wizard_target_good: "gives (\<lambda>(name, t). no_del name \<and> good_table t) (wizard_target pl)"
  unfolding wizard_target_def Let_def
  by (intro gives_bnd [where P=no_del and m="ask _ _"] gives_bnd [OF gives_choice] gives_bnd [OF gives_bool]
      gives_bnd [where P=good_table] gives_if gives_ask gives_ret wizard_qemu_good wizard_remote_good)
    (auto simp del: good.simps(5) intro!: good_put good_target good_enabled)

lemma wizard_targets_good:
  assumes "good_table ts"
  shows "gives good_table (wizard_targets pl ts)"
  unfolding gives_def
proof (intro allI impI)
  fix d r d'
  assume "wizard_targets pl ts d = (r, d')" "clean d"
  then show "clean d' \<and> (\<forall>x. r = Inr x \<longrightarrow> good_table x)"
    using assms
  proof (induction pl ts d arbitrary: r d' rule: wizard_targets.induct)
    case (1 pl ts d)
    obtain ra d1 where a: "ask_bool ''add a target?'' (ts = []) d = (ra, d1)" by force
    have c: "clean d1" using gives_bool "1.prems"(2) a unfolding gives_def by blast
    show ?case
    proof (cases ra)
      case (Inl e)
      then show ?thesis using "1.prems"(1) a c by (auto simp: wizard_targets.simps [of pl ts d])
    next
      case (Inr yes)
      obtain rt d2 where t: "wizard_target pl d1 = (rt, d2)" by force
      have c2: "clean d2" "\<And>nt. rt = Inr nt \<Longrightarrow> no_del (fst nt) \<and> good_table (snd nt)"
        using wizard_target_good c t unfolding gives_def by fastforce+
      show ?thesis
      proof (cases "yes \<and> (\<exists>nt. rt = Inr nt)")
        case True
        then obtain nt where nt: "rt = Inr nt" by auto
        then have "wizard_targets pl (put (fst nt) (JObj (snd nt)) ts) d2 = (r, d')"
          using "1.prems"(1) a Inr True t by (simp add: wizard_targets.simps [of pl ts d])
        moreover have "good_table (put (fst nt) (JObj (snd nt)) ts)" using c2(2) [OF nt] "1.prems"(3) by (intro good_put) auto
        ultimately show ?thesis using "1.IH" [OF a [symmetric] Inr _ t [symmetric] nt] True c2(1) by blast
      next
        case False
        then show ?thesis using "1.prems" a Inr t c c2
          by (cases rt) (auto simp: wizard_targets.simps [of pl ts d] split: if_splits)
      qed
    qed
  qed
qed

lemma wizard_paths_good:
  assumes "no_del (home_dir pl)"
  shows "gives good_table (wizard_paths pl)"
proof -
  have s: "suggest pl ''AmigaQemuTests'' = Some x \<Longrightarrow> no_del x" for x
    using assms by (auto simp: suggest_def sub_path_def Let_def split: if_splits)
  show ?thesis
    unfolding wizard_paths_def Let_def
    by (intro gives_bnd [OF gives_optional] gives_ret good_put_given) (auto simp: s)
qed

lemma wizard_default_target_good:
  assumes "good_table ts" "good_table s"
  shows "gives good_table (wizard_default_target ts s)"
proof -
  have n: "n \<in> set (map fst ts) \<Longrightarrow> no_del n" for n using assms(1) by (auto simp: good_entries_iff)
  show ?thesis
    unfolding wizard_default_target_def using n assms
    by (auto simp del: good.simps(5) split: list.split intro!: gives_ret gives_bnd [OF gives_bool] gives_bnd [OF gives_choice] good_put)
qed

lemma ask_defaults_good: "good_table d \<Longrightarrow> list_all (\<lambda>(k, h). no_del k) qs \<Longrightarrow> gives good_table (ask_defaults qs d)"
  by (induction qs d rule: ask_defaults.induct)
    (auto simp del: good.simps(5) intro!: gives_ret gives_bnd [OF gives_optional] good_put_given)

lemma wizard_defaults_good: "gives good_table wizard_defaults"
  unfolding wizard_defaults_def
  by (intro gives_bnd [OF gives_bool] gives_if gives_ret ask_defaults_good) (auto simp: default_questions_def)

definition clean_place :: "place \<Rightarrow> bool" where
  "clean_place pl \<longleftrightarrow> no_del (home_dir pl) \<and> (case appdata pl of Some a \<Rightarrow> no_del a | None \<Rightarrow> True)"

lemma no_del_sub: "no_del base \<Longrightarrow> no_del name \<Longrightarrow> no_del (sub_path pl base name)"
  by (simp add: sub_path_def Let_def)

lemma no_del_base: "clean_place pl \<Longrightarrow> no_del (stub_base pl)"
  unfolding stub_base_def Let_def
  by (cases "appdata pl") (simp_all add: clean_place_def path_of_def no_del_sub)

lemma stub_server_good: "clean_place pl \<Longrightarrow> good_table (stub_server pl)"
  using no_del_base by (simp add: stub_server_def no_del_sub)

lemma strip_empty_good: "good_table t \<Longrightarrow> good_table (strip_empty t)"
  unfolding strip_empty_def by (rule good_filter)

lemma ask_config_good:
  assumes "clean_place pl"
  shows "gives good_table (ask_config pl ni)"
proof -
  have h: "no_del (home_dir pl)" using assms by (simp add: clean_place_def)
  have four: "good_table a \<Longrightarrow> good_table b \<Longrightarrow> good_table c \<Longrightarrow> good_table d \<Longrightarrow>
      good_table (strip_empty [(''server'', JObj a), (''paths'', JObj b), (''defaults'', JObj c), (''targets'', JObj d)])" for a b c d
    by (rule strip_empty_good) simp
  show ?thesis
    unfolding ask_config_def Let_def
    by (intro gives_if gives_ret four gives_bnd [where P=good_table] wizard_server_good wizard_paths_good wizard_targets_good
        wizard_default_target_good wizard_defaults_good stub_server_good h assms) (simp_all add: assms)
qed

section \<open>The whole dialogue\<close>

lemma talks_target [talks]: "talks (wizard_target pl)"
  unfolding wizard_target_def wizard_qemu_def wizard_remote_def wizard_channel_def Let_def
  by (intro talks)

lemma talks_server [talks]: "talks (wizard_server s)" "talks (wizard_paths pl)"
  unfolding wizard_server_def wizard_paths_def Let_def
  by (intro talks)+

lemma talks_targets [talks]: "talks (wizard_targets pl ts)"
  unfolding talks_def
proof (intro allI impI)
  fix d r d'
  assume "wizard_targets pl ts d = (r, d')"
  then show "dialogue.more d' = dialogue.more d \<and> (\<exists>log. asked d' = asked d @ log) \<and> (\<forall>e. r = Inl e \<longrightarrow> e = end_of_input)"
  proof (induction pl ts d arbitrary: r d' rule: wizard_targets.induct)
    case (1 pl ts d)
    obtain ra d1 where a: "ask_bool ''add a target?'' (ts = []) d = (ra, d1)" by force
    obtain rt d2 where t: "wizard_target pl d1 = (rt, d2)" by force
    note ta = talks_questions(2) [unfolded talks_def, rule_format, OF a] talks_target [unfolded talks_def, rule_format, OF t]
    show ?case
    proof (cases "\<exists>nt. ra = Inr True \<and> rt = Inr nt")
      case True
      then obtain nt where nt: "ra = Inr True" "rt = Inr nt" by auto
      then have "wizard_targets pl (put (fst nt) (JObj (snd nt)) ts) d2 = (r, d')"
        using "1.prems" a t by (simp add: wizard_targets.simps [of pl ts d])
      from "1.IH" [OF a [symmetric] nt(1) _ t [symmetric] nt(2) this] show ?thesis using ta by auto
    next
      case False
      then show ?thesis using "1.prems" a t ta
        by (auto simp: wizard_targets.simps [of pl ts d] split: sum.splits if_splits)
    qed
  qed
qed

lemma talks_ask_defaults [talks]: "talks (ask_defaults qs t)"
  by (induction qs t rule: ask_defaults.induct) (auto intro: talks)

lemma talks_ends [talks]: "talks (wizard_default_target ts s)" "talks wizard_defaults"
  unfolding wizard_default_target_def wizard_defaults_def
  by (auto split: list.split intro!: talks)

lemma talks_ask_config [talks]: "talks (ask_config pl ni)"
  unfolding ask_config_def Let_def by (intro talks)

lemma ask_bool_says:
  assumes "ask_bool q v d = (Inr b, d')"
  obtains log a where "asked d' = asked d @ log @ [(bool_question q v, a)]" "yes_or_no v (strip a) = Some b"
proof -
  obtain read where "asked d' = asked d @ map (Pair (bool_question q v)) read" "read \<noteq> []" "yes_or_no v (strip (last read)) = Some b"
    using assms unfolding ask_bool_def by (elim ask_until_result) auto
  then show ?thesis using that [of "map (Pair (bool_question q v)) (butlast read)" "last read"]
    by (simp flip: map_append add: append_butlast_last_id) (metis append_butlast_last_id list.simps(8,9) map_append)
qed

lemma yes_means_yes: "yes_or_no False a = Some b \<Longrightarrow> b \<longleftrightarrow> py_lower a \<in> {''y'', ''yes''}"
  by (auto simp: yes_or_no_def Let_def split: if_splits)

section \<open>The file\<close>

lemma more_disk: "dialogue.more s' = dialogue.more s \<Longrightarrow> disk s' = disk s \<and> saving s' = saving s" for s s' :: init_state
  by (cases s, cases s') simp

text \<open>The ways a run can go: refused, stopped at the question, the end of the input, or a configuration that is written or not.\<close>

lemma run_init_cases:
  assumes run: "run_init pl valid dest force ni s = (r, s')"
  obtains (refused) "map_of (disk s) dest \<noteq> None" "\<not> force" "ni" "r = Inr 65" "s' = s"
  | (ended) "r = Inl end_of_input" "disk s' = disk s"
  | (aborted) "map_of (disk s) dest \<noteq> None" "\<not> force" "\<not> ni" "ask_bool (overwrite_question dest) False s = (Inr False, s')"
      "r = Inr 0" "disk s' = disk s"
  | (built) s1 cfg s2 where "map_of (disk s) dest = None \<or> force \<or> \<not> ni \<and> ask_bool (overwrite_question dest) False s = (Inr True, s1)"
      "clean s \<longrightarrow> clean s1" "\<exists>log. asked s2 = asked s1 @ log"
      "ask_config pl ni s1 = (Inr cfg, s2)" "disk s2 = disk s" "saving s2 = saving s" "write_config valid dest cfg s2 = (r, s')"
proof -
  let ?ask = "map_of (disk s) dest \<noteq> None \<and> \<not> force"
  note talk = talks_def [THEN iffD1, rule_format]
  have go: thesis if go: "bnd (ask_config pl ni) (write_config valid dest) s1 = (r, s')" "disk s1 = disk s \<and> saving s1 = saving s" "clean s \<longrightarrow> clean s1"
      "map_of (disk s) dest = None \<or> force \<or> \<not> ni \<and> ask_bool (overwrite_question dest) False s = (Inr True, s1)" for s1
  proof -
    obtain rc s2 where c: "ask_config pl ni s1 = (rc, s2)" by force
    note t = talk [OF talks_ask_config c]
    have d: "disk s2 = disk s" "saving s2 = saving s" using t go(2) more_disk [of s2 s1] by simp_all
    show ?thesis
    proof (cases rc)
      case (Inl e)
      then show ?thesis using c t go(1) d by (intro ended) (auto simp: bnd_Inl)
    next
      case (Inr cfg)
      then show ?thesis using c t go(1,3,4) d by (intro built [of s1 s2 cfg]) (auto simp: bnd_Inr)
    qed
  qed
  consider (r) "?ask" "ni" | (a) "?ask" "\<not> ni" | (n) "\<not> ?ask" by blast
  then show ?thesis
  proof cases
    case r
    then show ?thesis using run by (intro refused) (auto simp: run_init_def bnd_def gets_def ret_def)
  next
    case a
    obtain ra s1 where q: "ask_bool (overwrite_question dest) False s = (ra, s1)" by force
    note t = talk [OF talks_questions(2) q]
    have d: "disk s1 = disk s" "saving s1 = saving s" using t more_disk [of s1 s] by simp_all
    have run': "bnd (ask_bool (overwrite_question dest) False)
        (\<lambda>go. if \<not> go then ret 0 else bnd (ask_config pl ni) (write_config valid dest)) s = (r, s')"
      using run a by (simp add: run_init_def bnd_Inr [of "gets _"] gets_def cong: if_cong)
    show ?thesis
    proof (cases ra)
      case (Inl e)
      then show ?thesis using run' q t d by (intro ended) (auto simp: bnd_Inl)
    next
      case (Inr b)
      then show ?thesis
      proof (cases b)
        case True
        then have "bnd (ask_config pl ni) (write_config valid dest) s1 = (r, s')" using run' q Inr by (simp add: bnd_Inr)
        moreover have "clean s \<longrightarrow> clean s1" using gives_bool q unfolding gives_def by blast
        ultimately show ?thesis using d q Inr True a(2) by (intro go) auto
      next
        case False
        then show ?thesis using run' q Inr d a by (intro aborted) (auto simp: bnd_Inr ret_def)
      qed
    qed
  next
    case n
    then have "bnd (ask_config pl ni) (write_config valid dest) s = (r, s')"
      using run by (auto simp: run_init_def bnd_Inr [of "gets _"] bnd_Inr [of "ret _"] gets_def ret_def split: if_splits)
    then show ?thesis using go [of s] n by blast
  qed
qed

lemma write_config_result:
  assumes "write_config valid dest cfg s = (r, s')"
  obtains (invalid) "\<not> valid cfg" "r = Inr 70" "s' = s"
  | (unwritable) e where "render_toml cfg = Inl e" "s' = s" "r = Inl e"
  | (untouched) e where "saving s \<in> {No_directory e, Not_opened e}" "r = Inl e" "s' = s"
  | (cut) n e body where "saving s = Cut_off n e" "render_toml cfg = Inr body" "r = Inl e"
      "s' = s\<lparr>disk := AList.update dest (take n body) (disk s)\<rparr>"
  | (surrogate) body where "render_toml cfg = Inr body" "\<not> utf8_valid body" "r = Inl not_encodable"
      "s' = s\<lparr>disk := AList.update dest [] (disk s)\<rparr>"
  | (written) body where "valid cfg" "render_toml cfg = Inr body" "utf8_valid body" "saving s = Saved" "r = Inr 0"
      "s' = s\<lparr>disk := AList.update dest body (disk s)\<rparr>"
  using assms unfolding write_config_def write_text_def put_file_def
  by (cases "render_toml cfg"; cases "saving s")
    (auto simp: ret_def raise_def modify_def bnd_def gets_def split: if_splits)

text \<open>How a write that fails ends, with what it leaves in the file.\<close>

definition failed_write :: "string \<Rightarrow> init_state \<Rightarrow> (exn + int) \<Rightarrow> init_state \<Rightarrow> bool" where
  "failed_write dest s r s' \<longleftrightarrow>
     (\<exists>e. saving s \<in> {No_directory e, Not_opened e} \<and> r = Inl e \<and> disk s' = disk s) \<or>
     (\<exists>n e body. saving s = Cut_off n e \<and> r = Inl e \<and> disk s' = AList.update dest (take n body) (disk s)) \<or>
     r = Inl not_encodable \<and> disk s' = AList.update dest [] (disk s)"

text \<open>
  C39. The set-up changes no file but the configuration file, and that one only if it was not
  there, or it was forced, or the operator answered yes to the question whether to overwrite
  it; then the run ends with 0, or with the error of the write that failed.
\<close>

theorem init_keeps_other_files:
  assumes run: "run_init pl valid dest force ni s = (r, s')"
  shows "(\<forall>f. f \<noteq> dest \<longrightarrow> map_of (disk s') f = map_of (disk s) f) \<and>
    (map_of (disk s') dest \<noteq> map_of (disk s) dest \<longrightarrow> (r = Inr 0 \<or> failed_write dest s r s') \<and>
      (map_of (disk s) dest = None \<or> force \<or>
       \<not> ni \<and> (\<exists>pre post a. asked s' = asked s @ pre @ (bool_question (overwrite_question dest) False, a) # post \<and>
          py_lower (strip a) \<in> {''y'', ''yes''})))"
  using run
proof (cases rule: run_init_cases)
  case (built s1 cfg s2)
  have other: "\<forall>f. f \<noteq> dest \<longrightarrow> map_of (disk s') f = map_of (disk s) f"
    using built(7) by (cases rule: write_config_result) (auto simp: built(5) update_conv')
  have asked: "asked s' = asked s2" using built(7) by (cases rule: write_config_result) auto
  have r: "map_of (disk s') dest \<noteq> map_of (disk s) dest \<longrightarrow> r = Inr 0 \<or> failed_write dest s r s'"
    using built(7) by (cases rule: write_config_result) (auto simp: built(5,6) failed_write_def)
  have "\<exists>pre post a. asked s' = asked s @ pre @ (bool_question (overwrite_question dest) False, a) # post \<and>
          py_lower (strip a) \<in> {''y'', ''yes''}"
    if "ask_bool (overwrite_question dest) False s = (Inr True, s1)"
    using ask_bool_says [OF that] built(3) yes_means_yes asked by (metis append.assoc append_Cons append_Nil)
  with other r built(1) show ?thesis by blast
qed auto

definition linux_home :: place where
  "linux_home = \<lparr>on_windows = False, appdata = None, home_dir = ''/home/op'', path_exists = (\<lambda>_. False)\<rparr>"

definition at_terminal :: "string list \<Rightarrow> init_state" where
  "at_terminal as = \<lparr>answers = as, asked = [], disk = [(''a.toml'', ''old''), (''b.toml'', ''other'')], saving = Saved\<rparr>"

text \<open>A full disk: the old configuration is gone, and what is there is a part of the new one.\<close>

lemma full_disk_loses_old:
  "case run_init linux_home (\<lambda>_. True) ''a.toml'' True True ((at_terminal [])\<lparr>saving := Cut_off 8 (PyErr OSError [])\<rparr>) of
     (r, s') \<Rightarrow> isl r \<and> map_of (disk s') ''a.toml'' = Some ''[server]''"
  by code_simp

lemma stub_written:
  "case run_init linux_home (\<lambda>_. True) ''a.toml'' True True (at_terminal []) of
     (r, s') \<Rightarrow> r = Inr 0 \<and> map_of (disk s') ''a.toml'' \<noteq> Some ''old''"
  "case run_init linux_home (\<lambda>_. True) ''new.toml'' False True (at_terminal []) of
     (r, s') \<Rightarrow> r = Inr 0 \<and> map_of (disk s') ''new.toml'' \<noteq> None"
  by code_simp+

theorem init_keeps_other_files_witness:
  "\<exists>s'. run_init linux_home (\<lambda>_. True) ''a.toml'' True True (at_terminal []) = (Inr 0, s')
     \<and> map_of (disk s') ''a.toml'' \<noteq> Some ''old'' \<and> map_of (disk s') ''b.toml'' = Some ''other''"
proof -
  obtain s' where run: "run_init linux_home (\<lambda>_. True) ''a.toml'' True True (at_terminal []) = (Inr 0, s')"
    "map_of (disk s') ''a.toml'' \<noteq> Some ''old''"
    using stub_written(1) by (auto split: prod.splits)
  from init_keeps_other_files [OF run(1)] run show ?thesis by (auto simp: at_terminal_def)
qed

text \<open>
  A run without a DEL in an answer or a path: how it ends, and that what it writes is read back as the
  configuration that was validated.
\<close>



section \<open>Injection is switched on by its own question only\<close>

theorem input_needs_a_yes:
  assumes "wizard_target pl d = (Inr (name, t), d')"
  shows "\<exists>log a. asked d' = asked d @ log @ [(bool_question input_question False, a)] \<and>
    map_of t ''input'' = (if py_lower (strip a) \<in> {''y'', ''yes''} then Some (JObj [(''enabled'', JBool True)]) else None)"
proof -
  let ?t0 = "\<lambda>ty shown raw. [(''type'', JStr ty), (''display_name'', JStr shown),
    (''tags'', JArr (map JStr (filter (\<lambda>s. s \<noteq> []) (map strip (split_on CHR '','' raw))))), (''channels'', JObj [])]"
  obtain n dn ty dt raw dr shown ds t' d1 yes where
    steps: "ask ''target name (e.g. x5000-real, qemu-pegasos2)'' None d = (Inr n, dn)"
      "ask_choice ''type'' [''qemu'', ''remote''] ''remote'' dn = (Inr ty, dt)"
      "ask ''tags (comma-separated)'' (Some ty) dt = (Inr raw, dr)" "ask ''display_name'' (Some n) dr = (Inr shown, ds)"
      "(if ty = ''qemu'' then wizard_qemu (?t0 ty shown raw) else wizard_remote pl (?t0 ty shown raw)) ds = (Inr t', d1)"
      "ask_bool input_question False d1 = (Inr yes, d')"
    and t: "t = (if yes then put ''input'' (JObj [(''enabled'', JBool True)]) t' else t')"
    using assms unfolding wizard_target_def Let_def bnd_eq_Inr ret_def by force
  have kept: "talks (if ty = ''qemu'' then wizard_qemu (?t0 ty shown raw) else wizard_remote pl (?t0 ty shown raw))"
    unfolding wizard_qemu_def wizard_remote_def wizard_channel_def Let_def by (intro talks)
  note talk = talks_def [THEN iffD1, rule_format]
  have "\<exists>log. asked d1 = asked d @ log"
    using talk [OF talks_questions(1) steps(1)] talk [OF talks_questions(3) steps(2)] talk [OF talks_questions(1) steps(3)]
      talk [OF talks_questions(1) steps(4)] talk [OF kept steps(5)] by auto
  moreover have "map_of t' ''input'' = None"
    using steps(5) unfolding wizard_qemu_def wizard_remote_def Let_def
    by (auto simp: bnd_eq_Inr ret_def update_conv' split: if_splits)
  ultimately show ?thesis
    using ask_bool_says [OF steps(6)] yes_means_yes t by (auto simp: update_conv') (metis append.assoc)+
qed

definition session :: dialogue where
  "session = \<lparr>answers = [''x5'', ''tape'', ''remote'', [], [], ''10.0.0.1'', [], ''n'', '' YES''], asked = []\<rparr>"

definition ends_with :: "string \<Rightarrow> (exn + string \<times> table) \<times> dialogue \<Rightarrow> bool" where
  "ends_with a res = (case res of (Inr (n, t), d') \<Rightarrow> n = ''x5'' \<and> snd (last (asked d')) = a | _ \<Rightarrow> False)"

theorem input_needs_a_yes_witness:
  "\<exists>t d'. wizard_target linux_home session = (Inr (''x5'', t), d') \<and> map_of t ''input'' = Some (JObj [(''enabled'', JBool True)])"
proof -
  have "ends_with '' YES'' (wizard_target linux_home session)" by code_simp
  then obtain t d' where run: "wizard_target linux_home session = (Inr (''x5'', t), d')" and l: "snd (last (asked d')) = '' YES''"
    by (auto simp: ends_with_def split: prod.splits sum.splits)
  have "py_lower (strip '' YES'') \<in> {''y'', ''yes''}" by code_simp
  with input_needs_a_yes [OF run] l run show ?thesis by fastforce
qed

section \<open>A host without APPDATA\<close>

text \<open>The folder for the logs and the archive is then relative to wherever the wizard runs.\<close>

lemma no_appdata_relative: "on_windows pl \<Longrightarrow> appdata pl = None \<Longrightarrow> stub_base pl = ''amiga-fleet-mcp''"
  by (simp add: stub_base_def path_of_def sub_path_def)

end
