(* ===== verification/ServerTools.thy ===== *)
theory ServerTools
  imports SysInfo PowerTools Discovery QemuTools DebugTools Snapshots ExecTools
    InputTools TestTools WbTools Archive Installer SerialTools
begin

text \<open>
  The tools as the server offers them (\<^verbatim>\<open>server.py\<close>): each resolves its target, fills in the defaults of its
  parameters, and calls the tool function.  A parameter with a default is an option, \<open>None\<close> when the client
  leaves it out.  Times are in the units of the tool functions of this development.
\<close>

definition given :: "'a \<Rightarrow> 'a option \<Rightarrow> 'a" where
  "given v x = (case x of None \<Rightarrow> v | Some y \<Rightarrow> y)"

definition at_target :: "string option \<Rightarrow> (string \<Rightarrow> ('w fleet_scheme, 'a) io) \<Rightarrow> ('w fleet_scheme, 'a) io" where
  "at_target target m = bnd (gets f_config) (\<lambda>c. bnd (lift (fleet_resolve c target)) m)"

definition at_target_p :: "string option \<Rightarrow> (string \<Rightarrow> ('w fleet_scheme, 'a) pio) \<Rightarrow> ('w fleet_scheme, 'a) pio" where
  "at_target_p target m = pbnd (always (gets f_config)) (\<lambda>c. pbnd (always (lift (fleet_resolve c target))) m)"

definition zlib_or_none :: "string \<Rightarrow> string" where
  "zlib_or_none compression = (if compression = ''zlib'' then ''zlib'' else ''none'')"

section \<open>File tools\<close>

definition call_fs_list ::
    "string option \<Rightarrow> string \<Rightarrow> bool option \<Rightarrow> int option \<Rightarrow> ('w fleet_scheme, dir_entry list) io" where
  "call_fs_list target path recursive max_depth =
     at_target target (\<lambda>t. fs_list t path (given False recursive) (given 8 max_depth))"

definition call_fs_stat :: "string option \<Rightarrow> string \<Rightarrow> ('w fleet_scheme, stat_result) io" where
  "call_fs_stat target path = at_target target (\<lambda>t. fs_stat t path)"

definition call_fs_read :: "string option \<Rightarrow> string \<Rightarrow> int option \<Rightarrow> int option \<Rightarrow> ('w fleet_scheme, read_result) io" where
  "call_fs_read target path offset len = at_target target (\<lambda>t. fs_read t path offset len)"

definition call_fs_write ::
    "string option \<Rightarrow> string \<Rightarrow> string \<Rightarrow> string option \<Rightarrow> int option \<Rightarrow> ('w fleet_scheme, string \<times> int) io" where
  "call_fs_write target path content compression raw_len =
     at_target target (\<lambda>t. fs_write t path content (zlib_or_none (given ''none'' compression)) raw_len)"

definition call_fs_write_chunk ::
    "string option \<Rightarrow> string \<Rightarrow> int \<Rightarrow> string \<Rightarrow> string option \<Rightarrow> int option \<Rightarrow> bool option \<Rightarrow> int option \<Rightarrow> ('w fleet_scheme, chunk_result) io" where
  "call_fs_write_chunk target path offset content compression raw_len shorten total_len =
     at_target target (\<lambda>t. fs_write_chunk t path offset content (zlib_or_none (given ''none'' compression)) raw_len shorten total_len)"

definition call_fs_delete :: "string option \<Rightarrow> string \<Rightarrow> bool option \<Rightarrow> ('w fleet_scheme, string) io" where
  "call_fs_delete target path recursive = at_target target (\<lambda>t. fs_delete t path (given False recursive))"

definition call_fs_makedir :: "string option \<Rightarrow> string \<Rightarrow> ('w fleet_scheme, string) io" where
  "call_fs_makedir target path = at_target target (\<lambda>t. fs_makedir t path)"

definition call_fs_rename :: "string option \<Rightarrow> string \<Rightarrow> string \<Rightarrow> ('w fleet_scheme, string \<times> string) io" where
  "call_fs_rename target src dst = at_target target (\<lambda>t. fs_rename t src dst)"

definition call_fs_protect :: "string option \<Rightarrow> string \<Rightarrow> int \<Rightarrow> ('w fleet_scheme, string \<times> int) io" where
  "call_fs_protect target path bits = at_target target (\<lambda>t. fs_protect t path bits)"

definition call_fs_copy ::
    "string option \<Rightarrow> string \<Rightarrow> string \<Rightarrow> ('w fleet_scheme, string \<times> string \<times> string) io" where
  "call_fs_copy target src dst = at_target target (\<lambda>t. fs_copy t src dst)"

definition call_fs_hash :: "string option \<Rightarrow> string \<Rightarrow> string option \<Rightarrow> ('w fleet_scheme, hash_result) io" where
  "call_fs_hash target path algorithm = at_target target (\<lambda>t. fs_hash t path (given ''sha256'' algorithm))"

definition call_fs_sync :: "string option \<Rightarrow> string option \<Rightarrow> ('w fleet_scheme, string \<times> bool) io" where
  "call_fs_sync target path = at_target target (\<lambda>t. fs_sync t (given ''SYS:'' path))"

definition call_fs_upload ::
    "(string \<Rightarrow> string) \<Rightarrow> (string \<Rightarrow> string) \<Rightarrow> string option \<Rightarrow> string \<Rightarrow> string \<Rightarrow> int option \<Rightarrow> string option \<Rightarrow> bool option \<Rightarrow> bool option \<Rightarrow> ('w fleet_scheme, upload_result) io" where
  "call_fs_upload deflate sha256 target local remote chunk_size compression verify resume =
     at_target target (\<lambda>t. fs_upload deflate sha256 t local remote (given (24*1024*1024) chunk_size) (given ''auto'' compression) (given False verify) (given False resume))"

definition call_fs_download ::
    "(string \<Rightarrow> string) \<Rightarrow> string option \<Rightarrow> string \<Rightarrow> string \<Rightarrow> int option \<Rightarrow> bool option \<Rightarrow> bool option \<Rightarrow> ('w fleet_scheme, download_result) io" where
  "call_fs_download sha256 target remote local chunk_size verify resume =
     at_target target (\<lambda>t. fs_download sha256 t remote local (given (24*1024*1024) chunk_size) (given False verify) (given False resume))"

section \<open>Commands\<close>

definition call_exec_cmd ::
    "string option \<Rightarrow> string \<Rightarrow> string list option \<Rightarrow> string option \<Rightarrow> int option \<Rightarrow> int option \<Rightarrow> bool option \<Rightarrow> int option \<Rightarrow> int option \<Rightarrow> string list option \<Rightarrow> int option \<Rightarrow> exec_result sbx" where
  "call_exec_cmd target command args cwd timeout priority sandboxed extmem window deny limit =
     at_target target (\<lambda>t. ExecTools.exec_cmd t command (given [] args) (given [] cwd) (given 30000 timeout) priority True (if (given False sandboxed) then Some \<lparr>so_extmem = extmem, so_window = window, so_deny = (given [] deny), so_time_limit = limit\<rparr> else None))"

definition call_exec_status :: "string option \<Rightarrow> int \<Rightarrow> job_status sbx" where
  "call_exec_status target job_id = at_target target (\<lambda>t. exec_status t job_id)"

definition call_exec_output :: "string option \<Rightarrow> int \<Rightarrow> int option \<Rightarrow> int option \<Rightarrow> job_output sbx" where
  "call_exec_output target job_id offset max_bytes =
     at_target target (\<lambda>t. exec_output t job_id (given 0 offset) (given 65536 max_bytes))"

definition call_exec_kill :: "string option \<Rightarrow> int \<Rightarrow> string option \<Rightarrow> int option \<Rightarrow> bool option \<Rightarrow> kill_result sbx" where
  "call_exec_kill target job_id sig wait_ms force =
     at_target target (\<lambda>t. exec_kill t job_id (given ''c'' sig) (given 2000 wait_ms) (given False force))"

definition call_exec_list :: "string option \<Rightarrow> job_list sbx" where
  "call_exec_list target = at_target target (\<lambda>t. exec_list t)"

section \<open>System\<close>

definition call_sys_version :: "string option \<Rightarrow> (string \<times> string option \<times> string option) sbx" where
  "call_sys_version target = at_target target (\<lambda>t. sys_version t)"

definition call_sys_tasks :: "string option \<Rightarrow> ('w fleet_scheme, json) io" where
  "call_sys_tasks target = at_target target (\<lambda>t. sys_tasks t)"

definition call_sys_libraries :: "string option \<Rightarrow> ('w fleet_scheme, json list) io" where
  "call_sys_libraries target = at_target target (\<lambda>t. sys_libraries t)"

definition call_sys_devices :: "string option \<Rightarrow> ('w fleet_scheme, json list) io" where
  "call_sys_devices target = at_target target (\<lambda>t. sys_devices t)"

definition call_sys_ports :: "string option \<Rightarrow> ('w fleet_scheme, json list) io" where
  "call_sys_ports target = at_target target (\<lambda>t. sys_ports t)"

definition call_sys_lastalert :: "string option \<Rightarrow> ('w fleet_scheme, json) io" where
  "call_sys_lastalert target = at_target target (\<lambda>t. sys_lastalert t)"

definition call_sys_debug_ring :: "string option \<Rightarrow> int option \<Rightarrow> ('w fleet_scheme, debug_ring) io" where
  "call_sys_debug_ring target max_lines = at_target target (\<lambda>t. sys_debug_ring t (given 500 max_lines))"

definition call_sys_uptime :: "string option \<Rightarrow> ('w fleet_scheme, json) io" where
  "call_sys_uptime target = at_target target (\<lambda>t. sys_uptime t)"

definition call_sys_memory :: "string option \<Rightarrow> ('w fleet_scheme, json) io" where
  "call_sys_memory target = at_target target (\<lambda>t. sys_memory t)"

definition call_sys_volumes :: "string option \<Rightarrow> ('w fleet_scheme, json list) io" where
  "call_sys_volumes target = at_target target (\<lambda>t. sys_volumes t)"

definition call_sys_assigns :: "string option \<Rightarrow> ('w fleet_scheme, json list) io" where
  "call_sys_assigns target = at_target target (\<lambda>t. sys_assigns t)"

definition call_sys_hardware :: "string option \<Rightarrow> ('w fleet_scheme, json) io" where
  "call_sys_hardware target = at_target target (\<lambda>t. sys_hardware t)"

definition call_sys_hardware_i2c :: "string option \<Rightarrow> int option \<Rightarrow> int option \<Rightarrow> ('w fleet_scheme, json) io" where
  "call_sys_hardware_i2c target addr_low addr_high =
     at_target target (\<lambda>t. sys_hardware_i2c t (given 8 addr_low) (given 119 addr_high))"

definition call_sys_hardware_perfcounters :: "string option \<Rightarrow> ('w fleet_scheme, json) io" where
  "call_sys_hardware_perfcounters target = at_target target (\<lambda>t. sys_hardware_perfcounters t)"

definition call_sys_executable_symbols ::
    "string option \<Rightarrow> string \<Rightarrow> string option \<Rightarrow> string option \<Rightarrow> string option \<Rightarrow> int option \<Rightarrow> ('w fleet_scheme, json) io" where
  "call_sys_executable_symbols target path matching binding ty limit =
     at_target target (\<lambda>t. sys_executable_symbols t path matching binding ty (given 256 limit))"

definition call_sys_applications :: "string option \<Rightarrow> ('w fleet_scheme, json) io" where
  "call_sys_applications target = at_target target (\<lambda>t. sys_applications t)"

definition call_sys_alert_decode :: "string option \<Rightarrow> int \<Rightarrow> ('w fleet_scheme, json) io" where
  "call_sys_alert_decode target code = at_target target (\<lambda>t. sys_alert_decode t code)"

definition call_sys_cold_reboot :: "string option \<Rightarrow> bool \<Rightarrow> int option \<Rightarrow> ('w fleet_scheme, bool \<times> int) io" where
  "call_sys_cold_reboot target confirm delay_ms =
     at_target target (\<lambda>t. sys_cold_reboot t confirm (given 500 delay_ms))"

definition call_sys_read_ccsr :: "string option \<Rightarrow> int \<Rightarrow> int option \<Rightarrow> ('w fleet_scheme, ccsr_result) io" where
  "call_sys_read_ccsr target offset count = at_target target (\<lambda>t. sys_read_ccsr t offset (given 1 count))"

definition call_sys_mcu_cmd ::
    "string option \<Rightarrow> string \<Rightarrow> int option \<Rightarrow> bool option \<Rightarrow> ('w fleet_scheme, mcu_result) io" where
  "call_sys_mcu_cmd target cmd unit_no confirm =
     at_target target (\<lambda>t. sys_mcu_cmd t cmd (given 1 unit_no) (given False confirm))"

definition call_sys_read_pa :: "string option \<Rightarrow> int \<Rightarrow> int option \<Rightarrow> int option \<Rightarrow> ('w fleet_scheme, pa_result) io" where
  "call_sys_read_pa target pa count width =
     at_target target (\<lambda>t. sys_read_pa t pa (given 1 count) (given 4 width))"

definition call_sys_tlb_dump :: "string option \<Rightarrow> ('w fleet_scheme, int \<times> int \<times> json list) io" where
  "call_sys_tlb_dump target = at_target target (\<lambda>t. sys_tlb_dump t)"

section \<open>Power\<close>

definition call_power_help :: "captures \<Rightarrow> string option \<Rightarrow> bool option \<Rightarrow> (fleet, shell_reply) pio" where
  "call_power_help caps target force = at_target_p target (\<lambda>t. power_help caps t (given False force))"

definition call_power_identify :: "captures \<Rightarrow> string option \<Rightarrow> bool option \<Rightarrow> (fleet, shell_reply) pio" where
  "call_power_identify caps target force = at_target_p target (\<lambda>t. power_identify caps t (given False force))"

definition call_power_identify_dates :: "captures \<Rightarrow> string option \<Rightarrow> bool option \<Rightarrow> (fleet, shell_reply) pio" where
  "call_power_identify_dates caps target force =
     at_target_p target (\<lambda>t. power_identify_dates caps t (given False force))"

definition call_power_sensors :: "captures \<Rightarrow> string option \<Rightarrow> bool option \<Rightarrow> (fleet, shell_reply) pio" where
  "call_power_sensors caps target force = at_target_p target (\<lambda>t. power_sensors caps t (given False force))"

definition call_power_toggle_stream ::
    "captures \<Rightarrow> string option \<Rightarrow> int option \<Rightarrow> bool option \<Rightarrow> bool option \<Rightarrow> (fleet, shell_reply + stream_capture) pio" where
  "call_power_toggle_stream caps target watch_ms confirm force =
     at_target_p target (\<lambda>t. power_toggle_stream caps t (given 0 watch_ms) (given False confirm) (given False force))"

definition call_power_on :: "captures \<Rightarrow> string option \<Rightarrow> bool option \<Rightarrow> (fleet, shell_reply) pio" where
  "call_power_on caps target confirm = at_target_p target (\<lambda>t. power_on caps t (given False confirm))"

definition call_power_off :: "captures \<Rightarrow> string option \<Rightarrow> bool option \<Rightarrow> (fleet, shell_reply) pio" where
  "call_power_off caps target confirm = at_target_p target (\<lambda>t. power_off caps t (given False confirm))"

definition call_power_shell ::
    "captures \<Rightarrow> string option \<Rightarrow> string \<Rightarrow> bool option \<Rightarrow> bool option \<Rightarrow> (fleet, shell_reply) pio" where
  "call_power_shell caps target cmd confirm force =
     at_target_p target (\<lambda>t. power_shell caps t cmd (given False confirm) (given False force))"

section \<open>Notices\<close>

definition call_app_notify :: "string option \<Rightarrow> string \<Rightarrow> string \<Rightarrow> int option \<Rightarrow> ('w fleet_scheme, notified) io" where
  "call_app_notify target title body priority =
     at_target target (\<lambda>t. app_notify t title body (given 0 priority))"

definition call_notify_on_alert ::
    "string option \<Rightarrow> int option \<Rightarrow> string option \<Rightarrow> ('w fleet_scheme, alert_notice) io" where
  "call_notify_on_alert target timeout title =
     at_target target (\<lambda>t. notify_on_alert t (given 60000 timeout) (given ''MCPd alert detected'' title))"

section \<open>Screens\<close>

definition call_wb_screens :: "string option \<Rightarrow> ('w fleet_scheme, screen_info list) io" where
  "call_wb_screens target = at_target target (\<lambda>t. wb_screens t)"

definition call_wb_windows :: "string option \<Rightarrow> ('w fleet_scheme, window_info list) io" where
  "call_wb_windows target = at_target target (\<lambda>t. wb_windows t)"

definition call_wb_publicscreens :: "string option \<Rightarrow> ('w fleet_scheme, (string \<times> int) list) io" where
  "call_wb_publicscreens target = at_target target (\<lambda>t. wb_publicscreens t)"

definition call_wb_frontmost :: "string option \<Rightarrow> ('w fleet_scheme, frontmost) io" where
  "call_wb_frontmost target = at_target target (\<lambda>t. wb_frontmost t)"

definition call_wb_screenshot ::
    "string option \<Rightarrow> int option \<Rightarrow> string option \<Rightarrow> bool option \<Rightarrow> bool option \<Rightarrow> ('w fleet_scheme, wb_shot) io" where
  "call_wb_screenshot target screen_index save_path keep_remote inline =
     at_target target (\<lambda>t. wb_screenshot t (given 0 screen_index) save_path ''T:mcpd-shot.png'' (given False keep_remote) (given True inline))"

section \<open>Input\<close>

definition call_input_state :: "string option \<Rightarrow> ('w fleet_scheme, input_state) io" where
  "call_input_state target = at_target target (\<lambda>t. get_input_state t)"

definition call_input_type ::
    "(string \<Rightarrow> string) \<Rightarrow> string option \<Rightarrow> string \<Rightarrow> string option \<Rightarrow> int option \<Rightarrow> bool option \<Rightarrow> ('w fleet_scheme, type_result) io" where
  "call_input_type sha256 target body keymap delay_ms confirm =
     at_target target (\<lambda>t. input_type sha256 t body (given ''system'' keymap) delay_ms (given False confirm))"

definition call_input_key ::
    "string option \<Rightarrow> string list option \<Rightarrow> string option \<Rightarrow> int option \<Rightarrow> bool option \<Rightarrow> bool option \<Rightarrow> ('w fleet_scheme, key_result) io" where
  "call_input_key target keys chord delay_ms confirm confirm_reset =
     at_target target (\<lambda>t. input_key t keys chord delay_ms (given False confirm) (given False confirm_reset))"

definition call_input_mouse_move ::
    "string option \<Rightarrow> int option \<Rightarrow> int option \<Rightarrow> int option \<Rightarrow> int option \<Rightarrow> string option \<Rightarrow> int option \<Rightarrow> int option \<Rightarrow> ('w fleet_scheme, mouse_result) io" where
  "call_input_mouse_move target x y dx dy absolute_mode steps delay_ms =
     at_target target (\<lambda>t. input_mouse_move t x y dx dy (given ''delta'' absolute_mode) (given 1 steps) delay_ms)"

definition call_input_click ::
    "string option \<Rightarrow> string option \<Rightarrow> int option \<Rightarrow> int option \<Rightarrow> int option \<Rightarrow> int option \<Rightarrow> bool option \<Rightarrow> ('w fleet_scheme, mouse_result) io" where
  "call_input_click target button count x y delay_ms confirm =
     at_target target (\<lambda>t. input_click t (given ''left'' button) (given 1 count) x y delay_ms (given False confirm))"

definition call_input_drag ::
    "string option \<Rightarrow> int \<Rightarrow> int \<Rightarrow> int \<Rightarrow> int \<Rightarrow> string option \<Rightarrow> int option \<Rightarrow> int option \<Rightarrow> bool option \<Rightarrow> ('w fleet_scheme, mouse_result) io" where
  "call_input_drag target from_x from_y to_x to_y button steps delay_ms confirm =
     at_target target (\<lambda>t. input_drag t (from_x, from_y) (to_x, to_y) (given ''left'' button) (given 16 steps) delay_ms (given False confirm))"

definition call_input_scroll ::
    "string option \<Rightarrow> int option \<Rightarrow> string option \<Rightarrow> int option \<Rightarrow> string option \<Rightarrow> ('w fleet_scheme, mouse_result) io" where
  "call_input_scroll target clicks direction delay_ms style =
     at_target target (\<lambda>t. input_scroll t (given 1 clicks) (given ''down'' direction) delay_ms (given ''native'' style))"

section \<open>Debugger\<close>

definition call_debug_read_registers :: "string option \<Rightarrow> ('w fleet_scheme, registers) io" where
  "call_debug_read_registers target = at_target target (\<lambda>t. debug_read_registers t)"

definition call_debug_read_memory :: "string option \<Rightarrow> int \<Rightarrow> int \<Rightarrow> ('w fleet_scheme, memory_read) io" where
  "call_debug_read_memory target addr len = at_target target (\<lambda>t. debug_read_memory t addr len)"

definition call_debug_stop_reason :: "string option \<Rightarrow> ('w fleet_scheme, string) io" where
  "call_debug_stop_reason target = at_target target (\<lambda>t. debug_stop_reason t)"

definition call_debug_detach :: "string option \<Rightarrow> ('w fleet_scheme, bool) io" where
  "call_debug_detach target = at_target target (\<lambda>t. debug_detach t)"

definition call_debug_set_breakpoint ::
    "string option \<Rightarrow> int \<Rightarrow> int option \<Rightarrow> bool option \<Rightarrow> ('w fleet_scheme, int \<times> bool \<times> string) io" where
  "call_debug_set_breakpoint target addr kind hardware =
     at_target target (\<lambda>t. debug_set_breakpoint t addr (given 4 kind) (given False hardware))"

definition call_debug_clear_breakpoint ::
    "string option \<Rightarrow> int \<Rightarrow> int option \<Rightarrow> bool option \<Rightarrow> ('w fleet_scheme, int \<times> bool \<times> string) io" where
  "call_debug_clear_breakpoint target addr kind hardware =
     at_target target (\<lambda>t. debug_clear_breakpoint t addr (given 4 kind) (given False hardware))"

definition call_debug_step :: "string option \<Rightarrow> ('w fleet_scheme, string) io" where
  "call_debug_step target = at_target target (\<lambda>t. debug_step t)"

definition call_debug_continue :: "string option \<Rightarrow> int option \<Rightarrow> ('w fleet_scheme, string \<times> bool) io" where
  "call_debug_continue target timeout_us = at_target target (\<lambda>t. debug_continue t (given 5000000 timeout_us))"

definition call_debug_backtrace :: "string option \<Rightarrow> int option \<Rightarrow> ('w fleet_scheme, backtrace) io" where
  "call_debug_backtrace target max_frames = at_target target (\<lambda>t. debug_backtrace t (given 16 max_frames))"

definition call_debug_task_snapshot :: "string option \<Rightarrow> string \<Rightarrow> int option \<Rightarrow> ('w fleet_scheme, json) io" where
  "call_debug_task_snapshot target name max_frames =
     at_target target (\<lambda>t. debug_task_snapshot t name (given 16 max_frames))"

definition call_debug_symbol :: "string option \<Rightarrow> int \<Rightarrow> ('w fleet_scheme, symbol) io" where
  "call_debug_symbol target address = at_target target (\<lambda>t. debug_symbol t address)"

definition call_debug_stacktrace :: "string option \<Rightarrow> string \<Rightarrow> int option \<Rightarrow> ('w fleet_scheme, stacktrace) io" where
  "call_debug_stacktrace target name max_frames =
     at_target target (\<lambda>t. debug_stacktrace t name (given 32 max_frames))"

definition call_debug_write_memory :: "string option \<Rightarrow> int \<Rightarrow> string \<Rightarrow> ('w fleet_scheme, int \<times> int) io" where
  "call_debug_write_memory target address data_b64 =
     at_target target (\<lambda>t. debug_write_memory t address data_b64)"

definition call_debug_write_register ::
    "string option \<Rightarrow> string \<Rightarrow> string \<Rightarrow> int \<Rightarrow> ('w fleet_scheme, register_written) io" where
  "call_debug_write_register target name register v =
     at_target target (\<lambda>t. debug_write_register t name register v)"

definition call_events_wait ::
    "string option \<Rightarrow> string list option \<Rightarrow> int option \<Rightarrow> ('w fleet_scheme, (string \<times> json) list \<times> int) io" where
  "call_events_wait target topics timeout = at_target target (\<lambda>t. events_wait t topics (given 5000 timeout))"

section \<open>QEMU\<close>

definition call_fleet_target_status :: "string option \<Rightarrow> (fleet, target_status) io" where
  "call_fleet_target_status target = at_target target (\<lambda>t. fleet_target_status t)"

definition call_qemu_start :: "string option \<Rightarrow> (fleet, qemu_started) io" where
  "call_qemu_start target = at_target target (\<lambda>t. qemu_start t)"

definition call_qemu_stop ::
    "(fleet \<Rightarrow> nat \<Rightarrow> int option) \<Rightarrow> string option \<Rightarrow> int option \<Rightarrow> int option \<Rightarrow> (fleet, qemu_stopped) io" where
  "call_qemu_stop last_write target timeout settle_ms =
     at_target target (\<lambda>t. qemu_stop last_write t (given 10000 timeout) settle_ms)"

definition call_qemu_reset ::
    "(fleet \<Rightarrow> nat \<Rightarrow> int option) \<Rightarrow> string option \<Rightarrow> bool option \<Rightarrow> (fleet, qemu_reset_result) io" where
  "call_qemu_reset last_write target raw_reset =
     at_target target (\<lambda>t. qemu_reset last_write t (given False raw_reset))"

definition call_qemu_status :: "string option \<Rightarrow> (fleet, qemu_state) io" where
  "call_qemu_status target = at_target target (\<lambda>t. qemu_status t)"

definition call_qemu_screenshot :: "string option \<Rightarrow> string option \<Rightarrow> (fleet, qemu_shot) io" where
  "call_qemu_screenshot target save_path = at_target target (\<lambda>t. qemu_screenshot t save_path)"

definition call_qemu_savevm :: "string option \<Rightarrow> string \<Rightarrow> (fleet, string \<times> string) io" where
  "call_qemu_savevm target name = at_target target (\<lambda>t. qemu_savevm t name)"

definition call_qemu_loadvm :: "string option \<Rightarrow> string \<Rightarrow> (fleet, string \<times> string) io" where
  "call_qemu_loadvm target name = at_target target (\<lambda>t. qemu_loadvm t name)"

definition call_qemu_list_snapshots :: "string option \<Rightarrow> (fleet, snapshot_entry list \<times> string) io" where
  "call_qemu_list_snapshots target = at_target target (\<lambda>t. qemu_list_snapshots t)"

definition call_qemu_delete_snapshot :: "string option \<Rightarrow> string \<Rightarrow> (fleet, string \<times> string) io" where
  "call_qemu_delete_snapshot target name = at_target target (\<lambda>t. qemu_delete_snapshot t name)"

section \<open>Tests\<close>

definition call_tests_run_standard_dos_tests :: "string option \<Rightarrow> (nat \<times> nat \<times> parse_entry list) sbx" where
  "call_tests_run_standard_dos_tests target = at_target target (\<lambda>t. tests_run_standard_dos_tests t)"

definition call_tests_run_suite ::
    "(string \<Rightarrow> (string \<times> bool) list) \<Rightarrow> bool \<Rightarrow> string option \<Rightarrow> string \<Rightarrow> bool option \<Rightarrow> int option \<Rightarrow> suite_run sbx" where
  "call_tests_run_suite ppf loaded target suite skip_uploads priority =
     at_target target (\<lambda>t. tests_run_suite ppf loaded t suite (given False skip_uploads) priority)"

section \<open>Sandbox\<close>

definition call_sandbox_probe :: "string option \<Rightarrow> sandbox_probe_result sbx" where
  "call_sandbox_probe target = at_target target (\<lambda>t. sandbox_probe t)"

definition call_sandbox_deploy ::
    "(string \<Rightarrow> string) \<Rightarrow> (string \<Rightarrow> string) \<Rightarrow> string option \<Rightarrow> string option \<Rightarrow> string option \<Rightarrow> bool option \<Rightarrow> deployed sbx" where
  "call_sandbox_deploy deflate sha256 target source dest_path confirm =
     at_target target (\<lambda>t. sandbox_deploy deflate sha256 t source dest_path (given False confirm))"

definition call_sandbox_run_guest ::
    "string option \<Rightarrow> string \<Rightarrow> string list option \<Rightarrow> int option \<Rightarrow> int option \<Rightarrow> string list option \<Rightarrow> string option \<Rightarrow> int option \<Rightarrow> guest_run sbx" where
  "call_sandbox_run_guest target guest args extmem window deny name timeout =
     at_target target (\<lambda>t. sandbox_run_guest t guest (given [] args) extmem window (given [] deny) name (given 120000 timeout))"

definition call_sandbox_run_driver ::
    "string option \<Rightarrow> string \<Rightarrow> string option \<Rightarrow> string list option \<Rightarrow> int option \<Rightarrow> int option \<Rightarrow> string list option \<Rightarrow> string option \<Rightarrow> int option \<Rightarrow> guest_run sbx" where
  "call_sandbox_run_driver target driver test args extmem window deny name timeout =
     at_target target (\<lambda>t. sandbox_run_driver t driver test (given [] args) extmem window (given [] deny) name (given 120000 timeout))"

definition call_sandbox_last_trap :: "string option \<Rightarrow> int option \<Rightarrow> int option \<Rightarrow> int option \<Rightarrow> last_trap sbx" where
  "call_sandbox_last_trap target max_lines retry_count retry_delay_ms =
     at_target target (\<lambda>t. sandbox_last_trap t (given 500 max_lines) (given 3 retry_count) (given 200 retry_delay_ms))"

definition call_sandbox_run_batch ::
    "string option \<Rightarrow> spec list \<Rightarrow> int option \<Rightarrow> int option \<Rightarrow> string list option \<Rightarrow> string option \<Rightarrow> int option \<Rightarrow> int option \<Rightarrow> batch_run sbx" where
  "call_sandbox_run_batch target specs extmem window deny name timeout priority =
     at_target target (\<lambda>t. sandbox_run_batch t specs extmem window (given [] deny) name (given 600000 timeout) priority)"

section \<open>Tools on several targets, or on none\<close>

definition call_notify_fleet ::
    "config \<Rightarrow> (nat \<Rightarrow> string \<Rightarrow> exn + notified) \<Rightarrow> string list option \<Rightarrow> string list option \<Rightarrow> notify_entry list" where
  "call_notify_fleet c out names wanted = notify_fleet c out names wanted"

definition call_fleet_list_targets :: "string list option \<Rightarrow> (fleet, target_summary list) io" where
  "call_fleet_list_targets wanted = fleet_list_targets wanted"

definition call_fleet_snapshot ::
    "config \<Rightarrow> (nat \<Rightarrow> string \<Rightarrow> exn + target_snapshot) \<Rightarrow> string list option \<Rightarrow> exn + target_snapshot list" where
  "call_fleet_snapshot c out wanted = fleet_snapshot c out wanted"

definition call_fleet_run_on_all ::
    "config \<Rightarrow> (nat \<Rightarrow> string \<Rightarrow> exn + json) \<Rightarrow> string \<Rightarrow> string list option \<Rightarrow> string list option \<Rightarrow>
     exn + (string \<times> fan_entry) list" where
  "call_fleet_run_on_all c out method names wanted = fleet_run_on_all c method names wanted out"

definition call_fleet_barrier ::
    "config \<Rightarrow> (nat \<Rightarrow> string \<Rightarrow> exn + json) \<Rightarrow> string \<Rightarrow> string list option \<Rightarrow> string option \<Rightarrow> string list option \<Rightarrow>
     exn + (string \<times> fan_entry) list" where
  "call_fleet_barrier c out method names timeout wanted = fleet_barrier c method names wanted (given ''30.0'' timeout) out"

definition call_fleet_discover :: "exn + string list \<Rightarrow> string \<Rightarrow> int option \<Rightarrow> (fleet, discovered list) pio" where
  "call_fleet_discover ips tag timeout = fleet_discover ips tag (given 1500 timeout)"

definition call_fleet_relay :: "string \<Rightarrow> string \<Rightarrow> string \<Rightarrow> string \<Rightarrow> (fleet, int) io" where
  "call_fleet_relay src_target src_path dst_target dst_path = fleet_relay src_target src_path dst_target dst_path"

definition call_fleet_quorum_run ::
    "config \<Rightarrow> (nat \<Rightarrow> string \<Rightarrow> exn + json) \<Rightarrow> nat list list \<Rightarrow> string \<Rightarrow> int \<Rightarrow> string list option \<Rightarrow>
     string list option \<Rightarrow> exn + quorum_result" where
  "call_fleet_quorum_run c out schedule method quorum names wanted = fleet_quorum_run c method quorum names wanted out schedule"

definition call_tests_list_suites :: "suite_summary list sbx" where
  "call_tests_list_suites = tests_list_suites"

definition call_tests_parse_output ::
    "(string \<Rightarrow> (string \<times> bool) list) \<Rightarrow> bool \<Rightarrow> string \<Rightarrow> (parse_entry list \<times> nat \<times> nat) sbx" where
  "call_tests_parse_output ppf loaded output_b64 = tests_parse_output ppf loaded output_b64"

section \<open>Serial captures\<close>

text \<open>The registry of captures and the configuration are arguments of these tools.\<close>

definition call_serial_start ::
    "config \<Rightarrow> start_env \<Rightarrow> int \<Rightarrow> string option \<Rightarrow> string option \<Rightarrow> bool option \<Rightarrow> captures \<Rightarrow> (exn + start_result) \<times> captures" where
  "call_serial_start c env time target channel shorten caps = (case fleet_resolve c target of Inl e \<Rightarrow> (Inl e, caps)
     | Inr t \<Rightarrow> serial_start c t (given ''uboot'' channel) (given False shorten) env time caps)"

definition call_serial_stop ::
    "config \<Rightarrow> (capture \<Rightarrow> capture) \<Rightarrow> int \<Rightarrow> string option \<Rightarrow> string option \<Rightarrow> captures \<Rightarrow> (exn + stop_result) \<times> captures" where
  "call_serial_stop c meanwhile time target channel caps = (case fleet_resolve c target of Inl e \<Rightarrow> (Inl e, caps)
     | Inr t \<Rightarrow> (case serial_stop t (given ''uboot'' channel) meanwhile time caps of (r, caps') \<Rightarrow> (Inr r, caps')))"

definition call_serial_status :: "string option \<Rightarrow> string option \<Rightarrow> captures \<Rightarrow> capture list" where
  "call_serial_status target channel caps = serial_status (if target = Some [] then None else target) channel caps"

definition call_serial_read ::
    "config \<Rightarrow> string option \<Rightarrow> string option \<Rightarrow> int option \<Rightarrow> int option \<Rightarrow> captures \<Rightarrow> (exn + read_page) \<times> captures" where
  "call_serial_read c target channel offset max_bytes caps = (case fleet_resolve c target of Inl e \<Rightarrow> (Inl e, caps)
     | Inr t \<Rightarrow> serial_read c t (given ''uboot'' channel) (given 0 offset) (given 65536 max_bytes) caps)"

definition call_serial_tail ::
    "config \<Rightarrow> string option \<Rightarrow> string option \<Rightarrow> int option \<Rightarrow> captures \<Rightarrow> (exn + read_page) \<times> captures" where
  "call_serial_tail c target channel max_bytes caps = (case fleet_resolve c target of Inl e \<Rightarrow> (Inl e, caps)
     | Inr t \<Rightarrow> serial_tail c t (given ''uboot'' channel) (given 8192 max_bytes) caps)"

definition call_serial_clear :: "config \<Rightarrow> string option \<Rightarrow> string option \<Rightarrow> captures \<Rightarrow> (exn + capture) \<times> captures" where
  "call_serial_clear c target channel caps = (case fleet_resolve c target of Inl e \<Rightarrow> (Inl e, caps)
     | Inr t \<Rightarrow> serial_clear c t (given ''uboot'' channel) caps)"

section \<open>Installer tools, with the defaults of the configuration\<close>

definition default_of :: "string \<Rightarrow> defaults_config \<Rightarrow> string option" where
  "default_of attr d = (if attr = ''dest_volume'' then dest_volume d else if attr = ''sources_dir'' then sources_dir d
     else if attr = ''machine'' then d_machine d else if attr = ''iso_filename'' then iso_filename d else None)"

definition missing_parameter :: "string \<Rightarrow> exn" where
  "missing_parameter p = RpcErr InvalidParams (''missing required parameter '' @ py_repr p
     @ ''; pass it explicitly or set `[defaults] '' @ p @ '' = ...` in your config.toml.'') None"

text \<open>\<^verbatim>\<open>_default\<close>, whose attribute and parameter always have the same name.\<close>

definition default_param :: "string \<Rightarrow> config \<Rightarrow> string option \<Rightarrow> exn + string" where
  "default_param p c v = (case v of Some (x # xs) \<Rightarrow> Inr (x # xs)
     | _ \<Rightarrow> (case default_of p (defaults c) of Some (d # ds) \<Rightarrow> Inr (d # ds) | _ \<Rightarrow> Inl (missing_parameter p)))"

definition or_default :: "string \<Rightarrow> config \<Rightarrow> string option \<Rightarrow> string option" where
  "or_default p c v = (case v of None \<Rightarrow> default_of p (defaults c) | Some x \<Rightarrow> Some x)"

definition with_param :: "string \<Rightarrow> string option \<Rightarrow> (string \<Rightarrow> ('w fleet_scheme, 'a) io) \<Rightarrow> ('w fleet_scheme, 'a) io" where
  "with_param p v m = bnd (gets f_config) (\<lambda>c. bnd (lift (default_param p c v)) m)"

definition with_param_p :: "string \<Rightarrow> string option \<Rightarrow> (string \<Rightarrow> ('w fleet_scheme, 'a) pio) \<Rightarrow> ('w fleet_scheme, 'a) pio" where
  "with_param_p p v m = pbnd (always (gets f_config)) (\<lambda>c. pbnd (always (lift (default_param p c v))) m)"

definition call_required_files :: "config \<Rightarrow> string option \<Rightarrow> exn + required_result" where
  "call_required_files c machine = ebnd (default_param ''machine'' c machine) installer_required_files"

definition call_scan_sources :: "host_env \<Rightarrow> config \<Rightarrow> string option \<Rightarrow> exn + scan_result" where
  "call_scan_sources env c sources = ebnd (default_param ''sources_dir'' c sources) (\<lambda>d. Inr (installer_scan_sources env d))"

definition call_preflight ::
    "host_env \<Rightarrow> string option \<Rightarrow> string option \<Rightarrow> string option \<Rightarrow> string option \<Rightarrow> string option \<Rightarrow> (fleet, preflight) io" where
  "call_preflight env target dest sources machine iso_name =
     with_param ''dest_volume'' dest (\<lambda>vol. with_param ''sources_dir'' sources (\<lambda>dir.
     bnd (gets f_config) (\<lambda>c.
     at_target target (\<lambda>t. installer_preflight env t vol dir (or_default ''machine'' c machine) iso_name))))"

definition call_mount_iso ::
    "string option \<Rightarrow> string \<Rightarrow> string option \<Rightarrow> int option \<Rightarrow> string option option \<Rightarrow> int option \<Rightarrow> int option \<Rightarrow>
     (fleet, mount_result) pio" where
  "call_mount_iso target img dev u expected timeout settle = at_target_p target (\<lambda>t.
     installer_mount_iso t img (given ''COMBI:'' dev) (given 50 u) (given (Some ''AmigaOS 4.1 Final Edition:'') expected)
       (given 30000 timeout) (given 3000 settle))"

definition call_unmount_iso :: "string option \<Rightarrow> int option \<Rightarrow> int option \<Rightarrow> (fleet, string) io" where
  "call_unmount_iso target u timeout = at_target target (\<lambda>t. installer_unmount_iso t (given 50 u) (given 15000 timeout))"

definition call_copy_tree ::
    "string option \<Rightarrow> string \<Rightarrow> string \<Rightarrow> bool option \<Rightarrow> bool option \<Rightarrow> bool option \<Rightarrow> bool option \<Rightarrow> int option \<Rightarrow>
     (fleet, run_result) io" where
  "call_copy_tree target src dst every clone quiet confirm timeout = at_target target (\<lambda>t.
     installer_copy_tree t src dst (given True every) (given True clone) (given True quiet) (given False confirm)
       (given 600000 timeout))"

definition call_apply_lha ::
    "string option \<Rightarrow> string \<Rightarrow> string \<Rightarrow> bool option \<Rightarrow> int option \<Rightarrow> (fleet, run_result) io" where
  "call_apply_lha target arc dest confirm timeout = at_target target (\<lambda>t.
     installer_apply_lha t arc dest (given False confirm) (given 600000 timeout))"

definition call_read_kicklayout :: "string option \<Rightarrow> string option \<Rightarrow> (fleet, string) io" where
  "call_read_kicklayout target dest = with_param ''dest_volume'' dest (\<lambda>vol. at_target target (\<lambda>t. installer_read_kicklayout t vol))"

definition call_write_kicklayout ::
    "string option \<Rightarrow> string option \<Rightarrow> string \<Rightarrow> bool option \<Rightarrow> string option option \<Rightarrow> (fleet, write_kick) io" where
  "call_write_kicklayout target dest content confirm bak = with_param ''dest_volume'' dest (\<lambda>vol. at_target target (\<lambda>t.
     installer_write_kicklayout t vol content (given False confirm) (given (Some ''.bak'') bak)))"

definition call_patch_kicklayout ::
    "string option \<Rightarrow> string option \<Rightarrow> (string list \<times> string) list option \<Rightarrow> (string \<times> string) list option \<Rightarrow> bool option \<Rightarrow>
     string option option \<Rightarrow> (fleet, patch_result) io" where
  "call_patch_kicklayout target dest mods reps confirm bak = with_param ''dest_volume'' dest (\<lambda>vol. at_target target (\<lambda>t.
     installer_patch_kicklayout t vol (given [] mods) (given [] reps) (given False confirm) (given (Some ''.bak'') bak)))"

definition call_install_x5000 ::
    "(exn \<Rightarrow> string) \<Rightarrow> host_env \<Rightarrow> string option \<Rightarrow> string option \<Rightarrow> string option \<Rightarrow> string option \<Rightarrow> bool option \<Rightarrow>
     bool option \<Rightarrow> (fleet, seq_result) pio" where
  "call_install_x5000 tb env target dest iso_name sources dry_run confirm = with_param_p ''dest_volume'' dest (\<lambda>vol.
     pbnd (always (gets f_config)) (\<lambda>c.
     at_target_p target (\<lambda>t. installer_install_x5000 tb env t vol (or_default ''iso_filename'' c iso_name)
       (or_default ''sources_dir'' c sources) (given True dry_run) (given False confirm))))"

definition call_installer_run ::
    "(exn \<Rightarrow> string) \<Rightarrow> host_env \<Rightarrow> string option \<Rightarrow> string option \<Rightarrow> string option \<Rightarrow> string option \<Rightarrow> string option \<Rightarrow>
     bool option \<Rightarrow> bool option \<Rightarrow> (fleet, seq_result) pio" where
  "call_installer_run tb env target dest machine iso_name sources dry_run confirm =
     with_param_p ''dest_volume'' dest (\<lambda>vol. with_param_p ''machine'' machine (\<lambda>m.
     pbnd (always (gets f_config)) (\<lambda>c.
     at_target_p target (\<lambda>t. installer_run tb env t vol m (or_default ''iso_filename'' c iso_name)
       (or_default ''sources_dir'' c sources) (given True dry_run) (given False confirm)))))"

definition call_installer_stage ::
    "(string \<Rightarrow> string) \<Rightarrow> host_env \<Rightarrow> string option \<Rightarrow> string option \<Rightarrow> string option \<Rightarrow> string option \<Rightarrow> string option \<Rightarrow>
     string option \<Rightarrow> bool option \<Rightarrow> (fleet, stage_result) io" where
  "call_installer_stage deflate env target dest sources machine iso_name iso_lha confirm =
     with_param ''dest_volume'' dest (\<lambda>vol. with_param ''sources_dir'' sources (\<lambda>dir. with_param ''machine'' machine (\<lambda>m.
     bnd (gets f_config) (\<lambda>c.
     at_target target (\<lambda>t. installer_stage deflate env t vol dir m (or_default ''iso_filename'' c iso_name) iso_lha (given False confirm))))))"

definition call_installer_verify ::
    "string option \<Rightarrow> string option \<Rightarrow> string option \<Rightarrow> string list option \<Rightarrow> bool option \<Rightarrow> (fleet, verify_result) io" where
  "call_installer_verify target dest machine extra hashes =
     with_param ''dest_volume'' dest (\<lambda>vol. with_param ''machine'' machine (\<lambda>m.
     at_target target (\<lambda>t. installer_verify t vol m extra (given False hashes))))"

end
