(* ===== verification/Server.thy ===== *)
theory Server
  imports ServerTools
begin

text \<open>
  The server (\<^verbatim>\<open>server.py\<close>): the table of the registered tools, the dispatchers that fold the tools of a
  namespace into one, the resources, and the modes of the command line.  A tool function with the keyword
  arguments of a client is a parameter (\<open>impl\<close>, by the name of the tool): binding the arguments is Python's.
\<close>

section \<open>Registered tools\<close>

text \<open>The name and the title of the tool, the name in the log, and the argument the log takes the target from.\<close>

record registration =
  reg_name :: string
  reg_title :: string
  reg_logged :: string
  reg_target_arg :: string

definition tool :: "string \<Rightarrow> string \<Rightarrow> string \<Rightarrow> string \<Rightarrow> registration" where
  "tool name title logged arg = \<lparr>reg_name = name, reg_title = title, reg_logged = logged, reg_target_arg = arg\<rparr>"

definition proto_tools :: "registration list" where
  "proto_tools = [
    tool ''proto_capabilities'' ''proto.capabilities'' ''proto.capabilities'' ''_unused_'']"

definition fs_tools :: "registration list" where
  "fs_tools = [
    tool ''fs_list'' ''fs.list'' ''fs.list'' ''target'',
    tool ''fs_stat'' ''fs.stat'' ''fs.stat'' ''target'',
    tool ''fs_read'' ''fs.read'' ''fs.read'' ''target'',
    tool ''fs_write'' ''fs.write'' ''fs.write'' ''target'',
    tool ''fs_write_chunk'' ''fs.write_chunk'' ''fs.write_chunk'' ''target'',
    tool ''fs_delete'' ''fs.delete'' ''fs.delete'' ''target'',
    tool ''fs_makedir'' ''fs.makedir'' ''fs.makedir'' ''target'',
    tool ''fs_rename'' ''fs.rename'' ''fs.rename'' ''target'',
    tool ''fs_protect'' ''fs.protect'' ''fs.protect'' ''target'',
    tool ''fs_copy'' ''fs.copy'' ''fs.copy'' ''target'',
    tool ''fs_hash'' ''fs.hash'' ''fs.hash'' ''target'',
    tool ''fs_sync'' ''fs.sync'' ''fs.sync'' ''target'',
    tool ''fs_upload'' ''fs.upload'' ''fs.upload'' ''target'',
    tool ''fs_download'' ''fs.download'' ''fs.download'' ''target'']"

definition exec_tools :: "registration list" where
  "exec_tools = [
    tool ''exec_cmd'' ''exec.cmd'' ''exec.cmd'' ''target'',
    tool ''exec_status'' ''exec.status'' ''exec.status'' ''target'',
    tool ''exec_output'' ''exec.output'' ''exec.output'' ''target'',
    tool ''exec_kill'' ''exec.kill'' ''exec.kill'' ''target'',
    tool ''exec_list'' ''exec.list'' ''exec.list'' ''target'']"

definition sys_tools :: "registration list" where
  "sys_tools = [
    tool ''sys_version'' ''sys.version'' ''sys.version'' ''target'',
    tool ''sys_tasks'' ''sys.tasks'' ''sys.tasks'' ''target'',
    tool ''sys_libraries'' ''sys.libraries'' ''sys.libraries'' ''target'',
    tool ''sys_devices'' ''sys.devices'' ''sys.devices'' ''target'',
    tool ''sys_ports'' ''sys.ports'' ''sys.ports'' ''target'',
    tool ''sys_lastalert'' ''sys.lastalert'' ''sys.lastalert'' ''target'',
    tool ''sys_debug_ring'' ''sys.debug_ring'' ''sys.debug_ring'' ''target'',
    tool ''sys_uptime'' ''sys.uptime'' ''sys.uptime'' ''target'',
    tool ''sys_memory'' ''sys.memory'' ''sys.memory'' ''target'',
    tool ''sys_volumes'' ''sys.volumes'' ''sys.volumes'' ''target'',
    tool ''sys_assigns'' ''sys.assigns'' ''sys.assigns'' ''target'',
    tool ''sys_hardware'' ''sys.hardware'' ''sys.hardware'' ''target'',
    tool ''sys_hardware_i2c'' ''sys.hardware.i2c'' ''sys.hardware.i2c'' ''target'',
    tool ''sys_hardware_perfcounters'' ''sys.hardware.perfcounters'' ''sys.hardware.perfcounters'' ''target'',
    tool ''sys_executable_symbols'' ''sys.executable.symbols'' ''sys.executable.symbols'' ''target'',
    tool ''sys_applications'' ''sys.applications'' ''sys.applications'' ''target'',
    tool ''sys_alert_decode'' ''sys.alert_decode'' ''sys.alert_decode'' ''target'',
    tool ''sys_cold_reboot'' ''sys.cold_reboot'' ''sys.cold_reboot'' ''target'',
    tool ''sys_read_ccsr'' ''sys.read_ccsr'' ''sys.read_ccsr'' ''target'',
    tool ''sys_mcu_cmd'' ''sys.mcu_cmd'' ''sys.mcu_cmd'' ''target'',
    tool ''sys_read_pa'' ''sys.read_pa'' ''sys.read_pa'' ''target'',
    tool ''sys_tlb_dump'' ''sys.tlb_dump'' ''sys.tlb_dump'' ''target'']"

definition power_tools :: "registration list" where
  "power_tools = [
    tool ''power_help'' ''power.help'' ''power.help'' ''target'',
    tool ''power_identify'' ''power.identify'' ''power.identify'' ''target'',
    tool ''power_identify_dates'' ''power.identify_dates'' ''power.identify_dates'' ''target'',
    tool ''power_sensors'' ''power.sensors'' ''power.sensors'' ''target'',
    tool ''power_toggle_stream'' ''power.toggle_stream'' ''power.toggle_stream'' ''target'',
    tool ''power_on'' ''power.on'' ''power.on'' ''target'',
    tool ''power_off'' ''power.off'' ''power.off'' ''target'',
    tool ''power_shell'' ''power.shell'' ''power.shell'' ''target'']"

definition notice_tools :: "registration list" where
  "notice_tools = [
    tool ''app_notify'' ''app.notify'' ''app.notify'' ''target'',
    tool ''notify_fleet'' ''notify.fleet'' ''notify.fleet'' ''target'',
    tool ''notify_on_alert'' ''notify.on_alert'' ''notify.on_alert'' ''target'']"

definition wb_tools :: "registration list" where
  "wb_tools = [
    tool ''wb_screens'' ''wb.screens'' ''wb.screens'' ''target'',
    tool ''wb_windows'' ''wb.windows'' ''wb.windows'' ''target'',
    tool ''wb_publicscreens'' ''wb.publicscreens'' ''wb.publicscreens'' ''target'',
    tool ''wb_frontmost'' ''wb.frontmost'' ''wb.frontmost'' ''target'',
    tool ''wb_screenshot'' ''wb.screenshot'' ''wb.screenshot'' ''target'']"

definition input_tools :: "registration list" where
  "input_tools = [
    tool ''input_state'' ''input.state'' ''input.state'' ''target'',
    tool ''input_type'' ''input.type'' ''input.type'' ''target'',
    tool ''input_key'' ''input.key'' ''input.key'' ''target'',
    tool ''input_mouse_move'' ''input.mouse_move'' ''input.mouse_move'' ''target'',
    tool ''input_click'' ''input.click'' ''input.click'' ''target'',
    tool ''input_drag'' ''input.drag'' ''input.drag'' ''target'',
    tool ''input_scroll'' ''input.scroll'' ''input.scroll'' ''target'']"

definition debug_tools :: "registration list" where
  "debug_tools = [
    tool ''debug_read_registers'' ''debug.read_registers'' ''debug.read_registers'' ''target'',
    tool ''debug_read_memory'' ''debug.read_memory'' ''debug.read_memory'' ''target'',
    tool ''debug_stop_reason'' ''debug.stop_reason'' ''debug.stop_reason'' ''target'',
    tool ''debug_detach'' ''debug.detach'' ''debug.detach'' ''target'',
    tool ''debug_set_breakpoint'' ''debug.set_breakpoint'' ''debug.set_breakpoint'' ''target'',
    tool ''debug_clear_breakpoint'' ''debug.clear_breakpoint'' ''debug.clear_breakpoint'' ''target'',
    tool ''debug_step'' ''debug.step'' ''debug.step'' ''target'',
    tool ''debug_continue'' ''debug.continue'' ''debug.continue'' ''target'',
    tool ''debug_backtrace'' ''debug.backtrace'' ''debug.backtrace'' ''target'',
    tool ''debug_task_snapshot'' ''debug.task_snapshot'' ''debug.task_snapshot'' ''target'',
    tool ''debug_symbol'' ''debug.symbol'' ''debug.symbol'' ''target'',
    tool ''debug_stacktrace'' ''debug.stacktrace'' ''debug.stacktrace'' ''target'',
    tool ''debug_write_memory'' ''debug.write_memory'' ''debug.write_memory'' ''target'',
    tool ''debug_write_register'' ''debug.write_register'' ''debug.write_register'' ''target'',
    tool ''events_wait'' ''events.wait'' ''events.wait'' ''target'']"

definition fleet_tools :: "registration list" where
  "fleet_tools = [
    tool ''fleet_list_targets'' ''fleet.list_targets'' ''fleet.list_targets'' ''_unused'',
    tool ''fleet_target_status'' ''fleet.target_status'' ''fleet.target_status'' ''target'',
    tool ''fleet_snapshot'' ''fleet.snapshot'' ''fleet.snapshot'' ''_unused'',
    tool ''fleet_run_on_all'' ''fleet.run_on_all'' ''fleet.run_on_all'' ''_unused'',
    tool ''fleet_barrier'' ''fleet.barrier'' ''fleet.barrier'' ''_unused'',
    tool ''fleet_discover'' ''fleet.discover'' ''fleet.discover'' ''_unused'',
    tool ''fleet_relay'' ''fleet.relay'' ''fleet.relay'' ''_unused'',
    tool ''fleet_quorum_run'' ''fleet.quorum_run'' ''fleet.quorum_run'' ''_unused'']"

definition qemu_tools :: "registration list" where
  "qemu_tools = [
    tool ''qemu_start'' ''qemu.start'' ''qemu.start'' ''target'',
    tool ''qemu_stop'' ''qemu.stop'' ''qemu.stop'' ''target'',
    tool ''qemu_reset'' ''qemu.reset'' ''qemu.reset'' ''target'',
    tool ''qemu_status'' ''qemu.status'' ''qemu.status'' ''target'',
    tool ''qemu_screenshot'' ''qemu.screenshot'' ''qemu.screenshot'' ''target'',
    tool ''qemu_savevm'' ''qemu.savevm'' ''qemu.savevm'' ''target'',
    tool ''qemu_loadvm'' ''qemu.loadvm'' ''qemu.loadvm'' ''target'',
    tool ''qemu_list_snapshots'' ''qemu.list_snapshots'' ''qemu.list_snapshots'' ''target'',
    tool ''qemu_delete_snapshot'' ''qemu.delete_snapshot'' ''qemu.delete_snapshot'' ''target'']"

definition tests_tools :: "registration list" where
  "tests_tools = [
    tool ''tests_list_suites'' ''tests.list_suites'' ''tests.list_suites'' ''_unused'',
    tool ''tests_parse_output'' ''tests.parse_output'' ''tests.parse_output'' ''_unused'',
    tool ''tests_run_standard_dos_tests'' ''tests.run_standard_dos_tests'' ''tests.run_standard_dos_tests'' ''target'',
    tool ''tests_run_suite'' ''tests.run_suite'' ''tests.run_suite'' ''target'']"

definition installer_tools :: "registration list" where
  "installer_tools = [
    tool ''installer_list_machines'' ''installer.list_machines'' ''installer.list_machines'' ''_unused_'',
    tool ''installer_required_files'' ''installer.required_files'' ''installer.required_files'' ''_unused_'',
    tool ''installer_scan_sources'' ''installer.scan_sources'' ''installer.scan_sources'' ''_unused_'',
    tool ''installer_preflight'' ''installer.preflight'' ''installer.preflight'' ''target'',
    tool ''installer_mount_iso'' ''installer.mount_iso'' ''installer.mount_iso'' ''target'',
    tool ''installer_unmount_iso'' ''installer.unmount_iso'' ''installer.unmount_iso'' ''target'',
    tool ''installer_copy_tree'' ''installer.copy_tree'' ''installer.copy_tree'' ''target'',
    tool ''installer_apply_lha'' ''installer.apply_lha'' ''installer.apply_lha'' ''target'',
    tool ''installer_read_kicklayout'' ''installer.read_kicklayout'' ''installer.read_kicklayout'' ''target'',
    tool ''installer_write_kicklayout'' ''installer.write_kicklayout'' ''installer.write_kicklayout'' ''target'',
    tool ''installer_patch_kicklayout'' ''installer.patch_kicklayout'' ''installer.patch_kicklayout'' ''target'',
    tool ''installer_install_x5000'' ''installer.install_x5000'' ''installer.install_x5000'' ''target'',
    tool ''installer_run'' ''installer.run'' ''installer.run'' ''target'',
    tool ''installer_stage'' ''installer.stage'' ''installer.stage'' ''target'',
    tool ''installer_verify'' ''installer.verify'' ''installer.verify'' ''target'']"

definition serial_tools :: "registration list" where
  "serial_tools = [
    tool ''serial_start'' ''serial.start'' ''serial.start'' ''target'',
    tool ''serial_stop'' ''serial.stop'' ''serial.stop'' ''target'',
    tool ''serial_status'' ''serial.status'' ''serial.status'' ''target'',
    tool ''serial_read'' ''serial.read'' ''serial.read'' ''target'',
    tool ''serial_tail'' ''serial.tail'' ''serial.tail'' ''target'',
    tool ''serial_clear'' ''serial.clear'' ''serial.clear'' ''target'']"

definition sandbox_tools :: "registration list" where
  "sandbox_tools = [
    tool ''sandbox_probe'' ''sandbox.probe'' ''sandbox.probe'' ''target'',
    tool ''sandbox_deploy'' ''sandbox.deploy'' ''sandbox.deploy'' ''target'',
    tool ''sandbox_run_guest'' ''sandbox.run_guest'' ''sandbox.run_guest'' ''target'',
    tool ''sandbox_run_driver'' ''sandbox.run_driver'' ''sandbox.run_driver'' ''target'',
    tool ''sandbox_last_trap'' ''sandbox.last_trap'' ''sandbox.last_trap'' ''target'',
    tool ''sandbox_run_batch'' ''sandbox.run_batch'' ''sandbox.run_batch'' ''target'']"

definition dispatch_tools :: "registration list" where
  "dispatch_tools = [
    tool ''fs'' ''fs.dispatch'' ''fs.dispatch'' ''target'',
    tool ''sys'' ''sys.dispatch'' ''sys.dispatch'' ''target'',
    tool ''power'' ''power.dispatch'' ''power.dispatch'' ''target'',
    tool ''wb'' ''wb.dispatch'' ''wb.dispatch'' ''target'',
    tool ''exec'' ''exec.dispatch'' ''exec.dispatch'' ''target'',
    tool ''input'' ''input.dispatch'' ''input.dispatch'' ''target'',
    tool ''debug'' ''debug.dispatch'' ''debug.dispatch'' ''target'',
    tool ''qemu'' ''qemu.dispatch'' ''qemu.dispatch'' ''target'',
    tool ''fleet'' ''fleet.dispatch'' ''fleet.dispatch'' ''_unused'',
    tool ''tests'' ''tests.dispatch'' ''tests.dispatch'' ''_unused'',
    tool ''events'' ''events.dispatch'' ''events.dispatch'' ''target'',
    tool ''app'' ''app.dispatch'' ''app.dispatch'' ''target'',
    tool ''installer'' ''installer.dispatch'' ''installer.dispatch'' ''target'',
    tool ''serial'' ''serial.dispatch'' ''serial.dispatch'' ''target'',
    tool ''sandbox'' ''sandbox.dispatch'' ''sandbox.dispatch'' ''target'']"

definition registered_tools :: "registration list" where
  "registered_tools = concat [proto_tools, fs_tools, exec_tools, sys_tools, power_tools, notice_tools, wb_tools, input_tools, debug_tools, fleet_tools, qemu_tools, tests_tools, installer_tools, serial_tools, sandbox_tools, dispatch_tools]"

text \<open>\<^verbatim>\<open>proto_capabilities\<close>: the methods are the titles of what is registered.\<close>

definition proto_capabilities :: "config \<Rightarrow> string \<Rightarrow> registration list \<Rightarrow> capabilities" where
  "proto_capabilities c version regs =
     host_capabilities c version (map (\<lambda>r. if reg_title r \<noteq> [] then reg_title r else reg_name r) regs)"

section \<open>Dispatchers\<close>

type_synonym kwargs = "(string \<times> json) list"
type_synonym ('s, 'a) handler = "string \<Rightarrow> kwargs \<Rightarrow> ('s, 'a) pio"
type_synonym ('s, 'a) plain_handler = "kwargs \<Rightarrow> ('s, 'a) pio"

text \<open>What \<^verbatim>\<open>resolve_target\<close> makes of an argument: \<^verbatim>\<open>(name or "").strip()\<close>.\<close>

definition name_arg :: "json option \<Rightarrow> exn + string option" where
  "name_arg v = (case v of None \<Rightarrow> Inr None
     | Some j \<Rightarrow> if \<not> truthy j then Inr None else (case j of JStr s \<Rightarrow> Inr (Some s) | _ \<Rightarrow> Inl (PyErr AttributeError [])))"

definition resolved :: "json option \<Rightarrow> (string \<Rightarrow> ('w fleet_scheme, 'a) pio) \<Rightarrow> ('w fleet_scheme, 'a) pio" where
  "resolved v m = pbnd (always (gets f_config)) (\<lambda>c. pbnd (always (lift (ebnd (name_arg v) (fleet_resolve c)))) m)"

definition unknown_method :: "string list \<Rightarrow> string \<Rightarrow> exn" where
  "unknown_method methods m = RpcErr MethodNotFound (''unknown method: '' @ py_repr m)
     (Some (JObj [(''namespace_methods'', JArr (map JStr methods))]))"

definition without :: "string \<Rightarrow> kwargs \<Rightarrow> kwargs" where
  "without k kw = AList.delete k kw"

definition ns ::
    "(string \<times> ('w fleet_scheme, 'a) handler) list \<Rightarrow> string \<Rightarrow> kwargs \<Rightarrow> ('w fleet_scheme, 'a) pio" where
  "ns handlers m kw = resolved (map_of kw ''target'') (\<lambda>t. case map_of handlers m of
       None \<Rightarrow> praise (unknown_method (sort (map fst handlers)) m)
     | Some f \<Rightarrow> f t (without ''target'' kw))"

text \<open>\<^verbatim>\<open>kwargs.pop("target", None)\<close> takes the target out of the client's own dictionary.\<close>

definition ns_leaves :: "kwargs \<Rightarrow> kwargs" where
  "ns_leaves kw = without ''target'' kw"

definition ns_no_target ::
    "(string \<times> ('w fleet_scheme, 'a) plain_handler) list \<Rightarrow> string \<Rightarrow> kwargs \<Rightarrow> ('w fleet_scheme, 'a) pio" where
  "ns_no_target handlers m kw = (case map_of handlers m of
       None \<Rightarrow> praise (unknown_method (sort (map fst handlers)) m)
     | Some f \<Rightarrow> f kw)"

definition handlers :: "string \<Rightarrow> string list \<Rightarrow> (string \<Rightarrow> 'h) \<Rightarrow> (string \<times> 'h) list" where
  "handlers space ms impl = map (\<lambda>m. (m, impl (space @ ''.'' @ m))) ms"

definition fs_methods :: "string list" where
  "fs_methods = [
    ''list'', ''stat'', ''read'', ''write'', ''write_chunk'', ''delete'', ''makedir'', ''rename'',
    ''protect'', ''copy'', ''hash'', ''sync'', ''upload'', ''download'']"

definition fs_ns :: "(string \<Rightarrow> ('w fleet_scheme, 'a) handler) \<Rightarrow> string \<Rightarrow> kwargs option \<Rightarrow> ('w fleet_scheme, 'a) pio" where
  "fs_ns impl m params = ns (handlers ''fs'' fs_methods impl) m (given [] params)"

definition sys_methods :: "string list" where
  "sys_methods = [
    ''version'', ''uptime'', ''tasks'', ''libraries'', ''devices'', ''ports'', ''applications'', ''memory'',
    ''volumes'', ''assigns'', ''hardware'', ''hardware_i2c'', ''hardware_perfcounters'',
    ''executable_symbols'', ''lastalert'', ''alert_decode'', ''cold_reboot'', ''debug_ring'', ''read_ccsr'',
    ''read_pa'', ''tlb_dump'', ''mcu_cmd'']"

definition sys_ns :: "(string \<Rightarrow> ('w fleet_scheme, 'a) handler) \<Rightarrow> string \<Rightarrow> kwargs option \<Rightarrow> ('w fleet_scheme, 'a) pio" where
  "sys_ns impl m params = ns (handlers ''sys'' sys_methods impl) m (given [] params)"

definition power_methods :: "string list" where
  "power_methods = [
    ''help'', ''identify'', ''identify_dates'', ''sensors'', ''toggle_stream'', ''on'', ''off'', ''shell'']"

definition power_ns :: "(string \<Rightarrow> ('w fleet_scheme, 'a) handler) \<Rightarrow> string \<Rightarrow> kwargs option \<Rightarrow> ('w fleet_scheme, 'a) pio" where
  "power_ns impl m params = ns (handlers ''power'' power_methods impl) m (given [] params)"

definition wb_methods :: "string list" where
  "wb_methods = [
    ''screens'', ''windows'', ''publicscreens'', ''frontmost'', ''screenshot'']"

definition wb_ns :: "(string \<Rightarrow> ('w fleet_scheme, 'a) handler) \<Rightarrow> string \<Rightarrow> kwargs option \<Rightarrow> ('w fleet_scheme, 'a) pio" where
  "wb_ns impl m params = ns (handlers ''wb'' wb_methods impl) m (given [] params)"

definition input_methods :: "string list" where
  "input_methods = [
    ''state'', ''type'', ''key'', ''mouse_move'', ''click'', ''drag'', ''scroll'']"

definition input_ns :: "(string \<Rightarrow> ('w fleet_scheme, 'a) handler) \<Rightarrow> string \<Rightarrow> kwargs option \<Rightarrow> ('w fleet_scheme, 'a) pio" where
  "input_ns impl m params = ns (handlers ''input'' input_methods impl) m (given [] params)"

definition debug_methods :: "string list" where
  "debug_methods = [
    ''read_registers'', ''read_memory'', ''stop_reason'', ''detach'', ''set_breakpoint'',
    ''clear_breakpoint'', ''step'', ''continue'', ''backtrace'', ''task_snapshot'', ''symbol'',
    ''stacktrace'', ''write_memory'', ''write_register'']"

definition debug_ns :: "(string \<Rightarrow> ('w fleet_scheme, 'a) handler) \<Rightarrow> string \<Rightarrow> kwargs option \<Rightarrow> ('w fleet_scheme, 'a) pio" where
  "debug_ns impl m params = ns (handlers ''debug'' debug_methods impl) m (given [] params)"

definition qemu_methods :: "string list" where
  "qemu_methods = [
    ''start'', ''stop'', ''reset'', ''status'', ''screenshot'', ''savevm'', ''loadvm'', ''list_snapshots'',
    ''delete_snapshot'']"

definition qemu_ns :: "(string \<Rightarrow> ('w fleet_scheme, 'a) handler) \<Rightarrow> string \<Rightarrow> kwargs option \<Rightarrow> ('w fleet_scheme, 'a) pio" where
  "qemu_ns impl m params = ns (handlers ''qemu'' qemu_methods impl) m (given [] params)"

definition events_methods :: "string list" where
  "events_methods = [
    ''wait'']"

definition events_ns :: "(string \<Rightarrow> ('w fleet_scheme, 'a) handler) \<Rightarrow> string \<Rightarrow> kwargs option \<Rightarrow> ('w fleet_scheme, 'a) pio" where
  "events_ns impl m params = ns (handlers ''events'' events_methods impl) m (given [] params)"

definition app_methods :: "string list" where
  "app_methods = [
    ''notify'']"

definition app_ns :: "(string \<Rightarrow> ('w fleet_scheme, 'a) handler) \<Rightarrow> string \<Rightarrow> kwargs option \<Rightarrow> ('w fleet_scheme, 'a) pio" where
  "app_ns impl m params = ns (handlers ''app'' app_methods impl) m (given [] params)"

text \<open>\<^verbatim>\<open>_exec_cmd_running\<close>: the keyword is passed besides those of the client.\<close>

definition exec_running :: "('s, 'a) handler \<Rightarrow> ('s, 'a) handler" where
  "exec_running f t kw = (if map_of kw ''return_running'' \<noteq> None then praise (PyErr TypeError [])
     else f t ((''return_running'', JBool True) # kw))"

definition exec_ns :: "(string \<Rightarrow> ('w fleet_scheme, 'a) handler) \<Rightarrow> string \<Rightarrow> kwargs option \<Rightarrow> ('w fleet_scheme, 'a) pio" where
  "exec_ns impl m params = ns ((''cmd'', exec_running (impl ''exec.cmd''))
     # handlers ''exec'' [''status'', ''output'', ''kill'', ''list''] impl) m (given [] params)"

definition fleet_ns ::
    "(string \<Rightarrow> ('w fleet_scheme, 'a) handler) \<Rightarrow> (string \<Rightarrow> ('w fleet_scheme, 'a) plain_handler) \<Rightarrow>
     string \<Rightarrow> kwargs option \<Rightarrow> ('w fleet_scheme, 'a) pio" where
  "fleet_ns impl direct m params =
     (if m = ''target_status'' then ns (handlers ''fleet'' [''target_status''] impl) m (given [] params)
      else ns_no_target (handlers ''fleet'' [''list_targets'', ''snapshot'', ''run_on_all'', ''barrier'', ''quorum_run'', ''discover''] direct)
             m (given [] params))"

definition tests_ns ::
    "(string \<Rightarrow> ('w fleet_scheme, 'a) handler) \<Rightarrow> (string \<Rightarrow> ('w fleet_scheme, 'a) plain_handler) \<Rightarrow>
     string \<Rightarrow> kwargs option \<Rightarrow> ('w fleet_scheme, 'a) pio" where
  "tests_ns impl direct m params =
     (if m \<in> {''list_suites'', ''parse_output''}
      then ns_no_target (handlers ''tests'' [''list_suites'', ''parse_output''] direct) m (given [] params)
      else ns (handlers ''tests'' [''run_standard_dos_tests'', ''run_suite''] impl) m (given [] params))"

definition or_null :: "string \<Rightarrow> kwargs \<Rightarrow> json" where
  "or_null k kw = (case map_of kw k of Some j \<Rightarrow> j | None \<Rightarrow> JNull)"

definition or_empty :: "string \<Rightarrow> kwargs \<Rightarrow> json" where
  "or_empty k kw = (case map_of kw k of Some j \<Rightarrow> j | None \<Rightarrow> JStr [])"

definition serial_ns ::
    "(string \<Rightarrow> ('w fleet_scheme, 'a) handler) \<Rightarrow> (string \<Rightarrow> ('w fleet_scheme, 'a) plain_handler) \<Rightarrow>
     string \<Rightarrow> kwargs option \<Rightarrow> ('w fleet_scheme, 'a) pio" where
  "serial_ns impl direct m params = (let p = given [] params in
     if m = ''status''
     then direct ''serial.status'' [(''target'', let t = or_null ''target'' p in if truthy t then t else JNull), (''channel'', or_null ''channel'' p)]
     else ns (handlers ''serial'' [''start'', ''stop'', ''read'', ''tail'', ''clear''] impl) m p)"

definition installer_methods :: "string list" where
  "installer_methods = [''list_machines'', ''required_files'', ''scan_sources'', ''preflight'', ''mount_iso'', ''unmount_iso'',
    ''copy_tree'', ''apply_lha'', ''read_kicklayout'', ''write_kicklayout'', ''patch_kicklayout'', ''install_x5000'', ''run'',
    ''stage'', ''verify'']"

text \<open>This dispatcher copies the dictionary, and resolves the target before it looks for the rest of the methods.\<close>

definition installer_ns ::
    "(string \<Rightarrow> ('w fleet_scheme, 'a) handler) \<Rightarrow> (string \<Rightarrow> ('w fleet_scheme, 'a) plain_handler) \<Rightarrow>
     string \<Rightarrow> kwargs option \<Rightarrow> ('w fleet_scheme, 'a) pio" where
  "installer_ns impl direct m params = (let p = given [] params in
     if m = ''list_machines'' then direct ''installer.list_machines'' []
     else if m = ''required_files'' then direct ''installer.required_files'' [(''machine'', or_empty ''machine'' p)]
     else if m = ''scan_sources'' then direct ''installer.scan_sources'' [(''sources_dir'', or_empty ''sources_dir'' p)]
     else resolved (map_of p ''target'') (\<lambda>t.
       if m = ''preflight'' then impl ''installer.preflight'' t [(''dest_volume'', or_empty ''dest_volume'' p),
            (''sources_dir'', or_empty ''sources_dir'' p), (''machine'', or_null ''machine'' p), (''iso'', or_null ''iso'' p)]
       else if m \<in> set installer_methods then impl (''installer.'' @ m) t (without ''target'' p)
       else praise (unknown_method installer_methods m)))"

definition sandbox_methods :: "string list" where
  "sandbox_methods = [''probe'', ''deploy'', ''run_guest'', ''run_driver'', ''run_batch'', ''last_trap'']"

definition sandbox_ns :: "(string \<Rightarrow> ('w fleet_scheme, 'a) handler) \<Rightarrow> string \<Rightarrow> kwargs option \<Rightarrow> ('w fleet_scheme, 'a) pio" where
  "sandbox_ns impl m params = (let p = given [] params in
     if m = ''probe'' then resolved (map_of p ''target'') (\<lambda>t. impl ''sandbox.probe'' t [])
     else if m = ''deploy'' then resolved (map_of p ''target'') (\<lambda>t. impl ''sandbox.deploy'' t
       [(''source'', or_null ''source'' p), (''dest_path'', or_null ''dest_path'' p),
        (''confirm'', case map_of p ''confirm'' of Some j \<Rightarrow> j | None \<Rightarrow> JBool False)])
     else if m \<in> set sandbox_methods then resolved (map_of p ''target'') (\<lambda>t. impl (''sandbox.'' @ m) t (without ''target'' p))
     else praise (unknown_method sandbox_methods m))"

text \<open>
  A call of a dispatcher as the archive sees it: the decorator holds the client's dictionary, and writes its
  line after the call, when the dictionary is what the dispatcher left of it.
\<close>

definition dispatch_archived :: "string \<Rightarrow> string \<Rightarrow> kwargs \<Rightarrow> (arch, pyobj) io \<Rightarrow> (arch, pyobj) io" where
  "dispatch_archived logged m kw run =
     archived logged ''target'' [(''method'', PStr m), (''params'', of_json (JObj (ns_leaves kw)))] run"

section \<open>Resources\<close>

definition target_resource :: "('w fleet_scheme, json) io \<Rightarrow> ('w fleet_scheme, json) io" where
  "target_resource m = catch m (\<lambda>e. if is_rpc_err e then ret (JObj [(''error'', error_dict e)]) else raise e)"

definition per_target_sys_version :: "string option \<Rightarrow> json sbx" where
  "per_target_sys_version target = target_resource (at_target target (\<lambda>t. bnd (sys_version t) (\<lambda>(r, k, w).
     ret (JObj [(''raw'', JStr r), (''kickstart'', Archive.opt_str k), (''workbench'', Archive.opt_str w)]))))"

definition per_target_proto_capabilities :: "string option \<Rightarrow> ('w fleet_scheme, json) io" where
  "per_target_proto_capabilities target =
     target_resource (at_target target (\<lambda>t. bnd (fleet_mcpd t) (\<lambda>_. rpc t ''proto.capabilities'' JNull)))"

definition per_target_sys_tasks :: "string option \<Rightarrow> ('w fleet_scheme, json) io" where
  "per_target_sys_tasks target = target_resource (at_target target sys_tasks)"

definition endpoint_json :: "('z channel_scheme) option \<Rightarrow> json" where
  "endpoint_json c = Archive.opt_str (shown_endpoint c)"

definition fleet_target_row :: "string \<Rightarrow> (fleet, json) io" where
  "fleet_target_row name = bnd (gets f_config) (\<lambda>c. bnd (lift (target_config c name)) (\<lambda>t.
     bnd (if t_type t = Qemu then bnd (process_running name) (\<lambda>b. ret (JBool b)) else ret JNull) (\<lambda>run.
     ret (JObj [(''name'', JStr name), (''type'', JStr (if t_type t = Qemu then ''qemu'' else ''remote'')),
       (''display_name'', Archive.opt_str (display_name t)), (''machine'', Archive.opt_str (t_machine t)),
       (''mcpd_endpoint'', endpoint_json (chan_mcpd (channels t))), (''qmp_endpoint'', endpoint_json (chan_qmp (channels t))),
       (''gdb_endpoint'', endpoint_json (chan_gdb (channels t))), (''qemu_running'', run)]))))"

definition fleet_targets_resource :: "(fleet, json list) io" where
  "fleet_targets_resource = bnd (gets f_config) (\<lambda>c. for_each fleet_target_row (list_targets c None))"

definition SERIAL_CAP :: nat where "SERIAL_CAP = 1024 * 1024"

text \<open>The log of a target's QEMU; \<open>files\<close> holds the bytes of the files of the host.\<close>

definition per_target_serial_log :: "(string \<Rightarrow> string option) \<Rightarrow> string \<Rightarrow> 'w fleet_scheme \<Rightarrow> string" where
  "per_target_serial_log files target s = (case Option.bind (serial_log_path target s) files of
       None \<Rightarrow> []
     | Some txt \<Rightarrow> if length txt \<le> SERIAL_CAP then py_replace (py_replace (utf8_replace txt) [CHR 0x0D, newline] [newline]) [CHR 0x0D] [newline]
         else ''# truncated: '' @ nat_dec (length txt) @ '' bytes total; last '' @ nat_dec SERIAL_CAP @ '' shown'' @ [newline]
              @ utf8_replace (drop (length txt - SERIAL_CAP) txt))"

section \<open>Health check\<close>

record health =
  h_endpoint :: string
  h_methods :: nat
  h_server :: json
  h_kickstart :: json

definition NO_CHANNEL :: string where
  "NO_CHANNEL = ''no MCPd channel configured''"

definition is_timeout :: "exn \<Rightarrow> bool" where
  "is_timeout e = (case e of PyErr t _ \<Rightarrow> t = TimeoutError | _ \<Rightarrow> False)"

definition kickstart_of :: "exn + json \<Rightarrow> exn + json" where
  "kickstart_of r = (case r of
       Inl e \<Rightarrow> if is_rpc_err e \<or> is_timeout e then Inr (JStr ''?'') else Inl e
     | Inr v \<Rightarrow> ebnd (get_or ''kickstart'' JNull v) (\<lambda>k. Inr (if truthy k then k else JStr ''?'')))"

definition sized :: "json \<Rightarrow> exn + nat" where
  "sized j = (case j of JArr xs \<Rightarrow> Inr (length xs) | JObj kvs \<Rightarrow> Inr (length kvs) | JStr s \<Rightarrow> Inr (ulen s)
     | _ \<Rightarrow> Inl (PyErr TypeError []))"

text \<open>The probe of one target, with an enabled channel: the error that is shown, or what it answered.\<close>

definition health_error :: "exn \<Rightarrow> exn + string" where
  "health_error e = (case e of
       RpcErr c m d \<Rightarrow> Inr (exn_name e @ '': '' @ exn_str e)
     | PyErr t m \<Rightarrow> if t = TimeoutError then Inr ''timeout'' else if is_os_error t then Inr m else Inl e)"

definition health_answer :: "string \<Rightarrow> string \<Rightarrow> (fleet, health) io" where
  "health_answer name ep =
     bnd (fleet_mcpd name) (\<lambda>_.
     bnd (rpc name ''proto.capabilities'' JNull) (\<lambda>caps.
     bnd (bnd (attempt (rpc name ''sys.version'' JNull)) (\<lambda>r. lift (kickstart_of r))) (\<lambda>kick.
     bnd (lift (ebnd (get_or ''methods'' (JArr []) caps) sized)) (\<lambda>n.
     bnd (lift (get_or ''server'' (JStr ''?'') caps)) (\<lambda>srv.
     ret \<lparr>h_endpoint = ep, h_methods = n, h_server = srv, h_kickstart = kick\<rparr>)))))"

definition health_probe :: "string \<Rightarrow> (fleet, string + health) io" where
  "health_probe name = bnd (gets f_config) (\<lambda>c. bnd (lift (target_config c name)) (\<lambda>t.
     case chan_mcpd (channels t) of
       Some ch \<Rightarrow> if enabled ch then catch (bnd (health_answer name (chan_endpoint ch)) (\<lambda>h. ret (Inr h)))
             (\<lambda>e. lift (map_sum id Inl (health_error e)))
           else ret (Inl NO_CHANNEL)
     | None \<Rightarrow> ret (Inl NO_CHANNEL)))"

text \<open>
  The rows in the order of the targets, given what each probe came to.  An error with an empty text is taken
  for no error, and then there is no information to show.
\<close>

definition health_row :: "exn + (string + health) \<Rightarrow> exn + bool" where
  "health_row r = (case r of Inl e \<Rightarrow> Inl e | Inr (Inl err) \<Rightarrow> if err = [] then Inl (PyErr AssertionError []) else Inr False
     | Inr (Inr h) \<Rightarrow> Inr True)"

fun health_exit :: "(exn + (string + health)) list \<Rightarrow> exn + int" where
  "health_exit [] = Inr 0"
| "health_exit (r # rs) = ebnd (health_row r) (\<lambda>up. ebnd (health_exit rs) (\<lambda>n. Inr (if up then n else n + 1)))"

section \<open>Modes of the command line\<close>

record server_args =
  a_init :: bool
  a_doctor :: bool
  a_inspect :: bool
  a_health_check :: bool
  a_list_tools :: bool
  a_list_resources :: bool
  a_list_prompts :: bool
  a_discover :: bool

datatype mode = Init | Doctor | Inspect | HealthCheck | ListTools | ListResources | ListPrompts | Discover | Serve

text \<open>The set-up and the doctor run before the configuration is loaded.\<close>

definition early_mode :: "server_args \<Rightarrow> mode option" where
  "early_mode a = (if a_init a then Some Init else if a_doctor a then Some Doctor else None)"

definition late_mode :: "server_args \<Rightarrow> mode" where
  "late_mode a = (if a_inspect a then Inspect else if a_health_check a then HealthCheck else if a_list_tools a then ListTools
     else if a_list_resources a then ListResources else if a_list_prompts a then ListPrompts
     else if a_discover a then Discover else Serve)"

datatype start = Run mode "config option" | Quit int | Escapes exn

definition bad_config :: "exn \<Rightarrow> bool" where
  "bad_config e = (is_rpc_err e \<or> (case e of PyErr t m \<Rightarrow>
     t \<in> {FileNotFoundError, ValueError, UnicodeDecodeError, JSONDecodeError} | _ \<Rightarrow> False))"

definition main_start :: "server_args \<Rightarrow> exn + config \<Rightarrow> start" where
  "main_start a loaded = (case early_mode a of Some m \<Rightarrow> Run m None
     | None \<Rightarrow> (case loaded of Inr c \<Rightarrow> Run (late_mode a) (Some c) | Inl e \<Rightarrow> if bad_config e then Quit 64 else Escapes e))"

text \<open>Where the server listens: standard input, or a host and a port.\<close>

definition listen_at :: "server_config \<Rightarrow> exn + (string \<times> int) option" where
  "listen_at c = (if mcp_transport c = ''stdio'' then Inr None
     else let (h, _, p) = rpartition CHR '':'' (mcp_http_addr c) in ebnd (parse_int p) (\<lambda>n. Inr (Some (h, n))))"

definition discover_exit :: "'a list \<Rightarrow> int" where
  "discover_exit found = (if found = [] then 1 else 0)"

end
