(* ===== verification/Server_Correct.thy ===== *)
theory Server_Correct
  imports Server
begin

text \<open>
  What holds of the server as a whole: a tool that wants a confirmation does nothing without it, with the
  defaults the server fills in; the table of tools agrees with itself and with the dispatchers; a target is
  reported up only if its daemon answered; and what becomes of the target in the log of a dispatched call.
\<close>

section \<open>Nothing is done without a confirmation\<close>

named_theorems quiet

text \<open>No event at all, whatever the result.\<close>

definition quiet_io :: "('z world_scheme, 'a) io \<Rightarrow> bool" where
  "quiet_io m \<longleftrightarrow> (\<forall>s. history (snd (m s)) = history s)"

definition quiet_pio :: "('z world_scheme, 'a) pio \<Rightarrow> bool" where
  "quiet_pio m \<longleftrightarrow> (\<forall>s r s'. m s = Some (r, s') \<longrightarrow> history s' = history s)"

lemma quiet_basic [quiet]:
  "quiet_io (ret x)" "quiet_io (raise e)" "quiet_io (lift r)" "quiet_io (gets f)"
  by (auto simp: quiet_io_def ret_def raise_def lift_def gets_def split: sum.split)

lemma quiet_bnd [quiet]: "quiet_io m \<Longrightarrow> (\<And>x. quiet_io (f x)) \<Longrightarrow> quiet_io (bnd m f)"
  unfolding quiet_io_def bnd_def by (auto split: prod.split sum.split) (metis snd_conv)+

lemma quiet_pbnd [quiet]: "quiet_pio m \<Longrightarrow> (\<And>x. quiet_pio (f x)) \<Longrightarrow> quiet_pio (pbnd m f)"
  unfolding quiet_pio_def by (force simp: pbnd_Some)

lemma quiet_always [quiet]: "quiet_io m \<Longrightarrow> quiet_pio (always m)"
  by (auto simp: quiet_pio_def quiet_io_def) (metis snd_conv)

lemma quiet_presults [quiet]: "quiet_pio (pret x)" "quiet_pio (praise e)"
  by (auto simp: quiet_pio_def)

lemma quiet_at_target [quiet]: "(\<And>t. quiet_io (m t)) \<Longrightarrow> quiet_io (at_target target m)"
  unfolding at_target_def by (intro quiet)

lemma quiet_at_target_p [quiet]: "(\<And>t. quiet_pio (m t)) \<Longrightarrow> quiet_pio (at_target_p target m)"
  unfolding at_target_p_def by (intro quiet)

lemma quiet_with_param [quiet]: "(\<And>v. quiet_io (m v)) \<Longrightarrow> quiet_io (with_param p x m)"
  unfolding with_param_def by (intro quiet)

lemma quiet_with_param_p [quiet]: "(\<And>v. quiet_pio (m v)) \<Longrightarrow> quiet_pio (with_param_p p x m)"
  unfolding with_param_p_def by (intro quiet)

lemma quietD:
  "quiet_io m \<Longrightarrow> history (snd (m s)) = history s"
  "quiet_pio m' \<Longrightarrow> \<forall>r s'. m' s = Some (r, s') \<longrightarrow> history s' = history s"
  by (auto simp: quiet_io_def quiet_pio_def)

lemma not_given: "x \<noteq> Some True \<Longrightarrow> given False x = False" "x \<noteq> Some False \<Longrightarrow> given True x = True"
  by (cases x; simp add: given_def)+

lemma raise_first: "bnd (raise e) f = raise e"
  by (simp add: io)

lemma praise_first: "pbnd (always (raise e)) f = praise e"
  by (simp add: pbnd_def always_def raise_def praise_def fun_eq_iff)

lemma quiet_fleet_mcpd [quiet]: "quiet_io (fleet_mcpd name)"
  unfolding fleet_mcpd_def new_tid_def
  by (auto simp: quiet_io_def bnd_def gets_def lift_def ret_def raise_def modify_def Let_def
      split: option.split sum.split prod.split)

lemma quiet_installer_run:
  assumes "\<not> (\<not> dry \<and> confirm)"
  shows "quiet_pio (installer_run tb env t vol m img sources dry confirm)"
proof (cases dry)
  case True
  have "quiet_pio (run_sequence tb q c True)" for q c
    by (auto simp: quiet_pio_def run_sequence_def pret_def)
  with True show ?thesis unfolding installer_run_def by (simp, intro quiet)
next
  case False
  with assms show ?thesis unfolding installer_run_def by (simp, intro quiet)
qed

lemma unconfirmed:
  "installer_copy_tree t src dst a b c False tmo = raise (RpcErr InvalidParams (''installer.copy_tree requires confirm=True (mutating operation)'')
       (Some (JObj [(''hint'', JStr ''pass confirm=True to acknowledge'')])))"
  "quiet_io (installer_apply_lha t arc dst False tmo)"
  "quiet_io (installer_write_kicklayout t dst txt False bak)"
  "quiet_io (installer_patch_kicklayout t dst mods reps False bak)"
  by (simp_all add: installer_copy_tree_def installer_apply_lha_def installer_write_kicklayout_def installer_patch_kicklayout_def
      require_confirm_def raise_first quiet_basic Let_def)

lemma unconfirmed_stage: "quiet_io (installer_stage deflate env t vol src m img lha False)"
  by (simp add: installer_stage_def stage_plan_def lift_def raise_first quiet_basic)

lemma unconfirmed_deploy: "quiet_io (sandbox_deploy deflate sha t src dst False)"
  by (simp add: sandbox_deploy_def quiet_basic)

lemma unconfirmed_power:
  "quiet_pio (power_toggle_stream caps t w False f)" "quiet_pio (power_on caps t False)" "quiet_pio (power_off caps t False)"
  "quiet_pio (power_shell caps t cmd False f)"
  by (simp_all add: power_toggle_stream_def power_on_def power_off_def power_shell_def power_confirm_def lift_def praise_first
      quiet_presults)

text \<open>
  C35. A tool that asks for a confirmation does nothing without it: called without
  confirm=True, with the defaults the server fills in, the installer's copy, extraction,
  Kicklayout write and patch, stage, run and install, the sandbox deployment and the four
  guarded power tools make no request, open no port and touch no file.
\<close>

theorem no_confirm_no_event:
  assumes no: "confirm \<noteq> Some True"
  shows "history (snd (call_copy_tree target src dst every clone still confirm tmo w)) = history w \<and>
    history (snd (call_apply_lha target arc dst confirm tmo w)) = history w \<and>
    history (snd (call_write_kicklayout target vol content confirm bak w)) = history w \<and>
    history (snd (call_patch_kicklayout target vol mods reps confirm bak w)) = history w \<and>
    history (snd (call_installer_stage deflate env target vol sources machine img lha confirm w)) = history w \<and>
    history (snd (call_sandbox_deploy deflate sha256 target source dest confirm v)) = history v \<and>
    (\<forall>r w'. call_installer_run tb env target vol machine img sources dry confirm w = Some (r, w') \<longrightarrow> history w' = history w) \<and>
    (\<forall>r w'. call_install_x5000 tb env target vol img sources dry confirm w = Some (r, w') \<longrightarrow> history w' = history w) \<and>
    (\<forall>r w'. call_power_toggle_stream caps target watch confirm force w = Some (r, w') \<longrightarrow> history w' = history w) \<and>
    (\<forall>r w'. call_power_on caps target confirm w = Some (r, w') \<longrightarrow> history w' = history w) \<and>
    (\<forall>r w'. call_power_off caps target confirm w = Some (r, w') \<longrightarrow> history w' = history w) \<and>
    (\<forall>r w'. call_power_shell caps target cmd confirm force w = Some (r, w') \<longrightarrow> history w' = history w)"
proof -
  note c = not_given(1) [OF no]
  have io: "quiet_io (call_copy_tree target src dst every clone still confirm tmo)" "quiet_io (call_apply_lha target arc dst confirm tmo)"
    "quiet_io (call_write_kicklayout target vol content confirm bak)" "quiet_io (call_patch_kicklayout target vol mods reps confirm bak)"
    "quiet_io (call_installer_stage deflate env target vol sources machine img lha confirm)"
    "quiet_io (call_sandbox_deploy deflate sha256 target source dest confirm)"
    unfolding call_copy_tree_def call_apply_lha_def call_write_kicklayout_def call_patch_kicklayout_def call_installer_stage_def
      call_sandbox_deploy_def c
    by (intro quiet unconfirmed(2-4) unconfirmed_stage unconfirmed_deploy; simp add: unconfirmed(1) quiet_basic)+
  have pio: "quiet_pio (call_installer_run tb env target vol machine img sources dry confirm)"
    "quiet_pio (call_install_x5000 tb env target vol img sources dry confirm)"
    "quiet_pio (call_power_toggle_stream caps target watch confirm force)" "quiet_pio (call_power_on caps target confirm)"
    "quiet_pio (call_power_off caps target confirm)" "quiet_pio (call_power_shell caps target cmd confirm force)"
    unfolding call_installer_run_def call_install_x5000_def installer_install_x5000_def call_power_toggle_stream_def call_power_on_def
      call_power_off_def call_power_shell_def c
    by (intro quiet unconfirmed_power quiet_installer_run; simp)+
  show ?thesis by (intro conjI quietD io pio)
qed

theorem no_confirm_no_event_witness:
  "history (snd (call_copy_tree (Some ''a'') ''RAM:'' ''DH1:'' None None None None None bare_fleet)) = []"
  using no_confirm_no_event [where confirm = None and w = bare_fleet, THEN conjunct1] by (simp add: bare_fleet_def fleet_init_def)

lemma default_run_is_dry:
  "dry \<noteq> Some False \<Longrightarrow> call_installer_run tb env target vol machine img sources dry confirm w = Some (r, w') \<Longrightarrow> history w' = history w"
  using not_given(2) [of dry]
proof -
  assume "dry \<noteq> Some False" and run: "call_installer_run tb env target vol machine img sources dry confirm w = Some (r, w')"
  then have d: "given True dry" using not_given(2) by blast
  have "quiet_pio (call_installer_run tb env target vol machine img sources dry confirm)"
    unfolding call_installer_run_def using d by (intro quiet quiet_installer_run) simp
  with run show ?thesis unfolding quiet_pio_def by blast
qed

section \<open>The table of tools\<close>

fun dots_to_scores :: "string \<Rightarrow> string" where
  "dots_to_scores [] = []"
| "dots_to_scores (c # s) = (if c = CHR ''.'' then CHR ''_'' else c) # dots_to_scores s"

definition well_named :: "registration \<Rightarrow> bool" where
  "well_named r \<longleftrightarrow> reg_logged r = reg_title r \<and>
     (reg_name r = dots_to_scores (reg_title r) \<or> reg_title r = reg_name r @ ''.dispatch'')"

definition dispatched :: "(string \<times> string list \<times> registration list) list" where
  "dispatched = [(''fs'', fs_methods, fs_tools), (''sys'', sys_methods, sys_tools), (''power'', power_methods, power_tools),
     (''wb'', wb_methods, wb_tools), (''input'', input_methods, input_tools), (''debug'', debug_methods, debug_tools),
     (''qemu'', qemu_methods, qemu_tools), (''app'', app_methods, notice_tools),
     (''installer'', installer_methods, installer_tools), (''sandbox'', sandbox_methods, sandbox_tools)]"

text \<open>Every method of a dispatcher is a tool of its own, with the namespace in front.\<close>

definition offered :: "string \<times> string list \<times> registration list \<Rightarrow> bool" where
  "offered g = (case g of (space, ms, regs) \<Rightarrow> list_all (\<lambda>m. space @ CHR ''_'' # m \<in> set (map reg_name regs)) ms)"

lemma tools_well_named: "list_all well_named registered_tools"
  by code_simp

lemma dispatched_are_tools: "list_all offered dispatched"
  by code_simp

lemma tools_distinct: "list_all (\<lambda>g. distinct (map reg_name (snd (snd g)))) dispatched"
  by code_simp

section \<open>Dispatching\<close>

text \<open>The method is looked up only after the target is resolved: without a target even an unknown method is about the target.\<close>

lemma ns_unresolved:
  assumes "ebnd (name_arg (map_of kw ''target'')) (fleet_resolve (f_config s)) = Inl e"
  shows "ns hs m kw s = Some (Inl e, s)"
  using assms by (simp add: ns_def resolved_def pbnd_def always_def gets_def lift_def raise_def)

lemma ns_resolved:
  assumes "ebnd (name_arg (map_of kw ''target'')) (fleet_resolve (f_config s)) = Inr t"
  shows "ns hs m kw s = (case map_of hs m of None \<Rightarrow> Some (Inl (unknown_method (sort (map fst hs)) m), s)
    | Some f \<Rightarrow> f t (without ''target'' kw) s)"
  using assms by (simp add: ns_def resolved_def pbnd_def always_def gets_def lift_def ret_def praise_def split: option.split)

text \<open>The documentation of the helper speaks of InvalidParams.\<close>

lemma unknown_method_not_found: "exn_name (unknown_method ms m) = ''MethodNotFound''"
  by (simp add: unknown_method_def)

text \<open>The log of a dispatched call does not say which target it went to.\<close>

lemma dispatch_forgets_target:
  "dispatch_archived logged m ((''target'', JStr a) # kw) run = dispatch_archived logged m ((''target'', JStr b) # kw) run"
  by (simp add: dispatch_archived_def ns_leaves_def without_def)

text \<open>Any other spelling of the compression is taken for none, and compressed bytes are stored as they are.\<close>

lemma compression_misspelt:
  "call_fs_write target path content (Some ''ZLIB'') raw_len = call_fs_write target path content (Some ''none'') raw_len"
  by (simp add: call_fs_write_def given_def zlib_or_none_def)

section \<open>Health check\<close>

text \<open>A target is up only if its daemon answered in this very check.\<close>

lemma lift_Inr: "lift r s = (Inr x, s') \<longleftrightarrow> r = Inr x \<and> s' = s"
  by (auto simp: lift_def ret_def raise_def split: sum.split)

lemma health_up:
  assumes "health_probe name s = (Inr (Inr h), s')"
  shows "\<exists>t ch post caps. map_of (targets (f_config s)) name = Some t \<and> chan_mcpd (channels t) = Some ch \<and> enabled ch \<and>
    history s' = history s @ (Rpc name ''proto.capabilities'' JNull, Inr caps) # post"
proof -
  have step: "health_probe name s = (case target_config (f_config s) name of Inl e \<Rightarrow> (Inl e, s)
      | Inr t \<Rightarrow> (case chan_mcpd (channels t) of
           Some ch \<Rightarrow> if enabled ch then catch (bnd (health_answer name (chan_endpoint ch)) (\<lambda>h. ret (Inr h)))
               (\<lambda>e. lift (map_sum id Inl (health_error e))) else ret (Inl NO_CHANNEL)
         | None \<Rightarrow> ret (Inl NO_CHANNEL)) s)"
    by (simp add: health_probe_def bnd_def gets_def lift_def ret_def raise_def split: sum.split)
  obtain t where t: "target_config (f_config s) name = Inr t" using assms step by (cases "target_config (f_config s) name") auto
  then obtain ch where ch: "chan_mcpd (channels t) = Some ch" "enabled ch"
    and run0: "catch (bnd (health_answer name (chan_endpoint ch)) (\<lambda>h. ret (Inr h))) (\<lambda>e. lift (map_sum id Inl (health_error e))) s
      = (Inr (Inr h), s')"
    using assms step by (auto simp: ret_def split: option.splits if_splits)
  have no_info: "lift (map_sum id Inl x) s1 \<noteq> (Inr (Inr h), s')" for x :: "exn + string" and s1 :: fleet
    by (cases x) (auto simp: lift_def ret_def raise_def)
  have run: "health_answer name (chan_endpoint ch) s = (Inr h, s')"
    using run0 no_info by (auto simp: catch_eq bnd_eq_Inr ret_def)
  have t: "map_of (targets (f_config s)) name = Some t" using t by (simp add: target_config_def split: option.splits)
  obtain s1 hd s2 caps s3 kick where m: "fleet_mcpd name s = (Inr hd, s1)"
    and c: "rpc name ''proto.capabilities'' JNull s1 = (Inr caps, s2)"
    and k: "bnd (attempt (rpc name ''sys.version'' JNull)) (\<lambda>r. lift (kickstart_of r)) s2 = (Inr kick, s3)" and s': "s' = s3"
    using run unfolding health_answer_def bnd_eq_Inr lift_Inr by (auto simp: bnd_eq_Inr lift_Inr ret_def)
  have "history s1 = history s" using quiet_fleet_mcpd [of name] m unfolding quiet_io_def by (metis snd_conv)
  moreover have "history s2 = history s1 @ [(Rpc name ''proto.capabilities'' JNull, Inr caps)]"
    using c by (auto simp: rpc_def perform_def Let_def)
  moreover have "\<exists>es. history s3 = history s2 @ es"
    using k by (auto simp: bnd_eq_Inr bnd_eq_Inl lift_Inr attempt_def catch_eq rpc_def perform_def Let_def ret_def)
  ultimately show ?thesis using t ch s' by auto
qed

text \<open>The exit code counts the targets that are not up.\<close>

lemma health_exit_counts:
  "health_exit rs = Inr n \<Longrightarrow> n = int (length (filter (\<lambda>r. \<exists>err. r = Inr (Inl err)) rs)) \<and> (\<forall>r \<in> set rs. \<exists>x. r = Inr x)"
proof (induction rs arbitrary: n)
  case (Cons r rs)
  then show ?case by (cases r) (auto simp: health_row_def ebnd_Inr split: sum.splits if_splits)
qed simp

section \<open>Starting\<close>

text \<open>An address without a port passes the configuration and fails when the server starts.\<close>

lemma address_without_port: "isl (listen_at (default_server\<lparr>mcp_transport := ''sse'', mcp_http_addr := ''localhost''\<rparr>))"
  by code_simp

end
