(* ===== verification/Cli.thy ===== *)
theory Cli
  imports ExecTools SysInfo WbTools QemuTools Upload Partial
begin

text \<open>
  The operator's program (\<^verbatim>\<open>cli.py\<close>): one function per subcommand, which gives the exit code or raises.  The
  fleet is the state it starts with; a command that raises leaves it open.  What is printed is left out,
  except where printing can fail: a rate divides by the time that passed.
\<close>

section \<open>On the state of the sandbox tools\<close>

definition on_fleet :: "(fleet, 'a) io \<Rightarrow> 'a sbx" where
  "on_fleet m s = (case m (fleet.truncate s) of (r, f) \<Rightarrow> (r, fleet.extend f (fleet.more s)))"

definition resolve_named :: "string option \<Rightarrow> string sbx" where
  "resolve_named name = bnd (gets f_config) (\<lambda>c. lift (fleet_resolve c name))"

definition closing_with :: "int \<Rightarrow> int sbx" where
  "closing_with rc = bnd (on_fleet close_all) (\<lambda>_. ret rc)"

definition rate_over :: "int \<Rightarrow> ('s, unit) io" where
  "rate_over us = (if us = 0 then raise (PyErr (OtherError ''ZeroDivisionError'') ''float division by zero'') else ret ())"

section \<open>Looking\<close>

definition cmd_health :: "string option \<Rightarrow> int sbx" where
  "cmd_health name = bnd (resolve_named name) (\<lambda>t.
     bnd (on_fleet (fleet_target_status t)) (\<lambda>st.
     if st_mcpd st \<noteq> Some True then closing_with 2
     else bnd (succeeds (bnd (sys_uptime t) (\<lambda>_. bnd (sys_lastalert t) (\<lambda>_. sys_memory t)))) (\<lambda>ok.
       closing_with (if ok then 0 else 1))))"

text \<open>The probes of a snapshot run side by side; \<open>out\<close> gives what they came to.\<close>

definition cmd_snapshot :: "(nat \<Rightarrow> string \<Rightarrow> exn + target_snapshot) \<Rightarrow> string list option \<Rightarrow> int sbx" where
  "cmd_snapshot out wanted = bnd (gets f_config) (\<lambda>c. bnd (lift (fleet_snapshot c out wanted)) (\<lambda>_. closing_with 0))"

section \<open>Sending files\<close>

definition protect_command :: "string \<Rightarrow> string" where
  "protect_command path = ''Protect '' @ in_quotes path @ '' +rwed''"

text \<open>The exit code of the protection command is only shown.\<close>

definition cmd_deploy_mcpd :: "string option \<Rightarrow> string \<Rightarrow> string \<Rightarrow> int sbx" where
  "cmd_deploy_mcpd name binary path = bnd (resolve_named name) (\<lambda>t.
     bnd (gets (host_file binary)) (\<lambda>f. case f of
       None \<Rightarrow> ret 1
     | Some bytes \<Rightarrow>
         bnd (ignoring (fs_stat t path)) (\<lambda>_.
         bnd now (\<lambda>t0.
         bnd (fs_write t path (b64encode bytes) ''none'' None) (\<lambda>_.
         bnd now (\<lambda>t1.
         bnd (rate_over (t1 - t0)) (\<lambda>_.
         bnd (ExecTools.exec_cmd t (protect_command path) [] [] 30000 None False None) (\<lambda>_.
         closing_with 0))))))))"

definition cmd_upload ::
    "(string \<Rightarrow> string) \<Rightarrow> (string \<Rightarrow> string) \<Rightarrow> string option \<Rightarrow> string \<Rightarrow> string \<Rightarrow> int \<Rightarrow> string \<Rightarrow> bool \<Rightarrow> int sbx" where
  "cmd_upload deflate sha256 name local remote chunk_size compression verify = bnd (resolve_named name) (\<lambda>t.
     bnd now (\<lambda>t0.
     bnd (chunked_upload deflate t local remote chunk_size compression 2 0 True) (\<lambda>_.
     bnd now (\<lambda>t1.
     bnd (rate_over (t1 - t0)) (\<lambda>_.
     if \<not> verify then closing_with 0
     else bnd (gets (host_file local)) (\<lambda>f. case f of
         None \<Rightarrow> raise (PyErr FileNotFoundError local)
       | Some bytes \<Rightarrow> bnd (fs_hash t remote ''sha256'') (\<lambda>h.
           closing_with (if digest h = sha256 bytes then 0 else 1))))))))"

section \<open>Soaking the daemon\<close>

fun warm_up :: "nat \<Rightarrow> string \<Rightarrow> unit sbx" where
  "warm_up 0 t = ret ()"
| "warm_up (Suc n) t = bnd (ignoring (sys_uptime t)) (\<lambda>_. bnd (sleep 500) (\<lambda>_. warm_up n t))"

text \<open>The number of waits that were dropped.\<close>

fun soak :: "nat \<Rightarrow> string \<Rightarrow> int \<Rightarrow> nat \<Rightarrow> nat sbx" where
  "soak 0 t tmo drops = ret drops"
| "soak (Suc n) t tmo drops = bnd now (\<lambda>_.
     bnd (succeeds (bnd (events_wait t (Some [''sys.lastalert'']) tmo) (\<lambda>_. now))) (\<lambda>ok.
     soak n t tmo (if ok then drops else Suc drops)))"

definition cmd_events_soak :: "string option \<Rightarrow> int \<Rightarrow> int \<Rightarrow> int sbx" where
  "cmd_events_soak name iterations tmo = bnd (resolve_named name) (\<lambda>t.
     bnd (warm_up 3 t) (\<lambda>_. bnd now (\<lambda>_.
     bnd (soak (nat iterations) t tmo 0) (\<lambda>drops. bnd now (\<lambda>_.
     closing_with (if drops = 0 then 0 else 1))))))"

section \<open>Life of a QEMU guest\<close>

definition cmd_qemu_start :: "string option \<Rightarrow> int sbx" where
  "cmd_qemu_start name = bnd (resolve_named name) (\<lambda>t. bnd (on_fleet (qemu_start t)) (\<lambda>_. closing_with 0))"

definition stop_guest :: "(fleet \<Rightarrow> nat \<Rightarrow> int option) \<Rightarrow> string \<Rightarrow> qemu_stopped sbx" where
  "stop_guest last_write t = on_fleet (qemu_stop last_write t 10000 None)"

definition cmd_qemu_stop :: "(fleet \<Rightarrow> nat \<Rightarrow> int option) \<Rightarrow> string option \<Rightarrow> int sbx" where
  "cmd_qemu_stop last_write name = bnd (resolve_named name) (\<lambda>t. bnd (stop_guest last_write t) (\<lambda>_. closing_with 0))"

definition cmd_qemu_status :: "string option \<Rightarrow> int sbx" where
  "cmd_qemu_status name = bnd (resolve_named name) (\<lambda>t. bnd (on_fleet (qemu_status t)) (\<lambda>st.
     closing_with (if qs_running st then 0 else 1)))"

text \<open>The printable text of a log, every other byte a line end.\<close>

definition printable :: "string \<Rightarrow> string" where
  "printable b = map (\<lambda>c. if (32 \<le> ord c \<and> ord c < 127) \<or> ord c \<in> {9, 10, 13} then c else newline) b"

text \<open>
  Waiting for the marker: \<open>found\<close> is the search for the operator's pattern.  The log is written by QEMU
  while the program waits, so reading it is an event.
\<close>

partial_function (option) wait_serial ::
    "(string \<Rightarrow> bool) \<Rightarrow> string \<Rightarrow> int \<Rightarrow> sandbox_state \<Rightarrow> ((exn + string option) \<times> sandbox_state) option" where
  "wait_serial found log deadline s = (case now s of
       (Inl e, s1) \<Rightarrow> Some (Inl e, s1)
     | (Inr t, s1) \<Rightarrow>
         if \<not> t < deadline then Some (Inr None, s1)
         else (case host ''is_file'' [JStr log] s1 of
             (Inl e, s2) \<Rightarrow> Some (Inl e, s2)
           | (Inr there, s2) \<Rightarrow>
               if there \<noteq> JBool True then wait_serial found log deadline (snd (sleep 3000 s2))
               else (case host ''read_bytes'' [JStr log] s2 of
                   (Inl e, s3) \<Rightarrow> Some (Inl e, s3)
                 | (Inr b, s3) \<Rightarrow>
                     if found (printable (as_str b)) then Some (Inr (Some (printable (as_str b))), s3)
                     else wait_serial found log deadline (snd (sleep 3000 s3)))))"

fun await_mcpd :: "nat \<Rightarrow> string \<Rightarrow> bool sbx" where
  "await_mcpd 0 t = ret False"
| "await_mcpd (Suc n) t = bnd (on_fleet (qemu_status t)) (\<lambda>st.
     if qs_mcpd st = Some True then ret True else bnd (sleep 3000) (\<lambda>_. await_mcpd n t))"

record run_args =
  ra_exe :: string
  ra_remote :: "string option"
  ra_args :: "string option"
  ra_wait :: "string option"
  ra_timeout_us :: int
  ra_serial_log :: "string option"
  ra_start :: bool
  ra_stop :: bool

definition file_name :: "string \<Rightarrow> string" where
  "file_name p = last (split_on CHR ''/'' p)"

definition remote_of :: "run_args \<Rightarrow> string" where
  "remote_of a = (case ra_remote a of Some (c # cs) \<Rightarrow> c # cs | _ \<Rightarrow> ''SYS:Test/'' @ file_name (ra_exe a))"

definition words_of :: "string option \<Rightarrow> string list" where
  "words_of v = (case v of None \<Rightarrow> [] | Some s \<Rightarrow> split_ws s)"

definition stop_if :: "(fleet \<Rightarrow> nat \<Rightarrow> int option) \<Rightarrow> bool \<Rightarrow> string \<Rightarrow> unit sbx" where
  "stop_if last_write b t = whenM b (bnd (stop_guest last_write t) (\<lambda>_. ret ()))"

text \<open>Upload, make executable, start detached; a failure of the start itself is let pass.\<close>

definition deploy_and_run :: "(string \<Rightarrow> string) \<Rightarrow> run_args \<Rightarrow> string \<Rightarrow> unit sbx" where
  "deploy_and_run deflate a t = (let remote = remote_of a in
     bnd (chunked_upload deflate t (ra_exe a) remote 10485760 ''auto'' 2 0 True) (\<lambda>_.
     bnd (ExecTools.exec_cmd t ''Protect'' [remote, ''+e''] [] 30000 None False None) (\<lambda>_.
     ignoring (ExecTools.exec_cmd t ''run'' (remote # words_of (ra_args a)) [] 15000 None False None))))"

definition await_marker :: "(string \<Rightarrow> string \<Rightarrow> bool) \<Rightarrow> run_args \<Rightarrow> string option \<Rightarrow> (sandbox_state, int) pio" where
  "await_marker search a log = (case ra_wait a of
       Some (p # ps) \<Rightarrow> (case log of
           Some (l # ls) \<Rightarrow> pbnd (always now) (\<lambda>t0. pbnd (wait_serial (search (p # ps)) (l # ls) (t0 + ra_timeout_us a)) (\<lambda>r.
             pret (if r = None then 1 else 0)))
         | _ \<Rightarrow> pret 1)
     | _ \<Rightarrow> pret 0)"

definition start_guest :: "run_args \<Rightarrow> string \<Rightarrow> (bool \<times> string option) sbx" where
  "start_guest a t = (if ra_start a
     then bnd (on_fleet (qemu_start t)) (\<lambda>st. bnd (await_mcpd 80 t) (\<lambda>up. ret (up, Some (started_log st))))
     else ret (True, ra_serial_log a))"

definition cmd_qemu_run ::
    "(string \<Rightarrow> string) \<Rightarrow> (string \<Rightarrow> string \<Rightarrow> bool) \<Rightarrow> (fleet \<Rightarrow> nat \<Rightarrow> int option) \<Rightarrow> string option \<Rightarrow> run_args \<Rightarrow> (sandbox_state, int) pio" where
  "cmd_qemu_run deflate search last_write name a = pbnd (always (resolve_named name)) (\<lambda>t.
     pbnd (always (start_guest a t)) (\<lambda>(up, log).
     if \<not> up then always (bnd (stop_if last_write (ra_stop a) t) (\<lambda>_. closing_with 1))
     else pbnd (always (deploy_and_run deflate a t)) (\<lambda>_.
          pbnd (await_marker search a log) (\<lambda>rc.
          always (bnd (stop_if last_write (ra_stop a) t) (\<lambda>_. closing_with rc))))))"

end
