(* ===== verification/Cli_Correct.thy ===== *)
theory Cli_Correct
  imports Cli Qemu_Correct Fleet_Correct Upload_Correct TestTools_Correct
begin

text \<open>
  What an exit code of the operator's program says: a guest it starts does not outlive the command, a soak
  that succeeds was answered every time, a run that succeeds saw its marker, and a transfer that took no
  measurable time ends in an error.
\<close>

section \<open>On the fleet of the program\<close>

lemma on_fleet_run:
  assumes "on_fleet m s = (r, s')"
  obtains f where "m (fleet.truncate s) = (r, f)" "history s' = history f" "fleet.truncate s' = f"
proof -
  obtain q f where m: "m (fleet.truncate s) = (q, f)" by force
  then have "q = r" and s': "s' = fleet.extend f (fleet.more s)" using assms by (auto simp: on_fleet_def)
  moreover have "history s' = history f" "fleet.truncate s' = f"
    unfolding s' by (cases f; simp add: fleet.extend_def fleet.truncate_def)+
  ultimately show thesis using m that by blast
qed

lemma truncated [simp]:
  "history (fleet.truncate s) = history s" "qemu_processes (fleet.truncate s) = qemu_processes s"
  "f_config (fleet.truncate s) = f_config s" "answer (fleet.truncate s) = answer s"
  by (simp_all add: fleet.truncate_def)

section \<open>Starting a guest\<close>

lemma keeps_names_host: "preserves (\<lambda>s. distinct (map fst (qemu_processes s))) (host op args)"
  unfolding host_def by (rule preserves_perform) simp

lemma keeps_names_connect: "preserves (\<lambda>s. distinct (map fst (qemu_processes s))) (can_connect h p)"
  unfolding can_connect_def by (auto intro!: kept)

lemma keeps_names_register: "preserves (\<lambda>s. distinct (map fst (qemu_processes s))) (register_qemu_process n p l)"
  unfolding register_qemu_process_def by (auto intro!: kept distinct_update)

lemma keeps_names_ensuring:
  "preserves I m \<Longrightarrow> preserves I f \<Longrightarrow> preserves I (ensuring m f)"
  unfolding preserves_def ensuring_def by (auto split: prod.splits sum.splits)

lemmas keeps_names = keeps_names_host keeps_names_connect keeps_names_register keeps_names_ensuring

lemma qemu_start_keeps_names: "preserves (\<lambda>s. distinct (map fst (qemu_processes s))) (qemu_start t)"
  unfolding qemu_start_def start_checks_def refuse_listener_def process_running_def launch_def open_log_def prune_old_logs_def
    with_config_def Let_def
  by (intro kept keeps_names | simp split: option.splits prod.splits sum.splits | intro allI impI conjI)+

lemma qemu_start_run:
  assumes "qemu_start t s = (Inr st, s')"
  obtains pre cmd cwd log j w where
    "history s' = history s @ pre @ (popen_event cmd cwd log, Inr j) # [(log_close log, w)]" "started_pid st = nat (as_int j)"
    "qemu_process t s' = Some (started_pid st)"
proof -
  obtain tc binary cmd ports u s1 where 1: "start_checks t tc s = (Inr u, s1)" "launch t binary cmd ports s1 = (Inr st, s')"
    using assms by (auto simp: qemu_start_def with_config_run bnd_eq_Inr gets_def lift_run raise_def split: sum.splits if_splits option.splits)
  from start_checks_passed [OF 1(1)] obtain es where es: "history s1 = history s @ es" by blast
  from 1(2) show thesis
  proof (cases rule: launch_run)
    case (failed fs)
    then show thesis by simp
  next
    case (tried pre log v w)
    then obtain j where "v = Inr j" "started_pid st = nat (as_int j)" "qemu_process t s' = Some (started_pid st)" by blast
    then show thesis using that [of "es @ pre" cmd _ log j w] tried(1) es by simp
  qed
qed

lemma emits_close_all: "emits (\<lambda>_. True) close_all"
  unfolding close_all_def close_transport_def stop_process_def try_host_def
  by (intro emits | simp)+

text \<open>
  The subcommand \<^verbatim>\<open>qemu_start\<close>, whose help says that it starts QEMU for a target, closes its fleet
  before it returns, and closing the fleet asks every process the fleet registered to terminate: the
  guest just launched has by then been sent terminate, or was found ended.
\<close>

theorem start_command_ends_its_guest:
  assumes run: "cmd_qemu_start name s = (Inr rc, s')" and fresh: "qemu_processes s = []"
  shows "\<exists>pre cmd cwd log j es. history s' = history s @ pre @ (popen_event cmd cwd log, Inr j) # es \<and> rc = 0 \<and>
    (Host ''terminate'' [JInt (int (nat (as_int j)))] \<in> fst ` set es \<or> (\<exists>e \<in> set es. had_exited (nat (as_int j)) e))"
proof -
  obtain t st s1 where 1: "on_fleet (qemu_start t) s = (Inr st, s1)" "closing_with 0 s1 = (Inr rc, s')"
    using run by (auto simp: cmd_qemu_start_def resolve_named_def bnd_eq_Inr gets_def lift_run)
  from 1(1) obtain f where f: "qemu_start t (fleet.truncate s) = (Inr st, f)" "history s1 = history f" "fleet.truncate s1 = f"
    by (rule on_fleet_run)
  from f(1) obtain pre cmd cwd log j w where
    start: "history f = history s @ pre @ (popen_event cmd cwd log, Inr j) # [(log_close log, w)]"
      "started_pid st = nat (as_int j)" "qemu_process t f = Some (started_pid st)" by (rule qemu_start_run) simp
  have names: "distinct (map fst (qemu_processes f))"
    using preservesD [OF qemu_start_keeps_names f(1)] fresh by simp
  obtain u s2 where "on_fleet close_all s1 = (Inr u, s2)" and rc: "rc = 0" "s' = s2"
    using 1(2) by (auto simp: closing_with_def bnd_eq_Inr ret_def)
  then obtain g where g: "close_all f = (Inr (), g)" "history s' = history g" using f(3) by (metis on_fleet_run unit.exhaust)
  have ends: "Host ''terminate'' [JInt (int (started_pid st))] \<in> fst ` set (new_events f g)
      \<or> (\<exists>e \<in> set (new_events f g). had_exited (started_pid st) e)"
    using close_all_leaves_nothing [OF g(1) names] start(3) by (auto simp: qemu_process_def)
  obtain es where "history g = history f @ es" using emits_close_all g(1) by (rule emitsD)
  then have "history s' = history s @ pre @ (popen_event cmd cwd log, Inr j) # (log_close log, w) # new_events f g"
    using start(1) g(2) by (simp add: new_events_def)
  moreover have "Host ''terminate'' [JInt (int (nat (as_int j)))] \<in> fst ` set ((log_close log, w) # new_events f g)
      \<or> (\<exists>e \<in> set ((log_close log, w) # new_events f g). had_exited (nat (as_int j)) e)"
    using ends unfolding start(2) by (simp only: list.set image_insert) blast
  ultimately show ?thesis using rc(1) by blast
qed

lemma extended [simp]:
  "fleet.truncate (fleet.extend f x) = f" "fleet.more (fleet.extend f x) = x" "history (fleet.extend f x) = history f"
  "qemu_processes (fleet.extend f x) = qemu_processes f" "f_config (fleet.extend f x) = f_config f"
  if "fleet.more f = ()"
  using that by (cases f; simp add: fleet.extend_def fleet.truncate_def)+

text \<open>Both ports refuse, the guest is started as process 42 and terminated.\<close>

theorem start_command_ends_its_guest_witness:
  "\<exists>s' pre cmd cwd log j es.
     cmd_qemu_start (Some ''qemu'') (fleet.extend (guest_fleet [refusal, refusal, Inr JNull, Inr (JInt 7), Inr JNull, Inr JNull, Inr (JInt 42),
        Inr JNull, Inr JNull, Inr JNull, Inr JNull] []) (sandbox_state.fields [])) = (Inr 0, s') \<and>
     history s' = pre @ (popen_event cmd cwd log, Inr j) # es \<and>
     (Host ''terminate'' [JInt (int (nat (as_int j)))] \<in> fst ` set es \<or> (\<exists>e \<in> set es. had_exited (nat (as_int j)) e))"
proof -
  let ?f = "guest_fleet [refusal, refusal, Inr JNull, Inr (JInt 7), Inr JNull, Inr JNull, Inr (JInt 42), Inr JNull, Inr JNull, Inr JNull, Inr JNull] []"
  let ?s = "fleet.extend ?f (sandbox_state.fields [])"
  obtain cmd ports where k: "build_cmdline ''/q/qemu'' ''m.json'' (Some ''{}'') guest_target None = Inr (cmd, ports)"
    using guest_cmdline by blast
  have gdb: "gdb_pool ?f = []" by (simp add: guest_fleet_def fleet_init_def)
  have "\<exists>st f. qemu_start ''qemu'' ?f = (Inr st, f) \<and> (\<exists>g. close_all f = (Inr (), g))"
    by (simp add: qemu_start_def run_it k start_checks_def process_running_def refuse_listener_def guest_ports launch_def open_log_def
        prune_old_logs_def whenM_def default_server_def register_qemu_process_def close_all_def stop_process_def try_host_def gdb)
  then obtain st f g where 1: "qemu_start ''qemu'' ?f = (Inr st, f)" "close_all f = (Inr (), g)" by blast
  have strip: "strip ''qemu'' = ''qemu''" by code_simp
  have t: "resolve_named (Some ''qemu'') ?s = (Inr ''qemu'', ?s)"
    by (simp add: resolve_named_def run_it fleet_resolve_def resolve_target_def guest_config_def empty_config_def strip)
  have "\<exists>s'. cmd_qemu_start (Some ''qemu'') ?s = (Inr 0, s')"
    using 1 t by (simp add: cmd_qemu_start_def closing_with_def bnd_def on_fleet_def ret_def)
  then obtain s' where r: "cmd_qemu_start (Some ''qemu'') ?s = (Inr 0, s')" by blast
  from start_command_ends_its_guest [OF r] r show ?thesis by simp
qed

section \<open>The events of a command\<close>

abbreviation extending :: "('z world_scheme, 'a) io \<Rightarrow> bool" where
  "extending \<equiv> emits (\<lambda>_. True)"

lemma emits_on_fleet [emits]: "emits P m \<Longrightarrow> emits P (on_fleet m)"
proof (rule emitsI)
  fix w r w' assume m: "emits P m" and run: "on_fleet m w = (r, w')"
  from run obtain f where f: "m (fleet.truncate w) = (r, f)" "history w' = history f" "fleet.truncate w' = f" by (rule on_fleet_run)
  from m f(1) obtain es where "history f = history (fleet.truncate w) @ es" "\<forall>e \<in> set es. P e" "answer f = answer (fleet.truncate w)"
    by (rule emitsD)
  then show "answer w' = answer w \<and> (\<exists>es. history w' = history w @ es \<and> (\<forall>e \<in> set es. P e))" using f by auto
qed

lemma emits_resolve_named [emits]: "emits P (resolve_named name)"
  unfolding resolve_named_def by (intro emits)

lemma extending_close [emits]: "extending (closing_with rc)"
  unfolding closing_with_def by (intro emits emits_close_all)

lemma extending_register [emits]: "emits P (register_qemu_process t p l)"
  by (simp add: register_qemu_process_def emits_def modify_def)

lemma extending_start [emits]: "extending (qemu_start t)"
  unfolding qemu_start_def with_config_def launch_def
  by (intro emits start_checks_quiet [THEN emits_mono] open_log_quiet [THEN emits_mono] | simp split: option.splits prod.splits)+

lemma extending_stop [emits]: "extending (stop_guest lw t)"
proof -
  have "extending (qemu_stop lw t ms st)" for ms st
    unfolding qemu_stop_def with_config_def
    by (intro emits emits_stop_phase settle_harmless [THEN emits_mono] | simp split: option.splits prod.splits)+
  then show ?thesis unfolding stop_guest_def by (intro emits)
qed

lemma extending_status [emits]: "extending (qemu_status t)"
  unfolding qemu_status_def with_config_def asked_state_def
  by (intro emits | simp split: option.splits prod.splits)+

lemma extending_upload [emits]: "extending (chunked_upload deflate t l r cs c rt ts v)"
  unfolding chunked_upload_def by (intro emits | simp split: option.splits)+

lemma extending_exec [emits]: "extending (ExecTools.exec_cmd t c a e ms p q None)"
  by (rule emits_exec_plain) simp

section \<open>Soaking\<close>

definition wait_params :: "int \<Rightarrow> json" where
  "wait_params tmo = JObj [(''timeout_ms'', JInt tmo), (''topics'', JArr [JStr ''sys.lastalert''])]"

definition is_wait :: "event \<times> outcome \<Rightarrow> bool" where
  "is_wait e \<longleftrightarrow> (case fst e of Rpc t m p \<Rightarrow> m = ''events.wait'' | _ \<Rightarrow> False)"

lemma clock_run: "now s = (r, s') \<Longrightarrow> \<exists>v. history s' = history s @ [(Clock, v)]"
  by (auto simp: now_def perform_def Let_def)

lemma wait_answered:
  assumes "succeeds (bnd (events_wait t (Some [''sys.lastalert'']) tmo) (\<lambda>_. now)) s = (Inr True, s')"
  shows "\<exists>j v. history s' = history s @ [(Rpc t ''events.wait'' (wait_params tmo), Inr j), (Clock, v)]"
proof -
  let ?kvs = "[(''timeout_ms'', JInt tmo), (''topics'', JArr [JStr ''sys.lastalert''])]"
  obtain raw s1 u where 1: "mcpd_request t ''events.wait'' ?kvs s = (Inr raw, s1)" "now s1 = (Inr u, s')"
    using assms by (auto simp: succeeds_eq events_wait_def bnd_eq_Inr lift_run)
  from mcpd_request_events(1) [OF 1(1)] clock_run [OF 1(2)] show ?thesis by (auto simp: wait_params_def)
qed

lemma soak_run:
  "soak n t tmo d s = (Inr d', s') \<Longrightarrow> d \<le> d' \<and> (d' = d \<longrightarrow> (\<exists>es. history s' = history s @ es \<and>
     length (filter is_wait es) = n \<and> (\<forall>e \<in> set (filter is_wait es). \<exists>j. e = (Rpc t ''events.wait'' (wait_params tmo), Inr j))))"
proof (induction n arbitrary: d s)
  case 0
  then show ?case by (auto simp: ret_def)
next
  case (Suc n)
  then obtain c s1 ok s2 where 1: "now s = (Inr c, s1)"
    "succeeds (bnd (events_wait t (Some [''sys.lastalert'']) tmo) (\<lambda>_. now)) s1 = (Inr ok, s2)"
    "soak n t tmo (if ok then d else Suc d) s2 = (Inr d', s')" by (auto simp: bnd_eq_Inr)
  note ih = Suc.IH [OF 1(3)]
  show ?case
  proof (cases ok)
    case False
    then show ?thesis using ih by auto
  next
    case True
    from clock_run [OF 1(1)] obtain v where h1: "history s1 = history s @ [(Clock, v)]" by blast
    have "succeeds (bnd (events_wait t (Some [''sys.lastalert'']) tmo) (\<lambda>_. now)) s1 = (Inr True, s2)" using 1(2) True by simp
    from wait_answered [OF this] obtain j w where
      h2: "history s2 = history s1 @ [(Rpc t ''events.wait'' (wait_params tmo), Inr j), (Clock, w)]" by blast
    show ?thesis
    proof (intro conjI impI)
      show "d \<le> d'" using ih True by simp
      assume "d' = d"
      then obtain es where "history s' = history s2 @ es" "length (filter is_wait es) = n"
        "\<forall>e \<in> set (filter is_wait es). \<exists>j. e = (Rpc t ''events.wait'' (wait_params tmo), Inr j)" using ih True by auto
      then show "\<exists>es. history s' = history s @ es \<and> length (filter is_wait es) = Suc n \<and>
          (\<forall>e \<in> set (filter is_wait es). \<exists>j. e = (Rpc t ''events.wait'' (wait_params tmo), Inr j))"
        using h1 h2
        by (intro exI [of _ "(Clock, v) # (Rpc t ''events.wait'' (wait_params tmo), Inr j) # (Clock, w) # es"])
          (auto simp: is_wait_def)
    qed
  qed
qed

lemma warm_up_waits_for_nothing: "emits (\<lambda>e. \<not> is_wait e) (warm_up n t)"
  by (induction n) (auto intro!: emits simp: is_wait_def sys_uptime_def model_request_def)

lemma close_waits_for_nothing: "emits (\<lambda>e. \<not> is_wait e) (closing_with rc)"
  unfolding closing_with_def close_all_def close_transport_def stop_process_def try_host_def
  by (intro emits | simp add: is_wait_def)+

lemma now_waits_for_nothing: "emits (\<lambda>e. \<not> is_wait e) now"
  by (intro emits) (simp add: is_wait_def)

text \<open>A soak that succeeds made as many waits as it was asked for, and every one was answered.\<close>

theorem soak_success_means_answered:
  assumes run: "cmd_events_soak name iterations tmo s = (Inr 0, s')"
  shows "\<exists>t es. fleet_resolve (f_config s) name = Inr t \<and> history s' = history s @ es \<and>
    length (filter is_wait es) = nat iterations \<and>
    (\<forall>e \<in> set (filter is_wait es). \<exists>j. e = (Rpc t ''events.wait'' (wait_params tmo), Inr j))"
proof -
  obtain t u s1 c s2 d s3 c' s4 where 1: "fleet_resolve (f_config s) name = Inr t" "warm_up 3 t s = (Inr u, s1)" "now s1 = (Inr c, s2)"
    "soak (nat iterations) t tmo 0 s2 = (Inr d, s3)" "now s3 = (Inr c', s4)" "closing_with (if d = 0 then 0 else 1) s4 = (Inr 0, s')"
    using run by (auto simp: cmd_events_soak_def resolve_named_def bnd_eq_Inr gets_def lift_run)
  have d: "d = 0" using 1(6) by (auto simp: closing_with_def bnd_eq_Inr ret_def split: if_splits)
  from emitsD [OF warm_up_waits_for_nothing 1(2)] obtain e1 where e1: "history s1 = history s @ e1" "\<forall>e \<in> set e1. \<not> is_wait e" by metis
  from emitsD [OF now_waits_for_nothing 1(3)] obtain e2 where e2: "history s2 = history s1 @ e2" "\<forall>e \<in> set e2. \<not> is_wait e" by metis
  from emitsD [OF now_waits_for_nothing 1(5)] obtain e4 where e4: "history s4 = history s3 @ e4" "\<forall>e \<in> set e4. \<not> is_wait e" by metis
  from emitsD [OF close_waits_for_nothing 1(6)] obtain e5 where e5: "history s' = history s4 @ e5" "\<forall>e \<in> set e5. \<not> is_wait e" by metis
  from soak_run [OF 1(4)] d obtain es where es: "history s3 = history s2 @ es" "length (filter is_wait es) = nat iterations"
    "\<forall>e \<in> set (filter is_wait es). \<exists>j. e = (Rpc t ''events.wait'' (wait_params tmo), Inr j)" by blast
  have "filter is_wait (e1 @ e2 @ es @ e4 @ e5) = filter is_wait es" using e1(2) e2(2) e4(2) e5(2) by simp
  then show ?thesis using 1(1) e1(1) e2(1) es e4(1) e5(1)
    by (intro exI [of _ t] exI [of _ "e1 @ e2 @ es @ e4 @ e5"]) simp
qed

section \<open>Waiting for the marker\<close>

definition marked :: "(string \<Rightarrow> bool) \<Rightarrow> string \<Rightarrow> event \<times> outcome \<Rightarrow> bool" where
  "marked found log e \<longleftrightarrow> (\<exists>b. e = (Host ''read_bytes'' [JStr log], Inr b) \<and> found (printable (as_str b)))"

definition sees :: "(string \<Rightarrow> bool) \<Rightarrow> string \<Rightarrow> sandbox_state \<Rightarrow> (exn + string option) \<times> sandbox_state \<Rightarrow> bool" where
  "sees found log s y \<longleftrightarrow> (\<exists>es. history (snd y) = history s @ es \<and>
     (\<forall>v. fst y = Inr (Some v) \<longrightarrow> (\<exists>e \<in> set es. marked found log e)))"

lemma sees_later: "history s1 = history s @ es \<Longrightarrow> sees found log s1 y \<Longrightarrow> sees found log s y"
  by (auto simp: sees_def)

lemma sees_nothing: "history s1 = history s @ es \<Longrightarrow> (\<And>v. r \<noteq> Inr (Some v)) \<Longrightarrow> sees found log s (r, s1)"
  by (auto simp: sees_def)

lemma host_run: "host op args s = (r, s') \<Longrightarrow> history s' = history s @ [(Host op args, r)]"
  by (auto simp: host_def perform_def Let_def)

lemma sleep_run: "history (snd (sleep t s)) = history s @ [(Sleep t, answer s (history s) (Sleep t))]"
  by (simp add: sleep_def perform_def Let_def)

lemma wait_serial_sees:
  assumes "wait_serial found log dl s = Some y"
  shows "sees found log s y"
proof (rule wait_serial.raw_induct [where P = "\<lambda>found log dl s y. sees found log s y", OF _ assms], goal_cases)
  case (1 d found log dl s y)
  obtain t s1 where n: "now s = (Inr t, s1)" by (simp add: now_def)
  from clock_run [OF n] obtain v where h1: "history s1 = history s @ [(Clock, v)]" by blast
  obtain th s2 where i: "host ''is_file'' [JStr log] s1 = (th, s2)" by force
  note h2 = host_run [OF i]
  obtain b s3 where r: "host ''read_bytes'' [JStr log] s2 = (b, s3)" by force
  note h3 = host_run [OF r]
  have again: "sees found log s y" if "d found log dl (snd (sleep 3000 s4)) = Some y" "history s4 = history s @ es" for s4 es
    by (rule sees_later [OF _ 1(1) [OF that(1)]]) (simp add: sleep_run that(2))
  show ?case
  proof (cases "t < dl \<and> th = Inr (JBool True)")
    case False
    then show ?thesis
      using 1(2) n i h1 h2 again [of s2] by (auto split: if_splits sum.splits intro: sees_nothing)
  next
    case True
    show ?thesis
    proof (cases b)
      case (Inl e)
      then show ?thesis using 1(2) n i r h1 h2 h3 True by (auto intro: sees_nothing)
    next
      case (Inr x)
      show ?thesis
      proof (cases "found (printable (as_str x))")
        case found: True
        then show ?thesis using 1(2) n i r h1 h2 h3 True Inr by (auto simp: sees_def marked_def)
      next
        case False
        then show ?thesis using 1(2) n i r h1 h2 h3 True Inr again [of s3] by auto
      qed
    qed
  qed
qed

text \<open>A run that waits for a marker and succeeds read a log the marker is in.\<close>

lemma extending_run: "extending (start_guest a t)" "extending (deploy_and_run deflate a t)" "extending (stop_if lw b t)"
proof -
  have "extending (await_mcpd n t)" for n by (induction n) (auto intro!: emits)
  then show "extending (start_guest a t)" unfolding start_guest_def by (intro emits; simp)
  show "extending (deploy_and_run deflate a t)" unfolding deploy_and_run_def Let_def by (intro emits; simp)
  show "extending (stop_if lw b t)" unfolding stop_if_def by (intro emits)
qed

lemma await_marker_sees:
  assumes "await_marker search a log s = Some (Inr 0, s')" "ra_wait a = Some p" "p \<noteq> []"
  shows "\<exists>l es. log = Some l \<and> history s' = history s @ es \<and> (\<exists>e \<in> set es. marked (search p) l e)"
proof -
  obtain c cs where p: "p = c # cs" using assms(3) by (cases p) auto
  obtain l ls where l: "log = Some (l # ls)"
    using assms p by (cases log; cases "the log") (auto simp: await_marker_def)
  obtain t0 s1 v where 1: "now s = (Inr t0, s1)" "wait_serial (search p) (l # ls) (t0 + ra_timeout_us a) s1 = Some (Inr (Some v), s')"
    using assms p l by (auto simp: await_marker_def pbnd_Some split: if_splits)
  from clock_run [OF 1(1)] wait_serial_sees [OF 1(2)] show ?thesis using l by (auto simp: sees_def)
qed

theorem run_success_saw_the_marker:
  assumes run: "cmd_qemu_run deflate search lw name a s = Some (Inr 0, s')" and p: "ra_wait a = Some p" "p \<noteq> []"
  shows "\<exists>log pre e post. history s' = history s @ pre @ e # post \<and> marked (search p) log e \<and>
    (\<not> ra_start a \<longrightarrow> ra_serial_log a = Some log)"
proof -
  obtain t up log s1 s2 where 1: "resolve_named name s = (Inr t, s1)" "start_guest a t s1 = (Inr (up, log), s2)"
    "(if \<not> up then always (bnd (stop_if lw (ra_stop a) t) (\<lambda>_. closing_with 1))
      else pbnd (always (deploy_and_run deflate a t)) (\<lambda>_. pbnd (await_marker search a log) (\<lambda>rc.
          always (bnd (stop_if lw (ra_stop a) t) (\<lambda>_. closing_with rc))))) s2 = Some (Inr 0, s')"
    using run by (auto simp: cmd_qemu_run_def pbnd_Some)
  have up: up using 1(3) by (cases up) (auto simp: closing_with_def bnd_eq_Inr ret_def)
  with 1(3) obtain u s3 rc s4 where 2: "deploy_and_run deflate a t s2 = (Inr u, s3)" "await_marker search a log s3 = Some (Inr rc, s4)"
    "bnd (stop_if lw (ra_stop a) t) (\<lambda>_. closing_with rc) s4 = (Inr 0, s')" by (auto simp: pbnd_Some)
  have rc: "rc = 0" using 2(3) by (auto simp: closing_with_def bnd_eq_Inr ret_def)
  have ends: "extending (bnd (stop_if lw (ra_stop a) t) (\<lambda>_. closing_with rc))" by (intro emits extending_run)
  have starts: "extending (resolve_named name)" by (intro emits)
  from emitsD [OF starts 1(1)] obtain e1 where e1: "history s1 = history s @ e1" by metis
  from emitsD [OF extending_run(1) 1(2)] obtain e2 where e2: "history s2 = history s1 @ e2" by metis
  from emitsD [OF extending_run(2) 2(1)] obtain e3 where e3: "history s3 = history s2 @ e3" by metis
  from emitsD [OF ends 2(3)] obtain e5 where e5: "history s' = history s4 @ e5" by metis
  from await_marker_sees [OF 2(2) [unfolded rc] p] obtain l es e where e4: "log = Some l" "history s4 = history s3 @ es"
    "e \<in> set es" "marked (search p) l e" by blast
  then obtain xs ys where "es = xs @ e # ys" by (auto dest: split_list)
  moreover have "\<not> ra_start a \<longrightarrow> ra_serial_log a = log" using 1(2) by (auto simp: start_guest_def ret_def)
  ultimately have "history s' = history s @ (e1 @ e2 @ e3 @ xs) @ e # (ys @ e5)" "\<not> ra_start a \<longrightarrow> ra_serial_log a = Some l"
    using e1 e2 e3 e4 e5 by simp_all
  then show ?thesis using e4(4) by blast
qed

section \<open>Rates\<close>

text \<open>A file that is on the target is reported as a failure when sending it took no measurable time.\<close>

lemma instant_upload_fails:
  assumes "resolve_named name s = (Inr t, s1)" "now s1 = (Inr t0, s2)"
    "chunked_upload deflate t local remote cs c 2 0 True s2 = (Inr st, s3)" "now s3 = (Inr t0, s4)"
  shows "exn_name (projl (fst (cmd_upload deflate sha256 name local remote cs c verify s))) = ''ZeroDivisionError''"
  using assms by (simp add: cmd_upload_def bnd_def rate_over_def raise_def)

end
