(* ===== verification/Doctor.thy ===== *)
theory Doctor
  imports Mcpd Tools
begin

text \<open>
  The check of a set-up (\<^verbatim>\<open>doctor.py\<close>): the configuration, the targets, whether each answers with a daemon of
  the same version, and whether the server is known to a client.  The exit code is the number of failures.
  The host is given by its answers: which files are there, which programs are found, what a program prints.
\<close>

datatype status = Good | Warn | Fail

record check =
  ck_status :: status
  ck_what :: string
  ck_fix :: "string option"

definition check_of :: "status \<Rightarrow> string \<Rightarrow> string \<Rightarrow> check" where
  "check_of st what fix = \<lparr>ck_status = st, ck_what = what, ck_fix = Some fix\<rparr>"

definition fine :: "string \<Rightarrow> check" where
  "fine what = \<lparr>ck_status = Good, ck_what = what, ck_fix = None\<rparr>"

definition HOST_VERSION :: string where "HOST_VERSION = ''2.2''"

section \<open>Versions and commands\<close>

fun ints_of :: "string list \<Rightarrow> int list option" where
  "ints_of [] = Some []"
| "ints_of (p # ps) = (case parse_int p of Inl _ \<Rightarrow> None | Inr n \<Rightarrow> map_option ((#) n) (ints_of ps))"

definition major_minor :: "string \<Rightarrow> int list option" where
  "major_minor version = ints_of (take 2 (split_on CHR ''.'' version))"

text \<open>The order of tuples.\<close>

fun earlier :: "int list \<Rightarrow> int list \<Rightarrow> bool" where
  "earlier _ [] = False"
| "earlier [] (y # ys) = True"
| "earlier (x # xs) (y # ys) = (x < y \<or> x = y \<and> earlier xs ys)"

record installation =
  host_dir :: string
  scripts_dir :: string
  on_disk :: "string \<Rightarrow> bool"
  a_directory :: "string \<Rightarrow> bool"
  which :: "string \<Rightarrow> string option"

definition launch_command :: "installation \<Rightarrow> string list" where
  "launch_command i =
     (if on_disk i (host_dir i @ ''/pyproject.toml'') \<and> a_directory i (host_dir i @ ''/src'')
      then [''uv'', ''--directory'', host_dir i, ''run'', ''amiga-fleet-mcp'']
      else if on_disk i (scripts_dir i @ ''/amiga-fleet-mcp.exe'') then [scripts_dir i @ ''/amiga-fleet-mcp.exe'']
      else if on_disk i (scripts_dir i @ ''/amiga-fleet-mcp'') then [scripts_dir i @ ''/amiga-fleet-mcp'']
      else [case which i ''amiga-fleet-mcp'' of Some (c # cs) \<Rightarrow> c # cs | _ \<Rightarrow> ''amiga-fleet-mcp''])"

definition claude_desktop_config :: "string \<Rightarrow> string option \<Rightarrow> string \<Rightarrow> string option" where
  "claude_desktop_config system appdata home =
     (if system = ''Windows'' then (case appdata of Some (a # as) \<Rightarrow> Some ((a # as) @ ''/Claude/claude_desktop_config.json'') | _ \<Rightarrow> None)
      else if system = ''Darwin'' then Some (home @ ''/Library/Application Support/Claude/claude_desktop_config.json'')
      else None)"

section \<open>The configuration and its targets\<close>

definition first_line :: "exn \<Rightarrow> string" where
  "first_line e = (let t = strip (exn_str e) in if t = [] then exn_name e else takeWhile (\<lambda>c. \<not> py_islinebreak c) t)"

text \<open>Which file is looked at, whether it exists, and what loading it comes to.\<close>

definition check_config ::
    "string option \<Rightarrow> string option \<Rightarrow> string \<Rightarrow> (string \<Rightarrow> bool) \<Rightarrow> (string \<Rightarrow> exn + config) \<Rightarrow> exn + (check \<times> config option)" where
  "check_config path env def exists load =
     (let (p, source) = (case path of Some q \<Rightarrow> (q, ''--config'')
            | None \<Rightarrow> (case env of Some (_ # _) \<Rightarrow> (def, ''$AMIGA_FLEET_CONFIG'') | _ \<Rightarrow> (def, ''platform default'')))
      in if \<not> exists p
         then Inr (check_of Fail (''config: none at '' @ p @ '' ('' @ source @ '')'')
           ''Run `amiga-fleet-mcp --init` to write one there, or pass `--config <path>` if it lives elsewhere.'', None)
         else case load p of
           Inr c \<Rightarrow> Inr (fine (''config: '' @ p @ '' ('' @ source @ '')''), Some c)
         | Inl e \<Rightarrow> if is_rpc_err e \<or> (case e of PyErr t _ \<Rightarrow> t \<in> {ValueError, UnicodeDecodeError, JSONDecodeError} | _ \<Rightarrow> False)
             then Inr (check_of Fail (''config: '' @ p @ '' does not load: '' @ first_line e)
               ''Fix the line it names, or write a fresh one with `amiga-fleet-mcp --init --force`.'', None)
             else Inl e)"

definition sorted_targets :: "config \<Rightarrow> string list" where
  "sorted_targets c = target_names c"

definition check_targets :: "config \<Rightarrow> check list" where
  "check_targets c = (let names = sorted_targets c in
     if names = [] then [check_of Fail ''targets: none configured'' ''Add your Amigas with `amiga-fleet-mcp --init`.'']
     else fine (''targets: '' @ join '', '' names) # (case default_target (server c) of
         Some (d # ds) \<Rightarrow> if d # ds \<in> set names then []
           else [check_of Fail (''default_target '' @ py_repr (d # ds) @ '' is not a configured target'')
             (''Set `[server] default_target` to one of: '' @ join '', '' names @ ''.'')]
       | _ \<Rightarrow> if length names > 1 then [check_of Warn ''no default_target: every tool call must name a target''
             (''Set `[server] default_target = '' @ [CHR 0x22] @ ''<name>'' @ [CHR 0x22] @ ''` in config.toml so the AI can leave it out.'')]
           else []))"

section \<open>One target\<close>

definition unreachable_reason :: "exn \<Rightarrow> string" where
  "unreachable_reason e = (case e of
       PyErr t m \<Rightarrow> if t = TimeoutError then ''no answer within 5 s'' else exn_str e
     | RpcErr c m d \<Rightarrow> (case d of
         Some (JObj kvs) \<Rightarrow> (case map_of kvs ''error'' of Some v \<Rightarrow> if truthy v then py_str v else exn_str e | None \<Rightarrow> exn_str e)
       | _ \<Rightarrow> exn_str e))"

definition probe_errors :: "exn \<Rightarrow> bool" where
  "probe_errors e = (is_rpc_err e \<or> is_os e)"

definition check_silent :: "target_config \<Rightarrow> string \<Rightarrow> string \<Rightarrow> check" where
  "check_silent t place reason = (if t_type t = Qemu
     then check_of Warn (place @ '': not answering: '' @ reason)
       (''Fine if the guest just isn't started: ask the AI to `qemu_start` it when you need it. If it is running, check ''
        @ ''that MCPd started inside it.'')
     else check_of Fail (place @ '': unreachable: '' @ reason)
       (''Check that the Amiga is on and booted, that MCPd is running on it (it starts from SYS:System/MCPd/ at boot once ''
        @ ''installed), and that the address in config.toml is right.''))"

text \<open>The part of \<^verbatim>\<open>MCPd/2.2\<close> after the first slash.\<close>

definition after_slash :: "string \<Rightarrow> string" where
  "after_slash s = (if CHR ''/'' \<in> set s then tl (dropWhile (\<lambda>c. c \<noteq> CHR ''/'') s) else s)"

definition check_version :: "string \<Rightarrow> string \<Rightarrow> check" where
  "check_version place remote = (case (major_minor remote, major_minor HOST_VERSION) of
       (Some theirs, Some ours) \<Rightarrow>
         if theirs = ours then fine (place @ '': MCPd '' @ remote)
         else check_of Warn (place @ '': MCPd '' @ remote @ '', host '' @ HOST_VERSION)
           (if earlier theirs ours
            then ''Install MCPd '' @ HOST_VERSION @ '' from the latest release (MCPd-<version>.lha) on that Amiga.''
            else ''Update this host: `git pull`, then `uv sync` in host/ (or `pip install -e .`).'')
     | _ \<Rightarrow> fine (place @ '': MCPd '' @ remote))"

definition probe_target :: "string \<Rightarrow> (fleet, check) io" where
  "probe_target name = bnd (gets f_config) (\<lambda>c. bnd (lift (target_config c name)) (\<lambda>t.
     case chan_mcpd (channels t) of
       None \<Rightarrow> ret (check_of Warn (name @ '': no MCPd channel configured'')
         ''Add a `[targets.<name>.channels.mcpd]` endpoint, or ignore this if the target is only driven over QMP / serial.'')
     | Some ch \<Rightarrow> if \<not> enabled ch then ret (check_of Warn (name @ '': no MCPd channel configured'')
         ''Add a `[targets.<name>.channels.mcpd]` endpoint, or ignore this if the target is only driven over QMP / serial.'')
       else let place = name @ '' ('' @ chan_endpoint ch @ '')'' in
         bnd (catch (bnd (bnd (fleet_mcpd name) (\<lambda>_. rpc name ''proto.capabilities'' JNull)) (\<lambda>v. ret (Inr v)))
               (\<lambda>e. if probe_errors e then ret (Inl e) else raise e)) (\<lambda>r. case r of
           Inl e \<Rightarrow> ret (check_silent t place (unreachable_reason e))
         | Inr caps \<Rightarrow> bnd (lift (get_or ''server'' (JStr ''?'') caps)) (\<lambda>srv.
             ret (check_version place (after_slash (py_str srv)))))))"

section \<open>The clients\<close>

text \<open>\<open>listing\<close> is what \<^verbatim>\<open>claude mcp list\<close> prints, \<open>None\<close> when it cannot be run or times out.\<close>

definition check_claude_code :: "string \<Rightarrow> string option \<Rightarrow> check" where
  "check_claude_code cmd listing = (case listing of
       None \<Rightarrow> \<lparr>ck_status = Warn, ck_what = ''Claude Code: `claude mcp list` failed or timed out, so registration is unknown'', ck_fix = None\<rparr>
     | Some out \<Rightarrow> if contains ''amiga-fleet-mcp'' out then fine ''Claude Code: server registered''
         else check_of Warn ''Claude Code: server not registered here''
           (''Run: claude mcp add amiga-fleet -- '' @ cmd @ ''  (add `--scope user` after `add` to use it in every project).''))"

text \<open>The servers a client's file names; a file that cannot be read or parsed names none.\<close>

definition known_servers :: "string option \<Rightarrow> exn + json list" where
  "known_servers content =
     (let data = (case content of None \<Rightarrow> JObj [] | Some b \<Rightarrow>
            (if utf8_valid b then (case json_loads b of Some j \<Rightarrow> j | None \<Rightarrow> JObj []) else JObj []))
      in ebnd (get_or ''mcpServers'' JNull data) (\<lambda>s. case s of
           JObj kvs \<Rightarrow> Inr (map snd kvs)
         | _ \<Rightarrow> if truthy s then Inl (PyErr AttributeError []) else Inr []))"

definition check_claude_desktop :: "installation \<Rightarrow> string \<Rightarrow> string option \<Rightarrow> exn + check" where
  "check_claude_desktop i path content = ebnd (known_servers content) (\<lambda>entries.
     if list_ex (\<lambda>e. contains ''amiga-fleet-mcp'' (json_dumps_ascii e)) entries
     then Inr (fine (''Claude Desktop: server registered in '' @ path))
     else let argv = launch_command i;
              entry = json_dumps_ascii (JObj [(''command'', JStr (hd argv)), (''args'', JArr (map JStr (tl argv)))])
          in Inr (check_of Warn ''Claude Desktop: server not registered''
               (''Add to '' @ [CHR 0x22] @ ''mcpServers'' @ [CHR 0x22] @ '' in '' @ path @ '': '' @ [CHR 0x22] @ ''amiga-fleet''
                @ [CHR 0x22] @ '': '' @ entry @ '', then restart Claude Desktop.'')))"

definition parent_of :: "string \<Rightarrow> string" where
  "parent_of p = fst (rpartition CHR ''/'' p)"

definition check_clients :: "installation \<Rightarrow> (string \<Rightarrow> string option) \<Rightarrow> string option \<Rightarrow> (string \<Rightarrow> string option) \<Rightarrow> exn + check list" where
  "check_clients i listing desktop file =
     (let cmd = join '' '' (launch_command i);
          code = (case which i ''claude'' of Some (p # ps) \<Rightarrow> [check_claude_code cmd (listing (p # ps))] | _ \<Rightarrow> [])
      in ebnd (case desktop of
           Some d \<Rightarrow> if a_directory i (parent_of d) then ebnd (check_claude_desktop i d (file d)) (\<lambda>c. Inr [c]) else Inr []
         | None \<Rightarrow> Inr []) (\<lambda>desk.
         Inr (if code @ desk \<noteq> [] then code @ desk
           else [check_of Warn ''no MCP client found (looked for Claude Code and Claude Desktop)''
             (''Give your MCP client this command to start the server: '' @ cmd
              @ ''. INSTALL.md, 'Wiring the server into an MCP client', has the steps for each client.'')])))"

section \<open>The run\<close>

text \<open>The probes run side by side; \<open>out\<close> gives what each comes to.\<close>

fun gathered :: "(string \<Rightarrow> exn + check) \<Rightarrow> string list \<Rightarrow> exn + check list" where
  "gathered out [] = Inr []"
| "gathered out (n # ns) = ebnd (out n) (\<lambda>c. ebnd (gathered out ns) (\<lambda>cs. Inr (c # cs)))"

definition failures :: "check list \<Rightarrow> nat" where
  "failures cs = length (filter (\<lambda>c. ck_status c = Fail) cs)"

definition run_doctor :: "exn + (check \<times> config option) \<Rightarrow> (string \<Rightarrow> exn + check) \<Rightarrow> exn + check list \<Rightarrow> exn + nat" where
  "run_doctor conf out clients = ebnd conf (\<lambda>(first, cfg).
     ebnd (case cfg of None \<Rightarrow> Inr [] | Some c \<Rightarrow>
         ebnd (if targets c = [] then Inr [] else gathered out (sorted_targets c)) (\<lambda>cs. Inr (check_targets c @ cs))) (\<lambda>mid.
     ebnd clients (\<lambda>last. Inr (failures (first # mid @ last)))))"

end
