(* ===== verification/Doctor_Correct.thy ===== *)
theory Doctor_Correct
  imports Doctor Qemu_Correct
begin

text \<open>
  What a clean bill of health means: the configuration loads, it has targets and a default among them, and
  every machine that is not a guest answered its probe.
\<close>

section \<open>One probe\<close>

lemma fleet_mcpd_run: "fleet_mcpd n s = (r, s') \<Longrightarrow> history s' = history s"
  using pool_history(1) by blast

lemma probe_of_machine:
  assumes "probe_target n s = (Inr k, s')" "target_config (f_config s) n = Inr t" "t_type t \<noteq> Qemu"
    "chan_mcpd (channels t) = Some ch" "enabled ch" "ck_status k \<noteq> Fail"
  shows "\<exists>caps. history s' = history s @ [(Rpc n ''proto.capabilities'' JNull, Inr caps)]"
proof -
  let ?m = "bnd (fleet_mcpd n) (\<lambda>_. rpc n ''proto.capabilities'' JNull)"
  let ?place = "n @ '' ('' @ chan_endpoint ch @ '')''"
  obtain r s1 where m: "?m s = (r, s1)" by force
  have "\<exists>caps. r = Inr caps \<and> s' = s1"
    using assms m
    by (cases r) (auto simp: probe_target_def bnd_eq_Inr gets_def lift_run catch_eq ret_def raise_def Let_def check_silent_def check_of_def
        bnd_eq_Inl split: if_splits)
  then obtain caps where r: "r = Inr caps" "s' = s1" by blast
  from m r obtain h s0 where "fleet_mcpd n s = (Inr h, s0)" "rpc n ''proto.capabilities'' JNull s0 = (Inr caps, s')"
    by (auto simp: bnd_eq_Inr)
  then show ?thesis using fleet_mcpd_run by (auto simp: rpc_def perform_def Let_def)
qed

section \<open>A run without failures\<close>

lemma failures_append [simp]: "failures (xs @ ys) = failures xs + failures ys"
  by (simp add: failures_def)

lemma failures_Cons [simp]: "failures (c # cs) = (if ck_status c = Fail then Suc (failures cs) else failures cs)"
  by (simp add: failures_def)

lemma failures_0: "failures cs = 0 \<longleftrightarrow> (\<forall>c \<in> set cs. ck_status c \<noteq> Fail)"
  by (auto simp: failures_def filter_empty_conv)

lemma gathered_all: "gathered out ns = Inr cs \<Longrightarrow> \<forall>n \<in> set ns. \<exists>k \<in> set cs. out n = Inr k"
  by (induction ns arbitrary: cs) (auto simp: ebnd_Inr)

lemma check_targets_clean:
  assumes "failures (check_targets c) = 0"
  shows "targets c \<noteq> []" "\<And>d. default_target (server c) = Some d \<Longrightarrow> d \<noteq> [] \<Longrightarrow> d \<in> fst ` set (targets c)"
  using assms by (auto simp: check_targets_def sorted_targets_def target_names_def check_of_def fine_def Let_def split: list.splits if_splits)

lemma check_config_loaded:
  assumes "check_config path env def exists load = Inr (first, cfg)" "ck_status first \<noteq> Fail"
  shows "\<exists>p c. cfg = Some c \<and> load p = Inr c \<and> exists p \<and> (path = Some p \<or> path = None \<and> p = def)"
  using assms by (auto simp: check_config_def check_of_def fine_def Let_def split: option.splits list.splits sum.splits if_splits prod.splits)

text \<open>
  C36. When the doctor reports no failure, the configuration was loaded, it has targets, a
  default target is one of them, and every machine with an enabled MCPd channel that is not a
  QEMU guest answered its probe.
\<close>

theorem clean_bill_means_answers:
  assumes run: "run_doctor (check_config path env def exists load) out clients = Inr 0"
    and probes: "\<And>n. probe_target n (before n) = (out n, after n)"
    and same: "\<And>n first c. check_config path env def exists load = Inr (first, Some c) \<Longrightarrow> f_config (before n) = c"
  shows "\<exists>p c. load p = Inr c \<and> targets c \<noteq> [] \<and>
    (\<forall>d. default_target (server c) = Some d \<longrightarrow> d \<noteq> [] \<longrightarrow> d \<in> fst ` set (targets c)) \<and>
    (\<forall>n t ch. map_of (targets c) n = Some t \<longrightarrow> t_type t \<noteq> Qemu \<longrightarrow> chan_mcpd (channels t) = Some ch \<longrightarrow> enabled ch \<longrightarrow>
       (\<exists>caps. history (after n) = history (before n) @ [(Rpc n ''proto.capabilities'' JNull, Inr caps)]))"
proof -
  obtain first cfg mid final where 1: "check_config path env def exists load = Inr (first, cfg)"
    "(case cfg of None \<Rightarrow> Inr [] | Some c \<Rightarrow>
       ebnd (if targets c = [] then Inr [] else gathered out (sorted_targets c)) (\<lambda>cs. Inr (check_targets c @ cs))) = Inr mid"
    "failures (first # mid @ final) = 0"
    using run by (auto simp: run_doctor_def ebnd_Inr)
  then have ok: "ck_status first \<noteq> Fail" "failures mid = 0" by (auto split: if_splits)
  from check_config_loaded [OF 1(1) ok(1)] obtain p c where c: "cfg = Some c" "load p = Inr c" by blast
  from 1(2) c(1) obtain cs where cs: "(if targets c = [] then Inr [] else gathered out (sorted_targets c)) = Inr cs" "mid = check_targets c @ cs"
    by (auto simp: ebnd_Inr)
  then have clean: "failures (check_targets c) = 0" "\<forall>k \<in> set cs. ck_status k \<noteq> Fail" using ok(2) by (auto simp: failures_0)
  have answers: "\<exists>caps. history (after n) = history (before n) @ [(Rpc n ''proto.capabilities'' JNull, Inr caps)]"
    if t: "map_of (targets c) n = Some t" "t_type t \<noteq> Qemu" "chan_mcpd (channels t) = Some ch" "enabled ch" for n t ch
  proof -
    have "n \<in> set (sorted_targets c)" using t(1) by (force simp: sorted_targets_def target_names_def dest: map_of_SomeD)
    then obtain k where k: "k \<in> set cs" "out n = Inr k" using gathered_all [of out "sorted_targets c" cs] cs(1) check_targets_clean(1) [OF clean(1)] by auto
    have "target_config (f_config (before n)) n = Inr t" using same 1(1) c(1) t(1) by (simp add: target_config_def)
    then show ?thesis using probe_of_machine [OF probes [of n, unfolded k(2)] _ t(2-4)] clean(2) k(1) by blast
  qed
  show ?thesis using c(2) check_targets_clean [OF clean(1)] answers by blast
qed

definition lone_amiga :: config where
  "lone_amiga = empty_config\<lparr>targets := [(''amiga'', (target_of Remote)\<lparr>channels := no_channels\<lparr>chan_mcpd := Some default_mcpd\<rparr>\<rparr>)]\<rparr>"

definition lone_fleet :: fleet where
  "lone_fleet = fleet_init lone_amiga (\<lambda>_ _. Inr (JObj [(''server'', JStr ''MCPd/2.2'')]))"

lemma lone_probe: "probe_target ''amiga'' lone_fleet = (Inr (fine ''amiga (127.0.0.1:4322): MCPd 2.2''), snd (probe_target ''amiga'' lone_fleet))"
proof -
  have v: "check_version ''amiga (127.0.0.1:4322)'' ''2.2'' = fine ''amiga (127.0.0.1:4322): MCPd 2.2''" by code_simp
  show ?thesis
    using v by (simp add: probe_target_def lone_fleet_def lone_amiga_def fleet_init_def run_it target_config_def empty_config_def target_of_def
      no_channels_def default_mcpd_def fleet_mcpd_def pool_defs rpc_def get_or_def after_slash_def)
qed

theorem clean_bill_means_answers_witness:
  "\<exists>caps. history (snd (probe_target ''amiga'' lone_fleet)) = [(Rpc ''amiga'' ''proto.capabilities'' JNull, Inr caps)]"
proof -
  let ?out = "\<lambda>n. fst (probe_target n lone_fleet)"
  let ?conf = "check_config (Some ''c'') None ''d'' (\<lambda>_. True) (\<lambda>_. Inr lone_amiga)"
  have cfg: "f_config lone_fleet = lone_amiga" "history lone_fleet = []" by (simp_all add: lone_fleet_def fleet_init_def)
  have conf: "?conf = Inr (fine ''config: c (--config)'', Some lone_amiga)" by (simp add: check_config_def)
  have names: "sorted_targets lone_amiga = [''amiga'']" "targets lone_amiga \<noteq> []"
    by (simp_all add: sorted_targets_def target_names_def lone_amiga_def)
  have "failures (check_targets lone_amiga) = 0"
    by (simp add: check_targets_def names lone_amiga_def fine_def empty_config_def default_server_def failures_def sorted_targets_def target_names_def)
  then have "run_doctor ?conf ?out (Inr []) = Inr 0"
    using conf names arg_cong [OF lone_probe, of fst] by (simp add: run_doctor_def fine_def failures_def)
  from clean_bill_means_answers [OF this, of "\<lambda>_. lone_fleet" "\<lambda>n. snd (probe_target n lone_fleet)"]
  show ?thesis using conf cfg by (auto simp: lone_amiga_def target_of_def no_channels_def default_mcpd_def)
qed

section \<open>What the doctor does not do\<close>

text \<open>A file that is there but cannot be read is not reported: the exception ends the doctor.\<close>

lemma unreadable_config_escapes:
  "check_config (Some p) env def (\<lambda>_. True) (\<lambda>_. Inl (PyErr OSError m)) = Inl (PyErr OSError m)"
  by (simp add: check_config_def)

text \<open>A client's file that holds a list ends the doctor too.\<close>

lemma list_in_client_file_escapes: "isl (known_servers (Some ''[]''))"
  by code_simp

text \<open>The one problem that comes without a fix.\<close>

lemma failed_listing_has_no_fix: "ck_status (check_claude_code cmd None) = Warn \<and> ck_fix (check_claude_code cmd None) = None"
  by (simp add: check_claude_code_def)

text \<open>A guest that does not answer is only warned of.\<close>

lemma silent_guest_is_no_failure: "t_type t = Qemu \<Longrightarrow> ck_status (check_silent t place reason) = Warn"
  by (simp add: check_silent_def check_of_def)

end
