(* ===== verification/Spec2Isabelle.thy ===== *)
theory Spec2Isabelle
  imports Mcpd_Correct Gdb_Correct Archive_Correct Fleet_Correct Upload_Correct FleetTools Kicklayout
    Machines Cmdline Power_Correct Discovery_Correct Qmp Qemu_Correct DebugTools Snapshots
    SandboxText_Correct Sandbox_Correct InputTools TestTools_Correct WbTools_Correct SysInfo
    InstallFiles Preflight Wizard_Correct Server_Correct Cli_Correct Doctor_Correct
begin

text \<open>
  A verification development for the host side of MCP-AmigaOS4
  (\<^verbatim>\<open>src/host/src/amiga_fleet_mcp\<close>): the server that lets a client drive a fleet of AmigaOS
  machines, each running the MCPd daemon, some of them under QEMU.

  The program.  A tool call (\<^verbatim>\<open>tools/\<close>) asks the fleet (\<^verbatim>\<open>fleet.py\<close>) for the transport of a target
  and makes JSON-RPC requests over it.  \<^verbatim>\<open>transports/mcpd.py\<close> talks to the daemon in length-prefixed
  frames and decides when a request may be sent again; \<^verbatim>\<open>transports/gdb.py\<close> speaks the GDB remote
  protocol to QEMU.  \<^verbatim>\<open>upload.py\<close> moves files in chunks, \<^verbatim>\<open>tools/fleet.py\<close> runs a method on many
  targets, \<^verbatim>\<open>archive/store.py\<close> logs each call and bounds the disk the logs take, and
  \<^verbatim>\<open>installer/\<close> installs the operating system on a target.

  The model.  \<open>Effects\<close> gives the shape of everything with effects: a coroutine is a function on a
  state that returns a value or an exception (\<open>io\<close>), and the environment is a history of events
  (socket reads and writes, the clock, requests, host operations) with an answer function that is
  free, so that a theorem holds for every behaviour of the network, the daemon, the disk and the
  clock.  \<open>Partial\<close> is the same for code that may wait forever: \<open>None\<close> is the call that never
  returns.  A lock held through a whole call makes the call one step; concurrent calls of
  \<^verbatim>\<open>fleet.quorum_run\<close> appear as the order in which its tasks finish, which is a parameter.

  The theories, in the order of the code:
  \<^item> \<open>Prelude\<close>, \<open>Json\<close>, \<open>Base64\<close>: what the code uses of Python's strings, \<^verbatim>\<open>json\<close> and \<^verbatim>\<open>base64\<close>,
    with the round trips of both codecs.
  \<^item> \<open>Errors\<close> (\<^verbatim>\<open>errors.py\<close>), \<open>Effects\<close>, \<open>Partial\<close>.
  \<^item> \<open>Framing\<close>: reading an exact number of bytes from a stream, and the locale \<open>framing\<close>, the
    contract of a framed channel; the daemon's frames and the GDB packets interpret it.
  \<^item> \<open>Mcpd\<close>, \<open>Mcpd_Correct\<close> (\<^verbatim>\<open>transports/mcpd.py\<close>): a request is sent at most once unless it is
    idempotent, a result comes from a frame that was read after this call's newest request was written
    and carries its id, and a failure says whether the request may have run.
  \<^item> \<open>Gdb\<close>, \<open>Gdb_Correct\<close> (\<^verbatim>\<open>transports/gdb.py\<close>): packets are received as sent, only with a good
    checksum, and the register and memory commands decode the stub's reply.
  \<^item> \<open>Archive\<close>, \<open>Archive_Correct\<close> (\<^verbatim>\<open>archive/store.py\<close>, \<^verbatim>\<open>tools/_helpers.py\<close>,
    \<^verbatim>\<open>resources/archive_resources.py\<close>): what is logged, what is read back, and the locale \<open>retention\<close>
    that both retention functions interpret: the newest survive, the bounds are met.
  \<^item> \<open>Config\<close> (\<^verbatim>\<open>config.py\<close>), \<open>Fleet\<close>, \<open>Fleet_Correct\<close> (\<^verbatim>\<open>fleet.py\<close>): targets and the locale
    \<open>registry\<close> of a get-or-create pool, interpreted by the three transport pools.
  \<^item> \<open>Tools\<close>, \<open>Fs\<close> (\<^verbatim>\<open>tools/fs.py\<close>): a request made by a tool, and the checks on its reply.
  \<^item> \<open>Upload\<close>, \<open>Upload_Correct\<close> (\<^verbatim>\<open>upload.py\<close>): a transfer that returns has copied the file, against
    a daemon that serves the writes to the remote path as its own handler does (relation \<open>served\<close>).
  \<^item> \<open>FleetTools\<close> (\<^verbatim>\<open>tools/fleet.py\<close>): fan-out, barrier, quorum and relay.
  \<^item> \<open>Cmdline\<close> (\<^verbatim>\<open>qemu/cmdline.py\<close>): the arguments QEMU is started with; two guests share no host
    forward, and the ports reported are those opened.
  \<^item> \<open>Serial\<close> (\<^verbatim>\<open>transports/serial_capture.py\<close>), \<open>SerialTools\<close> (\<^verbatim>\<open>tools/serial.py\<close>): a capture with its
    reader threads as a step relation, one step per access to what they share; it refines a sequential
    log that performs the same actions, as long as a stop waits for its reader.  The tools keep the registry well formed, and reading
    page by page gives the log.
  \<^item> \<open>Qmp\<close> (\<^verbatim>\<open>transports/qmp.py\<close>), \<open>QemuTools\<close>, \<open>Qemu_Correct\<close> (\<^verbatim>\<open>tools/qemu.py\<close>): QEMU is started only
    when nothing else answers on the daemon's and the QMP port, with the command line of \<open>Cmdline\<close>; a stop has
    asked the guest to flush before it sends anything that ends it, and reports what became of the process.
    \<open>Snapshots\<close> (\<^verbatim>\<open>tools/snapshots.py\<close>): the parser of the monitor's list against a reference on its rows.
  \<^item> \<open>DebugTools\<close> (\<^verbatim>\<open>tools/debug.py\<close>): the debugger's tools over the stub; the backtrace is the chain of
    stack frames in memory.
  \<^item> \<open>PowerTools\<close>, \<open>Power_Correct\<close> (\<^verbatim>\<open>tools/power.py\<close>, \<^verbatim>\<open>transports/p18.py\<close>): the MCU's serial port is
    opened only with confirmation and, on a board that does not answer, only for the commands that are safe
    there; a port that never falls silent keeps the call from returning.
  \<^item> \<open>Discovery\<close>, \<open>Discovery_Correct\<close> (\<^verbatim>\<open>transports/discovery.py\<close>, \<^verbatim>\<open>tools/fleet_discover.py\<close>): what is
    listed comes from a reply with the current nonce, one entry per address and port.
  \<^item> \<open>Utf8\<close>: decoding with replacement, for the texts of the target.
  \<^item> \<open>SandboxText\<close>, \<open>SandboxText_Correct\<close>, \<open>Sandbox\<close>, \<open>ExecTools\<close>, \<open>Sandbox_Correct\<close> (\<^verbatim>\<open>tools/sandbox.py\<close>,
    \<^verbatim>\<open>tools/exec.py\<close>): the command line of a sandboxed run against the shell's reading of it, the trap block
    and the exit codes found in the debug ring, and the cache of probes, which extends the fleet's state to
    \<open>sandbox_state\<close>.
  \<^item> \<open>SysTools\<close>, \<open>Models\<close>, \<open>SysInfo\<close> (\<^verbatim>\<open>tools/sys.py\<close>, \<^verbatim>\<open>debug_task_snapshot\<close>, \<^verbatim>\<open>fleet_snapshot\<close>): the calls
    with decisions of their own, then the plain requests.  Their Pydantic models are data (\<open>kind\<close>, one
    constructor per kind of field) read by one validator, \<open>check_kind\<close>, whose results it accepts unchanged.
  \<^item> \<open>InputTools\<close> (\<^verbatim>\<open>tools/input.py\<close>): every request is within the policy of the target, and
    typing, keys, clicks and drags are sent only when the caller confirmed them.
  \<^item> \<open>TestTools\<close>, \<open>TestTools_Correct\<close> (\<^verbatim>\<open>tools/tests.py\<close>): a passed test is backed by the answer of the target.
  \<^item> \<open>WbTools\<close>, \<open>WbTools_Correct\<close> (\<^verbatim>\<open>tools/wb.py\<close>, \<^verbatim>\<open>tools/events.py\<close>): a screenshot is the file the
    daemon wrote.
  \<^item> \<open>Toml\<close>, \<open>Toml_Correct\<close>, \<open>Wizard\<close>, \<open>Wizard_Correct\<close> (\<^verbatim>\<open>setup_wizard.py\<close>): the writer of the configuration
    file against a reader of the same part of TOML, and the questions of the set-up, whose answers are a list
    of lines; what the file system makes of the write is a field of the state (\<open>saving\<close>).  A run writes the
    file only when it may, and what it writes is read back, unless the write itself fails.
  \<^item> \<open>ServerTools\<close>, \<open>Server\<close>, \<open>Server_Correct\<close> (\<^verbatim>\<open>server.py\<close>): one definition \<open>call_...\<close> for each tool the server
    offers, with the target it resolves and the defaults it fills in; the table of registered tools, the
    dispatchers, the resources, the health check and the choice of mode.  Nothing that asks for a
    confirmation happens without one, and the table agrees with the dispatchers.
  \<^item> \<open>Cli\<close>, \<open>Cli_Correct\<close> (\<^verbatim>\<open>cli.py\<close>): the subcommands and what an exit code of 0 means.
  \<^item> \<open>Doctor\<close>, \<open>Doctor_Correct\<close> (\<^verbatim>\<open>doctor.py\<close>): the checks of a set-up; no failure means that every machine
    answered.
  \<^item> \<open>Kicklayout\<close>, \<open>Machines\<close> (\<^verbatim>\<open>installer/kicklayout.py\<close>, \<^verbatim>\<open>machines.py\<close>, \<^verbatim>\<open>manifest.py\<close>).
  \<^item> \<open>InstallTools\<close>: the operations of \<^verbatim>\<open>tools/installer.py\<close> and \<^verbatim>\<open>installer/_amiga_fs.py\<close> that the steps
    use (directories, mounting, copying, extracting, Kicklayout, dates).
  \<^item> \<open>Sequence\<close> (\<^verbatim>\<open>installer/sequences/_runner.py\<close>, \<^verbatim>\<open>_machine_config.py\<close>): running steps up to the
    first failure.
  \<^item> \<open>InstallSteps\<close>, \<open>InstallComponents\<close>, \<open>InstallSystem\<close> (\<^verbatim>\<open>_steps.py\<close>, \<^verbatim>\<open>_generic.py\<close>): each step with
    its requests in order, what it does when one of them fails and what it returns, and the sequence
    of each machine.
  \<^item> \<open>Installer\<close> (\<^verbatim>\<open>tools/installer.py\<close>): the machine list, the pre-flight check, run, stage and verify.
  \<^item> \<open>InstallSafe\<close>: a run writes only below its destination.  \<open>InstallCorrect\<close>: a run ends, its steps
    are in order, verify says what the target answered.  \<open>InstallFiles\<close>: what becomes of
    \<^verbatim>\<open>S/Network-Startup\<close>.  \<open>Preflight\<close>: the check only looks, and what a good verdict means.

  Parameters.  zlib and SHA-256 are function arguments of the transfer; the properties of the upload
  assume only that inflating a deflated chunk gives it back.  Tool functions run by the fan-out are
  given by their outcomes.  The host's file system is an argument of the installer tools
  (\<open>host_env\<close>), and so is the text of a traceback (\<open>tb\<close>).  What \<^verbatim>\<open>SerialCapture.start\<close> meets when it
  opens the port is its argument \<open>start_env\<close>.

  Termination.  No fuel is used anywhere: loops are structural recursions, functions with a
  termination proof, or least fixed points in \<open>Partial\<close>.  The one loop of an installer run that is
  bounded only by the clock, the poll for the mounted volume, is a least fixed point, and it is proved
  to end under \<open>clock_law\<close>: the clock does not go back and a pause takes its time.  A request is one
  event of the installer, so this is relative to requests that come back; the transport itself gives
  no such promise (\<open>read_response_waits_forever\<close>).

  Targets.  Properties hold for every answer of the target unless they assume one that keeps its
  files: \<open>served\<close> for the transfers, \<open>serving\<close> for the installer.

  Numbers and text.  Python's integers are \<open>int\<close> or \<open>nat\<close>; a float is kept as its decimal text, and
  times as microseconds.  A string is its UTF-8 bytes; lengths that Python counts in characters are
  counted so (\<open>ulen\<close>).

  Further parameters: the time of the last write of a transport (\<open>last_write\<close>), the registry of serial
  captures a power tool looks at, the parser of test outputs, which belongs to another repository
  (\<open>ppf\<close>), the SHA-256 of typed text, and the
  validation of the configuration that the set-up builds (\<open>valid\<close>).

  The server's dispatchers take the tool functions as arguments (\<open>impl\<close>, \<open>direct\<close>): binding a client's
  JSON arguments to a Python signature is the language's and the MCP library's.  The command line takes the
  search of a pattern (\<open>search\<close>), the doctor what the host has (\<open>installation\<close>).

  Not modelled: the MCP library, argparse and what is printed; \<^verbatim>\<open>prompts.py\<close>, whose functions are texts;
  \<^verbatim>\<open>load_config\<close>, which is the TOML and validation libraries; the scripts that exercise a
  live fleet; and the daemon, which is another program in C.
\<close>

end
